(* ===== verification/Prelude.thy ===== *)
theory Prelude
  imports Main
begin

text \<open>
  Shared vocabulary of the development: results of fallible code (a Python exception is the
  left side of a sum), tables of rows with a primary key, JSON-like values, and the few string
  methods the services call.

  A Python \<open>str\<close> is a \<^typ>\<open>string\<close> whose characters are read as the code points U+0000 to
  U+00FF; \<open>strip\<close>, \<open>split\<close> and \<open>lower\<close> are the methods of Python on that range. Prompt texts,
  where the UTF-8 size of any code point matters, are lists of code points (theory PyText).
  A UUID is the natural number of its 128 bits, which is also the order in which a database
  sorts the column.
\<close>

named_theorems result_simps \<open>evaluation of fallible code\<close>
named_theorems table_simps \<open>lookups and updates of database tables\<close>
named_theorems service_defs \<open>definitions of the service operations, unfolded by component proofs\<close>

section \<open>Fallible code\<close>

definition bindE :: "'e + 'a \<Rightarrow> ('a \<Rightarrow> 'e + 'b) \<Rightarrow> 'e + 'b" where
  "bindE m f = (case m of Inl e \<Rightarrow> Inl e | Inr x \<Rightarrow> f x)"

definition require :: "bool \<Rightarrow> 'e \<Rightarrow> 'e + unit" where
  "require b e = (if b then Inr () else Inl e)"

fun mapE :: "('a \<Rightarrow> 'e + 'b) \<Rightarrow> 'a list \<Rightarrow> 'e + 'b list" where
  "mapE f [] = Inr []"
| "mapE f (x # xs) = bindE (f x) (\<lambda>y. bindE (mapE f xs) (\<lambda>ys. Inr (y # ys)))"

lemma bindE_simps [simp, result_simps]:
  "bindE (Inl e) f = Inl e"
  "bindE (Inr x) f = f x"
  by (simp_all add: bindE_def)

lemma bindE_eq_Inr [result_simps]:
  "bindE m f = Inr y \<longleftrightarrow> (\<exists>x. m = Inr x \<and> f x = Inr y)"
  by (cases m) auto

lemma bindE_eq_Inl:
  "bindE m f = Inl e \<longleftrightarrow> m = Inl e \<or> (\<exists>x. m = Inr x \<and> f x = Inl e)"
  by (cases m) auto

lemma require_eq_Inr [simp, result_simps]: "require b e = Inr u \<longleftrightarrow> b"
  by (simp add: require_def)

lemma require_eq_Inl [simp]: "require b e = Inl e' \<longleftrightarrow> \<not> b \<and> e' = e"
  by (auto simp: require_def)

lemma require_simps [simp]: "require True e = Inr ()" "require False e = Inl e"
  by (simp_all add: require_def)

lemma mapE_eq_Inr: "mapE f xs = Inr ys \<longleftrightarrow> list_all2 (\<lambda>x y. f x = Inr y) xs ys"
proof (induction xs arbitrary: ys)
  case Nil
  then show ?case by auto
next
  case (Cons x xs)
  then show ?case by (cases ys) (auto simp: bindE_eq_Inr)
qed

lemma mapE_Inr_map: "(\<And>x. x \<in> set xs \<Longrightarrow> f x = Inr (g x)) \<Longrightarrow> mapE f xs = Inr (map g xs)"
  by (induction xs) auto

section \<open>Tables of rows with a primary key\<close>

type_synonym uuid = nat

definition row_get :: "('r \<Rightarrow> uuid) \<Rightarrow> uuid \<Rightarrow> 'r list \<Rightarrow> 'r option" where
  "row_get key k rows = find (\<lambda>r. key r = k) rows"

definition row_put :: "('r \<Rightarrow> uuid) \<Rightarrow> 'r \<Rightarrow> 'r list \<Rightarrow> 'r list" where
  "row_put key r rows = map (\<lambda>x. if key x = key r then r else x) rows"

lemma row_get_key: "row_get key k rows = Some r \<Longrightarrow> key r = k"
  by (auto simp: row_get_def find_Some_iff)

lemma row_get_mem: "row_get key k rows = Some r \<Longrightarrow> r \<in> set rows"
  by (auto simp: row_get_def find_Some_iff)

lemma row_get_None: "row_get key k rows = None \<longleftrightarrow> k \<notin> key ` set rows"
  by (auto simp: row_get_def find_None_iff)

lemma row_put_keys [simp, table_simps]: "map key (row_put key r rows) = map key rows"
  by (simp add: row_put_def)

lemma length_row_put [simp]: "length (row_put key r rows) = length rows"
  by (simp add: row_put_def)

lemma row_get_put [table_simps]:
  "row_get key k (row_put key r rows) =
     (if k = key r \<and> k \<in> key ` set rows then Some r else row_get key k rows)"
  by (induction rows) (auto simp: row_get_def row_put_def)

lemma find_append:
  "find P (xs @ ys) = (case find P xs of None \<Rightarrow> find P ys | Some r \<Rightarrow> Some r)"
  by (induction xs) auto

lemma row_get_append:
  "row_get key k (xs @ ys) = (case row_get key k xs of None \<Rightarrow> row_get key k ys | Some r \<Rightarrow> Some r)"
  unfolding row_get_def by (rule find_append)

lemma find_key_distinct:
  assumes "distinct (map key rows)" and "r \<in> set rows"
  shows "find (\<lambda>x. key x = key r) rows = Some r"
  using assms by (induction rows) auto

lemma row_get_distinct:
  assumes "distinct (map key rows)" and "r \<in> set rows"
  shows "row_get key (key r) rows = Some r"
  unfolding row_get_def using assms by (rule find_key_distinct)

lemma row_put_mem: "x \<in> set (row_put key r rows) \<Longrightarrow> x = r \<or> (x \<in> set rows \<and> key x \<noteq> key r)"
  by (auto simp: row_put_def split: if_splits)

lemma row_put_all:
  assumes "\<forall>x \<in> set rows. P x" and "P r"
  shows "\<forall>x \<in> set (row_put key r rows). P x"
  using assms by (auto simp: row_put_def)

text \<open>A field that no update changes keeps its list of values.\<close>

lemma row_put_map_same:
  assumes "\<And>x. x \<in> set rows \<Longrightarrow> key x = key r \<Longrightarrow> f r = f x"
  shows "map f (row_put key r rows) = map f rows"
  using assms by (auto simp: row_put_def)

lemma row_put_self:
  assumes "distinct (map key rows)" and "row_get key (key r) rows = Some r"
  shows "row_put key r rows = rows"
  using assms unfolding row_put_def
  by (intro map_idI) (metis option.inject row_get_distinct)

text \<open>A sum over a table after one row was replaced.\<close>

lemma sum_list_row_put:
  fixes f :: "'r \<Rightarrow> int"
  assumes "distinct (map key rows)" and "row_get key (key r) rows = Some old"
  shows "(\<Sum>x\<leftarrow>row_put key r rows. f x) = (\<Sum>x\<leftarrow>rows. f x) - f old + f r"
  using assms
proof (induction rows)
  case Nil
  then show ?case by (simp add: row_get_def)
next
  case (Cons x rows)
  show ?case
  proof (cases "key x = key r")
    case True
    with Cons.prems have "old = x" by (simp add: row_get_def)
    moreover from True Cons.prems have "key r \<notin> key ` set rows" by auto
    then have "row_put key r rows = rows"
      unfolding row_put_def by (intro map_idI) (metis imageI)
    ultimately show ?thesis using True by (simp add: row_put_def)
  next
    case False
    with Cons.prems have "row_get key (key r) rows = Some old" by (simp add: row_get_def)
    with Cons.IH Cons.prems have
      "(\<Sum>x\<leftarrow>row_put key r rows. f x) = (\<Sum>x\<leftarrow>rows. f x) - f old + f r" by simp
    with False show ?thesis by (simp add: row_put_def)
  qed
qed

text \<open>A loop that writes one row after the other back, each changed by \<open>f\<close>.\<close>

lemma fold_row_put:
  assumes "\<And>x. key (f x) = key x" and "distinct (map key rs)"
  shows "fold (\<lambda>r. row_put key (f r)) rs rows
       = map (\<lambda>x. case row_get key (key x) rs of None \<Rightarrow> x | Some r \<Rightarrow> f r) rows"
  using assms(2)
proof (induction rs arbitrary: rows)
  case Nil
  then show ?case by (simp add: row_get_def)
next
  case (Cons r rs)
  then have "row_get key (key r) rs = None" by (auto simp: row_get_None)
  with Cons show ?case by (auto simp: row_put_def row_get_def assms(1))
qed

lemma fold_row_put_filter:
  assumes key: "\<And>x. key (f x) = key x" and dist: "distinct (map key rows)"
    and rs: "set rs = {x \<in> set rows. P x}" "distinct rs"
  shows "fold (\<lambda>r. row_put key (f r)) rs rows = map (\<lambda>x. if P x then f x else x) rows"
proof -
  have inj: "inj_on key (set rows)" using dist by (simp add: distinct_map)
  then have d: "distinct (map key rs)"
    using rs by (auto simp: distinct_map intro: inj_on_subset)
  have get: "row_get key (key x) rs = (if P x then Some x else None)" if "x \<in> set rows" for x
  proof (cases "P x")
    case True
    with that rs have "x \<in> set rs" by simp
    with True show ?thesis using row_get_distinct [OF d] by simp
  next
    case False
    with that rs inj have "key x \<notin> key ` set rs" by (auto dest: inj_onD)
    with False show ?thesis by (simp add: row_get_None)
  qed
  show ?thesis unfolding fold_row_put [OF key d] by (auto simp: get)
qed

lemma sum_list_filter_if:
  fixes f :: "'r \<Rightarrow> int"
  shows "(\<Sum>x\<leftarrow>filter P xs. f x) = (\<Sum>x\<leftarrow>xs. if P x then f x else 0)"
  by (induction xs) auto

lemma sum_list_nonneg_filter_mono:
  fixes f :: "'r \<Rightarrow> int"
  assumes "\<And>x. x \<in> set xs \<Longrightarrow> 0 \<le> f x" and "\<And>x. x \<in> set xs \<Longrightarrow> P x \<Longrightarrow> Q x"
  shows "(\<Sum>x\<leftarrow>filter P xs. f x) \<le> (\<Sum>x\<leftarrow>filter Q xs. f x)"
  using assms by (induction xs) (auto simp: add_increasing)

section \<open>The table interface\<close>

text \<open>
  What a component relies on when it reads and writes one table of the database: the rows can be
  replaced without losing them, and a row is found by its primary key. The laws of lookup after
  update are proved once here and used through the interpretations of theory Store.
\<close>

locale db_table =
  fixes rows :: "'d \<Rightarrow> 'r list"
    and set_rows :: "'r list \<Rightarrow> 'd \<Rightarrow> 'd"
    and key :: "'r \<Rightarrow> uuid"
  assumes rows_set_rows: "rows (set_rows rs d) = rs"
begin

lemma get_after_put:
  assumes "row_get key (key r) (rows d) = Some old"
  shows "row_get key (key r) (rows (set_rows (row_put key r (rows d)) d)) = Some r"
  using assms row_get_None [of key "key r" "rows d"]
  by (auto simp: rows_set_rows row_get_put)

lemma get_other_after_put:
  assumes "k \<noteq> key r"
  shows "row_get key k (rows (set_rows (row_put key r (rows d)) d)) = row_get key k (rows d)"
  using assms by (simp add: rows_set_rows row_get_put)

lemma keys_after_put: "map key (rows (set_rows (row_put key r (rows d)) d)) = map key (rows d)"
  by (simp add: rows_set_rows)

lemma all_after_put:
  assumes "\<forall>x \<in> set (rows d). P x" and "P r"
  shows "\<forall>x \<in> set (rows (set_rows (row_put key r (rows d)) d)). P x"
  using row_put_all [OF assms] by (simp add: rows_set_rows)

lemma get_after_insert:
  assumes "row_get key (key r) (rows d) = None"
  shows "row_get key (key r) (rows (set_rows (rows d @ [r]) d)) = Some r"
  using assms by (simp add: rows_set_rows row_get_append) (simp add: row_get_def)

end

section \<open>Reachable states\<close>

text \<open>
  An invariant of a transition system: it holds at the start and every step keeps it. The
  components interpret this interface with their own step relation.
\<close>

locale invariant_system =
  fixes step :: "'s \<Rightarrow> 's \<Rightarrow> bool"
    and inv :: "'s \<Rightarrow> bool"
  assumes step_keeps: "step s t \<Longrightarrow> inv s \<Longrightarrow> inv t"
begin

lemma reachable_keeps: "step\<^sup>*\<^sup>* s t \<Longrightarrow> inv s \<Longrightarrow> inv t"
proof (induction rule: rtranclp_induct)
  case base
  then show ?case by simp
next
  case (step u t)
  then show ?case by (blast intro: step_keeps)
qed

end

end
