(* ===== verification/Enums.thy ===== *)
theory Enums
  imports Prelude
begin

text \<open>
  The enumerations of src/gen_automation/domain/enums.py that the modelled components use, with
  the source's members in the source's order; a prefix tells apart members of the same name. The
  string value of a member, where audit details carry it, is given by a \<open>_value\<close> function.
\<close>

datatype ReleasePhase =
    PhaseDRAFT | PhaseVALIDATING | PhaseREADY | PhaseGENERATING | PhaseREVIEWING | PhaseAPPROVED
  | PhaseRENDERING | PhaseREADY_TO_PUBLISH | PhasePUBLISHING | PhasePUBLISHED | PhasePAUSED
  | PhaseCANCELLED

datatype ResourceHealth = HealthHEALTHY | HealthWARNING | HealthBLOCKED

datatype OutboxStatus = OutboxPENDING | OutboxPROCESSING | OutboxSUCCEEDED | OutboxDEAD_LETTER

datatype GenerationState =
    JobQUEUED | JobCLAIMED | JobSUBMITTING | JobRUNNING | JobCOLLECTING | JobVERIFYING
  | JobSUCCEEDED | JobUNKNOWN | JobRETRY_WAIT | JobFAILED | JobDEAD_LETTER
  | JobCANCEL_REQUESTED | JobCANCELLED

datatype GenerationAttemptState =
    AttemptCREATED | AttemptSUBMITTING | AttemptSUBMITTED | AttemptRUNNING | AttemptSUCCEEDED
  | AttemptFAILED | AttemptUNKNOWN | AttemptCANCEL_REQUESTED | AttemptCANCELLED

datatype AssetKind = AssetRAW_MASTER | AssetREVIEW_PROXY | AssetDERIVATIVE | AssetCONTACT_SHEET | AssetARCHIVE

datatype SaladDeploymentState =
    DeploymentPLANNED | DeploymentPROVISIONING | DeploymentACTIVE | DeploymentDEGRADED
  | DeploymentDRAINING | DeploymentSTOPPED | DeploymentUNKNOWN | DeploymentFAILED

datatype SaladDeploymentPurpose = PurposeIMAGE | PurposeVIDEO

datatype DesiredDeploymentState = DesiredACTIVE | DesiredSTOPPED

datatype ExperimentWarmLeaseState =
    LeaseSTARTING | LeaseACTIVE | LeaseENDING | LeaseENDED | LeaseEXPIRED | LeaseFAILED

datatype BudgetState = BudgetOPEN | BudgetBLOCKED

datatype SpendEntryType = SpendUSAGE | SpendADJUSTMENT

fun GenerationState_value :: "GenerationState \<Rightarrow> string" where
  "GenerationState_value JobQUEUED = ''queued''"
| "GenerationState_value JobCLAIMED = ''claimed''"
| "GenerationState_value JobSUBMITTING = ''submitting''"
| "GenerationState_value JobRUNNING = ''running''"
| "GenerationState_value JobCOLLECTING = ''collecting''"
| "GenerationState_value JobVERIFYING = ''verifying''"
| "GenerationState_value JobSUCCEEDED = ''succeeded''"
| "GenerationState_value JobUNKNOWN = ''unknown''"
| "GenerationState_value JobRETRY_WAIT = ''retry_wait''"
| "GenerationState_value JobFAILED = ''failed''"
| "GenerationState_value JobDEAD_LETTER = ''dead_letter''"
| "GenerationState_value JobCANCEL_REQUESTED = ''cancel_requested''"
| "GenerationState_value JobCANCELLED = ''cancelled''"

fun SpendEntryType_value :: "SpendEntryType \<Rightarrow> string" where
  "SpendEntryType_value SpendUSAGE = ''usage''"
| "SpendEntryType_value SpendADJUSTMENT = ''adjustment''"

end
