(* ===== verification/PyValues.thy ===== *)
theory PyValues
  imports Prelude "HOL-Library.Multiset" "HOL-Library.Char_ord" "HOL-Library.List_Lexorder"
begin

text \<open>
  The Python values the services look into: strings with the methods \<open>strip\<close>, \<open>split\<close>, \<open>lower\<close>,
  JSON-like values as the columns of type JSON hold them, decimal numbers, and the textual form
  of a UUID. \<open>canonical_json_bytes\<close> of src/gen_automation/domain/canonical.py is here as well.
\<close>

section \<open>Characters and strings\<close>

definition ch :: "char \<Rightarrow> nat" where
  "ch c = of_char c"

text \<open>\<open>str.isspace\<close> on U+0000 to U+00FF, the characters \<open>strip()\<close> and \<open>split()\<close> remove.\<close>

definition py_isspace :: "char \<Rightarrow> bool" where
  "py_isspace c \<longleftrightarrow> (9 \<le> ch c \<and> ch c \<le> 13) \<or> (28 \<le> ch c \<and> ch c \<le> 32) \<or> ch c = 133 \<or> ch c = 160"

definition py_lstrip :: "string \<Rightarrow> string" where
  "py_lstrip s = dropWhile py_isspace s"

definition py_strip :: "string \<Rightarrow> string" where
  "py_strip s = rev (py_lstrip (rev (py_lstrip s)))"

text \<open>\<open>str.lower\<close> on U+0000 to U+00FF.\<close>

definition py_lower_char :: "char \<Rightarrow> char" where
  "py_lower_char c =
     (if (65 \<le> ch c \<and> ch c \<le> 90) \<or> (192 \<le> ch c \<and> ch c \<le> 222 \<and> ch c \<noteq> 215)
      then char_of (ch c + 32) else c)"

definition py_lower :: "string \<Rightarrow> string" where
  "py_lower s = map py_lower_char s"

text \<open>\<open>" ".join(value.split())\<close>: the words of a string, one blank between them.\<close>

fun py_split_acc :: "string \<Rightarrow> string \<Rightarrow> string list" where
  "py_split_acc [] w = (if w = [] then [] else [rev w])"
| "py_split_acc (c # s) w =
     (if py_isspace c then (if w = [] then py_split_acc s [] else rev w # py_split_acc s [])
      else py_split_acc s (c # w))"

definition py_split :: "string \<Rightarrow> string list" where
  "py_split s = py_split_acc s []"

fun py_join :: "string \<Rightarrow> string list \<Rightarrow> string" where
  "py_join sep [] = []"
| "py_join sep [w] = w"
| "py_join sep (w # ws) = w @ sep @ py_join sep ws"

text \<open>\<open>marker in text\<close>.\<close>

fun py_contains :: "string \<Rightarrow> string \<Rightarrow> bool" where
  "py_contains marker [] \<longleftrightarrow> marker = []"
| "py_contains marker (c # cs) \<longleftrightarrow> take (length marker) (c # cs) = marker \<or> py_contains marker cs"

definition is_lower_alpha :: "char \<Rightarrow> bool" where
  "is_lower_alpha c \<longleftrightarrow> 97 \<le> ch c \<and> ch c \<le> 122"

definition is_upper_alpha :: "char \<Rightarrow> bool" where
  "is_upper_alpha c \<longleftrightarrow> 65 \<le> ch c \<and> ch c \<le> 90"

definition is_digit :: "char \<Rightarrow> bool" where
  "is_digit c \<longleftrightarrow> 48 \<le> ch c \<and> ch c \<le> 57"

definition is_lower_hex :: "char \<Rightarrow> bool" where
  "is_lower_hex c \<longleftrightarrow> is_digit c \<or> (97 \<le> ch c \<and> ch c \<le> 102)"

text \<open>The pattern of a SHA-256 digest in lower-case hexadecimal.\<close>

definition sha256_pattern :: "string \<Rightarrow> bool" where
  "sha256_pattern s \<longleftrightarrow> length s = 64 \<and> list_all is_lower_hex s"

lemma py_lstrip_no_space: "py_lstrip s \<noteq> [] \<Longrightarrow> \<not> py_isspace (hd (py_lstrip s))"
  unfolding py_lstrip_def by (rule hd_dropWhile)

lemma py_lstrip_id: "s = [] \<or> \<not> py_isspace (hd s) \<Longrightarrow> py_lstrip s = s"
  unfolding py_lstrip_def by (cases s) auto

lemma rev_dropWhile_rev_hd:
  "rev (dropWhile P (rev xs)) \<noteq> [] \<Longrightarrow> hd (rev (dropWhile P (rev xs))) = hd xs"
proof (induction xs rule: rev_induct)
  case Nil
  then show ?case by simp
next
  case (snoc x xs)
  then show ?case by (cases xs) (auto split: if_splits)
qed

lemma py_strip_idem: "py_strip (py_strip s) = py_strip s"
proof -
  let ?l = "py_lstrip s"
  let ?t = "rev (py_lstrip (rev ?l))"
  have l: "?l \<noteq> []" if "?t \<noteq> []"
    using that by (metis dropWhile.simps(1) py_lstrip_def rev.simps(1))
  have hd: "hd ?t = hd ?l" if "?t \<noteq> []"
    using rev_dropWhile_rev_hd [of py_isspace ?l] that unfolding py_lstrip_def by blast
  have t: "py_lstrip ?t = ?t"
    using hd l py_lstrip_no_space [of s] by (intro py_lstrip_id) metis
  have "py_lstrip (rev ?t) = rev ?t"
    by (simp add: py_lstrip_def dropWhile_idem)
  with t show ?thesis by (simp add: py_strip_def)
qed

lemma length_py_strip: "length (py_strip s) \<le> length s"
  unfolding py_strip_def py_lstrip_def
  by (metis length_dropWhile_le length_rev order_trans)

section \<open>Decimal digits\<close>

function dec_digits :: "int \<Rightarrow> string" where
  "dec_digits i =
     (if i < 10 then [char_of (nat (48 + i))] else dec_digits (i div 10) @ [char_of (nat (48 + i mod 10))])"
  by pat_completeness auto
termination by (relation "measure nat") auto

declare dec_digits.simps [simp del]

text \<open>The digits of a number are digits, and reading them gives the number back.\<close>

definition digits_value :: "string \<Rightarrow> int" where
  "digits_value s = foldl (\<lambda>a c. a * 10 + (int (ch c) - 48)) 0 s"

lemma ch_digit: "0 \<le> i \<Longrightarrow> i < 10 \<Longrightarrow> int (ch (char_of (nat (48 + i)))) = 48 + i"
proof -
  assume "0 \<le> i" "i < 10"
  then have "nat (48 + i) < 256" by simp
  then have "ch (char_of (nat (48 + i))) = nat (48 + i)" by (simp add: ch_def)
  then show ?thesis using \<open>0 \<le> i\<close> by simp
qed

lemma dec_digits_properties:
  "0 \<le> i \<Longrightarrow> list_all is_digit (dec_digits i) \<and> dec_digits i \<noteq> [] \<and> digits_value (dec_digits i) = i"
proof (induction i rule: dec_digits.induct)
  case (1 i)
  show ?case
  proof (cases "i < 10")
    case True
    with 1(2) ch_digit [of i] show ?thesis
      by (simp add: dec_digits.simps [of i] digits_value_def is_digit_def)
  next
    case False
    with 1 have ih: "list_all is_digit (dec_digits (i div 10))" "digits_value (dec_digits (i div 10)) = i div 10"
      by auto
    have last_digit: "int (ch (char_of (nat (48 + i mod 10)))) = 48 + i mod 10" by (rule ch_digit) simp_all
    moreover have "0 \<le> i mod 10" "i mod 10 < 10" by simp_all
    ultimately have "is_digit (char_of (nat (48 + i mod 10)))" unfolding is_digit_def by linarith
    then show ?thesis
      using False ih last_digit by (simp add: dec_digits.simps [of i] digits_value_def)
  qed
qed

lemma dec_digits_lower: "0 < i \<Longrightarrow> 10 ^ (length (dec_digits i) - 1) \<le> i"
proof (induction i rule: dec_digits.induct)
  case (1 i)
  show ?case
  proof (cases "i < 10")
    case True
    then show ?thesis using 1 by (subst dec_digits.simps) simp
  next
    case False
    then have ih: "10 ^ (length (dec_digits (i div 10)) - 1) \<le> i div 10" using 1 by simp
    have "0 < length (dec_digits (i div 10))" by (subst dec_digits.simps) simp
    then have "(10::int) ^ length (dec_digits (i div 10)) = 10 * 10 ^ (length (dec_digits (i div 10)) - 1)"
      by (cases "length (dec_digits (i div 10))") simp_all
    also have "\<dots> \<le> 10 * (i div 10)" using ih by simp
    also have "\<dots> \<le> i" by simp
    finally show ?thesis using False by (subst dec_digits.simps) simp
  qed
qed

lemma length_dec_digits: "0 \<le> i \<Longrightarrow> i < 10 ^ n \<Longrightarrow> 0 < n \<Longrightarrow> length (dec_digits i) \<le> n"
proof (cases "i = 0")
  case True
  then show "0 < n \<Longrightarrow> length (dec_digits i) \<le> n" by (simp add: dec_digits.simps)
next
  case False
  assume i: "0 \<le> i" "i < 10 ^ n" "0 < n"
  then have low: "10 ^ (length (dec_digits i) - 1) \<le> i" using False by (intro dec_digits_lower) simp
  have "\<not> n < length (dec_digits i)"
  proof
    assume "n < length (dec_digits i)"
    then have "(10::int) ^ n \<le> 10 ^ (length (dec_digits i) - 1)" by (intro power_increasing) auto
    with low i(2) show False by linarith
  qed
  then show ?thesis by simp
qed

definition int_digits :: "int \<Rightarrow> string" where
  "int_digits i = (if i < 0 then ''-'' @ dec_digits (- i) else dec_digits i)"

fun hex_digits :: "nat \<Rightarrow> nat \<Rightarrow> string" where
  "hex_digits 0 n = []"
| "hex_digits (Suc w) n =
     hex_digits w (n div 16) @ [char_of (if n mod 16 < 10 then 48 + n mod 16 else 87 + n mod 16)]"

lemma length_hex_digits [simp]: "length (hex_digits w n) = w"
  by (induction w arbitrary: n) auto

text \<open>\<open>str(uuid)\<close>: 32 lower-case hexadecimal digits in groups of 8-4-4-4-12.\<close>

definition uuid_str :: "uuid \<Rightarrow> string" where
  "uuid_str u = (let h = hex_digits 32 u in
     take 8 h @ ''-'' @ take 4 (drop 8 h) @ ''-'' @ take 4 (drop 12 h) @ ''-'' @
     take 4 (drop 16 h) @ ''-'' @ drop 20 h)"

lemma length_uuid_str: "length (uuid_str u) = 36"
  by (simp add: uuid_str_def Let_def)

section \<open>JSON-like values\<close>

datatype pyval =
    PNone
  | PBool bool
  | PInt int
  | PStr string
  | PList "pyval list"
  | PDict "(string \<times> pyval) list"

text \<open>\<open>dict.get(key)\<close> on a JSON object; a missing key is \<open>None\<close>.\<close>

definition py_get :: "(string \<times> pyval) list \<Rightarrow> string \<Rightarrow> pyval" where
  "py_get d k = (case map_of d k of None \<Rightarrow> PNone | Some v \<Rightarrow> v)"

text \<open>
  Equality of Python: booleans are the integers 0 and 1, lists are compared by position and
  dictionaries by key, whatever the order in which the keys were inserted.
\<close>

fun py_num :: "pyval \<Rightarrow> int option" where
  "py_num (PBool b) = Some (if b then 1 else 0)"
| "py_num (PInt i) = Some i"
| "py_num _ = None"

fun py_eq :: "pyval \<Rightarrow> pyval \<Rightarrow> bool" where
  "py_eq PNone w = (w = PNone)"
| "py_eq (PStr s) w = (w = PStr s)"
| "py_eq (PList xs) w = (case w of PList ys \<Rightarrow> list_all2 py_eq xs ys | _ \<Rightarrow> False)"
| "py_eq (PDict xs) w =
     (case w of
        PDict ys \<Rightarrow> length xs = length ys \<and>
          list_all (\<lambda>(k, v). case map_of ys k of None \<Rightarrow> False | Some u \<Rightarrow> py_eq v u) xs
      | _ \<Rightarrow> False)"
| "py_eq v w = (py_num v = py_num w)"

text \<open>A value as JSON decodes it: no key occurs twice in an object.\<close>

fun well_keyed :: "pyval \<Rightarrow> bool" where
  "well_keyed (PList xs) = list_all well_keyed xs"
| "well_keyed (PDict xs) = (distinct (map fst xs) \<and> list_all (\<lambda>(k, v). well_keyed v) xs)"
| "well_keyed _ = True"

lemma py_eq_refl: "well_keyed v \<Longrightarrow> py_eq v v"
proof (induction v rule: well_keyed.induct)
  case (1 xs)
  then show ?case by (auto simp: list_all_iff list_all2_same)
next
  case (2 xs)
  then show ?case by (auto simp: list_all_iff)
qed auto

section \<open>Canonical JSON\<close>

text \<open>
  \<open>json.dumps(value, ensure_ascii=False, allow_nan=False, sort_keys=True, separators=(",", ":"))\<close>
  as text; the encoding to UTF-8 is injective and is left to the digest function.
\<close>

definition json_char :: "char \<Rightarrow> string" where
  "json_char c =
     (if c = CHR 0x22 then [CHR 0x5C, CHR 0x22]
      else if c = CHR 0x5C then [CHR 0x5C, CHR 0x5C]
      else if ch c = 10 then CHR 0x5C # ''n''
      else if ch c = 13 then CHR 0x5C # ''r''
      else if ch c = 9 then CHR 0x5C # ''t''
      else if ch c = 8 then CHR 0x5C # ''b''
      else if ch c = 12 then CHR 0x5C # ''f''
      else if ch c < 32 then CHR 0x5C # ''u'' @ hex_digits 4 (ch c)
      else [c])"

definition json_string :: "string \<Rightarrow> string" where
  "json_string s = CHR 0x22 # concat (map json_char s) @ [CHR 0x22]"

fun canonical_json :: "pyval \<Rightarrow> string" where
  "canonical_json PNone = ''null''"
| "canonical_json (PBool b) = (if b then ''true'' else ''false'')"
| "canonical_json (PInt i) = int_digits i"
| "canonical_json (PStr s) = json_string s"
| "canonical_json (PList xs) = ''['' @ py_join '','' (map canonical_json xs) @ '']''"
| "canonical_json (PDict xs) =
     ''{'' @ py_join '','' (map snd (sort_key fst
        (map (\<lambda>(k, v). (k, json_string k @ '':'' @ canonical_json v)) xs))) @ ''}''"

lemma sort_key_distinct_unique:
  assumes m: "mset zs = mset ws" and dist: "distinct (map f zs)"
  shows "sort_key f zs = sort_key f ws"
proof (rule map_sorted_distinct_set_unique [where f = f])
  have "mset (map f (sort_key f zs)) = mset (map f zs)" by simp
  then have d: "distinct (map f (sort_key f zs))" using dist by (metis mset_eq_imp_distinct_iff)
  show eq: "set (sort_key f zs) = set (sort_key f ws)" using mset_eq_setD [OF m] by simp
  show "inj_on f (set (sort_key f zs) \<union> set (sort_key f ws))"
    using d by (simp only: eq Un_absorb distinct_map)
  show "distinct (map f (sort_key f zs))" by (rule d)
  have "mset (map f (sort_key f ws)) = mset (map f (sort_key f zs))" using m by simp
  then show "distinct (map f (sort_key f ws))" using d by (metis mset_eq_imp_distinct_iff)
qed simp_all

text \<open>The order in which a dictionary was filled does not change its canonical form.\<close>

lemma canonical_json_order:
  assumes perm: "mset xs = mset ys" and dist: "distinct (map fst xs)"
  shows "canonical_json (PDict xs) = canonical_json (PDict ys)"
proof -
  let ?f = "\<lambda>(k, v). (k, json_string k @ '':'' @ canonical_json v)"
  have "map fst (map ?f xs) = map fst xs" by (induction xs) auto
  then have d: "distinct (map fst (map ?f xs))" using dist by (simp only:)
  have "mset (map ?f xs) = mset (map ?f ys)" by (simp only: mset_map perm)
  from sort_key_distinct_unique [OF this d] show ?thesis by simp
qed

end
