(* ===== verification/PyTime.thy ===== *)
theory PyTime
  imports PyValues
begin

text \<open>
  \<open>datetime\<close> as the services use it. An instant is the number of microseconds since
  0001-01-01T00:00Z (the proleptic Gregorian ordinal of Python, times a day); a value of type
  \<open>datetime\<close> is naive or aware. The calendar functions are those of Python's datetime module; the
  upper end of its range (year 9999) is not modelled.
\<close>

type_synonym instant = int

datatype pydatetime = Naive instant | Aware instant

abbreviation us_per_second :: int where "us_per_second \<equiv> 1000000"
abbreviation us_per_day :: int where "us_per_day \<equiv> 86400000000"

section \<open>Calendar\<close>

definition days_before_year :: "int \<Rightarrow> int" where
  "days_before_year year = (let y = year - 1 in y * 365 + y div 4 - y div 100 + y div 400)"

definition is_leap :: "int \<Rightarrow> bool" where
  "is_leap year \<longleftrightarrow> year mod 4 = 0 \<and> (year mod 100 \<noteq> 0 \<or> year mod 400 = 0)"

definition days_in_month :: "int \<Rightarrow> int \<Rightarrow> int" where
  "days_in_month year month =
     (if month = 2 then (if is_leap year then 29 else 28)
      else if month = 4 \<or> month = 6 \<or> month = 9 \<or> month = 11 then 30 else 31)"

definition month_table :: "int \<Rightarrow> int" where
  "month_table month =
     (if month = 1 then 0 else if month = 2 then 31 else if month = 3 then 59
      else if month = 4 then 90 else if month = 5 then 120 else if month = 6 then 151
      else if month = 7 then 181 else if month = 8 then 212 else if month = 9 then 243
      else if month = 10 then 273 else if month = 11 then 304 else 334)"

definition days_before_month :: "int \<Rightarrow> int \<Rightarrow> int" where
  "days_before_month year month =
     month_table month + (if 2 < month \<and> is_leap year then 1 else 0)"

definition ymd2ord :: "int \<Rightarrow> int \<Rightarrow> int \<Rightarrow> int" where
  "ymd2ord year month day = days_before_year year + days_before_month year month + day"

text \<open>The month that holds day \<open>k\<close> (from 0) of a year.\<close>

definition month_of_yday :: "int \<Rightarrow> int \<Rightarrow> int" where
  "month_of_yday year k =
     (let before = days_before_month year in
      if before 12 \<le> k then 12 else if before 11 \<le> k then 11 else if before 10 \<le> k then 10
      else if before 9 \<le> k then 9 else if before 8 \<le> k then 8 else if before 7 \<le> k then 7
      else if before 6 \<le> k then 6 else if before 5 \<le> k then 5 else if before 4 \<le> k then 4
      else if before 3 \<le> k then 3 else if before 2 \<le> k then 2 else 1)"

definition ord2ymd :: "int \<Rightarrow> int \<times> int \<times> int" where
  "ord2ymd ord =
     (let n = ord - 1;
          n400 = n div 146097; n = n mod 146097;
          n100 = n div 36524; n = n mod 36524;
          n4 = n div 1461; n = n mod 1461;
          n1 = n div 365; n = n mod 365;
          year = 400 * n400 + 100 * n100 + 4 * n4 + n1 + 1
      in if n1 = 4 \<or> n100 = 4 then (year - 1, 12, 31)
         else let month = month_of_yday year n
              in (year, month, n - days_before_month year month + 1))"

section \<open>Day and month windows\<close>

definition day_start_of :: "instant \<Rightarrow> instant" where
  "day_start_of t = t - t mod us_per_day"

definition ord_of :: "instant \<Rightarrow> int" where
  "ord_of t = t div us_per_day + 1"

definition instant_of_ord :: "int \<Rightarrow> instant" where
  "instant_of_ord ord = (ord - 1) * us_per_day"

definition month_start_of :: "instant \<Rightarrow> instant" where
  "month_start_of t = (case ord2ymd (ord_of t) of (year, month, day) \<Rightarrow> instant_of_ord (ymd2ord year month 1))"

definition month_end_of :: "instant \<Rightarrow> instant" where
  "month_end_of t = (case ord2ymd (ord_of t) of (year, month, day) \<Rightarrow>
     instant_of_ord (if month = 12 then ymd2ord (year + 1) 1 1 else ymd2ord year (month + 1) 1))"

section \<open>The calendar functions are inverse\<close>

lemma int_div_unique: "x = k * q + r \<Longrightarrow> 0 \<le> r \<Longrightarrow> r < k \<Longrightarrow> x div k = (q::int)"
  by (metis add.commute int_div_pos_eq mult.commute)

lemma int_mod_unique: "x = k * q + r \<Longrightarrow> 0 \<le> r \<Longrightarrow> r < k \<Longrightarrow> x mod k = (r::int)"
  by (metis int_mod_pos_eq)

lemma days_before_year_split:
  assumes "0 \<le> b" "b \<le> 3" "0 \<le> c" "c \<le> 24" "0 \<le> d" "d \<le> 3"
  shows "days_before_year (400 * a + 100 * b + 4 * c + d + 1) = 146097 * a + 36524 * b + 1461 * c + 365 * d"
proof -
  let ?y = "400 * a + 100 * b + 4 * c + d"
  have "?y div 4 = 100 * a + 25 * b + c"
    by (rule int_div_unique [where r = d]) (use assms in auto)
  moreover have "?y div 100 = 4 * a + b"
    by (rule int_div_unique [where r = "4 * c + d"]) (use assms in auto)
  moreover have "?y div 400 = a"
    by (rule int_div_unique [where r = "100 * b + 4 * c + d"]) (use assms in auto)
  ultimately show ?thesis by (simp add: days_before_year_def)
qed

lemma month_of_yday_cases:
  assumes "0 \<le> k" and "k < 365 + (if is_leap y then 1 else 0)" and "m = month_of_yday y k"
  shows "1 \<le> m \<and> m \<le> 12 \<and> days_before_month y m \<le> k \<and> k < days_before_month y m + days_in_month y m"
  using assms
  by (auto simp: month_of_yday_def Let_def days_before_month_def month_table_def days_in_month_def
      split: if_splits)

lemma leap_year_end:
  assumes "0 \<le> b" "b \<le> 3" "0 \<le> c" "c \<le> 23"
  shows "is_leap (400 * a + 100 * b + 4 * c + 4)"
proof -
  let ?y = "400 * a + 100 * b + 4 * c + 4"
  have "?y mod 4 = 0" by presburger
  moreover have "?y mod 100 = 4 * c + 4"
    by (rule int_mod_unique [where q = "4 * a + b"]) (use assms in auto)
  ultimately show ?thesis using assms by (simp add: is_leap_def)
qed

lemma div_pred:
  fixes y k :: int
  assumes "0 < k"
  shows "y div k = (y - 1) div k + (if y mod k = 0 then 1 else 0)"
proof (cases "y mod k = 0")
  case True
  then have "y = k * (y div k)" by (metis add.right_neutral mult_div_mod_eq)
  then have "y - 1 = k * (y div k - 1) + (k - 1)" by (simp add: right_diff_distrib)
  then have "(y - 1) div k = y div k - 1" by (rule int_div_unique) (use assms in auto)
  with True show ?thesis by simp
next
  case False
  have "0 \<le> y mod k" "y mod k < k" using assms by simp_all
  with False have r: "0 \<le> y mod k - 1" "y mod k - 1 < k" by linarith+
  have "y - 1 = k * (y div k) + (y mod k - 1)" by (simp add: mult_div_mod_eq algebra_simps)
  then have "(y - 1) div k = y div k" by (rule int_div_unique) (use r in auto)
  with False show ?thesis by simp
qed

lemma mod_zero_factor: "(y::int) mod (k * l) = 0 \<Longrightarrow> y mod k = 0"
  by (auto simp: mod_eq_0_iff_dvd dest: dvd_mult_left)

lemma leap_step:
  fixes X Y y :: int
  assumes "Y = y * 365 + a' - b' + c'" and "X = (y - 1) * 365 + a - b + c"
    and "a' = a + (if p then 1 else 0)" and "b' = b + (if q then 1 else 0)" and "c' = c + (if r then 1 else 0)"
    and "r \<Longrightarrow> q" and "q \<Longrightarrow> p"
  shows "Y = X + (if p \<and> (\<not> q \<or> r) then 366 else 365)"
  using assms by (cases p; cases q; cases r) auto

lemma days_before_year_Suc:
  "days_before_year (y + 1) = days_before_year y + (if is_leap y then 366 else 365)"
  unfolding is_leap_def
proof (rule leap_step)
  show "days_before_year (y + 1) = y * 365 + y div 4 - y div 100 + y div 400"
    and "days_before_year y = (y - 1) * 365 + (y - 1) div 4 - (y - 1) div 100 + (y - 1) div 400"
    by (simp_all only: days_before_year_def Let_def add_diff_cancel_right')
  show "y mod 400 = 0 \<Longrightarrow> y mod 100 = 0" "y mod 100 = 0 \<Longrightarrow> y mod 4 = 0"
    using mod_zero_factor [of y 100 4] mod_zero_factor [of y 4 25] by simp_all
qed (rule div_pred; simp)+

theorem ord2ymd_correct:
  assumes "ord2ymd ord = (y, m, d)"
  shows "ymd2ord y m d = ord \<and> 1 \<le> m \<and> m \<le> 12 \<and> 1 \<le> d \<and> d \<le> days_in_month y m"
proof -
  define n where "n = ord - 1"
  define a r1 where "a = n div 146097" and "r1 = n mod 146097"
  define b r2 where "b = r1 div 36524" and "r2 = r1 mod 36524"
  define c r3 where "c = r2 div 1461" and "r3 = r2 mod 1461"
  define e r4 where "e = r3 div 365" and "r4 = r3 mod 365"
  note defs = a_def r1_def b_def r2_def c_def r3_def e_def r4_def n_def
  have n: "n = 146097 * a + r1" "0 \<le> r1" "r1 < 146097" by (simp_all add: a_def r1_def)
  have r1: "r1 = 36524 * b + r2" "0 \<le> r2" "r2 < 36524" by (simp_all add: b_def r2_def)
  have r2: "r2 = 1461 * c + r3" "0 \<le> r3" "r3 < 1461" by (simp_all add: c_def r3_def)
  have r3: "r3 = 365 * e + r4" "0 \<le> r4" "r4 < 365" by (simp_all add: e_def r4_def)
  have bnds: "0 \<le> b" "b \<le> 4" "0 \<le> c" "c \<le> 24" "0 \<le> e" "e \<le> 4" using n r1 r2 r3 by linarith+
  let ?Y = "400 * a + 100 * b + 4 * c + e"
  have eq: "(y, m, d) = (if e = 4 \<or> b = 4 then (?Y, 12, 31)
      else (?Y + 1, month_of_yday (?Y + 1) r4,
            r4 - days_before_month (?Y + 1) (month_of_yday (?Y + 1) r4) + 1))"
    using assms [symmetric] unfolding defs ord2ymd_def Let_def by (simp only: add_diff_cancel_right')
  consider (four) "b = 4" | (leap) "b \<noteq> 4" "e = 4" | (norm) "b \<noteq> 4" "e \<noteq> 4" by blast
  then show ?thesis
  proof cases
    case four
    with n r1 have "r2 = 0" by linarith
    with r2 bnds have "c = 0" "r3 = 0" by linarith+
    with r3 bnds have z: "c = 0" "e = 0" "r4 = 0" by linarith+
    with four eq have ymd: "y = 400 * a + 400" "m = 12" "d = 31" by auto
    have "is_leap y" by (simp add: ymd is_leap_def)
    moreover have "days_before_year y = 146097 * a + 145731"
      using days_before_year_split [of 3 24 3 a] by (simp add: ymd add.commute)
    ultimately show ?thesis using n r1 r2 r3 z four
      by (simp add: ymd ymd2ord_def days_before_month_def month_table_def days_in_month_def n_def)
  next
    case leap
    with r2 r3 r1 have cc: "c \<le> 23" "r4 = 0" by linarith+
    from leap eq have ymd: "y = 400 * a + 100 * b + 4 * c + 4" "m = 12" "d = 31" by auto
    have "is_leap y" unfolding ymd by (rule leap_year_end) (use bnds leap cc in auto)
    moreover have "days_before_year y = 146097 * a + 36524 * b + 1461 * c + 1095"
      using days_before_year_split [of b c 3 a] bnds leap cc by (simp add: ymd add.commute add.left_commute)
    ultimately show ?thesis using n r1 r2 r3 cc leap
      by (simp add: ymd ymd2ord_def days_before_month_def month_table_def days_in_month_def n_def)
  next
    case norm
    with eq have ymd: "y = ?Y + 1" "m = month_of_yday y r4" "d = r4 - days_before_month y m + 1" by auto
    have "days_before_year y = 146097 * a + 36524 * b + 1461 * c + 365 * e"
      unfolding ymd by (rule days_before_year_split) (use bnds norm in auto)
    then have "days_before_year y + r4 = n" using n r1 r2 r3 by linarith
    moreover have "r4 < 365 + (if is_leap y then 1 else 0)" using r3 by auto
    note month_of_yday_cases [OF r3(2) this ymd(2)]
    ultimately show ?thesis by (simp add: ymd2ord_def n_def ymd(3))
  qed
qed

lemma day_start_ord: "day_start_of t = instant_of_ord (ord_of t)"
  by (simp add: day_start_of_def instant_of_ord_def ord_of_def minus_mod_eq_div_mult)

text \<open>The day of an instant lies inside its calendar month.\<close>

lemma day_in_month:
  "month_start_of t \<le> day_start_of t" "day_start_of t + us_per_day \<le> month_end_of t"
proof -
  obtain y m d where ymd: "ord2ymd (ord_of t) = (y, m, d)" by (cases "ord2ymd (ord_of t)")
  note c = ord2ymd_correct [OF ymd]
  show "month_start_of t \<le> day_start_of t"
    using c by (simp add: month_start_of_def ymd day_start_ord instant_of_ord_def ymd2ord_def)
  have "m = 1 \<or> m = 2 \<or> m = 3 \<or> m = 4 \<or> m = 5 \<or> m = 6 \<or> m = 7 \<or> m = 8 \<or> m = 9 \<or>
      m = 10 \<or> m = 11 \<or> m = 12" if "1 \<le> m" "m \<le> 12" using that by presburger
  from this c have "ord_of t + 1 \<le> (if m = 12 then ymd2ord (y + 1) 1 1 else ymd2ord y (m + 1) 1)"
    using days_before_year_Suc [of y]
    by (auto simp: ymd2ord_def days_before_month_def month_table_def days_in_month_def split: if_splits)
  then show "day_start_of t + us_per_day \<le> month_end_of t"
    by (simp add: month_end_of_def ymd day_start_ord instant_of_ord_def)
qed

lemma instant_in_day: "day_start_of t \<le> t" "t < day_start_of t + us_per_day"
  using pos_mod_bound [of us_per_day t] pos_mod_sign [of us_per_day t]
  by (simp_all add: day_start_of_def)

section \<open>Text of a timestamp\<close>

text \<open>\<open>datetime.isoformat()\<close> of a UTC timestamp; the microseconds are left out when they are zero.\<close>

fun fixed_digits :: "nat \<Rightarrow> int \<Rightarrow> string" where
  "fixed_digits 0 i = []"
| "fixed_digits (Suc w) i = fixed_digits w (i div 10) @ [char_of (nat (48 + i mod 10))]"

definition isoformat :: "instant \<Rightarrow> string" where
  "isoformat t = (case ord2ymd (ord_of t) of (y, m, d) \<Rightarrow>
     let us = t mod us_per_day; s = us div us_per_second
     in fixed_digits 4 y @ ''-'' @ fixed_digits 2 m @ ''-'' @ fixed_digits 2 d @ ''T''
        @ fixed_digits 2 (s div 3600) @ '':'' @ fixed_digits 2 (s div 60 mod 60) @ '':'' @ fixed_digits 2 (s mod 60)
        @ (if us mod us_per_second = 0 then [] else ''.'' @ fixed_digits 6 (us mod us_per_second))
        @ ''+00:00'')"

end
