(* ===== verification/Store.thy ===== *)
theory Store
  imports Enums PyTime
begin

text \<open>
  The database rows the services share, one record per mapped class of
  src/gen_automation/db/models.py, and the database as one record of tables. A service runs in
  one transaction of one session: it takes the database as that transaction sees it and returns
  the updated one; an exception (the left side of a result) makes the caller roll back.

  Columns that no modelled operation reads or writes (names of container images, foreign keys to
  parts of the system outside the model, server-maintained timestamps) are left out. The
  \<open>_ok\<close> predicates are the CHECK constraints of the classes on the columns modelled, and
  \<open>db_ok\<close> adds the primary keys and the three unique constraints by which the operations find a
  row: the provider of a guard, the guard and key of a spend entry, the topic and key of an event.
  The other unique constraints and the foreign keys are not part of it; for a deployment these are its version number,
  the current row of a purpose and the two identifiers of the provider. The types of the columns hold their enumerations.
\<close>

section \<open>Rows\<close>

record Release =
  re_id :: uuid
  re_phase :: ReleasePhase
  re_health :: ResourceHealth
  re_current_version_no :: int

record ReleaseVersion =
  rv_id :: uuid
  rv_release_id :: uuid
  rv_version_no :: int

record ProviderBudgetGuard =
  pb_id :: uuid
  pb_provider :: string
  pb_currency :: string
  pb_daily_limit_microusd :: int
  pb_monthly_limit_microusd :: int
  pb_state :: BudgetState
  pb_blocked_reason :: "string option"
  pb_blocked_at :: "instant option"
  pb_lock_version :: int
  pb_updated_at :: instant

record ProviderSpendEntry =
  se_id :: uuid
  se_budget_guard_id :: uuid
  se_dedupe_key :: string
  se_entry_type :: SpendEntryType
  se_amount_microusd :: int
  se_effective_at :: instant
  se_salad_deployment_id :: "uuid option"
  se_generation_attempt_id :: "uuid option"
  se_source_reference :: "string option"
  se_detail :: "(string \<times> pyval) list"
  se_created_at :: instant

record GenerationJob =
  gj_id :: uuid
  gj_release_version_id :: uuid
  gj_provider :: string
  gj_state :: GenerationState
  gj_attempt_count :: int
  gj_max_attempts :: int
  gj_lock_version :: int
  gj_lease_owner :: "string option"
  gj_lease_expires_at :: "instant option"
  gj_retry_at :: "instant option"
  gj_last_error_code :: "string option"
  gj_last_error_detail :: "string option"
  gj_created_at :: instant
  gj_parameters :: "(string \<times> pyval) list"
  gj_parameters_sha256 :: string
  gj_expected_output_count :: int

record GenerationAttempt =
  ga_id :: uuid
  ga_job_id :: uuid
  ga_attempt_no :: int
  ga_provider :: string
  ga_salad_deployment_id :: "uuid option"
  ga_provider_external_id :: "string option"
  ga_state :: GenerationAttemptState
  ga_request_metadata :: "(string \<times> pyval) list"
  ga_response_metadata :: "pyval option"
  ga_submit_started_at :: "instant option"
  ga_submitted_at :: "instant option"
  ga_started_at :: "instant option"
  ga_completed_at :: "instant option"
  ga_last_observed_at :: "instant option"
  ga_unknown_since :: "instant option"
  ga_provider_state :: "string option"
  ga_cost_reservation_microusd :: int
  ga_reservation_released_at :: "instant option"
  ga_lock_version :: int
  ga_error_code :: "string option"
  ga_error_detail :: "string option"
  ga_submission_key :: string
  ga_request_sha256 :: string
  ga_worker_image_digest :: string

record Asset =
  as_id :: uuid
  as_generation_job_id :: "uuid option"
  as_output_index :: "int option"
  as_kind :: AssetKind
  as_asset_metadata :: "(string \<times> pyval) list"

record SaladDeployment =
  sd_id :: uuid
  sd_version_no :: int
  sd_config_sha256 :: string
  sd_provider_configuration :: "(string \<times> pyval) list"
  sd_worker_image_digest :: string
  sd_queue_name :: string
  sd_provider_queue_id :: "string option"
  sd_container_group_name :: string
  sd_provider_container_group_id :: "string option"
  sd_purpose :: SaladDeploymentPurpose
  sd_state :: SaladDeploymentState
  sd_desired_state :: DesiredDeploymentState
  sd_administrative_stop_reason :: "string option"
  sd_is_current :: bool
  sd_min_replicas :: int
  sd_max_replicas :: int
  sd_desired_queue_length :: int
  sd_observed_replicas :: "int option"
  sd_ready_replicas :: "int option"
  sd_max_hourly_cost_microusd :: int
  sd_provider_status :: "string option"
  sd_last_observed_at :: "instant option"
  sd_reconcile_after :: "instant option"
  sd_unknown_since :: "instant option"
  sd_last_error_code :: "string option"
  sd_last_error_detail :: "string option"
  sd_lock_version :: int
  sd_activated_at :: "instant option"
  sd_stopped_at :: "instant option"
  sd_billing_session_started_at :: "instant option"
  sd_billing_session_ended_at :: "instant option"
  sd_billing_accumulated_microseconds :: int
  sd_billing_active_instance_id :: "string option"
  sd_billing_active_started_at :: "instant option"
  sd_billing_observed_at :: "instant option"
  sd_billing_observation_stale :: bool
  sd_billing_estimated :: bool
  sd_created_at :: instant
  sd_runtime_artifact_manifest_sha256 :: "string option"

record ExperimentWarmLease =
  wl_id :: uuid
  wl_salad_deployment_id :: uuid
  wl_state :: ExperimentWarmLeaseState
  wl_started_at :: instant
  wl_expires_at :: instant
  wl_hard_expires_at :: instant
  wl_ended_at :: "instant option"
  wl_last_activity_at :: "instant option"
  wl_idle_ttl_seconds :: int
  wl_max_cost_microusd :: int
  wl_provider_version :: "int option"
  wl_requested_checkpoint_sha256 :: "string option"
  wl_requested_lora_sha256s :: "string list option"
  wl_created_by :: string
  wl_lock_version :: int

record OutboxEvent =
  oe_id :: uuid
  oe_topic :: string
  oe_dedupe_key :: string
  oe_correlation_id :: string
  oe_aggregate_type :: string
  oe_aggregate_id :: uuid
  oe_payload :: "(string \<times> pyval) list"
  oe_status :: OutboxStatus
  oe_attempts :: int
  oe_max_attempts :: int
  oe_available_at :: instant
  oe_created_at :: instant
  oe_lease_owner :: "string option"
  oe_lease_expires_at :: "instant option"
  oe_processed_at :: "instant option"
  oe_last_error_code :: "string option"
  oe_last_error_detail :: "string option"

text \<open>The identifier of an audit event is only kept where an operation reads it back.\<close>

record AuditEvent =
  ae_id :: "uuid option"
  ae_actor :: string
  ae_action :: string
  ae_resource_type :: string
  ae_resource_id :: uuid
  ae_correlation_id :: string
  ae_detail :: "(string \<times> pyval) list"
  ae_occurred_at :: instant

record db =
  db_releases :: "Release list"
  db_release_versions :: "ReleaseVersion list"
  db_guards :: "ProviderBudgetGuard list"
  db_entries :: "ProviderSpendEntry list"
  db_jobs :: "GenerationJob list"
  db_attempts :: "GenerationAttempt list"
  db_deployments :: "SaladDeployment list"
  db_leases :: "ExperimentWarmLease list"
  db_outbox :: "OutboxEvent list"
  db_audits :: "AuditEvent list"
  db_assets :: "Asset list"

definition empty_db :: db where
  "empty_db = \<lparr>db_releases = [], db_release_versions = [], db_guards = [], db_entries = [], db_jobs = [], db_attempts = [], db_deployments = [],
     db_leases = [], db_outbox = [], db_audits = [], db_assets = []\<rparr>"

section \<open>Reading and writing rows\<close>

abbreviation get_guard :: "uuid \<Rightarrow> db \<Rightarrow> ProviderBudgetGuard option" where
  "get_guard k d \<equiv> row_get pb_id k (db_guards d)"
abbreviation put_guard :: "ProviderBudgetGuard \<Rightarrow> db \<Rightarrow> db" where
  "put_guard r d \<equiv> d\<lparr>db_guards := row_put pb_id r (db_guards d)\<rparr>"
abbreviation get_job :: "uuid \<Rightarrow> db \<Rightarrow> GenerationJob option" where
  "get_job k d \<equiv> row_get gj_id k (db_jobs d)"
abbreviation put_job :: "GenerationJob \<Rightarrow> db \<Rightarrow> db" where
  "put_job r d \<equiv> d\<lparr>db_jobs := row_put gj_id r (db_jobs d)\<rparr>"
abbreviation get_attempt :: "uuid \<Rightarrow> db \<Rightarrow> GenerationAttempt option" where
  "get_attempt k d \<equiv> row_get ga_id k (db_attempts d)"
abbreviation put_attempt :: "GenerationAttempt \<Rightarrow> db \<Rightarrow> db" where
  "put_attempt r d \<equiv> d\<lparr>db_attempts := row_put ga_id r (db_attempts d)\<rparr>"
abbreviation get_deployment :: "uuid \<Rightarrow> db \<Rightarrow> SaladDeployment option" where
  "get_deployment k d \<equiv> row_get sd_id k (db_deployments d)"
abbreviation put_deployment :: "SaladDeployment \<Rightarrow> db \<Rightarrow> db" where
  "put_deployment r d \<equiv> d\<lparr>db_deployments := row_put sd_id r (db_deployments d)\<rparr>"
abbreviation get_lease :: "uuid \<Rightarrow> db \<Rightarrow> ExperimentWarmLease option" where
  "get_lease k d \<equiv> row_get wl_id k (db_leases d)"
abbreviation put_lease :: "ExperimentWarmLease \<Rightarrow> db \<Rightarrow> db" where
  "put_lease r d \<equiv> d\<lparr>db_leases := row_put wl_id r (db_leases d)\<rparr>"
abbreviation get_event :: "uuid \<Rightarrow> db \<Rightarrow> OutboxEvent option" where
  "get_event k d \<equiv> row_get oe_id k (db_outbox d)"
abbreviation put_event :: "OutboxEvent \<Rightarrow> db \<Rightarrow> db" where
  "put_event r d \<equiv> d\<lparr>db_outbox := row_put oe_id r (db_outbox d)\<rparr>"
abbreviation add_audit :: "AuditEvent \<Rightarrow> db \<Rightarrow> db" where
  "add_audit a d \<equiv> d\<lparr>db_audits := db_audits d @ [a]\<rparr>"

interpretation guard_table: db_table db_guards "\<lambda>rs d. d\<lparr>db_guards := rs\<rparr>" pb_id
  by unfold_locales simp
interpretation job_table: db_table db_jobs "\<lambda>rs d. d\<lparr>db_jobs := rs\<rparr>" gj_id
  by unfold_locales simp
interpretation attempt_table: db_table db_attempts "\<lambda>rs d. d\<lparr>db_attempts := rs\<rparr>" ga_id
  by unfold_locales simp
interpretation deployment_table: db_table db_deployments "\<lambda>rs d. d\<lparr>db_deployments := rs\<rparr>" sd_id
  by unfold_locales simp
interpretation lease_table: db_table db_leases "\<lambda>rs d. d\<lparr>db_leases := rs\<rparr>" wl_id
  by unfold_locales simp
interpretation event_table: db_table db_outbox "\<lambda>rs d. d\<lparr>db_outbox := rs\<rparr>" oe_id
  by unfold_locales simp

section \<open>Constraints of the schema\<close>

definition guard_ok :: "ProviderBudgetGuard \<Rightarrow> bool" where
  "guard_ok g \<longleftrightarrow> 0 < pb_daily_limit_microusd g \<and> 0 < pb_monthly_limit_microusd g
     \<and> pb_daily_limit_microusd g \<le> pb_monthly_limit_microusd g \<and> pb_currency g = ''USD''"

definition entry_ok :: "ProviderSpendEntry \<Rightarrow> bool" where
  "entry_ok e \<longleftrightarrow> se_amount_microusd e \<noteq> 0"

definition job_ok :: "GenerationJob \<Rightarrow> bool" where
  "job_ok j \<longleftrightarrow> 0 < gj_expected_output_count j \<and> 0 < gj_max_attempts j \<and> 0 \<le> gj_attempt_count j \<and> gj_attempt_count j \<le> gj_max_attempts j"

definition attempt_ok :: "GenerationAttempt \<Rightarrow> bool" where
  "attempt_ok a \<longleftrightarrow> 0 < ga_attempt_no a \<and> 0 \<le> ga_cost_reservation_microusd a
     \<and> (ga_state a \<in> {AttemptSUBMITTED, AttemptRUNNING, AttemptSUCCEEDED, AttemptCANCEL_REQUESTED,
          AttemptCANCELLED} \<longrightarrow> ga_provider_external_id a \<noteq> None)
     \<and> (ga_state a \<in> {AttemptSUCCEEDED, AttemptFAILED, AttemptCANCELLED} \<longrightarrow> ga_completed_at a \<noteq> None)"

definition live_lease_states :: "ExperimentWarmLeaseState list" where
  "live_lease_states = [LeaseSTARTING, LeaseACTIVE, LeaseENDING]"

definition lease_ok :: "ExperimentWarmLease \<Rightarrow> bool" where
  "lease_ok l \<longleftrightarrow> wl_started_at l < wl_expires_at l \<and> wl_expires_at l \<le> wl_hard_expires_at l
     \<and> 0 < wl_max_cost_microusd l \<and> 60 \<le> wl_idle_ttl_seconds l \<and> wl_idle_ttl_seconds l \<le> 5400
     \<and> (case wl_provider_version l of None \<Rightarrow> True | Some v \<Rightarrow> 0 < v) \<and> 0 < wl_lock_version l
     \<and> (wl_state l \<in> set live_lease_states \<longleftrightarrow> wl_ended_at l = None)"

text \<open>The columns of the billing timer; \<open>session_started <= active_started\<close> is only checked where both are set.\<close>

definition billing_ok :: "SaladDeployment \<Rightarrow> bool" where
  "billing_ok x \<longleftrightarrow> 0 \<le> sd_billing_accumulated_microseconds x
     \<and> (sd_billing_active_instance_id x = None \<longleftrightarrow> sd_billing_active_started_at x = None)
     \<and> (sd_billing_session_started_at x \<noteq> None
        \<or> (sd_billing_session_ended_at x = None \<and> sd_billing_active_instance_id x = None
            \<and> sd_billing_active_started_at x = None \<and> sd_billing_accumulated_microseconds x = 0))
     \<and> (sd_billing_session_ended_at x = None \<or> sd_billing_active_instance_id x = None)
     \<and> (case (sd_billing_session_started_at x, sd_billing_active_started_at x) of
          (Some s, Some a) \<Rightarrow> s \<le> a | _ \<Rightarrow> True)
     \<and> (case (sd_billing_session_started_at x, sd_billing_session_ended_at x) of
          (Some s, Some e) \<Rightarrow> s \<le> e | _ \<Rightarrow> True)"

text \<open>The digits of a digest: 64 characters, in lower case, of which none is left when the hexadecimal ones are replaced.\<close>

definition lower_hex_check :: "string \<Rightarrow> bool" where
  "lower_hex_check s \<longleftrightarrow> length s = 64 \<and> s = py_lower s \<and> filter (\<lambda>c. c \<notin> set ''0123456789abcdef'') s = []"

definition deployment_ok :: "SaladDeployment \<Rightarrow> bool" where
  "deployment_ok x \<longleftrightarrow> 0 \<le> sd_min_replicas x \<and> sd_min_replicas x \<le> sd_max_replicas x \<and> 0 < sd_version_no x
     \<and> 0 < sd_desired_queue_length x
     \<and> (case sd_runtime_artifact_manifest_sha256 x of None \<Rightarrow> True | Some v \<Rightarrow> lower_hex_check v)
     \<and> sd_max_replicas x \<le> 1
     \<and> (case sd_observed_replicas x of None \<Rightarrow> True | Some n \<Rightarrow> 0 \<le> n)
     \<and> (case sd_ready_replicas x of None \<Rightarrow> True | Some n \<Rightarrow> 0 \<le> n)
     \<and> (case (sd_ready_replicas x, sd_observed_replicas x) of (Some r, Some n) \<Rightarrow> r \<le> n | _ \<Rightarrow> True)
     \<and> 0 < sd_max_hourly_cost_microusd x \<and> billing_ok x
     \<and> (sd_state x \<in> {DeploymentACTIVE, DeploymentDEGRADED, DeploymentDRAINING, DeploymentSTOPPED}
        \<longrightarrow> sd_provider_queue_id x \<noteq> None \<and> sd_provider_container_group_id x \<noteq> None)"

definition event_ok :: "OutboxEvent \<Rightarrow> bool" where
  "event_ok e \<longleftrightarrow> 0 \<le> oe_attempts e \<and> 0 < oe_max_attempts e \<and> oe_attempts e \<le> oe_max_attempts e
     \<and> (oe_lease_owner e = None \<longleftrightarrow> oe_lease_expires_at e = None)"

definition event_identity :: "OutboxEvent \<Rightarrow> string \<times> string" where
  "event_identity e = (oe_topic e, oe_dedupe_key e)"

definition entry_identity :: "ProviderSpendEntry \<Rightarrow> uuid \<times> string" where
  "entry_identity e = (se_budget_guard_id e, se_dedupe_key e)"

definition db_ok :: "db \<Rightarrow> bool" where
  "db_ok d \<longleftrightarrow>
     (\<forall>g \<in> set (db_guards d). guard_ok g) \<and> (\<forall>e \<in> set (db_entries d). entry_ok e)
   \<and> (\<forall>j \<in> set (db_jobs d). job_ok j) \<and> (\<forall>a \<in> set (db_attempts d). attempt_ok a)
   \<and> (\<forall>l \<in> set (db_leases d). lease_ok l) \<and> (\<forall>e \<in> set (db_outbox d). event_ok e)
   \<and> (\<forall>x \<in> set (db_deployments d). deployment_ok x)
   \<and> distinct (map pb_id (db_guards d)) \<and> distinct (map pb_provider (db_guards d))
   \<and> distinct (map se_id (db_entries d)) \<and> distinct (map entry_identity (db_entries d))
   \<and> distinct (map gj_id (db_jobs d)) \<and> distinct (map ga_id (db_attempts d))
   \<and> distinct (map sd_id (db_deployments d)) \<and> distinct (map wl_id (db_leases d))
   \<and> distinct (map oe_id (db_outbox d)) \<and> distinct (map event_identity (db_outbox d))"

lemma db_okD:
  assumes "db_ok d"
  shows "\<And>g. g \<in> set (db_guards d) \<Longrightarrow> guard_ok g" "\<And>e. e \<in> set (db_entries d) \<Longrightarrow> entry_ok e"
    "\<And>j. j \<in> set (db_jobs d) \<Longrightarrow> job_ok j" "\<And>a. a \<in> set (db_attempts d) \<Longrightarrow> attempt_ok a"
    "\<And>l. l \<in> set (db_leases d) \<Longrightarrow> lease_ok l" "\<And>e. e \<in> set (db_outbox d) \<Longrightarrow> event_ok e"
    "distinct (map pb_id (db_guards d))" "distinct (map pb_provider (db_guards d))"
    "distinct (map ga_id (db_attempts d))" "distinct (map gj_id (db_jobs d))"
    "distinct (map oe_id (db_outbox d))" "distinct (map event_identity (db_outbox d))"
    "distinct (map se_id (db_entries d))" "distinct (map entry_identity (db_entries d))"
    "distinct (map sd_id (db_deployments d))" "distinct (map wl_id (db_leases d))"
    "\<And>x. x \<in> set (db_deployments d) \<Longrightarrow> deployment_ok x"
  using assms unfolding db_ok_def by blast+

lemma db_ok_empty: "db_ok empty_db"
  by (simp add: db_ok_def empty_db_def)

text \<open>How each write keeps the constraints; the operations of the components compose these.\<close>

lemma db_ok_audit [simp]: "db_ok (d\<lparr>db_audits := as\<rparr>) = db_ok d"
  by (simp add: db_ok_def)

lemma db_ok_put_guard:
  assumes "db_ok d" and "guard_ok g" and "get_guard (pb_id g) d = Some old"
    and "pb_provider g = pb_provider old"
  shows "db_ok (put_guard g d)"
proof -
  have "map pb_provider (row_put pb_id g (db_guards d)) = map pb_provider (db_guards d)"
  proof (rule row_put_map_same)
    fix x assume x: "x \<in> set (db_guards d)" "pb_id x = pb_id g"
    have "row_get pb_id (pb_id x) (db_guards d) = Some x"
      using db_okD(7) [OF assms(1)] x(1) by (rule row_get_distinct)
    with x assms(3,4) show "pb_provider g = pb_provider x" by simp
  qed
  moreover have "\<forall>x \<in> set (row_put pb_id g (db_guards d)). guard_ok x"
    using assms(1,2) by (intro row_put_all) (auto simp: db_ok_def)
  ultimately show ?thesis using assms(1) by (simp add: db_ok_def)
qed

lemma db_ok_put_attempt:
  assumes "db_ok d" and "attempt_ok a"
  shows "db_ok (put_attempt a d)"
proof -
  have "\<forall>x \<in> set (row_put ga_id a (db_attempts d)). attempt_ok x"
    using assms by (intro row_put_all) (auto simp: db_ok_def)
  then show ?thesis using assms(1) by (simp add: db_ok_def)
qed

lemma db_ok_put_job:
  assumes "db_ok d" and "job_ok j"
  shows "db_ok (put_job j d)"
proof -
  have "\<forall>x \<in> set (row_put gj_id j (db_jobs d)). job_ok x"
    using assms by (intro row_put_all) (auto simp: db_ok_def)
  then show ?thesis using assms(1) by (simp add: db_ok_def)
qed

lemma db_ok_put_deployment:
  assumes "db_ok d" and "deployment_ok x"
  shows "db_ok (put_deployment x d)"
proof -
  have "\<forall>y \<in> set (row_put sd_id x (db_deployments d)). deployment_ok y"
    using assms by (intro row_put_all) (auto simp: db_ok_def)
  then show ?thesis using assms(1) by (simp add: db_ok_def)
qed

lemma db_ok_put_lease:
  assumes "db_ok d" and "lease_ok l"
  shows "db_ok (put_lease l d)"
proof -
  have "\<forall>x \<in> set (row_put wl_id l (db_leases d)). lease_ok x"
    using assms by (intro row_put_all) (auto simp: db_ok_def)
  then show ?thesis using assms(1) by (simp add: db_ok_def)
qed

lemma db_ok_put_event:
  assumes "db_ok d" and "event_ok e" and "get_event (oe_id e) d = Some old"
    and "event_identity e = event_identity old"
  shows "db_ok (put_event e d)"
proof -
  have "map event_identity (row_put oe_id e (db_outbox d)) = map event_identity (db_outbox d)"
  proof (rule row_put_map_same)
    fix x assume x: "x \<in> set (db_outbox d)" "oe_id x = oe_id e"
    have "row_get oe_id (oe_id x) (db_outbox d) = Some x"
      using db_okD(11) [OF assms(1)] x(1) by (rule row_get_distinct)
    with x assms(3,4) show "event_identity e = event_identity x" by simp
  qed
  moreover have "\<forall>x \<in> set (row_put oe_id e (db_outbox d)). event_ok x"
    using assms(1,2) by (intro row_put_all) (auto simp: db_ok_def)
  ultimately show ?thesis using assms(1) by (simp add: db_ok_def)
qed

lemma db_ok_insert_event:
  assumes "db_ok d" and "event_ok e" and "oe_id e \<notin> oe_id ` set (db_outbox d)"
    and "event_identity e \<notin> event_identity ` set (db_outbox d)"
  shows "db_ok (d\<lparr>db_outbox := db_outbox d @ [e]\<rparr>)"
  using assms by (auto simp: db_ok_def)

lemma db_ok_insert_guard:
  assumes "db_ok d" and "guard_ok g" and "pb_id g \<notin> pb_id ` set (db_guards d)"
    and "pb_provider g \<notin> pb_provider ` set (db_guards d)"
  shows "db_ok (d\<lparr>db_guards := db_guards d @ [g]\<rparr>)"
  using assms by (auto simp: db_ok_def)

lemma db_ok_insert_entry:
  assumes "db_ok d" and "entry_ok e" and "se_id e \<notin> se_id ` set (db_entries d)"
    and "entry_identity e \<notin> entry_identity ` set (db_entries d)"
  shows "db_ok (d\<lparr>db_entries := db_entries d @ [e]\<rparr>)"
  using assms by (auto simp: db_ok_def)

end
