(* ===== verification/PyDecimal.thy ===== *)
theory PyDecimal
  imports PyValues
begin

text \<open>
  The \<open>decimal.Decimal\<close> numbers the program computes with: coefficient and exponent of ten,
  multiplication in the default context (28 significant digits, halves to even), comparison with an
  integer, and rounding up to an integer. A Python \<open>float\<close> enters the program's arithmetic only as
  \<open>Decimal(str(value))\<close>, and is represented by that decimal. Its exponent lies between -340 and 308, so
  the exponent limits of the context play no part in a product with an integer of a size that occurs.
\<close>

datatype pydecimal = DFinite int int | DInfinite | DNaN

text \<open>The number of decimal digits of a non-negative integer.\<close>

definition digit_count :: "int \<Rightarrow> nat" where
  "digit_count n = length (dec_digits n)"

text \<open>A finite result is rounded to \<open>prec = 28\<close> digits with \<open>ROUND_HALF_EVEN\<close>.\<close>

definition half_even :: "int \<Rightarrow> int \<Rightarrow> int" where
  "half_even c m =
     (let q = c div m; r = c mod m in if m < 2 * r \<or> (2 * r = m \<and> odd q) then q + 1 else q)"

definition dec_round :: "int \<Rightarrow> int \<Rightarrow> pydecimal" where
  "dec_round c e =
     (let n = digit_count \<bar>c\<bar> in
      if n \<le> 28 then DFinite c e
      else let q = half_even \<bar>c\<bar> (10 ^ (n - 28)); k = e + int n - 28 in
           if q = 10 ^ 28 then DFinite (sgn c * (q div 10)) (k + 1) else DFinite (sgn c * q) k)"

datatype decimal_error = InvalidOperation | DecimalOverflowError | DecimalValueError

text \<open>The product with an integer. An infinity times zero is an invalid operation.\<close>

fun dec_times_int :: "int \<Rightarrow> pydecimal \<Rightarrow> decimal_error + pydecimal" where
  "dec_times_int n (DFinite c e) = Inr (dec_round (n * c) e)"
| "dec_times_int n DInfinite = (if n = 0 then Inl InvalidOperation else Inr DInfinite)"
| "dec_times_int n DNaN = Inr DNaN"

text \<open>\<open>int(value.to_integral_value(rounding=ROUND_CEILING))\<close>.\<close>

definition ceil_div :: "int \<Rightarrow> int \<Rightarrow> int" where
  "ceil_div a b = - ((- a) div b)"

fun dec_ceiling :: "pydecimal \<Rightarrow> decimal_error + int" where
  "dec_ceiling (DFinite c e) = Inr (if 0 \<le> e then c * 10 ^ nat e else ceil_div c (10 ^ nat (- e)))"
| "dec_ceiling DInfinite = Inl DecimalOverflowError"
| "dec_ceiling DNaN = Inl DecimalValueError"

text \<open>\<open>value > Decimal(n)\<close> for a finite value.\<close>

definition dec_exceeds :: "int \<Rightarrow> int \<Rightarrow> int \<Rightarrow> bool" where
  "dec_exceeds c e n \<longleftrightarrow> (if 0 \<le> e then n < c * 10 ^ nat e else n * 10 ^ nat (- e) < c)"

section \<open>Facts\<close>

lemma digit_count_le: "0 \<le> n \<Longrightarrow> n < 10 ^ k \<Longrightarrow> 0 < k \<Longrightarrow> digit_count n \<le> k"
proof (induction k arbitrary: n)
  case 0
  then show ?case by simp
next
  case (Suc k)
  show ?case
  proof (cases "n < 10")
    case True
    then show ?thesis by (simp add: digit_count_def dec_digits.simps [of n])
  next
    case False
    with Suc.prems have "n div 10 < 10 ^ k" by auto
    moreover from False Suc.prems have "0 < k" by (cases k) auto
    ultimately have "digit_count (n div 10) \<le> k" using Suc by simp
    then show ?thesis using False by (simp add: digit_count_def dec_digits.simps [of n])
  qed
qed

lemma dec_round_exact: "\<bar>c\<bar> < 10 ^ 28 \<Longrightarrow> dec_round c e = DFinite c e"
  using digit_count_le [of "\<bar>c\<bar>" 28] by (simp add: dec_round_def)

lemma ceil_div_bounds:
  assumes "0 < b"
  shows "a \<le> ceil_div a b * b" and "ceil_div a b * b < a + b"
proof -
  have "((- a) div b) * b = - a - (- a) mod b" by (rule minus_mod_eq_div_mult [symmetric])
  moreover have "0 \<le> (- a) mod b" and "(- a) mod b < b" using assms by simp_all
  ultimately show "a \<le> ceil_div a b * b" and "ceil_div a b * b < a + b"
    unfolding ceil_div_def mult_minus_left by linarith+
qed

lemma ceil_div_le_iff:
  assumes "0 < b"
  shows "ceil_div a b \<le> n \<longleftrightarrow> a \<le> n * b"
proof
  assume "ceil_div a b \<le> n"
  then have "ceil_div a b * b \<le> n * b" using assms by (simp add: mult_right_mono)
  then show "a \<le> n * b" using ceil_div_bounds(1) [OF assms, of a] by linarith
next
  assume "a \<le> n * b"
  then have "ceil_div a b * b < (n + 1) * b"
    using ceil_div_bounds(2) [OF assms, of a] by (simp add: algebra_simps)
  then show "ceil_div a b \<le> n" using assms by (simp add: mult_less_cancel_right)
qed

end
