(* ===== verification/Budgets.thy ===== *)
theory Budgets
  imports Store PyDecimal "HOL-Library.Product_Lexorder"
begin

text \<open>
  src/gen_automation/services/budgets.py: the hard budget guard of a provider. Money is integer
  micro-USD. The guard row of a provider is locked for the whole transaction, so an operation
  sees and changes the guard, the ledger of spend entries, the reservations of the generation
  attempts and the warm leases as one state.

  The only interleaving the code handles itself is a concurrent insertion of the same guard
  (\<open>IntegrityError\<close> in \<open>ensure_budget_guard\<close>); it is the argument \<open>interfere\<close>: what other
  transactions committed between the lookup and the insertion. The argument \<open>clock\<close> is
  \<open>datetime.now(UTC)\<close> and \<open>new_id\<close> the identifier the row gets.
\<close>

datatype budget_error =
    BudgetConfigurationError string
  | BudgetGuardNotFoundError
  | BudgetAttemptNotFoundError
  | BudgetConflictError string
  | DecimalOverflow

record BudgetSnapshot =
  bs_guard_id :: uuid
  bs_provider :: string
  bs_state :: BudgetState
  bs_daily_limit_microusd :: int
  bs_monthly_limit_microusd :: int
  bs_daily_spend_microusd :: int
  bs_monthly_spend_microusd :: int
  bs_active_reservations_microusd :: int
  bs_active_warm_leases_microusd :: int
  bs_daily_committed_microusd :: int
  bs_monthly_committed_microusd :: int
  bs_blocked_reason :: "string option"
  bs_evaluated_at :: instant

record ReservationDecision =
  rd_accepted :: bool
  rd_replayed :: bool
  rd_reason :: "string option"
  rd_requested_microusd :: int
  rd_snapshot :: BudgetSnapshot

record SpendEntryResult =
  sr_entry_id :: uuid
  sr_replayed :: bool
  sr_snapshot :: BudgetSnapshot

record ReservationReleaseResult =
  rr_released :: bool
  rr_replayed :: bool
  rr_snapshot :: BudgetSnapshot

section \<open>Validation\<close>

definition MAX_BIGINT :: int where "MAX_BIGINT = 2 ^ 63 - 1"

text \<open>The adjusted exponent of a nonzero product may not exceed the context's \<open>Emax\<close> of 999999.\<close>

definition usd_to_microusd :: "pydecimal \<Rightarrow> budget_error + int" where
  "usd_to_microusd value =
     (case value of
        DFinite c e \<Rightarrow>
          if c \<noteq> 0 \<and> 999999 < e + 6 + int (length (dec_digits \<bar>c\<bar>)) - 1 then Inl DecimalOverflow
          else
            (let scaled = c * 1000000;
                 exact = (0 \<le> e \<or> scaled mod 10 ^ nat (- e) = 0);
                 integral = (if 0 \<le> e then scaled * 10 ^ nat e else scaled div 10 ^ nat (- e))
             in if \<not> exact then Inl (BudgetConfigurationError ''USD values must be exact to one micro-USD'')
                else if \<not> (- MAX_BIGINT \<le> integral \<and> integral \<le> MAX_BIGINT)
                then Inl (BudgetConfigurationError ''USD value exceeds the supported range'')
                else Inr integral)
      | _ \<Rightarrow> Inl (BudgetConfigurationError ''USD values must be finite''))"

definition provider_char :: "char \<Rightarrow> bool" where
  "provider_char c \<longleftrightarrow> is_lower_alpha c \<or> is_digit c \<or> c = CHR ''_'' \<or> c = CHR ''-''"

definition provider_pattern :: "string \<Rightarrow> bool" where
  "provider_pattern s = (case s of [] \<Rightarrow> False
     | c # cs \<Rightarrow> is_lower_alpha c \<and> length cs \<le> 49 \<and> list_all provider_char cs)"

definition validated_provider :: "string \<Rightarrow> budget_error + string" where
  "validated_provider provider =
     (let normalized = py_lower (py_strip provider) in
      if provider_pattern normalized then Inr normalized
      else Inl (BudgetConfigurationError ''provider identifier is invalid''))"

definition alnum_char :: "char \<Rightarrow> bool" where
  "alnum_char c \<longleftrightarrow> is_lower_alpha c \<or> is_upper_alpha c \<or> is_digit c"

definition dedupe_key_pattern :: "string \<Rightarrow> bool" where
  "dedupe_key_pattern s = (case s of [] \<Rightarrow> False
     | c # cs \<Rightarrow> alnum_char c \<and> length cs \<le> 199
         \<and> list_all (\<lambda>c. alnum_char c \<or> c \<in> set '':._/-'') cs)"

definition validated_dedupe_key :: "string \<Rightarrow> budget_error + string" where
  "validated_dedupe_key key =
     (if dedupe_key_pattern key then Inr key
      else Inl (BudgetConfigurationError ''spend dedupe key is invalid''))"

definition validate_limits :: "int \<Rightarrow> int \<Rightarrow> budget_error + unit" where
  "validate_limits daily_limit monthly_limit =
     (if daily_limit \<le> 0 \<or> monthly_limit \<le> 0
      then Inl (BudgetConfigurationError ''budget limits must be positive'')
      else if monthly_limit < daily_limit
      then Inl (BudgetConfigurationError ''daily budget cannot exceed monthly budget'')
      else Inr ())"

definition validate_positive_microusd :: "int \<Rightarrow> budget_error + unit" where
  "validate_positive_microusd amount =
     require (0 < amount \<and> amount \<le> MAX_BIGINT)
       (BudgetConfigurationError ''budget reservation amount is invalid'')"

definition validate_spend_amount :: "SpendEntryType \<Rightarrow> int \<Rightarrow> budget_error + unit" where
  "validate_spend_amount entry_type amount =
     (if amount = 0 \<or> \<not> (- MAX_BIGINT \<le> amount \<and> amount \<le> MAX_BIGINT)
      then Inl (BudgetConfigurationError ''spend amount is invalid'')
      else if entry_type = SpendUSAGE \<and> amount < 0
      then Inl (BudgetConfigurationError ''usage spend cannot be negative'')
      else Inr ())"

definition budget_as_utc :: "pydatetime \<Rightarrow> budget_error + instant" where
  "budget_as_utc value = (case value of
      Naive _ \<Rightarrow> Inl (BudgetConfigurationError ''budget timestamps must include a timezone'')
    | Aware t \<Rightarrow> Inr t)"

definition evaluation_time :: "instant \<Rightarrow> pydatetime option \<Rightarrow> budget_error + instant" where
  "evaluation_time clock now = budget_as_utc (case now of None \<Rightarrow> Aware clock | Some v \<Rightarrow> v)"

definition budget_audit_event ::
  "string \<Rightarrow> string \<Rightarrow> uuid \<Rightarrow> string \<Rightarrow> (string \<times> pyval) list \<Rightarrow> instant \<Rightarrow> AuditEvent" where
  "budget_audit_event action resource_type resource_id correlation_id detail occurred_at =
     \<lparr>ae_id = None, ae_actor = ''system'', ae_action = action, ae_resource_type = resource_type,
      ae_resource_id = resource_id, ae_correlation_id = correlation_id, ae_detail = detail,
      ae_occurred_at = occurred_at\<rparr>"

section \<open>Evaluation of a guard\<close>

definition get_guard_locked :: "db \<Rightarrow> string \<Rightarrow> ProviderBudgetGuard option" where
  "get_guard_locked d provider = find (\<lambda>g. pb_provider g = provider) (db_guards d)"

definition require_guard_locked :: "db \<Rightarrow> string \<Rightarrow> budget_error + ProviderBudgetGuard" where
  "require_guard_locked d provider = (case get_guard_locked d provider of
      None \<Rightarrow> Inl BudgetGuardNotFoundError | Some g \<Rightarrow> Inr g)"

definition spend_between :: "db \<Rightarrow> uuid \<Rightarrow> instant \<Rightarrow> instant \<Rightarrow> int" where
  "spend_between d guard_id start_at end_at =
     (\<Sum>e\<leftarrow>filter (\<lambda>e. se_budget_guard_id e = guard_id \<and> start_at \<le> se_effective_at e
        \<and> se_effective_at e < end_at) (db_entries d). se_amount_microusd e)"

definition active_reservation :: "string \<Rightarrow> GenerationAttempt \<Rightarrow> bool" where
  "active_reservation provider a \<longleftrightarrow> ga_provider a = provider \<and> 0 < ga_cost_reservation_microusd a
     \<and> ga_reservation_released_at a = None"

definition active_reservations :: "db \<Rightarrow> string \<Rightarrow> int" where
  "active_reservations d provider =
     (\<Sum>a\<leftarrow>filter (active_reservation provider) (db_attempts d). ga_cost_reservation_microusd a)"

definition live_lease :: "ExperimentWarmLease \<Rightarrow> bool" where
  "live_lease l \<longleftrightarrow> wl_state l \<in> set live_lease_states"

definition realized_lease_usage :: "db \<Rightarrow> ExperimentWarmLease \<Rightarrow> int" where
  "realized_lease_usage d l =
     (\<Sum>e\<leftarrow>filter (\<lambda>e. se_salad_deployment_id e = Some (wl_salad_deployment_id l)
        \<and> se_entry_type e = SpendUSAGE \<and> wl_started_at l \<le> se_effective_at e) (db_entries d).
        se_amount_microusd e)"

definition active_warm_leases :: "db \<Rightarrow> string \<Rightarrow> int" where
  "active_warm_leases d provider =
     (if provider = ''salad''
      then (\<Sum>l\<leftarrow>filter live_lease (db_leases d). max (wl_max_cost_microusd l - realized_lease_usage d l) 0)
      else 0)"

definition evaluate_locked :: "db \<Rightarrow> ProviderBudgetGuard \<Rightarrow> instant \<Rightarrow> BudgetSnapshot" where
  "evaluate_locked d g evaluated_at =
     (let day_start = day_start_of evaluated_at;
          daily_spend = spend_between d (pb_id g) day_start (day_start + us_per_day);
          monthly_spend = spend_between d (pb_id g) (month_start_of evaluated_at) (month_end_of evaluated_at);
          reservations = active_reservations d (pb_provider g);
          warm_leases = active_warm_leases d (pb_provider g);
          commitments = reservations + warm_leases
      in \<lparr>bs_guard_id = pb_id g, bs_provider = pb_provider g, bs_state = pb_state g,
          bs_daily_limit_microusd = pb_daily_limit_microusd g,
          bs_monthly_limit_microusd = pb_monthly_limit_microusd g,
          bs_daily_spend_microusd = daily_spend, bs_monthly_spend_microusd = monthly_spend,
          bs_active_reservations_microusd = reservations,
          bs_active_warm_leases_microusd = warm_leases,
          bs_daily_committed_microusd = daily_spend + commitments,
          bs_monthly_committed_microusd = monthly_spend + commitments,
          bs_blocked_reason = pb_blocked_reason g, bs_evaluated_at = evaluated_at\<rparr>)"

definition limit_reason :: "BudgetSnapshot \<Rightarrow> int \<Rightarrow> string option" where
  "limit_reason s additional =
     (if bs_daily_limit_microusd s < bs_daily_committed_microusd s + additional
      then Some ''daily_limit_exceeded''
      else if bs_monthly_limit_microusd s < bs_monthly_committed_microusd s + additional
      then Some ''monthly_limit_exceeded''
      else None)"

definition with_guard :: "BudgetSnapshot \<Rightarrow> ProviderBudgetGuard \<Rightarrow> BudgetSnapshot" where
  "with_guard s g = s\<lparr>bs_state := pb_state g, bs_blocked_reason := pb_blocked_reason g\<rparr>"

section \<open>Changes of a guard\<close>

definition guard_correlation :: "ProviderBudgetGuard \<Rightarrow> string" where
  "guard_correlation g = ''budget-guard:'' @ uuid_str (pb_id g)"

definition set_guard_state ::
  "db \<Rightarrow> ProviderBudgetGuard \<Rightarrow> string option \<Rightarrow> instant \<Rightarrow> db \<times> ProviderBudgetGuard" where
  "set_guard_state d g reason evaluated_at =
     (let desired = (if reason \<noteq> None then BudgetBLOCKED else BudgetOPEN) in
      if pb_state g = desired \<and> pb_blocked_reason g = reason then (d, g)
      else
        (let g' = g\<lparr>pb_state := desired, pb_blocked_reason := reason,
                pb_blocked_at := (if reason \<noteq> None then Some evaluated_at else None),
                pb_updated_at := evaluated_at, pb_lock_version := pb_lock_version g + 1\<rparr>
         in (add_audit (budget_audit_event
               (if desired = BudgetBLOCKED then ''provider_budget.blocked'' else ''provider_budget.opened'')
               ''provider_budget_guard'' (pb_id g) (guard_correlation g)
               (case reason of None \<Rightarrow> [] | Some r \<Rightarrow> [(''reason'', PStr r)]) evaluated_at)
               (put_guard g' d), g')))"

definition stopped_by_budget :: "instant \<Rightarrow> SaladDeployment \<Rightarrow> SaladDeployment" where
  "stopped_by_budget evaluated_at x = x\<lparr>sd_desired_state := DesiredSTOPPED,
     sd_reconcile_after := Some evaluated_at,
     sd_last_error_code := Some ''budget_limit_exceeded'',
     sd_last_error_detail := Some ''The hard provider budget guard engaged.'',
     sd_lock_version := sd_lock_version x + 1\<rparr>"

definition stop_deployment :: "string \<Rightarrow> instant \<Rightarrow> SaladDeployment \<Rightarrow> db \<Rightarrow> db" where
  "stop_deployment reason evaluated_at x d =
     add_audit (budget_audit_event ''salad_deployment.budget_kill_switch_engaged'' ''salad_deployment''
        (sd_id x) (''salad-deployment:'' @ uuid_str (sd_id x)) [(''reason'', PStr reason)] evaluated_at)
       (put_deployment (stopped_by_budget evaluated_at x) d)"

definition failed_by_budget :: "instant \<Rightarrow> ExperimentWarmLease \<Rightarrow> ExperimentWarmLease" where
  "failed_by_budget evaluated_at l = l\<lparr>wl_state := LeaseFAILED, wl_ended_at := Some evaluated_at,
     wl_lock_version := wl_lock_version l + 1\<rparr>"

definition fail_lease :: "string \<Rightarrow> instant \<Rightarrow> ExperimentWarmLease \<Rightarrow> db \<Rightarrow> db" where
  "fail_lease reason evaluated_at l d =
     add_audit (budget_audit_event ''experiment_warm_lease.budget_kill_switch_engaged''
        ''experiment_warm_lease'' (wl_id l) (''experiment-warm-lease:'' @ uuid_str (wl_id l))
        [(''reason'', PStr reason)] evaluated_at)
       (put_lease (failed_by_budget evaluated_at l) d)"

definition engage_salad_kill_switch :: "db \<Rightarrow> string \<Rightarrow> instant \<Rightarrow> db" where
  "engage_salad_kill_switch d reason evaluated_at =
     (let deployments = sort_key sd_version_no
            (filter (\<lambda>x. sd_desired_state x \<noteq> DesiredSTOPPED) (db_deployments d));
          d1 = fold (stop_deployment reason evaluated_at) deployments d;
          leases = sort_key (\<lambda>l. (wl_started_at l, wl_id l)) (filter live_lease (db_leases d1))
      in fold (fail_lease reason evaluated_at) leases d1)"

definition apply_evaluation ::
  "db \<Rightarrow> ProviderBudgetGuard \<Rightarrow> BudgetSnapshot \<Rightarrow> db \<times> ProviderBudgetGuard \<times> BudgetSnapshot" where
  "apply_evaluation d g s =
     (let reason = limit_reason s 0 in
      case set_guard_state d g reason (bs_evaluated_at s) of (d1, g1) \<Rightarrow>
        let d2 = (case reason of
                Some r \<Rightarrow> if pb_provider g1 = ''salad'' then engage_salad_kill_switch d1 r (bs_evaluated_at s)
                          else d1
              | None \<Rightarrow> d1)
        in (d2, g1, with_guard s g1))"

definition reevaluated :: "db \<Rightarrow> ProviderBudgetGuard \<Rightarrow> instant \<Rightarrow> db \<times> BudgetSnapshot" where
  "reevaluated d g evaluated_at =
     (case apply_evaluation d g (evaluate_locked d g evaluated_at) of (d1, g1, s) \<Rightarrow>
        (d1, with_guard s g1))"

section \<open>Operations\<close>

definition ensure_guard_row ::
  "(db \<Rightarrow> db) \<Rightarrow> uuid \<Rightarrow> db \<Rightarrow> string \<Rightarrow> int \<Rightarrow> int \<Rightarrow> instant
    \<Rightarrow> budget_error + (db \<times> ProviderBudgetGuard \<times> bool)" where
  "ensure_guard_row interfere new_id d provider daily_limit monthly_limit evaluated_at =
     (case get_guard_locked d provider of
        Some g \<Rightarrow> Inr (d, g, False)
      | None \<Rightarrow>
          (let candidate = \<lparr>pb_id = new_id, pb_provider = provider, pb_currency = ''USD'',
                 pb_daily_limit_microusd = daily_limit, pb_monthly_limit_microusd = monthly_limit,
                 pb_state = BudgetOPEN, pb_blocked_reason = None, pb_blocked_at = None,
                 pb_lock_version = 1, pb_updated_at = evaluated_at\<rparr>;
               d1 = interfere d
           in if get_guard new_id d1 = None \<and> get_guard_locked d1 provider = None
              then Inr (d1\<lparr>db_guards := db_guards d1 @ [candidate]\<rparr>, candidate, True)
              else (case get_guard_locked d1 provider of
                      None \<Rightarrow> Inl (BudgetConflictError ''budget guard could not be initialized'')
                    | Some g \<Rightarrow> Inr (d1, g, False))))"

definition ensure_budget_guard ::
  "(db \<Rightarrow> db) \<Rightarrow> uuid \<Rightarrow> instant \<Rightarrow> db \<Rightarrow> string \<Rightarrow> pydecimal \<Rightarrow> pydecimal \<Rightarrow> pydatetime option
    \<Rightarrow> budget_error + (db \<times> BudgetSnapshot)" where
  "ensure_budget_guard interfere new_id clock d provider0 daily_limit_usd monthly_limit_usd now =
     bindE (validated_provider provider0) (\<lambda>provider.
     bindE (evaluation_time clock now) (\<lambda>evaluated_at.
     bindE (usd_to_microusd daily_limit_usd) (\<lambda>daily_limit.
     bindE (usd_to_microusd monthly_limit_usd) (\<lambda>monthly_limit.
     bindE (validate_limits daily_limit monthly_limit) (\<lambda>_.
     bindE (ensure_guard_row interfere new_id d provider daily_limit monthly_limit evaluated_at)
       (\<lambda>(d1, g, created).
        let limits_changed = (pb_daily_limit_microusd g \<noteq> daily_limit
              \<or> pb_monthly_limit_microusd g \<noteq> monthly_limit);
            g1 = (if limits_changed
              then g\<lparr>pb_daily_limit_microusd := daily_limit, pb_monthly_limit_microusd := monthly_limit,
                     pb_lock_version := pb_lock_version g + 1, pb_updated_at := evaluated_at\<rparr>
              else g);
            d2 = (if limits_changed then put_guard g1 d1 else d1)
        in case apply_evaluation d2 g1 (evaluate_locked d2 g1 evaluated_at) of (d3, g2, s) \<Rightarrow>
             let d4 = (if created \<or> limits_changed
                   then add_audit (budget_audit_event ''provider_budget.configured''
                          ''provider_budget_guard'' (pb_id g2) (guard_correlation g2)
                          [(''daily_limit_microusd'', PInt daily_limit),
                           (''monthly_limit_microusd'', PInt monthly_limit)] evaluated_at) d3
                   else d3)
             in Inr (d4, with_guard s g2)))))))"

definition reevaluate_budget_guard ::
  "instant \<Rightarrow> db \<Rightarrow> string \<Rightarrow> pydatetime option \<Rightarrow> budget_error + (db \<times> BudgetSnapshot)" where
  "reevaluate_budget_guard clock d provider0 now =
     bindE (validated_provider provider0) (\<lambda>provider.
     bindE (evaluation_time clock now) (\<lambda>evaluated_at.
     bindE (require_guard_locked d provider) (\<lambda>g.
     Inr (reevaluated d g evaluated_at))))"

definition preflight_attempt_budget ::
  "instant \<Rightarrow> db \<Rightarrow> string \<Rightarrow> int \<Rightarrow> pydatetime option \<Rightarrow> budget_error + (db \<times> ReservationDecision)" where
  "preflight_attempt_budget clock d provider0 amount now =
     bindE (validated_provider provider0) (\<lambda>provider.
     bindE (validate_positive_microusd amount) (\<lambda>_.
     bindE (evaluation_time clock now) (\<lambda>evaluated_at.
     bindE (require_guard_locked d provider) (\<lambda>g.
       let s = evaluate_locked d g evaluated_at;
           reason = limit_reason s amount
       in case set_guard_state d g reason evaluated_at of (d1, g1) \<Rightarrow>
            Inr (d1, \<lparr>rd_accepted = (reason = None), rd_replayed = False, rd_reason = reason,
                      rd_requested_microusd = amount, rd_snapshot = with_guard s g1\<rparr>)))))"

definition reserved_attempt :: "int \<Rightarrow> instant \<Rightarrow> GenerationAttempt \<Rightarrow> GenerationAttempt" where
  "reserved_attempt amount evaluated_at a = a\<lparr>ga_cost_reservation_microusd := amount,
     ga_state := AttemptSUBMITTING, ga_submit_started_at := Some evaluated_at,
     ga_lock_version := ga_lock_version a + 1\<rparr>"

definition attempt_correlation :: "GenerationAttempt \<Rightarrow> string" where
  "attempt_correlation a = ''generation-attempt:'' @ uuid_str (ga_id a)"

definition provider_attempt :: "db \<Rightarrow> string \<Rightarrow> uuid \<Rightarrow> budget_error + GenerationAttempt" where
  "provider_attempt d provider attempt_id =
     (case get_attempt attempt_id d of
        None \<Rightarrow> Inl BudgetAttemptNotFoundError
      | Some a \<Rightarrow> if ga_provider a \<noteq> provider
          then Inl (BudgetConflictError ''generation attempt belongs to another provider'') else Inr a)"

definition reserve_attempt_budget ::
  "instant \<Rightarrow> db \<Rightarrow> string \<Rightarrow> uuid \<Rightarrow> int \<Rightarrow> pydatetime option \<Rightarrow> budget_error + (db \<times> ReservationDecision)" where
  "reserve_attempt_budget clock d provider0 attempt_id amount now =
     bindE (validated_provider provider0) (\<lambda>provider.
     bindE (validate_positive_microusd amount) (\<lambda>_.
     bindE (evaluation_time clock now) (\<lambda>evaluated_at.
     bindE (require_guard_locked d provider) (\<lambda>g.
     bindE (provider_attempt d provider attempt_id) (\<lambda>a.
       if ga_cost_reservation_microusd a = amount \<and> ga_reservation_released_at a = None
          \<and> ga_state a = AttemptSUBMITTING
       then (case reevaluated d g evaluated_at of (d1, s) \<Rightarrow>
              Inr (d1, \<lparr>rd_accepted = True, rd_replayed = True, rd_reason = None,
                        rd_requested_microusd = amount, rd_snapshot = s\<rparr>))
       else if ga_state a \<noteq> AttemptCREATED \<or> ga_cost_reservation_microusd a \<noteq> 0
          \<or> ga_reservation_released_at a \<noteq> None
       then Inl (BudgetConflictError ''generation attempt is not reservable'')
       else
         (let s = evaluate_locked d g evaluated_at;
              reason = limit_reason s amount
          in case set_guard_state d g reason evaluated_at of (d1, g1) \<Rightarrow>
             if reason \<noteq> None
             then Inr (d1, \<lparr>rd_accepted = False, rd_replayed = False, rd_reason = reason,
                            rd_requested_microusd = amount, rd_snapshot = with_guard s g1\<rparr>)
             else
               (let d2 = add_audit (budget_audit_event ''provider_budget.reserved'' ''generation_attempt''
                           (ga_id a) (attempt_correlation a) [(''amount_microusd'', PInt amount)] evaluated_at)
                         (put_attempt (reserved_attempt amount evaluated_at a) d1)
                in Inr (d2, \<lparr>rd_accepted = True, rd_replayed = False, rd_reason = None,
                             rd_requested_microusd = amount,
                             rd_snapshot = with_guard (evaluate_locked d2 g1 evaluated_at) g1\<rparr>))))))))"

definition same_spend_entry ::
  "ProviderSpendEntry \<Rightarrow> SpendEntryType \<Rightarrow> int \<Rightarrow> instant \<Rightarrow> uuid option \<Rightarrow> uuid option \<Rightarrow> bool" where
  "same_spend_entry existing entry_type amount effective_at attempt_id deployment_id \<longleftrightarrow>
     se_entry_type existing = entry_type \<and> se_amount_microusd existing = amount
     \<and> se_effective_at existing = effective_at \<and> se_generation_attempt_id existing = attempt_id
     \<and> se_salad_deployment_id existing = deployment_id"

definition spend_attempt_check :: "db \<Rightarrow> string \<Rightarrow> uuid option \<Rightarrow> budget_error + unit" where
  "spend_attempt_check d provider attempt_id =
     (case attempt_id of None \<Rightarrow> Inr ()
      | Some k \<Rightarrow> bindE (provider_attempt d provider k) (\<lambda>_. Inr ()))"

definition spend_recorded_event :: "uuid \<Rightarrow> int \<Rightarrow> SpendEntryType \<Rightarrow> instant \<Rightarrow> AuditEvent" where
  "spend_recorded_event entry_id amount entry_type evaluated_at =
     budget_audit_event ''provider_budget.spend_recorded'' ''provider_spend_entry'' entry_id
       (''provider-spend:'' @ uuid_str entry_id)
       [(''amount_microusd'', PInt amount), (''entry_type'', PStr (SpendEntryType_value entry_type))]
       evaluated_at"

definition record_spend_entry ::
  "uuid \<Rightarrow> instant \<Rightarrow> db \<Rightarrow> string \<Rightarrow> string \<Rightarrow> SpendEntryType \<Rightarrow> int \<Rightarrow> pydatetime \<Rightarrow> uuid option
    \<Rightarrow> uuid option \<Rightarrow> pydatetime option \<Rightarrow> budget_error + (db \<times> SpendEntryResult)" where
  "record_spend_entry new_id clock d provider0 dedupe_key0 entry_type amount effective_at0 attempt_id
     deployment_id now =
     bindE (validated_provider provider0) (\<lambda>provider.
     bindE (validated_dedupe_key dedupe_key0) (\<lambda>dedupe_key.
     bindE (validate_spend_amount entry_type amount) (\<lambda>_.
     bindE (budget_as_utc effective_at0) (\<lambda>effective_at.
     bindE (evaluation_time clock now) (\<lambda>evaluated_at.
     bindE (require_guard_locked d provider) (\<lambda>g.
       case find (\<lambda>e. se_budget_guard_id e = pb_id g \<and> se_dedupe_key e = dedupe_key) (db_entries d) of
         Some existing \<Rightarrow>
           if \<not> same_spend_entry existing entry_type amount effective_at attempt_id deployment_id
           then Inl (BudgetConflictError ''spend idempotency key conflicts with stored data'')
           else (case reevaluated d g evaluated_at of (d1, s) \<Rightarrow>
                  Inr (d1, \<lparr>sr_entry_id = se_id existing, sr_replayed = True, sr_snapshot = s\<rparr>))
       | None \<Rightarrow>
           bindE (spend_attempt_check d provider attempt_id) (\<lambda>_.
             let entry = \<lparr>se_id = new_id, se_budget_guard_id = pb_id g, se_dedupe_key = dedupe_key,
                   se_entry_type = entry_type, se_amount_microusd = amount,
                   se_effective_at = effective_at, se_salad_deployment_id = deployment_id,
                   se_generation_attempt_id = attempt_id, se_source_reference = None, se_detail = [],
                   se_created_at = evaluated_at\<rparr>;
                 d1 = add_audit (spend_recorded_event new_id amount entry_type evaluated_at) (d\<lparr>db_entries := db_entries d @ [entry]\<rparr>)
             in case reevaluated d1 g evaluated_at of (d2, s) \<Rightarrow>
                  Inr (d2, \<lparr>sr_entry_id = new_id, sr_replayed = False, sr_snapshot = s\<rparr>))))))))"

definition terminal_attempt_states :: "GenerationAttemptState list" where
  "terminal_attempt_states = [AttemptSUCCEEDED, AttemptFAILED, AttemptCANCELLED]"

definition released_attempt :: "instant \<Rightarrow> GenerationAttempt \<Rightarrow> GenerationAttempt" where
  "released_attempt evaluated_at a = a\<lparr>ga_reservation_released_at := Some evaluated_at,
     ga_lock_version := ga_lock_version a + 1\<rparr>"

definition release_attempt_reservation ::
  "instant \<Rightarrow> db \<Rightarrow> string \<Rightarrow> uuid \<Rightarrow> pydatetime option \<Rightarrow> budget_error + (db \<times> ReservationReleaseResult)" where
  "release_attempt_reservation clock d provider0 attempt_id now =
     bindE (validated_provider provider0) (\<lambda>provider.
     bindE (evaluation_time clock now) (\<lambda>evaluated_at.
     bindE (require_guard_locked d provider) (\<lambda>g.
     bindE (provider_attempt d provider attempt_id) (\<lambda>a.
       if ga_state a \<notin> set terminal_attempt_states \<or> ga_completed_at a = None
       then Inl (BudgetConflictError ''reservation requires a definitive terminal attempt'')
       else if ga_cost_reservation_microusd a \<le> 0
       then Inl (BudgetConflictError ''generation attempt has no active reservation'')
       else if ga_reservation_released_at a \<noteq> None
       then (case reevaluated d g evaluated_at of (d1, s) \<Rightarrow>
              Inr (d1, \<lparr>rr_released = False, rr_replayed = True, rr_snapshot = s\<rparr>))
       else
         (let d1 = add_audit (budget_audit_event ''provider_budget.reservation_released''
                     ''generation_attempt'' (ga_id a) (attempt_correlation a)
                     [(''amount_microusd'', PInt (ga_cost_reservation_microusd a))] evaluated_at)
                   (put_attempt (released_attempt evaluated_at a) d)
          in case reevaluated d1 g evaluated_at of (d2, s) \<Rightarrow>
               Inr (d2, \<lparr>rr_released = True, rr_replayed = False, rr_snapshot = s\<rparr>))))))"

end
