(* ===== verification/WarmLeases.thy ===== *)
theory WarmLeases
  imports Budgets
begin

text \<open>
  src/gen_automation/services/experiment_warm_leases.py: the bounded lease that keeps one GPU replica
  warm for experiments. A lease is admitted against the provider budget for its whole 90 minutes,
  becomes active when a replica is ready, is renewed by activity and extensions within its hard cap,
  and ends on request, by expiry, or by the budget's kill switch.

  Parameters: \<open>clock\<close> is \<open>datetime.now(UTC)\<close>; \<open>new_id\<close> the identifier of the new row; \<open>locked\<close>
  the rows that \<open>SKIP LOCKED\<close> passes over; \<open>updated\<close> the server-maintained column \<open>updated_at\<close>; \<open>others k\<close>
  what other transactions commit between the query of the candidates and the locking read of the
  candidate \<open>k\<close>; \<open>settings\<close> tells, when given, whether the manifest of a checkpoint and LoRAs is available
  (services/managed_artifact_manifest.py, which only reads).
\<close>

definition DEFAULT_EXPERIMENT_WARM_LEASE_SECONDS :: int where "DEFAULT_EXPERIMENT_WARM_LEASE_SECONDS = 15 * 60"
definition MAX_EXPERIMENT_WARM_LEASE_SECONDS :: int where "MAX_EXPERIMENT_WARM_LEASE_SECONDS = 90 * 60"
definition MIN_EXPERIMENT_WARM_LEASE_SECONDS :: int where "MIN_EXPERIMENT_WARM_LEASE_SECONDS = 60"

definition usable_states :: "ExperimentWarmLeaseState list" where
  "usable_states = [LeaseSTARTING, LeaseACTIVE]"

definition busy_attempt_states :: "GenerationAttemptState list" where
  "busy_attempt_states = [AttemptSUBMITTING, AttemptSUBMITTED, AttemptRUNNING, AttemptUNKNOWN, AttemptCANCEL_REQUESTED]"

text \<open>The exceptions of the module, the \<open>ValueError\<close> of its checks, and those of the budget guard.\<close>

datatype lease_error =
    LeaseNotFoundError string
  | LeaseConflictError string
  | LeaseBudgetError string
  | LeaseValueError string
  | LeaseGuardError budget_error

record ExperimentWarmLeaseStatus =
  st_lease_id :: uuid
  st_salad_deployment_id :: uuid
  st_state :: ExperimentWarmLeaseState
  st_started_at :: instant
  st_expires_at :: instant
  st_hard_expires_at :: instant
  st_ended_at :: "instant option"
  st_last_activity_at :: "instant option"
  st_idle_ttl_seconds :: int
  st_max_cost_microusd :: int
  st_provider_version :: "int option"
  st_requested_checkpoint_sha256 :: "string option"
  st_requested_lora_sha256s :: "string list option"
  st_ready :: bool
  st_usable :: bool
  st_remaining_seconds :: int
  st_hard_remaining_seconds :: int

type_synonym lease_settings = "(db \<Rightarrow> string \<Rightarrow> string list \<Rightarrow> bool) option"

section \<open>Validation\<close>

fun lease_as_utc :: "pydatetime \<Rightarrow> instant" where
  "lease_as_utc (Naive t) = t"
| "lease_as_utc (Aware t) = t"

definition lease_time :: "instant \<Rightarrow> pydatetime option \<Rightarrow> instant" where
  "lease_time clock now = lease_as_utc (case now of None \<Rightarrow> Aware clock | Some v \<Rightarrow> v)"

definition validate_actor :: "string \<Rightarrow> lease_error + string" where
  "validate_actor actor =
     (let normalized = py_strip actor in
      if normalized = [] \<or> 200 < length normalized \<or> list_ex (\<lambda>c. ch c < 32) normalized
      then Inl (LeaseValueError ''actor is invalid'') else Inr normalized)"

definition validate_duration :: "int \<Rightarrow> lease_error + int" where
  "validate_duration duration_seconds =
     (if \<not> (MIN_EXPERIMENT_WARM_LEASE_SECONDS \<le> duration_seconds
          \<and> duration_seconds \<le> MAX_EXPERIMENT_WARM_LEASE_SECONDS)
      then Inl (LeaseValueError ''warm lease duration must be between 60 and 5400 seconds'')
      else Inr duration_seconds)"

definition validate_sha256 :: "string \<Rightarrow> string \<Rightarrow> lease_error + string" where
  "validate_sha256 value label =
     (if length value \<noteq> 64 \<or> value \<noteq> py_lower value \<or> list_ex (\<lambda>c. \<not> is_lower_hex c) value
      then Inl (LeaseValueError (label @ '' must be a lowercase SHA-256 digest'')) else Inr value)"

definition requested_artifact_selection ::
  "string option \<Rightarrow> string list option \<Rightarrow> lease_error + (string option \<times> string list option)" where
  "requested_artifact_selection requested_checkpoint requested_loras =
     (case requested_checkpoint of
        None \<Rightarrow> (case requested_loras of
            Some (_ # _) \<Rightarrow> Inl (LeaseValueError ''requested LoRAs require a requested checkpoint'')
          | _ \<Rightarrow> Inr (None, None))
      | Some checkpoint0 \<Rightarrow>
          bindE (validate_sha256 checkpoint0 ''requested checkpoint'') (\<lambda>checkpoint.
            let loras = (case requested_loras of None \<Rightarrow> [] | Some ls \<Rightarrow> ls) in
            if 8 < length loras then Inl (LeaseValueError ''at most 8 requested LoRAs are supported'')
            else if \<not> distinct loras then Inl (LeaseValueError ''requested LoRA identities must be unique'')
            else bindE (mapE (\<lambda>v. validate_sha256 v ''requested LoRA'') loras) (\<lambda>validated.
              Inr (Some checkpoint, Some (sort validated)))))"

definition validate_requested_artifact_manifest ::
  "lease_settings \<Rightarrow> db \<Rightarrow> string option \<Rightarrow> string list option \<Rightarrow> lease_error + unit" where
  "validate_requested_artifact_manifest settings d checkpoint loras =
     (case checkpoint of
        None \<Rightarrow> Inr ()
      | Some sha \<Rightarrow> (case settings of
            None \<Rightarrow> Inl (LeaseValueError ''settings are required for an explicit warm artifact selection'')
          | Some available \<Rightarrow>
              if available d sha (case loras of None \<Rightarrow> [] | Some ls \<Rightarrow> ls) then Inr ()
              else Inl (LeaseConflictError ''requested warm artifact selection is unavailable'')))"

definition maximum_cost :: "int \<Rightarrow> int \<Rightarrow> lease_error + int" where
  "maximum_cost max_hourly_cost_microusd duration_seconds =
     (if max_hourly_cost_microusd \<le> 0 \<or> duration_seconds \<le> 0
      then Inl (LeaseValueError ''warm lease cost envelope is invalid'')
      else Inr (max 1 ((max_hourly_cost_microusd * duration_seconds + 3599) div 3600)))"

definition preflight_budget :: "BudgetSnapshot \<Rightarrow> int \<Rightarrow> lease_error + unit" where
  "preflight_budget snapshot additional_microusd =
     (if bs_state snapshot \<noteq> BudgetOPEN then Inl (LeaseBudgetError ''Salad budget guard is blocked'')
      else if additional_microusd \<le> 0 then Inl (LeaseValueError ''warm lease budget request must be positive'')
      else if bs_daily_limit_microusd snapshot < bs_daily_committed_microusd snapshot + additional_microusd
      then Inl (LeaseBudgetError ''daily Salad budget cannot cover the warm lease'')
      else if bs_monthly_limit_microusd snapshot < bs_monthly_committed_microusd snapshot + additional_microusd
      then Inl (LeaseBudgetError ''monthly Salad budget cannot cover the warm lease'')
      else Inr ())"

definition require_warmable_deployment :: "SaladDeployment \<Rightarrow> lease_error + unit" where
  "require_warmable_deployment x =
     (if \<not> sd_is_current x \<or> sd_state x \<noteq> DeploymentACTIVE \<or> sd_desired_state x \<noteq> DesiredACTIVE
         \<or> sd_provider_queue_id x = None \<or> sd_provider_container_group_id x = None
      then Inl (LeaseConflictError ''Salad deployment is not warmable'')
      else if sd_min_replicas x \<noteq> 0 \<or> sd_max_replicas x \<noteq> 1 \<or> sd_desired_queue_length x \<noteq> 1
      then Inl (LeaseConflictError
             ''experiment warming requires the single-replica scale-to-zero deployment'')
      else Inr ())"

definition is_usable :: "ExperimentWarmLease \<Rightarrow> instant \<Rightarrow> bool" where
  "is_usable lease now =
     (if wl_state lease = LeaseSTARTING then now < wl_hard_expires_at lease
      else wl_state lease = LeaseACTIVE \<and> now < wl_expires_at lease \<and> now < wl_hard_expires_at lease)"

definition activity_floor :: "ExperimentWarmLease \<Rightarrow> instant" where
  "activity_floor lease = (case wl_last_activity_at lease of None \<Rightarrow> wl_started_at lease | Some t \<Rightarrow> t)"

definition completed_after :: "instant \<Rightarrow> GenerationAttempt \<Rightarrow> bool" where
  "completed_after floor a = (case ga_completed_at a of None \<Rightarrow> False | Some t \<Rightarrow> floor < t)"

definition has_busy_or_unobserved_completion :: "db \<Rightarrow> ExperimentWarmLease \<Rightarrow> bool" where
  "has_busy_or_unobserved_completion d lease =
     list_ex (\<lambda>a. ga_salad_deployment_id a = Some (wl_salad_deployment_id lease)
        \<and> (ga_state a \<in> set busy_attempt_states \<or> completed_after (activity_floor lease) a)) (db_attempts d)"

text \<open>\<open>int((end - now).total_seconds())\<close>, at least 0.\<close>

definition remaining_seconds :: "instant \<Rightarrow> instant \<Rightarrow> int" where
  "remaining_seconds end_at now = max 0 ((end_at - now) div us_per_second)"

definition lease_status :: "ExperimentWarmLease \<Rightarrow> SaladDeployment \<Rightarrow> instant \<Rightarrow> ExperimentWarmLeaseStatus" where
  "lease_status lease x now =
     (let usable = is_usable lease now in
      \<lparr>st_lease_id = wl_id lease, st_salad_deployment_id = wl_salad_deployment_id lease,
       st_state = wl_state lease, st_started_at = wl_started_at lease, st_expires_at = wl_expires_at lease,
       st_hard_expires_at = wl_hard_expires_at lease, st_ended_at = wl_ended_at lease,
       st_last_activity_at = wl_last_activity_at lease, st_idle_ttl_seconds = wl_idle_ttl_seconds lease,
       st_max_cost_microusd = wl_max_cost_microusd lease, st_provider_version = wl_provider_version lease,
       st_requested_checkpoint_sha256 = wl_requested_checkpoint_sha256 lease,
       st_requested_lora_sha256s = wl_requested_lora_sha256s lease,
       st_ready = (usable \<and> wl_state lease = LeaseACTIVE
          \<and> 1 \<le> (case sd_ready_replicas x of None \<Rightarrow> 0 | Some n \<Rightarrow> n)),
       st_usable = usable,
       st_remaining_seconds =
         (if wl_state lease = LeaseACTIVE then remaining_seconds (wl_expires_at lease) now else 0),
       st_hard_remaining_seconds = remaining_seconds (wl_hard_expires_at lease) now\<rparr>)"

definition lease_audit ::
  "ExperimentWarmLease \<Rightarrow> string \<Rightarrow> string \<Rightarrow> instant \<Rightarrow> (string \<times> pyval) list \<Rightarrow> db \<Rightarrow> db" where
  "lease_audit lease actor action occurred_at detail d =
     add_audit \<lparr>ae_id = None, ae_actor = actor, ae_action = action, ae_resource_type = ''experiment_warm_lease'',
       ae_resource_id = wl_id lease, ae_correlation_id = ''experiment-warm-lease:'' @ uuid_str (wl_id lease),
       ae_detail = detail, ae_occurred_at = occurred_at\<rparr> d"

definition guard_reevaluated :: "db \<Rightarrow> instant \<Rightarrow> lease_error + (db \<times> BudgetSnapshot)" where
  "guard_reevaluated d at =
     (case reevaluate_budget_guard at d ''salad'' (Some (Aware at)) of
        Inl e \<Rightarrow> Inl (LeaseGuardError e) | Inr r \<Rightarrow> Inr r)"

definition deployment_row :: "db \<Rightarrow> uuid \<Rightarrow> string \<Rightarrow> lease_error + SaladDeployment" where
  "deployment_row d k message =
     (case get_deployment k d of None \<Rightarrow> Inl (LeaseNotFoundError message) | Some x \<Rightarrow> Inr x)"

definition live_lease_of :: "db \<Rightarrow> uuid \<Rightarrow> ExperimentWarmLease option" where
  "live_lease_of d deployment_id =
     find (\<lambda>l. wl_salad_deployment_id l = deployment_id \<and> live_lease l) (db_leases d)"

section \<open>Starting and reading a lease\<close>

definition expired_row :: "instant \<Rightarrow> ExperimentWarmLease \<Rightarrow> ExperimentWarmLease" where
  "expired_row now l = l\<lparr>wl_state := LeaseEXPIRED, wl_ended_at := Some now, wl_lock_version := wl_lock_version l + 1\<rparr>"

definition expire_lease :: "string \<Rightarrow> string \<Rightarrow> instant \<Rightarrow> ExperimentWarmLease \<Rightarrow> db \<Rightarrow> db" where
  "expire_lease actor reason now l d =
     lease_audit l actor ''experiment_warm_lease.expired'' now [(''reason'', PStr reason)]
       (put_lease (expired_row now l) d)"

definition optional_str :: "string option \<Rightarrow> pyval" where
  "optional_str v = (case v of None \<Rightarrow> PNone | Some s \<Rightarrow> PStr s)"

definition optional_strs :: "string list option \<Rightarrow> pyval" where
  "optional_strs v = (case v of None \<Rightarrow> PNone | Some ss \<Rightarrow> PList (map PStr ss))"

text \<open>The live lease of the deployment gives way when it is neither usable nor ending.\<close>

definition supersede_existing ::
  "db \<Rightarrow> BudgetSnapshot \<Rightarrow> uuid \<Rightarrow> instant \<Rightarrow> lease_error + (db \<times> BudgetSnapshot)" where
  "supersede_existing d budget deployment_id requested_at =
     (case live_lease_of d deployment_id of
        None \<Rightarrow> Inr (d, budget)
      | Some existing \<Rightarrow>
          if is_usable existing requested_at \<or> wl_state existing = LeaseENDING
          then Inl (LeaseConflictError ''an experiment warm lease is already live'')
          else guard_reevaluated
                 (expire_lease ''experiment-warm-runtime'' ''superseded_expired_lease'' requested_at existing d)
                 requested_at)"

definition starting_lease ::
  "uuid \<Rightarrow> uuid \<Rightarrow> string \<Rightarrow> int \<Rightarrow> int \<Rightarrow> string option \<Rightarrow> string list option \<Rightarrow> instant \<Rightarrow> ExperimentWarmLease" where
  "starting_lease new_id deployment_id actor duration_seconds cost checkpoint loras requested_at =
     (let hard = requested_at + MAX_EXPERIMENT_WARM_LEASE_SECONDS * us_per_second in
      \<lparr>wl_id = new_id, wl_salad_deployment_id = deployment_id, wl_state = LeaseSTARTING,
       wl_started_at = requested_at, wl_expires_at = hard, wl_hard_expires_at = hard, wl_ended_at = None,
       wl_last_activity_at = None, wl_idle_ttl_seconds = duration_seconds, wl_max_cost_microusd = cost,
       wl_provider_version = None, wl_requested_checkpoint_sha256 = checkpoint,
       wl_requested_lora_sha256s = loras, wl_created_by = actor, wl_lock_version = 1\<rparr>)"

definition insert_lease :: "ExperimentWarmLease \<Rightarrow> db \<Rightarrow> db" where
  "insert_lease l d = d\<lparr>db_leases := db_leases d @ [l]\<rparr>"

definition reconcile_at :: "instant \<Rightarrow> SaladDeployment \<Rightarrow> SaladDeployment" where
  "reconcile_at t x = x\<lparr>sd_reconcile_after := Some t\<rparr>"

definition start_experiment_warm_lease ::
  "uuid \<Rightarrow> lease_settings \<Rightarrow> instant \<Rightarrow> db \<Rightarrow> uuid \<Rightarrow> string \<Rightarrow> int \<Rightarrow> string option \<Rightarrow> string list option
    \<Rightarrow> pydatetime option \<Rightarrow> lease_error + (db \<times> ExperimentWarmLeaseStatus)" where
  "start_experiment_warm_lease new_id settings clock d deployment_id actor0 duration_seconds0 checkpoint0 loras0 now =
     (let requested_at = lease_time clock now in
     bindE (validate_duration duration_seconds0) (\<lambda>duration_seconds.
     bindE (validate_actor actor0) (\<lambda>actor.
     bindE (requested_artifact_selection checkpoint0 loras0) (\<lambda>(checkpoint, loras).
     bindE (validate_requested_artifact_manifest settings d checkpoint loras) (\<lambda>_.
     bindE (guard_reevaluated d requested_at) (\<lambda>(d1, budget0).
     bindE (deployment_row d1 deployment_id ''Salad deployment was not found'') (\<lambda>x.
     bindE (require_warmable_deployment x) (\<lambda>_.
     bindE (supersede_existing d1 budget0 deployment_id requested_at) (\<lambda>(d2, budget).
     bindE (maximum_cost (sd_max_hourly_cost_microusd x) MAX_EXPERIMENT_WARM_LEASE_SECONDS) (\<lambda>cost.
     bindE (preflight_budget budget cost) (\<lambda>_.
       let lease = starting_lease new_id deployment_id actor duration_seconds cost checkpoint loras requested_at;
           x' = (case get_deployment deployment_id d2 of None \<Rightarrow> x | Some y \<Rightarrow> y);
           d3 = put_deployment (reconcile_at requested_at x') (insert_lease lease d2);
           d4 = lease_audit lease actor ''experiment_warm_lease.started'' requested_at
             [(''duration_seconds'', PInt duration_seconds),
              (''hard_max_seconds'', PInt MAX_EXPERIMENT_WARM_LEASE_SECONDS),
              (''max_cost_microusd'', PInt cost),
              (''requested_checkpoint_sha256'', optional_str checkpoint),
              (''requested_lora_sha256s'', optional_strs loras)] d3
       in Inr (d4, lease_status lease (reconcile_at requested_at x') requested_at))))))))))))"

definition get_experiment_warm_lease_status ::
  "instant \<Rightarrow> db \<Rightarrow> uuid \<Rightarrow> pydatetime option \<Rightarrow> lease_error + ExperimentWarmLeaseStatus" where
  "get_experiment_warm_lease_status clock d lease_id now =
     (case get_lease lease_id d of
        None \<Rightarrow> Inl (LeaseNotFoundError ''experiment warm lease was not found'')
      | Some lease \<Rightarrow> (case get_deployment (wl_salad_deployment_id lease) d of
            None \<Rightarrow> Inl (LeaseNotFoundError ''experiment warm lease was not found'')
          | Some x \<Rightarrow> Inr (lease_status lease x (lease_time clock now))))"

definition image_deployment :: "SaladDeployment \<Rightarrow> bool" where
  "image_deployment x \<longleftrightarrow> sd_is_current x \<and> sd_purpose x = PurposeIMAGE"

text \<open>The newest live lease of the current image deployment; equal start times in table order.\<close>

definition get_current_experiment_warm_lease_status ::
  "instant \<Rightarrow> db \<Rightarrow> pydatetime option \<Rightarrow> ExperimentWarmLeaseStatus option" where
  "get_current_experiment_warm_lease_status clock d now =
     (case sort_key (\<lambda>(l, x). - wl_started_at l)
         (concat (map (\<lambda>l. case get_deployment (wl_salad_deployment_id l) d of
              None \<Rightarrow> [] | Some x \<Rightarrow> if image_deployment x \<and> live_lease l then [(l, x)] else [])
            (db_leases d))) of
        [] \<Rightarrow> None
      | (l, x) # _ \<Rightarrow> Some (lease_status l x (lease_time clock now)))"

section \<open>Activity\<close>

definition touched_row :: "instant \<Rightarrow> ExperimentWarmLease \<Rightarrow> ExperimentWarmLease" where
  "touched_row now l = l\<lparr>wl_expires_at := max (wl_expires_at l)
       (min (now + wl_idle_ttl_seconds l * us_per_second) (wl_hard_expires_at l)),
     wl_last_activity_at := Some now, wl_lock_version := wl_lock_version l + 1\<rparr>"

definition touchable :: "ExperimentWarmLease \<Rightarrow> instant \<Rightarrow> bool \<Rightarrow> bool" where
  "touchable l now allow_idle_expired \<longleftrightarrow>
     \<not> (wl_state l \<noteq> LeaseACTIVE \<or> wl_hard_expires_at l \<le> now \<or> (\<not> allow_idle_expired \<and> wl_expires_at l \<le> now))
     \<and> (case wl_last_activity_at l of None \<Rightarrow> True | Some previous \<Rightarrow> \<not> now \<le> previous)"

definition touch_experiment_warm_lease_locked ::
  "instant \<Rightarrow> db \<Rightarrow> ExperimentWarmLease \<Rightarrow> string \<Rightarrow> pydatetime option \<Rightarrow> bool
    \<Rightarrow> lease_error + (db \<times> ExperimentWarmLease \<times> bool)" where
  "touch_experiment_warm_lease_locked clock d lease actor0 now allow_idle_expired =
     (let touched_at = lease_time clock now in
      bindE (validate_actor actor0) (\<lambda>actor.
        if \<not> touchable lease touched_at allow_idle_expired then Inr (d, lease, False)
        else (let lease' = touched_row touched_at lease in
              Inr (lease_audit lease' actor ''experiment_warm_lease.activity_touched'' touched_at
                     [(''expires_at'', PStr (isoformat (wl_expires_at lease')))] (put_lease lease' d),
                   lease', True))))"

definition differing_stack :: "ExperimentWarmLease \<Rightarrow> string option \<Rightarrow> string list option \<Rightarrow> bool" where
  "differing_stack lease checkpoint loras \<longleftrightarrow>
     checkpoint \<noteq> None \<and> (wl_requested_checkpoint_sha256 lease \<noteq> checkpoint
        \<or> Some (case wl_requested_lora_sha256s lease of None \<Rightarrow> [] | Some ls \<Rightarrow> ls) \<noteq> loras)"

definition durable_runtime_hold :: "db \<Rightarrow> ExperimentWarmLease \<Rightarrow> instant \<Rightarrow> bool" where
  "durable_runtime_hold d lease now \<longleftrightarrow> wl_state lease = LeaseACTIVE \<and> now < wl_hard_expires_at lease
     \<and> has_busy_or_unobserved_completion d lease"

definition ensure_experiment_warm_lease ::
  "uuid \<Rightarrow> lease_settings \<Rightarrow> instant \<Rightarrow> db \<Rightarrow> string \<Rightarrow> int \<Rightarrow> string option \<Rightarrow> string list option
    \<Rightarrow> pydatetime option \<Rightarrow> lease_error + (db \<times> ExperimentWarmLeaseStatus)" where
  "ensure_experiment_warm_lease new_id settings clock d actor0 duration_seconds0 checkpoint0 loras0 now =
     (let ensured_at = lease_time clock now in
     bindE (validate_duration duration_seconds0) (\<lambda>duration_seconds.
     bindE (validate_actor actor0) (\<lambda>actor.
     bindE (requested_artifact_selection checkpoint0 loras0) (\<lambda>(checkpoint, loras).
     case find image_deployment (db_deployments d) of
       None \<Rightarrow> Inl (LeaseNotFoundError ''current Salad deployment was not found'')
     | Some current \<Rightarrow>
     bindE (guard_reevaluated d ensured_at) (\<lambda>(d1, budget).
     if bs_state budget \<noteq> BudgetOPEN then Inl (LeaseBudgetError ''Salad budget guard is blocked'')
     else
     bindE (deployment_row d1 (sd_id current) ''current Salad deployment was not found'') (\<lambda>x.
     bindE (require_warmable_deployment x) (\<lambda>_.
     let fresh = start_experiment_warm_lease new_id settings clock d1 (sd_id x) actor duration_seconds
                   checkpoint loras (Some (Aware ensured_at)) in
     case live_lease_of d1 (sd_id x) of
       None \<Rightarrow> fresh
     | Some lease \<Rightarrow>
         bindE (validate_requested_artifact_manifest settings d1 checkpoint loras) (\<lambda>_.
         let hold = durable_runtime_hold d1 lease ensured_at in
         if differing_stack lease checkpoint loras
         then Inl (LeaseConflictError ''a different experiment artifact stack is already warm'')
         else if is_usable lease ensured_at \<or> hold
         then (if wl_state lease = LeaseACTIVE
               then bindE (touch_experiment_warm_lease_locked clock d1 lease actor (Some (Aware ensured_at)) hold)
                      (\<lambda>(d2, lease', _). Inr (d2, lease_status lease' x ensured_at))
               else Inr (d1, lease_status lease x ensured_at))
         else if wl_state lease = LeaseENDING
         then Inl (LeaseConflictError ''experiment warm lease is ending'')
         else fresh))))))))"

section \<open>Extending and ending\<close>

text \<open>The lease and its deployment, locked; both messages of the source are the same.\<close>

definition locked_lease :: "db \<Rightarrow> uuid \<Rightarrow> lease_error + (ExperimentWarmLease \<times> SaladDeployment)" where
  "locked_lease d lease_id =
     (case get_lease lease_id d of
        None \<Rightarrow> Inl (LeaseNotFoundError ''experiment warm lease was not found'')
      | Some lease \<Rightarrow> bindE (deployment_row d (wl_salad_deployment_id lease) ''experiment warm lease was not found'')
          (\<lambda>x. Inr (lease, x)))"

definition extended_row :: "instant \<Rightarrow> ExperimentWarmLease \<Rightarrow> ExperimentWarmLease" where
  "extended_row new_expiry l = l\<lparr>wl_expires_at := new_expiry, wl_lock_version := wl_lock_version l + 1\<rparr>"

definition extend_experiment_warm_lease ::
  "instant \<Rightarrow> db \<Rightarrow> uuid \<Rightarrow> string \<Rightarrow> int \<Rightarrow> pydatetime option \<Rightarrow> lease_error + (db \<times> ExperimentWarmLeaseStatus)" where
  "extend_experiment_warm_lease clock d lease_id actor0 extension_seconds0 now =
     (let extended_at = lease_time clock now in
     bindE (validate_duration extension_seconds0) (\<lambda>extension_seconds.
     bindE (validate_actor actor0) (\<lambda>actor.
     if get_lease lease_id d = None then Inl (LeaseNotFoundError ''experiment warm lease was not found'')
     else
     bindE (guard_reevaluated d extended_at) (\<lambda>(d1, budget).
     if bs_state budget \<noteq> BudgetOPEN then Inl (LeaseBudgetError ''Salad budget guard is blocked'')
     else
     bindE (locked_lease d1 lease_id) (\<lambda>(lease, x).
     bindE (require_warmable_deployment x) (\<lambda>_.
     if wl_state lease \<noteq> LeaseACTIVE \<or> \<not> is_usable lease extended_at
     then Inl (LeaseConflictError ''experiment warm lease is no longer extendable'')
     else
       (let new_expiry = max (wl_expires_at lease) extended_at + extension_seconds * us_per_second in
        if wl_hard_expires_at lease < new_expiry
        then Inl (LeaseConflictError ''experiment warm lease reached its 90-minute cap'')
        else
          (let lease' = extended_row new_expiry lease;
               d2 = lease_audit lease' actor ''experiment_warm_lease.extended'' extended_at
                 [(''extension_seconds'', PInt extension_seconds), (''expires_at'', PStr (isoformat new_expiry)),
                  (''max_cost_microusd'', PInt (wl_max_cost_microusd lease))] (put_lease lease' d1)
           in Inr (d2, lease_status lease' x extended_at)))))))))"

definition ending_row :: "ExperimentWarmLease \<Rightarrow> ExperimentWarmLease" where
  "ending_row l = l\<lparr>wl_state := LeaseENDING, wl_lock_version := wl_lock_version l + 1\<rparr>"

definition end_experiment_warm_lease ::
  "instant \<Rightarrow> db \<Rightarrow> uuid \<Rightarrow> string \<Rightarrow> pydatetime option \<Rightarrow> lease_error + (db \<times> ExperimentWarmLeaseStatus)" where
  "end_experiment_warm_lease clock d lease_id actor0 now =
     (let requested_at = lease_time clock now in
     bindE (validate_actor actor0) (\<lambda>actor.
     bindE (locked_lease d lease_id) (\<lambda>(lease, x).
     if wl_state lease = LeaseENDING then Inr (d, lease_status lease x requested_at)
     else if wl_state lease \<notin> set usable_states
     then Inl (LeaseConflictError ''experiment warm lease is already terminal'')
     else
       (let lease' = ending_row lease; x' = reconcile_at requested_at x;
            d1 = lease_audit lease' actor ''experiment_warm_lease.end_requested'' requested_at []
              (put_deployment x' (put_lease lease' d))
        in Inr (d1, lease_status lease' x' requested_at)))))"

section \<open>Expiry and completion\<close>

text \<open>\<open>SELECT ... ORDER BY ... LIMIT n FOR UPDATE SKIP LOCKED\<close> over the leases.\<close>

definition select_leases ::
  "(ExperimentWarmLease \<Rightarrow> bool) \<Rightarrow> (ExperimentWarmLease \<Rightarrow> 'k::linorder) \<Rightarrow> int \<Rightarrow> (uuid \<Rightarrow> bool) \<Rightarrow> db
    \<Rightarrow> ExperimentWarmLease list" where
  "select_leases P order limit locked d =
     take (nat limit) (filter (\<lambda>l. \<not> locked (wl_id l)) (sort_key order (filter P (db_leases d))))"

definition lease_is_due :: "instant \<Rightarrow> ExperimentWarmLease \<Rightarrow> bool" where
  "lease_is_due expired_at l \<longleftrightarrow>
     (wl_state l = LeaseSTARTING \<and> wl_hard_expires_at l \<le> expired_at)
   \<or> (wl_state l = LeaseACTIVE \<and> (wl_expires_at l \<le> expired_at \<or> wl_hard_expires_at l \<le> expired_at))"

text \<open>The \<open>UPDATE\<close> of the deployments that the terminated leases kept warm.\<close>

definition reconcile_deployments :: "instant \<Rightarrow> uuid list \<Rightarrow> db \<Rightarrow> db" where
  "reconcile_deployments t ids d =
     d\<lparr>db_deployments := map (\<lambda>x. if sd_id x \<in> set ids then reconcile_at t x else x) (db_deployments d)\<rparr>"

definition expire_experiment_warm_leases ::
  "(uuid \<Rightarrow> bool) \<Rightarrow> instant \<Rightarrow> db \<Rightarrow> string \<Rightarrow> int \<Rightarrow> pydatetime option \<Rightarrow> lease_error + (db \<times> uuid list)" where
  "expire_experiment_warm_leases locked clock d actor0 limit now =
     (if limit \<le> 0 \<or> 1000 < limit
      then Inl (LeaseValueError ''warm lease expiry limit must be between 1 and 1000'')
      else
        (let expired_at = lease_time clock now in
         bindE (validate_actor actor0) (\<lambda>actor.
           let leases = select_leases (lease_is_due expired_at) (\<lambda>l. (wl_expires_at l, wl_id l)) limit locked d;
               expired = filter (\<lambda>l. \<not> durable_runtime_hold d l expired_at) leases;
               d1 = fold (expire_lease actor ''absolute_expiry'' expired_at) expired d
           in Inr (if expired = [] then d1 else reconcile_deployments expired_at (map wl_salad_deployment_id expired) d1,
                   map wl_id expired))))"

definition ended_row :: "instant \<Rightarrow> ExperimentWarmLease \<Rightarrow> ExperimentWarmLease" where
  "ended_row now l = l\<lparr>wl_state := LeaseENDED, wl_ended_at := Some now, wl_lock_version := wl_lock_version l + 1\<rparr>"

definition finish_lease :: "string \<Rightarrow> instant \<Rightarrow> ExperimentWarmLease \<Rightarrow> db \<Rightarrow> db" where
  "finish_lease actor now l d =
     lease_audit l actor ''experiment_warm_lease.ended'' now [] (put_lease (ended_row now l) d)"

definition drained :: "db \<Rightarrow> ExperimentWarmLease \<Rightarrow> bool" where
  "drained d l \<longleftrightarrow> wl_state l = LeaseENDING \<and> (case get_deployment (wl_salad_deployment_id l) d of
      None \<Rightarrow> False | Some x \<Rightarrow> sd_observed_replicas x = Some 0 \<and> sd_ready_replicas x = Some 0)"

definition complete_ending_experiment_warm_leases ::
  "(uuid \<Rightarrow> bool) \<Rightarrow> (uuid \<Rightarrow> instant) \<Rightarrow> instant \<Rightarrow> db \<Rightarrow> string \<Rightarrow> int \<Rightarrow> pydatetime option
    \<Rightarrow> lease_error + (db \<times> uuid list)" where
  "complete_ending_experiment_warm_leases locked updated clock d actor0 limit now =
     (if limit \<le> 0 \<or> 1000 < limit
      then Inl (LeaseValueError ''warm lease completion limit must be between 1 and 1000'')
      else
        (let completed_at = lease_time clock now in
         bindE (validate_actor actor0) (\<lambda>actor.
           let leases = select_leases (drained d) (\<lambda>l. (updated (wl_id l), wl_id l)) limit locked d
           in Inr (fold (finish_lease actor completed_at) leases d, map wl_id leases))))"

section \<open>Activation\<close>

definition next_starting_experiment_warm_lease_id :: "instant \<Rightarrow> db \<Rightarrow> pydatetime option \<Rightarrow> uuid option" where
  "next_starting_experiment_warm_lease_id clock d now =
     (case sort_key (\<lambda>l. (wl_started_at l, wl_id l))
         (filter (\<lambda>l. wl_state l = LeaseSTARTING \<and> wl_provider_version l = None
            \<and> lease_time clock now < wl_hard_expires_at l) (db_leases d)) of
        [] \<Rightarrow> None | l # _ \<Rightarrow> Some (wl_id l))"

definition load_live_experiment_warm_lease_for_update ::
  "instant \<Rightarrow> db \<Rightarrow> uuid \<Rightarrow> pydatetime option \<Rightarrow> ExperimentWarmLease option" where
  "load_live_experiment_warm_lease_for_update clock d deployment_id now =
     (let observed_at = lease_time clock now in
      find (\<lambda>l. wl_salad_deployment_id l = deployment_id \<and>
        ((wl_state l = LeaseSTARTING \<and> observed_at < wl_hard_expires_at l)
       \<or> (wl_state l = LeaseACTIVE \<and> observed_at < wl_expires_at l \<and> observed_at < wl_hard_expires_at l)))
        (db_leases d))"

definition activated_row :: "instant \<Rightarrow> instant \<Rightarrow> int \<Rightarrow> ExperimentWarmLease \<Rightarrow> ExperimentWarmLease" where
  "activated_row now idle_expires_at provider_version l =
     l\<lparr>wl_state := LeaseACTIVE, wl_expires_at := idle_expires_at, wl_last_activity_at := Some now,
       wl_provider_version := Some provider_version, wl_lock_version := wl_lock_version l + 1\<rparr>"

text \<open>\<open>provider_version or lease.provider_version\<close>: a zero counts as missing.\<close>

definition py_or_version :: "int option \<Rightarrow> int option \<Rightarrow> int option" where
  "py_or_version a b = (case a of None \<Rightarrow> b | Some v \<Rightarrow> if v = 0 then b else Some v)"

definition activate_experiment_warm_lease_locked ::
  "instant \<Rightarrow> db \<Rightarrow> ExperimentWarmLease \<Rightarrow> int option \<Rightarrow> string \<Rightarrow> pydatetime option
    \<Rightarrow> lease_error + (db \<times> ExperimentWarmLease)" where
  "activate_experiment_warm_lease_locked clock d lease provider_version actor0 now =
     (let activated_at = lease_time clock now in
     bindE (validate_actor actor0) (\<lambda>actor.
     if wl_state lease = LeaseACTIVE then Inr (d, lease)
     else if wl_state lease \<noteq> LeaseSTARTING \<or> \<not> is_usable lease activated_at
     then Inl (LeaseConflictError ''experiment warm lease is not activatable'')
     else (case py_or_version provider_version (wl_provider_version lease) of
       None \<Rightarrow> Inl (LeaseConflictError ''experiment warm runtime has not been refreshed'')
     | Some version \<Rightarrow>
         if version \<le> 0 then Inl (LeaseValueError ''provider version must be positive'')
         else
           (let idle_expires_at = min (activated_at + wl_idle_ttl_seconds lease * us_per_second)
                  (wl_hard_expires_at lease) in
            if idle_expires_at \<le> activated_at
            then Inl (LeaseConflictError ''experiment warm lease reached its hard cap'')
            else
              (let lease' = activated_row activated_at idle_expires_at version lease in
               Inr (lease_audit lease' actor ''experiment_warm_lease.activated'' activated_at
                      [(''provider_version'', PInt version), (''expires_at'', PStr (isoformat idle_expires_at))]
                      (put_lease lease' d),
                    lease'))))))"

definition refreshed_row :: "int \<Rightarrow> ExperimentWarmLease \<Rightarrow> ExperimentWarmLease" where
  "refreshed_row v l = l\<lparr>wl_provider_version := Some v, wl_lock_version := wl_lock_version l + 1\<rparr>"

definition mark_experiment_warm_runtime_refreshed_locked ::
  "instant \<Rightarrow> db \<Rightarrow> ExperimentWarmLease \<Rightarrow> int \<Rightarrow> string \<Rightarrow> pydatetime option \<Rightarrow> lease_error + db" where
  "mark_experiment_warm_runtime_refreshed_locked clock d lease provider_version actor0 now =
     (let refreshed_at = lease_time clock now in
     bindE (validate_actor actor0) (\<lambda>actor.
     if provider_version \<le> 0 then Inl (LeaseValueError ''provider version must be positive'')
     else if wl_state lease \<noteq> LeaseSTARTING \<or> \<not> is_usable lease refreshed_at
     then Inl (LeaseConflictError ''experiment warm lease is not refreshable'')
     else if wl_provider_version lease \<noteq> None then Inr d
     else
       (let lease' = refreshed_row provider_version lease in
        Inr (lease_audit lease' actor ''experiment_warm_lease.runtime_refreshed'' refreshed_at
               [(''provider_version'', PInt provider_version)] (put_lease lease' d)))))"

definition activation_candidate :: "db \<Rightarrow> instant \<Rightarrow> ExperimentWarmLease \<Rightarrow> bool" where
  "activation_candidate d activated_at l \<longleftrightarrow>
     wl_state l = LeaseSTARTING \<and> wl_provider_version l \<noteq> None \<and> activated_at < wl_hard_expires_at l
   \<and> (case get_deployment (wl_salad_deployment_id l) d of
        None \<Rightarrow> False
      | Some x \<Rightarrow> (case sd_ready_replicas x of None \<Rightarrow> False | Some n \<Rightarrow> 1 \<le> n) \<and> image_deployment x
          \<and> sd_state x = DeploymentACTIVE \<and> sd_desired_state x = DesiredACTIVE)"

text \<open>The re-check of a candidate under the locks.\<close>

definition still_activatable :: "db \<Rightarrow> instant \<Rightarrow> uuid \<Rightarrow> ExperimentWarmLease option \<Rightarrow> bool" where
  "still_activatable d activated_at deployment_id lease \<longleftrightarrow>
     (case (get_deployment deployment_id d, lease) of
        (Some x, Some l) \<Rightarrow> \<not> (case sd_ready_replicas x of None \<Rightarrow> 0 | Some n \<Rightarrow> n) < 1
          \<and> wl_state l = LeaseSTARTING \<and> wl_provider_version l \<noteq> None \<and> is_usable l activated_at
      | _ \<Rightarrow> False)"

fun activate_candidates ::
  "(uuid \<Rightarrow> db \<Rightarrow> db) \<Rightarrow> instant \<Rightarrow> string \<Rightarrow> db \<Rightarrow> (uuid \<times> uuid) list \<Rightarrow> lease_error + (db \<times> uuid list)" where
  "activate_candidates others activated_at actor d [] = Inr (d, [])"
| "activate_candidates others activated_at actor d ((lease_id, deployment_id) # rest) =
     (let d0 = others lease_id d in
      case get_lease lease_id d0 of
        Some lease \<Rightarrow>
          if still_activatable d0 activated_at deployment_id (Some lease)
          then bindE (activate_experiment_warm_lease_locked activated_at d0 lease (wl_provider_version lease) actor
                        (Some (Aware activated_at))) (\<lambda>(d1, lease').
               bindE (activate_candidates others activated_at actor d1 rest) (\<lambda>(d2, ids).
                 Inr (d2, wl_id lease' # ids)))
          else activate_candidates others activated_at actor d0 rest
      | None \<Rightarrow> activate_candidates others activated_at actor d0 rest)"

definition activate_ready_experiment_warm_leases ::
  "(uuid \<Rightarrow> db \<Rightarrow> db) \<Rightarrow> instant \<Rightarrow> db \<Rightarrow> string \<Rightarrow> int \<Rightarrow> pydatetime option \<Rightarrow> lease_error + (db \<times> uuid list)" where
  "activate_ready_experiment_warm_leases others clock d actor0 limit now =
     (if limit \<le> 0 \<or> 1000 < limit
      then Inl (LeaseValueError ''warm lease activation limit must be between 1 and 1000'')
      else
        (let activated_at = lease_time clock now in
         bindE (validate_actor actor0) (\<lambda>actor.
           activate_candidates others activated_at actor d
             (map (\<lambda>l. (wl_id l, wl_salad_deployment_id l))
               (select_leases (activation_candidate d activated_at) (\<lambda>l. (wl_started_at l, wl_id l)) limit (\<lambda>_. False) d)))))"

section \<open>Completed work\<close>

definition touch_candidate :: "db \<Rightarrow> instant \<Rightarrow> ExperimentWarmLease \<Rightarrow> bool" where
  "touch_candidate d touched_at l \<longleftrightarrow> wl_state l = LeaseACTIVE \<and> touched_at < wl_hard_expires_at l
     \<and> list_ex (\<lambda>a. ga_salad_deployment_id a = Some (wl_salad_deployment_id l)
          \<and> completed_after (activity_floor l) a) (db_attempts d)"

fun touch_candidates ::
  "(uuid \<Rightarrow> db \<Rightarrow> db) \<Rightarrow> instant \<Rightarrow> string \<Rightarrow> db \<Rightarrow> uuid list \<Rightarrow> lease_error + (db \<times> uuid list)" where
  "touch_candidates others touched_at actor d [] = Inr (d, [])"
| "touch_candidates others touched_at actor d (lease_id # rest) =
     (let d0 = others lease_id d in
      case get_lease lease_id d0 of
        None \<Rightarrow> touch_candidates others touched_at actor d0 rest
      | Some lease \<Rightarrow>
          bindE (touch_experiment_warm_lease_locked touched_at d0 lease actor (Some (Aware touched_at)) True)
            (\<lambda>(d1, lease', touched).
          bindE (touch_candidates others touched_at actor d1 rest) (\<lambda>(d2, ids).
            Inr (d2, if touched then wl_id lease' # ids else ids))))"

definition touch_completed_experiment_warm_leases ::
  "(uuid \<Rightarrow> db \<Rightarrow> db) \<Rightarrow> instant \<Rightarrow> db \<Rightarrow> string \<Rightarrow> int \<Rightarrow> pydatetime option \<Rightarrow> lease_error + (db \<times> uuid list)" where
  "touch_completed_experiment_warm_leases others clock d actor0 limit now =
     (if limit \<le> 0 \<or> 1000 < limit
      then Inl (LeaseValueError ''warm lease activity limit must be between 1 and 1000'')
      else
        (let touched_at = lease_time clock now in
         bindE (validate_actor actor0) (\<lambda>actor.
           touch_candidates others touched_at actor d
             (map wl_id (select_leases (touch_candidate d touched_at) wl_id limit (\<lambda>_. False) d)))))"

definition holds_replica :: "db \<Rightarrow> instant \<Rightarrow> ExperimentWarmLease \<Rightarrow> bool" where
  "holds_replica d observed_at l \<longleftrightarrow>
     (wl_state l = LeaseSTARTING \<and> wl_provider_version l \<noteq> None \<and> observed_at < wl_hard_expires_at l)
   \<or> (wl_state l = LeaseACTIVE \<and> wl_provider_version l \<noteq> None \<and> observed_at < wl_hard_expires_at l
      \<and> (observed_at < wl_expires_at l
         \<or> list_ex (\<lambda>a. ga_salad_deployment_id a = Some (wl_salad_deployment_id l)
              \<and> ga_state a \<in> set busy_attempt_states) (db_attempts d)
         \<or> list_ex (\<lambda>a. ga_salad_deployment_id a = Some (wl_salad_deployment_id l)
              \<and> completed_after (activity_floor l) a) (db_attempts d)))"

definition effective_experiment_min_replicas :: "instant \<Rightarrow> db \<Rightarrow> uuid \<Rightarrow> pydatetime option \<Rightarrow> int" where
  "effective_experiment_min_replicas clock d deployment_id now =
     (case find (\<lambda>l. wl_salad_deployment_id l = deployment_id \<and> holds_replica d (lease_time clock now) l)
         (db_leases d) of
        None \<Rightarrow> 0 | Some _ \<Rightarrow> 1)"

end
