(* ===== verification/Outbox.thy ===== *)
theory Outbox
  imports Store "HOL-Library.Product_Lexorder" "HOL-Library.Option_ord"
begin

text \<open>
  src/gen_automation/services/outbox.py: the transactional outbox. A worker leases PENDING events,
  performs their external effect and reports the outcome; a lease that expires is only replayed
  when the effect provably did not begin, since a replay could submit a provider job twice.

  Each operation is one transaction on the database. What other transactions do at the same time
  reaches an operation in two ways, both parameters of the model: rows they hold locked are
  skipped by the \<open>FOR UPDATE SKIP LOCKED\<close> queries (\<open>locked\<close>, for each query of an operation), and an
  insertion they commit first makes the nested insertion of \<open>enqueue_outbox_event\<close> fail
  (\<open>interfere\<close>). \<open>clock\<close> is \<open>datetime.now(UTC)\<close> and \<open>new_id\<close> the identifier an inserted row gets.
\<close>

definition SALAD_JOB_SUBMIT_TOPIC :: string where "SALAD_JOB_SUBMIT_TOPIC = ''salad.job.submit''"
definition GENERATION_ATTEMPT_AGGREGATE :: string where
  "GENERATION_ATTEMPT_AGGREGATE = ''generation_attempt''"

definition unknownable_attempt_states :: "GenerationAttemptState list" where
  "unknownable_attempt_states = [AttemptCREATED, AttemptSUBMITTING]"

definition terminal_job_states :: "GenerationState list" where
  "terminal_job_states = [JobSUCCEEDED, JobFAILED, JobDEAD_LETTER, JobCANCELLED]"

definition definitely_unstarted_job_states :: "GenerationState list" where
  "definitely_unstarted_job_states = [JobQUEUED, JobCLAIMED, JobRETRY_WAIT]"

definition nonterminal_attempt_states :: "GenerationAttemptState list" where
  "nonterminal_attempt_states = [AttemptCREATED, AttemptSUBMITTING, AttemptSUBMITTED, AttemptRUNNING,
     AttemptUNKNOWN, AttemptCANCEL_REQUESTED]"

definition definitely_unstarted_exhausted_detail :: string where
  "definitely_unstarted_exhausted_detail =
     ''The Salad submission event exhausted before any provider request could start.''"

definition definitely_unstarted_expired_detail :: string where
  "definitely_unstarted_expired_detail =
     ''The Salad submission lease expired before any provider request could start.''"

datatype ExternalEffect = DEFINITELY_NOT_STARTED | MAY_HAVE_STARTED

fun ExternalEffect_value :: "ExternalEffect \<Rightarrow> string" where
  "ExternalEffect_value DEFINITELY_NOT_STARTED = ''definitely_not_started''"
| "ExternalEffect_value MAY_HAVE_STARTED = ''may_have_started''"

datatype outbox_error =
    OutboxValidationError string
  | OutboxNotFoundError
  | OutboxConflictError string
  | OutboxLeaseLostError string
  | IntegrityError

record EnqueueResult =
  eq_event_id :: uuid
  eq_created :: bool

record ClaimedOutboxEvent =
  ce_id :: uuid
  ce_topic :: string
  ce_dedupe_key :: string
  ce_correlation_id :: string
  ce_aggregate_type :: string
  ce_aggregate_id :: uuid
  ce_payload :: "(string \<times> pyval) list"
  ce_attempt :: int
  ce_max_attempts :: int
  ce_lease_expires_at :: instant

record RecoverySummary =
  rs_replayed :: int
  rs_dead_lettered :: int
  rs_attempts_marked_unknown :: int

record TransitionResult =
  tr_status :: OutboxStatus
  tr_changed :: bool

section \<open>Validation\<close>

fun outbox_as_utc :: "pydatetime \<Rightarrow> instant" where
  "outbox_as_utc (Naive t) = t"
| "outbox_as_utc (Aware t) = t"

definition outbox_time :: "instant \<Rightarrow> pydatetime option \<Rightarrow> instant" where
  "outbox_time clock now = outbox_as_utc (case now of None \<Rightarrow> Aware clock | Some v \<Rightarrow> v)"

definition validate_nonempty :: "string \<Rightarrow> string \<Rightarrow> nat \<Rightarrow> outbox_error + string" where
  "validate_nonempty value name max_length =
     (let normalized = py_strip value in
      if normalized = [] then Inl (OutboxValidationError (name @ '' must not be empty''))
      else if max_length < length normalized then Inl (OutboxValidationError (name @ '' is too long''))
      else Inr normalized)"

definition error_code_pattern :: "string \<Rightarrow> bool" where
  "error_code_pattern s = (case s of [] \<Rightarrow> False
     | c # cs \<Rightarrow> is_lower_alpha c
         \<and> list_all (\<lambda>c. is_lower_alpha c \<or> is_digit c \<or> c \<in> set ''_.-'') cs)"

definition validate_error_code :: "string \<Rightarrow> outbox_error + string" where
  "validate_error_code value =
     bindE (validate_nonempty value ''error_code'' 100) (\<lambda>normalized.
       if error_code_pattern normalized then Inr normalized
       else Inl (OutboxValidationError ''error_code has an invalid format''))"

definition validate_safe_error_detail :: "string option \<Rightarrow> outbox_error + string option" where
  "validate_safe_error_detail value = (case value of None \<Rightarrow> Inr None
     | Some v \<Rightarrow>
         (let normalized = py_join '' '' (py_split v) in
          if normalized = [] then Inr None
          else if 2000 < length normalized
          then Inl (OutboxValidationError ''safe_error_detail is too long'')
          else Inr (Some normalized)))"

definition outbox_audit :: "OutboxEvent \<Rightarrow> string \<Rightarrow> string \<Rightarrow> (string \<times> pyval) list \<Rightarrow> instant \<Rightarrow> AuditEvent" where
  "outbox_audit event actor action detail occurred_at =
     \<lparr>ae_id = None, ae_actor = actor, ae_action = action, ae_resource_type = ''outbox_event'',
      ae_resource_id = oe_id event, ae_correlation_id = oe_correlation_id event,
      ae_detail = detail, ae_occurred_at = occurred_at\<rparr>"

definition attempt_audit ::
  "OutboxEvent \<Rightarrow> GenerationAttempt \<Rightarrow> string \<Rightarrow> string \<Rightarrow> (string \<times> pyval) list \<Rightarrow> instant \<Rightarrow> AuditEvent" where
  "attempt_audit event attempt actor action detail occurred_at =
     \<lparr>ae_id = None, ae_actor = actor, ae_action = action, ae_resource_type = ''generation_attempt'',
      ae_resource_id = ga_id attempt, ae_correlation_id = oe_correlation_id event,
      ae_detail = detail, ae_occurred_at = occurred_at\<rparr>"

section \<open>Adding events\<close>

definition same_logical_event ::
  "OutboxEvent \<Rightarrow> string \<Rightarrow> string \<Rightarrow> uuid \<Rightarrow> (string \<times> pyval) list \<Rightarrow> int \<Rightarrow> bool" where
  "same_logical_event event correlation_id aggregate_type aggregate_id payload max_attempts \<longleftrightarrow>
     oe_correlation_id event = correlation_id \<and> oe_aggregate_type event = aggregate_type
     \<and> oe_aggregate_id event = aggregate_id \<and> py_eq (PDict (oe_payload event)) (PDict payload)
     \<and> oe_max_attempts event = max_attempts"

definition find_event :: "db \<Rightarrow> string \<Rightarrow> string \<Rightarrow> OutboxEvent option" where
  "find_event d topic dedupe_key = find (\<lambda>e. event_identity e = (topic, dedupe_key)) (db_outbox d)"

definition existing_result ::
  "OutboxEvent \<Rightarrow> string \<Rightarrow> string \<Rightarrow> uuid \<Rightarrow> (string \<times> pyval) list \<Rightarrow> int \<Rightarrow> outbox_error + EnqueueResult" where
  "existing_result existing correlation_id aggregate_type aggregate_id payload max_attempts =
     (if same_logical_event existing correlation_id aggregate_type aggregate_id payload max_attempts
      then Inr \<lparr>eq_event_id = oe_id existing, eq_created = False\<rparr>
      else Inl (OutboxConflictError ''topic and dedupe_key already identify a different outbox event''))"

definition enqueue_outbox_event ::
  "(db \<Rightarrow> db) \<Rightarrow> uuid \<Rightarrow> instant \<Rightarrow> db \<Rightarrow> string \<Rightarrow> string \<Rightarrow> string \<Rightarrow> string \<Rightarrow> uuid
    \<Rightarrow> (string \<times> pyval) list \<Rightarrow> int \<Rightarrow> pydatetime option \<Rightarrow> string \<Rightarrow> pydatetime option
    \<Rightarrow> outbox_error + (db \<times> EnqueueResult)" where
  "enqueue_outbox_event interfere new_id clock d topic0 dedupe_key0 correlation_id0 aggregate_type0
     aggregate_id payload max_attempts available_at actor0 now =
     bindE (validate_nonempty topic0 ''topic'' 200) (\<lambda>topic.
     bindE (validate_nonempty dedupe_key0 ''dedupe_key'' 200) (\<lambda>dedupe_key.
     bindE (validate_nonempty correlation_id0 ''correlation_id'' 200) (\<lambda>correlation_id.
     bindE (validate_nonempty aggregate_type0 ''aggregate_type'' 100) (\<lambda>aggregate_type.
     bindE (validate_nonempty actor0 ''actor'' 200) (\<lambda>actor.
     if max_attempts \<le> 0 then Inl (OutboxValidationError ''max_attempts must be positive'')
     else
       (let created_at = outbox_time clock now;
            ready_at = outbox_time created_at available_at
        in case find_event d topic dedupe_key of
             Some existing \<Rightarrow>
               bindE (existing_result existing correlation_id aggregate_type aggregate_id payload max_attempts)
                 (\<lambda>r. Inr (d, r))
           | None \<Rightarrow>
               (let event = \<lparr>oe_id = new_id, oe_topic = topic, oe_dedupe_key = dedupe_key,
                      oe_correlation_id = correlation_id, oe_aggregate_type = aggregate_type,
                      oe_aggregate_id = aggregate_id, oe_payload = payload, oe_status = OutboxPENDING,
                      oe_attempts = 0, oe_max_attempts = max_attempts, oe_available_at = ready_at,
                      oe_created_at = created_at, oe_lease_owner = None, oe_lease_expires_at = None,
                      oe_processed_at = None, oe_last_error_code = None, oe_last_error_detail = None\<rparr>;
                    d1 = interfere d
                in if get_event new_id d1 = None \<and> find_event d1 topic dedupe_key = None
                   then Inr (add_audit (outbox_audit event actor ''outbox.enqueued''
                               [(''topic'', PStr topic), (''aggregate_type'', PStr aggregate_type),
                                (''aggregate_id'', PStr (uuid_str aggregate_id))] created_at)
                               (d1\<lparr>db_outbox := db_outbox d1 @ [event]\<rparr>),
                             \<lparr>eq_event_id = new_id, eq_created = True\<rparr>)
                   else (case find_event d1 topic dedupe_key of
                           None \<Rightarrow> Inl IntegrityError
                         | Some existing \<Rightarrow>
                             bindE (existing_result existing correlation_id aggregate_type aggregate_id
                                      payload max_attempts) (\<lambda>r. Inr (d1, r))))))))))"

section \<open>The generation attempt behind a Salad submission\<close>

definition salad_submission :: "OutboxEvent \<Rightarrow> bool" where
  "salad_submission event \<longleftrightarrow> oe_topic event = SALAD_JOB_SUBMIT_TOPIC
     \<and> oe_aggregate_type event = GENERATION_ATTEMPT_AGGREGATE"

definition lock_salad_job_then_attempt ::
  "db \<Rightarrow> OutboxEvent \<Rightarrow> GenerationJob option \<times> GenerationAttempt option" where
  "lock_salad_job_then_attempt d event =
     (case get_attempt (oe_aggregate_id event) d of
        None \<Rightarrow> (None, None)
      | Some a \<Rightarrow> (get_job (ga_job_id a) d, Some a))"

definition attempt_marked_unknown :: "instant \<Rightarrow> GenerationAttempt \<Rightarrow> GenerationAttempt" where
  "attempt_marked_unknown occurred_at a = a\<lparr>ga_state := AttemptUNKNOWN,
     ga_unknown_since := (case ga_unknown_since a of None \<Rightarrow> Some occurred_at | Some t \<Rightarrow> Some t),
     ga_error_code := Some ''submit_outcome_unknown'',
     ga_error_detail := Some ''Submission lease expired before a durable provider result.'',
     ga_lock_version := ga_lock_version a + 1\<rparr>"

definition job_marked_unknown :: "GenerationJob \<Rightarrow> GenerationJob" where
  "job_marked_unknown j = j\<lparr>gj_state := JobUNKNOWN, gj_last_error_code := Some ''submit_outcome_unknown'',
     gj_last_error_detail := Some ''The Salad submission outcome is ambiguous; reconciliation is required.'',
     gj_lock_version := gj_lock_version j + 1\<rparr>"

definition mark_salad_attempt_unknown :: "db \<Rightarrow> OutboxEvent \<Rightarrow> instant \<Rightarrow> string \<Rightarrow> db \<times> bool" where
  "mark_salad_attempt_unknown d event occurred_at actor =
     (if \<not> salad_submission event then (d, False)
      else (case lock_salad_job_then_attempt d event of
         (_, None) \<Rightarrow> (d, False)
       | (job, Some a) \<Rightarrow>
           if ga_provider a \<noteq> ''salad'' \<or> ga_state a \<notin> set unknownable_attempt_states then (d, False)
           else
             (let d1 = put_attempt (attempt_marked_unknown occurred_at a) d;
                  d2 = (case job of
                          Some j \<Rightarrow> if gj_state j \<notin> set terminal_job_states
                            then put_job (job_marked_unknown j) d1 else d1
                        | None \<Rightarrow> d1)
              in (add_audit (attempt_audit event a actor ''generation_attempt.submit_outcome_unknown''
                    [(''outbox_event_id'', PStr (uuid_str (oe_id event)))] occurred_at) d2, True))))"

text \<open>No column of the attempt shows that a provider request may have been made.\<close>

definition no_submission_evidence :: "GenerationAttempt \<Rightarrow> bool" where
  "no_submission_evidence a \<longleftrightarrow> ga_provider_external_id a = None \<and> ga_submit_started_at a = None
     \<and> ga_submitted_at a = None \<and> ga_started_at a = None \<and> ga_last_observed_at a = None
     \<and> ga_unknown_since a = None \<and> ga_provider_state a = None \<and> ga_response_metadata a = None
     \<and> ga_cost_reservation_microusd a = 0 \<and> ga_reservation_released_at a = None"

definition other_active_attempt :: "db \<Rightarrow> GenerationAttempt \<Rightarrow> bool" where
  "other_active_attempt d a = list_ex (\<lambda>x. ga_job_id x = ga_job_id a \<and> ga_id x \<noteq> ga_id a
     \<and> ga_state x \<in> set nonterminal_attempt_states) (db_attempts d)"

definition owns_current_local_attempt :: "db \<Rightarrow> GenerationJob \<Rightarrow> GenerationAttempt \<Rightarrow> bool" where
  "owns_current_local_attempt d j a \<longleftrightarrow> ga_state a = AttemptCREATED
     \<and> gj_attempt_count j = ga_attempt_no a \<and> gj_state j \<in> set definitely_unstarted_job_states
     \<and> \<not> other_active_attempt d a"

definition attempt_failed_unsubmitted :: "instant \<Rightarrow> string \<Rightarrow> string \<Rightarrow> GenerationAttempt \<Rightarrow> GenerationAttempt" where
  "attempt_failed_unsubmitted occurred_at error_code detail a = a\<lparr>ga_state := AttemptFAILED,
     ga_completed_at := Some occurred_at, ga_error_code := Some error_code,
     ga_error_detail := Some detail, ga_lock_version := ga_lock_version a + 1\<rparr>"

definition job_retried :: "instant \<Rightarrow> string \<Rightarrow> string \<Rightarrow> GenerationJob \<Rightarrow> GenerationJob" where
  "job_retried occurred_at error_code detail j =
     (let retryable = gj_attempt_count j < gj_max_attempts j in
      j\<lparr>gj_state := (if retryable then JobRETRY_WAIT else JobDEAD_LETTER),
        gj_retry_at := (if retryable then Some occurred_at else None),
        gj_lease_owner := None, gj_lease_expires_at := None,
        gj_last_error_code := Some error_code, gj_last_error_detail := Some detail,
        gj_lock_version := gj_lock_version j + 1\<rparr>)"

definition fail_exhausted_salad_attempt_before_submission ::
  "db \<Rightarrow> OutboxEvent \<Rightarrow> instant \<Rightarrow> string \<Rightarrow> string \<Rightarrow> string option \<Rightarrow> string \<Rightarrow> db \<times> bool" where
  "fail_exhausted_salad_attempt_before_submission d event occurred_at actor error_code
     safe_error_detail audit_action =
     (if \<not> salad_submission event then (d, False)
      else (case lock_salad_job_then_attempt d event of
         (_, None) \<Rightarrow> (d, False)
       | (job, Some a) \<Rightarrow>
           if ga_provider a \<noteq> ''salad'' \<or> ga_state a \<notin> {AttemptCREATED, AttemptSUBMITTING}
              \<or> \<not> no_submission_evidence a then (d, False)
           else (case job of
              None \<Rightarrow> (d, False)
            | Some j \<Rightarrow>
                if ga_state a = AttemptSUBMITTING \<and> gj_state j \<notin> set terminal_job_states then (d, False)
                else
                  (let owns = owns_current_local_attempt d j a in
                   if gj_state j \<notin> set terminal_job_states \<and> gj_attempt_count j = ga_attempt_no a \<and> \<not> owns
                   then (d, False)
                   else
                     (let detail = (case safe_error_detail of
                            Some (c # cs) \<Rightarrow> c # cs | _ \<Rightarrow> definitely_unstarted_exhausted_detail);
                          d1 = put_attempt (attempt_failed_unsubmitted occurred_at error_code detail a) d;
                          d2 = (if owns then put_job (job_retried occurred_at error_code detail j) d1 else d1)
                      in (add_audit (attempt_audit event a actor audit_action
                            [(''outbox_event_id'', PStr (uuid_str (oe_id event))),
                             (''error_code'', PStr error_code),
                             (''provider_contacted'', PBool False)] occurred_at) d2, True))))))"

definition outbox_exhausted_action :: string where
  "outbox_exhausted_action = ''generation_attempt.outbox_exhausted_before_submission''"

section \<open>Replay of a Salad submission whose lease expired\<close>

definition positive_int :: "pyval \<Rightarrow> bool" where
  "positive_int value = (case value of PInt i \<Rightarrow> 0 < i | _ \<Rightarrow> False)"

definition lower_hex :: "pyval \<Rightarrow> nat \<Rightarrow> bool" where
  "lower_hex value n = (case value of
      PStr s \<Rightarrow> length s = n \<and> s = py_lower s \<and> list_all (\<lambda>c. c \<in> set ''0123456789abcdef'') s
    | _ \<Rightarrow> False)"

definition optional_runtime_worker_instance_id :: "pyval \<Rightarrow> bool" where
  "optional_runtime_worker_instance_id value = (case value of
      PNone \<Rightarrow> True
    | PStr s \<Rightarrow> 1 \<le> length s \<and> length s \<le> 128
        \<and> list_all (\<lambda>c. c \<in> set ''ABCDEFGHIJKLMNOPQRSTUVWXYZabcdefghijklmnopqrstuvwxyz0123456789._:-'') s
    | _ \<Rightarrow> False)"

definition valid_runtime_refresh_plan :: "pyval \<Rightarrow> bool" where
  "valid_runtime_refresh_plan value = (case value of
      PDict kvs \<Rightarrow>
        set (map fst kvs) = {''version'', ''provider_group_version_before_refresh'',
          ''artifact_manifest_sha256'', ''rollout_id''}
        \<and> py_eq (py_get kvs ''version'') (PStr ''v1'')
        \<and> positive_int (py_get kvs ''provider_group_version_before_refresh'')
        \<and> lower_hex (py_get kvs ''artifact_manifest_sha256'') 64
        \<and> lower_hex (py_get kvs ''rollout_id'') 32
    | _ \<Rightarrow> False)"

definition valid_runtime_admission_target :: "pyval \<Rightarrow> bool" where
  "valid_runtime_admission_target value = (case value of
      PDict kvs \<Rightarrow>
        set (map fst kvs) = {''version'', ''provider_group_version'', ''artifact_manifest_sha256'',
          ''rollout_id'', ''worker_instance_id''}
        \<and> py_eq (py_get kvs ''version'') (PStr ''v1'')
        \<and> positive_int (py_get kvs ''provider_group_version'')
        \<and> lower_hex (py_get kvs ''artifact_manifest_sha256'') 64
        \<and> lower_hex (py_get kvs ''rollout_id'') 32
        \<and> optional_runtime_worker_instance_id (py_get kvs ''worker_instance_id'')
    | _ \<Rightarrow> False)"

definition runtime_refresh_replay_is_safe :: "db \<Rightarrow> OutboxEvent \<Rightarrow> bool" where
  "runtime_refresh_replay_is_safe d event =
     (if \<not> salad_submission event then False
      else (case lock_salad_job_then_attempt d event of
         (Some j, Some a) \<Rightarrow>
           if ga_provider a \<noteq> ''salad'' then False
           else if ga_state a \<noteq> AttemptCREATED \<or> gj_state j \<noteq> JobCLAIMED
              \<or> gj_attempt_count j \<noteq> ga_attempt_no a \<or> \<not> no_submission_evidence a then False
           else valid_runtime_refresh_plan (py_get (ga_request_metadata a) ''runtime_admission_refresh_plan'')
             \<or> valid_runtime_admission_target (py_get (ga_request_metadata a) ''runtime_admission'')
       | _ \<Rightarrow> False))"

section \<open>Recovery of expired leases\<close>

text \<open>A \<open>SELECT ... ORDER BY ... LIMIT n FOR UPDATE SKIP LOCKED\<close> over the outbox.\<close>

definition select_events ::
  "(OutboxEvent \<Rightarrow> bool) \<Rightarrow> (OutboxEvent \<Rightarrow> 'k::linorder) \<Rightarrow> int \<Rightarrow> (uuid \<Rightarrow> bool) \<Rightarrow> db \<Rightarrow> OutboxEvent list" where
  "select_events P order limit locked d =
     take (nat limit) (filter (\<lambda>e. \<not> locked (oe_id e)) (sort_key order (filter P (db_outbox d))))"

definition replayed_event :: "instant \<Rightarrow> OutboxEvent \<Rightarrow> OutboxEvent" where
  "replayed_event now e = e\<lparr>oe_status := OutboxPENDING, oe_available_at := now, oe_lease_owner := None,
     oe_lease_expires_at := None, oe_processed_at := None,
     oe_last_error_code := Some ''lease_expired_before_effect'',
     oe_last_error_detail := Some ''The handler established that the external effect did not begin.''\<rparr>"

definition buried_event :: "instant \<Rightarrow> OutboxEvent \<Rightarrow> OutboxEvent" where
  "buried_event now e = e\<lparr>oe_status := OutboxDEAD_LETTER, oe_lease_owner := None,
     oe_lease_expires_at := None, oe_processed_at := Some now\<rparr>"

definition with_error :: "string \<Rightarrow> string \<Rightarrow> OutboxEvent \<Rightarrow> OutboxEvent" where
  "with_error code detail e = e\<lparr>oe_last_error_code := Some code, oe_last_error_detail := Some detail\<rparr>"

definition recover_event ::
  "instant \<Rightarrow> string set \<Rightarrow> string \<Rightarrow> OutboxEvent \<Rightarrow> db \<times> RecoverySummary \<Rightarrow> db \<times> RecoverySummary" where
  "recover_event now safe_topics actor event = (\<lambda>(d, s).
     let runtime_refresh_replay = runtime_refresh_replay_is_safe d event;
         can_replay = (oe_attempts event < oe_max_attempts event
           \<and> (oe_topic event \<in> safe_topics \<or> runtime_refresh_replay))
     in if can_replay
        then (add_audit (outbox_audit event actor
                 (if runtime_refresh_replay then ''outbox.runtime_refresh_lease_recovered''
                  else ''outbox.lease_recovered'')
                 (if runtime_refresh_replay
                  then [(''attempt'', PInt (oe_attempts event)), (''runtime_refresh_replay'', PBool True)]
                  else [(''attempt'', PInt (oe_attempts event))]) now)
               (put_event (replayed_event now event) d),
              s\<lparr>rs_replayed := rs_replayed s + 1\<rparr>)
        else
          (case fail_exhausted_salad_attempt_before_submission (put_event (buried_event now event) d) event now actor
                  ''outbox_lease_expired_before_submission'' (Some definitely_unstarted_expired_detail)
                  ''generation_attempt.outbox_lease_expired_before_submission'' of
             (d1, marked_failed) \<Rightarrow>
               (let event1 = (if marked_failed
                      then with_error ''lease_expired_before_effect'' definitely_unstarted_expired_detail
                             (buried_event now event)
                      else with_error ''ambiguous_external_effect''
                             ''The processing lease expired and replay could duplicate an external effect.''
                             (buried_event now event));
                    reason = (if marked_failed then ''lease_expired_before_effect'' else ''ambiguous_external_effect'')
                in case (if marked_failed then (put_event event1 d1, False)
                         else mark_salad_attempt_unknown (put_event event1 d1) event now actor) of
                     (d2, marked_unknown) \<Rightarrow>
                       (add_audit (outbox_audit event actor ''outbox.dead_lettered''
                           [(''attempt'', PInt (oe_attempts event)), (''reason'', PStr reason),
                            (''attempt_marked_unknown'', PBool marked_unknown),
                            (''attempt_marked_failed'', PBool marked_failed)] now) d2,
                        s\<lparr>rs_dead_lettered := rs_dead_lettered s + 1,
                          rs_attempts_marked_unknown := rs_attempts_marked_unknown s
                            + (if marked_unknown then 1 else 0)\<rparr>))))"

definition expired_lease :: "instant \<Rightarrow> OutboxEvent \<Rightarrow> bool" where
  "expired_lease now e \<longleftrightarrow> oe_status e = OutboxPROCESSING
     \<and> (case oe_lease_expires_at e of None \<Rightarrow> False | Some x \<Rightarrow> x \<le> now)"

definition recover_expired_in_transaction ::
  "(uuid \<Rightarrow> bool) \<Rightarrow> db \<Rightarrow> instant \<Rightarrow> string list \<Rightarrow> int \<Rightarrow> string \<Rightarrow> db \<times> RecoverySummary" where
  "recover_expired_in_transaction locked d now definitely_safe_to_replay_topics limit actor =
     (let safe_topics = set definitely_safe_to_replay_topics - {SALAD_JOB_SUBMIT_TOPIC};
          events = select_events (expired_lease now)
            (\<lambda>e. (oe_lease_expires_at e, oe_created_at e, oe_id e)) limit locked d
      in fold (recover_event now safe_topics actor) events
           (d, \<lparr>rs_replayed = 0, rs_dead_lettered = 0, rs_attempts_marked_unknown = 0\<rparr>))"

definition recover_expired_outbox_events ::
  "(uuid \<Rightarrow> bool) \<Rightarrow> instant \<Rightarrow> db \<Rightarrow> string list \<Rightarrow> int \<Rightarrow> string \<Rightarrow> pydatetime option
    \<Rightarrow> outbox_error + (db \<times> RecoverySummary)" where
  "recover_expired_outbox_events locked clock d definitely_safe_to_replay_topics limit actor0 now =
     (if limit \<le> 0 \<or> 1000 < limit then Inl (OutboxValidationError ''limit must be between 1 and 1000'')
      else bindE (validate_nonempty actor0 ''actor'' 200) (\<lambda>actor.
        Inr (recover_expired_in_transaction locked d (outbox_time clock now)
               definitely_safe_to_replay_topics limit actor)))"

section \<open>Dead letters\<close>

definition exhausted_event :: "instant \<Rightarrow> OutboxEvent \<Rightarrow> OutboxEvent" where
  "exhausted_event now e = with_error ''attempt_limit_exhausted''
     ''The outbox event exhausted its processing attempt limit.''
     (e\<lparr>oe_status := OutboxDEAD_LETTER, oe_processed_at := Some now\<rparr>)"

definition exhaust_event :: "instant \<Rightarrow> string \<Rightarrow> OutboxEvent \<Rightarrow> db \<Rightarrow> db" where
  "exhaust_event now actor event d =
     (case fail_exhausted_salad_attempt_before_submission (put_event (exhausted_event now event) d) event now
             actor ''outbox_attempt_limit_exhausted'' None outbox_exhausted_action of
        (d1, attempt_marked_failed) \<Rightarrow>
          add_audit (outbox_audit event actor ''outbox.dead_lettered''
            [(''attempt'', PInt (oe_attempts event)), (''reason'', PStr ''attempt_limit_exhausted''),
             (''attempt_marked_failed'', PBool attempt_marked_failed)] now) d1)"

definition dead_letter_exhausted_pending ::
  "(uuid \<Rightarrow> bool) \<Rightarrow> db \<Rightarrow> instant \<Rightarrow> int \<Rightarrow> string \<Rightarrow> db" where
  "dead_letter_exhausted_pending locked d now limit actor =
     fold (exhaust_event now actor)
       (select_events (\<lambda>e. oe_status e = OutboxPENDING \<and> oe_max_attempts e \<le> oe_attempts e)
          (\<lambda>e. (oe_created_at e, oe_id e)) limit locked d) d"

text \<open>The WHERE clause of \<open>_repair_dead_lettered_unstarted_salad_attempts\<close>, in SQL's own terms.\<close>

definition repair_candidate :: "db \<Rightarrow> OutboxEvent \<Rightarrow> bool" where
  "repair_candidate d e =
     (case get_attempt (oe_aggregate_id e) d of
        None \<Rightarrow> False
      | Some a \<Rightarrow> (case get_job (ga_job_id a) d of
          None \<Rightarrow> False
        | Some j \<Rightarrow>
            oe_status e = OutboxDEAD_LETTER \<and> oe_topic e = SALAD_JOB_SUBMIT_TOPIC
            \<and> oe_aggregate_type e = GENERATION_ATTEMPT_AGGREGATE \<and> ga_provider a = ''salad''
            \<and> ga_state a \<in> {AttemptCREATED, AttemptSUBMITTING}
            \<and> ga_provider_external_id a = None \<and> ga_submit_started_at a = None
            \<and> ga_submitted_at a = None \<and> ga_started_at a = None \<and> ga_last_observed_at a = None
            \<and> ga_unknown_since a = None \<and> ga_provider_state a = None \<and> ga_response_metadata a = None
            \<and> ga_cost_reservation_microusd a = 0 \<and> ga_reservation_released_at a = None
            \<and> (ga_state a = AttemptSUBMITTING \<and> gj_state j \<in> set terminal_job_states
               \<or> ga_state a = AttemptCREATED
                  \<and> (gj_state j \<in> set terminal_job_states
                     \<or> gj_attempt_count j \<noteq> ga_attempt_no a
                     \<or> gj_state j \<in> set definitely_unstarted_job_states
                        \<and> \<not> list_ex (\<lambda>x. ga_job_id x = ga_job_id a \<and> ga_id x \<noteq> ga_id a
                              \<and> ga_state x \<in> set nonterminal_attempt_states) (db_attempts d)))))"

text \<open>PostgreSQL sorts a missing \<open>processed_at\<close> last.\<close>

definition repair_dead_lettered_unstarted_salad_attempts ::
  "(uuid \<Rightarrow> bool) \<Rightarrow> db \<Rightarrow> instant \<Rightarrow> int \<Rightarrow> string \<Rightarrow> db" where
  "repair_dead_lettered_unstarted_salad_attempts locked d now limit actor =
     fold (\<lambda>event d. fst (fail_exhausted_salad_attempt_before_submission d event now actor
             ''outbox_dead_lettered_before_submission'' None outbox_exhausted_action))
       (select_events (repair_candidate d)
          (\<lambda>e. (oe_processed_at e = None, oe_processed_at e, oe_created_at e, oe_id e)) limit locked d) d"

section \<open>Claims\<close>

definition claimed_row :: "string \<Rightarrow> instant \<Rightarrow> OutboxEvent \<Rightarrow> OutboxEvent" where
  "claimed_row worker_id lease_expires_at e = e\<lparr>oe_status := OutboxPROCESSING,
     oe_attempts := oe_attempts e + 1, oe_lease_owner := Some worker_id,
     oe_lease_expires_at := Some lease_expires_at, oe_processed_at := None\<rparr>"

definition claim_event :: "string \<Rightarrow> instant \<Rightarrow> instant \<Rightarrow> OutboxEvent \<Rightarrow> db \<Rightarrow> db" where
  "claim_event worker_id claimed_at lease_expires_at event d =
     add_audit (outbox_audit event worker_id ''outbox.claimed''
        [(''attempt'', PInt (oe_attempts event + 1))] claimed_at)
       (put_event (claimed_row worker_id lease_expires_at event) d)"

definition claimed_view :: "instant \<Rightarrow> OutboxEvent \<Rightarrow> ClaimedOutboxEvent" where
  "claimed_view lease_expires_at e = \<lparr>ce_id = oe_id e, ce_topic = oe_topic e,
     ce_dedupe_key = oe_dedupe_key e, ce_correlation_id = oe_correlation_id e,
     ce_aggregate_type = oe_aggregate_type e, ce_aggregate_id = oe_aggregate_id e,
     ce_payload = oe_payload e, ce_attempt = oe_attempts e, ce_max_attempts = oe_max_attempts e,
     ce_lease_expires_at = lease_expires_at\<rparr>"

definition claimable :: "instant \<Rightarrow> string list option \<Rightarrow> OutboxEvent \<Rightarrow> bool" where
  "claimable now topics e \<longleftrightarrow> oe_status e = OutboxPENDING \<and> oe_available_at e \<le> now
     \<and> oe_attempts e < oe_max_attempts e
     \<and> (case topics of None \<Rightarrow> True | Some ts \<Rightarrow> oe_topic e \<in> set ts)"

text \<open>The maintenance a claim performs before it selects, with the locks of its three queries.\<close>

definition claim_maintenance ::
  "(nat \<Rightarrow> uuid \<Rightarrow> bool) \<Rightarrow> db \<Rightarrow> string \<Rightarrow> int \<Rightarrow> string list option \<Rightarrow> string list \<Rightarrow> instant \<Rightarrow> db" where
  "claim_maintenance locked d worker_id limit topics safe claimed_at =
     (let n = max (limit * 4) 100;
          d1 = fst (recover_expired_in_transaction (locked 0) d claimed_at safe n worker_id);
          d2 = dead_letter_exhausted_pending (locked 1) d1 claimed_at n worker_id
      in if (case topics of None \<Rightarrow> True | Some ts \<Rightarrow> SALAD_JOB_SUBMIT_TOPIC \<in> set ts)
         then repair_dead_lettered_unstarted_salad_attempts (locked 2) d2 claimed_at n worker_id
         else d2)"

definition normalized_topics :: "string list option \<Rightarrow> outbox_error + string list option" where
  "normalized_topics topics = (case topics of None \<Rightarrow> Inr None
     | Some ts \<Rightarrow> bindE (mapE (\<lambda>t. validate_nonempty t ''topic'' 200) ts) (\<lambda>ts'. Inr (Some ts')))"

definition claim_outbox_events ::
  "(nat \<Rightarrow> uuid \<Rightarrow> bool) \<Rightarrow> instant \<Rightarrow> db \<Rightarrow> string \<Rightarrow> int \<Rightarrow> int \<Rightarrow> string list option \<Rightarrow> string list
    \<Rightarrow> pydatetime option \<Rightarrow> outbox_error + (db \<times> ClaimedOutboxEvent list)" where
  "claim_outbox_events locked clock d worker_id0 limit lease_seconds topics0
     definitely_safe_to_replay_topics now =
     bindE (validate_nonempty worker_id0 ''worker_id'' 200) (\<lambda>worker_id.
     if limit \<le> 0 \<or> 1000 < limit then Inl (OutboxValidationError ''limit must be between 1 and 1000'')
     else if lease_seconds \<le> 0 \<or> 86400 < lease_seconds
     then Inl (OutboxValidationError ''lease_seconds must be between 1 and 86400'')
     else bindE (normalized_topics topics0) (\<lambda>topics.
       if topics = Some [] then Inr (d, [])
       else
         (let claimed_at = outbox_time clock now;
              d1 = claim_maintenance locked d worker_id limit topics definitely_safe_to_replay_topics claimed_at;
              events = select_events (claimable claimed_at topics)
                (\<lambda>e. (oe_available_at e, oe_created_at e, oe_id e)) limit (locked 3) d1;
              lease_expires_at = claimed_at + lease_seconds * us_per_second
          in Inr (fold (claim_event worker_id claimed_at lease_expires_at) events d1,
                  map (\<lambda>e. claimed_view lease_expires_at (claimed_row worker_id lease_expires_at e)) events))))"

section \<open>Reports of the lease holder\<close>

definition locked_event :: "db \<Rightarrow> uuid \<Rightarrow> outbox_error + OutboxEvent" where
  "locked_event d event_id = (case get_event event_id d of
      None \<Rightarrow> Inl OutboxNotFoundError | Some e \<Rightarrow> Inr e)"

definition require_active_lease :: "OutboxEvent \<Rightarrow> string \<Rightarrow> instant \<Rightarrow> outbox_error + unit" where
  "require_active_lease event worker_id now =
     (if oe_status event \<noteq> OutboxPROCESSING \<or> oe_lease_owner event \<noteq> Some worker_id
      then Inl (OutboxLeaseLostError ''outbox processing lease is not owned by this worker'')
      else (case oe_lease_expires_at event of
          None \<Rightarrow> Inl (OutboxLeaseLostError ''outbox processing lease has expired'')
        | Some x \<Rightarrow> if x \<le> now
            then Inl (OutboxLeaseLostError ''outbox processing lease has expired'') else Inr ()))"

definition succeeded_event :: "instant \<Rightarrow> OutboxEvent \<Rightarrow> OutboxEvent" where
  "succeeded_event now e = e\<lparr>oe_status := OutboxSUCCEEDED, oe_lease_owner := None,
     oe_lease_expires_at := None, oe_processed_at := Some now, oe_last_error_code := None,
     oe_last_error_detail := None\<rparr>"

definition succeed_outbox_event ::
  "instant \<Rightarrow> db \<Rightarrow> uuid \<Rightarrow> string \<Rightarrow> pydatetime option \<Rightarrow> outbox_error + (db \<times> TransitionResult)" where
  "succeed_outbox_event clock d event_id worker_id0 now =
     bindE (validate_nonempty worker_id0 ''worker_id'' 200) (\<lambda>worker_id.
     let completed_at = outbox_time clock now in
     bindE (locked_event d event_id) (\<lambda>event.
     if oe_status event = OutboxSUCCEEDED
     then Inr (d, \<lparr>tr_status = OutboxSUCCEEDED, tr_changed = False\<rparr>)
     else bindE (require_active_lease event worker_id completed_at) (\<lambda>_.
       Inr (add_audit (outbox_audit event worker_id ''outbox.succeeded''
              [(''attempt'', PInt (oe_attempts event))] completed_at)
              (put_event (succeeded_event completed_at event) d),
            \<lparr>tr_status = OutboxSUCCEEDED, tr_changed = True\<rparr>))))"

definition deferred_event :: "instant \<Rightarrow> string \<Rightarrow> OutboxEvent \<Rightarrow> OutboxEvent" where
  "deferred_event retry_at reason e = e\<lparr>oe_status := OutboxPENDING, oe_attempts := oe_attempts e - 1,
     oe_available_at := retry_at, oe_lease_owner := None, oe_lease_expires_at := None,
     oe_processed_at := None, oe_last_error_code := Some reason,
     oe_last_error_detail := Some ''Submission is waiting for a controller precondition.''\<rparr>"

definition defer_unstarted_outbox_event ::
  "instant \<Rightarrow> db \<Rightarrow> uuid \<Rightarrow> string \<Rightarrow> pydatetime \<Rightarrow> string \<Rightarrow> pydatetime option
    \<Rightarrow> outbox_error + (db \<times> TransitionResult)" where
  "defer_unstarted_outbox_event clock d event_id worker_id0 retry_not_before reason_code now =
     bindE (validate_nonempty worker_id0 ''worker_id'' 200) (\<lambda>worker_id.
     bindE (validate_error_code reason_code) (\<lambda>reason.
     let deferred_at = outbox_time clock now; retry_at = outbox_as_utc retry_not_before in
     if retry_at \<le> deferred_at
     then Inl (OutboxValidationError ''retry_not_before must be in the future'')
     else bindE (locked_event d event_id) (\<lambda>event.
       bindE (require_active_lease event worker_id deferred_at) (\<lambda>_.
       if \<not> salad_submission event
       then Inl (OutboxConflictError ''only a prepared Salad submission can be deferred'')
       else if (case get_attempt (oe_aggregate_id event) d of
                  None \<Rightarrow> True | Some a \<Rightarrow> ga_state a \<noteq> AttemptCREATED)
       then Inl (OutboxConflictError ''Salad submission is no longer definitely unstarted'')
       else if oe_attempts event \<le> 0
       then Inl (OutboxConflictError ''outbox claim attempt is invalid'')
       else Inr (add_audit (outbox_audit event worker_id ''outbox.deferred_before_effect''
                   [(''claimed_attempt'', PInt (oe_attempts event)), (''reason_code'', PStr reason),
                    (''retry_not_before'', PStr (isoformat retry_at))] deferred_at)
                   (put_event (deferred_event retry_at reason event) d),
                 \<lparr>tr_status = OutboxPENDING, tr_changed = True\<rparr>)))))"

definition defer_staged_runtime_admission_outbox_event ::
  "instant \<Rightarrow> db \<Rightarrow> uuid \<Rightarrow> string \<Rightarrow> pydatetime \<Rightarrow> string \<Rightarrow> pydatetime option
    \<Rightarrow> outbox_error + (db \<times> TransitionResult option)" where
  "defer_staged_runtime_admission_outbox_event clock d event_id worker_id0 retry_not_before reason_code now =
     bindE (validate_nonempty worker_id0 ''worker_id'' 200) (\<lambda>worker_id.
     let observed_at = outbox_time clock now in
     bindE (locked_event d event_id) (\<lambda>event.
     bindE (require_active_lease event worker_id observed_at) (\<lambda>_.
     if \<not> runtime_refresh_replay_is_safe d event then Inr (d, None)
     else bindE (defer_unstarted_outbox_event clock d event_id worker_id retry_not_before reason_code
                   (Some (Aware observed_at)))
            (\<lambda>(d1, r). Inr (d1, Some r)))))"

definition failing_event :: "string \<Rightarrow> string option \<Rightarrow> OutboxEvent \<Rightarrow> OutboxEvent" where
  "failing_event code detail e = e\<lparr>oe_lease_owner := None, oe_lease_expires_at := None,
     oe_last_error_code := Some code, oe_last_error_detail := detail\<rparr>"

definition retried_event :: "instant \<Rightarrow> OutboxEvent \<Rightarrow> OutboxEvent" where
  "retried_event retry_at e = e\<lparr>oe_status := OutboxPENDING, oe_available_at := retry_at, oe_processed_at := None\<rparr>"

definition dead_event :: "instant \<Rightarrow> OutboxEvent \<Rightarrow> OutboxEvent" where
  "dead_event now e = e\<lparr>oe_status := OutboxDEAD_LETTER, oe_processed_at := Some now\<rparr>"

text \<open>The last part of \<open>fail_outbox_event\<close>: the event cannot be retried.\<close>

definition bury_failed ::
  "db \<Rightarrow> OutboxEvent \<Rightarrow> instant \<Rightarrow> string \<Rightarrow> string \<Rightarrow> string option \<Rightarrow> ExternalEffect \<Rightarrow> db" where
  "bury_failed d event failed_at worker_id code detail external_effect =
     (let d1 = put_event (dead_event failed_at (failing_event code detail event)) d in
      case (if external_effect = MAY_HAVE_STARTED
            then (case mark_salad_attempt_unknown d1 event failed_at worker_id of (d2, b) \<Rightarrow> (d2, b, False))
            else (case fail_exhausted_salad_attempt_before_submission d1 event failed_at worker_id code detail
                         outbox_exhausted_action of (d2, b) \<Rightarrow> (d2, False, b))) of
        (d2, marked_unknown, marked_failed) \<Rightarrow>
          add_audit (outbox_audit event worker_id ''outbox.dead_lettered''
            [(''attempt'', PInt (oe_attempts event)), (''error_code'', PStr code),
             (''external_effect'', PStr (ExternalEffect_value external_effect)),
             (''attempt_marked_unknown'', PBool marked_unknown),
             (''attempt_marked_failed'', PBool marked_failed)] failed_at) d2)"

definition fail_outbox_event ::
  "instant \<Rightarrow> db \<Rightarrow> uuid \<Rightarrow> string \<Rightarrow> string \<Rightarrow> string option \<Rightarrow> ExternalEffect \<Rightarrow> pydatetime option
    \<Rightarrow> pydatetime option \<Rightarrow> outbox_error + (db \<times> TransitionResult)" where
  "fail_outbox_event clock d event_id worker_id0 error_code safe_error_detail external_effect
     retry_not_before now =
     bindE (validate_nonempty worker_id0 ''worker_id'' 200) (\<lambda>worker_id.
     bindE (validate_error_code error_code) (\<lambda>code.
     bindE (validate_safe_error_detail safe_error_detail) (\<lambda>detail.
     let failed_at = outbox_time clock now;
         retry_at = map_option outbox_as_utc retry_not_before in
     if (case retry_at of None \<Rightarrow> False | Some t \<Rightarrow> t < failed_at)
     then Inl (OutboxValidationError ''retry_not_before must not be in the past'')
     else bindE (locked_event d event_id) (\<lambda>event.
       if oe_status event = OutboxDEAD_LETTER
       then Inr (d, \<lparr>tr_status = OutboxDEAD_LETTER, tr_changed = False\<rparr>)
       else bindE (require_active_lease event worker_id failed_at) (\<lambda>_.
         case retry_at of
           Some t \<Rightarrow>
             if external_effect = DEFINITELY_NOT_STARTED \<and> oe_attempts event < oe_max_attempts event
             then Inr (add_audit (outbox_audit event worker_id ''outbox.retry_scheduled''
                         [(''attempt'', PInt (oe_attempts event)), (''error_code'', PStr code),
                          (''retry_not_before'', PStr (isoformat t))] failed_at)
                         (put_event (retried_event t (failing_event code detail event)) d),
                       \<lparr>tr_status = OutboxPENDING, tr_changed = True\<rparr>)
             else Inr (bury_failed d event failed_at worker_id code detail external_effect,
                       \<lparr>tr_status = OutboxDEAD_LETTER, tr_changed = True\<rparr>)
         | None \<Rightarrow> Inr (bury_failed d event failed_at worker_id code detail external_effect,
                       \<lparr>tr_status = OutboxDEAD_LETTER, tr_changed = True\<rparr>))))))"

definition extend_outbox_lease ::
  "instant \<Rightarrow> db \<Rightarrow> uuid \<Rightarrow> string \<Rightarrow> int \<Rightarrow> pydatetime option \<Rightarrow> outbox_error + (db \<times> instant)" where
  "extend_outbox_lease clock d event_id worker_id0 lease_seconds now =
     bindE (validate_nonempty worker_id0 ''worker_id'' 200) (\<lambda>worker_id.
     if lease_seconds \<le> 0 \<or> 86400 < lease_seconds
     then Inl (OutboxValidationError ''lease_seconds must be between 1 and 86400'')
     else
       (let extended_at = outbox_time clock now in
        bindE (locked_event d event_id) (\<lambda>event.
        bindE (require_active_lease event worker_id extended_at) (\<lambda>_.
          let new_expiry = extended_at + lease_seconds * us_per_second;
              expiry = (case oe_lease_expires_at event of None \<Rightarrow> new_expiry | Some x \<Rightarrow> max x new_expiry)
          in Inr (put_event (event\<lparr>oe_lease_expires_at := Some expiry\<rparr>) d, expiry)))))"

end
