(* ===== verification/WorkerDemand.thy ===== *)
theory WorkerDemand
  imports WarmLeases Outbox
begin

text \<open>
  How many workers a deployment needs (\<open>effective_worker_min_replicas\<close> of \<open>services/salad_deployments.py\<close>): one for a
  warm lease that holds a replica, one for a generation attempt that is about to be submitted or is running, none
  otherwise. The queries join the outbox event, the attempt, its job, the version and the release.
\<close>

definition ACTIVE_RELEASE_PHASES :: "ReleasePhase list" where
  "ACTIVE_RELEASE_PHASES = [PhaseREADY, PhaseGENERATING]"

definition ACTIVE_GPU_ATTEMPT_STATES :: "GenerationAttemptState list" where
  "ACTIVE_GPU_ATTEMPT_STATES = [AttemptSUBMITTED, AttemptRUNNING, AttemptUNKNOWN]"

definition ACTIVE_GPU_JOB_STATES :: "GenerationState list" where
  "ACTIVE_GPU_JOB_STATES = [JobRUNNING, JobUNKNOWN]"

definition GENERATION_STOP_REQUESTED_ACTION :: string where
  "GENERATION_STOP_REQUESTED_ACTION = ''release.generation_stop_requested''"

definition stop_marker :: "db \<Rightarrow> Release \<Rightarrow> bool" where
  "stop_marker d r \<longleftrightarrow> list_ex (\<lambda>a. ae_resource_type a = ''release'' \<and> ae_resource_id a = re_id r
     \<and> ae_action a = GENERATION_STOP_REQUESTED_ACTION) (db_audits d)"

definition active_release :: "db \<Rightarrow> (Release \<Rightarrow> bool) \<Rightarrow> GenerationJob \<Rightarrow> bool" where
  "active_release d admitted j \<longleftrightarrow>
     list_ex (\<lambda>v. rv_id v = gj_release_version_id j \<and>
       list_ex (\<lambda>r. re_id r = rv_release_id v \<and> re_phase r \<in> set ACTIVE_RELEASE_PHASES
         \<and> re_current_version_no r = rv_version_no v \<and> admitted r \<and> \<not> stop_marker d r) (db_releases d))
       (db_release_versions d)"

text \<open>An attempt that is created and claimed but not yet posted to the provider, of a healthy release.\<close>

definition awaits_admission :: "db \<Rightarrow> uuid \<Rightarrow> GenerationAttempt \<Rightarrow> bool" where
  "awaits_admission d deployment_id a \<longleftrightarrow> ga_salad_deployment_id a = Some deployment_id \<and> ga_provider a = ''salad''
     \<and> ga_state a = AttemptCREATED
     \<and> list_ex (\<lambda>j. gj_id j = ga_job_id a \<and> gj_provider j = ''salad'' \<and> gj_state j = JobCLAIMED
          \<and> gj_attempt_count j = ga_attempt_no a
          \<and> active_release d (\<lambda>r. re_health r = HealthHEALTHY) j) (db_jobs d)"

definition submission_event :: "OutboxEvent \<Rightarrow> GenerationAttempt \<Rightarrow> bool" where
  "submission_event e a \<longleftrightarrow> oe_topic e = SALAD_JOB_SUBMIT_TOPIC \<and> oe_aggregate_type e = GENERATION_ATTEMPT_AGGREGATE
     \<and> oe_aggregate_id e = ga_id a"

definition claimed_admission :: "db \<Rightarrow> uuid \<Rightarrow> instant \<Rightarrow> bool" where
  "claimed_admission d deployment_id now \<longleftrightarrow>
     list_ex (\<lambda>e. oe_status e = OutboxPROCESSING
       \<and> (case oe_lease_expires_at e of None \<Rightarrow> False | Some t \<Rightarrow> now < t)
       \<and> list_ex (\<lambda>a. submission_event e a \<and> awaits_admission d deployment_id a) (db_attempts d)) (db_outbox d)"

definition staged_metadata :: "db \<Rightarrow> uuid \<Rightarrow> (string \<times> pyval) list list" where
  "staged_metadata d deployment_id =
     concat (map (\<lambda>e. if oe_status e \<in> {OutboxPENDING, OutboxPROCESSING} \<and> oe_attempts e < oe_max_attempts e
       then map ga_request_metadata
         (filter (\<lambda>a. submission_event e a \<and> awaits_admission d deployment_id a) (db_attempts d))
       else []) (db_outbox d))"

definition staged_target :: "db \<Rightarrow> uuid \<Rightarrow> bool" where
  "staged_target d deployment_id \<longleftrightarrow>
     list_ex (\<lambda>m. valid_runtime_admission_target (py_get m ''runtime_admission'')) (staged_metadata d deployment_id)"

definition active_attempt :: "db \<Rightarrow> uuid \<Rightarrow> bool" where
  "active_attempt d deployment_id \<longleftrightarrow>
     list_ex (\<lambda>a. ga_salad_deployment_id a = Some deployment_id \<and> ga_provider a = ''salad''
       \<and> ga_state a \<in> set ACTIVE_GPU_ATTEMPT_STATES
       \<and> list_ex (\<lambda>j. gj_id j = ga_job_id a \<and> gj_provider j = ''salad'' \<and> gj_state j \<in> set ACTIVE_GPU_JOB_STATES
            \<and> active_release d (\<lambda>_. True) j) (db_jobs d)) (db_attempts d)"

definition effective_worker_min_replicas :: "instant \<Rightarrow> db \<Rightarrow> uuid \<Rightarrow> instant \<Rightarrow> int" where
  "effective_worker_min_replicas clock d deployment_id now =
     (case get_deployment deployment_id d of
        None \<Rightarrow> 0
      | Some x \<Rightarrow>
          if sd_purpose x = PurposeVIDEO then 0
          else if effective_experiment_min_replicas clock d deployment_id (Some (Aware now)) = 1 then 1
          else if claimed_admission d deployment_id now then 1
          else if staged_target d deployment_id then 1
          else if active_attempt d deployment_id then 1 else 0)"

definition eligible_runtime_refresh_plan_exists :: "db \<Rightarrow> uuid \<Rightarrow> bool" where
  "eligible_runtime_refresh_plan_exists d deployment_id \<longleftrightarrow>
     list_ex (\<lambda>m. valid_runtime_refresh_plan (py_get m ''runtime_admission_refresh_plan'')) (staged_metadata d deployment_id)"

lemma effective_min_01: "effective_worker_min_replicas clock d k now \<in> {0, 1}"
  by (simp add: effective_worker_min_replicas_def split: option.split)

end
