(* ===== verification/NearBlack.thy ===== *)
theory NearBlack
  imports PyValues "HOL-Library.Word"
begin

text \<open>
  src/gen_automation/domain/near_black_recovery.py: the plan that replaces the seeds of the failed
  suffix of a generation job by derived ones. A plan is persisted as JSON and trusted only after it
  was rebuilt from the immutable inputs of the job.

  The argument \<open>sha256\<close> is \<open>hashlib.sha256(data).digest()\<close>. The type of the arguments replaces the
  \<open>isinstance\<close> checks of the builder; values that come from JSON are \<^typ>\<open>pyval\<close> and are checked.
\<close>

unbundle bit_operations_syntax

definition MAX_OUTPUTS_PER_GENERATION_JOB :: int where "MAX_OUTPUTS_PER_GENERATION_JOB = 25"

definition NB_MAX_SEED :: int where "NB_MAX_SEED = 2 ^ 63 - 1"
definition NB_MAX_U32 :: int where "NB_MAX_U32 = 2 ^ 32 - 1"
definition NB_VERSION :: string where "NB_VERSION = ''v1''"
definition NB_DERIVATION_DOMAIN :: string where "NB_DERIVATION_DOMAIN = ''gen-automation:near-black-seed:v1''"

datatype near_black_error = NearBlackRecoveryPlanError string

record NearBlackSeedRewrite =
  rw_output_index :: int
  rw_original_seed :: int
  rw_recovery_seed :: int
  rw_collision_counter :: int

record NearBlackSeedRecoveryPlan =
  np_version :: string
  np_generation_job_id :: string
  np_source_grant_audit_event_id :: string
  np_source_generation_attempt_id :: string
  np_source_attempt_no :: int
  np_grant_ordinal :: int
  np_failed_output_index :: int
  np_expected_output_count :: int
  np_uploaded_output_indices :: "int list"
  np_seed_rewrites :: "NearBlackSeedRewrite list"
  np_seed_map_sha256 :: string
  np_plan_sha256 :: string

section \<open>Bytes and digests\<close>

text \<open>\<open>int.to_bytes(n, "big")\<close>, \<open>int.from_bytes(bytes, "big")\<close>, \<open>str.encode("utf-8")\<close>, \<open>bytes.hex()\<close>.\<close>

fun to_bytes :: "nat \<Rightarrow> int \<Rightarrow> 8 word list" where
  "to_bytes 0 i = []"
| "to_bytes (Suc n) i = to_bytes n (i div 256) @ [word_of_int i]"

definition from_bytes :: "8 word list \<Rightarrow> int" where
  "from_bytes bs = foldl (\<lambda>a b. a * 256 + uint b) 0 bs"

definition utf8 :: "string \<Rightarrow> 8 word list" where
  "utf8 s = concat (map (\<lambda>c. if ch c < 128 then [word_of_nat (ch c)]
     else [word_of_nat (192 + ch c div 64), word_of_nat (128 + ch c mod 64)]) s)"

definition hexdigest :: "8 word list \<Rightarrow> string" where
  "hexdigest bs = concat (map (\<lambda>b. hex_digits 2 (unat b)) bs)"

definition canonical_sha256 :: "(8 word list \<Rightarrow> 8 word list) \<Rightarrow> pyval \<Rightarrow> string" where
  "canonical_sha256 sha256 value = hexdigest (sha256 (utf8 (canonical_json value)))"

text \<open>\<open>UUID(text)\<close> of a canonical text, and the pattern of the canonical texts.\<close>

definition hex_value :: "char \<Rightarrow> nat" where
  "hex_value c = (if is_digit c then ch c - 48 else ch c - 87)"

definition uuid_of_str :: "string \<Rightarrow> uuid" where
  "uuid_of_str s = foldl (\<lambda>a c. a * 16 + hex_value c) 0 (filter (\<lambda>c. c \<noteq> CHR ''-'') s)"

definition uuid_pattern :: "string \<Rightarrow> bool" where
  "uuid_pattern s \<longleftrightarrow> length s = 36 \<and> list_all is_lower_hex (take 8 s) \<and> s ! 8 = CHR ''-''
     \<and> list_all is_lower_hex (take 4 (drop 9 s)) \<and> s ! 13 = CHR ''-''
     \<and> list_all is_lower_hex (take 4 (drop 14 s)) \<and> s ! 18 = CHR ''-''
     \<and> list_all is_lower_hex (take 4 (drop 19 s)) \<and> s ! 23 = CHR ''-''
     \<and> list_all is_lower_hex (drop 24 s)"

section \<open>The derivation of a seed\<close>

definition require_bounded_int :: "int \<Rightarrow> string \<Rightarrow> int \<Rightarrow> int \<Rightarrow> near_black_error + int" where
  "require_bounded_int value name minimum maximum =
     (if value < minimum \<or> maximum < value
      then Inl (NearBlackRecoveryPlanError (name @ '' is outside the recovery contract''))
      else Inr value)"

definition derive_near_black_seed_v1 ::
  "(8 word list \<Rightarrow> 8 word list) \<Rightarrow> uuid \<Rightarrow> int \<Rightarrow> int \<Rightarrow> int \<Rightarrow> int \<Rightarrow> near_black_error + int" where
  "derive_near_black_seed_v1 sha256 job_id output_index original_seed grant_ordinal collision_counter =
     bindE (require_bounded_int output_index ''output_index'' 0 NB_MAX_U32) (\<lambda>i.
     bindE (require_bounded_int original_seed ''original_seed'' 0 NB_MAX_SEED) (\<lambda>s.
     bindE (require_bounded_int grant_ordinal ''grant_ordinal'' 1 NB_MAX_U32) (\<lambda>g.
     bindE (require_bounded_int collision_counter ''collision_counter'' 0 NB_MAX_U32) (\<lambda>c.
       let digest = sha256 (utf8 NB_DERIVATION_DOMAIN @ to_bytes 16 (int job_id) @ to_bytes 4 i @ to_bytes 8 s
             @ to_bytes 4 g @ to_bytes 4 c)
       in Inr (from_bytes (take 8 digest) AND NB_MAX_SEED)))))"

section \<open>Payloads\<close>

definition seed_map_payload :: "int list \<Rightarrow> pyval" where
  "seed_map_payload effective_seeds = PDict [(''version'', PStr NB_VERSION),
     (''seeds'', PList (map (\<lambda>(i, s). PDict [(''output_index'', PInt (int i)), (''seed'', PInt s)])
        (enumerate 0 effective_seeds)))]"

definition dump_rewrite :: "NearBlackSeedRewrite \<Rightarrow> pyval" where
  "dump_rewrite r = PDict [(''output_index'', PInt (rw_output_index r)),
     (''original_seed'', PInt (rw_original_seed r)), (''recovery_seed'', PInt (rw_recovery_seed r)),
     (''collision_counter'', PInt (rw_collision_counter r))]"

definition plan_payload :: "NearBlackSeedRecoveryPlan \<Rightarrow> (string \<times> pyval) list" where
  "plan_payload p = [(''version'', PStr (np_version p)),
     (''generation_job_id'', PStr (np_generation_job_id p)),
     (''source_grant_audit_event_id'', PStr (np_source_grant_audit_event_id p)),
     (''source_generation_attempt_id'', PStr (np_source_generation_attempt_id p)),
     (''source_attempt_no'', PInt (np_source_attempt_no p)),
     (''grant_ordinal'', PInt (np_grant_ordinal p)),
     (''failed_output_index'', PInt (np_failed_output_index p)),
     (''expected_output_count'', PInt (np_expected_output_count p)),
     (''uploaded_output_indices'', PList (map PInt (np_uploaded_output_indices p))),
     (''seed_rewrites'', PList (map dump_rewrite (np_seed_rewrites p))),
     (''seed_map_sha256'', PStr (np_seed_map_sha256 p))]"

text \<open>\<open>model_dump(mode="json")\<close>.\<close>

definition dump_plan :: "NearBlackSeedRecoveryPlan \<Rightarrow> (string \<times> pyval) list" where
  "dump_plan p = plan_payload p @ [(''plan_sha256'', PStr (np_plan_sha256 p))]"

section \<open>Validation of a plan\<close>

definition valid_output_index :: "int \<Rightarrow> bool" where
  "valid_output_index i \<longleftrightarrow> 0 \<le> i \<and> i < MAX_OUTPUTS_PER_GENERATION_JOB"

definition valid_rewrite :: "NearBlackSeedRewrite \<Rightarrow> bool" where
  "valid_rewrite r \<longleftrightarrow> valid_output_index (rw_output_index r)
     \<and> 0 \<le> rw_original_seed r \<and> rw_original_seed r \<le> NB_MAX_SEED
     \<and> 0 \<le> rw_recovery_seed r \<and> rw_recovery_seed r \<le> NB_MAX_SEED
     \<and> 0 \<le> rw_collision_counter r \<and> rw_collision_counter r \<le> NB_MAX_U32"

definition valid_plan_fields :: "NearBlackSeedRecoveryPlan \<Rightarrow> bool" where
  "valid_plan_fields p \<longleftrightarrow> np_version p = NB_VERSION \<and> uuid_pattern (np_generation_job_id p)
     \<and> uuid_pattern (np_source_grant_audit_event_id p) \<and> uuid_pattern (np_source_generation_attempt_id p)
     \<and> 1 \<le> np_source_attempt_no p \<and> np_source_attempt_no p \<le> NB_MAX_U32
     \<and> 1 \<le> np_grant_ordinal p \<and> np_grant_ordinal p \<le> NB_MAX_U32
     \<and> valid_output_index (np_failed_output_index p)
     \<and> 1 \<le> np_expected_output_count p \<and> np_expected_output_count p \<le> MAX_OUTPUTS_PER_GENERATION_JOB
     \<and> list_all valid_output_index (np_uploaded_output_indices p)
     \<and> list_all valid_rewrite (np_seed_rewrites p)
     \<and> sha256_pattern (np_seed_map_sha256 p) \<and> sha256_pattern (np_plan_sha256 p)"

definition rewrite_is_derived ::
  "(8 word list \<Rightarrow> 8 word list) \<Rightarrow> uuid \<Rightarrow> int \<Rightarrow> NearBlackSeedRewrite \<Rightarrow> bool" where
  "rewrite_is_derived sha256 job_id grant_ordinal r \<longleftrightarrow>
     derive_near_black_seed_v1 sha256 job_id (rw_output_index r) (rw_original_seed r) grant_ordinal
       (rw_collision_counter r) = Inr (rw_recovery_seed r)"

definition validate_contract :: "(8 word list \<Rightarrow> 8 word list) \<Rightarrow> NearBlackSeedRecoveryPlan \<Rightarrow> string + unit" where
  "validate_contract sha256 p =
     (let originals = map rw_original_seed (np_seed_rewrites p);
          recovered = map rw_recovery_seed (np_seed_rewrites p) in
      bindE (require (np_uploaded_output_indices p = []
               \<or> np_uploaded_output_indices p = [0..np_failed_output_index p - 1])
             ''uploaded outputs are not an exact progressive prefix'') (\<lambda>_.
      bindE (require (map rw_output_index (np_seed_rewrites p)
               = [np_failed_output_index p..np_expected_output_count p - 1])
             ''seed rewrites are not the exact failed suffix'') (\<lambda>_.
      bindE (require (distinct originals) ''seed rewrite originals are not unique'') (\<lambda>_.
      bindE (require (distinct recovered) ''recovery seeds are not unique'') (\<lambda>_.
      bindE (require (set originals \<inter> set recovered = {})
             ''a recovery seed collides with an original suffix seed'') (\<lambda>_.
      bindE (require (list_all (rewrite_is_derived sha256 (uuid_of_str (np_generation_job_id p))
                 (np_grant_ordinal p)) (np_seed_rewrites p))
             ''a recovery seed does not match the v1 derivation'') (\<lambda>_.
      require (np_plan_sha256 p = canonical_sha256 sha256 (PDict (plan_payload p)))
        ''the recovery plan digest is invalid'')))))))"

text \<open>The construction \<open>NearBlackSeedRecoveryPlan(...)\<close>: the fields, then the contract.\<close>

definition construct_plan ::
  "(8 word list \<Rightarrow> 8 word list) \<Rightarrow> NearBlackSeedRecoveryPlan \<Rightarrow> near_black_error + NearBlackSeedRecoveryPlan" where
  "construct_plan sha256 p =
     (if valid_plan_fields p \<and> validate_contract sha256 p = Inr () then Inr p
      else Inl (NearBlackRecoveryPlanError ''the recovery plan is invalid''))"

section \<open>Building a plan\<close>

definition validated_original_seeds :: "int list \<Rightarrow> int \<Rightarrow> near_black_error + int list" where
  "validated_original_seeds original_seeds expected_output_count =
     bindE (mapE (\<lambda>s. require_bounded_int s ''original_seed'' 0 NB_MAX_SEED) original_seeds) (\<lambda>seeds.
     if int (length seeds) \<noteq> expected_output_count
     then Inl (NearBlackRecoveryPlanError ''original seed count does not match the job'')
     else if \<not> distinct seeds then Inl (NearBlackRecoveryPlanError ''original job seeds are not unique'')
     else Inr seeds)"

text \<open>The \<open>while True\<close> loop that looks for the first free derived seed.\<close>

function find_recovery_seed ::
  "(8 word list \<Rightarrow> 8 word list) \<Rightarrow> uuid \<Rightarrow> int \<Rightarrow> int \<Rightarrow> int \<Rightarrow> int set \<Rightarrow> int \<Rightarrow> near_black_error + (int \<times> int)" where
  "find_recovery_seed sha256 job_id output_index seed grant_ordinal used collision_counter =
     (case derive_near_black_seed_v1 sha256 job_id output_index seed grant_ordinal collision_counter of
        Inl e \<Rightarrow> Inl e
      | Inr recovery_seed \<Rightarrow>
          if recovery_seed \<notin> used then Inr (recovery_seed, collision_counter)
          else if collision_counter = NB_MAX_U32
          then Inl (NearBlackRecoveryPlanError ''recovery seed collision space was exhausted'')
          else find_recovery_seed sha256 job_id output_index seed grant_ordinal used (collision_counter + 1))"
  by pat_completeness auto
termination
proof (relation "measure (\<lambda>(_, _, _, _, _, _, c). nat (NB_MAX_U32 + 1 - c))", simp)
  fix sha256 job_id output_index seed grant_ordinal used c x
  assume "derive_near_black_seed_v1 sha256 job_id output_index seed grant_ordinal c = Inr x"
  then have "c \<le> NB_MAX_U32"
    by (auto simp: derive_near_black_seed_v1_def bindE_eq_Inr require_bounded_int_def split: if_splits)
  then show "((sha256, job_id, output_index, seed, grant_ordinal, used, c + 1),
      (sha256, job_id, output_index, seed, grant_ordinal, used, c))
    \<in> measure (\<lambda>(_, _, _, _, _, _, c). nat (NB_MAX_U32 + 1 - c))"
    by simp
qed

declare find_recovery_seed.simps [simp del]

fun build_rewrites ::
  "(8 word list \<Rightarrow> 8 word list) \<Rightarrow> uuid \<Rightarrow> int \<Rightarrow> int list \<Rightarrow> int set \<Rightarrow> int list
    \<Rightarrow> near_black_error + NearBlackSeedRewrite list" where
  "build_rewrites sha256 job_id grant_ordinal seeds used [] = Inr []"
| "build_rewrites sha256 job_id grant_ordinal seeds used (i # rest) =
     bindE (find_recovery_seed sha256 job_id i (seeds ! nat i) grant_ordinal used 0)
       (\<lambda>(recovery_seed, counter).
         bindE (build_rewrites sha256 job_id grant_ordinal seeds (insert recovery_seed used) rest)
           (\<lambda>rewrites. Inr (\<lparr>rw_output_index = i, rw_original_seed = seeds ! nat i,
              rw_recovery_seed = recovery_seed, rw_collision_counter = counter\<rparr> # rewrites)))"

definition effective_seeds :: "int list \<Rightarrow> NearBlackSeedRewrite list \<Rightarrow> int list" where
  "effective_seeds seeds rewrites =
     fold (\<lambda>r es. es[nat (rw_output_index r) := rw_recovery_seed r]) rewrites seeds"

definition build_near_black_seed_recovery_plan ::
  "(8 word list \<Rightarrow> 8 word list) \<Rightarrow> uuid \<Rightarrow> uuid \<Rightarrow> uuid \<Rightarrow> int \<Rightarrow> int \<Rightarrow> int \<Rightarrow> int \<Rightarrow> int list \<Rightarrow> int list
    \<Rightarrow> near_black_error + NearBlackSeedRecoveryPlan" where
  "build_near_black_seed_recovery_plan sha256 job_id audit_event_id attempt_id source_attempt_no grant_ordinal
     failed_output_index expected_output_count uploaded_output_indices original_seeds =
     bindE (require_bounded_int source_attempt_no ''source_attempt_no'' 1 NB_MAX_U32) (\<lambda>attempt_no.
     bindE (require_bounded_int grant_ordinal ''grant_ordinal'' 1 NB_MAX_U32) (\<lambda>ordinal.
     bindE (require_bounded_int expected_output_count ''expected_output_count'' 1 MAX_OUTPUTS_PER_GENERATION_JOB)
       (\<lambda>count.
     bindE (require_bounded_int failed_output_index ''failed_output_index'' 0 (count - 1)) (\<lambda>failed.
     bindE (validated_original_seeds original_seeds count) (\<lambda>seeds.
     bindE (mapE (\<lambda>i. require_bounded_int i ''uploaded_output_index'' 0 (count - 1)) uploaded_output_indices)
       (\<lambda>uploaded.
     if uploaded \<noteq> [] \<and> uploaded \<noteq> [0..failed - 1]
     then Inl (NearBlackRecoveryPlanError ''uploaded outputs are not an exact progressive prefix'')
     else bindE (build_rewrites sha256 job_id ordinal seeds (set seeds) [failed..count - 1]) (\<lambda>rewrites.
       let provisional = \<lparr>np_version = NB_VERSION, np_generation_job_id = uuid_str job_id,
             np_source_grant_audit_event_id = uuid_str audit_event_id,
             np_source_generation_attempt_id = uuid_str attempt_id, np_source_attempt_no = attempt_no,
             np_grant_ordinal = ordinal, np_failed_output_index = failed, np_expected_output_count = count,
             np_uploaded_output_indices = uploaded, np_seed_rewrites = rewrites,
             np_seed_map_sha256 = canonical_sha256 sha256 (seed_map_payload (effective_seeds seeds rewrites)),
             np_plan_sha256 = replicate 64 (CHR ''0'')\<rparr>
       in construct_plan sha256 (provisional\<lparr>np_plan_sha256 :=
            canonical_sha256 sha256 (PDict (plan_payload provisional))\<rparr>))))))))"

section \<open>Decoding a persisted plan\<close>

text \<open>Strict JSON decoding by pydantic: no coercion, no unknown key; \<open>version\<close> has a default.\<close>

definition strict_int :: "pyval \<Rightarrow> int option" where
  "strict_int v = (case v of PInt i \<Rightarrow> Some i | _ \<Rightarrow> None)"

definition strict_str :: "pyval \<Rightarrow> string option" where
  "strict_str v = (case v of PStr s \<Rightarrow> Some s | _ \<Rightarrow> None)"

definition field :: "(pyval \<Rightarrow> 'a option) \<Rightarrow> (string \<times> pyval) list \<Rightarrow> string \<Rightarrow> 'a option" where
  "field dec kvs k = (case map_of kvs k of None \<Rightarrow> None | Some v \<Rightarrow> dec v)"

fun mapO :: "('a \<Rightarrow> 'b option) \<Rightarrow> 'a list \<Rightarrow> 'b list option" where
  "mapO f [] = Some []"
| "mapO f (x # xs) = Option.bind (f x) (\<lambda>y. Option.bind (mapO f xs) (\<lambda>ys. Some (y # ys)))"

definition strict_list :: "(pyval \<Rightarrow> 'a option) \<Rightarrow> pyval \<Rightarrow> 'a list option" where
  "strict_list dec v = (case v of PList xs \<Rightarrow> mapO dec xs | _ \<Rightarrow> None)"

definition decode_rewrite :: "pyval \<Rightarrow> NearBlackSeedRewrite option" where
  "decode_rewrite v = (case v of
      PDict kvs \<Rightarrow>
        if \<not> set (map fst kvs) \<subseteq> {''output_index'', ''original_seed'', ''recovery_seed'', ''collision_counter''}
        then None
        else Option.bind (field strict_int kvs ''output_index'') (\<lambda>i.
          Option.bind (field strict_int kvs ''original_seed'') (\<lambda>s.
          Option.bind (field strict_int kvs ''recovery_seed'') (\<lambda>r.
          Option.bind (field strict_int kvs ''collision_counter'') (\<lambda>c.
            Some \<lparr>rw_output_index = i, rw_original_seed = s, rw_recovery_seed = r, rw_collision_counter = c\<rparr>))))
    | _ \<Rightarrow> None)"

definition plan_keys :: "string list" where
  "plan_keys = [''version'', ''generation_job_id'', ''source_grant_audit_event_id'',
     ''source_generation_attempt_id'', ''source_attempt_no'', ''grant_ordinal'', ''failed_output_index'',
     ''expected_output_count'', ''uploaded_output_indices'', ''seed_rewrites'', ''seed_map_sha256'', ''plan_sha256'']"

definition decode_plan :: "(string \<times> pyval) list \<Rightarrow> NearBlackSeedRecoveryPlan option" where
  "decode_plan kvs =
     (if \<not> set (map fst kvs) \<subseteq> set plan_keys then None
      else Option.bind (case map_of kvs ''version'' of None \<Rightarrow> Some NB_VERSION | Some v \<Rightarrow> strict_str v) (\<lambda>version.
        Option.bind (field strict_str kvs ''generation_job_id'') (\<lambda>job.
        Option.bind (field strict_str kvs ''source_grant_audit_event_id'') (\<lambda>audit.
        Option.bind (field strict_str kvs ''source_generation_attempt_id'') (\<lambda>attempt.
        Option.bind (field strict_int kvs ''source_attempt_no'') (\<lambda>attempt_no.
        Option.bind (field strict_int kvs ''grant_ordinal'') (\<lambda>ordinal.
        Option.bind (field strict_int kvs ''failed_output_index'') (\<lambda>failed.
        Option.bind (field strict_int kvs ''expected_output_count'') (\<lambda>count.
        Option.bind (field (strict_list strict_int) kvs ''uploaded_output_indices'') (\<lambda>uploaded.
        Option.bind (field (strict_list decode_rewrite) kvs ''seed_rewrites'') (\<lambda>rewrites.
        Option.bind (field strict_str kvs ''seed_map_sha256'') (\<lambda>seed_map.
        Option.bind (field strict_str kvs ''plan_sha256'') (\<lambda>digest.
          Some \<lparr>np_version = version, np_generation_job_id = job, np_source_grant_audit_event_id = audit,
            np_source_generation_attempt_id = attempt, np_source_attempt_no = attempt_no,
            np_grant_ordinal = ordinal, np_failed_output_index = failed, np_expected_output_count = count,
            np_uploaded_output_indices = uploaded, np_seed_rewrites = rewrites,
            np_seed_map_sha256 = seed_map, np_plan_sha256 = digest\<rparr>)))))))))))))"

definition parse_near_black_seed_recovery_plan ::
  "(8 word list \<Rightarrow> 8 word list) \<Rightarrow> (string \<times> pyval) list \<Rightarrow> near_black_error + NearBlackSeedRecoveryPlan" where
  "parse_near_black_seed_recovery_plan sha256 raw = (case decode_plan raw of
      None \<Rightarrow> Inl (NearBlackRecoveryPlanError ''the recovery plan is invalid'')
    | Some p \<Rightarrow> construct_plan sha256 p)"

definition require_near_black_seed_recovery_plan ::
  "(8 word list \<Rightarrow> 8 word list) \<Rightarrow> (string \<times> pyval) list \<Rightarrow> uuid \<Rightarrow> int \<Rightarrow> int list \<Rightarrow> uuid \<Rightarrow> uuid \<Rightarrow> int \<Rightarrow> int
    \<Rightarrow> int \<Rightarrow> near_black_error + NearBlackSeedRecoveryPlan" where
  "require_near_black_seed_recovery_plan sha256 raw job_id expected_output_count original_seeds audit_event_id
     attempt_id source_attempt_no grant_ordinal target_attempt_no =
     bindE (parse_near_black_seed_recovery_plan sha256 raw) (\<lambda>plan.
     bindE (require (np_generation_job_id plan = uuid_str job_id)
       (NearBlackRecoveryPlanError ''the recovery plan belongs to another job'')) (\<lambda>_.
     bindE (require_bounded_int expected_output_count ''expected_output_count'' 1 MAX_OUTPUTS_PER_GENERATION_JOB)
       (\<lambda>count.
     bindE (require (np_expected_output_count plan = count)
       (NearBlackRecoveryPlanError ''the recovery plan output count is invalid'')) (\<lambda>_.
     bindE (require (np_source_grant_audit_event_id plan = uuid_str audit_event_id)
       (NearBlackRecoveryPlanError ''the recovery plan grant identity is invalid'')) (\<lambda>_.
     bindE (require (np_source_generation_attempt_id plan = uuid_str attempt_id)
       (NearBlackRecoveryPlanError ''the recovery plan attempt identity is invalid'')) (\<lambda>_.
     bindE (require_bounded_int source_attempt_no ''source_attempt_no'' 1 NB_MAX_U32) (\<lambda>attempt_no.
     bindE (require (np_source_attempt_no plan = attempt_no)
       (NearBlackRecoveryPlanError ''the recovery plan source attempt is invalid'')) (\<lambda>_.
     bindE (require_bounded_int grant_ordinal ''grant_ordinal'' 1 NB_MAX_U32) (\<lambda>ordinal.
     bindE (require (np_grant_ordinal plan = ordinal)
       (NearBlackRecoveryPlanError ''the recovery plan grant ordinal is invalid'')) (\<lambda>_.
     bindE (require_bounded_int target_attempt_no ''target_attempt_no'' 1 NB_MAX_U32) (\<lambda>target.
     bindE (require (np_source_attempt_no plan < target)
       (NearBlackRecoveryPlanError ''the recovery plan does not precede the target attempt'')) (\<lambda>_.
     bindE (validated_original_seeds original_seeds count) (\<lambda>seeds.
     bindE (build_near_black_seed_recovery_plan sha256 job_id
              (uuid_of_str (np_source_grant_audit_event_id plan))
              (uuid_of_str (np_source_generation_attempt_id plan)) (np_source_attempt_no plan)
              (np_grant_ordinal plan) (np_failed_output_index plan) (np_expected_output_count plan)
              (np_uploaded_output_indices plan) seeds) (\<lambda>rebuilt.
     bindE (require (rebuilt = plan)
       (NearBlackRecoveryPlanError ''the recovery plan does not match the immutable job seeds'')) (\<lambda>_.
     Inr plan)))))))))))))))"

definition apply_near_black_seed_recovery_plan ::
  "(8 word list \<Rightarrow> 8 word list) \<Rightarrow> (string \<times> pyval) list \<Rightarrow> uuid \<Rightarrow> int \<Rightarrow> int list \<Rightarrow> uuid \<Rightarrow> uuid \<Rightarrow> int \<Rightarrow> int
    \<Rightarrow> int \<Rightarrow> near_black_error + int list" where
  "apply_near_black_seed_recovery_plan sha256 raw job_id expected_output_count original_seeds audit_event_id
     attempt_id source_attempt_no grant_ordinal target_attempt_no =
     bindE (require_near_black_seed_recovery_plan sha256 raw job_id expected_output_count original_seeds
              audit_event_id attempt_id source_attempt_no grant_ordinal target_attempt_no) (\<lambda>plan.
     Inr (effective_seeds original_seeds (np_seed_rewrites plan)))"

end
