(* ===== verification/GenerationRecovery.thy ===== *)
theory GenerationRecovery
  imports WorkerDemand NearBlack
begin

text \<open>
  \<open>services/generation_recovery.py\<close>: further attempts for a job whose current attempt failed for reasons of the
  infrastructure. A grant raises \<open>max_attempts\<close> by one and is recorded by an audit event, which is also what bounds the
  grants. The caller has locked the rows and flushed them: the attempt and the job that are passed are those of the
  database. \<open>sha256\<close> is \<open>hashlib.sha256(data).digest()\<close>, \<open>new_id\<close> is \<open>uuid7()\<close>.
\<close>

section \<open>Constants\<close>

definition INFRASTRUCTURE_RETRY_GRANT_ACTION :: string where
  "INFRASTRUCTURE_RETRY_GRANT_ACTION = ''generation_attempt.infrastructure_retry_granted''"
definition RUNTIME_INSTANCE_TURNOVER_RETRY_GRANT_ACTION :: string where
  "RUNTIME_INSTANCE_TURNOVER_RETRY_GRANT_ACTION = ''generation_attempt.runtime_instance_turnover_retry_granted''"
definition NEAR_BLACK_OUTPUT_RETRY_GRANT_ACTION :: string where
  "NEAR_BLACK_OUTPUT_RETRY_GRANT_ACTION = ''generation_attempt.near_black_retry_granted''"
definition MAX_INFRASTRUCTURE_RETRY_GRANTS :: nat where "MAX_INFRASTRUCTURE_RETRY_GRANTS = 2"
definition MAX_RUNTIME_INSTANCE_TURNOVER_RETRY_GRANTS :: nat where "MAX_RUNTIME_INSTANCE_TURNOVER_RETRY_GRANTS = 2"
definition MAX_NEAR_BLACK_OUTPUT_RETRY_GRANTS :: nat where "MAX_NEAR_BLACK_OUTPUT_RETRY_GRANTS = 1"
definition NEAR_BLACK_SEED_RECOVERY_METADATA_KEY :: string where
  "NEAR_BLACK_SEED_RECOVERY_METADATA_KEY = ''near_black_seed_recovery''"

definition SALAD_JOB_FAILED_ERROR_CODE :: string where "SALAD_JOB_FAILED_ERROR_CODE = ''salad_job_failed''"
definition SALAD_WEBHOOK_JOB_FAILED_ERROR_CODE :: string where
  "SALAD_WEBHOOK_JOB_FAILED_ERROR_CODE = ''provider_job_failed''"
definition SALAD_WATCHDOG_EXPIRED_ERROR_CODE :: string where
  "SALAD_WATCHDOG_EXPIRED_ERROR_CODE = ''salad_attempt_watchdog_expired''"
definition SALAD_DEPLOYMENT_SUPERSEDED_ERROR_CODE :: string where
  "SALAD_DEPLOYMENT_SUPERSEDED_ERROR_CODE = ''salad_deployment_superseded''"
definition SALAD_DEPLOYMENT_PROVIDER_ABSENT_ERROR_CODE :: string where
  "SALAD_DEPLOYMENT_PROVIDER_ABSENT_ERROR_CODE = ''salad_deployment_rollover_provider_absent''"
definition SALAD_RATE_LIMITED_ERROR_CODE :: string where "SALAD_RATE_LIMITED_ERROR_CODE = ''salad_rate_limited''"
definition SALAD_PROVIDER_CANCELLED_ERROR_CODE :: string where
  "SALAD_PROVIDER_CANCELLED_ERROR_CODE = ''salad_provider_cancelled''"
definition SALAD_PROVIDER_JOB_ABSENT_ERROR_CODE :: string where
  "SALAD_PROVIDER_JOB_ABSENT_ERROR_CODE = ''salad_provider_job_absent''"
definition SALAD_WORKER_NEAR_BLACK_OUTPUT_ERROR_CODE :: string where
  "SALAD_WORKER_NEAR_BLACK_OUTPUT_ERROR_CODE = ''salad_worker_near_black_output''"

lemmas recovery_code_defs = SALAD_JOB_FAILED_ERROR_CODE_def SALAD_WEBHOOK_JOB_FAILED_ERROR_CODE_def
  SALAD_WATCHDOG_EXPIRED_ERROR_CODE_def SALAD_DEPLOYMENT_SUPERSEDED_ERROR_CODE_def
  SALAD_DEPLOYMENT_PROVIDER_ABSENT_ERROR_CODE_def SALAD_RATE_LIMITED_ERROR_CODE_def
  SALAD_PROVIDER_CANCELLED_ERROR_CODE_def SALAD_PROVIDER_JOB_ABSENT_ERROR_CODE_def
  SALAD_WORKER_NEAR_BLACK_OUTPUT_ERROR_CODE_def

definition INFRASTRUCTURE_FAILURE_ERROR_CODES :: "string list" where
  "INFRASTRUCTURE_FAILURE_ERROR_CODES = [SALAD_JOB_FAILED_ERROR_CODE, SALAD_WEBHOOK_JOB_FAILED_ERROR_CODE,
     SALAD_WATCHDOG_EXPIRED_ERROR_CODE, SALAD_DEPLOYMENT_SUPERSEDED_ERROR_CODE,
     SALAD_DEPLOYMENT_PROVIDER_ABSENT_ERROR_CODE, SALAD_RATE_LIMITED_ERROR_CODE,
     SALAD_PROVIDER_CANCELLED_ERROR_CODE, SALAD_PROVIDER_JOB_ABSENT_ERROR_CODE]"

definition LEGACY_FAILED_PROVIDER_ERROR_CODES :: "string list" where
  "LEGACY_FAILED_PROVIDER_ERROR_CODES = [SALAD_JOB_FAILED_ERROR_CODE, SALAD_WEBHOOK_JOB_FAILED_ERROR_CODE]"

definition LEGACY_CANCELLED_PROVIDER_ERROR_CODES :: "string list" where
  "LEGACY_CANCELLED_PROVIDER_ERROR_CODES = [SALAD_WATCHDOG_EXPIRED_ERROR_CODE,
     SALAD_DEPLOYMENT_SUPERSEDED_ERROR_CODE, SALAD_PROVIDER_CANCELLED_ERROR_CODE]"

definition legacy_absent_provider_state :: "string \<Rightarrow> string option" where
  "legacy_absent_provider_state error_code =
     map_of [(SALAD_DEPLOYMENT_PROVIDER_ABSENT_ERROR_CODE, ''absent_after_rollover''),
       (SALAD_PROVIDER_JOB_ABSENT_ERROR_CODE, ''absent_after_reconciliation'')] error_code"

definition RETRYABLE_RELEASE_PHASES :: "ReleasePhase list" where
  "RETRYABLE_RELEASE_PHASES = [PhaseREADY, PhaseGENERATING]"

definition NON_RETRYABLE_JOB_STATES :: "GenerationState list" where
  "NON_RETRYABLE_JOB_STATES = [JobSUCCEEDED, JobFAILED, JobCANCELLED]"

definition RUNTIME_ADMISSION_TRANSITIONAL_ERROR_CODES :: "string list" where
  "RUNTIME_ADMISSION_TRANSITIONAL_ERROR_CODES =
     [''provider_autoscaler_repair_pending'', ''provider_image_preparation_pending'', ''provider_start_pending'']"

definition RUNTIME_ADMISSION_STALLED_ERROR_CODES :: "string list" where
  "RUNTIME_ADMISSION_STALLED_ERROR_CODES = [''provider_image_preparation_stalled'', ''provider_start_stalled'']"

datatype InfrastructureRetrySource = RetrySUBMISSION | RetryRECONCILER | RetryWEBHOOK | RetrySCHEDULER_RECOVERY

fun InfrastructureRetrySource_value :: "InfrastructureRetrySource \<Rightarrow> string" where
  "InfrastructureRetrySource_value RetrySUBMISSION = ''submission''"
| "InfrastructureRetrySource_value RetryRECONCILER = ''reconciler''"
| "InfrastructureRetrySource_value RetryWEBHOOK = ''webhook''"
| "InfrastructureRetrySource_value RetrySCHEDULER_RECOVERY = ''scheduler_recovery''"

record InfrastructureRetryGrant =
  ig_granted :: bool
  ig_grant_ordinal :: nat
  ig_grant_limit :: nat

record RuntimeInstanceTurnoverEvidence =
  te_provider_external_id :: string
  te_provider_group_version :: int
  te_artifact_manifest_sha256 :: string
  te_rollout_id :: string
  te_previous_worker_instance_id :: string
  te_current_worker_instance_id :: string

record NearBlackOutputRetryGrant =
  ng_granted :: bool
  ng_grant_ordinal :: nat
  ng_grant_limit :: nat
  ng_grant_audit_event_id :: "uuid option"
  ng_recovery_plan :: "NearBlackSeedRecoveryPlan option"

record InfrastructureRecoverySummary =
  ir_scanned :: nat
  ir_recovered_job_ids :: "uuid list"

section \<open>The seeds of a job\<close>

definition seeds_unavailable :: "near_black_error + 'a" where
  "seeds_unavailable = Inl (NearBlackRecoveryPlanError ''original job seeds are unavailable'')"

definition output_seed :: "pyval \<Rightarrow> near_black_error + int" where
  "output_seed output =
     (case output of
        PDict kvs \<Rightarrow>
          (case py_get kvs ''seed'' of
             PInt s \<Rightarrow> if 0 \<le> s \<and> s \<le> 2 ^ 63 - 1 then Inr s else seeds_unavailable
           | _ \<Rightarrow> seeds_unavailable)
      | _ \<Rightarrow> seeds_unavailable)"

definition require_near_black_original_output_seeds ::
  "(8 word list \<Rightarrow> 8 word list) \<Rightarrow> GenerationJob \<Rightarrow> near_black_error + int list" where
  "require_near_black_original_output_seeds sha256 j =
     (if canonical_sha256 sha256 (PDict (gj_parameters j)) \<noteq> gj_parameters_sha256 j
        \<or> \<not> py_eq (py_get (gj_parameters j) ''schema_version'') (PInt 2)
      then seeds_unavailable
      else (case (py_get (gj_parameters j) ''output_generations'', py_get (gj_parameters j) ''generation'') of
          (PList outputs, PDict generation) \<Rightarrow>
            if int (length outputs) \<noteq> gj_expected_output_count j then seeds_unavailable
            else bindE (mapE output_seed outputs) (\<lambda>seeds.
              case (seeds, py_get generation ''seed'') of
                (first # _, PInt base) \<Rightarrow> if base = first then Inr seeds else seeds_unavailable
              | _ \<Rightarrow> seeds_unavailable)
        | _ \<Rightarrow> seeds_unavailable))"

section \<open>What allows a retry\<close>

definition provider_attempt_is_definitive :: "GenerationAttempt \<Rightarrow> bool" where
  "provider_attempt_is_definitive a \<longleftrightarrow> ga_provider_external_id a \<noteq> None
     \<or> (ga_error_code a = Some SALAD_DEPLOYMENT_PROVIDER_ABSENT_ERROR_CODE
        \<and> ga_provider_state a = Some ''absent_after_rollover'')
     \<or> (ga_error_code a = Some SALAD_PROVIDER_JOB_ABSENT_ERROR_CODE
        \<and> ga_provider_state a = Some ''absent_after_reconciliation'')
     \<or> ga_error_code a = Some SALAD_RATE_LIMITED_ERROR_CODE"

definition legacy_job_failure_code :: "GenerationAttempt \<Rightarrow> GenerationJob \<Rightarrow> string option" where
  "legacy_job_failure_code a j =
     (case gj_last_error_code j of
        None \<Rightarrow> None
      | Some error_code \<Rightarrow>
          if ga_error_code a \<noteq> None \<or> gj_state j \<noteq> JobDEAD_LETTER \<or> gj_provider j \<noteq> ''salad''
            \<or> ga_provider a \<noteq> ''salad''
          then None
          else if (if error_code \<in> set LEGACY_FAILED_PROVIDER_ERROR_CODES
              then ga_provider_external_id a \<noteq> None \<and> ga_provider_state a = Some ''failed''
              else if error_code \<in> set LEGACY_CANCELLED_PROVIDER_ERROR_CODES
              then ga_provider_external_id a \<noteq> None \<and> ga_provider_state a = Some ''cancelled''
              else legacy_absent_provider_state error_code \<noteq> None
                \<and> ga_provider_state a = legacy_absent_provider_state error_code)
            then Some error_code else None)"

definition release_lifecycle :: "db \<Rightarrow> GenerationJob \<Rightarrow> (ReleaseVersion \<times> Release) option" where
  "release_lifecycle d j =
     (case row_get rv_id (gj_release_version_id j) (db_release_versions d) of
        None \<Rightarrow> None
      | Some v \<Rightarrow>
          (case row_get re_id (rv_release_id v) (db_releases d) of None \<Rightarrow> None | Some r \<Rightarrow> Some (v, r)))"

definition release_allows_retry :: "db \<Rightarrow> GenerationJob \<Rightarrow> bool" where
  "release_allows_retry d j =
     (case release_lifecycle d j of
        None \<Rightarrow> False
      | Some (v, r) \<Rightarrow>
          re_current_version_no r = rv_version_no v \<and> re_health r = HealthHEALTHY
          \<and> re_phase r \<in> set RETRYABLE_RELEASE_PHASES \<and> \<not> stop_marker d r)"

section \<open>Grants\<close>

definition grant_event :: "string \<Rightarrow> AuditEvent \<Rightarrow> bool" where
  "grant_event action e \<longleftrightarrow> ae_resource_type e = ''generation_attempt'' \<and> ae_action e = action"

definition attempt_granted :: "db \<Rightarrow> string \<Rightarrow> uuid \<Rightarrow> bool" where
  "attempt_granted d action attempt_id \<longleftrightarrow>
     list_ex (\<lambda>e. grant_event action e \<and> ae_resource_id e = attempt_id) (db_audits d)"

definition grant_count :: "db \<Rightarrow> string \<Rightarrow> uuid \<Rightarrow> nat" where
  "grant_count d action job_id =
     length (filter (\<lambda>e. grant_event action e
       \<and> (case get_attempt (ae_resource_id e) d of None \<Rightarrow> False | Some a \<Rightarrow> ga_job_id a = job_id)) (db_audits d))"

definition job_granted :: "instant \<Rightarrow> string option \<Rightarrow> string option \<Rightarrow> GenerationJob \<Rightarrow> GenerationJob" where
  "job_granted retry_at failure_code failure_detail j = j\<lparr>gj_max_attempts := gj_max_attempts j + 1,
     gj_state := JobRETRY_WAIT, gj_retry_at := Some retry_at, gj_lease_owner := None, gj_lease_expires_at := None,
     gj_last_error_code := failure_code, gj_last_error_detail := failure_detail,
     gj_lock_version := gj_lock_version j + 1\<rparr>"

definition grant_audit :: "uuid option \<Rightarrow> string \<Rightarrow> string \<Rightarrow> GenerationAttempt \<Rightarrow> GenerationJob
    \<Rightarrow> string option \<Rightarrow> InfrastructureRetrySource \<Rightarrow> nat \<Rightarrow> nat \<Rightarrow> (string \<times> pyval) list \<Rightarrow> instant \<Rightarrow> AuditEvent" where
  "grant_audit audit_id actor action a j failure_code source grant_ordinal grant_limit audit_detail occurred_at =
     \<lparr>ae_id = audit_id, ae_actor = actor, ae_action = action, ae_resource_type = ''generation_attempt'',
      ae_resource_id = ga_id a, ae_correlation_id = uuid_str (ga_id a),
      ae_detail = [(''generation_job_id'', PStr (uuid_str (gj_id j))), (''attempt_no'', PInt (ga_attempt_no a)),
        (''failure_code'', optional_str failure_code), (''source'', PStr (InfrastructureRetrySource_value source)),
        (''grant_ordinal'', PInt (int grant_ordinal)), (''grant_limit'', PInt (int grant_limit)),
        (''previous_max_attempts'', PInt (gj_max_attempts j)), (''new_max_attempts'', PInt (gj_max_attempts j + 1)),
        (''previous_job_state'', PStr (GenerationState_value (gj_state j))),
        (''new_job_state'', PStr (GenerationState_value JobRETRY_WAIT))] @ audit_detail,
      ae_occurred_at = occurred_at\<rparr>"

definition no_grant :: "nat \<Rightarrow> nat \<Rightarrow> InfrastructureRetryGrant" where
  "no_grant grant_ordinal grant_limit =
     \<lparr>ig_granted = False, ig_grant_ordinal = grant_ordinal, ig_grant_limit = grant_limit\<rparr>"

definition grant_bounded_infrastructure_retry ::
  "db \<Rightarrow> GenerationAttempt \<Rightarrow> GenerationJob \<Rightarrow> string \<Rightarrow> nat \<Rightarrow> string \<Rightarrow> string option
    \<Rightarrow> InfrastructureRetrySource \<Rightarrow> string \<Rightarrow> instant \<Rightarrow> instant \<Rightarrow> (string \<times> pyval) list
    \<Rightarrow> db \<times> InfrastructureRetryGrant" where
  "grant_bounded_infrastructure_retry d a j action grant_limit failure_code failure_detail source actor retry_at
     occurred_at audit_detail =
     (let granted = grant_count d action (gj_id j) in
      if attempt_granted d action (ga_id a) \<or> grant_limit \<le> granted then (d, no_grant granted grant_limit)
      else (add_audit (grant_audit None actor action a j (Some failure_code) source (granted + 1) grant_limit
              audit_detail occurred_at) (put_job (job_granted retry_at (Some failure_code) failure_detail j) d),
            \<lparr>ig_granted = True, ig_grant_ordinal = granted + 1, ig_grant_limit = grant_limit\<rparr>))"

text \<open>\<open>attempt.error_code or legacy_failure_code\<close>: an empty code counts as none.\<close>

definition py_or :: "string option \<Rightarrow> string option \<Rightarrow> string option" where
  "py_or v w = (case v of Some (c # cs) \<Rightarrow> v | _ \<Rightarrow> w)"

definition uuid_or_none_str :: "uuid option \<Rightarrow> string" where
  "uuid_or_none_str v = (case v of None \<Rightarrow> ''None'' | Some u \<Rightarrow> uuid_str u)"

definition grant_infrastructure_retry ::
  "db \<Rightarrow> GenerationAttempt \<Rightarrow> GenerationJob \<Rightarrow> InfrastructureRetrySource \<Rightarrow> string \<Rightarrow> instant \<Rightarrow> instant
    \<Rightarrow> db \<times> InfrastructureRetryGrant" where
  "grant_infrastructure_retry d a j source actor retry_at occurred_at =
     (let legacy_failure_code = (if source = RetrySCHEDULER_RECOVERY then legacy_job_failure_code a j else None);
          failure_detail = (if legacy_failure_code \<noteq> None then gj_last_error_detail j else ga_error_detail a) in
      case py_or (ga_error_code a) legacy_failure_code of
        None \<Rightarrow> (d, no_grant 0 MAX_INFRASTRUCTURE_RETRY_GRANTS)
      | Some failure_code \<Rightarrow>
          if ga_job_id a \<noteq> gj_id j \<or> ga_attempt_no a \<noteq> gj_attempt_count j \<or> ga_state a \<noteq> AttemptFAILED
            \<or> ga_completed_at a = None \<or> failure_code \<notin> set INFRASTRUCTURE_FAILURE_ERROR_CODES
            \<or> gj_state j \<in> set NON_RETRYABLE_JOB_STATES \<or> 10 \<le> gj_max_attempts j
            \<or> (legacy_failure_code = None \<and> \<not> provider_attempt_is_definitive a) \<or> \<not> release_allows_retry d j
          then (d, no_grant 0 MAX_INFRASTRUCTURE_RETRY_GRANTS)
          else grant_bounded_infrastructure_retry d a j INFRASTRUCTURE_RETRY_GRANT_ACTION
            MAX_INFRASTRUCTURE_RETRY_GRANTS failure_code failure_detail source actor retry_at occurred_at
            [(''failure_code_source'', PStr (if legacy_failure_code \<noteq> None then ''generation_job_legacy_fallback''
                else ''generation_attempt'')),
             (''provider_external_id'', optional_str (ga_provider_external_id a)),
             (''salad_deployment_id'', PStr (uuid_or_none_str (ga_salad_deployment_id a))),
             (''assets_retained'', PBool True)])"

section \<open>A worker instance that was replaced\<close>

definition runtime_instance_id_is_valid :: "string \<Rightarrow> bool" where
  "runtime_instance_id_is_valid value \<longleftrightarrow> 1 \<le> length value \<and> length value \<le> 128
     \<and> list_all (\<lambda>c. c \<in> set ''ABCDEFGHIJKLMNOPQRSTUVWXYZabcdefghijklmnopqrstuvwxyz0123456789._:-'') value"

definition lower_hex_text :: "string \<Rightarrow> nat \<Rightarrow> bool" where
  "lower_hex_text s n \<longleftrightarrow> length s = n \<and> s = py_lower s \<and> list_all (\<lambda>c. c \<in> set ''0123456789abcdef'') s"

definition runtime_turnover_deployment_allows_retry ::
  "GenerationAttempt \<Rightarrow> SaladDeployment \<Rightarrow> RuntimeInstanceTurnoverEvidence \<Rightarrow> bool" where
  "runtime_turnover_deployment_allows_retry a x v \<longleftrightarrow>
     ga_salad_deployment_id a = Some (sd_id x) \<and> ga_worker_image_digest a = sd_worker_image_digest x
     \<and> sd_provider_queue_id x \<noteq> None \<and> sd_provider_container_group_id x \<noteq> None \<and> sd_is_current x
     \<and> sd_desired_state x = DesiredACTIVE \<and> sd_administrative_stop_reason x = None \<and> sd_max_replicas x = 1
     \<and> (sd_state x = DeploymentACTIVE
        \<or> (sd_state x = DeploymentPROVISIONING
           \<and> sd_last_error_code x \<in> Some ` set RUNTIME_ADMISSION_TRANSITIONAL_ERROR_CODES)
        \<or> (sd_state x = DeploymentDEGRADED
           \<and> sd_last_error_code x \<in> Some ` set RUNTIME_ADMISSION_STALLED_ERROR_CODES))
     \<and> sd_runtime_artifact_manifest_sha256 x = Some (te_artifact_manifest_sha256 v)
     \<and> py_eq (py_get (ga_request_metadata a) ''runtime_admission'')
         (PDict [(''version'', PStr ''v1''), (''provider_group_version'', PInt (te_provider_group_version v)),
            (''artifact_manifest_sha256'', PStr (te_artifact_manifest_sha256 v)),
            (''rollout_id'', PStr (te_rollout_id v)),
            (''worker_instance_id'', PStr (te_previous_worker_instance_id v))])
     \<and> 0 < te_provider_group_version v
     \<and> lower_hex_text (te_artifact_manifest_sha256 v) 64 \<and> lower_hex_text (te_rollout_id v) 32
     \<and> runtime_instance_id_is_valid (te_previous_worker_instance_id v)
     \<and> runtime_instance_id_is_valid (te_current_worker_instance_id v)
     \<and> te_previous_worker_instance_id v \<noteq> te_current_worker_instance_id v"

definition grant_runtime_instance_turnover_retry ::
  "db \<Rightarrow> GenerationAttempt \<Rightarrow> GenerationJob \<Rightarrow> SaladDeployment \<Rightarrow> RuntimeInstanceTurnoverEvidence
    \<Rightarrow> InfrastructureRetrySource \<Rightarrow> string \<Rightarrow> instant \<Rightarrow> instant \<Rightarrow> db \<times> InfrastructureRetryGrant" where
  "grant_runtime_instance_turnover_retry d a j x v source actor retry_at occurred_at =
     (case ga_error_code a of
        None \<Rightarrow> (d, no_grant 0 MAX_RUNTIME_INSTANCE_TURNOVER_RETRY_GRANTS)
      | Some error_code \<Rightarrow>
          if ga_job_id a \<noteq> gj_id j \<or> ga_attempt_no a \<noteq> gj_attempt_count j \<or> ga_state a \<noteq> AttemptFAILED
            \<or> ga_completed_at a = None
            \<or> error_code \<notin> {SALAD_JOB_FAILED_ERROR_CODE, SALAD_WEBHOOK_JOB_FAILED_ERROR_CODE}
            \<or> ga_provider_external_id a \<noteq> Some (te_provider_external_id v) \<or> ga_provider_state a \<noteq> Some ''failed''
            \<or> gj_state j \<in> {JobSUCCEEDED, JobFAILED, JobDEAD_LETTER, JobCANCELLED} \<or> 10 \<le> gj_max_attempts j
            \<or> \<not> runtime_turnover_deployment_allows_retry a x v \<or> \<not> release_allows_retry d j
          then (d, no_grant 0 MAX_RUNTIME_INSTANCE_TURNOVER_RETRY_GRANTS)
          else grant_bounded_infrastructure_retry d a j RUNTIME_INSTANCE_TURNOVER_RETRY_GRANT_ACTION
            MAX_RUNTIME_INSTANCE_TURNOVER_RETRY_GRANTS error_code (ga_error_detail a) source actor retry_at occurred_at
            [(''provider_external_id'', PStr (te_provider_external_id v)),
             (''salad_deployment_id'', PStr (uuid_str (sd_id x))),
             (''provider_group_version'', PInt (te_provider_group_version v)),
             (''artifact_manifest_sha256'', PStr (te_artifact_manifest_sha256 v)),
             (''rollout_id'', PStr (te_rollout_id v)),
             (''previous_worker_instance_id'', PStr (te_previous_worker_instance_id v)),
             (''current_worker_instance_id'', PStr (te_current_worker_instance_id v)),
             (''retry_class'', PStr ''runtime_instance_turnover''), (''assets_retained'', PBool True)])"

section \<open>An output that is nearly black\<close>

definition no_near_black_grant :: "nat \<Rightarrow> NearBlackOutputRetryGrant" where
  "no_near_black_grant grant_ordinal = \<lparr>ng_granted = False, ng_grant_ordinal = grant_ordinal,
     ng_grant_limit = MAX_NEAR_BLACK_OUTPUT_RETRY_GRANTS, ng_grant_audit_event_id = None, ng_recovery_plan = None\<rparr>"

definition grant_near_black_output_retry ::
  "(8 word list \<Rightarrow> 8 word list) \<Rightarrow> uuid \<Rightarrow> db \<Rightarrow> GenerationAttempt \<Rightarrow> GenerationJob \<Rightarrow> InfrastructureRetrySource
    \<Rightarrow> string \<Rightarrow> instant \<Rightarrow> instant \<Rightarrow> int \<Rightarrow> int list \<Rightarrow> db \<times> NearBlackOutputRetryGrant" where
  "grant_near_black_output_retry sha256 new_id d a j source actor retry_at occurred_at failed_output_index
     uploaded_output_indices =
     (if ga_job_id a \<noteq> gj_id j \<or> ga_attempt_no a \<noteq> gj_attempt_count j \<or> ga_state a \<noteq> AttemptFAILED
        \<or> ga_completed_at a = None \<or> ga_error_code a \<noteq> Some SALAD_WORKER_NEAR_BLACK_OUTPUT_ERROR_CODE
        \<or> gj_state j \<in> set NON_RETRYABLE_JOB_STATES \<or> 10 \<le> gj_max_attempts j
        \<or> \<not> provider_attempt_is_definitive a
        \<or> \<not> (0 \<le> failed_output_index \<and> failed_output_index < gj_expected_output_count j)
        \<or> (uploaded_output_indices \<noteq> [] \<and> uploaded_output_indices \<noteq> [0..failed_output_index - 1])
        \<or> \<not> release_allows_retry d j
      then (d, no_near_black_grant 0)
      else
        (let granted = grant_count d NEAR_BLACK_OUTPUT_RETRY_GRANT_ACTION (gj_id j) in
         if attempt_granted d NEAR_BLACK_OUTPUT_RETRY_GRANT_ACTION (ga_id a)
           \<or> MAX_NEAR_BLACK_OUTPUT_RETRY_GRANTS \<le> granted
         then (d, no_near_black_grant granted)
         else (case bindE (require_near_black_original_output_seeds sha256 j)
               (build_near_black_seed_recovery_plan sha256 (gj_id j) new_id (ga_id a) (ga_attempt_no a)
                 (int granted + 1) failed_output_index (gj_expected_output_count j) uploaded_output_indices) of
             Inl _ \<Rightarrow> (d, no_near_black_grant granted)
           | Inr recovery_plan \<Rightarrow>
               (add_audit (grant_audit (Some new_id) actor NEAR_BLACK_OUTPUT_RETRY_GRANT_ACTION a j (ga_error_code a)
                    source (granted + 1) MAX_NEAR_BLACK_OUTPUT_RETRY_GRANTS
                    [(''provider_external_id'', optional_str (ga_provider_external_id a)),
                     (''salad_deployment_id'', PStr (uuid_or_none_str (ga_salad_deployment_id a))),
                     (''failed_output_index'', PInt failed_output_index),
                     (''uploaded_output_count'', PInt (int (length uploaded_output_indices))),
                     (''assets_retained'', PBool True),
                     (NEAR_BLACK_SEED_RECOVERY_METADATA_KEY, PDict (dump_plan recovery_plan))] occurred_at)
                  (put_job (job_granted retry_at (ga_error_code a) (ga_error_detail a) j) d),
                \<lparr>ng_granted = True, ng_grant_ordinal = granted + 1,
                 ng_grant_limit = MAX_NEAR_BLACK_OUTPUT_RETRY_GRANTS, ng_grant_audit_event_id = Some new_id,
                 ng_recovery_plan = Some recovery_plan\<rparr>))))"

section \<open>The sweep over dead letters\<close>

text \<open>The WHERE clause of the sweep over the join of jobs, attempts, versions and releases.\<close>

definition legacy_job_failure_is_definitive :: "GenerationAttempt \<Rightarrow> GenerationJob \<Rightarrow> bool" where
  "legacy_job_failure_is_definitive a j \<longleftrightarrow> ga_provider a = ''salad'' \<and>
     ((gj_last_error_code j \<in> Some ` set LEGACY_FAILED_PROVIDER_ERROR_CODES
        \<and> ga_provider_external_id a \<noteq> None \<and> ga_provider_state a = Some ''failed'')
      \<or> (gj_last_error_code j \<in> Some ` set LEGACY_CANCELLED_PROVIDER_ERROR_CODES
        \<and> ga_provider_external_id a \<noteq> None \<and> ga_provider_state a = Some ''cancelled'')
      \<or> (gj_last_error_code j = Some SALAD_DEPLOYMENT_PROVIDER_ABSENT_ERROR_CODE
        \<and> ga_provider_state a = Some ''absent_after_rollover'')
      \<or> (gj_last_error_code j = Some SALAD_PROVIDER_JOB_ABSENT_ERROR_CODE
        \<and> ga_provider_state a = Some ''absent_after_reconciliation''))"

definition recoverable_infrastructure_failure :: "GenerationAttempt \<Rightarrow> GenerationJob \<Rightarrow> bool" where
  "recoverable_infrastructure_failure a j \<longleftrightarrow>
     (ga_error_code a \<in> Some ` set INFRASTRUCTURE_FAILURE_ERROR_CODES
      \<and> (ga_provider_external_id a \<noteq> None
         \<or> (ga_error_code a = Some SALAD_DEPLOYMENT_PROVIDER_ABSENT_ERROR_CODE
            \<and> ga_provider_state a = Some ''absent_after_rollover'')
         \<or> (ga_error_code a = Some SALAD_PROVIDER_JOB_ABSENT_ERROR_CODE
            \<and> ga_provider_state a = Some ''absent_after_reconciliation'')
         \<or> (ga_error_code a = Some SALAD_RATE_LIMITED_ERROR_CODE \<and> ga_provider_external_id a = None)))
     \<or> (ga_error_code a = None \<and> legacy_job_failure_is_definitive a j)"

definition recovery_candidate :: "db \<Rightarrow> GenerationJob \<Rightarrow> GenerationAttempt \<Rightarrow> bool" where
  "recovery_candidate d j a \<longleftrightarrow> ga_job_id a = gj_id j \<and> gj_provider j = ''salad'' \<and> gj_state j = JobDEAD_LETTER
     \<and> gj_max_attempts j < 10 \<and> ga_attempt_no a = gj_attempt_count j \<and> ga_state a = AttemptFAILED
     \<and> ga_completed_at a \<noteq> None \<and> recoverable_infrastructure_failure a j
     \<and> (case release_lifecycle d j of
          None \<Rightarrow> False
        | Some (v, r) \<Rightarrow> re_current_version_no r = rv_version_no v \<and> re_health r = HealthHEALTHY
            \<and> re_phase r \<in> set RETRYABLE_RELEASE_PHASES \<and> \<not> stop_marker d r)
     \<and> \<not> attempt_granted d INFRASTRUCTURE_RETRY_GRANT_ACTION (ga_id a)
     \<and> grant_count d INFRASTRUCTURE_RETRY_GRANT_ACTION (gj_id j) < MAX_INFRASTRUCTURE_RETRY_GRANTS"

definition recovery_rows ::
  "(uuid \<Rightarrow> bool) \<Rightarrow> int \<Rightarrow> db \<Rightarrow> (GenerationJob \<times> GenerationAttempt) list" where
  "recovery_rows locked limit d =
     take (nat limit) (filter (\<lambda>(j, a). \<not> locked (gj_id j))
       (sort_key (\<lambda>(j, a). (gj_created_at j, gj_id j))
         (filter (\<lambda>(j, a). recovery_candidate d j a) (List.product (db_jobs d) (db_attempts d)))))"

text \<open>The objects of the session are those of the database, also after an earlier grant of the same sweep.\<close>

definition recover_dead_letter ::
  "string \<Rightarrow> instant \<Rightarrow> GenerationJob \<times> GenerationAttempt \<Rightarrow> db \<times> uuid list \<Rightarrow> db \<times> uuid list" where
  "recover_dead_letter actor recovered_at = (\<lambda>(j, a) (d, recovered).
     case get_job (gj_id j) d of
       None \<Rightarrow> (d, recovered)
     | Some j1 \<Rightarrow>
         (case grant_infrastructure_retry d a j1 RetrySCHEDULER_RECOVERY actor recovered_at recovered_at of
            (d1, result) \<Rightarrow> (d1, if ig_granted result then recovered @ [gj_id j] else recovered)))"

definition recover_dead_lettered_infrastructure_jobs ::
  "(uuid \<Rightarrow> bool) \<Rightarrow> instant \<Rightarrow> db \<Rightarrow> string \<Rightarrow> int \<Rightarrow> pydatetime option
    \<Rightarrow> string + (db \<times> InfrastructureRecoverySummary)" where
  "recover_dead_lettered_infrastructure_jobs locked clock d actor limit now =
     (if limit \<le> 0 \<or> 100 < limit then Inl ''infrastructure recovery limit must be between 1 and 100''
      else
        (let recovered_at = outbox_time clock now; rows = recovery_rows locked limit d in
         case fold (recover_dead_letter actor recovered_at) rows (d, []) of
           (d1, recovered) \<Rightarrow> Inr (d1, \<lparr>ir_scanned = length rows, ir_recovered_job_ids = recovered\<rparr>)))"

end
