(* ===== verification/SaladProvider.thy ===== *)
theory SaladProvider
  imports PyTime
begin

text \<open>
  The provider's answers as the services see them: the data classes of \<open>integrations/salad/models.py\<close> with the fields
  the modelled operations read, and the errors of \<open>integrations/salad/errors.py\<close>. The HTTP client is outside the model:
  what a call returned is an argument of the operation that makes it.
\<close>

datatype SaladContainerGroupInstanceState =
    InstanceALLOCATING | InstanceDOWNLOADING | InstanceCREATING | InstanceRUNNING | InstanceSTOPPING

record SaladContainerGroupInstance =
  gi_id :: string
  gi_state :: SaladContainerGroupInstanceState
  gi_update_time :: instant
  gi_version :: int
  gi_started :: "bool option"

record SaladContainerGroupState =
  gs_status :: string
  gs_description :: string
  gs_allocating_count :: int
  gs_creating_count :: int
  gs_running_count :: int
  gs_stopping_count :: int
  gs_start_time :: "instant option"
  gs_finish_time :: "instant option"

record SaladContainerGroup =
  cg_id :: uuid
  cg_name :: string
  cg_replicas :: int
  cg_pending_change :: bool
  cg_version :: int
  cg_current_state :: SaladContainerGroupState
  cg_raw :: "(string \<times> pyval) list"

record SaladQueue =
  sq_id :: uuid
  sq_name :: string
  sq_current_queue_length :: int

text \<open>\<open>SaladRateLimitError\<close> is the API error of status 429.\<close>

datatype salad_error = SaladTransportError | SaladProtocolError | SaladAPIError int | SaladRateLimitError

fun salad_status_code :: "salad_error \<Rightarrow> int option" where
  "salad_status_code (SaladAPIError code) = Some code"
| "salad_status_code SaladRateLimitError = Some 429"
| "salad_status_code _ = None"

type_synonym 'a salad_answer = "salad_error + 'a"

end
