(* ===== verification/GenerationAttempts.thy ===== *)
theory GenerationAttempts
  imports GenerationRecovery SaladProvider
begin

text \<open>
  The life of a generation attempt at the provider (\<open>services/salad.py\<close>): the submission of a prepared attempt, the
  failures that provably precede it, and the observations of its provider job. A submission is two transactions with the
  POST between them: the first commits the marker SUBMITTING, the second records what the POST returned; other
  transactions may commit in between, and a crash leaves the marker. The jobs the provider returns are those of
  \<open>integrations/salad/models.py\<close>, their timestamps with a zone. What the worker reports is decoded as
  \<open>gpu_worker/models.py\<close> declares it.
\<close>

section \<open>Jobs of the provider\<close>

datatype SaladJobStatus = StatusPENDING | StatusRUNNING | StatusSUCCEEDED | StatusCANCELLED | StatusFAILED

fun SaladJobStatus_value :: "SaladJobStatus \<Rightarrow> string" where
  "SaladJobStatus_value StatusPENDING = ''pending''"
| "SaladJobStatus_value StatusRUNNING = ''running''"
| "SaladJobStatus_value StatusSUCCEEDED = ''succeeded''"
| "SaladJobStatus_value StatusCANCELLED = ''cancelled''"
| "SaladJobStatus_value StatusFAILED = ''failed''"

record SaladJobEvent =
  je_action :: string
  je_time :: instant

record SaladQueueJob =
  qj_id :: uuid
  qj_status :: SaladJobStatus
  qj_events :: "SaladJobEvent list"
  qj_create_time :: instant
  qj_update_time :: instant
  qj_metadata :: "(string \<times> pyval) list"
  qj_output :: pyval

section \<open>Results and errors\<close>

datatype salad_service_error =
    SaladServiceValidationError string
  | SaladServiceNotFoundError
  | SaladServiceConflictError string
  | BudgetFailure budget_error

datatype MutationEffect = EffectDEFINITELY_NOT_STARTED | EffectCONFIRMED | EffectMAY_HAVE_STARTED

datatype SubmissionDisposition =
    DispositionSUBMITTED | DispositionALREADY_RECORDED | DispositionBUDGET_BLOCKED | DispositionRETRY_WAIT
  | DispositionFAILED | DispositionCANCELLED | DispositionUNKNOWN

record SubmissionResult =
  sb_generation_attempt_id :: uuid
  sb_attempt_state :: GenerationAttemptState
  sb_generation_job_state :: GenerationState
  sb_disposition :: SubmissionDisposition
  sb_mutation_effect :: MutationEffect
  sb_provider_external_id :: "string option"
  sb_retry_not_before :: "instant option"

record ObservationResult =
  ob_generation_attempt_id :: uuid
  ob_attempt_state :: GenerationAttemptState
  ob_generation_job_state :: GenerationState
  ob_provider_external_id :: "string option"
  ob_applied :: bool
  ob_stale :: bool

definition conflict :: "string \<Rightarrow> salad_service_error + 'a" where
  "conflict message = Inl (SaladServiceConflictError message)"

definition from_budget :: "budget_error + 'a \<Rightarrow> salad_service_error + 'a" where
  "from_budget m = (case m of Inl e \<Rightarrow> Inl (BudgetFailure e) | Inr v \<Rightarrow> Inr v)"

definition service_time :: "instant \<Rightarrow> pydatetime option \<Rightarrow> salad_service_error + instant" where
  "service_time clock now = (case now of
      None \<Rightarrow> Inr clock | Some (Aware t) \<Rightarrow> Inr t
    | Some (Naive _) \<Rightarrow> Inl (SaladServiceValidationError ''timestamps must include a timezone''))"

definition submission_result :: "GenerationAttempt \<Rightarrow> GenerationJob \<Rightarrow> SubmissionDisposition \<Rightarrow> MutationEffect
    \<Rightarrow> instant option \<Rightarrow> SubmissionResult" where
  "submission_result a j disposition mutation_effect retry_not_before =
     \<lparr>sb_generation_attempt_id = ga_id a, sb_attempt_state = ga_state a, sb_generation_job_state = gj_state j,
      sb_disposition = disposition, sb_mutation_effect = mutation_effect,
      sb_provider_external_id = ga_provider_external_id a, sb_retry_not_before = retry_not_before\<rparr>"

definition observation_result :: "GenerationAttempt \<Rightarrow> GenerationJob \<Rightarrow> bool \<Rightarrow> bool \<Rightarrow> ObservationResult" where
  "observation_result a j applied stale =
     \<lparr>ob_generation_attempt_id = ga_id a, ob_attempt_state = ga_state a, ob_generation_job_state = gj_state j,
      ob_provider_external_id = ga_provider_external_id a, ob_applied = applied, ob_stale = stale\<rparr>"

definition salad_audit :: "string \<Rightarrow> GenerationAttempt \<Rightarrow> (string \<times> pyval) list \<Rightarrow> instant \<Rightarrow> AuditEvent" where
  "salad_audit action a detail occurred_at =
     \<lparr>ae_id = None, ae_actor = ''salad-controller'', ae_action = action, ae_resource_type = ''generation_attempt'',
      ae_resource_id = ga_id a, ae_correlation_id = uuid_str (ga_id a), ae_detail = detail, ae_occurred_at = occurred_at\<rparr>"

section \<open>Loading an attempt\<close>

definition load_attempt_context ::
  "db \<Rightarrow> uuid \<Rightarrow> salad_service_error + (GenerationAttempt \<times> GenerationJob \<times> SaladDeployment)" where
  "load_attempt_context d attempt_id =
     (case get_attempt attempt_id d of
        None \<Rightarrow> Inl SaladServiceNotFoundError
      | Some a \<Rightarrow>
          (case (get_job (ga_job_id a) d, Option.bind (ga_salad_deployment_id a) (\<lambda>k. get_deployment k d)) of
             (Some j, Some x) \<Rightarrow> Inr (a, j, x)
           | _ \<Rightarrow> Inl SaladServiceNotFoundError))"

text \<open>The objects of the session after a call that changed them.\<close>

definition refreshed_attempt :: "db \<Rightarrow> GenerationAttempt \<Rightarrow> GenerationAttempt" where
  "refreshed_attempt d a = (case get_attempt (ga_id a) d of None \<Rightarrow> a | Some a' \<Rightarrow> a')"

definition refreshed_job :: "db \<Rightarrow> GenerationJob \<Rightarrow> GenerationJob" where
  "refreshed_job d j = (case get_job (gj_id j) d of None \<Rightarrow> j | Some j' \<Rightarrow> j')"

definition operator_generation_stop_requested :: "db \<Rightarrow> GenerationJob \<Rightarrow> bool" where
  "operator_generation_stop_requested d j \<longleftrightarrow>
     list_ex (\<lambda>e. ae_resource_type e = ''release'' \<and> ae_action e = GENERATION_STOP_REQUESTED_ACTION
       \<and> list_ex (\<lambda>v. rv_id v = gj_release_version_id j \<and> rv_release_id v = ae_resource_id e) (db_release_versions d))
       (db_audits d)"

definition require_submittable_deployment :: "SaladDeployment \<Rightarrow> salad_service_error + unit" where
  "require_submittable_deployment x =
     (if 1 < sd_max_replicas x then conflict ''v1 Salad deployment exceeds one replica''
      else if \<not> sd_is_current x then conflict ''Salad deployment is not current''
      else if sd_state x \<noteq> DeploymentACTIVE
        \<and> \<not> (sd_state x = DeploymentPROVISIONING \<and> sd_last_error_code x \<in> {Some ''provider_autoscaler_repair_pending'',
              Some ''provider_image_preparation_pending'', Some ''provider_start_pending''})
        \<and> \<not> (sd_state x = DeploymentDEGRADED \<and> sd_last_error_code x \<in> {Some ''provider_image_preparation_stalled'',
              Some ''provider_start_stalled''})
      then conflict ''Salad deployment is not active''
      else if sd_desired_state x \<noteq> DesiredACTIVE then conflict ''Salad deployment is stopped''
      else Inr ())"

definition require_attempt_deployment :: "GenerationAttempt \<Rightarrow> SaladDeployment \<Rightarrow> salad_service_error + unit" where
  "require_attempt_deployment a x =
     (if ga_provider a \<noteq> ''salad'' then conflict ''generation attempt belongs to another provider''
      else if ga_worker_image_digest a \<noteq> sd_worker_image_digest x
      then conflict ''attempt worker digest differs from its deployment''
      else if 1 < sd_max_replicas x then conflict ''v1 Salad deployment exceeds one replica'' else Inr ())"

section \<open>Stale submissions\<close>

definition SUBMITTABLE_RELEASE_PHASES :: "ReleasePhase list" where
  "SUBMITTABLE_RELEASE_PHASES = [PhaseREADY, PhaseGENERATING]"

definition SUBMITTABLE_PREPARED_JOB_STATES :: "GenerationState list" where
  "SUBMITTABLE_PREPARED_JOB_STATES = [JobCLAIMED, JobRETRY_WAIT]"

definition REMOTE_OR_AMBIGUOUS_JOB_STATES :: "GenerationState list" where
  "REMOTE_OR_AMBIGUOUS_JOB_STATES = [JobSUBMITTING, JobRUNNING, JobCOLLECTING, JobVERIFYING, JobUNKNOWN,
     JobCANCEL_REQUESTED]"

definition prepared_submission_stale_reason :: "db \<Rightarrow> GenerationAttempt \<Rightarrow> GenerationJob \<Rightarrow> string option" where
  "prepared_submission_stale_reason d a j =
     (if ga_attempt_no a \<noteq> gj_attempt_count j then Some ''superseded_generation_attempt''
      else if gj_state j \<in> set terminal_job_states then Some ''terminal_generation_job''
      else (case release_lifecycle d j of
          None \<Rightarrow> Some ''release_lifecycle_unavailable''
        | Some (v, r) \<Rightarrow>
            if re_current_version_no r \<noteq> rv_version_no v then Some ''superseded_release_version''
            else if re_health r \<noteq> HealthHEALTHY then Some ''release_health_blocked''
            else if re_phase r \<notin> set SUBMITTABLE_RELEASE_PHASES then Some ''release_not_dispatchable''
            else if operator_generation_stop_requested d j then Some ''generation_stop_requested''
            else if gj_state j \<notin> set SUBMITTABLE_PREPARED_JOB_STATES then Some ''generation_job_not_submittable''
            else None))"

definition attempt_has_submission_evidence :: "GenerationAttempt \<Rightarrow> bool" where
  "attempt_has_submission_evidence a \<longleftrightarrow> ga_provider_external_id a \<noteq> None \<or> ga_submit_started_at a \<noteq> None
     \<or> ga_submitted_at a \<noteq> None \<or> ga_started_at a \<noteq> None \<or> ga_last_observed_at a \<noteq> None \<or> ga_unknown_since a \<noteq> None
     \<or> ga_provider_state a \<noteq> None \<or> ga_response_metadata a \<noteq> None \<or> 0 < ga_cost_reservation_microusd a
     \<or> ga_reservation_released_at a \<noteq> None"

definition stale_detail :: "string \<Rightarrow> (string \<times> pyval) list" where
  "stale_detail reason = [(''reason'', PStr reason), (''provider_contacted'', PBool False)]"

definition ambiguous_attempt :: "instant \<Rightarrow> string \<Rightarrow> string \<Rightarrow> GenerationAttempt \<Rightarrow> GenerationAttempt" where
  "ambiguous_attempt occurred_at error_code detail a = a\<lparr>ga_state := AttemptUNKNOWN,
     ga_unknown_since := (case ga_unknown_since a of None \<Rightarrow> Some occurred_at | Some t \<Rightarrow> Some t),
     ga_error_code := Some error_code, ga_error_detail := Some detail, ga_lock_version := ga_lock_version a + 1\<rparr>"

definition ambiguous_job :: "string \<Rightarrow> string \<Rightarrow> GenerationJob \<Rightarrow> GenerationJob" where
  "ambiguous_job error_code detail j = j\<lparr>gj_state := JobUNKNOWN, gj_last_error_code := Some error_code,
     gj_last_error_detail := Some detail, gj_lock_version := gj_lock_version j + 1\<rparr>"

definition failed_attempt :: "instant \<Rightarrow> string \<Rightarrow> string \<Rightarrow> GenerationAttempt \<Rightarrow> GenerationAttempt" where
  "failed_attempt occurred_at error_code detail a = a\<lparr>ga_state := AttemptFAILED, ga_completed_at := Some occurred_at,
     ga_error_code := Some error_code, ga_error_detail := Some detail, ga_lock_version := ga_lock_version a + 1\<rparr>"

definition stale_cancelled_job :: "GenerationJob \<Rightarrow> GenerationJob" where
  "stale_cancelled_job j = j\<lparr>gj_state := JobCANCELLED, gj_retry_at := None, gj_lease_owner := None,
     gj_lease_expires_at := None, gj_last_error_code := Some ''stale_submission_lifecycle'',
     gj_last_error_detail := Some ''The prepared Salad submission was cancelled before provider contact.'',
     gj_lock_version := gj_lock_version j + 1\<rparr>"

definition fence_stale_prepared_submission ::
  "db \<Rightarrow> GenerationAttempt \<Rightarrow> GenerationJob \<Rightarrow> instant \<Rightarrow> (db \<times> SubmissionResult) option" where
  "fence_stale_prepared_submission d a j occurred_at =
     (case prepared_submission_stale_reason d a j of
        None \<Rightarrow> None
      | Some reason \<Rightarrow>
          (let current = (ga_attempt_no a = gj_attempt_count j);
               writes_job = (current \<and> gj_state j \<notin> set terminal_job_states) in
           if attempt_has_submission_evidence a \<or> (current \<and> gj_state j \<in> set REMOTE_OR_AMBIGUOUS_JOB_STATES)
           then
             (let a1 = ambiguous_attempt occurred_at ''stale_submission_lifecycle_ambiguous''
                    ''The stale submission has durable activity evidence and requires reconciliation.'' a;
                  j1 = (if writes_job then ambiguous_job ''stale_submission_lifecycle_ambiguous''
                    ''The stale Salad submission lifecycle is ambiguous; no retry was attempted.'' j else j)
              in Some (add_audit (salad_audit ''generation_attempt.stale_submission_ambiguous'' a (stale_detail reason)
                    occurred_at) (put_job j1 (put_attempt a1 d)),
                  submission_result a1 j1 DispositionUNKNOWN EffectMAY_HAVE_STARTED None))
           else
             (let a1 = failed_attempt occurred_at ''stale_submission_lifecycle''
                    ''The prepared submission no longer belongs to active generation work.'' a;
                  j1 = (if writes_job then stale_cancelled_job j else j)
              in Some (add_audit (salad_audit ''generation_attempt.stale_submission_cancelled'' a (stale_detail reason)
                    occurred_at) (put_job j1 (put_attempt a1 d)),
                  submission_result a1 j1 DispositionCANCELLED EffectDEFINITELY_NOT_STARTED None))))"

definition fence_stale_prepared_attempt ::
  "instant \<Rightarrow> db \<Rightarrow> uuid \<Rightarrow> pydatetime option \<Rightarrow> salad_service_error + (db \<times> SubmissionResult option)" where
  "fence_stale_prepared_attempt clock d attempt_id now =
     bindE (service_time clock now) (\<lambda>occurred_at.
     bindE (load_attempt_context d attempt_id) (\<lambda>(a, j, _).
       if ga_state a \<notin> {AttemptCREATED, AttemptSUBMITTING} then Inr (d, None)
       else (case fence_stale_prepared_submission d a j occurred_at of
           None \<Rightarrow> Inr (d, None) | Some (d1, r) \<Rightarrow> Inr (d1, Some r))))"

section \<open>Failures and unknown outcomes\<close>

definition retry_or_fail :: "GenerationJob \<Rightarrow> GenerationState" where
  "retry_or_fail j = (if gj_attempt_count j < gj_max_attempts j then JobRETRY_WAIT else JobDEAD_LETTER)"

text \<open>A terminal attempt gives its reservation back.\<close>

definition release_reservation :: "db \<Rightarrow> GenerationAttempt \<Rightarrow> instant \<Rightarrow> salad_service_error + db" where
  "release_reservation d a occurred_at =
     (if 0 < ga_cost_reservation_microusd a \<and> ga_reservation_released_at a = None
      then bindE (from_budget (release_attempt_reservation occurred_at d ''salad'' (ga_id a) (Some (Aware occurred_at))))
        (\<lambda>(d1, _). Inr d1)
      else Inr d)"

definition failed_job :: "string \<Rightarrow> string \<Rightarrow> GenerationState \<Rightarrow> instant option \<Rightarrow> GenerationJob \<Rightarrow> GenerationJob" where
  "failed_job error_code detail state retry_at j = j\<lparr>gj_state := state, gj_retry_at := retry_at,
     gj_last_error_code := Some error_code, gj_last_error_detail := Some detail, gj_lock_version := gj_lock_version j + 1\<rparr>"

definition mark_definite_failure ::
  "db \<Rightarrow> GenerationAttempt \<Rightarrow> GenerationJob \<Rightarrow> string \<Rightarrow> string \<Rightarrow> GenerationState \<Rightarrow> instant \<Rightarrow> instant option
    \<Rightarrow> salad_service_error + db" where
  "mark_definite_failure d a j error_code safe_error_detail job_state occurred_at retry_at =
     release_reservation
       (add_audit (salad_audit ''generation_attempt.submit_failed'' a [(''error_code'', PStr error_code)] occurred_at)
         (put_job (failed_job error_code safe_error_detail job_state retry_at j)
           (put_attempt (failed_attempt occurred_at error_code safe_error_detail a) d)))
       (failed_attempt occurred_at error_code safe_error_detail a) occurred_at"

definition mark_outcome_unknown :: "db \<Rightarrow> GenerationAttempt \<Rightarrow> GenerationJob \<Rightarrow> string \<Rightarrow> instant \<Rightarrow> db" where
  "mark_outcome_unknown d a j error_code occurred_at =
     (let a1 = (if ga_state a \<in> set terminal_attempt_states then a
            else ambiguous_attempt occurred_at error_code
              ''The submission outcome is ambiguous; reconciliation is required.'' a);
          j1 = (if gj_state j \<in> set terminal_job_states then j
            else ambiguous_job error_code ''The Salad submission outcome is ambiguous; no retry was attempted.'' j)
      in add_audit (salad_audit ''generation_attempt.submit_outcome_unknown'' a [(''error_code'', PStr error_code)]
           occurred_at) (put_job j1 (put_attempt a1 d)))"

definition fail_definitely_unstarted_submission ::
  "instant \<Rightarrow> db \<Rightarrow> uuid \<Rightarrow> string \<Rightarrow> pydatetime option \<Rightarrow> salad_service_error + (db \<times> SubmissionResult)" where
  "fail_definitely_unstarted_submission clock d attempt_id error_code now =
     bindE (service_time clock now) (\<lambda>occurred_at.
     bindE (load_attempt_context d attempt_id) (\<lambda>(a, j, _).
     bindE (if ga_provider_external_id a \<noteq> None
         \<or> ga_state a \<notin> {AttemptCREATED, AttemptSUBMITTING, AttemptFAILED}
       then conflict ''generation attempt cannot be proven unstarted''
       else if ga_state a \<noteq> AttemptFAILED
       then mark_definite_failure d a j error_code ''The controller stopped before sending the Salad job request.''
         (retry_or_fail j) occurred_at (Some occurred_at)
       else release_reservation d a occurred_at) (\<lambda>d1.
     Inr (d1, submission_result (refreshed_attempt d1 a) (refreshed_job d1 j) DispositionRETRY_WAIT
       EffectDEFINITELY_NOT_STARTED (Some occurred_at)))))"

end
