(* ===== verification/GenerationObservations.thy ===== *)
theory GenerationObservations
  imports GenerationAttempts
begin

text \<open>
  Observations of a provider job (\<open>apply_salad_job_observation\<close> of \<open>services/salad.py\<close>): what the provider and the worker
  report moves the attempt forward, and the job with it when the attempt is the current one.
\<close>

section \<open>The output of a worker\<close>

record UploadedOutput =
  uo_asset_id :: string
  uo_upload_attempt_id :: string
  uo_output_index :: int

datatype GenerateWorkerResponse =
    GenerateResponse string string "UploadedOutput list"
  | GenerateFailureResponse string string int "UploadedOutput list"

fun response_outputs :: "GenerateWorkerResponse \<Rightarrow> UploadedOutput list" where
  "response_outputs (GenerateResponse _ _ outputs) = outputs"
| "response_outputs (GenerateFailureResponse _ _ _ outputs) = outputs"

definition MAX_HARD_OUTPUTS :: int where "MAX_HARD_OUTPUTS = 32"

text \<open>A field of type \<open>Literal\<close> whose default is its only value.\<close>

definition literal_field :: "(string \<times> pyval) list \<Rightarrow> string \<Rightarrow> string \<Rightarrow> bool" where
  "literal_field kvs k text \<longleftrightarrow> (case map_of kvs k of None \<Rightarrow> True | Some v \<Rightarrow> v = PStr text)"

definition decode_uploaded_output :: "pyval \<Rightarrow> UploadedOutput option" where
  "decode_uploaded_output v = (case v of
      PDict kvs \<Rightarrow>
        if \<not> set (map fst kvs) \<subseteq> {''asset_id'', ''upload_attempt_id'', ''output_index'', ''status''}
          \<or> \<not> literal_field kvs ''status'' ''uploaded''
        then None
        else Option.bind (field strict_str kvs ''asset_id'') (\<lambda>asset_id.
          Option.bind (field strict_str kvs ''upload_attempt_id'') (\<lambda>upload_attempt_id.
          Option.bind (field strict_int kvs ''output_index'') (\<lambda>i.
            Some \<lparr>uo_asset_id = asset_id, uo_upload_attempt_id = upload_attempt_id, uo_output_index = i\<rparr>)))
    | _ \<Rightarrow> None)"

definition decode_generate_response :: "pyval \<Rightarrow> GenerateWorkerResponse option" where
  "decode_generate_response v = (case v of
      PDict kvs \<Rightarrow>
        if \<not> set (map fst kvs) \<subseteq> {''version'', ''job_id'', ''attempt_id'', ''status'', ''outputs''}
          \<or> \<not> literal_field kvs ''version'' ''v1'' \<or> \<not> literal_field kvs ''status'' ''succeeded''
        then None
        else Option.bind (field strict_str kvs ''job_id'') (\<lambda>job_id.
          Option.bind (field strict_str kvs ''attempt_id'') (\<lambda>attempt_id.
          Option.bind (field (strict_list decode_uploaded_output) kvs ''outputs'') (\<lambda>outputs.
            Some (GenerateResponse job_id attempt_id outputs))))
    | _ \<Rightarrow> None)"

definition decode_generate_failure_response :: "pyval \<Rightarrow> GenerateWorkerResponse option" where
  "decode_generate_failure_response v = (case v of
      PDict kvs \<Rightarrow>
        if \<not> set (map fst kvs) \<subseteq> {''version'', ''job_id'', ''attempt_id'', ''status'', ''code'', ''failed_output_index'',
            ''outputs''}
          \<or> \<not> literal_field kvs ''version'' ''v1'' \<or> \<not> literal_field kvs ''status'' ''failed''
          \<or> \<not> literal_field kvs ''code'' ''near_black_output''
        then None
        else Option.bind (field strict_str kvs ''job_id'') (\<lambda>job_id.
          Option.bind (field strict_str kvs ''attempt_id'') (\<lambda>attempt_id.
          Option.bind (field strict_int kvs ''failed_output_index'') (\<lambda>failed.
          Option.bind (field (strict_list decode_uploaded_output) kvs ''outputs'') (\<lambda>outputs.
            if failed < 0 \<or> MAX_HARD_OUTPUTS - 1 < failed \<or> MAX_HARD_OUTPUTS < int (length outputs)
              \<or> (outputs \<noteq> [] \<and> map uo_output_index outputs \<noteq> [0..failed - 1])
            then None else Some (GenerateFailureResponse job_id attempt_id failed outputs)))))
    | _ \<Rightarrow> None)"

definition raw_masters :: "db \<Rightarrow> GenerationJob \<Rightarrow> Asset list" where
  "raw_masters d j = filter (\<lambda>s. as_generation_job_id s = Some (gj_id j) \<and> as_kind s = AssetRAW_MASTER) (db_assets d)"

text \<open>\<open>assets_by_index\<close> keeps the last asset of an index in the order of the query.\<close>

definition output_has_asset :: "Asset list \<Rightarrow> UploadedOutput \<Rightarrow> bool" where
  "output_has_asset assets u =
     (case find (\<lambda>s. as_output_index s = Some (uo_output_index u)) (rev assets) of
        None \<Rightarrow> False
      | Some s \<Rightarrow> uo_asset_id u = uuid_str (as_id s)
          \<and> py_get (as_asset_metadata s) ''upload_attempt_id'' = PStr (uo_upload_attempt_id u))"

definition response_matches :: "db \<Rightarrow> GenerationAttempt \<Rightarrow> GenerationJob \<Rightarrow> GenerateWorkerResponse \<Rightarrow> bool" where
  "response_matches d a j response \<longleftrightarrow>
     (case response of
        GenerateResponse job_id attempt_id outputs \<Rightarrow>
          job_id = uuid_str (gj_id j) \<and> attempt_id = uuid_str (ga_id a)
          \<and> int (length outputs) = gj_expected_output_count j
          \<and> map uo_output_index outputs = [0..gj_expected_output_count j - 1]
      | GenerateFailureResponse job_id attempt_id failed outputs \<Rightarrow>
          job_id = uuid_str (gj_id j) \<and> attempt_id = uuid_str (ga_id a) \<and> failed < gj_expected_output_count j
          \<and> (outputs = [] \<or> map uo_output_index outputs = [0..failed - 1]))
     \<and> int (length (raw_masters d j)) = gj_expected_output_count j
     \<and> list_all (output_has_asset (raw_masters d j)) (response_outputs response)"

definition validated_worker_output ::
  "db \<Rightarrow> GenerationAttempt \<Rightarrow> GenerationJob \<Rightarrow> pyval \<Rightarrow> GenerateWorkerResponse option" where
  "validated_worker_output d a j output =
     (let decoded = (case output of
            PDict kvs \<Rightarrow> if py_get kvs ''status'' = PStr ''failed'' then decode_generate_failure_response output
              else decode_generate_response output
          | _ \<Rightarrow> None)
      in case decoded of None \<Rightarrow> None | Some r \<Rightarrow> if response_matches d a j r then Some r else None)"

section \<open>Timestamps\<close>

definition PROVIDER_CLOCK_SKEW_SECONDS :: int where "PROVIDER_CLOCK_SKEW_SECONDS = 5 * 60"

definition provider_timestamp_at_observation :: "instant \<Rightarrow> instant \<Rightarrow> instant" where
  "provider_timestamp_at_observation value_at observed_at = min value_at observed_at"

text \<open>Instants have no upper end here, so the overflow that \<open>_watchdog_deadline_at\<close> catches does not arise.\<close>

definition watchdog_deadline_at :: "instant \<Rightarrow> int \<Rightarrow> instant" where
  "watchdog_deadline_at anchor_at timeout_seconds = anchor_at + timeout_seconds * us_per_second"

definition clock_skew_bounded_timestamp :: "instant \<Rightarrow> instant \<Rightarrow> instant option" where
  "clock_skew_bounded_timestamp value_at observed_at =
     (if watchdog_deadline_at observed_at PROVIDER_CLOCK_SKEW_SECONDS < value_at then None
      else Some (min value_at observed_at))"

definition bounded_or :: "instant option \<Rightarrow> instant \<Rightarrow> instant \<Rightarrow> instant" where
  "bounded_or stored observed_at otherwise =
     (case Option.bind stored (\<lambda>t. clock_skew_bounded_timestamp t observed_at) of None \<Rightarrow> otherwise | Some t \<Rightarrow> t)"

text \<open>\<open>datetime.fromisoformat\<close> on the texts that \<open>isoformat\<close> writes for UTC, the only ones this key is given.\<close>

definition all_digits :: "string \<Rightarrow> bool" where
  "all_digits s \<longleftrightarrow> list_all is_digit s"

definition parse_isoformat :: "string \<Rightarrow> instant option" where
  "parse_isoformat s =
     (let part = (\<lambda>i n. take n (drop i s));
          number = (\<lambda>i n. digits_value (part i n));
          fraction = (if length s = 25 then [] else part 19 7);
          year = number 0 4; month = number 5 2; day = number 8 2;
          hour = number 11 2; minute = number 14 2; second = number 17 2 in
      if (length s = 25 \<or> length s = 32) \<and> list_all (\<lambda>(i, n). all_digits (part i n)) [(0, 4), (5, 2), (8, 2), (11, 2), (14, 2), (17, 2)]
        \<and> part 4 1 = ''-'' \<and> part 7 1 = ''-'' \<and> part 10 1 = ''T'' \<and> part 13 1 = '':'' \<and> part 16 1 = '':''
        \<and> (fraction = [] \<or> hd fraction = CHR ''.'' \<and> all_digits (tl fraction)) \<and> drop (length s - 6) s = ''+00:00''
        \<and> 1 \<le> year \<and> 1 \<le> month \<and> month \<le> 12 \<and> 1 \<le> day \<and> day \<le> days_in_month year month
        \<and> hour < 24 \<and> minute < 60 \<and> second < 60
      then Some (instant_of_ord (ymd2ord year month day) + ((hour * 60 + minute) * 60 + second) * us_per_second
        + digits_value (tl fraction))
      else None)"

definition metadata_datetime :: "pyval \<Rightarrow> instant option" where
  "metadata_datetime v = (case v of PStr s \<Rightarrow> parse_isoformat s | _ \<Rightarrow> None)"

section \<open>Metadata of the response\<close>

definition PROVIDER_RUN_EPOCH_STARTED_AT_METADATA_KEY :: string where
  "PROVIDER_RUN_EPOCH_STARTED_AT_METADATA_KEY = ''provider_run_epoch_started_at''"
definition PROVIDER_ABSENCE_TRACKER_KEY :: string where
  "PROVIDER_ABSENCE_TRACKER_KEY = ''provider_absence_confirmation''"

definition response_metadata :: "GenerationAttempt \<Rightarrow> (string \<times> pyval) list" where
  "response_metadata a = (case ga_response_metadata a of Some (PDict kvs) \<Rightarrow> kvs | _ \<Rightarrow> [])"

definition reset_provider_absence_tracking ::
  "db \<Rightarrow> GenerationAttempt \<Rightarrow> string \<Rightarrow> instant \<Rightarrow> db \<times> GenerationAttempt" where
  "reset_provider_absence_tracking d a reason occurred_at =
     (let previous = py_get (response_metadata a) PROVIDER_ABSENCE_TRACKER_KEY in
      if previous = PNone then (d, a)
      else
        (let a1 = a\<lparr>ga_response_metadata := Some (PDict (filter (\<lambda>(k, v). k \<noteq> PROVIDER_ABSENCE_TRACKER_KEY)
               (response_metadata a))), ga_lock_version := ga_lock_version a + 1\<rparr>
         in (add_audit (salad_audit ''generation_attempt.provider_absence_reset'' a
               [(''reason'', PStr reason), (''previous'', previous)] occurred_at) (put_attempt a1 d), a1)))"

definition provider_run_epoch_started_at ::
  "GenerationAttempt \<Rightarrow> SaladQueueJob \<Rightarrow> instant \<Rightarrow> instant option" where
  "provider_run_epoch_started_at a q observed_at =
     (let created = provider_timestamp_at_observation (qj_create_time q) observed_at;
          updated = provider_timestamp_at_observation (qj_update_time q) observed_at;
          bounded = (\<lambda>v. Option.bind v (\<lambda>t. clock_skew_bounded_timestamp t observed_at));
          started = bounded (ga_started_at a);
          stored = bounded (metadata_datetime (py_get (response_metadata a) PROVIDER_RUN_EPOCH_STARTED_AT_METADATA_KEY));
          events = List.map_filter (\<lambda>e. if je_action e \<noteq> ''started'' then None
            else (case clock_skew_bounded_timestamp (je_time e) observed_at of
                None \<Rightarrow> None | Some t \<Rightarrow> if created \<le> t \<and> t \<le> updated then Some t else None)) (qj_events q);
          candidates = (case started of None \<Rightarrow> [] | Some t \<Rightarrow> [t])
            @ (case stored of None \<Rightarrow> [] | Some t \<Rightarrow> if created \<le> t then [t] else []) @ events
      in if candidates = [] then None else Some (Max (set candidates)))"

section \<open>States\<close>

fun attempt_state :: "SaladJobStatus \<Rightarrow> GenerationAttemptState" where
  "attempt_state StatusPENDING = AttemptSUBMITTED"
| "attempt_state StatusRUNNING = AttemptRUNNING"
| "attempt_state StatusSUCCEEDED = AttemptSUCCEEDED"
| "attempt_state StatusFAILED = AttemptFAILED"
| "attempt_state StatusCANCELLED = AttemptCANCELLED"

fun attempt_state_rank :: "GenerationAttemptState \<Rightarrow> nat" where
  "attempt_state_rank AttemptCREATED = 0"
| "attempt_state_rank AttemptSUBMITTING = 1"
| "attempt_state_rank AttemptSUBMITTED = 2"
| "attempt_state_rank AttemptRUNNING = 3"
| "attempt_state_rank _ = 4"

definition is_forward_transition :: "GenerationAttemptState \<Rightarrow> GenerationAttemptState \<Rightarrow> bool" where
  "is_forward_transition current target \<longleftrightarrow>
     (if current = AttemptUNKNOWN then True
      else if current = AttemptCANCEL_REQUESTED then target \<in> set terminal_attempt_states
      else if current \<in> set terminal_attempt_states then current = target
      else attempt_state_rank current \<le> attempt_state_rank target)"

fun job_state_for_observation :: "GenerationJob \<Rightarrow> GenerationAttemptState \<Rightarrow> salad_service_error + GenerationState" where
  "job_state_for_observation j AttemptSUBMITTED = Inr JobRUNNING"
| "job_state_for_observation j AttemptRUNNING = Inr JobRUNNING"
| "job_state_for_observation j AttemptSUCCEEDED = Inr JobCOLLECTING"
| "job_state_for_observation j AttemptFAILED = Inr (retry_or_fail j)"
| "job_state_for_observation j AttemptCANCELLED = Inr JobCANCELLED"
| "job_state_for_observation j _ = conflict ''provider observation cannot map to a generation job''"

definition remote_metadata_matches :: "GenerationAttempt \<Rightarrow> SaladQueueJob \<Rightarrow> bool" where
  "remote_metadata_matches a q \<longleftrightarrow>
     py_get (qj_metadata q) ''generation_attempt_id'' = PStr (uuid_str (ga_id a))
     \<and> py_get (qj_metadata q) ''generation_job_id'' = PStr (uuid_str (ga_job_id a))
     \<and> py_get (qj_metadata q) ''submission_key'' = PStr (ga_submission_key a)
     \<and> py_get (qj_metadata q) ''request_sha256'' = PStr (ga_request_sha256 a)"

section \<open>What an observation means\<close>

definition SALAD_ATTEMPT_WATCHDOG_CANCEL_REQUESTED_ERROR_CODE :: string where
  "SALAD_ATTEMPT_WATCHDOG_CANCEL_REQUESTED_ERROR_CODE = ''salad_attempt_watchdog_cancel_requested''"
definition DEPLOYMENT_ROLLOVER_CANCEL_REQUESTED_ERROR_CODE :: string where
  "DEPLOYMENT_ROLLOVER_CANCEL_REQUESTED_ERROR_CODE = ''salad_deployment_rollover_cancel_requested''"
definition DEPLOYMENT_ROLLOVER_CANCEL_REQUESTED_METADATA_KEY :: string where
  "DEPLOYMENT_ROLLOVER_CANCEL_REQUESTED_METADATA_KEY = ''deployment_rollover_cancel_requested''"
definition SALAD_OUTPUT_PROGRESS_WATCHDOG_REASON :: string where
  "SALAD_OUTPUT_PROGRESS_WATCHDOG_REASON = ''accepted_output_progress_stalled''"

definition watchdog_failure_detail :: "pyval \<Rightarrow> bool \<Rightarrow> string" where
  "watchdog_failure_detail reason cancellation_requested =
     (if reason = PStr SALAD_OUTPUT_PROGRESS_WATCHDOG_REASON
      then ''The manifest-bound Salad attempt stopped producing accepted output progress; ''
        @ (if cancellation_requested then ''cancellation was requested.'' else ''it was cancelled for retry.'')
      else if cancellation_requested
      then ''The Salad attempt exceeded its runtime envelope; cancellation was requested.''
      else ''The Salad attempt exceeded its runtime envelope and was cancelled for retry.'')"

definition deployment_rollover_cancel_was_requested :: "GenerationAttempt \<Rightarrow> bool" where
  "deployment_rollover_cancel_was_requested a \<longleftrightarrow>
     py_get (response_metadata a) DEPLOYMENT_ROLLOVER_CANCEL_REQUESTED_METADATA_KEY = PBool True
     \<or> ga_error_code a = Some DEPLOYMENT_ROLLOVER_CANCEL_REQUESTED_ERROR_CODE"

record observation_verdict =
  vd_failure :: "(string \<times> string) option"
  vd_output_valid :: "bool option"
  vd_worker_failure :: "(int \<times> UploadedOutput list) option"
  vd_target_state :: GenerationAttemptState

definition cancellation_failure :: "db \<Rightarrow> GenerationAttempt \<Rightarrow> GenerationJob \<Rightarrow> (string \<times> string) option" where
  "cancellation_failure d a j =
     (if ga_state a = AttemptCANCEL_REQUESTED
        \<and> ga_error_code a = Some SALAD_ATTEMPT_WATCHDOG_CANCEL_REQUESTED_ERROR_CODE
      then Some (SALAD_WATCHDOG_EXPIRED_ERROR_CODE,
        watchdog_failure_detail (py_get (response_metadata a) ''watchdog_reason'') False)
      else if operator_generation_stop_requested d j then None
      else if deployment_rollover_cancel_was_requested a
      then Some (SALAD_DEPLOYMENT_SUPERSEDED_ERROR_CODE,
        ''The Salad deployment was superseded; the cancelled job will retry on the current deployment.'')
      else Some (SALAD_PROVIDER_CANCELLED_ERROR_CODE,
        ''Salad cancelled the provider job without an operator stop; generation will retry.''))"

definition judge_observation :: "db \<Rightarrow> GenerationAttempt \<Rightarrow> GenerationJob \<Rightarrow> SaladQueueJob \<Rightarrow> observation_verdict" where
  "judge_observation d a j q =
     (let succeeded = (qj_status q = StatusSUCCEEDED);
          response = (if succeeded then validated_worker_output d a j (qj_output q) else None);
          worker_failure = (case response of Some (GenerateFailureResponse _ _ i outputs) \<Rightarrow> Some (i, outputs) | _ \<Rightarrow> None);
          failure = (if succeeded \<and> response = None
              then Some (''salad_worker_output_invalid'', ''Salad reported success without a valid worker output contract.'')
              else if worker_failure \<noteq> None
              then Some (SALAD_WORKER_NEAR_BLACK_OUTPUT_ERROR_CODE, ''The worker detected a near-black generation output and requested one bounded precision recovery retry.'')
              else if qj_status q = StatusCANCELLED then cancellation_failure d a j
              else if qj_status q = StatusFAILED
              then Some (SALAD_JOB_FAILED_ERROR_CODE, ''Salad reported a failed queue job.'') else None)
      in \<lparr>vd_failure = failure, vd_output_valid = (if succeeded then Some (response \<noteq> None) else None),
          vd_worker_failure = worker_failure,
          vd_target_state = (if failure \<noteq> None then AttemptFAILED else attempt_state (qj_status q))\<rparr>)"

section \<open>Applying an observation\<close>

definition observed_metadata :: "SaladQueueJob \<Rightarrow> observation_verdict \<Rightarrow> instant option \<Rightarrow> instant \<Rightarrow> (string \<times> pyval) list" where
  "observed_metadata q v epoch observed_at =
     [(''provider_status'', PStr (SaladJobStatus_value (qj_status q))),
      (''provider_create_time'', PStr (isoformat (provider_timestamp_at_observation (qj_create_time q) observed_at))),
      (''provider_update_time'', PStr (isoformat (provider_timestamp_at_observation (qj_update_time q) observed_at))),
      (''event_count'', PInt (int (length (qj_events q))))]
     @ (case epoch of None \<Rightarrow> [] | Some t \<Rightarrow> [(PROVIDER_RUN_EPOCH_STARTED_AT_METADATA_KEY, PStr (isoformat t))])
     @ (case vd_output_valid v of None \<Rightarrow> [] | Some b \<Rightarrow> [(''worker_output_valid'', PBool b)])
     @ (case vd_worker_failure v of None \<Rightarrow> []
        | Some (i, outputs) \<Rightarrow> [(''worker_failure_code'', PStr ''near_black_output''), (''failed_output_index'', PInt i),
            (''uploaded_output_count'', PInt (int (length outputs)))])"

definition observed_attempt ::
  "SaladQueueJob \<Rightarrow> observation_verdict \<Rightarrow> instant option \<Rightarrow> instant \<Rightarrow> GenerationAttempt \<Rightarrow> GenerationAttempt" where
  "observed_attempt q v epoch observed_at a =
     (let created = provider_timestamp_at_observation (qj_create_time q) observed_at;
          updated = provider_timestamp_at_observation (qj_update_time q) observed_at;
          target = vd_target_state v
      in a\<lparr>ga_provider_external_id := Some (uuid_str (qj_id q)),
         ga_provider_state := Some (SaladJobStatus_value (qj_status q)), ga_last_observed_at := Some updated,
         ga_response_metadata := Some (PDict (observed_metadata q v epoch observed_at)),
         ga_error_code := map_option fst (vd_failure v), ga_error_detail := map_option snd (vd_failure v),
         ga_unknown_since := None, ga_submitted_at := Some (bounded_or (ga_submitted_at a) observed_at created),
         ga_state := target,
         ga_started_at := (if target = AttemptRUNNING then Some (bounded_or (ga_started_at a) observed_at updated)
           else ga_started_at a),
         ga_completed_at := (if target \<in> set terminal_attempt_states
           then Some (bounded_or (ga_completed_at a) observed_at updated) else ga_completed_at a),
         ga_lock_version := ga_lock_version a + 1\<rparr>)"

text \<open>Grants of a further attempt after a failure of the current one; \<open>Some False\<close> when a near-black grant was refused.\<close>

definition grant_after_failure ::
  "(8 word list \<Rightarrow> 8 word list) \<Rightarrow> uuid \<Rightarrow> db \<Rightarrow> GenerationAttempt \<Rightarrow> GenerationJob \<Rightarrow> SaladDeployment
    \<Rightarrow> observation_verdict \<Rightarrow> RuntimeInstanceTurnoverEvidence option \<Rightarrow> instant \<Rightarrow> db \<times> bool option" where
  "grant_after_failure sha256 new_id d a j x v evidence observed_at =
     (case vd_worker_failure v of
        Some (failed, outputs) \<Rightarrow>
          (case grant_near_black_output_retry sha256 new_id d a j RetryRECONCILER ''salad-controller'' observed_at
              observed_at failed (map uo_output_index outputs) of (d1, n) \<Rightarrow> (d1, Some (ng_granted n)))
      | None \<Rightarrow>
          (case (case evidence of None \<Rightarrow> (d, False)
               | Some w \<Rightarrow>
                   (case grant_runtime_instance_turnover_retry d a j x w RetryRECONCILER ''salad-controller'' observed_at
                       observed_at of (d1, g) \<Rightarrow> (d1, ig_granted g))) of
             (d1, True) \<Rightarrow> (d1, None)
           | (d1, False) \<Rightarrow>
               (fst (grant_infrastructure_retry d1 a j RetryRECONCILER ''salad-controller'' observed_at observed_at), None)))"

definition observed_job :: "observation_verdict \<Rightarrow> bool option \<Rightarrow> GenerationJob \<Rightarrow> salad_service_error + GenerationJob" where
  "observed_job v near_black_granted j =
     bindE (if vd_worker_failure v \<noteq> None \<and> near_black_granted = Some False then Inr JobDEAD_LETTER
       else job_state_for_observation j (vd_target_state v)) (\<lambda>state.
     Inr (j\<lparr>gj_state := state, gj_retry_at := None, gj_last_error_code := map_option fst (vd_failure v),
       gj_last_error_detail := map_option snd (vd_failure v), gj_lock_version := gj_lock_version j + 1\<rparr>))"

definition observed_detail :: "SaladQueueJob \<Rightarrow> observation_verdict \<Rightarrow> instant option \<Rightarrow> (string \<times> pyval) list" where
  "observed_detail q v epoch =
     [(''provider_external_id'', PStr (uuid_str (qj_id q))),
      (''provider_status'', PStr (SaladJobStatus_value (qj_status q)))]
     @ (case epoch of None \<Rightarrow> [] | Some t \<Rightarrow> [(PROVIDER_RUN_EPOCH_STARTED_AT_METADATA_KEY, PStr (isoformat t))])
     @ (case vd_output_valid v of None \<Rightarrow> [] | Some b \<Rightarrow> [(''worker_output_valid'', PBool b)])"

text \<open>An observation that moves the attempt.\<close>

definition record_observation ::
  "(8 word list \<Rightarrow> 8 word list) \<Rightarrow> uuid \<Rightarrow> db \<Rightarrow> GenerationAttempt \<Rightarrow> GenerationJob \<Rightarrow> SaladDeployment \<Rightarrow> SaladQueueJob
    \<Rightarrow> observation_verdict \<Rightarrow> RuntimeInstanceTurnoverEvidence option \<Rightarrow> instant
    \<Rightarrow> salad_service_error + (db \<times> ObservationResult)" where
  "record_observation sha256 new_id d a j x q v evidence observed_at =
     (let epoch = (if qj_status q = StatusRUNNING then provider_run_epoch_started_at a q observed_at else None);
          current = (ga_attempt_no a = gj_attempt_count j);
          a1 = observed_attempt q v epoch observed_at a;
          d1 = put_attempt a1 d in
      case (if current \<and> vd_target_state v = AttemptFAILED
          then grant_after_failure sha256 new_id d1 a1 j x v evidence observed_at else (d1, None)) of
        (d2, near_black_granted) \<Rightarrow>
          (let j1 = refreshed_job d2 j in
           bindE (if current \<and> gj_state j1 \<notin> set terminal_job_states
             then bindE (observed_job v near_black_granted j1) (\<lambda>j2. Inr (put_job j2 d2)) else Inr d2) (\<lambda>d3.
           bindE (if vd_target_state v \<in> set terminal_attempt_states
             then release_reservation (add_audit (salad_audit ''generation_attempt.provider_observed'' a
               (observed_detail q v epoch) observed_at) d3) a1 observed_at
             else Inr (add_audit (salad_audit ''generation_attempt.provider_observed'' a
               (observed_detail q v epoch) observed_at) d3)) (\<lambda>d4.
           Inr (d4, observation_result (refreshed_attempt d4 a1) (refreshed_job d4 j1) True False)))))"

definition observation_is_stale :: "GenerationAttempt \<Rightarrow> SaladQueueJob \<Rightarrow> instant \<Rightarrow> bool" where
  "observation_is_stale a q observed_at \<longleftrightarrow>
     (let updated = provider_timestamp_at_observation (qj_update_time q) observed_at in
      ga_provider_external_id a \<noteq> None
      \<and> (case Option.bind (ga_last_observed_at a) (\<lambda>t. clock_skew_bounded_timestamp t observed_at) of
           None \<Rightarrow> False
         | Some last_observed_at \<Rightarrow> updated < last_observed_at
             \<or> (updated = last_observed_at
                \<and> \<not> (qj_status q \<in> {StatusSUCCEEDED, StatusFAILED, StatusCANCELLED}
                     \<and> ga_state a \<notin> set terminal_attempt_states))))"

definition terminal_conflict :: "GenerationAttempt \<Rightarrow> GenerationAttempt" where
  "terminal_conflict a = a\<lparr>ga_error_code := Some ''salad_terminal_state_conflict'',
     ga_error_detail := Some ''A later provider observation conflicted with a terminal state.'',
     ga_lock_version := ga_lock_version a + 1\<rparr>"

definition apply_salad_job_observation ::
  "(8 word list \<Rightarrow> 8 word list) \<Rightarrow> uuid \<Rightarrow> instant \<Rightarrow> db \<Rightarrow> uuid \<Rightarrow> SaladQueueJob \<Rightarrow> pydatetime option
    \<Rightarrow> RuntimeInstanceTurnoverEvidence option \<Rightarrow> salad_service_error + (db \<times> ObservationResult)" where
  "apply_salad_job_observation sha256 new_id clock d attempt_id q observed_at evidence =
     bindE (service_time clock observed_at) (\<lambda>controller_time.
     bindE (load_attempt_context d attempt_id) (\<lambda>(a0, j, x).
     if ga_provider_external_id a0 \<noteq> None \<and> ga_provider_external_id a0 \<noteq> Some (uuid_str (qj_id q))
     then conflict ''Salad observation has another provider job ID''
     else
       (case reset_provider_absence_tracking d a0 ''exact_provider_job_matched'' controller_time of
          (d1, a) \<Rightarrow>
            if observation_is_stale a q controller_time then Inr (d1, observation_result a j False True)
            else
              (let v = judge_observation d1 a j q in
               if ga_state a \<in> set terminal_attempt_states \<and> ga_state a \<noteq> vd_target_state v
               then Inr (add_audit (salad_audit ''generation_attempt.terminal_observation_ignored'' a
                      [(''provider_status'', PStr (SaladJobStatus_value (qj_status q)))] controller_time)
                      (put_attempt (terminal_conflict a) d1), observation_result (terminal_conflict a) j False False)
               else if \<not> is_forward_transition (ga_state a) (vd_target_state v)
               then Inr (d1, observation_result a j False True)
               else record_observation sha256 new_id d1 a j x q v evidence controller_time))))"

end
