(* ===== verification/GenerationSubmission.thy ===== *)
theory GenerationSubmission
  imports GenerationObservations
begin

text \<open>
  \<open>submit_prepared_attempt\<close> of \<open>services/salad.py\<close>. Its first transaction ends with a result or commits the marker
  SUBMITTING; then the upload provider builds the input and the client posts it; the last transaction records the outcome.
  Both are surroundings of the model, as are the commits of other transactions in between and \<open>urllib\<close>'s parser of the
  webhook address.
\<close>

record url_parts =
  up_scheme :: string
  up_hostname :: "string option"
  up_username :: "string option"
  up_password :: "string option"
  up_fragment :: string

definition validate_webhook_url :: "(string \<Rightarrow> url_parts option) \<Rightarrow> string \<Rightarrow> salad_service_error + unit" where
  "validate_webhook_url urlsplit value_text =
     (case urlsplit value_text of
        Some p \<Rightarrow> if up_scheme p \<noteq> ''https'' \<or> up_hostname p = None \<or> up_username p \<noteq> None \<or> up_password p \<noteq> None
            \<or> up_fragment p \<noteq> []
          then Inl (SaladServiceValidationError ''webhook_url must be a credential-free HTTPS URL'') else Inr ()
      | None \<Rightarrow> Inl (SaladServiceValidationError ''webhook_url must be a credential-free HTTPS URL''))"

section \<open>The recovery plan of an attempt\<close>

definition load_near_black_grant ::
  "db \<Rightarrow> uuid \<Rightarrow> salad_service_error + (AuditEvent \<times> GenerationAttempt) option" where
  "load_near_black_grant d generation_job_id =
     (case List.map_filter (\<lambda>e. if \<not> grant_event NEAR_BLACK_OUTPUT_RETRY_GRANT_ACTION e then None
        else (case get_attempt (ae_resource_id e) d of
            None \<Rightarrow> None | Some a \<Rightarrow> if ga_job_id a = generation_job_id then Some (e, a) else None)) (db_audits d) of
        [] \<Rightarrow> Inr None
      | [grant] \<Rightarrow> Inr (Some grant)
      | _ \<Rightarrow> conflict ''generation job has conflicting near-black grants'')"

text \<open>An audit event without a kept identifier is not a near-black grant of this program; its plan is refused.\<close>

definition plan_for ::
  "(8 word list \<Rightarrow> 8 word list) \<Rightarrow> GenerationJob \<Rightarrow> int \<Rightarrow> AuditEvent \<Rightarrow> GenerationAttempt \<Rightarrow> int \<Rightarrow> int list
    \<Rightarrow> (string \<times> pyval) list \<Rightarrow> near_black_error + NearBlackSeedRecoveryPlan" where
  "plan_for sha256 j target_attempt_no e source_attempt grant_ordinal original_seeds raw =
     (case ae_id e of
        None \<Rightarrow> Inl (NearBlackRecoveryPlanError ''the recovery plan grant identity is invalid'')
      | Some audit_event_id \<Rightarrow> require_near_black_seed_recovery_plan sha256 raw (gj_id j) (gj_expected_output_count j)
          original_seeds audit_event_id (ga_id source_attempt) (ga_attempt_no source_attempt) grant_ordinal
          target_attempt_no)"

definition validated_near_black_recovery_plan ::
  "(8 word list \<Rightarrow> 8 word list) \<Rightarrow> GenerationJob \<Rightarrow> int \<Rightarrow> AuditEvent \<Rightarrow> GenerationAttempt
    \<Rightarrow> (string \<times> pyval) list option \<Rightarrow> salad_service_error + NearBlackSeedRecoveryPlan" where
  "validated_near_black_recovery_plan sha256 j target_attempt_no e source_attempt stored_plan =
     (case (py_get (ae_detail e) ''grant_ordinal'', py_get (ae_detail e) NEAR_BLACK_SEED_RECOVERY_METADATA_KEY) of
        (PInt grant_ordinal, PDict audited) \<Rightarrow>
          if py_get (ae_detail e) ''generation_job_id'' \<noteq> PStr (uuid_str (gj_id j))
            \<or> \<not> py_eq (py_get (ae_detail e) ''attempt_no'') (PInt (ga_attempt_no source_attempt))
          then conflict ''near-black recovery grant provenance is invalid''
          else
            (let plan = (\<lambda>seeds raw. plan_for sha256 j target_attempt_no e source_attempt grant_ordinal seeds raw) in
             case bindE (require_near_black_original_output_seeds sha256 j) (\<lambda>seeds.
                 bindE (plan seeds audited) (\<lambda>audited_plan.
                 case stored_plan of
                   None \<Rightarrow> Inr (audited_plan, audited_plan)
                 | Some raw \<Rightarrow> bindE (plan seeds raw) (\<lambda>persisted. Inr (audited_plan, persisted)))) of
               Inl _ \<Rightarrow> conflict ''near-black recovery plan is invalid''
             | Inr (audited_plan, persisted) \<Rightarrow>
                 if persisted \<noteq> audited_plan then conflict ''near-black recovery plan differs from its grant''
                 else Inr persisted)
      | _ \<Rightarrow> conflict ''near-black recovery grant provenance is invalid'')"

definition existing_attempt_recovery_plan ::
  "(8 word list \<Rightarrow> 8 word list) \<Rightarrow> db \<Rightarrow> GenerationJob \<Rightarrow> GenerationAttempt
    \<Rightarrow> salad_service_error + NearBlackSeedRecoveryPlan option" where
  "existing_attempt_recovery_plan sha256 d j a =
     bindE (load_near_black_grant d (gj_id j)) (\<lambda>grant.
       let stored = map_of (ga_request_metadata a) NEAR_BLACK_SEED_RECOVERY_METADATA_KEY in
       case grant of
         None \<Rightarrow> if stored \<noteq> None then conflict ''near-black recovery plan has no grant'' else Inr None
       | Some (e, source_attempt) \<Rightarrow>
           if ga_attempt_no a \<le> ga_attempt_no source_attempt
           then (if stored \<noteq> None then conflict ''source attempt cannot inherit its recovery plan'' else Inr None)
           else (case stored of
               None \<Rightarrow> conflict ''later attempt is missing its near-black recovery plan''
             | Some (PDict raw) \<Rightarrow>
                 bindE (validated_near_black_recovery_plan sha256 j (ga_attempt_no a) e source_attempt (Some raw))
                   (\<lambda>plan. Inr (Some plan))
             | Some _ \<Rightarrow> conflict ''near-black recovery plan is invalid''))"

definition generation_attempt_request_sha256 ::
  "(8 word list \<Rightarrow> 8 word list) \<Rightarrow> GenerationJob \<Rightarrow> SaladDeployment \<Rightarrow> NearBlackSeedRecoveryPlan option \<Rightarrow> string" where
  "generation_attempt_request_sha256 sha256 j x recovery_plan =
     canonical_sha256 sha256 (PDict (
       [(''generation_job_id'', PStr (uuid_str (gj_id j))),
        (''release_version_id'', PStr (uuid_str (gj_release_version_id j))),
        (''parameters_sha256'', PStr (gj_parameters_sha256 j)), (''salad_deployment_id'', PStr (uuid_str (sd_id x))),
        (''deployment_config_sha256'', PStr (sd_config_sha256 x)),
        (''worker_image_digest'', PStr (sd_worker_image_digest x))]
       @ (case recovery_plan of None \<Rightarrow> []
          | Some plan \<Rightarrow> [(''near_black_seed_recovery_plan_sha256'', PStr (np_plan_sha256 plan))])))"

section \<open>The first transaction\<close>

record SaladJobInputContext =
  jc_generation_attempt_id :: uuid
  jc_generation_job_id :: uuid
  jc_release_version_id :: uuid
  jc_salad_deployment_id :: uuid
  jc_deployment_version_no :: int
  jc_worker_image_digest :: string
  jc_expected_output_count :: int
  jc_parameters :: "(string \<times> pyval) list"
  jc_parameters_sha256 :: string
  jc_request_sha256 :: string
  jc_generation_attempt_no :: int
  jc_near_black_seed_recovery_plan :: "NearBlackSeedRecoveryPlan option"

text \<open>What the rest of the submission uses: the context of the input, and the queue, the metadata of the job.\<close>

record submission =
  su_context :: SaladJobInputContext
  su_queue_name :: string
  su_metadata :: "(string \<times> pyval) list"

definition job_input_context ::
  "GenerationAttempt \<Rightarrow> GenerationJob \<Rightarrow> SaladDeployment \<Rightarrow> NearBlackSeedRecoveryPlan option \<Rightarrow> SaladJobInputContext" where
  "job_input_context a j x recovery_plan =
     \<lparr>jc_generation_attempt_id = ga_id a, jc_generation_job_id = gj_id j,
      jc_release_version_id = gj_release_version_id j, jc_salad_deployment_id = sd_id x,
      jc_deployment_version_no = sd_version_no x, jc_worker_image_digest = ga_worker_image_digest a,
      jc_expected_output_count = gj_expected_output_count j, jc_parameters = gj_parameters j,
      jc_parameters_sha256 = gj_parameters_sha256 j, jc_request_sha256 = ga_request_sha256 a,
      jc_generation_attempt_no = ga_attempt_no a, jc_near_black_seed_recovery_plan = recovery_plan\<rparr>"

definition submission_metadata :: "GenerationAttempt \<Rightarrow> GenerationJob \<Rightarrow> SaladDeployment \<Rightarrow> (string \<times> pyval) list" where
  "submission_metadata a j x =
     [(''generation_attempt_id'', PStr (uuid_str (ga_id a))), (''generation_job_id'', PStr (uuid_str (gj_id j))),
      (''submission_key'', PStr (ga_submission_key a)), (''request_sha256'', PStr (ga_request_sha256 a)),
      (''deployment_version_no'', PInt (sd_version_no x))]"

definition budget_blocked_job :: "GenerationJob \<Rightarrow> GenerationJob" where
  "budget_blocked_job j = j\<lparr>gj_state := JobRETRY_WAIT, gj_last_error_code := Some ''provider_budget_blocked'',
     gj_last_error_detail := Some ''The Salad budget guard rejected this submission.'',
     gj_lock_version := gj_lock_version j + 1\<rparr>"

definition submitting_job :: "GenerationJob \<Rightarrow> GenerationJob" where
  "submitting_job j = j\<lparr>gj_state := JobSUBMITTING, gj_retry_at := None, gj_last_error_code := None,
     gj_last_error_detail := None, gj_lock_version := gj_lock_version j + 1\<rparr>"

text \<open>A reservation, then the marker; \<open>Inr\<close> of the result goes on to the provider.\<close>

definition reserve_and_mark ::
  "(8 word list \<Rightarrow> 8 word list) \<Rightarrow> db \<Rightarrow> GenerationAttempt \<Rightarrow> GenerationJob \<Rightarrow> SaladDeployment \<Rightarrow> int \<Rightarrow> instant
    \<Rightarrow> salad_service_error + (db \<times> (SubmissionResult + submission))" where
  "reserve_and_mark sha256 d a j x reservation_microusd submitted_at =
     bindE (require_submittable_deployment x) (\<lambda>_.
     bindE (existing_attempt_recovery_plan sha256 d j a) (\<lambda>recovery_plan.
     bindE (if ga_request_sha256 a \<noteq> generation_attempt_request_sha256 sha256 j x recovery_plan
       then conflict ''attempt request does not match its recovery metadata'' else Inr ()) (\<lambda>_.
     bindE (from_budget (reserve_attempt_budget submitted_at d ''salad'' (ga_id a) reservation_microusd
         (Some (Aware submitted_at)))) (\<lambda>(d1, decision).
       if \<not> rd_accepted decision
       then Inr (put_job (budget_blocked_job j) d1, Inl (submission_result (refreshed_attempt d1 a) (budget_blocked_job j)
           DispositionBUDGET_BLOCKED EffectDEFINITELY_NOT_STARTED None))
       else Inr (put_job (submitting_job j) d1,
           Inr \<lparr>su_context = job_input_context a j x recovery_plan, su_queue_name = sd_queue_name x,
                su_metadata = submission_metadata a j x\<rparr>)))))"

definition submit_begin ::
  "(8 word list \<Rightarrow> 8 word list) \<Rightarrow> (string \<Rightarrow> url_parts option) \<Rightarrow> db \<Rightarrow> uuid \<Rightarrow> string \<Rightarrow> int \<Rightarrow> instant
    \<Rightarrow> salad_service_error + (db \<times> (SubmissionResult + submission))" where
  "submit_begin sha256 urlsplit d attempt_id webhook_url reservation_microusd submitted_at =
     bindE (validate_webhook_url urlsplit webhook_url) (\<lambda>_.
     bindE (load_attempt_context d attempt_id) (\<lambda>(a, j, x).
     bindE (require_attempt_deployment a x) (\<lambda>_.
       if ga_state a = AttemptSUBMITTING
       then (let d1 = mark_outcome_unknown d a j ''submit_resumed_after_durable_marker'' submitted_at in
         Inr (d1, Inl (submission_result (refreshed_attempt d1 a) (refreshed_job d1 j) DispositionUNKNOWN
           EffectMAY_HAVE_STARTED None)))
       else if ga_state a = AttemptUNKNOWN
       then Inr (d, Inl (submission_result a j DispositionUNKNOWN EffectMAY_HAVE_STARTED None))
       else if ga_state a \<noteq> AttemptCREATED
       then Inr (d, Inl (submission_result a j DispositionALREADY_RECORDED EffectCONFIRMED None))
       else (case fence_stale_prepared_submission d a j submitted_at of
           Some (d1, r) \<Rightarrow> Inr (d1, Inl r)
         | None \<Rightarrow> reserve_and_mark sha256 d a j x reservation_microusd submitted_at))))"

section \<open>Worker input that is not ready\<close>

definition JOB_INPUT_DEFERRED_ERROR_CODE :: string where
  "JOB_INPUT_DEFERRED_ERROR_CODE = ''salad_job_input_deferred''"

text \<open>The reasons of a deferral are \<open>asset_verification\<close> and \<open>storage_credentials\<close>.\<close>

definition rearmed_attempt :: "string \<Rightarrow> GenerationAttempt \<Rightarrow> GenerationAttempt" where
  "rearmed_attempt reason a = a\<lparr>ga_state := AttemptCREATED, ga_cost_reservation_microusd := 0,
     ga_reservation_released_at := None, ga_submit_started_at := None,
     ga_error_code := Some JOB_INPUT_DEFERRED_ERROR_CODE,
     ga_error_detail := Some (if reason = ''storage_credentials''
       then ''Worker input preparation is waiting for fresh storage signing credentials.''
       else ''Worker input preparation is waiting for an in-progress asset verification.''),
     ga_lock_version := ga_lock_version a + 1\<rparr>"

definition rearmed_job :: "string \<Rightarrow> instant \<Rightarrow> GenerationJob \<Rightarrow> GenerationJob" where
  "rearmed_job reason retry_at j = j\<lparr>gj_state := JobCLAIMED, gj_retry_at := Some retry_at, gj_lease_owner := None,
     gj_lease_expires_at := None, gj_last_error_code := Some JOB_INPUT_DEFERRED_ERROR_CODE,
     gj_last_error_detail := Some (if reason = ''storage_credentials''
       then ''Generation will retry the same prepared attempt when storage credentials refresh.''
       else ''Generation will retry the same prepared attempt after asset verification.''),
     gj_lock_version := gj_lock_version j + 1\<rparr>"

definition definitely_unstarted :: "GenerationAttempt \<Rightarrow> GenerationJob \<Rightarrow> bool" where
  "definitely_unstarted a j \<longleftrightarrow> \<not> (ga_job_id a \<noteq> gj_id j \<or> ga_attempt_no a \<noteq> gj_attempt_count j
     \<or> ga_state a \<noteq> AttemptSUBMITTING \<or> ga_provider_external_id a \<noteq> None \<or> ga_submitted_at a \<noteq> None
     \<or> ga_started_at a \<noteq> None \<or> ga_last_observed_at a \<noteq> None \<or> ga_unknown_since a \<noteq> None
     \<or> ga_provider_state a \<noteq> None \<or> ga_response_metadata a \<noteq> None \<or> ga_cost_reservation_microusd a \<le> 0
     \<or> ga_reservation_released_at a \<noteq> None \<or> gj_state j \<noteq> JobSUBMITTING \<or> gj_state j \<in> set terminal_job_states)"

definition rearm_deferred_job_input ::
  "db \<Rightarrow> GenerationAttempt \<Rightarrow> GenerationJob \<Rightarrow> instant \<Rightarrow> instant \<Rightarrow> string \<Rightarrow> salad_service_error + db" where
  "rearm_deferred_job_input d a j retry_at occurred_at reason =
     (if \<not> definitely_unstarted a j then conflict ''deferred Salad worker input is no longer definitely unstarted''
      else
        (let released = budget_audit_event ''provider_budget.reservation_released'' ''generation_attempt'' (ga_id a)
               (attempt_correlation a)
               [(''amount_microusd'', PInt (ga_cost_reservation_microusd a)),
                (''reason_code'', PStr JOB_INPUT_DEFERRED_ERROR_CODE), (''prepared_attempt_rearmed'', PBool True)]
               occurred_at;
             deferred = salad_audit ''generation_attempt.job_input_deferred'' a
               [(''reason_code'', PStr JOB_INPUT_DEFERRED_ERROR_CODE), (''deferral_reason'', PStr reason),
                (''retry_at'', PStr (isoformat retry_at)),
                (''reservation_microusd'', PInt (ga_cost_reservation_microusd a)),
                (''provider_contacted'', PBool False), (''prepared_attempt_rearmed'', PBool True)] occurred_at;
             d1 = add_audit deferred (add_audit released
               (put_job (rearmed_job reason retry_at j) (put_attempt (rearmed_attempt reason a) d)))
         in bindE (from_budget (reevaluate_budget_guard occurred_at d1 ''salad'' (Some (Aware occurred_at))))
              (\<lambda>(d2, _). Inr d2)))"

datatype InputOutcome =
    InputBuilt pyval
  | InputDeferred int string
  | InputFailed

definition submit_deferred ::
  "db \<Rightarrow> uuid \<Rightarrow> int \<Rightarrow> string \<Rightarrow> instant \<Rightarrow> salad_service_error + (db \<times> SubmissionResult)" where
  "submit_deferred d attempt_id retry_after_seconds reason submitted_at =
     bindE (load_attempt_context d attempt_id) (\<lambda>(a, j, _).
     let retry_at = submitted_at + retry_after_seconds * us_per_second in
     bindE (rearm_deferred_job_input d a j retry_at submitted_at reason) (\<lambda>d1.
     Inr (d1, submission_result (refreshed_attempt d1 a) (refreshed_job d1 j) DispositionBUDGET_BLOCKED
       EffectDEFINITELY_NOT_STARTED (Some retry_at))))"

definition submit_unbuilt :: "db \<Rightarrow> uuid \<Rightarrow> instant \<Rightarrow> salad_service_error + (db \<times> SubmissionResult)" where
  "submit_unbuilt d attempt_id submitted_at =
     bindE (load_attempt_context d attempt_id) (\<lambda>(a, j, _).
     bindE (mark_definite_failure d a j ''upload_intent_preparation_failed''
       ''Short-lived worker upload grants could not be prepared.'' (retry_or_fail j) submitted_at None) (\<lambda>d1.
     Inr (d1, submission_result (refreshed_attempt d1 a) (refreshed_job d1 j) DispositionRETRY_WAIT
       EffectDEFINITELY_NOT_STARTED None)))"

section \<open>The answer of the provider\<close>

text \<open>
  What \<open>create_job\<close> returns or raises: \<open>SaladRateLimitError\<close> with its delay in microseconds, another
  \<open>SaladAPIError\<close> with its status, or any other exception; after the last the outcome is open.
\<close>

datatype PostOutcome =
    PostAnswered SaladQueueJob
  | PostRateLimited "int option"
  | PostRejected int
  | PostFailed

definition DEFINITIVE_REJECTION_STATUS_CODES :: "int list" where
  "DEFINITIVE_REJECTION_STATUS_CODES = [400, 401, 403, 404, 422]"

definition submit_rate_limited ::
  "db \<Rightarrow> GenerationAttempt \<Rightarrow> GenerationJob \<Rightarrow> int option \<Rightarrow> instant \<Rightarrow> salad_service_error + (db \<times> SubmissionResult)" where
  "submit_rate_limited d a j retry_after submitted_at =
     (let retry_delay = (case retry_after of None \<Rightarrow> 60 * us_per_second | Some t \<Rightarrow> max t us_per_second);
          retry_at = submitted_at + retry_delay in
      bindE (mark_definite_failure d a j SALAD_RATE_LIMITED_ERROR_CODE
        ''Salad rejected the request before creating a job.'' (retry_or_fail j) submitted_at
        (if gj_attempt_count j < gj_max_attempts j then Some retry_at else None)) (\<lambda>d1.
      let d2 = fst (grant_infrastructure_retry d1 (refreshed_attempt d1 a) (refreshed_job d1 j) RetrySUBMISSION
            ''salad-controller'' retry_at submitted_at);
          waits = (gj_state (refreshed_job d2 j) = JobRETRY_WAIT) in
      Inr (d2, submission_result (refreshed_attempt d2 a) (refreshed_job d2 j)
        (if waits then DispositionRETRY_WAIT else DispositionFAILED) EffectDEFINITELY_NOT_STARTED
        (if waits then Some retry_at else None))))"

definition submit_unknown ::
  "db \<Rightarrow> GenerationAttempt \<Rightarrow> GenerationJob \<Rightarrow> string \<Rightarrow> instant \<Rightarrow> db \<times> SubmissionResult" where
  "submit_unknown d a j error_code submitted_at =
     (let d1 = mark_outcome_unknown d a j error_code submitted_at in
      (d1, submission_result (refreshed_attempt d1 a) (refreshed_job d1 j) DispositionUNKNOWN EffectMAY_HAVE_STARTED
        None))"

definition submit_finish ::
  "(8 word list \<Rightarrow> 8 word list) \<Rightarrow> uuid \<Rightarrow> db \<Rightarrow> uuid \<Rightarrow> PostOutcome \<Rightarrow> instant
    \<Rightarrow> salad_service_error + (db \<times> SubmissionResult)" where
  "submit_finish sha256 new_id d attempt_id outcome submitted_at =
     bindE (load_attempt_context d attempt_id) (\<lambda>(a, j, _).
     case outcome of
       PostRateLimited retry_after \<Rightarrow> submit_rate_limited d a j retry_after submitted_at
     | PostRejected status_code \<Rightarrow>
         if status_code \<in> set DEFINITIVE_REJECTION_STATUS_CODES
         then bindE (mark_definite_failure d a j (''salad_http_'' @ int_digits status_code)
             ''Salad rejected the job submission.'' JobFAILED submitted_at None) (\<lambda>d1.
           Inr (d1, submission_result (refreshed_attempt d1 a) (refreshed_job d1 j) DispositionFAILED
             EffectDEFINITELY_NOT_STARTED None))
         else Inr (submit_unknown d a j ''salad_submit_outcome_unknown'' submitted_at)
     | PostFailed \<Rightarrow> Inr (submit_unknown d a j ''salad_submit_outcome_unknown'' submitted_at)
     | PostAnswered q \<Rightarrow>
         if \<not> remote_metadata_matches a q
         then Inr (submit_unknown d a j ''salad_submit_response_identity_mismatch'' submitted_at)
         else bindE (apply_salad_job_observation sha256 new_id submitted_at d (ga_id a) q (Some (Aware submitted_at)) None)
           (\<lambda>(d1, ob).
           Inr (d1, \<lparr>sb_generation_attempt_id = ga_id a, sb_attempt_state = ob_attempt_state ob,
             sb_generation_job_state = ob_generation_job_state ob, sb_disposition = DispositionSUBMITTED,
             sb_mutation_effect = EffectCONFIRMED, sb_provider_external_id = ob_provider_external_id ob,
             sb_retry_not_before = None\<rparr>)))"

section \<open>The whole submission\<close>

text \<open>
  The surroundings of one call: the upload provider, the provider's client, and what other transactions commit while the
  first and the second of them run. A \<open>job_post\<close> is the request that is sent.
\<close>

record job_post =
  jp_queue_name :: string
  jp_input :: pyval
  jp_metadata :: "(string \<times> pyval) list"
  jp_webhook :: string

record submission_env =
  se_build_job_input :: "SaladJobInputContext \<Rightarrow> InputOutcome"
  se_create_job :: "job_post \<Rightarrow> PostOutcome"
  se_while_building :: "db \<Rightarrow> db"
  se_while_posting :: "db \<Rightarrow> db"

definition with_posts :: "job_post list \<Rightarrow> db \<Rightarrow> salad_service_error + (db \<times> SubmissionResult)
    \<Rightarrow> db \<times> job_post list \<times> (salad_service_error + SubmissionResult)" where
  "with_posts posts d m = (case m of Inl e \<Rightarrow> (d, posts, Inl e) | Inr (d1, r) \<Rightarrow> (d1, posts, Inr r))"

text \<open>The database as committed at the end, the requests that were sent, and what is returned or raised.\<close>

definition submit_prepared_attempt ::
  "(8 word list \<Rightarrow> 8 word list) \<Rightarrow> (string \<Rightarrow> url_parts option) \<Rightarrow> uuid \<Rightarrow> submission_env \<Rightarrow> instant \<Rightarrow> db \<Rightarrow> uuid
    \<Rightarrow> string \<Rightarrow> int \<Rightarrow> pydatetime option \<Rightarrow> db \<times> job_post list \<times> (salad_service_error + SubmissionResult)" where
  "submit_prepared_attempt sha256 urlsplit new_id env clock d attempt_id webhook_url reservation_microusd now =
     (case service_time clock now of
        Inl e \<Rightarrow> (d, [], Inl e)
      | Inr submitted_at \<Rightarrow>
          (case submit_begin sha256 urlsplit d attempt_id webhook_url reservation_microusd submitted_at of
             Inl e \<Rightarrow> (d, [], Inl e)
           | Inr (d1, Inl result) \<Rightarrow> (d1, [], Inr result)
           | Inr (d1, Inr su) \<Rightarrow>
               (let d2 = se_while_building env d1 in
                case se_build_job_input env (su_context su) of
                  InputDeferred retry_after_seconds reason \<Rightarrow>
                    with_posts [] d2 (submit_deferred d2 attempt_id retry_after_seconds reason submitted_at)
                | InputFailed \<Rightarrow> with_posts [] d2 (submit_unbuilt d2 attempt_id submitted_at)
                | InputBuilt job_input \<Rightarrow>
                    (let post = \<lparr>jp_queue_name = su_queue_name su, jp_input = job_input, jp_metadata = su_metadata su,
                         jp_webhook = webhook_url\<rparr>;
                         d3 = se_while_posting env d2 in
                     with_posts [post] d3
                       (submit_finish sha256 new_id d3 attempt_id (se_create_job env post) submitted_at)))))"

end
