(* ===== verification/GenerationRecoveryFacts.thy ===== *)
theory GenerationRecoveryFacts
  imports GenerationRecovery
begin

text \<open>
  What a grant writes, for the three kinds of grants and the sweep: nothing, or the job with one more attempt and one
  audit event that counts the grant.
\<close>

definition grant_effect :: "string \<Rightarrow> nat \<Rightarrow> instant \<Rightarrow> db \<Rightarrow> GenerationAttempt \<Rightarrow> GenerationJob \<Rightarrow> db \<Rightarrow> bool" where
  "grant_effect action limit r d a j d' \<longleftrightarrow>
     ga_job_id a = gj_id j \<and> ga_attempt_no a = gj_attempt_count j \<and> ga_state a = AttemptFAILED
     \<and> ga_completed_at a \<noteq> None \<and> gj_state j \<notin> set NON_RETRYABLE_JOB_STATES \<and> gj_max_attempts j < 10
     \<and> release_allows_retry d j \<and> \<not> attempt_granted d action (ga_id a) \<and> grant_count d action (gj_id j) < limit
     \<and> (\<exists>e code detail. grant_event action e \<and> ae_resource_id e = ga_id a
          \<and> d' = add_audit e (put_job (job_granted r code detail j) d))"

lemma grant_effect_cong:
  assumes "grant_effect action limit r d a j d'"
  obtains e code detail where "grant_event action e" "ae_resource_id e = ga_id a"
    "d' = add_audit e (put_job (job_granted r code detail j) d)"
  using assms by (auto simp: grant_effect_def)

lemma bounded_grant_effect:
  assumes "grant_bounded_infrastructure_retry d a j action limit code detail source actor r t extra = (d', g)"
    and "ga_job_id a = gj_id j" "ga_attempt_no a = gj_attempt_count j" "ga_state a = AttemptFAILED"
      "ga_completed_at a \<noteq> None" "gj_state j \<notin> set NON_RETRYABLE_JOB_STATES" "gj_max_attempts j < 10"
      "release_allows_retry d j"
  shows "(d' = d \<and> \<not> ig_granted g) \<or> (ig_granted g \<and> grant_effect action limit r d a j d')"
proof (cases "attempt_granted d action (ga_id a) \<or> limit \<le> grant_count d action (gj_id j)")
  case True
  with assms(1) show ?thesis by (auto simp: grant_bounded_infrastructure_retry_def no_grant_def)
next
  case False
  let ?e = "grant_audit None actor action a j (Some code) source (grant_count d action (gj_id j) + 1) limit extra t"
  have "d' = add_audit ?e (put_job (job_granted r (Some code) detail j) d)" "ig_granted g"
    using assms(1) False by (auto simp: grant_bounded_infrastructure_retry_def Let_def)
  moreover have "grant_event action ?e" "ae_resource_id ?e = ga_id a" by (simp_all add: grant_event_def grant_audit_def)
  ultimately show ?thesis using assms(2-) False unfolding grant_effect_def by (metis linorder_not_le)
qed

lemma infrastructure_grant_effect:
  assumes "grant_infrastructure_retry d a j source actor r t = (d', g)"
  shows "(d' = d \<and> \<not> ig_granted g)
    \<or> (ig_granted g \<and> grant_effect INFRASTRUCTURE_RETRY_GRANT_ACTION MAX_INFRASTRUCTURE_RETRY_GRANTS r d a j d')"
proof -
  define legacy where "legacy = (if source = RetrySCHEDULER_RECOVERY then legacy_job_failure_code a j else None)"
  show ?thesis
  proof (cases "py_or (ga_error_code a) legacy")
    case None
    with assms show ?thesis by (auto simp: grant_infrastructure_retry_def Let_def legacy_def no_grant_def)
  next
    case (Some code)
    let ?refused = "ga_job_id a \<noteq> gj_id j \<or> ga_attempt_no a \<noteq> gj_attempt_count j \<or> ga_state a \<noteq> AttemptFAILED
      \<or> ga_completed_at a = None \<or> code \<notin> set INFRASTRUCTURE_FAILURE_ERROR_CODES
      \<or> gj_state j \<in> set NON_RETRYABLE_JOB_STATES \<or> 10 \<le> gj_max_attempts j
      \<or> (legacy = None \<and> \<not> provider_attempt_is_definitive a) \<or> \<not> release_allows_retry d j"
    show ?thesis
    proof (cases ?refused)
      case True
      with assms Some show ?thesis
        by (auto simp: grant_infrastructure_retry_def Let_def legacy_def no_grant_def)
    next
      case False
      with assms Some obtain detail extra where "grant_bounded_infrastructure_retry d a j
          INFRASTRUCTURE_RETRY_GRANT_ACTION MAX_INFRASTRUCTURE_RETRY_GRANTS code detail source actor r t extra = (d', g)"
        unfolding grant_infrastructure_retry_def Let_def legacy_def [symmetric] by (simp only: option.case if_False)
      from bounded_grant_effect [OF this] False show ?thesis by simp
    qed
  qed
qed

lemma turnover_grant_effect:
  assumes "grant_runtime_instance_turnover_retry d a j x v source actor r t = (d', g)"
  shows "(d' = d \<and> \<not> ig_granted g) \<or> (ig_granted g \<and> gj_state j \<noteq> JobDEAD_LETTER \<and> grant_effect
    RUNTIME_INSTANCE_TURNOVER_RETRY_GRANT_ACTION MAX_RUNTIME_INSTANCE_TURNOVER_RETRY_GRANTS r d a j d')"
proof (cases "ga_error_code a")
  case None
  with assms show ?thesis by (auto simp: grant_runtime_instance_turnover_retry_def no_grant_def)
next
  case (Some code)
  let ?refused = "ga_job_id a \<noteq> gj_id j \<or> ga_attempt_no a \<noteq> gj_attempt_count j \<or> ga_state a \<noteq> AttemptFAILED
    \<or> ga_completed_at a = None \<or> code \<notin> {SALAD_JOB_FAILED_ERROR_CODE, SALAD_WEBHOOK_JOB_FAILED_ERROR_CODE}
    \<or> ga_provider_external_id a \<noteq> Some (te_provider_external_id v) \<or> ga_provider_state a \<noteq> Some ''failed''
    \<or> gj_state j \<in> {JobSUCCEEDED, JobFAILED, JobDEAD_LETTER, JobCANCELLED} \<or> 10 \<le> gj_max_attempts j
    \<or> \<not> runtime_turnover_deployment_allows_retry a x v \<or> \<not> release_allows_retry d j"
  show ?thesis
  proof (cases ?refused)
    case True
    with assms Some show ?thesis by (auto simp: grant_runtime_instance_turnover_retry_def no_grant_def)
  next
    case False
    then have state: "gj_state j \<noteq> JobDEAD_LETTER" "gj_state j \<notin> set NON_RETRYABLE_JOB_STATES"
      by (auto simp: NON_RETRYABLE_JOB_STATES_def)
    from assms False Some obtain detail extra where "grant_bounded_infrastructure_retry d a j
        RUNTIME_INSTANCE_TURNOVER_RETRY_GRANT_ACTION MAX_RUNTIME_INSTANCE_TURNOVER_RETRY_GRANTS code detail source actor r t
        extra = (d', g)"
      unfolding grant_runtime_instance_turnover_retry_def by (simp only: option.case if_False)
    from bounded_grant_effect [OF this _ _ _ _ state(2)] False state(1) show ?thesis by simp
  qed
qed

lemma near_black_grant_effect:
  assumes "grant_near_black_output_retry sha256 new_id d a j source actor r t failed uploaded = (d', g)"
  shows "(d' = d \<and> \<not> ng_granted g)
    \<or> (ng_granted g \<and> grant_effect NEAR_BLACK_OUTPUT_RETRY_GRANT_ACTION MAX_NEAR_BLACK_OUTPUT_RETRY_GRANTS r d a j d')"
proof -
  let ?refused = "ga_job_id a \<noteq> gj_id j \<or> ga_attempt_no a \<noteq> gj_attempt_count j \<or> ga_state a \<noteq> AttemptFAILED
        \<or> ga_completed_at a = None \<or> ga_error_code a \<noteq> Some SALAD_WORKER_NEAR_BLACK_OUTPUT_ERROR_CODE
        \<or> gj_state j \<in> set NON_RETRYABLE_JOB_STATES \<or> 10 \<le> gj_max_attempts j
        \<or> \<not> provider_attempt_is_definitive a \<or> \<not> (0 \<le> failed \<and> failed < gj_expected_output_count j)
        \<or> (uploaded \<noteq> [] \<and> uploaded \<noteq> [0..failed - 1]) \<or> \<not> release_allows_retry d j"
  let ?n = "grant_count d NEAR_BLACK_OUTPUT_RETRY_GRANT_ACTION (gj_id j)"
  let ?spent = "attempt_granted d NEAR_BLACK_OUTPUT_RETRY_GRANT_ACTION (ga_id a) \<or> MAX_NEAR_BLACK_OUTPUT_RETRY_GRANTS \<le> ?n"
  let ?plan = "bindE (require_near_black_original_output_seeds sha256 j)
    (build_near_black_seed_recovery_plan sha256 (gj_id j) new_id (ga_id a) (ga_attempt_no a)
      (int ?n + 1) failed (gj_expected_output_count j) uploaded)"
  show ?thesis
  proof (cases "?refused \<or> ?spent")
    case True
    with assms show ?thesis
      unfolding grant_near_black_output_retry_def no_near_black_grant_def by (cases ?refused) (auto simp: Let_def)
  next
    case False
    show ?thesis
    proof (cases ?plan)
      case (Inl e)
      with assms False show ?thesis
        unfolding grant_near_black_output_retry_def no_near_black_grant_def by (auto simp: Let_def)
    next
      case (Inr plan)
      let ?e = "grant_audit (Some new_id) actor NEAR_BLACK_OUTPUT_RETRY_GRANT_ACTION a j (ga_error_code a) source (?n + 1)
        MAX_NEAR_BLACK_OUTPUT_RETRY_GRANTS
        [(''provider_external_id'', optional_str (ga_provider_external_id a)),
         (''salad_deployment_id'', PStr (uuid_or_none_str (ga_salad_deployment_id a))),
         (''failed_output_index'', PInt failed), (''uploaded_output_count'', PInt (int (length uploaded))),
         (''assets_retained'', PBool True), (NEAR_BLACK_SEED_RECOVERY_METADATA_KEY, PDict (dump_plan plan))] t"
      have "d' = add_audit ?e (put_job (job_granted r (ga_error_code a) (ga_error_detail a) j) d) \<and> ng_granted g"
        using assms False Inr unfolding grant_near_black_output_retry_def by (auto simp: Let_def)
      moreover have "grant_event NEAR_BLACK_OUTPUT_RETRY_GRANT_ACTION ?e" "ae_resource_id ?e = ga_id a"
        by (simp_all add: grant_event_def grant_audit_def)
      ultimately show ?thesis using False unfolding grant_effect_def by (metis linorder_not_le)
    qed
  qed
qed

section \<open>Counting\<close>

lemma grant_event_actions:
  "grant_event INFRASTRUCTURE_RETRY_GRANT_ACTION e \<Longrightarrow> \<not> grant_event RUNTIME_INSTANCE_TURNOVER_RETRY_GRANT_ACTION e"
  "grant_event INFRASTRUCTURE_RETRY_GRANT_ACTION e \<Longrightarrow> \<not> grant_event NEAR_BLACK_OUTPUT_RETRY_GRANT_ACTION e"
  "grant_event RUNTIME_INSTANCE_TURNOVER_RETRY_GRANT_ACTION e \<Longrightarrow> \<not> grant_event NEAR_BLACK_OUTPUT_RETRY_GRANT_ACTION e"
  by (auto simp: grant_event_def INFRASTRUCTURE_RETRY_GRANT_ACTION_def RUNTIME_INSTANCE_TURNOVER_RETRY_GRANT_ACTION_def
      NEAR_BLACK_OUTPUT_RETRY_GRANT_ACTION_def)

lemma grant_count_granted:
  "grant_count ((put_job j d)\<lparr>db_audits := db_audits d @ [e]\<rparr>) action k = grant_count d action k
     + (if grant_event action e \<and> (\<exists>a. get_attempt (ae_resource_id e) d = Some a \<and> ga_job_id a = k) then 1 else 0)"
  by (auto simp: grant_count_def split: option.splits)

lemma attempt_granted_granted:
  "attempt_granted ((put_job j d)\<lparr>db_audits := db_audits d @ [e]\<rparr>) action k
     \<longleftrightarrow> attempt_granted d action k \<or> (grant_event action e \<and> ae_resource_id e = k)"
  by (auto simp: attempt_granted_def)

lemma job_granted_ok: "job_ok j \<Longrightarrow> job_ok (job_granted t code detail j)"
  by (auto simp: job_ok_def job_granted_def)

lemma job_granted_id [simp]: "gj_id (job_granted t code detail j) = gj_id j"
  by (simp add: job_granted_def)

lemma grant_effect_ok:
  assumes "grant_effect action limit r d a j d'" and "db_ok d" and "get_job (gj_id j) d = Some j"
  shows "db_ok d'"
proof -
  have "job_ok j" using db_okD(3) [OF assms(2)] row_get_mem [OF assms(3)] by blast
  with assms(1,2) show ?thesis
    by (elim grant_effect_cong) (simp add: db_ok_put_job job_granted_ok)
qed

end
