(* ===== verification/BudgetFacts.thy ===== *)
theory BudgetFacts
  imports Budgets
begin

text \<open>
  Facts about the budget guard: what each operation writes and what it leaves alone, how the
  evaluation of a guard reacts to the writes, and that the schema's constraints are kept.
\<close>

section \<open>Frames\<close>

lemma salad_provider [simp]: "validated_provider ''salad'' = Inr ''salad''"
  by code_simp

lemma get_guard_locked_get:
  assumes "db_ok d" and "get_guard_locked d provider = Some g"
  shows "get_guard (pb_id g) d = Some g" "pb_provider g = provider" "g \<in> set (db_guards d)"
proof -
  show mem: "g \<in> set (db_guards d)" and "pb_provider g = provider"
    using assms(2) by (auto simp: get_guard_locked_def find_Some_iff)
  show "get_guard (pb_id g) d = Some g"
    using db_okD(7) [OF assms(1)] mem by (rule row_get_distinct)
qed

lemma require_guard_locked_eq [simp]:
  "require_guard_locked d provider = Inr g \<longleftrightarrow> get_guard_locked d provider = Some g"
  by (auto simp: require_guard_locked_def split: option.splits)

lemma provider_attempt_eq [simp]:
  "provider_attempt d provider k = Inr a \<longleftrightarrow> get_attempt k d = Some a \<and> ga_provider a = provider"
  by (auto simp: provider_attempt_def split: option.splits)

lemma lookup_simps [simp]:
  "get_guard_locked d p = Some g \<Longrightarrow> require_guard_locked d p = Inr g"
  "get_attempt k d = Some a \<Longrightarrow> ga_provider a = p \<Longrightarrow> provider_attempt d p k = Inr a"
  by simp_all

lemma set_guard_state_frame:
  assumes "set_guard_state d g reason t = (d', g')"
  shows "db_entries d' = db_entries d" "db_attempts d' = db_attempts d" "db_leases d' = db_leases d"
    "db_deployments d' = db_deployments d" "db_jobs d' = db_jobs d" "db_outbox d' = db_outbox d"
    "pb_id g' = pb_id g" "pb_provider g' = pb_provider g" "pb_currency g' = pb_currency g"
    "pb_daily_limit_microusd g' = pb_daily_limit_microusd g"
    "pb_monthly_limit_microusd g' = pb_monthly_limit_microusd g"
    "pb_state g' = (if reason = None then BudgetOPEN else BudgetBLOCKED)"
    "pb_blocked_reason g' = reason"
  using assms by (auto simp: set_guard_state_def Let_def split: if_splits)

lemma set_guard_state_row:
  assumes "set_guard_state d g reason t = (d', g')" and "get_guard (pb_id g) d = Some g"
  shows "get_guard (pb_id g) d' = Some g'"
proof -
  have "pb_id g \<in> pb_id ` set (db_guards d)"
    using assms(2) by (metis option.distinct(1) row_get_None)
  then show ?thesis
    using assms by (auto simp: set_guard_state_def Let_def row_get_put split: if_splits)
qed

lemma set_guard_state_ok:
  assumes "set_guard_state d g reason t = (d', g')" and "db_ok d" and "get_guard (pb_id g) d = Some g"
  shows "db_ok d'"
proof (cases "d' = d")
  case False
  have "guard_ok g" using assms(2,3) by (auto simp: db_ok_def dest: row_get_mem)
  then have g': "guard_ok g'" using set_guard_state_frame [OF assms(1)] by (simp add: guard_ok_def)
  have "db_ok (put_guard g' d)"
    using set_guard_state_frame [OF assms(1)] assms(2,3) g' by (intro db_ok_put_guard [where old = g]) auto
  with False assms(1) show ?thesis by (auto simp: set_guard_state_def Let_def split: if_splits)
qed (use assms in simp)

lemma set_guard_state_lookup:
  assumes "set_guard_state d g reason t = (d', g')" and "db_ok d" and "get_guard_locked d provider = Some g"
  shows "get_guard_locked d' provider = Some g'"
proof -
  note g = get_guard_locked_get [OF assms(2,3)]
  have "get_guard (pb_id g) d' = Some g'" using assms(1) g(1) by (rule set_guard_state_row)
  then have mem: "g' \<in> set (db_guards d')" by (rule row_get_mem)
  have "distinct (map pb_provider (db_guards d'))"
    using set_guard_state_ok [OF assms(1,2) g(1)] by (rule db_okD(8))
  from find_key_distinct [OF this mem] show ?thesis
    using set_guard_state_frame(8) [OF assms(1)] g(2) by (simp add: get_guard_locked_def)
qed

text \<open>Evaluation reads the ledger, the attempts, the leases and the guard's identity and limits.\<close>

lemma evaluate_frame:
  assumes "db_entries d' = db_entries d" "db_attempts d' = db_attempts d" "db_leases d' = db_leases d"
    "pb_id g' = pb_id g" "pb_provider g' = pb_provider g"
    "pb_daily_limit_microusd g' = pb_daily_limit_microusd g"
    "pb_monthly_limit_microusd g' = pb_monthly_limit_microusd g"
  shows "evaluate_locked d' g' t = with_guard (evaluate_locked d g t) g'"
  using assms
  by (simp add: evaluate_locked_def Let_def with_guard_def spend_between_def active_reservations_def
      active_warm_leases_def realized_lease_usage_def)

lemma with_guard_fields [simp]:
  "bs_daily_committed_microusd (with_guard s g) = bs_daily_committed_microusd s"
  "bs_monthly_committed_microusd (with_guard s g) = bs_monthly_committed_microusd s"
  "bs_daily_limit_microusd (with_guard s g) = bs_daily_limit_microusd s"
  "bs_monthly_limit_microusd (with_guard s g) = bs_monthly_limit_microusd s"
  "bs_state (with_guard s g) = pb_state g" "bs_blocked_reason (with_guard s g) = pb_blocked_reason g"
  "bs_evaluated_at (with_guard s g) = bs_evaluated_at s"
  "limit_reason (with_guard s g) n = limit_reason s n" "with_guard (with_guard s g) h = with_guard s h"
  by (simp_all add: with_guard_def limit_reason_def)

lemma evaluate_fields [simp]:
  "bs_evaluated_at (evaluate_locked d g t) = t" "bs_provider (evaluate_locked d g t) = pb_provider g"
  "bs_daily_limit_microusd (evaluate_locked d g t) = pb_daily_limit_microusd g"
  "bs_monthly_limit_microusd (evaluate_locked d g t) = pb_monthly_limit_microusd g"
  by (simp_all add: evaluate_locked_def Let_def)

lemma limit_reason_None:
  "limit_reason s n = None \<longleftrightarrow> bs_daily_committed_microusd s + n \<le> bs_daily_limit_microusd s
     \<and> bs_monthly_committed_microusd s + n \<le> bs_monthly_limit_microusd s"
  by (auto simp: limit_reason_def)

section \<open>The kill switch\<close>

lemma stop_deployment_fields [simp]:
  "db_guards (stop_deployment r t x d) = db_guards d" "db_entries (stop_deployment r t x d) = db_entries d"
  "db_jobs (stop_deployment r t x d) = db_jobs d" "db_attempts (stop_deployment r t x d) = db_attempts d"
  "db_leases (stop_deployment r t x d) = db_leases d" "db_outbox (stop_deployment r t x d) = db_outbox d"
  "db_deployments (stop_deployment r t x d) = row_put sd_id (stopped_by_budget t x) (db_deployments d)"
  by (simp_all add: stop_deployment_def)

lemma fail_lease_fields [simp]:
  "db_guards (fail_lease r t x d) = db_guards d" "db_entries (fail_lease r t x d) = db_entries d"
  "db_jobs (fail_lease r t x d) = db_jobs d" "db_attempts (fail_lease r t x d) = db_attempts d"
  "db_deployments (fail_lease r t x d) = db_deployments d" "db_outbox (fail_lease r t x d) = db_outbox d"
  "db_leases (fail_lease r t x d) = row_put wl_id (failed_by_budget t x) (db_leases d)"
  by (simp_all add: fail_lease_def)

text \<open>A table that the step of a loop leaves alone, or changes by a function of that table only.\<close>

lemma fold_table:
  assumes "\<And>x d. sel (step x d) = upd x (sel d)"
  shows "sel (fold step xs d) = fold upd xs (sel d)"
  by (induction xs arbitrary: d) (simp_all add: assms)

lemma fold_idle: "fold (\<lambda>x s. s) xs s = s"
  by (induction xs) simp_all

lemma fold_stop_keep:
  "(\<And>x d. sel (stop_deployment r t x d) = sel d) \<Longrightarrow> sel (fold (stop_deployment r t) xs d) = sel d"
  using fold_table [of sel "stop_deployment r t" "\<lambda>x s. s"] by (simp add: fold_idle)

lemma fold_fail_keep:
  "(\<And>x d. sel (fail_lease r t x d) = sel d) \<Longrightarrow> sel (fold (fail_lease r t) xs d) = sel d"
  using fold_table [of sel "fail_lease r t" "\<lambda>x s. s"] by (simp add: fold_idle)

lemma kill_switch_fields:
  assumes "db_ok d"
  shows "db_guards (engage_salad_kill_switch d r t) = db_guards d"
    "db_entries (engage_salad_kill_switch d r t) = db_entries d"
    "db_jobs (engage_salad_kill_switch d r t) = db_jobs d"
    "db_attempts (engage_salad_kill_switch d r t) = db_attempts d"
    "db_outbox (engage_salad_kill_switch d r t) = db_outbox d"
    "db_deployments (engage_salad_kill_switch d r t)
       = map (\<lambda>x. if sd_desired_state x \<noteq> DesiredSTOPPED then stopped_by_budget t x else x) (db_deployments d)"
    "db_leases (engage_salad_kill_switch d r t)
       = map (\<lambda>l. if live_lease l then failed_by_budget t l else l) (db_leases d)"
proof -
  have dist: "distinct (map sd_id (db_deployments d))" "distinct (map wl_id (db_leases d))"
    using db_okD [OF assms] by simp_all
  let ?e = "engage_salad_kill_switch d r t"
  note e = engage_salad_kill_switch_def Let_def
  show "db_guards ?e = db_guards d" "db_entries ?e = db_entries d" "db_jobs ?e = db_jobs d"
    "db_attempts ?e = db_attempts d" "db_outbox ?e = db_outbox d"
    by (simp_all add: e fold_stop_keep fold_fail_keep)
  show "db_deployments ?e
      = map (\<lambda>x. if sd_desired_state x \<noteq> DesiredSTOPPED then stopped_by_budget t x else x) (db_deployments d)"
    unfolding e
    apply (subst fold_fail_keep [where sel = db_deployments], simp)
    apply (subst fold_table [where sel = db_deployments and upd = "\<lambda>x. row_put sd_id (stopped_by_budget t x)"], simp)
    by (rule fold_row_put_filter) (use dist in \<open>auto simp: stopped_by_budget_def distinct_map\<close>)
  show "db_leases ?e = map (\<lambda>l. if live_lease l then failed_by_budget t l else l) (db_leases d)"
    unfolding e
    apply (subst fold_table [where sel = db_leases and upd = "\<lambda>x. row_put wl_id (failed_by_budget t x)"], simp)
    apply (simp add: fold_stop_keep)
    by (rule fold_row_put_filter) (use dist in \<open>auto simp: failed_by_budget_def distinct_map\<close>)
qed

lemma lease_ok_failed: "lease_ok l \<Longrightarrow> lease_ok (failed_by_budget t l)"
  by (auto simp: lease_ok_def failed_by_budget_def live_lease_states_def)

lemma deployment_ok_stopped [simp]: "deployment_ok (stopped_by_budget t x) = deployment_ok x"
  by (simp add: deployment_ok_def billing_ok_def stopped_by_budget_def)

lemma kill_switch_ok:
  assumes "db_ok d"
  shows "db_ok (engage_salad_kill_switch d r t)"
proof -
  let ?e = "engage_salad_kill_switch d r t"
  have "map sd_id (db_deployments ?e) = map sd_id (db_deployments d)"
    by (simp add: kill_switch_fields [OF assms] stopped_by_budget_def)
  then have "distinct (map sd_id (db_deployments ?e))" using db_okD(15) [OF assms] by metis
  moreover have "map wl_id (db_leases ?e) = map wl_id (db_leases d)"
    by (simp add: kill_switch_fields [OF assms] failed_by_budget_def)
  then have "distinct (map wl_id (db_leases ?e))" using db_okD(16) [OF assms] by metis
  moreover have "\<forall>l \<in> set (db_leases ?e). lease_ok l"
    using db_okD(5) [OF assms] by (auto simp: kill_switch_fields [OF assms] intro: lease_ok_failed)
  moreover have "\<forall>x \<in> set (db_deployments ?e). deployment_ok x"
    using db_okD(17) [OF assms] by (auto simp: kill_switch_fields [OF assms])
  ultimately show ?thesis using assms unfolding db_ok_def kill_switch_fields(1-5) [OF assms] by blast
qed

section \<open>Re-evaluation\<close>

lemma apply_evaluation_frame:
  assumes "apply_evaluation d g s = (d', g', s')" and "db_ok d"
    and "set_guard_state d g (limit_reason s 0) (bs_evaluated_at s) = (d1, g1)"
    and "db_ok d1"
  shows "g' = g1" "s' = with_guard s g1" "db_guards d' = db_guards d1" "db_entries d' = db_entries d"
    "db_attempts d' = db_attempts d" "db_jobs d' = db_jobs d" "db_outbox d' = db_outbox d" "db_ok d'"
    "d' = (case limit_reason s 0 of None \<Rightarrow> d1
       | Some r \<Rightarrow> if pb_provider g = ''salad'' then engage_salad_kill_switch d1 r (bs_evaluated_at s) else d1)"
proof -
  show d': "d' = (case limit_reason s 0 of None \<Rightarrow> d1
       | Some r \<Rightarrow> if pb_provider g = ''salad'' then engage_salad_kill_switch d1 r (bs_evaluated_at s) else d1)"
    and "g' = g1" and "s' = with_guard s g1"
    using assms(1,3) set_guard_state_frame [OF assms(3)]
    by (auto simp: apply_evaluation_def Let_def split: option.splits)
  have "db_guards (engage_salad_kill_switch d1 r t) = db_guards d1"
    "db_entries (engage_salad_kill_switch d1 r t) = db_entries d1"
    "db_attempts (engage_salad_kill_switch d1 r t) = db_attempts d1"
    "db_jobs (engage_salad_kill_switch d1 r t) = db_jobs d1"
    "db_outbox (engage_salad_kill_switch d1 r t) = db_outbox d1" for r t
    using kill_switch_fields [OF assms(4)] by simp_all
  then show "db_guards d' = db_guards d1" "db_entries d' = db_entries d" "db_attempts d' = db_attempts d"
    "db_jobs d' = db_jobs d" "db_outbox d' = db_outbox d"
    using set_guard_state_frame [OF assms(3)] by (auto simp: d' split: option.splits)
  show "db_ok d'" using assms(4) by (auto simp: d' kill_switch_ok split: option.splits)
qed

lemma get_guard_locked_cong: "db_guards d' = db_guards d \<Longrightarrow> get_guard_locked d' p = get_guard_locked d p"
  by (simp add: get_guard_locked_def)

lemma reevaluated_facts:
  assumes "reevaluated d g t = (d', s)" and ok: "db_ok d" and g: "get_guard_locked d p = Some g"
  defines "reason \<equiv> limit_reason (evaluate_locked d g t) 0"
  shows "db_ok d'" "db_entries d' = db_entries d" "db_attempts d' = db_attempts d"
    "db_jobs d' = db_jobs d" "db_outbox d' = db_outbox d"
    "\<exists>g'. get_guard_locked d' p = Some g' \<and> s = with_guard (evaluate_locked d g t) g'
       \<and> pb_id g' = pb_id g \<and> pb_provider g' = p \<and> pb_daily_limit_microusd g' = pb_daily_limit_microusd g
       \<and> pb_monthly_limit_microusd g' = pb_monthly_limit_microusd g
       \<and> pb_state g' = (if reason = None then BudgetOPEN else BudgetBLOCKED) \<and> pb_blocked_reason g' = reason"
    "reason \<noteq> None \<Longrightarrow> p = ''salad'' \<Longrightarrow>
       (\<forall>x \<in> set (db_deployments d'). sd_desired_state x = DesiredSTOPPED) \<and> (\<forall>l \<in> set (db_leases d'). \<not> live_lease l)"
    "reason = None \<or> p \<noteq> ''salad'' \<Longrightarrow> db_deployments d' = db_deployments d \<and> db_leases d' = db_leases d"
proof -
  obtain d1 g1 where st: "set_guard_state d g reason t = (d1, g1)" by (cases "set_guard_state d g reason t")
  obtain d2 g2 s2 where ap: "apply_evaluation d g (evaluate_locked d g t) = (d2, g2, s2)"
    by (cases "apply_evaluation d g (evaluate_locked d g t)")
  then have d': "d' = d2" "s = with_guard s2 g2" using assms(1) by (simp_all add: reevaluated_def)
  note gg = get_guard_locked_get [OF ok g]
  have ok1: "db_ok d1" using st ok gg(1) by (rule set_guard_state_ok)
  have st': "set_guard_state d g (limit_reason (evaluate_locked d g t) 0)
      (bs_evaluated_at (evaluate_locked d g t)) = (d1, g1)"
    using st by (simp add: reason_def)
  note fr = apply_evaluation_frame [OF ap ok st' ok1]
  show "db_ok d'" "db_entries d' = db_entries d" "db_attempts d' = db_attempts d"
    "db_jobs d' = db_jobs d" "db_outbox d' = db_outbox d"
    by (simp_all only: d' fr(4-8))
  have "get_guard_locked d' p = Some g1"
    using set_guard_state_lookup [OF st ok g] get_guard_locked_cong [OF fr(3)] by (simp add: d')
  then show "\<exists>g'. get_guard_locked d' p = Some g' \<and> s = with_guard (evaluate_locked d g t) g'
       \<and> pb_id g' = pb_id g \<and> pb_provider g' = p \<and> pb_daily_limit_microusd g' = pb_daily_limit_microusd g
       \<and> pb_monthly_limit_microusd g' = pb_monthly_limit_microusd g
       \<and> pb_state g' = (if reason = None then BudgetOPEN else BudgetBLOCKED) \<and> pb_blocked_reason g' = reason"
    using set_guard_state_frame [OF st] gg(2) by (intro exI [of _ g1]) (simp add: d'(2) fr(1,2))
  show "(\<forall>x \<in> set (db_deployments d'). sd_desired_state x = DesiredSTOPPED)
      \<and> (\<forall>l \<in> set (db_leases d'). \<not> live_lease l)" if "reason \<noteq> None" "p = ''salad''"
  proof -
    obtain r where "reason = Some r" using \<open>reason \<noteq> None\<close> by auto
    then have "d' = engage_salad_kill_switch d1 r t"
      using fr(9) gg(2) \<open>p = ''salad''\<close> by (simp add: d'(1) reason_def)
    then show ?thesis
      by (auto simp: kill_switch_fields [OF ok1] stopped_by_budget_def failed_by_budget_def live_lease_def
          live_lease_states_def)
  qed
  show "db_deployments d' = db_deployments d \<and> db_leases d' = db_leases d" if "reason = None \<or> p \<noteq> ''salad''"
  proof -
    have "d' = d1" using fr(9) gg(2) that by (auto simp: d'(1) reason_def split: option.splits)
    then show ?thesis using set_guard_state_frame [OF st] by simp
  qed
qed

section \<open>Reservations in the evaluation\<close>

lemma active_reservations_put:
  assumes "db_ok d" and "get_attempt (ga_id a) d = Some old"
  shows "active_reservations (put_attempt a d) p = active_reservations d p
     - (if active_reservation p old then ga_cost_reservation_microusd old else 0)
     + (if active_reservation p a then ga_cost_reservation_microusd a else 0)"
  unfolding active_reservations_def sum_list_filter_if
  using sum_list_row_put [OF db_okD(9) [OF assms(1)] assms(2),
      of "\<lambda>x. if active_reservation p x then ga_cost_reservation_microusd x else 0"]
  by simp

lemma evaluate_put_attempt:
  assumes "db_ok d" and "get_attempt (ga_id a) d = Some old"
    and "delta = (if active_reservation (pb_provider g) a then ga_cost_reservation_microusd a else 0)
       - (if active_reservation (pb_provider g) old then ga_cost_reservation_microusd old else 0)"
  shows "bs_daily_committed_microusd (evaluate_locked (put_attempt a d) g t)
      = bs_daily_committed_microusd (evaluate_locked d g t) + delta"
    "bs_monthly_committed_microusd (evaluate_locked (put_attempt a d) g t)
      = bs_monthly_committed_microusd (evaluate_locked d g t) + delta"
  using active_reservations_put [OF assms(1,2), of "pb_provider g"] assms(3)
  by (simp_all add: evaluate_locked_def Let_def spend_between_def active_warm_leases_def realized_lease_usage_def)

lemma evaluate_audits [simp]: "evaluate_locked (d\<lparr>db_audits := as\<rparr>) g t = evaluate_locked d g t"
  by (rule trans [OF evaluate_frame]) (simp_all add: with_guard_def evaluate_locked_def Let_def)

lemma get_guard_locked_audits [simp]: "get_guard_locked (d\<lparr>db_audits := as\<rparr>) p = get_guard_locked d p"
  by (simp add: get_guard_locked_def)

text \<open>What an accepted reservation writes.\<close>

lemma reserve_accepted:
  assumes "reserve_attempt_budget clock d p0 k amount now = Inr (d', r)" and ok: "db_ok d"
    and "rd_accepted r" and "\<not> rd_replayed r"
  obtains p t g g' a d1 where
    "validated_provider p0 = Inr p" "evaluation_time clock now = Inr t" "0 < amount" "amount \<le> MAX_BIGINT"
    "get_guard_locked d p = Some g" "get_attempt k d = Some a" "ga_provider a = p"
    "ga_state a = AttemptCREATED" "ga_cost_reservation_microusd a = 0" "ga_reservation_released_at a = None"
    "limit_reason (evaluate_locked d g t) amount = None" "set_guard_state d g None t = (d1, g')"
    "\<exists>as. d' = (put_attempt (reserved_attempt amount t a) d1)\<lparr>db_audits := as\<rparr>"
    "rd_snapshot r = with_guard (evaluate_locked d' g' t) g'"
proof -
  obtain p t g a where v: "validated_provider p0 = Inr p" "evaluation_time clock now = Inr t"
      "0 < amount" "amount \<le> MAX_BIGINT" "get_guard_locked d p = Some g" "get_attempt k d = Some a" "ga_provider a = p"
    using assms(1)
    by (auto simp: reserve_attempt_budget_def bindE_eq_Inr validate_positive_microusd_def)
  let ?reason = "limit_reason (evaluate_locked d g t) amount"
  obtain d1 g1 where st: "set_guard_state d g ?reason t = (d1, g1)"
    by (cases "set_guard_state d g ?reason t")
  obtain d2 s2 where re: "reevaluated d g t = (d2, s2)" by (cases "reevaluated d g t")
  have body: "ga_state a = AttemptCREATED \<and> ga_cost_reservation_microusd a = 0 \<and> ga_reservation_released_at a = None
      \<and> ?reason = None \<and> (\<exists>as. d' = (put_attempt (reserved_attempt amount t a) d1)\<lparr>db_audits := as\<rparr>)
      \<and> rd_snapshot r = with_guard (evaluate_locked d' g1 t) g1"
    using assms(1,3,4) v st re
    by (auto simp: reserve_attempt_budget_def validate_positive_microusd_def Let_def split: if_splits)
  show ?thesis
    by (rule that [OF v]) (use body st in auto)
qed

end
