(* ===== verification/BudgetProperties.thy ===== *)
theory BudgetProperties
  imports BudgetFacts
begin

text \<open>
  The properties of the budget guard: the hard limits, idempotence of reservations and of the
  spend ledger, releases, the kill switch, and the constraints of the schema as an invariant of
  every sequence of operations.
\<close>

section \<open>Every operation keeps the constraints\<close>

text \<open>
  A call of one of the operations that returns. \<open>budget_call\<close> runs alone; a \<open>budget_step\<close> may
  also be an \<open>ensure_budget_guard\<close> that lost its race against the calls \<open>interfere\<close>.
\<close>

inductive budget_call :: "db \<Rightarrow> db \<Rightarrow> bool" where
  ensure: "ensure_budget_guard id new_id clock d p dl ml now = Inr (d', s) \<Longrightarrow> budget_call d d'"
| reevaluate: "reevaluate_budget_guard clock d p now = Inr (d', s) \<Longrightarrow> budget_call d d'"
| preflight: "preflight_attempt_budget clock d p amount now = Inr (d', r) \<Longrightarrow> budget_call d d'"
| reserve: "reserve_attempt_budget clock d p k amount now = Inr (d', r) \<Longrightarrow> budget_call d d'"
| record_spend: "record_spend_entry new_id clock d p key ty amount eff ak dk now = Inr (d', r) \<Longrightarrow>
     new_id \<notin> se_id ` set (db_entries d) \<Longrightarrow> budget_call d d'"
| release: "release_attempt_reservation clock d p k now = Inr (d', r) \<Longrightarrow> budget_call d d'"

inductive budget_step :: "db \<Rightarrow> db \<Rightarrow> bool" where
  call: "budget_call d d' \<Longrightarrow> budget_step d d'"
| race: "ensure_budget_guard interfere new_id clock d p dl ml now = Inr (d', s) \<Longrightarrow>
     (\<And>x. budget_call\<^sup>*\<^sup>* x (interfere x)) \<Longrightarrow> budget_step d d'"

lemma reevaluated_ok:
  assumes "db_ok d" and "get_guard_locked d p = Some g"
  shows "db_ok (fst (reevaluated d g t))"
  using reevaluated_facts(1) [OF _ assms, of t] by (cases "reevaluated d g t") simp

lemma preflight_effect:
  assumes "preflight_attempt_budget clock d p0 amount now = Inr (d', r)"
  obtains p t g g' where "validated_provider p0 = Inr p" "evaluation_time clock now = Inr t"
    "get_guard_locked d p = Some g"
    "set_guard_state d g (limit_reason (evaluate_locked d g t) amount) t = (d', g')"
    "rd_accepted r \<longleftrightarrow> limit_reason (evaluate_locked d g t) amount = None"
proof -
  obtain p t g where v: "validated_provider p0 = Inr p" "validate_positive_microusd amount = Inr ()"
      "evaluation_time clock now = Inr t" "get_guard_locked d p = Some g"
    using assms by (auto simp: preflight_attempt_budget_def bindE_eq_Inr)
  obtain d1 g1 where st: "set_guard_state d g (limit_reason (evaluate_locked d g t) amount) t = (d1, g1)"
    by (cases "set_guard_state d g (limit_reason (evaluate_locked d g t) amount) t")
  show thesis
    by (rule that [of p t g g1]) (use assms v st in \<open>auto simp: preflight_attempt_budget_def Let_def\<close>)
qed

lemma reserved_attempt_ok: "attempt_ok a \<Longrightarrow> 0 < amount \<Longrightarrow> attempt_ok (reserved_attempt amount t a)"
  by (auto simp: attempt_ok_def reserved_attempt_def)

lemma released_attempt_ok: "attempt_ok a \<Longrightarrow> attempt_ok (released_attempt t a)"
  by (auto simp: attempt_ok_def released_attempt_def)

lemma reserve_ok:
  assumes "reserve_attempt_budget clock d p0 k amount now = Inr (d', r)" and ok: "db_ok d"
  shows "db_ok d'"
proof -
  obtain p t g a where v: "validated_provider p0 = Inr p" "evaluation_time clock now = Inr t"
      "0 < amount" "amount \<le> MAX_BIGINT" "get_guard_locked d p = Some g" "get_attempt k d = Some a"
      "ga_provider a = p"
    using assms(1) by (auto simp: reserve_attempt_budget_def bindE_eq_Inr validate_positive_microusd_def)
  let ?reason = "limit_reason (evaluate_locked d g t) amount"
  obtain d1 g1 where st: "set_guard_state d g ?reason t = (d1, g1)" by (cases "set_guard_state d g ?reason t")
  have ok1: "db_ok d1" using st ok get_guard_locked_get(1) [OF ok v(5)] by (rule set_guard_state_ok)
  have "attempt_ok a" using db_okD(4) [OF ok] row_get_mem [OF v(6)] by blast
  then have "attempt_ok (reserved_attempt amount t a)" using v(3) by (rule reserved_attempt_ok)
  with ok1 have ok2: "db_ok (put_attempt (reserved_attempt amount t a) d1)" by (rule db_ok_put_attempt)
  show ?thesis
    using assms(1) v st ok1 ok2 reevaluated_ok [OF ok v(5), of t]
    by (cases "reevaluated d g t")
      (auto simp: reserve_attempt_budget_def validate_positive_microusd_def Let_def split: if_splits)
qed

lemma reserve_leaves_reserved:
  assumes "reserve_attempt_budget clock d p0 k amount now = Inr (d', r)" and ok: "db_ok d" and "rd_accepted r"
  obtains p g a where "validated_provider p0 = Inr p" "0 < amount" "amount \<le> MAX_BIGINT" "db_ok d'"
    "get_guard_locked d' p = Some g" "get_attempt k d' = Some a" "ga_provider a = p"
    "ga_cost_reservation_microusd a = amount" "ga_reservation_released_at a = None"
    "ga_state a = AttemptSUBMITTING"
proof (cases "rd_replayed r")
  case True
  obtain p t g a where v: "validated_provider p0 = Inr p" "evaluation_time clock now = Inr t"
      "0 < amount" "amount \<le> MAX_BIGINT" "get_guard_locked d p = Some g" "get_attempt k d = Some a"
      "ga_provider a = p"
    using assms(1) by (auto simp: reserve_attempt_budget_def bindE_eq_Inr validate_positive_microusd_def)
  obtain d1 s1 where re: "reevaluated d g t = (d1, s1)" by (cases "reevaluated d g t")
  have body: "d' = d1 \<and> ga_cost_reservation_microusd a = amount \<and> ga_reservation_released_at a = None
      \<and> ga_state a = AttemptSUBMITTING"
    using assms(1) v re True
    by (auto simp: reserve_attempt_budget_def validate_positive_microusd_def Let_def split: if_splits prod.splits)
  note f = reevaluated_facts [OF re ok v(5)]
  from f(6) obtain g' where "get_guard_locked d1 p = Some g'" by blast
  with f(1,3) v body show thesis by (intro that [of p g' a]) auto
next
  case False
  show thesis
  proof (rule reserve_accepted [OF assms(1) ok assms(3) False])
    fix p t g g' a d1
    assume a: "validated_provider p0 = Inr p" "0 < amount" "amount \<le> MAX_BIGINT"
      "get_guard_locked d p = Some g" "get_attempt k d = Some a" "ga_provider a = p"
      "ga_reservation_released_at a = None" "set_guard_state d g None t = (d1, g')"
      "\<exists>as. d' = (put_attempt (reserved_attempt amount t a) d1)\<lparr>db_audits := as\<rparr>"
    have "k \<in> ga_id ` set (db_attempts d)" using a(5) by (metis option.distinct(1) row_get_None)
    then have "get_attempt k d' = Some (reserved_attempt amount t a)"
      using a(9) set_guard_state_frame(2) [OF a(8)] row_get_key [OF a(5)]
      by (auto simp: row_get_put reserved_attempt_def)
    moreover have "get_guard_locked d' p = Some g'"
      using set_guard_state_lookup [OF a(8) ok a(4)] a(9) by (auto simp: get_guard_locked_def)
    moreover have "db_ok d'" using assms(1) ok by (rule reserve_ok)
    ultimately show thesis using a by (intro that [of p g' "reserved_attempt amount t a"])
      (simp_all add: reserved_attempt_def)
  qed
qed

lemma release_ok:
  assumes "release_attempt_reservation clock d p0 k now = Inr (d', r)" and ok: "db_ok d"
  shows "db_ok d'"
proof -
  obtain p t g a where v: "validated_provider p0 = Inr p" "evaluation_time clock now = Inr t"
      "get_guard_locked d p = Some g" "get_attempt k d = Some a" "ga_provider a = p"
    using assms(1) by (auto simp: release_attempt_reservation_def bindE_eq_Inr)
  let ?d1 = "add_audit (budget_audit_event ''provider_budget.reservation_released'' ''generation_attempt''
      (ga_id a) (attempt_correlation a) [(''amount_microusd'', PInt (ga_cost_reservation_microusd a))] t)
      (put_attempt (released_attempt t a) d)"
  have "attempt_ok a" using db_okD(4) [OF ok] row_get_mem [OF v(4)] by blast
  then have ok1: "db_ok ?d1" using db_ok_put_attempt [OF ok] by (simp add: released_attempt_ok)
  have g1: "get_guard_locked ?d1 p = Some g" using v(3) by (simp add: get_guard_locked_def)
  show ?thesis
    using assms(1) v reevaluated_ok [OF ok v(3), of t] reevaluated_ok [OF ok1 g1, of t]
    by (cases "reevaluated d g t"; cases "reevaluated ?d1 g t")
      (auto simp: release_attempt_reservation_def Let_def split: if_splits)
qed

definition spend_row ::
  "uuid \<Rightarrow> uuid \<Rightarrow> string \<Rightarrow> SpendEntryType \<Rightarrow> int \<Rightarrow> instant \<Rightarrow> uuid option \<Rightarrow> uuid option \<Rightarrow> instant
    \<Rightarrow> ProviderSpendEntry" where
  "spend_row new_id guard_id key ty amount eff ak dk t =
     \<lparr>se_id = new_id, se_budget_guard_id = guard_id, se_dedupe_key = key, se_entry_type = ty,
      se_amount_microusd = amount, se_effective_at = eff, se_salad_deployment_id = dk,
      se_generation_attempt_id = ak, se_source_reference = None, se_detail = [], se_created_at = t\<rparr>"

text \<open>The two ways a spend entry is recorded: a replay of a stored one, or one new row.\<close>

lemma record_spend_cases:
  assumes "record_spend_entry new_id clock d p0 key0 ty amount eff0 ak dk now = Inr (d', r)"
  obtains (replay) p key eff t g existing where
      "validated_provider p0 = Inr p" "validated_dedupe_key key0 = Inr key"
      "validate_spend_amount ty amount = Inr ()" "budget_as_utc eff0 = Inr eff"
      "evaluation_time clock now = Inr t" "get_guard_locked d p = Some g"
      "find (\<lambda>e. se_budget_guard_id e = pb_id g \<and> se_dedupe_key e = key) (db_entries d) = Some existing"
      "same_spend_entry existing ty amount eff ak dk" "(d', sr_snapshot r) = reevaluated d g t"
      "sr_replayed r" "sr_entry_id r = se_id existing"
  | (fresh) p key eff t g where
      "validated_provider p0 = Inr p" "validated_dedupe_key key0 = Inr key"
      "validate_spend_amount ty amount = Inr ()" "budget_as_utc eff0 = Inr eff"
      "evaluation_time clock now = Inr t" "get_guard_locked d p = Some g"
      "find (\<lambda>e. se_budget_guard_id e = pb_id g \<and> se_dedupe_key e = key) (db_entries d) = None"
      "(d', sr_snapshot r) = reevaluated (add_audit (spend_recorded_event new_id amount ty t)
          (d\<lparr>db_entries := db_entries d @ [spend_row new_id (pb_id g) key ty amount eff ak dk t]\<rparr>)) g t"
      "\<not> sr_replayed r" "sr_entry_id r = new_id"
proof -
  obtain p key eff t g where v: "validated_provider p0 = Inr p" "validated_dedupe_key key0 = Inr key"
      "validate_spend_amount ty amount = Inr ()" "budget_as_utc eff0 = Inr eff"
      "evaluation_time clock now = Inr t" "get_guard_locked d p = Some g"
    using assms by (auto simp: record_spend_entry_def bindE_eq_Inr)
  note defs = record_spend_entry_def Let_def spend_row_def bindE_eq_Inr
  show thesis
  proof (cases "find (\<lambda>e. se_budget_guard_id e = pb_id g \<and> se_dedupe_key e = key) (db_entries d)")
    case None
    show thesis
      by (rule fresh [OF v None]) (use assms v None in \<open>auto simp: defs split: prod.splits\<close>)
  next
    case (Some e)
    show thesis
      by (rule replay [OF v Some]) (use assms v Some in \<open>auto simp: defs split: prod.splits if_splits\<close>)
  qed
qed

lemma fresh_entry_ok:
  assumes "validate_spend_amount ty amount = Inr ()"
    and "find (\<lambda>e. se_budget_guard_id e = gid \<and> se_dedupe_key e = key) (db_entries d) = None"
    and ok: "db_ok d" and new: "new_id \<notin> se_id ` set (db_entries d)"
  shows "db_ok (add_audit b (d\<lparr>db_entries := db_entries d @ [spend_row new_id gid key ty amount eff ak dk t]\<rparr>))"
proof -
  let ?e = "spend_row new_id gid key ty amount eff ak dk t"
  have "entry_ok ?e"
    using assms(1) by (auto simp: entry_ok_def spend_row_def validate_spend_amount_def split: if_splits)
  moreover have "entry_identity ?e \<notin> entry_identity ` set (db_entries d)"
    using assms(2) by (auto simp: entry_identity_def spend_row_def find_None_iff)
  ultimately show ?thesis using db_ok_insert_entry [OF ok] new by (simp add: spend_row_def)
qed

lemma record_spend_ok:
  assumes "record_spend_entry new_id clock d p0 key0 ty amount eff0 ak dk now = Inr (d', r)"
    and ok: "db_ok d" and new: "new_id \<notin> se_id ` set (db_entries d)"
  shows "db_ok d'"
  using assms(1)
proof (cases rule: record_spend_cases)
  case (replay p key eff t g existing)
  then show ?thesis using reevaluated_ok [OF ok replay(6), of t] by (metis fst_conv)
next
  case (fresh p key eff t g)
  let ?d1 = "add_audit (spend_recorded_event new_id amount ty t)
      (d\<lparr>db_entries := db_entries d @ [spend_row new_id (pb_id g) key ty amount eff ak dk t]\<rparr>)"
  have ok1: "db_ok ?d1" using fresh(3,7) ok new by (rule fresh_entry_ok)
  have g1: "get_guard_locked ?d1 p = Some g"
    using fresh(6) by (simp add: get_guard_locked_def)
  from reevaluated_ok [OF ok1 g1, of t] fresh(8) show ?thesis by (metis fst_conv)
qed

lemma record_spend_leaves_entry:
  assumes "record_spend_entry new_id clock d p0 key0 ty amount eff0 ak dk now = Inr (d', r)"
    and ok: "db_ok d" and new: "new_id \<notin> se_id ` set (db_entries d)"
  obtains p key eff g e where "validated_provider p0 = Inr p" "validated_dedupe_key key0 = Inr key"
    "validate_spend_amount ty amount = Inr ()" "budget_as_utc eff0 = Inr eff" "db_ok d'"
    "get_guard_locked d' p = Some g"
    "find (\<lambda>x. se_budget_guard_id x = pb_id g \<and> se_dedupe_key x = key) (db_entries d') = Some e"
    "same_spend_entry e ty amount eff ak dk" "sr_entry_id r = se_id e" "e \<in> set (db_entries d')"
    "db_entries d' = db_entries d @ (if sr_replayed r then [] else [e])"
  using assms(1)
proof (cases rule: record_spend_cases)
  case (replay p key eff t g e)
  note f = reevaluated_facts [OF replay(9) [symmetric] ok replay(6)]
  from f(6) obtain g' where g': "get_guard_locked d' p = Some g'" "pb_id g' = pb_id g" by blast
  have "e \<in> set (db_entries d)" using replay(7) by (auto simp: find_Some_iff)
  with f(2) g' replay(7-11) record_spend_ok [OF assms] show thesis
    by (intro that [OF replay(1-4), of g' e]) simp_all
next
  case (fresh p key eff t g)
  let ?e = "spend_row new_id (pb_id g) key ty amount eff ak dk t"
  let ?d1 = "add_audit (spend_recorded_event new_id amount ty t) (d\<lparr>db_entries := db_entries d @ [?e]\<rparr>)"
  have ok1: "db_ok ?d1" using fresh(3,7) ok new by (rule fresh_entry_ok)
  have g1: "get_guard_locked ?d1 p = Some g" using fresh(6) by (simp add: get_guard_locked_def)
  note f = reevaluated_facts [OF fresh(8) [symmetric] ok1 g1]
  from f(6) obtain g' where g': "get_guard_locked d' p = Some g'" "pb_id g' = pb_id g" by blast
  with f(2) fresh(7,9,10) record_spend_ok [OF assms] show thesis
    by (intro that [OF fresh(1-4), of g' ?e]) (simp_all add: find_append spend_row_def same_spend_entry_def)
qed

lemma ensure_guard_row_ok:
  assumes "ensure_guard_row interfere new_id d p dl ml t = Inr (d1, g, created)" and ok: "db_ok d"
    and inter: "\<And>x. db_ok x \<Longrightarrow> db_ok (interfere x)" and limits: "validate_limits dl ml = Inr ()"
  shows "db_ok d1" "get_guard_locked d1 p = Some g"
proof -
  have new: "guard_ok \<lparr>pb_id = new_id, pb_provider = p, pb_currency = ''USD'',
      pb_daily_limit_microusd = dl, pb_monthly_limit_microusd = ml, pb_state = BudgetOPEN,
      pb_blocked_reason = None, pb_blocked_at = None, pb_lock_version = 1, pb_updated_at = t\<rparr>"
    using limits by (auto simp: guard_ok_def validate_limits_def split: if_splits)
  show "db_ok d1"
    using assms(1) ok inter [OF ok] new
    by (auto simp: ensure_guard_row_def Let_def row_get_None get_guard_locked_def find_None_iff
        intro!: db_ok_insert_guard split: option.splits if_splits)
  show "get_guard_locked d1 p = Some g"
    using assms(1)
    by (auto simp: ensure_guard_row_def Let_def get_guard_locked_def find_append split: option.splits if_splits)
qed

lemma ensure_ok:
  assumes "ensure_budget_guard interfere new_id clock d p0 dl0 ml0 now = Inr (d', s)" and ok: "db_ok d"
    and inter: "\<And>x. db_ok x \<Longrightarrow> db_ok (interfere x)"
  shows "db_ok d'"
    "\<exists>x \<in> {d, interfere d}. db_entries d' = db_entries x \<and> db_attempts d' = db_attempts x"
    "\<exists>x \<in> {d, interfere d}. \<exists>d2 g2 t p d3 s3. db_leases d2 = db_leases x \<and> db_ok d2
       \<and> get_guard_locked d2 p = Some g2 \<and> reevaluated d2 g2 t = (d3, s3) \<and> db_leases d' = db_leases d3"
proof -
  obtain p t dl ml d1 g created where v: "validated_provider p0 = Inr p" "evaluation_time clock now = Inr t"
      "usd_to_microusd dl0 = Inr dl" "usd_to_microusd ml0 = Inr ml" "validate_limits dl ml = Inr ()"
      "ensure_guard_row interfere new_id d p dl ml t = Inr (d1, g, created)"
    using assms(1) by (auto simp: ensure_budget_guard_def bindE_eq_Inr)
  note row = ensure_guard_row_ok [OF v(6) ok inter v(5)]
  note gg = get_guard_locked_get [OF row]
  define changed where "changed \<longleftrightarrow> pb_daily_limit_microusd g \<noteq> dl \<or> pb_monthly_limit_microusd g \<noteq> ml"
  define g1 where "g1 = (if changed then g\<lparr>pb_daily_limit_microusd := dl, pb_monthly_limit_microusd := ml,
      pb_lock_version := pb_lock_version g + 1, pb_updated_at := t\<rparr> else g)"
  define d2 where "d2 = (if changed then put_guard g1 d1 else d1)"
  have "guard_ok g" using db_okD(1) [OF row(1)] gg(3) by blast
  then have g1ok: "guard_ok g1"
    using v(5) by (auto simp: g1_def guard_ok_def validate_limits_def split: if_splits)
  have ids: "pb_id g1 = pb_id g" "pb_provider g1 = p" using gg(2) by (simp_all add: g1_def)
  have d2ok: "db_ok d2"
    using row(1) db_ok_put_guard [OF row(1) g1ok, of g] gg ids by (simp add: d2_def)
  have "get_guard (pb_id g1) d2 = Some g1"
  proof (cases changed)
    case True
    have "pb_id g1 \<in> pb_id ` set (db_guards d1)" using gg(3) ids(1) by simp
    with True show ?thesis by (simp add: d2_def row_get_put)
  qed (use gg(1) in \<open>simp add: d2_def g1_def\<close>)
  then have "g1 \<in> set (db_guards d2)" by (rule row_get_mem)
  from find_key_distinct [OF db_okD(8) [OF d2ok] this] have g1': "get_guard_locked d2 p = Some g1"
    by (simp add: get_guard_locked_def ids(2))
  obtain d3 g2 s2 where ap: "apply_evaluation d2 g1 (evaluate_locked d2 g1 t) = (d3, g2, s2)"
    by (cases "apply_evaluation d2 g1 (evaluate_locked d2 g1 t)")
  have aud: "\<exists>as. d' = d3\<lparr>db_audits := as\<rparr>"
  proof -
    have "d' = d3 \<or> (\<exists>a. d' = add_audit a d3)"
      using assms(1) v ap unfolding d2_def g1_def changed_def
      by (auto simp: ensure_budget_guard_def Let_def split: if_splits)
    then show ?thesis by (metis db.surjective db.update_convs(10))
  qed
  have re: "reevaluated d2 g1 t = (d3, with_guard s2 g2)" using ap by (simp add: reevaluated_def)
  note f = reevaluated_facts [OF re d2ok g1']
  show "db_ok d'" using aud f(1) by auto
  have "db_entries d' = db_entries d1" "db_attempts d' = db_attempts d1"
    using aud f(2,3) by (auto simp: d2_def)
  moreover have "db_entries d1 = db_entries x \<and> db_attempts d1 = db_attempts x"
    if "d1 = x \<or> (\<exists>gs. d1 = x\<lparr>db_guards := gs\<rparr>)" for x
    using that by auto
  moreover have "\<exists>x \<in> {d, interfere d}. d1 = x \<or> (\<exists>gs. d1 = x\<lparr>db_guards := gs\<rparr>)"
    using v(6) by (auto simp: ensure_guard_row_def Let_def split: option.splits if_splits)
  ultimately show "\<exists>x \<in> {d, interfere d}. db_entries d' = db_entries x \<and> db_attempts d' = db_attempts x"
    by metis
  have "\<exists>x \<in> {d, interfere d}. db_leases d1 = db_leases x"
    using v(6) by (auto simp: ensure_guard_row_def Let_def split: option.splits if_splits)
  then have "\<exists>x \<in> {d, interfere d}. db_leases d2 = db_leases x" by (simp add: d2_def)
  moreover have "db_leases d' = db_leases d3" using aud by auto
  ultimately show "\<exists>x \<in> {d, interfere d}. \<exists>d2 g2 t p d3 s3. db_leases d2 = db_leases x \<and> db_ok d2
       \<and> get_guard_locked d2 p = Some g2 \<and> reevaluated d2 g2 t = (d3, s3) \<and> db_leases d' = db_leases d3"
    using d2ok g1' re by blast
qed

lemma budget_call_ok: "budget_call d d' \<Longrightarrow> db_ok d \<Longrightarrow> db_ok d'"
proof (induction rule: budget_call.induct)
  case (ensure new_id clock d p dl ml now d' s)
  then show ?case using ensure_ok(1) [OF ensure(1,2)] by simp
next
  case (reevaluate clock d p now d' s)
  then show ?case
    using reevaluated_ok by (auto simp: reevaluate_budget_guard_def bindE_eq_Inr) (metis fst_conv)
next
  case (preflight clock d p amount now d' r)
  from preflight(1) show ?case
    by (rule preflight_effect) (use preflight(2) set_guard_state_ok get_guard_locked_get(1) in blast)
next
  case (reserve clock d p k amount now d' r)
  then show ?case by (blast intro: reserve_ok)
next
  case (record_spend new_id clock d p key ty amount eff ak dk now d' r)
  then show ?case by (blast intro: record_spend_ok)
next
  case (release clock d p k now d' r)
  then show ?case by (blast intro: release_ok)
qed

interpretation budget_alone: invariant_system budget_call db_ok
  by unfold_locales (rule budget_call_ok)

lemma budget_step_ok: "budget_step d d' \<Longrightarrow> db_ok d \<Longrightarrow> db_ok d'"
  by (auto elim!: budget_step.cases intro: budget_call_ok ensure_ok(1) budget_alone.reachable_keeps)

interpretation budget_run: invariant_system budget_step db_ok
  by unfold_locales (rule budget_step_ok)

end
