(* ===== verification/GenerationSubmissionFacts.thy ===== *)
theory GenerationSubmissionFacts
  imports GenerationSubmission GenerationRecoveryFacts BudgetProperties
begin

text \<open>
  What the operations on one attempt write: the row of the attempt, the row of its job, audit events, and what the budget
  guard does when a reservation is given back. \<open>rows_written\<close> is that frame; it is composed write by write.
\<close>

section \<open>The frame\<close>

definition rows_written :: "db \<Rightarrow> GenerationAttempt \<Rightarrow> GenerationJob \<Rightarrow> db \<Rightarrow> bool" where
  "rows_written d a j d' \<longleftrightarrow> db_ok d'
     \<and> (\<forall>k. get_attempt k d' = (if k = ga_id a then Some a else get_attempt k d))
     \<and> (\<forall>i. get_job i d' = (if i = gj_id j then Some j else get_job i d))
     \<and> db_entries d' = db_entries d \<and> db_outbox d' = db_outbox d"

lemma rows_written_start:
  assumes "db_ok d" and "get_attempt (ga_id a) d = Some a" and "get_job (gj_id j) d = Some j"
  shows "rows_written d a j d"
  using assms by (simp add: rows_written_def)

lemma rows_writtenD:
  assumes "rows_written d a j d'"
  shows "db_ok d'" "get_attempt (ga_id a) d' = Some a" "get_job (gj_id j) d' = Some j"
    "k \<noteq> ga_id a \<Longrightarrow> get_attempt k d' = get_attempt k d" "i \<noteq> gj_id j \<Longrightarrow> get_job i d' = get_job i d"
    "attempt_ok a" "job_ok j" "refreshed_attempt d' a0 = (if ga_id a0 = ga_id a then a else refreshed_attempt d a0)"
    "refreshed_job d' j0 = (if gj_id j0 = gj_id j then j else refreshed_job d j0)"
proof -
  show ok: "db_ok d'" and a: "get_attempt (ga_id a) d' = Some a" and j: "get_job (gj_id j) d' = Some j"
    and "k \<noteq> ga_id a \<Longrightarrow> get_attempt k d' = get_attempt k d" "i \<noteq> gj_id j \<Longrightarrow> get_job i d' = get_job i d"
    "refreshed_attempt d' a0 = (if ga_id a0 = ga_id a then a else refreshed_attempt d a0)"
    "refreshed_job d' j0 = (if gj_id j0 = gj_id j then j else refreshed_job d j0)"
    using assms by (simp_all add: rows_written_def refreshed_attempt_def refreshed_job_def)
  show "attempt_ok a" "job_ok j" using db_okD(3,4) [OF ok] row_get_mem [OF a] row_get_mem [OF j] by blast+
qed

lemma rows_written_trans:
  assumes "rows_written d a j d'" and "rows_written d' a' j' d''" and "ga_id a' = ga_id a" and "gj_id j' = gj_id j"
  shows "rows_written d a' j' d''"
  using assms by (simp add: rows_written_def)

lemma rows_written_audit [simp]: "rows_written d a j (d'\<lparr>db_audits := es\<rparr>) = rows_written d a j d'"
  by (simp add: rows_written_def)

lemma rows_written_put_attempt:
  assumes "rows_written d a j d'" and "attempt_ok a'" and "ga_id a' = ga_id a"
  shows "rows_written d a' j (put_attempt a' d')"
proof -
  have "get_attempt (ga_id a) d' = Some a" using assms(1) by (rule rows_writtenD)
  then have "ga_id a \<in> ga_id ` set (db_attempts d')" by (metis option.distinct(1) row_get_None)
  with assms show ?thesis by (auto simp: rows_written_def row_get_put db_ok_put_attempt)
qed

lemma rows_written_put_job:
  assumes "rows_written d a j d'" and "job_ok j'" and "gj_id j' = gj_id j"
  shows "rows_written d a j' (put_job j' d')"
proof -
  have "get_job (gj_id j) d' = Some j" using assms(1) by (rule rows_writtenD)
  then have "gj_id j \<in> gj_id ` set (db_jobs d')" by (metis option.distinct(1) row_get_None)
  with assms show ?thesis by (auto simp: rows_written_def row_get_put db_ok_put_job)
qed

lemma rows_written_put_both:
  assumes "rows_written d a j d'" and "attempt_ok a'" "ga_id a' = ga_id a" and "job_ok j'" "gj_id j' = gj_id j"
  shows "rows_written d a' j' (put_job j' (put_attempt a' d'))"
  using assms by (intro rows_written_put_job rows_written_put_attempt [where a = a])

lemma load_attempt_context_eq:
  "load_attempt_context d k = Inr (a, j, x) \<longleftrightarrow> get_attempt k d = Some a \<and> get_job (ga_job_id a) d = Some j
     \<and> (\<exists>s. ga_salad_deployment_id a = Some s \<and> get_deployment s d = Some x)"
  by (cases "ga_salad_deployment_id a") (auto simp: load_attempt_context_def split: option.splits)

lemma loaded_rows:
  assumes "load_attempt_context d k = Inr (a, j, x)" and "db_ok d"
  shows "ga_id a = k" "gj_id j = ga_job_id a" "rows_written d a j d"
proof -
  have "get_attempt k d = Some a" "get_job (ga_job_id a) d = Some j"
    using assms(1) by (simp_all add: load_attempt_context_eq)
  moreover from this show "ga_id a = k" "gj_id j = ga_job_id a" by (auto dest: row_get_key)
  ultimately show "rows_written d a j d" using assms(2) by (intro rows_written_start) simp_all
qed

section \<open>Reservations\<close>

text \<open>A terminal attempt holds no part of the budget.\<close>

definition settled :: "GenerationAttempt \<Rightarrow> bool" where
  "settled a \<longleftrightarrow> ga_state a \<in> set terminal_attempt_states \<longrightarrow>
     ga_cost_reservation_microusd a \<le> 0 \<or> ga_reservation_released_at a \<noteq> None"

definition same_attempt :: "GenerationAttempt \<Rightarrow> GenerationAttempt \<Rightarrow> bool" where
  "same_attempt a a' \<longleftrightarrow> ga_id a' = ga_id a \<and> ga_job_id a' = ga_job_id a \<and> ga_attempt_no a' = ga_attempt_no a
     \<and> ga_provider a' = ga_provider a \<and> ga_salad_deployment_id a' = ga_salad_deployment_id a
     \<and> ga_submission_key a' = ga_submission_key a \<and> ga_request_sha256 a' = ga_request_sha256 a
     \<and> ga_request_metadata a' = ga_request_metadata a \<and> ga_worker_image_digest a' = ga_worker_image_digest a"

lemma same_attempt_refl: "same_attempt a a"
  by (simp add: same_attempt_def)

lemma same_attempt_trans: "same_attempt a b \<Longrightarrow> same_attempt b c \<Longrightarrow> same_attempt a c"
  by (simp add: same_attempt_def)

lemma from_budget_eq [simp]: "from_budget m = Inr v \<longleftrightarrow> m = Inr v"
  by (auto simp: from_budget_def split: sum.splits)

lemma reevaluated_rows_written:
  assumes "reevaluated d1 g t = (d', s)" and "rows_written d a j d1" and "get_guard_locked d1 p = Some g"
  shows "rows_written d a j d'"
proof -
  have "db_ok d1" using assms(2) by (rule rows_writtenD)
  note facts = reevaluated_facts [OF assms(1) this assms(3)]
  show ?thesis using assms(2) facts(1-5) by (simp add: rows_written_def)
qed

lemma release_call_rows:
  assumes "release_attempt_reservation clock d1 p (ga_id a) now = Inr (d', r)" and rows: "rows_written d a j d1"
  shows "rows_written d a j d' \<or> (\<exists>t. rows_written d (released_attempt t a) j d')" "ga_reservation_released_at a = None \<longrightarrow>
    (\<exists>t. rows_written d (released_attempt t a) j d')"
proof -
  have a: "get_attempt (ga_id a) d1 = Some a" and ok: "attempt_ok a" using rows by (rule rows_writtenD)+
  obtain q t g where v: "validated_provider p = Inr q" "evaluation_time clock now = Inr t"
      "get_guard_locked d1 q = Some g"
    using assms(1) by (auto simp: release_attempt_reservation_def bindE_eq_Inr)
  let ?e = "budget_audit_event ''provider_budget.reservation_released'' ''generation_attempt''
      (ga_id a) (attempt_correlation a) [(''amount_microusd'', PInt (ga_cost_reservation_microusd a))] t"
  let ?d1 = "add_audit ?e (put_attempt (released_attempt t a) d1)"
  obtain d2 s2 where re2: "reevaluated d1 g t = (d2, s2)" by (cases "reevaluated d1 g t")
  obtain d3 s3 where re3: "reevaluated ?d1 g t = (d3, s3)" by (cases "reevaluated ?d1 g t")
  have "rows_written d (released_attempt t a) j ?d1"
    using rows_written_put_attempt [OF rows released_attempt_ok [OF ok]] by (simp add: released_attempt_def)
  from reevaluated_rows_written [OF re3 this, of q] have new: "rows_written d (released_attempt t a) j d3"
    using v(3) by (simp add: get_guard_locked_def)
  have old: "rows_written d a j d2" by (rule reevaluated_rows_written [OF re2 rows v(3)])
  have "if ga_reservation_released_at a = None then d' = d3 else d' = d2"
    using assms(1) v a re2 re3 by (auto simp: release_attempt_reservation_def bindE_eq_Inr Let_def split: if_splits)
  with old new show "rows_written d a j d' \<or> (\<exists>t. rows_written d (released_attempt t a) j d')"
    "ga_reservation_released_at a = None \<longrightarrow> (\<exists>t. rows_written d (released_attempt t a) j d')"
    by (auto split: if_splits)
qed

lemma release_reservation_rows:
  assumes "release_reservation d1 a0 t = Inr d'" and rows: "rows_written d a j d1" and "ga_id a0 = ga_id a"
    and "ga_cost_reservation_microusd a0 = ga_cost_reservation_microusd a"
    and "ga_reservation_released_at a0 = ga_reservation_released_at a"
  obtains a' where "rows_written d a' j d'" "settled a'" "same_attempt a a'" "ga_state a' = ga_state a"
    "ga_provider_external_id a' = ga_provider_external_id a"
    "ga_cost_reservation_microusd a' = ga_cost_reservation_microusd a"
proof (cases "0 < ga_cost_reservation_microusd a \<and> ga_reservation_released_at a = None")
  case False
  with assms have "d' = d1" "settled a" by (auto simp: release_reservation_def settled_def)
  with rows show ?thesis by (intro that [of a]) (simp_all add: same_attempt_refl)
next
  case True
  with assms obtain r where "release_attempt_reservation t d1 ''salad'' (ga_id a) (Some (Aware t)) = Inr (d', r)"
    by (auto simp: release_reservation_def bindE_eq_Inr)
  from release_call_rows(2) [OF this rows] True obtain t' where "rows_written d (released_attempt t' a) j d'" by auto
  then show ?thesis by (rule that) (simp_all add: released_attempt_def settled_def same_attempt_def)
qed

section \<open>The operations before and after the request\<close>

definition same_job :: "GenerationJob \<Rightarrow> GenerationJob \<Rightarrow> bool" where
  "same_job j j' \<longleftrightarrow> gj_id j' = gj_id j \<and> gj_attempt_count j' = gj_attempt_count j
     \<and> gj_max_attempts j \<le> gj_max_attempts j' \<and> gj_provider j' = gj_provider j
     \<and> gj_parameters j' = gj_parameters j \<and> gj_release_version_id j' = gj_release_version_id j"

lemma same_job_refl: "same_job j j"
  by (simp add: same_job_def)

text \<open>How an operation leaves the two rows; \<open>S\<close> holds the states the attempt may be left in.\<close>

definition leaves :: "GenerationAttemptState set \<Rightarrow> db \<Rightarrow> GenerationAttempt \<Rightarrow> GenerationJob \<Rightarrow> db \<Rightarrow> bool" where
  "leaves S d a j d' \<longleftrightarrow> (\<exists>a' j'. rows_written d a' j' d' \<and> same_attempt a a' \<and> same_job j j' \<and> ga_state a' \<in> S
     \<and> ga_provider_external_id a' = ga_provider_external_id a \<and> (settled a \<longrightarrow> settled a'))"

lemma leavesI:
  assumes "rows_written d a' j' d'" "same_attempt a a'" "same_job j j'" "ga_state a' \<in> S"
    "ga_provider_external_id a' = ga_provider_external_id a" "settled a \<Longrightarrow> settled a'"
  shows "leaves S d a j d'"
  using assms unfolding leaves_def by blast

lemma leaves_mono: "leaves S d a j d' \<Longrightarrow> S \<subseteq> T \<Longrightarrow> leaves T d a j d'"
  unfolding leaves_def by blast

lemma leaves_audit [simp]: "leaves S d a j (d'\<lparr>db_audits := es\<rparr>) = leaves S d a j d'"
  by (simp add: leaves_def)

lemma leaves_refl: "rows_written d a j d \<Longrightarrow> ga_state a \<in> S \<Longrightarrow> leaves S d a j d"
  by (rule leavesI [of d a j]) (simp_all add: same_attempt_refl same_job_refl)

lemma fence_leaves:
  assumes "fence_stale_prepared_submission d a j t = Some (d', r)" and rows: "rows_written d a j d"
  shows "leaves {AttemptUNKNOWN, AttemptFAILED} d a j d'"
proof -
  have ok: "attempt_ok a" "job_ok j" using rows by (rule rows_writtenD)+
  let ?current = "ga_attempt_no a = gj_attempt_count j"
  let ?writes = "?current \<and> gj_state j \<notin> set terminal_job_states"
  define code where "code = ''stale_submission_lifecycle_ambiguous''"
  obtain reason where reason: "prepared_submission_stale_reason d a j = Some reason"
    using assms(1) by (auto simp: fence_stale_prepared_submission_def split: option.splits)
  let ?ambiguous = "attempt_has_submission_evidence a \<or> (?current \<and> gj_state j \<in> set REMOTE_OR_AMBIGUOUS_JOB_STATES)"
  obtain a' j' es where d': "d' = (put_job j' (put_attempt a' d))\<lparr>db_audits := es\<rparr>"
    and a': "a' = (if ?ambiguous then ambiguous_attempt t code
        ''The stale submission has durable activity evidence and requires reconciliation.'' a
      else failed_attempt t ''stale_submission_lifecycle''
        ''The prepared submission no longer belongs to active generation work.'' a)"
    and j': "j' = (if ?writes then if ?ambiguous then ambiguous_job code
        ''The stale Salad submission lifecycle is ambiguous; no retry was attempted.'' j else stale_cancelled_job j else j)"
    using assms(1) reason unfolding fence_stale_prepared_submission_def Let_def code_def
    by (auto split: if_splits)
  have "rows_written d a' j' (put_job j' (put_attempt a' d))"
    using ok by (intro rows_written_put_both [OF rows]) (auto simp: a' j' ambiguous_attempt_def failed_attempt_def
        attempt_ok_def ambiguous_job_def stale_cancelled_job_def job_ok_def)
  then show ?thesis
    by (intro leavesI [of _ a' j']) (auto simp: d' a' j' same_attempt_def same_job_def ambiguous_attempt_def failed_attempt_def
        ambiguous_job_def stale_cancelled_job_def settled_def terminal_attempt_states_def
        attempt_has_submission_evidence_def)
qed

lemma failed_rows:
  assumes "rows_written d a j d1"
  shows "rows_written d (failed_attempt t code detail a) (failed_job code detail s r j)
     (put_job (failed_job code detail s r j) (put_attempt (failed_attempt t code detail a) d1))"
  using rows_writtenD(6,7) [OF assms]
  by (intro rows_written_put_both [OF assms]) (auto simp: failed_attempt_def attempt_ok_def failed_job_def job_ok_def)

lemma definite_failure_rows:
  assumes "mark_definite_failure d1 a j code detail s t r = Inr d'" and rows: "rows_written d a j d1"
  obtains a' where "rows_written d a' (failed_job code detail s r j) d'" "settled a'" "same_attempt a a'"
    "ga_state a' = AttemptFAILED" "ga_provider_external_id a' = ga_provider_external_id a"
proof -
  let ?a = "failed_attempt t code detail a" and ?j = "failed_job code detail s r j"
  have "rows_written d ?a ?j (add_audit (salad_audit ''generation_attempt.submit_failed'' a
      [(''error_code'', PStr code)] t) (put_job ?j (put_attempt ?a d1)))"
    using failed_rows [OF rows] by simp
  with assms(1) obtain a' where "rows_written d a' ?j d'" "settled a'" "same_attempt ?a a'" "ga_state a' = ga_state ?a"
      "ga_provider_external_id a' = ga_provider_external_id ?a"
    unfolding mark_definite_failure_def by (rule release_reservation_rows) simp_all
  then show ?thesis by (intro that [of a']) (simp_all add: failed_attempt_def same_attempt_def)
qed

lemma failed_same_job: "same_job j (failed_job code detail s r j)"
  by (simp add: same_job_def failed_job_def)

lemma definite_failure_leaves:
  assumes "mark_definite_failure d a j code detail s t r = Inr d'" and "rows_written d a j d"
  shows "leaves {AttemptFAILED} d a j d'"
  using assms by (elim definite_failure_rows) (auto intro: leavesI failed_same_job)

lemma outcome_unknown_leaves:
  assumes rows: "rows_written d a j d"
  shows "leaves {if ga_state a \<in> set terminal_attempt_states then ga_state a else AttemptUNKNOWN} d a j
    (mark_outcome_unknown d a j code t)"
proof -
  have ok: "attempt_ok a" "job_ok j" using rows by (rule rows_writtenD)+
  define a' where "a' = (if ga_state a \<in> set terminal_attempt_states then a
    else ambiguous_attempt t code ''The submission outcome is ambiguous; reconciliation is required.'' a)"
  define j' where "j' = (if gj_state j \<in> set terminal_job_states then j
    else ambiguous_job code ''The Salad submission outcome is ambiguous; no retry was attempted.'' j)"
  have "rows_written d a' j' (put_job j' (put_attempt a' d))"
    using ok by (intro rows_written_put_both [OF rows])
      (auto simp: a'_def j'_def ambiguous_attempt_def attempt_ok_def ambiguous_job_def job_ok_def)
  then show ?thesis
    unfolding mark_outcome_unknown_def Let_def a'_def [symmetric] j'_def [symmetric]
    by (intro leavesI [of _ a' j']) (auto simp: a'_def j'_def same_attempt_def same_job_def ambiguous_attempt_def
        ambiguous_job_def settled_def terminal_attempt_states_def)
qed

lemma unstarted_leaves:
  assumes "fail_definitely_unstarted_submission clock d k code now = Inr (d', r)" and ok: "db_ok d"
  obtains a j x where "load_attempt_context d k = Inr (a, j, x)" "leaves {AttemptFAILED} d a j d'"
proof -
  obtain t a j x where l: "load_attempt_context d k = Inr (a, j, x)" and t: "service_time clock now = Inr t"
    using assms(1) unfolding fail_definitely_unstarted_submission_def bindE_eq_Inr by auto
  let ?refused = "ga_provider_external_id a \<noteq> None \<or> ga_state a \<notin> {AttemptCREATED, AttemptSUBMITTING, AttemptFAILED}"
  have "\<not> ?refused"
    using assms(1) l t unfolding fail_definitely_unstarted_submission_def conflict_def
    by (cases "ga_provider_external_id a"; cases "ga_state a") simp_all
  with assms(1) l t have m: "if ga_state a \<noteq> AttemptFAILED
       then mark_definite_failure d a j code ''The controller stopped before sending the Salad job request.''
         (retry_or_fail j) t (Some t) = Inr d' else release_reservation d a t = Inr d'"
    unfolding fail_definitely_unstarted_submission_def
    by (cases "ga_state a") (simp_all add: bindE_eq_Inr)
  note rows = loaded_rows(3) [OF l ok]
  have "leaves {AttemptFAILED} d a j d'"
  proof (cases "ga_state a = AttemptFAILED")
    case False
    with m have "mark_definite_failure d a j code ''The controller stopped before sending the Salad job request.''
         (retry_or_fail j) t (Some t) = Inr d'" by simp
    then show ?thesis using rows by (rule definite_failure_leaves)
  next
    case True
    with m have "release_reservation d a t = Inr d'" by simp
    then obtain a' where "rows_written d a' j d'" "settled a'" "same_attempt a a'" "ga_state a' = ga_state a"
        "ga_provider_external_id a' = ga_provider_external_id a"
      by (rule release_reservation_rows [OF _ rows]) simp_all
    with True show ?thesis by (intro leavesI [of d a' j]) (simp_all add: same_job_refl)
  qed
  with l show ?thesis by (rule that)
qed

lemma rearm_leaves:
  assumes "rearm_deferred_job_input d a j r t reason = Inr d'" and rows: "rows_written d a j d"
  shows "leaves {AttemptCREATED} d a j d'" "ga_state a = AttemptSUBMITTING"
    "get_attempt (ga_id a) d' = Some (rearmed_attempt reason a)" "get_job (gj_id j) d' = Some (rearmed_job reason r j)"
proof -
  have ok: "attempt_ok a" "job_ok j" using rows by (rule rows_writtenD)+
  let ?a = "rearmed_attempt reason a" and ?j = "rearmed_job reason r j"
  from assms(1) obtain es s where "definitely_unstarted a j"
      and re: "reevaluate_budget_guard t ((put_job ?j (put_attempt ?a d))\<lparr>db_audits := es\<rparr>) ''salad'' (Some (Aware t)) = Inr (d', s)"
    by (auto simp: rearm_deferred_job_input_def conflict_def bindE_eq_Inr Let_def split: if_splits)
  then show "ga_state a = AttemptSUBMITTING" by (simp add: definitely_unstarted_def)
  have "rows_written d ?a ?j ((put_job ?j (put_attempt ?a d))\<lparr>db_audits := es\<rparr>)"
    unfolding rows_written_audit using ok
    by (intro rows_written_put_both [OF rows]) (auto simp: rearmed_attempt_def attempt_ok_def rearmed_job_def job_ok_def)
  with re have new: "rows_written d ?a ?j d'"
    by (auto simp: reevaluate_budget_guard_def bindE_eq_Inr intro: reevaluated_rows_written)
  then show "leaves {AttemptCREATED} d a j d'"
    by (rule leavesI) (simp_all add: rearmed_attempt_def rearmed_job_def same_attempt_def same_job_def settled_def
        terminal_attempt_states_def)
  from rows_writtenD(2,3) [OF new] show "get_attempt (ga_id a) d' = Some ?a" "get_job (gj_id j) d' = Some ?j"
    by (simp_all add: rearmed_attempt_def rearmed_job_def)
qed

section \<open>The first transaction\<close>

lemma reserve_rows:
  assumes "reserve_attempt_budget clock d ''salad'' (ga_id a) amount now = Inr (d1, r)" and rows: "rows_written d a j d"
    and created: "ga_state a = AttemptCREATED"
  shows "if rd_accepted r then \<exists>t. rows_written d (reserved_attempt amount t a) j d1 else rows_written d a j d1"
proof -
  have ok: "db_ok d" "attempt_ok a" and a: "get_attempt (ga_id a) d = Some a" using rows by (rule rows_writtenD)+
  obtain t g where v: "evaluation_time clock now = Inr t" "0 < amount" "amount \<le> MAX_BIGINT"
      "get_guard_locked d ''salad'' = Some g" "ga_provider a = ''salad''"
    using assms(1) a by (auto simp: reserve_attempt_budget_def bindE_eq_Inr validate_positive_microusd_def)
  let ?reason = "limit_reason (evaluate_locked d g t) amount"
  obtain d2 g2 where st: "set_guard_state d g ?reason t = (d2, g2)" by (cases "set_guard_state d g ?reason t")
  note fr = set_guard_state_frame [OF st]
  have ok2: "db_ok d2" using set_guard_state_ok [OF st ok(1)] get_guard_locked_get(1) [OF ok(1) v(4)] by simp
  have rows2: "rows_written d a j d2" using rows ok2 fr(1-7) by (simp add: rows_written_def)
  have ok_reserved: "attempt_ok (reserved_attempt amount t a)" using ok(2) v(2) by (rule reserved_attempt_ok)
  have accepted: "rows_written d (reserved_attempt amount t a) j (put_attempt (reserved_attempt amount t a) d2)"
    using rows_written_put_attempt [OF rows2 ok_reserved] by (simp add: reserved_attempt_def)
  show ?thesis
    using assms(1) v a created st rows2 accepted
    by (auto simp: reserve_attempt_budget_def validate_positive_microusd_def Let_def split: if_splits)
qed

lemma reserve_and_mark_cases:
  assumes "reserve_and_mark sha256 d a j x amount t = Inr (d', out)" and rows: "rows_written d a j d"
    and created: "ga_state a = AttemptCREATED"
  shows "(\<exists>r. out = Inl r \<and> leaves {AttemptCREATED} d a j d')
    \<or> (\<exists>plan. out = Inr \<lparr>su_context = job_input_context a j x plan, su_queue_name = sd_queue_name x,
                su_metadata = submission_metadata a j x\<rparr> \<and> leaves {AttemptSUBMITTING} d a j d')"
proof -
  obtain plan d1 r where res: "reserve_attempt_budget t d ''salad'' (ga_id a) amount (Some (Aware t)) = Inr (d1, r)"
    and out: "(d', out) = (if \<not> rd_accepted r
       then (put_job (budget_blocked_job j) d1, Inl (submission_result (refreshed_attempt d1 a) (budget_blocked_job j)
           DispositionBUDGET_BLOCKED EffectDEFINITELY_NOT_STARTED None))
       else (put_job (submitting_job j) d1,
           Inr \<lparr>su_context = job_input_context a j x plan, su_queue_name = sd_queue_name x,
                su_metadata = submission_metadata a j x\<rparr>))"
    using assms(1) unfolding reserve_and_mark_def bindE_eq_Inr by (auto split: if_splits)
  have ok: "job_ok j" using rows by (rule rows_writtenD)
  note reserved = reserve_rows [OF res rows created]
  show ?thesis
  proof (cases "rd_accepted r")
    case True
    with reserved obtain t' where "rows_written d (reserved_attempt amount t' a) j d1" by auto
    then have "rows_written d (reserved_attempt amount t' a) (submitting_job j) (put_job (submitting_job j) d1)"
      using ok by (intro rows_written_put_job) (auto simp: submitting_job_def job_ok_def)
    then have "leaves {AttemptSUBMITTING} d a j (put_job (submitting_job j) d1)"
      by (rule leavesI) (simp_all add: reserved_attempt_def submitting_job_def same_attempt_def same_job_def settled_def
          terminal_attempt_states_def)
    with out True show ?thesis by auto
  next
    case False
    with reserved have "rows_written d a j d1" by simp
    then have "rows_written d a (budget_blocked_job j) (put_job (budget_blocked_job j) d1)"
      using ok by (intro rows_written_put_job) (auto simp: budget_blocked_job_def job_ok_def)
    then have "leaves {AttemptCREATED} d a j (put_job (budget_blocked_job j) d1)"
      by (rule leavesI) (simp_all add: budget_blocked_job_def same_attempt_refl same_job_def created)
    with out False show ?thesis by auto
  qed
qed

lemma submit_begin_cases:
  assumes "submit_begin sha256 urlsplit d k url amount t = Inr (d', out)" and ok: "db_ok d"
  obtains (finished) a j x r where "load_attempt_context d k = Inr (a, j, x)" "out = Inl r"
      "leaves {s. ga_state a \<noteq> AttemptCREATED \<longrightarrow> s \<noteq> AttemptCREATED} d a j d'"
  | (marked) a j x plan where "load_attempt_context d k = Inr (a, j, x)" "ga_state a = AttemptCREATED"
      "out = Inr \<lparr>su_context = job_input_context a j x plan, su_queue_name = sd_queue_name x,
                su_metadata = submission_metadata a j x\<rparr>" "leaves {AttemptSUBMITTING} d a j d'"
proof -
  obtain a j x where l: "load_attempt_context d k = Inr (a, j, x)"
    and m: "(if ga_state a = AttemptSUBMITTING
       then (let d1 = mark_outcome_unknown d a j ''submit_resumed_after_durable_marker'' t in
         Inr (d1, Inl (submission_result (refreshed_attempt d1 a) (refreshed_job d1 j) DispositionUNKNOWN
           EffectMAY_HAVE_STARTED None)))
       else if ga_state a = AttemptUNKNOWN
       then Inr (d, Inl (submission_result a j DispositionUNKNOWN EffectMAY_HAVE_STARTED None))
       else if ga_state a \<noteq> AttemptCREATED
       then Inr (d, Inl (submission_result a j DispositionALREADY_RECORDED EffectCONFIRMED None))
       else (case fence_stale_prepared_submission d a j t of
           Some (d1, r) \<Rightarrow> Inr (d1, Inl r)
         | None \<Rightarrow> reserve_and_mark sha256 d a j x amount t)) = Inr (d', out)"
    using assms(1) unfolding submit_begin_def by (auto simp only: bindE_eq_Inr split_paired_Ex prod.case)
  note rows = loaded_rows(3) [OF l ok]
  consider "ga_state a = AttemptSUBMITTING" | "ga_state a \<notin> {AttemptSUBMITTING, AttemptCREATED}"
    | "ga_state a = AttemptCREATED" by blast
  then show ?thesis
  proof cases
    case 1
    with m outcome_unknown_leaves [OF rows] show ?thesis
      by (intro finished [OF l, of _]) (auto simp: Let_def terminal_attempt_states_def intro: leaves_mono)
  next
    case 2
    with m obtain r where "d' = d" "out = Inl r" by (auto split: if_splits)
    with 2 leaves_refl [OF rows] show ?thesis by (intro finished [OF l]) auto
  next
    case 3
    show ?thesis
    proof (cases "fence_stale_prepared_submission d a j t")
      case None
      with m 3 have "reserve_and_mark sha256 d a j x amount t = Inr (d', out)" by simp
      from reserve_and_mark_cases [OF this rows 3] show ?thesis
      proof (elim disjE exE conjE)
        fix r assume "out = Inl r" "leaves {AttemptCREATED} d a j d'"
        then show ?thesis using 3 by (intro finished [OF l]) (auto elim: leaves_mono)
      next
        fix plan
        assume "out = Inr \<lparr>su_context = job_input_context a j x plan, su_queue_name = sd_queue_name x,
                su_metadata = submission_metadata a j x\<rparr>" "leaves {AttemptSUBMITTING} d a j d'"
        then show ?thesis by (rule marked [OF l 3])
      qed
    next
      case (Some w)
      then obtain r where f: "fence_stale_prepared_submission d a j t = Some (d', r)" and "out = Inl r"
        using m 3 by (cases w) auto
      with fence_leaves [OF f rows] 3 show ?thesis by (intro finished [OF l]) (auto elim: leaves_mono)
    qed
  qed
qed

end
