(* ===== verification/GenerationObservationFacts.thy ===== *)
theory GenerationObservationFacts
  imports GenerationSubmissionFacts
begin

text \<open>
  What an observation and the record of an answer write: the attempt moves forward, and its job follows when the attempt
  is the current one.
\<close>

section \<open>Grants\<close>

lemma grant_effect_rows:
  assumes "grant_effect action limit r d1 a j d2" and rows: "rows_written d a j d1"
  obtains code detail where "rows_written d a (job_granted r code detail j) d2" "ga_state a = AttemptFAILED"
    "gj_state j \<notin> set NON_RETRYABLE_JOB_STATES"
proof -
  obtain e code detail where "d2 = add_audit e (put_job (job_granted r code detail j) d1)"
    using assms(1) by (rule grant_effect_cong)
  moreover have "rows_written d a (job_granted r code detail j) (put_job (job_granted r code detail j) d1)"
    using rows_writtenD(7) [OF rows] by (intro rows_written_put_job [OF rows]) (simp_all add: job_granted_ok)
  ultimately show ?thesis using assms(1) by (intro that) (simp_all add: grant_effect_def)
qed

lemma job_granted_facts:
  "same_job j (job_granted r code detail j)" "gj_state (job_granted r code detail j) = JobRETRY_WAIT"
  "gj_max_attempts (job_granted r code detail j) = gj_max_attempts j + 1"
  by (simp_all add: job_granted_def same_job_def)

definition further_attempt :: "GenerationJob \<Rightarrow> GenerationJob \<Rightarrow> bool" where
  "further_attempt j j' \<longleftrightarrow> same_job j j' \<and> gj_state j \<notin> set NON_RETRYABLE_JOB_STATES \<and> gj_state j' = JobRETRY_WAIT
     \<and> gj_max_attempts j' = gj_max_attempts j + 1"

lemma grant_rows:
  assumes "grant_effect action limit r d1 a j d2" and "rows_written d a j d1"
  shows "\<exists>j'. rows_written d a j' d2 \<and> further_attempt j j'"
  using assms by (elim grant_effect_rows) (auto simp: further_attempt_def job_granted_facts)

lemma grant_after_failure_rows:
  assumes "grant_after_failure sha256 new_id d1 a j x v evidence t = (d2, nb)" and rows: "rows_written d a j d1"
  shows "d2 = d1 \<or> (nb \<noteq> Some False \<and> (\<exists>j'. rows_written d a j' d2 \<and> further_attempt j j'))"
proof (cases "vd_worker_failure v")
  case (Some w)
  obtain failed outputs where w: "w = (failed, outputs)" by (cases w)
  obtain n where n: "grant_near_black_output_retry sha256 new_id d1 a j RetryRECONCILER ''salad-controller'' t t failed
      (map uo_output_index outputs) = (d2, n)" "nb = Some (ng_granted n)"
    using assms(1) Some w by (auto simp: grant_after_failure_def split: prod.splits)
  from near_black_grant_effect [OF n(1)] show ?thesis using grant_rows [OF _ rows] n(2) by auto
next
  case None
  obtain d3 granted where turnover: "(case evidence of None \<Rightarrow> (d1, False)
      | Some w \<Rightarrow> (case grant_runtime_instance_turnover_retry d1 a j x w RetryRECONCILER ''salad-controller'' t t of
           (d', g) \<Rightarrow> (d', ig_granted g))) = (d3, granted)" by fastforce
  then have d3: "if granted then \<exists>j'. rows_written d a j' d3 \<and> further_attempt j j' else d3 = d1"
  proof (cases evidence)
    case None
    with turnover show ?thesis by auto
  next
    case (Some w)
    with turnover obtain g where "grant_runtime_instance_turnover_retry d1 a j x w RetryRECONCILER ''salad-controller'' t t
        = (d3, g)" "granted = ig_granted g" by (auto split: prod.splits)
    with turnover_grant_effect [OF this(1)] grant_rows [OF _ rows] show ?thesis by auto
  qed
  show ?thesis
  proof (cases granted)
    case True
    with assms(1) None turnover have "d2 = d3" "nb = None" by (simp_all add: grant_after_failure_def)
    with d3 True show ?thesis by simp
  next
    case False
    with assms(1) None turnover d3 have d2: "d2 = fst (grant_infrastructure_retry d1 a j RetryRECONCILER
        ''salad-controller'' t t)" and nb: "nb = None" by (auto simp: grant_after_failure_def)
    obtain g where "grant_infrastructure_retry d1 a j RetryRECONCILER ''salad-controller'' t t = (d2, g)"
      using d2 by (cases "grant_infrastructure_retry d1 a j RetryRECONCILER ''salad-controller'' t t") simp
    from infrastructure_grant_effect [OF this] grant_rows [OF _ rows] nb show ?thesis by auto
  qed
qed

section \<open>The attempt\<close>

lemma judged_state: "vd_target_state (judge_observation d a j q)
    \<in> {AttemptSUBMITTED, AttemptRUNNING, AttemptSUCCEEDED, AttemptFAILED, AttemptCANCELLED}"
  unfolding judge_observation_def Let_def by (cases "qj_status q") auto

lemma judged_worker_failure: "vd_worker_failure (judge_observation d a j q) \<noteq> None \<Longrightarrow>
    vd_target_state (judge_observation d a j q) = AttemptFAILED"
  unfolding judge_observation_def Let_def by (simp split: if_splits)

lemma observed_attempt_fields:
  "same_attempt a (observed_attempt q v epoch t a)" "ga_state (observed_attempt q v epoch t a) = vd_target_state v"
  "ga_provider_external_id (observed_attempt q v epoch t a) = Some (uuid_str (qj_id q))"
  "ga_cost_reservation_microusd (observed_attempt q v epoch t a) = ga_cost_reservation_microusd a"
  "ga_id (observed_attempt q v epoch t a) = ga_id a"
  by (simp_all add: observed_attempt_def Let_def same_attempt_def)

lemma observed_attempt_ok: "attempt_ok a \<Longrightarrow> attempt_ok (observed_attempt q v epoch t a)"
  by (auto simp: observed_attempt_def Let_def attempt_ok_def terminal_attempt_states_def)

lemma reset_tracking_rows:
  assumes "reset_provider_absence_tracking d a reason t = (d1, a1)" and rows: "rows_written d a j d"
  shows "rows_written d a1 j d1" "same_attempt a a1" "ga_state a1 = ga_state a"
    "ga_provider_external_id a1 = ga_provider_external_id a" "settled a1 = settled a"
proof -
  have ok: "attempt_ok a" using rows by (rule rows_writtenD)
  define b where "b = a\<lparr>ga_response_metadata := Some (PDict (filter (\<lambda>(k, v). k \<noteq> PROVIDER_ABSENCE_TRACKER_KEY)
               (response_metadata a))), ga_lock_version := ga_lock_version a + 1\<rparr>"
  have "a1 = a \<and> d1 = d \<or> a1 = b \<and> (\<exists>es. d1 = (put_attempt b d)\<lparr>db_audits := es\<rparr>)"
    using assms(1) unfolding reset_provider_absence_tracking_def Let_def b_def by (auto split: if_splits)
  moreover have "rows_written d b j (put_attempt b d)"
    using ok by (intro rows_written_put_attempt [OF rows]) (simp_all add: b_def attempt_ok_def)
  ultimately show "rows_written d a1 j d1" "same_attempt a a1" "ga_state a1 = ga_state a"
    "ga_provider_external_id a1 = ga_provider_external_id a" "settled a1 = settled a"
    using rows by (auto simp: b_def same_attempt_def settled_def)
qed

section \<open>The job\<close>

lemma observed_job_facts:
  assumes "observed_job v nb j = Inr j'"
  shows "same_job j j'" "gj_max_attempts j' = gj_max_attempts j"
    "gj_state j' = (if vd_worker_failure v \<noteq> None \<and> nb = Some False then JobDEAD_LETTER
       else (case job_state_for_observation j (vd_target_state v) of Inr s \<Rightarrow> s | Inl e \<Rightarrow> gj_state j'))"
  using assms by (auto simp: observed_job_def bindE_eq_Inr same_job_def)

text \<open>What becomes of the job of an observed attempt.\<close>

definition job_follows :: "GenerationAttempt \<Rightarrow> GenerationJob \<Rightarrow> GenerationJob \<Rightarrow> bool" where
  "job_follows a j j' \<longleftrightarrow> same_job j j' \<and> gj_max_attempts j' \<in> {gj_max_attempts j, gj_max_attempts j + 1}
     \<and> (j' \<noteq> j \<longrightarrow> ga_attempt_no a = gj_attempt_count j \<and> gj_state j \<notin> set NON_RETRYABLE_JOB_STATES)
     \<and> (gj_state j = JobDEAD_LETTER \<and> j' \<noteq> j \<longrightarrow>
          gj_state j' = JobRETRY_WAIT \<and> gj_max_attempts j' = gj_max_attempts j + 1)"

lemma job_follows_refl: "job_follows a j j"
  by (simp add: job_follows_def same_job_refl)

lemma terminal_job_cases: "s \<in> set terminal_job_states \<longleftrightarrow> s = JobDEAD_LETTER \<or> s \<in> set NON_RETRYABLE_JOB_STATES"
  by (auto simp: terminal_job_states_def NON_RETRYABLE_JOB_STATES_def)

lemma recorded_job_rows:
  assumes rows: "rows_written d a1 j d1" and id: "ga_attempt_no a1 = ga_attempt_no a"
    and grants: "d2 = d1 \<or> (current \<and> vd_target_state v = AttemptFAILED \<and> nb \<noteq> Some False
       \<and> (\<exists>j'. rows_written d a1 j' d2 \<and> further_attempt j j'))"
    and current: "current \<longleftrightarrow> ga_attempt_no a = gj_attempt_count j"
    and run: "(if current \<and> gj_state (refreshed_job d2 j) \<notin> set terminal_job_states
       then bindE (observed_job v nb (refreshed_job d2 j)) (\<lambda>j2. Inr (put_job j2 d2)) else Inr d2) = Inr d3"
  shows "\<exists>j'. rows_written d a1 j' d3 \<and> job_follows a j j'"
proof -
  have observed: "rows_written d a1 j2 (put_job j2 d2)"
    if "rows_written d a1 j1 d2" "observed_job v nb j1 = Inr j2" for j1 j2
    using that rows_writtenD(7) [OF that(1)] observed_job_facts [OF that(2)]
    by (intro rows_written_put_job [OF that(1)]) (auto simp: observed_job_def bindE_eq_Inr job_ok_def same_job_def)
  show ?thesis
  proof (cases "d2 = d1")
    case True
    have j1: "refreshed_job d2 j = j" using rows_writtenD(9) [OF rows] True by simp
    show ?thesis
    proof (cases "current \<and> gj_state j \<notin> set terminal_job_states")
      case True
      with run j1 obtain j2 where j2: "observed_job v nb j = Inr j2" "d3 = put_job j2 d2"
        by (auto simp: bindE_eq_Inr)
      with True \<open>d2 = d1\<close> current observed [OF _ j2(1)] rows observed_job_facts [OF j2(1)] show ?thesis
        by (intro exI [of _ j2]) (auto simp: job_follows_def terminal_job_cases)
    next
      case False
      with run j1 rows \<open>d2 = d1\<close> show ?thesis by (intro exI [of _ j]) (auto simp: job_follows_refl)
    qed
  next
    case False
    with grants obtain j1 where g: "current" "vd_target_state v = AttemptFAILED" "nb \<noteq> Some False"
        "rows_written d a1 j1 d2" "further_attempt j j1" by blast
    have "refreshed_job d2 j = j1" using rows_writtenD(9) [OF g(4)] g(5) by (simp add: further_attempt_def same_job_def)
    moreover have "gj_state j1 = JobRETRY_WAIT" using g(5) by (simp add: further_attempt_def)
    ultimately obtain j2 where j2: "observed_job v nb j1 = Inr j2" "d3 = put_job j2 d2"
      using run g(1) by (auto simp: bindE_eq_Inr terminal_job_states_def split: if_splits)
    have "job_ok j" using rows by (rule rows_writtenD)
    then have "gj_attempt_count j1 < gj_max_attempts j1"
      using g(5) by (simp add: further_attempt_def same_job_def job_ok_def)
    with observed_job_facts [OF j2(1)] g(2,3) have "gj_state j2 = JobRETRY_WAIT" by (simp add: retry_or_fail_def)
    with observed [OF g(4) j2(1)] observed_job_facts(1,2) [OF j2(1)] g(1,5) current j2(2) show ?thesis
      by (intro exI [of _ j2]) (auto simp: job_follows_def further_attempt_def same_job_def)
  qed
qed

section \<open>The whole observation\<close>

definition observation_effect :: "db \<Rightarrow> GenerationAttempt \<Rightarrow> GenerationJob \<Rightarrow> SaladQueueJob \<Rightarrow> db \<Rightarrow> bool" where
  "observation_effect d a j q d' \<longleftrightarrow> (\<exists>a' j'. rows_written d a' j' d' \<and> same_attempt a a' \<and> job_follows a j j'
     \<and> (ga_state a' = ga_state a \<or> (is_forward_transition (ga_state a) (ga_state a')
          \<and> ga_state a' \<in> {AttemptSUBMITTED, AttemptRUNNING, AttemptSUCCEEDED, AttemptFAILED, AttemptCANCELLED}))
     \<and> ga_provider_external_id a' \<in> {ga_provider_external_id a, Some (uuid_str (qj_id q))}
     \<and> (settled a \<longrightarrow> settled a'))"

lemma record_observation_rows:
  assumes "record_observation sha256 new_id d1 a j x q v evidence t = Inr (d', ob)" and rows: "rows_written d a j d1"
  obtains a' j' where "rows_written d a' j' d'" "same_attempt a a'" "job_follows a j j'" "ga_state a' = vd_target_state v"
    "ga_provider_external_id a' = Some (uuid_str (qj_id q))" "settled a'"
proof -
  define epoch where "epoch = (if qj_status q = StatusRUNNING then provider_run_epoch_started_at a q t else None)"
  define a1 where "a1 = observed_attempt q v epoch t a"
  define e where "e = salad_audit ''generation_attempt.provider_observed'' a (observed_detail q v epoch) t"
  let ?current = "ga_attempt_no a = gj_attempt_count j"
  note a1 = observed_attempt_fields [where a = a and q = q and v = v and epoch = epoch and t = t, folded a1_def]
  have rows1: "rows_written d a1 j (put_attempt a1 d1)"
    using rows_writtenD(6) [OF rows] by (intro rows_written_put_attempt [OF rows]) (simp_all add: a1_def
        observed_attempt_ok observed_attempt_fields)
  obtain d2 nb where g: "(if ?current \<and> vd_target_state v = AttemptFAILED
      then grant_after_failure sha256 new_id (put_attempt a1 d1) a1 j x v evidence t else (put_attempt a1 d1, None)) = (d2, nb)"
    by fastforce
  then have grants: "d2 = put_attempt a1 d1 \<or> (?current \<and> vd_target_state v = AttemptFAILED \<and> nb \<noteq> Some False
       \<and> (\<exists>j'. rows_written d a1 j' d2 \<and> further_attempt j j'))"
    using grant_after_failure_rows [OF _ rows1] by (auto split: if_splits)
  from assms(1) obtain d3 d4
    where j: "(if ?current \<and> gj_state (refreshed_job d2 j) \<notin> set terminal_job_states
       then bindE (observed_job v nb (refreshed_job d2 j)) (\<lambda>j2. Inr (put_job j2 d2)) else Inr d2) = Inr d3"
      and r: "(if vd_target_state v \<in> set terminal_attempt_states
       then release_reservation (add_audit e d3) a1 t else Inr (add_audit e d3)) = Inr d4" and d': "d' = d4"
    unfolding record_observation_def Let_def epoch_def [symmetric] a1_def [symmetric] e_def [symmetric] g prod.case
    by (auto simp only: bindE_eq_Inr prod.inject sum.inject)
  have "ga_attempt_no a1 = ga_attempt_no a" using a1(1) by (simp add: same_attempt_def)
  from recorded_job_rows [OF rows1 this grants refl j] obtain j'
    where j': "rows_written d a1 j' (add_audit e d3)" "job_follows a j j'" by auto
  show ?thesis
  proof (cases "vd_target_state v \<in> set terminal_attempt_states")
    case True
    with r have "release_reservation (add_audit e d3) a1 t = Inr d4" by simp
    from this j'(1) refl refl refl obtain a' where "rows_written d a' j' d4" "settled a'" "same_attempt a1 a'"
        "ga_state a' = ga_state a1" "ga_provider_external_id a' = ga_provider_external_id a1"
      by (rule release_reservation_rows)
    with a1 j'(2) show ?thesis by (intro that [of a' j']) (auto simp: d' intro: same_attempt_trans)
  next
    case False
    with r have "d4 = add_audit e d3" by simp
    with j' a1 False show ?thesis by (intro that [of a1 j']) (auto simp: d' settled_def)
  qed
qed

lemma observation_rows:
  assumes "apply_salad_job_observation sha256 new_id clock d k q observed_at evidence = Inr (d', ob)" and ok: "db_ok d"
  obtains a j x where "load_attempt_context d k = Inr (a, j, x)" "observation_effect d a j q d'"
    "ga_provider_external_id a \<in> {None, Some (uuid_str (qj_id q))}"
proof -
  obtain t a j x where t: "service_time clock observed_at = Inr t" and l: "load_attempt_context d k = Inr (a, j, x)"
    using assms(1) unfolding apply_salad_job_observation_def by (auto simp only: bindE_eq_Inr split_paired_Ex prod.case)
  note rows = loaded_rows(3) [OF l ok]
  obtain d1 a1 where reset: "reset_provider_absence_tracking d a ''exact_provider_job_matched'' t = (d1, a1)" by fastforce
  define v where "v = judge_observation d1 a1 j q"
  have id: "ga_provider_external_id a \<in> {None, Some (uuid_str (qj_id q))}"
    using assms(1) t l by (auto simp: apply_salad_job_observation_def conflict_def split: if_splits)
  then have "\<not> (ga_provider_external_id a \<noteq> None \<and> ga_provider_external_id a \<noteq> Some (uuid_str (qj_id q)))" by auto
  with assms(1) t l reset have m: "(if observation_is_stale a1 q t then Inr (d1, observation_result a1 j False True)
      else if ga_state a1 \<in> set terminal_attempt_states \<and> ga_state a1 \<noteq> vd_target_state v
      then Inr (add_audit (salad_audit ''generation_attempt.terminal_observation_ignored'' a1
             [(''provider_status'', PStr (SaladJobStatus_value (qj_status q)))] t)
             (put_attempt (terminal_conflict a1) d1), observation_result (terminal_conflict a1) j False False)
      else if \<not> is_forward_transition (ga_state a1) (vd_target_state v)
      then Inr (d1, observation_result a1 j False True)
      else record_observation sha256 new_id d1 a1 j x q v evidence t) = Inr (d', ob)"
    unfolding apply_salad_job_observation_def Let_def v_def by (simp only: bindE_simps prod.case if_False)
  note r = reset_tracking_rows [OF reset rows]
  have unmoved: "observation_effect d a j q d''" if "rows_written d a2 j d''" "same_attempt a1 a2"
      "ga_state a2 = ga_state a1" "ga_provider_external_id a2 = ga_provider_external_id a1" "settled a2 = settled a1" for a2 d''
    unfolding observation_effect_def using that r
    by (intro exI [of _ a2] exI [of _ j]) (auto intro: same_attempt_trans job_follows_refl)
  have conflict: "rows_written d (terminal_conflict a1) j (put_attempt (terminal_conflict a1) d1)"
    using rows_writtenD(6) [OF r(1)] by (intro rows_written_put_attempt [OF r(1)])
      (simp_all add: terminal_conflict_def attempt_ok_def)
  have "observation_effect d a j q d'"
  proof (cases "observation_is_stale a1 q t \<or> (ga_state a1 \<in> set terminal_attempt_states \<and> ga_state a1 \<noteq> vd_target_state v)
      \<or> \<not> is_forward_transition (ga_state a1) (vd_target_state v)")
    case True
    with m have "d' = d1 \<or> (\<exists>es. d' = (put_attempt (terminal_conflict a1) d1)\<lparr>db_audits := es\<rparr>)"
      by (auto split: if_splits)
    then show ?thesis
      using unmoved [OF r(1) same_attempt_refl] unmoved [of "terminal_conflict a1" d'] conflict
      by (auto simp: terminal_conflict_def same_attempt_def settled_def)
  next
    case False
    with m have "record_observation sha256 new_id d1 a1 j x q v evidence t = Inr (d', ob)" by (simp split: if_splits)
    from record_observation_rows [OF this r(1)] obtain a' j' where
      n: "rows_written d a' j' d'" "same_attempt a1 a'" "job_follows a1 j j'" "ga_state a' = vd_target_state v"
        "ga_provider_external_id a' = Some (uuid_str (qj_id q))" "settled a'" by blast
    have "job_follows a j j'" using n(3) r(2) by (simp add: job_follows_def same_attempt_def)
    moreover note judged_state [of d1 a1 j q, folded v_def]
    ultimately show ?thesis
      unfolding observation_effect_def using n r(2,3) False
      by (intro exI [of _ a'] exI [of _ j']) (auto intro: same_attempt_trans)
  qed
  with l show ?thesis using id by (rule that)
qed

section \<open>A repeated observation of a nearly black output\<close>

text \<open>
  A further attempt was granted for the nearly black output of the current attempt, and the job waits for it. When the same
  outcome is observed again with a later update time, the grant is refused because it exists, and the refusal makes the
  job a dead letter: the further attempt is lost. This happens when a second observation was under way while the first was
  committed; \<open>reconcile_generation_attempt\<close> only skips an attempt that had ended when the observation began.
\<close>

lemma repeated_near_black_observation_loses_the_retry:
  assumes "record_observation sha256 new_id d a j x q v evidence t = Inr (d', ob)" and rows: "rows_written d a j d"
    and current: "ga_attempt_no a = gj_attempt_count j" and state: "gj_state j = JobRETRY_WAIT"
    and failure: "vd_worker_failure v = Some w" "vd_target_state v = AttemptFAILED"
    and granted: "attempt_granted d NEAR_BLACK_OUTPUT_RETRY_GRANT_ACTION (ga_id a)"
  shows "\<exists>j'. get_job (gj_id j) d' = Some j' \<and> gj_state j' = JobDEAD_LETTER"
proof -
  define epoch where "epoch = (if qj_status q = StatusRUNNING then provider_run_epoch_started_at a q t else None)"
  define a1 where "a1 = observed_attempt q v epoch t a"
  define d1 where "d1 = put_attempt a1 d"
  define e where "e = salad_audit ''generation_attempt.provider_observed'' a (observed_detail q v epoch) t"
  obtain failed outputs where w: "w = (failed, outputs)" by (cases w)
  have id: "ga_id a1 = ga_id a" by (simp add: a1_def observed_attempt_fields)
  have rows1: "rows_written d a1 j d1"
    unfolding d1_def using rows_writtenD(6) [OF rows] by (intro rows_written_put_attempt [OF rows])
      (simp_all add: a1_def observed_attempt_ok observed_attempt_fields)
  obtain d2 n where n: "grant_near_black_output_retry sha256 new_id d1 a1 j RetryRECONCILER ''salad-controller'' t t failed
      (map uo_output_index outputs) = (d2, n)" by fastforce
  have "attempt_granted d1 NEAR_BLACK_OUTPUT_RETRY_GRANT_ACTION (ga_id a1)"
    using granted by (simp add: attempt_granted_def d1_def id)
  with near_black_grant_effect [OF n] have refused: "d2 = d1" "\<not> ng_granted n" by (auto simp: grant_effect_def)
  have g: "(if ga_attempt_no a = gj_attempt_count j \<and> vd_target_state v = AttemptFAILED
      then grant_after_failure sha256 new_id d1 a1 j x v evidence t else (d1, None)) = (d1, Some False)"
    using n refused failure w current by (simp add: grant_after_failure_def)
  have j1: "refreshed_job d1 j = j" using rows_writtenD(9) [OF rows1] by simp
  let ?j = "j\<lparr>gj_state := JobDEAD_LETTER, gj_retry_at := None, gj_last_error_code := map_option fst (vd_failure v),
       gj_last_error_detail := map_option snd (vd_failure v), gj_lock_version := gj_lock_version j + 1\<rparr>"
  have "observed_job v (Some False) j = Inr ?j" using failure by (simp add: observed_job_def)
  then have "release_reservation (add_audit e (put_job ?j d1)) a1 t = Inr d'"
    using assms(1) current state failure j1 g
    unfolding record_observation_def Let_def epoch_def [symmetric] a1_def [symmetric] e_def [symmetric] d1_def [symmetric]
    by (auto simp: terminal_job_states_def terminal_attempt_states_def bindE_eq_Inr)
  moreover have "rows_written d a1 ?j (add_audit e (put_job ?j d1))"
    unfolding rows_written_audit using rows_writtenD(7) [OF rows]
    by (intro rows_written_put_job [OF rows1]) (simp_all add: job_ok_def)
  ultimately obtain a' where "rows_written d a' ?j d'"
    by (rule release_reservation_rows) simp_all
  from rows_writtenD(3) [OF this] show ?thesis by simp
qed

end
