(* ===== verification/GenerationSubmissionRuns.thy ===== *)
theory GenerationSubmissionRuns
  imports GenerationObservationFacts
begin

text \<open>
  Submissions under interleaving and crashes. A world is the database, the calls of \<open>submit_prepared_attempt\<close> that are
  building an input or waiting for the answer of the provider, and the requests sent so far. A step is one transaction of
  one call, the request of one call, a call that dies, another operation of this component, or any transaction of the rest
  of the program that keeps started attempts started and terminal attempts settled.
\<close>

section \<open>What a transaction keeps\<close>

definition keeps_started :: "uuid set \<Rightarrow> db \<Rightarrow> db \<Rightarrow> bool" where
  "keeps_started K d d' \<longleftrightarrow> (\<forall>k a. k \<notin> K \<and> get_attempt k d = Some a \<and> ga_state a \<noteq> AttemptCREATED \<longrightarrow>
     (\<exists>a'. get_attempt k d' = Some a' \<and> ga_state a' \<noteq> AttemptCREATED))"

definition all_settled :: "db \<Rightarrow> bool" where
  "all_settled d \<longleftrightarrow> (\<forall>k a. get_attempt k d = Some a \<longrightarrow> settled a)"

definition proper :: "uuid set \<Rightarrow> db \<Rightarrow> db \<Rightarrow> bool" where
  "proper K d d' \<longleftrightarrow> db_ok d' \<and> keeps_started K d d' \<and> (all_settled d \<longrightarrow> all_settled d')"

lemma proper_refl: "db_ok d \<Longrightarrow> proper {} d d"
  by (auto simp: proper_def keeps_started_def)

lemma proper_weaken: "proper {} d d' \<Longrightarrow> proper K d d'"
  by (auto simp: proper_def keeps_started_def)

lemma same_attempts_proper: "db_attempts d' = db_attempts d \<Longrightarrow> db_ok d' \<Longrightarrow> proper {} d d'"
  by (auto simp: proper_def keeps_started_def all_settled_def)

lemma written_proper:
  assumes "rows_written d a' j' d'" and "get_attempt k d = Some a" and "ga_id a' = k"
    and "settled a \<Longrightarrow> settled a'" and "k \<notin> K \<Longrightarrow> ga_state a \<noteq> AttemptCREATED \<Longrightarrow> ga_state a' \<noteq> AttemptCREATED"
  shows "proper K d d'"
  using assms by (auto simp: proper_def keeps_started_def all_settled_def rows_written_def)

lemma leaves_proper:
  assumes "leaves S d a j d'" and "get_attempt k d = Some a"
    and "k \<notin> K \<Longrightarrow> ga_state a \<noteq> AttemptCREATED \<Longrightarrow> AttemptCREATED \<notin> S"
  shows "proper K d d'"
proof -
  have "ga_id a = k" using assms(2) by (rule row_get_key)
  moreover obtain a' j' where "rows_written d a' j' d'" "ga_id a' = ga_id a" "ga_state a' \<in> S" "settled a \<longrightarrow> settled a'"
    using assms(1) unfolding leaves_def same_attempt_def by blast
  ultimately show ?thesis using assms(3) by (intro written_proper [of d a' j' d' k a]) (auto simp: assms(2))
qed

lemma observation_effect_proper:
  assumes "observation_effect d a j q d'" and "get_attempt k d = Some a"
  shows "proper {} d d'"
proof -
  have "ga_id a = k" using assms(2) by (rule row_get_key)
  moreover obtain a' j' where "rows_written d a' j' d'" "ga_id a' = ga_id a" "settled a \<longrightarrow> settled a'"
      "ga_state a' = ga_state a \<or> ga_state a' \<noteq> AttemptCREATED"
    using assms(1) unfolding observation_effect_def same_attempt_def by auto
  ultimately show ?thesis by (intro written_proper [of d a' j' d' k a]) (auto simp: assms(2))
qed

lemma loaded_attempt: "load_attempt_context d k = Inr (a, j, x) \<Longrightarrow> get_attempt k d = Some a"
  by (simp add: load_attempt_context_eq)

section \<open>The operations\<close>

lemma submit_deferred_proper:
  assumes "submit_deferred d k s reason t = Inr (d', r)" and ok: "db_ok d"
  shows "proper {k} d d'"
proof -
  obtain a j x where l: "load_attempt_context d k = Inr (a, j, x)"
    and "rearm_deferred_job_input d a j (t + s * us_per_second) t reason = Inr d'"
    using assms(1) unfolding submit_deferred_def Let_def by (auto simp only: bindE_eq_Inr split_paired_Ex prod.case)
  from rearm_leaves(1) [OF this(2) loaded_rows(3) [OF l ok]] loaded_attempt [OF l] show ?thesis
    by (rule leaves_proper) simp
qed

lemma submit_unbuilt_proper:
  assumes "submit_unbuilt d k t = Inr (d', r)" and ok: "db_ok d"
  shows "proper {} d d'"
proof -
  obtain a j x where l: "load_attempt_context d k = Inr (a, j, x)"
    and "mark_definite_failure d a j ''upload_intent_preparation_failed''
       ''Short-lived worker upload grants could not be prepared.'' (retry_or_fail j) t None = Inr d'"
    using assms(1) unfolding submit_unbuilt_def by (auto simp only: bindE_eq_Inr split_paired_Ex prod.case)
  from definite_failure_leaves [OF this(2) loaded_rows(3) [OF l ok]] loaded_attempt [OF l] show ?thesis
    by (rule leaves_proper) simp
qed

lemma rate_limited_leaves:
  assumes "submit_rate_limited d a j retry_after t = Inr (d', r)" and rows: "rows_written d a j d"
  shows "leaves {AttemptFAILED} d a j d'"
proof -
  define s where "s = t + (case retry_after of None \<Rightarrow> 60 * us_per_second | Some u \<Rightarrow> max u us_per_second)"
  define rt where "rt = (if gj_attempt_count j < gj_max_attempts j then Some s else None)"
  obtain d1 where f: "mark_definite_failure d a j SALAD_RATE_LIMITED_ERROR_CODE
        ''Salad rejected the request before creating a job.'' (retry_or_fail j) t rt = Inr d1"
      and d': "d' = fst (grant_infrastructure_retry d1 (refreshed_attempt d1 a) (refreshed_job d1 j) RetrySUBMISSION
            ''salad-controller'' s t)"
    using assms(1) unfolding submit_rate_limited_def Let_def s_def [symmetric] rt_def [symmetric]
    by (auto simp only: bindE_eq_Inr prod.inject sum.inject)
  let ?j = "failed_job SALAD_RATE_LIMITED_ERROR_CODE ''Salad rejected the request before creating a job.''
      (retry_or_fail j) rt j"
  obtain a1 where a1: "rows_written d a1 ?j d1" "settled a1" "same_attempt a a1" "ga_state a1 = AttemptFAILED"
      "ga_provider_external_id a1 = ga_provider_external_id a"
    using f rows by (rule definite_failure_rows)
  have "refreshed_attempt d1 a = a1" "refreshed_job d1 j = ?j"
    using rows_writtenD(8,9) [OF a1(1)] a1(3) failed_same_job by (simp_all add: same_attempt_def same_job_def)
  then obtain g where "grant_infrastructure_retry d1 a1 ?j RetrySUBMISSION ''salad-controller'' s t = (d', g)"
    using d' by (cases "grant_infrastructure_retry d1 a1 ?j RetrySUBMISSION ''salad-controller'' s t") simp
  from infrastructure_grant_effect [OF this] grant_rows [OF _ a1(1)] a1(1)
  obtain j' where "rows_written d a1 j' d'" "j' = ?j \<or> further_attempt ?j j'" by blast
  with a1 show ?thesis
    by (intro leavesI [of d a1 j']) (auto simp: further_attempt_def same_job_def failed_job_def)
qed

lemma unknown_proper:
  assumes l: "load_attempt_context d k = Inr (a, j, x)" and ok: "db_ok d"
  shows "proper {} d (fst (submit_unknown d a j code t))"
proof -
  have "leaves {if ga_state a \<in> set terminal_attempt_states then ga_state a else AttemptUNKNOWN} d a j
    (fst (submit_unknown d a j code t))"
    using outcome_unknown_leaves [OF loaded_rows(3) [OF l ok]] by (simp add: submit_unknown_def Let_def)
  then show ?thesis using loaded_attempt [OF l] by (rule leaves_proper) (auto simp: terminal_attempt_states_def)
qed

lemma submit_finish_proper:
  assumes "submit_finish sha256 new_id d k outcome t = Inr (d', r)" and ok: "db_ok d"
  shows "proper {} d d'"
proof -
  obtain a j x where l: "load_attempt_context d k = Inr (a, j, x)"
    using assms(1) unfolding submit_finish_def by (auto simp only: bindE_eq_Inr split_paired_Ex prod.case)
  note rows = loaded_rows(3) [OF l ok] and unknown = unknown_proper [OF l ok] and a = loaded_attempt [OF l]
  show ?thesis
  proof (cases outcome)
    case (PostAnswered q)
    show ?thesis
    proof (cases "remote_metadata_matches a q")
      case True
      with assms(1) l PostAnswered loaded_rows(1) [OF l ok] obtain ob where
        "apply_salad_job_observation sha256 new_id t d k q (Some (Aware t)) None = Inr (d', ob)"
        by (auto simp: submit_finish_def bindE_eq_Inr)
      from observation_rows [OF this ok] show ?thesis by (metis loaded_attempt observation_effect_proper)
    next
      case False
      with assms(1) l PostAnswered unknown show ?thesis by (simp add: submit_finish_def) (metis fst_conv)
    qed
  next
    case (PostRateLimited retry_after)
    with assms(1) l have "submit_rate_limited d a j retry_after t = Inr (d', r)" by (simp add: submit_finish_def)
    from rate_limited_leaves [OF this rows] a show ?thesis by (rule leaves_proper) simp
  next
    case (PostRejected status)
    show ?thesis
    proof (cases "status \<in> set DEFINITIVE_REJECTION_STATUS_CODES")
      case True
      with assms(1) l PostRejected have "mark_definite_failure d a j (''salad_http_'' @ int_digits status)
          ''Salad rejected the job submission.'' JobFAILED t None = Inr d'"
        by (auto simp: submit_finish_def bindE_eq_Inr)
      from definite_failure_leaves [OF this rows] a show ?thesis by (rule leaves_proper) simp
    next
      case False
      with assms(1) l PostRejected unknown show ?thesis by (simp add: submit_finish_def) (metis fst_conv)
    qed
  next
    case PostFailed
    with assms(1) l unknown show ?thesis by (simp add: submit_finish_def) (metis fst_conv)
  qed
qed

lemma observation_proper:
  assumes "apply_salad_job_observation sha256 new_id clock d k q observed_at evidence = Inr (d', ob)" and "db_ok d"
  shows "proper {} d d'"
  using observation_rows [OF assms] by (metis loaded_attempt observation_effect_proper)

lemma fence_proper:
  assumes "fence_stale_prepared_attempt clock d k now = Inr (d', r)" and ok: "db_ok d"
  shows "proper {} d d'"
proof -
  obtain t a j x where l: "load_attempt_context d k = Inr (a, j, x)"
    and m: "(if ga_state a \<notin> {AttemptCREATED, AttemptSUBMITTING} then Inr (d, None)
       else (case fence_stale_prepared_submission d a j t of
           None \<Rightarrow> Inr (d, None) | Some (d1, r) \<Rightarrow> Inr (d1, Some r))) = (Inr (d', r) :: salad_service_error + _)"
    using assms(1) unfolding fence_stale_prepared_attempt_def by (auto simp only: bindE_eq_Inr split_paired_Ex prod.case)
  have "d' = d \<or> (\<exists>r. fence_stale_prepared_submission d a j t = Some (d', r))"
    using m by (auto split: if_splits option.splits)
  then show ?thesis
    using proper_refl [OF ok] leaves_proper [OF fence_leaves [OF _ loaded_rows(3) [OF l ok]] loaded_attempt [OF l]]
    by blast
qed

lemma unstarted_proper:
  assumes "fail_definitely_unstarted_submission clock d k code now = Inr (d', r)" and "db_ok d"
  shows "proper {} d d'"
  using assms by (elim unstarted_leaves) (auto intro: leaves_proper loaded_attempt)

section \<open>Steps\<close>

record submission_world =
  sw_db :: db
  sw_building :: "(uuid \<times> submission) list"
  sw_posting :: "(uuid \<times> job_post) list"
  sw_posts :: "(uuid \<times> job_post) list"

definition post_of :: "submission \<Rightarrow> string \<Rightarrow> pyval \<Rightarrow> job_post" where
  "post_of su webhook_url job_input = \<lparr>jp_queue_name = su_queue_name su, jp_input = job_input,
     jp_metadata = su_metadata su, jp_webhook = webhook_url\<rparr>"

inductive submission_step ::
  "(8 word list \<Rightarrow> 8 word list) \<Rightarrow> (string \<Rightarrow> url_parts option) \<Rightarrow> submission_world \<Rightarrow> submission_world \<Rightarrow> bool"
  for sha256 urlsplit where
  settle: "submit_begin sha256 urlsplit (sw_db w) k url amount t = Inr (d', Inl r)
    \<Longrightarrow> submission_step sha256 urlsplit w (w\<lparr>sw_db := d'\<rparr>)"
| mark: "submit_begin sha256 urlsplit (sw_db w) k url amount t = Inr (d', Inr su)
    \<Longrightarrow> submission_step sha256 urlsplit w (w\<lparr>sw_db := d', sw_building := (k, su) # sw_building w\<rparr>)"
| postpone: "(k, su) \<in> set (sw_building w) \<Longrightarrow> submit_deferred (sw_db w) k s reason t = Inr (d', r)
    \<Longrightarrow> submission_step sha256 urlsplit w (w\<lparr>sw_db := d', sw_building := remove1 (k, su) (sw_building w)\<rparr>)"
| unbuilt: "(k, su) \<in> set (sw_building w) \<Longrightarrow> submit_unbuilt (sw_db w) k t = Inr (d', r)
    \<Longrightarrow> submission_step sha256 urlsplit w (w\<lparr>sw_db := d', sw_building := remove1 (k, su) (sw_building w)\<rparr>)"
| post: "(k, su) \<in> set (sw_building w) \<Longrightarrow> p = post_of su url job_input
    \<Longrightarrow> submission_step sha256 urlsplit w (w\<lparr>sw_building := remove1 (k, su) (sw_building w),
          sw_posting := (k, p) # sw_posting w, sw_posts := (k, p) # sw_posts w\<rparr>)"
| answer: "(k, p) \<in> set (sw_posting w) \<Longrightarrow> submit_finish sha256 new_id (sw_db w) k outcome t = Inr (d', r)
    \<Longrightarrow> submission_step sha256 urlsplit w (w\<lparr>sw_db := d', sw_posting := remove1 (k, p) (sw_posting w)\<rparr>)"
| die_building: "submission_step sha256 urlsplit w (w\<lparr>sw_building := remove1 run (sw_building w)\<rparr>)"
| die_posting: "submission_step sha256 urlsplit w (w\<lparr>sw_posting := remove1 run2 (sw_posting w)\<rparr>)"
| observe: "apply_salad_job_observation sha256 new_id clock (sw_db w) k q observed_at evidence = Inr (d', ob)
    \<Longrightarrow> submission_step sha256 urlsplit w (w\<lparr>sw_db := d'\<rparr>)"
| fence: "fence_stale_prepared_attempt clock (sw_db w) k now = Inr (d', r2)
    \<Longrightarrow> submission_step sha256 urlsplit w (w\<lparr>sw_db := d'\<rparr>)"
| unstarted: "fail_definitely_unstarted_submission clock (sw_db w) k code now = Inr (d', r)
    \<Longrightarrow> submission_step sha256 urlsplit w (w\<lparr>sw_db := d'\<rparr>)"
| elsewhere: "proper {} (sw_db w) d' \<Longrightarrow> submission_step sha256 urlsplit w (w\<lparr>sw_db := d'\<rparr>)"

definition idle_world :: "db \<Rightarrow> submission_world" where
  "idle_world d = \<lparr>sw_db = d, sw_building = [], sw_posting = [], sw_posts = []\<rparr>"

definition posts_for :: "uuid \<Rightarrow> submission_world \<Rightarrow> job_post list" where
  "posts_for k w = map snd (filter (\<lambda>(k', p). k' = k) (sw_posts w))"

section \<open>Transactions elsewhere\<close>

text \<open>The sweep over dead letters and the calls of the budget guard are such transactions.\<close>

lemma recover_dead_letter_attempts:
  assumes "db_ok (fst s)"
  shows "db_attempts (fst (recover_dead_letter actor t ja s)) = db_attempts (fst s) \<and> db_ok (fst (recover_dead_letter actor t ja s))"
proof -
  obtain j a d rs where [simp]: "ja = (j, a)" "s = (d, rs)" by (cases ja; cases s)
  show ?thesis
  proof (cases "get_job (gj_id j) d")
    case None
    with assms show ?thesis by (simp add: recover_dead_letter_def)
  next
    case (Some j1)
    obtain d1 g where g: "grant_infrastructure_retry d a j1 RetrySCHEDULER_RECOVERY actor t t = (d1, g)" by fastforce
    have "get_job (gj_id j1) d = Some j1" using Some row_get_key [OF Some] by simp
    have "db_ok d" using assms by simp
    have "db_attempts d1 = db_attempts d \<and> db_ok d1" if "d1 \<noteq> d"
    proof -
      from that infrastructure_grant_effect [OF g] have e: "grant_effect INFRASTRUCTURE_RETRY_GRANT_ACTION
          MAX_INFRASTRUCTURE_RETRY_GRANTS t d a j1 d1" by auto
      from grant_effect_ok [OF e \<open>db_ok d\<close> \<open>get_job (gj_id j1) d = Some j1\<close>] show ?thesis
        using e by (elim grant_effect_cong) simp
    qed
    with \<open>db_ok d\<close> have "db_attempts d1 = db_attempts d \<and> db_ok d1" by (cases "d1 = d") simp_all
    with Some g show ?thesis by (simp add: recover_dead_letter_def)
  qed
qed

lemma sweep_proper:
  assumes "recover_dead_lettered_infrastructure_jobs locked clock d actor limit now = Inr (d', s)" and ok: "db_ok d"
  shows "proper {} d d'"
proof -
  have "db_attempts (fst (fold (recover_dead_letter actor t) rows u)) = db_attempts (fst u)
      \<and> db_ok (fst (fold (recover_dead_letter actor t) rows u))" if "db_ok (fst u)" for t rows u
    using that
  proof (induction rows arbitrary: u)
    case (Cons ja rows)
    with recover_dead_letter_attempts [OF Cons.prems, of actor t ja] show ?case by simp
  qed simp
  from this [of "(d, [])" "outbox_time clock now" "recovery_rows locked limit d"] ok assms(1) show ?thesis
    by (intro same_attempts_proper)
      (auto simp: recover_dead_lettered_infrastructure_jobs_def Let_def split: if_splits prod.splits)
qed

lemma release_proper:
  assumes "release_attempt_reservation clock d p k now = Inr (d', r)" and ok: "db_ok d"
    and "get_job (ga_job_id a) d = Some j" and a: "get_attempt k d = Some a"
  shows "proper {} d d'"
proof -
  have "ga_id a = k" using a by (rule row_get_key)
  moreover have "rows_written d a j d"
    using ok a assms(3) row_get_key [OF assms(3)] calculation by (intro rows_written_start) simp_all
  ultimately have "rows_written d a j d' \<or> (\<exists>t. rows_written d (released_attempt t a) j d')"
    using release_call_rows(1) [of clock d p a now d' r d j] assms(1) by simp
  with a \<open>ga_id a = k\<close> show ?thesis
    by (auto intro: written_proper [of d a j d' k a] written_proper [of d "released_attempt t a" j d' k a for t]
        simp: released_attempt_def settled_def)
qed

section \<open>The invariant\<close>

definition active_for :: "uuid \<Rightarrow> submission_world \<Rightarrow> nat" where
  "active_for k w = length (filter (\<lambda>(k', su). k' = k) (sw_building w)) + length (posts_for k w)"

definition submission_inv :: "submission_world \<Rightarrow> bool" where
  "submission_inv w \<longleftrightarrow> db_ok (sw_db w)
     \<and> (\<forall>k. active_for k w = 0 \<or> (active_for k w = 1
          \<and> (\<exists>a. get_attempt k (sw_db w) = Some a \<and> ga_state a \<noteq> AttemptCREATED)))
     \<and> (\<forall>(k, su) \<in> set (sw_building w). py_get (su_metadata su) ''generation_attempt_id'' = PStr (uuid_str k))
     \<and> (\<forall>(k, p) \<in> set (sw_posts w). py_get (jp_metadata p) ''generation_attempt_id'' = PStr (uuid_str k))"

lemma submission_invD:
  assumes "submission_inv w"
  shows "db_ok (sw_db w)" "active_for k w \<le> 1"
    "active_for k w \<noteq> 0 \<Longrightarrow> \<exists>a. get_attempt k (sw_db w) = Some a \<and> ga_state a \<noteq> AttemptCREATED"
    "(k, su) \<in> set (sw_building w) \<Longrightarrow> py_get (su_metadata su) ''generation_attempt_id'' = PStr (uuid_str k)"
    "(k, p) \<in> set (sw_posts w) \<Longrightarrow> py_get (jp_metadata p) ''generation_attempt_id'' = PStr (uuid_str k)"
proof -
  have "active_for k w = 0 \<or> (active_for k w = 1
          \<and> (\<exists>a. get_attempt k (sw_db w) = Some a \<and> ga_state a \<noteq> AttemptCREATED))"
    using assms by (simp add: submission_inv_def)
  then show "active_for k w \<le> 1"
    "active_for k w \<noteq> 0 \<Longrightarrow> \<exists>a. get_attempt k (sw_db w) = Some a \<and> ga_state a \<noteq> AttemptCREATED" by auto
qed (use assms in \<open>auto simp: submission_inv_def\<close>)

lemma submission_invI:
  assumes "db_ok (sw_db w)" and "\<And>k. active_for k w \<le> 1"
    and "\<And>k. active_for k w \<noteq> 0 \<Longrightarrow> \<exists>a. get_attempt k (sw_db w) = Some a \<and> ga_state a \<noteq> AttemptCREATED"
    and "\<And>k su. (k, su) \<in> set (sw_building w) \<Longrightarrow> py_get (su_metadata su) ''generation_attempt_id'' = PStr (uuid_str k)"
    and "\<And>k p. (k, p) \<in> set (sw_posts w) \<Longrightarrow> py_get (jp_metadata p) ''generation_attempt_id'' = PStr (uuid_str k)"
  shows "submission_inv w"
proof -
  have "active_for k w = 0 \<or> (active_for k w = 1
          \<and> (\<exists>a. get_attempt k (sw_db w) = Some a \<and> ga_state a \<noteq> AttemptCREATED))" for k
    using assms(2,3) [of k] by (cases "active_for k w = 0") auto
  with assms(1,4,5) show ?thesis unfolding submission_inv_def by auto
qed

lemma length_filter_remove1:
  "x \<in> set xs \<Longrightarrow> length (filter P (remove1 x xs)) = length (filter P xs) - (if P x then 1 else 0)"
  by (simp add: filter_remove1 length_remove1)

lemma filter_positive: "x \<in> set xs \<Longrightarrow> P x \<Longrightarrow> 0 < length (filter P xs)"
  by (auto simp: filter_empty_conv)

lemma inv_proper:
  assumes inv: "submission_inv w" and "proper K (sw_db w) d'"
    and "\<And>k. active_for k w' \<le> active_for k w" and "\<And>k. k \<in> K \<Longrightarrow> active_for k w' = 0"
    and "sw_db w' = d'" "set (sw_building w') \<subseteq> set (sw_building w)" "sw_posts w' = sw_posts w"
  shows "submission_inv w'"
proof (rule submission_invI)
  show "db_ok (sw_db w')" using assms(2,5) by (simp add: proper_def)
  show "active_for k w' \<le> 1" for k using assms(3) [of k] submission_invD(2) [OF inv, of k] by simp
  show "py_get (su_metadata su) ''generation_attempt_id'' = PStr (uuid_str k)" if "(k, su) \<in> set (sw_building w')" for k su
    using that assms(6) submission_invD(4) [OF inv] by blast
  show "py_get (jp_metadata p) ''generation_attempt_id'' = PStr (uuid_str k)" if "(k, p) \<in> set (sw_posts w')" for k p
    using that assms(7) submission_invD(5) [OF inv] by simp
  fix k assume "active_for k w' \<noteq> 0"
  with assms(3) [of k] assms(4) [of k] have "k \<notin> K" "active_for k w \<noteq> 0" by auto
  with submission_invD(3) [OF inv] assms(2) show "\<exists>a. get_attempt k (sw_db w') = Some a \<and> ga_state a \<noteq> AttemptCREATED"
    unfolding assms(5) proper_def keeps_started_def by blast
qed

lemma dropped_active: "active_for k (w\<lparr>sw_building := remove1 run (sw_building w)\<rparr>) \<le> active_for k w"
  by (cases "run \<in> set (sw_building w)") (auto simp: active_for_def posts_for_def length_filter_remove1 remove1_idem)

lemma finished_active:
  assumes "(k, su) \<in> set (sw_building w)" and "submission_inv w"
  shows "active_for k (w\<lparr>sw_building := remove1 (k, su) (sw_building w)\<rparr>) = 0"
proof -
  have "active_for k w \<le> 1" using assms(2) by (rule submission_invD)
  moreover have "0 < length (filter (\<lambda>(k', su). k' = k) (sw_building w))"
    using filter_positive [OF assms(1), of "\<lambda>(k', su). k' = k"] by simp
  ultimately have "length (filter (\<lambda>(k', su). k' = k) (sw_building w)) = 1" "length (posts_for k w) = 0"
    unfolding active_for_def by linarith+
  with assms(1) show ?thesis by (simp add: active_for_def posts_for_def length_filter_remove1)
qed

lemma marked_inv:
  assumes "submit_begin sha256 urlsplit (sw_db w) k url amount t = Inr (d', Inr su)" and inv: "submission_inv w"
  shows "submission_inv (w\<lparr>sw_db := d', sw_building := (k, su) # sw_building w\<rparr>)" (is "submission_inv ?w")
  using assms(1) submission_invD(1) [OF inv]
proof (cases rule: submit_begin_cases)
  case (marked a j x plan)
  note a = loaded_attempt [OF marked(1)]
  have id: "ga_id a = k" using a by (rule row_get_key)
  have ok: "proper {} (sw_db w) d'" using marked(4) a by (rule leaves_proper) simp
  obtain a' where a': "get_attempt k d' = Some a'" "ga_state a' = AttemptSUBMITTING"
    using marked(4) id unfolding leaves_def same_attempt_def by (metis rows_writtenD(2) singletonD)
  have active: "active_for k' ?w = active_for k' w + (if k' = k then 1 else 0)" for k'
    by (simp add: active_for_def posts_for_def)
  have free: "active_for k w = 0"
  proof (rule ccontr)
    assume "active_for k w \<noteq> 0"
    from submission_invD(3) [OF inv this] a marked(2) show False by simp
  qed
  show ?thesis
  proof (rule submission_invI)
    show "db_ok (sw_db ?w)" using ok by (simp add: proper_def)
    show "active_for k' ?w \<le> 1" for k' using active free submission_invD(2) [OF inv, of k'] by simp
    show "py_get (su_metadata su') ''generation_attempt_id'' = PStr (uuid_str k')"
      if "(k', su') \<in> set (sw_building ?w)" for k' su'
      using that submission_invD(4) [OF inv] marked(3) id
      by (auto simp: submission_metadata_def py_get_def)
    show "py_get (jp_metadata p) ''generation_attempt_id'' = PStr (uuid_str k')" if "(k', p) \<in> set (sw_posts ?w)" for k' p
      using that submission_invD(5) [OF inv] by simp
    fix k' assume "active_for k' ?w \<noteq> 0"
    with active consider "k' = k" | "active_for k' w \<noteq> 0" by (auto split: if_splits)
    then show "\<exists>a. get_attempt k' (sw_db ?w) = Some a \<and> ga_state a \<noteq> AttemptCREATED"
    proof cases
      case 1
      with a' show ?thesis by simp
    next
      case 2
      with submission_invD(3) [OF inv 2] ok show ?thesis by (auto simp: proper_def keeps_started_def)
    qed
  qed
qed simp_all

lemma posted_inv:
  assumes run: "(k, su) \<in> set (sw_building w)" and inv: "submission_inv w"
  shows "submission_inv (w\<lparr>sw_building := remove1 (k, su) (sw_building w), sw_posting := (k, post_of su url i) # sw_posting w,
     sw_posts := (k, post_of su url i) # sw_posts w\<rparr>)" (is "submission_inv ?w")
proof -
  have "0 < length (filter (\<lambda>(k', su). k' = k) (sw_building w))"
    using filter_positive [OF run, of "\<lambda>(k', su). k' = k"] by simp
  then have active: "active_for k' ?w = active_for k' w" for k'
    using run by (auto simp: active_for_def posts_for_def length_filter_remove1)
  have sub: "(k', su') \<in> set (remove1 (k, su) (sw_building w)) \<Longrightarrow> (k', su') \<in> set (sw_building w)" for k' su'
    using set_remove1_subset by fastforce
  show ?thesis
  proof (rule submission_invI)
    show "db_ok (sw_db ?w)" using submission_invD(1) [OF inv] by simp
    show "active_for k' ?w \<le> 1" for k' unfolding active by (rule submission_invD(2) [OF inv])
    show "\<exists>a. get_attempt k' (sw_db ?w) = Some a \<and> ga_state a \<noteq> AttemptCREATED" if "active_for k' ?w \<noteq> 0" for k'
      using submission_invD(3) [OF inv] that unfolding active by simp
    show "py_get (su_metadata su') ''generation_attempt_id'' = PStr (uuid_str k')"
      if "(k', su') \<in> set (sw_building ?w)" for k' su'
      using that submission_invD(4) [OF inv] sub by simp
    show "py_get (jp_metadata p) ''generation_attempt_id'' = PStr (uuid_str k')" if "(k', p) \<in> set (sw_posts ?w)" for k' p
      using that submission_invD(5) [OF inv] submission_invD(4) [OF inv run] by (auto simp: post_of_def)
  qed
qed

lemma settled_inv:
  assumes "submit_begin sha256 urlsplit (sw_db w) k url amount t = Inr (d', Inl r)" and inv: "submission_inv w"
  shows "proper {} (sw_db w) d'"
  using assms(1) submission_invD(1) [OF inv]
  by (cases rule: submit_begin_cases) (auto intro: leaves_proper [OF _ loaded_attempt])

lemma step_inv:
  assumes "submission_step sha256 urlsplit w w'" and inv: "submission_inv w"
  shows "submission_inv w'"
proof -
  have same: "submission_inv (w\<lparr>sw_db := d'\<rparr>)" if "proper {} (sw_db w) d'" for d'
    by (rule inv_proper [OF inv that]) (simp_all add: active_for_def posts_for_def)
  have dropped: "submission_inv (w\<lparr>sw_db := d', sw_building := remove1 run (sw_building w)\<rparr>)"
    if "proper K (sw_db w) d'" "\<And>k. k \<in> K \<Longrightarrow> active_for k (w\<lparr>sw_building := remove1 run (sw_building w)\<rparr>) = 0" for d' K run
    using that(2) dropped_active [where w = w and run = run]
    by (intro inv_proper [OF inv that(1)]) (simp_all add: active_for_def posts_for_def set_remove1_subset)
  note ok = submission_invD(1) [OF inv]
  show ?thesis
    using assms(1)
  proof cases
    case (settle k url amount t d' r)
    from settled_inv [OF settle(2) inv] settle(1) show ?thesis by (auto intro: same)
  next
    case (mark k url amount t d' su)
    from marked_inv [OF mark(2) inv] mark(1) show ?thesis by simp
  next
    case (postpone k su s reason t d' r)
    from dropped [OF submit_deferred_proper [OF postpone(3) ok], of "(k, su)"] finished_active [OF postpone(2) inv]
    show ?thesis using postpone(1) by simp
  next
    case (unbuilt k su t d' r)
    from dropped [OF submit_unbuilt_proper [OF unbuilt(3) ok], of "(k, su)"] unbuilt(1) show ?thesis by simp
  next
    case (post k su p url i)
    from posted_inv [OF post(2) inv] post(1,3) show ?thesis by simp
  next
    case (answer k p new_id outcome t d' r)
    from submit_finish_proper [OF answer(3) ok] answer(1) show ?thesis
      by (auto intro!: inv_proper [OF inv] simp: active_for_def posts_for_def)
  next
    case (die_building run)
    from dropped [OF proper_refl [OF ok], of run] die_building show ?thesis by simp
  next
    case (die_posting run)
    with inv_proper [OF inv proper_refl [OF ok], of w'] show ?thesis by (simp add: active_for_def posts_for_def)
  next
    case (observe new_id clock k q observed_at d' ob evidence)
    with observation_proper [OF _ ok] same show ?thesis by blast
  next
    case (fence clock k now d' r)
    with fence_proper [OF _ ok] same show ?thesis by blast
  next
    case (unstarted clock k code now d' r)
    with unstarted_proper [OF _ ok] same show ?thesis by blast
  next
    case (elsewhere d')
    with same show ?thesis by blast
  qed
qed

interpretation submission_run: invariant_system "submission_step sha256 urlsplit" submission_inv for sha256 urlsplit
  by unfold_locales (rule step_inv)

lemma idle_inv: "db_ok d \<Longrightarrow> submission_inv (idle_world d)"
  by (rule submission_invI) (simp_all add: idle_world_def active_for_def posts_for_def)

lemma step_proper:
  assumes "submission_step sha256 urlsplit w w'" and inv: "submission_inv w"
  shows "\<exists>K. proper K (sw_db w) (sw_db w')"
proof -
  note ok = submission_invD(1) [OF inv]
  have idle: "\<exists>K. proper K (sw_db w) (sw_db w)" using proper_refl [OF ok] by blast
  show ?thesis
    using assms(1)
  proof cases
    case (settle k url amount t d' r)
    from settled_inv [OF settle(2) inv] settle(1) show ?thesis by auto
  next
    case (mark k url amount t d' su)
    from mark(2) ok have "proper {} (sw_db w) d'"
      by (cases rule: submit_begin_cases) (auto intro: leaves_proper [OF _ loaded_attempt])
    with mark(1) show ?thesis by auto
  next
    case (postpone k su s reason t d' r)
    from submit_deferred_proper [OF postpone(3) ok] postpone(1) show ?thesis by auto
  next
    case (unbuilt k su t d' r)
    from submit_unbuilt_proper [OF unbuilt(3) ok] unbuilt(1) show ?thesis by auto
  next
    case (answer k p new_id outcome t d' r)
    from submit_finish_proper [OF answer(3) ok] answer(1) show ?thesis by auto
  next
    case (observe new_id clock k q observed_at d' ob evidence)
    from observation_proper [OF observe(2) ok] observe(1) show ?thesis by auto
  next
    case (fence clock k now d' r)
    from fence_proper [OF fence(2) ok] fence(1) show ?thesis by auto
  next
    case (unstarted clock k code now d' r)
    from unstarted_proper [OF unstarted(2) ok] unstarted(1) show ?thesis by auto
  qed (use idle in auto)
qed

interpretation settled_run: invariant_system "submission_step sha256 urlsplit"
  "\<lambda>w. submission_inv w \<and> all_settled (sw_db w)" for sha256 urlsplit
  using step_inv step_proper by unfold_locales (auto simp: proper_def)

end
