(* ===== verification/GenerationRecoveryTheorems.thy ===== *)
theory GenerationRecoveryTheorems
  imports GenerationRecoveryFacts
begin

text \<open>
  The sweep recovers exactly the dead letters its query selects, and however the grants are repeated and interleaved, a job
  gets a bounded number of further attempts, each recorded once.
\<close>

section \<open>The query and the guard agree\<close>

lemma candidate_attempt:
  assumes "recovery_candidate d j a"
  shows "ga_job_id a = gj_id j" and "ga_attempt_no a = gj_attempt_count j"
  using assms by (simp_all add: recovery_candidate_def)

lemma candidate_failure:
  assumes "recovery_candidate d j a"
  obtains code where "py_or (ga_error_code a) (legacy_job_failure_code a j) = Some code"
    "code \<in> set INFRASTRUCTURE_FAILURE_ERROR_CODES"
    "legacy_job_failure_code a j \<noteq> None \<or> provider_attempt_is_definitive a"
proof -
  have rec: "recoverable_infrastructure_failure a j" and j: "gj_state j = JobDEAD_LETTER" "gj_provider j = ''salad''"
    using assms by (simp_all add: recovery_candidate_def)
  have nonempty: "[] \<notin> set INFRASTRUCTURE_FAILURE_ERROR_CODES"
    by (simp add: INFRASTRUCTURE_FAILURE_ERROR_CODES_def recovery_code_defs)
  from rec consider
      (own) code where "ga_error_code a = Some code" "code \<in> set INFRASTRUCTURE_FAILURE_ERROR_CODES"
        "provider_attempt_is_definitive a"
    | (legacy) "ga_error_code a = None" "legacy_job_failure_is_definitive a j"
    unfolding recoverable_infrastructure_failure_def provider_attempt_is_definitive_def
    by (elim disjE conjE imageE) simp_all
  then show thesis
  proof cases
    case own
    then obtain c cs where "code = c # cs" using nonempty by (cases code) auto
    with own show thesis by (intro that [of code]) (simp_all add: py_or_def)
  next
    case legacy
    from legacy(2) obtain code where code: "gj_last_error_code j = Some code" and a: "ga_provider a = ''salad''"
      and m: "(code \<in> set LEGACY_FAILED_PROVIDER_ERROR_CODES \<and> ga_provider_external_id a \<noteq> None
          \<and> ga_provider_state a = Some ''failed'')
        \<or> (code \<in> set LEGACY_CANCELLED_PROVIDER_ERROR_CODES \<and> ga_provider_external_id a \<noteq> None
          \<and> ga_provider_state a = Some ''cancelled'')
        \<or> (code = SALAD_DEPLOYMENT_PROVIDER_ABSENT_ERROR_CODE \<and> ga_provider_state a = Some ''absent_after_rollover'')
        \<or> (code = SALAD_PROVIDER_JOB_ABSENT_ERROR_CODE \<and> ga_provider_state a = Some ''absent_after_reconciliation'')"
      unfolding legacy_job_failure_is_definitive_def by fastforce
    have "legacy_job_failure_code a j = Some code \<and> code \<in> set INFRASTRUCTURE_FAILURE_ERROR_CODES"
      using m code a j legacy(1) unfolding legacy_job_failure_code_def
      by (elim disjE) (auto simp: LEGACY_FAILED_PROVIDER_ERROR_CODES_def LEGACY_CANCELLED_PROVIDER_ERROR_CODES_def
          INFRASTRUCTURE_FAILURE_ERROR_CODES_def legacy_absent_provider_state_def recovery_code_defs)
    with legacy(1) show thesis by (intro that [of code]) (simp_all add: py_or_def)
  qed
qed

lemma candidate_is_granted:
  assumes c: "recovery_candidate d j a" and g: "grant_infrastructure_retry d a j RetrySCHEDULER_RECOVERY actor r t = (d', g)"
  shows "ig_granted g"
proof -
  obtain code where code: "py_or (ga_error_code a) (legacy_job_failure_code a j) = Some code"
    "code \<in> set INFRASTRUCTURE_FAILURE_ERROR_CODES"
    "legacy_job_failure_code a j \<noteq> None \<or> provider_attempt_is_definitive a"
    using c by (rule candidate_failure)
  have rest: "ga_job_id a = gj_id j" "ga_attempt_no a = gj_attempt_count j" "ga_state a = AttemptFAILED"
    "ga_completed_at a \<noteq> None" "gj_state j \<notin> set NON_RETRYABLE_JOB_STATES" "gj_max_attempts j < 10"
    "release_allows_retry d j" "\<not> attempt_granted d INFRASTRUCTURE_RETRY_GRANT_ACTION (ga_id a)"
    "grant_count d INFRASTRUCTURE_RETRY_GRANT_ACTION (gj_id j) < MAX_INFRASTRUCTURE_RETRY_GRANTS"
    using c by (simp_all add: recovery_candidate_def NON_RETRYABLE_JOB_STATES_def release_allows_retry_def)
  from g code rest obtain detail extra where "grant_bounded_infrastructure_retry d a j
      INFRASTRUCTURE_RETRY_GRANT_ACTION MAX_INFRASTRUCTURE_RETRY_GRANTS code detail RetrySCHEDULER_RECOVERY actor r t extra
      = (d', g)"
    unfolding grant_infrastructure_retry_def Let_def by (auto split: if_splits)
  with rest show ?thesis by (auto simp: grant_bounded_infrastructure_retry_def Let_def)
qed

text \<open>And the guard lets nothing else through, among the dead letters at the provider the query is about.\<close>

lemma granted_failure:
  assumes "py_or (ga_error_code a) (legacy_job_failure_code a j) = Some code"
    and "code \<in> set INFRASTRUCTURE_FAILURE_ERROR_CODES"
    and "legacy_job_failure_code a j \<noteq> None \<or> provider_attempt_is_definitive a"
  shows "recoverable_infrastructure_failure a j"
proof (cases "ga_error_code a")
  case None
  with assms(1) have l: "legacy_job_failure_code a j = Some code" by (simp add: py_or_def)
  then have e: "gj_last_error_code j = Some code" "ga_provider a = ''salad''"
    by (auto simp: legacy_job_failure_code_def split: option.splits if_splits)
  from l e(1) consider
      (failed) "code \<in> set LEGACY_FAILED_PROVIDER_ERROR_CODES" "ga_provider_external_id a \<noteq> None"
        "ga_provider_state a = Some ''failed''"
    | (cancelled) "code \<in> set LEGACY_CANCELLED_PROVIDER_ERROR_CODES" "ga_provider_external_id a \<noteq> None"
        "ga_provider_state a = Some ''cancelled''"
    | (absent) "legacy_absent_provider_state code \<noteq> None" "ga_provider_state a = legacy_absent_provider_state code"
    by (auto simp: legacy_job_failure_code_def split: if_splits)
  then have "legacy_job_failure_is_definitive a j"
  proof cases
    case absent
    then show ?thesis using e
      by (auto simp: legacy_job_failure_is_definitive_def legacy_absent_provider_state_def split: if_splits)
  qed (use e in \<open>simp_all add: legacy_job_failure_is_definitive_def\<close>)
  with None show ?thesis by (simp add: recoverable_infrastructure_failure_def)
next
  case (Some own)
  then have "legacy_job_failure_code a j = None" by (simp add: legacy_job_failure_code_def split: option.split)
  with assms(1,3) Some have "own = code" "provider_attempt_is_definitive a"
    by (simp_all add: py_or_def split: list.splits)
  with Some assms(2) show ?thesis
    by (auto simp: recoverable_infrastructure_failure_def provider_attempt_is_definitive_def)
qed

lemma granted_is_candidate:
  assumes "ig_granted (snd (grant_infrastructure_retry d a j RetrySCHEDULER_RECOVERY actor r t))"
    and "gj_provider j = ''salad''" and "gj_state j = JobDEAD_LETTER"
  shows "recovery_candidate d j a"
proof -
  from assms(1) obtain code where code: "py_or (ga_error_code a) (legacy_job_failure_code a j) = Some code"
    by (cases "py_or (ga_error_code a) (legacy_job_failure_code a j)")
      (simp_all add: grant_infrastructure_retry_def no_grant_def)
  with assms(1) have g: "ga_job_id a = gj_id j" "ga_attempt_no a = gj_attempt_count j" "ga_state a = AttemptFAILED"
    "ga_completed_at a \<noteq> None" "code \<in> set INFRASTRUCTURE_FAILURE_ERROR_CODES" "gj_max_attempts j < 10"
    "legacy_job_failure_code a j \<noteq> None \<or> provider_attempt_is_definitive a" "release_allows_retry d j"
    "\<not> attempt_granted d INFRASTRUCTURE_RETRY_GRANT_ACTION (ga_id a)"
    "grant_count d INFRASTRUCTURE_RETRY_GRANT_ACTION (gj_id j) < MAX_INFRASTRUCTURE_RETRY_GRANTS"
    by (auto simp: grant_infrastructure_retry_def grant_bounded_infrastructure_retry_def no_grant_def Let_def
        split: if_splits)
  with granted_failure [OF code g(5,7)] assms(2,3) show ?thesis
    by (simp add: recovery_candidate_def release_allows_retry_def)
qed

lemma query_is_guard:
  "recovery_candidate d j a \<longleftrightarrow> gj_provider j = ''salad'' \<and> gj_state j = JobDEAD_LETTER
     \<and> ig_granted (snd (grant_infrastructure_retry d a j RetrySCHEDULER_RECOVERY actor r t))"
proof
  assume c: "recovery_candidate d j a"
  have "ig_granted (snd (grant_infrastructure_retry d a j RetrySCHEDULER_RECOVERY actor r t))"
    using candidate_is_granted [OF c] by (metis prod.collapse)
  with c show "gj_provider j = ''salad'' \<and> gj_state j = JobDEAD_LETTER
      \<and> ig_granted (snd (grant_infrastructure_retry d a j RetrySCHEDULER_RECOVERY actor r t))"
    by (simp add: recovery_candidate_def)
qed (blast intro: granted_is_candidate)

text \<open>A grant to another job leaves a candidate a candidate.\<close>

lemma candidate_kept:
  assumes "recovery_candidate d j a" and "get_attempt (ga_id b) d = Some b" and "get_attempt (ga_id a) d = Some a"
    and "grant_event INFRASTRUCTURE_RETRY_GRANT_ACTION e" "ae_resource_id e = ga_id b" "ga_job_id b \<noteq> gj_id j"
  shows "recovery_candidate (add_audit e (put_job j' d)) j a"
proof -
  let ?d = "add_audit e (put_job j' d)"
  note candidate_attempt(1) [OF assms(1)]
  with assms(2,3,6) have "ga_id a \<noteq> ga_id b" by auto
  then have granted: "attempt_granted ?d INFRASTRUCTURE_RETRY_GRANT_ACTION (ga_id a)
      = attempt_granted d INFRASTRUCTURE_RETRY_GRANT_ACTION (ga_id a)"
    using assms(5) by (simp add: attempt_granted_granted)
  have counted: "grant_count ?d INFRASTRUCTURE_RETRY_GRANT_ACTION (gj_id j)
      = grant_count d INFRASTRUCTURE_RETRY_GRANT_ACTION (gj_id j)"
    using assms(2,5,6) by (simp add: grant_count_granted)
  have marker: "stop_marker ?d r = stop_marker d r" for r
    using assms(4) by (simp add: stop_marker_def grant_event_def)
  have lifecycle: "release_lifecycle ?d j = release_lifecycle d j" by (simp add: release_lifecycle_def split: option.split)
  show ?thesis using assms(1) unfolding recovery_candidate_def granted counted marker lifecycle .
qed

text \<open>The sweep, row by row.\<close>

lemma sweep_rows:
  assumes "db_ok d" and "distinct (map (gj_id \<circ> fst) rows)"
    and "\<And>j a. (j, a) \<in> set rows \<Longrightarrow> get_job (gj_id j) d = Some j \<and> get_attempt (ga_id a) d = Some a
      \<and> recovery_candidate d j a"
    and "fold (recover_dead_letter actor t) rows (d, earlier) = (d', ids)"
  shows "ids = earlier @ map (gj_id \<circ> fst) rows
    \<and> (\<forall>(j, a) \<in> set rows. \<exists>code detail. get_job (gj_id j) d' = Some (job_granted t code detail j))
    \<and> (\<forall>k. k \<notin> (gj_id \<circ> fst) ` set rows \<longrightarrow> get_job k d' = get_job k d)"
  using assms
proof (induction rows arbitrary: d earlier)
  case Nil
  then show ?case by simp
next
  case (Cons row rows)
  obtain j a where row: "row = (j, a)" by (cases row)
  have now: "get_job (gj_id j) d = Some j" "get_attempt (ga_id a) d = Some a" "recovery_candidate d j a"
    using Cons.prems(3) [of j a] row by simp_all
  obtain d1 g where g: "grant_infrastructure_retry d a j RetrySCHEDULER_RECOVERY actor t t = (d1, g)"
    by (cases "grant_infrastructure_retry d a j RetrySCHEDULER_RECOVERY actor t t")
  have granted: "ig_granted g" by (rule candidate_is_granted [OF now(3) g])
  with infrastructure_grant_effect [OF g]
  have effect: "grant_effect INFRASTRUCTURE_RETRY_GRANT_ACTION MAX_INFRASTRUCTURE_RETRY_GRANTS t d a j d1" by simp
  obtain e code detail where e: "grant_event INFRASTRUCTURE_RETRY_GRANT_ACTION e" "ae_resource_id e = ga_id a"
    "d1 = add_audit e (put_job (job_granted t code detail j) d)"
    using effect by (rule grant_effect_cong)
  note a_job = candidate_attempt(1) [OF now(3)]
  have one: "recover_dead_letter actor t row (d, earlier) = (d1, earlier @ [gj_id j])"
    using now(1) g granted by (simp add: recover_dead_letter_def row)
  have d1: "db_ok d1" by (rule grant_effect_ok [OF effect Cons.prems(1) now(1)])
  have jobs: "get_job k d1 = (if k = gj_id j then Some (job_granted t code detail j) else get_job k d)" for k
    using row_get_mem [OF now(1)] by (auto simp: e(3) row_get_put)
  have later: "get_job (gj_id j') d1 = Some j' \<and> get_attempt (ga_id a') d1 = Some a' \<and> recovery_candidate d1 j' a'"
    if "(j', a') \<in> set rows" for j' a'
  proof -
    from that Cons.prems(3) [of j' a'] have j': "get_job (gj_id j') d = Some j'" "get_attempt (ga_id a') d = Some a'"
      "recovery_candidate d j' a'" by simp_all
    have "gj_id j' \<noteq> gj_id j" using Cons.prems(2) that by (force simp: row)
    with j' e a_job show ?thesis
      using candidate_kept [OF j'(3) now(2) j'(2) e(1,2)] jobs [of "gj_id j'"] by (simp add: e(3))
  qed
  have "ids = (earlier @ [gj_id j]) @ map (gj_id \<circ> fst) rows
    \<and> (\<forall>(j, a) \<in> set rows. \<exists>code detail. get_job (gj_id j) d' = Some (job_granted t code detail j))
    \<and> (\<forall>k. k \<notin> (gj_id \<circ> fst) ` set rows \<longrightarrow> get_job k d' = get_job k d1)"
    using Cons.prems(2,4) one by (intro Cons.IH [OF d1 _ later]) simp_all
  moreover from this Cons.prems(2) have "get_job (gj_id j) d' = Some (job_granted t code detail j)"
    by (auto simp: row jobs)
  ultimately show ?case by (auto simp: row jobs)
qed

section \<open>What the query selects\<close>

lemma recovery_rows_facts:
  assumes "db_ok d" and unique: "distinct (map (\<lambda>a. (ga_job_id a, ga_attempt_no a)) (db_attempts d))"
  shows "\<And>j a. (j, a) \<in> set (recovery_rows locked limit d) \<Longrightarrow> get_job (gj_id j) d = Some j
      \<and> get_attempt (ga_id a) d = Some a \<and> recovery_candidate d j a"
    and "distinct (map (gj_id \<circ> fst) (recovery_rows locked limit d))"
proof -
  let ?P = "\<lambda>(j, a). recovery_candidate d j a"
  let ?rows = "recovery_rows locked limit d"
  have sub: "set ?rows \<subseteq> {(j, a). j \<in> set (db_jobs d) \<and> a \<in> set (db_attempts d) \<and> recovery_candidate d j a}"
    unfolding recovery_rows_def by (auto dest!: in_set_takeD)
  then show rows: "get_job (gj_id j) d = Some j \<and> get_attempt (ga_id a) d = Some a \<and> recovery_candidate d j a"
    if "(j, a) \<in> set ?rows" for j a
    using that row_get_distinct [OF db_okD(10) [OF assms(1)]] row_get_distinct [OF db_okD(9) [OF assms(1)]] by auto
  have "distinct (List.product (db_jobs d) (db_attempts d))"
    using db_okD(9,10) [OF assms(1)] by (intro distinct_product) (simp_all add: distinct_map)
  then have dist: "distinct ?rows" by (simp add: recovery_rows_def)
  have "inj_on (gj_id \<circ> fst) (set ?rows)"
  proof (rule inj_onI)
    fix x y assume xy: "x \<in> set ?rows" "y \<in> set ?rows" "(gj_id \<circ> fst) x = (gj_id \<circ> fst) y"
    obtain j a j' a' where p: "x = (j, a)" "y = (j', a')" by (cases x, cases y)
    have ja: "get_job (gj_id j) d = Some j" "recovery_candidate d j a" using rows [of j a] xy(1) p(1) by blast+
    have ja': "get_job (gj_id j') d = Some j'" "recovery_candidate d j' a'" using rows [of j' a'] xy(2) p(2) by blast+
    from xy(3) p have "gj_id j' = gj_id j" by simp
    with ja(1) ja'(1) have same: "j' = j" by simp
    note c = ja(2) ja'(2)
    note k = candidate_attempt [OF c(1)] candidate_attempt [OF c(2)]
    have "a \<in> set (db_attempts d)" "a' \<in> set (db_attempts d)" using sub xy p by auto
    moreover from unique have "inj_on (\<lambda>a. (ga_job_id a, ga_attempt_no a)) (set (db_attempts d))"
      by (simp only: distinct_map)
    ultimately have "a = a'" using k same by (auto elim: inj_onD)
    with same p show "x = y" by simp
  qed
  with dist show "distinct (map (gj_id \<circ> fst) ?rows)" by (simp add: distinct_map)
qed

text \<open>As long as the limit is not reached, no candidate that is not locked is left out.\<close>

lemma recovery_rows_complete:
  assumes "length (recovery_rows locked limit d) < nat limit" and "j \<in> set (db_jobs d)" and "a \<in> set (db_attempts d)"
    and "recovery_candidate d j a" and "\<not> locked (gj_id j)"
  shows "(j, a) \<in> set (recovery_rows locked limit d)"
  using assms unfolding recovery_rows_def by (simp add: min_def split: if_splits)

section \<open>A sample dead letter\<close>

definition recovery_job :: GenerationJob where
  "recovery_job = \<lparr>gj_id = 50, gj_release_version_id = 60, gj_provider = ''salad'', gj_state = JobDEAD_LETTER,
     gj_attempt_count = 3, gj_max_attempts = 3, gj_lock_version = 1, gj_lease_owner = None, gj_lease_expires_at = None,
     gj_retry_at = None, gj_last_error_code = Some ''salad_job_failed'', gj_last_error_detail = None, gj_created_at = 0,
     gj_parameters = [], gj_parameters_sha256 = ''p'', gj_expected_output_count = 1\<rparr>"

definition recovery_attempt :: GenerationAttempt where
  "recovery_attempt = \<lparr>ga_id = 51, ga_job_id = 50, ga_attempt_no = 3, ga_provider = ''salad'',
     ga_salad_deployment_id = Some 41, ga_provider_external_id = Some ''j1'', ga_state = AttemptFAILED,
     ga_request_metadata = [], ga_response_metadata = None, ga_submit_started_at = Some 1, ga_submitted_at = Some 2,
     ga_started_at = Some 3, ga_completed_at = Some 4, ga_last_observed_at = Some 4, ga_unknown_since = None,
     ga_provider_state = Some ''failed'', ga_cost_reservation_microusd = 0, ga_reservation_released_at = None,
     ga_lock_version = 5, ga_error_code = Some ''salad_job_failed'', ga_error_detail = None,
     ga_submission_key = ''k'', ga_request_sha256 = ''r'', ga_worker_image_digest = ''i''\<rparr>"

definition recovery_db :: db where
  "recovery_db = empty_db\<lparr>db_releases := [\<lparr>re_id = 61, re_phase = PhaseGENERATING, re_health = HealthHEALTHY,
       re_current_version_no = 1\<rparr>],
     db_release_versions := [\<lparr>rv_id = 60, rv_release_id = 61, rv_version_no = 1\<rparr>],
     db_jobs := [recovery_job], db_attempts := [recovery_attempt]\<rparr>"

lemma recovery_db_ok: "db_ok recovery_db"
  by (simp add: db_ok_def recovery_db_def empty_db_def job_ok_def attempt_ok_def recovery_job_def recovery_attempt_def)

section \<open>Properties\<close>

text \<open>C8: The query of the sweep and the guard of \<open>grant_infrastructure_retry\<close> agree. For every job and attempt the WHERE
  clause holds exactly when the job is a dead letter at the provider ''salad'' and the guard, which checks neither, grants the
  attempt. So the sweep recovers every row it selects, also after the earlier grants of the same sweep: every selected job
  gets one further attempt and waits for it, and no other job changes. When it selects fewer rows than its limit, every
  unlocked dead letter at the provider that the guard would grant is recovered.\<close>

theorem sweep_recovers_what_it_selects:
  assumes "recover_dead_lettered_infrastructure_jobs locked clock d actor limit now = Inr (d', s)" and "db_ok d"
    and "distinct (map (\<lambda>a. (ga_job_id a, ga_attempt_no a)) (db_attempts d))"
  shows "(\<forall>j a. recovery_candidate d j a \<longleftrightarrow> gj_provider j = ''salad'' \<and> gj_state j = JobDEAD_LETTER
         \<and> ig_granted (snd (grant_infrastructure_retry d a j RetrySCHEDULER_RECOVERY actor (outbox_time clock now)
              (outbox_time clock now))))
    \<and> ir_recovered_job_ids s = map (gj_id \<circ> fst) (recovery_rows locked limit d)
    \<and> ir_scanned s = length (recovery_rows locked limit d)
    \<and> (\<forall>(j, a) \<in> set (recovery_rows locked limit d). \<exists>code detail.
         get_job (gj_id j) d' = Some (job_granted (outbox_time clock now) code detail j))
    \<and> (\<forall>k. k \<notin> set (ir_recovered_job_ids s) \<longrightarrow> get_job k d' = get_job k d)
    \<and> (int (ir_scanned s) < limit \<longrightarrow> (\<forall>j \<in> set (db_jobs d). \<forall>a \<in> set (db_attempts d).
         gj_provider j = ''salad'' \<and> gj_state j = JobDEAD_LETTER \<and> \<not> locked (gj_id j)
         \<and> ig_granted (snd (grant_infrastructure_retry d a j RetrySCHEDULER_RECOVERY actor (outbox_time clock now)
              (outbox_time clock now)))
         \<longrightarrow> gj_id j \<in> set (ir_recovered_job_ids s)))"
proof -
  let ?t = "outbox_time clock now" and ?rows = "recovery_rows locked limit d"
  obtain d1 ids where f: "fold (recover_dead_letter actor ?t) ?rows (d, []) = (d1, ids)"
    by (cases "fold (recover_dead_letter actor ?t) ?rows (d, [])")
  from assms(1) f have "d' = d1" "s = \<lparr>ir_scanned = length ?rows, ir_recovered_job_ids = ids\<rparr>"
    by (auto simp: recover_dead_lettered_infrastructure_jobs_def Let_def split: if_splits)
  with sweep_rows [OF assms(2) recovery_rows_facts(2) [OF assms(2,3)] recovery_rows_facts(1) [OF assms(2,3)] f]
  have swept: "ir_recovered_job_ids s = map (gj_id \<circ> fst) ?rows" "ir_scanned s = length ?rows"
    "\<forall>(j, a) \<in> set ?rows. \<exists>code detail. get_job (gj_id j) d' = Some (job_granted ?t code detail j)"
    "\<forall>k. k \<notin> set (ir_recovered_job_ids s) \<longrightarrow> get_job k d' = get_job k d" by simp_all
  have "gj_id j \<in> set (ir_recovered_job_ids s)"
    if "int (ir_scanned s) < limit" "j \<in> set (db_jobs d)" "a \<in> set (db_attempts d)" "recovery_candidate d j a"
      "\<not> locked (gj_id j)" for j a
    using recovery_rows_complete [of locked limit d j a] that swept(1,2) by force
  with swept query_is_guard [of d _ _ actor ?t ?t] show ?thesis by (intro conjI) auto
qed

lemma sweep_recovers_what_it_selects_witness:
  "\<exists>d' s. recover_dead_lettered_infrastructure_jobs (\<lambda>_. False) 0 recovery_db ''scheduler'' 16 (Some (Aware 100)) = Inr (d', s)
     \<and> ir_recovered_job_ids s = [50]"
proof -
  let ?run = "recover_dead_lettered_infrastructure_jobs (\<lambda>_. False) 0 recovery_db ''scheduler'' 16 (Some (Aware 100))"
  have "case ?run of Inl _ \<Rightarrow> False | Inr _ \<Rightarrow> True" by code_simp
  then obtain d' s where run: "?run = Inr (d', s)" by (cases ?run) auto
  have "map (gj_id \<circ> fst) (recovery_rows (\<lambda>_. False) 16 recovery_db) = [50]" by code_simp
  with sweep_recovers_what_it_selects [OF run recovery_db_ok] run show ?thesis by (simp add: recovery_db_def)
qed

section \<open>Bounds\<close>

text \<open>One grant for the current rows of the database.\<close>

inductive retry_grant :: "db \<Rightarrow> db \<Rightarrow> bool" where
  infrastructure: "get_attempt (ga_id a) d = Some a \<Longrightarrow> get_job (gj_id j) d = Some j
    \<Longrightarrow> grant_infrastructure_retry d a j source actor r t = (d', g) \<Longrightarrow> retry_grant d d'"
| turnover: "get_attempt (ga_id a) d = Some a \<Longrightarrow> get_job (gj_id j) d = Some j
    \<Longrightarrow> grant_runtime_instance_turnover_retry d a j x v source actor r t = (d', g) \<Longrightarrow> retry_grant d d'"
| near_black: "get_attempt (ga_id a) d = Some a \<Longrightarrow> get_job (gj_id j) d = Some j
    \<Longrightarrow> grant_near_black_output_retry sha256 new_id d a j source actor r t failed uploaded = (d', n) \<Longrightarrow> retry_grant d d'"

inductive retry_call :: "db \<Rightarrow> db \<Rightarrow> bool" where
  grant: "retry_grant d d' \<Longrightarrow> retry_call d d'"
| sweep: "recover_dead_lettered_infrastructure_jobs locked clock d actor limit now = Inr (d', s) \<Longrightarrow> retry_call d d'"

definition GRANT_LIMITS :: "(string \<times> nat) list" where
  "GRANT_LIMITS = [(INFRASTRUCTURE_RETRY_GRANT_ACTION, MAX_INFRASTRUCTURE_RETRY_GRANTS),
     (RUNTIME_INSTANCE_TURNOVER_RETRY_GRANT_ACTION, MAX_RUNTIME_INSTANCE_TURNOVER_RETRY_GRANTS),
     (NEAR_BLACK_OUTPUT_RETRY_GRANT_ACTION, MAX_NEAR_BLACK_OUTPUT_RETRY_GRANTS)]"

definition all_grants :: "db \<Rightarrow> uuid \<Rightarrow> nat" where
  "all_grants d k = (\<Sum>(action, limit)\<leftarrow>GRANT_LIMITS. grant_count d action k)"

text \<open>What a number of grants does to the counts and to one job.\<close>

definition within_limits :: "db \<Rightarrow> db \<Rightarrow> uuid \<Rightarrow> bool" where
  "within_limits d d' k \<longleftrightarrow>
     (\<forall>(action, limit) \<in> set GRANT_LIMITS. grant_count d action k \<le> grant_count d' action k
        \<and> grant_count d' action k \<le> max limit (grant_count d action k))
     \<and> (\<forall>j. get_job k d = Some j \<longrightarrow> (\<exists>j'. get_job k d' = Some j'
        \<and> gj_max_attempts j' + int (all_grants d k) = gj_max_attempts j + int (all_grants d' k)
        \<and> gj_max_attempts j' \<le> max 10 (gj_max_attempts j)
        \<and> (gj_state j \<in> set NON_RETRYABLE_JOB_STATES \<longrightarrow> j' = j)))"

lemma within_limits_refl: "within_limits d d k"
  by (auto simp: within_limits_def)

lemma within_limits_trans:
  assumes "within_limits d d1 k" and "within_limits d1 d2 k"
  shows "within_limits d d2 k"
proof -
  have "grant_count d action k \<le> grant_count d2 action k \<and> grant_count d2 action k \<le> max limit (grant_count d action k)"
    if "(action, limit) \<in> set GRANT_LIMITS" for action limit
  proof -
    from assms that have "grant_count d action k \<le> grant_count d1 action k"
      "grant_count d1 action k \<le> max limit (grant_count d action k)" "grant_count d1 action k \<le> grant_count d2 action k"
      "grant_count d2 action k \<le> max limit (grant_count d1 action k)" by (auto simp: within_limits_def)
    then show ?thesis by linarith
  qed
  moreover have "\<exists>j2. get_job k d2 = Some j2 \<and> gj_max_attempts j2 + int (all_grants d k) = gj_max_attempts j + int (all_grants d2 k)
      \<and> gj_max_attempts j2 \<le> max 10 (gj_max_attempts j) \<and> (gj_state j \<in> set NON_RETRYABLE_JOB_STATES \<longrightarrow> j2 = j)"
    if j: "get_job k d = Some j" for j
  proof -
    from assms(1) j obtain j1 where j1: "get_job k d1 = Some j1"
      "gj_max_attempts j1 + int (all_grants d k) = gj_max_attempts j + int (all_grants d1 k)"
      "gj_max_attempts j1 \<le> max 10 (gj_max_attempts j)" "gj_state j \<in> set NON_RETRYABLE_JOB_STATES \<longrightarrow> j1 = j"
      unfolding within_limits_def by blast
    from assms(2) j1(1) obtain j2 where j2: "get_job k d2 = Some j2"
      "gj_max_attempts j2 + int (all_grants d1 k) = gj_max_attempts j1 + int (all_grants d2 k)"
      "gj_max_attempts j2 \<le> max 10 (gj_max_attempts j1)" "gj_state j1 \<in> set NON_RETRYABLE_JOB_STATES \<longrightarrow> j2 = j1"
      unfolding within_limits_def by blast
    have "gj_max_attempts j2 + int (all_grants d k) = gj_max_attempts j + int (all_grants d2 k)" using j1(2) j2(2) by linarith
    moreover have "gj_max_attempts j2 \<le> max 10 (gj_max_attempts j)" using j1(3) j2(3) by linarith
    ultimately show ?thesis using j1(4) j2(1,4) by auto
  qed
  ultimately show ?thesis unfolding within_limits_def by blast
qed

lemma grant_within_limits:
  assumes "grant_effect action limit r d a j d'" and "(action, limit) \<in> set GRANT_LIMITS"
    and a: "get_attempt (ga_id a) d = Some a" and j: "get_job (gj_id j) d = Some j"
  shows "within_limits d d' k"
proof -
  from assms(1) obtain e code detail where e: "grant_event action e" "ae_resource_id e = ga_id a"
    "d' = add_audit e (put_job (job_granted r code detail j) d)" by (rule grant_effect_cong)
  from assms(1) have g: "ga_job_id a = gj_id j" "gj_state j \<notin> set NON_RETRYABLE_JOB_STATES" "gj_max_attempts j < 10"
    "grant_count d action (gj_id j) < limit" by (simp_all add: grant_effect_def)
  have counts: "grant_count d' action' k = grant_count d action' k + (if action' = action \<and> k = gj_id j then 1 else 0)"
    for action'
  proof -
    have "grant_event action' e \<longleftrightarrow> action' = action" using e(1) by (auto simp: grant_event_def)
    with a g(1) e(2) show ?thesis by (auto simp: e(3) grant_count_granted)
  qed
  have limits: "distinct (map fst GRANT_LIMITS)"
    by (simp add: GRANT_LIMITS_def INFRASTRUCTURE_RETRY_GRANT_ACTION_def RUNTIME_INSTANCE_TURNOVER_RETRY_GRANT_ACTION_def
        NEAR_BLACK_OUTPUT_RETRY_GRANT_ACTION_def)
  have sum: "all_grants d' k = all_grants d k + (if k = gj_id j then 1 else 0)"
    using assms(2) limits by (auto simp: all_grants_def counts GRANT_LIMITS_def)
  have job: "get_job k d' = (if k = gj_id j then Some (job_granted r code detail j) else get_job k d)"
    using row_get_mem [OF j] by (auto simp: e(3) row_get_put)
  have "grant_count d action' k \<le> grant_count d' action' k
      \<and> grant_count d' action' k \<le> max limit' (grant_count d action' k)" if l: "(action', limit') \<in> set GRANT_LIMITS" for action' limit'
  proof (cases "action' = action \<and> k = gj_id j")
    case True
    with l assms(2) limits have "limit' = limit" by (auto dest: eq_key_imp_eq_value)
    with True g(4) counts [of action'] show ?thesis by simp
  next
    case False
    then have "grant_count d' action' k = grant_count d action' k" using counts [of action'] by auto
    then show ?thesis by simp
  qed
  then show ?thesis
    unfolding within_limits_def using j g(2,3) by (auto simp: sum job job_granted_def)
qed

lemma retry_grant_within:
  assumes "retry_grant d d'" and "db_ok d"
  shows "within_limits d d' k \<and> db_ok d'"
  using assms(1)
proof cases
  case (infrastructure a j source actor r t g)
  from infrastructure_grant_effect [OF infrastructure(3)] show ?thesis
    using grant_within_limits [OF _ _ infrastructure(1,2)] grant_effect_ok [OF _ assms(2) infrastructure(2)] assms(2)
    by (auto simp: within_limits_refl GRANT_LIMITS_def)
next
  case (turnover a j x v source actor r t g)
  from turnover_grant_effect [OF turnover(3)] show ?thesis
    using grant_within_limits [OF _ _ turnover(1,2)] grant_effect_ok [OF _ assms(2) turnover(2)] assms(2)
    by (auto simp: within_limits_refl GRANT_LIMITS_def)
next
  case (near_black a j sha256 new_id source actor r t failed uploaded n)
  from near_black_grant_effect [OF near_black(3)] show ?thesis
    using grant_within_limits [OF _ _ near_black(1,2)] grant_effect_ok [OF _ assms(2) near_black(2)] assms(2)
    by (auto simp: within_limits_refl GRANT_LIMITS_def)
qed

lemma retry_grant_attempts: "retry_grant d d' \<Longrightarrow> db_attempts d' = db_attempts d"
proof (induction rule: retry_grant.induct)
  case (infrastructure a d j source actor r t d' g)
  from infrastructure_grant_effect [OF infrastructure(3)] show ?case by (auto elim!: grant_effect_cong)
next
  case (turnover a d j x v source actor r t d' g)
  from turnover_grant_effect [OF turnover(3)] show ?case by (auto elim!: grant_effect_cong)
next
  case (near_black a d j sha256 new_id source actor r t failed uploaded d' n)
  from near_black_grant_effect [OF near_black(3)] show ?case by (auto elim!: grant_effect_cong)
qed

lemma sweep_is_grants:
  assumes "fold (recover_dead_letter actor t) rows (d, ids) = (d', ids')" and "db_ok d"
    and "\<And>j a. (j, a) \<in> set rows \<Longrightarrow> a \<in> set (db_attempts d)"
  shows "retry_grant\<^sup>*\<^sup>* d d'"
  using assms
proof (induction rows arbitrary: d ids)
  case (Cons row rows)
  obtain j a where row: "row = (j, a)" by (cases row)
  obtain d1 ids1 where one: "recover_dead_letter actor t row (d, ids) = (d1, ids1)" by (cases "recover_dead_letter actor t row (d, ids)")
  have a: "get_attempt (ga_id a) d = Some a"
    using row_get_distinct [OF db_okD(9) [OF Cons.prems(2)]] Cons.prems(3) [of j a] row by simp
  have step: "retry_grant\<^sup>=\<^sup>= d d1"
  proof (cases "get_job (gj_id j) d")
    case None
    with one show ?thesis by (simp add: recover_dead_letter_def row)
  next
    case (Some j1)
    obtain g where "grant_infrastructure_retry d a j1 RetrySCHEDULER_RECOVERY actor t t = (d1, g)"
      using one Some by (auto simp: recover_dead_letter_def row split: prod.splits)
    with a Some row_get_key [OF Some] have "retry_grant d d1"
      by (intro retry_grant.infrastructure [of a d j1 RetrySCHEDULER_RECOVERY actor t t d1 g]) simp_all
    then show ?thesis by simp
  qed
  then have "db_ok d1" "db_attempts d1 = db_attempts d"
    using retry_grant_within Cons.prems(2) retry_grant_attempts by auto
  then have "retry_grant\<^sup>*\<^sup>* d1 d'"
    using Cons.prems one by (intro Cons.IH [of d1 ids1]) auto
  with step show ?case by (auto intro: converse_rtranclp_into_rtranclp)
qed simp

lemma grants_within:
  assumes "retry_grant\<^sup>*\<^sup>* d d'" and "db_ok d"
  shows "within_limits d d' k \<and> db_ok d'"
  using assms(1)
proof (induction rule: rtranclp_induct)
  case base
  then show ?case by (simp add: within_limits_refl assms(2))
next
  case (step d1 d2)
  then show ?case using retry_grant_within [of d1 d2] within_limits_trans by blast
qed

lemma retry_call_grants:
  assumes "retry_call d d'" and "db_ok d"
  shows "retry_grant\<^sup>*\<^sup>* d d'"
  using assms(1)
proof cases
  case (sweep locked clock actor limit now s)
  let ?t = "outbox_time clock now" and ?rows = "recovery_rows locked limit d"
  obtain ids where "fold (recover_dead_letter actor ?t) ?rows (d, []) = (d', ids)"
    using sweep by (auto simp: recover_dead_lettered_infrastructure_jobs_def Let_def split: if_splits prod.splits)
  moreover have "a \<in> set (db_attempts d)" if "(j, a) \<in> set ?rows" for j a
    using that unfolding recovery_rows_def by (auto dest!: in_set_takeD)
  ultimately show ?thesis using sweep_is_grants assms(2) by blast
qed auto

text \<open>C9: However the three kinds of grants and the sweep are repeated and interleaved, a job gets at most two further
  attempts for failures of the infrastructure, two for replaced instances and one for a nearly black output, and never more
  than ten attempts; its attempts grow by exactly the grants that are recorded; a job that succeeded, failed or was
  cancelled stays as it is.\<close>

theorem grants_are_bounded:
  assumes "retry_call\<^sup>*\<^sup>* d d'" and "db_ok d"
  shows "(\<forall>(action, limit) \<in> set GRANT_LIMITS. grant_count d' action k \<le> max limit (grant_count d action k))
    \<and> (\<forall>j. get_job k d = Some j \<longrightarrow> (\<exists>j'. get_job k d' = Some j'
         \<and> gj_max_attempts j' = gj_max_attempts j + (int (all_grants d' k) - int (all_grants d k))
         \<and> gj_max_attempts j' \<le> max 10 (gj_max_attempts j)
         \<and> (gj_state j \<in> {JobSUCCEEDED, JobFAILED, JobCANCELLED} \<longrightarrow> j' = j)))"
proof -
  have "retry_grant\<^sup>*\<^sup>* d d'" using assms
  proof (induction rule: rtranclp_induct)
    case (step d1 d2)
    then have "db_ok d1" using grants_within by blast
    with step show ?case using retry_call_grants rtranclp_trans [of retry_grant d d1 d2] by blast
  qed simp
  then have w: "within_limits d d' k" using grants_within assms(2) by blast
  have "\<exists>j'. get_job k d' = Some j'
         \<and> gj_max_attempts j' = gj_max_attempts j + (int (all_grants d' k) - int (all_grants d k))
         \<and> gj_max_attempts j' \<le> max 10 (gj_max_attempts j)
         \<and> (gj_state j \<in> {JobSUCCEEDED, JobFAILED, JobCANCELLED} \<longrightarrow> j' = j)" if "get_job k d = Some j" for j
  proof -
    from w that obtain j' where "get_job k d' = Some j'"
      "gj_max_attempts j' + int (all_grants d k) = gj_max_attempts j + int (all_grants d' k)"
      "gj_max_attempts j' \<le> max 10 (gj_max_attempts j)"
      "gj_state j \<in> set NON_RETRYABLE_JOB_STATES \<longrightarrow> j' = j" unfolding within_limits_def by blast
    then show ?thesis by (intro exI [of _ j']) (simp add: NON_RETRYABLE_JOB_STATES_def)
  qed
  with w show ?thesis unfolding within_limits_def by auto
qed

lemma grants_are_bounded_witness:
  "\<exists>d'. retry_call\<^sup>*\<^sup>* recovery_db d' \<and> (\<exists>j'. get_job 50 d' = Some j' \<and> gj_max_attempts j' = 4)"
proof -
  let ?run = "recover_dead_lettered_infrastructure_jobs (\<lambda>_. False) 0 recovery_db ''scheduler'' 16 (Some (Aware 100))"
  have "case ?run of Inl _ \<Rightarrow> False | Inr (d', s) \<Rightarrow> all_grants d' 50 = 1" by code_simp
  then obtain d' s where run: "?run = Inr (d', s)" "all_grants d' 50 = 1" by (auto split: sum.splits)
  then have call: "retry_call\<^sup>*\<^sup>* recovery_db d'" by (blast intro: retry_call.sweep)
  have job: "get_job 50 recovery_db = Some recovery_job"
    by (simp add: recovery_db_def recovery_job_def row_get_def)
  have "all_grants recovery_db 50 = 0" by code_simp
  with grants_are_bounded [OF call recovery_db_ok, of 50] job run(2) call show ?thesis
    by (auto simp: recovery_job_def)
qed

end
