(* ===== verification/BudgetRuns.thy ===== *)
theory BudgetRuns
  imports BudgetProperties "HOL-Library.Sublist"
begin

text \<open>
  Sequences of budget calls: the ledger of spend entries only grows, and a reservation whose
  submission is under way is never changed.
\<close>

section \<open>What single calls leave alone\<close>

definition reserved_submission :: "GenerationAttempt \<Rightarrow> bool" where
  "reserved_submission a \<longleftrightarrow> ga_state a = AttemptSUBMITTING \<and> 0 < ga_cost_reservation_microusd a
     \<and> ga_reservation_released_at a = None"

definition keeps_commitments :: "db \<Rightarrow> db \<Rightarrow> bool" where
  "keeps_commitments d d' \<longleftrightarrow> prefix (db_entries d) (db_entries d')
     \<and> (\<forall>k a. get_attempt k d = Some a \<longrightarrow> reserved_submission a \<longrightarrow> get_attempt k d' = Some a)"

lemma keeps_refl: "keeps_commitments d d"
  by (simp add: keeps_commitments_def)

lemma keeps_trans: "keeps_commitments a b \<Longrightarrow> keeps_commitments b c \<Longrightarrow> keeps_commitments a c"
  unfolding keeps_commitments_def by (meson prefix_order.trans)

lemma keeps_same: "db_entries d' = db_entries d \<Longrightarrow> db_attempts d' = db_attempts d \<Longrightarrow> keeps_commitments d d'"
  by (simp add: keeps_commitments_def)

lemma reevaluated_keeps:
  assumes "reevaluated d1 g t = (d', s)" and "db_ok d1" and "get_guard_locked d1 p = Some g"
    and "keeps_commitments d d1"
  shows "keeps_commitments d d'"
  using reevaluated_facts(2,3) [OF assms(1-3)] assms(4) by (simp add: keeps_commitments_def)

lemma put_attempt_keeps:
  assumes "get_attempt (ga_id a) d = Some old" and "\<not> reserved_submission old"
  shows "keeps_commitments d ((put_attempt a d)\<lparr>db_audits := as, db_guards := gs\<rparr>)"
  using assms by (auto simp: keeps_commitments_def row_get_put)

lemma set_guard_state_keeps: "set_guard_state d g r t = (d', g') \<Longrightarrow> keeps_commitments d d'"
  by (rule keeps_same) (simp_all add: set_guard_state_frame)

lemma reserve_keeps:
  assumes "reserve_attempt_budget clock d p0 k amount now = Inr (d', r)" and ok: "db_ok d"
  shows "keeps_commitments d d'"
proof -
  obtain p t g a where v: "validated_provider p0 = Inr p" "evaluation_time clock now = Inr t"
      "0 < amount" "amount \<le> MAX_BIGINT" "get_guard_locked d p = Some g" "get_attempt k d = Some a"
      "ga_provider a = p"
    using assms(1) by (auto simp: reserve_attempt_budget_def bindE_eq_Inr validate_positive_microusd_def)
  let ?reason = "limit_reason (evaluate_locked d g t) amount"
  obtain d1 g1 where st: "set_guard_state d g ?reason t = (d1, g1)" by (cases "set_guard_state d g ?reason t")
  obtain d2 s2 where re: "reevaluated d g t = (d2, s2)" by (cases "reevaluated d g t")
  note k1 = set_guard_state_keeps [OF st] and k2 = reevaluated_keeps [OF re ok v(5) keeps_refl]
  have "get_attempt (ga_id (reserved_attempt amount t a)) d1 = Some a"
    using v(6) row_get_key [OF v(6)] set_guard_state_frame(2) [OF st] by (simp add: reserved_attempt_def)
  then have k3: "keeps_commitments d ((put_attempt (reserved_attempt amount t a) d1)\<lparr>db_audits := as, db_guards := db_guards d1\<rparr>)"
    if "ga_state a = AttemptCREATED" for as
    using that by (intro keeps_trans [OF k1] put_attempt_keeps) (auto simp: reserved_submission_def)
  show ?thesis
    using assms(1) v st k1 k2 k3 re
    by (auto simp: reserve_attempt_budget_def validate_positive_microusd_def Let_def split: if_splits)
qed

lemma release_keeps:
  assumes "release_attempt_reservation clock d p0 k now = Inr (d', r)" and ok: "db_ok d"
  shows "keeps_commitments d d'"
proof -
  obtain p t g a where v: "validated_provider p0 = Inr p" "evaluation_time clock now = Inr t"
      "get_guard_locked d p = Some g" "get_attempt k d = Some a" "ga_provider a = p"
    using assms(1) by (auto simp: release_attempt_reservation_def bindE_eq_Inr)
  let ?d1 = "add_audit (budget_audit_event ''provider_budget.reservation_released'' ''generation_attempt''
      (ga_id a) (attempt_correlation a) [(''amount_microusd'', PInt (ga_cost_reservation_microusd a))] t)
      (put_attempt (released_attempt t a) d)"
  have "attempt_ok a" using db_okD(4) [OF ok] row_get_mem [OF v(4)] by blast
  then have ok1: "db_ok ?d1" using db_ok_put_attempt [OF ok] by (simp add: released_attempt_ok)
  have g1: "get_guard_locked ?d1 p = Some g" using v(3) by (simp add: get_guard_locked_def)
  obtain d2 s2 where re: "reevaluated d g t = (d2, s2)" by (cases "reevaluated d g t")
  obtain d3 s3 where re3: "reevaluated ?d1 g t = (d3, s3)" by (cases "reevaluated ?d1 g t")
  have "keeps_commitments d ?d1" if "ga_state a \<noteq> AttemptSUBMITTING"
  proof -
    have "get_attempt (ga_id (released_attempt t a)) d = Some a"
      using v(4) row_get_key [OF v(4)] by (simp add: released_attempt_def)
    from put_attempt_keeps [OF this, where as = "db_audits ?d1" and gs = "db_guards d"] that show ?thesis
      by (simp add: reserved_submission_def)
  qed
  note k1 = this [THEN reevaluated_keeps [OF re3 ok1 g1]] and k2 = reevaluated_keeps [OF re ok v(3) keeps_refl]
  show ?thesis
    using assms(1) v re re3 k1 k2
    by (auto simp: release_attempt_reservation_def Let_def terminal_attempt_states_def split: if_splits)
qed

lemma record_spend_keeps:
  assumes "record_spend_entry new_id clock d p0 key0 ty amount eff0 ak dk now = Inr (d', r)"
    and ok: "db_ok d" and new: "new_id \<notin> se_id ` set (db_entries d)"
  shows "keeps_commitments d d'"
  using assms(1)
proof (cases rule: record_spend_cases)
  case (replay p key eff t g existing)
  show ?thesis by (rule reevaluated_keeps [OF replay(9) [symmetric] ok replay(6) keeps_refl])
next
  case (fresh p key eff t g)
  from fresh_entry_ok [OF fresh(3,7) ok new] fresh(6,8) show ?thesis
    by (intro reevaluated_keeps [OF fresh(8) [symmetric]])
      (auto simp: get_guard_locked_def keeps_commitments_def)
qed

lemma budget_call_keeps:
  assumes "budget_call d d'" and ok: "db_ok d"
  shows "keeps_commitments d d'"
  using assms(1)
proof cases
  case (ensure new_id clock p dl ml now s)
  from ensure_ok(2) [OF ensure(1) ok] show ?thesis by (auto intro: keeps_same)
next
  case (reevaluate clock p now s)
  then obtain q t g where "get_guard_locked d q = Some g" "reevaluated d g t = (d', s)"
    by (auto simp: reevaluate_budget_guard_def bindE_eq_Inr)
  then show ?thesis using reevaluated_keeps ok keeps_refl by blast
next
  case (preflight clock p amount now r)
  then show ?thesis by (rule preflight_effect) (rule set_guard_state_keeps)
next
  case (reserve clock p k amount now r)
  then show ?thesis using reserve_keeps ok by blast
next
  case (record_spend new_id clock p key ty amount eff ak dk now r)
  then show ?thesis using record_spend_keeps ok by blast
next
  case (release clock p k now r)
  then show ?thesis using release_keeps ok by blast
qed

interpretation alone_keeps: invariant_system budget_call "\<lambda>d. db_ok d \<and> keeps_commitments d0 d" for d0
  by unfold_locales (auto intro: budget_call_ok budget_call_keeps keeps_trans)

lemma budget_step_keeps:
  assumes "budget_step d d'" and ok: "db_ok d"
  shows "keeps_commitments d d'"
  using assms(1)
proof cases
  case call
  then show ?thesis using ok by (rule budget_call_keeps)
next
  case (race interfere new_id clock p dl ml now s)
  have "db_ok (interfere x)" if "db_ok x" for x
    using alone_keeps.reachable_keeps [OF race(2)] that keeps_refl by blast
  from ensure_ok(2) [OF race(1) ok this] alone_keeps.reachable_keeps [OF race(2), of d d]
  show ?thesis using ok keeps_refl keeps_trans keeps_same by blast
qed

interpretation run_keeps: invariant_system budget_step "\<lambda>d. db_ok d \<and> keeps_commitments d0 d" for d0
  by unfold_locales (auto intro: budget_step_ok budget_step_keeps keeps_trans)

end
