(* ===== verification/BudgetTheorems.thy ===== *)
theory BudgetTheorems
  imports BudgetRuns
begin

text \<open>
  The theorems about the budget guard. The witnesses run on a small database: one guard of the
  provider ''salad'' with a daily limit of 10 USD and a monthly limit of 200 USD, one attempt that
  is not reserved yet and one that failed and still holds its reservation.
\<close>

section \<open>A sample database\<close>

definition sample_guard :: ProviderBudgetGuard where
  "sample_guard = \<lparr>pb_id = 7, pb_provider = ''salad'', pb_currency = ''USD'',
     pb_daily_limit_microusd = 10000000, pb_monthly_limit_microusd = 200000000, pb_state = BudgetOPEN,
     pb_blocked_reason = None, pb_blocked_at = None, pb_lock_version = 1, pb_updated_at = 0\<rparr>"

definition sample_attempt :: GenerationAttempt where
  "sample_attempt = \<lparr>ga_id = 21, ga_job_id = 20, ga_attempt_no = 1, ga_provider = ''salad'',
     ga_salad_deployment_id = None, ga_provider_external_id = None, ga_state = AttemptCREATED, ga_request_metadata = [],
     ga_response_metadata = None, ga_submit_started_at = None, ga_submitted_at = None,
     ga_started_at = None, ga_completed_at = None, ga_last_observed_at = None, ga_unknown_since = None,
     ga_provider_state = None, ga_cost_reservation_microusd = 0, ga_reservation_released_at = None,
     ga_lock_version = 1, ga_error_code = None, ga_error_detail = None,
     ga_submission_key = ''k'', ga_request_sha256 = ''r'', ga_worker_image_digest = ''i''\<rparr>"

definition sample_failed_attempt :: GenerationAttempt where
  "sample_failed_attempt = sample_attempt\<lparr>ga_id := 22, ga_attempt_no := 2, ga_state := AttemptFAILED,
     ga_completed_at := Some 5, ga_cost_reservation_microusd := 3000000\<rparr>"

definition sample_db :: db where
  "sample_db = empty_db\<lparr>db_guards := [sample_guard],
     db_attempts := [sample_attempt, sample_failed_attempt]\<rparr>"

definition sample_now :: "pydatetime option" where
  "sample_now = Some (Aware (2026 * 365 * us_per_day))"

lemma sample_db_ok: "db_ok sample_db"
  by (simp add: db_ok_def sample_db_def empty_db_def guard_ok_def attempt_ok_def sample_guard_def
      sample_attempt_def sample_failed_attempt_def)

lemma evaluate_with_guard [simp]: "with_guard (evaluate_locked d g t) g = evaluate_locked d g t"
  by (simp add: with_guard_def evaluate_locked_def Let_def)

lemma sum_case_cong: "(case x of Inl e \<Rightarrow> False | Inr y \<Rightarrow> P y) \<Longrightarrow> \<exists>y. x = Inr y \<and> P y"
  by (cases x) auto

lemma sample_guard_found: "get_guard_locked sample_db ''salad'' = Some sample_guard"
  "validated_provider ''salad'' = Inr ''salad''"
  "evaluation_time 0 sample_now = Inr (2026 * 365 * us_per_day)"
  by code_simp+

lemma sample_attempt_found: "get_attempt 21 sample_db = Some sample_attempt"
  by code_simp

section \<open>Reservations\<close>

text \<open>C4: An accepted reservation never crosses a hard limit. When \<open>reserve_attempt_budget\<close> accepts a
  new reservation, the snapshot it returns is the evaluation of the database it leaves behind, the
  day's and the month's commitment have grown by exactly the amount reserved, both stay within the
  limits of the guard, and the guard is open.\<close>

theorem reserve_within_limits:
  assumes "db_ok d" and "reserve_attempt_budget clock d p0 k amount now = Inr (d', r)"
    and "rd_accepted r" and "\<not> rd_replayed r"
  shows "\<exists>p t g g'. validated_provider p0 = Inr p \<and> evaluation_time clock now = Inr t
     \<and> get_guard_locked d p = Some g \<and> get_guard_locked d' p = Some g'
     \<and> rd_snapshot r = evaluate_locked d' g' t \<and> pb_state g' = BudgetOPEN
     \<and> bs_daily_committed_microusd (rd_snapshot r)
         = bs_daily_committed_microusd (evaluate_locked d g t) + amount
     \<and> bs_monthly_committed_microusd (rd_snapshot r)
         = bs_monthly_committed_microusd (evaluate_locked d g t) + amount
     \<and> bs_daily_committed_microusd (rd_snapshot r) \<le> pb_daily_limit_microusd g
     \<and> bs_monthly_committed_microusd (rd_snapshot r) \<le> pb_monthly_limit_microusd g"
proof (rule reserve_accepted [OF assms(2,1,3,4)])
  fix p t g g' a d1
  assume a: "validated_provider p0 = Inr p" "evaluation_time clock now = Inr t" "0 < amount"
    "get_guard_locked d p = Some g" "get_attempt k d = Some a" "ga_provider a = p"
    "ga_cost_reservation_microusd a = 0" "ga_reservation_released_at a = None"
    "limit_reason (evaluate_locked d g t) amount = None" "set_guard_state d g None t = (d1, g')"
    "\<exists>as. d' = (put_attempt (reserved_attempt amount t a) d1)\<lparr>db_audits := as\<rparr>"
    "rd_snapshot r = with_guard (evaluate_locked d' g' t) g'"
  let ?a = "reserved_attempt amount t a"
  note fr = set_guard_state_frame [OF a(10)]
  have get: "get_attempt (ga_id ?a) d = Some a" using a(5) row_get_key [OF a(5)] by (simp add: reserved_attempt_def)
  have pg: "pb_provider g = p" using get_guard_locked_get [OF assms(1) a(4)] by simp
  have ev: "evaluate_locked d' g' t = with_guard (evaluate_locked (put_attempt ?a d) g t) g'"
    using a(11) fr by (intro evaluate_frame) auto
  have delta: "amount = (if active_reservation (pb_provider g) ?a then ga_cost_reservation_microusd ?a else 0)
       - (if active_reservation (pb_provider g) a then ga_cost_reservation_microusd a else 0)"
    using a(3,6,7,8) pg by (simp add: active_reservation_def reserved_attempt_def)
  have g': "get_guard_locked d' p = Some g'"
    using set_guard_state_lookup [OF a(10) assms(1) a(4)] a(11) by (auto simp: get_guard_locked_def)
  have "pb_state g' = BudgetOPEN" using fr by simp
  with a(1,2,4,9,12) g' ev evaluate_put_attempt [OF assms(1) get delta, of t] show ?thesis
    by (auto simp: limit_reason_None)
qed

definition sample_reserve :: "budget_error + (db \<times> ReservationDecision)" where
  "sample_reserve = reserve_attempt_budget 0 sample_db ''salad'' 21 4000000 sample_now"

lemma sample_reserve_ok:
  obtains d r where "reserve_attempt_budget 0 sample_db ''salad'' 21 4000000 sample_now = Inr (d, r)"
    "rd_accepted r" "\<not> rd_replayed r"
    "get_attempt 21 d = Some (reserved_attempt 4000000 (2026 * 365 * us_per_day) sample_attempt)"
proof -
  have "case sample_reserve of Inl e \<Rightarrow> False | Inr x \<Rightarrow> rd_accepted (snd x) \<and> \<not> rd_replayed (snd x)
      \<and> get_attempt 21 (fst x) = Some (reserved_attempt 4000000 (2026 * 365 * us_per_day) sample_attempt)"
    by code_simp
  from sum_case_cong [OF this] that show thesis by (auto simp: sample_reserve_def)
qed

lemma reserve_within_limits_witness:
  "\<exists>d r. reserve_attempt_budget 0 sample_db ''salad'' 21 4000000 sample_now = Inr (d, r)
     \<and> bs_daily_committed_microusd (rd_snapshot r) \<le> 10000000"
proof (rule sample_reserve_ok)
  fix d r
  assume run: "reserve_attempt_budget 0 sample_db ''salad'' 21 4000000 sample_now = Inr (d, r)"
    "rd_accepted r" "\<not> rd_replayed r"
  from reserve_within_limits [OF sample_db_ok run] have "bs_daily_committed_microusd (rd_snapshot r) \<le> 10000000"
    by (auto simp: sample_guard_found sample_guard_def)
  with run(1) show ?thesis by blast
qed

text \<open>The admission decision is exact. On an attempt that is created and not reserved,
  \<open>reserve_attempt_budget\<close> always returns; it accepts exactly when the day's and the month's
  commitment plus the amount fit the limits; when it refuses, the ledger, the attempts, the
  deployments and the leases are unchanged and the guard is left BLOCKED with the reason returned.\<close>

theorem reserve_decides_exactly:
  assumes "db_ok d" and "validated_provider p0 = Inr p" and "evaluation_time clock now = Inr t"
    and "0 < amount" and "amount \<le> MAX_BIGINT" and "get_guard_locked d p = Some g"
    and "get_attempt k d = Some a" and "ga_provider a = p" and "ga_state a = AttemptCREATED"
    and "ga_cost_reservation_microusd a = 0" and "ga_reservation_released_at a = None"
  shows "\<exists>d' r. reserve_attempt_budget clock d p0 k amount now = Inr (d', r) \<and> \<not> rd_replayed r
     \<and> (rd_accepted r \<longleftrightarrow>
          bs_daily_committed_microusd (evaluate_locked d g t) + amount \<le> pb_daily_limit_microusd g
        \<and> bs_monthly_committed_microusd (evaluate_locked d g t) + amount \<le> pb_monthly_limit_microusd g)
     \<and> (\<not> rd_accepted r \<longrightarrow> db_entries d' = db_entries d \<and> db_attempts d' = db_attempts d
          \<and> db_deployments d' = db_deployments d \<and> db_leases d' = db_leases d
          \<and> (\<exists>g'. get_guard_locked d' p = Some g' \<and> pb_state g' = BudgetBLOCKED
               \<and> pb_blocked_reason g' = rd_reason r \<and> rd_reason r \<noteq> None))"
proof -
  let ?reason = "limit_reason (evaluate_locked d g t) amount"
  obtain d1 g1 where st: "set_guard_state d g ?reason t = (d1, g1)" by (cases "set_guard_state d g ?reason t")
  note run = reserve_attempt_budget_def Let_def validate_positive_microusd_def
  show ?thesis
  proof (cases "?reason = None")
    case True
    then show ?thesis using assms st by (auto simp: run limit_reason_None)
  next
    case False
    note fr = set_guard_state_frame [OF st]
    from False have "\<not> (bs_daily_committed_microusd (evaluate_locked d g t) + amount \<le> pb_daily_limit_microusd g
        \<and> bs_monthly_committed_microusd (evaluate_locked d g t) + amount \<le> pb_monthly_limit_microusd g)"
      by (simp add: limit_reason_None)
    then show ?thesis
      using assms st False fr set_guard_state_lookup [OF st assms(1,6)] by (auto simp: run)
  qed
qed

lemma reserve_decides_exactly_witness:
  "\<exists>d' r. reserve_attempt_budget 0 sample_db ''salad'' 21 8000000 sample_now = Inr (d', r) \<and> \<not> rd_accepted r"
proof -
  have "bs_daily_committed_microusd (evaluate_locked sample_db sample_guard (2026 * 365 * us_per_day)) = 3000000"
    by code_simp
  with reserve_decides_exactly [OF sample_db_ok sample_guard_found(2,3) _ _ sample_guard_found(1)
      sample_attempt_found, of 8000000]
  show ?thesis by (auto simp: MAX_BIGINT_def sample_attempt_def sample_guard_def)
qed

text \<open>A reservation is idempotent. After an accepted reservation, the same request at any later
  time is accepted as a replay and changes no attempt and no ledger entry, while a request for
  another amount is refused as a conflict.\<close>

theorem reserve_idempotent:
  assumes "db_ok d" and "reserve_attempt_budget clock d p0 k amount now = Inr (d', r)"
    and "rd_accepted r" and "evaluation_time clock2 now2 = Inr t2"
  shows "(\<exists>d'' r'. reserve_attempt_budget clock2 d' p0 k amount now2 = Inr (d'', r')
       \<and> rd_accepted r' \<and> rd_replayed r' \<and> db_attempts d'' = db_attempts d' \<and> db_entries d'' = db_entries d')
     \<and> (\<forall>other. 0 < other \<and> other \<le> MAX_BIGINT \<and> other \<noteq> amount \<longrightarrow>
          reserve_attempt_budget clock2 d' p0 k other now2
            = Inl (BudgetConflictError ''generation attempt is not reservable''))"
proof -
  obtain p g a where s: "validated_provider p0 = Inr p" "0 < amount" "amount \<le> MAX_BIGINT" "db_ok d'"
      "get_guard_locked d' p = Some g" "get_attempt k d' = Some a" "ga_provider a = p"
      "ga_cost_reservation_microusd a = amount" "ga_reservation_released_at a = None"
      "ga_state a = AttemptSUBMITTING"
    by (rule reserve_leaves_reserved [OF assms(2,1,3)])
  obtain d2 s2 where re: "reevaluated d' g t2 = (d2, s2)" by (cases "reevaluated d' g t2")
  note run = reserve_attempt_budget_def Let_def validate_positive_microusd_def
  from s re assms(4) reevaluated_facts(2,3) [OF re s(4,5)] show ?thesis by (auto simp: run)
qed

lemma reserve_idempotent_witness:
  "\<exists>d r d2 r2. reserve_attempt_budget 0 sample_db ''salad'' 21 4000000 sample_now = Inr (d, r)
     \<and> reserve_attempt_budget 0 d ''salad'' 21 4000000 sample_now = Inr (d2, r2) \<and> rd_replayed r2
     \<and> reserve_attempt_budget 0 d ''salad'' 21 5000000 sample_now
         = Inl (BudgetConflictError ''generation attempt is not reservable'')"
proof (rule sample_reserve_ok)
  fix d r
  assume run: "reserve_attempt_budget 0 sample_db ''salad'' 21 4000000 sample_now = Inr (d, r)" "rd_accepted r"
  from reserve_idempotent [OF sample_db_ok run sample_guard_found(3)] run(1) show ?thesis
    by (auto simp: MAX_BIGINT_def)
qed

section \<open>The ledger\<close>

text \<open>Spend is recorded exactly once. The first \<open>record_spend_entry\<close> under a key appends exactly
  one row; the same call at any later time is a replay that returns the same entry and leaves the
  ledger as it is; a call under the same key with other data is refused as a conflict.\<close>

theorem record_spend_once:
  assumes "db_ok d" and "new_id \<notin> se_id ` set (db_entries d)"
    and "record_spend_entry new_id clock d p0 key ty amount eff ak dk now = Inr (d', r)"
    and "evaluation_time clock2 now2 = Inr t2"
  shows "(\<exists>e. db_entries d' = db_entries d @ (if sr_replayed r then [] else [e])
            \<and> sr_entry_id r \<in> se_id ` set (db_entries d'))
     \<and> (\<exists>d'' r'. record_spend_entry id2 clock2 d' p0 key ty amount eff ak dk now2 = Inr (d'', r')
            \<and> sr_replayed r' \<and> sr_entry_id r' = sr_entry_id r \<and> db_entries d'' = db_entries d')
     \<and> (\<forall>ty2 amount2. (ty2, amount2) \<noteq> (ty, amount) \<and> validate_spend_amount ty2 amount2 = Inr () \<longrightarrow>
          record_spend_entry id2 clock2 d' p0 key ty2 amount2 eff ak dk now2
            = Inl (BudgetConflictError ''spend idempotency key conflicts with stored data''))"
proof -
  obtain p k t g e where s: "validated_provider p0 = Inr p" "validated_dedupe_key key = Inr k"
      "validate_spend_amount ty amount = Inr ()" "budget_as_utc eff = Inr t" "db_ok d'"
      "get_guard_locked d' p = Some g"
      "find (\<lambda>x. se_budget_guard_id x = pb_id g \<and> se_dedupe_key x = k) (db_entries d') = Some e"
      "same_spend_entry e ty amount t ak dk" "sr_entry_id r = se_id e" "e \<in> set (db_entries d')"
      "db_entries d' = db_entries d @ (if sr_replayed r then [] else [e])"
    by (rule record_spend_leaves_entry [OF assms(3,1,2)])
  obtain d2 s2 where re: "reevaluated d' g t2 = (d2, s2)" by (cases "reevaluated d' g t2")
  from s re assms(4) reevaluated_facts(2) [OF re s(5,6)]
  have "\<exists>d'' r'. record_spend_entry id2 clock2 d' p0 key ty amount eff ak dk now2 = Inr (d'', r')
            \<and> sr_replayed r' \<and> sr_entry_id r' = sr_entry_id r \<and> db_entries d'' = db_entries d'"
    by (auto simp: record_spend_entry_def)
  moreover have "\<forall>ty2 amount2. (ty2, amount2) \<noteq> (ty, amount) \<and> validate_spend_amount ty2 amount2 = Inr () \<longrightarrow>
          record_spend_entry id2 clock2 d' p0 key ty2 amount2 eff ak dk now2
            = Inl (BudgetConflictError ''spend idempotency key conflicts with stored data'')"
    using s assms(4) by (auto simp: record_spend_entry_def same_spend_entry_def)
  ultimately show ?thesis using s(9-11) by blast
qed

lemma sample_spend_ok:
  obtains d r where "record_spend_entry 31 0 sample_db ''salad'' ''gpu:1'' SpendUSAGE 2500000
      (Aware (2026 * 365 * us_per_day)) None None sample_now = Inr (d, r)" "\<not> sr_replayed r" "length (db_entries d) = 1"
proof -
  have "case record_spend_entry 31 0 sample_db ''salad'' ''gpu:1'' SpendUSAGE 2500000
      (Aware (2026 * 365 * us_per_day)) None None sample_now of
      Inl e \<Rightarrow> False | Inr x \<Rightarrow> \<not> sr_replayed (snd x) \<and> length (db_entries (fst x)) = 1"
    by code_simp
  from sum_case_cong [OF this] that show thesis by auto
qed

lemma record_spend_once_witness:
  "\<exists>d r d2 r2. record_spend_entry 31 0 sample_db ''salad'' ''gpu:1'' SpendUSAGE 2500000
        (Aware (2026 * 365 * us_per_day)) None None sample_now = Inr (d, r)
     \<and> record_spend_entry 32 0 d ''salad'' ''gpu:1'' SpendUSAGE 2500000
        (Aware (2026 * 365 * us_per_day)) None None sample_now = Inr (d2, r2)
     \<and> length (db_entries d) = 1 \<and> db_entries d2 = db_entries d"
proof (rule sample_spend_ok)
  fix d r
  assume run: "record_spend_entry 31 0 sample_db ''salad'' ''gpu:1'' SpendUSAGE 2500000
      (Aware (2026 * 365 * us_per_day)) None None sample_now = Inr (d, r)" "\<not> sr_replayed r"
  have new: "31 \<notin> se_id ` set (db_entries sample_db)" and "db_entries sample_db = []"
    by (simp_all add: sample_db_def empty_db_def)
  with record_spend_once [OF sample_db_ok new run(1) sample_guard_found(3), of 32] run
  show ?thesis by fastforce
qed

text \<open>The ledger adds up. A usage entry recorded with an effective time in the current day raises
  the daily and the monthly commitment of the guard by exactly its amount.\<close>

theorem record_spend_counts:
  assumes "db_ok d" and "new_id \<notin> se_id ` set (db_entries d)"
    and "record_spend_entry new_id clock d p0 key SpendUSAGE amount (Aware e) ak None (Some (Aware t)) = Inr (d', r)"
    and "\<not> sr_replayed r" and "day_start_of t \<le> e" and "e < day_start_of t + us_per_day"
    and "validated_provider p0 = Inr p" and "get_guard_locked d p = Some g"
  shows "0 < amount
     \<and> bs_daily_committed_microusd (sr_snapshot r) = bs_daily_committed_microusd (evaluate_locked d g t) + amount
     \<and> bs_monthly_committed_microusd (sr_snapshot r) = bs_monthly_committed_microusd (evaluate_locked d g t) + amount
     \<and> (bs_state (sr_snapshot r) = BudgetBLOCKED \<longleftrightarrow>
          \<not> (bs_daily_committed_microusd (sr_snapshot r) \<le> pb_daily_limit_microusd g
            \<and> bs_monthly_committed_microusd (sr_snapshot r) \<le> pb_monthly_limit_microusd g))"
  using assms(3)
proof (cases rule: record_spend_cases)
  case (fresh p' key' eff t' g')
  then have v: "p' = p" "eff = e" "t' = t" "g' = g" "0 < amount"
    using assms(7,8)
    by (auto simp: budget_as_utc_def evaluation_time_def validate_spend_amount_def split: if_splits)
  let ?row = "spend_row new_id (pb_id g) key' SpendUSAGE amount e ak None t"
  let ?d1 = "add_audit (spend_recorded_event new_id amount SpendUSAGE t) (d\<lparr>db_entries := db_entries d @ [?row]\<rparr>)"
  have ok1: "db_ok ?d1" using fresh(3,7) assms(1,2) unfolding v by (rule fresh_entry_ok)
  have g1: "get_guard_locked ?d1 p = Some g" using assms(8) by (simp add: get_guard_locked_def)
  have re: "reevaluated ?d1 g t = (d', sr_snapshot r)" using fresh(8) by (simp add: v)
  have month: "month_start_of t \<le> e" "e < month_end_of t" using assms(5,6) day_in_month [of t] by simp_all
  have "realized_lease_usage ?d1 l = realized_lease_usage d l" for l
    by (simp add: realized_lease_usage_def spend_row_def)
  then have grow: "bs_daily_committed_microusd (evaluate_locked ?d1 g t) = bs_daily_committed_microusd (evaluate_locked d g t) + amount"
    "bs_monthly_committed_microusd (evaluate_locked ?d1 g t) = bs_monthly_committed_microusd (evaluate_locked d g t) + amount"
    using assms(5,6) month
    by (simp_all add: evaluate_locked_def Let_def spend_between_def spend_row_def active_reservations_def
        active_warm_leases_def)
  have lim: "limit_reason (evaluate_locked ?d1 g t) 0 = None \<longleftrightarrow>
      bs_daily_committed_microusd (evaluate_locked ?d1 g t) \<le> pb_daily_limit_microusd g
      \<and> bs_monthly_committed_microusd (evaluate_locked ?d1 g t) \<le> pb_monthly_limit_microusd g"
    by (simp add: limit_reason_None)
  from reevaluated_facts(6) [OF re ok1 g1] obtain h where
    "sr_snapshot r = with_guard (evaluate_locked ?d1 g t) h"
    "pb_state h = (if limit_reason (evaluate_locked ?d1 g t) 0 = None then BudgetOPEN else BudgetBLOCKED)"
    by blast
  then show ?thesis using v(5) grow lim by simp
qed (use assms(4) in simp)

lemma record_spend_counts_witness:
  "\<exists>d r. record_spend_entry 31 0 sample_db ''salad'' ''gpu:1'' SpendUSAGE 2500000
        (Aware (2026 * 365 * us_per_day)) None None sample_now = Inr (d, r)
     \<and> bs_daily_committed_microusd (sr_snapshot r) = 5500000"
proof (rule sample_spend_ok)
  fix d r
  assume run: "record_spend_entry 31 0 sample_db ''salad'' ''gpu:1'' SpendUSAGE 2500000
      (Aware (2026 * 365 * us_per_day)) None None sample_now = Inr (d, r)" "\<not> sr_replayed r"
  have new: "31 \<notin> se_id ` set (db_entries sample_db)" by (simp add: sample_db_def empty_db_def)
  have before: "bs_daily_committed_microusd (evaluate_locked sample_db sample_guard (2026 * 365 * us_per_day)) = 3000000"
    by code_simp
  have day: "day_start_of (2026 * 365 * us_per_day) \<le> 2026 * 365 * us_per_day"
    "2026 * 365 * us_per_day < day_start_of (2026 * 365 * us_per_day) + us_per_day" by code_simp+
  from record_spend_counts [OF sample_db_ok new run(1) [unfolded sample_now_def] run(2) day
      sample_guard_found(2,1)] before run
  show ?thesis by (intro exI [of _ d] exI [of _ r]) simp
qed

section \<open>Releases and re-evaluation\<close>

text \<open>A reservation is released once. Releasing the reservation of a definitively finished attempt
  lowers the active reservations of its provider by exactly the reserved amount and marks the
  attempt; releasing it again at any later time is a replay that changes no attempt; and an
  attempt that is not in a terminal state keeps its reservation.\<close>

theorem release_once:
  assumes "db_ok d" and "validated_provider p0 = Inr p" and "evaluation_time clock now = Inr t"
    and "evaluation_time clock2 now2 = Inr t2" and "get_guard_locked d p = Some g"
    and "get_attempt k d = Some a" and "ga_provider a = p" and "0 < ga_cost_reservation_microusd a"
    and "ga_reservation_released_at a = None"
  shows "if ga_state a \<in> set terminal_attempt_states
     then \<exists>d' r. release_attempt_reservation clock d p0 k now = Inr (d', r) \<and> rr_released r
         \<and> get_attempt k d' = Some (released_attempt t a)
         \<and> active_reservations d' p = active_reservations d p - ga_cost_reservation_microusd a
         \<and> (\<exists>d'' r'. release_attempt_reservation clock2 d' p0 k now2 = Inr (d'', r')
              \<and> rr_replayed r' \<and> db_attempts d'' = db_attempts d')
     else release_attempt_reservation clock d p0 k now
            = Inl (BudgetConflictError ''reservation requires a definitive terminal attempt'')"
proof (cases "ga_state a \<in> set terminal_attempt_states")
  case False
  with assms show ?thesis by (simp add: release_attempt_reservation_def)
next
  case True
  let ?a = "released_attempt t a"
  let ?d1 = "add_audit (budget_audit_event ''provider_budget.reservation_released'' ''generation_attempt''
      (ga_id a) (attempt_correlation a) [(''amount_microusd'', PInt (ga_cost_reservation_microusd a))] t)
      (put_attempt ?a d)"
  have aok: "attempt_ok a" using db_okD(4) [OF assms(1)] row_get_mem [OF assms(6)] by blast
  then have completed: "ga_completed_at a \<noteq> None" using True by (auto simp: attempt_ok_def terminal_attempt_states_def)
  have ok1: "db_ok ?d1" using db_ok_put_attempt [OF assms(1)] aok by (simp add: released_attempt_ok)
  have g1: "get_guard_locked ?d1 p = Some g" using assms(5) by (simp add: get_guard_locked_def)
  have id: "ga_id ?a = k" "ga_id a = k" using row_get_key [OF assms(6)] by (simp_all add: released_attempt_def)
  obtain d2 s2 where re: "reevaluated ?d1 g t = (d2, s2)" by (cases "reevaluated ?d1 g t")
  note f = reevaluated_facts [OF re ok1 g1]
  have "k \<in> ga_id ` set (db_attempts d)" using assms(6) by (metis option.distinct(1) row_get_None)
  then have a2: "get_attempt k d2 = Some ?a" using f(3) id by (simp add: row_get_put)
  have drop: "active_reservations d2 p = active_reservations d p - ga_cost_reservation_microusd a"
    using active_reservations_put [OF assms(1), of ?a a p] assms(6-9) id f(3)
    by (simp add: active_reservation_def released_attempt_def active_reservations_def)
  from f(6) obtain g2 where g2: "get_guard_locked d2 p = Some g2" by blast
  obtain d3 s3 where re3: "reevaluated d2 g2 t2 = (d3, s3)" by (cases "reevaluated d2 g2 t2")
  have "release_attempt_reservation clock d p0 k now = Inr (d2, \<lparr>rr_released = True, rr_replayed = False, rr_snapshot = s2\<rparr>)"
    using assms True completed re by (simp add: release_attempt_reservation_def Let_def)
  moreover have "release_attempt_reservation clock2 d2 p0 k now2
      = Inr (d3, \<lparr>rr_released = False, rr_replayed = True, rr_snapshot = s3\<rparr>)"
    using assms(2,4,7,8) True completed re3 g2 a2 by (simp add: release_attempt_reservation_def released_attempt_def)
  ultimately show ?thesis using True a2 drop reevaluated_facts(3) [OF re3 f(1) g2] by simp
qed

lemma release_once_witness:
  "\<exists>d r. release_attempt_reservation 0 sample_db ''salad'' 22 sample_now = Inr (d, r)
     \<and> active_reservations d ''salad'' = 0"
proof -
  have a: "get_attempt 22 sample_db = Some sample_failed_attempt" by code_simp
  have "active_reservations sample_db ''salad'' = 3000000" by code_simp
  with release_once [OF sample_db_ok sample_guard_found(2,3,3,1) a] show ?thesis
    by (auto simp: sample_failed_attempt_def sample_attempt_def terminal_attempt_states_def)
qed

text \<open>C32: The kill switch. \<open>reevaluate_budget_guard\<close> leaves the guard BLOCKED, with the reason, exactly
  when a commitment exceeds its limit, and OPEN otherwise; when it blocks the provider ''salad'',
  no deployment is left that is desired to run and no warm lease is left alive; the ledger and the
  attempts never change.\<close>

theorem reevaluate_blocks_exactly:
  assumes "db_ok d" and "validated_provider p0 = Inr p" and "evaluation_time clock now = Inr t"
    and "get_guard_locked d p = Some g"
  shows "\<exists>d' s g'. reevaluate_budget_guard clock d p0 now = Inr (d', s) \<and> get_guard_locked d' p = Some g'
     \<and> (pb_state g' = BudgetBLOCKED \<longleftrightarrow>
          pb_daily_limit_microusd g < bs_daily_committed_microusd (evaluate_locked d g t)
          \<or> pb_monthly_limit_microusd g < bs_monthly_committed_microusd (evaluate_locked d g t))
     \<and> (pb_blocked_reason g' \<noteq> None \<longleftrightarrow> pb_state g' = BudgetBLOCKED)
     \<and> (pb_state g' = BudgetBLOCKED \<and> p = ''salad'' \<longrightarrow>
          (\<forall>x \<in> set (db_deployments d'). sd_desired_state x = DesiredSTOPPED)
          \<and> (\<forall>l \<in> set (db_leases d'). \<not> live_lease l))
     \<and> db_entries d' = db_entries d \<and> db_attempts d' = db_attempts d"
proof -
  obtain d' s where re: "reevaluated d g t = (d', s)" by (cases "reevaluated d g t")
  let ?reason = "limit_reason (evaluate_locked d g t) 0"
  have over: "?reason \<noteq> None \<longleftrightarrow>
      pb_daily_limit_microusd g < bs_daily_committed_microusd (evaluate_locked d g t)
      \<or> pb_monthly_limit_microusd g < bs_monthly_committed_microusd (evaluate_locked d g t)"
    by (auto simp: limit_reason_def)
  have run: "reevaluate_budget_guard clock d p0 now = Inr (d', s)"
    using assms(2-4) re by (simp add: reevaluate_budget_guard_def)
  note f = reevaluated_facts [OF re assms(1,4)]
  from f(6) obtain g' where g': "get_guard_locked d' p = Some g'"
    "pb_state g' = (if ?reason = None then BudgetOPEN else BudgetBLOCKED)" "pb_blocked_reason g' = ?reason" by blast
  show ?thesis
    by (intro exI [of _ d'] exI [of _ s] exI [of _ g'])
      (use run g' over f(2,3,7) in \<open>auto split: if_splits\<close>)
qed

definition sample_overrun_db :: db where
  "sample_overrun_db = sample_db\<lparr>
     db_attempts := [sample_failed_attempt\<lparr>ga_cost_reservation_microusd := 11000000\<rparr>],
     db_deployments := [\<lparr>sd_id = 41, sd_version_no = 3, sd_config_sha256 = ''c'', sd_provider_configuration = [],
       sd_worker_image_digest = ''i'', sd_queue_name = ''queue'', sd_provider_queue_id = Some ''q'',
       sd_container_group_name = ''worker'',
       sd_provider_container_group_id = Some ''g'', sd_purpose = PurposeIMAGE, sd_state = DeploymentACTIVE,
       sd_desired_state = DesiredACTIVE, sd_administrative_stop_reason = None, sd_is_current = True, sd_min_replicas = 0, sd_max_replicas = 1,
       sd_desired_queue_length = 1, sd_observed_replicas = None, sd_ready_replicas = None,
       sd_max_hourly_cost_microusd = 300000, sd_provider_status = None, sd_last_observed_at = None,
       sd_reconcile_after = None, sd_unknown_since = None, sd_last_error_code = None, sd_last_error_detail = None,
       sd_lock_version = 1, sd_activated_at = None, sd_stopped_at = None,
       sd_billing_session_started_at = None, sd_billing_session_ended_at = None,
       sd_billing_accumulated_microseconds = 0, sd_billing_active_instance_id = None,
       sd_billing_active_started_at = None, sd_billing_observed_at = None, sd_billing_observation_stale = False,
       sd_billing_estimated = False, sd_created_at = 0,
     sd_runtime_artifact_manifest_sha256 = None\<rparr>]\<rparr>"

lemma reevaluate_blocks_exactly_witness:
  "\<exists>d s. reevaluate_budget_guard 0 sample_overrun_db ''salad'' sample_now = Inr (d, s)
     \<and> (\<forall>x \<in> set (db_deployments d). sd_desired_state x = DesiredSTOPPED)"
proof -
  have ok: "db_ok sample_overrun_db"
    by (simp add: db_ok_def sample_overrun_db_def sample_db_def empty_db_def guard_ok_def attempt_ok_def
        sample_guard_def sample_attempt_def sample_failed_attempt_def deployment_ok_def billing_ok_def)
  have g: "get_guard_locked sample_overrun_db ''salad'' = Some sample_guard" by code_simp
  have "bs_daily_committed_microusd (evaluate_locked sample_overrun_db sample_guard (2026 * 365 * us_per_day)) = 11000000"
    by code_simp
  with reevaluate_blocks_exactly [OF ok sample_guard_found(2,3) g] show ?thesis
    by (auto simp: sample_guard_def)
qed

section \<open>Runs\<close>

text \<open>The constraints of the schema are an invariant of every sequence of budget operations,
  including an \<open>ensure_budget_guard\<close> that loses its race against concurrent ones.\<close>

theorem budget_runs_keep_constraints:
  assumes "budget_step\<^sup>*\<^sup>* d d'" and "db_ok d"
  shows "db_ok d'"
  using assms by (rule budget_run.reachable_keeps)

lemma budget_runs_keep_constraints_witness: "\<exists>d. budget_step\<^sup>*\<^sup>* sample_db d \<and> db_ok d \<and> length (db_entries d) = 1"
proof (rule sample_spend_ok)
  fix d r
  assume run: "record_spend_entry 31 0 sample_db ''salad'' ''gpu:1'' SpendUSAGE 2500000
      (Aware (2026 * 365 * us_per_day)) None None sample_now = Inr (d, r)" "\<not> sr_replayed r" "length (db_entries d) = 1"
  have "31 \<notin> se_id ` set (db_entries sample_db)" by (simp add: sample_db_def empty_db_def)
  then have step: "budget_step\<^sup>*\<^sup>* sample_db d"
    by (intro r_into_rtranclp budget_step.call budget_call.record_spend [OF run(1)])
  from budget_runs_keep_constraints [OF step sample_db_ok] step run(3) show ?thesis by blast
qed

text \<open>C25: Money already committed is never rewritten. In every sequence of budget operations the ledger of
  spend entries only grows at its end, and an attempt whose reserved submission is under way keeps its
  reservation unchanged.\<close>

theorem budget_runs_keep_commitments:
  assumes "budget_step\<^sup>*\<^sup>* d d'" and "db_ok d"
  shows "prefix (db_entries d) (db_entries d')
     \<and> (\<forall>k a. get_attempt k d = Some a \<and> ga_state a = AttemptSUBMITTING \<and> 0 < ga_cost_reservation_microusd a
          \<and> ga_reservation_released_at a = None \<longrightarrow> get_attempt k d' = Some a)"
  using run_keeps.reachable_keeps [OF assms(1), of d] assms(2) keeps_refl [of d]
  by (auto simp: keeps_commitments_def reserved_submission_def)

lemma budget_runs_keep_commitments_witness:
  "\<exists>d d'. budget_step d d' \<and> db_entries d' = db_entries d
     \<and> get_attempt 21 d' = Some (reserved_attempt 4000000 (2026 * 365 * us_per_day) sample_attempt)"
proof (rule sample_reserve_ok)
  fix d r
  assume run: "reserve_attempt_budget 0 sample_db ''salad'' 21 4000000 sample_now = Inr (d, r)" "rd_accepted r"
    "get_attempt 21 d = Some (reserved_attempt 4000000 (2026 * 365 * us_per_day) sample_attempt)"
  from reserve_leaves_reserved [OF run(1) sample_db_ok run(2)] obtain g where
    ok: "db_ok d" and g: "get_guard_locked d ''salad'' = Some g"
    by (metis Inr_inject sample_guard_found(2))
  let ?t = "2026 * 365 * us_per_day"
  obtain d' s where re: "reevaluated d g ?t = (d', s)" by (cases "reevaluated d g ?t")
  then have "reevaluate_budget_guard 0 d ''salad'' sample_now = Inr (d', s)"
    using g by (simp add: reevaluate_budget_guard_def sample_guard_found)
  then have step: "budget_step d d'" by (blast intro: budget_step.call budget_call.reevaluate)
  have "get_attempt 21 d' = Some (reserved_attempt 4000000 ?t sample_attempt)"
    using budget_runs_keep_commitments [OF r_into_rtranclp [of budget_step, OF step] ok] run(3)
    by (simp add: reserved_attempt_def sample_attempt_def)
  with step reevaluated_facts(2) [OF re ok g] show ?thesis by blast
qed

end
