(* ===== verification/Samples.thy ===== *)
theory Samples
  imports Store SaladProvider
begin

text \<open>A deployment row and a container group on which witnesses evaluate the operations.\<close>

definition sample_worker_deployment :: SaladDeployment where
  "sample_worker_deployment = \<lparr>sd_id = 41, sd_version_no = 3, sd_config_sha256 = ''c'', sd_provider_configuration = [],
       sd_worker_image_digest = ''i'', sd_queue_name = ''queue'', sd_provider_queue_id = Some ''q'',
       sd_container_group_name = ''worker'',
     sd_provider_container_group_id = Some ''g'', sd_purpose = PurposeIMAGE, sd_state = DeploymentACTIVE,
     sd_desired_state = DesiredACTIVE, sd_administrative_stop_reason = None, sd_is_current = True, sd_min_replicas = 0, sd_max_replicas = 1,
     sd_desired_queue_length = 1, sd_observed_replicas = Some 1, sd_ready_replicas = Some 1,
     sd_max_hourly_cost_microusd = 300000, sd_provider_status = None, sd_last_observed_at = None,
     sd_reconcile_after = None, sd_unknown_since = None, sd_last_error_code = None, sd_last_error_detail = None,
     sd_lock_version = 1, sd_activated_at = None, sd_stopped_at = None,
     sd_billing_session_started_at = None, sd_billing_session_ended_at = None,
     sd_billing_accumulated_microseconds = 0, sd_billing_active_instance_id = None,
     sd_billing_active_started_at = None, sd_billing_observed_at = None, sd_billing_observation_stale = False,
     sd_billing_estimated = False, sd_created_at = 0,
     sd_runtime_artifact_manifest_sha256 = None\<rparr>"

definition sample_group :: SaladContainerGroup where
  "sample_group = \<lparr>cg_id = 9, cg_name = ''worker'', cg_replicas = 1, cg_pending_change = False, cg_version = 4,
     cg_current_state = \<lparr>gs_status = ''running'', gs_description = [], gs_allocating_count = 0, gs_creating_count = 0,
       gs_running_count = 1, gs_stopping_count = 0, gs_start_time = None, gs_finish_time = None\<rparr>, cg_raw = []\<rparr>"

end
