(* ===== verification/GenerationSubmissionTheorems.thy ===== *)
theory GenerationSubmissionTheorems
  imports GenerationSubmissionRuns GenerationRecoveryTheorems BudgetTheorems Samples
begin

text \<open>
  A prepared attempt is sent to the provider at most once, whatever interleaves and dies; the outcome of a submission is
  called definite only when it is; observations only move an attempt forward; an attempt that ended holds no budget.
\<close>

section \<open>A sample submission\<close>

definition no_sha :: "8 word list \<Rightarrow> 8 word list" where "no_sha data = replicate 32 0"

definition sample_urlsplit :: "string \<Rightarrow> url_parts option" where
  "sample_urlsplit url = Some \<lparr>up_scheme = ''https'', up_hostname = Some ''h'', up_username = None, up_password = None,
     up_fragment = []\<rparr>"

definition prepared_job :: GenerationJob where
  "prepared_job = recovery_job\<lparr>gj_state := JobCLAIMED, gj_attempt_count := 1, gj_last_error_code := None\<rparr>"

definition prepared_attempt :: GenerationAttempt where
  "prepared_attempt = sample_attempt\<lparr>ga_id := 51, ga_job_id := 50, ga_salad_deployment_id := Some 41,
     ga_request_sha256 := replicate 64 (CHR ''0'')\<rparr>"

definition prepared_db :: db where
  "prepared_db = recovery_db\<lparr>db_guards := [sample_guard], db_jobs := [prepared_job], db_attempts := [prepared_attempt],
     db_deployments := [sample_worker_deployment]\<rparr>"

definition sample_instant :: instant where "sample_instant = 2026 * 365 * us_per_day"

lemma prepared_db_ok: "db_ok prepared_db"
  by (simp add: db_ok_def prepared_db_def recovery_db_def empty_db_def guard_ok_def sample_guard_def job_ok_def
      prepared_job_def recovery_job_def attempt_ok_def prepared_attempt_def sample_attempt_def deployment_ok_def
      billing_ok_def sample_worker_deployment_def)

lemma prepared_begin:
  obtains d' su a j x where
    "submit_begin no_sha sample_urlsplit prepared_db 51 ''https://h'' 4000000 sample_instant = Inr (d', Inr su)"
    "load_attempt_context d' 51 = Inr (a, j, x)"
proof -
  let ?run = "submit_begin no_sha sample_urlsplit prepared_db 51 ''https://h'' 4000000 sample_instant"
  have "case ?run of Inl _ \<Rightarrow> False | Inr (d', out) \<Rightarrow> (case out of Inl _ \<Rightarrow> False | Inr su \<Rightarrow>
      (case load_attempt_context d' 51 of Inl _ \<Rightarrow> False | Inr _ \<Rightarrow> True))" by code_simp
  then obtain d' out where run: "?run = Inr (d', out)" and out: "case out of Inl _ \<Rightarrow> False | Inr su \<Rightarrow>
      (case load_attempt_context d' 51 of Inl _ \<Rightarrow> False | Inr _ \<Rightarrow> True)" by (cases ?run) auto
  from out obtain su w where "out = Inr su" "load_attempt_context d' 51 = Inr w"
    by (cases out; cases "load_attempt_context d' 51") auto
  with run have "?run = Inr (d', Inr su)" "load_attempt_context d' 51 = Inr w" by simp_all
  then show ?thesis using that by (cases w) blast
qed

section \<open>Submissions\<close>

text \<open>C1: A prepared attempt is sent to the provider at most once. Calls of \<open>submit_prepared_attempt\<close> may interleave with
  each other, die between their transactions, be repeated after a deferral, and run among observations, fences and the
  rest of the program: for every attempt at most one request is ever made, it carries the identifier of that attempt, and
  once it is made the attempt is never again one that could be submitted.\<close>

theorem at_most_one_request:
  assumes "(submission_step sha256 urlsplit)\<^sup>*\<^sup>* (idle_world d) w" and "db_ok d"
  shows "length (posts_for k w) \<le> 1
    \<and> (\<forall>p \<in> set (posts_for k w). py_get (jp_metadata p) ''generation_attempt_id'' = PStr (uuid_str k)
         \<and> (\<exists>a. get_attempt k (sw_db w) = Some a \<and> ga_state a \<noteq> AttemptCREATED))"
proof -
  have inv: "submission_inv w" using submission_run.reachable_keeps [OF assms(1) idle_inv [OF assms(2)]] .
  have "length (posts_for k w) \<le> active_for k w" by (simp add: active_for_def)
  with submission_invD(2) [OF inv, of k] have one: "length (posts_for k w) \<le> 1" by simp
  have "py_get (jp_metadata p) ''generation_attempt_id'' = PStr (uuid_str k)
      \<and> (\<exists>a. get_attempt k (sw_db w) = Some a \<and> ga_state a \<noteq> AttemptCREATED)" if "p \<in> set (posts_for k w)" for p
  proof -
    have "active_for k w \<noteq> 0" using that by (auto simp: active_for_def)
    moreover have "(k, p) \<in> set (sw_posts w)" using that by (auto simp: posts_for_def)
    ultimately show ?thesis using submission_invD(3,5) [OF inv] by blast
  qed
  with one show ?thesis by blast
qed

lemma sample_request:
  obtains w p where "(submission_step no_sha sample_urlsplit)\<^sup>*\<^sup>* (idle_world prepared_db) w" "posts_for 51 w = [p]"
    "sw_posting w = [(51, p)]"
proof -
  obtain d' su where b: "submit_begin no_sha sample_urlsplit prepared_db 51 ''https://h'' 4000000 sample_instant = Inr (d', Inr su)"
    using prepared_begin by blast
  let ?w0 = "idle_world prepared_db"
  let ?w1 = "?w0\<lparr>sw_db := d', sw_building := (51, su) # sw_building ?w0\<rparr>"
  let ?p = "post_of su ''https://h'' PNone"
  let ?w2 = "?w1\<lparr>sw_building := remove1 (51, su) (sw_building ?w1), sw_posting := (51, ?p) # sw_posting ?w1,
    sw_posts := (51, ?p) # sw_posts ?w1\<rparr>"
  have "submission_step no_sha sample_urlsplit ?w0 ?w1"
    using b by (intro submission_step.mark [where url = "''https://h''" and amount = 4000000 and t = sample_instant])
      (simp add: idle_world_def)
  moreover have "submission_step no_sha sample_urlsplit ?w1 ?w2"
    by (rule submission_step.post [where su = su and p = ?p]) simp_all
  ultimately have "(submission_step no_sha sample_urlsplit)\<^sup>*\<^sup>* ?w0 ?w2" by simp
  then show ?thesis by (rule that) (simp_all add: posts_for_def idle_world_def)
qed

lemma at_most_one_request_witness:
  "\<exists>w p. (submission_step no_sha sample_urlsplit)\<^sup>*\<^sup>* (idle_world prepared_db) w \<and> posts_for 51 w = [p]
     \<and> py_get (jp_metadata p) ''generation_attempt_id'' = PStr (uuid_str 51)"
proof -
  obtain w p where w: "(submission_step no_sha sample_urlsplit)\<^sup>*\<^sup>* (idle_world prepared_db) w" "posts_for 51 w = [p]"
    using sample_request by blast
  from at_most_one_request [OF w(1) prepared_db_ok, of 51] w show ?thesis by auto
qed

text \<open>C10: An attempt that ended holds no budget: in every world that submissions, observations, fences and the rest of the
  program reach, a reservation of an attempt that succeeded, failed or was cancelled is zero or released.\<close>

theorem ended_attempts_hold_no_budget:
  assumes "(submission_step sha256 urlsplit)\<^sup>*\<^sup>* (idle_world d) w" and "db_ok d" and "all_settled d"
    and "get_attempt k (sw_db w) = Some a" and "ga_state a \<in> {AttemptSUCCEEDED, AttemptFAILED, AttemptCANCELLED}"
  shows "ga_cost_reservation_microusd a = 0 \<or> ga_reservation_released_at a \<noteq> None"
proof -
  have "submission_inv (idle_world d) \<and> all_settled (sw_db (idle_world d))"
    using idle_inv [OF assms(2)] assms(3) by (simp add: idle_world_def)
  from settled_run.reachable_keeps [OF assms(1) this] have w: "submission_inv w" "all_settled (sw_db w)" by blast+
  have "settled a" using w(2) assms(4) unfolding all_settled_def by blast
  moreover have "attempt_ok a" using db_okD(4) [OF submission_invD(1) [OF w(1)]] row_get_mem [OF assms(4)] by blast
  moreover have "ga_state a \<in> set terminal_attempt_states" using assms(5) by (simp add: terminal_attempt_states_def)
  ultimately show ?thesis unfolding settled_def attempt_ok_def by linarith
qed

lemma prepared_settled: "all_settled prepared_db"
  by (auto simp: all_settled_def prepared_db_def row_get_def settled_def prepared_attempt_def sample_attempt_def)

lemma failed_sample:
  obtains d' r a where "fail_definitely_unstarted_submission 0 prepared_db 51 ''e'' (Some (Aware 7)) = Inr (d', r)"
    "get_attempt 51 d' = Some a" "ga_state a = AttemptFAILED"
proof -
  let ?run = "fail_definitely_unstarted_submission 0 prepared_db 51 ''e'' (Some (Aware 7))"
  have "case ?run of Inl _ \<Rightarrow> False | Inr (d', r) \<Rightarrow> map_option ga_state (get_attempt 51 d') = Some AttemptFAILED"
    by code_simp
  then obtain d' r where run: "?run = Inr (d', r)" and "map_option ga_state (get_attempt 51 d') = Some AttemptFAILED"
    by (cases ?run) auto
  then show ?thesis using that by blast
qed

lemma ended_attempts_hold_no_budget_witness:
  "\<exists>w a. (submission_step no_sha sample_urlsplit)\<^sup>*\<^sup>* (idle_world prepared_db) w \<and> get_attempt 51 (sw_db w) = Some a
     \<and> ga_state a = AttemptFAILED \<and> (ga_cost_reservation_microusd a = 0 \<or> ga_reservation_released_at a \<noteq> None)"
proof -
  obtain d' r a where run: "fail_definitely_unstarted_submission 0 prepared_db 51 ''e'' (Some (Aware 7)) = Inr (d', r)"
    and a: "get_attempt 51 d' = Some a" "ga_state a = AttemptFAILED" by (rule failed_sample)
  let ?w = "(idle_world prepared_db)\<lparr>sw_db := d'\<rparr>"
  have "submission_step no_sha sample_urlsplit (idle_world prepared_db) ?w"
    using run by (intro submission_step.unstarted [where clock = 0 and k = 51 and code = "''e''"
        and now = "Some (Aware 7)" and r = r]) (simp add: idle_world_def)
  then have w: "(submission_step no_sha sample_urlsplit)\<^sup>*\<^sup>* (idle_world prepared_db) ?w" by (rule r_into_rtranclp)
  have got: "get_attempt 51 (sw_db ?w) = Some a" using a(1) by simp
  have "ga_state a \<in> {AttemptSUCCEEDED, AttemptFAILED, AttemptCANCELLED}" using a(2) by simp
  from ended_attempts_hold_no_budget [OF w prepared_db_ok prepared_settled got this] w got a(2) show ?thesis by blast
qed

section \<open>Observations\<close>

text \<open>C3: Observations move an attempt forward only. One observation of a provider job changes no other attempt; the state
  of its attempt stays, or leaves UNKNOWN, or goes on in the order of the life of an attempt to one the provider can
  report; a state that ended it and an identifier of a provider job are final. The only job that can change is the one of
  the attempt, only while the attempt is its current one, and never once the job succeeded, failed or was cancelled; a
  dead-lettered job leaves that state only to wait for the one further attempt that was granted.\<close>

theorem observations_move_forward:
  assumes "apply_salad_job_observation sha256 new_id clock d k q observed_at evidence = Inr (d', ob)" and "db_ok d"
  shows "\<exists>a a'. get_attempt k d = Some a \<and> get_attempt k d' = Some a'
    \<and> (ga_state a' = ga_state a \<or> (ga_state a \<notin> {AttemptSUCCEEDED, AttemptFAILED, AttemptCANCELLED}
         \<and> (ga_state a = AttemptUNKNOWN \<or> attempt_state_rank (ga_state a) \<le> attempt_state_rank (ga_state a'))
         \<and> ga_state a' \<in> {AttemptSUBMITTED, AttemptRUNNING, AttemptSUCCEEDED, AttemptFAILED, AttemptCANCELLED}))
    \<and> (ga_provider_external_id a \<noteq> None \<longrightarrow> ga_provider_external_id a' = ga_provider_external_id a)
    \<and> (\<forall>k'. k' \<noteq> k \<longrightarrow> get_attempt k' d' = get_attempt k' d)
    \<and> (\<forall>i. get_job i d' \<noteq> get_job i d \<longrightarrow> (\<exists>j j'. i = ga_job_id a \<and> get_job i d = Some j \<and> get_job i d' = Some j'
         \<and> ga_attempt_no a = gj_attempt_count j \<and> gj_state j \<notin> {JobSUCCEEDED, JobFAILED, JobCANCELLED}
         \<and> (gj_state j = JobDEAD_LETTER \<longrightarrow> gj_state j' = JobRETRY_WAIT \<and> gj_max_attempts j' = gj_max_attempts j + 1)))"
proof -
  obtain a j x where l: "load_attempt_context d k = Inr (a, j, x)" and e: "observation_effect d a j q d'"
    and id: "ga_provider_external_id a \<in> {None, Some (uuid_str (qj_id q))}"
    by (rule observation_rows [OF assms])
  note loaded = loaded_rows [OF l assms(2)]
  obtain a' j' where n: "rows_written d a' j' d'" "same_attempt a a'" "job_follows a j j'"
    and s: "ga_state a' = ga_state a \<or> (is_forward_transition (ga_state a) (ga_state a')
          \<and> ga_state a' \<in> {AttemptSUBMITTED, AttemptRUNNING, AttemptSUCCEEDED, AttemptFAILED, AttemptCANCELLED})"
    and ex: "ga_provider_external_id a' \<in> {ga_provider_external_id a, Some (uuid_str (qj_id q))}"
    using e unfolding observation_effect_def by blast
  have ids: "ga_id a' = k" "gj_id j' = ga_job_id a" "gj_id j = ga_job_id a"
    using n(2,3) loaded(1,2) by (simp_all add: same_attempt_def job_follows_def same_job_def)
  have job: "get_job (ga_job_id a) d = Some j" "get_job (ga_job_id a) d' = Some j'"
    using rows_writtenD(3) [OF n(1)] rows_writtenD(3) [OF loaded(3)] ids by simp_all
  have "\<exists>j j'. i = ga_job_id a \<and> get_job i d = Some j \<and> get_job i d' = Some j'
         \<and> ga_attempt_no a = gj_attempt_count j \<and> gj_state j \<notin> {JobSUCCEEDED, JobFAILED, JobCANCELLED}
         \<and> (gj_state j = JobDEAD_LETTER \<longrightarrow> gj_state j' = JobRETRY_WAIT \<and> gj_max_attempts j' = gj_max_attempts j + 1)"
    if "get_job i d' \<noteq> get_job i d" for i
  proof -
    have i: "i = ga_job_id a" using that rows_writtenD(5) [OF n(1), of i] ids by auto
    with that job have "j' \<noteq> j" by auto
    with n(3) i job show ?thesis by (auto simp: job_follows_def NON_RETRYABLE_JOB_STATES_def)
  qed
  moreover have "get_attempt k d = Some a" "get_attempt k d' = Some a'"
    using rows_writtenD(2) [OF n(1)] ids loaded_attempt [OF l] by simp_all
  moreover have "ga_state a' = ga_state a \<or> (ga_state a \<notin> {AttemptSUCCEEDED, AttemptFAILED, AttemptCANCELLED}
         \<and> (ga_state a = AttemptUNKNOWN \<or> attempt_state_rank (ga_state a) \<le> attempt_state_rank (ga_state a'))
         \<and> ga_state a' \<in> {AttemptSUBMITTED, AttemptRUNNING, AttemptSUCCEEDED, AttemptFAILED, AttemptCANCELLED})"
    using s by (auto simp: is_forward_transition_def terminal_attempt_states_def split: if_splits)
  moreover have "ga_provider_external_id a \<noteq> None \<longrightarrow> ga_provider_external_id a' = ga_provider_external_id a"
    using id ex by auto
  moreover have "get_attempt k' d' = get_attempt k' d" if "k' \<noteq> k" for k'
    using rows_writtenD(4) [OF n(1)] ids that by simp
  ultimately show ?thesis by blast
qed

definition sample_queue_job :: SaladQueueJob where
  "sample_queue_job = \<lparr>qj_id = 9, qj_status = StatusPENDING, qj_events = [], qj_create_time = 3, qj_update_time = 4,
     qj_metadata = submission_metadata prepared_attempt prepared_job sample_worker_deployment, qj_output = PNone\<rparr>"

lemma observations_move_forward_witness:
  "\<exists>d' ob a'. apply_salad_job_observation no_sha 1 0 prepared_db 51 sample_queue_job (Some (Aware 7)) None = Inr (d', ob)
     \<and> get_attempt 51 d' = Some a' \<and> attempt_state_rank AttemptCREATED \<le> attempt_state_rank (ga_state a')
     \<and> ga_state a' = AttemptSUBMITTED"
proof -
  let ?run = "apply_salad_job_observation no_sha 1 0 prepared_db 51 sample_queue_job (Some (Aware 7)) None"
  have "case ?run of Inl _ \<Rightarrow> False | Inr (d', ob) \<Rightarrow> map_option ga_state (get_attempt 51 d') = Some AttemptSUBMITTED"
    by code_simp
  then obtain d' ob where run: "?run = Inr (d', ob)" and s: "map_option ga_state (get_attempt 51 d') = Some AttemptSUBMITTED"
    by (cases ?run) auto
  obtain a a' where a: "get_attempt 51 prepared_db = Some a" "get_attempt 51 d' = Some a'"
    "ga_state a' = ga_state a \<or> ga_state a = AttemptUNKNOWN \<or> attempt_state_rank (ga_state a) \<le> attempt_state_rank (ga_state a')"
    using observations_move_forward [OF run prepared_db_ok] by blast
  have "ga_state a = AttemptCREATED"
    using a(1) by (auto simp: prepared_db_def row_get_def prepared_attempt_def sample_attempt_def)
  with a s run show ?thesis by auto
qed

section \<open>Outcomes\<close>

lemma load_attempt_id: "load_attempt_context d k = Inr (a, j, x) \<Longrightarrow> ga_id a = k"
  by (auto simp: load_attempt_context_eq dest: row_get_key)

lemma finish_outcome:
  assumes "submit_finish sha256 new_id d k outcome t = Inr (d', r)"
  shows "case outcome of
      PostRateLimited _ \<Rightarrow> sb_mutation_effect r = EffectDEFINITELY_NOT_STARTED
        \<and> sb_disposition r \<in> {DispositionRETRY_WAIT, DispositionFAILED}
    | PostRejected s \<Rightarrow> (sb_mutation_effect r, sb_disposition r)
        = (if s \<in> {400, 401, 403, 404, 422} then (EffectDEFINITELY_NOT_STARTED, DispositionFAILED)
           else (EffectMAY_HAVE_STARTED, DispositionUNKNOWN))
    | PostFailed \<Rightarrow> (sb_mutation_effect r, sb_disposition r) = (EffectMAY_HAVE_STARTED, DispositionUNKNOWN)
    | PostAnswered q \<Rightarrow> (sb_mutation_effect r, sb_disposition r)
        \<in> {(EffectCONFIRMED, DispositionSUBMITTED), (EffectMAY_HAVE_STARTED, DispositionUNKNOWN)}
        \<and> (sb_disposition r = DispositionSUBMITTED \<longrightarrow>
             py_get (qj_metadata q) ''generation_attempt_id'' = PStr (uuid_str k))"
proof -
  obtain a j x where l: "load_attempt_context d k = Inr (a, j, x)"
    using assms unfolding submit_finish_def by (auto simp only: bindE_eq_Inr split_paired_Ex prod.case)
  have id: "ga_id a = k" using l by (rule load_attempt_id)
  show ?thesis
    using assms l
    by (cases outcome) (auto simp: submit_finish_def bindE_eq_Inr submit_unknown_def submit_rate_limited_def Let_def
        submission_result_def DEFINITIVE_REJECTION_STATUS_CODES_def remote_metadata_matches_def id split: if_splits)
qed

lemma fence_disposition:
  "fence_stale_prepared_submission d a j t = Some (d', r) \<Longrightarrow> sb_disposition r \<in> {DispositionUNKNOWN, DispositionCANCELLED}"
  by (auto simp: fence_stale_prepared_submission_def Let_def submission_result_def split: option.splits if_splits)

lemma begin_disposition:
  assumes "submit_begin sha256 urlsplit d k url amount t = Inr (d', Inl r)"
  shows "sb_disposition r \<noteq> DispositionSUBMITTED"
  using assms
  by (auto simp: submit_begin_def reserve_and_mark_def bindE_eq_Inr Let_def submission_result_def
      dest!: fence_disposition split: if_splits option.splits)

text \<open>The ways a call can go.\<close>

lemma submission_cases:
  assumes "submit_prepared_attempt sha256 urlsplit new_id env clock d k url amount now = (d', posts, out)"
  obtains (raised) e where "d' = d" "posts = []" "out = Inl e"
  | (returned) t r where "service_time clock now = Inr t" "posts = []" "out = Inr r"
      "submit_begin sha256 urlsplit d k url amount t = Inr (d', Inl r)"
  | (built) t d1 su job_input where "service_time clock now = Inr t"
      "submit_begin sha256 urlsplit d k url amount t = Inr (d1, Inr su)"
      "se_build_job_input env (su_context su) = InputBuilt job_input"
      "with_posts [post_of su url job_input] (se_while_posting env (se_while_building env d1))
         (submit_finish sha256 new_id (se_while_posting env (se_while_building env d1)) k
            (se_create_job env (post_of su url job_input)) t) = (d', posts, out)"
  | (deferred) t d1 su s reason where "service_time clock now = Inr t"
      "submit_begin sha256 urlsplit d k url amount t = Inr (d1, Inr su)"
      "se_build_job_input env (su_context su) = InputDeferred s reason"
      "with_posts [] (se_while_building env d1) (submit_deferred (se_while_building env d1) k s reason t) = (d', posts, out)"
  | (failed) t d1 su where "service_time clock now = Inr t"
      "submit_begin sha256 urlsplit d k url amount t = Inr (d1, Inr su)"
      "se_build_job_input env (su_context su) = InputFailed"
      "with_posts [] (se_while_building env d1) (submit_unbuilt (se_while_building env d1) k t) = (d', posts, out)"
proof (cases "service_time clock now")
  case (Inl e)
  with assms show ?thesis by (intro raised [of e]) (simp_all add: submit_prepared_attempt_def)
next
  case t: (Inr t)
  show ?thesis
  proof (cases "submit_begin sha256 urlsplit d k url amount t")
    case (Inl e)
    with assms t show ?thesis by (intro raised [of e]) (simp_all add: submit_prepared_attempt_def)
  next
    case (Inr w)
    obtain d1 v where w: "w = (d1, v)" by (cases w)
    show ?thesis
    proof (cases v)
      case (Inl r)
      with assms t Inr w show ?thesis by (intro returned [OF t]) (simp_all add: submit_prepared_attempt_def)
    next
      case su: (Inr su)
      note b = Inr [unfolded w su]
      show ?thesis
      proof (cases "se_build_job_input env (su_context su)")
        case (InputBuilt job_input)
        with assms t b show ?thesis
          by (intro built [OF t b InputBuilt]) (simp add: submit_prepared_attempt_def post_of_def Let_def)
      next
        case (InputDeferred s reason)
        with assms t b show ?thesis
          by (intro deferred [OF t b InputDeferred]) (simp add: submit_prepared_attempt_def Let_def)
      next
        case InputFailed
        with assms t b show ?thesis
          by (intro failed [OF t b InputFailed]) (simp add: submit_prepared_attempt_def Let_def)
      qed
    qed
  qed
qed

text \<open>C11: The outcome of a submission says whether the provider may have the job. A call that returns either sent nothing,
  and then does not claim to have submitted, or it sent one request; then it reports DEFINITELY_NOT_STARTED exactly when
  the provider limited the rate or rejected the request with one of the definitive statuses, CONFIRMED only for an answer
  that names this attempt, and MAY_HAVE_STARTED in every other case, after which nothing is retried blindly.\<close>

theorem outcomes_are_sound:
  assumes "submit_prepared_attempt sha256 urlsplit new_id env clock d k url amount now = (d', posts, Inr r)"
  shows "(posts = [] \<and> sb_disposition r \<noteq> DispositionSUBMITTED) \<or>
    (\<exists>p. posts = [p] \<and> (case se_create_job env p of
      PostRateLimited _ \<Rightarrow> sb_mutation_effect r = EffectDEFINITELY_NOT_STARTED
        \<and> sb_disposition r \<in> {DispositionRETRY_WAIT, DispositionFAILED}
    | PostRejected s \<Rightarrow> (sb_mutation_effect r, sb_disposition r)
        = (if s \<in> {400, 401, 403, 404, 422} then (EffectDEFINITELY_NOT_STARTED, DispositionFAILED)
           else (EffectMAY_HAVE_STARTED, DispositionUNKNOWN))
    | PostFailed \<Rightarrow> (sb_mutation_effect r, sb_disposition r) = (EffectMAY_HAVE_STARTED, DispositionUNKNOWN)
    | PostAnswered q \<Rightarrow> (sb_mutation_effect r, sb_disposition r)
        \<in> {(EffectCONFIRMED, DispositionSUBMITTED), (EffectMAY_HAVE_STARTED, DispositionUNKNOWN)}
        \<and> (sb_disposition r = DispositionSUBMITTED \<longrightarrow>
             py_get (qj_metadata q) ''generation_attempt_id'' = PStr (uuid_str k))))"
  using assms
proof (cases rule: submission_cases)
  case (returned t)
  then show ?thesis using begin_disposition by blast
next
  case (built t d1 su job_input)
  from built(4) have "posts = [post_of su url job_input]"
    "submit_finish sha256 new_id (se_while_posting env (se_while_building env d1)) k
       (se_create_job env (post_of su url job_input)) t = Inr (d', r)"
    by (auto simp: with_posts_def split: sum.splits)
  with finish_outcome [OF this(2)] show ?thesis by blast
next
  case (deferred t d1 su s reason)
  from deferred(4) have "posts = []" "submit_deferred (se_while_building env d1) k s reason t = Inr (d', r)"
    by (auto simp: with_posts_def split: sum.splits)
  then show ?thesis by (auto simp: submit_deferred_def bindE_eq_Inr Let_def submission_result_def)
next
  case (failed t d1 su)
  from failed(4) have "posts = []" "submit_unbuilt (se_while_building env d1) k t = Inr (d', r)"
    by (auto simp: with_posts_def split: sum.splits)
  then show ?thesis by (auto simp: submit_unbuilt_def bindE_eq_Inr submission_result_def)
qed simp

definition sample_submission_env :: submission_env where
  "sample_submission_env = \<lparr>se_build_job_input = (\<lambda>c. InputBuilt PNone), se_create_job = (\<lambda>p. PostFailed),
     se_while_building = (\<lambda>d. d), se_while_posting = (\<lambda>d. d)\<rparr>"

lemma sample_submission:
  obtains d' p r where "submit_prepared_attempt no_sha sample_urlsplit 1 sample_submission_env 0 prepared_db 51 ''https://h'' 4000000
    (Some (Aware sample_instant)) = (d', [p], Inr r)"
proof -
  obtain d' su a j x where
    "submit_begin no_sha sample_urlsplit prepared_db 51 ''https://h'' 4000000 sample_instant = Inr (d', Inr su)"
    "load_attempt_context d' 51 = Inr (a, j, x)" by (rule prepared_begin)
  then show ?thesis
    by (intro that) (simp add: submit_prepared_attempt_def service_time_def sample_submission_env_def Let_def with_posts_def
        submit_finish_def submit_unknown_def)
qed

lemma outcomes_are_sound_witness:
  "\<exists>d' p r. submit_prepared_attempt no_sha sample_urlsplit 1 sample_submission_env 0 prepared_db 51 ''https://h'' 4000000
    (Some (Aware sample_instant)) = (d', [p], Inr r) \<and> sb_mutation_effect r = EffectMAY_HAVE_STARTED"
proof -
  obtain d' p r where run: "submit_prepared_attempt no_sha sample_urlsplit 1 sample_submission_env 0 prepared_db 51 ''https://h'' 4000000
    (Some (Aware sample_instant)) = (d', [p], Inr r)" by (rule sample_submission)
  from outcomes_are_sound [OF run] run show ?thesis by (simp add: sample_submission_env_def)
qed

section \<open>One call is a run of the machine\<close>

lemma with_posts_cases:
  assumes "with_posts posts0 d m = (d', posts, out)"
  obtains (raised) e where "m = Inl e" "d' = d" "posts = posts0" | (returned) r where "m = Inr (d', r)" "posts = posts0"
  using assms by (cases m) (auto simp: with_posts_def)

text \<open>C12: A call of \<open>submit_prepared_attempt\<close> is a run of the machine of single transactions: whatever the upload provider
  and the client answer, and whatever proper transactions commit while they work, the database it leaves and the requests
  it sends are those of a sequence of steps. What holds of every run therefore holds of every call.\<close>

theorem submissions_are_runs:
  assumes "submit_prepared_attempt sha256 urlsplit new_id env clock d k url amount now = (d', posts, out)" and "db_ok d"
    and building: "\<And>x. db_ok x \<Longrightarrow> proper {} x (se_while_building env x)"
    and posting: "\<And>x. db_ok x \<Longrightarrow> proper {} x (se_while_posting env x)"
  shows "\<exists>w. (submission_step sha256 urlsplit)\<^sup>*\<^sup>* (idle_world d) w \<and> sw_db w = d' \<and> posts_for k w = posts
    \<and> sw_building w = [] \<and> sw_posting w = []"
proof -
  let ?step = "submission_step sha256 urlsplit"
  let ?world = "\<lambda>d. idle_world d"
  have marked: "?step\<^sup>*\<^sup>* (?world d) ((?world (se_while_building env d1))\<lparr>sw_building := [(k, su)]\<rparr>)"
    if b: "submit_begin sha256 urlsplit d k url amount t = Inr (d1, Inr su)" for t d1 su
  proof -
    have "?step (?world d) ((?world d)\<lparr>sw_db := d1, sw_building := (k, su) # sw_building (?world d)\<rparr>)"
      using b by (intro submission_step.mark) (simp add: idle_world_def)
    then have one: "?step (?world d) ((?world d1)\<lparr>sw_building := [(k, su)]\<rparr>)" by (simp add: idle_world_def)
    have "submission_inv ((?world d1)\<lparr>sw_building := [(k, su)]\<rparr>)" using step_inv [OF one idle_inv [OF assms(2)]] .
    from submission_invD(1) [OF this] have "db_ok d1" by (simp add: idle_world_def)
    then have "?step ((?world d1)\<lparr>sw_building := [(k, su)]\<rparr>)
        (((?world d1)\<lparr>sw_building := [(k, su)]\<rparr>)\<lparr>sw_db := se_while_building env d1\<rparr>)"
      by (intro submission_step.elsewhere) (simp add: idle_world_def building)
    with one show ?thesis by (simp add: idle_world_def)
  qed
  have dropped: "?step ((?world d2)\<lparr>sw_building := [(k, su)]\<rparr>) (?world d2)" for d2 su
    using submission_step.die_building [of sha256 urlsplit "(?world d2)\<lparr>sw_building := [(k, su)]\<rparr>" "(k, su)"]
    by (simp add: idle_world_def)
  show ?thesis
    using assms(1)
  proof (cases rule: submission_cases)
    case (raised e)
    then show ?thesis by (intro exI [of _ "?world d"]) (simp add: idle_world_def posts_for_def)
  next
    case (returned t r)
    then have "?step (?world d) ((?world d)\<lparr>sw_db := d'\<rparr>)" by (intro submission_step.settle) (simp add: idle_world_def)
    then show ?thesis using returned by (intro exI [of _ "?world d'"]) (simp add: idle_world_def posts_for_def)
  next
    case (built t d1 su job_input)
    let ?p = "post_of su url job_input" and ?d2 = "se_while_building env d1"
    let ?d3 = "se_while_posting env ?d2"
    let ?w = "\<lambda>d. \<lparr>sw_db = d, sw_building = [], sw_posting = [(k, ?p)], sw_posts = [(k, ?p)]\<rparr>"
    let ?done = "\<lambda>d. (?w d)\<lparr>sw_posting := []\<rparr>"
    have "?step ((?world ?d2)\<lparr>sw_building := [(k, su)]\<rparr>) (?w ?d2)"
      using submission_step.post [of k su "(?world ?d2)\<lparr>sw_building := [(k, su)]\<rparr>" ?p url job_input sha256 urlsplit]
      by (simp add: idle_world_def)
    with marked [OF built(2)] have two: "?step\<^sup>*\<^sup>* (?world d) (?w ?d2)" by simp
    from submission_run.reachable_keeps [OF two idle_inv [OF assms(2)]] have "submission_inv (?w ?d2)" .
    from submission_invD(1) [OF this] have "db_ok ?d2" by simp
    then have "?step (?w ?d2) ((?w ?d2)\<lparr>sw_db := ?d3\<rparr>)" by (intro submission_step.elsewhere) (simp add: posting)
    with two have three: "?step\<^sup>*\<^sup>* (?world d) (?w ?d3)" by simp
    have over: "?thesis" if "?step (?w ?d3) (?done d')" "posts = [?p]"
      using three that by (intro exI [of _ "?done d'"]) (simp add: posts_for_def)
    from built(4) show ?thesis
    proof (cases rule: with_posts_cases)
      case (raised e)
      then show ?thesis
        using submission_step.die_posting [of sha256 urlsplit "?w ?d3" "(k, ?p)"] by (intro over) simp_all
    next
      case (returned r)
      then show ?thesis
        using submission_step.answer [of k ?p "?w ?d3" sha256 new_id "se_create_job env ?p" t d' r urlsplit]
        by (intro over) simp_all
    qed
  next
    case (deferred t d1 su s reason)
    let ?d2 = "se_while_building env d1"
    let ?w = "(?world ?d2)\<lparr>sw_building := [(k, su)]\<rparr>"
    have over: "?thesis" if "?step ?w (?world d')" "posts = []"
      using marked [OF deferred(2)] that by (intro exI [of _ "?world d'"]) (simp add: idle_world_def posts_for_def)
    from deferred(4) show ?thesis
    proof (cases rule: with_posts_cases)
      case (raised e)
      with dropped show ?thesis by (intro over) simp_all
    next
      case (returned r)
      then show ?thesis
        using submission_step.postpone [of k su ?w s reason t d' r sha256 urlsplit]
        by (intro over) (simp_all add: idle_world_def)
    qed
  next
    case (failed t d1 su)
    let ?d2 = "se_while_building env d1"
    let ?w = "(?world ?d2)\<lparr>sw_building := [(k, su)]\<rparr>"
    have over: "?thesis" if "?step ?w (?world d')" "posts = []"
      using marked [OF failed(2)] that by (intro exI [of _ "?world d'"]) (simp add: idle_world_def posts_for_def)
    from failed(4) show ?thesis
    proof (cases rule: with_posts_cases)
      case (raised e)
      with dropped show ?thesis by (intro over) simp_all
    next
      case (returned r)
      then show ?thesis
        using submission_step.unbuilt [of k su ?w t d' r sha256 urlsplit]
        by (intro over) (simp_all add: idle_world_def)
    qed
  qed
qed

lemma submissions_are_runs_witness:
  "\<exists>w d' p r. submit_prepared_attempt no_sha sample_urlsplit 1 sample_submission_env 0 prepared_db 51 ''https://h'' 4000000
      (Some (Aware sample_instant)) = (d', [p], Inr r)
    \<and> (submission_step no_sha sample_urlsplit)\<^sup>*\<^sup>* (idle_world prepared_db) w \<and> sw_db w = d' \<and> posts_for 51 w = [p]"
proof -
  obtain d' p r where run: "submit_prepared_attempt no_sha sample_urlsplit 1 sample_submission_env 0 prepared_db 51 ''https://h'' 4000000
    (Some (Aware sample_instant)) = (d', [p], Inr r)" by (rule sample_submission)
  have "proper {} x (se_while_building sample_submission_env x)" "proper {} x (se_while_posting sample_submission_env x)" if "db_ok x" for x
    using proper_refl [OF that] by (simp_all add: sample_submission_env_def)
  from submissions_are_runs [OF run prepared_db_ok this] run show ?thesis by blast
qed

end
