(* ===== verification/ProviderStatus.thy ===== *)
theory ProviderStatus
  imports SaladProvider
begin

text \<open>
  The provider status a deployment row keeps (\<open>_safe_provider_status\<close> of \<open>services/salad_deployments.py\<close>) and the reading
  of the preparation phase and progress back from it, by which reconciliation notices that an image download has stalled.
\<close>

section \<open>Text\<close>

text \<open>\<open>text.split(sep)\<close> for a separator of one character.\<close>

fun split_on :: "char \<Rightarrow> string \<Rightarrow> string list" where
  "split_on sep [] = [[]]"
| "split_on sep (c # cs) =
     (if c = sep then [] # split_on sep cs
      else (case split_on sep cs of w # ws \<Rightarrow> (c # w) # ws | [] \<Rightarrow> [[c]]))"

text \<open>\<open>text.partition("=")\<close>: the parts around the first separator, and whether there is one.\<close>

definition partition_eq :: "string \<Rightarrow> (string \<times> string) option" where
  "partition_eq s =
     (case dropWhile (\<lambda>c. c \<noteq> CHR ''='') s of
        [] \<Rightarrow> None | _ # v \<Rightarrow> Some (takeWhile (\<lambda>c. c \<noteq> CHR ''='') s, v))"

text \<open>
  \<open>str.casefold\<close>: lower case, and the sharp s becomes "ss". U+00B5 folds to a character above U+00FF, which is left as it is:
  the text is only searched for ASCII words and numbers.
\<close>

definition py_casefold :: "string \<Rightarrow> string" where
  "py_casefold s = concat (map (\<lambda>c. if ch c = 223 then ''ss'' else [py_lower_char c]) s)"

section \<open>The snapshot\<close>

definition SAFE_PROVIDER_GROUP_STATUSES :: "string list" where
  "SAFE_PROVIDER_GROUP_STATUSES = [''allocating'', ''creating'', ''deploying'', ''failed'', ''pending'', ''preparing'',
     ''running'', ''stopped'', ''stopping'']"

definition SAFE_PROVIDER_PREPARATION_PHASES :: "string list" where
  "SAFE_PROVIDER_PREPARATION_PHASES = [''allocation'', ''image_pull'', ''preparing'', ''unknown'']"

text \<open>
  The pattern \<open>(?<!\d)(100|[0-9]{1,2})(?:\.[0-9]+)?\s*%\<close>, searched from the left. After the number the fraction and the
  blanks are taken as far as they go: a shorter choice leaves a digit, a point or a blank before the percent sign.
\<close>

definition percent_follows :: "string \<Rightarrow> bool" where
  "percent_follows s =
     (let r = (case s of p # d # cs \<Rightarrow> if p = CHR ''.'' \<and> is_digit d then dropWhile is_digit (d # cs) else s | _ \<Rightarrow> s)
      in case dropWhile py_isspace r of c # _ \<Rightarrow> c = CHR ''%'' | [] \<Rightarrow> False)"

definition digits_at :: "nat \<Rightarrow> string \<Rightarrow> bool" where
  "digits_at n s \<longleftrightarrow> n \<le> length s \<and> list_all is_digit (take n s)"

definition progress_at :: "string \<Rightarrow> int option" where
  "progress_at s =
     (if take 3 s = ''100'' \<and> percent_follows (drop 3 s) then Some 100
      else if digits_at 2 s \<and> percent_follows (drop 2 s) then Some (digits_value (take 2 s))
      else if digits_at 1 s \<and> percent_follows (drop 1 s) then Some (digits_value (take 1 s))
      else None)"

fun progress_search :: "bool \<Rightarrow> string \<Rightarrow> int option" where
  "progress_search after_digit [] = None"
| "progress_search after_digit (c # cs) =
     (case (if after_digit then None else progress_at (c # cs)) of
        Some n \<Rightarrow> Some n
      | None \<Rightarrow> progress_search (is_digit c) cs)"

definition safe_preparation_snapshot :: "string \<Rightarrow> string \<times> int option" where
  "safe_preparation_snapshot description =
     (let normalized = py_casefold description;
          phase = (if list_ex (\<lambda>m. py_contains m normalized) [''download'', ''image'', ''pull''] then ''image_pull''
            else if list_ex (\<lambda>m. py_contains m normalized) [''allocat'', ''capacity'', ''node''] then ''allocation''
            else if list_ex (\<lambda>m. py_contains m normalized) [''creat'', ''prepar'', ''provision'', ''start''] then ''preparing''
            else ''unknown'')
      in (phase, progress_search False normalized))"

definition progress_text :: "int option \<Rightarrow> string" where
  "progress_text progress = (case progress of Some n \<Rightarrow> int_digits n | None \<Rightarrow> ''unknown'')"

definition cg_status :: "SaladContainerGroup \<Rightarrow> string" where
  "cg_status cgroup = gs_status (cg_current_state cgroup)"

definition safe_provider_status :: "SaladQueue \<Rightarrow> SaladContainerGroup \<Rightarrow> string" where
  "safe_provider_status queue cgroup =
     (let queue_length = max 0 (min (sq_current_queue_length queue) 999999999);
          queue_value = (if sq_current_queue_length queue > queue_length then int_digits queue_length @ ''+''
            else int_digits queue_length);
          raw_status = py_lower (py_strip (cg_status cgroup));
          group_status = (if raw_status \<in> set SAFE_PROVIDER_GROUP_STATUSES then raw_status else ''unknown'');
          fields = [''queue='' @ queue_value, ''group='' @ group_status,
            ''pending='' @ (if cg_pending_change cgroup then ''1'' else ''0'')];
          (phase, progress) = safe_preparation_snapshot (gs_description (cg_current_state cgroup))
      in py_join '';'' (if cg_pending_change cgroup
           then fields @ [''phase='' @ phase, ''progress='' @ progress_text progress] else fields))"

definition parse_safe_preparation_snapshot :: "string option \<Rightarrow> (string \<times> int option) option" where
  "parse_safe_preparation_snapshot status =
     (case status of
        None \<Rightarrow> None
      | Some text \<Rightarrow>
          (let fields = rev (List.map_filter partition_eq (split_on CHR '';'' text)) in
           case (map_of fields ''phase'', map_of fields ''progress'') of
             (Some phase, Some progress_value) \<Rightarrow>
               if phase \<notin> set SAFE_PROVIDER_PREPARATION_PHASES then None
               else if progress_value = ''unknown'' then Some (phase, None)
               else if progress_value = [] \<or> \<not> list_all is_digit progress_value then None
               else if 100 < digits_value progress_value then None
               else Some (phase, Some (digits_value progress_value))
           | _ \<Rightarrow> None))"

section \<open>Facts\<close>

lemma split_on_none: "sep \<notin> set s \<Longrightarrow> split_on sep s = [s]"
  by (induction s) auto

lemma split_on_append: "sep \<notin> set s \<Longrightarrow> split_on sep (s @ sep # t) = s # split_on sep t"
  by (induction s) auto

lemma split_join: "ws \<noteq> [] \<Longrightarrow> (\<And>w. w \<in> set ws \<Longrightarrow> sep \<notin> set w) \<Longrightarrow> split_on sep (py_join [sep] ws) = ws"
  by (induction "[sep]" ws rule: py_join.induct) (auto simp: split_on_none split_on_append)

lemma partition_eq_field: "CHR ''='' \<notin> set k \<Longrightarrow> partition_eq (k @ ''='' @ v) = Some (k, v)"
  by (induction k) (auto simp: partition_eq_def split: list.splits)

lemma progress_cases: obtains "t = []" | a where "t = [a]" | a b u where "t = a # b # u"
  by (cases t rule: list.exhaust [case_names Nil Cons]) (metis list.exhaust)+

lemma progress_at_range: "progress_at s = Some n \<Longrightarrow> 0 \<le> n \<and> n \<le> 100"
proof -
  assume p: "progress_at s = Some n"
  have d: "0 \<le> int (ch c) - 48 \<and> int (ch c) - 48 \<le> 9" if "is_digit c" for c
    using that by (auto simp: is_digit_def)
  have one: "0 \<le> digits_value (take 1 t) \<and> digits_value (take 1 t) \<le> 9" if "digits_at 1 t" for t
    using that d by (cases t) (auto simp: digits_at_def digits_value_def)
  have two: "0 \<le> digits_value (take 2 t) \<and> digits_value (take 2 t) \<le> 99" if d2: "digits_at 2 t" for t
  proof -
    obtain a b u where "t = a # b # u" using d2 by (cases t rule: progress_cases) (auto simp: digits_at_def)
    with d2 d [of a] d [of b] show ?thesis by (auto simp: digits_at_def digits_value_def)
  qed
  show ?thesis using p one [of s] two [of s] by (auto simp: progress_at_def split: if_splits)
qed

lemma progress_search_range: "progress_search after_digit s = Some n \<Longrightarrow> 0 \<le> n \<and> n \<le> 100"
  by (induction s arbitrary: after_digit) (auto split: option.splits if_splits dest: progress_at_range)

lemma snapshot_range:
  "safe_preparation_snapshot t = (phase, progress) \<Longrightarrow> phase \<in> set SAFE_PROVIDER_PREPARATION_PHASES
     \<and> (\<forall>n. progress = Some n \<longrightarrow> 0 \<le> n \<and> n \<le> 100)"
  by (auto simp: safe_preparation_snapshot_def Let_def SAFE_PROVIDER_PREPARATION_PHASES_def
      dest: progress_search_range split: if_splits)

lemma int_digits_decimal: "0 \<le> n \<Longrightarrow> list_all is_digit (int_digits n) \<and> int_digits n \<noteq> [] \<and> digits_value (int_digits n) = n"
  using dec_digits_properties by (simp add: int_digits_def)

lemma digits_no_semicolon: "list_all is_digit s \<Longrightarrow> CHR '';'' \<notin> set s"
proof
  assume "list_all is_digit s" "CHR '';'' \<in> set s"
  moreover have "\<not> is_digit CHR '';''" by code_simp
  ultimately show False by (auto simp: list_all_iff)
qed

lemma progress_text_plain: "(\<And>n. progress = Some n \<Longrightarrow> 0 \<le> n \<and> n \<le> 100) \<Longrightarrow>
    CHR '';'' \<notin> set (progress_text progress) \<and> length (progress_text progress) \<le> 7"
proof (cases progress)
  case (Some n)
  moreover assume "\<And>n. progress = Some n \<Longrightarrow> 0 \<le> n \<and> n \<le> 100"
  ultimately have n: "0 \<le> n" "n < 10 ^ 3" by auto
  then show ?thesis
    using Some int_digits_decimal [OF n(1)] digits_no_semicolon length_dec_digits [OF n]
    by (simp add: progress_text_def int_digits_def)
qed (simp add: progress_text_def)

text \<open>
  What is stored is what is read back. The status of a group with a pending change gives back exactly the phase and
  the progress that were observed, that of any other group gives nothing, and it always fits the column of 100 characters.
\<close>

theorem preparation_status_roundtrip:
  "parse_safe_preparation_snapshot (Some (safe_provider_status queue cgroup)) =
     (if cg_pending_change cgroup then Some (safe_preparation_snapshot (gs_description (cg_current_state cgroup)))
      else None)
   \<and> length (safe_provider_status queue cgroup) \<le> 100"
proof -
  obtain phase progress where snap: "safe_preparation_snapshot (gs_description (cg_current_state cgroup)) = (phase, progress)"
    by fastforce
  note r = snapshot_range [OF snap]
  define ql where "ql = max 0 (min (sq_current_queue_length queue) 999999999)"
  define qv where "qv = (if sq_current_queue_length queue > ql then int_digits ql @ ''+'' else int_digits ql)"
  define gst where "gst = (if py_lower (py_strip (cg_status cgroup)) \<in> set SAFE_PROVIDER_GROUP_STATUSES
      then py_lower (py_strip (cg_status cgroup)) else ''unknown'')"
  define base where "base = [''queue='' @ qv, ''group='' @ gst, ''pending='' @ (if cg_pending_change cgroup then ''1'' else ''0'')]"
  define ws where "ws = (if cg_pending_change cgroup
      then base @ [''phase='' @ phase, ''progress='' @ progress_text progress] else base)"
  have status: "safe_provider_status queue cgroup = py_join '';'' ws"
    by (simp add: safe_provider_status_def ws_def base_def gst_def qv_def ql_def snap Let_def)
  have ql: "0 \<le> ql" "ql < 10 ^ 9" by (simp_all add: ql_def)
  have qv: "CHR '';'' \<notin> set qv" "length qv \<le> 10"
    using digits_no_semicolon int_digits_decimal [OF ql(1)] length_dec_digits [OF ql] ql(1)
    by (auto simp: qv_def int_digits_def)
  have gst: "CHR '';'' \<notin> set gst" "length gst \<le> 10"
    by (auto simp: gst_def SAFE_PROVIDER_GROUP_STATUSES_def)
  have ph: "CHR '';'' \<notin> set phase" "length phase \<le> 10"
    using r by (auto simp: SAFE_PROVIDER_PREPARATION_PHASES_def)
  have pr: "CHR '';'' \<notin> set (progress_text progress)" "length (progress_text progress) \<le> 7"
    using progress_text_plain r by blast+
  have split: "split_on CHR '';'' (py_join '';'' ws) = ws"
    by (rule split_join) (use qv(1) gst(1) ph(1) pr(1) in \<open>auto simp: ws_def base_def split: if_splits\<close>)
  have fields: "List.map_filter partition_eq ws =
      [(''queue'', qv), (''group'', gst), (''pending'', if cg_pending_change cgroup then ''1'' else ''0'')]
      @ (if cg_pending_change cgroup then [(''phase'', phase), (''progress'', progress_text progress)] else [])"
    using partition_eq_field [of "''queue''"] partition_eq_field [of "''group''"] partition_eq_field [of "''pending''"]
      partition_eq_field [of "''phase''"] partition_eq_field [of "''progress''"]
    by (simp add: ws_def base_def List.map_filter_def)
  have "parse_safe_preparation_snapshot (Some (py_join '';'' ws)) =
      (if cg_pending_change cgroup then Some (phase, progress) else None)"
  proof (cases "cg_pending_change cgroup")
    case True
    have "int_digits n \<noteq> ''unknown''" if "0 \<le> n" for n
    proof
      assume "int_digits n = ''unknown''"
      with int_digits_decimal [OF that] have "is_digit CHR ''u''" by simp
      moreover have "\<not> is_digit CHR ''u''" by code_simp
      ultimately show False by simp
    qed
    with True show ?thesis
      using r int_digits_decimal
      by (cases progress) (auto simp: parse_safe_preparation_snapshot_def split fields progress_text_def Let_def is_digit_def ch_def)
  qed (simp add: parse_safe_preparation_snapshot_def split fields Let_def)
  moreover have "length (py_join '';'' ws) \<le> 100"
    using qv(2) gst(2) ph(2) pr(2) by (simp add: ws_def base_def)
  ultimately show ?thesis by (simp add: status snap)
qed

end
