(* ===== verification/WorkerContract.thy ===== *)
theory WorkerContract
  imports ProviderNames Store SaladProvider "HOL-Library.AList"
begin

text \<open>
  The contract of a worker's container group (\<open>services/salad_deployments.py\<close>, names of \<open>domain/runtime_bindings.py\<close>):
  the configuration that is sent when the group is created (\<open>_container_group_payload\<close>) and the comparison of what the
  provider reports with it (\<open>_group_configuration_drift\<close>). JSON objects are association lists in insertion order;
  numbers are integers. \<open>d[key] = v\<close> is \<open>AList.update\<close>, \<open>d.pop(key)\<close> a lookup and \<open>AList.delete\<close>.
\<close>

type_synonym json_object = "(string \<times> pyval) list"

section \<open>Constants\<close>

definition WORKER_QUEUE_PATH :: string where "WORKER_QUEUE_PATH = ''/jobs/generate''"
definition WORKER_PORT :: int where "WORKER_PORT = 8000"
definition WORKER_RESTART_POLICY :: string where "WORKER_RESTART_POLICY = ''on_failure''"
definition SALAD_DEFAULT_SHM_SIZE :: int where "SALAD_DEFAULT_SHM_SIZE = 64"
definition RUNTIME_BINDINGS_KEY :: string where "RUNTIME_BINDINGS_KEY = ''runtime_bindings''"

definition http_probe :: "string \<Rightarrow> pyval" where
  "http_probe path = PDict [(''headers'', PList []), (''path'', PStr path), (''port'', PInt WORKER_PORT),
     (''scheme'', PStr ''http'')]"

definition WORKER_STARTUP_PROBE :: pyval where
  "WORKER_STARTUP_PROBE = PDict [(''http'', http_probe ''/health''), (''initial_delay_seconds'', PInt 0),
     (''period_seconds'', PInt 5), (''timeout_seconds'', PInt 5), (''success_threshold'', PInt 1),
     (''failure_threshold'', PInt 20)]"

definition WORKER_READINESS_PROBE :: pyval where
  "WORKER_READINESS_PROBE = PDict [(''http'', http_probe ''/ready''), (''initial_delay_seconds'', PInt 0),
     (''period_seconds'', PInt 5), (''timeout_seconds'', PInt 3), (''success_threshold'', PInt 1),
     (''failure_threshold'', PInt 3)]"

definition WORKER_LIVENESS_PROBE :: pyval where
  "WORKER_LIVENESS_PROBE = PDict [(''http'', http_probe ''/health''), (''initial_delay_seconds'', PInt 0),
     (''period_seconds'', PInt 30), (''timeout_seconds'', PInt 5), (''success_threshold'', PInt 1),
     (''failure_threshold'', PInt 3)]"

definition WORKER_PROBE_CONTRACTS :: json_object where
  "WORKER_PROBE_CONTRACTS = [(''startup_probe'', WORKER_STARTUP_PROBE), (''readiness_probe'', WORKER_READINESS_PROBE),
     (''liveness_probe'', WORKER_LIVENESS_PROBE)]"

definition SENSITIVE_CONFIGURATION_MARKERS :: "string list" where
  "SENSITIVE_CONFIGURATION_MARKERS = [''environment'', ''environmentvariables'', ''secrets'', ''credentials'', ''apikey'',
     ''accesskey'', ''privatekey'', ''password'', ''token'']"

definition WORKER_MODEL_MANIFEST_JSON_BINDING :: string where
  "WORKER_MODEL_MANIFEST_JSON_BINDING = ''GEN_WORKER_MODEL_MANIFEST_JSON''"
definition WORKER_MODEL_MANIFEST_SHA256_BINDING :: string where
  "WORKER_MODEL_MANIFEST_SHA256_BINDING = ''GEN_WORKER_MODEL_MANIFEST_SHA256''"
definition WORKER_RUNTIME_ADMISSION_ID_BINDING :: string where
  "WORKER_RUNTIME_ADMISSION_ID_BINDING = ''GEN_WORKER_RUNTIME_ADMISSION_ID''"

definition SALAD_WORKER_RUNTIME_BINDING_REFERENCES :: "(string \<times> string) list" where
  "SALAD_WORKER_RUNTIME_BINDING_REFERENCES = map (\<lambda>(name, reference). (name, ''deployment-config://salad-worker/'' @ reference))
     [(''GEN_WORKER_ENVIRONMENT'', ''environment''), (''GEN_WORKER_VERIFICATION_KEYS'', ''verification-keys''),
      (''GEN_WORKER_ALLOWED_UPLOAD_ORIGIN'', ''allowed-upload-origin''),
      (WORKER_MODEL_MANIFEST_JSON_BINDING, ''model-manifest-json''),
      (WORKER_MODEL_MANIFEST_SHA256_BINDING, ''model-manifest-sha256''),
      (''GEN_WORKER_ARTIFACT_BUCKET'', ''artifact-bucket''), (''GEN_WORKER_ARTIFACT_REGION'', ''artifact-region''),
      (''GEN_WORKER_ARTIFACT_ENDPOINT_URL'', ''artifact-endpoint-url''),
      (''GEN_WORKER_ARTIFACT_DELIVERY_DOMAIN'', ''artifact-delivery-domain''),
      (''GEN_WORKER_ARTIFACT_ACCESS_KEY_ID'', ''artifact-access-key-id''),
      (''GEN_WORKER_ARTIFACT_SECRET_ACCESS_KEY'', ''artifact-secret-access-key''),
      (''GEN_WORKER_ARTIFACT_SESSION_TOKEN'', ''artifact-session-token'')]"

section \<open>Comparison with a contract\<close>

text \<open>The types agree before the values are compared, so \<open>True\<close> is not 1; absent optional fields may be reported as null.\<close>

fun matches_worker_contract :: "bool \<Rightarrow> pyval \<Rightarrow> pyval \<Rightarrow> bool" where
  "matches_worker_contract allow_null value (PDict expected) \<longleftrightarrow>
     (case value of
        PDict vs \<Rightarrow>
          list_all (\<lambda>(k, e). case map_of vs k of None \<Rightarrow> False | Some v \<Rightarrow> matches_worker_contract allow_null v e) expected
          \<and> list_all (\<lambda>(k, v). k \<in> fst ` set expected \<or> (allow_null \<and> v = PNone)) vs
      | _ \<Rightarrow> False)"
| "matches_worker_contract allow_null value (PList expected) \<longleftrightarrow>
     (case value of PList vs \<Rightarrow> list_all2 (\<lambda>e v. matches_worker_contract allow_null v e) expected vs | _ \<Rightarrow> False)"
| "matches_worker_contract allow_null value expected \<longleftrightarrow> value = expected"

section \<open>Runtime bindings\<close>

text \<open>\<open>str.isalnum\<close> on one character of U+0000 to U+00FF.\<close>

definition py_isalnum :: "char \<Rightarrow> bool" where
  "py_isalnum c \<longleftrightarrow> is_digit c \<or> is_lower_alpha c \<or> is_upper_alpha c \<or> ch c \<in> {170, 178, 179, 181, 185, 186, 188, 189, 190}
     \<or> (192 \<le> ch c \<and> ch c \<noteq> 215 \<and> ch c \<noteq> 247)"

definition sensitive_key :: "string \<Rightarrow> bool" where
  "sensitive_key key \<longleftrightarrow>
     list_ex (\<lambda>marker. py_contains marker (filter py_isalnum (py_lower key))) SENSITIVE_CONFIGURATION_MARKERS"

fun contains_sensitive_configuration :: "pyval \<Rightarrow> bool" where
  "contains_sensitive_configuration (PDict items) \<longleftrightarrow>
     list_ex (\<lambda>(key, item). sensitive_key key \<or> contains_sensitive_configuration item) items"
| "contains_sensitive_configuration (PList items) \<longleftrightarrow> list_ex contains_sensitive_configuration items"
| "contains_sensitive_configuration _ \<longleftrightarrow> False"

definition binding_name_pattern :: "string \<Rightarrow> bool" where
  "binding_name_pattern s \<longleftrightarrow> s \<noteq> [] \<and> length s \<le> 127 \<and> is_upper_alpha (hd s)
     \<and> list_all (\<lambda>c. is_upper_alpha c \<or> is_digit c \<or> c = CHR ''_'') s"

definition parse_runtime_binding :: "pyval \<Rightarrow> deployment_error + string \<times> string" where
  "parse_runtime_binding item =
     (case item of
        PDict entry \<Rightarrow>
          if set (map fst entry) \<noteq> {''name'', ''reference''} then Inl (SaladDeploymentValidationError ''runtime binding fields are invalid'')
          else (case (py_get entry ''name'', py_get entry ''reference'') of
              (PStr name, PStr reference) \<Rightarrow>
                if \<not> binding_name_pattern name \<or> reference = [] \<or> 500 < length reference
                then Inl (SaladDeploymentValidationError ''runtime binding is invalid'')
                else (case map_of SALAD_WORKER_RUNTIME_BINDING_REFERENCES name of
                    None \<Rightarrow> Inl (SaladDeploymentValidationError ''runtime binding name is not allowed'')
                  | Some expected \<Rightarrow>
                      if reference \<noteq> expected then Inl (SaladDeploymentValidationError ''runtime binding reference is invalid'')
                      else Inr (name, reference))
            | _ \<Rightarrow> Inl (SaladDeploymentValidationError ''runtime binding is invalid''))
      | _ \<Rightarrow> Inl (SaladDeploymentValidationError ''runtime binding must be an object''))"

fun parse_bindings_loop :: "string list \<Rightarrow> string list \<Rightarrow> pyval list \<Rightarrow> deployment_error + (string \<times> string) list" where
  "parse_bindings_loop names references [] = Inr []"
| "parse_bindings_loop names references (item # rest) =
     bindE (parse_runtime_binding item) (\<lambda>(name, reference).
       if name \<in> set names \<or> reference \<in> set references then Inl (SaladDeploymentValidationError ''runtime bindings must be unique'')
       else bindE (parse_bindings_loop (name # names) (reference # references) rest) (\<lambda>bs. Inr ((name, reference) # bs)))"

definition parse_runtime_bindings :: "pyval \<Rightarrow> deployment_error + (string \<times> string) list" where
  "parse_runtime_bindings value =
     (case value of PList items \<Rightarrow> parse_bindings_loop [] [] items
      | _ \<Rightarrow> Inl (SaladDeploymentValidationError ''runtime_bindings must be an array''))"

section \<open>The configuration of a new group\<close>

definition has_key :: "json_object \<Rightarrow> string \<Rightarrow> bool" where
  "has_key d k \<longleftrightarrow> map_of d k \<noteq> None"

definition put_key :: "string \<Rightarrow> pyval \<Rightarrow> json_object \<Rightarrow> json_object" where
  "put_key = AList.update"

definition desired_queue_autoscaler :: "SaladDeployment \<Rightarrow> int option \<Rightarrow> deployment_error + json_object" where
  "desired_queue_autoscaler x min_replicas =
     (let resolved = (case min_replicas of None \<Rightarrow> sd_min_replicas x | Some n \<Rightarrow> n) in
      if resolved \<notin> {0, 1}
      then Inl (SaladDeploymentValidationError ''effective queue autoscaler minimum must be zero or one'')
      else if sd_max_replicas x < resolved
      then Inl (SaladDeploymentValidationError ''effective queue autoscaler minimum exceeds the replica cap'')
      else
        (let desired = (case py_get (sd_provider_configuration x) ''queue_autoscaler'' of PDict a \<Rightarrow> a | _ \<Rightarrow> [])
         in Inr (put_key ''desired_queue_length'' (PInt (sd_desired_queue_length x))
              (put_key ''max_replicas'' (PInt (sd_max_replicas x))
                (put_key ''min_replicas'' (PInt resolved) desired)))))"

text \<open>
  The container: a priority at the top level of an older configuration moves into it, the image is the immutable one.
  \<open>in\<close> on a set raises a \<open>TypeError\<close> for a list or an object.
\<close>

definition payload_container :: "SaladDeployment \<Rightarrow> json_object \<Rightarrow> deployment_error + json_object" where
  "payload_container x configuration =
     (case py_get configuration ''container'' of
        PDict container0 \<Rightarrow>
          (let legacy = py_get configuration ''priority'';
               configured = py_get container0 ''priority'';
               moved = (legacy \<noteq> PNone \<and> configured = PNone);
               container = (if moved then put_key ''priority'' legacy container0 else container0);
               priority = (if moved then legacy else configured);
               image = py_get container ''image''
           in if legacy \<noteq> PNone \<and> configured \<noteq> PNone \<and> \<not> py_eq legacy configured
              then Inl (SaladDeploymentValidationError ''container priority conflicts'')
              else if image \<noteq> PNone \<and> image \<noteq> PStr (sd_worker_image_digest x)
              then Inl (SaladDeploymentValidationError ''container image must match the immutable digest'')
              else (case priority of
                  PList _ \<Rightarrow> Inl OtherException
                | PDict _ \<Rightarrow> Inl OtherException
                | _ \<Rightarrow> if priority \<in> {PStr ''high'', PStr ''medium'', PStr ''low'', PStr ''batch''} then Inr container
                    else Inl (SaladDeploymentValidationError ''container priority is invalid'')))
      | _ \<Rightarrow> Inl (SaladDeploymentValidationError ''provider configuration.container is required''))"

definition payload_queue_connection :: "SaladDeployment \<Rightarrow> json_object \<Rightarrow> deployment_error + json_object" where
  "payload_queue_connection x configuration =
     (case py_get configuration ''queue_connection'' of
        PDict qc \<Rightarrow>
          if has_key qc ''path'' \<and> py_get qc ''path'' \<noteq> PStr WORKER_QUEUE_PATH
          then Inl (SaladDeploymentValidationError ''queue_connection.path must be /jobs/generate'')
          else if has_key qc ''port'' \<and> py_get qc ''port'' \<noteq> PInt WORKER_PORT
          then Inl (SaladDeploymentValidationError ''queue_connection.port must be 8000'')
          else if has_key qc ''queue_name'' \<and> py_get qc ''queue_name'' \<noteq> PStr (sd_queue_name x)
          then Inl (SaladDeploymentValidationError ''queue connection conflicts with deployment queue'')
          else Inr (put_key ''queue_name'' (PStr (sd_queue_name x))
                 (put_key ''port'' (PInt WORKER_PORT) (put_key ''path'' (PStr WORKER_QUEUE_PATH) qc)))
      | _ \<Rightarrow> Inl (SaladDeploymentValidationError ''queue_connection is required''))"

fun payload_probes :: "json_object \<Rightarrow> json_object \<Rightarrow> deployment_error + unit" where
  "payload_probes configuration [] = Inr ()"
| "payload_probes configuration ((probe_name, expected) # rest) =
     (if has_key configuration probe_name
         \<and> \<not> matches_worker_contract False (py_get configuration probe_name) expected
      then Inl (SaladDeploymentValidationError (probe_name @ '' conflicts with the production worker contract''))
      else payload_probes configuration rest)"

fun payload_autoscaler_loop :: "json_object \<Rightarrow> (string \<times> int) list \<Rightarrow> deployment_error + json_object" where
  "payload_autoscaler_loop autoscaler [] = Inr autoscaler"
| "payload_autoscaler_loop autoscaler ((key, expected) # rest) =
     (if py_get autoscaler key \<noteq> PNone \<and> py_get autoscaler key \<noteq> PInt expected
      then Inl (SaladDeploymentValidationError (''queue_autoscaler.'' @ key @ '' conflicts''))
      else payload_autoscaler_loop (put_key key (PInt expected) autoscaler) rest)"

definition payload_autoscaler :: "SaladDeployment \<Rightarrow> json_object \<Rightarrow> int option \<Rightarrow> deployment_error + json_object" where
  "payload_autoscaler x configuration effective_min_replicas =
     bindE (case map_of configuration ''queue_autoscaler'' of
              None \<Rightarrow> Inr [] | Some (PDict a) \<Rightarrow> Inr a
            | _ \<Rightarrow> Inl (SaladDeploymentValidationError ''queue_autoscaler must be an object'')) (\<lambda>autoscaler0.
     bindE (payload_autoscaler_loop autoscaler0 [(''min_replicas'', sd_min_replicas x),
              (''max_replicas'', sd_max_replicas x), (''desired_queue_length'', sd_desired_queue_length x)]) (\<lambda>autoscaler.
       case effective_min_replicas of
         None \<Rightarrow> Inr autoscaler
       | Some n \<Rightarrow> bindE (desired_queue_autoscaler x (Some n)) (\<lambda>desired.
           Inr (put_key ''min_replicas'' (py_get desired ''min_replicas'') autoscaler))))"

text \<open>
  The environment: the runtime bindings as the secret backend resolves them (a parameter), then the overrides of a
  runtime refresh.
\<close>

datatype resolver_answer = Resolved json_object | RuntimeSecretResolutionError | ResolverException

type_synonym secret_resolver = "(string \<times> string) list \<Rightarrow> resolver_answer"

definition nonempty_text :: "pyval \<Rightarrow> bool" where
  "nonempty_text v = (case v of PStr s \<Rightarrow> s \<noteq> [] | _ \<Rightarrow> False)"

definition payload_environment ::
  "secret_resolver option \<Rightarrow> (string \<times> string) list \<Rightarrow> bool \<Rightarrow> deployment_error + json_object" where
  "payload_environment resolver bindings resolve_runtime_bindings =
     (if \<not> resolve_runtime_bindings then Inr []
      else (case resolver of
          None \<Rightarrow> if bindings = [] then Inr []
            else Inl (SaladDeploymentValidationError ''runtime bindings require a secret resolver'')
        | Some resolve_many \<Rightarrow>
            (case resolve_many bindings of
               ResolverException \<Rightarrow> Inl OtherException
             | RuntimeSecretResolutionError \<Rightarrow>
                 Inl (SaladDeploymentValidationError ''runtime binding could not be resolved'')
             | Resolved resolved \<Rightarrow>
                 if set (map fst resolved) \<noteq> set (map fst bindings) \<or> \<not> list_all (\<lambda>(_, v). nonempty_text v) resolved
                 then Inl (SaladDeploymentValidationError ''runtime binding could not be resolved'')
                 else Inr (AList.updates (map fst resolved) (map snd resolved) []))))"

definition runtime_admission_id_pattern :: "string \<Rightarrow> bool" where
  "runtime_admission_id_pattern s \<longleftrightarrow> length s = 32 \<and> list_all is_lower_hex s"

definition validate_overrides :: "json_object \<Rightarrow> deployment_error + unit" where
  "validate_overrides overrides =
     (let manifest = {WORKER_MODEL_MANIFEST_JSON_BINDING, WORKER_MODEL_MANIFEST_SHA256_BINDING};
          names = set (map fst overrides)
      in if \<not> names \<subseteq> manifest \<union> {WORKER_RUNTIME_ADMISSION_ID_BINDING}
            \<or> \<not> list_all (\<lambda>(_, v). nonempty_text v) overrides
         then Inl (SaladDeploymentValidationError ''runtime environment override is invalid'')
         else if overrides \<noteq> [] \<and> \<not> manifest \<subseteq> names
         then Inl (SaladDeploymentValidationError ''runtime manifest override is incomplete'')
         else (case py_get overrides WORKER_RUNTIME_ADMISSION_ID_BINDING of
             PStr v \<Rightarrow> if runtime_admission_id_pattern v then Inr ()
               else Inl (SaladDeploymentValidationError ''runtime admission id override is invalid'')
           | _ \<Rightarrow> Inr ()))"

definition container_group_payload ::
  "SaladDeployment \<Rightarrow> secret_resolver option \<Rightarrow> json_object \<Rightarrow> int option \<Rightarrow> bool \<Rightarrow> deployment_error + json_object" where
  "container_group_payload x resolver overrides effective_min_replicas resolve_runtime_bindings =
     (let configuration0 = sd_provider_configuration x;
          configuration1 = AList.delete RUNTIME_BINDINGS_KEY configuration0;
          configuration2 = AList.delete ''runtime_binding_contract_sha256'' configuration1;
          configuration = AList.delete ''image_pull_mode'' configuration2
      in bindE (parse_runtime_bindings (case map_of configuration0 RUNTIME_BINDINGS_KEY of None \<Rightarrow> PList [] | Some v \<Rightarrow> v))
        (\<lambda>bindings.
      bindE (require (py_get configuration1 ''runtime_binding_contract_sha256'' = PNone)
        (SaladDeploymentValidationError ''retired runtime binding contract is not supported'')) (\<lambda>_.
      bindE (require (map_of configuration2 ''image_pull_mode'' \<in> {None, Some (PStr ''public'')})
        (SaladDeploymentValidationError ''private image pull mode is not supported'')) (\<lambda>_.
      bindE (require (\<not> contains_sensitive_configuration (PDict configuration)) (SaladDeploymentValidationError
        ''live environment values must not be stored in provider configuration'')) (\<lambda>_.
      bindE (require (py_get configuration ''name'' \<in> {PNone, PStr (sd_container_group_name x)})
        (SaladDeploymentValidationError ''container group name conflicts with deployment'')) (\<lambda>_.
      bindE (require (map_of configuration ''replicas'' \<in> {None, Some (PInt 0)})
        (SaladDeploymentValidationError ''initial Salad replicas must be zero'')) (\<lambda>_.
      bindE (payload_container x configuration) (\<lambda>container.
      bindE (payload_queue_connection x configuration) (\<lambda>queue_connection.
      bindE (require (map_of configuration ''restart_policy'' \<in> {None, Some (PStr WORKER_RESTART_POLICY)})
        (SaladDeploymentValidationError ''restart_policy must be on_failure'')) (\<lambda>_.
      bindE (payload_probes configuration WORKER_PROBE_CONTRACTS) (\<lambda>_.
      bindE (payload_autoscaler x configuration effective_min_replicas) (\<lambda>autoscaler.
      bindE (payload_environment resolver bindings resolve_runtime_bindings) (\<lambda>resolved.
      bindE (validate_overrides overrides) (\<lambda>_.
        let environment = AList.updates (map fst overrides) (map snd overrides) resolved;
            image = put_key ''image'' (PStr (sd_worker_image_digest x)) container;
            container' = (if environment \<noteq> [] then put_key ''environment_variables'' (PDict environment) image else image);
            named = put_key ''display_name'' (PStr (sd_container_group_name x))
              (put_key ''name'' (PStr (sd_container_group_name x)) (AList.delete ''priority'' configuration));
            policies = put_key ''restart_policy'' (PStr WORKER_RESTART_POLICY)
              (put_key ''replicas'' (PInt 0) (put_key ''autostart_policy'' (PBool True) named));
            probed = AList.updates (map fst WORKER_PROBE_CONTRACTS) (map snd WORKER_PROBE_CONTRACTS) policies
        in Inr (put_key ''queue_autoscaler'' (PDict autoscaler)
             (put_key ''queue_connection'' (PDict queue_connection)
               (put_key ''container'' (PDict container') probed)))))))))))))))))"

section \<open>Drift of a reported group\<close>

text \<open>The provider adds its default shared memory size to the resources it reports.\<close>

definition observed_container_value :: "json_object \<Rightarrow> string \<Rightarrow> pyval" where
  "observed_container_value container key =
     (case py_get container key of
        PDict resources \<Rightarrow>
          if key = ''resources'' \<and> py_eq (py_get resources ''shm_size'') (PInt SALAD_DEFAULT_SHM_SIZE)
          then PDict (filter (\<lambda>(k, _). k \<noteq> ''shm_size'') resources) else PDict resources
      | v \<Rightarrow> v)"

definition queue_connection_matches :: "SaladDeployment \<Rightarrow> pyval \<Rightarrow> bool" where
  "queue_connection_matches x v =
     (case v of
        PDict qc \<Rightarrow> py_get qc ''queue_name'' = PStr (sd_queue_name x) \<and> py_get qc ''path'' = PStr WORKER_QUEUE_PATH
          \<and> py_get qc ''port'' = PInt WORKER_PORT
      | _ \<Rightarrow> False)"

definition group_configuration_drift ::
  "SaladDeployment \<Rightarrow> SaladContainerGroup \<Rightarrow> int option \<Rightarrow> deployment_error + string option" where
  "group_configuration_drift x cgroup effective_min_replicas =
     (let raw = cg_raw cgroup;
          container = (case py_get raw ''container'' of PDict c \<Rightarrow> Some c | _ \<Rightarrow> None)
      in case container of
           None \<Rightarrow> Inr (Some ''provider_image_drift'')
         | Some container \<Rightarrow>
             if py_get container ''image'' \<noteq> PStr (sd_worker_image_digest x) then Inr (Some ''provider_image_drift'')
             else (case py_get (sd_provider_configuration x) ''container'' of
                 PDict desired_container \<Rightarrow>
                   if \<not> list_all (\<lambda>(key, expected). key \<in> {''image'', ''priority''}
                        \<or> matches_worker_contract True (observed_container_value container key) expected) desired_container
                   then Inr (Some ''provider_container_contract_drift'')
                   else if \<not> queue_connection_matches x (py_get raw ''queue_connection'')
                   then Inr (Some ''provider_queue_connection_drift'')
                   else if py_get raw ''restart_policy'' \<noteq> PStr WORKER_RESTART_POLICY
                   then Inr (Some ''provider_restart_policy_drift'')
                   else (case find (\<lambda>(probe_name, expected). \<not> matches_worker_contract True (py_get raw probe_name) expected)
                            WORKER_PROBE_CONTRACTS of
                       Some (probe_name, _) \<Rightarrow> Inr (Some (''provider_'' @ probe_name @ ''_drift''))
                     | None \<Rightarrow>
                         bindE (desired_queue_autoscaler x effective_min_replicas) (\<lambda>expected_autoscaler.
                         let desired_priority = (if py_get desired_container ''priority'' = PNone
                               then py_get (sd_provider_configuration x) ''priority''
                               else py_get desired_container ''priority'')
                         in if \<not> matches_worker_contract True (py_get raw ''queue_autoscaler'') (PDict expected_autoscaler)
                            then Inr (Some ''provider_autoscaler_drift'')
                            else if \<not> py_eq (py_get raw ''priority'') desired_priority
                            then Inr (Some ''provider_priority_drift'')
                            else if sd_max_replicas x < cg_replicas cgroup
                            then Inr (Some ''provider_replica_limit_drift'')
                            else Inr None))
               | _ \<Rightarrow> Inr (Some ''provider_container_contract_drift'')))"

definition remote_drift_code ::
  "SaladDeployment \<Rightarrow> SaladQueue \<Rightarrow> SaladContainerGroup \<Rightarrow> int option \<Rightarrow> deployment_error + string option" where
  "remote_drift_code x queue cgroup effective_min_replicas =
     (if sq_name queue \<noteq> sd_queue_name x \<or> sd_provider_queue_id x \<noteq> Some (uuid_str (sq_id queue))
      then Inr (Some ''provider_queue_identity_drift'')
      else if cg_name cgroup \<noteq> sd_container_group_name x
        \<or> sd_provider_container_group_id x \<noteq> Some (uuid_str (cg_id cgroup))
      then Inr (Some ''provider_group_identity_drift'')
      else group_configuration_drift x cgroup effective_min_replicas)"

end
