(* ===== verification/GpuClock.thy ===== *)
theory GpuClock
  imports Store SaladProvider "HOL-Library.Char_ord" "HOL-Library.List_Lexorder" "HOL-Library.Product_Lexorder"
begin

text \<open>
  The billing timer of a worker deployment. \<open>services/salad_deployments.py\<close> writes it, from each list of container
  instances the provider returns (\<open>_apply_billing_observation\<close>); \<open>services/gpu_billing.py\<close> reads it into the
  snapshot the dashboards show. The timer has a session, the time accumulated in closed segments, and at most one open
  segment, that of the running instance. Stored and provider timestamps without a zone are read as UTC.
\<close>

section \<open>Observations\<close>

text \<open>Python's \<open>min\<close> and \<open>max\<close> with a key, which keep the first of equal elements.\<close>

definition min_by :: "('a \<Rightarrow> 'k::linorder) \<Rightarrow> 'a \<Rightarrow> 'a list \<Rightarrow> 'a" where
  "min_by key x xs = foldl (\<lambda>best y. if key y < key best then y else best) x xs"

definition max_by :: "('a \<Rightarrow> 'k::linorder) \<Rightarrow> 'a \<Rightarrow> 'a list \<Rightarrow> 'a" where
  "max_by key x xs = foldl (\<lambda>best y. if key best < key y then y else best) x xs"

definition is_preparing :: "SaladContainerGroupInstance \<Rightarrow> bool" where
  "is_preparing i \<longleftrightarrow> gi_state i \<in> {InstanceALLOCATING, InstanceDOWNLOADING, InstanceCREATING}"

definition close_active_billing_segment ::
  "SaladDeployment \<Rightarrow> SaladContainerGroupInstance list \<Rightarrow> instant \<Rightarrow> instant \<Rightarrow> SaladDeployment" where
  "close_active_billing_segment x instances observed_at fallback_end =
     (let closed = x\<lparr>sd_billing_active_instance_id := None, sd_billing_active_started_at := None\<rparr> in
      case (sd_billing_active_instance_id x, sd_billing_active_started_at x) of
        (Some active_id, Some active_started) \<Rightarrow>
          (let exact_transition = find (\<lambda>i. gi_id i = active_id \<and> gi_state i \<noteq> InstanceRUNNING) instances;
               ended_at0 = (case exact_transition of Some i \<Rightarrow> gi_update_time i | None \<Rightarrow> fallback_end);
               out_of_range = (ended_at0 < active_started \<or> observed_at < ended_at0);
               ended_at = (if out_of_range then observed_at else ended_at0);
               estimated = (if out_of_range then True
                            else if exact_transition = None then True else sd_billing_estimated x)
           in closed\<lparr>sd_billing_estimated := estimated,
                sd_billing_accumulated_microseconds :=
                  sd_billing_accumulated_microseconds x + (ended_at - active_started)\<rparr>)
      | _ \<Rightarrow> closed)"

definition end_billing_session :: "SaladDeployment \<Rightarrow> instant \<Rightarrow> SaladDeployment" where
  "end_billing_session x ended_at =
     (case (sd_billing_session_started_at x, sd_billing_session_ended_at x) of
        (Some started_at, None) \<Rightarrow>
          (let y = (if sd_billing_active_started_at x \<noteq> None
                    then close_active_billing_segment x [] ended_at ended_at else x)
           in y\<lparr>sd_billing_session_ended_at := Some (max started_at ended_at)\<rparr>)
      | _ \<Rightarrow> x)"

text \<open>The steps of \<open>_apply_billing_observation\<close>: a new free preparation after an ended session starts over.\<close>

definition restart_preparation :: "SaladContainerGroupInstance list \<Rightarrow> SaladDeployment \<Rightarrow> SaladDeployment" where
  "restart_preparation instances x =
     (if sd_billing_session_ended_at x \<noteq> None \<and> list_ex is_preparing instances
      then x\<lparr>sd_billing_session_started_at := None, sd_billing_session_ended_at := None,
             sd_billing_accumulated_microseconds := 0, sd_billing_active_instance_id := None,
             sd_billing_active_started_at := None, sd_billing_estimated := False\<rparr>
      else x)"

definition flag_untracked_stopping :: "SaladContainerGroupInstance list \<Rightarrow> SaladDeployment \<Rightarrow> SaladDeployment" where
  "flag_untracked_stopping instances x =
     (if list_ex (\<lambda>i. gi_state i = InstanceSTOPPING \<and> Some (gi_id i) \<noteq> sd_billing_active_instance_id x) instances
      then x\<lparr>sd_billing_observation_stale := True, sd_billing_estimated := True\<rparr> else x)"

text \<open>
  The branch with running instances: the earliest of them is the open segment. A segment of another instance or another
  start is closed first; then a session is started, or the segment joins the session that is open.
\<close>

definition open_billing_session :: "instant \<Rightarrow> bool \<Rightarrow> SaladDeployment \<Rightarrow> SaladDeployment \<times> instant" where
  "open_billing_session selected_started_at start_was_estimated x =
     (if sd_billing_session_started_at x = None \<or> sd_billing_session_ended_at x \<noteq> None
      then (x\<lparr>sd_billing_session_started_at := Some selected_started_at, sd_billing_session_ended_at := None,
              sd_billing_accumulated_microseconds := 0, sd_billing_estimated := start_was_estimated\<rparr>,
            selected_started_at)
      else (case sd_billing_session_started_at x of
          Some started \<Rightarrow>
            if selected_started_at < started then (x\<lparr>sd_billing_estimated := True\<rparr>, started)
            else (x, selected_started_at)
        | None \<Rightarrow> (x, selected_started_at)))"

definition track_running ::
  "SaladContainerGroupInstance list \<Rightarrow> SaladContainerGroupInstance \<Rightarrow> SaladContainerGroupInstance list \<Rightarrow> instant
    \<Rightarrow> SaladDeployment \<Rightarrow> SaladDeployment" where
  "track_running instances first others observed_at x =
     (let selected = min_by (\<lambda>i. (gi_update_time i, gi_id i)) first others;
          several = (others \<noteq> []);
          x1 = (if several then x\<lparr>sd_billing_observation_stale := True\<rparr> else x);
          selected_started_at = min (gi_update_time selected) observed_at;
          start_was_estimated = (several \<or> observed_at < gi_update_time selected);
          same_segment = (sd_billing_active_instance_id x1 = Some (gi_id selected)
             \<and> sd_billing_active_started_at x1 = Some selected_started_at);
          x2 = (if \<not> same_segment \<and> sd_billing_active_started_at x1 \<noteq> None
                then close_active_billing_segment x1 instances observed_at (min selected_started_at observed_at)
                else x1);
          (x3, segment_start) = open_billing_session selected_started_at start_was_estimated x2;
          x4 = (if \<not> same_segment
                then x3\<lparr>sd_billing_active_instance_id := Some (gi_id selected),
                        sd_billing_active_started_at := Some segment_start\<rparr>
                else x3)
      in x4\<lparr>sd_billing_estimated := (sd_billing_estimated x4 \<or> start_was_estimated)\<rparr>)"

definition apply_billing_observation ::
  "SaladDeployment \<Rightarrow> SaladContainerGroupInstance list \<Rightarrow> SaladContainerGroupInstance list \<Rightarrow> instant \<Rightarrow> bool
    \<Rightarrow> SaladDeployment" where
  "apply_billing_observation x instances running observed_at end_session =
     (let x1 = x\<lparr>sd_billing_observed_at := Some observed_at, sd_billing_observation_stale := False\<rparr>;
          x2 = flag_untracked_stopping instances (restart_preparation instances x1)
      in case running of
           first # others \<Rightarrow> track_running instances first others observed_at x2
         | [] \<Rightarrow>
             (let x3 = (if sd_billing_active_started_at x2 \<noteq> None
                        then close_active_billing_segment x2 instances observed_at observed_at else x2)
              in if end_session then end_billing_session x3 observed_at else x3))"

definition group_has_instance_activity :: "SaladContainerGroup \<Rightarrow> bool" where
  "group_has_instance_activity cgroup =
     (let s = cg_current_state cgroup in
      0 < cg_replicas cgroup \<or> 0 < gs_allocating_count s \<or> 0 < gs_creating_count s \<or> 0 < gs_running_count s
        \<or> 0 < gs_stopping_count s)"

definition is_true_scale_to_zero :: "SaladContainerGroup \<Rightarrow> int \<Rightarrow> bool" where
  "is_true_scale_to_zero cgroup effective_min_replicas =
     (let s = cg_current_state cgroup in
      effective_min_replicas = 0 \<and> cg_replicas cgroup = 0 \<and> gs_allocating_count s = 0 \<and> gs_creating_count s = 0
        \<and> gs_running_count s = 0 \<and> gs_stopping_count s = 0)"

text \<open>
  \<open>_refresh_billing_observation\<close> with the provider's answer to the instance list and the clock read after it. The
  result is the row and, when the list was read, the number of running instances.
\<close>

definition refresh_billing_observation ::
  "SaladContainerGroupInstance list salad_answer \<Rightarrow> instant \<Rightarrow> SaladDeployment \<Rightarrow> SaladContainerGroup \<Rightarrow> instant \<Rightarrow> bool
    \<Rightarrow> SaladDeployment \<times> (int \<times> instant) option" where
  "refresh_billing_observation answer billing_observation_clock x cgroup observed_at end_session =
     (case answer of
        Inl _ \<Rightarrow>
          (x\<lparr>sd_billing_observation_stale :=
               (sd_billing_observation_stale x
                \<or> (sd_billing_session_started_at x \<noteq> None \<and> sd_billing_session_ended_at x = None)
                \<or> group_has_instance_activity cgroup)\<rparr>, None)
      | Inr instances \<Rightarrow>
          (let received_at = max observed_at billing_observation_clock;
               running = filter (\<lambda>i. gi_state i = InstanceRUNNING) instances
           in (apply_billing_observation x instances running received_at end_session,
               Some (int (length running), received_at))))"

section \<open>Snapshots\<close>

definition OBSERVATION_STALE_AFTER :: int where "OBSERVATION_STALE_AFTER = 90 * us_per_second"

datatype GpuBillingState = BillingNOT_STARTED | BillingCHARGING | BillingSTOPPING | BillingPAUSED | BillingENDED | BillingSTALE

record GpuBillingSnapshot =
  gb_state :: GpuBillingState
  gb_elapsed_seconds :: int
  gb_running_instances :: int
  gb_session_started_at :: "instant option"
  gb_observed_at :: "instant option"
  gb_estimated :: bool
  gb_fresh_for_seconds :: int
  gb_session_ended_at :: "instant option"

definition gb_unresolved :: "GpuBillingSnapshot \<Rightarrow> bool" where
  "gb_unresolved s \<longleftrightarrow> gb_state s \<in> {BillingCHARGING, BillingSTOPPING, BillingPAUSED, BillingSTALE}"

definition provider_group_can_restart :: "SaladDeployment \<Rightarrow> bool" where
  "provider_group_can_restart x \<longleftrightarrow> sd_provider_container_group_id x \<noteq> None
     \<and> sd_state x \<notin> {DeploymentSTOPPED, DeploymentFAILED}"

definition billing_observation_is_aged :: "SaladDeployment \<Rightarrow> instant \<Rightarrow> bool" where
  "billing_observation_is_aged x now =
     (case sd_billing_observed_at x of None \<Rightarrow> True | Some t \<Rightarrow> OBSERVATION_STALE_AFTER \<le> now - t)"

definition unix_epoch :: instant where "unix_epoch = 719162 * us_per_day"

definition timestamp_key :: "instant option \<Rightarrow> int" where
  "timestamp_key v = (case v of None \<Rightarrow> -1 | Some t \<Rightarrow> t - unix_epoch)"

definition unresolved_deployment :: "instant \<Rightarrow> SaladDeployment \<Rightarrow> bool" where
  "unresolved_deployment now x \<longleftrightarrow>
     (sd_billing_session_started_at x \<noteq> None \<and> sd_billing_session_ended_at x = None)
   \<or> (sd_billing_observation_stale x \<and> sd_state x \<notin> {DeploymentSTOPPED, DeploymentFAILED})
   \<or> (provider_group_can_restart x \<and> billing_observation_is_aged x now)"

definition select_billing_deployment :: "SaladDeployment list \<Rightarrow> instant \<Rightarrow> SaladDeployment option" where
  "select_billing_deployment deployments now =
     (case filter (unresolved_deployment now) deployments of
        y # ys \<Rightarrow> Some (max_by (\<lambda>x. (sd_billing_active_started_at x \<noteq> None,
                         timestamp_key (sd_billing_session_started_at x), sd_version_no x)) y ys)
      | [] \<Rightarrow> (case find sd_is_current deployments of
            Some x \<Rightarrow> Some x
          | None \<Rightarrow> (case filter (\<lambda>x. sd_billing_session_started_at x \<noteq> None) deployments of
                y # ys \<Rightarrow> Some (max_by (\<lambda>x. (timestamp_key (sd_billing_session_started_at x), sd_version_no x)) y ys)
              | [] \<Rightarrow> None)))"

text \<open>\<open>1 if (ready_replicas or observed_replicas or 0) > 0 else 0\<close>.\<close>

definition apparent_instances :: "SaladDeployment \<Rightarrow> int" where
  "apparent_instances x =
     (let observed = (case sd_observed_replicas x of None \<Rightarrow> 0 | Some n \<Rightarrow> n);
          n = (case sd_ready_replicas x of None \<Rightarrow> observed | Some r \<Rightarrow> if r = 0 then observed else r)
      in if 0 < n then 1 else 0)"

definition fresh_for_seconds :: "instant \<Rightarrow> instant option \<Rightarrow> bool \<Rightarrow> int" where
  "fresh_for_seconds now observed_at stale =
     (case observed_at of
        None \<Rightarrow> 0
      | Some t \<Rightarrow> if stale then 0
          else max 0 ((OBSERVATION_STALE_AFTER - max 0 (now - t)) div us_per_second))"

definition snapshot_for_deployment :: "SaladDeployment \<Rightarrow> instant \<Rightarrow> GpuBillingSnapshot" where
  "snapshot_for_deployment x now =
     (let observed_at = sd_billing_observed_at x;
          accumulated = max 0 (sd_billing_accumulated_microseconds x);
          provider_observation_stale = (sd_billing_observation_stale x
             \<or> (provider_group_can_restart x \<and> billing_observation_is_aged x now))
      in case sd_billing_session_started_at x of
           None \<Rightarrow>
             if provider_observation_stale
             then \<lparr>gb_state = BillingSTALE, gb_elapsed_seconds = 0, gb_running_instances = apparent_instances x,
                   gb_session_started_at = None, gb_observed_at = observed_at, gb_estimated = True,
                   gb_fresh_for_seconds = 0, gb_session_ended_at = None\<rparr>
             else \<lparr>gb_state = BillingNOT_STARTED, gb_elapsed_seconds = 0, gb_running_instances = 0,
                   gb_session_started_at = None, gb_observed_at = observed_at, gb_estimated = False,
                   gb_fresh_for_seconds = 0, gb_session_ended_at = None\<rparr>
         | Some session_started_at \<Rightarrow>
             if sd_billing_session_ended_at x \<noteq> None
             then (if provider_observation_stale
                   then \<lparr>gb_state = BillingSTALE, gb_elapsed_seconds = accumulated div us_per_second,
                         gb_running_instances = apparent_instances x, gb_session_started_at = None,
                         gb_observed_at = observed_at, gb_estimated = True, gb_fresh_for_seconds = 0,
                         gb_session_ended_at = None\<rparr>
                   else \<lparr>gb_state = BillingENDED, gb_elapsed_seconds = accumulated div us_per_second,
                         gb_running_instances = 0, gb_session_started_at = Some session_started_at,
                         gb_observed_at = observed_at, gb_estimated = sd_billing_estimated x,
                         gb_fresh_for_seconds = 0, gb_session_ended_at = sd_billing_session_ended_at x\<rparr>)
             else
               (let stale = (provider_observation_stale
                      \<or> (case observed_at of None \<Rightarrow> True | Some t \<Rightarrow> OBSERVATION_STALE_AFTER \<le> now - t));
                    elapsed = (case sd_billing_active_started_at x of
                        None \<Rightarrow> accumulated
                      | Some active_started_at \<Rightarrow>
                          (let cutoff = (case observed_at of Some t \<Rightarrow> if stale then t else now | None \<Rightarrow> now)
                           in if active_started_at < cutoff
                              then accumulated + (cutoff - active_started_at) else accumulated));
                    state = (if stale then BillingSTALE
                             else if sd_billing_active_started_at x = None then BillingPAUSED
                             else if sd_desired_state x = DesiredSTOPPED \<or> sd_state x = DeploymentDRAINING
                             then BillingSTOPPING else BillingCHARGING)
                in \<lparr>gb_state = state, gb_elapsed_seconds = elapsed div us_per_second,
                    gb_running_instances = (if sd_billing_active_started_at x \<noteq> None then 1 else 0),
                    gb_session_started_at = Some session_started_at, gb_observed_at = observed_at,
                    gb_estimated = (sd_billing_estimated x \<or> stale),
                    gb_fresh_for_seconds = fresh_for_seconds now observed_at stale,
                    gb_session_ended_at = None\<rparr>))"

text \<open>A snapshot time must carry a zone.\<close>

datatype gpu_billing_error = NaiveSnapshotTime

definition empty_billing_snapshot :: GpuBillingSnapshot where
  "empty_billing_snapshot = \<lparr>gb_state = BillingNOT_STARTED, gb_elapsed_seconds = 0, gb_running_instances = 0,
     gb_session_started_at = None, gb_observed_at = None, gb_estimated = False, gb_fresh_for_seconds = 0,
     gb_session_ended_at = None\<rparr>"

definition load_shared_gpu_billing_snapshot ::
  "instant \<Rightarrow> db \<Rightarrow> pydatetime option \<Rightarrow> SaladDeploymentPurpose \<Rightarrow> gpu_billing_error + GpuBillingSnapshot" where
  "load_shared_gpu_billing_snapshot clock d now purpose =
     (case (case now of None \<Rightarrow> Aware clock | Some t \<Rightarrow> t) of
        Naive _ \<Rightarrow> Inl NaiveSnapshotTime
      | Aware current_time \<Rightarrow>
          (let deployments = sort_key (\<lambda>x. (- sd_version_no x, - int (sd_id x)))
                 (filter (\<lambda>x. sd_purpose x = purpose) (db_deployments d))
           in Inr (case select_billing_deployment deployments current_time of
                None \<Rightarrow> empty_billing_snapshot
              | Some x \<Rightarrow> snapshot_for_deployment x current_time)))"

definition GpuBillingState_value :: "GpuBillingState \<Rightarrow> string" where
  "GpuBillingState_value s = (case s of BillingNOT_STARTED \<Rightarrow> ''not_started'' | BillingCHARGING \<Rightarrow> ''charging''
     | BillingSTOPPING \<Rightarrow> ''stopping'' | BillingPAUSED \<Rightarrow> ''paused'' | BillingENDED \<Rightarrow> ''ended'' | BillingSTALE \<Rightarrow> ''stale'')"

definition isoformat_or_none :: "instant option \<Rightarrow> pyval" where
  "isoformat_or_none v = (case v of None \<Rightarrow> PNone | Some t \<Rightarrow> PStr (isoformat t))"

definition gpu_billing_payload :: "GpuBillingSnapshot \<Rightarrow> (string \<times> pyval) list" where
  "gpu_billing_payload s =
     [(''state'', PStr (GpuBillingState_value (gb_state s))), (''elapsed_seconds'', PInt (gb_elapsed_seconds s)),
      (''running_instances'', PInt (gb_running_instances s)),
      (''session_started_at'', isoformat_or_none (gb_session_started_at s)),
      (''observed_at'', isoformat_or_none (gb_observed_at s)), (''estimated'', PBool (gb_estimated s)),
      (''fresh_for_seconds'', PInt (gb_fresh_for_seconds s))]"

definition gpu_billing_poll_after_ms :: "GpuBillingSnapshot \<Rightarrow> int \<Rightarrow> int" where
  "gpu_billing_poll_after_ms s settled_poll_after_ms =
     (if gb_unresolved s then max 3000 settled_poll_after_ms else settled_poll_after_ms)"

end
