(* ===== verification/GpuMetering.thy ===== *)
theory GpuMetering
  imports GpuClock BudgetProperties
begin

text \<open>
  Metering of the provider's run time into the budget ledger: \<open>_meter_runtime_interval\<close> and its helpers in
  \<open>services/salad_deployments.py\<close>. The interval since the last observation is cut at midnight UTC, and every piece is a
  usage entry of \<open>record_spend_entry\<close> whose key names the deployment, the piece and the replica count.
\<close>

definition MICROSECONDS_PER_HOUR :: int where "MICROSECONDS_PER_HOUR = 3600000000"

definition is_authoritatively_stopped :: "SaladContainerGroup \<Rightarrow> bool" where
  "is_authoritatively_stopped cgroup =
     (let s = cg_current_state cgroup in
      py_lower (py_strip (gs_status s)) = ''stopped'' \<and> gs_allocating_count s = 0 \<and> gs_creating_count s = 0
        \<and> gs_running_count s = 0 \<and> gs_stopping_count s = 0)"

definition observed_replicas :: "SaladContainerGroup \<Rightarrow> int" where
  "observed_replicas cgroup =
     (let s = cg_current_state cgroup in
      if is_authoritatively_stopped cgroup then 0
      else max (cg_replicas cgroup)
             (gs_allocating_count s + gs_creating_count s + gs_running_count s + gs_stopping_count s))"

definition epoch_microseconds :: "instant \<Rightarrow> int" where
  "epoch_microseconds t = t - unix_epoch"

text \<open>The loop of \<open>_daily_segments\<close>: each turn ends at the next midnight or at the end.\<close>

function daily_segments :: "instant \<Rightarrow> instant \<Rightarrow> (instant \<times> instant) list" where
  "daily_segments cursor end_at =
     (if cursor < end_at
      then (let segment_end = min (day_start_of cursor + us_per_day) end_at
            in (cursor, segment_end) # daily_segments segment_end end_at)
      else [])"
  by pat_completeness auto
termination
proof (relation "measure (\<lambda>(s, e). nat (e - s))", simp)
  fix s e m :: instant
  assume "s < e" "m = min (day_start_of s + us_per_day) e"
  with instant_in_day(2) [of s] show "((m, e), (s, e)) \<in> measure (\<lambda>(s, e). nat (e - s))" by auto
qed

declare daily_segments.simps [simp del]

definition segment_amount :: "int \<Rightarrow> int \<Rightarrow> instant \<times> instant \<Rightarrow> int" where
  "segment_amount max_hourly_cost_microusd replicas segment =
     (case segment of (segment_start, segment_end) \<Rightarrow>
        (max_hourly_cost_microusd * replicas * (segment_end - segment_start) + MICROSECONDS_PER_HOUR - 1)
          div MICROSECONDS_PER_HOUR)"

definition runtime_dedupe_key :: "uuid \<Rightarrow> int \<Rightarrow> instant \<times> instant \<Rightarrow> string" where
  "runtime_dedupe_key deployment_id replicas segment =
     (case segment of (segment_start, segment_end) \<Rightarrow>
        ''salad-runtime:'' @ uuid_str deployment_id @ '':'' @ int_digits (epoch_microseconds segment_start) @ '':''
          @ int_digits (epoch_microseconds segment_end) @ '':r'' @ int_digits replicas)"

text \<open>The interval to charge and its replica count; \<open>None\<close> where the code returns 0.\<close>

definition metered_interval ::
  "SaladDeployment \<Rightarrow> int \<Rightarrow> SaladContainerGroup \<Rightarrow> instant \<Rightarrow> int option \<Rightarrow> (instant \<times> instant \<times> int) option" where
  "metered_interval x current_replicas cgroup observed_at running_instances =
     (let previous_replicas = (case sd_observed_replicas x of None \<Rightarrow> 0 | Some n \<Rightarrow> n);
          instance_floor = (case running_instances of None \<Rightarrow> cg_replicas cgroup | Some n \<Rightarrow> n);
          replicas = max (max previous_replicas current_replicas) instance_floor;
          s = cg_current_state cgroup
      in if replicas \<le> 0 then None
         else (case (case sd_last_observed_at x of
                    Some t \<Rightarrow> Some t
                  | None \<Rightarrow> map_option (\<lambda>t. max t (sd_created_at x)) (gs_start_time s)) of
               None \<Rightarrow> None
             | Some interval_start \<Rightarrow>
                 (case (if is_authoritatively_stopped cgroup \<and> running_instances = Some 0
                        then map_option (\<lambda>f. min observed_at f) (gs_finish_time s) else Some observed_at) of
                    None \<Rightarrow> None
                  | Some interval_end \<Rightarrow>
                      if interval_end \<le> interval_start then None else Some (interval_start, interval_end, replicas))))"

text \<open>
  The loop over the pieces. A \<open>BudgetError\<close> ends it, with the entries recorded before it kept in the session;
  \<open>new_id\<close> is the identifier the next row of the ledger gets.
\<close>

fun meter_segments ::
  "(db \<Rightarrow> uuid) \<Rightarrow> uuid \<Rightarrow> int \<Rightarrow> int \<Rightarrow> instant \<Rightarrow> db \<Rightarrow> int \<Rightarrow> (instant \<times> instant) list \<Rightarrow> db \<times> (budget_error + int)" where
  "meter_segments new_id deployment_id rate replicas observed_at d newly_metered [] = (d, Inr newly_metered)"
| "meter_segments new_id deployment_id rate replicas observed_at d newly_metered (segment # rest) =
     (let amount = segment_amount rate replicas segment in
      if amount \<le> 0
      then meter_segments new_id deployment_id rate replicas observed_at d newly_metered rest
      else (case record_spend_entry (new_id d) observed_at d ''salad''
                   (runtime_dedupe_key deployment_id replicas segment) SpendUSAGE amount (Aware (fst segment)) None
                   (Some deployment_id) (Some (Aware observed_at)) of
              Inl e \<Rightarrow> (d, Inl e)
            | Inr (d1, r) \<Rightarrow>
                meter_segments new_id deployment_id rate replicas observed_at d1
                  (if sr_replayed r then newly_metered else newly_metered + amount) rest))"

definition meter_runtime_interval ::
  "(db \<Rightarrow> uuid) \<Rightarrow> db \<Rightarrow> SaladDeployment \<Rightarrow> int \<Rightarrow> SaladContainerGroup \<Rightarrow> instant \<Rightarrow> int option
    \<Rightarrow> db \<times> (budget_error + int)" where
  "meter_runtime_interval new_id d x current_replicas cgroup observed_at running_instances =
     (case metered_interval x current_replicas cgroup observed_at running_instances of
        None \<Rightarrow> (d, Inr 0)
      | Some (interval_start, interval_end, replicas) \<Rightarrow>
          meter_segments new_id (sd_id x) (sd_max_hourly_cost_microusd x) replicas observed_at d 0
            (daily_segments interval_start interval_end))"

end
