(* ===== verification/DeploymentSteps.thy ===== *)
theory DeploymentSteps
  imports ProviderStatus WorkerContract WorkerDemand GpuMetering
begin

text \<open>
  The control of one worker deployment (\<open>services/salad_deployments.py\<close>): its queue and container group are created or
  adopted, watched, repaired and stopped. A step takes the database, the calls made to the provider so far and the row,
  and returns the new database, the calls with the new ones appended, and the result that is reported.

  The row is the one object the session holds for the identifier: what a budget operation writes to it is seen
  afterwards, so a step writes the row before it calls another service and reads it again afterwards. A violated CHECK
  constraint shows as a row outside \<open>deployment_ok\<close>; the database would refuse it when the session is flushed. An identifier
  of the provider that another row holds already shows as a second row with it; there, too, the flush would fail.
\<close>

section \<open>The provider\<close>

datatype provider_call =
    CallGetQueue string
  | CallCreateQueue string
  | CallGetContainerGroup string
  | CallListInstances string
  | CallCreateContainerGroup json_object
  | CallUpdateContainerGroup string json_object
  | CallStartContainerGroup string
  | CallStopContainerGroup string

fun is_mutation :: "provider_call \<Rightarrow> bool" where
  "is_mutation (CallGetQueue _) = False"
| "is_mutation (CallGetContainerGroup _) = False"
| "is_mutation (CallListInstances _) = False"
| "is_mutation _ = True"

text \<open>
  \<open>SaladDeploymentClient\<close>. An answer may depend on every call made before: nothing is assumed of the provider.
\<close>

record salad_client =
  sc_create_queue :: "provider_call list \<Rightarrow> string \<Rightarrow> SaladQueue salad_answer"
  sc_get_queue :: "provider_call list \<Rightarrow> string \<Rightarrow> SaladQueue salad_answer"
  sc_create_container_group :: "provider_call list \<Rightarrow> json_object \<Rightarrow> SaladContainerGroup salad_answer"
  sc_get_container_group :: "provider_call list \<Rightarrow> string \<Rightarrow> SaladContainerGroup salad_answer"
  sc_list_container_group_instances ::
    "provider_call list \<Rightarrow> string \<Rightarrow> SaladContainerGroupInstance list salad_answer"
  sc_update_container_group :: "provider_call list \<Rightarrow> string \<Rightarrow> json_object \<Rightarrow> SaladContainerGroup salad_answer"
  sc_start_container_group :: "provider_call list \<Rightarrow> string \<Rightarrow> unit salad_answer"
  sc_stop_container_group :: "provider_call list \<Rightarrow> string \<Rightarrow> unit salad_answer"

text \<open>
  What a step is given besides the row: the client, the clock read after the instances were listed, and the identifier the
  next row of the ledger gets.
\<close>

record step_env =
  env_client :: salad_client
  env_billing_observation_clock :: "provider_call list \<Rightarrow> instant"
  env_new_id :: "db \<Rightarrow> uuid"

definition RECONCILE_DELAY :: int where "RECONCILE_DELAY = 30 * us_per_second"
definition PROVIDER_PENDING_STALL_AFTER :: int where "PROVIDER_PENDING_STALL_AFTER = 30 * 60 * us_per_second"

datatype DeploymentAction =
    QUEUE_CREATED | QUEUE_ADOPTED | GROUP_CREATED | GROUP_ADOPTED | AUTOSCALER_REPAIR_REQUESTED | START_REQUESTED
  | RECONCILED | STOP_REQUESTED | STOPPED | DEFERRED | FAILED | BUDGET_BLOCKED

record DeploymentResult =
  dr_deployment_id :: uuid
  dr_action :: DeploymentAction
  dr_state :: SaladDeploymentState
  dr_provider_queue_id :: "string option"
  dr_provider_container_group_id :: "string option"
  dr_metered_microusd :: int
  dr_error_code :: "string option"

type_synonym step = "db \<times> provider_call list \<times> DeploymentResult"

section \<open>Rows, results and audits\<close>

definition touch_deployment :: "SaladDeployment \<Rightarrow> SaladDeployment" where
  "touch_deployment x = x\<lparr>sd_lock_version := sd_lock_version x + 1\<rparr>"

definition clear_error :: "SaladDeployment \<Rightarrow> SaladDeployment" where
  "clear_error x = x\<lparr>sd_last_error_code := None, sd_last_error_detail := None\<rparr>"

definition with_error_code :: "string \<Rightarrow> string \<Rightarrow> SaladDeployment \<Rightarrow> SaladDeployment" where
  "with_error_code code detail x = x\<lparr>sd_last_error_code := Some code, sd_last_error_detail := Some detail\<rparr>"

definition deployment_result :: "SaladDeployment \<Rightarrow> DeploymentAction \<Rightarrow> int \<Rightarrow> string option \<Rightarrow> DeploymentResult" where
  "deployment_result x action metered error_code =
     \<lparr>dr_deployment_id = sd_id x, dr_action = action, dr_state = sd_state x,
      dr_provider_queue_id = sd_provider_queue_id x, dr_provider_container_group_id = sd_provider_container_group_id x,
      dr_metered_microusd = metered, dr_error_code = error_code\<rparr>"

definition deployment_audit :: "SaladDeployment \<Rightarrow> string \<Rightarrow> (string \<times> pyval) list \<Rightarrow> instant \<Rightarrow> AuditEvent" where
  "deployment_audit x action detail occurred_at =
     \<lparr>ae_id = None, ae_actor = ''salad-deployment-controller'', ae_action = action, ae_resource_type = ''salad_deployment'',
      ae_resource_id = sd_id x, ae_correlation_id = ''salad-deployment:'' @ uuid_str (sd_id x), ae_detail = detail,
      ae_occurred_at = occurred_at\<rparr>"

text \<open>The row is written and audited, and read back after another service has run.\<close>

definition write_audited ::
  "SaladDeployment \<Rightarrow> string \<Rightarrow> (string \<times> pyval) list \<Rightarrow> instant \<Rightarrow> db \<Rightarrow> db" where
  "write_audited x action detail occurred_at d =
     add_audit (deployment_audit x action detail occurred_at) (put_deployment x d)"

definition reload :: "SaladDeployment \<Rightarrow> db \<Rightarrow> SaladDeployment" where
  "reload x d = (case get_deployment (sd_id x) d of Some y \<Rightarrow> y | None \<Rightarrow> x)"

definition has_provider_resources :: "SaladDeployment \<Rightarrow> bool" where
  "has_provider_resources x \<longleftrightarrow> sd_provider_queue_id x \<noteq> None \<and> sd_provider_container_group_id x \<noteq> None"

definition stop_is_desired :: "SaladDeployment \<Rightarrow> bool" where
  "stop_is_desired x \<longleftrightarrow> sd_desired_state x = DesiredSTOPPED"

text \<open>\<open>v or w\<close> for a timestamp and for a text, where the empty text counts as missing.\<close>

definition or_else :: "'a option \<Rightarrow> 'a \<Rightarrow> 'a" where
  "or_else v w = (case v of Some u \<Rightarrow> u | None \<Rightarrow> w)"

definition or_text :: "string option \<Rightarrow> string \<Rightarrow> string" where
  "or_text v w = (case v of Some u \<Rightarrow> if u = [] then w else u | None \<Rightarrow> w)"

section \<open>Failures\<close>

definition mark_unknown :: "db \<Rightarrow> provider_call list \<Rightarrow> SaladDeployment \<Rightarrow> string \<Rightarrow> instant \<Rightarrow> step" where
  "mark_unknown d h x error_code observed_at =
     (let y = touch_deployment (with_error_code error_code
                ''Provider outcome is ambiguous; read-only reconciliation is required.''
                (x\<lparr>sd_state := DeploymentUNKNOWN,
                   sd_unknown_since := Some (or_else (sd_unknown_since x) observed_at),
                   sd_reconcile_after := Some (observed_at + RECONCILE_DELAY)\<rparr>))
      in (write_audited y ''salad_deployment.provider_outcome_unknown'' [(''error_code'', PStr error_code)] observed_at d,
          h, deployment_result y DEFERRED 0 (Some error_code)))"

definition mark_failed ::
  "db \<Rightarrow> provider_call list \<Rightarrow> SaladDeployment \<Rightarrow> string \<Rightarrow> instant \<Rightarrow> int option \<Rightarrow> int option \<Rightarrow> step" where
  "mark_failed d h x error_code observed_at retry_after provider_http_status =
     (let y = touch_deployment (with_error_code error_code
                ''Deployment provisioning failed validation or provider rejection.''
                (x\<lparr>sd_state := (if has_provider_resources x then DeploymentDEGRADED else DeploymentFAILED),
                   sd_reconcile_after := map_option (\<lambda>r. observed_at + r) retry_after\<rparr>))
      in (write_audited y ''salad_deployment.provisioning_failed''
            ((''error_code'', PStr error_code) # (case provider_http_status of None \<Rightarrow> []
               | Some n \<Rightarrow> [(''provider_http_status'', PInt n)])) observed_at d,
          h, deployment_result y FAILED 0 (Some error_code)))"

fun read_error_code :: "string \<Rightarrow> salad_error \<Rightarrow> string" where
  "read_error_code prefix SaladRateLimitError = prefix @ ''_rate_limited''"
| "read_error_code prefix (SaladAPIError status) =
     (if status = 404 then prefix @ ''_not_found'' else prefix @ ''_http_'' @ int_digits status)"
| "read_error_code prefix SaladProtocolError = prefix @ ''_protocol_error''"
| "read_error_code prefix SaladTransportError = prefix @ ''_transport_error''"

definition handle_read_error ::
  "db \<Rightarrow> provider_call list \<Rightarrow> SaladDeployment \<Rightarrow> salad_error \<Rightarrow> string \<Rightarrow> instant \<Rightarrow> step" where
  "handle_read_error d h x error code_prefix observed_at =
     mark_unknown d h x (read_error_code code_prefix error) observed_at"

definition handle_mutation_error ::
  "db \<Rightarrow> provider_call list \<Rightarrow> SaladDeployment \<Rightarrow> salad_error \<Rightarrow> string \<Rightarrow> instant \<Rightarrow> step" where
  "handle_mutation_error d h x error code_prefix observed_at =
     (case error of
        SaladRateLimitError \<Rightarrow>
          (let code = code_prefix @ ''_rate_limited'';
               y = touch_deployment (with_error_code code ''Provider rate limited the mutation before retry.''
                 (x\<lparr>sd_state := (if has_provider_resources x then DeploymentDEGRADED else DeploymentPROVISIONING),
                    sd_reconcile_after := Some (observed_at + RECONCILE_DELAY)\<rparr>))
           in (put_deployment y d, h, deployment_result y DEFERRED 0 (Some code)))
      | SaladAPIError status \<Rightarrow>
          if status < 500
          then (if status = 409
                then mark_unknown d h x (code_prefix @ ''_conflict_requires_reconcile'') observed_at
                else mark_failed d h x (code_prefix @ ''_rejected'') observed_at
                       (if code_prefix = ''group_start'' then Some RECONCILE_DELAY else None)
                       (if code_prefix = ''group_start'' then Some status else None))
          else mark_unknown d h x (code_prefix @ ''_http_'' @ int_digits status @ ''_unknown'') observed_at
      | SaladProtocolError \<Rightarrow> mark_unknown d h x (code_prefix @ ''_response_unknown'') observed_at
      | SaladTransportError \<Rightarrow> mark_unknown d h x (code_prefix @ ''_transport_unknown'') observed_at)"

text \<open>\<open>_get_queue_or_none\<close>, \<open>_get_group_or_none\<close>: a missing resource is an answer, other errors stay errors.\<close>

definition none_if_missing :: "'a salad_answer \<Rightarrow> 'a option salad_answer" where
  "none_if_missing answer =
     (case answer of Inr v \<Rightarrow> Inr (Some v) | Inl e \<Rightarrow> if salad_status_code e = Some 404 then Inr None else Inl e)"

definition get_queue_or_none ::
  "step_env \<Rightarrow> provider_call list \<Rightarrow> string \<Rightarrow> provider_call list \<times> SaladQueue option salad_answer" where
  "get_queue_or_none env h name = (h @ [CallGetQueue name], none_if_missing (sc_get_queue (env_client env) h name))"

definition get_group_or_none ::
  "step_env \<Rightarrow> provider_call list \<Rightarrow> string \<Rightarrow> provider_call list \<times> SaladContainerGroup option salad_answer" where
  "get_group_or_none env h name =
     (h @ [CallGetContainerGroup name], none_if_missing (sc_get_container_group (env_client env) h name))"

section \<open>Budget\<close>

definition lock_budget_guard :: "db \<Rightarrow> bool" where
  "lock_budget_guard d \<longleftrightarrow> get_guard_locked d ''salad'' \<noteq> None"

definition engage_local_kill_switch ::
  "db \<Rightarrow> SaladDeployment \<Rightarrow> string \<Rightarrow> instant \<Rightarrow> db \<times> SaladDeployment" where
  "engage_local_kill_switch d x error_code observed_at =
     (let changed = (sd_desired_state x \<noteq> DesiredSTOPPED);
          y = with_error_code error_code ''Provider execution is disabled by the hard budget guard.''
                (x\<lparr>sd_desired_state := DesiredSTOPPED, sd_reconcile_after := Some observed_at\<rparr>);
          z = (if changed then touch_deployment y else y)
      in (if changed
          then write_audited z ''salad_deployment.kill_switch_engaged'' [(''error_code'', PStr error_code)] observed_at d
          else put_deployment z d, z))"

definition budget_allows_provider_work ::
  "db \<Rightarrow> SaladDeployment \<Rightarrow> instant \<Rightarrow> bool \<Rightarrow> db \<times> SaladDeployment \<times> bool" where
  "budget_allows_provider_work d x observed_at guard_available =
     (if \<not> guard_available
      then (case engage_local_kill_switch d x ''budget_guard_unavailable'' observed_at of (d1, y) \<Rightarrow> (d1, y, False))
      else (case reevaluate_budget_guard observed_at (put_deployment x d) ''salad'' (Some (Aware observed_at)) of
          Inl _ \<Rightarrow>
            (case engage_local_kill_switch d x ''budget_guard_unavailable'' observed_at of (d1, y) \<Rightarrow> (d1, y, False))
        | Inr (d1, snapshot) \<Rightarrow>
            (let x1 = reload x d1 in
             if bs_state snapshot = BudgetBLOCKED
             then (case engage_local_kill_switch d1 x1 ''budget_limit_exceeded'' observed_at of
                     (d2, y) \<Rightarrow> (d2, y, False))
             else (d1, x1, True))))"

section \<open>Stopping\<close>

definition confirm_provider_group_stopped ::
  "db \<Rightarrow> provider_call list \<Rightarrow> SaladDeployment \<Rightarrow> instant \<Rightarrow> string \<Rightarrow> int \<Rightarrow> step" where
  "confirm_provider_group_stopped d h x observed_at status metered =
     (let billing_ended_at = (case sd_billing_observed_at x of None \<Rightarrow> observed_at | Some t \<Rightarrow> max observed_at t);
          x1 = (end_billing_session x billing_ended_at)
                 \<lparr>sd_billing_observed_at := Some billing_ended_at, sd_billing_observation_stale := False\<rparr>;
          complete = has_provider_resources x1;
          x2 = x1\<lparr>sd_state := (if complete then DeploymentSTOPPED else DeploymentFAILED),
                 sd_observed_replicas := Some 0, sd_ready_replicas := Some 0, sd_last_observed_at := Some observed_at,
                 sd_stopped_at := Some observed_at, sd_provider_status := Some (''group='' @ status),
                 sd_unknown_since := None, sd_reconcile_after := None\<rparr>;
          x3 = (if complete then clear_error x2
                else with_error_code (or_text (sd_last_error_code x2) ''deployment_stopped_before_provisioning'')
                  (or_text (sd_last_error_detail x2)
                    ''No provider container group exists under the deterministic deployment name.'') x2);
          y = touch_deployment x3
      in (write_audited y ''salad_deployment.stop_confirmed''
            ((''provider_status'', PStr status) # (case sd_provider_container_group_id y of None \<Rightarrow> []
               | Some g \<Rightarrow> [(''container_group_id'', PStr g)])) observed_at d,
          h, deployment_result y STOPPED metered (sd_last_error_code y)))"

text \<open>The identity of a group or queue that is found under the deterministic name is recovered into the row.\<close>

definition recover_group_id ::
  "db \<Rightarrow> SaladDeployment \<Rightarrow> SaladContainerGroup option \<Rightarrow> instant \<Rightarrow> db \<times> SaladDeployment" where
  "recover_group_id d x found observed_at =
     (case found of
        None \<Rightarrow> (d, x)
      | Some g \<Rightarrow>
          if sd_provider_container_group_id x = Some (uuid_str (cg_id g)) then (d, x)
          else (let y = touch_deployment (x\<lparr>sd_provider_container_group_id := Some (uuid_str (cg_id g))\<rparr>)
                in (write_audited y ''salad_deployment.stop_container_group_recovered''
                      [(''container_group_id'', PStr (uuid_str (cg_id g))), (''container_group_name'', PStr (cg_name g))]
                      observed_at d, y)))"

definition recover_queue_id :: "db \<Rightarrow> SaladDeployment \<Rightarrow> SaladQueue \<Rightarrow> instant \<Rightarrow> db \<times> SaladDeployment" where
  "recover_queue_id d x q observed_at =
     (let y = touch_deployment (x\<lparr>sd_provider_queue_id := Some (uuid_str (sq_id q))\<rparr>)
      in (write_audited y ''salad_deployment.stop_queue_recovered''
            [(''queue_id'', PStr (uuid_str (sq_id q))), (''queue_name'', PStr (sq_name q))] observed_at d, y))"

definition stop_converged :: "SaladDeployment \<Rightarrow> SaladContainerGroup \<Rightarrow> bool" where
  "stop_converged x g \<longleftrightarrow>
     (let s = cg_current_state g in
      sd_state x = DeploymentDRAINING \<and> py_strip (cg_status g) = [] \<and> \<not> cg_pending_change g \<and> cg_replicas g = 0
      \<and> gs_allocating_count s = 0 \<and> gs_creating_count s = 0 \<and> gs_running_count s = 0 \<and> gs_stopping_count s = 0)"

definition terminal_group :: "SaladDeployment \<Rightarrow> SaladContainerGroup option \<Rightarrow> bool" where
  "terminal_group x found = (case found of None \<Rightarrow> False
     | Some g \<Rightarrow> py_lower (py_strip (cg_status g)) = ''stopped'' \<or> stop_converged x g)"

text \<open>
  The observation of a live or terminal group in a stop cycle: instances are listed, the interval since the last
  observation is charged; a failure of the budget service must not keep the provider running.
\<close>

definition observe_stopping_group ::
  "step_env \<Rightarrow> db \<Rightarrow> provider_call list \<Rightarrow> SaladDeployment \<Rightarrow> SaladContainerGroup \<Rightarrow> instant
    \<Rightarrow> db \<times> provider_call list \<times> SaladDeployment \<times> int \<times> int option" where
  "observe_stopping_group env d h x g observed_at =
     (let name = sd_container_group_name x;
          h1 = h @ [CallListInstances name];
          answer = sc_list_container_group_instances (env_client env) h name;
          (x1, observation) = refresh_billing_observation answer (env_billing_observation_clock env h1) x g observed_at False;
          current_replicas = observed_replicas g;
          running = map_option fst observation
      in case meter_runtime_interval (env_new_id env) (put_deployment x1 d) x1 current_replicas g observed_at running of
           (d1, outcome) \<Rightarrow>
             (let x2 = reload x1 d1;
                  (d2, x3, metered) = (case outcome of
                      Inr metered \<Rightarrow> (d1, x2, metered)
                    | Inl _ \<Rightarrow>
                        (let y = touch_deployment (with_error_code ''final_runtime_metering_failed''
                                   ''Final runtime metering failed; the provider stop remains mandatory.'' x2)
                         in (write_audited y ''salad_deployment.final_runtime_metering_failed''
                               [(''error_code'', PStr ''final_runtime_metering_failed'')] observed_at d1, y, 0)));
                  x4 = x3\<lparr>sd_observed_replicas := Some current_replicas,
                         sd_ready_replicas := Some (gs_running_count (cg_current_state g)),
                         sd_last_observed_at := Some observed_at\<rparr>
              in (d2, h1, x4, metered, running)))"

text \<open>The stop request itself.\<close>

definition send_stop ::
  "step_env \<Rightarrow> db \<Rightarrow> provider_call list \<Rightarrow> SaladDeployment \<Rightarrow> instant \<Rightarrow> int \<Rightarrow> step" where
  "send_stop env d h x observed_at metered =
     (let name = sd_container_group_name x; h1 = h @ [CallStopContainerGroup name] in
      case sc_stop_container_group (env_client env) h name of
        Inl error \<Rightarrow> handle_mutation_error d h1 x error ''group_stop'' observed_at
      | Inr _ \<Rightarrow>
          (let x1 = (if has_provider_resources x then x\<lparr>sd_state := DeploymentDRAINING\<rparr>
                     else x\<lparr>sd_state := DeploymentUNKNOWN,
                            sd_unknown_since := Some (or_else (sd_unknown_since x) observed_at)\<rparr>);
               y = touch_deployment (with_error_code (or_text (sd_last_error_code x1) ''stop_requested'')
                     ''Provider stop was accepted and awaits reconciliation.''
                     (x1\<lparr>sd_reconcile_after := Some (observed_at + RECONCILE_DELAY)\<rparr>))
           in (write_audited y ''salad_deployment.stop_requested'' [(''container_group_name'', PStr name)] observed_at d,
               h1, deployment_result y STOP_REQUESTED metered (sd_last_error_code y))))"

definition defer_unconfirmed_stop ::
  "db \<Rightarrow> provider_call list \<Rightarrow> SaladDeployment \<Rightarrow> instant \<Rightarrow> int \<Rightarrow> step" where
  "defer_unconfirmed_stop d h x observed_at metered =
     (let y = touch_deployment (with_error_code ''billing_instance_stop_unconfirmed''
                ''Provider group stop is visible, but running-instance shutdown is unconfirmed.''
                (x\<lparr>sd_state := DeploymentDRAINING, sd_reconcile_after := Some (observed_at + RECONCILE_DELAY)\<rparr>))
      in (put_deployment y d, h, deployment_result y DEFERRED metered (sd_last_error_code y)))"

text \<open>After the queue is known, or is not needed.\<close>

definition stop_group ::
  "step_env \<Rightarrow> db \<Rightarrow> provider_call list \<Rightarrow> SaladDeployment \<Rightarrow> SaladContainerGroup option \<Rightarrow> bool \<Rightarrow> bool \<Rightarrow> instant
    \<Rightarrow> step" where
  "stop_group env d h x found read_failed terminal observed_at =
     (case found of
        None \<Rightarrow> if read_failed then send_stop env d h x observed_at 0
                else confirm_provider_group_stopped d h x observed_at ''absent'' 0
      | Some g \<Rightarrow>
          (case observe_stopping_group env d h x g observed_at of
             (d1, h1, x1, metered, running) \<Rightarrow>
               if terminal
               then (if running = Some 0
                     then confirm_provider_group_stopped d1 h1 x1
                            (or_else (gs_finish_time (cg_current_state g)) observed_at) ''stopped'' metered
                     else defer_unconfirmed_stop d1 h1 x1 observed_at metered)
               else send_stop env d1 h1 x1 observed_at metered))"

definition request_stop :: "step_env \<Rightarrow> db \<Rightarrow> provider_call list \<Rightarrow> SaladDeployment \<Rightarrow> instant \<Rightarrow> step" where
  "request_stop env d h x observed_at =
     (case get_group_or_none env h (sd_container_group_name x) of
        (h1, answer) \<Rightarrow>
          (let read_failed = (case answer of Inl _ \<Rightarrow> True | Inr _ \<Rightarrow> False);
               found = (case answer of Inl _ \<Rightarrow> None | Inr g \<Rightarrow> g);
               x1 = (if read_failed then x\<lparr>sd_billing_observation_stale := True\<rparr> else x)
           in if (case found of Some g \<Rightarrow> cg_name g \<noteq> sd_container_group_name x1 | None \<Rightarrow> False)
              then mark_failed d h1 x1 ''stop_container_group_name_collision'' observed_at None None
              else (case recover_group_id d x1 found observed_at of
                (d2, x2) \<Rightarrow>
                  (let terminal = terminal_group x2 found in
                   if sd_provider_queue_id x2 = None \<and> ((found = None \<and> \<not> read_failed) \<or> terminal)
                   then (case get_queue_or_none env h1 (sd_queue_name x2) of
                       (h2, queue_answer) \<Rightarrow>
                         (case (case queue_answer of Inl _ \<Rightarrow> None | Inr q \<Rightarrow> q) of
                            None \<Rightarrow> stop_group env d2 h2 x2 found read_failed terminal observed_at
                          | Some q \<Rightarrow>
                              if sq_name q \<noteq> sd_queue_name x2
                              then mark_failed d2 h2 x2 ''stop_queue_name_collision'' observed_at None None
                              else (case recover_queue_id d2 x2 q observed_at of
                                (d3, x3) \<Rightarrow> stop_group env d3 h2 x3 found read_failed terminal observed_at)))
                   else stop_group env d2 h1 x2 found read_failed terminal observed_at))))"

section \<open>Reconciliation\<close>

definition record_pending_preparation :: "SaladDeployment \<Rightarrow> string option \<Rightarrow> instant \<Rightarrow> SaladDeployment \<times> bool" where
  "record_pending_preparation x previous_provider_status observed_at =
     (let current = parse_safe_preparation_snapshot (sd_provider_status x);
          previous = parse_safe_preparation_snapshot previous_provider_status;
          restarted = x\<lparr>sd_unknown_since := Some observed_at\<rparr>
      in if current = None \<or> current \<noteq> previous then (restarted, False)
         else (case sd_unknown_since x of
             None \<Rightarrow> (restarted, False)
           | Some unchanged_since \<Rightarrow> (x, PROVIDER_PENDING_STALL_AFTER \<le> observed_at - unchanged_since)))"

definition start_wait_codes :: "string list" where
  "start_wait_codes = [''provider_start_pending'', ''provider_start_stalled'']"

definition awaits_start :: "SaladDeployment \<Rightarrow> bool" where
  "awaits_start x \<longleftrightarrow> (case sd_last_error_code x of None \<Rightarrow> False | Some c \<Rightarrow> c \<in> set start_wait_codes)"

definition record_start_wait :: "SaladDeployment \<Rightarrow> instant \<Rightarrow> SaladDeployment \<times> bool" where
  "record_start_wait x observed_at =
     (let restarted = x\<lparr>sd_unknown_since := Some observed_at\<rparr> in
      if \<not> awaits_start x then (restarted, False)
      else (case sd_unknown_since x of
          None \<Rightarrow> (restarted, False)
        | Some unchanged_since \<Rightarrow> (x, PROVIDER_PENDING_STALL_AFTER \<le> observed_at - unchanged_since)))"

definition start_wait_is_active :: "SaladDeployment \<Rightarrow> bool" where
  "start_wait_is_active x \<longleftrightarrow> sd_unknown_since x \<noteq> None \<and> awaits_start x"

definition request_autoscaler_repair ::
  "step_env \<Rightarrow> db \<Rightarrow> provider_call list \<Rightarrow> SaladDeployment \<Rightarrow> int \<Rightarrow> instant \<Rightarrow> int \<Rightarrow> deployment_error + step" where
  "request_autoscaler_repair env d h x effective_min_replicas observed_at metered =
     bindE (desired_queue_autoscaler x (Some effective_min_replicas)) (\<lambda>autoscaler.
       let name = sd_container_group_name x;
           patch = [(''queue_autoscaler'', PDict autoscaler)];
           h1 = h @ [CallUpdateContainerGroup name patch]
       in case sc_update_container_group (env_client env) h name patch of
            Inl error \<Rightarrow> Inr (handle_mutation_error d h1 x error ''autoscaler_repair'' observed_at)
          | Inr updated \<Rightarrow>
              if cg_name updated \<noteq> name \<or> Some (uuid_str (cg_id updated)) \<noteq> sd_provider_container_group_id x
              then Inr (mark_unknown d h1 x ''autoscaler_repair_response_mismatch'' observed_at)
              else
                (let y = touch_deployment (with_error_code ''provider_autoscaler_repair_pending''
                           ''Provider queue autoscaler repair is awaiting read-back.''
                           (x\<lparr>sd_state := DeploymentPROVISIONING, sd_unknown_since := None,
                              sd_reconcile_after := Some (observed_at + RECONCILE_DELAY)\<rparr>))
                 in Inr (write_audited y ''salad_deployment.autoscaler_repair_requested''
                           [(''container_group_name'', PStr name)] observed_at d,
                         h1, deployment_result y AUTOSCALER_REPAIR_REQUESTED metered (sd_last_error_code y))))"

definition request_start :: "step_env \<Rightarrow> db \<Rightarrow> provider_call list \<Rightarrow> SaladDeployment \<Rightarrow> instant \<Rightarrow> int \<Rightarrow> step" where
  "request_start env d h x observed_at metered =
     (let name = sd_container_group_name x; h1 = h @ [CallStartContainerGroup name] in
      case sc_start_container_group (env_client env) h name of
        Inl error \<Rightarrow> handle_mutation_error d h1 x error ''group_start'' observed_at
      | Inr _ \<Rightarrow>
          (let y = touch_deployment (with_error_code ''provider_start_pending''
                     ''Provider container group start is awaiting read-back.''
                     (x\<lparr>sd_state := DeploymentPROVISIONING, sd_unknown_since := Some observed_at,
                        sd_reconcile_after := Some (observed_at + RECONCILE_DELAY)\<rparr>))
           in (write_audited y ''salad_deployment.start_requested'' [(''container_group_name'', PStr name)] observed_at d,
               h1, deployment_result y START_REQUESTED metered (sd_last_error_code y))))"

text \<open>\<open>_request_active_contract_repair\<close>: \<open>None\<close> when nothing is to be repaired.\<close>

definition request_active_contract_repair ::
  "step_env \<Rightarrow> db \<Rightarrow> provider_call list \<Rightarrow> SaladDeployment \<Rightarrow> SaladContainerGroup \<Rightarrow> string option \<Rightarrow> int \<Rightarrow> instant
    \<Rightarrow> int \<Rightarrow> deployment_error + step option" where
  "request_active_contract_repair env d h x g drift_code effective_min_replicas observed_at metered =
     (if drift_code = Some ''provider_autoscaler_drift''
      then bindE (request_autoscaler_repair env d h x effective_min_replicas observed_at metered) (\<lambda>r. Inr (Some r))
      else if drift_code = None \<and> effective_min_replicas = 1 \<and> py_lower (py_strip (cg_status g)) = ''stopped''
        \<and> \<not> start_wait_is_active x
      then Inr (Some (request_start env d h x observed_at metered))
      else Inr None)"

fun deployment_state_value :: "SaladDeploymentState \<Rightarrow> string" where
  "deployment_state_value DeploymentPLANNED = ''planned''"
| "deployment_state_value DeploymentPROVISIONING = ''provisioning''"
| "deployment_state_value DeploymentACTIVE = ''active''"
| "deployment_state_value DeploymentDEGRADED = ''degraded''"
| "deployment_state_value DeploymentDRAINING = ''draining''"
| "deployment_state_value DeploymentSTOPPED = ''stopped''"
| "deployment_state_value DeploymentUNKNOWN = ''unknown''"
| "deployment_state_value DeploymentFAILED = ''failed''"

definition activate :: "SaladDeployment \<Rightarrow> instant \<Rightarrow> SaladDeployment" where
  "activate x observed_at = clear_error (x\<lparr>sd_state := DeploymentACTIVE,
     sd_activated_at := Some (or_else (sd_activated_at x) observed_at), sd_unknown_since := None\<rparr>)"

definition write_reconciled ::
  "db \<Rightarrow> provider_call list \<Rightarrow> SaladDeployment \<Rightarrow> SaladContainerGroup \<Rightarrow> int \<Rightarrow> bool \<Rightarrow> instant \<Rightarrow> string option \<Rightarrow> step" where
  "write_reconciled d h x g metered plan_pending observed_at error_code =
     (let y = touch_deployment x in
      (write_audited y ''salad_deployment.reconciled''
         ([(''state'', PStr (deployment_state_value (sd_state y))), (''observed_replicas'', PInt (observed_replicas g)),
           (''ready_replicas'', PInt (gs_running_count (cg_current_state g))), (''metered_microusd'', PInt metered)]
          @ (if plan_pending then [(''runtime_refresh_plan_pending'', PBool True)] else [])) observed_at d,
       h, deployment_result y RECONCILED metered error_code))"

text \<open>The verdict on a group with a pending change, and on one without.\<close>

definition judge_pending_group :: "SaladDeployment \<Rightarrow> string option \<Rightarrow> instant \<Rightarrow> SaladDeployment" where
  "judge_pending_group x previous_provider_status observed_at =
     (case record_pending_preparation x previous_provider_status observed_at of
        (x1, stalled) \<Rightarrow>
          if stalled
          then with_error_code ''provider_image_preparation_stalled''
                 ''Provider image preparation stopped reporting progress; reconciliation remains read-only.''
                 (x1\<lparr>sd_state := DeploymentDEGRADED\<rparr>)
          else with_error_code ''provider_image_preparation_pending''
                 ''Provider image preparation is pending; reconciliation remains read-only.''
                 (x1\<lparr>sd_state := DeploymentPROVISIONING\<rparr>))"

definition judge_settled_group ::
  "SaladDeployment \<Rightarrow> SaladContainerGroup \<Rightarrow> string option \<Rightarrow> int \<Rightarrow> instant \<Rightarrow> SaladDeployment" where
  "judge_settled_group x g drift_code effective_min_replicas observed_at =
     (let provider_status = py_lower (py_strip (cg_status g));
          unhealthy = (provider_status = ''failed''
            \<or> (provider_status = ''stopped'' \<and> effective_min_replicas = 1 \<and> \<not> start_wait_is_active x))
      in if drift_code \<noteq> None \<or> unhealthy
         then with_error_code (or_text drift_code ''provider_group_unhealthy'')
                ''Provider resources do not match the active deployment.''
                (x\<lparr>sd_unknown_since := None, sd_state := DeploymentDEGRADED\<rparr>)
         else if effective_min_replicas = 1 \<and> gs_running_count (cg_current_state g) = 0
         then (case record_start_wait x observed_at of
                 (x1, stalled) \<Rightarrow>
                   if stalled
                   then with_error_code ''provider_start_stalled''
                          ''Provider container group start stopped reporting ready capacity; reconciliation remains read-only.''
                          (x1\<lparr>sd_state := DeploymentDEGRADED\<rparr>)
                   else with_error_code ''provider_start_pending''
                          ''Provider container group start is awaiting read-back.''
                          (x1\<lparr>sd_state := DeploymentPROVISIONING\<rparr>))
         else activate x observed_at)"

text \<open>
  After the queue and the group were read: billing, drift, metering, and the verdict. A budget error while metering, and a
  kill switch that metering engaged, turn the cycle into a stop cycle.
\<close>

definition reconcile_observed ::
  "step_env \<Rightarrow> db \<Rightarrow> provider_call list \<Rightarrow> SaladDeployment \<Rightarrow> SaladQueue \<Rightarrow> SaladContainerGroup \<Rightarrow> instant
    \<Rightarrow> deployment_error + step" where
  "reconcile_observed env d h x queue g observed_at =
     (let effective_min = effective_worker_min_replicas observed_at d (sd_id x) observed_at;
          staged_runtime_refresh = eligible_runtime_refresh_plan_exists d (sd_id x);
          name = sd_container_group_name x;
          h1 = h @ [CallListInstances name];
          answer = sc_list_container_group_instances (env_client env) h name;
          (x1, observation) = refresh_billing_observation answer (env_billing_observation_clock env h1) x g observed_at
            (is_true_scale_to_zero g effective_min)
      in bindE (remote_drift_code x1 queue g (Some effective_min)) (\<lambda>drift_code.
         case meter_runtime_interval (env_new_id env) (put_deployment x1 d) x1 (observed_replicas g) g observed_at
                (map_option fst observation) of
           (d1, Inl _) \<Rightarrow>
             (let y = touch_deployment (with_error_code ''runtime_metering_failed_closed''
                        ''Runtime metering failed; provider execution was disabled.''
                        ((reload x1 d1)\<lparr>sd_desired_state := DesiredSTOPPED, sd_reconcile_after := Some observed_at\<rparr>));
                  d2 = write_audited y ''salad_deployment.runtime_metering_failed_closed''
                         [(''error_code'', PStr ''runtime_metering_failed_closed'')] observed_at d1
              in Inr (request_stop env d2 h1 y observed_at))
         | (d1, Inr metered) \<Rightarrow>
             (let x2 = reload x1 d1;
                  previous_provider_status = sd_provider_status x2;
                  x3 = x2\<lparr>sd_observed_replicas := Some (observed_replicas g),
                         sd_ready_replicas := Some (gs_running_count (cg_current_state g)),
                         sd_last_observed_at := Some observed_at,
                         sd_provider_status := Some (safe_provider_status queue g),
                         sd_reconcile_after := Some (observed_at + RECONCILE_DELAY)\<rparr>
              in if stop_is_desired x3
                 then (case request_stop env (put_deployment x3 d1) h1 x3 observed_at of
                         (d2, h2, r) \<Rightarrow> Inr (d2, h2, r\<lparr>dr_metered_microusd := metered\<rparr>))
                 else if staged_runtime_refresh
                 then Inr (write_reconciled d1 h1 (activate x3 observed_at) g metered True observed_at None)
                 else if cg_pending_change g
                 then (let y = judge_pending_group x3 previous_provider_status observed_at
                       in Inr (write_reconciled d1 h1 y g metered False observed_at (sd_last_error_code y)))
                 else bindE (request_active_contract_repair env d1 h1 x3 g drift_code effective_min observed_at metered)
                   (\<lambda>repair. case repair of
                      Some r \<Rightarrow> Inr r
                    | None \<Rightarrow>
                        (let y = judge_settled_group x3 g drift_code effective_min observed_at
                         in Inr (write_reconciled d1 h1 y g metered False observed_at (sd_last_error_code y)))))))"

definition reconcile_locked ::
  "step_env \<Rightarrow> db \<Rightarrow> provider_call list \<Rightarrow> SaladDeployment \<Rightarrow> instant \<Rightarrow> bool \<Rightarrow> deployment_error + step" where
  "reconcile_locked env d h x observed_at guard_available =
     (case budget_allows_provider_work d x observed_at guard_available of
        (d1, x1, budget_open) \<Rightarrow>
          if \<not> budget_open \<or> stop_is_desired x1 then Inr (request_stop env d1 h x1 observed_at)
          else
            (let h1 = h @ [CallGetQueue (sd_queue_name x1)];
                 h2 = h1 @ [CallGetContainerGroup (sd_container_group_name x1)]
             in case sc_get_queue (env_client env) h (sd_queue_name x1) of
                  Inl error \<Rightarrow> Inr (handle_read_error d1 h1 (x1\<lparr>sd_billing_observation_stale := True\<rparr>) error
                                 ''deployment_reconcile'' observed_at)
                | Inr queue \<Rightarrow>
                    (case sc_get_container_group (env_client env) h1 (sd_container_group_name x1) of
                       Inl error \<Rightarrow> Inr (handle_read_error d1 h2 (x1\<lparr>sd_billing_observation_stale := True\<rparr>) error
                                      ''deployment_reconcile'' observed_at)
                     | Inr g \<Rightarrow> reconcile_observed env d1 h2 x1 queue g observed_at)))"

section \<open>Provisioning\<close>

definition image_digest_pattern :: "string \<Rightarrow> bool" where
  "image_digest_pattern s \<longleftrightarrow> 72 < length s \<and> CHR 0x0A \<notin> set (take (length s - 72) s)
     \<and> take 8 (drop (length s - 72) s) = ''@sha256:'' \<and> list_all is_lower_hex (drop (length s - 64) s)"

definition validate_local_deployment :: "SaladDeployment \<Rightarrow> deployment_error + unit" where
  "validate_local_deployment x =
     (if \<not> image_digest_pattern (sd_worker_image_digest x)
      then Inl (SaladDeploymentValidationError ''worker image must use an immutable sha256 digest'')
      else if sd_min_replicas x \<noteq> 0 \<or> sd_max_replicas x \<noteq> 1 \<or> sd_desired_queue_length x \<noteq> 1
      then Inl (SaladDeploymentValidationError ''v1 requires autoscaler min 0, max 1, and desired queue length 1'')
      else if sd_max_hourly_cost_microusd x \<le> 0
      then Inl (SaladDeploymentValidationError ''maximum hourly cost must be positive'')
      else Inr ())"

definition load_deployment_locked :: "db \<Rightarrow> uuid \<Rightarrow> deployment_error + SaladDeployment" where
  "load_deployment_locked d deployment_id =
     (case get_deployment deployment_id d of
        None \<Rightarrow> Inl (SaladDeploymentNotFoundError ''Salad deployment was not found'')
      | Some x \<Rightarrow> Inr x)"

fun desired_state_value :: "DesiredDeploymentState \<Rightarrow> string" where
  "desired_state_value DesiredACTIVE = ''active''"
| "desired_state_value DesiredSTOPPED = ''stopped''"

definition retire_legacy_video_deployment :: "db \<Rightarrow> SaladDeployment \<Rightarrow> instant \<Rightarrow> db \<times> SaladDeployment" where
  "retire_legacy_video_deployment d x observed_at =
     (if sd_purpose x \<noteq> PurposeVIDEO then (d, x)
      else
        (let y = x\<lparr>sd_desired_state := DesiredSTOPPED, sd_administrative_stop_reason := Some ''video_generation_retired'',
                   sd_reconcile_after := Some observed_at\<rparr>
         in if sd_desired_state x = DesiredSTOPPED then (put_deployment y d, y)
            else (let z = touch_deployment y
                  in (write_audited z ''salad_deployment.video_generation_retired''
                        [(''previous_desired_state'', PStr (desired_state_value (sd_desired_state x)))] observed_at d, z))))"

definition assign_deterministic_names :: "SaladDeployment \<Rightarrow> deployment_error + SaladDeployment" where
  "assign_deterministic_names x =
     bindE (deterministic_provider_name (sd_queue_name x) (sd_version_no x) (sd_config_sha256 x)) (\<lambda>queue_name.
     bindE (deterministic_provider_name (sd_container_group_name x) (sd_version_no x) (sd_config_sha256 x)) (\<lambda>group_name.
       if sd_queue_name x = queue_name \<and> sd_container_group_name x = group_name then Inr x
       else Inr (touch_deployment (x\<lparr>sd_queue_name := queue_name, sd_container_group_name := group_name\<rparr>))))"

definition has_unstopped_superseded_group :: "db \<Rightarrow> uuid \<Rightarrow> SaladDeploymentPurpose \<Rightarrow> bool" where
  "has_unstopped_superseded_group d current_deployment_id purpose \<longleftrightarrow>
     list_ex (\<lambda>y. sd_id y \<noteq> current_deployment_id \<and> sd_purpose y = purpose \<and> \<not> sd_is_current y
       \<and> sd_provider_container_group_id y \<noteq> None \<and> sd_state y \<noteq> DeploymentSTOPPED \<and> sd_stopped_at y = None)
       (db_deployments d)"

definition defer_rollout_overlap :: "db \<Rightarrow> provider_call list \<Rightarrow> SaladDeployment \<Rightarrow> instant \<Rightarrow> step" where
  "defer_rollout_overlap d h x observed_at =
     (let y = touch_deployment (with_error_code ''superseded_deployment_not_stopped''
                ''Provisioning waits until every superseded provider group is confirmed stopped.''
                (x\<lparr>sd_reconcile_after := Some (observed_at + RECONCILE_DELAY)\<rparr>))
      in (write_audited y ''salad_deployment.rollout_deferred''
            [(''error_code'', PStr ''superseded_deployment_not_stopped'')] observed_at d,
          h, deployment_result y DEFERRED 0 (sd_last_error_code y)))"

definition adopted_queue :: "SaladDeployment \<Rightarrow> SaladQueue \<Rightarrow> SaladDeployment" where
  "adopted_queue x q = touch_deployment (clear_error (x\<lparr>sd_provider_queue_id := Some (uuid_str (sq_id q)),
     sd_state := DeploymentPROVISIONING, sd_unknown_since := None\<rparr>))"

definition adopt_queue :: "db \<Rightarrow> provider_call list \<Rightarrow> SaladDeployment \<Rightarrow> SaladQueue \<Rightarrow> instant \<Rightarrow> step" where
  "adopt_queue d h x q observed_at =
     (if sq_name q \<noteq> sd_queue_name x then mark_failed d h x ''queue_name_collision'' observed_at None None
      else (let y = adopted_queue x q
            in (write_audited y ''salad_deployment.queue_adopted''
                  [(''queue_id'', PStr (uuid_str (sq_id q))), (''queue_name'', PStr (sq_name q))] observed_at d,
                h, deployment_result y QUEUE_ADOPTED 0 None)))"

definition adopt_group ::
  "db \<Rightarrow> provider_call list \<Rightarrow> SaladDeployment \<Rightarrow> SaladContainerGroup \<Rightarrow> instant \<Rightarrow> deployment_error + step" where
  "adopt_group d h x g observed_at =
     (if cg_name g \<noteq> sd_container_group_name x
      then Inr (mark_failed d h x ''container_group_name_collision'' observed_at None None)
      else bindE (group_configuration_drift x g None) (\<lambda>drift_code.
        let y = touch_deployment (x\<lparr>sd_provider_container_group_id := Some (uuid_str (cg_id g)),
              sd_state := (if drift_code = None then DeploymentPROVISIONING else DeploymentDEGRADED),
              sd_unknown_since := None, sd_last_error_code := drift_code,
              sd_last_error_detail := (if drift_code = None then None
                else Some ''Existing provider group does not match the deployment.'')\<rparr>)
        in Inr (write_audited y ''salad_deployment.container_group_adopted''
                  [(''container_group_id'', PStr (uuid_str (cg_id g))), (''container_group_name'', PStr (cg_name g)),
                   (''configuration_matches'', PBool (drift_code = None))] observed_at d,
                h, deployment_result y GROUP_ADOPTED 0 drift_code)))"

text \<open>The queue step: look it up by name; create it only when it is missing and no earlier outcome is unknown.\<close>

definition provision_queue ::
  "step_env \<Rightarrow> db \<Rightarrow> provider_call list \<Rightarrow> SaladDeployment \<Rightarrow> bool \<Rightarrow> instant \<Rightarrow> step" where
  "provision_queue env d h x was_unknown observed_at =
     (let x1 = x\<lparr>sd_state := DeploymentPROVISIONING\<rparr>; name = sd_queue_name x1 in
      case get_queue_or_none env h name of
        (h1, Inl error) \<Rightarrow> handle_read_error d h1 x1 error ''queue_reconcile'' observed_at
      | (h1, Inr (Some q)) \<Rightarrow> adopt_queue d h1 x1 q observed_at
      | (h1, Inr None) \<Rightarrow>
          if was_unknown then mark_unknown d h1 x1 ''queue_create_outcome_unknown'' observed_at
          else
            (let h2 = h1 @ [CallCreateQueue name] in
             case sc_create_queue (env_client env) h1 name of
               Inl error \<Rightarrow> handle_mutation_error d h2 x1 error ''queue_create'' observed_at
             | Inr q \<Rightarrow>
                 if sq_name q \<noteq> name then mark_unknown d h2 x1 ''queue_create_response_mismatch'' observed_at
                 else (let y = adopted_queue x1 q
                       in (write_audited y ''salad_deployment.queue_created''
                             [(''queue_id'', PStr (uuid_str (sq_id q))), (''queue_name'', PStr (sq_name q))] observed_at d,
                           h2, deployment_result y QUEUE_CREATED 0 None))))"

text \<open>\<open>_verify_persisted_queue\<close>: \<open>None\<close> when the queue is the persisted one.\<close>

definition verify_persisted_queue ::
  "step_env \<Rightarrow> db \<Rightarrow> provider_call list \<Rightarrow> SaladDeployment \<Rightarrow> instant \<Rightarrow> provider_call list \<times> step option" where
  "verify_persisted_queue env d h x observed_at =
     (let h1 = h @ [CallGetQueue (sd_queue_name x)] in
      (h1, case sc_get_queue (env_client env) h (sd_queue_name x) of
         Inl error \<Rightarrow>
           if salad_status_code error = Some 404
           then Some (mark_failed d h1 x ''persisted_queue_missing'' observed_at None None)
           else Some (handle_read_error d h1 x error ''queue_verify'' observed_at)
       | Inr q \<Rightarrow>
           if sq_name q \<noteq> sd_queue_name x \<or> Some (uuid_str (sq_id q)) \<noteq> sd_provider_queue_id x
           then Some (mark_failed d h1 x ''persisted_queue_identity_mismatch'' observed_at None None)
           else None))"

definition create_group ::
  "step_env \<Rightarrow> secret_resolver option \<Rightarrow> db \<Rightarrow> provider_call list \<Rightarrow> SaladDeployment \<Rightarrow> instant \<Rightarrow> step" where
  "create_group env resolver d h x observed_at =
     (case container_group_payload x resolver [] None True of
        Inl (SaladDeploymentValidationError _) \<Rightarrow>
          mark_failed d h x ''invalid_container_group_configuration'' observed_at None None
      | Inl _ \<Rightarrow> mark_failed d h x ''runtime_binding_resolution_failed'' observed_at None None
      | Inr payload \<Rightarrow>
          (let h1 = h @ [CallCreateContainerGroup payload] in
           case sc_create_container_group (env_client env) h payload of
             Inl error \<Rightarrow> handle_mutation_error d h1 x error ''group_create'' observed_at
           | Inr g \<Rightarrow>
               if cg_name g \<noteq> sd_container_group_name x
               then mark_unknown d h1 x ''group_create_response_mismatch'' observed_at
               else (let y = touch_deployment (clear_error
                           (x\<lparr>sd_provider_container_group_id := Some (uuid_str (cg_id g)),
                              sd_state := DeploymentPROVISIONING, sd_unknown_since := None\<rparr>))
                     in (write_audited y ''salad_deployment.container_group_created''
                           [(''container_group_id'', PStr (uuid_str (cg_id g))),
                            (''container_group_name'', PStr (cg_name g))] observed_at d,
                         h1, deployment_result y GROUP_CREATED 0 None))))"

definition provision_group ::
  "step_env \<Rightarrow> secret_resolver option \<Rightarrow> db \<Rightarrow> provider_call list \<Rightarrow> SaladDeployment \<Rightarrow> bool \<Rightarrow> instant
    \<Rightarrow> deployment_error + step" where
  "provision_group env resolver d h x was_unknown observed_at =
     (let x1 = x\<lparr>sd_state := DeploymentPROVISIONING\<rparr> in
      case verify_persisted_queue env d h x1 observed_at of
        (h1, Some r) \<Rightarrow> Inr r
      | (h1, None) \<Rightarrow>
          (case get_group_or_none env h1 (sd_container_group_name x1) of
             (h2, Inl error) \<Rightarrow> Inr (handle_read_error d h2 x1 error ''group_reconcile'' observed_at)
           | (h2, Inr (Some g)) \<Rightarrow> adopt_group d h2 x1 g observed_at
           | (h2, Inr None) \<Rightarrow>
               if was_unknown then Inr (mark_unknown d h2 x1 ''group_create_outcome_unknown'' observed_at)
               else Inr (create_group env resolver d h2 x1 observed_at)))"

definition deployment_as_utc :: "pydatetime \<Rightarrow> deployment_error + instant" where
  "deployment_as_utc v = (case v of
       Aware t \<Rightarrow> Inr t
     | Naive _ \<Rightarrow> Inl (SaladDeploymentValidationError ''deployment timestamps must include a timezone''))"

text \<open>
  What both entry points do first: lock the guard before the row, load and check the row, retire a video lane, derive the
  names. The result also says whether the row was UNKNOWN when it was loaded.
\<close>

definition prepare_step ::
  "db \<Rightarrow> uuid \<Rightarrow> instant \<Rightarrow> deployment_error + (db \<times> SaladDeployment \<times> bool \<times> bool)" where
  "prepare_step d deployment_id observed_at =
     (let guard_available = lock_budget_guard d in
      bindE (load_deployment_locked d deployment_id) (\<lambda>x.
      bindE (validate_local_deployment x) (\<lambda>_.
        case retire_legacy_video_deployment d x observed_at of
          (d1, x1) \<Rightarrow>
            bindE (assign_deterministic_names x1) (\<lambda>x2.
              Inr (put_deployment x2 d1, x2, guard_available, sd_state x = DeploymentUNKNOWN)))))"

definition provision_deployment_step ::
  "step_env \<Rightarrow> secret_resolver option \<Rightarrow> instant \<Rightarrow> db \<Rightarrow> provider_call list \<Rightarrow> uuid \<Rightarrow> pydatetime option
    \<Rightarrow> deployment_error + step" where
  "provision_deployment_step env resolver clock d h deployment_id now =
     bindE (deployment_as_utc (case now of None \<Rightarrow> Aware clock | Some v \<Rightarrow> v)) (\<lambda>observed_at.
     bindE (prepare_step d deployment_id observed_at) (\<lambda>(d1, x, guard_available, was_unknown).
       case budget_allows_provider_work d1 x observed_at guard_available of
         (d2, x2, budget_open) \<Rightarrow>
           if \<not> budget_open \<or> stop_is_desired x2 then Inr (request_stop env d2 h x2 observed_at)
           else if sd_is_current x2 \<and> has_unstopped_superseded_group d2 (sd_id x2) (sd_purpose x2)
           then Inr (defer_rollout_overlap d2 h x2 observed_at)
           else if sd_provider_queue_id x2 = None then Inr (provision_queue env d2 h x2 was_unknown observed_at)
           else if sd_provider_container_group_id x2 = None
           then provision_group env resolver d2 h x2 was_unknown observed_at
           else reconcile_locked env d2 h x2 observed_at guard_available))"

definition reconcile_deployment ::
  "step_env \<Rightarrow> instant \<Rightarrow> db \<Rightarrow> provider_call list \<Rightarrow> uuid \<Rightarrow> pydatetime option \<Rightarrow> deployment_error + step" where
  "reconcile_deployment env clock d h deployment_id now =
     bindE (deployment_as_utc (case now of None \<Rightarrow> Aware clock | Some v \<Rightarrow> v)) (\<lambda>observed_at.
     bindE (prepare_step d deployment_id observed_at) (\<lambda>(d1, x, guard_available, _).
       if sd_provider_queue_id x = None \<or> sd_provider_container_group_id x = None
       then Inr (mark_unknown d1 h x ''provider_resources_incomplete'' observed_at)
       else reconcile_locked env d1 h x observed_at guard_available))"

end
