(* ===== verification/GpuClockTheorems.thy ===== *)
theory GpuClockTheorems
  imports GpuClock Samples
begin

text \<open>
  What the billing timer guarantees: the CHECK constraints of its columns survive every observation when the times of
  the observations do not go back, and the life of a single worker is measured exactly. Two lemmas show where it
  counts differently: a start before the session is counted again at every poll, and an instance that is seen stopping
  twice makes an exact session an estimate.
\<close>

text \<open>One poll of the provider: the answer and the clock after it, the group, the time of the cycle, and the flag.\<close>

record billing_poll =
  bp_answer :: "SaladContainerGroupInstance list salad_answer"
  bp_clock :: instant
  bp_group :: SaladContainerGroup
  bp_observed_at :: instant
  bp_end_session :: bool

definition poll_row :: "billing_poll \<Rightarrow> SaladDeployment \<Rightarrow> SaladDeployment" where
  "poll_row p x = fst (refresh_billing_observation (bp_answer p) (bp_clock p) x (bp_group p) (bp_observed_at p)
     (bp_end_session p))"

definition received_at :: "billing_poll \<Rightarrow> instant" where
  "received_at p = max (bp_observed_at p) (bp_clock p)"

section \<open>Constraints\<close>

text \<open>The constraints, and that nothing the timer holds started after the last observation.\<close>

definition clock_inv :: "SaladDeployment \<Rightarrow> bool" where
  "clock_inv x \<longleftrightarrow> billing_ok x
     \<and> (case sd_billing_session_started_at x of None \<Rightarrow> True
        | Some s \<Rightarrow> (case sd_billing_observed_at x of None \<Rightarrow> False | Some t \<Rightarrow> s \<le> t))
     \<and> (case sd_billing_active_started_at x of None \<Rightarrow> True
        | Some s \<Rightarrow> (case sd_billing_observed_at x of None \<Rightarrow> False | Some t \<Rightarrow> s \<le> t))"

lemma clock_inv_flags [simp]:
  "clock_inv (x\<lparr>sd_billing_observation_stale := b\<rparr>) = clock_inv x"
  "clock_inv (x\<lparr>sd_billing_estimated := b\<rparr>) = clock_inv x"
  by (simp_all add: clock_inv_def billing_ok_def cong: option.case_cong)

lemma close_fields:
  "sd_billing_session_started_at (close_active_billing_segment x is t f) = sd_billing_session_started_at x"
  "sd_billing_session_ended_at (close_active_billing_segment x is t f) = sd_billing_session_ended_at x"
  "sd_billing_active_instance_id (close_active_billing_segment x is t f) = None"
  "sd_billing_active_started_at (close_active_billing_segment x is t f) = None"
  "sd_billing_observed_at (close_active_billing_segment x is t f) = sd_billing_observed_at x"
  "sd_billing_observation_stale (close_active_billing_segment x is t f) = sd_billing_observation_stale x"
  by (auto simp: close_active_billing_segment_def Let_def split: option.splits)

lemma close_accumulates:
  assumes "clock_inv x" and "sd_billing_observed_at x = Some t"
  shows "sd_billing_accumulated_microseconds x
     \<le> sd_billing_accumulated_microseconds (close_active_billing_segment x is t f)"
  using assms
  by (auto simp: close_active_billing_segment_def clock_inv_def Let_def not_less split: option.splits)

lemma close_inv:
  assumes "clock_inv x" and "sd_billing_observed_at x = Some t" and "sd_billing_active_started_at x \<noteq> None"
  shows "clock_inv (close_active_billing_segment x is t f)"
  using assms close_accumulates [OF assms(1,2), of "is" f]
  by (auto simp: clock_inv_def billing_ok_def close_fields split: option.splits)

lemma end_inv:
  assumes "clock_inv x" and "sd_billing_observed_at x = Some t"
  shows "clock_inv (end_billing_session x t)"
proof -
  have "clock_inv (close_active_billing_segment x [] t t)" if "sd_billing_active_started_at x \<noteq> None"
    by (rule close_inv [OF assms that])
  then show ?thesis using assms
    by (auto simp: end_billing_session_def Let_def clock_inv_def billing_ok_def close_fields split: option.splits)
qed

lemma restart_inv: "clock_inv x \<Longrightarrow> clock_inv (restart_preparation is x)"
  by (auto simp: restart_preparation_def clock_inv_def billing_ok_def split: option.splits)

lemma flag_inv: "clock_inv x \<Longrightarrow> clock_inv (flag_untracked_stopping is x)"
  by (auto simp: flag_untracked_stopping_def clock_inv_def billing_ok_def split: option.splits)

text \<open>The three parts of tracking a running instance.\<close>

lemma open_session_cases:
  assumes "clock_inv x" and "sd_billing_observed_at x = Some t" and "sd_billing_active_started_at x = None" and "u \<le> t"
    and "open_billing_session u e x = (y, s)"
  shows "clock_inv (y\<lparr>sd_billing_active_instance_id := Some a, sd_billing_active_started_at := Some s\<rparr>)"
  using assms
  by (cases "sd_billing_session_started_at x")
    (auto simp: open_billing_session_def clock_inv_def billing_ok_def split: if_splits)

lemma open_session_observed:
  "sd_billing_observed_at (fst (open_billing_session u e x)) = sd_billing_observed_at x"
  by (auto simp: open_billing_session_def split: option.split)

lemma track_shape:
  obtains x2 y s same where
    "track_running is i others t x = (if same then y else y\<lparr>sd_billing_active_instance_id := Some
         (gi_id (min_by (\<lambda>i. (gi_update_time i, gi_id i)) i others)), sd_billing_active_started_at := Some s\<rparr>)
       \<lparr>sd_billing_estimated := sd_billing_estimated y \<or> others \<noteq> []
          \<or> t < gi_update_time (min_by (\<lambda>i. (gi_update_time i, gi_id i)) i others)\<rparr>"
    "open_billing_session (min (gi_update_time (min_by (\<lambda>i. (gi_update_time i, gi_id i)) i others)) t)
       (others \<noteq> [] \<or> t < gi_update_time (min_by (\<lambda>i. (gi_update_time i, gi_id i)) i others)) x2 = (y, s)"
    "same \<Longrightarrow> x2 = x\<lparr>sd_billing_observation_stale := sd_billing_observation_stale x \<or> others \<noteq> []\<rparr>
       \<and> sd_billing_active_started_at x = Some (min (gi_update_time (min_by (\<lambda>i. (gi_update_time i, gi_id i)) i others)) t)"
    "\<not> same \<Longrightarrow> sd_billing_active_started_at x \<noteq> None \<Longrightarrow>
       \<exists>f. x2 = close_active_billing_segment
         (x\<lparr>sd_billing_observation_stale := sd_billing_observation_stale x \<or> others \<noteq> []\<rparr>) is t f"
    "\<not> same \<Longrightarrow> sd_billing_active_started_at x = None \<Longrightarrow>
       x2 = x\<lparr>sd_billing_observation_stale := sd_billing_observation_stale x \<or> others \<noteq> []\<rparr>"
proof -
  let ?sel = "min_by (\<lambda>i. (gi_update_time i, gi_id i)) i others"
  let ?start = "min (gi_update_time ?sel) t"
  let ?x1 = "if others \<noteq> [] then x\<lparr>sd_billing_observation_stale := True\<rparr> else x"
  let ?same = "sd_billing_active_instance_id ?x1 = Some (gi_id ?sel) \<and> sd_billing_active_started_at ?x1 = Some ?start"
  let ?x2 = "if \<not> ?same \<and> sd_billing_active_started_at ?x1 \<noteq> None
      then close_active_billing_segment ?x1 is t (min ?start t) else ?x1"
  obtain y s where o: "open_billing_session ?start (others \<noteq> [] \<or> t < gi_update_time ?sel) ?x2 = (y, s)"
    by (cases "open_billing_session ?start (others \<noteq> [] \<or> t < gi_update_time ?sel) ?x2")
  have x1: "?x1 = x\<lparr>sd_billing_observation_stale := sd_billing_observation_stale x \<or> others \<noteq> []\<rparr>" by simp
  show thesis
  proof (rule that [OF _ o, of ?same])
    show "track_running is i others t x = (if ?same then y else y\<lparr>sd_billing_active_instance_id := Some (gi_id ?sel),
        sd_billing_active_started_at := Some s\<rparr>)
       \<lparr>sd_billing_estimated := sd_billing_estimated y \<or> others \<noteq> [] \<or> t < gi_update_time ?sel\<rparr>"
      unfolding track_running_def Let_def o prod.case by (cases ?same) (simp_all only: if_True if_False simp_thms, simp_all)
  qed (unfold x1, auto)
qed

lemma track_inv:
  assumes inv: "clock_inv x" and obs: "sd_billing_observed_at x = Some t"
  shows "clock_inv (track_running is i others t x)"
proof (rule track_shape [of "is" i others t x])
  fix x2 y s same
  let ?sel = "min_by (\<lambda>i. (gi_update_time i, gi_id i)) i others"
  let ?x1 = "x\<lparr>sd_billing_observation_stale := sd_billing_observation_stale x \<or> others \<noteq> []\<rparr>"
  assume eq: "track_running is i others t x = (if same then y else y\<lparr>sd_billing_active_instance_id := Some (gi_id ?sel),
        sd_billing_active_started_at := Some s\<rparr>)
       \<lparr>sd_billing_estimated := sd_billing_estimated y \<or> others \<noteq> [] \<or> t < gi_update_time ?sel\<rparr>"
    and o: "open_billing_session (min (gi_update_time ?sel) t) (others \<noteq> [] \<or> t < gi_update_time ?sel) x2 = (y, s)"
    and same: "same \<Longrightarrow> x2 = ?x1 \<and> sd_billing_active_started_at x = Some (min (gi_update_time ?sel) t)"
    and closed: "\<not> same \<Longrightarrow> sd_billing_active_started_at x \<noteq> None \<Longrightarrow>
      \<exists>f. x2 = close_active_billing_segment ?x1 is t f"
    and idle: "\<not> same \<Longrightarrow> sd_billing_active_started_at x = None \<Longrightarrow> x2 = ?x1"
  show ?thesis
  proof (cases same)
    case True
    with same inv obtain v where "sd_billing_session_started_at x2 = Some v" "sd_billing_session_ended_at x2 = None"
        "v \<le> min (gi_update_time ?sel) t"
      by (auto simp: clock_inv_def billing_ok_def)
    with o have "y = x2" by (simp add: open_billing_session_def split: if_splits)
    with True same inv show ?thesis unfolding eq by simp
  next
    case False
    then have x2: "clock_inv x2 \<and> sd_billing_observed_at x2 = Some t \<and> sd_billing_active_started_at x2 = None"
      using closed idle inv obs close_inv [of ?x1 t "is"]
      by (cases "sd_billing_active_started_at x") (auto simp: close_fields)
    then have "clock_inv (y\<lparr>sd_billing_active_instance_id := Some (gi_id ?sel), sd_billing_active_started_at := Some s\<rparr>)"
      by (intro open_session_cases [OF _ _ _ _ o]) auto
    with False show ?thesis unfolding eq by simp
  qed
qed

text \<open>The time of an observation may not precede that of the last one.\<close>

definition not_before :: "instant \<Rightarrow> SaladDeployment \<Rightarrow> bool" where
  "not_before t x \<longleftrightarrow> (case sd_billing_observed_at x of None \<Rightarrow> True | Some r \<Rightarrow> r \<le> t)"

lemma apply_inv:
  assumes "clock_inv x" and "not_before t x"
  shows "clock_inv (apply_billing_observation x is running t e)"
proof -
  define y where "y = flag_untracked_stopping is (restart_preparation is
      (x\<lparr>sd_billing_observed_at := Some t, sd_billing_observation_stale := False\<rparr>))"
  have "clock_inv (x\<lparr>sd_billing_observed_at := Some t\<rparr>)"
    using assms by (auto simp: clock_inv_def billing_ok_def not_before_def split: option.splits)
  then have "clock_inv (x\<lparr>sd_billing_observed_at := Some t, sd_billing_observation_stale := False\<rparr>)" by simp
  then have y: "clock_inv y" unfolding y_def by (intro flag_inv restart_inv)
  have "sd_billing_observed_at y = Some t"
    by (simp add: y_def flag_untracked_stopping_def restart_preparation_def)
  note y = y this
  define z where "z = (if sd_billing_active_started_at y \<noteq> None then close_active_billing_segment y is t t else y)"
  have "clock_inv z" "sd_billing_observed_at z = Some t"
    using y close_inv [OF y] by (simp_all add: z_def close_fields)
  then have "clock_inv (if e then end_billing_session z t else z)" by (simp add: end_inv)
  then show ?thesis
    unfolding apply_billing_observation_def Let_def y_def [symmetric] z_def [symmetric]
    using track_inv [OF y] by (cases e; cases running) simp_all
qed

lemma poll_inv:
  assumes "clock_inv x" and "not_before (received_at p) x"
  shows "clock_inv (poll_row p x)"
  using assms apply_inv [OF assms]
  by (auto simp: poll_row_def refresh_billing_observation_def received_at_def Let_def split: sum.splits)

lemma track_observed: "sd_billing_observed_at (track_running is i others t x) = sd_billing_observed_at x"
proof (rule track_shape [of "is" i others t x])
  fix x2 y s and same :: bool
  let ?sel = "min_by (\<lambda>i. (gi_update_time i, gi_id i)) i others"
  let ?x1 = "x\<lparr>sd_billing_observation_stale := sd_billing_observation_stale x \<or> others \<noteq> []\<rparr>"
  assume eq: "track_running is i others t x = (if same then y else y\<lparr>sd_billing_active_instance_id := Some (gi_id ?sel),
        sd_billing_active_started_at := Some s\<rparr>)
       \<lparr>sd_billing_estimated := sd_billing_estimated y \<or> others \<noteq> [] \<or> t < gi_update_time ?sel\<rparr>"
    and o: "open_billing_session (min (gi_update_time ?sel) t) (others \<noteq> [] \<or> t < gi_update_time ?sel) x2 = (y, s)"
    and "same \<Longrightarrow> x2 = ?x1 \<and> sd_billing_active_started_at x = Some (min (gi_update_time ?sel) t)"
    and "\<not> same \<Longrightarrow> sd_billing_active_started_at x \<noteq> None \<Longrightarrow>
      \<exists>f. x2 = close_active_billing_segment ?x1 is t f"
    and "\<not> same \<Longrightarrow> sd_billing_active_started_at x = None \<Longrightarrow> x2 = ?x1"
  then have "sd_billing_observed_at x2 = sd_billing_observed_at x"
    by (cases same; cases "sd_billing_active_started_at x") (auto simp: close_fields)
  moreover have "sd_billing_observed_at y = sd_billing_observed_at x2"
    using open_session_observed o by (metis fst_conv)
  ultimately show ?thesis unfolding eq by simp
qed

lemma apply_observed: "sd_billing_observed_at (apply_billing_observation x is running t e) = Some t"
proof -
  have "sd_billing_observed_at (end_billing_session y t) = sd_billing_observed_at y" for y
    by (simp add: end_billing_session_def Let_def close_fields split: option.split)
  then show ?thesis
    by (cases running) (simp_all add: apply_billing_observation_def Let_def track_observed close_fields
        flag_untracked_stopping_def restart_preparation_def)
qed

lemma poll_not_before:
  assumes "not_before t x" and "received_at p \<le> t"
  shows "not_before t (poll_row p x)"
  using assms
  by (auto simp: poll_row_def refresh_billing_observation_def not_before_def received_at_def Let_def apply_observed
      split: sum.splits)

section \<open>A single worker\<close>

definition sees :: "SaladContainerGroupInstance list \<Rightarrow> billing_poll \<Rightarrow> bool" where
  "sees is p \<longleftrightarrow> bp_answer p = Inr is"

definition fails :: "billing_poll \<Rightarrow> bool" where
  "fails p \<longleftrightarrow> (case bp_answer p of Inl _ \<Rightarrow> True | Inr _ \<Rightarrow> False)"

definition worker :: "string \<Rightarrow> SaladContainerGroupInstanceState \<Rightarrow> instant \<Rightarrow> SaladContainerGroupInstance" where
  "worker a s t = \<lparr>gi_id = a, gi_state = s, gi_update_time = t, gi_version = 1, gi_started = Some True\<rparr>"

text \<open>The timer while worker \<open>a\<close> runs since \<open>u\<close>, after it stopped at \<open>v\<close>.\<close>

definition timing :: "string \<Rightarrow> instant \<Rightarrow> SaladDeployment \<Rightarrow> bool" where
  "timing a u x \<longleftrightarrow> sd_billing_session_started_at x = Some u \<and> sd_billing_session_ended_at x = None
     \<and> sd_billing_accumulated_microseconds x = 0 \<and> sd_billing_active_instance_id x = Some a
     \<and> sd_billing_active_started_at x = Some u \<and> \<not> sd_billing_estimated x"

definition timed :: "instant \<Rightarrow> instant \<Rightarrow> SaladDeployment \<Rightarrow> bool" where
  "timed u v x \<longleftrightarrow> sd_billing_session_started_at x = Some u
     \<and> sd_billing_accumulated_microseconds x = v - u \<and> sd_billing_active_instance_id x = None
     \<and> sd_billing_active_started_at x = None \<and> \<not> sd_billing_estimated x"

lemmas poll_defs = poll_row_def refresh_billing_observation_def apply_billing_observation_def Let_def
  restart_preparation_def flag_untracked_stopping_def received_at_def sees_def worker_def

lemma track_alone:
  assumes "u \<le> t"
  shows "track_running is (worker a InstanceRUNNING u) [] t x =
    (if sd_billing_active_instance_id x = Some a \<and> sd_billing_active_started_at x = Some u
     then fst (open_billing_session u False x)
     else (case open_billing_session u False (if sd_billing_active_started_at x \<noteq> None
              then close_active_billing_segment x is t (min u t) else x) of (y, s) \<Rightarrow>
         y\<lparr>sd_billing_active_instance_id := Some a, sd_billing_active_started_at := Some s\<rparr>))"
proof -
  have m: "min u t = u" using assms by simp
  show ?thesis
    using assms
    by (cases "open_billing_session u False x")
      (simp add: track_running_def min_by_def worker_def Let_def m split: prod.split)
qed

lemma poll_starts:
  assumes "billing_ok x" and "sd_billing_session_started_at x = None \<or> sd_billing_session_ended_at x \<noteq> None"
    and "sees [worker a InstanceRUNNING u] p" and "u \<le> received_at p"
  shows "timing a u (poll_row p x) \<and> \<not> sd_billing_observation_stale (poll_row p x)
     \<and> sd_billing_observed_at (poll_row p x) = Some (received_at p)"
proof -
  have "sd_billing_active_started_at x = None" "sd_billing_active_instance_id x = None"
    using assms(1,2) by (auto simp: billing_ok_def)
  with assms show ?thesis
    by (cases "sd_billing_session_started_at x")
      (auto simp: poll_row_def refresh_billing_observation_def apply_billing_observation_def Let_def sees_def
        track_alone received_at_def restart_preparation_def flag_untracked_stopping_def is_preparing_def
        worker_def [of a InstanceRUNNING u, THEN arg_cong, of gi_state] open_billing_session_def timing_def)
qed

lemma poll_continues:
  assumes "timing a u x" and "sees [worker a InstanceRUNNING u] p" and "u \<le> received_at p"
  shows "timing a u (poll_row p x) \<and> \<not> sd_billing_observation_stale (poll_row p x)
     \<and> sd_billing_observed_at (poll_row p x) = Some (received_at p)"
  using assms
  by (auto simp: poll_row_def refresh_billing_observation_def apply_billing_observation_def Let_def sees_def
        track_alone received_at_def restart_preparation_def flag_untracked_stopping_def is_preparing_def
        worker_def [of a InstanceRUNNING u, THEN arg_cong, of gi_state] open_billing_session_def timing_def)

lemma poll_fails:
  assumes "fails p"
  shows "timing a u x \<Longrightarrow> timing a u (poll_row p x)" and "timed u v x \<Longrightarrow> timed u v (poll_row p x)"
    and "sd_billing_session_ended_at (poll_row p x) = sd_billing_session_ended_at x"
    and "sd_billing_observed_at (poll_row p x) = sd_billing_observed_at x"
  using assms by (auto simp: poll_row_def refresh_billing_observation_def fails_def timing_def timed_def split: sum.splits)

lemma poll_stops:
  assumes "timing a u x" and "sees [worker a s v] p" and "s \<noteq> InstanceRUNNING" and "u \<le> v" and "v \<le> received_at p"
  shows "timed u v (poll_row p x)"
  using assms
  by (auto simp: poll_defs timing_def timed_def close_active_billing_segment_def end_billing_session_def is_preparing_def)

lemma poll_quiet:
  assumes "timed u v x" and "sees [] p"
  shows "timed u v (poll_row p x)" and "bp_end_session p \<Longrightarrow> sd_billing_session_ended_at (poll_row p x) \<noteq> None"
    and "sd_billing_session_ended_at x \<noteq> None \<Longrightarrow> sd_billing_session_ended_at (poll_row p x) \<noteq> None"
    and "\<not> sd_billing_observation_stale (poll_row p x)"
  using assms by (auto simp: poll_defs timed_def end_billing_session_def split: option.splits)

lemma running_polls:
  assumes "timing a u x" and "\<forall>q \<in> set B. fails q \<or> (sees [worker a InstanceRUNNING u] q \<and> u \<le> received_at q)"
  shows "timing a u (fold poll_row B x)"
  using assms
proof (induction B arbitrary: x)
  case (Cons q B)
  have "timing a u (poll_row q x)"
    using Cons.prems poll_fails(1) [of q a u x] poll_continues [of a u x q] by auto
  with Cons show ?case by simp
qed simp

lemma quiet_polls:
  assumes "timed u v x" and "\<forall>q \<in> set D. fails q \<or> sees [] q"
  shows "timed u v (fold poll_row D x)"
    and "sd_billing_session_ended_at x \<noteq> None \<or> (\<exists>q \<in> set D. sees [] q \<and> bp_end_session q) \<Longrightarrow>
      sd_billing_session_ended_at (fold poll_row D x) \<noteq> None"
  using assms
proof (induction D arbitrary: x)
  case (Cons q D)
  { case 1
    then have "timed u v (poll_row q x)" using poll_fails(2) poll_quiet(1) by auto
    with Cons(1) [of "poll_row q x"] 1 show ?case by simp
  next
    case 2
    then have t: "timed u v (poll_row q x)" using poll_fails(2) poll_quiet(1) by auto
    have "sd_billing_session_ended_at (poll_row q x) \<noteq> None \<or> (\<exists>r \<in> set D. sees [] r \<and> bp_end_session r)"
      using 2 poll_fails(3) poll_quiet(2,3) by (metis list.set_intros(1) set_ConsD)
    with t Cons(2) [of "poll_row q x"] 2 show ?case by simp }
qed auto

lemma running_snapshot:
  assumes "timing a u x" and "\<not> sd_billing_observation_stale x" and "\<not> billing_observation_is_aged x now" and "u \<le> now"
  shows "gb_elapsed_seconds (snapshot_for_deployment x now) = (now - u) div us_per_second
     \<and> gb_running_instances (snapshot_for_deployment x now) = 1 \<and> \<not> gb_estimated (snapshot_for_deployment x now)"
  using assms
  by (auto simp: snapshot_for_deployment_def timing_def billing_observation_is_aged_def Let_def not_le split: option.splits)

lemma ended_snapshot:
  assumes "timed u v x" and "u \<le> v" and "sd_billing_session_ended_at x \<noteq> None" and "\<not> sd_billing_observation_stale x"
    and "\<not> billing_observation_is_aged x now"
  shows "gb_state (snapshot_for_deployment x now) = BillingENDED
     \<and> gb_elapsed_seconds (snapshot_for_deployment x now) = (v - u) div us_per_second
     \<and> \<not> gb_estimated (snapshot_for_deployment x now)"
  using assms by (auto simp: snapshot_for_deployment_def timed_def Let_def)

text \<open>C27: The life of a single worker is measured exactly, for polls in this order: one or more that show it running since
  \<open>u\<close>, one that shows it in another state since \<open>v\<close>, then only polls that show no instance, with failed reads anywhere
  between. While it runs, the timer shows the time since \<open>u\<close>, not as an estimate, provided the last read is neither stale
  nor old; afterwards the session's time is exactly \<open>v - u\<close>, not as an estimate, and when a poll without instances has
  ended the session, the snapshot reports that time, under the same proviso. A worker that is seen stopping at two polls is
  not covered: its session becomes an estimate (\<open>stopping_again_is_untracked\<close>).\<close>

theorem single_worker_is_timed_exactly:
  assumes "billing_ok x" and "sd_billing_session_started_at x = None \<or> sd_billing_session_ended_at x \<noteq> None"
    and "sees [worker a InstanceRUNNING u] p" and "u \<le> received_at p"
    and "\<forall>q \<in> set B. fails q \<or> (sees [worker a InstanceRUNNING u] q \<and> u \<le> received_at q)"
    and "y = fold poll_row (p # B) x"
  shows "(\<not> sd_billing_observation_stale y \<longrightarrow> \<not> billing_observation_is_aged y now \<longrightarrow> u \<le> now \<longrightarrow>
            gb_elapsed_seconds (snapshot_for_deployment y now) = (now - u) div us_per_second
          \<and> gb_running_instances (snapshot_for_deployment y now) = 1 \<and> \<not> gb_estimated (snapshot_for_deployment y now))
     \<and> (\<forall>s v q D z. sees [worker a s v] q \<longrightarrow> s \<noteq> InstanceRUNNING \<longrightarrow> u \<le> v \<longrightarrow> v \<le> received_at q \<longrightarrow>
            (\<forall>r \<in> set D. fails r \<or> sees [] r) \<longrightarrow> z = fold poll_row (q # D) y \<longrightarrow>
            sd_billing_accumulated_microseconds z = v - u \<and> \<not> sd_billing_estimated z
          \<and> ((\<exists>r \<in> set D. sees [] r \<and> bp_end_session r) \<longrightarrow> \<not> sd_billing_observation_stale z \<longrightarrow>
               \<not> billing_observation_is_aged z now \<longrightarrow>
               gb_state (snapshot_for_deployment z now) = BillingENDED
             \<and> gb_elapsed_seconds (snapshot_for_deployment z now) = (v - u) div us_per_second
             \<and> \<not> gb_estimated (snapshot_for_deployment z now)))"
proof -
  have "timing a u (poll_row p x)" using poll_starts [OF assms(1-4)] by blast
  then have y: "timing a u y" using running_polls [OF _ assms(5)] assms(6) by simp
  have z: "timed u v (fold poll_row (q # D) y) \<and> ((\<exists>r \<in> set D. sees [] r \<and> bp_end_session r) \<longrightarrow>
      sd_billing_session_ended_at (fold poll_row (q # D) y) \<noteq> None)"
    if "sees [worker a s v] q" "s \<noteq> InstanceRUNNING" "u \<le> v" "v \<le> received_at q" "\<forall>r \<in> set D. fails r \<or> sees [] r"
    for s v q D
    using quiet_polls [OF poll_stops [OF y that(1-4)] that(5)] by simp
  show ?thesis
    by (intro conjI allI impI) (use running_snapshot [OF y] ended_snapshot z in \<open>auto simp: timed_def\<close>)
qed

definition sample_poll :: "SaladContainerGroupInstance list salad_answer \<Rightarrow> instant \<Rightarrow> bool \<Rightarrow> billing_poll" where
  "sample_poll answer t e = \<lparr>bp_answer = answer, bp_clock = t, bp_group = sample_group, bp_observed_at = t,
     bp_end_session = e\<rparr>"

lemma single_worker_is_timed_exactly_witness:
  "gb_elapsed_seconds (snapshot_for_deployment
     (fold poll_row [sample_poll (Inr [worker ''a'' InstanceRUNNING 5000000]) 9000000 False,
        sample_poll (Inl SaladTransportError) 30000000 False,
        sample_poll (Inr [worker ''a'' InstanceSTOPPING 65000000]) 70000000 False,
        sample_poll (Inr []) 80000000 True] sample_worker_deployment) 81000000) = 60"
proof -
  let ?p = "sample_poll (Inr [worker ''a'' InstanceRUNNING 5000000]) 9000000 False"
  let ?f = "sample_poll (Inl SaladTransportError) 30000000 False"
  let ?q = "sample_poll (Inr [worker ''a'' InstanceSTOPPING 65000000]) 70000000 False"
  let ?e = "sample_poll (Inr []) 80000000 True"
  let ?y = "fold poll_row (?p # [?f]) sample_worker_deployment"
  have "billing_ok sample_worker_deployment" "sd_billing_session_started_at sample_worker_deployment = None
      \<or> sd_billing_session_ended_at sample_worker_deployment \<noteq> None"
    by (simp_all add: sample_worker_deployment_def billing_ok_def)
  moreover have "sees [worker ''a'' InstanceRUNNING 5000000] ?p" "5000000 \<le> received_at ?p"
      "\<forall>q \<in> set [?f]. fails q \<or> (sees [worker ''a'' InstanceRUNNING 5000000] q \<and> 5000000 \<le> received_at q)"
      and q: "sees [worker ''a'' InstanceSTOPPING 65000000] ?q" "65000000 \<le> received_at ?q"
      "\<forall>r \<in> set [?e]. fails r \<or> sees [] r" "\<exists>r \<in> set [?e]. sees [] r \<and> bp_end_session r"
    by (simp_all add: sees_def fails_def sample_poll_def received_at_def)
  ultimately have "\<not> sd_billing_observation_stale (fold poll_row (?q # [?e]) ?y) \<Longrightarrow>
      \<not> billing_observation_is_aged (fold poll_row (?q # [?e]) ?y) 81000000 \<Longrightarrow>
      gb_elapsed_seconds (snapshot_for_deployment (fold poll_row (?q # [?e]) ?y) 81000000)
        = (65000000 - 5000000) div us_per_second"
    using single_worker_is_timed_exactly [of sample_worker_deployment "''a''" 5000000 ?p "[?f]" ?y 81000000, THEN conjunct2,
        rule_format, of InstanceSTOPPING 65000000 ?q "[?e]"] q by simp
  moreover have "\<not> sd_billing_observation_stale (fold poll_row (?q # [?e]) ?y)
      \<and> \<not> billing_observation_is_aged (fold poll_row (?q # [?e]) ?y) 81000000"
    by code_simp
  ultimately show ?thesis by simp
qed

section \<open>Constraints along a run\<close>

lemma polls_inv:
  assumes "clock_inv x" and "sorted (map received_at ps)" and "\<forall>p \<in> set ps. not_before (received_at p) x"
  shows "clock_inv (fold poll_row ps x)"
  using assms
proof (induction ps arbitrary: x)
  case (Cons p ps)
  then have "clock_inv (poll_row p x)" by (simp add: poll_inv)
  moreover have "\<forall>q \<in> set ps. not_before (received_at q) (poll_row p x)"
    using Cons.prems by (auto intro!: poll_not_before)
  ultimately show ?case using Cons by simp
qed simp

text \<open>The timer's columns always satisfy the constraints of the schema. Whatever instances the provider lists, in any
  states and with any timestamps, however many, and whichever reads fail: when the times at which answers are received
  do not go back, every row along the way satisfies the six CHECK constraints, so no observation is lost to an
  integrity error, and no start that is stored lies after the last observation.\<close>

theorem observations_keep_timer_constraints:
  assumes "clock_inv x" and "sorted (map received_at ps)" and "\<forall>p \<in> set ps. not_before (received_at p) x"
  shows "billing_ok (fold poll_row ps x) \<and> clock_inv (fold poll_row ps x)"
  using polls_inv [OF assms] by (simp add: clock_inv_def)

lemma observations_keep_timer_constraints_witness:
  "billing_ok (fold poll_row [sample_poll (Inr [worker ''a'' InstanceRUNNING 5000000, worker ''b'' InstanceRUNNING 1]) 9000000 False,
     sample_poll (Inr [worker ''a'' InstanceSTOPPING 99000000]) 70000000 True] sample_worker_deployment)"
  (is "billing_ok (fold poll_row ?ps _)")
proof -
  have "clock_inv sample_worker_deployment" "sorted (map received_at ?ps)"
      "\<forall>p \<in> set ?ps. not_before (received_at p) sample_worker_deployment"
    by (simp_all add: sample_worker_deployment_def clock_inv_def billing_ok_def not_before_def sample_poll_def received_at_def)
  from observations_keep_timer_constraints [OF this] show ?thesis by blast
qed

section \<open>Where the timer counts differently\<close>

text \<open>A worker whose start lies before the session is clamped to the session's start. The clamped start never matches
  the provider's again, so every later poll closes the segment at the poll and opens it once more at the session's
  start: the time since then is added to the sum again each time.\<close>

lemma clamped_segment_is_counted_again:
  assumes "sd_billing_session_started_at x = Some s" and "sd_billing_session_ended_at x = None"
    and "sd_billing_active_instance_id x = Some a" and "sd_billing_active_started_at x = Some s"
    and "sees [worker a InstanceRUNNING u] p" and "u < s" and "s \<le> received_at p"
  shows "sd_billing_accumulated_microseconds (poll_row p x)
       = sd_billing_accumulated_microseconds x + (received_at p - s)"
    and "sd_billing_active_started_at (poll_row p x) = Some s"
  using assms
  by (auto simp: poll_row_def refresh_billing_observation_def apply_billing_observation_def Let_def sees_def
      track_alone received_at_def restart_preparation_def flag_untracked_stopping_def is_preparing_def
      worker_def [of a InstanceRUNNING u, THEN arg_cong, of gi_state] open_billing_session_def
      close_active_billing_segment_def)

text \<open>A worker that is seen stopping at two polls: its segment was closed exactly at the first, but at the second it is
  not the tracked one any more, and the session becomes an estimate.\<close>

lemma stopping_again_is_untracked:
  assumes "timed u v x" and "sd_billing_session_ended_at x = None" and "sees [worker a InstanceSTOPPING v] p"
  shows "sd_billing_estimated (poll_row p x)" and "sd_billing_observation_stale (poll_row p x)"
  using assms
  by (auto simp: poll_defs timed_def end_billing_session_def is_preparing_def split: option.splits)

end
