(* ===== verification/GpuMeteringTheorems.thy ===== *)
theory GpuMeteringTheorems
  imports GpuMetering GpuClockTheorems BudgetTheorems
begin

text \<open>
  Metering charges an interval completely and once: the pieces follow one another from its start to its end, each
  within one day of the ledger, every piece is in the ledger at its price rounded up, and metering again adds nothing.
\<close>

section \<open>The pieces of an interval\<close>

fun pieces :: "instant \<Rightarrow> (instant \<times> instant) list \<Rightarrow> instant \<Rightarrow> bool" where
  "pieces s [] e \<longleftrightarrow> s = e"
| "pieces s ((a, b) # rest) e \<longleftrightarrow> a = s \<and> a < b \<and> pieces b rest e"

lemma daily_segments_pieces: "s \<le> e \<Longrightarrow> pieces s (daily_segments s e) e"
proof (induction s e rule: daily_segments.induct)
  case (1 s e)
  show ?case
  proof (cases "s < e")
    case True
    with 1(1) [OF True refl] instant_in_day(2) [of s] show ?thesis
      by (subst daily_segments.simps) (simp add: Let_def)
  next
    case False
    with 1(2) show ?thesis by (subst daily_segments.simps) simp
  qed
qed

lemma daily_segments_within_day:
  "(a, b) \<in> set (daily_segments s e) \<Longrightarrow> a < b \<and> b \<le> day_start_of a + us_per_day"
proof (induction s e rule: daily_segments.induct)
  case (1 s e)
  show ?case
  proof (cases "s < e")
    case True
    with 1 instant_in_day(2) [of s] show ?thesis
      by (auto simp: daily_segments.simps [of s e] Let_def)
  qed (use 1(2) in \<open>simp add: daily_segments.simps [of s e]\<close>)
qed

lemma pieces_length: "pieces s segs e \<Longrightarrow> (\<Sum>(a, b)\<leftarrow>segs. b - a) = e - s"
  by (induction s segs e rule: pieces.induct) auto

text \<open>The price of a piece is its exact price rounded up.\<close>

lemma segment_amount_bounds:
  "rate * r * (b - a) \<le> MICROSECONDS_PER_HOUR * segment_amount rate r (a, b)"
  "MICROSECONDS_PER_HOUR * segment_amount rate r (a, b) < rate * r * (b - a) + MICROSECONDS_PER_HOUR"
proof -
  let ?c = "rate * r * (b - a)" and ?k = MICROSECONDS_PER_HOUR
  have k: "0 < ?k" by (simp add: MICROSECONDS_PER_HOUR_def)
  have eq: "?k * segment_amount rate r (a, b) = (?c + ?k - 1) - (?c + ?k - 1) mod ?k"
    by (simp add: segment_amount_def minus_mod_eq_mult_div)
  have "0 \<le> (?c + ?k - 1) mod ?k" "(?c + ?k - 1) mod ?k < ?k" using k by simp_all
  then show "?c \<le> ?k * segment_amount rate r (a, b)" "?k * segment_amount rate r (a, b) < ?c + ?k"
    using eq by linarith+
qed

lemma segment_amount_pos: "0 < rate \<Longrightarrow> 0 < r \<Longrightarrow> a < b \<Longrightarrow> 0 < segment_amount rate r (a, b)"
proof -
  assume "0 < rate" "0 < r" "a < b"
  then have "0 < rate * r * (b - a)" by simp
  with segment_amount_bounds(1) [of rate r b a] have "0 < MICROSECONDS_PER_HOUR * segment_amount rate r (a, b)" by linarith
  then show ?thesis by (simp add: MICROSECONDS_PER_HOUR_def zero_less_mult_iff)
qed

lemma segment_total_bounds:
  assumes "pieces s segs e"
  shows "rate * r * (e - s) \<le> MICROSECONDS_PER_HOUR * (\<Sum>p\<leftarrow>segs. segment_amount rate r p)"
    and "MICROSECONDS_PER_HOUR * (\<Sum>p\<leftarrow>segs. segment_amount rate r p)
      \<le> rate * r * (e - s) + MICROSECONDS_PER_HOUR * int (length segs)"
  using assms
proof (induction s segs e rule: pieces.induct)
  case (2 s a b rest e)
  have split: "rate * r * (e - s) = rate * r * (b - s) + rate * r * (e - b)" by (simp add: algebra_simps)
  { case 1
    with 2(1) segment_amount_bounds(1) [of rate r b s] split show ?case by (simp add: distrib_left)
  next
    case 2
    with "2.IH"(2) segment_amount_bounds(2) [of rate r s b] split show ?case by (simp add: distrib_left) }
qed simp_all

section \<open>Recording a piece\<close>

text \<open>The ledger holds the piece under its key, with its price.\<close>

definition piece_recorded :: "db \<Rightarrow> uuid \<Rightarrow> int \<Rightarrow> int \<Rightarrow> instant \<times> instant \<Rightarrow> bool" where
  "piece_recorded d k rate r p \<longleftrightarrow>
     (\<exists>g e. get_guard_locked d ''salad'' = Some g
        \<and> find (\<lambda>x. se_budget_guard_id x = pb_id g \<and> se_dedupe_key x = runtime_dedupe_key k r p) (db_entries d) = Some e
        \<and> same_spend_entry e SpendUSAGE (segment_amount rate r p) (fst p) None (Some k)
        \<and> validated_dedupe_key (runtime_dedupe_key k r p) = Inr (runtime_dedupe_key k r p)
        \<and> validate_spend_amount SpendUSAGE (segment_amount rate r p) = Inr ())"

definition ledger_grows :: "db \<Rightarrow> db \<Rightarrow> bool" where
  "ledger_grows d d' \<longleftrightarrow> (\<forall>g. get_guard_locked d ''salad'' = Some g \<longrightarrow>
       (\<exists>g'. get_guard_locked d' ''salad'' = Some g' \<and> pb_id g' = pb_id g)) \<and> (\<exists>es. db_entries d' = db_entries d @ es)"

lemma ledger_grows_refl [simp]: "ledger_grows d d"
  by (simp add: ledger_grows_def)

lemma ledger_grows_trans: "ledger_grows a b \<Longrightarrow> ledger_grows b c \<Longrightarrow> ledger_grows a c"
  unfolding ledger_grows_def by (metis append.assoc)

lemma piece_recorded_mono: "piece_recorded d k rate r p \<Longrightarrow> ledger_grows d d' \<Longrightarrow> piece_recorded d' k rate r p"
  unfolding piece_recorded_def ledger_grows_def by (fastforce simp: find_append)

lemma record_piece:
  assumes run: "record_spend_entry n t d ''salad'' (runtime_dedupe_key k r p) SpendUSAGE (segment_amount rate r p)
      (Aware (fst p)) None (Some k) (Some (Aware t)) = Inr (d', res)"
    and ok: "db_ok d" and new: "n \<notin> se_id ` set (db_entries d)"
  shows "db_ok d' \<and> ledger_grows d d' \<and> piece_recorded d' k rate r p
     \<and> (\<exists>e. db_entries d' = db_entries d @ (if sr_replayed res then [] else [e])
          \<and> (\<not> sr_replayed res \<longrightarrow> se_amount_microusd e = segment_amount rate r p))"
proof -
  obtain key eff g e where v: "validated_dedupe_key (runtime_dedupe_key k r p) = Inr key"
      "validate_spend_amount SpendUSAGE (segment_amount rate r p) = Inr ()" "budget_as_utc (Aware (fst p)) = Inr eff"
      "db_ok d'" "get_guard_locked d' ''salad'' = Some g"
      "find (\<lambda>x. se_budget_guard_id x = pb_id g \<and> se_dedupe_key x = key) (db_entries d') = Some e"
      "same_spend_entry e SpendUSAGE (segment_amount rate r p) eff None (Some k)"
      "db_entries d' = db_entries d @ (if sr_replayed res then [] else [e])"
    by (rule record_spend_leaves_entry [OF run ok new]) simp
  from v(1) have key: "key = runtime_dedupe_key k r p" by (simp add: validated_dedupe_key_def split: if_splits)
  have same_guard: "pb_id g' = pb_id g" if g': "get_guard_locked d ''salad'' = Some g'" for g'
    using run
  proof (cases rule: record_spend_cases)
    case (replay p' key' eff' t' h existing)
    from replay(1) have "p' = ''salad''" by simp
    with replay(6) g' have "h = g'" by simp
    from reevaluated_facts(6) [OF replay(9) [symmetric] ok replay(6)] obtain g2 where
        "get_guard_locked d' p' = Some g2" "pb_id g2 = pb_id h" by blast
    with v(5) \<open>p' = _\<close> \<open>h = g'\<close> show ?thesis by simp
  next
    case (fresh p' key' eff' t' h)
    let ?e = "spend_row n (pb_id h) key' SpendUSAGE (segment_amount rate r p) eff' None (Some k) t'"
    let ?d1 = "add_audit (spend_recorded_event n (segment_amount rate r p) SpendUSAGE t') (d\<lparr>db_entries := db_entries d @ [?e]\<rparr>)"
    have ok1: "db_ok ?d1" using fresh(3,7) ok new by (rule fresh_entry_ok)
    have g1: "get_guard_locked ?d1 p' = Some h" using fresh(6) by (simp add: get_guard_locked_def)
    from fresh(1) have "p' = ''salad''" by simp
    with fresh(6) g' have "h = g'" by simp
    from reevaluated_facts(6) [OF fresh(8) [symmetric] ok1 g1] obtain g2 where
        "get_guard_locked d' p' = Some g2" "pb_id g2 = pb_id h" by blast
    with v(5) \<open>p' = _\<close> \<open>h = g'\<close> show ?thesis by simp
  qed
  have "ledger_grows d d'"
    unfolding ledger_grows_def
  proof (intro conjI allI impI)
    fix h assume "get_guard_locked d ''salad'' = Some h"
    then have "pb_id g = pb_id h" by (rule same_guard [symmetric])
    with v(5) show "\<exists>g'. get_guard_locked d' ''salad'' = Some g' \<and> pb_id g' = pb_id h" by simp
  next
    show "\<exists>es. db_entries d' = db_entries d @ es" using v(8) by (rule exI)
  qed
  moreover have "piece_recorded d' k rate r p"
    unfolding piece_recorded_def
    using v key by (intro exI [of _ g] exI [of _ e]) (simp add: budget_as_utc_def)
  moreover have "\<exists>e. db_entries d' = db_entries d @ (if sr_replayed res then [] else [e])
          \<and> (\<not> sr_replayed res \<longrightarrow> se_amount_microusd e = segment_amount rate r p)"
    using v(7,8) by (intro exI [of _ e]) (simp add: same_spend_entry_def)
  ultimately show ?thesis using v(4) by blast
qed

lemma recorded_piece_replays:
  assumes "piece_recorded d k rate r p" and ok: "db_ok d"
  shows "\<exists>d' res. record_spend_entry n t d ''salad'' (runtime_dedupe_key k r p) SpendUSAGE (segment_amount rate r p)
      (Aware (fst p)) None (Some k) (Some (Aware t)) = Inr (d', res) \<and> sr_replayed res \<and> db_entries d' = db_entries d"
proof -
  from assms(1) obtain g e where f: "get_guard_locked d ''salad'' = Some g"
      "find (\<lambda>x. se_budget_guard_id x = pb_id g \<and> se_dedupe_key x = runtime_dedupe_key k r p) (db_entries d) = Some e"
      "same_spend_entry e SpendUSAGE (segment_amount rate r p) (fst p) None (Some k)"
      "validated_dedupe_key (runtime_dedupe_key k r p) = Inr (runtime_dedupe_key k r p)"
      "validate_spend_amount SpendUSAGE (segment_amount rate r p) = Inr ()"
    unfolding piece_recorded_def by blast
  obtain d2 s2 where re: "reevaluated d g t = (d2, s2)" by (cases "reevaluated d g t")
  from f re reevaluated_facts(2) [OF re ok f(1)] show ?thesis
    by (auto simp: record_spend_entry_def budget_as_utc_def evaluation_time_def)
qed

section \<open>The loop\<close>

lemma meter_segments_effect:
  assumes "meter_segments new_id k rate r t d m segs = (d', Inr m')" and "db_ok d"
    and "\<And>e. new_id e \<notin> se_id ` set (db_entries e)" and "\<forall>p \<in> set segs. 0 < segment_amount rate r p"
  shows "db_ok d' \<and> ledger_grows d d' \<and> (\<forall>p \<in> set segs. piece_recorded d' k rate r p)
     \<and> (\<exists>es. db_entries d' = db_entries d @ es \<and> m' = m + (\<Sum>e\<leftarrow>es. se_amount_microusd e))"
  using assms(1,2,4)
proof (induction segs arbitrary: d m)
  case (Cons p segs)
  let ?rec = "record_spend_entry (new_id d) t d ''salad'' (runtime_dedupe_key k r p) SpendUSAGE (segment_amount rate r p)
      (Aware (fst p)) None (Some k) (Some (Aware t))"
  from Cons.prems(1,3) obtain d1 res where r1: "?rec = Inr (d1, res)"
      and rest: "meter_segments new_id k rate r t d1 (if sr_replayed res then m else m + segment_amount rate r p) segs
        = (d', Inr m')"
    by (auto simp: Let_def split: sum.splits prod.splits)
  from record_piece [OF r1 Cons.prems(2) assms(3)] obtain e where one: "db_ok d1" "ledger_grows d d1"
      "piece_recorded d1 k rate r p" "db_entries d1 = db_entries d @ (if sr_replayed res then [] else [e])"
      "\<not> sr_replayed res \<longrightarrow> se_amount_microusd e = segment_amount rate r p" by blast
  from Cons.IH [OF rest one(1)] Cons.prems(3) obtain es where more: "db_ok d'" "ledger_grows d1 d'"
      "\<forall>p \<in> set segs. piece_recorded d' k rate r p" "db_entries d' = db_entries d1 @ es"
      "m' = (if sr_replayed res then m else m + segment_amount rate r p) + (\<Sum>e\<leftarrow>es. se_amount_microusd e)" by auto
  have "ledger_grows d d'" using one(2) more(2) by (rule ledger_grows_trans)
  moreover have "piece_recorded d' k rate r p" using one(3) more(2) by (rule piece_recorded_mono)
  moreover have "\<exists>es. db_entries d' = db_entries d @ es \<and> m' = m + (\<Sum>e\<leftarrow>es. se_amount_microusd e)"
    using one(4,5) more(4,5) by (intro exI [of _ "(if sr_replayed res then [] else [e]) @ es"]) simp
  ultimately show ?case using more(1,3) by simp
qed simp

lemma meter_again:
  assumes "\<forall>p \<in> set segs. piece_recorded d k rate r p" and "db_ok d"
    and "\<And>e. new_id e \<notin> se_id ` set (db_entries e)" and "\<forall>p \<in> set segs. 0 < segment_amount rate r p"
  shows "\<exists>d'. meter_segments new_id k rate r t d m segs = (d', Inr m) \<and> db_entries d' = db_entries d"
  using assms(1,2,4)
proof (induction segs arbitrary: d)
  case (Cons p segs)
  then have "piece_recorded d k rate r p" by simp
  from recorded_piece_replays [OF this Cons.prems(2), of "new_id d" t] obtain d1 res where
      r1: "record_spend_entry (new_id d) t d ''salad'' (runtime_dedupe_key k r p) SpendUSAGE (segment_amount rate r p)
        (Aware (fst p)) None (Some k) (Some (Aware t)) = Inr (d1, res)" "sr_replayed res" "db_entries d1 = db_entries d"
    by blast
  from record_piece [OF r1(1) Cons.prems(2) assms(3)] have "db_ok d1" "ledger_grows d d1" by blast+
  moreover have "\<forall>q \<in> set segs. piece_recorded d1 k rate r q"
    using Cons.prems(1) piece_recorded_mono [OF _ calculation(2)] by simp
  ultimately obtain d' where d': "meter_segments new_id k rate r t d1 m segs = (d', Inr m)" "db_entries d' = db_entries d1"
    using Cons.IH [of d1] Cons.prems(3) by auto
  have "\<not> segment_amount rate r p \<le> 0" using Cons.prems(3) by simp
  with r1(1,2) d'(1) have "meter_segments new_id k rate r t d m (p # segs) = (d', Inr m)" by (simp add: Let_def)
  with d'(2) r1(3) show ?case by auto
qed simp

text \<open>C22: Run time is charged completely and exactly once. When \<open>_meter_runtime_interval\<close> charges the interval from
  \<open>s\<close> to \<open>e\<close> for \<open>r\<close> replicas, its pieces follow one another without gap or overlap from \<open>s\<close> to \<open>e\<close>, none crosses midnight, and
  the ledger holds every piece at the hourly price rounded up to a micro-dollar, so together they cost at least the
  exact price and less than one micro-dollar a piece more. The amount reported is that of the rows added, and
  metering the same interval again adds no row and reports nothing.\<close>

theorem metering_charges_once:
  assumes "metered_interval x cur grp t running = Some (s, e, r)"
    and "meter_runtime_interval new_id d x cur grp t running = (d', Inr newly)"
    and "db_ok d" and "\<And>b. new_id b \<notin> se_id ` set (db_entries b)" and "0 < sd_max_hourly_cost_microusd x"
  shows "pieces s (daily_segments s e) e
     \<and> (\<forall>(a, b) \<in> set (daily_segments s e). b \<le> day_start_of a + us_per_day
          \<and> piece_recorded d' (sd_id x) (sd_max_hourly_cost_microusd x) r (a, b))
     \<and> (let cost = (\<Sum>p\<leftarrow>daily_segments s e. segment_amount (sd_max_hourly_cost_microusd x) r p);
            exact = sd_max_hourly_cost_microusd x * r * (e - s)
        in exact \<le> MICROSECONDS_PER_HOUR * cost
         \<and> MICROSECONDS_PER_HOUR * cost \<le> exact + MICROSECONDS_PER_HOUR * int (length (daily_segments s e)))
     \<and> (\<exists>es. db_entries d' = db_entries d @ es \<and> newly = (\<Sum>y\<leftarrow>es. se_amount_microusd y))
     \<and> (\<exists>d''. meter_runtime_interval new_id d' x cur grp t running = (d'', Inr 0) \<and> db_entries d'' = db_entries d')"
proof -
  let ?rate = "sd_max_hourly_cost_microusd x" and ?segs = "daily_segments s e"
  have r: "0 < r" "s < e"
    using assms(1) by (auto simp: metered_interval_def Let_def split: if_splits option.splits)
  have day: "a < b \<and> b \<le> day_start_of a + us_per_day" if "(a, b) \<in> set ?segs" for a b
    using that by (rule daily_segments_within_day)
  have pos: "\<forall>p \<in> set ?segs. 0 < segment_amount ?rate r p"
    using day segment_amount_pos [OF assms(5) r(1)] by auto
  have run: "meter_segments new_id (sd_id x) ?rate r t d 0 ?segs = (d', Inr newly)"
    using assms(1,2) by (simp add: meter_runtime_interval_def)
  note eff = meter_segments_effect [OF run assms(3,4) pos]
  have p: "pieces s ?segs e" using r(2) by (simp add: daily_segments_pieces)
  obtain d'' where "meter_segments new_id (sd_id x) ?rate r t d' 0 ?segs = (d'', Inr 0)" "db_entries d'' = db_entries d'"
    using meter_again [of ?segs d' "sd_id x" ?rate r new_id t 0] eff assms(4) pos by blast
  then have "\<exists>d''. meter_runtime_interval new_id d' x cur grp t running = (d'', Inr 0) \<and> db_entries d'' = db_entries d'"
    using assms(1) by (auto simp: meter_runtime_interval_def)
  moreover have "\<forall>(a, b) \<in> set ?segs. b \<le> day_start_of a + us_per_day \<and> piece_recorded d' (sd_id x) ?rate r (a, b)"
    using day eff by blast
  ultimately show ?thesis
    using p segment_total_bounds [OF p, of ?rate r] eff unfolding Let_def by (auto simp only:)
qed

definition sample_fresh_id :: "db \<Rightarrow> uuid" where
  "sample_fresh_id d = Suc (sum_list (map se_id (db_entries d)))"

lemma sample_fresh_id: "sample_fresh_id d \<notin> se_id ` set (db_entries d)"
  using member_le_sum_list [of _ "map se_id (db_entries d)"] by (fastforce simp: sample_fresh_id_def)

definition sample_metered_deployment :: SaladDeployment where
  "sample_metered_deployment =
     sample_worker_deployment\<lparr>sd_last_observed_at := Some (2026 * 365 * us_per_day - 3600000000)\<rparr>"

lemma metering_charges_once_witness:
  "\<exists>d. meter_runtime_interval sample_fresh_id sample_db sample_metered_deployment 1 sample_group
        (2026 * 365 * us_per_day + 1) (Some 1) = (d, Inr 300001)
     \<and> piece_recorded d 41 300000 1 (2026 * 365 * us_per_day, 2026 * 365 * us_per_day + 1)"
proof -
  let ?t = "2026 * 365 * us_per_day + 1"
  have i: "metered_interval sample_metered_deployment 1 sample_group ?t (Some 1) = Some (?t - 3600000001, ?t, 1)"
    by code_simp
  have "case meter_runtime_interval sample_fresh_id sample_db sample_metered_deployment 1 sample_group ?t (Some 1) of
      (d, Inl e) \<Rightarrow> False | (d, Inr m) \<Rightarrow> m = 300001"
    by code_simp
  then obtain d where d: "meter_runtime_interval sample_fresh_id sample_db sample_metered_deployment 1 sample_group ?t (Some 1)
      = (d, Inr 300001)"
    by (auto split: prod.splits sum.splits)
  have "0 < sd_max_hourly_cost_microusd sample_metered_deployment"
    by (simp add: sample_metered_deployment_def sample_worker_deployment_def)
  note metering_charges_once [OF i d sample_db_ok sample_fresh_id this]
  moreover have "(2026 * 365 * us_per_day, ?t) \<in> set (daily_segments (?t - 3600000001) ?t)" by code_simp
  moreover have "sd_id sample_metered_deployment = 41" "sd_max_hourly_cost_microusd sample_metered_deployment = 300000"
    by code_simp+
  ultimately show ?thesis using d by auto
qed

end
