(* ===== verification/DeploymentFacts.thy ===== *)
theory DeploymentFacts
  imports DeploymentSteps GpuMeteringTheorems
begin

text \<open>
  What the services that run inside a deployment step do to the deployment rows: the budget guard changes a row only by
  stopping it, and the constraints of the schema are kept.
\<close>

definition same_or_stopped :: "SaladDeployment \<Rightarrow> SaladDeployment \<Rightarrow> bool" where
  "same_or_stopped x y \<longleftrightarrow> y = x \<or> (sd_desired_state x \<noteq> DesiredSTOPPED \<and> (\<exists>t. y = stopped_by_budget t x))"

definition rows_stopped :: "db \<Rightarrow> db \<Rightarrow> bool" where
  "rows_stopped d d' \<longleftrightarrow> list_all2 same_or_stopped (db_deployments d) (db_deployments d')"

lemma same_or_stopped_refl [simp]: "same_or_stopped x x"
  by (simp add: same_or_stopped_def)

lemma same_or_stopped_trans: "same_or_stopped x y \<Longrightarrow> same_or_stopped y z \<Longrightarrow> same_or_stopped x z"
  by (auto simp: same_or_stopped_def stopped_by_budget_def)

lemma same_or_stopped_fields:
  assumes "same_or_stopped x y"
  shows "sd_id y = sd_id x" "sd_container_group_name y = sd_container_group_name x" "sd_queue_name y = sd_queue_name x"
    "sd_provider_queue_id y = sd_provider_queue_id x"
    "sd_provider_container_group_id y = sd_provider_container_group_id x" "sd_state y = sd_state x"
    "sd_min_replicas y = sd_min_replicas x" "sd_max_replicas y = sd_max_replicas x" "sd_purpose y = sd_purpose x"
    "sd_desired_queue_length y = sd_desired_queue_length x" "sd_is_current y = sd_is_current x"
    "deployment_ok y = deployment_ok x" "sd_billing_observed_at y = sd_billing_observed_at x"
    "sd_billing_session_started_at y = sd_billing_session_started_at x"
    "sd_billing_session_ended_at y = sd_billing_session_ended_at x"
    "sd_billing_active_started_at y = sd_billing_active_started_at x"
    "sd_desired_state x = DesiredSTOPPED \<Longrightarrow> y = x"
proof -
  consider "y = x" | t where "sd_desired_state x \<noteq> DesiredSTOPPED" "y = stopped_by_budget t x"
    using assms by (auto simp: same_or_stopped_def)
  note c = this
  show "sd_id y = sd_id x" "sd_container_group_name y = sd_container_group_name x" "sd_queue_name y = sd_queue_name x"
    "sd_provider_queue_id y = sd_provider_queue_id x"
    "sd_provider_container_group_id y = sd_provider_container_group_id x" "sd_state y = sd_state x"
    "sd_min_replicas y = sd_min_replicas x" "sd_max_replicas y = sd_max_replicas x" "sd_purpose y = sd_purpose x"
    "sd_desired_queue_length y = sd_desired_queue_length x" "sd_is_current y = sd_is_current x"
    by (rule c; simp add: stopped_by_budget_def)+
  show "sd_billing_observed_at y = sd_billing_observed_at x"
    "sd_billing_session_started_at y = sd_billing_session_started_at x"
    "sd_billing_session_ended_at y = sd_billing_session_ended_at x"
    "sd_billing_active_started_at y = sd_billing_active_started_at x"
    by (rule c; simp add: stopped_by_budget_def)+
  show "deployment_ok y = deployment_ok x" by (rule c; simp)
  show "sd_desired_state x = DesiredSTOPPED \<Longrightarrow> y = x" by (rule c; simp)
qed

lemma rows_stopped_refl [simp]: "rows_stopped d d"
  by (simp add: rows_stopped_def list_all2_same)

lemma rows_stopped_trans: "rows_stopped a b \<Longrightarrow> rows_stopped b c \<Longrightarrow> rows_stopped a c"
  unfolding rows_stopped_def by (erule (1) list_all2_trans [rotated]) (rule same_or_stopped_trans)

lemma row_get_all2:
  "list_all2 R xs ys \<Longrightarrow> (\<And>x y. R x y \<Longrightarrow> key y = key x) \<Longrightarrow> row_get key k xs = Some x \<Longrightarrow>
    \<exists>y. row_get key k ys = Some y \<and> R x y"
  by (induction rule: list_all2_induct) (auto simp: row_get_def split: if_splits)

lemma rows_stopped_get:
  "rows_stopped d d' \<Longrightarrow> get_deployment k d = Some x \<Longrightarrow> \<exists>y. get_deployment k d' = Some y \<and> same_or_stopped x y"
  unfolding rows_stopped_def by (rule row_get_all2) (auto dest: same_or_stopped_fields(1))

section \<open>The budget guard\<close>

lemma reevaluated_rows:
  assumes "reevaluated d g t = (d', s)" and ok: "db_ok d" and g: "get_guard_locked d p = Some g"
  shows "rows_stopped d d'"
proof -
  let ?reason = "limit_reason (evaluate_locked d g t) 0"
  obtain d1 g1 where st: "set_guard_state d g ?reason t = (d1, g1)" by (cases "set_guard_state d g ?reason t")
  obtain d2 g2 s2 where ap: "apply_evaluation d g (evaluate_locked d g t) = (d2, g2, s2)"
    by (cases "apply_evaluation d g (evaluate_locked d g t)")
  then have d': "d' = d2" using assms(1) by (simp add: reevaluated_def)
  note gg = get_guard_locked_get [OF ok g]
  have ok1: "db_ok d1" using st ok gg(1) by (rule set_guard_state_ok)
  have st': "set_guard_state d g (limit_reason (evaluate_locked d g t) 0)
      (bs_evaluated_at (evaluate_locked d g t)) = (d1, g1)"
    using st by simp
  have dep: "db_deployments d1 = db_deployments d" using set_guard_state_frame [OF st] by simp
  have kill: "rows_stopped d1 (engage_salad_kill_switch d1 r t)" for r
    by (auto simp: rows_stopped_def kill_switch_fields [OF ok1] list_all2_conv_all_nth same_or_stopped_def)
  show ?thesis
    using apply_evaluation_frame(9) [OF ap ok st' ok1] kill dep
    by (auto simp: d' rows_stopped_def list_all2_same split: option.splits)
qed

lemma record_spend_rows:
  assumes "record_spend_entry new_id clock d p0 key0 ty amount eff0 ak dk now = Inr (d', r)"
    and ok: "db_ok d" and new: "new_id \<notin> se_id ` set (db_entries d)"
  shows "rows_stopped d d'"
  using assms(1)
proof (cases rule: record_spend_cases)
  case (replay p key eff t g existing)
  from reevaluated_rows [OF replay(9) [symmetric] ok replay(6)] show ?thesis .
next
  case (fresh p key eff t g)
  let ?d1 = "add_audit (spend_recorded_event new_id amount ty t)
      (d\<lparr>db_entries := db_entries d @ [spend_row new_id (pb_id g) key ty amount eff ak dk t]\<rparr>)"
  have ok1: "db_ok ?d1" using fresh(3,7) ok new by (rule fresh_entry_ok)
  have g1: "get_guard_locked ?d1 p = Some g" using fresh(6) by (simp add: get_guard_locked_def)
  from reevaluated_rows [OF fresh(8) [symmetric] ok1 g1] show ?thesis by (simp add: rows_stopped_def)
qed

lemma meter_segments_rows:
  assumes "meter_segments new_id k rate r t d m segs = (d', out)" and "db_ok d"
    and "\<And>e. new_id e \<notin> se_id ` set (db_entries e)"
  shows "db_ok d' \<and> rows_stopped d d'"
  using assms(1,2)
proof (induction segs arbitrary: d m)
  case (Cons p segs)
  show ?case
  proof (cases "segment_amount rate r p \<le> 0")
    case True
    with Cons show ?thesis by (simp add: Let_def)
  next
    case False
    let ?rec = "record_spend_entry (new_id d) t d ''salad'' (runtime_dedupe_key k r p) SpendUSAGE
      (segment_amount rate r p) (Aware (fst p)) None (Some k) (Some (Aware t))"
    show ?thesis
    proof (cases ?rec)
      case (Inl e)
      with Cons.prems False show ?thesis by (simp add: Let_def)
    next
      case (Inr dr)
      obtain d1 res where dr: "dr = (d1, res)" by (cases dr)
      have ok1: "db_ok d1" "rows_stopped d d1"
        using Inr dr Cons.prems(2) assms(3) by (auto intro: record_spend_ok record_spend_rows)
      from Cons.prems(1) False Inr dr have "meter_segments new_id k rate r t d1
          (if sr_replayed res then m else m + segment_amount rate r p) segs = (d', out)"
        by (simp add: Let_def)
      from Cons.IH [OF this ok1(1)] ok1(2) show ?thesis by (blast intro: rows_stopped_trans)
    qed
  qed
qed simp

lemma meter_rows:
  assumes "meter_runtime_interval new_id d x c g t run = (d', out)" and "db_ok d"
    and "\<And>e. new_id e \<notin> se_id ` set (db_entries e)"
  shows "db_ok d' \<and> rows_stopped d d'"
  using assms(1,2) meter_segments_rows [OF _ _ assms(3)]
  by (auto simp: meter_runtime_interval_def split: option.splits)

section \<open>The row after a service has run\<close>

lemma reload_put:
  assumes "rows_stopped (put_deployment x d) d'" and "get_deployment (sd_id x) d \<noteq> None"
  shows "get_deployment (sd_id x) d' = Some (reload x d')" "same_or_stopped x (reload x d')"
proof -
  have "get_deployment (sd_id x) (put_deployment x d) = Some x"
    using assms(2) by (auto simp: row_get_put row_get_None)
  from rows_stopped_get [OF assms(1) this] obtain y where
    "get_deployment (sd_id x) d' = Some y" "same_or_stopped x y" by blast
  then show "get_deployment (sd_id x) d' = Some (reload x d')" "same_or_stopped x (reload x d')"
    by (simp_all add: reload_def)
qed

lemma reevaluate_guard_rows:
  assumes "reevaluate_budget_guard clock d p0 now = Inr (d', s)" and "db_ok d"
  shows "db_ok d'" "rows_stopped d d'"
proof -
  from assms(1) obtain p t g where "get_guard_locked d p = Some g" "reevaluated d g t = (d', s)"
    by (auto simp: reevaluate_budget_guard_def bindE_eq_Inr)
  with assms(2) show "db_ok d'" "rows_stopped d d'" by (auto intro: reevaluated_rows reevaluated_facts(1))
qed

section \<open>Columns without constraints\<close>

lemma deployment_ok_columns [simp]:
  "deployment_ok (x\<lparr>sd_lock_version := n\<rparr>) = deployment_ok x"
  "deployment_ok (x\<lparr>sd_last_error_code := c\<rparr>) = deployment_ok x"
  "deployment_ok (x\<lparr>sd_last_error_detail := c\<rparr>) = deployment_ok x"
  "deployment_ok (x\<lparr>sd_desired_state := ds\<rparr>) = deployment_ok x"
  "deployment_ok (x\<lparr>sd_reconcile_after := r\<rparr>) = deployment_ok x"
  "deployment_ok (x\<lparr>sd_unknown_since := r\<rparr>) = deployment_ok x"
  "deployment_ok (x\<lparr>sd_activated_at := r\<rparr>) = deployment_ok x"
  "deployment_ok (x\<lparr>sd_last_observed_at := r\<rparr>) = deployment_ok x"
  "deployment_ok (x\<lparr>sd_stopped_at := r\<rparr>) = deployment_ok x"
  "deployment_ok (x\<lparr>sd_provider_status := c\<rparr>) = deployment_ok x"
  "deployment_ok (x\<lparr>sd_administrative_stop_reason := c\<rparr>) = deployment_ok x"
  "deployment_ok (x\<lparr>sd_queue_name := q\<rparr>) = deployment_ok x"
  "deployment_ok (x\<lparr>sd_container_group_name := q\<rparr>) = deployment_ok x"
  "deployment_ok (x\<lparr>sd_billing_observation_stale := b\<rparr>) = deployment_ok x"
  by (simp_all add: deployment_ok_def billing_ok_def)

lemma deployment_ok_services [simp]:
  "deployment_ok (touch_deployment x) = deployment_ok x" "deployment_ok (clear_error x) = deployment_ok x"
  "deployment_ok (with_error_code c t x) = deployment_ok x"
  by (simp_all add: touch_deployment_def clear_error_def with_error_code_def)

lemma row_services [simp]:
  "sd_id (touch_deployment x) = sd_id x" "sd_id (clear_error x) = sd_id x" "sd_id (with_error_code c t x) = sd_id x"
  "sd_state (touch_deployment x) = sd_state x" "sd_state (clear_error x) = sd_state x"
  "sd_state (with_error_code c t x) = sd_state x"
  "sd_desired_state (touch_deployment x) = sd_desired_state x" "sd_desired_state (clear_error x) = sd_desired_state x"
  "sd_desired_state (with_error_code c t x) = sd_desired_state x"
  "sd_provider_queue_id (touch_deployment x) = sd_provider_queue_id x"
  "sd_provider_queue_id (clear_error x) = sd_provider_queue_id x"
  "sd_provider_queue_id (with_error_code c t x) = sd_provider_queue_id x"
  "sd_provider_container_group_id (touch_deployment x) = sd_provider_container_group_id x"
  "sd_provider_container_group_id (clear_error x) = sd_provider_container_group_id x"
  "sd_provider_container_group_id (with_error_code c t x) = sd_provider_container_group_id x"
  "sd_container_group_name (touch_deployment x) = sd_container_group_name x"
  "sd_container_group_name (clear_error x) = sd_container_group_name x"
  "sd_container_group_name (with_error_code c t x) = sd_container_group_name x"
  "sd_queue_name (touch_deployment x) = sd_queue_name x" "sd_queue_name (clear_error x) = sd_queue_name x"
  "sd_queue_name (with_error_code c t x) = sd_queue_name x"
  by (simp_all add: touch_deployment_def clear_error_def with_error_code_def)

lemma billing_services [simp]:
  "sd_billing_session_started_at (touch_deployment x) = sd_billing_session_started_at x"
  "sd_billing_session_started_at (clear_error x) = sd_billing_session_started_at x"
  "sd_billing_session_started_at (with_error_code c t x) = sd_billing_session_started_at x"
  "sd_billing_session_ended_at (touch_deployment x) = sd_billing_session_ended_at x"
  "sd_billing_session_ended_at (clear_error x) = sd_billing_session_ended_at x"
  "sd_billing_session_ended_at (with_error_code c t x) = sd_billing_session_ended_at x"
  "sd_billing_active_started_at (touch_deployment x) = sd_billing_active_started_at x"
  "sd_billing_active_started_at (clear_error x) = sd_billing_active_started_at x"
  "sd_billing_active_started_at (with_error_code c t x) = sd_billing_active_started_at x"
  "sd_billing_observed_at (touch_deployment x) = sd_billing_observed_at x"
  "sd_billing_observed_at (clear_error x) = sd_billing_observed_at x"
  "sd_billing_observed_at (with_error_code c t x) = sd_billing_observed_at x"
  by (simp_all add: touch_deployment_def clear_error_def with_error_code_def)

lemma write_audited_fields [simp]:
  "db_deployments (write_audited x a e t d) = row_put sd_id x (db_deployments d)"
  "db_ok (write_audited x a e t d) = db_ok (put_deployment x d)"
  "get_guard_locked (write_audited x a e t d) p = get_guard_locked d p"
  by (simp_all add: write_audited_def get_guard_locked_def)

text \<open>A blocked guard, a missing guard and an engaged kill switch leave the row desired to stop.\<close>

definition killed_row :: "SaladDeployment \<Rightarrow> string \<Rightarrow> instant \<Rightarrow> SaladDeployment" where
  "killed_row x c t = (let y = with_error_code c ''Provider execution is disabled by the hard budget guard.''
     (x\<lparr>sd_desired_state := DesiredSTOPPED, sd_reconcile_after := Some t\<rparr>)
   in if sd_desired_state x \<noteq> DesiredSTOPPED then touch_deployment y else y)"

lemma killed_row_fields [simp]:
  "sd_desired_state (killed_row x c t) = DesiredSTOPPED" "deployment_ok (killed_row x c t) = deployment_ok x"
  "sd_id (killed_row x c t) = sd_id x" "sd_container_group_name (killed_row x c t) = sd_container_group_name x"
  "sd_queue_name (killed_row x c t) = sd_queue_name x" "sd_provider_queue_id (killed_row x c t) = sd_provider_queue_id x"
  "sd_provider_container_group_id (killed_row x c t) = sd_provider_container_group_id x"
  "sd_state (killed_row x c t) = sd_state x" "sd_billing_observed_at (killed_row x c t) = sd_billing_observed_at x"
  "sd_billing_session_started_at (killed_row x c t) = sd_billing_session_started_at x"
  "sd_billing_active_started_at (killed_row x c t) = sd_billing_active_started_at x"
  by (simp_all add: killed_row_def Let_def)

lemma kill_switch_row:
  "engage_local_kill_switch d x c t = (d', y) \<Longrightarrow>
    y = killed_row x c t \<and> (\<exists>as. d' = (put_deployment y d)\<lparr>db_audits := as\<rparr>)"
  by (auto simp: engage_local_kill_switch_def killed_row_def Let_def write_audited_def split: if_splits
      intro: exI [of _ "db_audits d"])

text \<open>What budget operations keep of a row.\<close>

definition kept :: "SaladDeployment \<Rightarrow> SaladDeployment \<Rightarrow> bool" where
  "kept x y \<longleftrightarrow> sd_id y = sd_id x \<and> sd_container_group_name y = sd_container_group_name x
     \<and> sd_queue_name y = sd_queue_name x \<and> sd_provider_queue_id y = sd_provider_queue_id x
     \<and> sd_provider_container_group_id y = sd_provider_container_group_id x \<and> sd_state y = sd_state x
     \<and> sd_min_replicas y = sd_min_replicas x \<and> sd_max_replicas y = sd_max_replicas x
     \<and> deployment_ok y = deployment_ok x \<and> sd_billing_observed_at y = sd_billing_observed_at x
     \<and> sd_billing_session_started_at y = sd_billing_session_started_at x
     \<and> sd_billing_active_started_at y = sd_billing_active_started_at x
     \<and> sd_version_no y = sd_version_no x \<and> sd_config_sha256 y = sd_config_sha256 x
     \<and> sd_worker_image_digest y = sd_worker_image_digest x \<and> sd_desired_queue_length y = sd_desired_queue_length x
     \<and> sd_max_hourly_cost_microusd y = sd_max_hourly_cost_microusd x \<and> sd_purpose y = sd_purpose x
     \<and> (sd_desired_state x = DesiredSTOPPED \<longrightarrow> sd_desired_state y = DesiredSTOPPED)"

lemma kept_refl [simp]: "kept x x"
  by (simp add: kept_def)

lemma kept_trans: "kept x y \<Longrightarrow> kept y z \<Longrightarrow> kept x z"
  by (simp add: kept_def)

lemma same_or_stopped_kept: "same_or_stopped x y \<Longrightarrow> kept x y"
  unfolding same_or_stopped_def by (elim disjE conjE exE; simp add: kept_def; simp add: stopped_by_budget_def)

lemma kept_killed [simp]: "kept x (killed_row x c t)"
  by (simp add: kept_def) (simp add: killed_row_def Let_def touch_deployment_def with_error_code_def)

definition current_row :: "db \<Rightarrow> SaladDeployment \<Rightarrow> bool" where
  "current_row d x \<longleftrightarrow> get_deployment (sd_id x) d = Some x"

lemma current_row_ok: "current_row d x \<Longrightarrow> db_ok d \<Longrightarrow> deployment_ok x"
  unfolding current_row_def by (blast intro: row_get_mem db_okD(17))

lemma current_row_put: "current_row d x \<Longrightarrow> db_ok d \<Longrightarrow> put_deployment x d = d"
  unfolding current_row_def using db_okD(15) [of d] by (simp add: row_put_self)

lemma current_row_written: "current_row d x \<Longrightarrow> sd_id y = sd_id x \<Longrightarrow> current_row (put_deployment y d) y"
  unfolding current_row_def by (auto simp: row_get_put dest: row_get_mem)

lemma current_row_audits [simp]: "current_row (d\<lparr>db_audits := as\<rparr>) x = current_row d x"
  by (simp add: current_row_def)

lemma current_row_kept: "current_row d x \<Longrightarrow> rows_stopped d d' \<Longrightarrow> current_row d' (reload x d') \<and> kept x (reload x d')"
proof -
  assume "current_row d x" "rows_stopped d d'"
  then obtain y where "get_deployment (sd_id x) d' = Some y" "same_or_stopped x y"
    unfolding current_row_def using rows_stopped_get by blast
  then show ?thesis
    using same_or_stopped_fields(1) [of x y] by (auto simp: current_row_def reload_def intro: same_or_stopped_kept)
qed

text \<open>
  The outcome of the budget check: the row is current again; it is desired to stop unless work is allowed, and then the
  guard stands within its limits and the row is unchanged.
\<close>

lemma budget_allows_outcome:
  assumes "budget_allows_provider_work d x t guard = (d', y, allowed)" and ok: "db_ok d" and x: "current_row d x"
  shows "db_ok d' \<and> current_row d' y \<and> kept x y \<and> (\<not> allowed \<longrightarrow> sd_desired_state y = DesiredSTOPPED)
    \<and> (allowed \<longrightarrow> y = x \<and> guard \<and> (\<exists>g. get_guard_locked d ''salad'' = Some g
          \<and> limit_reason (evaluate_locked d g t) 0 = None))"
proof -
  have put: "put_deployment x d = d" by (rule current_row_put [OF x ok])
  have kill: "db_ok e' \<and> current_row e' z' \<and> kept z z' \<and> sd_desired_state z' = DesiredSTOPPED"
    if "engage_local_kill_switch e z c t = (e', z')" "db_ok e" "current_row e z" for e z c e' z'
  proof -
    from kill_switch_row [OF that(1)] obtain as where
      k: "z' = killed_row z c t" "e' = (put_deployment z' e)\<lparr>db_audits := as\<rparr>" by blast
    have "deployment_ok z'" using current_row_ok [OF that(3,2)] by (simp add: k)
    then have "db_ok e'" using that(2) by (simp add: k(2) db_ok_put_deployment)
    moreover have "current_row e' z'"
      using current_row_written [OF that(3), of z'] by (simp add: k)
    ultimately show ?thesis by (simp add: k(1))
  qed
  show ?thesis
  proof (cases "guard \<and> (\<exists>e s. reevaluate_budget_guard t d ''salad'' (Some (Aware t)) = Inr (e, s))")
    case False
    then have "engage_local_kill_switch d x ''budget_guard_unavailable'' t = (d', y) \<and> \<not> allowed"
      using assms(1) put
      by (cases "reevaluate_budget_guard t d ''salad'' (Some (Aware t))")
        (auto simp: budget_allows_provider_work_def split: if_splits prod.splits)
    with kill [of d x _ d' y] ok x show ?thesis by blast
  next
    case True
    then obtain e s where re: "reevaluate_budget_guard t d ''salad'' (Some (Aware t)) = Inr (e, s)" and guard by blast
    note rr = reevaluate_guard_rows [OF re ok]
    note cur = current_row_kept [OF x rr(2)]
    show ?thesis
    proof (cases "bs_state s = BudgetBLOCKED")
      case True
      then have "engage_local_kill_switch e (reload x e) ''budget_limit_exceeded'' t = (d', y) \<and> \<not> allowed"
        using assms(1) re put \<open>guard\<close> by (auto simp: budget_allows_provider_work_def Let_def split: prod.splits)
      with kill [of e "reload x e" _ d' y] rr(1) cur show ?thesis by (blast intro: kept_trans)
    next
      case False
      then have out: "d' = e" "y = reload x e" allowed
        using assms(1) re put \<open>guard\<close> by (auto simp: budget_allows_provider_work_def Let_def split: prod.splits)
      obtain g where g: "get_guard_locked d ''salad'' = Some g" "reevaluated d g t = (e, s)"
        using re by (auto simp: reevaluate_budget_guard_def bindE_eq_Inr evaluation_time_def budget_as_utc_def)
      note f = reevaluated_facts [OF g(2) ok g(1)]
      have within: "limit_reason (evaluate_locked d g t) 0 = None"
        using f(6) False by (auto split: if_splits)
      with f(8) have "db_deployments e = db_deployments d" by simp
      then have "reload x e = x" using x by (simp add: reload_def current_row_def)
      with out rr(1) cur g(1) within \<open>guard\<close> show ?thesis by auto
    qed
  qed
qed

end
