(* ===== verification/DeploymentCalls.thy ===== *)
theory DeploymentCalls
  imports DeploymentFacts
begin

text \<open>
  What a step of a deployment assumes of its environment, what each part of a step keeps of the row and of the schema,
  and which calls it makes to the provider. Every part appends to the calls made before it.
\<close>

section \<open>The environment\<close>

text \<open>The counts of a group are not negative; the clock does not go back during a step; new identifiers are new.\<close>

definition group_counts_ok :: "SaladContainerGroup \<Rightarrow> bool" where
  "group_counts_ok g \<longleftrightarrow> (let s = cg_current_state g in 0 \<le> cg_replicas g \<and> 0 \<le> gs_allocating_count s
     \<and> 0 \<le> gs_creating_count s \<and> 0 \<le> gs_running_count s \<and> 0 \<le> gs_stopping_count s)"

definition env_ok :: "step_env \<Rightarrow> bool" where
  "env_ok env \<longleftrightarrow>
     (\<forall>h n. case sc_get_container_group (env_client env) h n of Inl _ \<Rightarrow> True | Inr g \<Rightarrow> group_counts_ok g)
   \<and> (\<forall>h k. env_billing_observation_clock env h \<le> env_billing_observation_clock env (h @ k))
   \<and> (\<forall>e. env_new_id env e \<notin> se_id ` set (db_entries e))"

lemma env_okD:
  assumes "env_ok env"
  shows "sc_get_container_group (env_client env) h n = Inr g \<Longrightarrow> group_counts_ok g"
    "env_billing_observation_clock env h \<le> env_billing_observation_clock env (h @ k)"
    "env_new_id env e \<notin> se_id ` set (db_entries e)"
proof -
  show "sc_get_container_group (env_client env) h n = Inr g \<Longrightarrow> group_counts_ok g"
  proof -
    assume g: "sc_get_container_group (env_client env) h n = Inr g"
    have "case sc_get_container_group (env_client env) h n of Inl _ \<Rightarrow> True | Inr g \<Rightarrow> group_counts_ok g"
      using assms unfolding env_ok_def by blast
    with g show "group_counts_ok g" by simp
  qed
qed (use assms in \<open>auto simp: env_ok_def\<close>)

lemma counts_replicas: "group_counts_ok g \<Longrightarrow>
    0 \<le> gs_running_count (cg_current_state g) \<and> gs_running_count (cg_current_state g) \<le> observed_replicas g"
  by (auto simp: group_counts_ok_def observed_replicas_def is_authoritatively_stopped_def Let_def)

section \<open>The row inside a step\<close>

text \<open>The row is one of the database, within its constraints, and its timer has seen nothing later than the clock.\<close>

definition step_inv :: "step_env \<Rightarrow> db \<Rightarrow> provider_call list \<Rightarrow> instant \<Rightarrow> SaladDeployment \<Rightarrow> bool" where
  "step_inv env d h t x \<longleftrightarrow> db_ok d \<and> get_deployment (sd_id x) d \<noteq> None \<and> deployment_ok x \<and> clock_inv x
     \<and> not_before (max t (env_billing_observation_clock env h)) x"

lemma timer_columns [simp]:
  "clock_inv (x\<lparr>sd_lock_version := n\<rparr>) = clock_inv x" "clock_inv (x\<lparr>sd_last_error_code := c\<rparr>) = clock_inv x"
  "clock_inv (x\<lparr>sd_last_error_detail := c\<rparr>) = clock_inv x" "clock_inv (x\<lparr>sd_desired_state := ds\<rparr>) = clock_inv x"
  "clock_inv (x\<lparr>sd_reconcile_after := r\<rparr>) = clock_inv x" "clock_inv (x\<lparr>sd_unknown_since := r\<rparr>) = clock_inv x"
  "clock_inv (x\<lparr>sd_provider_status := c\<rparr>) = clock_inv x" "clock_inv (x\<lparr>sd_last_observed_at := r\<rparr>) = clock_inv x"
  "clock_inv (x\<lparr>sd_observed_replicas := i\<rparr>) = clock_inv x" "clock_inv (x\<lparr>sd_ready_replicas := i\<rparr>) = clock_inv x"
  "clock_inv (x\<lparr>sd_state := s\<rparr>) = clock_inv x" "clock_inv (x\<lparr>sd_provider_queue_id := q\<rparr>) = clock_inv x"
  "clock_inv (x\<lparr>sd_provider_container_group_id := q\<rparr>) = clock_inv x"
  "clock_inv (x\<lparr>sd_queue_name := nm\<rparr>) = clock_inv x" "clock_inv (x\<lparr>sd_container_group_name := nm\<rparr>) = clock_inv x"
  "clock_inv (x\<lparr>sd_administrative_stop_reason := c\<rparr>) = clock_inv x"
  "clock_inv (touch_deployment x) = clock_inv x" "clock_inv (clear_error x) = clock_inv x"
  "clock_inv (with_error_code e f x) = clock_inv x"
  by (simp_all add: clock_inv_def billing_ok_def touch_deployment_def clear_error_def with_error_code_def
      cong: option.case_cong)

lemma not_before_cong: "sd_billing_observed_at y = sd_billing_observed_at x \<Longrightarrow> not_before t y = not_before t x"
  by (simp add: not_before_def)

lemma clock_inv_cong:
  assumes "billing_ok y = billing_ok x" "sd_billing_observed_at y = sd_billing_observed_at x"
    "sd_billing_session_started_at y = sd_billing_session_started_at x"
    "sd_billing_active_started_at y = sd_billing_active_started_at x"
  shows "clock_inv y = clock_inv x"
  using assms by (simp add: clock_inv_def cong: option.case_cong)

lemma resources_columns [simp]:
  "has_provider_resources (x\<lparr>sd_state := s\<rparr>) = has_provider_resources x"
  "has_provider_resources (x\<lparr>sd_observed_replicas := i\<rparr>) = has_provider_resources x"
  "has_provider_resources (x\<lparr>sd_ready_replicas := i\<rparr>) = has_provider_resources x"
  "has_provider_resources (x\<lparr>sd_last_observed_at := r\<rparr>) = has_provider_resources x"
  "has_provider_resources (x\<lparr>sd_billing_observed_at := r\<rparr>) = has_provider_resources x"
  "has_provider_resources (x\<lparr>sd_billing_observation_stale := b\<rparr>) = has_provider_resources x"
  by (simp_all add: has_provider_resources_def)

text \<open>The constraints in three parts.\<close>

definition counts_ok :: "SaladDeployment \<Rightarrow> bool" where
  "counts_ok x \<longleftrightarrow> 0 \<le> sd_min_replicas x \<and> sd_min_replicas x \<le> sd_max_replicas x \<and> 0 < sd_version_no x
     \<and> 0 < sd_desired_queue_length x
     \<and> (case sd_runtime_artifact_manifest_sha256 x of None \<Rightarrow> True | Some v \<Rightarrow> lower_hex_check v)
     \<and> sd_max_replicas x \<le> 1
     \<and> (case sd_observed_replicas x of None \<Rightarrow> True | Some n \<Rightarrow> 0 \<le> n)
     \<and> (case sd_ready_replicas x of None \<Rightarrow> True | Some n \<Rightarrow> 0 \<le> n)
     \<and> (case (sd_ready_replicas x, sd_observed_replicas x) of (Some r, Some n) \<Rightarrow> r \<le> n | _ \<Rightarrow> True)
     \<and> 0 < sd_max_hourly_cost_microusd x"

definition resource_states :: "SaladDeploymentState set" where
  "resource_states = {DeploymentACTIVE, DeploymentDEGRADED, DeploymentDRAINING, DeploymentSTOPPED}"

lemma resource_state [simp]:
  "DeploymentACTIVE \<in> resource_states" "DeploymentDEGRADED \<in> resource_states" "DeploymentDRAINING \<in> resource_states"
  "DeploymentSTOPPED \<in> resource_states" "DeploymentUNKNOWN \<notin> resource_states" "DeploymentFAILED \<notin> resource_states"
  "DeploymentPROVISIONING \<notin> resource_states" "DeploymentPLANNED \<notin> resource_states"
  by (simp_all add: resource_states_def)

lemma deployment_ok_parts:
  "deployment_ok x \<longleftrightarrow> counts_ok x \<and> billing_ok x \<and> (sd_state x \<in> resource_states \<longrightarrow> has_provider_resources x)"
  unfolding deployment_ok_def counts_ok_def has_provider_resources_def resource_states_def by blast

lemma parts_columns [simp]:
  "counts_ok (x\<lparr>sd_state := s\<rparr>) = counts_ok x" "billing_ok (x\<lparr>sd_state := s\<rparr>) = billing_ok x"
  "counts_ok (x\<lparr>sd_provider_queue_id := q\<rparr>) = counts_ok x" "billing_ok (x\<lparr>sd_provider_queue_id := q\<rparr>) = billing_ok x"
  "counts_ok (x\<lparr>sd_provider_container_group_id := q\<rparr>) = counts_ok x"
  "billing_ok (x\<lparr>sd_provider_container_group_id := q\<rparr>) = billing_ok x"
  "billing_ok (x\<lparr>sd_observed_replicas := i\<rparr>) = billing_ok x" "billing_ok (x\<lparr>sd_ready_replicas := i\<rparr>) = billing_ok x"
  by (simp_all add: counts_ok_def billing_ok_def)

lemma deployment_ok_state:
  "deployment_ok x \<Longrightarrow> s \<in> resource_states \<longrightarrow> has_provider_resources x \<Longrightarrow> deployment_ok (x\<lparr>sd_state := s\<rparr>)"
  by (simp add: deployment_ok_parts)

lemma deployment_ok_ids:
  "deployment_ok x \<Longrightarrow> deployment_ok (x\<lparr>sd_provider_queue_id := Some q\<rparr>)"
  "deployment_ok x \<Longrightarrow> deployment_ok (x\<lparr>sd_provider_container_group_id := Some q\<rparr>)"
  by (auto simp: deployment_ok_parts has_provider_resources_def)

lemma deployment_ok_counts:
  assumes "deployment_ok x" "0 \<le> b" "b \<le> a"
  shows "deployment_ok (x\<lparr>sd_observed_replicas := Some a, sd_ready_replicas := Some b\<rparr>)"
proof -
  have "counts_ok (x\<lparr>sd_observed_replicas := Some a, sd_ready_replicas := Some b\<rparr>)"
    using assms by (simp add: deployment_ok_parts) (simp add: counts_ok_def)
  then show ?thesis using assms(1) by (simp add: deployment_ok_parts)
qed

lemma deployment_okD:
  "deployment_ok x \<Longrightarrow> billing_ok x" "deployment_ok x \<Longrightarrow> sd_state x \<in> resource_states \<Longrightarrow> has_provider_resources x"
  by (simp_all add: deployment_ok_parts)

text \<open>What a part of a step keeps of the row.\<close>

definition same_resource :: "SaladDeployment \<Rightarrow> SaladDeployment \<Rightarrow> bool" where
  "same_resource x y \<longleftrightarrow> sd_id y = sd_id x \<and> sd_container_group_name y = sd_container_group_name x
     \<and> sd_queue_name y = sd_queue_name x \<and> sd_provider_queue_id y = sd_provider_queue_id x
     \<and> sd_provider_container_group_id y = sd_provider_container_group_id x \<and> sd_state y = sd_state x
     \<and> sd_version_no y = sd_version_no x \<and> sd_config_sha256 y = sd_config_sha256 x
     \<and> sd_worker_image_digest y = sd_worker_image_digest x \<and> sd_desired_queue_length y = sd_desired_queue_length x
     \<and> sd_max_hourly_cost_microusd y = sd_max_hourly_cost_microusd x \<and> sd_purpose y = sd_purpose x
     \<and> sd_min_replicas y = sd_min_replicas x \<and> sd_max_replicas y = sd_max_replicas x
     \<and> (sd_desired_state x = DesiredSTOPPED \<longrightarrow> sd_desired_state y = DesiredSTOPPED)"

lemma same_resource_refl [simp]: "same_resource x x"
  by (simp add: same_resource_def)

lemma same_resource_trans: "same_resource x y \<Longrightarrow> same_resource y z \<Longrightarrow> same_resource x z"
  by (simp add: same_resource_def)

lemma kept_same_resource: "kept x y \<Longrightarrow> same_resource x y"
  by (simp add: kept_def same_resource_def)

lemma same_resource_resources: "same_resource x y \<Longrightarrow> has_provider_resources y = has_provider_resources x"
  by (simp add: same_resource_def has_provider_resources_def)

section \<open>Closing operations keep the constraints\<close>

lemma put_ok: "db_ok d \<Longrightarrow> deployment_ok x \<Longrightarrow> db_ok (put_deployment x d)"
  by (rule db_ok_put_deployment)

lemma failed_state_ok: "deployment_ok x \<Longrightarrow>
    deployment_ok (x\<lparr>sd_state := (if has_provider_resources x then DeploymentDEGRADED else DeploymentFAILED)\<rparr>)"
  "deployment_ok x \<Longrightarrow>
    deployment_ok (x\<lparr>sd_state := (if has_provider_resources x then DeploymentDEGRADED else DeploymentPROVISIONING)\<rparr>)"
  by (rule deployment_ok_state; simp split: if_splits)+

lemma closing_ok:
  assumes "db_ok d" "deployment_ok x"
  shows "db_ok (fst (mark_unknown d h x c t))" "db_ok (fst (mark_failed d h x c t r n))"
    "db_ok (fst (handle_read_error d h x e p t))" "db_ok (fst (handle_mutation_error d h x e p t))"
    "db_ok (fst (defer_rollout_overlap d h x t))" "db_ok (fst (adopt_queue d h x q t))"
    "has_provider_resources x \<Longrightarrow> db_ok (fst (defer_unconfirmed_stop d h x t m))"
proof -
  have unknown: "db_ok (fst (mark_unknown d h x c t))" for c
    using assms by (simp add: mark_unknown_def Let_def put_ok deployment_ok_state)
  have failed: "db_ok (fst (mark_failed d h x c t r n))" for c r n
    using assms failed_state_ok by (simp add: mark_failed_def Let_def put_ok)
  show "db_ok (fst (mark_unknown d h x c t))" "db_ok (fst (mark_failed d h x c t r n))"
    "db_ok (fst (handle_read_error d h x e p t))" by (simp_all add: unknown failed handle_read_error_def)
  show "db_ok (fst (handle_mutation_error d h x e p t))"
    using assms
    by (simp add: handle_mutation_error_def Let_def unknown failed put_ok deployment_ok_state split: salad_error.split)
  show "db_ok (fst (defer_rollout_overlap d h x t))"
    using assms by (simp add: defer_rollout_overlap_def Let_def put_ok)
  show "db_ok (fst (adopt_queue d h x q t))"
    using assms
    by (simp add: adopt_queue_def Let_def failed adopted_queue_def put_ok deployment_ok_state deployment_ok_ids)
  show "has_provider_resources x \<Longrightarrow> db_ok (fst (defer_unconfirmed_stop d h x t m))"
    using assms by (simp add: defer_unconfirmed_stop_def Let_def put_ok deployment_ok_state)
qed

section \<open>The timer\<close>

definition without_billing :: "SaladDeployment \<Rightarrow> SaladDeployment" where
  "without_billing x = x\<lparr>sd_billing_session_started_at := None, sd_billing_session_ended_at := None,
     sd_billing_accumulated_microseconds := 0, sd_billing_active_instance_id := None, sd_billing_active_started_at := None,
     sd_billing_observed_at := None, sd_billing_observation_stale := False, sd_billing_estimated := False\<rparr>"

definition billing_change :: "SaladDeployment \<Rightarrow> SaladDeployment \<Rightarrow> bool" where
  "billing_change x y \<longleftrightarrow> without_billing y = without_billing x"

lemma billing_change_refl [simp]: "billing_change x x"
  by (simp add: billing_change_def)

lemma billing_change_step:
  "billing_change x (y\<lparr>sd_billing_session_started_at := s\<rparr>) = billing_change x y"
  "billing_change x (y\<lparr>sd_billing_session_ended_at := s\<rparr>) = billing_change x y"
  "billing_change x (y\<lparr>sd_billing_accumulated_microseconds := n\<rparr>) = billing_change x y"
  "billing_change x (y\<lparr>sd_billing_active_instance_id := i\<rparr>) = billing_change x y"
  "billing_change x (y\<lparr>sd_billing_active_started_at := s\<rparr>) = billing_change x y"
  "billing_change x (y\<lparr>sd_billing_observed_at := s\<rparr>) = billing_change x y"
  "billing_change x (y\<lparr>sd_billing_observation_stale := b\<rparr>) = billing_change x y"
  "billing_change x (y\<lparr>sd_billing_estimated := b\<rparr>) = billing_change x y"
  by (simp_all add: billing_change_def without_billing_def)

lemma billing_change_close: "billing_change x y \<Longrightarrow> billing_change x (close_active_billing_segment y is t f)"
  by (simp add: close_active_billing_segment_def Let_def billing_change_step split: option.split)

lemma billing_change_end: "billing_change x y \<Longrightarrow> billing_change x (end_billing_session y t)"
  by (simp add: end_billing_session_def Let_def billing_change_step billing_change_close split: option.split)

lemma billing_change_open: "billing_change x y \<Longrightarrow> billing_change x (fst (open_billing_session u e y))"
  by (simp add: open_billing_session_def billing_change_step split: option.split)

lemma billing_change_track: "billing_change x y \<Longrightarrow> billing_change x (track_running is i others t y)"
  by (simp add: track_running_def Let_def case_prod_beta billing_change_step billing_change_close billing_change_open)

lemma billing_change_flag: "billing_change x y \<Longrightarrow> billing_change x (flag_untracked_stopping is y)"
  by (simp add: flag_untracked_stopping_def billing_change_step)

lemma billing_change_restart: "billing_change x y \<Longrightarrow> billing_change x (restart_preparation is y)"
  by (simp add: restart_preparation_def billing_change_step)

lemma refresh_billing_change: "billing_change x (fst (refresh_billing_observation a c x g t e))"
proof (cases a)
  case (Inl b)
  then show ?thesis by (simp add: refresh_billing_observation_def billing_change_step)
next
  case (Inr insts)
  have "billing_change x (apply_billing_observation x insts run u e)" for run u
    by (cases run) (simp_all add: apply_billing_observation_def Let_def billing_change_track billing_change_flag
        billing_change_restart billing_change_step billing_change_close billing_change_end)
  with Inr show ?thesis by (simp add: refresh_billing_observation_def Let_def)
qed

lemma billing_change_same:
  assumes "billing_change x y"
  shows "same_resource x y" "sd_desired_state y = sd_desired_state x"
proof -
  have "f (without_billing y) = f (without_billing x)" for f :: "SaladDeployment \<Rightarrow> 'b"
    using assms by (simp add: billing_change_def)
  from this [of sd_version_no] this [of sd_config_sha256] this [of sd_worker_image_digest] this [of sd_desired_queue_length]
    this [of sd_max_hourly_cost_microusd] this [of sd_purpose] this [of sd_min_replicas] this [of sd_max_replicas]
    this [of sd_id] this [of sd_container_group_name] this [of sd_queue_name] this [of sd_provider_queue_id]
    this [of sd_provider_container_group_id] this [of sd_state] this [of sd_desired_state]
  show "same_resource x y" "sd_desired_state y = sd_desired_state x"
    by (simp_all add: same_resource_def without_billing_def)
qed

lemma deployment_ok_without_billing: "deployment_ok x \<longleftrightarrow> deployment_ok (without_billing x) \<and> billing_ok x"
proof -
  have "billing_ok (without_billing x)" by (simp add: billing_ok_def without_billing_def)
  then show ?thesis by (auto simp: deployment_ok_parts counts_ok_def has_provider_resources_def without_billing_def)
qed

lemma billing_change_ok: "billing_change x y \<Longrightarrow> deployment_ok x \<Longrightarrow> clock_inv y \<Longrightarrow> deployment_ok y"
  using deployment_ok_without_billing [of x] deployment_ok_without_billing [of y]
  by (simp add: billing_change_def clock_inv_def)

lemma same_or_stopped_clock: "same_or_stopped x y \<Longrightarrow> clock_inv y = clock_inv x"
  unfolding same_or_stopped_def stopped_by_budget_def by (elim disjE conjE exE) simp_all

text \<open>The row after the instances were listed and the interval was charged.\<close>

lemma metered_row:
  assumes env: "env_ok env" and x: "step_inv env d h t x" and h1: "h1 = h @ [c]"
    and r: "refresh_billing_observation a (env_billing_observation_clock env h1) x g t e = (x1, obs)"
    and m: "meter_runtime_interval (env_new_id env) (put_deployment x1 d) x1 n g' t run = (d1, out)"
  shows "step_inv env d1 h1 t (reload x1 d1)" "same_resource x (reload x1 d1)" "current_row d1 (reload x1 d1)"
    "sd_desired_state x = DesiredSTOPPED \<Longrightarrow> sd_desired_state (reload x1 d1) = DesiredSTOPPED"
    "rows_stopped (put_deployment x1 d) d1"
proof -
  let ?p = "\<lparr>bp_answer = a, bp_clock = env_billing_observation_clock env h1, bp_group = g, bp_observed_at = t,
    bp_end_session = e\<rparr>"
  let ?now = "max t (env_billing_observation_clock env h1)"
  have x1: "x1 = poll_row ?p x" using r by (simp add: poll_row_def)
  have change: "billing_change x x1"
    using refresh_billing_change [of x a "env_billing_observation_clock env h1" g t e] r by simp
  have le: "max t (env_billing_observation_clock env h) \<le> ?now"
    using env_okD(2) [OF env, of h "[c]"] h1 by simp
  have nb: "not_before ?now x"
    using x le by (auto simp: step_inv_def not_before_def split: option.splits)
  then have clock: "clock_inv x1" "not_before ?now x1"
    using x poll_inv [of x ?p] poll_not_before [of ?now x ?p] by (simp_all add: x1 step_inv_def received_at_def)
  have ok1: "deployment_ok x1" using change x clock(1) by (auto simp: step_inv_def intro: billing_change_ok)
  have same: "same_resource x x1" "sd_desired_state x1 = sd_desired_state x"
    using billing_change_same [OF change] by simp_all
  then have sid: "sd_id x1 = sd_id x" by (simp add: same_resource_def)
  have ok: "db_ok (put_deployment x1 d)" using x ok1 by (simp add: step_inv_def put_ok)
  have mr: "db_ok d1" "rows_stopped (put_deployment x1 d) d1"
    using meter_rows [OF m ok env_okD(3) [OF env]] by simp_all
  show "rows_stopped (put_deployment x1 d) d1" by (fact mr(2))
  have "get_deployment (sd_id x1) d \<noteq> None" using x sid by (simp add: step_inv_def)
  note rl = reload_put [OF mr(2) this]
  note f = same_or_stopped_fields [OF rl(2)]
  have "clock_inv (reload x1 d1) = clock_inv x1" by (rule same_or_stopped_clock [OF rl(2)])
  with clock f rl(1) mr(1) ok1 show "step_inv env d1 h1 t (reload x1 d1)"
    by (simp add: step_inv_def not_before_cong [OF f(13)])
  show "same_resource x (reload x1 d1)"
    using same(1) kept_same_resource [OF same_or_stopped_kept [OF rl(2)]] by (rule same_resource_trans)
  show "current_row d1 (reload x1 d1)" using rl(1) f(1) by (simp add: current_row_def)
  show "sd_desired_state x = DesiredSTOPPED \<Longrightarrow> sd_desired_state (reload x1 d1) = DesiredSTOPPED"
    using same(2) f(17) by auto
qed

text \<open>Any other column that is written keeps the invariant.\<close>

lemma step_inv_put:
  assumes "step_inv env d h t x" and "sd_id y = sd_id x" and "deployment_ok y" and "clock_inv y"
    and "sd_billing_observed_at y = sd_billing_observed_at x"
  shows "step_inv env d h t y" "step_inv env (put_deployment y d) h t y"
    "step_inv env (write_audited y a dt u d) h t y" 
  using assms by (auto simp: step_inv_def put_ok not_before_def row_get_put split: option.splits)

lemma step_inv_later: "env_ok env \<Longrightarrow> step_inv env d h t x \<Longrightarrow> step_inv env d (h @ k) t x"
  using env_okD(2) [of env h k] by (auto simp: step_inv_def not_before_def split: option.splits)

lemma observe_inv:
  assumes env: "env_ok env" and x: "step_inv env d h t x" and g: "group_counts_ok g"
    and o: "observe_stopping_group env d h x g t = (d1, h1, y, m, run)"
  shows "step_inv env d1 h1 t y" "h1 = h @ [CallListInstances (sd_container_group_name x)]" "same_resource x y"
    "run = (case sc_list_container_group_instances (env_client env) h (sd_container_group_name x) of Inl _ \<Rightarrow> None
      | Inr insts \<Rightarrow> Some (int (length (filter (\<lambda>i. gi_state i = InstanceRUNNING) insts))))"
proof -
  let ?h1 = "h @ [CallListInstances (sd_container_group_name x)]"
  let ?a = "sc_list_container_group_instances (env_client env) h (sd_container_group_name x)"
  obtain x1 obs where r: "refresh_billing_observation ?a (env_billing_observation_clock env ?h1) x g t False = (x1, obs)"
    by (cases "refresh_billing_observation ?a (env_billing_observation_clock env ?h1) x g t False")
  obtain d2 out where mt: "meter_runtime_interval (env_new_id env) (put_deployment x1 d) x1 (observed_replicas g) g t
      (map_option fst obs) = (d2, out)"
    by (cases "meter_runtime_interval (env_new_id env) (put_deployment x1 d) x1 (observed_replicas g) g t
      (map_option fst obs)")
  note mr = metered_row [OF env x refl r mt]
  note ok = mr(1) [unfolded step_inv_def]
  have run: "run = map_option fst obs" and h: "h1 = ?h1"
    using o r mt by (auto simp: observe_stopping_group_def Let_def split: sum.splits)
  from h show "h1 = ?h1" .
  show "run = (case ?a of Inl _ \<Rightarrow> None | Inr insts \<Rightarrow> Some (int (length (filter (\<lambda>i. gi_state i = InstanceRUNNING) insts))))"
    using r unfolding run by (auto simp: refresh_billing_observation_def Let_def split: sum.splits)
  note cnt = counts_replicas [OF g]
  let ?seen = "\<lambda>z. z\<lparr>sd_observed_replicas := Some (observed_replicas g),
      sd_ready_replicas := Some (gs_running_count (cg_current_state g)), sd_last_observed_at := Some t\<rparr>"
  have seen: "step_inv env e h1 t (?seen z) \<and> same_resource z (?seen z)" if "step_inv env e h1 t z" for e z
    using step_inv_put(1) [OF that, of "?seen z"] that cnt
    by (auto simp: step_inv_def deployment_ok_counts same_resource_def)
  show "step_inv env d1 h1 t y" "same_resource x y"
  proof (atomize (full), cases out)
    case (Inr v)
    then have "d1 = d2" "y = ?seen (reload x1 d2)"
      using o r mt by (auto simp: observe_stopping_group_def Let_def)
    with seen [of d2 "reload x1 d2"] mr h show "step_inv env d1 h1 t y \<and> same_resource x y"
      by (auto intro: same_resource_trans)
  next
    case (Inl er)
    define z where "z = touch_deployment (with_error_code ''final_runtime_metering_failed''
      ''Final runtime metering failed; the provider stop remains mandatory.'' (reload x1 d2))"
    have "d1 = write_audited z ''salad_deployment.final_runtime_metering_failed''
        [(''error_code'', PStr ''final_runtime_metering_failed'')] t d2" "y = ?seen z"
      using Inl o r mt by (simp_all add: observe_stopping_group_def Let_def z_def)
    moreover have "step_inv env (write_audited z ''salad_deployment.final_runtime_metering_failed''
        [(''error_code'', PStr ''final_runtime_metering_failed'')] t d2) h1 t z"
      using mr(1) h ok by (intro step_inv_put(3) [of _ _ _ _ "reload x1 d2"]) (auto simp: z_def billing_services)
    moreover have "same_resource (reload x1 d2) z"
      by (simp add: z_def same_resource_def touch_deployment_def with_error_code_def)
    ultimately show "step_inv env d1 h1 t y \<and> same_resource x y"
      using seen [of d1 z] mr(2) by (auto intro: same_resource_trans)
  qed
qed

section \<open>Confirmed stops\<close>

lemma written_row: "get_deployment (sd_id y) d \<noteq> None \<Longrightarrow> get_deployment (sd_id y) (write_audited y a e t d) = Some y"
  "get_deployment (sd_id y) d \<noteq> None \<Longrightarrow> get_deployment (sd_id y) (put_deployment y d) = Some y"
  by (auto simp: row_get_put row_get_None)

definition stopped_row :: "SaladDeployment \<Rightarrow> bool" where
  "stopped_row y \<longleftrightarrow> sd_state y \<in> {DeploymentSTOPPED, DeploymentFAILED} \<and> sd_observed_replicas y = Some 0
     \<and> sd_ready_replicas y = Some 0 \<and> (sd_billing_session_started_at y \<noteq> None \<longrightarrow> sd_billing_session_ended_at y \<noteq> None)
     \<and> sd_billing_active_instance_id y = None \<and> \<not> sd_billing_observation_stale y \<and> sd_stopped_at y \<noteq> None
     \<and> sd_reconcile_after y = None"

lemma end_session_observed: "(end_billing_session x t)\<lparr>sd_billing_observed_at := Some u\<rparr> =
    end_billing_session (x\<lparr>sd_billing_observed_at := Some u\<rparr>) t"
  by (simp add: end_billing_session_def close_active_billing_segment_def Let_def split: option.split)

lemma end_session_closed:
  assumes "billing_ok x" and "y = end_billing_session x t"
  shows "sd_billing_session_started_at y \<noteq> None \<longrightarrow> sd_billing_session_ended_at y \<noteq> None"
    "sd_billing_active_instance_id y = None"
  using assms
  by (auto simp: end_billing_session_def billing_ok_def Let_def close_fields split: option.splits)

lemma confirm_stopped:
  assumes x: "step_inv env d h t' x" and s: "s = confirm_provider_group_stopped d h0 x t st m"
  shows "db_ok (fst s)" "\<exists>y. get_deployment (sd_id x) (fst s) = Some y \<and> stopped_row y" "fst (snd s) = h0"
    "dr_action (snd (snd s)) = STOPPED"
proof -
  define u where "u = (case sd_billing_observed_at x of None \<Rightarrow> t | Some v \<Rightarrow> max t v)"
  define x1 where "x1 = (end_billing_session x u)\<lparr>sd_billing_observed_at := Some u, sd_billing_observation_stale := False\<rparr>"
  define x2 where "x2 = x1\<lparr>sd_state := (if has_provider_resources x1 then DeploymentSTOPPED else DeploymentFAILED),
     sd_observed_replicas := Some 0, sd_ready_replicas := Some 0, sd_last_observed_at := Some t,
     sd_stopped_at := Some t, sd_provider_status := Some (''group='' @ st), sd_unknown_since := None,
     sd_reconcile_after := None\<rparr>"
  define y where "y = touch_deployment (if has_provider_resources x1 then clear_error x2
     else with_error_code (or_text (sd_last_error_code x2) ''deployment_stopped_before_provisioning'')
       (or_text (sd_last_error_detail x2) ''No provider container group exists under the deterministic deployment name.'') x2)"
  have out: "fst s = write_audited y ''salad_deployment.stop_confirmed''
      ((''provider_status'', PStr st) # (case sd_provider_container_group_id y of None \<Rightarrow> []
         | Some g \<Rightarrow> [(''container_group_id'', PStr g)])) t d" "fst (snd s) = h0" "dr_action (snd (snd s)) = STOPPED"
    unfolding s confirm_provider_group_stopped_def y_def x2_def x1_def u_def
    by (simp_all add: Let_def deployment_result_def)
  then show "fst (snd s) = h0" "dr_action (snd (snd s)) = STOPPED" by simp_all
  note xx = x [unfolded step_inv_def]
  have "clock_inv (x\<lparr>sd_billing_observed_at := Some u\<rparr>)"
    using xx by (auto simp: clock_inv_def billing_ok_def u_def split: option.splits)
  then have "clock_inv (end_billing_session (x\<lparr>sd_billing_observed_at := Some u\<rparr>) u)"
    by (rule end_inv) simp
  then have clock: "clock_inv x1" by (simp add: x1_def end_session_observed)
  have change: "billing_change x x1"
    by (simp add: x1_def billing_change_step billing_change_end)
  have ok1: "deployment_ok x1" using change xx clock by (auto intro: billing_change_ok)
  note same = billing_change_same(1) [OF change]
  have "deployment_ok (x1\<lparr>sd_state := (if has_provider_resources x1 then DeploymentSTOPPED else DeploymentFAILED)\<rparr>)"
    using ok1 by (simp add: deployment_ok_state)
  then have "deployment_ok x2"
    unfolding x2_def by (simp add: deployment_ok_counts)
  then have "deployment_ok y" by (simp add: y_def)
  with xx show "db_ok (fst s)" by (simp add: out(1) put_ok)
  have sid: "sd_id y = sd_id x" using same by (simp add: y_def x2_def same_resource_def)
  have row: "get_deployment (sd_id x) (fst s) = Some y"
    using xx written_row(1) [of y d] unfolding sid [symmetric] out(1) by blast
  have closed: "sd_billing_session_started_at x1 \<noteq> None \<longrightarrow> sd_billing_session_ended_at x1 \<noteq> None"
      "sd_billing_active_instance_id x1 = None"
    using end_session_closed [OF deployment_okD(1) refl, of x u] xx by (simp_all add: x1_def)
  have "stopped_row y"
    unfolding y_def stopped_row_def using closed
    by (auto simp: x2_def x1_def touch_deployment_def clear_error_def with_error_code_def)
  with row show "\<exists>y. get_deployment (sd_id x) (fst s) = Some y \<and> stopped_row y" by blast
qed

section \<open>Calls\<close>

definition mutations :: "provider_call list \<Rightarrow> provider_call list" where
  "mutations h = filter is_mutation h"

lemma mutations_simps [simp]: "mutations [] = []" "mutations (h @ k) = mutations h @ mutations k"
  "mutations (c # h) = (if is_mutation c then c # mutations h else mutations h)"
  by (simp_all add: mutations_def)

text \<open>\<open>s\<close> continues \<open>h\<close> with calls whose mutations are in \<open>ms\<close>.\<close>

definition continues :: "provider_call list \<Rightarrow> provider_call list set \<Rightarrow> step \<Rightarrow> bool" where
  "continues h ms s \<longleftrightarrow> (\<exists>new. fst (snd s) = h @ new \<and> mutations new \<in> ms)"

lemma continues_refl: "fst (snd s) = h \<Longrightarrow> [] \<in> ms \<Longrightarrow> continues h ms s"
  unfolding continues_def by (intro exI [of _ "[]"]) simp

lemma continues_query: "continues (h @ [c]) ms s \<Longrightarrow> \<not> is_mutation c \<Longrightarrow> continues h ms s"
  unfolding continues_def by (elim exE) (rule_tac x = "c # new" in exI, simp)

lemma continues_mutation: "fst (snd s) = h @ [c] \<Longrightarrow> is_mutation c \<Longrightarrow> [c] \<in> ms \<Longrightarrow> continues h ms s"
  unfolding continues_def by (intro exI [of _ "[c]"]) simp

lemma continues_mono: "continues h ms s \<Longrightarrow> ms \<subseteq> ms' \<Longrightarrow> continues h ms' s"
  unfolding continues_def by blast

lemma closing_calls [simp]:
  "fst (snd (mark_unknown d h x c t)) = h" "fst (snd (mark_failed d h x c t r n)) = h"
  "fst (snd (handle_read_error d h x e p t)) = h" "fst (snd (handle_mutation_error d h x e p t)) = h"
  "fst (snd (defer_unconfirmed_stop d h x t m)) = h" "fst (snd (defer_rollout_overlap d h x t)) = h"
  "fst (snd (adopt_queue d h x q t)) = h" "fst (snd (write_reconciled d h x g m b t ec)) = h"
proof -
  have unknown: "fst (snd (mark_unknown d h x c t)) = h" for c by (simp add: mark_unknown_def Let_def)
  have failed: "fst (snd (mark_failed d h x c t r n)) = h" for c r n by (simp add: mark_failed_def Let_def)
  show "fst (snd (mark_unknown d h x c t)) = h" "fst (snd (mark_failed d h x c t r n)) = h"
    "fst (snd (handle_read_error d h x e p t)) = h" by (simp_all add: unknown failed handle_read_error_def)
  show "fst (snd (handle_mutation_error d h x e p t)) = h"
    by (simp add: handle_mutation_error_def Let_def unknown failed split: salad_error.split)
  show "fst (snd (defer_unconfirmed_stop d h x t m)) = h" by (simp add: defer_unconfirmed_stop_def Let_def)
  show "fst (snd (defer_rollout_overlap d h x t)) = h" by (simp add: defer_rollout_overlap_def Let_def)
  show "fst (snd (adopt_queue d h x q t)) = h" by (simp add: adopt_queue_def Let_def failed)
  show "fst (snd (write_reconciled d h x g m b t ec)) = h" by (simp add: write_reconciled_def Let_def)
qed

text \<open>Only a confirmed stop has the action \<open>STOPPED\<close>.\<close>

definition action_of :: "step \<Rightarrow> DeploymentAction" where
  "action_of s = dr_action (snd (snd s))"

lemma closing_actions [simp]:
  "action_of (mark_unknown d h x c t) = DEFERRED" "action_of (mark_failed d h x c t r n) = FAILED"
  "action_of (handle_read_error d h x e p t) = DEFERRED"
  "action_of (handle_mutation_error d h x e p t) \<in> {DEFERRED, FAILED}"
  "action_of (defer_unconfirmed_stop d h x t m) = DEFERRED" "action_of (defer_rollout_overlap d h x t) = DEFERRED"
  "action_of (adopt_queue d h x q t) \<in> {QUEUE_ADOPTED, FAILED}"
  "action_of (write_reconciled d h x g m b t ec) = RECONCILED"
proof -
  have unknown: "action_of (mark_unknown d h x c t) = DEFERRED" for c
    by (simp add: mark_unknown_def Let_def action_of_def deployment_result_def)
  have failed: "action_of (mark_failed d h x c t r n) = FAILED" for c r n
    by (simp add: mark_failed_def Let_def action_of_def deployment_result_def)
  show "action_of (mark_unknown d h x c t) = DEFERRED" "action_of (mark_failed d h x c t r n) = FAILED"
    "action_of (handle_read_error d h x e p t) = DEFERRED" by (simp_all add: unknown failed handle_read_error_def)
  show "action_of (handle_mutation_error d h x e p t) \<in> {DEFERRED, FAILED}"
    by (simp add: handle_mutation_error_def Let_def unknown failed split: salad_error.split)
      (simp add: action_of_def deployment_result_def)
  show "action_of (defer_unconfirmed_stop d h x t m) = DEFERRED" "action_of (defer_rollout_overlap d h x t) = DEFERRED"
    "action_of (write_reconciled d h x g m b t ec) = RECONCILED"
    by (simp_all add: defer_unconfirmed_stop_def defer_rollout_overlap_def write_reconciled_def Let_def action_of_def
        deployment_result_def)
  show "action_of (adopt_queue d h x q t) \<in> {QUEUE_ADOPTED, FAILED}"
    by (simp add: adopt_queue_def Let_def failed) (simp add: action_of_def deployment_result_def)
qed

lemma not_stopped [simp]:
  "action_of (handle_mutation_error d h x e p t) \<noteq> STOPPED" "action_of (adopt_queue d h x q t) \<noteq> STOPPED"
  using closing_actions(4) [of d h x e p t] closing_actions(7) [of d h x q t] by auto

end
