(* ===== verification/ProviderIO.thy ===== *)
theory ProviderIO
  imports DeploymentCalls
begin

text \<open>
  Code that calls the provider and may raise: a function of the calls made so far that returns the calls made afterwards
  and an exception or a value. The combinators are the sequence of statements, an expression without calls, and a
  \<open>try\<close> whose handlers raise. A triple \<open>ensures P m Q E\<close> states what holds of the calls and of the value or exception after
  \<open>m\<close>; the rules take a body apart statement by statement.
\<close>

type_synonym ('e, 'a) provider_io = "provider_call list \<Rightarrow> provider_call list \<times> ('e + 'a)"

section \<open>Combinators\<close>

definition lift_io :: "'e + 'a \<Rightarrow> ('e, 'a) provider_io" where
  "lift_io m = (\<lambda>h. (h, m))"

definition bind_io :: "('e, 'a) provider_io \<Rightarrow> ('a \<Rightarrow> ('e, 'b) provider_io) \<Rightarrow> ('e, 'b) provider_io" where
  "bind_io m f = (\<lambda>h. case m h of (h1, Inl e) \<Rightarrow> (h1, Inl e) | (h1, Inr v) \<Rightarrow> f v h1)"

definition handle_io :: "('e \<Rightarrow> 'f) \<Rightarrow> ('e, 'a) provider_io \<Rightarrow> ('f, 'a) provider_io" where
  "handle_io handler m = (\<lambda>h. case m h of (h1, Inl e) \<Rightarrow> (h1, Inl (handler e)) | (h1, Inr v) \<Rightarrow> (h1, Inr v))"

text \<open>What a body inside \<open>try\<close> may raise: an error of this service, an error of the client, or the end of the time limit.\<close>

datatype raised = Raised deployment_error | ProviderError salad_error | ConvergenceTimeout

definition checked :: "deployment_error + 'a \<Rightarrow> (raised, 'a) provider_io" where
  "checked m = lift_io (case m of Inl e \<Rightarrow> Inl (Raised e) | Inr v \<Rightarrow> Inr v)"

definition invalid :: "string \<Rightarrow> deployment_error + 'a" where
  "invalid message = Inl (SaladDeploymentValidationError message)"

definition unavailable :: "string \<Rightarrow> deployment_error + 'a" where
  "unavailable message = Inl (SaladRuntimeAdmissionUnavailableError message)"

definition provider_io :: "provider_call \<Rightarrow> (provider_call list \<Rightarrow> 'a salad_answer) \<Rightarrow> (raised, 'a) provider_io" where
  "provider_io c answer =
     (\<lambda>h. (h @ [c], case answer h of Inl e \<Rightarrow> Inl (ProviderError e) | Inr v \<Rightarrow> Inr v))"

text \<open>
  The surroundings of an admission: the client; how many answers a polling loop receives before its time limit
  (\<open>asyncio.timeout\<close>), which is any number; and whether the limit strikes while a read is under way.
\<close>

record admission_env =
  ae_client :: salad_client
  ae_polls :: "provider_call list \<Rightarrow> nat"
  ae_cut :: "provider_call list \<Rightarrow> bool"

definition read_group :: "admission_env \<Rightarrow> string \<Rightarrow> (raised, SaladContainerGroup) provider_io" where
  "read_group env name =
     provider_io (CallGetContainerGroup name) (\<lambda>h. sc_get_container_group (ae_client env) h name)"

definition read_queue :: "admission_env \<Rightarrow> string \<Rightarrow> (raised, SaladQueue) provider_io" where
  "read_queue env name = provider_io (CallGetQueue name) (\<lambda>h. sc_get_queue (ae_client env) h name)"

definition list_instances :: "admission_env \<Rightarrow> string \<Rightarrow> (raised, SaladContainerGroupInstance list) provider_io" where
  "list_instances env name =
     provider_io (CallListInstances name) (\<lambda>h. sc_list_container_group_instances (ae_client env) h name)"

definition update_group :: "admission_env \<Rightarrow> string \<Rightarrow> json_object \<Rightarrow> (raised, SaladContainerGroup) provider_io" where
  "update_group env name patch =
     provider_io (CallUpdateContainerGroup name patch) (\<lambda>h. sc_update_container_group (ae_client env) h name patch)"

definition start_group :: "admission_env \<Rightarrow> string \<Rightarrow> (raised, unit) provider_io" where
  "start_group env name =
     provider_io (CallStartContainerGroup name) (\<lambda>h. sc_start_container_group (ae_client env) h name)"

text \<open>
  A polling loop: the group is read, \<open>judge\<close> raises, goes on (\<open>None\<close>) or ends the loop with the group, and the loop sleeps
  before it reads again.
\<close>

type_synonym judge = "SaladContainerGroup \<Rightarrow> deployment_error + bool"

fun poll_group ::
  "admission_env \<Rightarrow> string \<Rightarrow> judge \<Rightarrow> nat \<Rightarrow> (raised, SaladContainerGroup) provider_io" where
  "poll_group env name judge 0 =
     (\<lambda>h. (if ae_cut env h then h @ [CallGetContainerGroup name] else h, Inl ConvergenceTimeout))"
| "poll_group env name judge (Suc n) =
     bind_io (read_group env name) (\<lambda>g.
     bind_io (checked (judge g)) (\<lambda>settled.
       if settled then lift_io (Inr g) else poll_group env name judge n))"

definition poll_until :: "admission_env \<Rightarrow> string \<Rightarrow> judge \<Rightarrow> (raised, SaladContainerGroup) provider_io" where
  "poll_until env name judge = (\<lambda>h. poll_group env name judge (ae_polls env h) h)"

lemma lift_io_apply [simp]: "lift_io m h = (h, m)"
  by (simp add: lift_io_def)

lemma bind_lift [simp]: "bind_io (lift_io (Inr v)) f = f v" "bind_io (lift_io (Inl e)) f = lift_io (Inl e)"
  by (simp_all add: bind_io_def lift_io_def)

section \<open>Triples\<close>

definition ensures :: "(provider_call list \<Rightarrow> bool) \<Rightarrow> ('e, 'a) provider_io
    \<Rightarrow> ('a \<Rightarrow> provider_call list \<Rightarrow> bool) \<Rightarrow> ('e \<Rightarrow> provider_call list \<Rightarrow> bool) \<Rightarrow> bool" where
  "ensures P m Q E \<longleftrightarrow> (\<forall>h h1. P h \<longrightarrow>
     (\<forall>v. m h = (h1, Inr v) \<longrightarrow> Q v h1) \<and> (\<forall>e. m h = (h1, Inl e) \<longrightarrow> E e h1))"

lemma ensuresI:
  assumes "\<And>h h1 v. P h \<Longrightarrow> m h = (h1, Inr v) \<Longrightarrow> Q v h1" "\<And>h h1 e. P h \<Longrightarrow> m h = (h1, Inl e) \<Longrightarrow> E e h1"
  shows "ensures P m Q E"
  using assms by (simp add: ensures_def)

lemma ensures_result:
  assumes "ensures P m Q E" "P h"
  shows "m h = (h1, Inr v) \<Longrightarrow> Q v h1" and "m h = (h1, Inl e) \<Longrightarrow> E e h1"
  using assms by (simp_all add: ensures_def)

lemma ensures_weaken:
  assumes "ensures P m Q E" "\<And>h. P' h \<Longrightarrow> P h" "\<And>v h. Q v h \<Longrightarrow> Q' v h" "\<And>e h. E e h \<Longrightarrow> E' e h"
  shows "ensures P' m Q' E'"
  by (rule ensuresI) (use ensures_result [OF assms(1) assms(2)] assms(3,4) in blast)+

lemma bind_io_cases:
  assumes "bind_io m f h = (h2, r)"
  obtains (raised) e where "m h = (h2, Inl e)" "r = Inl e"
  | (value_of) v h1 where "m h = (h1, Inr v)" "f v h1 = (h2, r)"
  using assms by (auto simp: bind_io_def split: prod.splits sum.splits)

lemma ensures_bind:
  assumes m: "ensures P m Q E" and f: "\<And>v. ensures (Q v) (f v) R E"
  shows "ensures P (bind_io m f) R E"
proof (rule ensuresI)
  fix h h2 v assume p: "P h" and r: "bind_io m f h = (h2, Inr v)"
  from r show "R v h2"
    by (cases rule: bind_io_cases) (use ensures_result [OF m p] ensures_result [OF f] in auto)
next
  fix h h2 e assume p: "P h" and r: "bind_io m f h = (h2, Inl e)"
  from r show "E e h2"
    by (cases rule: bind_io_cases) (use ensures_result [OF m p] ensures_result [OF f] in auto)
qed

lemma ensures_handle:
  assumes m: "ensures P m Q E" and "\<And>e h. E e h \<Longrightarrow> E' (handler e) h"
  shows "ensures P (handle_io handler m) Q E'"
  by (rule ensuresI)
    (use ensures_result [OF m] assms(2) in \<open>auto simp: handle_io_def split: prod.splits sum.splits\<close>)

lemma ensures_lift:
  assumes "\<And>h v. P h \<Longrightarrow> m = Inr v \<Longrightarrow> Q v h" "\<And>h e. P h \<Longrightarrow> m = Inl e \<Longrightarrow> E e h"
  shows "ensures P (lift_io m) Q E"
  using assms by (auto simp: ensures_def lift_io_def split: sum.splits)

lemma ensures_checked:
  assumes "\<And>h v. P h \<Longrightarrow> m = Inr v \<Longrightarrow> Q v h" "\<And>h e. P h \<Longrightarrow> m = Inl e \<Longrightarrow> E (Raised e) h"
  shows "ensures P (checked m) Q E"
  unfolding checked_def by (rule ensures_lift) (use assms in \<open>auto split: sum.splits\<close>)

lemma ensures_provider:
  assumes "\<And>h v. P h \<Longrightarrow> answer h = Inr v \<Longrightarrow> Q v (h @ [c])"
    "\<And>h e. P h \<Longrightarrow> answer h = Inl e \<Longrightarrow> E (ProviderError e) (h @ [c])"
  shows "ensures P (provider_io c answer) Q E"
  using assms by (auto simp: ensures_def provider_io_def split: sum.splits)

lemma ensures_if:
  assumes "b \<Longrightarrow> ensures P m Q E" "\<not> b \<Longrightarrow> ensures P m' Q E"
  shows "ensures P (if b then m else m') Q E"
  using assms by simp

text \<open>A loop keeps an invariant that a read keeps; the group it ends with was read last and judged settled.\<close>

lemma ensures_poll:
  assumes read: "\<And>h. P h \<Longrightarrow> P (h @ [CallGetContainerGroup name])"
    and settled: "\<And>h g. P h \<Longrightarrow> sc_get_container_group (ae_client env) h name = Inr g \<Longrightarrow> judge g = Inr True
      \<Longrightarrow> Q g (h @ [CallGetContainerGroup name])"
    and refused: "\<And>h g e. P h \<Longrightarrow> sc_get_container_group (ae_client env) h name = Inr g \<Longrightarrow> judge g = Inl e
      \<Longrightarrow> E (Raised e) (h @ [CallGetContainerGroup name])"
    and failed: "\<And>h e. P h \<Longrightarrow> sc_get_container_group (ae_client env) h name = Inl e
      \<Longrightarrow> E (ProviderError e) (h @ [CallGetContainerGroup name])"
    and late: "\<And>h. P h \<Longrightarrow> E ConvergenceTimeout h"
  shows "ensures P (poll_until env name judge) Q E"
proof -
  have "ensures P (poll_group env name judge n) Q E" for n
  proof (induction n)
    case 0
    then show ?case using late read by (auto simp: ensures_def)
  next
    case (Suc n)
    define S where "S g h \<longleftrightarrow> P h \<and> (judge g = Inr True \<longrightarrow> Q g h) \<and> (\<forall>e. judge g = Inl e \<longrightarrow> E (Raised e) h)" for g h
    have r: "ensures P (read_group env name) S E"
      unfolding read_group_def by (rule ensures_provider) (auto simp: S_def intro: read settled refused failed)
    have b: "ensures (S g) (bind_io (checked (judge g)) (\<lambda>s. if s then lift_io (Inr g) else poll_group env name judge n)) Q E" for g
    proof (rule ensures_bind)
      show "ensures (S g) (checked (judge g)) (\<lambda>s h. P h \<and> (s \<longrightarrow> Q g h)) E"
        by (rule ensures_checked) (auto simp: S_def)
      show "ensures (\<lambda>h. P h \<and> (s \<longrightarrow> Q g h)) (if s then lift_io (Inr g) else poll_group env name judge n) Q E" for s
      proof (rule ensures_if)
        assume "\<not> s"
        with Suc show "ensures (\<lambda>h. P h \<and> (s \<longrightarrow> Q g h)) (poll_group env name judge n) Q E"
          by (simp add: ensures_weaken)
      qed (rule ensures_lift, auto)
    qed
    show ?case unfolding poll_group.simps by (rule ensures_bind [OF r b])
  qed
  then show ?thesis by (auto simp: ensures_def poll_until_def)
qed

section \<open>Convergence\<close>

text \<open>A loop that has time for one read more than the group is unsettled ends with the settled group.\<close>

lemma poll_settles:
  assumes "\<And>i. i < k \<Longrightarrow> \<exists>g. sc_get_container_group (ae_client env)
      (h @ replicate i (CallGetContainerGroup name)) name = Inr g \<and> judge g = Inr False"
    and "sc_get_container_group (ae_client env) (h @ replicate k (CallGetContainerGroup name)) name = Inr g"
    and "judge g = Inr True" and "k < ae_polls env h"
  shows "poll_until env name judge h = (h @ replicate (Suc k) (CallGetContainerGroup name), Inr g)"
proof -
  let ?R = "CallGetContainerGroup name"
  have "poll_group env name judge n h = (h @ replicate (Suc k) ?R, Inr g)"
    if "k < n" "\<And>i. i < k \<Longrightarrow> \<exists>g. sc_get_container_group (ae_client env) (h @ replicate i ?R) name = Inr g
          \<and> judge g = Inr False"
      "sc_get_container_group (ae_client env) (h @ replicate k ?R) name = Inr g" for n h
    using that
  proof (induction k arbitrary: h n)
    case 0
    then obtain n' where "n = Suc n'" by (cases n) auto
    with 0 assms(3) show ?case by (simp add: bind_io_def read_group_def provider_io_def checked_def)
  next
    case (Suc k)
    then obtain n' where n: "n = Suc n'" by (cases n) auto
    from Suc.prems(2) [of 0] obtain g' where g': "sc_get_container_group (ae_client env) h name = Inr g'" "judge g' = Inr False"
      by auto
    have "\<exists>g. sc_get_container_group (ae_client env) ((h @ [?R]) @ replicate i ?R) name = Inr g \<and> judge g = Inr False"
      if "i < k" for i
      using Suc.prems(2) [of "Suc i"] that by simp
    then have "poll_group env name judge n' (h @ [?R]) = ((h @ [?R]) @ replicate (Suc k) ?R, Inr g)"
      using Suc.prems n by (intro Suc.IH) auto
    with g' n show ?case by (simp add: bind_io_def read_group_def provider_io_def checked_def)
  qed
  with assms show ?thesis by (simp add: poll_until_def)
qed

lemma checked_bind [simp]: "bind_io (checked (Inr v)) f = f v"
  by (simp add: checked_def)

end
