(* ===== verification/RuntimeAdmission.thy ===== *)
theory RuntimeAdmission
  imports ProviderIO
begin

text \<open>
  Run-time admission of a worker (\<open>services/salad_deployments.py\<close>): the refresh of a group's ephemeral bindings before a
  submission, the demand for one worker, and the proof that only the refreshed worker can take the job. The deployment row
  is not written here; what happens is in the calls to the provider.
\<close>

section \<open>The deployment\<close>

definition QUEUE_ADMISSION_TRANSITIONAL_ERROR_CODES :: "string list" where
  "QUEUE_ADMISSION_TRANSITIONAL_ERROR_CODES =
     [''provider_autoscaler_repair_pending'', ''provider_image_preparation_pending'', ''provider_start_pending'']"

definition QUEUE_ADMISSION_STALLED_ERROR_CODES :: "string list" where
  "QUEUE_ADMISSION_STALLED_ERROR_CODES = [''provider_image_preparation_stalled'', ''provider_start_stalled'']"

definition runtime_admission_wait_is_safe :: "SaladDeployment \<Rightarrow> bool" where
  "runtime_admission_wait_is_safe x \<longleftrightarrow>
     (sd_state x = DeploymentPROVISIONING
        \<and> sd_last_error_code x \<in> Some ` set QUEUE_ADMISSION_TRANSITIONAL_ERROR_CODES)
     \<or> (sd_state x = DeploymentDEGRADED \<and> sd_last_error_code x \<in> Some ` set QUEUE_ADMISSION_STALLED_ERROR_CODES)"

definition defer_unknown_runtime_observation :: "SaladDeployment \<Rightarrow> deployment_error + unit" where
  "defer_unknown_runtime_observation x =
     (if sd_state x = DeploymentUNKNOWN then unavailable ''deployment observation is awaiting reconciliation''
      else if sd_state x = DeploymentDEGRADED \<and> sd_last_error_code x = Some ''group_start_rejected''
      then unavailable ''container group start is awaiting deployment reconciliation''
      else Inr ())"

section \<open>The observed group\<close>

definition group_environment :: "SaladContainerGroup \<Rightarrow> json_object option" where
  "group_environment g =
     (case py_get (cg_raw g) ''container'' of
        PDict container \<Rightarrow> (case py_get container ''environment_variables'' of PDict e \<Rightarrow> Some e | _ \<Rightarrow> None)
      | _ \<Rightarrow> None)"

definition runtime_admission_id :: "SaladContainerGroup \<Rightarrow> string option" where
  "runtime_admission_id g =
     (case group_environment g of
        None \<Rightarrow> None
      | Some e \<Rightarrow> (case py_get e WORKER_RUNTIME_ADMISSION_ID_BINDING of PStr v \<Rightarrow> Some v | _ \<Rightarrow> None))"

definition admission_manifest_invalid :: "string \<Rightarrow> bool" where
  "admission_manifest_invalid s \<longleftrightarrow> length s \<noteq> 64 \<or> s \<noteq> py_lower s \<or> list_ex (\<lambda>c. \<not> is_lower_hex c) s"

definition validate_group_runtime_admission_identity ::
  "SaladContainerGroup \<Rightarrow> string \<Rightarrow> string \<Rightarrow> deployment_error + unit" where
  "validate_group_runtime_admission_identity g artifact_manifest_sha256 admission_id =
     (if admission_manifest_invalid artifact_manifest_sha256 then invalid ''runtime admission manifest is invalid''
      else if \<not> runtime_admission_id_pattern admission_id then invalid ''runtime admission identifier is invalid''
      else (case group_environment g of
          None \<Rightarrow> invalid ''container group runtime admission identity changed''
        | Some e \<Rightarrow>
            if py_get e WORKER_MODEL_MANIFEST_SHA256_BINDING \<noteq> PStr artifact_manifest_sha256
            then invalid ''container group runtime admission manifest changed''
            else if py_get e WORKER_RUNTIME_ADMISSION_ID_BINDING \<noteq> PStr admission_id
            then invalid ''container group runtime admission identifier changed''
            else Inr ()))"

definition observed_min_replicas :: "SaladContainerGroup \<Rightarrow> deployment_error + int" where
  "observed_min_replicas g =
     (case (case py_get (cg_raw g) ''queue_autoscaler'' of PDict a \<Rightarrow> py_get a ''min_replicas'' | _ \<Rightarrow> PNone) of
        PInt n \<Rightarrow> if n \<in> {0, 1} then Inr n else invalid ''container group configuration does not match deployment''
      | _ \<Rightarrow> invalid ''container group configuration does not match deployment'')"

definition validate_runtime_group ::
  "SaladDeployment \<Rightarrow> SaladContainerGroup \<Rightarrow> int option \<Rightarrow> deployment_error + unit" where
  "validate_runtime_group x g effective_min_replicas =
     (if cg_name g \<noteq> sd_container_group_name x \<or> sd_provider_container_group_id x \<noteq> Some (uuid_str (cg_id g))
      then invalid ''container group identity does not match deployment''
      else bindE (case effective_min_replicas of Some n \<Rightarrow> Inr n | None \<Rightarrow> observed_min_replicas g) (\<lambda>n.
        bindE (group_configuration_drift x g (Some n)) (\<lambda>drift.
          if drift \<noteq> None then invalid ''container group configuration does not match deployment'' else Inr ())))"

definition validate_queue_admission_observation ::
  "SaladDeployment \<Rightarrow> SaladContainerGroup \<Rightarrow> deployment_error + unit" where
  "validate_queue_admission_observation x g =
     (case validate_runtime_group x g None of
        Inl (SaladDeploymentValidationError _) \<Rightarrow>
          bindE (desired_queue_autoscaler x (Some 1)) (\<lambda>desired.
          bindE (validate_runtime_group x
              (g\<lparr>cg_raw := put_key ''queue_autoscaler'' (PDict desired) (cg_raw g)\<rparr>) (Some 1)) (\<lambda>_.
            unavailable ''container group queue autoscaler is awaiting reconciliation''))
      | outcome \<Rightarrow> outcome)"

section \<open>Refresh of the bindings\<close>

text \<open>How a \<open>try\<close> block ends: an exception of this service is raised again when \<open>keep\<close> holds, the others become one
  of the service.\<close>

definition conclude :: "(deployment_error \<Rightarrow> bool) \<Rightarrow> deployment_error \<Rightarrow> deployment_error \<Rightarrow> deployment_error
    \<Rightarrow> raised \<Rightarrow> deployment_error" where
  "conclude keep on_timeout on_provider otherwise r =
     (case r of Raised e \<Rightarrow> if keep e then e else otherwise | ConvergenceTimeout \<Rightarrow> on_timeout
      | ProviderError _ \<Rightarrow> on_provider)"

fun is_validation :: "deployment_error \<Rightarrow> bool" where
  "is_validation (SaladDeploymentValidationError _) = True"
| "is_validation _ = False"

fun is_unavailable :: "deployment_error \<Rightarrow> bool" where
  "is_unavailable (SaladRuntimeAdmissionUnavailableError _) = True"
| "is_unavailable _ = False"

text \<open>The overrides are the \<open>environment_overrides\<close>, a mapping of names to texts or \<open>None\<close>.\<close>

type_synonym overrides = "(string \<times> string) list option"

definition override_of :: "overrides \<Rightarrow> string \<Rightarrow> string option" where
  "override_of overrides name = (case overrides of None \<Rightarrow> None | Some ov \<Rightarrow> map_of ov name)"

definition override_object :: "overrides \<Rightarrow> json_object" where
  "override_object overrides = (case overrides of None \<Rightarrow> [] | Some ov \<Rightarrow> map (\<lambda>(k, v). (k, PStr v)) ov)"

text \<open>\<open>Some (version, identifier)\<close> when the refresh is planned; the plan must be complete.\<close>

definition planned_refresh ::
  "overrides \<Rightarrow> int option \<Rightarrow> string option \<Rightarrow> deployment_error + (int \<times> string) option" where
  "planned_refresh overrides expected_provider_version admission_id =
     (case (expected_provider_version, admission_id) of
        (None, None) \<Rightarrow> Inr None
      | (Some version, Some m) \<Rightarrow>
          if version \<le> 0 \<or> \<not> runtime_admission_id_pattern m
            \<or> override_of overrides WORKER_RUNTIME_ADMISSION_ID_BINDING \<noteq> Some m
          then invalid ''runtime refresh plan is invalid'' else Inr (Some (version, m))
      | _ \<Rightarrow> invalid ''runtime refresh plan is invalid'')"

definition refresh_allowed :: "SaladDeployment \<Rightarrow> overrides \<Rightarrow> int option \<Rightarrow> string option
    \<Rightarrow> deployment_error + (int \<times> string) option" where
  "refresh_allowed x overrides expected_provider_version admission_id =
     bindE (if sd_provider_container_group_id x = None then invalid ''container group is not provisioned'' else Inr ()) (\<lambda>_.
     bindE (if \<not> sd_is_current x \<or> sd_desired_state x \<noteq> DesiredACTIVE then invalid ''deployment is not active''
       else Inr ()) (\<lambda>_.
     bindE (planned_refresh overrides expected_provider_version admission_id) (\<lambda>plan.
     bindE (if plan \<noteq> None then defer_unknown_runtime_observation x else Inr ()) (\<lambda>_.
     if sd_state x \<noteq> DeploymentACTIVE \<and> \<not> runtime_admission_wait_is_safe x then invalid ''deployment is not active''
     else Inr plan))))"

definition settle_judge :: "SaladDeployment \<Rightarrow> int \<Rightarrow> string \<Rightarrow> judge" where
  "settle_judge x version m g =
     bindE (validate_runtime_group x g None) (\<lambda>_.
       if cg_version g < version then invalid ''container group runtime version regressed before planned update''
       else if version < cg_version g \<and> \<not> cg_pending_change g \<and> runtime_admission_id g \<noteq> Some m
       then invalid ''container group runtime advanced outside the planned update''
       else Inr (\<not> cg_pending_change g))"

definition refresh_preflight ::
  "admission_env \<Rightarrow> SaladDeployment \<Rightarrow> (int \<times> string) option \<Rightarrow> (raised, SaladContainerGroup) provider_io" where
  "refresh_preflight env x plan =
     (let name = sd_container_group_name x in
      bind_io (read_group env name) (\<lambda>preflight.
      bind_io (checked (validate_runtime_group x preflight None)) (\<lambda>_.
        case plan of
          Some (version, m) \<Rightarrow>
            if cg_pending_change preflight then poll_until env name (settle_judge x version m) else lift_io (Inr preflight)
        | None \<Rightarrow> lift_io (Inr preflight))))"

text \<open>Whether the planned update has already been applied.\<close>

definition already_applied ::
  "overrides \<Rightarrow> (int \<times> string) option \<Rightarrow> SaladContainerGroup \<Rightarrow> deployment_error + bool" where
  "already_applied overrides plan preflight =
     (case plan of
        None \<Rightarrow> if cg_pending_change preflight then invalid ''container group has a pending change'' else Inr False
      | Some (version, m) \<Rightarrow>
          if cg_version preflight < version
          then invalid ''container group runtime version regressed before planned update''
          else if version < cg_version preflight
          then (if runtime_admission_id preflight \<noteq> Some m
                then invalid ''container group runtime advanced outside the planned update''
                else bindE (validate_group_runtime_admission_identity preflight
                    (case override_of overrides WORKER_MODEL_MANIFEST_SHA256_BINDING of None \<Rightarrow> [] | Some v \<Rightarrow> v) m)
                  (\<lambda>_. Inr True))
          else if runtime_admission_id preflight = Some m
          then invalid ''container group runtime marker changed without a new version''
          else if cg_pending_change preflight then invalid ''container group has an unrelated pending change''
          else Inr False)"

definition refresh_patch :: "SaladDeployment \<Rightarrow> secret_resolver option \<Rightarrow> overrides \<Rightarrow> int option \<Rightarrow> bool
    \<Rightarrow> deployment_error + json_object" where
  "refresh_patch x resolver overrides effective_min_replicas applied =
     bindE (container_group_payload x resolver (override_object overrides) effective_min_replicas (\<not> applied)) (\<lambda>payload.
       case py_get payload ''container'' of
         PDict container \<Rightarrow>
           (case py_get container ''environment_variables'' of
              PDict (_ # _) \<Rightarrow>
                (case effective_min_replicas of
                   None \<Rightarrow> Inr [(''container'', PDict container)]
                 | Some n \<Rightarrow>
                     (case py_get payload ''queue_autoscaler'' of
                        PDict autoscaler \<Rightarrow> Inr [(''container'', PDict container),
                          (''queue_autoscaler'', PDict autoscaler), (''replicas'', PInt n)]
                      | _ \<Rightarrow> invalid ''provider queue_autoscaler is required''))
            | _ \<Rightarrow> invalid ''runtime binding could not be resolved'')
       | _ \<Rightarrow> invalid ''provider configuration.container is required'')"

definition refresh_judge ::
  "SaladDeployment \<Rightarrow> (int \<times> string) option \<Rightarrow> int option \<Rightarrow> int \<Rightarrow> judge" where
  "refresh_judge x plan effective_min_replicas target_version g =
     bindE (validate_runtime_group x g None) (\<lambda>_.
     bindE (if target_version < cg_version g then invalid ''container group runtime version advanced during update''
       else Inr ()) (\<lambda>_.
     bindE (if \<not> cg_pending_change g then validate_runtime_group x g effective_min_replicas else Inr ()) (\<lambda>_.
       case plan of
         Some (_, m) \<Rightarrow>
           if target_version \<le> cg_version g \<and> \<not> cg_pending_change g \<and> runtime_admission_id g \<noteq> Some m
           then invalid ''container group runtime marker changed during update''
           else Inr (cg_version g = target_version \<and> \<not> cg_pending_change g)
       | None \<Rightarrow> Inr (cg_version g = target_version \<and> \<not> cg_pending_change g))))"

definition send_refresh :: "admission_env \<Rightarrow> SaladDeployment \<Rightarrow> int option \<Rightarrow> SaladContainerGroup \<Rightarrow> bool \<Rightarrow> json_object
    \<Rightarrow> (raised, int) provider_io" where
  "send_refresh env x effective_min_replicas preflight applied patch =
     (if applied then lift_io (Inr (cg_version preflight))
      else bind_io (update_group env (sd_container_group_name x) patch) (\<lambda>updated.
        bind_io (checked (validate_runtime_group x updated None)) (\<lambda>_.
        bind_io (checked (if \<not> cg_pending_change updated then validate_runtime_group x updated effective_min_replicas
          else Inr ())) (\<lambda>_.
        checked (if cg_version updated < cg_version preflight
          then invalid ''container group runtime update was not accepted''
          else Inr (max (cg_version preflight + 1) (cg_version updated)))))))"

definition refresh_container_group_runtime ::
  "admission_env \<Rightarrow> SaladDeployment \<Rightarrow> secret_resolver option \<Rightarrow> overrides \<Rightarrow> int option \<Rightarrow> string option \<Rightarrow> int option
    \<Rightarrow> (deployment_error, SaladContainerGroup) provider_io" where
  "refresh_container_group_runtime env x resolver overrides expected_provider_version admission_id effective_min_replicas =
     bind_io (lift_io (refresh_allowed x overrides expected_provider_version admission_id)) (\<lambda>plan.
     let failure = (\<lambda>planned_message message. if plan \<noteq> None then SaladRuntimeAdmissionUnavailableError planned_message
           else SaladDeploymentValidationError message);
         late = ''container group runtime refresh convergence is unavailable'';
         unseen = ''container group runtime refresh observation is unavailable'' in
     bind_io (handle_io (conclude is_validation (failure late ''container group preflight could not be verified'')
         (failure unseen ''container group preflight could not be verified'')
         (SaladDeploymentValidationError ''container group preflight could not be verified''))
       (refresh_preflight env x plan)) (\<lambda>preflight.
     bind_io (lift_io (already_applied overrides plan preflight)) (\<lambda>applied.
     bind_io (lift_io (refresh_patch x resolver overrides effective_min_replicas applied)) (\<lambda>patch.
     handle_io (conclude is_validation (failure late ''container group runtime update did not converge'')
         (failure unseen ''container group runtime update failed'')
         (SaladDeploymentValidationError ''container group runtime update failed''))
       (bind_io (send_refresh env x effective_min_replicas preflight applied patch) (\<lambda>target_version.
          poll_until env (sd_container_group_name x) (refresh_judge x plan effective_min_replicas target_version)))))))"

definition preflight_container_group_runtime_refresh ::
  "admission_env \<Rightarrow> SaladDeployment \<Rightarrow> (deployment_error, SaladContainerGroup) provider_io" where
  "preflight_container_group_runtime_refresh env x =
     bind_io (lift_io (
       if sd_provider_container_group_id x = None then invalid ''container group is not provisioned''
       else if \<not> sd_is_current x \<or> sd_desired_state x \<noteq> DesiredACTIVE then invalid ''deployment is not active''
       else bindE (defer_unknown_runtime_observation x) (\<lambda>_.
         if runtime_admission_wait_is_safe x
         then unavailable ''container group runtime refresh preflight is waiting for provider convergence''
         else if sd_state x \<noteq> DeploymentACTIVE then invalid ''deployment is not active'' else Inr ()))) (\<lambda>_.
     handle_io (conclude (\<lambda>e. is_unavailable e \<or> is_validation e)
         (SaladDeploymentValidationError ''container group runtime refresh preflight could not be verified'')
         (SaladRuntimeAdmissionUnavailableError ''container group runtime refresh preflight is unavailable'')
         (SaladDeploymentValidationError ''container group runtime refresh preflight could not be verified''))
       (bind_io (read_group env (sd_container_group_name x)) (\<lambda>g.
        bind_io (checked (validate_runtime_group x g None)) (\<lambda>_.
        checked (if cg_pending_change g
          then unavailable ''container group runtime refresh preflight has a pending provider change'' else Inr g)))))"

end
