(* ===== verification/QueueAdmission.thy ===== *)
theory QueueAdmission
  imports RuntimeAdmission
begin

text \<open>
  The demand for one worker before a job is posted, the identity of a warm worker, and the proof that only the refreshed
  worker can take the job (\<open>services/salad_deployments.py\<close>).
\<close>

section \<open>The identity of a warm worker\<close>

definition read_container_group_runtime_admission_identity ::
  "admission_env \<Rightarrow> SaladDeployment \<Rightarrow> int \<Rightarrow> string \<Rightarrow> (deployment_error, (int \<times> string) option) provider_io" where
  "read_container_group_runtime_admission_identity env x minimum_provider_version artifact_manifest_sha256 =
     bind_io (lift_io (
       if minimum_provider_version \<le> 0 then invalid ''runtime admission version is invalid''
       else if admission_manifest_invalid artifact_manifest_sha256 then invalid ''runtime admission manifest is invalid''
       else Inr ())) (\<lambda>_.
     handle_io (conclude is_validation
         (SaladDeploymentValidationError ''container group runtime admission identity could not be verified'')
         (SaladRuntimeAdmissionUnavailableError ''container group runtime admission identity is unavailable'')
         (SaladDeploymentValidationError ''container group runtime admission identity could not be verified''))
       (bind_io (read_group env (sd_container_group_name x)) (\<lambda>g.
        checked (bindE (validate_runtime_group x g None) (\<lambda>_.
          if cg_version g < minimum_provider_version
          then invalid ''container group runtime admission version regressed''
          else (case group_environment g of
              None \<Rightarrow> invalid ''container group runtime admission manifest changed''
            | Some e \<Rightarrow>
                if py_get e WORKER_MODEL_MANIFEST_SHA256_BINDING \<noteq> PStr artifact_manifest_sha256
                then invalid ''container group runtime admission manifest changed''
                else (case runtime_admission_id g of
                    None \<Rightarrow> Inr None
                  | Some m \<Rightarrow>
                      if \<not> runtime_admission_id_pattern m
                      then invalid ''container group runtime admission identifier changed''
                      else Inr (Some (cg_version g, m)))))))))"

section \<open>The demand for one worker\<close>

text \<open>The identity a marker-bearing admission is bound to: the manifest and the admission identifier.\<close>

type_synonym identity = "(string \<times> string) option"

definition admission_identity :: "string option \<Rightarrow> string option \<Rightarrow> deployment_error + identity" where
  "admission_identity artifact_manifest_sha256 admission_id =
     (case (artifact_manifest_sha256, admission_id) of
        (None, None) \<Rightarrow> Inr None
      | (Some manifest, Some m) \<Rightarrow> Inr (Some (manifest, m))
      | _ \<Rightarrow> invalid ''queue admission runtime identity is incomplete'')"

definition validate_runtime_identity :: "identity \<Rightarrow> SaladContainerGroup \<Rightarrow> deployment_error + unit" where
  "validate_runtime_identity bound g =
     (case bound of None \<Rightarrow> Inr ()
      | Some (manifest, m) \<Rightarrow> validate_group_runtime_admission_identity g manifest m)"

definition validate_bound ::
  "SaladDeployment \<Rightarrow> identity \<Rightarrow> int option \<Rightarrow> SaladContainerGroup \<Rightarrow> deployment_error + unit" where
  "validate_bound x bound effective_min_replicas g =
     bindE (validate_runtime_group x g effective_min_replicas) (\<lambda>_. validate_runtime_identity bound g)"

definition queue_admission_allowed ::
  "SaladDeployment \<Rightarrow> int \<Rightarrow> string option \<Rightarrow> string option \<Rightarrow> deployment_error + identity" where
  "queue_admission_allowed x effective_min_replicas artifact_manifest_sha256 admission_id =
     bindE (if sd_provider_queue_id x = None \<or> sd_provider_container_group_id x = None \<or> \<not> sd_is_current x
         \<or> sd_desired_state x \<noteq> DesiredACTIVE
       then invalid ''deployment is not ready for queue admission'' else Inr ()) (\<lambda>_.
     bindE (if effective_min_replicas \<noteq> 1 then invalid ''durable queue admission demand is required'' else Inr ()) (\<lambda>_.
     bindE (admission_identity artifact_manifest_sha256 admission_id) (\<lambda>bound.
     bindE (defer_unknown_runtime_observation x) (\<lambda>_.
     if sd_state x \<noteq> DeploymentACTIVE \<and> \<not> runtime_admission_wait_is_safe x
     then invalid ''deployment is not ready for queue admission'' else Inr bound))))"

text \<open>The autoscaler floor is raised, and the group is read until it shows the floor and no pending change.\<close>

definition autoscaler_judge :: "SaladDeployment \<Rightarrow> identity \<Rightarrow> int \<Rightarrow> int \<Rightarrow> judge" where
  "autoscaler_judge x bound eff target_version g =
     bindE (validate_bound x bound None g) (\<lambda>_.
       if cg_pending_change g then Inr False
       else bindE (validate_runtime_group x g (Some eff)) (\<lambda>_. Inr (target_version \<le> cg_version g)))"

definition raise_autoscaler_floor :: "admission_env \<Rightarrow> SaladDeployment \<Rightarrow> identity \<Rightarrow> int \<Rightarrow> SaladContainerGroup
    \<Rightarrow> (raised, SaladContainerGroup) provider_io" where
  "raise_autoscaler_floor env x bound eff initial =
     (let name = sd_container_group_name x in
      bind_io (checked (validate_bound x bound (Some 0) initial)) (\<lambda>_.
      bind_io (checked (desired_queue_autoscaler x (Some eff))) (\<lambda>desired.
      bind_io (update_group env name [(''queue_autoscaler'', PDict desired)]) (\<lambda>updated.
      bind_io (checked (validate_bound x bound None updated)) (\<lambda>_.
      bind_io (checked (if \<not> cg_pending_change updated then validate_runtime_group x updated (Some eff) else Inr ())) (\<lambda>_.
      bind_io (checked (if cg_version updated < cg_version initial
        then invalid ''queue admission autoscaler update was not accepted'' else Inr ())) (\<lambda>_.
      poll_until env name (autoscaler_judge x bound eff (cg_version updated)))))))))"

text \<open>A group that retains fewer replicas than the floor is told the replica count.\<close>

definition replica_judge :: "SaladDeployment \<Rightarrow> identity \<Rightarrow> int \<Rightarrow> int \<Rightarrow> judge" where
  "replica_judge x bound eff replica_update_version g =
     bindE (validate_bound x bound (Some eff) g) (\<lambda>_.
       if cg_version g < replica_update_version
       then invalid ''container group version regressed after replica update''
       else Inr (\<not> cg_pending_change g \<and> eff \<le> cg_replicas g))"

definition raise_replicas :: "admission_env \<Rightarrow> SaladDeployment \<Rightarrow> identity \<Rightarrow> int \<Rightarrow> SaladContainerGroup
    \<Rightarrow> (raised, SaladContainerGroup) provider_io" where
  "raise_replicas env x bound eff initial =
     (let name = sd_container_group_name x in
      if cg_replicas initial < eff
      then bind_io (update_group env name [(''replicas'', PInt eff)]) (\<lambda>updated.
        bind_io (checked (validate_bound x bound (Some eff) updated)) (\<lambda>_.
        bind_io (checked (if cg_version updated < cg_version initial
          then invalid ''queue admission replica update was not accepted'' else Inr ())) (\<lambda>_.
        poll_until env name (replica_judge x bound eff (cg_version updated)))))
      else lift_io (Inr initial))"

text \<open>A stopped group is started; the version before the start is not taken for provenance.\<close>

definition start_judge :: "SaladDeployment \<Rightarrow> identity \<Rightarrow> int \<Rightarrow> int \<Rightarrow> judge" where
  "start_judge x bound eff pre_start_version g =
     bindE (validate_bound x bound (Some eff) g) (\<lambda>_.
       if cg_version g < pre_start_version then invalid ''container group version regressed after start''
       else Inr (\<not> cg_pending_change g \<and> (pre_start_version < cg_version g \<or> \<not> is_authoritatively_stopped g)))"

definition start_stopped :: "admission_env \<Rightarrow> SaladDeployment \<Rightarrow> identity \<Rightarrow> int \<Rightarrow> SaladContainerGroup
    \<Rightarrow> (raised, SaladContainerGroup) provider_io" where
  "start_stopped env x bound eff initial =
     (let name = sd_container_group_name x in
      bind_io (checked (if cg_pending_change initial
        then unavailable ''container group queue admission has a pending provider change'' else Inr ())) (\<lambda>_.
      bind_io (checked (if py_lower (py_strip (cg_status initial)) = ''failed''
        then invalid ''container group failed before admission'' else Inr ())) (\<lambda>_.
      if is_authoritatively_stopped initial
      then bind_io (start_group env name) (\<lambda>_. poll_until env name (start_judge x bound eff (cg_version initial)))
      else lift_io (Inr initial))))"

text \<open>The floor of the group: as it is, or raised; an admission bound to an identity never raises it.\<close>

definition hold_floor :: "admission_env \<Rightarrow> SaladDeployment \<Rightarrow> identity \<Rightarrow> int \<Rightarrow> SaladContainerGroup
    \<Rightarrow> (raised, SaladContainerGroup) provider_io" where
  "hold_floor env x bound eff initial =
     (case validate_bound x bound (Some eff) initial of
        Inr _ \<Rightarrow> lift_io (Inr initial)
      | Inl (SaladDeploymentValidationError message) \<Rightarrow>
          if bound \<noteq> None then checked (invalid message) else raise_autoscaler_floor env x bound eff initial
      | Inl e \<Rightarrow> checked (Inl e))"

definition ensure_container_group_queue_admission ::
  "admission_env \<Rightarrow> SaladDeployment \<Rightarrow> int \<Rightarrow> string option \<Rightarrow> string option
    \<Rightarrow> (deployment_error, SaladContainerGroup) provider_io" where
  "ensure_container_group_queue_admission env x effective_min_replicas artifact_manifest_sha256 admission_id =
     bind_io (lift_io (queue_admission_allowed x effective_min_replicas artifact_manifest_sha256 admission_id)) (\<lambda>bound.
     handle_io (conclude (\<lambda>e. is_unavailable e \<or> is_validation e)
         (SaladRuntimeAdmissionUnavailableError ''container group queue admission observation did not converge'')
         (SaladRuntimeAdmissionUnavailableError ''container group queue admission observation is unavailable'')
         (SaladDeploymentValidationError ''container group queue admission could not be verified''))
       (bind_io (read_group env (sd_container_group_name x)) (\<lambda>initial.
        bind_io (read_queue env (sd_queue_name x)) (\<lambda>queue.
        bind_io (checked (if Some (uuid_str (sq_id queue)) \<noteq> sd_provider_queue_id x \<or> sq_name queue \<noteq> sd_queue_name x
          then invalid ''queue identity does not match deployment'' else Inr ())) (\<lambda>_.
        bind_io (checked (validate_runtime_identity bound initial)) (\<lambda>_.
        bind_io (checked (validate_queue_admission_observation x initial)) (\<lambda>_.
        bind_io (checked (if cg_pending_change initial
          then unavailable ''container group queue admission has a pending provider change'' else Inr ())) (\<lambda>_.
        bind_io (hold_floor env x bound effective_min_replicas initial) (\<lambda>held.
        bind_io (raise_replicas env x bound effective_min_replicas held) (\<lambda>sized.
          start_stopped env x bound effective_min_replicas sized))))))))))"

section \<open>The only consumer\<close>

definition sole_ready_instance ::
  "int \<Rightarrow> SaladContainerGroup \<Rightarrow> SaladContainerGroupInstance list \<Rightarrow> string option" where
  "sole_ready_instance provider_version g instances =
     (let s = cg_current_state g in
      if cg_pending_change g \<or> cg_replicas g \<noteq> 1 \<or> py_lower (py_strip (cg_status g)) \<noteq> ''running''
        \<or> gs_allocating_count s \<noteq> 0 \<or> gs_creating_count s \<noteq> 0 \<or> gs_running_count s \<noteq> 1 \<or> gs_stopping_count s \<noteq> 0
      then None
      else (case instances of
          [i] \<Rightarrow> if gi_version i \<noteq> provider_version \<or> gi_state i \<noteq> InstanceRUNNING \<or> gi_started i \<noteq> Some True
            then None else Some (gi_id i)
        | _ \<Rightarrow> None))"

definition container_group_runtime_admission_ready ::
  "admission_env \<Rightarrow> SaladDeployment \<Rightarrow> int \<Rightarrow> string \<Rightarrow> string \<Rightarrow> (deployment_error, string option) provider_io" where
  "container_group_runtime_admission_ready env x provider_version artifact_manifest_sha256 admission_id =
     bind_io (lift_io (
       if provider_version \<le> 0 then invalid ''runtime admission version is invalid''
       else if admission_manifest_invalid artifact_manifest_sha256 then invalid ''runtime admission manifest is invalid''
       else if \<not> runtime_admission_id_pattern admission_id then invalid ''runtime admission identifier is invalid''
       else Inr ())) (\<lambda>_.
     handle_io (conclude is_validation
         (SaladDeploymentValidationError ''container group runtime admission could not be verified'')
         (SaladRuntimeAdmissionUnavailableError ''container group runtime admission observation is unavailable'')
         (SaladDeploymentValidationError ''container group runtime admission could not be verified''))
       (bind_io (read_group env (sd_container_group_name x)) (\<lambda>g.
        bind_io (checked (validate_runtime_group x g None)) (\<lambda>_.
        bind_io (checked (if cg_version g \<noteq> provider_version
          then invalid ''container group runtime admission version changed'' else Inr ())) (\<lambda>_.
        bind_io (checked (validate_group_runtime_admission_identity g artifact_manifest_sha256 admission_id)) (\<lambda>_.
        bind_io (read_queue env (sd_queue_name x)) (\<lambda>queue.
        bind_io (checked (if sq_name queue \<noteq> sd_queue_name x \<or> Some (uuid_str (sq_id queue)) \<noteq> sd_provider_queue_id x
          then invalid ''container group runtime admission queue identity changed'' else Inr ())) (\<lambda>_.
        bind_io (list_instances env (sd_container_group_name x)) (\<lambda>instances.
        checked (if list_ex (\<lambda>i. provider_version < gi_version i) instances
          then invalid ''container group instance version advanced during runtime admission''
          else Inr (sole_ready_instance provider_version g instances)))))))))))"

end
