(* ===== verification/RuntimeAdmissionFacts.thy ===== *)
theory RuntimeAdmissionFacts
  imports RuntimeAdmission
begin

text \<open>
  What the parts of a refresh do: the calls they make, the group they end with, and the failures that rest on a complete
  set of answers.
\<close>

section \<open>Calls and answers\<close>

abbreviation read_call :: "SaladDeployment \<Rightarrow> provider_call" where
  "read_call x \<equiv> CallGetContainerGroup (sd_container_group_name x)"

text \<open>Only reads of the group were made since \<open>h0\<close>; the last one was answered with \<open>g\<close>.\<close>

definition only_reads :: "SaladDeployment \<Rightarrow> provider_call list \<Rightarrow> provider_call list \<Rightarrow> bool" where
  "only_reads x h0 h \<longleftrightarrow> (\<exists>n. h = h0 @ replicate n (read_call x))"

definition read_last ::
  "admission_env \<Rightarrow> SaladDeployment \<Rightarrow> provider_call list \<Rightarrow> SaladContainerGroup \<Rightarrow> provider_call list \<Rightarrow> bool" where
  "read_last env x h0 g h \<longleftrightarrow> (\<exists>h1. h = h1 @ [read_call x] \<and> only_reads x h0 h1
     \<and> sc_get_container_group (ae_client env) h1 (sd_container_group_name x) = Inr g)"

lemma only_reads_refl [simp]: "only_reads x h h"
  unfolding only_reads_def by (intro exI [of _ 0]) simp

lemma only_reads_read [intro]: "only_reads x h0 h \<Longrightarrow> only_reads x h0 (h @ [read_call x])"
  unfolding only_reads_def by (auto simp: replicate_append_same [symmetric] intro: exI [of _ "Suc _"])

lemma read_last_reads: "read_last env x h0 g h \<Longrightarrow> only_reads x h0 h"
  by (auto simp: read_last_def)

lemma read_lastI: "only_reads x h0 h \<Longrightarrow> sc_get_container_group (ae_client env) h (sd_container_group_name x) = Inr g
    \<Longrightarrow> read_last env x h0 g (h @ [read_call x])"
  by (auto simp: read_last_def)

lemma only_reads_mutations: "only_reads x h0 h \<Longrightarrow> \<exists>new. h = h0 @ new \<and> mutations new = []"
  by (auto simp: only_reads_def mutations_def)

section \<open>Checks\<close>

lemma invalid_cases [simp]:
  "invalid m \<noteq> Inr v" "Inr v \<noteq> invalid m" "invalid m = Inl e \<longleftrightarrow> e = SaladDeploymentValidationError m"
  "unavailable m \<noteq> Inr v" "Inr v \<noteq> unavailable m" "unavailable m = Inl e \<longleftrightarrow> e = SaladRuntimeAdmissionUnavailableError m"
  by (auto simp: invalid_def unavailable_def)

lemma settle_judge_settled:
  assumes "settle_judge x version m g = Inr True"
  shows "validate_runtime_group x g None = Inr ()" "version \<le> cg_version g" "\<not> cg_pending_change g"
    "version < cg_version g \<longrightarrow> runtime_admission_id g = Some m"
  using assms by (auto simp: settle_judge_def bindE_eq_Inr split: if_splits)

lemma refresh_judge_settled:
  assumes "refresh_judge x plan eff target g = Inr True"
  shows "validate_runtime_group x g None = Inr ()" "validate_runtime_group x g eff = Inr ()" "cg_version g = target"
    "\<not> cg_pending_change g" "plan = Some (version, m) \<Longrightarrow> runtime_admission_id g = Some m"
  using assms by (auto simp: refresh_judge_def bindE_eq_Inr split: if_splits option.splits)

lemma planned_refresh_plan:
  assumes "planned_refresh overrides expected m = Inr plan"
  shows "expected = Some v \<Longrightarrow> \<exists>i. m = Some i \<and> plan = Some (v, i)"
    "plan = Some (v, i) \<Longrightarrow> override_of overrides WORKER_RUNTIME_ADMISSION_ID_BINDING = Some i"
  using assms by (auto simp: planned_refresh_def split: option.splits if_splits)

lemma refresh_allowed_plan: "refresh_allowed x overrides expected m = Inr plan \<Longrightarrow> planned_refresh overrides expected m = Inr plan"
  by (auto simp: refresh_allowed_def bindE_eq_Inr split: if_splits)

lemma already_applied_cases:
  assumes "already_applied overrides plan g = Inr applied"
  shows "applied \<Longrightarrow> \<exists>version m. plan = Some (version, m) \<and> version < cg_version g \<and> runtime_admission_id g = Some m"
    "\<not> applied \<Longrightarrow> \<not> cg_pending_change g"
    "\<not> applied \<Longrightarrow> plan = Some (version, m) \<Longrightarrow> cg_version g = version \<and> runtime_admission_id g \<noteq> Some m"
  using assms by (auto simp: already_applied_def bindE_eq_Inr split: option.splits if_splits)

section \<open>The parts of a refresh\<close>

lemma refresh_preflight_ensures:
  "ensures (\<lambda>h. h = h0) (refresh_preflight env x plan)
     (\<lambda>g h. read_last env x h0 g h \<and> validate_runtime_group x g None = Inr ()) (\<lambda>e h. only_reads x h0 h)"
proof -
  let ?V = "\<lambda>g h. read_last env x h0 g h \<and> validate_runtime_group x g None = Inr ()"
  have read: "ensures (\<lambda>h. h = h0) (read_group env (sd_container_group_name x)) (read_last env x h0) (\<lambda>e h. only_reads x h0 h)"
    unfolding read_group_def by (rule ensures_provider) (auto intro: read_lastI)
  have check: "ensures (read_last env x h0 g) (checked (validate_runtime_group x g None)) (\<lambda>_. ?V g) (\<lambda>e h. only_reads x h0 h)" for g
    by (rule ensures_checked) (auto dest: read_last_reads)
  have poll: "ensures (?V g) (poll_until env (sd_container_group_name x) (settle_judge x version m)) ?V (\<lambda>e h. only_reads x h0 h)"
    for g version m
    by (rule ensures_weaken [where P = "only_reads x h0", OF ensures_poll])
      (auto intro: read_lastI dest: read_last_reads settle_judge_settled)
  have done_: "ensures (?V g) (lift_io (Inr g)) ?V (\<lambda>e h. only_reads x h0 h)" for g
    by (rule ensures_lift) auto
  show ?thesis
    unfolding refresh_preflight_def Let_def
    by (intro ensures_bind [OF read] ensures_bind [OF check]) (auto split: option.split intro: ensures_if poll done_)
qed

text \<open>
  The calls of a refresh: reads; or reads, one PATCH of the own group, and reads. The PATCH follows a group that was read
  just before, matched the deployment, had no change pending and did not carry the planned identifier yet.
\<close>

definition patch_after :: "admission_env \<Rightarrow> SaladDeployment \<Rightarrow> secret_resolver option \<Rightarrow> overrides \<Rightarrow> (int \<times> string) option
    \<Rightarrow> int option \<Rightarrow> provider_call list \<Rightarrow> SaladContainerGroup \<Rightarrow> json_object \<Rightarrow> provider_call list \<Rightarrow> bool" where
  "patch_after env x resolver overrides plan eff h0 g patch h1 \<longleftrightarrow> read_last env x h0 g h1
     \<and> validate_runtime_group x g None = Inr () \<and> \<not> cg_pending_change g
     \<and> refresh_patch x resolver overrides eff False = Inr patch
     \<and> (\<forall>v m. plan = Some (v, m) \<longrightarrow> cg_version g = v \<and> runtime_admission_id g \<noteq> Some m)"

definition refresh_trace :: "admission_env \<Rightarrow> SaladDeployment \<Rightarrow> secret_resolver option \<Rightarrow> overrides
    \<Rightarrow> (int \<times> string) option \<Rightarrow> int option \<Rightarrow> provider_call list \<Rightarrow> provider_call list \<Rightarrow> bool" where
  "refresh_trace env x resolver overrides plan eff h0 h \<longleftrightarrow> only_reads x h0 h
     \<or> (\<exists>g patch h1. patch_after env x resolver overrides plan eff h0 g patch h1
          \<and> only_reads x (h1 @ [CallUpdateContainerGroup (sd_container_group_name x) patch]) h)"

lemma refresh_trace_read: "refresh_trace env x resolver overrides plan eff h0 h
    \<Longrightarrow> refresh_trace env x resolver overrides plan eff h0 (h @ [read_call x])"
  by (auto simp: refresh_trace_def)

definition refreshed :: "admission_env \<Rightarrow> SaladDeployment \<Rightarrow> (int \<times> string) option \<Rightarrow> int option \<Rightarrow> SaladContainerGroup
    \<Rightarrow> provider_call list \<Rightarrow> bool" where
  "refreshed env x plan eff g h \<longleftrightarrow>
     (\<exists>h1. h = h1 @ [read_call x] \<and> sc_get_container_group (ae_client env) h1 (sd_container_group_name x) = Inr g)
     \<and> validate_runtime_group x g None = Inr () \<and> validate_runtime_group x g eff = Inr () \<and> \<not> cg_pending_change g
     \<and> (\<forall>v m. plan = Some (v, m) \<longrightarrow> v < cg_version g \<and> runtime_admission_id g = Some m)"

text \<open>After the preflight, with the decision that was taken and the PATCH that was built.\<close>

definition preflighted where
  "preflighted env x resolver overrides plan eff h0 g applied patch h \<longleftrightarrow> read_last env x h0 g h
     \<and> validate_runtime_group x g None = Inr () \<and> already_applied overrides plan g = Inr applied
     \<and> refresh_patch x resolver overrides eff applied = Inr patch"

lemma preflighted_patch:
  "preflighted env x resolver overrides plan eff h0 g False patch h
    \<Longrightarrow> patch_after env x resolver overrides plan eff h0 g patch h"
  by (auto simp: preflighted_def patch_after_def dest: already_applied_cases)

lemma preflighted_sent:
  assumes "preflighted env x resolver overrides plan eff h0 g False patch h"
  shows "refresh_trace env x resolver overrides plan eff h0 (h @ [CallUpdateContainerGroup (sd_container_group_name x) patch])"
    "plan = Some (v, m) \<Longrightarrow> cg_version g = v"
proof -
  from assms have "patch_after env x resolver overrides plan eff h0 g patch h" by (rule preflighted_patch)
  then show "refresh_trace env x resolver overrides plan eff h0 (h @ [CallUpdateContainerGroup (sd_container_group_name x) patch])"
    and "plan = Some (v, m) \<Longrightarrow> cg_version g = v"
    using only_reads_refl unfolding refresh_trace_def patch_after_def by blast+
qed

lemma send_refresh_ensures:
  "ensures (preflighted env x resolver overrides plan eff h0 g applied patch)
     (send_refresh env x eff g applied patch)
     (\<lambda>target h. refresh_trace env x resolver overrides plan eff h0 h
        \<and> (\<forall>v m. plan = Some (v, m) \<longrightarrow> v < target))
     (\<lambda>e h. refresh_trace env x resolver overrides plan eff h0 h)"
proof (cases applied)
  case True
  then show ?thesis
    by (auto simp: send_refresh_def preflighted_def refresh_trace_def
        dest: already_applied_cases(1) read_last_reads intro!: ensures_lift)
next
  case False
  let ?T = "refresh_trace env x resolver overrides plan eff h0"
  let ?A = "\<lambda>h. ?T h \<and> (\<forall>v m. plan = Some (v, m) \<longrightarrow> cg_version g = v)"
  have send: "ensures (preflighted env x resolver overrides plan eff h0 g False patch)
      (update_group env (sd_container_group_name x) patch) (\<lambda>_. ?A) (\<lambda>e. ?T)"
    unfolding update_group_def
    by (rule ensures_provider)
      (auto dest: preflighted_sent)
  have check: "ensures ?A (checked c) (\<lambda>_. ?A) (\<lambda>e. ?T)" for c :: "deployment_error + unit"
    by (rule ensures_checked) auto
  show ?thesis
    unfolding send_refresh_def using False
    by (simp, intro ensures_bind [OF send] ensures_bind [OF check] ensures_checked) (auto split: if_splits)
qed

lemma refresh_ensures:
  assumes "refresh_allowed x overrides expected m = Inr plan"
  shows "ensures (\<lambda>h. h = h0) (refresh_container_group_runtime env x resolver overrides expected m eff)
     (\<lambda>g h. refresh_trace env x resolver overrides plan eff h0 h \<and> refreshed env x plan eff g h)
     (\<lambda>e h. refresh_trace env x resolver overrides plan eff h0 h)"
proof -
  let ?T = "refresh_trace env x resolver overrides plan eff h0"
  let ?V = "\<lambda>g h. read_last env x h0 g h \<and> validate_runtime_group x g None = Inr ()"
  have pre: "ensures (\<lambda>h. h = h0) (refresh_preflight env x plan) ?V (\<lambda>e. ?T)"
    by (rule ensures_weaken [OF refresh_preflight_ensures]) (auto simp: refresh_trace_def)
  have decide: "ensures (?V g) (lift_io (already_applied overrides plan g))
      (\<lambda>a h. ?V g h \<and> already_applied overrides plan g = Inr a) (\<lambda>e. ?T)" for g
    by (rule ensures_lift) (auto simp: refresh_trace_def dest: read_last_reads)
  have build: "ensures (\<lambda>h. ?V g h \<and> already_applied overrides plan g = Inr a)
      (lift_io (refresh_patch x resolver overrides eff a))
      (\<lambda>p. preflighted env x resolver overrides plan eff h0 g a p) (\<lambda>e. ?T)" for g a
    by (rule ensures_lift) (auto simp: refresh_trace_def preflighted_def dest: read_last_reads)
  let ?R = "\<lambda>target h. ?T h \<and> (\<forall>v m. plan = Some (v, m) \<longrightarrow> v < target)"
  have poll: "ensures (?R target) (poll_until env (sd_container_group_name x) (refresh_judge x plan eff target))
      (\<lambda>g h. ?T h \<and> refreshed env x plan eff g h) (\<lambda>e. ?T)" for target
    by (rule ensures_weaken [where P = "?R target", OF ensures_poll])
      (auto simp: refreshed_def intro: refresh_trace_read dest: refresh_judge_settled)
  show ?thesis
    unfolding refresh_container_group_runtime_def Let_def assms bind_lift
    by (intro ensures_bind [OF ensures_handle [OF pre]] ensures_bind [OF decide] ensures_bind [OF build]
        ensures_handle [OF ensures_bind [OF send_refresh_ensures poll]])
qed

end
