(* ===== verification/QueueAdmissionFacts.thy ===== *)
theory QueueAdmissionFacts
  imports QueueAdmission RuntimeAdmissionFacts
begin

text \<open>
  Properties of the admission of a job: which failures are conclusive, what the demand for one worker sends and returns,
  and which worker is admitted.
\<close>

section \<open>Conclusive failures\<close>

text \<open>The provider answered a call, and every call of a run.\<close>

fun call_answered :: "salad_client \<Rightarrow> provider_call list \<Rightarrow> provider_call \<Rightarrow> bool" where
  "call_answered client h (CallGetContainerGroup n) \<longleftrightarrow> \<not> isl (sc_get_container_group client h n)"
| "call_answered client h (CallGetQueue n) \<longleftrightarrow> \<not> isl (sc_get_queue client h n)"
| "call_answered client h (CallListInstances n) \<longleftrightarrow> \<not> isl (sc_list_container_group_instances client h n)"
| "call_answered client h (CallUpdateContainerGroup n p) \<longleftrightarrow> \<not> isl (sc_update_container_group client h n p)"
| "call_answered client h (CallStartContainerGroup n) \<longleftrightarrow> \<not> isl (sc_start_container_group client h n)"
| "call_answered client h (CallStopContainerGroup n) \<longleftrightarrow> \<not> isl (sc_stop_container_group client h n)"
| "call_answered client h (CallCreateQueue n) \<longleftrightarrow> \<not> isl (sc_create_queue client h n)"
| "call_answered client h (CallCreateContainerGroup p) \<longleftrightarrow> \<not> isl (sc_create_container_group client h p)"

fun all_answered :: "salad_client \<Rightarrow> provider_call list \<Rightarrow> provider_call list \<Rightarrow> bool" where
  "all_answered client h [] \<longleftrightarrow> True"
| "all_answered client h (c # new) \<longleftrightarrow> call_answered client h c \<and> all_answered client (h @ [c]) new"

lemma all_answered_append:
  "all_answered client h (new @ new') \<longleftrightarrow> all_answered client h new \<and> all_answered client (h @ new) new'"
  by (induction new arbitrary: h) auto

definition answered :: "admission_env \<Rightarrow> provider_call list \<Rightarrow> provider_call list \<Rightarrow> bool" where
  "answered env h0 h \<longleftrightarrow> (\<exists>new. h = h0 @ new \<and> all_answered (ae_client env) h0 new)"

lemma answered_refl [simp]: "answered env h h"
  by (simp add: answered_def)

lemma answered_call: "answered env h0 h \<Longrightarrow> call_answered (ae_client env) h c \<Longrightarrow> answered env h0 (h @ [c])"
  by (auto simp: answered_def all_answered_append)

text \<open>A body that raises one of the service's errors only on a complete set of answers.\<close>

definition undecided :: "admission_env \<Rightarrow> bool \<Rightarrow> provider_call list \<Rightarrow> raised \<Rightarrow> provider_call list \<Rightarrow> bool" where
  "undecided env limited h0 e h \<longleftrightarrow> (case e of Raised _ \<Rightarrow> answered env h0 h | ConvergenceTimeout \<Rightarrow> limited | ProviderError _ \<Rightarrow> True)"

definition complete :: "admission_env \<Rightarrow> bool \<Rightarrow> (raised, 'a) provider_io \<Rightarrow> bool" where
  "complete env limited m \<longleftrightarrow> (\<forall>h0. ensures (answered env h0) m (\<lambda>_. answered env h0) (undecided env limited h0))"

lemma complete_bind: "complete env limited m \<Longrightarrow> (\<And>v. complete env limited (f v)) \<Longrightarrow> complete env limited (bind_io m f)"
  unfolding complete_def by (blast intro: ensures_bind)

lemma complete_checked: "complete env limited (checked m)"
  unfolding complete_def by (intro allI ensures_checked) (simp_all add: undecided_def)

lemma complete_value: "complete env limited (lift_io (Inr v))"
  unfolding complete_def by (intro allI ensures_lift) simp_all

lemma complete_calls:
  "complete env limited (read_group env name)" "complete env limited (read_queue env name)"
  "complete env limited (list_instances env name)" "complete env limited (update_group env name patch)"
  "complete env limited (start_group env name)"
  unfolding complete_def read_group_def read_queue_def list_instances_def update_group_def start_group_def
  by (intro allI ensures_provider; simp add: undecided_def answered_call)+

lemma complete_poll: "complete env True (poll_until env name judge)"
proof -
  have "complete env True (poll_group env name judge n)" for n
  proof (induction n)
    case 0
    then show ?case by (simp add: complete_def ensures_def undecided_def)
  next
    case (Suc n)
    then show ?case unfolding poll_group.simps
      by (intro complete_bind complete_calls complete_checked) (simp add: complete_value)
  qed
  then show ?thesis by (simp add: complete_def ensures_def poll_until_def)
qed

lemma complete_if: "(b \<Longrightarrow> complete env limited m) \<Longrightarrow> (\<not> b \<Longrightarrow> complete env limited m') \<Longrightarrow> complete env limited (if b then m else m')"
  by simp

lemmas complete_rules = complete_bind complete_checked complete_value complete_calls complete_if

text \<open>An operation fails conclusively: it reports the worker unavailable, or every call it made was answered.\<close>

definition conclusive :: "admission_env \<Rightarrow> (deployment_error, 'a) provider_io \<Rightarrow> bool" where
  "conclusive env m \<longleftrightarrow> (\<forall>h0. ensures (answered env h0) m (\<lambda>_. answered env h0)
     (\<lambda>e h. is_unavailable e \<or> answered env h0 h))"

lemma conclusive_bind: "conclusive env m \<Longrightarrow> (\<And>v. conclusive env (f v)) \<Longrightarrow> conclusive env (bind_io m f)"
  unfolding conclusive_def by (blast intro: ensures_bind)

lemma conclusive_lift: "conclusive env (lift_io m)"
  unfolding conclusive_def by (intro allI ensures_lift) simp_all

lemma conclusive_handle:
  assumes "complete env limited m" "is_unavailable on_provider" "limited \<Longrightarrow> is_unavailable on_timeout"
  shows "conclusive env (handle_io (conclude keep on_timeout on_provider otherwise) m)"
  unfolding conclusive_def
proof (intro allI)
  fix h0
  have m: "ensures (answered env h0) m (\<lambda>_. answered env h0) (undecided env limited h0)"
    using assms(1) by (simp add: complete_def)
  show "ensures (answered env h0) (handle_io (conclude keep on_timeout on_provider otherwise) m)
      (\<lambda>_. answered env h0) (\<lambda>e h. is_unavailable e \<or> answered env h0 h)"
    by (rule ensures_handle [OF m])
      (use assms(2,3) in \<open>auto simp: undecided_def conclude_def split: raised.splits\<close>)
qed

section \<open>Mutations of an admission\<close>

text \<open>The mutations since \<open>h0\<close> are one of the sequences \<open>ms\<close>.\<close>

definition sends :: "provider_call list \<Rightarrow> provider_call list set \<Rightarrow> provider_call list \<Rightarrow> bool" where
  "sends h0 ms h \<longleftrightarrow> (\<exists>new. h = h0 @ new \<and> mutations new \<in> ms)"

lemma sends_query: "sends h0 ms h \<Longrightarrow> \<not> is_mutation c \<Longrightarrow> sends h0 ms (h @ [c])"
  by (auto simp: sends_def)

lemma sends_mutation: "sends h0 ms h \<Longrightarrow> is_mutation c \<Longrightarrow> (\<And>m. m \<in> ms \<Longrightarrow> m @ [c] \<in> ms') \<Longrightarrow> sends h0 ms' (h @ [c])"
  by (auto simp: sends_def)

lemma sends_mono: "sends h0 ms h \<Longrightarrow> ms \<subseteq> ms' \<Longrightarrow> sends h0 ms' h"
  by (auto simp: sends_def)

text \<open>The group was read in this run, and nothing was changed since.\<close>

definition observed :: "admission_env \<Rightarrow> SaladDeployment \<Rightarrow> provider_call list \<Rightarrow> SaladContainerGroup
    \<Rightarrow> provider_call list \<Rightarrow> bool" where
  "observed env x h0 g h \<longleftrightarrow> (\<exists>seen later. h = h0 @ seen @ read_call x # later \<and> mutations later = []
     \<and> sc_get_container_group (ae_client env) (h0 @ seen) (sd_container_group_name x) = Inr g)"

lemma observed_read: "sends h0 ms h \<Longrightarrow> sc_get_container_group (ae_client env) h (sd_container_group_name x) = Inr g
    \<Longrightarrow> observed env x h0 g (h @ [read_call x])"
  unfolding sends_def observed_def by (elim exE conjE) (rule_tac x = new in exI, rule_tac x = "[]" in exI, simp)

lemma observed_query: "observed env x h0 g h \<Longrightarrow> \<not> is_mutation c \<Longrightarrow> observed env x h0 g (h @ [c])"
  unfolding observed_def by (elim exE conjE) (rule_tac x = seen in exI, rule_tac x = "later @ [c]" in exI, simp)

text \<open>The three mutations an admission may send, in their order: the autoscaler floor, unless the admission is bound to an
  identity; the replica count; the start.\<close>

definition floor_patches :: "SaladDeployment \<Rightarrow> identity \<Rightarrow> int \<Rightarrow> provider_call list set" where
  "floor_patches x bound eff = insert [] (if bound \<noteq> None then {}
     else {[CallUpdateContainerGroup (sd_container_group_name x) [(''queue_autoscaler'', PDict d)]] | d.
       desired_queue_autoscaler x (Some eff) = Inr d})"

definition sized_patches :: "SaladDeployment \<Rightarrow> identity \<Rightarrow> int \<Rightarrow> provider_call list set" where
  "sized_patches x bound eff = floor_patches x bound eff
     \<union> {m @ [CallUpdateContainerGroup (sd_container_group_name x) [(''replicas'', PInt eff)]] | m. m \<in> floor_patches x bound eff}"

definition started_patches :: "SaladDeployment \<Rightarrow> identity \<Rightarrow> int \<Rightarrow> provider_call list set" where
  "started_patches x bound eff =
     {m @ [CallStartContainerGroup (sd_container_group_name x)] | m. m \<in> sized_patches x bound eff}"

definition admission_mutations :: "SaladDeployment \<Rightarrow> identity \<Rightarrow> int \<Rightarrow> provider_call list set" where
  "admission_mutations x bound eff = sized_patches x bound eff \<union> started_patches x bound eff"

text \<open>A group that may be admitted: read since the last mutation, it matches the deployment, the floor and the identity.\<close>

definition admissible :: "admission_env \<Rightarrow> SaladDeployment \<Rightarrow> identity \<Rightarrow> int \<Rightarrow> provider_call list
    \<Rightarrow> SaladContainerGroup \<Rightarrow> provider_call list \<Rightarrow> bool" where
  "admissible env x bound eff h0 g h \<longleftrightarrow> observed env x h0 g h \<and> validate_bound x bound (Some eff) g = Inr ()
     \<and> \<not> cg_pending_change g"

lemma validate_bound_parts:
  "validate_bound x bound eff g = Inr () \<longleftrightarrow>
     validate_runtime_group x g eff = Inr () \<and> validate_runtime_identity bound g = Inr ()"
  by (auto simp: validate_bound_def bindE_eq_Inr)

lemma autoscaler_judge_settled:
  "autoscaler_judge x bound eff target g = Inr True
    \<Longrightarrow> validate_bound x bound (Some eff) g = Inr () \<and> \<not> cg_pending_change g"
  by (auto simp: autoscaler_judge_def validate_bound_parts bindE_eq_Inr split: if_splits)

lemma replica_judge_settled:
  "replica_judge x bound eff target g = Inr True
    \<Longrightarrow> validate_bound x bound (Some eff) g = Inr () \<and> \<not> cg_pending_change g \<and> eff \<le> cg_replicas g"
  by (auto simp: replica_judge_def bindE_eq_Inr split: if_splits)

lemma start_judge_settled:
  "start_judge x bound eff v g = Inr True
    \<Longrightarrow> validate_bound x bound (Some eff) g = Inr () \<and> \<not> cg_pending_change g"
  by (auto simp: start_judge_def bindE_eq_Inr split: if_splits)

lemma poll_admissible:
  assumes "\<And>g. judge g = Inr True \<Longrightarrow> validate_bound x bound (Some eff) g = Inr () \<and> \<not> cg_pending_change g \<and> R g"
  shows "ensures (sends h0 ms) (poll_until env (sd_container_group_name x) judge)
    (\<lambda>g h. sends h0 ms h \<and> admissible env x bound eff h0 g h \<and> R g) (\<lambda>e. sends h0 ms)"
  by (rule ensures_poll) (auto simp: admissible_def sends_query intro: observed_read dest: assms)

lemma check_sends: "ensures (sends h0 ms) (checked c) (\<lambda>_. sends h0 ms) (\<lambda>e. sends h0 ms)"
  by (rule ensures_checked) auto

lemma hold_floor_ensures:
  "ensures (\<lambda>h. sends h0 {[]} h \<and> observed env x h0 g h \<and> \<not> cg_pending_change g) (hold_floor env x bound eff g)
     (\<lambda>g h. sends h0 (floor_patches x bound eff) h \<and> admissible env x bound eff h0 g h)
     (\<lambda>e. sends h0 (floor_patches x bound eff))"
proof -
  let ?P = "\<lambda>h. sends h0 {[]} h \<and> observed env x h0 g h \<and> \<not> cg_pending_change g"
  let ?F = "floor_patches x bound eff"
  have none: "sends h0 {[]} h \<Longrightarrow> sends h0 ?F h" for h by (rule sends_mono) (auto simp: floor_patches_def)
  have raise: "ensures ?P (raise_autoscaler_floor env x bound eff g)
      (\<lambda>g h. sends h0 ?F h \<and> admissible env x bound eff h0 g h) (\<lambda>e. sends h0 ?F)" if b: "bound = None"
  proof -
    have desired: "ensures (sends h0 {[]}) (checked (desired_queue_autoscaler x (Some eff)))
        (\<lambda>d h. sends h0 {[]} h \<and> desired_queue_autoscaler x (Some eff) = Inr d) (\<lambda>e. sends h0 ?F)"
      by (rule ensures_checked) (auto intro: none)
    have update: "ensures (\<lambda>h. sends h0 {[]} h \<and> desired_queue_autoscaler x (Some eff) = Inr d)
        (update_group env (sd_container_group_name x) [(''queue_autoscaler'', PDict d)])
        (\<lambda>_. sends h0 ?F) (\<lambda>e. sends h0 ?F)" for d
      unfolding update_group_def
      by (rule ensures_provider) (auto simp: floor_patches_def b intro!: sends_mutation)
    have poll: "ensures (sends h0 ?F) (poll_until env (sd_container_group_name x) (autoscaler_judge x bound eff v))
        (\<lambda>g h. sends h0 ?F h \<and> admissible env x bound eff h0 g h) (\<lambda>e. sends h0 ?F)" for v
      by (rule ensures_weaken [OF poll_admissible [where R = "\<lambda>_. True" and bound = bound and eff = eff]])
        (auto dest: autoscaler_judge_settled)
    have first: "ensures ?P (checked c) (\<lambda>_. sends h0 {[]}) (\<lambda>e. sends h0 ?F)" for c :: "deployment_error + unit"
      by (rule ensures_checked) (auto intro: none)
    show ?thesis unfolding raise_autoscaler_floor_def Let_def
      by (intro ensures_bind [OF first] ensures_bind [OF desired] ensures_bind [OF update] ensures_bind [OF check_sends] poll)
  qed
  have keep: "ensures ?P (lift_io (Inr g)) (\<lambda>g h. sends h0 ?F h \<and> admissible env x bound eff h0 g h) (\<lambda>e. sends h0 ?F)"
    if "validate_bound x bound (Some eff) g = Inr ()"
    by (rule ensures_lift) (use that in \<open>auto simp: admissible_def intro: none\<close>)
  have stop: "ensures ?P (checked (Inl e)) (\<lambda>g h. sends h0 ?F h \<and> admissible env x bound eff h0 g h) (\<lambda>e. sends h0 ?F)"
    for e
    by (rule ensures_checked) (auto intro: none)
  show ?thesis
  proof (cases "validate_bound x bound (Some eff) g")
    case (Inl e)
    show ?thesis
    proof (cases "is_validation e \<and> bound = None")
      case True
      with Inl have "hold_floor env x bound eff g = raise_autoscaler_floor env x bound eff g"
        by (cases e) (simp_all add: hold_floor_def)
      with raise True show ?thesis by simp
    next
      case False
      with Inl have "hold_floor env x bound eff g = checked (Inl e)"
        by (cases e) (auto simp: hold_floor_def invalid_def)
      with stop show ?thesis by simp
    qed
  next
    case (Inr u)
    then have "hold_floor env x bound eff g = lift_io (Inr g)" by (simp add: hold_floor_def)
    with keep Inr show ?thesis by simp
  qed
qed

lemma raise_replicas_ensures:
  "ensures (\<lambda>h. sends h0 (floor_patches x bound eff) h \<and> admissible env x bound eff h0 g h) (raise_replicas env x bound eff g)
     (\<lambda>g h. sends h0 (sized_patches x bound eff) h \<and> admissible env x bound eff h0 g h \<and> eff \<le> cg_replicas g)
     (\<lambda>e. sends h0 (sized_patches x bound eff))"
proof -
  let ?P = "\<lambda>h. sends h0 (floor_patches x bound eff) h \<and> admissible env x bound eff h0 g h"
  let ?S = "sized_patches x bound eff"
  have mono: "sends h0 (floor_patches x bound eff) h \<Longrightarrow> sends h0 ?S h" for h
    by (rule sends_mono) (auto simp: sized_patches_def)
  have update: "ensures ?P (update_group env (sd_container_group_name x) [(''replicas'', PInt eff)])
      (\<lambda>_. sends h0 ?S) (\<lambda>e. sends h0 ?S)"
    unfolding update_group_def
    by (rule ensures_provider) (auto simp: sized_patches_def intro!: sends_mutation)
  have poll: "ensures (sends h0 ?S) (poll_until env (sd_container_group_name x) (replica_judge x bound eff v))
      (\<lambda>g h. sends h0 ?S h \<and> admissible env x bound eff h0 g h \<and> eff \<le> cg_replicas g) (\<lambda>e. sends h0 ?S)" for v
    by (rule poll_admissible) (auto dest: replica_judge_settled)
  have keep: "ensures ?P (lift_io (Inr g))
      (\<lambda>g h. sends h0 ?S h \<and> admissible env x bound eff h0 g h \<and> eff \<le> cg_replicas g) (\<lambda>e. sends h0 ?S)"
    if "\<not> cg_replicas g < eff"
    by (rule ensures_lift) (use that in \<open>auto intro: mono\<close>)
  show ?thesis unfolding raise_replicas_def Let_def
    by (intro ensures_if ensures_bind [OF update] ensures_bind [OF check_sends] poll keep)
qed

lemma start_stopped_ensures:
  "ensures (\<lambda>h. sends h0 (sized_patches x bound eff) h \<and> admissible env x bound eff h0 g h \<and> eff \<le> cg_replicas g)
     (start_stopped env x bound eff g)
     (\<lambda>g h. admissible env x bound eff h0 g h \<and> (sends h0 (started_patches x bound eff) h
        \<or> sends h0 (sized_patches x bound eff) h \<and> eff \<le> cg_replicas g \<and> \<not> is_authoritatively_stopped g
            \<and> py_lower (py_strip (cg_status g)) \<noteq> ''failed''))
     (\<lambda>e. sends h0 (admission_mutations x bound eff))"
proof -
  let ?P = "\<lambda>h. sends h0 (sized_patches x bound eff) h \<and> admissible env x bound eff h0 g h \<and> eff \<le> cg_replicas g"
  let ?Q = "\<lambda>g h. admissible env x bound eff h0 g h \<and> (sends h0 (started_patches x bound eff) h
        \<or> sends h0 (sized_patches x bound eff) h \<and> eff \<le> cg_replicas g \<and> \<not> is_authoritatively_stopped g
            \<and> py_lower (py_strip (cg_status g)) \<noteq> ''failed'')"
  let ?E = "\<lambda>e. sends h0 (admission_mutations x bound eff)"
  have mono: "sends h0 (sized_patches x bound eff) h \<Longrightarrow> ?E e h" "sends h0 (started_patches x bound eff) h \<Longrightarrow> ?E e h"
    for h and e :: raised
    by (auto simp: admission_mutations_def elim: sends_mono)
  have pending: "ensures ?P (checked c) (\<lambda>_. ?P) ?E" for c :: "deployment_error + unit"
    by (rule ensures_checked) (auto intro: mono)
  have failed: "ensures ?P (checked (if py_lower (py_strip (cg_status g)) = ''failed'' then invalid message else Inr ()))
      (\<lambda>_ h. ?P h \<and> py_lower (py_strip (cg_status g)) \<noteq> ''failed'') ?E" for message
    by (rule ensures_checked) (auto intro: mono split: if_splits)
  have start: "ensures (\<lambda>h. ?P h \<and> b) (start_group env (sd_container_group_name x))
      (\<lambda>_. sends h0 (started_patches x bound eff)) ?E" for b
    unfolding start_group_def
    by (rule ensures_provider) (auto simp: started_patches_def intro!: mono(2) sends_mutation)
  have poll: "ensures (sends h0 (started_patches x bound eff))
      (poll_until env (sd_container_group_name x) (start_judge x bound eff v)) ?Q ?E" for v
    by (rule ensures_weaken [OF poll_admissible [where R = "\<lambda>_. True" and bound = bound and eff = eff
          and ms = "started_patches x bound eff"]])
      (auto dest: start_judge_settled intro: mono)
  have keep: "ensures (\<lambda>h. ?P h \<and> py_lower (py_strip (cg_status g)) \<noteq> ''failed'') (lift_io (Inr g)) ?Q ?E"
    if "\<not> is_authoritatively_stopped g"
    by (rule ensures_lift) (use that in auto)
  show ?thesis unfolding start_stopped_def Let_def
    by (intro ensures_bind [OF pending] ensures_bind [OF failed] ensures_if ensures_bind [OF start] poll keep)
qed

lemma queue_admission_ensures:
  assumes "queue_admission_allowed x eff manifest m = Inr bound"
  shows "ensures (\<lambda>h. h = h0) (ensure_container_group_queue_admission env x eff manifest m)
     (\<lambda>g h. admissible env x bound eff h0 g h \<and> (sends h0 (started_patches x bound eff) h
        \<or> sends h0 (sized_patches x bound eff) h \<and> eff \<le> cg_replicas g \<and> \<not> is_authoritatively_stopped g
            \<and> py_lower (py_strip (cg_status g)) \<noteq> ''failed''))
     (\<lambda>e. sends h0 (admission_mutations x bound eff))"
proof -
  let ?E = "\<lambda>e. sends h0 (admission_mutations x bound eff)"
  have floor: "sends h0 {[]} h \<Longrightarrow> ?E e h" "sends h0 (floor_patches x bound eff) h \<Longrightarrow> ?E e h"
      "sends h0 (sized_patches x bound eff) h \<Longrightarrow> ?E e h" for h and e :: raised
    by (auto simp: admission_mutations_def sized_patches_def floor_patches_def elim!: sends_mono)
  let ?P = "\<lambda>g h. sends h0 {[]} h \<and> observed env x h0 g h"
  have read: "ensures (\<lambda>h. h = h0) (read_group env (sd_container_group_name x)) ?P ?E"
    unfolding read_group_def
    by (rule ensures_provider) (auto intro!: floor(1) observed_read sends_query simp: sends_def [where h = h0])
  have queue: "ensures (?P g) (read_queue env (sd_queue_name x)) (\<lambda>_. ?P g) ?E" for g
    unfolding read_queue_def by (rule ensures_provider) (auto intro!: floor(1) intro: observed_query sends_query)
  have check: "ensures (?P g) (checked c) (\<lambda>_. ?P g) ?E" for g and c :: "deployment_error + unit"
    by (rule ensures_checked) (auto intro: floor)
  have pending: "ensures (?P g) (checked (if cg_pending_change g then unavailable message else Inr ()))
      (\<lambda>_ h. sends h0 {[]} h \<and> observed env x h0 g h \<and> \<not> cg_pending_change g) ?E" for g message
    by (rule ensures_checked) (auto intro: floor split: if_splits)
  have hold: "ensures (\<lambda>h. sends h0 {[]} h \<and> observed env x h0 g h \<and> \<not> cg_pending_change g)
      (hold_floor env x bound eff g) (\<lambda>g h. sends h0 (floor_patches x bound eff) h \<and> admissible env x bound eff h0 g h) ?E"
    for g
    by (rule ensures_weaken [OF hold_floor_ensures]) (auto intro: floor(2))
  have size: "ensures (\<lambda>h. sends h0 (floor_patches x bound eff) h \<and> admissible env x bound eff h0 g h)
      (raise_replicas env x bound eff g)
      (\<lambda>g h. sends h0 (sized_patches x bound eff) h \<and> admissible env x bound eff h0 g h \<and> eff \<le> cg_replicas g) ?E" for g
    by (rule ensures_weaken [OF raise_replicas_ensures]) (auto intro: floor(3))
  show ?thesis
    unfolding ensure_container_group_queue_admission_def assms bind_lift
    by (rule ensures_handle [where E = ?E]) (intro ensures_bind [OF read] ensures_bind [OF queue] ensures_bind [OF check]
        ensures_bind [OF pending] ensures_bind [OF hold] ensures_bind [OF size] start_stopped_ensures, assumption)
qed

end
