(* ===== verification/WorkerContractTheorems.thy ===== *)
theory WorkerContractTheorems
  imports WorkerContract Samples
begin

text \<open>
  The configuration that is sent is the configuration that is accepted when the provider reports it back. The report is
  described as the code's comments document it: the priority is shown at the level of the group, the default shared
  memory size is added to the resources.
\<close>

section \<open>Objects\<close>

lemma map_of_put [simp]: "map_of (put_key k v d) = (map_of d)(k \<mapsto> v)"
  by (simp add: put_key_def update_conv')

lemma py_get_put [simp]: "py_get (put_key k v d) k' = (if k' = k then v else py_get d k')"
  by (simp add: py_get_def)

lemma py_get_delete [simp]: "py_get (AList.delete k d) k' = (if k' = k then PNone else py_get d k')"
  by (simp add: py_get_def delete_conv')

lemma distinct_put [simp]: "distinct (map fst d) \<Longrightarrow> distinct (map fst (put_key k v d))"
  by (simp add: put_key_def distinct_update)

lemma py_get_map_of: "py_get d k \<noteq> PNone \<Longrightarrow> map_of d k = Some (py_get d k)"
  by (auto simp: py_get_def split: option.splits)

lemma well_keyed_put: "well_keyed (PDict d) \<Longrightarrow> well_keyed v \<Longrightarrow> well_keyed (PDict (put_key k v d))"
proof -
  assume d: "well_keyed (PDict d)" and v: "well_keyed v"
  have "list_all (\<lambda>(k, v). well_keyed v) (put_key k v d)"
    using d v unfolding put_key_def by (induction d) auto
  with d show ?thesis by simp
qed

lemma well_keyed_get: "well_keyed (PDict d) \<Longrightarrow> py_get d k = w \<Longrightarrow> well_keyed w"
  by (auto simp: py_get_def list_all_iff split: option.splits dest!: map_of_SomeD)

text \<open>A value matches itself, an object every object with the same entries.\<close>

lemma matches_same_map:
  assumes "map_of vs = map_of es" and "distinct (map fst es)"
    and "\<And>k e. (k, e) \<in> set es \<Longrightarrow> matches_worker_contract b e e"
  shows "matches_worker_contract b (PDict vs) (PDict es)"
proof -
  have "fst ` set vs = fst ` set es" using assms(1) by (metis dom_map_of_conv_image_fst)
  then have "list_all (\<lambda>(k, v). k \<in> fst ` set es \<or> (b \<and> v = PNone)) vs"
    unfolding list_all_iff by (metis (mono_tags, lifting) case_prodI2 fst_conv image_eqI)
  moreover have "list_all (\<lambda>(k, e). case map_of vs k of None \<Rightarrow> False | Some v \<Rightarrow> matches_worker_contract b v e) es"
    using assms by (auto simp: list_all_iff)
  ultimately show ?thesis by simp
qed

lemma matches_refl: "well_keyed v \<Longrightarrow> matches_worker_contract b v v"
proof (induction v rule: well_keyed.induct)
  case (1 xs)
  then show ?case by (auto simp: list_all_iff list_all2_same)
next
  case (2 xs)
  have "matches_worker_contract b e e" if "(k, e) \<in> set xs" for k e
    using 2 that by (auto simp: list_all_iff)
  with 2(2) show ?case by (intro matches_same_map) auto
qed simp_all

lemma matches_probes: "(k, v) \<in> set WORKER_PROBE_CONTRACTS \<Longrightarrow> matches_worker_contract b v v"
proof -
  have "list_all (\<lambda>(k, v). well_keyed v) WORKER_PROBE_CONTRACTS" by code_simp
  then show "(k, v) \<in> set WORKER_PROBE_CONTRACTS \<Longrightarrow> ?thesis" by (auto simp: list_all_iff intro: matches_refl)
qed

section \<open>The provider's report\<close>

definition reported_container :: "json_object \<Rightarrow> json_object" where
  "reported_container container =
     (let c = AList.delete ''priority'' container in
      case py_get c ''resources'' of
        PDict r \<Rightarrow> put_key ''resources''
          (PDict (if has_key r ''shm_size'' then r else r @ [(''shm_size'', PInt SALAD_DEFAULT_SHM_SIZE)])) c
      | _ \<Rightarrow> c)"

definition provider_report :: "json_object \<Rightarrow> json_object" where
  "provider_report payload =
     (case py_get payload ''container'' of
        PDict container \<Rightarrow> put_key ''priority'' (py_get container ''priority'')
          (put_key ''container'' (PDict (reported_container container)) payload)
      | _ \<Rightarrow> payload)"

text \<open>The deployment asks for the default shared memory size in so many words.\<close>

definition asks_for_default_shm :: "SaladDeployment \<Rightarrow> bool" where
  "asks_for_default_shm x \<longleftrightarrow>
     (case py_get (sd_provider_configuration x) ''container'' of
        PDict c \<Rightarrow> (case py_get c ''resources'' of
            PDict r \<Rightarrow> py_eq (py_get r ''shm_size'') (PInt SALAD_DEFAULT_SHM_SIZE) | _ \<Rightarrow> False)
      | _ \<Rightarrow> False)"

lemma filter_shm: "filter (\<lambda>(k, _). k \<noteq> ''shm_size'') r = AList.delete ''shm_size'' r"
  by (auto simp: AList.delete_eq intro!: filter_cong)

lemma reported_resources:
  assumes "well_keyed (PDict desired)" and "py_get c ''resources'' = py_get desired ''resources''"
    and "(''resources'', e) \<in> set desired"
  shows "matches_worker_contract True (observed_container_value (reported_container c) ''resources'') e
    \<longleftrightarrow> \<not> (case e of PDict r \<Rightarrow> py_eq (py_get r ''shm_size'') (PInt SALAD_DEFAULT_SHM_SIZE) | _ \<Rightarrow> False)"
proof -
  have e: "py_get desired ''resources'' = e" "well_keyed e"
    using assms(1,3) by (auto simp: py_get_def list_all_iff map_of_is_SomeI)
  show ?thesis
  proof (cases e)
    case (PDict r)
    then have r: "distinct (map fst r)" "\<And>k v. (k, v) \<in> set r \<Longrightarrow> well_keyed v" using e(2) by (auto simp: list_all_iff)
    show ?thesis
    proof (cases "has_key r ''shm_size''")
      case True
      then have obs: "observed_container_value (reported_container c) ''resources'' =
          (if py_eq (py_get r ''shm_size'') (PInt SALAD_DEFAULT_SHM_SIZE) then PDict (AList.delete ''shm_size'' r) else PDict r)"
        using assms(2) e(1) PDict by (simp add: observed_container_value_def reported_container_def Let_def filter_shm)
      have "\<not> matches_worker_contract True (PDict (AList.delete ''shm_size'' r)) e"
      proof -
        obtain v where "(''shm_size'', v) \<in> set r" using True by (auto simp: has_key_def dest: map_of_SomeD)
        moreover have "map_of (AList.delete ''shm_size'' r) ''shm_size'' = None" by (simp add: delete_conv')
        ultimately show ?thesis
          using PDict by (auto simp: list_all_iff intro!: bexI [of _ "(''shm_size'', v)"])
      qed
      moreover have "matches_worker_contract True e e" using e(2) by (rule matches_refl)
      ultimately show ?thesis using obs PDict by simp
    next
      case False
      then have no: "''shm_size'' \<notin> fst ` set r" by (simp add: has_key_def map_of_eq_None_iff)
      have "AList.delete ''shm_size'' r = r"
        using no by (force simp: AList.delete_eq intro!: filter_True)
      moreover have "py_get (r @ [(''shm_size'', PInt SALAD_DEFAULT_SHM_SIZE)]) ''shm_size'' = PInt SALAD_DEFAULT_SHM_SIZE"
        using False by (simp add: py_get_def has_key_def map_add_def)
      ultimately have obs: "observed_container_value (reported_container c) ''resources'' = PDict r"
        using False assms(2) e(1) PDict
        by (simp add: observed_container_value_def reported_container_def Let_def filter_shm)
      moreover have "py_get r ''shm_size'' = PNone" using False by (simp add: py_get_def has_key_def)
      ultimately show ?thesis using PDict matches_refl [OF e(2), of True] by (simp del: matches_worker_contract.simps)
    qed
  qed (use assms(2) e matches_refl [OF e(2), of True] in
      \<open>simp_all add: observed_container_value_def reported_container_def Let_def del: matches_worker_contract.simps\<close>)
qed

lemma reported_other: "k \<noteq> ''resources'' \<Longrightarrow> k \<noteq> ''priority'' \<Longrightarrow>
    observed_container_value (reported_container c) k = py_get c k"
  by (auto simp: observed_container_value_def reported_container_def Let_def split: pyval.splits)

section \<open>Built payloads\<close>

definition stripped_configuration :: "SaladDeployment \<Rightarrow> json_object" where
  "stripped_configuration x = AList.delete ''image_pull_mode'' (AList.delete ''runtime_binding_contract_sha256''
     (AList.delete RUNTIME_BINDINGS_KEY (sd_provider_configuration x)))"

lemma stripped_get [simp]:
  "k \<notin> {''image_pull_mode'', ''runtime_binding_contract_sha256'', RUNTIME_BINDINGS_KEY} \<Longrightarrow>
    map_of (stripped_configuration x) k = map_of (sd_provider_configuration x) k"
  "k \<notin> {''image_pull_mode'', ''runtime_binding_contract_sha256'', RUNTIME_BINDINGS_KEY} \<Longrightarrow>
    py_get (stripped_configuration x) k = py_get (sd_provider_configuration x) k"
  by (simp_all add: stripped_configuration_def delete_conv' RUNTIME_BINDINGS_KEY_def py_get_def)

lemma updates_probes:
  "map_of (AList.updates (map fst WORKER_PROBE_CONTRACTS) (map snd WORKER_PROBE_CONTRACTS) d) k =
     (case map_of WORKER_PROBE_CONTRACTS k of None \<Rightarrow> map_of d k | Some v \<Rightarrow> Some v)"
  by (simp add: WORKER_PROBE_CONTRACTS_def updates_conv' update_conv')

lemma sensitive_item:
  "(k, v) \<in> set d \<Longrightarrow> contains_sensitive_configuration v \<Longrightarrow> contains_sensitive_configuration (PDict d)"
  by (force simp: list_ex_iff)

lemma map_of_updates_object:
  "distinct (map fst ov) \<Longrightarrow> map_of (AList.updates (map fst ov) (map snd ov) d) k =
     (case map_of ov k of None \<Rightarrow> map_of d k | Some v \<Rightarrow> Some v)"
proof (induction ov arbitrary: d)
  case (Cons kv ov)
  obtain k' v where "kv = (k', v)" by (cases kv)
  with Cons show ?case
    by (cases "k = k'") (auto simp: update_conv' map_of_eq_None_iff split: option.splits)
qed simp

text \<open>What a built payload holds.\<close>

lemma payload_parts:
  assumes "container_group_payload x resolver overrides eff res = Inr payload"
  obtains container qc autoscaler container' where
    "payload_container x (stripped_configuration x) = Inr container"
    "payload_queue_connection x (stripped_configuration x) = Inr qc"
    "payload_autoscaler x (stripped_configuration x) eff = Inr autoscaler"
    "py_get payload ''container'' = PDict container'"
    "\<And>k. k \<noteq> ''image'' \<Longrightarrow> k \<noteq> ''environment_variables'' \<Longrightarrow> py_get container' k = py_get container k"
    "py_get container' ''image'' = PStr (sd_worker_image_digest x)"
    "py_get payload ''queue_connection'' = PDict qc" "py_get payload ''queue_autoscaler'' = PDict autoscaler"
    "py_get payload ''restart_policy'' = PStr WORKER_RESTART_POLICY"
    "\<And>k v. (k, v) \<in> set WORKER_PROBE_CONTRACTS \<Longrightarrow> py_get payload k = v"
    "\<not> contains_sensitive_configuration (PDict (stripped_configuration x))"
    "\<And>k v. distinct (map fst overrides) \<Longrightarrow> map_of overrides k = Some v
      \<Longrightarrow> \<exists>e. py_get container' ''environment_variables'' = PDict e \<and> py_get e k = v"
proof -
  have probes: "map_of WORKER_PROBE_CONTRACTS k = Some v" if "(k, v) \<in> set WORKER_PROBE_CONTRACTS" for k v
    using that by (auto simp: WORKER_PROBE_CONTRACTS_def)
  have names: "map_of WORKER_PROBE_CONTRACTS ''restart_policy'' = None" by code_simp
  have others: "k \<noteq> ''container'' \<and> k \<noteq> ''queue_connection'' \<and> k \<noteq> ''queue_autoscaler''"
    if "(k, v) \<in> set WORKER_PROBE_CONTRACTS" for k v
    using that by (auto simp: WORKER_PROBE_CONTRACTS_def)
  obtain container qc autoscaler resolved where parts:
      "payload_container x (stripped_configuration x) = Inr container"
      "payload_queue_connection x (stripped_configuration x) = Inr qc"
      "payload_autoscaler x (stripped_configuration x) eff = Inr autoscaler"
      "\<not> contains_sensitive_configuration (PDict (stripped_configuration x))"
    and payload: "payload =
      (let environment = AList.updates (map fst overrides) (map snd overrides) resolved;
           image = put_key ''image'' (PStr (sd_worker_image_digest x)) container;
           container' = (if environment \<noteq> [] then put_key ''environment_variables'' (PDict environment) image else image);
           named = put_key ''display_name'' (PStr (sd_container_group_name x))
             (put_key ''name'' (PStr (sd_container_group_name x)) (AList.delete ''priority'' (stripped_configuration x)));
           policies = put_key ''restart_policy'' (PStr WORKER_RESTART_POLICY)
             (put_key ''replicas'' (PInt 0) (put_key ''autostart_policy'' (PBool True) named));
           probed = AList.updates (map fst WORKER_PROBE_CONTRACTS) (map snd WORKER_PROBE_CONTRACTS) policies
       in put_key ''queue_autoscaler'' (PDict autoscaler) (put_key ''queue_connection'' (PDict qc)
            (put_key ''container'' (PDict container') probed)))"
    using assms unfolding container_group_payload_def Let_def stripped_configuration_def [symmetric]
    by (simp only: bindE_eq_Inr require_eq_Inr sum.inject) blast
  define environment where "environment = AList.updates (map fst overrides) (map snd overrides) resolved"
  define image where "image = put_key ''image'' (PStr (sd_worker_image_digest x)) container"
  show thesis
  proof (rule that [of container qc autoscaler
      "if environment \<noteq> [] then put_key ''environment_variables'' (PDict environment) image else image"])
    show "py_get payload ''container'' =
        PDict (if environment \<noteq> [] then put_key ''environment_variables'' (PDict environment) image else image)"
      by (simp add: payload Let_def environment_def image_def)
    show "py_get payload ''restart_policy'' = PStr WORKER_RESTART_POLICY"
      by (simp add: payload Let_def py_get_def updates_probes names)
    show "py_get payload k = v" if "(k, v) \<in> set WORKER_PROBE_CONTRACTS" for k v
      using others [OF that] probes [OF that] by (simp add: payload Let_def) (simp add: py_get_def updates_probes)
    show "\<exists>e. py_get (if environment \<noteq> [] then put_key ''environment_variables'' (PDict environment) image else image)
        ''environment_variables'' = PDict e \<and> py_get e k = v"
      if ov: "distinct (map fst overrides)" "map_of overrides k = Some v" for k v
    proof (intro exI conjI)
      have m: "map_of environment k = Some v" using ov by (simp add: environment_def map_of_updates_object)
      then show "py_get environment k = v" by (simp add: py_get_def)
      from m show "py_get (if environment \<noteq> [] then put_key ''environment_variables'' (PDict environment) image else image)
        ''environment_variables'' = PDict environment" by auto
    qed
  qed (use parts in \<open>simp_all add: payload Let_def image_def\<close>)
qed

lemma payload_override:
  assumes built: "container_group_payload x resolver overrides eff res = Inr payload"
    and c: "py_get payload ''container'' = PDict c"
    and ov: "distinct (map fst overrides)" "map_of overrides k = Some v"
  obtains e where "py_get c ''environment_variables'' = PDict e" "py_get e k = v"
proof (rule payload_parts [OF built])
  fix c'
  assume c': "py_get payload ''container'' = PDict c'"
    and env: "\<And>k v. distinct (map fst overrides) \<Longrightarrow> map_of overrides k = Some v
      \<Longrightarrow> \<exists>e. py_get c' ''environment_variables'' = PDict e \<and> py_get e k = v"
  from env [OF ov] c c' show thesis using that by auto
qed

text \<open>The container that is sent agrees with the configured one on everything but image, priority and environment.\<close>

lemma payload_container_parts:
  assumes "payload_container x (stripped_configuration x) = Inr container"
  obtains desired where "py_get (sd_provider_configuration x) ''container'' = PDict desired"
    "\<And>k. k \<noteq> ''priority'' \<Longrightarrow> py_get container k = py_get desired k"
    "py_get container ''priority'' = (if py_get desired ''priority'' = PNone
       then py_get (sd_provider_configuration x) ''priority'' else py_get desired ''priority'')"
    "py_get container ''priority'' \<in> {PStr ''high'', PStr ''medium'', PStr ''low'', PStr ''batch''}"
proof (cases "py_get (sd_provider_configuration x) ''container''")
  case (PDict desired)
  let ?legacy = "py_get (sd_provider_configuration x) ''priority''" and ?own = "py_get desired ''priority''"
  let ?p = "if ?own = PNone then ?legacy else ?own"
  have names: "''container'' \<notin> {''image_pull_mode'', ''runtime_binding_contract_sha256'', RUNTIME_BINDINGS_KEY}"
      "''priority'' \<notin> {''image_pull_mode'', ''runtime_binding_contract_sha256'', RUNTIME_BINDINGS_KEY}"
    by (simp_all add: RUNTIME_BINDINGS_KEY_def)
  note get = stripped_get(2) [OF names(1), of x] stripped_get(2) [OF names(2), of x]
  have p: "container = (if ?legacy \<noteq> PNone \<and> ?own = PNone then put_key ''priority'' ?legacy desired else desired)"
      "?p \<in> {PStr ''high'', PStr ''medium'', PStr ''low'', PStr ''batch''}"
    using assms unfolding payload_container_def get PDict
    by (cases "?own = PNone"; cases "?legacy = PNone"; force simp: Let_def split: if_splits pyval.splits)+
  have q: "py_get container ''priority'' = ?p" using p(1) by auto
  show thesis
    by (rule that [OF PDict _ q]) (use p q in \<open>simp_all only: q\<close>, simp add: p(1))
qed (use assms in \<open>simp_all add: payload_container_def RUNTIME_BINDINGS_KEY_def\<close>)

lemma container_matches:
  assumes wk: "well_keyed (PDict desired)"
    and sent: "\<And>k. k \<noteq> ''image'' \<Longrightarrow> k \<noteq> ''environment_variables'' \<Longrightarrow> k \<noteq> ''priority'' \<Longrightarrow> py_get c k = py_get desired k"
    and no_env: "''environment_variables'' \<notin> fst ` set desired"
  shows "list_all (\<lambda>(key, expected). key \<in> {''image'', ''priority''}
      \<or> matches_worker_contract True (observed_container_value (reported_container c) key) expected) desired
    \<longleftrightarrow> \<not> (case py_get desired ''resources'' of
          PDict r \<Rightarrow> py_eq (py_get r ''shm_size'') (PInt SALAD_DEFAULT_SHM_SIZE) | _ \<Rightarrow> False)" (is "?l \<longleftrightarrow> \<not> ?shm")
proof -
  have get: "py_get desired k = e" "well_keyed e" if "(k, e) \<in> set desired" for k e
    using wk that by (auto simp: py_get_def list_all_iff)
  have other: "matches_worker_contract True (observed_container_value (reported_container c) k) e"
    if "(k, e) \<in> set desired" "k \<notin> {''image'', ''priority'', ''resources''}" for k e
  proof -
    have "k \<noteq> ''environment_variables''" using no_env that(1) by force
    then have "observed_container_value (reported_container c) k = e"
      using that get(1) [OF that(1)] sent [of k] reported_other [of k c] by simp
    with get(2) [OF that(1)] show ?thesis by (simp add: matches_refl)
  qed
  have res: "py_get c ''resources'' = py_get desired ''resources''" by (rule sent) simp_all
  note r = reported_resources [OF wk res]
  show ?thesis
  proof
    assume ?l
    show "\<not> ?shm"
    proof
      assume shm: ?shm
      then obtain e where e: "(''resources'', e) \<in> set desired" "py_get desired ''resources'' = e"
        by (auto simp: py_get_def split: option.splits pyval.splits dest: map_of_SomeD)
      with \<open>?l\<close> r [OF e(1)] shm show False by (auto simp: list_all_iff)
    qed
  next
    assume shm: "\<not> ?shm"
    have "k \<in> {''image'', ''priority''} \<or> matches_worker_contract True (observed_container_value (reported_container c) k) e"
      if ke: "(k, e) \<in> set desired" for k e
      using other [OF ke] r [of e] get(1) [OF ke] ke shm by (cases "k = ''resources''") auto
    then show ?l by (auto simp only: list_all_iff case_prod_beta prod.collapse)
  qed
qed

lemma autoscaler_matches:
  assumes "payload_autoscaler x (stripped_configuration x) eff = Inr a" and "deployment_ok x"
    and wk: "well_keyed (PDict (sd_provider_configuration x))"
  obtains e where "desired_queue_autoscaler x eff = Inr e" "matches_worker_contract True (PDict a) (PDict e)"
proof -
  let ?k = "''queue_autoscaler''"
  let ?base = "case py_get (sd_provider_configuration x) ?k of PDict a \<Rightarrow> a | _ \<Rightarrow> []"
  let ?put = "\<lambda>n. put_key ''desired_queue_length'' (PInt (sd_desired_queue_length x))
    (put_key ''max_replicas'' (PInt (sd_max_replicas x)) (put_key ''min_replicas'' (PInt n) ?base))"
  have get: "map_of (stripped_configuration x) ?k = map_of (sd_provider_configuration x) ?k"
    by (rule stripped_get) (simp add: RUNTIME_BINDINGS_KEY_def)
  have dom: "0 \<le> sd_min_replicas x" "sd_min_replicas x \<le> sd_max_replicas x" "sd_max_replicas x \<le> 1"
    using assms(2) by (auto simp: deployment_ok_def)
  have loop: "payload_autoscaler_loop b [(''min_replicas'', m), (''max_replicas'', M), (''desired_queue_length'', q)] = Inr a'
      \<Longrightarrow> a' = put_key ''desired_queue_length'' (PInt q) (put_key ''max_replicas'' (PInt M) (put_key ''min_replicas'' (PInt m) b))"
    for b m M q a'
    by (auto split: if_splits)
  have base: "map_of (stripped_configuration x) ?k = None \<and> ?base = [] \<or>
      (\<exists>b. map_of (stripped_configuration x) ?k = Some (PDict b) \<and> ?base = b)"
    using assms(1) unfolding payload_autoscaler_def get
    by (auto simp: bindE_eq_Inr py_get_def split: option.splits pyval.splits)
  then have full: "(case eff of None \<Rightarrow> a = ?put (sd_min_replicas x)
      | Some n \<Rightarrow> \<exists>d. desired_queue_autoscaler x (Some n) = Inr d
          \<and> a = put_key ''min_replicas'' (py_get d ''min_replicas'') (?put (sd_min_replicas x)))"
    using assms(1) unfolding payload_autoscaler_def
    by (auto simp: bindE_eq_Inr simp del: payload_autoscaler_loop.simps dest!: loop split: option.splits)
  define n where "n = (case eff of None \<Rightarrow> sd_min_replicas x | Some n \<Rightarrow> n)"
  have des: "desired_queue_autoscaler x eff = Inr (?put n)"
    using full dom by (auto simp: desired_queue_autoscaler_def n_def Let_def split: option.splits if_splits)
  have wkb: "well_keyed (PDict ?base)"
  proof (cases "py_get (sd_provider_configuration x) ?k")
    case (PDict b)
    with well_keyed_get [OF wk PDict] show ?thesis by simp
  qed simp_all
  then have wkp: "well_keyed (PDict (?put n))" by (intro well_keyed_put) simp_all
  have "map_of a = map_of (?put n)"
    using full des by (auto simp: n_def split: option.splits)
  then have "matches_worker_contract True (PDict a) (PDict (?put n))"
    using wkp by (intro matches_same_map) (auto simp: list_all_iff intro: matches_refl)
  with des show thesis by (rule that)
qed

text \<open>What no drift means; the part the provider keeps from an older version and the part that was patched may come from
  two reports.\<close>

lemma no_drift_iff:
  "group_configuration_drift x g eff = Inr None \<longleftrightarrow>
     (\<exists>container desired e.
        py_get (cg_raw g) ''container'' = PDict container
      \<and> py_get container ''image'' = PStr (sd_worker_image_digest x)
      \<and> py_get (sd_provider_configuration x) ''container'' = PDict desired
      \<and> list_all (\<lambda>(key, expected). key \<in> {''image'', ''priority''}
            \<or> matches_worker_contract True (observed_container_value container key) expected) desired
      \<and> queue_connection_matches x (py_get (cg_raw g) ''queue_connection'')
      \<and> py_get (cg_raw g) ''restart_policy'' = PStr WORKER_RESTART_POLICY
      \<and> find (\<lambda>(k, v). \<not> matches_worker_contract True (py_get (cg_raw g) k) v) WORKER_PROBE_CONTRACTS = None
      \<and> desired_queue_autoscaler x eff = Inr e
      \<and> matches_worker_contract True (py_get (cg_raw g) ''queue_autoscaler'') (PDict e)
      \<and> py_eq (py_get (cg_raw g) ''priority'') (if py_get desired ''priority'' = PNone
            then py_get (sd_provider_configuration x) ''priority'' else py_get desired ''priority'')
      \<and> cg_replicas g \<le> sd_max_replicas x)"
proof (cases "\<exists>container desired. py_get (cg_raw g) ''container'' = PDict container
    \<and> py_get (sd_provider_configuration x) ''container'' = PDict desired")
  case True
  then obtain container desired where c: "py_get (cg_raw g) ''container'' = PDict container"
      "py_get (sd_provider_configuration x) ''container'' = PDict desired" by blast
  define probe where "probe = find (\<lambda>(k, v). \<not> matches_worker_contract True (py_get (cg_raw g) k) v) WORKER_PROBE_CONTRACTS"
  define contract where "contract \<longleftrightarrow> list_all (\<lambda>(key, expected). key \<in> {''image'', ''priority''}
      \<or> matches_worker_contract True (observed_container_value container key) expected) desired"
  define floor where "floor e \<longleftrightarrow> matches_worker_contract True (py_get (cg_raw g) ''queue_autoscaler'') (PDict e)" for e
  define priority where "priority \<longleftrightarrow> py_eq (py_get (cg_raw g) ''priority'') (if py_get desired ''priority'' = PNone
      then py_get (sd_provider_configuration x) ''priority'' else py_get desired ''priority'')"
  note names = probe_def [symmetric] contract_def [symmetric] floor_def [symmetric] priority_def [symmetric]
  have chain: "group_configuration_drift x g eff = Inr None \<longleftrightarrow>
      py_get container ''image'' = PStr (sd_worker_image_digest x) \<and> contract
      \<and> queue_connection_matches x (py_get (cg_raw g) ''queue_connection'')
      \<and> py_get (cg_raw g) ''restart_policy'' = PStr WORKER_RESTART_POLICY \<and> probe = None
      \<and> (\<exists>e. desired_queue_autoscaler x eff = Inr e \<and> floor e \<and> priority \<and> cg_replicas g \<le> sd_max_replicas x)"
    unfolding group_configuration_drift_def Let_def c pyval.case option.case names
    by (cases "desired_queue_autoscaler x eff"; cases probe) auto
  show ?thesis
    unfolding chain contract_def floor_def probe_def priority_def c pyval.inject by blast
next
  case False
  then show ?thesis
    by (cases "py_get (cg_raw g) ''container''"; cases "py_get (sd_provider_configuration x) ''container''")
      (auto simp: group_configuration_drift_def Let_def)
qed

lemma patched_no_drift:
  assumes old: "group_configuration_drift x g0 eff0 = Inr None" and new: "group_configuration_drift x g1 eff = Inr None"
    and kept: "\<And>k. k \<noteq> ''container'' \<Longrightarrow> k \<noteq> ''priority'' \<Longrightarrow> k \<noteq> ''queue_autoscaler''
      \<Longrightarrow> py_get (cg_raw g) k = py_get (cg_raw g0) k"
    and patched: "py_get (cg_raw g) ''container'' = py_get (cg_raw g1) ''container''"
      "py_get (cg_raw g) ''priority'' = py_get (cg_raw g1) ''priority''"
      "py_get (cg_raw g) ''queue_autoscaler'' = py_get (cg_raw g1) ''queue_autoscaler''"
    and cap: "cg_replicas g \<le> sd_max_replicas x"
  shows "group_configuration_drift x g eff = Inr None"
proof -
  obtain container desired e where n: "py_get (cg_raw g1) ''container'' = PDict container"
      "py_get container ''image'' = PStr (sd_worker_image_digest x)"
      "py_get (sd_provider_configuration x) ''container'' = PDict desired"
      "list_all (\<lambda>(key, expected). key \<in> {''image'', ''priority''}
        \<or> matches_worker_contract True (observed_container_value container key) expected) desired"
      "desired_queue_autoscaler x eff = Inr e"
      "matches_worker_contract True (py_get (cg_raw g1) ''queue_autoscaler'') (PDict e)"
      "py_eq (py_get (cg_raw g1) ''priority'') (if py_get desired ''priority'' = PNone
        then py_get (sd_provider_configuration x) ''priority'' else py_get desired ''priority'')"
    using new unfolding no_drift_iff by (elim exE conjE) (rule that)
  have k: "py_get (cg_raw g) ''queue_connection'' = py_get (cg_raw g0) ''queue_connection''"
      "py_get (cg_raw g) ''restart_policy'' = py_get (cg_raw g0) ''restart_policy''"
    by (rule kept; simp)+
  have r1: "queue_connection_matches x (py_get (cg_raw g) ''queue_connection'')"
    using old unfolding no_drift_iff k by (elim exE conjE)
  have r2: "py_get (cg_raw g) ''restart_policy'' = PStr WORKER_RESTART_POLICY"
    using old unfolding no_drift_iff k by (elim exE conjE)
  have r3: "find (\<lambda>(k, v). \<not> matches_worker_contract True (py_get (cg_raw g0) k) v) WORKER_PROBE_CONTRACTS = None"
    using old unfolding no_drift_iff by (elim exE conjE)
  have "matches_worker_contract True (py_get (cg_raw g) k) v" if kv: "(k, v) \<in> set WORKER_PROBE_CONTRACTS" for k v
  proof -
    have "py_get (cg_raw g) k = py_get (cg_raw g0) k" using kv by (intro kept) (auto simp: WORKER_PROBE_CONTRACTS_def)
    with r3 kv show ?thesis by (auto simp: find_None_iff)
  qed
  then have "find (\<lambda>(k, v). \<not> matches_worker_contract True (py_get (cg_raw g) k) v) WORKER_PROBE_CONTRACTS = None"
    by (auto simp: find_None_iff)
  with n r1 r2 cap show ?thesis unfolding no_drift_iff patched by (intro exI conjI) assumption+
qed

lemma created_report_drift:
  assumes built: "container_group_payload x resolver overrides eff resolve = Inr payload"
    and ok: "deployment_ok x" and wk: "well_keyed (PDict (sd_provider_configuration x))"
    and raw: "cg_raw g = provider_report payload" and cap: "cg_replicas g \<le> sd_max_replicas x"
  shows "group_configuration_drift x g eff =
    Inr (if asks_for_default_shm x then Some ''provider_container_contract_drift'' else None)"
proof -
  obtain container qc autoscaler c where parts:
      "payload_container x (stripped_configuration x) = Inr container"
      "payload_queue_connection x (stripped_configuration x) = Inr qc"
      "payload_autoscaler x (stripped_configuration x) eff = Inr autoscaler"
      "py_get payload ''container'' = PDict c"
      "\<And>k. k \<noteq> ''image'' \<Longrightarrow> k \<noteq> ''environment_variables'' \<Longrightarrow> py_get c k = py_get container k"
      "py_get c ''image'' = PStr (sd_worker_image_digest x)"
      "py_get payload ''queue_connection'' = PDict qc" "py_get payload ''queue_autoscaler'' = PDict autoscaler"
      "py_get payload ''restart_policy'' = PStr WORKER_RESTART_POLICY"
      "\<And>k v. (k, v) \<in> set WORKER_PROBE_CONTRACTS \<Longrightarrow> py_get payload k = v"
      "\<not> contains_sensitive_configuration (PDict (stripped_configuration x))"
    by (rule payload_parts [OF built]) blast
  obtain desired where des: "py_get (sd_provider_configuration x) ''container'' = PDict desired"
      "\<And>k. k \<noteq> ''priority'' \<Longrightarrow> py_get container k = py_get desired k"
      "py_get container ''priority'' = (if py_get desired ''priority'' = PNone
         then py_get (sd_provider_configuration x) ''priority'' else py_get desired ''priority'')"
      "py_get container ''priority'' \<in> {PStr ''high'', PStr ''medium'', PStr ''low'', PStr ''batch''}"
    by (rule payload_container_parts [OF parts(1)]) blast
  obtain e where auto: "desired_queue_autoscaler x eff = Inr e" "matches_worker_contract True (PDict autoscaler) (PDict e)"
    by (rule autoscaler_matches [OF parts(3) ok wk])
  have no_env: "''environment_variables'' \<notin> fst ` set desired"
  proof
    assume "''environment_variables'' \<in> fst ` set desired"
    moreover have "sensitive_key ''environment_variables''" by code_simp
    ultimately have s: "contains_sensitive_configuration (PDict desired)" by (auto simp: list_ex_iff)
    have "map_of (stripped_configuration x) ''container'' = Some (PDict desired)"
      using des(1) stripped_get(1) [of "''container''" x] by (simp add: RUNTIME_BINDINGS_KEY_def py_get_map_of)
    then have "(''container'', PDict desired) \<in> set (stripped_configuration x)" by (rule map_of_SomeD)
    from sensitive_item [OF this s] parts(11) show False by contradiction
  qed
  have prio: "py_get c ''priority'' = py_get container ''priority''" by (rule parts(5)) simp_all
  have report: "py_get (cg_raw g) ''container'' = PDict (reported_container c)"
      "py_get (cg_raw g) ''priority'' = py_get container ''priority''"
      "\<And>k. k \<noteq> ''container'' \<Longrightarrow> k \<noteq> ''priority'' \<Longrightarrow> py_get (cg_raw g) k = py_get payload k"
    by (simp_all add: raw provider_report_def parts(4) prio)
  have image: "py_get (reported_container c) ''image'' = PStr (sd_worker_image_digest x)"
    by (cases "py_get c ''resources''") (simp_all add: reported_container_def Let_def parts(6))
  have conn: "queue_connection_matches x (py_get (cg_raw g) ''queue_connection'')"
  proof -
    have "py_get qc ''queue_name'' = PStr (sd_queue_name x) \<and> py_get qc ''path'' = PStr WORKER_QUEUE_PATH
        \<and> py_get qc ''port'' = PInt WORKER_PORT"
      using parts(2) by (auto simp: payload_queue_connection_def split: pyval.splits if_splits)
    then show ?thesis by (simp add: queue_connection_matches_def report(3) parts(7))
  qed
  have probes: "find (\<lambda>(k, v). \<not> matches_worker_contract True (py_get (cg_raw g) k) v) WORKER_PROBE_CONTRACTS = None"
  proof -
    have "matches_worker_contract True (py_get (cg_raw g) k) v" if kv: "(k, v) \<in> set WORKER_PROBE_CONTRACTS" for k v
    proof -
      have "k \<noteq> ''container''" "k \<noteq> ''priority''" using kv by (auto simp: WORKER_PROBE_CONTRACTS_def)
      with report(3) parts(10) [OF kv] matches_probes [OF kv] show ?thesis by simp
    qed
    then show ?thesis by (auto simp: find_None_iff)
  qed
  have wkd: "well_keyed (PDict desired)" by (rule well_keyed_get [OF wk des(1)])
  have sent: "py_get c k = py_get desired k"
    if "k \<noteq> ''image''" "k \<noteq> ''environment_variables''" "k \<noteq> ''priority''" for k
    using parts(5) des(2) that by simp
  note cont = container_matches [OF wkd sent no_env]
  have shm: "asks_for_default_shm x \<longleftrightarrow> (case py_get desired ''resources'' of
      PDict r \<Rightarrow> py_eq (py_get r ''shm_size'') (PInt SALAD_DEFAULT_SHM_SIZE) | _ \<Rightarrow> False)"
    by (simp add: asks_for_default_shm_def des(1))
  have same: "py_eq (py_get container ''priority'') (py_get container ''priority'')" using des(4) by auto
  have rest: "py_get (cg_raw g) ''restart_policy'' = PStr WORKER_RESTART_POLICY"
      "py_get (cg_raw g) ''queue_autoscaler'' = PDict autoscaler"
    using report(3) parts(8,9) by simp_all
  show ?thesis
    using cont conn probes auto same cap
    by (simp add: group_configuration_drift_def Let_def report image rest des(1) des(3) [symmetric] shm
        del: matches_worker_contract.simps)
qed

text \<open>
  C31: A group created with the configuration that is built for it is accepted when it is read back: whenever the
  configuration can be built, the group the provider reports for it shows no drift, with one exception, which is exact.
  A configuration that itself asks for the provider's default shared memory size is reported as drifted for ever,
  because the comparison removes that size from what is observed but not from what is expected.
\<close>

theorem created_group_is_accepted:
  assumes built: "container_group_payload x resolver overrides eff resolve = Inr payload"
    and ok: "deployment_ok x" and wk: "well_keyed (PDict (sd_provider_configuration x))"
    and raw: "cg_raw g = provider_report payload" and cap: "cg_replicas g \<le> sd_max_replicas x"
  shows "group_configuration_drift x g eff =
    Inr (if asks_for_default_shm x then Some ''provider_container_contract_drift'' else None)"
  by (rule created_report_drift [OF assms])

definition sample_configured_deployment :: SaladDeployment where
  "sample_configured_deployment = sample_worker_deployment\<lparr>sd_provider_configuration :=
     [(''container'', PDict [(''image'', PStr ''i''), (''priority'', PStr ''high''),
        (''resources'', PDict [(''cpu'', PInt 4), (''memory'', PInt 16384)])]),
      (''queue_connection'', PDict []), (''queue_autoscaler'', PDict [(''polling_period'', PInt 15)])]\<rparr>"

lemma created_group_is_accepted_witness:
  "\<exists>payload. container_group_payload sample_configured_deployment None [] None True = Inr payload
     \<and> group_configuration_drift sample_configured_deployment
         (sample_group\<lparr>cg_raw := provider_report payload\<rparr>) None = Inr None"
proof -
  have "case container_group_payload sample_configured_deployment None [] None True of Inl e \<Rightarrow> False | Inr p \<Rightarrow> True"
    by code_simp
  then obtain payload where p: "container_group_payload sample_configured_deployment None [] None True = Inr payload"
    by (auto split: sum.splits)
  have ok: "deployment_ok sample_configured_deployment"
    by (simp add: sample_configured_deployment_def sample_worker_deployment_def deployment_ok_def billing_ok_def)
  have wk: "well_keyed (PDict (sd_provider_configuration sample_configured_deployment))" by code_simp
  have cap: "cg_replicas (sample_group\<lparr>cg_raw := provider_report payload\<rparr>) \<le> sd_max_replicas sample_configured_deployment"
    by (simp add: sample_configured_deployment_def sample_worker_deployment_def sample_group_def)
  have "\<not> asks_for_default_shm sample_configured_deployment" by code_simp
  with p created_group_is_accepted [OF p ok wk _ cap] show ?thesis by simp
qed

end
