(* ===== verification/RuntimeAdmissionTheorems.thy ===== *)
theory RuntimeAdmissionTheorems
  imports RuntimeAdmissionFacts WorkerContractTheorems
begin

text \<open>
  The refresh of a group's run-time bindings: which PATCH is sent and when, what the returned group is, that replays of one
  plan apply it once, and that an obedient provider is brought to the planned version.
\<close>

lemma refresh_cases:
  assumes "refresh_container_group_runtime env x resolver overrides expected m eff h = (h', r)"
  obtains (refused) e where "refresh_allowed x overrides expected m = Inl e" "h' = h" "r = Inl e"
  | (allowed) plan where "refresh_allowed x overrides expected m = Inr plan"
      "\<And>v. expected = Some v \<Longrightarrow> \<exists>i. m = Some i \<and> plan = Some (v, i)"
      "refresh_trace env x resolver overrides plan eff h h'" "\<And>g. r = Inr g \<Longrightarrow> refreshed env x plan eff g h'"
proof (cases "refresh_allowed x overrides expected m")
  case (Inl e)
  with assms refused show ?thesis by (simp add: refresh_container_group_runtime_def)
next
  case (Inr plan)
  note e = refresh_ensures [OF Inr, of h env resolver eff]
  show ?thesis
  proof (rule allowed [OF Inr planned_refresh_plan(1) [OF refresh_allowed_plan [OF Inr]]])
    show "refresh_trace env x resolver overrides plan eff h h'"
      using assms ensures_result [OF e refl] by (cases r) blast+
    show "refreshed env x plan eff g h'" if "r = Inr g" for g
      using assms that ensures_result(1) [OF e refl] by blast
  qed
qed



section \<open>Replays\<close>

text \<open>The provider refused an update: an API error of the client's side, or the rate limit.\<close>

definition refused :: "'a salad_answer \<Rightarrow> bool" where
  "refused answer \<longleftrightarrow> (case answer of Inl e \<Rightarrow> (case salad_status_code e of Some n \<Rightarrow> n < 500 | None \<Rightarrow> False) | Inr _ \<Rightarrow> False)"

fun accepted_update :: "salad_client \<Rightarrow> string \<Rightarrow> provider_call list \<Rightarrow> provider_call \<Rightarrow> bool" where
  "accepted_update client name h (CallUpdateContainerGroup n patch) \<longleftrightarrow>
     n = name \<and> \<not> refused (sc_update_container_group client h n patch)"
| "accepted_update client name h _ \<longleftrightarrow> False"

fun accepted_updates :: "salad_client \<Rightarrow> string \<Rightarrow> provider_call list \<Rightarrow> provider_call list \<Rightarrow> nat" where
  "accepted_updates client name h [] = 0"
| "accepted_updates client name h (c # new) =
     (if accepted_update client name h c then 1 else 0) + accepted_updates client name (h @ [c]) new"

lemma accepted_append:
  "accepted_updates client name h (new @ new') =
     accepted_updates client name h new + accepted_updates client name (h @ new) new'"
  by (induction new arbitrary: h) auto

lemma accepted_reads [simp]: "accepted_updates client name h (replicate n (CallGetContainerGroup k)) = 0"
  by (induction n arbitrary: h) auto

text \<open>An update that was not refused makes a new version: whoever reads the group afterwards sees a later version than
  \<open>v\<close>, or that the change is still pending.\<close>

definition versions_updates :: "salad_client \<Rightarrow> string \<Rightarrow> provider_call list \<Rightarrow> int \<Rightarrow> bool" where
  "versions_updates client name h v \<longleftrightarrow>
     (\<forall>new g. 0 < accepted_updates client name h new \<longrightarrow> sc_get_container_group client (h @ new) name = Inr g
        \<longrightarrow> v < cg_version g \<or> cg_pending_change g)"

text \<open>One plan carried out again and again, each time with what the row, the secrets and the clock are then.\<close>

fun replays :: "overrides \<Rightarrow> int \<Rightarrow> string \<Rightarrow> int option
    \<Rightarrow> (admission_env \<times> SaladDeployment \<times> secret_resolver option) list \<Rightarrow> provider_call list \<Rightarrow> provider_call list" where
  "replays overrides v m eff [] h = h"
| "replays overrides v m eff ((env, x, resolver) # runs) h =
     replays overrides v m eff runs
       (fst (refresh_container_group_runtime env x resolver overrides (Some v) (Some m) eff h))"

lemma run_accepts_once:
  assumes run: "refresh_container_group_runtime env x resolver overrides (Some v) (Some m) eff (h @ new) = (h', r)"
    and env: "ae_client env = client" "sd_container_group_name x = name"
    and law: "versions_updates client name h v" and once: "accepted_updates client name h new \<le> 1"
  shows "\<exists>new'. h' = h @ new' \<and> accepted_updates client name h new' \<le> 1"
  using run
proof (cases rule: refresh_cases)
  case (allowed plan)
  from allowed(3) show ?thesis unfolding refresh_trace_def
  proof
    assume "only_reads x (h @ new) h'"
    then obtain n where "h' = h @ (new @ replicate n (read_call x))" by (auto simp: only_reads_def)
    with once show ?thesis by (auto simp: accepted_append)
  next
    assume "\<exists>g patch h1. patch_after env x resolver overrides plan eff (h @ new) g patch h1
      \<and> only_reads x (h1 @ [CallUpdateContainerGroup (sd_container_group_name x) patch]) h'"
    then obtain g patch h1 where p: "patch_after env x resolver overrides plan eff (h @ new) g patch h1"
      and rest: "only_reads x (h1 @ [CallUpdateContainerGroup (sd_container_group_name x) patch]) h'" by blast
    from p obtain n where h1: "h1 = (h @ new @ replicate n (read_call x)) @ [read_call x]"
      and g: "sc_get_container_group client (h @ new @ replicate n (read_call x)) name = Inr g"
      using env by (auto simp: patch_after_def read_last_def only_reads_def)
    have gv: "cg_version g = v" "\<not> cg_pending_change g" using p allowed(2) [OF refl] by (auto simp: patch_after_def)
    with law g have "accepted_updates client name h (new @ replicate n (read_call x)) = 0"
      unfolding versions_updates_def by fastforce
    then have z: "accepted_updates client name h new = 0" by (simp add: accepted_append)
    from rest obtain k where h': "h' = h1 @ [CallUpdateContainerGroup (sd_container_group_name x) patch]
        @ replicate k (read_call x)" by (auto simp: only_reads_def)
    show ?thesis
      by (rule exI [of _ "new @ replicate n (read_call x) @ [read_call x]
          @ [CallUpdateContainerGroup (sd_container_group_name x) patch] @ replicate k (read_call x)"])
        (simp add: h' h1 accepted_append z)
  qed
qed (use once in auto)

section \<open>Convergence\<close>

text \<open>What a provider reports once it has applied the PATCH of a refresh.\<close>

definition patched_report :: "json_object \<Rightarrow> json_object \<Rightarrow> json_object" where
  "patched_report patch raw =
     (case py_get patch ''container'' of
        PDict c \<Rightarrow> put_key ''priority'' (py_get c ''priority'') (put_key ''container'' (PDict (reported_container c))
          (put_key ''queue_autoscaler'' (py_get patch ''queue_autoscaler'') raw))
      | _ \<Rightarrow> raw)"

lemma refresh_patch_parts:
  assumes "refresh_patch x resolver overrides (Some n) applied = Inr patch"
  obtains payload container autoscaler where
    "container_group_payload x resolver (override_object overrides) (Some n) (\<not> applied) = Inr payload"
    "py_get payload ''container'' = PDict container" "py_get payload ''queue_autoscaler'' = PDict autoscaler"
    "py_get patch ''container'' = PDict container" "py_get patch ''queue_autoscaler'' = PDict autoscaler"
  using assms unfolding refresh_patch_def bindE_eq_Inr
  by (elim exE conjE) (auto split: pyval.splits list.splits simp: py_get_def)

text \<open>The patched group matches the deployment and carries the planned identifier.\<close>

lemma patched_group:
  assumes patch: "refresh_patch x resolver (Some ov) (Some n) False = Inr patch"
    and row: "deployment_ok x" "well_keyed (PDict (sd_provider_configuration x))" "\<not> asks_for_default_shm x"
    and ov: "distinct (map fst ov)" "map_of ov WORKER_RUNTIME_ADMISSION_ID_BINDING = Some m"
    and old: "validate_runtime_group x g0 None = Inr ()"
    and new: "cg_name g = cg_name g0" "cg_id g = cg_id g0" "cg_raw g = patched_report patch (cg_raw g0)"
      "cg_replicas g \<le> sd_max_replicas x"
  shows "validate_runtime_group x g None = Inr ()" "validate_runtime_group x g (Some n) = Inr ()"
    "runtime_admission_id g = Some m"
proof -
  obtain payload c a where p: "container_group_payload x resolver (override_object (Some ov)) (Some n) (\<not> False) = Inr payload"
      "py_get payload ''container'' = PDict c" "py_get payload ''queue_autoscaler'' = PDict a"
      "py_get patch ''container'' = PDict c" "py_get patch ''queue_autoscaler'' = PDict a"
    by (rule refresh_patch_parts [OF patch])
  have raw: "py_get (cg_raw g) k = (if k = ''priority'' then py_get c ''priority''
      else if k = ''container'' then PDict (reported_container c)
      else if k = ''queue_autoscaler'' then PDict a else py_get (cg_raw g0) k)" for k
    by (simp add: new(3) patched_report_def p(4,5))
  define g1 where "g1 = g\<lparr>cg_raw := provider_report payload\<rparr>"
  have d1: "group_configuration_drift x g1 (Some n) = Inr None"
    using created_report_drift [OF p(1) row(1,2), of g1] row(3) new(4) by (simp add: g1_def)
  obtain k where d0: "group_configuration_drift x g0 (Some k) = Inr None" "cg_name g0 = sd_container_group_name x"
      "sd_provider_container_group_id x = Some (uuid_str (cg_id g0))"
    using old by (auto simp: validate_runtime_group_def bindE_eq_Inr split: if_splits)
  have drift: "group_configuration_drift x g (Some n) = Inr None"
    by (rule patched_no_drift [OF d0(1) d1]) (simp_all add: raw g1_def provider_report_def p(2,3) new(4))
  then show eff: "validate_runtime_group x g (Some n) = Inr ()"
    by (simp add: validate_runtime_group_def d0 new)
  obtain qa where "payload_autoscaler x (stripped_configuration x) (Some n) = Inr qa"
      "py_get payload ''queue_autoscaler'' = PDict qa"
    by (rule payload_parts [OF p(1)]) blast
  then have qa: "payload_autoscaler x (stripped_configuration x) (Some n) = Inr a" using p(3) by simp
  have min: "py_get a ''min_replicas'' = PInt n \<and> n \<in> {0, 1}"
    using qa by (auto simp: payload_autoscaler_def bindE_eq_Inr desired_queue_autoscaler_def Let_def
        simp del: payload_autoscaler_loop.simps split: if_splits)
  have "observed_min_replicas g = Inr n" using min by (auto simp: observed_min_replicas_def raw)
  with eff show "validate_runtime_group x g None = Inr ()" by (simp add: validate_runtime_group_def split: if_splits)
  have "distinct (map fst (override_object (Some ov)))"
      "map_of (override_object (Some ov)) WORKER_RUNTIME_ADMISSION_ID_BINDING = Some (PStr m)"
    using ov by (auto simp: override_object_def map_of_map comp_def case_prod_beta)
  then obtain e where e: "py_get c ''environment_variables'' = PDict e" "py_get e WORKER_RUNTIME_ADMISSION_ID_BINDING = PStr m"
    by (rule payload_override [OF p(1,2), of WORKER_RUNTIME_ADMISSION_ID_BINDING "PStr m"]) (simp_all only:)
  have "py_get (reported_container c) ''environment_variables'' = PDict e"
    using e(1) by (auto simp: reported_container_def Let_def split: pyval.splits)
  with e(2) show "runtime_admission_id g = Some m"
    by (simp add: runtime_admission_id_def group_environment_def raw)
qed

lemma refresh_run:
  assumes allowed: "refresh_allowed x (Some ov) (Some v) (Some m) = Inr (Some (v, m))"
    and patch: "refresh_patch x resolver (Some ov) (Some n) False = Inr patch"
    and row: "deployment_ok x" "well_keyed (PDict (sd_provider_configuration x))" "\<not> asks_for_default_shm x"
    and ov: "distinct (map fst ov)"
    and before: "sc_get_container_group (ae_client env) h (sd_container_group_name x) = Inr g0"
      "validate_runtime_group x g0 None = Inr ()" "cg_version g0 = v" "\<not> cg_pending_change g0"
      "runtime_admission_id g0 \<noteq> Some m"
    and accepted: "sc_update_container_group (ae_client env) (h @ [read_call x]) (sd_container_group_name x) patch = Inr g1"
      "validate_runtime_group x g1 None = Inr ()" "cg_pending_change g1" "cg_version g1 \<in> {v, v + 1}"
    and sent: "h1 = h @ [read_call x, CallUpdateContainerGroup (sd_container_group_name x) patch]"
    and applying: "\<And>i. i < k \<Longrightarrow> \<exists>g. sc_get_container_group (ae_client env) (h1 @ replicate i (read_call x))
        (sd_container_group_name x) = Inr g \<and> validate_runtime_group x g None = Inr () \<and> cg_pending_change g
        \<and> cg_version g \<le> v + 1"
    and applied: "sc_get_container_group (ae_client env) (h1 @ replicate k (read_call x)) (sd_container_group_name x) = Inr g"
      "cg_name g = cg_name g0" "cg_id g = cg_id g0" "cg_raw g = patched_report patch (cg_raw g0)"
      "cg_replicas g \<le> sd_max_replicas x" "cg_version g = v + 1" "\<not> cg_pending_change g"
    and time: "k < ae_polls env h1"
  shows "refresh_container_group_runtime env x resolver (Some ov) (Some v) (Some m) (Some n) h =
    (h1 @ replicate (Suc k) (read_call x), Inr g)"
proof -
  let ?plan = "Some (v, m)"
  have marker: "map_of ov WORKER_RUNTIME_ADMISSION_ID_BINDING = Some m"
    using planned_refresh_plan(2) [OF refresh_allowed_plan [OF allowed], of v m] by (simp add: override_of_def)
  note new = patched_group [OF patch row ov marker before(2) applied(2-5)]
  have pre: "refresh_preflight env x ?plan h = (h @ [read_call x], Inr g0)"
    using before by (simp add: refresh_preflight_def Let_def bind_io_def read_group_def provider_io_def checked_def)
  have decide: "already_applied (Some ov) ?plan g0 = Inr False"
    using before by (simp add: already_applied_def)
  have send: "send_refresh env x (Some n) g0 False patch (h @ [read_call x]) = (h1, Inr (v + 1))"
    using accepted before(3) sent
    by (auto simp: send_refresh_def bind_io_def update_group_def provider_io_def checked_def)
  have poll: "poll_until env (sd_container_group_name x) (refresh_judge x ?plan (Some n) (v + 1)) h1
      = (h1 @ replicate (Suc k) (read_call x), Inr g)"
  proof (rule poll_settles [OF _ applied(1) _ time])
    fix i assume "i < k"
    from applying [OF this] obtain g' where g': "sc_get_container_group (ae_client env) (h1 @ replicate i (read_call x))
        (sd_container_group_name x) = Inr g'" "validate_runtime_group x g' None = Inr ()" "cg_pending_change g'"
        "cg_version g' \<le> v + 1" by blast
    from g'(2-4) have "refresh_judge x ?plan (Some n) (v + 1) g' = Inr False" by (simp add: refresh_judge_def)
    with g'(1) show "\<exists>g. sc_get_container_group (ae_client env) (h1 @ replicate i (read_call x))
        (sd_container_group_name x) = Inr g \<and> refresh_judge x ?plan (Some n) (v + 1) g = Inr False" by blast
  next
    show "refresh_judge x ?plan (Some n) (v + 1) g = Inr True"
      using new applied(6,7) by (simp add: refresh_judge_def)
  qed
  show ?thesis
    unfolding refresh_container_group_runtime_def Let_def allowed bind_lift
    by (simp add: bind_io_def handle_io_def pre decide patch send poll)
qed

section \<open>A provider for the witnesses\<close>

text \<open>The group has version 4 until it is patched; then it has version 5, and the change is pending at the first read.\<close>

definition sample_refresh_row :: SaladDeployment where
  "sample_refresh_row = sample_configured_deployment\<lparr>sd_provider_container_group_id := Some (uuid_str 9),
     sd_provider_queue_id := Some (uuid_str 7)\<rparr>"

definition sample_marker :: string where "sample_marker = replicate 32 CHR ''a''"

definition sample_manifest :: string where "sample_manifest = replicate 64 CHR ''b''"

definition sample_overrides :: "(string \<times> string) list" where
  "sample_overrides = [(WORKER_MODEL_MANIFEST_JSON_BINDING, ''{}''),
     (WORKER_MODEL_MANIFEST_SHA256_BINDING, sample_manifest), (WORKER_RUNTIME_ADMISSION_ID_BINDING, sample_marker)]"

definition sample_raw :: json_object where
  "sample_raw = (case container_group_payload sample_refresh_row None [] None True of
     Inr payload \<Rightarrow> provider_report payload | Inl _ \<Rightarrow> [])"

definition sample_patch :: json_object where
  "sample_patch = (case refresh_patch sample_refresh_row None (Some sample_overrides) (Some 1) False of
     Inr patch \<Rightarrow> patch | Inl _ \<Rightarrow> [])"

definition group_before :: SaladContainerGroup where
  "group_before = sample_group\<lparr>cg_raw := sample_raw\<rparr>"

definition group_pending :: SaladContainerGroup where
  "group_pending = sample_group\<lparr>cg_raw := sample_raw, cg_pending_change := True\<rparr>"

definition group_after :: SaladContainerGroup where
  "group_after = sample_group\<lparr>cg_raw := patched_report sample_patch sample_raw, cg_version := 5\<rparr>"

definition sample_refresh_client :: salad_client where
  "sample_refresh_client =
     \<lparr>sc_create_queue = (\<lambda>h n. Inl SaladTransportError),
      sc_get_queue = (\<lambda>h n. Inr \<lparr>sq_id = 7, sq_name = n, sq_current_queue_length = 0\<rparr>),
      sc_create_container_group = (\<lambda>h p. Inl SaladTransportError),
      sc_get_container_group = (\<lambda>h n. Inr (
        if \<not> list_ex is_mutation h then group_before else if is_mutation (last h) then group_pending else group_after)),
      sc_list_container_group_instances = (\<lambda>h n. Inr [\<lparr>gi_id = ''i'', gi_state = InstanceRUNNING, gi_update_time = 0,
        gi_version = 5, gi_started = Some True\<rparr>]),
      sc_update_container_group = (\<lambda>h n p. Inr group_pending),
      sc_start_container_group = (\<lambda>h n. Inr ()), sc_stop_container_group = (\<lambda>h n. Inr ())\<rparr>"

definition sample_admission_env :: admission_env where
  "sample_admission_env = \<lparr>ae_client = sample_refresh_client, ae_polls = (\<lambda>h. 3), ae_cut = (\<lambda>h. False)\<rparr>"

definition sample_calls :: "provider_call list" where
  "sample_calls = [CallGetContainerGroup ''worker'', CallUpdateContainerGroup ''worker'' sample_patch,
     CallGetContainerGroup ''worker'', CallGetContainerGroup ''worker'']"

lemma sample_names [simp]:
  "sd_container_group_name sample_refresh_row = ''worker''" "sd_max_replicas sample_refresh_row = 1"
  by (simp_all add: sample_refresh_row_def sample_configured_deployment_def sample_worker_deployment_def)

lemma sample_groups [simp]:
  "cg_name group_before = ''worker''" "cg_id group_before = 9" "cg_raw group_before = sample_raw"
  "cg_version group_before = 4" "\<not> cg_pending_change group_before"
  "cg_version group_pending = 4" "cg_pending_change group_pending"
  "cg_name group_after = ''worker''" "cg_id group_after = 9" "cg_raw group_after = patched_report sample_patch sample_raw"
  "cg_replicas group_after = 1" "cg_version group_after = 5" "\<not> cg_pending_change group_after"
  by (simp_all add: group_before_def group_pending_def group_after_def sample_group_def)

lemma sample_row_ok:
  "deployment_ok sample_refresh_row" "well_keyed (PDict (sd_provider_configuration sample_refresh_row))"
  "\<not> asks_for_default_shm sample_refresh_row"
proof -
  show "deployment_ok sample_refresh_row"
    by (simp add: sample_refresh_row_def sample_configured_deployment_def sample_worker_deployment_def deployment_ok_def
        billing_ok_def)
qed code_simp+

lemma sample_allowed:
  "refresh_allowed sample_refresh_row (Some sample_overrides) (Some 4) (Some sample_marker) = Inr (Some (4, sample_marker))"
  by code_simp

lemma sample_patch: "refresh_patch sample_refresh_row None (Some sample_overrides) (Some 1) False = Inr sample_patch"
proof -
  have "case refresh_patch sample_refresh_row None (Some sample_overrides) (Some 1) False of Inr p \<Rightarrow> True | Inl e \<Rightarrow> False"
    by code_simp
  then show ?thesis by (auto simp: sample_patch_def split: sum.splits)
qed

lemma sample_before:
  "validate_runtime_group sample_refresh_row group_before None = Inr ()" "runtime_admission_id group_before = None"
  by code_simp+

lemma validate_same:
  assumes "cg_name g = cg_name g'" "cg_id g = cg_id g'" "cg_raw g = cg_raw g'" "cg_replicas g = cg_replicas g'"
  shows "validate_runtime_group x g eff = validate_runtime_group x g' eff"
proof -
  have "observed_min_replicas g = observed_min_replicas g'" using assms by (simp add: observed_min_replicas_def)
  moreover have "group_configuration_drift x g eff = group_configuration_drift x g' eff" for eff
    unfolding group_configuration_drift_def assms ..
  ultimately show ?thesis unfolding validate_runtime_group_def assms by (cases eff) simp_all
qed

lemma sample_pending: "validate_runtime_group sample_refresh_row group_pending None = Inr ()"
  using sample_before(1) validate_same [of group_pending group_before] by (simp add: group_pending_def group_before_def)

lemmas sample_environment = sample_before sample_pending sample_admission_env_def sample_refresh_client_def less_Suc_eq
  sample_overrides_def WORKER_MODEL_MANIFEST_JSON_BINDING_def WORKER_MODEL_MANIFEST_SHA256_BINDING_def
  WORKER_RUNTIME_ADMISSION_ID_BINDING_def

lemma sample_run:
  "refresh_container_group_runtime sample_admission_env sample_refresh_row None (Some sample_overrides) (Some 4)
     (Some sample_marker) (Some 1) [] = (sample_calls, Inr group_after)"
proof -
  have "refresh_container_group_runtime sample_admission_env sample_refresh_row None (Some sample_overrides) (Some 4)
     (Some sample_marker) (Some 1) [] =
     ([CallGetContainerGroup ''worker'', CallUpdateContainerGroup ''worker'' sample_patch]
       @ replicate (Suc 1) (read_call sample_refresh_row), Inr group_after)"
    by (rule refresh_run [OF sample_allowed sample_patch sample_row_ok, where ?g0.0 = group_before and ?g1.0 = group_pending])
      (simp_all add: sample_environment)
  then show ?thesis by (simp add: sample_calls_def)
qed

section \<open>Properties\<close>

text \<open>C17: A refresh of a worker's run-time bindings mutates the provider at most once, and only with cause: its calls are
  reads of the deployment's own group, or reads, one PATCH of that group, and reads. The group read just before the PATCH
  matched the deployment and had no change pending; when the refresh is planned, it had exactly the planned version and
  did not carry the planned marker yet. The PATCH is the one that is built from the deployment's configuration.\<close>

theorem refresh_sends_one_justified_patch:
  assumes "refresh_container_group_runtime env x resolver overrides expected m eff h = (h', r)"
  shows "only_reads x h h' \<or> (\<exists>g patch h1. read_last env x h g h1 \<and> validate_runtime_group x g None = Inr ()
    \<and> \<not> cg_pending_change g \<and> (\<forall>v. expected = Some v \<longrightarrow> cg_version g = v \<and> runtime_admission_id g \<noteq> m)
    \<and> refresh_patch x resolver overrides eff False = Inr patch
    \<and> only_reads x (h1 @ [CallUpdateContainerGroup (sd_container_group_name x) patch]) h')"
  using assms
proof (cases rule: refresh_cases)
  case (allowed plan)
  have cause: "\<forall>v. expected = Some v \<longrightarrow> cg_version g = v \<and> runtime_admission_id g \<noteq> m"
    if "patch_after env x resolver overrides plan eff h g patch h1" for g patch h1
    using that by (auto simp: patch_after_def dest: allowed(2))
  from allowed(3) show ?thesis unfolding refresh_trace_def
  proof
    assume "\<exists>g patch h1. patch_after env x resolver overrides plan eff h g patch h1
      \<and> only_reads x (h1 @ [CallUpdateContainerGroup (sd_container_group_name x) patch]) h'"
    then obtain g patch h1 where p: "patch_after env x resolver overrides plan eff h g patch h1"
      "only_reads x (h1 @ [CallUpdateContainerGroup (sd_container_group_name x) patch]) h'" by blast
    from p(1) have "read_last env x h g h1" "validate_runtime_group x g None = Inr ()" "\<not> cg_pending_change g"
      "refresh_patch x resolver overrides eff False = Inr patch" by (simp_all add: patch_after_def)
    with p(2) cause [OF p(1)] show ?thesis by blast
  qed simp
qed simp

lemma refresh_sends_one_justified_patch_witness:
  "\<exists>h' r. refresh_container_group_runtime sample_admission_env sample_refresh_row None (Some sample_overrides) (Some 4)
     (Some sample_marker) (Some 1) [] = (h', r) \<and> mutations h' = [CallUpdateContainerGroup ''worker'' sample_patch]"
  using refresh_sends_one_justified_patch [OF sample_run]
  by (intro exI [of _ sample_calls] exI [of _ "Inr group_after"]) (simp add: sample_run, simp add: sample_calls_def)

text \<open>C39: The group a refresh returns is the refreshed one: it is the answer of the last call, it matches the deployment
  with the demanded number of replicas, and no change is pending. When the refresh is planned, its version is later than
  the planned one and it carries the planned marker.\<close>

theorem refresh_returns_the_planned_version:
  assumes "refresh_container_group_runtime env x resolver overrides expected m eff h = (h', Inr g)"
  shows "(\<exists>h1. h' = h1 @ [read_call x] \<and> sc_get_container_group (ae_client env) h1 (sd_container_group_name x) = Inr g)
    \<and> validate_runtime_group x g eff = Inr () \<and> \<not> cg_pending_change g
    \<and> (\<forall>v. expected = Some v \<longrightarrow> v < cg_version g \<and> runtime_admission_id g = m)"
  using assms
proof (cases rule: refresh_cases)
  case (allowed plan)
  from allowed(4) [OF refl] show ?thesis by (auto simp: refreshed_def dest: allowed(2))
qed simp

lemma refresh_returns_the_planned_version_witness:
  "validate_runtime_group sample_refresh_row group_after (Some 1) = Inr () \<and> 4 < cg_version group_after
    \<and> runtime_admission_id group_after = Some sample_marker"
  using refresh_returns_the_planned_version [OF sample_run] by simp

text \<open>C13: A planned refresh that is carried out again and again, whatever the run before it was cut off by, has its PATCH
  accepted at most once. The provider is assumed to version its updates: after an update it did not refuse, a read shows a
  later version than the planned one or a pending change. A lost answer, a crash between the PATCH and its confirmation
  and a changed row do not lead to a second one.\<close>

theorem replayed_refresh_patches_once:
  assumes law: "versions_updates client name h v"
    and runs: "\<forall>(env, x, resolver) \<in> set runs. ae_client env = client \<and> sd_container_group_name x = name"
  shows "\<exists>new. replays overrides v m eff runs h = h @ new \<and> accepted_updates client name h new \<le> 1"
proof -
  have "\<exists>new'. replays overrides v m eff runs (h @ new) = h @ new' \<and> accepted_updates client name h new' \<le> 1"
    if "accepted_updates client name h new \<le> 1" for new
    using that runs
  proof (induction runs arbitrary: new)
    case (Cons run runs)
    obtain env x resolver where run: "run = (env, x, resolver)" by (cases run)
    obtain h' r where h': "refresh_container_group_runtime env x resolver overrides (Some v) (Some m) eff (h @ new) = (h', r)"
      by (cases "refresh_container_group_runtime env x resolver overrides (Some v) (Some m) eff (h @ new)")
    from Cons.prems(2) run have "ae_client env = client" "sd_container_group_name x = name" by auto
    from run_accepts_once [OF h' this law Cons.prems(1)] obtain new' where
      "h' = h @ new'" "accepted_updates client name h new' \<le> 1" by blast
    with Cons.IH [of new'] Cons.prems(2) h' run show ?case by simp
  qed auto
  from this [of "[]"] show ?thesis by simp
qed

lemma accepted_is_mutation: "0 < accepted_updates client name h new \<Longrightarrow> list_ex is_mutation new"
proof (induction new arbitrary: h)
  case (Cons c new)
  then show ?case by (cases "accepted_update client name h c") (auto elim: accepted_update.elims)
qed simp

lemma replayed_refresh_patches_once_witness:
  "\<exists>new. replays (Some sample_overrides) 4 sample_marker (Some 1)
       [(sample_admission_env, sample_refresh_row, None), (sample_admission_env, sample_refresh_row, None)] [] = [] @ new
     \<and> accepted_updates sample_refresh_client ''worker'' [] new \<le> 1 \<and> sample_calls = take 4 new"
proof -
  have law: "versions_updates sample_refresh_client ''worker'' [] 4"
    unfolding versions_updates_def
    using accepted_is_mutation by (fastforce simp: sample_refresh_client_def split: if_splits)
  let ?runs = "[(sample_admission_env, sample_refresh_row, None :: secret_resolver option),
    (sample_admission_env, sample_refresh_row, None)]"
  have "\<forall>(env, x, resolver) \<in> set ?runs. ae_client env = sample_refresh_client \<and> sd_container_group_name x = ''worker''"
    by (simp add: sample_admission_env_def)
  from replayed_refresh_patches_once [OF law this] obtain new where
    new: "replays (Some sample_overrides) 4 sample_marker (Some 1) ?runs [] = [] @ new"
      "accepted_updates sample_refresh_client ''worker'' [] new \<le> 1" by blast
  obtain h' r where r: "refresh_container_group_runtime sample_admission_env sample_refresh_row None (Some sample_overrides)
      (Some 4) (Some sample_marker) (Some 1) sample_calls = (h', r)" by (meson surj_pair)
  have "\<exists>t. h' = sample_calls @ t"
    using r by (cases rule: refresh_cases)
      (auto simp: refresh_trace_def patch_after_def read_last_def only_reads_def)
  with new r show ?thesis by (auto simp: sample_run sample_calls_def)
qed

text \<open>C18: Against an obedient provider a planned refresh converges, in the fewest calls: when the group shows the planned
  version, the PATCH is accepted, and the group is reported as patched after \<open>k\<close> reads in which the change is still pending
  and before the time limit, the refresh returns that group after one read, the PATCH and \<open>k + 1\<close> reads.\<close>

theorem refresh_converges:
  assumes allowed: "refresh_allowed x (Some ov) (Some v) (Some m) = Inr (Some (v, m))"
    and patch: "refresh_patch x resolver (Some ov) (Some n) False = Inr patch"
    and row: "deployment_ok x" "well_keyed (PDict (sd_provider_configuration x))" "\<not> asks_for_default_shm x"
    and ov: "distinct (map fst ov)"
    and before: "sc_get_container_group (ae_client env) h (sd_container_group_name x) = Inr g0"
      "validate_runtime_group x g0 None = Inr ()" "cg_version g0 = v" "\<not> cg_pending_change g0"
      "runtime_admission_id g0 \<noteq> Some m"
    and accepted: "sc_update_container_group (ae_client env) (h @ [read_call x]) (sd_container_group_name x) patch = Inr g1"
      "validate_runtime_group x g1 None = Inr ()" "cg_pending_change g1" "cg_version g1 \<in> {v, v + 1}"
    and sent: "h1 = h @ [read_call x, CallUpdateContainerGroup (sd_container_group_name x) patch]"
    and applying: "\<And>i. i < k \<Longrightarrow> \<exists>g. sc_get_container_group (ae_client env) (h1 @ replicate i (read_call x))
        (sd_container_group_name x) = Inr g \<and> validate_runtime_group x g None = Inr () \<and> cg_pending_change g
        \<and> cg_version g \<le> v + 1"
    and applied: "sc_get_container_group (ae_client env) (h1 @ replicate k (read_call x)) (sd_container_group_name x) = Inr g"
      "cg_name g = cg_name g0" "cg_id g = cg_id g0" "cg_raw g = patched_report patch (cg_raw g0)"
      "cg_replicas g \<le> sd_max_replicas x" "cg_version g = v + 1" "\<not> cg_pending_change g"
    and time: "k < ae_polls env h1"
  shows "refresh_container_group_runtime env x resolver (Some ov) (Some v) (Some m) (Some n) h =
    (h1 @ replicate (Suc k) (read_call x), Inr g)"
  by (rule refresh_run [OF assms])

lemma refresh_converges_witness:
  "refresh_container_group_runtime sample_admission_env sample_refresh_row None (Some sample_overrides) (Some 4)
     (Some sample_marker) (Some 1) [] =
     ([CallGetContainerGroup ''worker'', CallUpdateContainerGroup ''worker'' sample_patch]
       @ replicate (Suc 1) (read_call sample_refresh_row), Inr group_after)"
  by (rule refresh_converges [OF sample_allowed sample_patch sample_row_ok, where ?g0.0 = group_before
      and ?g1.0 = group_pending]) (simp_all add: sample_environment)

end
