(* ===== verification/QueueAdmissionTheorems.thy ===== *)
theory QueueAdmissionTheorems
  imports QueueAdmissionFacts RuntimeAdmissionTheorems
begin

text \<open>
  Properties of the admission of a job: which failures are conclusive, what the demand for one worker sends and returns,
  and which worker is admitted.
\<close>

section \<open>Failures\<close>

lemma complete_refresh_preflight: "complete env True (refresh_preflight env x plan)"
  unfolding refresh_preflight_def Let_def
  by (intro complete_bind complete_calls complete_checked) (auto split: option.split intro: complete_poll complete_value)

lemma complete_send_refresh: "complete env limited (send_refresh env x eff g applied patch)"
  unfolding send_refresh_def by (intro complete_rules)

lemma complete_hold_floor: "complete env True (hold_floor env x bound eff g)"
  unfolding hold_floor_def raise_autoscaler_floor_def Let_def
  by (auto split: sum.split deployment_error.split intro!: complete_rules complete_poll)

lemma complete_admission:
  "complete env True (raise_replicas env x bound eff g)" "complete env True (start_stopped env x bound eff g)"
  unfolding raise_replicas_def start_stopped_def Let_def by (intro complete_rules complete_poll)+

text \<open>C20: A failure needs answers. Whenever one of the five operations of run-time admission fails (a planned refresh, its
  preflight, the reading of a warm worker's identity, the demand for one worker, the proof of the only consumer), either it
  reports the worker as unavailable, which leaves the job waiting, or the provider has answered every call that was made:
  a transport failure, an error status and an expired time limit never count as a failed generation.\<close>

theorem failures_are_conclusive:
  "conclusive env (refresh_container_group_runtime env x resolver overrides (Some v) m eff)
   \<and> conclusive env (preflight_container_group_runtime_refresh env x)
   \<and> conclusive env (read_container_group_runtime_admission_identity env x v sha)
   \<and> conclusive env (ensure_container_group_queue_admission env x n sha' m)
   \<and> conclusive env (container_group_runtime_admission_ready env x v sha m')"
proof (intro conjI)
  show "conclusive env (refresh_container_group_runtime env x resolver overrides (Some v) m eff)"
  proof (cases "refresh_allowed x overrides (Some v) m")
    case (Inl e)
    then show ?thesis by (simp add: refresh_container_group_runtime_def conclusive_lift)
  next
    case (Inr plan)
    from planned_refresh_plan(1) [OF refresh_allowed_plan [OF Inr] refl] obtain p where p: "plan = Some p" by blast
    show ?thesis unfolding refresh_container_group_runtime_def Inr bind_lift Let_def
      by (intro conclusive_bind conclusive_lift conclusive_handle [where limited = True] complete_bind
          complete_refresh_preflight complete_send_refresh complete_poll) (simp_all add: p)
  qed
  show "conclusive env (preflight_container_group_runtime_refresh env x)"
    unfolding preflight_container_group_runtime_refresh_def
    by (intro conclusive_bind conclusive_lift conclusive_handle [where limited = False] complete_rules) simp_all
  show "conclusive env (read_container_group_runtime_admission_identity env x v sha)"
    unfolding read_container_group_runtime_admission_identity_def
    by (intro conclusive_bind conclusive_lift conclusive_handle [where limited = False] complete_rules) simp_all
  show "conclusive env (ensure_container_group_queue_admission env x n sha' m)"
    unfolding ensure_container_group_queue_admission_def
    by (intro conclusive_bind conclusive_lift conclusive_handle [where limited = True] complete_bind complete_calls
        complete_checked complete_hold_floor complete_admission) simp_all
  show "conclusive env (container_group_runtime_admission_ready env x v sha m')"
    unfolding container_group_runtime_admission_ready_def
    by (intro conclusive_bind conclusive_lift conclusive_handle [where limited = False] complete_rules) simp_all
qed

section \<open>The demand for one worker\<close>

lemma admission_cases:
  assumes "ensure_container_group_queue_admission env x eff manifest m h = (h', r)"
  obtains (refused) e where "h' = h" "r = Inl e"
  | (allowed) bound where "queue_admission_allowed x eff manifest m = Inr bound"
      "sends h (admission_mutations x bound eff) h'"
      "\<And>g. r = Inr g \<Longrightarrow> admissible env x bound eff h g h' \<and> (sends h (started_patches x bound eff) h'
        \<or> sends h (sized_patches x bound eff) h' \<and> eff \<le> cg_replicas g \<and> \<not> is_authoritatively_stopped g
            \<and> py_lower (py_strip (cg_status g)) \<noteq> ''failed'')"
proof (cases "queue_admission_allowed x eff manifest m")
  case (Inl e)
  with assms refused show ?thesis by (auto simp: ensure_container_group_queue_admission_def)
next
  case (Inr bound)
  note e = queue_admission_ensures [OF Inr, of h env]
  show ?thesis
  proof (rule allowed [OF Inr])
    show "sends h (admission_mutations x bound eff) h'"
    proof (cases r)
      case (Inl e')
      with assms ensures_result(2) [OF e refl] show ?thesis by blast
    next
      case (Inr g)
      with assms ensures_result(1) [OF e refl] have "sends h (started_patches x bound eff) h' \<or> sends h (sized_patches x bound eff) h'"
        by blast
      then show ?thesis by (auto simp: admission_mutations_def elim: sends_mono)
    qed
    show "admissible env x bound eff h g h' \<and> (sends h (started_patches x bound eff) h'
        \<or> sends h (sized_patches x bound eff) h' \<and> eff \<le> cg_replicas g \<and> \<not> is_authoritatively_stopped g
            \<and> py_lower (py_strip (cg_status g)) \<noteq> ''failed'')" if "r = Inr g" for g
      using assms that ensures_result(1) [OF e refl] by blast
  qed
qed

lemma admission_bound:
  assumes "queue_admission_allowed x eff manifest m = Inr bound"
  shows "bound = (case manifest of None \<Rightarrow> None | Some s \<Rightarrow> map_option (Pair s) m)" "eff = 1"
  using assms by (auto simp: queue_admission_allowed_def admission_identity_def bindE_eq_Inr split: if_splits option.splits)

text \<open>A provider for the witnesses: the refreshed group has no replica until the first mutation.\<close>

definition group_idle :: SaladContainerGroup where
  "group_idle = group_after\<lparr>cg_replicas := 0\<rparr>"

definition sample_idle_env :: admission_env where
  "sample_idle_env = sample_admission_env\<lparr>ae_client := sample_refresh_client\<lparr>
     sc_get_container_group := (\<lambda>h n. Inr (if list_ex is_mutation h then group_after else group_idle)),
     sc_update_container_group := (\<lambda>h n p. Inr group_idle)\<rparr>\<rparr>"

definition idle_calls :: "provider_call list" where
  "idle_calls = [CallGetContainerGroup ''worker'', CallGetQueue ''queue'',
     CallUpdateContainerGroup ''worker'' [(''replicas'', PInt 1)], CallGetContainerGroup ''worker'']"

lemma sample_idle_groups:
  assumes "g \<in> {group_after, group_idle}" "eff \<in> {None, Some 1}"
  shows "validate_runtime_group sample_refresh_row g eff = Inr ()"
proof -
  have ov: "distinct (map fst sample_overrides)" "map_of sample_overrides WORKER_RUNTIME_ADMISSION_ID_BINDING = Some sample_marker"
    by (simp_all add: sample_environment)
  have "validate_runtime_group sample_refresh_row g None = Inr () \<and> validate_runtime_group sample_refresh_row g (Some 1) = Inr ()"
    using patched_group(1,2) [OF sample_patch sample_row_ok ov sample_before(1), of g] assms(1) by (auto simp: group_idle_def)
  with assms(2) show ?thesis by auto
qed

lemma sample_admissible:
  "validate_bound sample_refresh_row None (Some 1) group_after = Inr ()"
  "validate_bound sample_refresh_row None (Some 1) group_idle = Inr ()"
  by (simp_all add: validate_bound_def validate_runtime_identity_def sample_idle_groups)

lemma sample_admission_allowed: "queue_admission_allowed sample_refresh_row 1 None None = Inr None"
  by (simp add: queue_admission_allowed_def admission_identity_def defer_unknown_runtime_observation_def
      sample_refresh_row_def sample_configured_deployment_def sample_worker_deployment_def)

lemma sample_queue [simp]:
  "sd_queue_name sample_refresh_row = ''queue''" "sd_provider_queue_id sample_refresh_row = Some (uuid_str 7)"
  by (simp_all add: sample_refresh_row_def sample_configured_deployment_def sample_worker_deployment_def)

lemma group_after_status [simp]: "cg_status group_after = ''running''" "\<not> is_authoritatively_stopped group_after"
  by (simp_all add: cg_status_def is_authoritatively_stopped_def group_after_def sample_group_def Let_def)

lemma sample_admission_run:
  "ensure_container_group_queue_admission sample_idle_env sample_refresh_row 1 None None [] = (idle_calls, Inr group_after)"
proof -
  have floor: "hold_floor sample_idle_env sample_refresh_row None 1 group_idle = lift_io (Inr group_idle)"
    by (simp add: hold_floor_def sample_admissible)
  have observation: "validate_queue_admission_observation sample_refresh_row group_idle = Inr ()"
    by (simp add: validate_queue_admission_observation_def sample_idle_groups)
  have judge: "replica_judge sample_refresh_row None 1 5 group_after = Inr True"
    by (simp add: replica_judge_def sample_admissible)
  have idle: "cg_replicas group_idle = 0" "\<not> cg_pending_change group_idle" "cg_version group_idle = 5"
    by (simp_all add: group_idle_def)
  have failed: "py_lower (py_strip ''running'') \<noteq> ''failed''" by code_simp
  have poll: "poll_until sample_idle_env ''worker'' (replica_judge sample_refresh_row None 1 5)
      [CallGetContainerGroup ''worker'', CallGetQueue ''queue'', CallUpdateContainerGroup ''worker'' [(''replicas'', PInt 1)]]
      = (idle_calls, Inr group_after)"
    using poll_settles [of 0 sample_idle_env
        "[CallGetContainerGroup ''worker'', CallGetQueue ''queue'',
          CallUpdateContainerGroup ''worker'' [(''replicas'', PInt 1)]]" "''worker''" _ group_after] judge
    by (simp add: sample_idle_env_def sample_admission_env_def idle_calls_def)
  have reads: "read_group sample_idle_env ''worker'' [] = ([CallGetContainerGroup ''worker''], Inr group_idle)"
      "read_queue sample_idle_env ''queue'' h = (h @ [CallGetQueue ''queue''],
         Inr \<lparr>sq_id = 7, sq_name = ''queue'', sq_current_queue_length = 0\<rparr>)"
      "update_group sample_idle_env ''worker'' patch h = (h @ [CallUpdateContainerGroup ''worker'' patch], Inr group_idle)"
    for h patch
    by (simp_all add: read_group_def read_queue_def update_group_def provider_io_def sample_idle_env_def
        sample_admission_env_def sample_refresh_client_def)
  show ?thesis
    unfolding ensure_container_group_queue_admission_def sample_admission_allowed bind_lift
    by (simp add: handle_io_def bind_io_def reads checked_def observation floor idle raise_replicas_def Let_def
        sample_admissible poll start_stopped_def failed validate_runtime_identity_def)
qed

text \<open>C19: The demand for one worker sends at most three mutations, in this order: the autoscaler patch that raises the floor
  to one, the patch that sets the replica count to one, the start. A demand that is bound to a manifest and an admission
  identifier never sends the first of them, since a change of the autoscaler could recycle the refreshed worker.\<close>

theorem admission_sends_in_order:
  assumes "ensure_container_group_queue_admission env x eff manifest m h = (h', r)"
  shows "\<exists>new a b c. h' = h @ new \<and> mutations new = a @ b @ c
    \<and> (a = [] \<or> manifest = None \<and> (\<exists>d. desired_queue_autoscaler x (Some 1) = Inr d
         \<and> a = [CallUpdateContainerGroup (sd_container_group_name x) [(''queue_autoscaler'', PDict d)]]))
    \<and> b \<in> {[], [CallUpdateContainerGroup (sd_container_group_name x) [(''replicas'', PInt 1)]]}
    \<and> c \<in> {[], [CallStartContainerGroup (sd_container_group_name x)]}"
  using assms
proof (cases rule: admission_cases)
  case (refused e)
  then show ?thesis by (intro exI [of _ "[]"]) simp
next
  case (allowed bound)
  note b = admission_bound [OF allowed(1)]
  from allowed(2) obtain new where new: "h' = h @ new" "mutations new \<in> admission_mutations x bound eff"
    by (auto simp: sends_def)
  define F where "F = floor_patches x bound eff"
  from new(2) have "\<exists>a b c. mutations new = a @ b @ c \<and> a \<in> F
    \<and> b \<in> {[], [CallUpdateContainerGroup (sd_container_group_name x) [(''replicas'', PInt eff)]]}
    \<and> c \<in> {[], [CallStartContainerGroup (sd_container_group_name x)]}"
    unfolding admission_mutations_def started_patches_def sized_patches_def F_def [symmetric]
    by (elim UnE CollectE exE conjE) (metis append_Nil2 append.assoc insertI1 insertI2)+
  then obtain a b c where abc: "mutations new = a @ b @ c" "a \<in> F"
    "b \<in> {[], [CallUpdateContainerGroup (sd_container_group_name x) [(''replicas'', PInt eff)]]}"
    "c \<in> {[], [CallStartContainerGroup (sd_container_group_name x)]}" by blast
  have "a = [] \<or> manifest = None \<and> (\<exists>d. desired_queue_autoscaler x (Some 1) = Inr d
      \<and> a = [CallUpdateContainerGroup (sd_container_group_name x) [(''queue_autoscaler'', PDict d)]])"
    using abc(2) b allowed(1)
    by (auto simp: F_def floor_patches_def queue_admission_allowed_def admission_identity_def bindE_eq_Inr
        split: if_splits option.splits)
  with new(1) abc b(2) show ?thesis by blast
qed

lemma admission_sends_in_order_witness:
  "\<exists>h' r. ensure_container_group_queue_admission sample_idle_env sample_refresh_row 1 None None [] = (h', r)
     \<and> mutations h' = [CallUpdateContainerGroup ''worker'' [(''replicas'', PInt 1)]]"
  using admission_sends_in_order [OF sample_admission_run]
  by (intro exI [of _ idle_calls] exI [of _ "Inr group_after"]) (simp add: sample_admission_run, simp add: idle_calls_def)

text \<open>C40: The group a demand returns is current: it was read after the last mutation, it matches the deployment with the
  floor of one replica and the identity the demand is bound to, and no change is pending. Unless the run itself requested
  the start, the group has its replica, is neither stopped nor failed.\<close>

theorem admitted_group_is_current:
  assumes "ensure_container_group_queue_admission env x eff manifest m h = (h', Inr g)"
  shows "observed env x h g h' \<and> validate_runtime_group x g (Some 1) = Inr () \<and> \<not> cg_pending_change g
    \<and> (\<forall>s. manifest = Some s \<longrightarrow> (\<exists>i. m = Some i \<and> validate_group_runtime_admission_identity g s i = Inr ()))
    \<and> (CallStartContainerGroup (sd_container_group_name x) \<in> set (drop (length h) h')
       \<or> 1 \<le> cg_replicas g \<and> \<not> is_authoritatively_stopped g \<and> py_lower (py_strip (cg_status g)) \<noteq> ''failed'')"
  using assms
proof (cases rule: admission_cases)
  case (allowed bound)
  note b = admission_bound [OF allowed(1)]
  note p = allowed(3) [OF refl]
  have start: "CallStartContainerGroup (sd_container_group_name x) \<in> set (drop (length h) h')"
    if started: "sends h (started_patches x bound eff) h'"
  proof -
    from started obtain new m where new: "h' = h @ new"
      "mutations new = m @ [CallStartContainerGroup (sd_container_group_name x)]"
      by (auto simp: sends_def started_patches_def)
    then have "CallStartContainerGroup (sd_container_group_name x) \<in> set (mutations new)" by simp
    with new(1) show ?thesis by (simp add: mutations_def)
  qed
  have identity: "\<exists>i. m = Some i \<and> validate_group_runtime_admission_identity g s i = Inr ()" if s: "manifest = Some s" for s
  proof -
    obtain i where i: "m = Some i" using allowed(1) s
      by (cases m) (auto simp: queue_admission_allowed_def admission_identity_def bindE_eq_Inr split: if_splits)
    have "validate_runtime_identity bound g = Inr ()"
      using p by (simp add: admissible_def validate_bound_parts)
    with i s b(1) show ?thesis by (simp add: validate_runtime_identity_def)
  qed
  show ?thesis
    using p start identity b(2) by (auto simp: admissible_def validate_bound_parts)
qed simp

lemma admitted_group_is_current_witness:
  "validate_runtime_group sample_refresh_row group_after (Some 1) = Inr ()
    \<and> observed sample_idle_env sample_refresh_row [] group_after idle_calls"
  using admitted_group_is_current [OF sample_admission_run] by simp

text \<open>A group that matches the deployment with a floor of one also matches it with the floor it shows.\<close>

lemma validate_observed:
  assumes "validate_runtime_group x g (Some 1) = Inr ()"
  shows "validate_runtime_group x g None = Inr ()"
proof -
  have id: "cg_name g = sd_container_group_name x" "sd_provider_container_group_id x = Some (uuid_str (cg_id g))"
      and drift: "group_configuration_drift x g (Some 1) = Inr None"
    using assms by (auto simp: validate_runtime_group_def bindE_eq_Inr split: if_splits)
  from drift obtain e where e: "desired_queue_autoscaler x (Some 1) = Inr e"
      "matches_worker_contract True (py_get (cg_raw g) ''queue_autoscaler'') (PDict e)"
    unfolding no_drift_iff by (elim exE conjE) (rule that)
  from e(2) obtain a where a: "py_get (cg_raw g) ''queue_autoscaler'' = PDict a"
      "list_all (\<lambda>(k, e). case map_of a k of None \<Rightarrow> False | Some v \<Rightarrow> matches_worker_contract True v e) e"
    by (auto split: pyval.splits)
  from e(1) have min: "map_of e ''min_replicas'' = Some (PInt 1)"
    by (auto simp: desired_queue_autoscaler_def Let_def split: if_splits)
  from map_of_SomeD [OF min] a(2) have "py_get a ''min_replicas'' = PInt 1"
    by (fastforce simp: list_all_iff py_get_def split: option.splits)
  then have "observed_min_replicas g = Inr 1" by (simp add: observed_min_replicas_def a(1))
  with id drift show ?thesis by (simp add: validate_runtime_group_def)
qed

text \<open>Repeating an admission changes nothing. When the group that a demand has returned holds its replica and is still what
  the provider answers, the next demand for the same job reads the group and the queue, sends no mutation and returns the
  same group.\<close>

theorem repeated_admission_is_silent:
  assumes first: "ensure_container_group_queue_admission env x eff manifest m h = (h1, Inr g)"
    and live: "1 \<le> cg_replicas g" "\<not> is_authoritatively_stopped g" "py_lower (py_strip (cg_status g)) \<noteq> ''failed''"
    and same: "sc_get_container_group (ae_client env') h2 (sd_container_group_name x) = Inr g"
      "sc_get_queue (ae_client env') (h2 @ [read_call x]) (sd_queue_name x) = Inr q"
      "sd_provider_queue_id x = Some (uuid_str (sq_id q))" "sq_name q = sd_queue_name x"
  shows "ensure_container_group_queue_admission env' x eff manifest m h2 =
    (h2 @ [read_call x, CallGetQueue (sd_queue_name x)], Inr g)"
  using first
proof (cases rule: admission_cases)
  case (allowed bound)
  have eff: "eff = 1" by (rule admission_bound(2) [OF allowed(1)])
  have ok: "validate_bound x bound (Some 1) g = Inr ()" "\<not> cg_pending_change g"
    using allowed(3) [OF refl] eff by (simp_all add: admissible_def)
  then have v: "validate_runtime_group x g None = Inr ()" "validate_runtime_identity bound g = Inr ()"
    by (auto simp: validate_bound_parts validate_observed)
  have floor: "hold_floor env' x bound 1 g = lift_io (Inr g)" by (simp add: hold_floor_def ok(1))
  have observation: "validate_queue_admission_observation x g = Inr ()"
    by (simp add: validate_queue_admission_observation_def v(1))
  show ?thesis
    unfolding ensure_container_group_queue_admission_def eff allowed(1) [unfolded eff] bind_lift
    using live same ok(2) v(2)
    by (simp add: handle_io_def bind_io_def read_group_def read_queue_def provider_io_def checked_def observation floor
        raise_replicas_def start_stopped_def Let_def)
qed simp

lemma repeated_admission_is_silent_witness:
  "ensure_container_group_queue_admission sample_idle_env sample_refresh_row 1 None None idle_calls =
     (idle_calls @ [read_call sample_refresh_row, CallGetQueue (sd_queue_name sample_refresh_row)], Inr group_after)"
proof -
  have failed: "py_lower (py_strip ''running'') \<noteq> ''failed''" by code_simp
  show ?thesis
    by (rule repeated_admission_is_silent [OF sample_admission_run,
          where q = "\<lparr>sq_id = 7, sq_name = ''queue'', sq_current_queue_length = 0\<rparr>"])
      (simp_all add: failed sample_idle_env_def sample_admission_env_def sample_refresh_client_def idle_calls_def)
qed

section \<open>The only consumer\<close>

lemma ready_result:
  assumes "container_group_runtime_admission_ready env x v sha m h = (h', Inr (Some i))"
  obtains g instances j where
    "h' = h @ [read_call x, CallGetQueue (sd_queue_name x), CallListInstances (sd_container_group_name x)]"
    "sc_get_container_group (ae_client env) h (sd_container_group_name x) = Inr g"
    "validate_runtime_group x g None = Inr ()" "cg_version g = v"
    "validate_group_runtime_admission_identity g sha m = Inr ()"
    "sc_list_container_group_instances (ae_client env) (h @ [read_call x, CallGetQueue (sd_queue_name x)])
       (sd_container_group_name x) = Inr [j]"
    "gi_id j = i" "gi_version j = v" "gi_state j = InstanceRUNNING" "gi_started j = Some True"
    "cg_replicas g = 1" "\<not> cg_pending_change g" "gs_running_count (cg_current_state g) = 1"
  using assms
  unfolding container_group_runtime_admission_ready_def handle_io_def bind_io_def read_group_def read_queue_def
    list_instances_def provider_io_def checked_def lift_io_def
  by (auto simp: sole_ready_instance_def Let_def split: sum.splits if_splits list.splits)

text \<open>C14: Only the refreshed worker is admitted. After a planned refresh has returned, an instance is admitted for its version
  and marker on three reads alone, and then it is the only instance of the group: running and started, at the version the
  refresh produced, which is later than the planned one, in a group that shows one replica, one running instance, no
  pending change and the planned marker. A worker from before the refresh is never admitted.\<close>

theorem only_the_refreshed_worker_is_admitted:
  assumes refresh: "refresh_container_group_runtime env x resolver overrides (Some v) (Some m) eff h = (h1, Inr g1)"
    and ready: "container_group_runtime_admission_ready env' x (cg_version g1) sha m h2 = (h3, Inr (Some i))"
  shows "\<exists>g j. h3 = h2 @ [read_call x, CallGetQueue (sd_queue_name x), CallListInstances (sd_container_group_name x)]
    \<and> sc_get_container_group (ae_client env') h2 (sd_container_group_name x) = Inr g
    \<and> cg_version g = cg_version g1 \<and> runtime_admission_id g = Some m \<and> \<not> cg_pending_change g \<and> cg_replicas g = 1
    \<and> gs_running_count (cg_current_state g) = 1
    \<and> sc_list_container_group_instances (ae_client env') (h2 @ [read_call x, CallGetQueue (sd_queue_name x)])
        (sd_container_group_name x) = Inr [j]
    \<and> gi_id j = i \<and> gi_state j = InstanceRUNNING \<and> gi_started j = Some True
    \<and> gi_version j = cg_version g1 \<and> v < gi_version j"
proof -
  have later: "v < cg_version g1"
    using refresh
  proof (cases rule: refresh_cases)
    case (allowed plan)
    from allowed(4) [OF refl] allowed(2) [OF refl] show ?thesis by (auto simp: refreshed_def)
  qed simp
  show ?thesis
  proof (rule ready_result [OF ready])
    fix g j
    assume r: "h3 = h2 @ [read_call x, CallGetQueue (sd_queue_name x), CallListInstances (sd_container_group_name x)]"
      "sc_get_container_group (ae_client env') h2 (sd_container_group_name x) = Inr g" "cg_version g = cg_version g1"
      "sc_list_container_group_instances (ae_client env') (h2 @ [read_call x, CallGetQueue (sd_queue_name x)])
       (sd_container_group_name x) = Inr [j]"
      "gi_id j = i" "gi_version j = cg_version g1" "gi_state j = InstanceRUNNING" "gi_started j = Some True"
      "cg_replicas g = 1" "\<not> cg_pending_change g" "gs_running_count (cg_current_state g) = 1"
    assume "validate_group_runtime_admission_identity g sha m = Inr ()"
    then have "runtime_admission_id g = Some m"
      by (auto simp: validate_group_runtime_admission_identity_def runtime_admission_id_def split: if_splits option.splits)
    with r later show ?thesis by auto
  qed
qed

lemma sample_identity: "validate_group_runtime_admission_identity group_after sample_manifest sample_marker = Inr ()"
  by code_simp

lemma sample_ready_run:
  "container_group_runtime_admission_ready sample_admission_env sample_refresh_row (cg_version group_after) sample_manifest
     sample_marker sample_calls =
   (sample_calls @ [read_call sample_refresh_row, CallGetQueue ''queue'', CallListInstances ''worker''], Inr (Some ''i''))"
proof -
  have pattern: "\<not> admission_manifest_invalid sample_manifest" "runtime_admission_id_pattern sample_marker" by code_simp+
  have running: "py_lower (py_strip ''running'') = ''running''" by code_simp
  have state: "cg_current_state group_after = \<lparr>gs_status = ''running'', gs_description = [], gs_allocating_count = 0,
      gs_creating_count = 0, gs_running_count = 1, gs_stopping_count = 0, gs_start_time = None, gs_finish_time = None\<rparr>"
    by (simp add: group_after_def sample_group_def)
  show ?thesis
    by (simp add: container_group_runtime_admission_ready_def pattern handle_io_def bind_io_def read_group_def read_queue_def
        list_instances_def provider_io_def checked_def sample_admission_env_def sample_refresh_client_def sample_calls_def
        sample_idle_groups sample_identity sole_ready_instance_def state running)
qed

lemma only_the_refreshed_worker_is_admitted_witness:
  "\<exists>j. sc_list_container_group_instances sample_refresh_client
       (sample_calls @ [read_call sample_refresh_row, CallGetQueue (sd_queue_name sample_refresh_row)]) ''worker'' = Inr [j]
     \<and> gi_id j = ''i'' \<and> 4 < gi_version j"
  using only_the_refreshed_worker_is_admitted [OF sample_run sample_ready_run]
  by (auto simp: sample_admission_env_def)

end
