(* ===== verification/DeploymentStops.thy ===== *)
theory DeploymentStops
  imports DeploymentCalls
begin

text \<open>
  Stop cycles: the only mutation is the stop of the deployment's own group, and a stop is reported as confirmed only when
  the provider's answers of this cycle show it.
\<close>

definition no_running :: "SaladContainerGroupInstance list \<Rightarrow> bool" where
  "no_running insts \<longleftrightarrow> list_all (\<lambda>i. gi_state i \<noteq> InstanceRUNNING) insts"

lemma no_running_count: "int (length (filter (\<lambda>i. gi_state i = InstanceRUNNING) insts)) = 0 \<longleftrightarrow> no_running insts"
  by (auto simp: no_running_def list_all_iff filter_empty_conv)

text \<open>A group that is stopped by its status, or has no replica, no instance, no pending change and a blank status.\<close>

definition group_settled :: "SaladContainerGroup \<Rightarrow> bool" where
  "group_settled g \<longleftrightarrow> (let s = cg_current_state g in py_lower (py_strip (gs_status s)) = ''stopped''
     \<or> (py_strip (gs_status s) = [] \<and> \<not> cg_pending_change g \<and> cg_replicas g = 0 \<and> gs_allocating_count s = 0
        \<and> gs_creating_count s = 0 \<and> gs_running_count s = 0 \<and> gs_stopping_count s = 0))"

lemma terminal_settled: "terminal_group x (Some g) \<Longrightarrow> group_settled g"
  by (auto simp: terminal_group_def stop_converged_def group_settled_def cg_status_def Let_def)

text \<open>A stop without its queue whose instances are not confirmed: the one result the schema refuses.\<close>

definition unconfirmed_without_queue :: "DeploymentResult \<Rightarrow> bool" where
  "unconfirmed_without_queue r \<longleftrightarrow> dr_action r = DEFERRED \<and> dr_state r = DeploymentDRAINING \<and> dr_provider_queue_id r = None"

definition stops_only :: "string \<Rightarrow> provider_call list set" where
  "stops_only n = {[], [CallStopContainerGroup n]}"

lemma stops_only_nil [simp]: "[] \<in> stops_only n" "[CallStopContainerGroup n] \<in> stops_only n"
  by (simp_all add: stops_only_def)

definition stop_kept :: "step_env \<Rightarrow> provider_call list \<Rightarrow> string \<Rightarrow> step \<Rightarrow> bool" where
  "stop_kept env h n s \<longleftrightarrow> continues h (stops_only n) s
     \<and> (db_ok (fst s) \<or> unconfirmed_without_queue (snd (snd s)))"

lemma stop_kept_query: "stop_kept env (h @ [c]) n s \<Longrightarrow> \<not> is_mutation c \<Longrightarrow> stop_kept env h n s"
  unfolding stop_kept_def using continues_query by blast

lemma stop_kept_closing:
  assumes "db_ok d" "deployment_ok x"
  shows "stop_kept env h n (mark_failed d h x c t r m)" 
  using assms closing_ok(2) by (simp add: stop_kept_def continues_refl)

lemma send_stop_kept:
  assumes "db_ok d" "deployment_ok x"
  shows "stop_kept env h (sd_container_group_name x) (send_stop env d h x t m)"
    "action_of (send_stop env d h x t m) \<noteq> STOPPED"
proof -
  let ?y = "touch_deployment (with_error_code (or_text (sd_last_error_code
      (if has_provider_resources x then x\<lparr>sd_state := DeploymentDRAINING\<rparr>
       else x\<lparr>sd_state := DeploymentUNKNOWN, sd_unknown_since := Some (or_else (sd_unknown_since x) t)\<rparr>)) ''stop_requested'')
     ''Provider stop was accepted and awaits reconciliation.''
     ((if has_provider_resources x then x\<lparr>sd_state := DeploymentDRAINING\<rparr>
       else x\<lparr>sd_state := DeploymentUNKNOWN, sd_unknown_since := Some (or_else (sd_unknown_since x) t)\<rparr>)
        \<lparr>sd_reconcile_after := Some (t + RECONCILE_DELAY)\<rparr>))"
  have y: "deployment_ok ?y" using assms(2) by (simp add: deployment_ok_state)
  show "stop_kept env h (sd_container_group_name x) (send_stop env d h x t m)"
  proof (cases "sc_stop_container_group (env_client env) h (sd_container_group_name x)")
    case (Inl e)
    then show ?thesis
      using closing_ok(4) [OF assms]
      by (auto simp: send_stop_def Let_def stop_kept_def intro: continues_mutation)
  next
    case (Inr u)
    then show ?thesis
      using y assms(1)
      by (auto simp: send_stop_def Let_def stop_kept_def put_ok intro!: continues_mutation)
  qed
  show "action_of (send_stop env d h x t m) \<noteq> STOPPED"
  proof (cases "sc_stop_container_group (env_client env) h (sd_container_group_name x)")
    case (Inl e)
    then show ?thesis by (simp add: send_stop_def Let_def)
  next
    case (Inr u)
    then show ?thesis by (simp add: send_stop_def Let_def action_of_def deployment_result_def)
  qed
qed

definition stop_shown ::
  "step_env \<Rightarrow> provider_call list \<Rightarrow> uuid \<Rightarrow> SaladContainerGroup option \<Rightarrow> bool \<Rightarrow> bool \<Rightarrow> string \<Rightarrow> step \<Rightarrow> bool" where
  "stop_shown env h k found read_failed terminal n s \<longleftrightarrow>
     (\<exists>y. get_deployment k (fst s) = Some y \<and> stopped_row y)
       \<and> ((found = None \<and> \<not> read_failed)
          \<or> (found \<noteq> None \<and> terminal \<and> fst (snd s) = h @ [CallListInstances n]
              \<and> (\<exists>insts. sc_list_container_group_instances (env_client env) h n = Inr insts \<and> no_running insts)))"

text \<open>The stop of a group that is known to exist or is absent.\<close>

lemma stop_group_kept:
  assumes env: "env_ok env" and x: "step_inv env d h t x"
    and found: "\<And>g. found = Some g \<Longrightarrow> group_counts_ok g \<and> sd_provider_container_group_id x \<noteq> None"
    and s: "s = stop_group env d h x found read_failed terminal t" and n: "n = sd_container_group_name x"
  shows "stop_kept env h n s"
    "action_of s = STOPPED \<Longrightarrow> stop_shown env h (sd_id x) found read_failed terminal n s"
proof (atomize (full), cases found)
  case None
  have "stop_kept env h n s" "action_of s = STOPPED \<longrightarrow>
      (\<exists>y. get_deployment (sd_id x) (fst s) = Some y \<and> stopped_row y) \<and> \<not> read_failed"
    using confirm_stopped [OF x refl, of h t "''absent''" 0] send_stop_kept [of d x env h t 0] x
    by (auto simp: s None stop_group_def stop_kept_def continues_refl step_inv_def n)
  then show "stop_kept env h n s \<and> (action_of s = STOPPED \<longrightarrow> stop_shown env h (sd_id x) found read_failed terminal n s)"
    using None by (auto simp: stop_shown_def)
next
  case (Some g)
  obtain d1 h1 x1 m run where o: "observe_stopping_group env d h x g t = (d1, h1, x1, m, run)"
    by (cases "observe_stopping_group env d h x g t")
  note ob = observe_inv [OF env x _ o]
  have g: "group_counts_ok g" "sd_provider_container_group_id x \<noteq> None" using found [OF Some] by simp_all
  note x1 = ob(1) [OF g(1), unfolded step_inv_def] and same = ob(3) [OF g(1), unfolded same_resource_def]
  have n1: "sd_container_group_name x1 = n" "sd_id x1 = sd_id x" using same n by simp_all
  have h1: "h1 = h @ [CallListInstances n]" using ob(2) [OF g(1)] n by simp
  have s': "s = (if terminal
      then (if run = Some 0 then confirm_provider_group_stopped d1 h1 x1
              (or_else (gs_finish_time (cg_current_state g)) t) ''stopped'' m
            else defer_unconfirmed_stop d1 h1 x1 t m)
      else send_stop env d1 h1 x1 t m)"
    by (simp add: s Some stop_group_def o)
  consider (confirm) "terminal" "run = Some 0" | (wait) "terminal" "run \<noteq> Some 0" | (send) "\<not> terminal" by blast
  then show "stop_kept env h n s \<and> (action_of s = STOPPED \<longrightarrow> stop_shown env h (sd_id x) found read_failed terminal n s)"
  proof cases
    case confirm
    then have "s = confirm_provider_group_stopped d1 h1 x1 (or_else (gs_finish_time (cg_current_state g)) t) ''stopped'' m"
      by (simp add: s')
    note c = confirm_stopped [OF ob(1) [OF g(1)] this]
    have "stop_kept env h1 n s" using c by (simp add: stop_kept_def continues_refl)
    then have "stop_kept env h n s" unfolding h1 by (rule stop_kept_query) simp
    moreover have "\<exists>insts. sc_list_container_group_instances (env_client env) h n = Inr insts \<and> no_running insts"
      using ob(4) [OF g(1)] confirm(2) n
      by (auto simp: no_running_count [symmetric] split: sum.splits)
    ultimately show ?thesis using c h1 n1 Some confirm(1) by (simp add: stop_shown_def)
  next
    case wait
    then have s1: "s = defer_unconfirmed_stop d1 h1 x1 t m" by (simp add: s')
    have "db_ok (fst s) \<or> unconfirmed_without_queue (snd (snd s))"
    proof (cases "sd_provider_queue_id x1 = None")
      case True
      then show ?thesis
        by (simp add: s1 unconfirmed_without_queue_def defer_unconfirmed_stop_def Let_def deployment_result_def)
    next
      case False
      then have "has_provider_resources x1" using g(2) same by (simp add: has_provider_resources_def)
      then show ?thesis using closing_ok(7) x1 by (simp add: s1)
    qed
    then have "stop_kept env h1 n s" by (simp add: stop_kept_def continues_refl s1)
    then have "stop_kept env h n s" unfolding h1 by (rule stop_kept_query) simp
    then show ?thesis by (simp add: s1)
  next
    case send
    then have s1: "s = send_stop env d1 h1 x1 t m" by (simp add: s')
    have "stop_kept env h1 n s" using send_stop_kept(1) [of d1 x1] x1 by (simp add: s1 n1 [symmetric])
    then have "stop_kept env h n s" unfolding h1 by (rule stop_kept_query) simp
    then show ?thesis using send_stop_kept(2) [of d1 x1] x1 by (simp add: s1)
  qed
qed

section \<open>The whole stop cycle\<close>

text \<open>
  What a confirmed stop rests on: after \<open>h\<close> the group was read and is missing, or it was read as settled and the list
  of its instances shows none running.
\<close>

definition listed_idle :: "step_env \<Rightarrow> provider_call list \<Rightarrow> string \<Rightarrow> provider_call list \<Rightarrow> bool" where
  "listed_idle env h n calls \<longleftrightarrow> (\<exists>c e insts. calls = h @ c @ CallListInstances n # e
     \<and> sc_list_container_group_instances (env_client env) (h @ c) n = Inr insts \<and> no_running insts)"

definition stop_evidence :: "step_env \<Rightarrow> provider_call list \<Rightarrow> string \<Rightarrow> provider_call list \<Rightarrow> bool" where
  "stop_evidence env h n calls \<longleftrightarrow>
     (\<exists>a b. calls = h @ a @ CallGetContainerGroup n # b \<and>
       (case none_if_missing (sc_get_container_group (env_client env) (h @ a) n) of
          Inl _ \<Rightarrow> False
        | Inr None \<Rightarrow> True
        | Inr (Some g) \<Rightarrow> group_settled g \<and> listed_idle env h n calls))"

lemma listed_idle_later: "listed_idle env (h @ k) n calls \<Longrightarrow> listed_idle env h n calls"
  unfolding listed_idle_def by (elim exE) (rule_tac x = "k @ c" in exI, simp)

lemma stop_evidence_later: "stop_evidence env (h @ k) n calls \<Longrightarrow> stop_evidence env h n calls"
  unfolding stop_evidence_def
  by (elim exE, rule_tac x = "k @ a" in exI, rule_tac x = b in exI)
    (auto split: sum.splits option.splits intro: listed_idle_later)

lemma recover_group_inv:
  assumes "step_inv env d h t x" and "recover_group_id d x found t = (d', y)"
  shows "step_inv env d' h t y" "sd_id y = sd_id x" "sd_container_group_name y = sd_container_group_name x"
    "found \<noteq> None \<Longrightarrow> sd_provider_container_group_id y \<noteq> None"
proof -
  have new: "step_inv env (write_audited z a e t d) h t z"
    if "z = touch_deployment (x\<lparr>sd_provider_container_group_id := Some g\<rparr>)" for z a e g
    using assms(1) that by (intro step_inv_put(3) [OF assms(1)]) (auto simp: step_inv_def deployment_ok_ids)
  then show "step_inv env d' h t y" "sd_id y = sd_id x" "sd_container_group_name y = sd_container_group_name x"
    "found \<noteq> None \<Longrightarrow> sd_provider_container_group_id y \<noteq> None"
    using assms by (auto simp: recover_group_id_def Let_def split: option.splits if_splits)
qed

lemma recover_queue_inv:
  assumes "step_inv env d h t x" and "recover_queue_id d x q t = (d', y)"
  shows "step_inv env d' h t y" "sd_id y = sd_id x" "sd_container_group_name y = sd_container_group_name x"
    "sd_provider_container_group_id y = sd_provider_container_group_id x"
proof -
  have "step_inv env (write_audited z a e t d) h t z"
    if "z = touch_deployment (x\<lparr>sd_provider_queue_id := Some g\<rparr>)" for z a e g
    using assms(1) that by (intro step_inv_put(3) [OF assms(1)]) (auto simp: step_inv_def deployment_ok_ids)
  then show "step_inv env d' h t y" "sd_id y = sd_id x" "sd_container_group_name y = sd_container_group_name x"
    "sd_provider_container_group_id y = sd_provider_container_group_id x"
    using assms by (auto simp: recover_queue_id_def Let_def)
qed

definition stop_proved :: "step_env \<Rightarrow> provider_call list \<Rightarrow> uuid \<Rightarrow> string \<Rightarrow> step \<Rightarrow> bool" where
  "stop_proved env h k n s \<longleftrightarrow> stop_kept env h n s \<and> (action_of s = STOPPED \<longrightarrow>
     stop_evidence env h n (fst (snd s)) \<and> (\<exists>y. get_deployment k (fst s) = Some y \<and> stopped_row y))"

lemma stop_proved_later: "stop_proved env (h @ [c]) k n s \<Longrightarrow> \<not> is_mutation c \<Longrightarrow> stop_proved env h k n s"
  unfolding stop_proved_def using stop_kept_query stop_evidence_later by blast

text \<open>The end of the cycle, with at most a read of the queue between the read of the group and its stop.\<close>

lemma stop_tail:
  assumes env: "env_ok env" and x: "step_inv env d (h @ CallGetContainerGroup n # qs) t x"
    and answer: "none_if_missing (sc_get_container_group (env_client env) h n) = answer"
    and found: "found = (case answer of Inl _ \<Rightarrow> None | Inr g \<Rightarrow> g)"
    and failed: "read_failed = (case answer of Inl _ \<Rightarrow> True | Inr _ \<Rightarrow> False)"
    and gid: "found \<noteq> None \<Longrightarrow> sd_provider_container_group_id x \<noteq> None"
    and terminal: "terminal \<Longrightarrow> found \<noteq> None \<Longrightarrow> group_settled (the found)"
    and qs: "list_all (\<lambda>c. \<not> is_mutation c) qs" and n: "n = sd_container_group_name x" and k: "k = sd_id x"
    and s: "s = stop_group env d (h @ CallGetContainerGroup n # qs) x found read_failed terminal t"
  shows "stop_proved env h k n s"
proof -
  let ?h = "h @ CallGetContainerGroup n # qs"
  have counts: "group_counts_ok g \<and> sd_provider_container_group_id x \<noteq> None" if "found = Some g" for g
    using that gid found answer env_okD(1) [OF env, of h n g]
    by (auto simp: none_if_missing_def split: sum.splits if_splits)
  note sg = stop_group_kept [OF env x counts s n, simplified]
  have "mutations qs = []" using qs by (simp add: mutations_def list_all_iff filter_empty_conv)
  then have "stop_kept env h n s"
    using sg(1) unfolding stop_kept_def continues_def
    by (elim conjE exE) (rule conjI, rule_tac x = "CallGetContainerGroup n # qs @ new" in exI, simp_all)
  moreover have "stop_evidence env h n (fst (snd s)) \<and> (\<exists>y. get_deployment k (fst s) = Some y \<and> stopped_row y)"
    if a: "action_of s = STOPPED"
  proof -
    note sh = sg(2) [OF a, unfolded stop_shown_def]
    obtain new where new: "fst (snd s) = ?h @ new" using sg(1) by (auto simp: stop_kept_def continues_def)
    have "stop_evidence env h n (fst (snd s))"
    proof (cases found)
      case None
      with sh failed have "answer = Inr None" using found by (auto split: sum.splits)
      with new answer show ?thesis unfolding stop_evidence_def
        by (intro exI [of _ "[]"] exI [of _ "qs @ new"]) simp
    next
      case (Some g)
      with sh terminal obtain insts where
        i: "group_settled g" "fst (snd s) = ?h @ [CallListInstances n]"
          "sc_list_container_group_instances (env_client env) ?h n = Inr insts" "no_running insts"
        by auto
      have "answer = Inr (Some g)" using Some found by (auto split: sum.splits)
      moreover have "listed_idle env h n (fst (snd s))" unfolding listed_idle_def
        using i by (intro exI [of _ "CallGetContainerGroup n # qs"] exI [of _ "[]"] exI [of _ insts]) simp
      ultimately show ?thesis using i(1,2) answer unfolding stop_evidence_def
        by (intro exI [of _ "[]"] exI [of _ "qs @ [CallListInstances n]"]) simp
    qed
    with sh k show ?thesis by blast
  qed
  ultimately show ?thesis by (simp add: stop_proved_def)
qed

lemma request_stop_eq:
  fixes env h x
  defines "n \<equiv> sd_container_group_name x"
  defines "answer \<equiv> none_if_missing (sc_get_container_group (env_client env) h n)"
  defines "failed \<equiv> (case answer of Inl _ \<Rightarrow> True | Inr _ \<Rightarrow> False)"
    and "found \<equiv> (case answer of Inl _ \<Rightarrow> None | Inr g \<Rightarrow> g)"
  defines "x1 \<equiv> (if failed then x\<lparr>sd_billing_observation_stale := True\<rparr> else x)"
  assumes r: "recover_group_id d x1 found t = (d2, x2)"
  defines "terminal \<equiv> terminal_group x2 found" and "calls \<equiv> h @ [CallGetContainerGroup n]"
  defines "queue \<equiv> (case none_if_missing (sc_get_queue (env_client env) calls (sd_queue_name x2)) of
      Inl _ \<Rightarrow> None | Inr q \<Rightarrow> q)"
    and "calls' \<equiv> calls @ [CallGetQueue (sd_queue_name x2)]"
  shows "request_stop env d h x t =
     (if (case found of Some g \<Rightarrow> cg_name g \<noteq> sd_container_group_name x1 | None \<Rightarrow> False)
      then mark_failed d calls x1 ''stop_container_group_name_collision'' t None None
      else if sd_provider_queue_id x2 = None \<and> ((found = None \<and> \<not> failed) \<or> terminal)
      then (case queue of
          None \<Rightarrow> stop_group env d2 calls' x2 found failed terminal t
        | Some q \<Rightarrow> if sq_name q \<noteq> sd_queue_name x2
            then mark_failed d2 calls' x2 ''stop_queue_name_collision'' t None None
            else (case recover_queue_id d2 x2 q t of
              (d3, x3) \<Rightarrow> stop_group env d3 calls' x3 found failed terminal t))
      else stop_group env d2 calls x2 found failed terminal t)"
  unfolding request_stop_def get_group_or_none_def get_queue_or_none_def n_def [symmetric] answer_def [symmetric] prod.case
    Let_def failed_def [symmetric] found_def [symmetric] x1_def [symmetric] r terminal_def [symmetric] calls_def [symmetric]
    queue_def [symmetric] calls'_def [symmetric] ..

lemma request_stop_proved:
  assumes env: "env_ok env" and x: "step_inv env d h t x" and n: "n = sd_container_group_name x"
  shows "stop_proved env h (sd_id x) n (request_stop env d h x t)"
proof -
  let ?g = "CallGetContainerGroup n"
  define answer where "answer = none_if_missing (sc_get_container_group (env_client env) h n)"
  define failed where "failed = (case answer of Inl _ \<Rightarrow> True | Inr _ \<Rightarrow> False)"
  define found where "found = (case answer of Inl _ \<Rightarrow> None | Inr g \<Rightarrow> g)"
  define x1 where "x1 = (if failed then x\<lparr>sd_billing_observation_stale := True\<rparr> else x)"
  have x1: "step_inv env d (h @ [?g]) t x1" "sd_id x1 = sd_id x" "sd_container_group_name x1 = n"
    using step_inv_later [OF env x, of "[?g]"] step_inv_put(1) [OF step_inv_later [OF env x, of "[?g]"], of x1] n
    by (auto simp: x1_def step_inv_def)
  obtain d2 x2 where r: "recover_group_id d x1 found t = (d2, x2)" by (cases "recover_group_id d x1 found t")
  note x2 = recover_group_inv [OF x1(1) r]
  define terminal where "terminal = terminal_group x2 found"
  have settled: "group_settled (the found)" if "terminal" "found \<noteq> None"
    using that terminal_settled by (auto simp: terminal_def)
  let ?q = "CallGetQueue (sd_queue_name x2)"
  define queue where "queue = (case none_if_missing (sc_get_queue (env_client env) (h @ [?g]) (sd_queue_name x2)) of
      Inl _ \<Rightarrow> None | Inr q \<Rightarrow> q)"
  note eq = request_stop_eq [where env = env and h = h and x = x and d = d, folded n, folded answer_def, folded failed_def found_def, folded x1_def, OF r,
      folded terminal_def queue_def, unfolded append_assoc append.simps, folded queue_def]
  note answer_eq = answer_def [symmetric]
  have failing: "stop_proved env h (sd_id x) n (mark_failed e (h @ CallGetContainerGroup n # qs) z c t r m)"
    if "step_inv env e h0 t z" "qs = [] \<or> (\<exists>q. qs = [CallGetQueue q])" for e qs z c r m h0
  proof -
    have "mutations qs = []" using that(2) by auto
    then have "continues h (stops_only n) (mark_failed e (h @ CallGetContainerGroup n # qs) z c t r m)"
      unfolding continues_def by (intro exI [of _ "CallGetContainerGroup n # qs"]) simp
    with closing_ok(2) that(1) show ?thesis by (simp add: stop_proved_def stop_kept_def step_inv_def)
  qed
  have tail: "stop_proved env h (sd_id x) n (stop_group env e (h @ CallGetContainerGroup n # qs) z found failed terminal t)"
    if z: "step_inv env e (h @ CallGetContainerGroup n # qs) t z" "sd_id z = sd_id x" "sd_container_group_name z = n"
      "sd_provider_container_group_id z = sd_provider_container_group_id x2" and qs: "qs = [] \<or> (\<exists>q. qs = [CallGetQueue q])"
    for e qs z
    using x2(4) z(4) qs
    by (intro stop_tail [OF env z(1) answer_eq found_def failed_def _ settled _ z(3) [symmetric] z(2) [symmetric] refl]) auto
  have h2: "step_inv env d2 (h @ [?g, ?q]) t x2"
    using step_inv_later [OF env x2(1), of "[?q]"] by simp
  show ?thesis
  proof (cases "case found of Some g \<Rightarrow> cg_name g \<noteq> sd_container_group_name x1 | None \<Rightarrow> False")
    case True
    then show ?thesis using failing [OF x1(1), of "[]"] by (simp add: eq)
  next
    case named: False
    show ?thesis
    proof (cases "sd_provider_queue_id x2 = None \<and> ((found = None \<and> \<not> failed) \<or> terminal)")
      case False
      then show ?thesis using named tail [of d2 "[]" x2] x1 x2 by (auto simp: eq)
    next
      case read: True
      show ?thesis
      proof (cases queue)
        case None
        then show ?thesis using named read tail [of d2 "[?q]" x2] x1 x2 h2 by (simp add: eq)
      next
        case (Some q)
        obtain d3 x3 where r3: "recover_queue_id d2 x2 q t = (d3, x3)" by (cases "recover_queue_id d2 x2 q t")
        note x3 = recover_queue_inv [OF h2 r3]
        show ?thesis
          using named read Some r3 tail [of d3 "[?q]" x3] x1 x2 x3 failing [OF h2, of "[?q]"] by (simp add: eq)
      qed
    qed
  qed
qed

end
