(* ===== verification/DeploymentReconciles.thy ===== *)
theory DeploymentReconciles
  imports DeploymentStops
begin

text \<open>Reconciliation and provisioning: what every branch keeps, and which mutations it may send.\<close>

definition proved :: "step_env \<Rightarrow> provider_call list \<Rightarrow> uuid \<Rightarrow> string \<Rightarrow> provider_call set \<Rightarrow> step \<Rightarrow> bool" where
  "proved env h k n cs s \<longleftrightarrow> continues h (stops_only n \<union> {[c] |c. c \<in> cs}) s
     \<and> (db_ok (fst s) \<or> unconfirmed_without_queue (snd (snd s)))
     \<and> (action_of s = STOPPED \<longrightarrow>
          stop_evidence env h n (fst (snd s)) \<and> (\<exists>y. get_deployment k (fst s) = Some y \<and> stopped_row y))"

lemma proved_stop: "stop_proved env h k n s \<Longrightarrow> proved env h k n cs s"
  unfolding stop_proved_def stop_kept_def proved_def by (blast intro: continues_mono)

lemma proved_query: "proved env (h @ [c]) k n cs s \<Longrightarrow> \<not> is_mutation c \<Longrightarrow> proved env h k n cs s"
  unfolding proved_def using continues_query stop_evidence_later by blast

lemma proved_mono: "proved env h k n cs s \<Longrightarrow> cs \<subseteq> cs' \<Longrightarrow> proved env h k n cs' s"
  unfolding proved_def by (blast intro: continues_mono)

lemma proved_here: "fst (snd s) = h \<Longrightarrow> db_ok (fst s) \<Longrightarrow> action_of s \<noteq> STOPPED \<Longrightarrow> proved env h k n cs s"
  by (simp add: proved_def continues_refl)

lemma proved_mutation: "fst (snd s) = h @ [c] \<Longrightarrow> is_mutation c \<Longrightarrow> c \<in> cs \<Longrightarrow> db_ok (fst s) \<Longrightarrow> action_of s \<noteq> STOPPED \<Longrightarrow>
    proved env h k n cs s"
  by (auto simp: proved_def intro: continues_mutation)

lemma proved_metered: "proved env h k n cs (d, h', r\<lparr>dr_metered_microusd := m\<rparr>) = proved env h k n cs (d, h', r)"
  by (simp add: proved_def continues_def unconfirmed_without_queue_def action_of_def)

lemma action_audited [simp]: "action_of (d, h, deployment_result x a m e) = a"
  by (simp add: action_of_def deployment_result_def)

section \<open>Repairs\<close>

lemma autoscaler_repair_proved:
  assumes "request_autoscaler_repair env d h x m t b = Inr s" and "db_ok d" "deployment_ok x"
    and "n = sd_container_group_name x"
  shows "\<exists>p. proved env h k n {CallUpdateContainerGroup n p} s"
proof -
  obtain a where a: "desired_queue_autoscaler x (Some m) = Inr a"
    using assms(1) by (auto simp: request_autoscaler_repair_def bindE_eq_Inr)
  let ?p = "[(''queue_autoscaler'', PDict a)]"
  have s: "s = (let h1 = h @ [CallUpdateContainerGroup n ?p] in
       case sc_update_container_group (env_client env) h n ?p of
            Inl error \<Rightarrow> handle_mutation_error d h1 x error ''autoscaler_repair'' t
          | Inr updated \<Rightarrow>
              if cg_name updated \<noteq> n \<or> Some (uuid_str (cg_id updated)) \<noteq> sd_provider_container_group_id x
              then mark_unknown d h1 x ''autoscaler_repair_response_mismatch'' t
              else
                (let y = touch_deployment (with_error_code ''provider_autoscaler_repair_pending''
                           ''Provider queue autoscaler repair is awaiting read-back.''
                           (x\<lparr>sd_state := DeploymentPROVISIONING, sd_unknown_since := None,
                              sd_reconcile_after := Some (t + RECONCILE_DELAY)\<rparr>))
                 in (write_audited y ''salad_deployment.autoscaler_repair_requested''
                           [(''container_group_name'', PStr n)] t d,
                         h1, deployment_result y AUTOSCALER_REPAIR_REQUESTED b (sd_last_error_code y))))"
    using assms(1) a assms(4) by (auto simp: request_autoscaler_repair_def Let_def split: sum.splits if_splits)
  have "proved env h k n {CallUpdateContainerGroup n ?p} s"
    using assms(2,3) closing_ok [OF assms(2,3)]
    by (intro proved_mutation [where c = "CallUpdateContainerGroup n ?p"])
      (auto simp: s Let_def put_ok deployment_ok_state split: sum.split)
  then show ?thesis by blast
qed

lemma start_proved:
  assumes "db_ok d" "deployment_ok x" "n = sd_container_group_name x"
  shows "proved env h k n {CallStartContainerGroup n} (request_start env d h x t m)"
  using assms closing_ok [OF assms(1,2)]
  by (intro proved_mutation [where c = "CallStartContainerGroup n"])
    (auto simp: request_start_def Let_def put_ok deployment_ok_state split: sum.split)

section \<open>Verdicts\<close>

lemma judged_ok:
  assumes "deployment_ok x" "has_provider_resources x"
  shows "deployment_ok (judge_pending_group x p t)" "deployment_ok (judge_settled_group x g dc m t)"
    "deployment_ok (activate x t)"
proof -
  have st: "deployment_ok (x\<lparr>sd_state := s\<rparr>)" "deployment_ok (x\<lparr>sd_unknown_since := u, sd_state := s\<rparr>)" for s u
    using assms by (intro deployment_ok_state; simp add: has_provider_resources_def)+
  show "deployment_ok (judge_pending_group x p t)"
    using st by (simp add: judge_pending_group_def record_pending_preparation_def Let_def split: option.split prod.split)
  show act: "deployment_ok (activate x t)" using st by (simp add: activate_def)
  show "deployment_ok (judge_settled_group x g dc m t)"
    using st act by (simp add: judge_settled_group_def record_start_wait_def Let_def split: option.split prod.split)
qed

lemma write_reconciled_proved:
  assumes "db_ok d" "deployment_ok x"
  shows "proved env h k n cs (write_reconciled d h x g m b t ec)"
  using assms by (intro proved_here) (simp_all add: write_reconciled_def Let_def put_ok)

section \<open>Reconciliation\<close>

text \<open>The repairs that are possible: a start only when one worker is needed.\<close>

definition repairs :: "string \<Rightarrow> int \<Rightarrow> provider_call set" where
  "repairs n effective_min = {CallUpdateContainerGroup n p |p. True}
     \<union> (if effective_min = 1 then {CallStartContainerGroup n} else {})"

lemma contract_repair_proved:
  assumes "request_active_contract_repair env d h x g dc m t b = Inr (Some s)" and "db_ok d" "deployment_ok x"
    and "n = sd_container_group_name x"
  shows "proved env h k n (repairs n m) s"
proof (cases "dc = Some ''provider_autoscaler_drift''")
  case True
  then have "request_autoscaler_repair env d h x m t b = Inr s"
    using assms(1) by (auto simp: request_active_contract_repair_def bindE_eq_Inr)
  from autoscaler_repair_proved [OF this assms(2-4)] show ?thesis
    by (auto intro: proved_mono simp: repairs_def)
next
  case False
  then have "m = 1" "s = request_start env d h x t b"
    using assms(1) by (auto simp: request_active_contract_repair_def split: if_splits)
  with proved_mono [OF start_proved [OF assms(2-4)], of "repairs n m"] show ?thesis by (simp add: repairs_def)
qed

lemma reconcile_observed_proved:
  assumes env: "env_ok env" and x: "step_inv env d h t x" and g: "group_counts_ok g" and res: "has_provider_resources x"
    and n: "n = sd_container_group_name x" and s: "reconcile_observed env d h x queue g t = Inr s"
  shows "proved env h (sd_id x) n (repairs n (effective_worker_min_replicas t d (sd_id x) t)) s"
proof -
  define m where "m = effective_worker_min_replicas t d (sd_id x) t"
  let ?c = "CallListInstances n" and ?cs = "repairs n m"
  let ?h1 = "h @ [?c]" and ?a = "sc_list_container_group_instances (env_client env) h n"
  obtain x1 obs where r: "refresh_billing_observation ?a (env_billing_observation_clock env ?h1) x g t
      (is_true_scale_to_zero g m) = (x1, obs)"
    by (cases "refresh_billing_observation ?a (env_billing_observation_clock env ?h1) x g t (is_true_scale_to_zero g m)")
  obtain d1 out where mt: "meter_runtime_interval (env_new_id env) (put_deployment x1 d) x1 (observed_replicas g) g t
      (map_option fst obs) = (d1, out)"
    by (cases "meter_runtime_interval (env_new_id env) (put_deployment x1 d) x1 (observed_replicas g) g t
      (map_option fst obs)")
  note mr = metered_row [OF env x refl r mt]
  define x2 where "x2 = reload x1 d1"
  note same = mr(2) [folded x2_def, unfolded same_resource_def]
  have x2: "step_inv env d1 ?h1 t x2" using mr(1) by (simp add: x2_def)
  have n2: "sd_container_group_name x2 = n" "sd_id x2 = sd_id x" using same n by simp_all
  have res2: "has_provider_resources x2" using res same by (simp add: has_provider_resources_def)
  define x3 where "x3 = x2\<lparr>sd_observed_replicas := Some (observed_replicas g),
      sd_ready_replicas := Some (gs_running_count (cg_current_state g)), sd_last_observed_at := Some t,
      sd_provider_status := Some (safe_provider_status queue g), sd_reconcile_after := Some (t + RECONCILE_DELAY)\<rparr>"
  have x3: "step_inv env d1 ?h1 t x3" "step_inv env (put_deployment x3 d1) ?h1 t x3"
    using step_inv_put(1,2) [OF x2, of x3] x2 counts_replicas [OF g]
    by (simp_all add: x3_def step_inv_def deployment_ok_counts)
  have f3: "sd_container_group_name x3 = n" "sd_id x3 = sd_id x" "has_provider_resources x3"
    using n2 res2 by (simp_all add: x3_def has_provider_resources_def)
  have ok: "db_ok d1" "deployment_ok x3" using x3(1) by (simp_all add: step_inv_def)
  define y where "y = touch_deployment (with_error_code ''runtime_metering_failed_closed''
      ''Runtime metering failed; provider execution was disabled.''
      (x2\<lparr>sd_desired_state := DesiredSTOPPED, sd_reconcile_after := Some t\<rparr>))"
  have y: "step_inv env (write_audited y a e t d1) ?h1 t y" "sd_container_group_name y = n" "sd_id y = sd_id x" for a e
    using step_inv_put(3) [OF x2, of y] x2 n2 by (simp_all add: y_def step_inv_def)
  obtain dc where dc: "remote_drift_code x1 queue g (Some m) = Inr dc"
    using s by (auto simp: reconcile_observed_def Let_def n [symmetric] m_def [symmetric] r bindE_eq_Inr)
  have "proved env ?h1 (sd_id x) n ?cs s"
  proof (cases out)
    case (Inl e)
    then have "s = request_stop env (write_audited y ''salad_deployment.runtime_metering_failed_closed''
        [(''error_code'', PStr ''runtime_metering_failed_closed'')] t d1) ?h1 y t"
      using s by (simp add: reconcile_observed_def Let_def n [symmetric] m_def [symmetric] r dc mt bindE_def
          y_def x2_def)
    with proved_stop [OF request_stop_proved [OF env y(1) y(2) [symmetric]]] y(3) show ?thesis by simp
  next
    case (Inr v)
    define p where "p = sd_provider_status x2"
    have eq: "Inr s = (if stop_is_desired x3
       then (case request_stop env (put_deployment x3 d1) ?h1 x3 t of
               (d2, h2, r) \<Rightarrow> Inr (d2, h2, r\<lparr>dr_metered_microusd := v\<rparr>))
       else if eligible_runtime_refresh_plan_exists d (sd_id x)
       then Inr (write_reconciled d1 ?h1 (activate x3 t) g v True t None)
       else if cg_pending_change g
       then Inr (write_reconciled d1 ?h1 (judge_pending_group x3 p t) g v False t
          (sd_last_error_code (judge_pending_group x3 p t)))
       else bindE (request_active_contract_repair env d1 ?h1 x3 g dc m t v) (\<lambda>repair. case repair of
          Some r \<Rightarrow> Inr r
        | None \<Rightarrow> Inr (write_reconciled d1 ?h1 (judge_settled_group x3 g dc m t) g v False t
            (sd_last_error_code (judge_settled_group x3 g dc m t)))))"
      using s [symmetric] unfolding reconcile_observed_def Let_def n [symmetric] m_def [symmetric] r prod.case dc
        bindE_simps mt Inr sum.case x2_def [symmetric] p_def [symmetric] x3_def [symmetric] .
    note written = write_reconciled_proved [OF ok(1)]
    consider (stop) "stop_is_desired x3" | (refresh) "s = write_reconciled d1 ?h1 (activate x3 t) g v True t None"
      | (pending) "s = write_reconciled d1 ?h1 (judge_pending_group x3 p t) g v False t
          (sd_last_error_code (judge_pending_group x3 p t))"
      | (repair) "request_active_contract_repair env d1 ?h1 x3 g dc m t v = Inr (Some s)"
      | (settled) "s = write_reconciled d1 ?h1 (judge_settled_group x3 g dc m t) g v False t
            (sd_last_error_code (judge_settled_group x3 g dc m t))"
      using eq [symmetric] by (auto simp: bindE_eq_Inr split: if_splits option.splits)
    then show ?thesis
    proof cases
      case stop
      obtain d2 h2 rr where q: "request_stop env (put_deployment x3 d1) ?h1 x3 t = (d2, h2, rr)"
        by (cases "request_stop env (put_deployment x3 d1) ?h1 x3 t")
      with stop eq have "s = (d2, h2, rr\<lparr>dr_metered_microusd := v\<rparr>)" by simp
      with proved_stop [OF request_stop_proved [OF env x3(2) f3(1) [symmetric]]] q f3(2) show ?thesis
        by (simp add: proved_metered)
    next
      case repair
      from contract_repair_proved [OF this ok f3(1) [symmetric]] show ?thesis .
    qed (use written judged_ok [OF ok(2) f3(3)] in simp_all)
  qed
  then show ?thesis unfolding m_def by (rule proved_query) simp
qed

section \<open>The demand for a worker\<close>

text \<open>Writes that leave the demand for a worker as it was.\<close>

definition same_demand :: "db \<Rightarrow> db \<Rightarrow> bool" where
  "same_demand d d' \<longleftrightarrow> db_leases d' = db_leases d \<and> db_attempts d' = db_attempts d \<and> db_jobs d' = db_jobs d
     \<and> db_outbox d' = db_outbox d \<and> db_releases d' = db_releases d \<and> db_release_versions d' = db_release_versions d
     \<and> (\<forall>k. map_option sd_purpose (get_deployment k d') = map_option sd_purpose (get_deployment k d))
     \<and> (\<forall>r. stop_marker d' r = stop_marker d r)"

lemma same_demand_refl [simp]: "same_demand d d"
  by (simp add: same_demand_def)

lemma same_demand_trans: "same_demand a b \<Longrightarrow> same_demand b c \<Longrightarrow> same_demand a c"
  by (simp add: same_demand_def)

lemma same_demand_effective:
  assumes "same_demand d d'"
  shows "effective_worker_min_replicas c d' k t = effective_worker_min_replicas c d k t"
proof -
  note s = assms [unfolded same_demand_def]
  have "active_release d' a = active_release d a" for a by (rule ext) (simp add: active_release_def s)
  then have "awaits_admission d' k = awaits_admission d k" "active_attempt d' k = active_attempt d k"
    by (auto simp: awaits_admission_def active_attempt_def s)
  then have "claimed_admission d' k t = claimed_admission d k t" "staged_target d' k = staged_target d k"
      "active_attempt d' k = active_attempt d k"
    by (simp_all add: claimed_admission_def staged_target_def staged_metadata_def s cong: if_cong)
  moreover have "effective_experiment_min_replicas c d' k (Some (Aware t)) =
      effective_experiment_min_replicas c d k (Some (Aware t))"
    by (simp add: effective_experiment_min_replicas_def holds_replica_def s cong: option.case_cong)
  moreover have "map_option sd_purpose (get_deployment k d') = map_option sd_purpose (get_deployment k d)"
    using s by blast
  ultimately show ?thesis
    by (cases "get_deployment k d"; cases "get_deployment k d'") (simp_all add: effective_worker_min_replicas_def)
qed

lemma same_demand_audit:
  "ae_resource_type a \<noteq> ''release'' \<Longrightarrow> same_demand d (add_audit a d)"
  by (simp add: same_demand_def stop_marker_def)

lemma same_demand_put:
  assumes "get_deployment (sd_id x) d = Some y" "sd_purpose x = sd_purpose y"
  shows "same_demand d (put_deployment x d)"
proof -
  have "map_option sd_purpose (get_deployment k (put_deployment x d)) = map_option sd_purpose (get_deployment k d)" for k
    using assms row_get_mem [OF assms(1)] by (auto simp: row_get_put)
  then show ?thesis by (simp add: same_demand_def stop_marker_def)
qed

lemma reevaluated_demand:
  assumes "reevaluated d g t = (e, s)" and "limit_reason (evaluate_locked d g t) 0 = None"
  shows "same_demand d e"
proof -
  have e: "e = fst (set_guard_state d g None t)"
    using assms by (auto simp: reevaluated_def apply_evaluation_def Let_def split: prod.splits)
  have "same_demand d ((put_guard g' d)\<lparr>db_audits := db_audits d @ [a]\<rparr>)"
    if "ae_resource_type a \<noteq> ''release''" for g' a
    using that by (simp add: same_demand_def stop_marker_def)
  then show ?thesis unfolding e set_guard_state_def by (auto simp: Let_def budget_audit_event_def)
qed

section \<open>The budget check\<close>

definition within_budget :: "db \<Rightarrow> instant \<Rightarrow> bool" where
  "within_budget d t \<longleftrightarrow> (case get_guard_locked d ''salad'' of None \<Rightarrow> False
     | Some g \<Rightarrow> limit_reason (evaluate_locked d g t) 0 = None)"

lemma budget_check:
  assumes b: "budget_allows_provider_work d x t guard = (d', y, allowed)" and x: "step_inv env d h t x"
    and cur: "current_row d x"
  shows "step_inv env d' h t y" "current_row d' y" "kept x y" "\<not> allowed \<Longrightarrow> sd_desired_state y = DesiredSTOPPED"
    "allowed \<Longrightarrow> y = x \<and> guard \<and> within_budget d t \<and> same_demand d d'"
proof -
  have ok: "db_ok d" using x by (simp add: step_inv_def)
  note o = budget_allows_outcome [OF b ok cur]
  then show "current_row d' y" "kept x y" "\<not> allowed \<Longrightarrow> sd_desired_state y = DesiredSTOPPED" by simp_all
  have k: "kept x y" using o by simp
  have "deployment_ok x" "deployment_ok y" using x k by (simp_all add: step_inv_def kept_def)
  then have "billing_ok y = billing_ok x" by (simp add: deployment_ok_parts)
  then have "clock_inv y = clock_inv x" using k by (intro clock_inv_cong) (simp_all add: kept_def)
  then show "step_inv env d' h t y"
    using o x not_before_cong [of y x] by (auto simp: step_inv_def kept_def current_row_def)
  assume a: "allowed"
  then have "y = x" guard "within_budget d t" using o by (auto simp: within_budget_def)
  moreover have "same_demand d d'"
  proof -
    have put: "put_deployment x d = d" by (rule current_row_put [OF cur ok])
    obtain s where re: "reevaluate_budget_guard t d ''salad'' (Some (Aware t)) = Inr (d', s)"
      using b a put by (auto simp: budget_allows_provider_work_def Let_def split: if_splits sum.splits prod.splits)
    obtain g where g: "get_guard_locked d ''salad'' = Some g" "reevaluated d g t = (d', s)"
      using re by (auto simp: reevaluate_budget_guard_def bindE_eq_Inr evaluation_time_def budget_as_utc_def)
    then show ?thesis using \<open>within_budget d t\<close> by (auto simp: within_budget_def intro: reevaluated_demand)
  qed
  ultimately show "y = x \<and> guard \<and> within_budget d t \<and> same_demand d d'" by simp
qed

lemma reconcile_locked_proved:
  assumes env: "env_ok env" and x: "step_inv env d h t x" and cur: "current_row d x" and res: "has_provider_resources x"
    and n: "n = sd_container_group_name x" and s: "reconcile_locked env d h x t guard = Inr s"
  shows "proved env h (sd_id x) n
    (if within_budget d t \<and> \<not> stop_is_desired x then repairs n (effective_worker_min_replicas t d (sd_id x) t) else {}) s"
proof -
  obtain d1 y allowed where b: "budget_allows_provider_work d x t guard = (d1, y, allowed)"
    by (cases "budget_allows_provider_work d x t guard")
  note bc = budget_check [OF b x cur]
  have y: "sd_container_group_name y = n" "sd_id y = sd_id x" "has_provider_resources y"
    using bc(3) n res by (simp_all add: kept_def has_provider_resources_def)
  show ?thesis
  proof (cases "\<not> allowed \<or> stop_is_desired y")
    case True
    then have "s = request_stop env d1 h y t" using s b by (simp add: reconcile_locked_def)
    with proved_stop [OF request_stop_proved [OF env bc(1) y(1) [symmetric]]] y(2) show ?thesis by simp
  next
    case False
    then have bb: "y = x" "within_budget d t" "same_demand d d1" "\<not> stop_is_desired x" using bc(5) by auto
    let ?q = "CallGetQueue (sd_queue_name x)" and ?g = "CallGetContainerGroup n"
    define stale where "stale = x\<lparr>sd_billing_observation_stale := True\<rparr>"
    have stale: "db_ok d1" "deployment_ok stale" using bc(1) bb(1) by (simp_all add: step_inv_def stale_def)
    have read: "proved env h' k n cs (handle_read_error d1 h' stale e p t)" for h' k cs e p
      using closing_ok(3) [OF stale] by (intro proved_here) simp_all
    have m: "effective_worker_min_replicas t d1 (sd_id x) t = effective_worker_min_replicas t d (sd_id x) t"
      by (rule same_demand_effective [OF bb(3)])
    have "proved env (h @ [?q]) (sd_id x) n (repairs n (effective_worker_min_replicas t d (sd_id x) t)) s"
    proof (cases "sc_get_queue (env_client env) h (sd_queue_name x)")
      case (Inl e)
      then show ?thesis
        using s b False bb(1) read by (auto simp: reconcile_locked_def n [symmetric] stale_def [symmetric])
    next
      case (Inr queue)
      have "proved env ((h @ [?q]) @ [?g]) (sd_id x) n (repairs n (effective_worker_min_replicas t d (sd_id x) t)) s"
      proof (cases "sc_get_container_group (env_client env) (h @ [?q]) n")
        case (Inl e)
        then show ?thesis
          using s b False bb(1) Inr read by (auto simp: reconcile_locked_def n [symmetric] stale_def [symmetric])
      next
        case g: (Inr g)
        have "reconcile_observed env d1 ((h @ [?q]) @ [?g]) x queue g t = Inr s"
          using s b False bb(1) Inr g by (simp add: reconcile_locked_def n [symmetric])
        from reconcile_observed_proved [OF env _ env_okD(1) [OF env g] res n this]
          step_inv_later [OF env bc(1), of "[?q, ?g]"] bb(1) show ?thesis by (simp add: m)
      qed
      then show ?thesis by (rule proved_query) simp
    qed
    then have "proved env h (sd_id x) n (repairs n (effective_worker_min_replicas t d (sd_id x) t)) s"
      by (rule proved_query) simp
    then show ?thesis using bb(2,4) by simp
  qed
qed

section \<open>Provisioning\<close>

lemma adopted_queue_ok: "deployment_ok x \<Longrightarrow> deployment_ok (adopted_queue x q)"
  by (simp add: adopted_queue_def deployment_ok_state deployment_ok_ids)

lemma provision_queue_proved:
  assumes ok: "db_ok d" "deployment_ok x"
  shows "proved env h k n (if unknown then {} else {CallCreateQueue (sd_queue_name x)})
    (provision_queue env d h x unknown t)"
proof -
  define y where "y = x\<lparr>sd_state := DeploymentPROVISIONING\<rparr>"
  have y: "deployment_ok y" "sd_queue_name y = sd_queue_name x" using ok by (simp_all add: y_def deployment_ok_state)
  let ?n = "sd_queue_name x"
  let ?g = "CallGetQueue ?n" and ?c = "CallCreateQueue ?n"
  note cl = closing_ok [OF ok(1) y(1)]
  have "proved env (h @ [?g]) k n (if unknown then {} else {?c}) (provision_queue env d h x unknown t)"
  proof (cases "none_if_missing (sc_get_queue (env_client env) h ?n)")
    case (Inl e)
    then show ?thesis using cl
      by (intro proved_here) (simp_all add: provision_queue_def Let_def y_def [symmetric] get_queue_or_none_def y)
  next
    case (Inr q)
    show ?thesis
    proof (cases q)
      case (Some q)
      with Inr show ?thesis using cl
        by (intro proved_here) (simp_all add: provision_queue_def Let_def y_def [symmetric] get_queue_or_none_def y)
    next
      case None
      show ?thesis
      proof (cases unknown)
        case True
        with Inr None show ?thesis using cl
          by (intro proved_here) (simp_all add: provision_queue_def Let_def y_def [symmetric] get_queue_or_none_def y)
      next
        case False
        with Inr None show ?thesis using cl ok y adopted_queue_ok [OF y(1)]
          by (intro proved_mutation [where c = ?c])
            (auto simp: provision_queue_def Let_def y_def [symmetric] get_queue_or_none_def put_ok split: sum.split)
      qed
    qed
  qed
  then show ?thesis by (rule proved_query) simp
qed

definition group_creations :: "provider_call set" where
  "group_creations = {CallCreateContainerGroup p |p. True}"

lemma create_group_proved:
  assumes ok: "db_ok d" "deployment_ok x"
  shows "proved env h k n group_creations (create_group env resolver d h x t)"
proof (cases "container_group_payload x resolver [] None True")
  case (Inl e)
  then show ?thesis using closing_ok [OF ok]
    by (intro proved_here) (auto simp: create_group_def split: deployment_error.split)
next
  case (Inr p)
  have "deployment_ok (touch_deployment (clear_error (x\<lparr>sd_provider_container_group_id := Some g,
      sd_state := DeploymentPROVISIONING, sd_unknown_since := None\<rparr>)))" for g
    using ok by (simp add: deployment_ok_state deployment_ok_ids)
  with Inr show ?thesis using closing_ok [OF ok] ok
    by (intro proved_mutation [where c = "CallCreateContainerGroup p"])
      (auto simp: create_group_def group_creations_def Let_def put_ok split: sum.split)
qed

lemma adopt_group_proved:
  assumes "adopt_group d h x g t = Inr s" and ok: "db_ok d" "deployment_ok x" and q: "sd_provider_queue_id x \<noteq> None"
  shows "proved env h k n cs s"
proof -
  have gid: "deployment_ok (x\<lparr>sd_provider_container_group_id := Some u\<rparr>)" for u
    using ok by (simp add: deployment_ok_ids)
  have "deployment_ok (x\<lparr>sd_provider_container_group_id := Some u, sd_state := st\<rparr>)" for u st
    using q by (intro deployment_ok_state [OF gid]) (simp add: has_provider_resources_def)
  then show ?thesis using assms(1) closing_ok [OF ok(1,2)] ok(1)
    by (intro proved_here) (auto simp: adopt_group_def bindE_eq_Inr Let_def put_ok split: if_splits)
qed

lemma provision_group_proved:
  assumes s: "provision_group env resolver d h x unknown t = Inr s" and ok: "db_ok d" "deployment_ok x"
    and q: "sd_provider_queue_id x \<noteq> None"
  shows "proved env h k n (if unknown then {} else group_creations) s"
proof -
  define y where "y = x\<lparr>sd_state := DeploymentPROVISIONING\<rparr>"
  have y: "deployment_ok y" "sd_provider_queue_id y \<noteq> None" using ok q by (simp_all add: y_def deployment_ok_state)
  let ?q = "CallGetQueue (sd_queue_name y)" and ?g = "CallGetContainerGroup (sd_container_group_name y)"
  let ?cs = "if unknown then {} else group_creations"
  note cl = closing_ok [OF ok(1) y(1)]
  obtain v where v: "verify_persisted_queue env d h y t = (h @ [?q], v)"
    by (simp add: verify_persisted_queue_def Let_def)
  have "proved env (h @ [?q]) k n ?cs s"
  proof (cases v)
    case (Some r)
    then have sr: "s = r" using s v by (simp add: provision_group_def Let_def y_def [symmetric])
    have "fst (snd r) = h @ [?q]" "db_ok (fst r)" "action_of r \<noteq> STOPPED"
      using v Some cl by (auto simp: verify_persisted_queue_def Let_def split: sum.splits if_splits)
    then show ?thesis unfolding sr by (intro proved_here)
  next
    case None
    have "proved env ((h @ [?q]) @ [?g]) k n ?cs s"
    proof (cases "none_if_missing (sc_get_container_group (env_client env) (h @ [?q]) (sd_container_group_name y))")
      case (Inl e)
      then show ?thesis using s v None cl
        by (intro proved_here) (auto simp: provision_group_def Let_def y_def [symmetric] get_group_or_none_def)
    next
      case (Inr found)
      show ?thesis
      proof (cases found)
        case (Some g)
        then have "adopt_group d ((h @ [?q]) @ [?g]) y g t = Inr s"
          using s v None Inr by (simp add: provision_group_def Let_def y_def [symmetric] get_group_or_none_def)
        from adopt_group_proved [OF this ok(1) y] show ?thesis .
      next
        case absent: None
        show ?thesis
        proof (cases unknown)
          case True
          then show ?thesis using s v None Inr absent cl
            by (intro proved_here) (auto simp: provision_group_def Let_def y_def [symmetric] get_group_or_none_def)
        next
          case False
          then have "s = create_group env resolver d ((h @ [?q]) @ [?g]) y t"
            using s v None Inr absent by (simp add: provision_group_def Let_def y_def [symmetric] get_group_or_none_def)
          with create_group_proved [OF ok(1) y(1)] False show ?thesis by simp
        qed
      qed
    qed
    then show ?thesis by (rule proved_query) simp
  qed
  then show ?thesis by (rule proved_query) simp
qed

section \<open>The whole step\<close>

lemma evaluate_same:
  "db_entries d' = db_entries d \<Longrightarrow> db_attempts d' = db_attempts d \<Longrightarrow> db_leases d' = db_leases d \<Longrightarrow>
    evaluate_locked d' g t = evaluate_locked d g t"
  by (simp add: evaluate_locked_def Let_def spend_between_def active_reservations_def active_warm_leases_def
      realized_lease_usage_def)

text \<open>The row under its derived names, with the facts of the loaded row that decide what a step may do.\<close>

lemma retired_row:
  assumes "retire_legacy_video_deployment d x t = (d1, x1)" and x: "step_inv env d h t' x" and cur: "current_row d x"
  shows "step_inv env d1 h t' x1" "current_row d1 x1" "same_resource x x1" "same_demand d d1"
    "get_guard_locked d1 p = get_guard_locked d p" "evaluate_locked d1 g u = evaluate_locked d g u"
    "sd_version_no x1 = sd_version_no x" "sd_config_sha256 x1 = sd_config_sha256 x"
    "sd_purpose x1 = sd_purpose x" "sd_is_current x1 = sd_is_current x"
    "sd_desired_state x1 = (if sd_purpose x = PurposeVIDEO then DesiredSTOPPED else sd_desired_state x)"
proof -
  define y where "y = x\<lparr>sd_desired_state := DesiredSTOPPED,
     sd_administrative_stop_reason := Some ''video_generation_retired'', sd_reconcile_after := Some t\<rparr>"
  have y: "sd_id y = sd_id x" "deployment_ok y = deployment_ok x" "clock_inv y = clock_inv x"
    "sd_billing_observed_at y = sd_billing_observed_at x" "same_resource x y" "sd_purpose y = sd_purpose x"
    by (simp_all add: y_def same_resource_def)
  have put: "same_demand d (put_deployment z d)" if "sd_id z = sd_id x" "sd_purpose z = sd_purpose x" for z
    using same_demand_put [of z d x] cur that by (simp add: current_row_def)
  have aud: "same_demand d (write_audited z a e u d)" if "sd_id z = sd_id x" "sd_purpose z = sd_purpose x" for z a e u
    unfolding write_audited_def
    by (rule same_demand_trans [OF put [OF that] same_demand_audit]) (simp add: deployment_audit_def)
  have out: "(d1 = d \<and> x1 = x \<and> sd_purpose x \<noteq> PurposeVIDEO)
      \<or> (d1 = put_deployment y d \<and> x1 = y \<and> sd_purpose x = PurposeVIDEO)
      \<or> (\<exists>a e. d1 = write_audited (touch_deployment y) a e t d \<and> x1 = touch_deployment y \<and> sd_purpose x = PurposeVIDEO)"
    using assms(1) by (auto simp: retire_legacy_video_deployment_def Let_def y_def split: if_splits)
  have t: "sd_purpose (touch_deployment y) = sd_purpose x" "sd_desired_state y = DesiredSTOPPED"
    "same_resource x (touch_deployment y)" "sd_version_no (touch_deployment y) = sd_version_no x"
    "sd_config_sha256 (touch_deployment y) = sd_config_sha256 x" "sd_is_current (touch_deployment y) = sd_is_current x"
    "sd_version_no y = sd_version_no x" "sd_config_sha256 y = sd_config_sha256 x" "sd_is_current y = sd_is_current x"
    by (simp_all add: y_def touch_deployment_def same_resource_def)
  show "step_inv env d1 h t' x1"
    using out x step_inv_put [OF x, of y] step_inv_put(3) [OF x, of "touch_deployment y"] y
    by (auto simp: step_inv_def)
  show "current_row d1 x1" using out cur y current_row_written [OF cur, of y] current_row_written [OF cur, of "touch_deployment y"]
    by (auto simp: write_audited_def)
  show "same_resource x x1" using out y(5) t(3) by auto
  show "same_demand d d1" using out put aud y(1,6) t(1) by auto
  show "get_guard_locked d1 p = get_guard_locked d p" using out by (auto simp: get_guard_locked_def write_audited_def)
  show "evaluate_locked d1 g u = evaluate_locked d g u"
    using out by (auto simp: write_audited_def intro: evaluate_same)
  show "sd_version_no x1 = sd_version_no x" "sd_config_sha256 x1 = sd_config_sha256 x"
    "sd_purpose x1 = sd_purpose x" "sd_is_current x1 = sd_is_current x"
    "sd_desired_state x1 = (if sd_purpose x = PurposeVIDEO then DesiredSTOPPED else sd_desired_state x)"
    using out t y by auto
qed

lemma named_row:
  assumes "assign_deterministic_names x = Inr y"
  shows "deterministic_provider_name (sd_queue_name x) (sd_version_no x) (sd_config_sha256 x) = Inr (sd_queue_name y)"
    "deterministic_provider_name (sd_container_group_name x) (sd_version_no x) (sd_config_sha256 x)
       = Inr (sd_container_group_name y)"
    "sd_id y = sd_id x" "deployment_ok y = deployment_ok x" "clock_inv y = clock_inv x"
    "sd_billing_observed_at y = sd_billing_observed_at x" "sd_purpose y = sd_purpose x"
    "sd_provider_queue_id y = sd_provider_queue_id x"
    "sd_provider_container_group_id y = sd_provider_container_group_id x" "sd_state y = sd_state x"
    "sd_desired_state y = sd_desired_state x" "sd_is_current y = sd_is_current x"
    "sd_min_replicas y = sd_min_replicas x" "sd_max_replicas y = sd_max_replicas x"
    "validate_local_deployment y = validate_local_deployment x" "sd_version_no y = sd_version_no x"
    "sd_config_sha256 y = sd_config_sha256 x"
proof -
  obtain q g where "deterministic_provider_name (sd_queue_name x) (sd_version_no x) (sd_config_sha256 x) = Inr q"
    "deterministic_provider_name (sd_container_group_name x) (sd_version_no x) (sd_config_sha256 x) = Inr g"
    "(sd_queue_name x = q \<and> sd_container_group_name x = g \<and> y = x)
       \<or> y = touch_deployment (x\<lparr>sd_queue_name := q, sd_container_group_name := g\<rparr>)"
    using assms by (auto simp: assign_deterministic_names_def bindE_eq_Inr split: if_splits)
  then show "deterministic_provider_name (sd_queue_name x) (sd_version_no x) (sd_config_sha256 x) = Inr (sd_queue_name y)"
    "deterministic_provider_name (sd_container_group_name x) (sd_version_no x) (sd_config_sha256 x)
       = Inr (sd_container_group_name y)"
    "sd_id y = sd_id x" "deployment_ok y = deployment_ok x" "clock_inv y = clock_inv x"
    "sd_billing_observed_at y = sd_billing_observed_at x" "sd_purpose y = sd_purpose x"
    "sd_provider_queue_id y = sd_provider_queue_id x"
    "sd_provider_container_group_id y = sd_provider_container_group_id x" "sd_state y = sd_state x"
    "sd_desired_state y = sd_desired_state x" "sd_is_current y = sd_is_current x"
    "sd_min_replicas y = sd_min_replicas x" "sd_max_replicas y = sd_max_replicas x"
    "validate_local_deployment y = validate_local_deployment x" "sd_version_no y = sd_version_no x"
    "sd_config_sha256 y = sd_config_sha256 x"
    by (auto simp: touch_deployment_def validate_local_deployment_def)
qed

definition derived_name :: "SaladDeployment \<Rightarrow> string \<Rightarrow> string \<Rightarrow> bool" where
  "derived_name x base n \<longleftrightarrow> deterministic_provider_name base (sd_version_no x) (sd_config_sha256 x) = Inr n"

lemma same_resource_validate: "same_resource x y \<Longrightarrow> validate_local_deployment y = validate_local_deployment x"
  by (simp add: same_resource_def validate_local_deployment_def)

lemma prepared_row:
  assumes p: "prepare_step d k t = Inr (d1, y, guard, unknown)" and row: "get_deployment k d = Some x"
    and x: "step_inv env d h t x"
  shows "step_inv env d1 h t y" "current_row d1 y" "sd_id y = k" "same_demand d d1"
    "within_budget d1 t = within_budget d t" "derived_name x (sd_queue_name x) (sd_queue_name y)"
    "derived_name x (sd_container_group_name x) (sd_container_group_name y)"
    "sd_provider_queue_id y = sd_provider_queue_id x"
    "sd_provider_container_group_id y = sd_provider_container_group_id x" "sd_state y = sd_state x"
    "sd_desired_state y = (if sd_purpose x = PurposeVIDEO then DesiredSTOPPED else sd_desired_state x)"
    "unknown \<longleftrightarrow> sd_state x = DeploymentUNKNOWN" "guard \<longleftrightarrow> get_guard_locked d ''salad'' \<noteq> None"
    "sd_is_current y = sd_is_current x" "sd_purpose y = sd_purpose x"
    "validate_local_deployment x = Inr ()" "validate_local_deployment y = Inr ()"
    "sd_version_no y = sd_version_no x" "sd_config_sha256 y = sd_config_sha256 x"
proof -
  have key: "sd_id x = k" using row by (rule row_get_key)
  have cur: "current_row d x" using row key by (simp add: current_row_def)
  obtain d0 x0 where r: "retire_legacy_video_deployment d x t = (d0, x0)"
    by (cases "retire_legacy_video_deployment d x t")
  have a: "assign_deterministic_names x0 = Inr y" and out: "d1 = put_deployment y d0" "guard = lock_budget_guard d"
      "unknown = (sd_state x = DeploymentUNKNOWN)" "validate_local_deployment x = Inr ()"
    using p row r by (auto simp: prepare_step_def load_deployment_locked_def Let_def bindE_eq_Inr)
  note rr = retired_row [OF r x cur] and nn = named_row [OF a]
  note same = rr(3) [unfolded same_resource_def]
  have sid: "sd_id y = k" using nn(3) same key by simp
  show "sd_id y = k" by (fact sid)
  show "step_inv env d1 h t y" unfolding out using rr(1) nn
    by (intro step_inv_put(2) [OF rr(1)]) (simp_all add: step_inv_def)
  show "current_row d1 y" unfolding out using current_row_written [OF rr(2), of y] nn(3) by simp
  have "same_demand d0 d1" unfolding out
    using same_demand_put [of y d0 x0] rr(2) nn by (simp add: current_row_def)
  with rr(4) show "same_demand d d1" by (rule same_demand_trans)
  have "get_guard_locked d1 ''salad'' = get_guard_locked d ''salad''" using rr(5) by (simp add: out get_guard_locked_def)
  moreover have "evaluate_locked d1 g t = evaluate_locked d g t" for g
    using rr(6) evaluate_same [of d1 d0 g t] by (simp add: out)
  ultimately show "within_budget d1 t = within_budget d t" by (simp add: within_budget_def cong: option.case_cong)
  show "derived_name x (sd_queue_name x) (sd_queue_name y)"
    "derived_name x (sd_container_group_name x) (sd_container_group_name y)"
    using nn(1,2) same rr(7,8) by (simp_all add: derived_name_def)
  show "sd_provider_queue_id y = sd_provider_queue_id x"
    "sd_provider_container_group_id y = sd_provider_container_group_id x" "sd_state y = sd_state x"
    "sd_desired_state y = (if sd_purpose x = PurposeVIDEO then DesiredSTOPPED else sd_desired_state x)"
    "unknown \<longleftrightarrow> sd_state x = DeploymentUNKNOWN" "guard \<longleftrightarrow> get_guard_locked d ''salad'' \<noteq> None"
    "sd_is_current y = sd_is_current x" "sd_purpose y = sd_purpose x"
    using nn same rr out by (simp_all add: lock_budget_guard_def)
  show "validate_local_deployment x = Inr ()" by (fact out(4))
  then show "validate_local_deployment y = Inr ()"
    using nn(15) same_resource_validate [OF rr(3)] by simp
  show "sd_version_no y = sd_version_no x" "sd_config_sha256 y = sd_config_sha256 x" using nn(16,17) same by simp_all
qed

text \<open>The two entry points.\<close>

datatype entry_point = Provision | Reconcile

fun deployment_step ::
  "entry_point \<Rightarrow> step_env \<Rightarrow> secret_resolver option \<Rightarrow> instant \<Rightarrow> db \<Rightarrow> provider_call list \<Rightarrow> uuid \<Rightarrow> pydatetime option
    \<Rightarrow> deployment_error + step" where
  "deployment_step Provision env resolver clock d h k now = provision_deployment_step env resolver clock d h k now"
| "deployment_step Reconcile env resolver clock d h k now = reconcile_deployment env clock d h k now"

definition step_time :: "instant \<Rightarrow> pydatetime option \<Rightarrow> instant" where
  "step_time clock now = (case now of Some (Aware t) \<Rightarrow> t | _ \<Rightarrow> clock)"

text \<open>Which mutations the row \<open>x\<close> justifies, besides the stop of its own group.\<close>

fun justified :: "SaladDeployment \<Rightarrow> int \<Rightarrow> string \<Rightarrow> string \<Rightarrow> provider_call \<Rightarrow> bool" where
  "justified x m qn gn (CallCreateQueue n) \<longleftrightarrow> n = qn \<and> sd_provider_queue_id x = None \<and> sd_state x \<noteq> DeploymentUNKNOWN"
| "justified x m qn gn (CallCreateContainerGroup _) \<longleftrightarrow> sd_provider_queue_id x \<noteq> None
     \<and> sd_provider_container_group_id x = None \<and> sd_state x \<noteq> DeploymentUNKNOWN"
| "justified x m qn gn (CallUpdateContainerGroup n _) \<longleftrightarrow> n = gn \<and> has_provider_resources x"
| "justified x m qn gn (CallStartContainerGroup n) \<longleftrightarrow> n = gn \<and> has_provider_resources x \<and> m = 1"
| "justified x m qn gn _ \<longleftrightarrow> False"

definition spending_allowed :: "db \<Rightarrow> instant \<Rightarrow> SaladDeployment \<Rightarrow> bool" where
  "spending_allowed d t x \<longleftrightarrow> within_budget d t \<and> sd_desired_state x = DesiredACTIVE \<and> sd_purpose x \<noteq> PurposeVIDEO"

lemma deployment_step_proved:
  assumes env: "env_ok env" and row: "get_deployment k d = Some x" and t: "t = step_time clock now"
    and x: "step_inv env d h t x" and s: "deployment_step entry env resolver clock d h k now = Inr s"
  shows "\<exists>qn gn. derived_name x (sd_queue_name x) qn \<and> derived_name x (sd_container_group_name x) gn \<and>
    proved env h k gn {c. spending_allowed d t x \<and> justified x (effective_worker_min_replicas t d k t) qn gn c} s"
proof -
  have time: "deployment_as_utc (case now of None \<Rightarrow> Aware clock | Some v \<Rightarrow> v) = Inr t"
    using s t by (cases entry; cases now)
      (auto simp: provision_deployment_step_def reconcile_deployment_def deployment_as_utc_def step_time_def
        bindE_eq_Inr split: pydatetime.splits)
  obtain d1 y guard unknown where p: "prepare_step d k t = Inr (d1, y, guard, unknown)"
    using s time by (cases entry)
      (auto simp: provision_deployment_step_def reconcile_deployment_def bindE_eq_Inr)
  note pr = prepared_row [OF p row x]
  let ?qn = "sd_queue_name y" and ?gn = "sd_container_group_name y"
  let ?m = "effective_worker_min_replicas t d k t"
  let ?cs = "{c. spending_allowed d t x \<and> justified x ?m ?qn ?gn c}"
  have m: "effective_worker_min_replicas t d1 k t = ?m" by (rule same_demand_effective [OF pr(4)])
  have spend: "spending_allowed d t x" if "within_budget d1 t" "\<not> stop_is_desired y"
    using that pr(5,11) by (cases "sd_desired_state x") (auto simp: spending_allowed_def stop_is_desired_def split: if_splits)
  have rec: "proved env h k ?gn ?cs s"
    if r: "reconcile_locked env e h y t guard = Inr s" and e: "step_inv env e h t y" "current_row e y"
      "within_budget e t \<Longrightarrow> within_budget d1 t" "same_demand d1 e" and res: "has_provider_resources y" for e
  proof -
    have "has_provider_resources x" using res pr(8,9) by (simp add: has_provider_resources_def)
    moreover have "effective_worker_min_replicas t e (sd_id y) t = ?m"
      using same_demand_effective [OF e(4)] m pr(3) by simp
    ultimately have "(if within_budget e t \<and> \<not> stop_is_desired y
        then repairs ?gn (effective_worker_min_replicas t e (sd_id y) t) else {}) \<subseteq> ?cs"
      using e(3) spend by (auto simp: repairs_def split: if_splits)
    from proved_mono [OF reconcile_locked_proved [OF env e(1,2) res refl r] this] show ?thesis by (simp add: pr(3))
  qed
  have "proved env h k ?gn ?cs s"
  proof (cases entry)
    case Reconcile
    then have eq: "s = mark_unknown d1 h y ''provider_resources_incomplete'' t \<or> (has_provider_resources y \<and> reconcile_locked env d1 h y t guard = Inr s)"
      using s time p by (auto simp: reconcile_deployment_def has_provider_resources_def split: if_splits)
    have "db_ok d1" "deployment_ok y" using pr(1) by (simp_all add: step_inv_def)
    then have "proved env h k ?gn ?cs (mark_unknown d1 h y ''provider_resources_incomplete'' t)"
      by (intro proved_here) (simp_all add: closing_ok)
    with eq rec [of d1] pr(1,2) show ?thesis by auto
  next
    case Provision
    obtain d2 z allowed where b: "budget_allows_provider_work d1 y t guard = (d2, z, allowed)"
      by (cases "budget_allows_provider_work d1 y t guard")
    note bc = budget_check [OF b pr(1,2)]
    have z: "sd_container_group_name z = ?gn" "sd_id z = k" using bc(3) pr(3) by (simp_all add: kept_def)
    have ok: "db_ok d2" "deployment_ok z" using bc(1) by (simp_all add: step_inv_def)
    let ?rest = "if sd_is_current z \<and> has_unstopped_superseded_group d2 (sd_id z) (sd_purpose z)
           then Inr (defer_rollout_overlap d2 h z t)
           else if sd_provider_queue_id z = None then Inr (provision_queue env d2 h z unknown t)
           else if sd_provider_container_group_id z = None then provision_group env resolver d2 h z unknown t
           else reconcile_locked env d2 h z t guard"
    have eq: "Inr s = (if \<not> allowed \<or> stop_is_desired z then Inr (request_stop env d2 h z t) else ?rest)"
      using s time p b Provision by (simp add: provision_deployment_step_def)
    show ?thesis
    proof (cases "\<not> allowed \<or> stop_is_desired z")
      case True
      then have "s = request_stop env d2 h z t" using eq by simp
      with proved_stop [OF request_stop_proved [OF env bc(1) z(1) [symmetric]]] z(2) show ?thesis by simp
    next
      case False
      then have bb: "z = y" "within_budget d1 t" "same_demand d1 d2" "\<not> stop_is_desired y" using bc(5) by auto
      note sp = spend [OF bb(2,4)]
      have rest: "Inr s = ?rest" using eq False by simp
      consider (overlap) "s = defer_rollout_overlap d2 h z t"
        | (queue) "sd_provider_queue_id z = None" "s = provision_queue env d2 h z unknown t"
        | (grp) "sd_provider_queue_id z \<noteq> None" "sd_provider_container_group_id z = None"
            "provision_group env resolver d2 h z unknown t = Inr s"
        | (both) "has_provider_resources z" "reconcile_locked env d2 h z t guard = Inr s"
        using rest by (auto simp: has_provider_resources_def split: if_splits)
      then show ?thesis
      proof cases
        case overlap
        then show ?thesis using closing_ok(5) [OF ok] by (intro proved_here) simp_all
      next
        case queue
        have "(if unknown then {} else {CallCreateQueue (sd_queue_name z)}) \<subseteq> ?cs"
          using sp queue(1) bb(1) pr(8,12) by auto
        from proved_mono [OF provision_queue_proved [OF ok] this] queue(2) show ?thesis by simp
      next
        case grp
        have "(if unknown then {} else group_creations) \<subseteq> ?cs"
          using sp grp(1,2) bb(1) pr(8,9,12) by (auto simp: group_creations_def)
        from proved_mono [OF provision_group_proved [OF grp(3) ok grp(1)] this] show ?thesis .
      next
        case both
        then show ?thesis using rec [of d2] bc(1,2) bb by simp
      qed
    qed
  qed
  with pr(6,7) show ?thesis by blast
qed

section \<open>A step that was prepared returns\<close>

definition returns :: "'e + 'a \<Rightarrow> bool" where
  "returns m \<longleftrightarrow> (\<exists>v. m = Inr v)"

lemma returns_simps [simp]: "returns (Inr v)" "\<not> returns (Inl e)"
  by (simp_all add: returns_def)

lemma returnsE: "returns m \<Longrightarrow> (\<And>v. m = Inr v \<Longrightarrow> P) \<Longrightarrow> P"
  by (auto simp: returns_def)

lemma validated_limits: "validate_local_deployment x = Inr () \<Longrightarrow> sd_min_replicas x = 0 \<and> sd_max_replicas x = 1"
  by (simp add: validate_local_deployment_def split: if_splits)

lemma autoscaler_returns:
  assumes "sd_min_replicas x = 0" "sd_max_replicas x = 1" "case m of None \<Rightarrow> True | Some n \<Rightarrow> n \<in> {0, 1}"
  obtains a where "desired_queue_autoscaler x m = Inr a"
  using assms by (auto simp: desired_queue_autoscaler_def Let_def split: option.splits)

lemma drift_returns:
  assumes "sd_min_replicas x = 0" "sd_max_replicas x = 1" "case m of None \<Rightarrow> True | Some n \<Rightarrow> n \<in> {0, 1}"
  shows "returns (group_configuration_drift x g m)" "returns (remote_drift_code x q g m)"
proof -
  obtain a where a: "desired_queue_autoscaler x m = Inr a" using assms by (rule autoscaler_returns)
  show g: "returns (group_configuration_drift x g m)"
    by (auto simp: group_configuration_drift_def Let_def a split: option.split pyval.split)
  then show "returns (remote_drift_code x q g m)" by (simp add: remote_drift_code_def)
qed

lemma contract_repair_returns:
  assumes "sd_min_replicas x = 0" "sd_max_replicas x = 1" "m \<in> {0, 1}"
  shows "returns (request_active_contract_repair env d h x g dc m t b)"
proof -
  obtain a where "desired_queue_autoscaler x (Some m) = Inr a"
    using assms by (auto intro: autoscaler_returns [of x "Some m"])
  then have "returns (request_autoscaler_repair env d h x m t b)"
    by (auto simp: request_autoscaler_repair_def Let_def split: sum.split)
  then show ?thesis by (auto simp: request_active_contract_repair_def elim!: returnsE)
qed

lemma reconcile_observed_returns:
  assumes env: "env_ok env" and x: "step_inv env d h t x" and lim: "sd_min_replicas x = 0" "sd_max_replicas x = 1"
  shows "returns (reconcile_observed env d h x queue g t)"
proof -
  define m where "m = effective_worker_min_replicas t d (sd_id x) t"
  have m: "m \<in> {0, 1}" unfolding m_def by (rule effective_min_01)
  define n where "n = sd_container_group_name x"
  let ?h1 = "h @ [CallListInstances n]" and ?a = "sc_list_container_group_instances (env_client env) h n"
  obtain x1 obs where r: "refresh_billing_observation ?a (env_billing_observation_clock env ?h1) x g t
      (is_true_scale_to_zero g m) = (x1, obs)"
    by (cases "refresh_billing_observation ?a (env_billing_observation_clock env ?h1) x g t (is_true_scale_to_zero g m)")
  obtain d1 out where mt: "meter_runtime_interval (env_new_id env) (put_deployment x1 d) x1 (observed_replicas g) g t
      (map_option fst obs) = (d1, out)"
    by (cases "meter_runtime_interval (env_new_id env) (put_deployment x1 d) x1 (observed_replicas g) g t
      (map_option fst obs)")
  note mr = metered_row [OF env x refl r mt]
  have "same_resource x x1" using refresh_billing_change [of x ?a _ g t] r billing_change_same(1) by (metis fst_conv)
  then have "sd_min_replicas x1 = 0" "sd_max_replicas x1 = 1" using lim by (simp_all add: same_resource_def)
  then obtain dc where dc: "remote_drift_code x1 queue g (Some m) = Inr dc"
    using drift_returns(2) [of x1 "Some m" queue g] m by (auto elim: returnsE)
  define x3 where "x3 = (reload x1 d1)\<lparr>sd_observed_replicas := Some (observed_replicas g),
      sd_ready_replicas := Some (gs_running_count (cg_current_state g)), sd_last_observed_at := Some t,
      sd_provider_status := Some (safe_provider_status queue g), sd_reconcile_after := Some (t + RECONCILE_DELAY)\<rparr>"
  have "sd_min_replicas x3 = 0" "sd_max_replicas x3 = 1"
    using lim mr(2) by (simp_all add: x3_def same_resource_def)
  then have rep: "returns (request_active_contract_repair env d1 ?h1 x3 g dc m t v)" for v
    using m by (rule contract_repair_returns)
  show ?thesis
  proof (cases out)
    case (Inl e)
    then show ?thesis
      by (simp add: reconcile_observed_def Let_def n_def [symmetric] m_def [symmetric] r dc mt)
  next
    case (Inr v)
    obtain rr where "request_active_contract_repair env d1 ?h1 x3 g dc m t v = Inr rr" using rep by (auto elim: returnsE)
    then show ?thesis
      unfolding reconcile_observed_def Let_def n_def [symmetric] m_def [symmetric] r prod.case dc bindE_simps mt Inr sum.case
        x3_def [symmetric]
      by (auto split: prod.split option.split)
  qed
qed

lemma reconcile_locked_returns:
  assumes env: "env_ok env" and x: "step_inv env d h t x" and cur: "current_row d x"
    and lim: "sd_min_replicas x = 0" "sd_max_replicas x = 1"
  shows "returns (reconcile_locked env d h x t guard)"
proof -
  obtain d1 y allowed where b: "budget_allows_provider_work d x t guard = (d1, y, allowed)"
    by (cases "budget_allows_provider_work d x t guard")
  note bc = budget_check [OF b x cur]
  have "sd_min_replicas y = 0" "sd_max_replicas y = 1" using bc(3) lim by (simp_all add: kept_def)
  from reconcile_observed_returns [OF env step_inv_later [OF env bc(1)] this] show ?thesis
    by (auto simp: reconcile_locked_def b Let_def split: sum.split)
qed

lemma provision_group_returns:
  assumes "sd_min_replicas x = 0" "sd_max_replicas x = 1"
  shows "returns (provision_group env resolver d h x unknown t)"
proof -
  have "returns (adopt_group d h' (x\<lparr>sd_state := DeploymentPROVISIONING\<rparr>) g t)" for h' g
    using assms drift_returns(1) [of "x\<lparr>sd_state := DeploymentPROVISIONING\<rparr>" None g]
    by (auto simp: adopt_group_def Let_def elim!: returnsE)
  then show ?thesis
    by (auto simp: provision_group_def Let_def split: prod.split option.split sum.split)
qed

lemma deployment_step_returns:
  assumes env: "env_ok env" and x: "\<And>x. get_deployment k d = Some x \<Longrightarrow> step_inv env d h (step_time clock now) x"
    and time: "deployment_as_utc (case now of None \<Rightarrow> Aware clock | Some v \<Rightarrow> v) = Inr t"
    and p: "prepare_step d k t = Inr (d1, y, guard, unknown)"
  shows "returns (deployment_step entry env resolver clock d h k now)"
proof -
  obtain x where row: "get_deployment k d = Some x"
    using p by (auto simp: prepare_step_def load_deployment_locked_def bindE_eq_Inr Let_def split: option.splits)
  have t: "step_time clock now = t"
    using time by (cases now) (auto simp: deployment_as_utc_def step_time_def split: pydatetime.splits)
  note pr = prepared_row [OF p row x [OF row, unfolded t]]
  note lim = validated_limits [OF pr(17)]
  show ?thesis
  proof (cases entry)
    case Reconcile
    then show ?thesis using reconcile_locked_returns [OF env pr(1,2)] lim time p
      by (auto simp: reconcile_deployment_def)
  next
    case Provision
    obtain d2 z allowed where b: "budget_allows_provider_work d1 y t guard = (d2, z, allowed)"
      by (cases "budget_allows_provider_work d1 y t guard")
    note bc = budget_check [OF b pr(1,2)]
    have "sd_min_replicas z = 0" "sd_max_replicas z = 1" using bc(3) lim by (simp_all add: kept_def)
    note ret = provision_group_returns [OF this] reconcile_locked_returns [OF env bc(1,2) this]
    show ?thesis using ret time p b Provision by (auto simp: provision_deployment_step_def)
  qed
qed

end
