(* ===== verification/ProviderNameTheorems.thy ===== *)
theory ProviderNameTheorems
  imports ProviderNames
begin

text \<open>A derived provider name is valid, stable under derivation, and identifies the deployment it was derived for.\<close>

section \<open>The suffix\<close>

lemma int_digits_nonneg: "0 \<le> v \<Longrightarrow> int_digits v = dec_digits v"
  by (simp add: int_digits_def)

lemma digits_no_letter: "0 \<le> v \<Longrightarrow> CHR ''v'' \<notin> set (int_digits v) \<and> hyphen \<notin> set (int_digits v)"
proof -
  assume "0 \<le> v"
  then have "list_all is_digit (int_digits v)" using dec_digits_properties by (simp add: int_digits_nonneg)
  moreover have "\<not> is_digit CHR ''v''" "\<not> is_digit hyphen" by code_simp+
  ultimately show ?thesis by (auto simp: list_all_iff)
qed

lemma length_version_digits: "0 < v \<Longrightarrow> v < 2 ^ 31 \<Longrightarrow> length (int_digits v) \<le> 10"
  by (simp add: int_digits_nonneg length_dec_digits)

lemma suffix_parts:
  assumes "0 < v" and "sha256_pattern h"
  shows "list_all label_char (name_suffix v h)" "single_hyphens (name_suffix v h)" "last (name_suffix v h) \<noteq> hyphen"
    "length (name_suffix v h) = 13 + length (int_digits v)"
proof -
  have d: "list_all is_digit (int_digits v)" "int_digits v \<noteq> []"
    using assms(1) dec_digits_properties [of v] by (simp_all add: int_digits_nonneg)
  have h: "list_all is_lower_hex (take 10 h)" "length (take 10 h) = 10" "take 10 h \<noteq> []"
    using assms(2) by (auto simp: sha256_pattern_def list_all_take)
  have v: "label_char CHR ''v''" by code_simp
  show "list_all label_char (name_suffix v h)"
    using d(1) h(1) v hex_label_char by (auto simp: name_suffix_def list_all_iff label_char_def)
  have single: "single_hyphens s" if "hyphen \<notin> set s" for s
    using that by (induction s rule: single_hyphens.induct) auto
  have nd: "hyphen \<notin> set (int_digits v)" using assms(1) digits_no_letter by simp
  have nh: "hyphen \<notin> set (take 10 h)"
  proof
    assume "hyphen \<in> set (take 10 h)"
    with h(1) have "is_lower_hex hyphen" by (auto simp: list_all_iff)
    then show False by (rule alpha_not_hyphen(3) [THEN notE]) simp
  qed
  have lst: "last (int_digits v) \<noteq> hyphen" using d(2) nd last_in_set by metis
  have hdh: "hd (take 10 h) \<noteq> hyphen"
    using nh h(3) hd_in_set by metis
  show "single_hyphens (name_suffix v h)"
  proof -
    have s1: "single_hyphens (''-'' @ take 10 h)"
      using single [OF nh] h(3) hdh by (subst single_hyphens_append) simp
    have s2: "single_hyphens (int_digits v @ ''-'' @ take 10 h)"
      using single [OF nd] lst s1 by (subst single_hyphens_append) simp
    have "single_hyphens ''-v''" "last ''-v'' \<noteq> hyphen" by code_simp+
    then show ?thesis using s2 unfolding name_suffix_def by (subst single_hyphens_append) simp
  qed
  show "last (name_suffix v h) \<noteq> hyphen"
  proof -
    have "last (take 10 h) \<noteq> hyphen" using nh last_in_set [OF h(3)] by metis
    with h(3) show ?thesis by (simp add: name_suffix_def)
  qed
  show "length (name_suffix v h) = 13 + length (int_digits v)"
    using h(2) by (simp add: name_suffix_def)
qed

lemma endswith_iff: "py_endswith s t \<longleftrightarrow> (\<exists>u. s = u @ t)"
proof
  assume "py_endswith s t"
  then show "\<exists>u. s = u @ t" unfolding py_endswith_def by (metis append_take_drop_id)
qed (auto simp: py_endswith_def)

text \<open>Two suffixes of one name are the same: the last eleven characters are the hash, the digits before are the version.\<close>

lemma suffix_unique:
  assumes "u @ name_suffix v h = u' @ name_suffix v' h'" and "0 < v" and "0 < v'"
    and "sha256_pattern h" and "sha256_pattern h'"
  shows "v' = v \<and> take 10 h' = take 10 h"
proof -
  have len: "length (take 10 h) = 10" "length (take 10 h') = 10"
    using assms(4,5) by (auto simp: sha256_pattern_def)
  have split: "(u @ ''-'') @ [CHR ''v''] @ int_digits v = (u' @ ''-'') @ [CHR ''v''] @ int_digits v'" "take 10 h = take 10 h'"
  proof -
    have "((u @ ''-v'' @ int_digits v) @ ''-'') @ take 10 h = ((u' @ ''-v'' @ int_digits v') @ ''-'') @ take 10 h'"
      using assms(1) by (simp add: name_suffix_def)
    then have "(u @ ''-v'' @ int_digits v) @ ''-'' = (u' @ ''-v'' @ int_digits v') @ ''-'' \<and> take 10 h = take 10 h'"
      using len by (subst (asm) append_eq_append_conv) auto
    then show "(u @ ''-'') @ [CHR ''v''] @ int_digits v = (u' @ ''-'') @ [CHR ''v''] @ int_digits v'" "take 10 h = take 10 h'"
      by auto
  qed
  have no: "CHR ''v'' \<notin> set (int_digits v)" "CHR ''v'' \<notin> set (int_digits v')"
    using digits_no_letter assms(2,3) by simp_all
  have "int_digits v = int_digits v'"
  proof -
    have tw: "takeWhile (\<lambda>c. c \<noteq> CHR ''v'') (rev (x @ [CHR ''v''] @ d)) = rev d" if "CHR ''v'' \<notin> set d" for x d
    proof -
      have "takeWhile (\<lambda>c. c \<noteq> CHR ''v'') (rev d @ CHR ''v'' # rev x) = rev d"
        using that by (subst takeWhile_append2) auto
      then show ?thesis by simp
    qed
    from tw [OF no(1)] tw [OF no(2)] split(1) have "rev (int_digits v) = rev (int_digits v')" by metis
    then show ?thesis by simp
  qed
  then have "digits_value (dec_digits v) = digits_value (dec_digits v')"
    using assms(2,3) by (simp add: int_digits_nonneg)
  then show ?thesis using dec_digits_properties assms(2,3) split(2) by simp
qed

section \<open>The derivation\<close>

lemma prefixed_label:
  assumes "valid_label s" and "0 < v" and "sha256_pattern h" and "length (name_suffix v h) < 63"
  shows "valid_label (rstrip_hyphen (py_prefix (MAX_PROVIDER_NAME_LENGTH - int (length (name_suffix v h))) s) @ name_suffix v h)"
      (is "valid_label (?p @ _)")
    and "length (rstrip_hyphen (py_prefix (MAX_PROVIDER_NAME_LENGTH - int (length (name_suffix v h))) s) @ name_suffix v h) \<le> 63"
proof -
  define n where "n = nat (63 - int (length (name_suffix v h)))"
  have n: "0 < n" "int n = 63 - int (length (name_suffix v h))" using assms(4) by (simp_all add: n_def)
  have p: "?p = rstrip_hyphen (take n s)"
    using assms(4) by (simp add: py_prefix_def MAX_PROVIDER_NAME_LENGTH_def n_def)
  have t: "take n s \<noteq> []" "hd (take n s) = hd s" using n(1) assms(1) by (simp_all add: valid_label_def)
  have hd: "is_lower_alpha (hd s)" "hd (take n s) \<noteq> hyphen" using assms(1) t(2) by (simp_all add: valid_label_def)
  note ne = rstrip_keeps_head [OF t(1) hd(2)]
  obtain k where k: "rstrip_hyphen (take n s) = take k (take n s)" using rstrip_prefix by blast
  have chars: "list_all label_char (take k (take n s))" "single_hyphens (take k (take n s))"
    using assms(1) by (simp_all add: valid_label_def plain_label_def list_all_take single_hyphens_take)
  have lst: "last ?p \<noteq> hyphen" using rstrip_last [of "take n s"] ne p by simp
  note sf = suffix_parts [OF assms(2,3)]
  have snn: "name_suffix v h \<noteq> []" by (simp add: name_suffix_def)
  have "single_hyphens (?p @ name_suffix v h)"
    using chars(2) sf(2) lst p k by (simp add: single_hyphens_append)
  moreover have "list_all label_char (?p @ name_suffix v h)" using chars(1) sf(1) p k by simp
  moreover have "hd (?p @ name_suffix v h) = hd s" using ne p t(2) by simp
  moreover have "hd s \<noteq> hyphen" using hd t(2) by simp
  ultimately show "valid_label (?p @ name_suffix v h)"
    using ne hd(1) sf(3) snn p by (simp add: valid_label_def plain_label_def)
  have "length ?p \<le> n" by (simp add: p k)
  then show "length (?p @ name_suffix v h) \<le> 63" using n(2) by simp
qed

lemma name_pattern_label: "valid_label s \<Longrightarrow> name_pattern s \<longleftrightarrow> 2 \<le> length s \<and> length s \<le> 63"
  by (auto simp: name_pattern_def valid_label_def plain_label_def)

lemma derived_cases:
  assumes "0 < v" and "v < 2 ^ 31" and "sha256_pattern h"
  shows "py_endswith (normalized_name b) (name_suffix v h) \<Longrightarrow>
      deterministic_provider_name b v h = (if length (normalized_name b) \<le> 63 then Inr (normalized_name b)
        else Inl (SaladDeploymentValidationError ''derived Salad resource name is invalid''))"
    and "\<not> py_endswith (normalized_name b) (name_suffix v h) \<Longrightarrow>
      \<exists>p. deterministic_provider_name b v h = Inr (p @ name_suffix v h) \<and> valid_label (p @ name_suffix v h)
        \<and> length (p @ name_suffix v h) \<le> 63"
proof -
  note sf = suffix_parts [OF assms(1,3)]
  have len: "length (name_suffix v h) < 63" using sf(4) length_version_digits [OF assms(1,2)] by simp
  note val = normalized_name_valid [of b]
  assume "py_endswith (normalized_name b) (name_suffix v h)"
  moreover from this have "2 \<le> length (normalized_name b)" using sf(4) by (auto simp: py_endswith_def)
  ultimately show "deterministic_provider_name b v h = (if length (normalized_name b) \<le> 63 then Inr (normalized_name b)
        else Inl (SaladDeploymentValidationError ''derived Salad resource name is invalid''))"
    using assms name_pattern_label [OF val] by (simp add: deterministic_provider_name_def Let_def)
next
  note sf = suffix_parts [OF assms(1,3)]
  have len: "length (name_suffix v h) < 63" using sf(4) length_version_digits [OF assms(1,2)] by simp
  note val = normalized_name_valid [of b]
  assume no: "\<not> py_endswith (normalized_name b) (name_suffix v h)"
  note pl = prefixed_label [OF val assms(1,3) len]
  have "name_pattern (rstrip_hyphen (py_prefix (MAX_PROVIDER_NAME_LENGTH - int (length (name_suffix v h)))
      (normalized_name b)) @ name_suffix v h)"
    using name_pattern_label [OF pl(1)] pl(2) sf(4) by simp
  with no assms pl show "\<exists>p. deterministic_provider_name b v h = Inr (p @ name_suffix v h)
      \<and> valid_label (p @ name_suffix v h) \<and> length (p @ name_suffix v h) \<le> 63"
    by (intro exI [of _ "rstrip_hyphen (py_prefix (MAX_PROVIDER_NAME_LENGTH - int (length (name_suffix v h)))
      (normalized_name b))"]) (simp add: deterministic_provider_name_def Let_def)
qed

lemma derived_shape:
  assumes "deterministic_provider_name b v h = Inr name" and "v < 2 ^ 31"
  shows "0 < v" "sha256_pattern h" "valid_label name" "length name \<le> 63" "\<exists>u. name = u @ name_suffix v h"
    "name_pattern name"
proof -
  show v: "0 < v" "sha256_pattern h"
    using assms(1) by (auto simp: deterministic_provider_name_def split: if_splits)
  show "name_pattern name"
    using assms(1) by (auto simp: deterministic_provider_name_def Let_def split: if_splits)
  have "valid_label name \<and> length name \<le> 63 \<and> (\<exists>u. name = u @ name_suffix v h)"
  proof (cases "py_endswith (normalized_name b) (name_suffix v h)")
    case True
    with derived_cases(1) [OF v(1) assms(2) v(2) True] assms(1) normalized_name_valid [of b] show ?thesis
      by (auto simp: endswith_iff split: if_splits)
  next
    case False
    with derived_cases(2) [OF v(1) assms(2) v(2) False] assms(1) show ?thesis by auto
  qed
  then show "valid_label name" "length name \<le> 63" "\<exists>u. name = u @ name_suffix v h" by blast+
qed

lemma derived_again:
  assumes "0 < v" and "v < 2 ^ 31" and "sha256_pattern h" and d: "deterministic_provider_name b v h = Inr name"
  shows "deterministic_provider_name name v h = Inr name"
proof -
  note s = derived_shape [OF d assms(2)]
  have "py_endswith name (name_suffix v h)" using s(5) by (simp add: endswith_iff)
  then show ?thesis using derived_cases(1) [OF assms(1-3), of name] s(4) by (simp add: normalized_name_id [OF s(3)])
qed

text \<open>
  A name derived for a deployment version is a DNS label of at most 63 characters, deriving again from the derived
  name gives the same name (so reconciliation may derive at every step), and no other version and no other configuration
  hash prefix has the same name. The derivation fails exactly when the base name already carries the suffix and is too
  long.
\<close>

theorem provider_names_identify:
  assumes "0 < v" and "v < 2 ^ 31" and "sha256_pattern h"
  shows "(\<forall>name. deterministic_provider_name b v h = Inr name \<longrightarrow>
      name_pattern name \<and> length name \<le> 63 \<and> deterministic_provider_name name v h = Inr name
      \<and> (\<forall>b' v' h'. v' < 2 ^ 31 \<longrightarrow> deterministic_provider_name b' v' h' = Inr name
           \<longrightarrow> v' = v \<and> take 10 h' = take 10 h))
    \<and> ((\<exists>name. deterministic_provider_name b v h = Inr name)
       \<longleftrightarrow> \<not> (py_endswith (normalized_name b) (name_suffix v h) \<and> 63 < length (normalized_name b)))"
proof (intro conjI allI impI)
  fix name assume d: "deterministic_provider_name b v h = Inr name"
  note s = derived_shape [OF d assms(2)]
  show "name_pattern name" "length name \<le> 63" by (rule s)+
  show "deterministic_provider_name name v h = Inr name" by (rule derived_again [OF assms d])
  fix b' v' h' assume v': "v' < 2 ^ 31" and d': "deterministic_provider_name b' v' h' = Inr name"
  note s' = derived_shape [OF d' v']
  from s(5) s'(5) obtain u u' where "u @ name_suffix v h = u' @ name_suffix v' h'" by metis
  from suffix_unique [OF this s(1) s'(1) s(2) s'(2)]
  show "v' = v" "take 10 h' = take 10 h" by simp_all
next
  show "(\<exists>name. deterministic_provider_name b v h = Inr name)
     \<longleftrightarrow> \<not> (py_endswith (normalized_name b) (name_suffix v h) \<and> 63 < length (normalized_name b))"
  proof (cases "py_endswith (normalized_name b) (name_suffix v h)")
    case True
    with derived_cases(1) [OF assms True] show ?thesis by simp
  next
    case False
    with derived_cases(2) [OF assms False] show ?thesis by auto
  qed
qed

lemma provider_names_identify_witness:
  "deterministic_provider_name ''Image Worker'' 3 (replicate 64 CHR ''a'') = Inr ''image-worker-v3-aaaaaaaaaa''
   \<and> deterministic_provider_name ''image-worker-v3-aaaaaaaaaa'' 3 (replicate 64 CHR ''a'')
       = Inr ''image-worker-v3-aaaaaaaaaa''"
proof -
  have h: "sha256_pattern (replicate 64 CHR ''a'')" by code_simp
  have d: "deterministic_provider_name ''Image Worker'' 3 (replicate 64 CHR ''a'') = Inr ''image-worker-v3-aaaaaaaaaa''"
    by code_simp
  from provider_names_identify [of 3 "replicate 64 CHR ''a''" "''Image Worker''"] h d show ?thesis by (simp only:) simp
qed

end
