(* ===== verification/DeploymentProgress.thy ===== *)
theory DeploymentProgress
  imports DeploymentReconciles ProviderNameTheorems
begin

text \<open>A deployment that must stop is stopped: the cycles with a provider that does what it is told.\<close>

text \<open>What a stop cycle keeps of the row besides its state and its recovered identifiers.\<close>

definition same_plan :: "SaladDeployment \<Rightarrow> SaladDeployment \<Rightarrow> bool" where
  "same_plan x y \<longleftrightarrow> sd_id y = sd_id x \<and> sd_container_group_name y = sd_container_group_name x
     \<and> sd_queue_name y = sd_queue_name x \<and> sd_version_no y = sd_version_no x \<and> sd_config_sha256 y = sd_config_sha256 x
     \<and> validate_local_deployment y = validate_local_deployment x
     \<and> (has_provider_resources x \<longrightarrow> has_provider_resources y)
     \<and> (sd_desired_state x = DesiredSTOPPED \<longrightarrow> sd_desired_state y = DesiredSTOPPED)"

lemma same_plan_refl [simp]: "same_plan x x"
  by (simp add: same_plan_def)

lemma same_plan_trans: "same_plan x y \<Longrightarrow> same_plan y z \<Longrightarrow> same_plan x z"
  by (simp add: same_plan_def)

lemma same_resource_plan: "same_resource x y \<Longrightarrow> same_plan x y"
  using same_resource_validate [of x y] same_resource_resources [of x y] by (simp add: same_plan_def same_resource_def)

lemma same_plan_columns [simp]:
  "same_plan x (y\<lparr>sd_state := s\<rparr>) = same_plan x y" "same_plan x (y\<lparr>sd_unknown_since := u\<rparr>) = same_plan x y"
  "same_plan x (y\<lparr>sd_reconcile_after := u\<rparr>) = same_plan x y" "same_plan x (touch_deployment y) = same_plan x y"
  "same_plan x (with_error_code c e y) = same_plan x y"
  by (simp_all add: same_plan_def validate_local_deployment_def has_provider_resources_def touch_deployment_def
      with_error_code_def)

lemma same_plan_recovered: "same_plan x (x\<lparr>sd_provider_container_group_id := Some g\<rparr>)"
  by (simp add: same_plan_def validate_local_deployment_def has_provider_resources_def)

section \<open>A stop cycle that sends the stop\<close>

text \<open>The cycle when the group is found under its name.\<close>

lemma found_group_stop:
  assumes g: "sc_get_container_group (env_client env) h n = Inr g" "cg_name g = n" and n: "n = sd_container_group_name x"
    and r: "recover_group_id d x (Some g) t = (d1, x1)"
  shows "request_stop env d h x t =
     (if sd_provider_queue_id x1 = None \<and> terminal_group x1 (Some g)
      then (case none_if_missing (sc_get_queue (env_client env) (h @ [CallGetContainerGroup n]) (sd_queue_name x1)) of
          Inr (Some q) \<Rightarrow> if sq_name q \<noteq> sd_queue_name x1
            then mark_failed d1 (h @ [CallGetContainerGroup n, CallGetQueue (sd_queue_name x1)]) x1
              ''stop_queue_name_collision'' t None None
            else (case recover_queue_id d1 x1 q t of
              (d3, x3) \<Rightarrow> stop_group env d3 (h @ [CallGetContainerGroup n, CallGetQueue (sd_queue_name x1)]) x3 (Some g) False
                (terminal_group x1 (Some g)) t)
        | _ \<Rightarrow> stop_group env d1 (h @ [CallGetContainerGroup n, CallGetQueue (sd_queue_name x1)]) x1 (Some g) False
            (terminal_group x1 (Some g)) t)
      else stop_group env d1 (h @ [CallGetContainerGroup n]) x1 (Some g) False (terminal_group x1 (Some g)) t)"
proof -
  have a: "none_if_missing (sc_get_container_group (env_client env) h (sd_container_group_name x)) = Inr (Some g)"
    using g(1) n by (simp add: none_if_missing_def)
  have "recover_group_id d
      (if case Inr (Some g) of Inl _ \<Rightarrow> True | Inr _ \<Rightarrow> False then x\<lparr>sd_billing_observation_stale := True\<rparr> else x)
      (case Inr (Some g) of Inl _ \<Rightarrow> None | Inr g \<Rightarrow> g) t = (d1, x1)"
    using r by simp
  from request_stop_eq [where env = env and h = h and x = x and d = d, unfolded a, OF this]
  show ?thesis using g(2) n by (auto split: sum.split option.split)
qed

lemma request_stop_running:
  assumes env: "env_ok env" and x: "step_inv env d h t x" and n: "n = sd_container_group_name x"
    and g: "sc_get_container_group (env_client env) h n = Inr g" "cg_name g = n"
      "py_lower (py_strip (cg_status g)) \<noteq> ''stopped''" "py_strip (cg_status g) \<noteq> []"
    and stop: "\<And>h'. sc_stop_container_group (env_client env) h' n = Inr ()"
  shows "\<exists>d' r y. request_stop env d h x t = (d', h @ [CallGetContainerGroup n, CallListInstances n, CallStopContainerGroup n], r)
    \<and> dr_action r = STOP_REQUESTED \<and> get_deployment (sd_id x) d' = Some y \<and> same_plan x y
    \<and> step_inv env d' (h @ [CallGetContainerGroup n, CallListInstances n, CallStopContainerGroup n]) t y"
proof -
  let ?g = "CallGetContainerGroup n" and ?l = "CallListInstances n" and ?s = "CallStopContainerGroup n"
  have x0: "step_inv env d (h @ [?g]) t x" by (rule step_inv_later [OF env x])
  obtain d1 x1 where r: "recover_group_id d x (Some g) t = (d1, x1)" by (cases "recover_group_id d x (Some g) t")
  note x1 = recover_group_inv [OF x0 r]
  have p1: "same_plan x x1"
    using r same_plan_recovered by (auto simp: recover_group_id_def Let_def split: if_splits)
  have ended: "\<not> terminal_group x1 (Some g)" using g(3,4) by (simp add: terminal_group_def stop_converged_def Let_def)
  obtain d2 h2 x2 m run where o: "observe_stopping_group env d1 (h @ [?g]) x1 g t = (d2, h2, x2, m, run)"
    by (cases "observe_stopping_group env d1 (h @ [?g]) x1 g t")
  note ob = observe_inv [OF env x1(1) env_okD(1) [OF env g(1)] o]
  have n2: "sd_container_group_name x2 = n" "sd_id x2 = sd_id x" "h2 = h @ [?g, ?l]"
    using ob(2,3) x1(2,3) n by (simp_all add: same_resource_def)
  define y where "y = touch_deployment (with_error_code (or_text (sd_last_error_code x2) ''stop_requested'')
     ''Provider stop was accepted and awaits reconciliation.''
     ((if has_provider_resources x2 then x2\<lparr>sd_state := DeploymentDRAINING\<rparr>
       else x2\<lparr>sd_state := DeploymentUNKNOWN, sd_unknown_since := Some (or_else (sd_unknown_since x2) t)\<rparr>)
        \<lparr>sd_reconcile_after := Some (t + RECONCILE_DELAY)\<rparr>))"
  have "request_stop env d h x t = stop_group env d1 (h @ [?g]) x1 (Some g) False False t"
    using found_group_stop [OF g(1,2) n r] ended by simp
  then have sent: "request_stop env d h x t = send_stop env d2 h2 x2 t m"
    by (simp only: stop_group_def option.case o prod.case if_False)
  have code: "sd_last_error_code (if has_provider_resources x2 then x2\<lparr>sd_state := DeploymentDRAINING\<rparr>
       else x2\<lparr>sd_state := DeploymentUNKNOWN, sd_unknown_since := Some (or_else (sd_unknown_since x2) t)\<rparr>)
      = sd_last_error_code x2" by simp
  have out: "send_stop env d2 h2 x2 t m = (write_audited y ''salad_deployment.stop_requested''
      [(''container_group_name'', PStr n)] t d2, h2 @ [?s], deployment_result y STOP_REQUESTED m (sd_last_error_code y))"
    using stop n2(1) by (simp add: send_stop_def Let_def y_def)
  have y: "deployment_ok y" "clock_inv y" "sd_billing_observed_at y = sd_billing_observed_at x2" "sd_id y = sd_id x2"
    using ob(1) by (simp_all add: y_def step_inv_def deployment_ok_state)
  have inv: "step_inv env (write_audited y a e t d2) h2 t y" for a e
    using step_inv_put(3) [OF ob(1) y(4,1,2,3)] .
  have plan: "same_plan x2 y" by (simp add: y_def)
  have "get_deployment (sd_id y) d2 \<noteq> None" using ob(1) y(4) by (simp add: step_inv_def)
  then have row: "get_deployment (sd_id x) (write_audited y a e t d2) = Some y" for a e
    using written_row(1) [of y d2 a e t] y(4) n2(2) by simp
  have "same_plan x y" using p1 same_resource_plan [OF ob(3)] plan by (blast intro: same_plan_trans)
  with sent out n2(3) row step_inv_later [OF env inv, where k = "[?s]"] show ?thesis
    by (simp add: deployment_result_def)
qed

section \<open>A stop cycle that sees the stop\<close>

lemma request_stop_stopped:
  assumes env: "env_ok env" and x: "step_inv env d h t x" and n: "n = sd_container_group_name x"
    and g: "sc_get_container_group (env_client env) h n = Inr g" "cg_name g = n"
      "py_lower (py_strip (cg_status g)) = ''stopped''"
    and idle: "\<And>k. \<exists>insts. sc_list_container_group_instances (env_client env) (h @ k) n = Inr insts \<and> no_running insts"
    and queue: "\<And>h' q. sc_get_queue (env_client env) h' (sd_queue_name x) = Inr q \<Longrightarrow> sq_name q = sd_queue_name x"
  shows "action_of (request_stop env d h x t) = STOPPED"
proof -
  let ?g = "CallGetContainerGroup n"
  have x0: "step_inv env d (h @ [?g]) t x" by (rule step_inv_later [OF env x])
  obtain d1 x1 where r: "recover_group_id d x (Some g) t = (d1, x1)" by (cases "recover_group_id d x (Some g) t")
  note x1 = recover_group_inv [OF x0 r]
  have q1: "sd_queue_name x1 = sd_queue_name x"
    using r by (auto simp: recover_group_id_def Let_def split: if_splits)
  have ended: "terminal_group z (Some g)" for z using g(3) by (simp add: terminal_group_def)
  have sg: "action_of (stop_group env e (h @ k) z (Some g) False True t) = STOPPED"
    if z: "step_inv env e (h @ k) t z" "sd_container_group_name z = n" for e k z
  proof -
    obtain d2 h2 x2 m run where o: "observe_stopping_group env e (h @ k) z g t = (d2, h2, x2, m, run)"
      by (cases "observe_stopping_group env e (h @ k) z g t")
    note ob = observe_inv [OF env z(1) env_okD(1) [OF env g(1)] o]
    obtain insts where "sc_list_container_group_instances (env_client env) (h @ k) n = Inr insts" "no_running insts"
      using idle by blast
    then have "run = Some 0" using ob(4) z(2) no_running_count [of insts] by simp
    then have "stop_group env e (h @ k) z (Some g) False True t = confirm_provider_group_stopped d2 h2 x2
        (or_else (gs_finish_time (cg_current_state g)) t) ''stopped'' m"
      by (simp add: stop_group_def o)
    with confirm_stopped(4) [OF ob(1) this] show ?thesis by (simp add: action_of_def)
  qed
  let ?q = "CallGetQueue (sd_queue_name x1)"
  note start = found_group_stop [OF g(1,2) n r]
  show ?thesis
  proof (cases "sd_provider_queue_id x1 = None")
    case False
    then show ?thesis using start ended sg [OF x1(1)] x1(3) n by auto
  next
    case True
    have h2: "step_inv env d1 (h @ [?g, ?q]) t x1" using step_inv_later [OF env x1(1), of "[?q]"] by simp
    show ?thesis
    proof (cases "none_if_missing (sc_get_queue (env_client env) (h @ [?g]) (sd_queue_name x1))")
      case (Inl e)
      then show ?thesis using start True ended sg [OF h2] x1(3) n by simp
    next
      case (Inr q)
      show ?thesis
      proof (cases q)
        case None
        then show ?thesis using start True ended Inr sg [OF h2] x1(3) n by simp
      next
        case (Some q')
        obtain d3 x3 where r3: "recover_queue_id d1 x1 q' t = (d3, x3)" by (cases "recover_queue_id d1 x1 q' t")
        note x3 = recover_queue_inv [OF h2 r3]
        have "sq_name q' = sd_queue_name x1"
          using queue [of "h @ [?g]" q'] Inr Some q1 by (auto simp: none_if_missing_def split: sum.splits if_splits)
        then show ?thesis using start True ended Inr Some r3 sg [OF x3(1)] x3(3) x1(3) n by simp
      qed
    qed
  qed
qed

section \<open>The whole cycles\<close>

text \<open>A step of a deployment that may not spend is a stop cycle on the named row.\<close>

definition stop_starts :: "entry_point \<Rightarrow> SaladDeployment \<Rightarrow> bool" where
  "stop_starts entry x \<longleftrightarrow> entry = Provision \<or> has_provider_resources x"

lemma stop_step:
  assumes row: "get_deployment k d = Some x" and x: "step_inv env d h t x" and no: "\<not> spending_allowed d t x"
    and p: "prepare_step d k t = Inr (d1, y, guard, unknown)" and e: "stop_starts entry x"
  shows "\<exists>d2 z. step_inv env d2 h t z \<and> same_plan y z \<and> sd_desired_state z = DesiredSTOPPED \<and> sd_id z = k
    \<and> deployment_step entry env resolver clock d h k (Some (Aware t)) = Inr (request_stop env d2 h z t)"
proof -
  note pr = prepared_row [OF p row x]
  obtain d2 z allowed where b: "budget_allows_provider_work d1 y t guard = (d2, z, allowed)"
    by (cases "budget_allows_provider_work d1 y t guard")
  note bc = budget_check [OF b pr(1,2)]
  have stopped: "sd_desired_state z = DesiredSTOPPED"
  proof (cases allowed)
    case True
    then have "z = y" "within_budget d t" using bc(5) pr(5) by auto
    with no pr(11) show ?thesis by (cases "sd_desired_state x") (auto simp: spending_allowed_def)
  qed (use bc(4) in simp)
  have plan: "same_plan y z" by (rule same_resource_plan [OF kept_same_resource [OF bc(3)]])
  have rec: "reconcile_locked env d1 h y t guard = Inr (request_stop env d2 h z t)"
    using b stopped by (simp add: reconcile_locked_def stop_is_desired_def)
  have "deployment_step entry env resolver clock d h k (Some (Aware t)) = Inr (request_stop env d2 h z t)"
  proof (cases entry)
    case Provision
    then show ?thesis using p b stopped
      by (simp add: provision_deployment_step_def deployment_as_utc_def stop_is_desired_def)
  next
    case Reconcile
    then have "has_provider_resources y" using e pr(8,9) by (simp add: stop_starts_def has_provider_resources_def)
    then show ?thesis using p rec Reconcile
      by (auto simp: reconcile_deployment_def deployment_as_utc_def has_provider_resources_def)
  qed
  with bc(1) plan stopped pr(3) show ?thesis by (auto simp: same_plan_def)
qed

text \<open>A provider that does what it is told: the group runs until the stop is sent and is stopped afterwards.\<close>

definition obedient :: "salad_client \<Rightarrow> string \<Rightarrow> string \<Rightarrow> SaladContainerGroup \<Rightarrow> SaladContainerGroup \<Rightarrow> bool" where
  "obedient c qn n g g' \<longleftrightarrow>
     (\<forall>h. sc_get_container_group c h n = Inr (if CallStopContainerGroup n \<in> set h then g' else g))
   \<and> (\<forall>h. sc_stop_container_group c h n = Inr ())
   \<and> (\<forall>h. CallStopContainerGroup n \<in> set h \<longrightarrow>
        (case sc_list_container_group_instances c h n of Inl _ \<Rightarrow> False | Inr insts \<Rightarrow> no_running insts))
   \<and> (\<forall>h. case sc_get_queue c h qn of Inl _ \<Rightarrow> True | Inr q \<Rightarrow> sq_name q = qn)
   \<and> cg_name g = n \<and> cg_name g' = n \<and> py_strip (cg_status g) \<noteq> [] \<and> py_lower (py_strip (cg_status g)) \<noteq> ''stopped''
   \<and> py_lower (py_strip (cg_status g')) = ''stopped''"

lemma obedientD:
  assumes "obedient c qn n g g'"
  shows "CallStopContainerGroup n \<notin> set h \<Longrightarrow> sc_get_container_group c h n = Inr g"
    "CallStopContainerGroup n \<in> set h \<Longrightarrow> sc_get_container_group c h n = Inr g'"
    "sc_stop_container_group c h n = Inr ()"
    "CallStopContainerGroup n \<in> set h \<Longrightarrow>
       \<exists>insts. sc_list_container_group_instances c h n = Inr insts \<and> no_running insts"
    "sc_get_queue c h qn = Inr q \<Longrightarrow> sq_name q = qn"
    "cg_name g = n" "cg_name g' = n" "py_strip (cg_status g) \<noteq> []" "py_lower (py_strip (cg_status g)) \<noteq> ''stopped''"
    "py_lower (py_strip (cg_status g')) = ''stopped''"
proof -
  note o = assms [unfolded obedient_def]
  show "CallStopContainerGroup n \<in> set h \<Longrightarrow>
       \<exists>insts. sc_list_container_group_instances c h n = Inr insts \<and> no_running insts"
  proof -
    assume "CallStopContainerGroup n \<in> set h"
    then have "case sc_list_container_group_instances c h n of Inl _ \<Rightarrow> False | Inr insts \<Rightarrow> no_running insts"
      using o by blast
    then show ?thesis by (auto split: sum.splits)
  qed
  show "sc_get_queue c h qn = Inr q \<Longrightarrow> sq_name q = qn"
  proof -
    assume q: "sc_get_queue c h qn = Inr q"
    have "case sc_get_queue c h qn of Inl _ \<Rightarrow> True | Inr q \<Rightarrow> sq_name q = qn" using o by blast
    with q show ?thesis by simp
  qed
qed (use assms in \<open>auto simp: obedient_def\<close>)

text \<open>The stored row is one the schema's types allow: its version fits its column and its hash is a SHA-256 in hex.\<close>

definition stored_version_ok :: "SaladDeployment \<Rightarrow> bool" where
  "stored_version_ok x \<longleftrightarrow> 0 < sd_version_no x \<and> sd_version_no x < 2 ^ 31 \<and> sha256_pattern (sd_config_sha256 x)"

text \<open>A valid row is prepared under its derived names; naming is stable, so it is prepared again under the same ones.\<close>

lemma prepares:
  assumes row: "get_deployment k d = Some x" and v: "validate_local_deployment x = Inr ()"
    and names: "derived_name x (sd_queue_name x) qn" "derived_name x (sd_container_group_name x) gn"
  shows "\<exists>d1 y guard unknown. prepare_step d k t = Inr (d1, y, guard, unknown)
    \<and> sd_queue_name y = qn \<and> sd_container_group_name y = gn"
proof -
  obtain d0 x0 where r: "retire_legacy_video_deployment d x t = (d0, x0)"
    by (cases "retire_legacy_video_deployment d x t")
  then have x0: "sd_queue_name x0 = sd_queue_name x" "sd_container_group_name x0 = sd_container_group_name x"
      "sd_version_no x0 = sd_version_no x" "sd_config_sha256 x0 = sd_config_sha256 x"
    by (auto simp: retire_legacy_video_deployment_def Let_def touch_deployment_def split: if_splits)
  obtain y where "assign_deterministic_names x0 = Inr y" "sd_queue_name y = qn" "sd_container_group_name y = gn"
    using names x0
    by (cases "sd_queue_name x = qn \<and> sd_container_group_name x = gn")
      (auto simp: assign_deterministic_names_def derived_name_def touch_deployment_def)
  with row v r show ?thesis by (simp add: prepare_step_def load_deployment_locked_def Let_def)
qed

lemma derived_once: "stored_version_ok x \<Longrightarrow> derived_name x b n \<Longrightarrow> derived_name x n n"
  unfolding derived_name_def stored_version_ok_def by (blast intro: derived_again)

end
