(* ===== verification/DeploymentTheorems.thy ===== *)
theory DeploymentTheorems
  imports DeploymentProgress
begin

text \<open>
  The guarantees of the control of a worker deployment. They hold for every provider: an answer may depend on every call
  made before it, fail, or be wrong.
\<close>

section \<open>A sample\<close>

text \<open>A planned deployment, a guard with room, and a provider that has no resource and creates what it is asked for.\<close>

definition sample_digits :: "char \<Rightarrow> string" where
  "sample_digits c = replicate 64 c"

definition sample_planned :: SaladDeployment where
  "sample_planned = sample_worker_deployment\<lparr>sd_config_sha256 := sample_digits CHR ''a'',
     sd_worker_image_digest := ''registry/worker@sha256:'' @ sample_digits CHR ''b'', sd_provider_queue_id := None,
     sd_provider_container_group_id := None, sd_state := DeploymentPLANNED, sd_observed_replicas := None,
     sd_ready_replicas := None\<rparr>"

definition sample_client :: salad_client where
  "sample_client = \<lparr>
     sc_create_queue = (\<lambda>h n. Inr \<lparr>sq_id = 5, sq_name = n, sq_current_queue_length = 0\<rparr>),
     sc_get_queue = (\<lambda>h n. Inl (SaladAPIError 404)),
     sc_create_container_group = (\<lambda>h p. Inl SaladTransportError),
     sc_get_container_group = (\<lambda>h n. Inl (SaladAPIError 404)),
     sc_list_container_group_instances = (\<lambda>h n. Inr []),
     sc_update_container_group = (\<lambda>h n p. Inl SaladTransportError),
     sc_start_container_group = (\<lambda>h n. Inr ()),
     sc_stop_container_group = (\<lambda>h n. Inr ())\<rparr>"

definition sample_env :: "salad_client \<Rightarrow> step_env" where
  "sample_env client = \<lparr>env_client = client, env_billing_observation_clock = (\<lambda>h. 5), env_new_id = sample_fresh_id\<rparr>"

definition sample_deployment_db :: "SaladDeployment \<Rightarrow> db" where
  "sample_deployment_db x = empty_db\<lparr>db_guards := [sample_guard], db_deployments := [x]\<rparr>"

section \<open>Calls\<close>

text \<open>C2: A step sends at most one mutation to the provider, and a justified one. Whatever the provider answers, both entry
  points only append to the calls made before, and among the new calls there is at most one mutation: the stop of the
  deployment's own group, or, when the budget guard exists and stands within its limits, the row asks for ACTIVE and is no
  video lane, one of: creating the queue, only without a queue identifier and when no earlier outcome is unknown; creating
  the group, only with a durable queue identifier, without a group identifier and when no earlier outcome is unknown;
  repairing the autoscaler of the own group; starting the own group, only when the demand is one worker.\<close>

theorem step_sends_one_justified_mutation:
  assumes "env_ok env" and "get_deployment k d = Some x" and "step_inv env d h (step_time clock now) x"
    and "deployment_step entry env resolver clock d h k now = Inr (d', calls, r)"
  shows "\<exists>new qn gn. calls = h @ new \<and> derived_name x (sd_queue_name x) qn
     \<and> derived_name x (sd_container_group_name x) gn
     \<and> (mutations new = [] \<or> mutations new = [CallStopContainerGroup gn]
        \<or> (\<exists>c. mutations new = [c] \<and> spending_allowed d (step_time clock now) x
             \<and> justified x (effective_worker_min_replicas (step_time clock now) d k (step_time clock now)) qn gn c))"
proof -
  from deployment_step_proved [OF assms(1,2) refl assms(3,4)] obtain qn gn where
    n: "derived_name x (sd_queue_name x) qn" "derived_name x (sd_container_group_name x) gn"
    and p: "proved env h k gn {c. spending_allowed d (step_time clock now) x
      \<and> justified x (effective_worker_min_replicas (step_time clock now) d k (step_time clock now)) qn gn c} (d', calls, r)"
    by blast
  then obtain new where "calls = h @ new" "mutations new \<in> stops_only gn \<union> {[c] |c. spending_allowed d (step_time clock now) x
      \<and> justified x (effective_worker_min_replicas (step_time clock now) d k (step_time clock now)) qn gn c}"
    by (auto simp: proved_def continues_def)
  with n show ?thesis by (auto simp: stops_only_def)
qed

lemma sample_env_ok: "env_ok (sample_env sample_client)"
  by (simp add: env_ok_def sample_env_def sample_client_def sample_fresh_id)

lemma sample_step_inv:
  assumes "x \<in> {sample_planned, sample_planned\<lparr>sd_desired_state := DesiredSTOPPED\<rparr>}"
  shows "step_inv env (sample_deployment_db x) h t x" "get_deployment 41 (sample_deployment_db x) = Some x"
proof -
  have "db_ok (sample_deployment_db x) \<and> deployment_ok x \<and> clock_inv x \<and> sd_billing_observed_at x = None \<and> sd_id x = 41"
    using assms by (elim insertE emptyE; simp only:) code_simp+
  moreover from this show "get_deployment 41 (sample_deployment_db x) = Some x"
    by (simp add: sample_deployment_db_def row_get_def)
  ultimately show "step_inv env (sample_deployment_db x) h t x" by (simp add: step_inv_def not_before_def)
qed

lemma step_sends_one_justified_mutation_witness:
  "case deployment_step Provision (sample_env sample_client) None 9 (sample_deployment_db sample_planned) [] 41 None of
     Inl _ \<Rightarrow> False
   | Inr (d', calls, r) \<Rightarrow> calls = [CallGetQueue ''queue-v3-aaaaaaaaaa'', CallCreateQueue ''queue-v3-aaaaaaaaaa'']
       \<and> spending_allowed (sample_deployment_db sample_planned) 9 sample_planned"
proof -
  let ?d = "sample_deployment_db sample_planned"
  have run: "case deployment_step Provision (sample_env sample_client) None 9 ?d [] 41 None of
     Inl _ \<Rightarrow> False | Inr (d', calls, r) \<Rightarrow>
       calls = [CallGetQueue ''queue-v3-aaaaaaaaaa'', CallCreateQueue ''queue-v3-aaaaaaaaaa'']"
    by code_simp
  then obtain d' calls r where s: "deployment_step Provision (sample_env sample_client) None 9 ?d [] 41 None = Inr (d', calls, r)"
    and calls: "calls = [CallGetQueue ''queue-v3-aaaaaaaaaa'', CallCreateQueue ''queue-v3-aaaaaaaaaa'']"
    by (auto split: sum.splits prod.splits)
  have "\<exists>c. mutations calls = [c] \<and> spending_allowed ?d 9 sample_planned"
    using step_sends_one_justified_mutation [OF sample_env_ok sample_step_inv(2) sample_step_inv(1) s] calls
    by (auto simp: step_time_def)
  with s calls show ?thesis by simp
qed

text \<open>C15: A stop is reported as confirmed only on evidence of the same step. The provider answered that the deployment's
  group is missing, or that it is stopped (or drained to nothing) and then that none of its instances runs; and the row
  that is written has no replica, an ended billing session, no open segment, and nothing left to reconcile. The budget
  service and the metering may have failed on the way: they cannot make a running group count as stopped.\<close>

theorem confirmed_stop_is_observed:
  assumes "env_ok env" and "get_deployment k d = Some x" and "step_inv env d h (step_time clock now) x"
    and "deployment_step entry env resolver clock d h k now = Inr (d', calls, r)" and "dr_action r = STOPPED"
  shows "\<exists>n y. derived_name x (sd_container_group_name x) n \<and> stop_evidence env h n calls
     \<and> get_deployment k d' = Some y \<and> stopped_row y"
  using deployment_step_proved [OF assms(1,2) refl assms(3,4)] assms(5)
  by (auto simp: proved_def action_of_def)

definition sample_stopping :: SaladDeployment where
  "sample_stopping = sample_planned\<lparr>sd_desired_state := DesiredSTOPPED\<rparr>"

lemma sample_stopping_inv:
  "step_inv env (sample_deployment_db sample_stopping) h t sample_stopping"
  "get_deployment 41 (sample_deployment_db sample_stopping) = Some sample_stopping"
  unfolding sample_stopping_def by (rule sample_step_inv; simp)+

lemma confirmed_stop_is_observed_witness:
  "case deployment_step Provision (sample_env sample_client) None 9 (sample_deployment_db sample_stopping) [] 41 None of
     Inl _ \<Rightarrow> False
   | Inr (d', calls, r) \<Rightarrow> dr_action r = STOPPED \<and> stop_evidence (sample_env sample_client) [] ''worker-v3-aaaaaaaaaa'' calls"
proof -
  let ?d = "sample_deployment_db sample_stopping"
  have run: "case deployment_step Provision (sample_env sample_client) None 9 ?d [] 41 None of
     Inl _ \<Rightarrow> False | Inr (d', calls, r) \<Rightarrow> dr_action r = STOPPED"
    by code_simp
  then obtain d' calls r where s: "deployment_step Provision (sample_env sample_client) None 9 ?d [] 41 None = Inr (d', calls, r)"
    and stopped: "dr_action r = STOPPED"
    by (auto split: sum.splits prod.splits)
  have "derived_name sample_stopping (sd_container_group_name sample_stopping) ''worker-v3-aaaaaaaaaa''" by code_simp
  moreover obtain n where "derived_name sample_stopping (sd_container_group_name sample_stopping) n"
      "stop_evidence (sample_env sample_client) [] n calls"
    using confirmed_stop_is_observed [OF sample_env_ok sample_stopping_inv(2,1) s stopped] by blast
  ultimately show ?thesis using s stopped by (simp add: derived_name_def)
qed

text \<open>C28: A step keeps the constraints of \<open>db_ok\<close>, with one exception: the CHECK constraints of the modelled columns of guards,
  spend entries, jobs, attempts, leases, events and deployments, their primary keys, and the unique constraints of a
  guard's provider, of an entry's guard and key and of an event's topic and key. From a database that satisfies these, with
  a row whose timer has seen nothing later than the clock, every branch of both entry points ends in such a database,
  unless it defers the stop of a group whose queue is not known: that row is left DRAINING without a queue identifier.
  The unique constraints of the deployments are not part of it: a step stores the identifiers the provider answers with,
  and nothing is said about a provider that answers with those of another row.\<close>

theorem steps_keep_constraints:
  assumes "env_ok env" and "get_deployment k d = Some x" and "step_inv env d h (step_time clock now) x"
    and "deployment_step entry env resolver clock d h k now = Inr (d', calls, r)"
  shows "db_ok d' \<or> unconfirmed_without_queue r"
  using deployment_step_proved [OF assms(1,2) refl assms(3,4)] by (auto simp: proved_def)

lemma steps_keep_constraints_witness:
  "case deployment_step Provision (sample_env sample_client) None 9 (sample_deployment_db sample_stopping) [] 41 None of
     Inl _ \<Rightarrow> False | Inr (d', calls, r) \<Rightarrow> db_ok d' \<and> dr_action r = STOPPED"
proof -
  let ?d = "sample_deployment_db sample_stopping"
  have run: "case deployment_step Provision (sample_env sample_client) None 9 ?d [] 41 None of
     Inl _ \<Rightarrow> False | Inr (d', calls, r) \<Rightarrow> dr_action r = STOPPED"
    by code_simp
  then obtain d' calls r where s: "deployment_step Provision (sample_env sample_client) None 9 ?d [] 41 None = Inr (d', calls, r)"
    and stopped: "dr_action r = STOPPED"
    by (auto split: sum.splits prod.splits)
  have "db_ok d' \<or> unconfirmed_without_queue r"
    by (rule steps_keep_constraints [OF sample_env_ok sample_stopping_inv(2,1) s])
  with s stopped show ?thesis by (simp add: unconfirmed_without_queue_def)
qed

text \<open>The exception happens: the group is stopped under its name, its queue is not known, and the list of its instances
  still shows one running. The row is left DRAINING without a queue, which the schema refuses.\<close>

definition sample_lingering_client :: salad_client where
  "sample_lingering_client = sample_client\<lparr>
     sc_get_container_group := (\<lambda>h n. Inr (sample_group\<lparr>cg_name := n, cg_current_state :=
        (cg_current_state sample_group)\<lparr>gs_status := ''stopped''\<rparr>\<rparr>)),
     sc_list_container_group_instances :=
       (\<lambda>h n. Inr [\<lparr>gi_id = ''i'', gi_state = InstanceRUNNING, gi_update_time = 4, gi_version = 4,
         gi_started = Some True\<rparr>])\<rparr>"

lemma unconfirmed_stop_breaks_a_constraint:
  "case deployment_step Provision (sample_env sample_lingering_client) None 9 (sample_deployment_db sample_stopping) [] 41 None of
     Inl _ \<Rightarrow> False | Inr (d', calls, r) \<Rightarrow> unconfirmed_without_queue r \<and> \<not> db_ok d'"
  by code_simp

text \<open>C30: A step raises only before its first call. The errors of both entry points are exactly those of checking the time
  and preparing the row (a naive timestamp, an unknown deployment, a row outside the limits of version 1, a name that
  cannot be derived); after that every answer of the provider, every budget error and every invalid configuration ends in
  a recorded result.\<close>

theorem step_errors_precede_calls:
  assumes "env_ok env" and "\<forall>x. get_deployment k d = Some x \<longrightarrow> step_inv env d h (step_time clock now) x"
  shows "deployment_step entry env resolver clock d h k now = Inl e \<longleftrightarrow>
    bindE (deployment_as_utc (case now of None \<Rightarrow> Aware clock | Some v \<Rightarrow> v)) (prepare_step d k) = Inl e"
proof (cases "bindE (deployment_as_utc (case now of None \<Rightarrow> Aware clock | Some v \<Rightarrow> v)) (prepare_step d k)")
  case (Inl e')
  then have "deployment_step entry env resolver clock d h k now = Inl e'"
    by (cases entry)
      (auto simp: provision_deployment_step_def reconcile_deployment_def bindE_eq_Inl)
  with Inl show ?thesis by simp
next
  case (Inr p)
  then obtain t d1 y guard unknown where
    "deployment_as_utc (case now of None \<Rightarrow> Aware clock | Some v \<Rightarrow> v) = Inr t" "prepare_step d k t = Inr (d1, y, guard, unknown)"
    by (cases p) (auto simp: bindE_eq_Inr)
  with deployment_step_returns [OF assms(1)] assms(2)
  have "returns (deployment_step entry env resolver clock d h k now)" by blast
  with Inr show ?thesis by (auto elim: returnsE)
qed

lemma step_errors_precede_calls_witness:
  "deployment_step Provision (sample_env sample_client) None 9
     (sample_deployment_db sample_planned) [] 41 (Some (Naive 9))
     = Inl (SaladDeploymentValidationError ''deployment timestamps must include a timezone'')"
proof -
  have "\<forall>x. get_deployment 41 (sample_deployment_db sample_planned) = Some x \<longrightarrow>
      step_inv (sample_env sample_client) (sample_deployment_db sample_planned) [] (step_time 9 (Some (Naive 9))) x"
    using sample_step_inv [of sample_planned] by simp
  from step_errors_precede_calls [OF sample_env_ok this] show ?thesis
    by (simp add: deployment_as_utc_def del: deployment_step.simps)
qed

text \<open>C16: A deployment that may not spend is stopped in two steps. When the guard is missing or over its limits, or the row
  asks for STOPPED or is a video lane, a provider that does what it is told receives the stop in the first step and the
  second step confirms it, in every state of the row, with or without recorded identifiers, whatever else the provider
  answers about instances and queues before the stop, and whether the metering succeeds or fails. The names derived in
  the first step are derived again in the second.\<close>

theorem stopped_deployment_converges:
  assumes env: "env_ok env" and row: "get_deployment k d = Some x" and x: "step_inv env d h t x" and le: "t \<le> t'"
    and stored: "stored_version_ok x" and v: "validate_local_deployment x = Inr ()"
    and names: "derived_name x (sd_queue_name x) qn" "derived_name x (sd_container_group_name x) n"
    and no: "\<not> spending_allowed d t x" and e: "stop_starts entry x"
    and ob: "obedient (env_client env) qn n g g'" and new: "CallStopContainerGroup n \<notin> set h"
  shows "\<exists>d1 h1 r1 d2 h2 r2. deployment_step entry env resolver clock d h k (Some (Aware t)) = Inr (d1, h1, r1)
    \<and> dr_action r1 = STOP_REQUESTED
    \<and> deployment_step entry env resolver clock' d1 h1 k (Some (Aware t')) = Inr (d2, h2, r2) \<and> dr_action r2 = STOPPED"
proof -
  note o = obedientD [OF ob]
  obtain d0 y guard unknown where p: "prepare_step d k t = Inr (d0, y, guard, unknown)"
    and y: "sd_queue_name y = qn" "sd_container_group_name y = n"
    using prepares [OF row v names] by blast
  note pr = prepared_row [OF p row x]
  obtain e1 z where z: "step_inv env e1 h t z" "same_plan y z" "sd_desired_state z = DesiredSTOPPED" "sd_id z = k"
    and s1: "deployment_step entry env resolver clock d h k (Some (Aware t)) = Inr (request_stop env e1 h z t)"
    using stop_step [OF row x no p e] by blast
  have zn: "sd_queue_name z = qn" "n = sd_container_group_name z" using z(2) y by (simp_all add: same_plan_def)
  from request_stop_running [OF env z(1) zn(2) o(1) [OF new] o(6,9,8) o(3)]
  obtain d1 r1 w where w: "request_stop env e1 h z t
      = (d1, h @ [CallGetContainerGroup n, CallListInstances n, CallStopContainerGroup n], r1)"
    "dr_action r1 = STOP_REQUESTED" "get_deployment k d1 = Some w" "same_plan z w"
    "step_inv env d1 (h @ [CallGetContainerGroup n, CallListInstances n, CallStopContainerGroup n]) t w"
    unfolding z(4) by blast
  let ?h1 = "h @ [CallGetContainerGroup n, CallListInstances n, CallStopContainerGroup n]"
  note plan = same_plan_trans [OF z(2) w(4)]
  have wp: "sd_queue_name w = qn" "sd_container_group_name w = n" "sd_desired_state w = DesiredSTOPPED"
      "sd_version_no w = sd_version_no x" "sd_config_sha256 w = sd_config_sha256 x"
    using plan z(3) w(4) y pr(18,19) by (simp_all add: same_plan_def)
  have wv: "validate_local_deployment w = Inr ()" using plan pr(17) by (simp add: same_plan_def)
  have inv: "step_inv env d1 ?h1 t' w" using w(5) le by (auto simp: step_inv_def not_before_def split: option.splits)
  have wn: "derived_name w (sd_queue_name w) qn" "derived_name w (sd_container_group_name w) n"
    using derived_once [OF stored names(1)] derived_once [OF stored names(2)] wp by (simp_all add: derived_name_def)
  obtain d2 y2 guard2 unknown2 where p2: "prepare_step d1 k t' = Inr (d2, y2, guard2, unknown2)"
    and y2: "sd_queue_name y2 = qn" "sd_container_group_name y2 = n"
    using prepares [OF w(3) wv wn] by blast
  have "has_provider_resources x \<Longrightarrow> has_provider_resources w"
    using plan pr(8,9) by (simp add: same_plan_def has_provider_resources_def)
  then have e2: "stop_starts entry w" using e by (auto simp: stop_starts_def)
  have no2: "\<not> spending_allowed d1 t' w" using wp(3) by (simp add: spending_allowed_def)
  obtain e3 u where u: "step_inv env e3 ?h1 t' u" "same_plan y2 u"
    and s2: "deployment_step entry env resolver clock' d1 ?h1 k (Some (Aware t')) = Inr (request_stop env e3 ?h1 u t')"
    using stop_step [OF w(3) inv no2 p2 e2] by blast
  have un: "sd_queue_name u = qn" "n = sd_container_group_name u" using u(2) y2 by (simp_all add: same_plan_def)
  have "action_of (request_stop env e3 ?h1 u t') = STOPPED"
    using o(4) o(5) un by (intro request_stop_stopped [OF env u(1) un(2) o(2) o(7,10)]) auto
  then have "dr_action (snd (snd (request_stop env e3 ?h1 u t'))) = STOPPED" by (simp add: action_of_def)
  with s1 w(1,2) s2 show ?thesis by (cases "request_stop env e3 ?h1 u t'") auto
qed

definition sample_obedient_client :: salad_client where
  "sample_obedient_client = sample_client\<lparr>
     sc_get_container_group := (\<lambda>h n. Inr (if CallStopContainerGroup n \<in> set h
        then sample_group\<lparr>cg_name := n, cg_current_state := (cg_current_state sample_group)\<lparr>gs_status := ''Stopped''\<rparr>\<rparr>
        else sample_group\<lparr>cg_name := n\<rparr>))\<rparr>"

lemma stopped_deployment_converges_witness:
  "\<exists>d1 h1 r1 d2 h2 r2.
     deployment_step Provision (sample_env sample_obedient_client) None 0 (sample_deployment_db sample_stopping) [] 41 (Some (Aware 9))
       = Inr (d1, h1, r1) \<and> dr_action r1 = STOP_REQUESTED
   \<and> deployment_step Provision (sample_env sample_obedient_client) None 0 d1 h1 41 (Some (Aware 10))
       = Inr (d2, h2, r2) \<and> dr_action r2 = STOPPED"
proof -
  let ?n = "''worker-v3-aaaaaaaaaa''"
  let ?g = "sample_group\<lparr>cg_name := ?n\<rparr>"
  let ?g' = "sample_group\<lparr>cg_name := ?n, cg_current_state := (cg_current_state sample_group)\<lparr>gs_status := ''Stopped''\<rparr>\<rparr>"
  have counts: "group_counts_ok (sample_group\<lparr>cg_name := n, cg_current_state := (cg_current_state sample_group)\<lparr>gs_status := s\<rparr>\<rparr>)"
      "group_counts_ok (sample_group\<lparr>cg_name := n\<rparr>)" for n s
    by (simp_all add: group_counts_ok_def sample_group_def)
  have env: "env_ok (sample_env sample_obedient_client)"
    using counts by (simp add: env_ok_def sample_env_def sample_obedient_client_def sample_fresh_id)
  have status: "py_strip (cg_status ?g) \<noteq> [] \<and> py_lower (py_strip (cg_status ?g)) \<noteq> ''stopped''
      \<and> py_lower (py_strip (cg_status ?g')) = ''stopped''" by code_simp
  have ob: "obedient (env_client (sample_env sample_obedient_client)) ''queue-v3-aaaaaaaaaa'' ?n ?g ?g'"
    using status by (simp add: obedient_def sample_env_def sample_obedient_client_def sample_client_def no_running_def)
  have row: "stored_version_ok sample_stopping" "validate_local_deployment sample_stopping = Inr ()"
    "derived_name sample_stopping (sd_queue_name sample_stopping) ''queue-v3-aaaaaaaaaa''"
    "derived_name sample_stopping (sd_container_group_name sample_stopping) ?n" by code_simp+
  have no: "\<not> spending_allowed (sample_deployment_db sample_stopping) 9 sample_stopping"
    by (simp add: spending_allowed_def sample_stopping_def)
  show ?thesis
    by (rule stopped_deployment_converges [OF env sample_stopping_inv(2,1) _ row no _ ob]) (simp_all add: stop_starts_def)
qed

end
