(* ===== verification/Money.thy ===== *)
theory Money
  imports Complex_Main Budgets
begin

text \<open>
  The conversion of decimal USD amounts into integer micro-USD (services/budgets.py,
  \<open>usd_to_microusd\<close>) against the rational number the decimal denotes.
\<close>

lemma MAX_BIGINT_below: "MAX_BIGINT < 10 ^ 19"
  by (simp add: MAX_BIGINT_def)

lemma decimal_scaled:
  fixes c m e :: int
  shows "(of_int m :: rat) = of_int c * 10 powi e * 1000000 \<longleftrightarrow>
    (if 0 \<le> e then m = c * 1000000 * 10 ^ nat e else c * 1000000 = m * 10 ^ nat (- e))"
proof (cases "0 \<le> e")
  case True
  then have "(of_int c * 10 powi e * 1000000 :: rat) = of_int (c * 1000000 * 10 ^ nat e)"
    by (simp add: power_int_def)
  with True show ?thesis by (simp only: of_int_eq_iff if_True)
next
  case False
  then have "(of_int m = of_int c * 10 powi e * (1000000 :: rat)) \<longleftrightarrow> of_int (m * 10 ^ nat (- e)) = (of_int (c * 1000000) :: rat)"
    by (simp add: power_int_def field_simps)
  also have "\<dots> \<longleftrightarrow> c * 1000000 = m * 10 ^ nat (- e)" by (simp only: of_int_eq_iff) auto
  finally show ?thesis using False by simp
qed

lemma decimal_overflow_large:
  assumes "c \<noteq> 0" and "999999 < e + 6 + int (length (dec_digits \<bar>c\<bar>)) - 1"
    and "if 0 \<le> e then m = c * 1000000 * 10 ^ nat e else c * 1000000 = m * 10 ^ nat (- e)"
  shows "MAX_BIGINT < \<bar>m\<bar>"
proof -
  define n where "n = length (dec_digits \<bar>c\<bar>) - 1"
  have "0 < \<bar>c\<bar>" using assms(1) by simp
  from dec_digits_lower [OF this] have c: "(10::int) ^ n \<le> \<bar>c\<bar>" by (simp add: n_def)
  have "0 < length (dec_digits \<bar>c\<bar>)" by (subst dec_digits.simps) simp
  then have n: "20 \<le> e + 6 + int n" using assms(2) by (simp add: n_def)
  have "(10::int) ^ 19 \<le> \<bar>m\<bar>"
  proof (cases "0 \<le> e")
    case True
    have "(10::int) ^ 19 \<le> 10 ^ (n + 6 + nat e)" using n True by (intro power_increasing) auto
    also have "\<dots> = 10 ^ n * (1000000 * 10 ^ nat e)" by (simp add: power_add)
    also have "\<dots> \<le> \<bar>c\<bar> * (1000000 * 10 ^ nat e)" using c by (intro mult_right_mono) auto
    also have "\<dots> = \<bar>m\<bar>" using assms(3) True by (simp add: abs_mult)
    finally show ?thesis .
  next
    case False
    define k where "k = nat (- e)"
    have "19 + k \<le> n + 6" using n False by (simp add: k_def)
    then have "(10::int) ^ 19 * 10 ^ k \<le> 10 ^ (n + 6)" by (simp only: power_add [symmetric]) (rule power_increasing, auto)
    also have "\<dots> = 10 ^ n * 1000000" by (simp add: power_add)
    also have "\<dots> \<le> \<bar>c\<bar> * 1000000" using c by simp
    also have "\<dots> = \<bar>c * 1000000\<bar>" by (simp add: abs_mult)
    also have "\<dots> = \<bar>m\<bar> * 10 ^ k" using assms(3) False by (simp add: abs_mult k_def)
    finally show ?thesis by simp
  qed
  with MAX_BIGINT_below show ?thesis by simp
qed

text \<open>Money conversion is exact. \<open>usd_to_microusd\<close> of a finite decimal returns \<open>m\<close> exactly when the
  decimal value times one million is the integer \<open>m\<close> and \<open>m\<close> fits the signed 64-bit column; every
  other decimal is refused, nothing is rounded.\<close>

theorem usd_to_microusd_exact:
  "usd_to_microusd (DFinite c e) = Inr m \<longleftrightarrow>
     \<bar>m\<bar> \<le> MAX_BIGINT \<and> (of_int m :: rat) = of_int c * 10 powi e * 1000000"
proof (cases "c \<noteq> 0 \<and> 999999 < e + 6 + int (length (dec_digits \<bar>c\<bar>)) - 1")
  case True
  then show ?thesis
    using decimal_overflow_large [of c e m] unfolding usd_to_microusd_def decimal_scaled by fastforce
next
  case False
  have pos: "(0::int) < 10 ^ nat (- e)" by simp
  have div: "(a mod b = 0 \<and> a div b = m) \<longleftrightarrow> a = m * b" if "0 < b" for a b :: int
    using that by auto
  from False show ?thesis
    unfolding usd_to_microusd_def decimal_scaled Let_def
    using div [OF pos, of "c * 1000000"] by (auto simp: abs_le_iff)
qed
end
