(* ===== verification/OutboxMachine.thy ===== *)
theory OutboxMachine
  imports Outbox
begin

text \<open>
  The abstract contract of the outbox: the life of one event as a state machine on its row, and
  the lemmas that carry a property of the machine to whole tables of events.
\<close>

section \<open>The life of an event\<close>

definition same_event :: "OutboxEvent \<Rightarrow> OutboxEvent \<Rightarrow> bool" where
  "same_event e e' \<longleftrightarrow> oe_id e' = oe_id e \<and> oe_topic e' = oe_topic e \<and> oe_dedupe_key e' = oe_dedupe_key e
     \<and> oe_correlation_id e' = oe_correlation_id e \<and> oe_aggregate_type e' = oe_aggregate_type e
     \<and> oe_aggregate_id e' = oe_aggregate_id e \<and> oe_payload e' = oe_payload e
     \<and> oe_max_attempts e' = oe_max_attempts e \<and> oe_created_at e' = oe_created_at e"

definition unleased :: "OutboxEvent \<Rightarrow> bool" where
  "unleased e \<longleftrightarrow> oe_lease_owner e = None \<and> oe_lease_expires_at e = None"

inductive event_move :: "OutboxEvent \<Rightarrow> OutboxEvent \<Rightarrow> bool" where
  claim: "same_event e e' \<Longrightarrow> oe_status e = OutboxPENDING \<Longrightarrow> oe_attempts e < oe_max_attempts e \<Longrightarrow>
     oe_status e' = OutboxPROCESSING \<Longrightarrow> oe_attempts e' = oe_attempts e + 1 \<Longrightarrow>
     oe_lease_owner e' = Some w \<Longrightarrow> oe_lease_expires_at e' = Some x \<Longrightarrow> oe_processed_at e' = None \<Longrightarrow>
     event_move e e'"
| extend: "same_event e e' \<Longrightarrow> oe_status e = OutboxPROCESSING \<Longrightarrow> oe_status e' = OutboxPROCESSING \<Longrightarrow>
     oe_attempts e' = oe_attempts e \<Longrightarrow> oe_lease_owner e' = oe_lease_owner e \<Longrightarrow>
     oe_lease_expires_at e = Some x \<Longrightarrow> oe_lease_expires_at e' = Some y \<Longrightarrow> x \<le> y \<Longrightarrow>
     oe_processed_at e' = oe_processed_at e \<Longrightarrow> event_move e e'"
| retry: "same_event e e' \<Longrightarrow> oe_status e = OutboxPROCESSING \<Longrightarrow> oe_status e' = OutboxPENDING \<Longrightarrow>
     oe_attempts e' = oe_attempts e \<Longrightarrow> oe_attempts e < oe_max_attempts e \<Longrightarrow> unleased e' \<Longrightarrow>
     oe_processed_at e' = None \<Longrightarrow> event_move e e'"
| put_off: "same_event e e' \<Longrightarrow> oe_status e = OutboxPROCESSING \<Longrightarrow> oe_status e' = OutboxPENDING \<Longrightarrow>
     0 < oe_attempts e \<Longrightarrow> oe_attempts e' = oe_attempts e - 1 \<Longrightarrow> salad_submission e \<Longrightarrow> unleased e' \<Longrightarrow>
     oe_processed_at e' = None \<Longrightarrow> event_move e e'"
| finish: "same_event e e' \<Longrightarrow> oe_status e = OutboxPROCESSING \<Longrightarrow>
     oe_status e' = OutboxSUCCEEDED \<or> oe_status e' = OutboxDEAD_LETTER \<Longrightarrow>
     oe_attempts e' = oe_attempts e \<Longrightarrow> unleased e' \<Longrightarrow> oe_processed_at e' = Some t \<Longrightarrow> event_move e e'"
| exhaust: "same_event e e' \<Longrightarrow> oe_status e = OutboxPENDING \<Longrightarrow> oe_max_attempts e \<le> oe_attempts e \<Longrightarrow>
     oe_status e' = OutboxDEAD_LETTER \<Longrightarrow> oe_attempts e' = oe_attempts e \<Longrightarrow>
     oe_lease_owner e' = oe_lease_owner e \<Longrightarrow> oe_lease_expires_at e' = oe_lease_expires_at e \<Longrightarrow>
     oe_processed_at e' = Some t \<Longrightarrow> event_move e e'"

definition finished :: "OutboxEvent \<Rightarrow> bool" where
  "finished e \<longleftrightarrow> oe_status e = OutboxSUCCEEDED \<or> oe_status e = OutboxDEAD_LETTER"

text \<open>The invariant of a row: it is leased while, and only while, it is being processed.\<close>

definition event_inv :: "OutboxEvent \<Rightarrow> bool" where
  "event_inv e \<longleftrightarrow> event_ok e \<and> (oe_status e = OutboxPROCESSING \<longleftrightarrow> oe_lease_owner e \<noteq> None)
     \<and> (oe_processed_at e \<noteq> None \<longleftrightarrow> finished e) \<and> (oe_status e = OutboxPROCESSING \<longrightarrow> 0 < oe_attempts e)"

lemma same_event_refl [simp]: "same_event e e"
  by (simp add: same_event_def)

lemma same_event_trans: "same_event a b \<Longrightarrow> same_event b c \<Longrightarrow> same_event a c"
  by (simp add: same_event_def)

lemma same_eventD:
  "same_event e e' \<Longrightarrow> oe_id e' = oe_id e" "same_event e e' \<Longrightarrow> event_identity e' = event_identity e"
  by (simp_all add: same_event_def event_identity_def)

lemma event_move_same: "event_move e e' \<Longrightarrow> same_event e e'"
  by (auto elim: event_move.cases)

lemma event_moves_same: "event_move\<^sup>*\<^sup>* e e' \<Longrightarrow> same_event e e'"
  by (induction rule: rtranclp_induct) (auto intro: same_event_trans event_move_same)

lemma event_move_inv: "event_move e e' \<Longrightarrow> event_inv e \<Longrightarrow> event_inv e'"
  by (induction rule: event_move.induct)
    (auto simp: event_inv_def event_ok_def finished_def same_event_def unleased_def)

interpretation event_life: invariant_system event_move event_inv
  by unfold_locales (rule event_move_inv)

lemma finished_stuck: "finished e \<Longrightarrow> \<not> event_move e e'"
  by (auto simp: finished_def elim: event_move.cases)

lemma finished_stays: "event_move\<^sup>*\<^sup>* e e' \<Longrightarrow> finished e \<Longrightarrow> e' = e"
  by (induction rule: converse_rtranclp_induct) (auto dest: finished_stuck)

section \<open>Tables of events\<close>

definition outbox_inv :: "db \<Rightarrow> bool" where
  "outbox_inv d \<longleftrightarrow> db_ok d \<and> (\<forall>e \<in> set (db_outbox d). event_inv e)"

definition outbox_refines :: "db \<Rightarrow> db \<Rightarrow> bool" where
  "outbox_refines d d' \<longleftrightarrow>
     (\<forall>k e. get_event k d = Some e \<longrightarrow> (\<exists>e'. get_event k d' = Some e' \<and> event_move\<^sup>*\<^sup>* e e'))"

lemma refines_refl: "outbox_refines d d"
  by (auto simp: outbox_refines_def)

lemma refines_trans: "outbox_refines a b \<Longrightarrow> outbox_refines b c \<Longrightarrow> outbox_refines a c"
  unfolding outbox_refines_def by (meson rtranclp_trans)

lemma refines_same: "db_outbox d' = db_outbox d \<Longrightarrow> outbox_refines d d'"
  by (auto simp: outbox_refines_def)

lemma event_found:
  assumes "db_ok d" and "e \<in> set (db_outbox d)"
  shows "get_event (oe_id e) d = Some e"
  using db_okD(11) [OF assms(1)] assms(2) by (rule row_get_distinct)

text \<open>One operation rewrote the row of \<open>e\<close> and no other event.\<close>

definition event_write :: "db \<Rightarrow> OutboxEvent \<Rightarrow> OutboxEvent \<Rightarrow> db \<Rightarrow> bool" where
  "event_write d e e' d' \<longleftrightarrow> get_event (oe_id e) d = Some e \<and> event_move e e'
     \<and> db_outbox d' = row_put oe_id e' (db_outbox d) \<and> db_ok (d'\<lparr>db_outbox := db_outbox d\<rparr>)"

lemma event_write_get:
  assumes "event_write d e e' d'"
  shows "get_event k d' = (if k = oe_id e then Some e' else get_event k d)"
proof -
  have "oe_id e' = oe_id e" using assms event_move_same same_eventD(1) by (auto simp: event_write_def)
  moreover have "oe_id e \<in> oe_id ` set (db_outbox d)"
    using assms by (auto simp: event_write_def dest: row_get_mem)
  ultimately show ?thesis using assms by (auto simp: event_write_def row_get_put)
qed

lemma event_write_refines: "event_write d e e' d' \<Longrightarrow> outbox_refines d d'"
  using event_write_get [of d e e' d'] by (auto simp: outbox_refines_def event_write_def)

lemma event_write_inv:
  assumes "event_write d e e' d'" and "outbox_inv d"
  shows "outbox_inv d'"
proof -
  have w: "get_event (oe_id e) d = Some e" "event_move e e'" "db_outbox d' = row_put oe_id e' (db_outbox d)"
    "db_ok (d'\<lparr>db_outbox := db_outbox d\<rparr>)"
    using assms(1) by (auto simp: event_write_def)
  note s = event_move_same [OF w(2)]
  have "e \<in> set (db_outbox d)" using w(1) by (rule row_get_mem)
  then have inv: "event_inv e'" using assms(2) w(2) event_move_inv by (auto simp: outbox_inv_def)
  then have "event_ok e'" by (simp add: event_inv_def)
  moreover have "get_event (oe_id e') (d'\<lparr>db_outbox := db_outbox d\<rparr>) = Some e"
    using w(1) same_eventD(1) [OF s] by simp
  ultimately have "db_ok (put_event e' (d'\<lparr>db_outbox := db_outbox d\<rparr>))"
    using w(4) same_eventD(2) [OF s] by (intro db_ok_put_event) auto
  moreover have "put_event e' (d'\<lparr>db_outbox := db_outbox d\<rparr>) = d'" using w(3) by simp
  moreover have "\<forall>x \<in> set (db_outbox d'). event_inv x"
    unfolding w(3) using assms(2) inv by (intro row_put_all) (auto simp: outbox_inv_def)
  ultimately show ?thesis by (simp add: outbox_inv_def)
qed

text \<open>A loop over selected events that rewrites the row of each.\<close>

lemma event_loop:
  assumes "outbox_inv d" and "distinct (map oe_id es)" and "\<forall>e \<in> set es. get_event (oe_id e) d = Some e"
    and step: "\<And>e d. e \<in> set es \<Longrightarrow> outbox_inv d \<Longrightarrow> get_event (oe_id e) d = Some e \<Longrightarrow>
      \<exists>e'. event_write d e e' (f e d)"
  shows "outbox_inv (fold f es d) \<and> outbox_refines d (fold f es d)
     \<and> (\<forall>k. k \<notin> oe_id ` set es \<longrightarrow> get_event k (fold f es d) = get_event k d)"
  using assms
proof (induction es arbitrary: d)
  case Nil
  then show ?case by (simp add: refines_refl)
next
  case (Cons e es)
  obtain e' where w: "event_write d e e' (f e d)" using Cons.prems(4) [of e d] Cons.prems(1,3) by auto
  have inv: "outbox_inv (f e d)" using w Cons.prems(1) by (rule event_write_inv)
  have found: "\<forall>x \<in> set es. get_event (oe_id x) (f e d) = Some x"
  proof
    fix x assume "x \<in> set es"
    moreover have "oe_id e \<notin> oe_id ` set es" using Cons.prems(2) by simp
    ultimately have "oe_id x \<noteq> oe_id e" by (metis imageI)
    with Cons.prems(3) \<open>x \<in> set es\<close> show "get_event (oe_id x) (f e d) = Some x"
      by (simp add: event_write_get [OF w])
  qed
  have "distinct (map oe_id es)" using Cons.prems(2) by simp
  from Cons.IH [OF inv this found] Cons.prems(4) have
    ih: "outbox_inv (fold f es (f e d))" "outbox_refines (f e d) (fold f es (f e d))"
      "\<And>k. k \<notin> oe_id ` set es \<Longrightarrow> get_event k (fold f es (f e d)) = get_event k (f e d)"
    by (meson list.set_intros(2))+
  have "outbox_refines d (fold f es (f e d))"
    using event_write_refines [OF w] ih(2) by (rule refines_trans)
  with ih(1,3) show ?case by (simp add: event_write_get [OF w])
qed

section \<open>Selected events\<close>

lemma select_events_mem: "e \<in> set (select_events P order n locked d) \<Longrightarrow> e \<in> set (db_outbox d) \<and> P e \<and> \<not> locked (oe_id e)"
  by (auto simp: select_events_def dest!: in_set_takeD)

lemma select_events_distinct:
  assumes "db_ok d"
  shows "distinct (map oe_id (select_events P order n locked d))"
proof -
  have "inj_on oe_id (set (db_outbox d))" "distinct (db_outbox d)"
    using db_okD(11) [OF assms] by (simp_all add: distinct_map)
  moreover have "set (select_events P order n locked d) \<subseteq> set (db_outbox d)"
    using select_events_mem by blast
  ultimately show ?thesis by (auto simp: distinct_map select_events_def intro: inj_on_subset)
qed

lemma select_events_length: "length (select_events P order n locked d) \<le> nat n"
  by (simp add: select_events_def)

lemma select_events_found:
  "db_ok d \<Longrightarrow> \<forall>e \<in> set (select_events P order n locked d). get_event (oe_id e) d = Some e"
  using event_found select_events_mem by blast

text \<open>Who is passed over: only when the limit is reached, and only by events that come no later.\<close>

lemma select_events_order:
  assumes "e \<in> set (db_outbox d)" and "P e" and "\<not> locked (oe_id e)" and "e \<notin> set (select_events P order n locked d)"
  shows "length (select_events P order n locked d) = nat n
     \<and> (\<forall>x \<in> set (select_events P order n locked d). order x \<le> order e)"
proof -
  define xs where "xs = filter (\<lambda>e. \<not> locked (oe_id e)) (sort_key order (filter P (db_outbox d)))"
  have sel: "select_events P order n locked d = take (nat n) xs" by (simp add: select_events_def xs_def)
  have "sorted (map order xs)" unfolding xs_def by (intro sorted_filter) simp
  then have sorted: "sorted (map order (take (nat n) xs) @ map order (drop (nat n) xs))"
    by (simp flip: map_append)
  have "e \<in> set xs" using assms(1-3) by (simp add: xs_def)
  moreover have "set xs = set (take (nat n) xs) \<union> set (drop (nat n) xs)"
    by (metis append_take_drop_id set_append)
  ultimately have later: "e \<in> set (drop (nat n) xs)" using assms(4) unfolding sel by blast
  then have "nat n < length xs" by (metis drop_eq_Nil2 empty_iff leI list.set(1))
  moreover have "order x \<le> order e" if "x \<in> set (take (nat n) xs)" for x
    using sorted that later by (auto simp: sorted_append)
  ultimately show ?thesis by (simp add: sel)
qed

end
