(* ===== verification/OutboxFacts.thy ===== *)
theory OutboxFacts
  imports OutboxMachine
begin

text \<open>
  What the operations of the outbox write: the repairs of a generation attempt and its job, and for
  every operation the one move of the abstract machine that it makes on each event it touches.
\<close>

section \<open>Repairs of the aggregate\<close>

text \<open>A repair only touches the attempt, its job and the audit log.\<close>

definition same_but_aggregate :: "db \<Rightarrow> db \<Rightarrow> bool" where
  "same_but_aggregate d d' \<longleftrightarrow> db_outbox d' = db_outbox d \<and> db_guards d' = db_guards d
     \<and> db_entries d' = db_entries d \<and> db_leases d' = db_leases d \<and> db_deployments d' = db_deployments d"

definition still_unsubmitted :: "db \<Rightarrow> db \<Rightarrow> bool" where
  "still_unsubmitted d d' \<longleftrightarrow>
     (\<forall>k a. get_attempt k d' = Some a \<longrightarrow> ga_state a = AttemptCREATED \<longrightarrow> get_attempt k d = Some a)
   \<and> (\<forall>k j. get_job k d' = Some j \<longrightarrow> gj_state j = JobCLAIMED \<longrightarrow> get_job k d = Some j)"

definition repair_step :: "db \<Rightarrow> db \<Rightarrow> bool" where
  "repair_step d d' \<longleftrightarrow> same_but_aggregate d d' \<and> (db_ok d \<longrightarrow> db_ok d') \<and> still_unsubmitted d d'"

lemma repair_step_refl [simp]: "repair_step d d"
  by (simp add: repair_step_def same_but_aggregate_def still_unsubmitted_def)

lemma repair_step_trans: "repair_step a b \<Longrightarrow> repair_step b c \<Longrightarrow> repair_step a c"
  unfolding repair_step_def same_but_aggregate_def still_unsubmitted_def by auto

lemma repair_step_audit [simp]: "repair_step d (d'\<lparr>db_audits := as\<rparr>) = repair_step d d'"
  by (simp add: repair_step_def same_but_aggregate_def still_unsubmitted_def)

lemma repair_put_attempt:
  assumes "get_attempt (ga_id a') d = Some a" and "attempt_ok a \<Longrightarrow> attempt_ok a'" and "ga_state a' \<noteq> AttemptCREATED"
  shows "repair_step d (put_attempt a' d)"
proof -
  have "db_ok d \<Longrightarrow> attempt_ok a" using db_okD(4) row_get_mem [OF assms(1)] by blast
  then show ?thesis
    using assms db_ok_put_attempt
    by (auto simp: repair_step_def same_but_aggregate_def still_unsubmitted_def row_get_put split: if_splits)
qed

lemma repair_put_job:
  assumes "get_job (gj_id j') d = Some j" and "job_ok j \<Longrightarrow> job_ok j'" and "gj_state j' \<noteq> JobCLAIMED"
  shows "repair_step d (put_job j' d)"
proof -
  have "db_ok d \<Longrightarrow> job_ok j" using db_okD(3) row_get_mem [OF assms(1)] by blast
  then show ?thesis
    using assms db_ok_put_job
    by (auto simp: repair_step_def same_but_aggregate_def still_unsubmitted_def row_get_put split: if_splits)
qed

lemma repaired_rows [simp]:
  "ga_id (attempt_marked_unknown t a) = ga_id a" "ga_state (attempt_marked_unknown t a) = AttemptUNKNOWN"
  "attempt_ok a \<Longrightarrow> attempt_ok (attempt_marked_unknown t a)"
  "ga_id (attempt_failed_unsubmitted t c x a) = ga_id a"
  "ga_state (attempt_failed_unsubmitted t c x a) = AttemptFAILED"
  "attempt_ok a \<Longrightarrow> attempt_ok (attempt_failed_unsubmitted t c x a)"
  "gj_id (job_marked_unknown j) = gj_id j" "gj_state (job_marked_unknown j) = JobUNKNOWN"
  "job_ok j \<Longrightarrow> job_ok (job_marked_unknown j)"
  "gj_id (job_retried t c x j) = gj_id j" "gj_state (job_retried t c x j) \<noteq> JobCLAIMED"
  "job_ok j \<Longrightarrow> job_ok (job_retried t c x j)"
  by (auto simp: attempt_marked_unknown_def attempt_failed_unsubmitted_def job_marked_unknown_def job_retried_def
      attempt_ok_def job_ok_def Let_def)

lemma mark_unknown_cases:
  assumes "mark_salad_attempt_unknown d event t actor = (d', b)"
  obtains (idle) "d' = d" "\<not> b"
  | (marked) a as where "b" "salad_submission event" "get_attempt (oe_aggregate_id event) d = Some a"
      "ga_provider a = ''salad''" "ga_state a \<in> set unknownable_attempt_states"
      "d' = (case get_job (ga_job_id a) d of
          None \<Rightarrow> put_attempt (attempt_marked_unknown t a) d
        | Some j \<Rightarrow> if gj_state j \<in> set terminal_job_states then put_attempt (attempt_marked_unknown t a) d
            else put_job (job_marked_unknown j) (put_attempt (attempt_marked_unknown t a) d))\<lparr>db_audits := as\<rparr>"
proof (cases "get_attempt (oe_aggregate_id event) d")
  case None
  with assms show thesis
    by (intro idle) (auto simp: mark_salad_attempt_unknown_def lock_salad_job_then_attempt_def split: if_splits)
next
  case (Some a)
  show thesis
  proof (cases "salad_submission event \<and> ga_provider a = ''salad'' \<and> ga_state a \<in> set unknownable_attempt_states")
    case True
    with assms Some show thesis
      by (intro marked [of a])
        (auto simp: mark_salad_attempt_unknown_def lock_salad_job_then_attempt_def Let_def split: option.splits)
  next
    case False
    with assms Some show thesis
      by (intro idle) (auto simp: mark_salad_attempt_unknown_def lock_salad_job_then_attempt_def split: if_splits)
  qed
qed

lemma mark_unknown_repair:
  assumes "mark_salad_attempt_unknown d event t actor = (d', b)"
  shows "repair_step d d'"
  using assms
proof (cases rule: mark_unknown_cases)
  case (marked a as)
  let ?d1 = "put_attempt (attempt_marked_unknown t a) d"
  have 1: "repair_step d ?d1"
    using marked(3) row_get_key [OF marked(3)] by (intro repair_put_attempt [of _ _ a]) auto
  have "repair_step d (put_job (job_marked_unknown j) ?d1)" if "get_job (ga_job_id a) d = Some j" for j
    using that row_get_key [OF that] by (intro repair_step_trans [OF 1] repair_put_job [of _ _ j]) auto
  with 1 marked(6) show ?thesis by (auto split: option.splits)
qed simp

definition repairable :: "db \<Rightarrow> OutboxEvent \<Rightarrow> GenerationAttempt \<Rightarrow> GenerationJob \<Rightarrow> bool" where
  "repairable d event a j \<longleftrightarrow> salad_submission event \<and> ga_provider a = ''salad''
     \<and> ga_state a \<in> {AttemptCREATED, AttemptSUBMITTING} \<and> no_submission_evidence a
     \<and> (gj_state j \<in> set terminal_job_states \<or> ga_state a = AttemptCREATED)
     \<and> (gj_state j \<in> set terminal_job_states \<or> gj_attempt_count j \<noteq> ga_attempt_no a
         \<or> owns_current_local_attempt d j a)"

lemma fail_exhausted_eq:
  assumes "get_attempt (oe_aggregate_id event) d = Some a" and "get_job (ga_job_id a) d = Some j"
  shows "snd (fail_exhausted_salad_attempt_before_submission d event t actor code det act) = repairable d event a j"
  using assms
  by (auto simp: fail_exhausted_salad_attempt_before_submission_def lock_salad_job_then_attempt_def Let_def
      repairable_def)

lemma fail_exhausted_cases:
  assumes "fail_exhausted_salad_attempt_before_submission d event t actor code det act = (d', b)"
  obtains (idle) "d' = d" "\<not> b"
  | (failed) a j as detail where "b" "get_attempt (oe_aggregate_id event) d = Some a"
      "get_job (ga_job_id a) d = Some j" "repairable d event a j"
      "d' = (if owns_current_local_attempt d j a
          then put_job (job_retried t code detail j) (put_attempt (attempt_failed_unsubmitted t code detail a) d)
          else put_attempt (attempt_failed_unsubmitted t code detail a) d)\<lparr>db_audits := as\<rparr>"
proof (cases "get_attempt (oe_aggregate_id event) d")
  case None
  with assms show thesis
    by (intro idle)
      (auto simp: fail_exhausted_salad_attempt_before_submission_def lock_salad_job_then_attempt_def split: if_splits)
next
  case (Some a)
  note run = fail_exhausted_salad_attempt_before_submission_def lock_salad_job_then_attempt_def Some
  show thesis
  proof (cases "get_job (ga_job_id a) d")
    case None
    with assms show thesis by (intro idle) (auto simp: run split: if_splits)
  next
    case J: (Some j)
    let ?detail = "case det of Some (c # cs) \<Rightarrow> c # cs | _ \<Rightarrow> definitely_unstarted_exhausted_detail"
    show thesis
    proof (cases "repairable d event a j")
      case True
      with assms J show thesis
        by (intro failed [OF _ Some J True, where detail = ?detail]) (auto simp: run Let_def repairable_def)
    next
      case False
      with assms J show thesis
        by (intro idle) (auto simp: run Let_def repairable_def split: if_splits)
    qed
  qed
qed

lemma fail_exhausted_repair:
  assumes "fail_exhausted_salad_attempt_before_submission d event t actor code det act = (d', b)"
  shows "repair_step d d'"
  using assms
proof (cases rule: fail_exhausted_cases)
  case (failed a j as detail)
  let ?d1 = "put_attempt (attempt_failed_unsubmitted t code detail a) d"
  have 1: "repair_step d ?d1"
    using failed(2) row_get_key [OF failed(2)] by (intro repair_put_attempt [of _ _ a]) auto
  have "repair_step d (put_job (job_retried t code detail j) ?d1)"
    using failed(3) row_get_key [OF failed(3)] by (intro repair_step_trans [OF 1] repair_put_job [of _ _ j]) auto
  with 1 failed(5) show ?thesis by auto
qed simp

section \<open>Writes of one event\<close>

lemma event_write_audit [simp]: "event_write d e e' (d'\<lparr>db_audits := as\<rparr>) = event_write d e e' d'"
proof -
  have "db_ok (d'\<lparr>db_audits := as, db_outbox := db_outbox d\<rparr>) = db_ok (d'\<lparr>db_outbox := db_outbox d\<rparr>)"
    by (simp add: db_ok_def)
  then show ?thesis by (simp add: event_write_def)
qed

lemma event_write_put:
  "db_ok d \<Longrightarrow> get_event (oe_id e) d = Some e \<Longrightarrow> event_move e e' \<Longrightarrow> event_write d e e' (put_event e' d)"
  by (simp add: event_write_def)

lemma row_put_twice: "key a = key b \<Longrightarrow> row_put key a (row_put key b rows) = row_put key a rows"
  by (simp add: row_put_def)

lemma event_write_again:
  assumes "event_write d e e1 d1" and "event_move e e2"
  shows "event_write d e e2 (put_event e2 d1)"
proof -
  have "oe_id e2 = oe_id e1"
    using assms event_move_same same_eventD(1) unfolding event_write_def by metis
  with assms show ?thesis by (simp add: event_write_def row_put_twice)
qed

lemma event_write_repair:
  assumes "outbox_inv d" and "event_write d e e' d1" and "repair_step d1 d2"
  shows "event_write d e e' d2"
proof -
  have "db_ok d1" using event_write_inv [OF assms(2,1)] by (simp add: outbox_inv_def)
  then have ok2: "db_ok d2" using assms(3) by (simp add: repair_step_def)
  have "db_ok d" using assms(1) by (simp add: outbox_inv_def)
  then have "db_ok (d2\<lparr>db_outbox := db_outbox d\<rparr>)" using ok2 by (simp add: db_ok_def)
  then show ?thesis using assms(2,3) by (simp add: event_write_def repair_step_def same_but_aggregate_def)
qed

lemma leased_attempts: "event_inv e \<Longrightarrow> oe_status e = OutboxPROCESSING \<Longrightarrow> 0 < oe_attempts e"
  by (simp add: event_inv_def)

lemmas row_defs = replayed_event_def buried_event_def with_error_def exhausted_event_def claimed_row_def
  succeeded_event_def deferred_event_def failing_event_def retried_event_def dead_event_def

text \<open>The rows the operations write are moves of the machine.\<close>

lemma row_moves:
  "oe_status e = OutboxPROCESSING \<Longrightarrow> oe_attempts e < oe_max_attempts e \<Longrightarrow> event_move e (replayed_event t e)"
  "oe_status e = OutboxPROCESSING \<Longrightarrow> event_move e (buried_event t e)"
  "oe_status e = OutboxPROCESSING \<Longrightarrow> event_move e (with_error c x (buried_event t e))"
  "oe_status e = OutboxPENDING \<Longrightarrow> oe_max_attempts e \<le> oe_attempts e \<Longrightarrow> event_move e (exhausted_event t e)"
  "oe_status e = OutboxPENDING \<Longrightarrow> oe_attempts e < oe_max_attempts e \<Longrightarrow> event_move e (claimed_row w x' e)"
  "oe_status e = OutboxPROCESSING \<Longrightarrow> event_move e (succeeded_event t e)"
  "oe_status e = OutboxPROCESSING \<Longrightarrow> 0 < oe_attempts e \<Longrightarrow> salad_submission e \<Longrightarrow>
     event_move e (deferred_event t c e)"
  "oe_status e = OutboxPROCESSING \<Longrightarrow> oe_attempts e < oe_max_attempts e \<Longrightarrow>
     event_move e (retried_event t (failing_event c y e))"
  "oe_status e = OutboxPROCESSING \<Longrightarrow> event_move e (dead_event t (failing_event c y e))"
  by (simp_all add: event_move.simps row_defs same_event_def unleased_def)

end
