(* ===== verification/OutboxRuns.thy ===== *)
theory OutboxRuns
  imports OutboxFacts
begin

text \<open>
  Every operation of the outbox as moves of the abstract machine, and sequences of operations.
\<close>

section \<open>Loops\<close>

lemma select_loop:
  assumes "outbox_inv d" and es: "es = select_events P order n locked d"
    and "\<And>e d'. e \<in> set es \<Longrightarrow> outbox_inv d' \<Longrightarrow> get_event (oe_id e) d' = Some e \<Longrightarrow>
      \<exists>e'. event_write d' e e' (f e d')"
  shows "outbox_inv (fold f es d) \<and> outbox_refines d (fold f es d)
     \<and> (\<forall>k. k \<notin> oe_id ` set es \<longrightarrow> get_event k (fold f es d) = get_event k d)"
proof -
  have ok: "db_ok d" using assms(1) by (simp add: outbox_inv_def)
  show ?thesis
    using event_loop [OF assms(1) _ _ assms(3)] select_events_distinct [OF ok] select_events_found [OF ok]
    unfolding es by blast
qed

lemma recover_event_write:
  assumes "outbox_inv d" and "get_event (oe_id e) d = Some e" and "oe_status e = OutboxPROCESSING"
  shows "\<exists>e'. event_write d e e' (fst (recover_event now safe actor e (d, s)))
     \<and> (oe_status e' = OutboxPENDING \<longrightarrow> oe_topic e \<in> safe \<or> runtime_refresh_replay_is_safe d e)
     \<and> (oe_status e' = OutboxPENDING \<or> oe_status e' = OutboxDEAD_LETTER)"
proof -
  have ok: "db_ok d" using assms(1) by (simp add: outbox_inv_def)
  define replay where "replay \<longleftrightarrow> oe_attempts e < oe_max_attempts e
    \<and> (oe_topic e \<in> safe \<or> runtime_refresh_replay_is_safe d e)"
  show ?thesis
  proof (cases replay)
    case True
    then have "event_write d e (replayed_event now e) (put_event (replayed_event now e) d)"
      using ok assms(2,3) row_moves(1) by (intro event_write_put) (auto simp: replay_def)
    with True show ?thesis
      by (intro exI [of _ "replayed_event now e"])
        (auto simp: recover_event_def replay_def replayed_event_def Let_def)
  next
    case False
    let ?b = "buried_event now e"
    obtain d1 failed where f: "fail_exhausted_salad_attempt_before_submission (put_event ?b d) e now actor
        ''outbox_lease_expired_before_submission'' (Some definitely_unstarted_expired_detail)
        ''generation_attempt.outbox_lease_expired_before_submission'' = (d1, failed)"
      by (cases "fail_exhausted_salad_attempt_before_submission (put_event ?b d) e now actor
        ''outbox_lease_expired_before_submission'' (Some definitely_unstarted_expired_detail)
        ''generation_attempt.outbox_lease_expired_before_submission''")
    define e' where "e' = (if failed
      then with_error ''lease_expired_before_effect'' definitely_unstarted_expired_detail ?b
      else with_error ''ambiguous_external_effect''
             ''The processing lease expired and replay could duplicate an external effect.'' ?b)"
    have "event_write d e ?b d1"
      using assms ok row_moves(2) fail_exhausted_repair [OF f]
      by (intro event_write_repair [OF assms(1) event_write_put]) auto
    then have w: "event_write d e e' (put_event e' d1)"
      by (rule event_write_again) (simp add: e'_def row_moves(3) assms(3))
    obtain d2 unknown where m: "mark_salad_attempt_unknown (put_event e' d1) e now actor = (d2, unknown)"
      by (cases "mark_salad_attempt_unknown (put_event e' d1) e now actor")
    have "event_write d e e' d2" using assms(1) w mark_unknown_repair [OF m] by (rule event_write_repair)
    moreover have "\<exists>as x. fst (recover_event now safe actor e (d, s)) = x\<lparr>db_audits := as\<rparr>
        \<and> x = (if failed then put_event e' d1 else d2)"
      using False f m by (auto simp: recover_event_def replay_def Let_def e'_def)
    moreover have "oe_status e' = OutboxDEAD_LETTER" by (simp add: e'_def with_error_def buried_event_def)
    ultimately show ?thesis using w by (intro exI [of _ e']) auto
  qed
qed

lemma recover_event_fst: "fst (recover_event now safe actor e (d, s)) = fst (recover_event now safe actor e (d, s'))"
  unfolding recover_event_def Let_def split_beta fst_conv snd_conv if_distrib [of fst] by (rule refl)

definition no_recovery :: RecoverySummary where
  "no_recovery = \<lparr>rs_replayed = 0, rs_dead_lettered = 0, rs_attempts_marked_unknown = 0\<rparr>"

definition recover_row :: "instant \<Rightarrow> string set \<Rightarrow> string \<Rightarrow> OutboxEvent \<Rightarrow> db \<Rightarrow> db" where
  "recover_row now safe actor e d = fst (recover_event now safe actor e (d, no_recovery))"

lemma recover_fold: "fst (fold (recover_event now safe actor) es (d, s)) = fold (recover_row now safe actor) es d"
proof (induction es arbitrary: d s)
  case (Cons e es)
  obtain d1 s1 where r: "recover_event now safe actor e (d, s) = (d1, s1)"
    by (cases "recover_event now safe actor e (d, s)")
  then have "recover_row now safe actor e d = d1"
    using recover_event_fst [of now safe actor e d s no_recovery] by (simp add: recover_row_def)
  with Cons r show ?case by simp
qed simp

lemma recover_refines:
  assumes "outbox_inv d"
  shows "outbox_inv (fst (recover_expired_in_transaction locked d now safe n actor))
     \<and> outbox_refines d (fst (recover_expired_in_transaction locked d now safe n actor))"
proof -
  define es where "es = select_events (expired_lease now)
     (\<lambda>e. (oe_lease_expires_at e, oe_created_at e, oe_id e)) n locked d"
  let ?T = "set safe - {SALAD_JOB_SUBMIT_TOPIC}"
  have "\<exists>e'. event_write d' e e' (recover_row now ?T actor e d')"
    if "e \<in> set es" "outbox_inv d'" "get_event (oe_id e) d' = Some e" for e d'
  proof -
    have "oe_status e = OutboxPROCESSING" using select_events_mem [OF that(1) [unfolded es_def]] by (simp add: expired_lease_def)
    then show ?thesis using recover_event_write [OF that(2,3)] unfolding recover_row_def by blast
  qed
  from select_loop [OF assms es_def this] show ?thesis
    unfolding recover_expired_in_transaction_def Let_def recover_fold es_def by blast
qed

lemma exhaust_event_write:
  assumes "outbox_inv d" and "get_event (oe_id e) d = Some e" and "oe_status e = OutboxPENDING"
    and "oe_max_attempts e \<le> oe_attempts e"
  shows "event_write d e (exhausted_event now e) (exhaust_event now actor e d)"
proof -
  have ok: "db_ok d" using assms(1) by (simp add: outbox_inv_def)
  have w: "event_write d e (exhausted_event now e) (put_event (exhausted_event now e) d)"
    using ok assms(2) by (intro event_write_put row_moves(4) assms)
  show ?thesis
    using event_write_repair [OF assms(1) w fail_exhausted_repair]
    by (auto simp: exhaust_event_def split: prod.splits)
qed

lemma exhaust_refines:
  assumes "outbox_inv d"
  shows "outbox_inv (dead_letter_exhausted_pending locked d now n actor)
     \<and> outbox_refines d (dead_letter_exhausted_pending locked d now n actor)"
proof -
  define es where "es = select_events (\<lambda>e. oe_status e = OutboxPENDING \<and> oe_max_attempts e \<le> oe_attempts e)
          (\<lambda>e. (oe_created_at e, oe_id e)) n locked d"
  have "\<exists>e'. event_write d' e e' (exhaust_event now actor e d')"
    if "e \<in> set es" "outbox_inv d'" "get_event (oe_id e) d' = Some e" for e d'
    using exhaust_event_write [OF that(2,3)] select_events_mem [OF that(1) [unfolded es_def]] by blast
  from select_loop [OF assms es_def this] show ?thesis
    unfolding dead_letter_exhausted_pending_def es_def by blast
qed

lemma repair_step_inv: "repair_step d d' \<Longrightarrow> outbox_inv d \<Longrightarrow> outbox_inv d' \<and> outbox_refines d d'"
  by (auto simp: repair_step_def same_but_aggregate_def outbox_inv_def intro: refines_same)

lemma fold_repair:
  assumes "\<And>e d. repair_step d (f e d)"
  shows "repair_step d (fold f es d)"
  by (induction es arbitrary: d) (auto intro: repair_step_trans assms)

lemma repair_dead_letters:
  "repair_step d (repair_dead_lettered_unstarted_salad_attempts locked d now n actor)"
  unfolding repair_dead_lettered_unstarted_salad_attempts_def
  by (rule fold_repair) (metis fail_exhausted_repair fst_conv surj_pair)

lemma maintenance_refines:
  assumes "outbox_inv d"
  shows "outbox_inv (claim_maintenance locked d w n topics safe now)
     \<and> outbox_refines d (claim_maintenance locked d w n topics safe now)"
proof -
  let ?n = "max (n * 4) 100"
  define d1 where "d1 = fst (recover_expired_in_transaction (locked 0) d now safe ?n w)"
  define d2 where "d2 = dead_letter_exhausted_pending (locked 1) d1 now ?n w"
  define d3 where "d3 = repair_dead_lettered_unstarted_salad_attempts (locked 2) d2 now ?n w"
  have 1: "outbox_inv d1" "outbox_refines d d1" using recover_refines [OF assms] by (simp_all add: d1_def)
  have 2: "outbox_inv d2" "outbox_refines d1 d2" using exhaust_refines [OF 1(1)] by (simp_all add: d2_def)
  have 3: "outbox_inv d3" "outbox_refines d2 d3"
    using repair_step_inv [OF repair_dead_letters 2(1)] by (simp_all add: d3_def)
  have "claim_maintenance locked d w n topics safe now = d2 \<or> claim_maintenance locked d w n topics safe now = d3"
    by (simp add: claim_maintenance_def Let_def d1_def d2_def d3_def)
  with 1 2 3 refines_trans show ?thesis by metis
qed

section \<open>Claims\<close>

lemma claim_event_write:
  assumes "outbox_inv d" and "get_event (oe_id e) d = Some e" and "claimable now topics e"
  shows "event_write d e (claimed_row w x e) (claim_event w t x e d)"
proof -
  have "event_write d e (claimed_row w x e) (put_event (claimed_row w x e) d)"
    using assms row_moves(5) by (intro event_write_put) (auto simp: outbox_inv_def claimable_def)
  then show ?thesis by (simp add: claim_event_def)
qed

lemma event_loop_rows:
  assumes "outbox_inv d" and "distinct (map oe_id es)" and "\<forall>e \<in> set es. get_event (oe_id e) d = Some e"
    and step: "\<And>e d. e \<in> set es \<Longrightarrow> outbox_inv d \<Longrightarrow> get_event (oe_id e) d = Some e \<Longrightarrow> event_write d e (g e) (f e d)"
  shows "\<forall>e \<in> set es. get_event (oe_id e) (fold f es d) = Some (g e)"
  using assms
proof (induction es arbitrary: d)
  case (Cons e es)
  have w: "event_write d e (g e) (f e d)" using Cons.prems(4) [of e d] Cons.prems(1,3) by auto
  have inv: "outbox_inv (f e d)" using w Cons.prems(1) by (rule event_write_inv)
  have fresh: "oe_id x \<noteq> oe_id e" if "x \<in> set es" for x
    using Cons.prems(2) that by (metis distinct.simps(2) image_eqI list.set_map list.simps(9))
  have found: "\<forall>x \<in> set es. get_event (oe_id x) (f e d) = Some x"
    using Cons.prems(3) fresh by (simp add: event_write_get [OF w])
  have d: "distinct (map oe_id es)" using Cons.prems(2) by simp
  have step': "event_write d' x (g x) (f x d')"
    if "x \<in> set es" "outbox_inv d'" "get_event (oe_id x) d' = Some x" for x d'
    using Cons.prems(4) [of x d'] that by simp
  note rows = Cons.IH [OF inv d found step']
  have "oe_id e \<notin> oe_id ` set es" using fresh by (metis imageE)
  moreover have ex: "\<exists>e'. event_write d' x e' (f x d')"
    if "x \<in> set es" "outbox_inv d'" "get_event (oe_id x) d' = Some x" for x d'
    using step' [OF that] by blast
  ultimately have "get_event (oe_id e) (fold f es (f e d)) = get_event (oe_id e) (f e d)"
    using event_loop [OF inv d found ex] by blast
  then have first: "get_event (oe_id e) (fold f es (f e d)) = Some (g e)"
    by (simp add: event_write_get [OF w])
  show ?case
  proof
    fix x assume "x \<in> set (e # es)"
    then consider "x = e" | "x \<in> set es" by auto
    then show "get_event (oe_id x) (fold f (e # es) d) = Some (g x)"
      by cases (use rows first in \<open>simp_all only: fold_simps\<close>)
  qed
qed simp

definition claim_query :: "(nat \<Rightarrow> uuid \<Rightarrow> bool) \<Rightarrow> db \<Rightarrow> instant \<Rightarrow> string list option \<Rightarrow> int \<Rightarrow> OutboxEvent list" where
  "claim_query locked d now topics n =
     select_events (claimable now topics) (\<lambda>e. (oe_available_at e, oe_created_at e, oe_id e)) n (locked 3) d"

lemma claim_loop:
  assumes "outbox_inv d" and es_def: "es = claim_query locked d now topics n"
  shows "outbox_inv (fold (claim_event w now x) es d)" "outbox_refines d (fold (claim_event w now x) es d)"
    "e \<in> set es \<Longrightarrow> get_event (oe_id e) (fold (claim_event w now x) es d) = Some (claimed_row w x e)"
    "k \<notin> oe_id ` set es \<Longrightarrow> get_event k (fold (claim_event w now x) es d) = get_event k d"
    "e \<in> set es \<Longrightarrow> get_event (oe_id e) d = Some e \<and> claimable now topics e" "distinct (map oe_id es)"
    "length es \<le> nat n"
proof -
  have ok: "db_ok d" using assms(1) by (simp add: outbox_inv_def)
  have mem: "get_event (oe_id e) d = Some e \<and> claimable now topics e" if "e \<in> set es" for e
    using select_events_mem [of e] event_found [OF ok, of e] that unfolding es_def claim_query_def by blast
  then show "e \<in> set es \<Longrightarrow> get_event (oe_id e) d = Some e \<and> claimable now topics e" .
  show dist: "distinct (map oe_id es)" unfolding es_def claim_query_def by (rule select_events_distinct [OF ok])
  show "length es \<le> nat n" unfolding es_def claim_query_def by (rule select_events_length)
  have found: "\<forall>e \<in> set es. get_event (oe_id e) d = Some e" using mem by blast
  have step: "event_write d' e (claimed_row w x e) (claim_event w now x e d')"
    if "e \<in> set es" "outbox_inv d'" "get_event (oe_id e) d' = Some e" for e d'
    using that(2,3) mem [OF that(1)] by (blast intro: claim_event_write)
  show "e \<in> set es \<Longrightarrow> get_event (oe_id e) (fold (claim_event w now x) es d) = Some (claimed_row w x e)"
    using event_loop_rows [OF assms(1) dist found step] by blast
  have "\<exists>e'. event_write d' e e' (claim_event w now x e d')"
    if "e \<in> set es" "outbox_inv d'" "get_event (oe_id e) d' = Some e" for e d'
    using step [OF that] by blast
  note loop = event_loop [OF assms(1) dist found this]
  from loop show "outbox_inv (fold (claim_event w now x) es d)" "outbox_refines d (fold (claim_event w now x) es d)"
    by blast+
  from loop show "k \<notin> oe_id ` set es \<Longrightarrow> get_event k (fold (claim_event w now x) es d) = get_event k d" by blast
qed

text \<open>A claim that returns: nothing was asked for, or the maintenance and then the selected events.\<close>

lemma claim_cases:
  assumes "claim_outbox_events locked clock d worker_id limit lease_seconds topics safe now = Inr (d', cs)"
  obtains (none) "d' = d" "cs = []" "normalized_topics topics = Inr (Some [])"
  | (some) w ts t x d1 where "validate_nonempty worker_id ''worker_id'' 200 = Inr w" "0 < limit" "limit \<le> 1000"
      "0 < lease_seconds" "normalized_topics topics = Inr ts" "t = outbox_time clock now"
      "x = t + lease_seconds * us_per_second" "d1 = claim_maintenance locked d w limit ts safe t"
      "d' = fold (claim_event w t x) (claim_query locked d1 t ts limit) d1"
      "cs = map (\<lambda>e. claimed_view x (claimed_row w x e)) (claim_query locked d1 t ts limit)"
proof -
  obtain w ts where v: "validate_nonempty worker_id ''worker_id'' 200 = Inr w" "0 < limit" "limit \<le> 1000"
      "0 < lease_seconds" "lease_seconds \<le> 86400" "normalized_topics topics = Inr ts"
    using assms by (auto simp: claim_outbox_events_def bindE_eq_Inr split: if_splits)
  show thesis
  proof (cases "ts = Some []")
    case True
    with assms v show thesis by (intro none) (simp_all add: claim_outbox_events_def)
  next
    case False
    with assms v show thesis
      by (intro some [OF v(1-4,6) refl refl refl]) (simp_all add: claim_outbox_events_def Let_def claim_query_def)
  qed
qed

lemma claim_refines:
  assumes "claim_outbox_events locked clock d worker_id limit lease_seconds topics safe now = Inr (d', cs)"
    and "outbox_inv d"
  shows "outbox_inv d' \<and> outbox_refines d d'"
  using assms(1)
proof (cases rule: claim_cases)
  case (some w ts t x d1)
  have "outbox_inv d1" "outbox_refines d d1" using maintenance_refines [OF assms(2)] by (simp_all add: some(8))
  with claim_loop(1,2) [OF _ refl] refines_trans show ?thesis unfolding some(9) by blast
qed (use assms(2) refines_refl in simp)

section \<open>Reports of the lease holder\<close>

definition held_by :: "OutboxEvent \<Rightarrow> string \<Rightarrow> instant \<Rightarrow> bool" where
  "held_by e w t \<longleftrightarrow> oe_status e = OutboxPROCESSING \<and> oe_lease_owner e = Some w
     \<and> (\<exists>x. oe_lease_expires_at e = Some x \<and> t < x)"

lemma locked_event_eq [simp]: "locked_event d k = Inr e \<longleftrightarrow> get_event k d = Some e"
  by (auto simp: locked_event_def split: option.splits)

lemma require_active_lease_eq [simp]: "require_active_lease e w t = Inr u \<longleftrightarrow> held_by e w t"
  by (auto simp: require_active_lease_def held_by_def split: option.splits)

lemma held_lookup [simp]:
  "get_event k d = Some e \<Longrightarrow> locked_event d k = Inr e" "held_by e w t \<Longrightarrow> require_active_lease e w t = Inr ()"
  by simp_all

lemma held_processing: "held_by e w t \<Longrightarrow> oe_status e = OutboxPROCESSING"
  by (simp add: held_by_def)

lemma event_write_same_id:
  "outbox_inv d \<Longrightarrow> get_event k d = Some e \<Longrightarrow> event_move e e' \<Longrightarrow> event_write d e e' (put_event e' d)"
  using row_get_key [of oe_id k "db_outbox d" e] by (intro event_write_put) (auto simp: outbox_inv_def)

lemma succeed_effect:
  assumes "succeed_outbox_event clock d k worker_id now = Inr (d', r)" and "outbox_inv d"
  obtains (again) e where "get_event k d = Some e" "oe_status e = OutboxSUCCEEDED" "d' = d" "\<not> tr_changed r"
  | (written) w e where "validate_nonempty worker_id ''worker_id'' 200 = Inr w" "get_event k d = Some e"
      "held_by e w (outbox_time clock now)" "event_write d e (succeeded_event (outbox_time clock now) e) d'"
      "tr_changed r" "tr_status r = OutboxSUCCEEDED"
proof -
  obtain w e where v: "validate_nonempty worker_id ''worker_id'' 200 = Inr w" "get_event k d = Some e"
    using assms(1) by (auto simp: succeed_outbox_event_def bindE_eq_Inr Let_def)
  show thesis
  proof (cases "oe_status e = OutboxSUCCEEDED")
    case True
    with assms(1) v show thesis by (intro again) (auto simp: succeed_outbox_event_def)
  next
    case False
    with assms(1) v have h: "held_by e w (outbox_time clock now)"
      by (auto simp: succeed_outbox_event_def bindE_eq_Inr Let_def)
    note w = event_write_same_id [OF assms(2) v(2) row_moves(6) [OF held_processing [OF h]]]
    from assms(1) v False h w show thesis
      by (intro written [OF v h]) (auto simp: succeed_outbox_event_def Let_def)
  qed
qed

lemma defer_effect:
  assumes "defer_unstarted_outbox_event clock d k worker_id retry reason now = Inr (d', r)" and "outbox_inv d"
  obtains w c e a where "validate_nonempty worker_id ''worker_id'' 200 = Inr w" "validate_error_code reason = Inr c"
    "outbox_time clock now < outbox_as_utc retry" "get_event k d = Some e" "held_by e w (outbox_time clock now)"
    "salad_submission e" "get_attempt (oe_aggregate_id e) d = Some a" "ga_state a = AttemptCREATED"
    "event_write d e (deferred_event (outbox_as_utc retry) c e) d'" "tr_status r = OutboxPENDING"
proof -
  obtain w c e where v: "validate_nonempty worker_id ''worker_id'' 200 = Inr w" "validate_error_code reason = Inr c"
      "outbox_time clock now < outbox_as_utc retry" "get_event k d = Some e" "held_by e w (outbox_time clock now)"
      "salad_submission e" "0 < oe_attempts e"
    using assms(1) by (auto simp: defer_unstarted_outbox_event_def bindE_eq_Inr Let_def split: if_splits)
  obtain a where a: "get_attempt (oe_aggregate_id e) d = Some a" "ga_state a = AttemptCREATED"
    using assms(1) v by (auto simp: defer_unstarted_outbox_event_def Let_def split: if_splits option.splits)
  note w = event_write_same_id [OF assms(2) v(4) row_moves(7) [OF held_processing [OF v(5)] v(7,6)]]
  from assms(1) v a w show thesis
    by (intro that [OF v(1-6) a]) (auto simp: defer_unstarted_outbox_event_def Let_def)
qed

lemma defer_staged_effect:
  assumes "defer_staged_runtime_admission_outbox_event clock d k worker_id retry reason now = Inr (d', r)"
  shows "(d' = d \<and> r = None) \<or> (\<exists>w e s. get_event k d = Some e \<and> runtime_refresh_replay_is_safe d e \<and> r = Some s
     \<and> defer_unstarted_outbox_event clock d k w retry reason (Some (Aware (outbox_time clock now))) = Inr (d', s))"
  using assms
  by (auto simp: defer_staged_runtime_admission_outbox_event_def bindE_eq_Inr Let_def split: if_splits)

lemma bury_failed_write:
  assumes "outbox_inv d" and "get_event k d = Some e" and "oe_status e = OutboxPROCESSING"
  shows "event_write d e (dead_event t (failing_event code detail e)) (bury_failed d e t w code detail effect)"
proof -
  let ?e = "dead_event t (failing_event code detail e)"
  have wr: "event_write d e ?e (put_event ?e d)" using event_write_same_id [OF assms(1,2) row_moves(9) [OF assms(3)]] .
  obtain d1 b1 where m: "mark_salad_attempt_unknown (put_event ?e d) e t w = (d1, b1)"
    by (cases "mark_salad_attempt_unknown (put_event ?e d) e t w")
  obtain d2 b2 where f: "fail_exhausted_salad_attempt_before_submission (put_event ?e d) e t w code detail
      outbox_exhausted_action = (d2, b2)"
    by (cases "fail_exhausted_salad_attempt_before_submission (put_event ?e d) e t w code detail
      outbox_exhausted_action")
  from event_write_repair [OF assms(1) wr mark_unknown_repair [OF m]]
    event_write_repair [OF assms(1) wr fail_exhausted_repair [OF f]] m f
  show ?thesis by (simp add: bury_failed_def Let_def)
qed

lemma fail_effect:
  assumes "fail_outbox_event clock d k worker_id error_code safe_detail effect retry now = Inr (d', r)"
    and "outbox_inv d"
  obtains (again) e where "get_event k d = Some e" "oe_status e = OutboxDEAD_LETTER" "d' = d" "\<not> tr_changed r"
  | (retried) w c x e t where "validate_nonempty worker_id ''worker_id'' 200 = Inr w" "get_event k d = Some e"
      "held_by e w (outbox_time clock now)" "effect = DEFINITELY_NOT_STARTED" "oe_attempts e < oe_max_attempts e"
      "retry = Some t" "event_write d e (retried_event (outbox_as_utc t) (failing_event c x e)) d'"
      "db_attempts d' = db_attempts d" "tr_status r = OutboxPENDING" "tr_changed r"
  | (buried) w c x e where "validate_nonempty worker_id ''worker_id'' 200 = Inr w" "get_event k d = Some e"
      "held_by e w (outbox_time clock now)"
      "retry = None \<or> effect = MAY_HAVE_STARTED \<or> oe_max_attempts e \<le> oe_attempts e"
      "event_write d e (dead_event (outbox_time clock now) (failing_event c x e)) d'"
      "d' = bury_failed d e (outbox_time clock now) w c x effect" "tr_status r = OutboxDEAD_LETTER" "tr_changed r"
proof -
  let ?t = "outbox_time clock now"
  obtain w c x e where v: "validate_nonempty worker_id ''worker_id'' 200 = Inr w"
      "validate_error_code error_code = Inr c" "validate_safe_error_detail safe_detail = Inr x"
      "\<not> (case map_option outbox_as_utc retry of None \<Rightarrow> False | Some t \<Rightarrow> t < ?t)" "get_event k d = Some e"
    using assms(1) by (auto simp: fail_outbox_event_def bindE_eq_Inr Let_def split: if_splits)
  have run: "fail_outbox_event clock d k worker_id error_code safe_detail effect retry now =
      (if oe_status e = OutboxDEAD_LETTER then Inr (d, \<lparr>tr_status = OutboxDEAD_LETTER, tr_changed = False\<rparr>)
       else bindE (require_active_lease e w ?t) (\<lambda>_.
         case map_option outbox_as_utc retry of
           Some t \<Rightarrow>
             if effect = DEFINITELY_NOT_STARTED \<and> oe_attempts e < oe_max_attempts e
             then Inr (add_audit (outbox_audit e w ''outbox.retry_scheduled''
                         [(''attempt'', PInt (oe_attempts e)), (''error_code'', PStr c),
                          (''retry_not_before'', PStr (isoformat t))] ?t)
                         (put_event (retried_event t (failing_event c x e)) d),
                       \<lparr>tr_status = OutboxPENDING, tr_changed = True\<rparr>)
             else Inr (bury_failed d e ?t w c x effect, \<lparr>tr_status = OutboxDEAD_LETTER, tr_changed = True\<rparr>)
         | None \<Rightarrow> Inr (bury_failed d e ?t w c x effect, \<lparr>tr_status = OutboxDEAD_LETTER, tr_changed = True\<rparr>)))"
    using v by (simp add: fail_outbox_event_def Let_def)
  show thesis
  proof (cases "oe_status e = OutboxDEAD_LETTER")
    case True
    with assms(1) v(5) show thesis by (intro again) (auto simp: run)
  next
    case False
    with assms(1) have h: "held_by e w ?t" by (auto simp: run bindE_eq_Inr)
    note p = held_processing [OF h]
    note body = assms(1) [unfolded run if_not_P [OF False] held_lookup(2) [OF h] bindE_simps]
    note bw = bury_failed_write [OF assms(2) v(5) p]
    show thesis
    proof (cases "\<exists>t. retry = Some t \<and> effect = DEFINITELY_NOT_STARTED \<and> oe_attempts e < oe_max_attempts e")
      case True
      then obtain t where t: "retry = Some t" "effect = DEFINITELY_NOT_STARTED" "oe_attempts e < oe_max_attempts e"
        by blast
      note rw = event_write_same_id [OF assms(2) v(5) row_moves(8) [OF p t(3)]]
      from body t rw [of "outbox_as_utc t" c x] show thesis
        by (intro retried [OF v(1,5) h t(2,3,1)]) auto
    next
      case not: False
      then have why: "retry = None \<or> effect = MAY_HAVE_STARTED \<or> oe_max_attempts e \<le> oe_attempts e"
        by (cases effect) auto
      from body not have "d' = bury_failed d e ?t w c x effect \<and> tr_status r = OutboxDEAD_LETTER \<and> tr_changed r"
        by (cases retry) (auto split: if_splits)
      with bw show thesis by (intro buried [OF v(1,5) h why]) auto
    qed
  qed
qed

lemma extend_effect:
  assumes "extend_outbox_lease clock d k worker_id seconds now = Inr (d', y)" and "outbox_inv d"
  obtains w e x where "validate_nonempty worker_id ''worker_id'' 200 = Inr w" "0 < seconds" "get_event k d = Some e"
    "held_by e w (outbox_time clock now)" "oe_lease_expires_at e = Some x"
    "y = max x (outbox_time clock now + seconds * us_per_second)"
    "event_write d e (e\<lparr>oe_lease_expires_at := Some y\<rparr>) d'"
proof -
  let ?t = "outbox_time clock now"
  obtain w e where v: "validate_nonempty worker_id ''worker_id'' 200 = Inr w" "0 < seconds"
      "get_event k d = Some e" "held_by e w ?t"
    using assms(1) by (auto simp: extend_outbox_lease_def bindE_eq_Inr Let_def split: if_splits)
  from v(4) obtain x where x: "oe_lease_expires_at e = Some x" by (auto simp: held_by_def)
  from assms(1) v x have res: "y = max x (?t + seconds * us_per_second)"
    "d' = put_event (e\<lparr>oe_lease_expires_at := Some y\<rparr>) d"
    by (auto simp: extend_outbox_lease_def Let_def split: if_splits)
  have "x \<le> y" unfolding res(1) by (rule max.cobounded1)
  then have "event_move e (e\<lparr>oe_lease_expires_at := Some y\<rparr>)"
    by (intro event_move.extend [of _ _ x y]) (simp_all add: same_event_def held_processing [OF v(4)] x)
  from event_write_same_id [OF assms(2) v(3) this] res show thesis by (intro that [OF v x]) simp_all
qed

section \<open>New events\<close>

definition new_event ::
  "uuid \<Rightarrow> string \<Rightarrow> string \<Rightarrow> string \<Rightarrow> string \<Rightarrow> uuid \<Rightarrow> (string \<times> pyval) list \<Rightarrow> int \<Rightarrow> instant \<Rightarrow> instant
    \<Rightarrow> OutboxEvent" where
  "new_event new_id topic key corr agg agg_id payload max_attempts ready created =
     \<lparr>oe_id = new_id, oe_topic = topic, oe_dedupe_key = key, oe_correlation_id = corr, oe_aggregate_type = agg,
      oe_aggregate_id = agg_id, oe_payload = payload, oe_status = OutboxPENDING, oe_attempts = 0,
      oe_max_attempts = max_attempts, oe_available_at = ready, oe_created_at = created, oe_lease_owner = None,
      oe_lease_expires_at = None, oe_processed_at = None, oe_last_error_code = None, oe_last_error_detail = None\<rparr>"

lemma find_event_identity: "find_event d topic key = Some e \<Longrightarrow> event_identity e = (topic, key) \<and> e \<in> set (db_outbox d)"
  by (auto simp: find_event_def find_Some_iff)

lemma enqueue_cases:
  assumes "enqueue_outbox_event interfere new_id clock d topic0 key0 corr0 agg0 agg_id payload max_attempts
     available actor0 now = Inr (d', r)"
  obtains (existing) topic key corr agg e where "validate_nonempty topic0 ''topic'' 200 = Inr topic"
      "validate_nonempty key0 ''dedupe_key'' 200 = Inr key"
      "validate_nonempty corr0 ''correlation_id'' 200 = Inr corr"
      "validate_nonempty agg0 ''aggregate_type'' 100 = Inr agg" "d' = d \<or> d' = interfere d"
      "find_event d' topic key = Some e" "same_logical_event e corr agg agg_id payload max_attempts"
      "r = \<lparr>eq_event_id = oe_id e, eq_created = False\<rparr>"
  | (created) topic key corr agg as where "validate_nonempty topic0 ''topic'' 200 = Inr topic"
      "validate_nonempty key0 ''dedupe_key'' 200 = Inr key"
      "validate_nonempty corr0 ''correlation_id'' 200 = Inr corr"
      "validate_nonempty agg0 ''aggregate_type'' 100 = Inr agg" "0 < max_attempts"
      "find_event d topic key = None" "get_event new_id (interfere d) = None" "find_event (interfere d) topic key = None"
      "d' = (interfere d)\<lparr>db_outbox := db_outbox (interfere d) @
         [new_event new_id topic key corr agg agg_id payload max_attempts
            (outbox_time (outbox_time clock now) available) (outbox_time clock now)], db_audits := as\<rparr>"
      "r = \<lparr>eq_event_id = new_id, eq_created = True\<rparr>"
proof -
  obtain topic key corr agg actor where v: "validate_nonempty topic0 ''topic'' 200 = Inr topic"
      "validate_nonempty key0 ''dedupe_key'' 200 = Inr key"
      "validate_nonempty corr0 ''correlation_id'' 200 = Inr corr"
      "validate_nonempty agg0 ''aggregate_type'' 100 = Inr agg" "validate_nonempty actor0 ''actor'' 200 = Inr actor"
      "0 < max_attempts"
    using assms by (auto simp: enqueue_outbox_event_def bindE_eq_Inr split: if_splits)
  note run = enqueue_outbox_event_def Let_def v(1-5) existing_result_def
  show thesis
  proof (cases "find_event d topic key")
    case (Some e)
    with assms v(6) show thesis
      by (intro existing [OF v(1-4), of e]) (auto simp: run split: if_splits)
  next
    case None
    show thesis
    proof (cases "get_event new_id (interfere d) = None \<and> find_event (interfere d) topic key = None")
      case True
      with assms v(6) None show thesis
        by (intro created [OF v(1-4,6) None]) (auto simp: run new_event_def)
    next
      case False
      with assms v(6) None obtain e where "find_event (interfere d) topic key = Some e"
        by (auto simp: run split: option.splits if_splits)
      with assms v(6) None False show thesis
        by (intro existing [OF v(1-4), of e]) (auto simp: run split: if_splits)
    qed
  qed
qed

lemma new_event_inv: "0 < max_attempts \<Longrightarrow> event_inv (new_event n topic key corr agg agg_id payload max_attempts ready created)"
  by (simp add: new_event_def event_inv_def event_ok_def finished_def)

lemma insert_event_inv:
  assumes "outbox_inv d" and "event_inv e" and "get_event (oe_id e) d = None"
    and "find_event d (oe_topic e) (oe_dedupe_key e) = None"
  shows "outbox_inv (d\<lparr>db_outbox := db_outbox d @ [e], db_audits := as\<rparr>)
     \<and> outbox_refines d (d\<lparr>db_outbox := db_outbox d @ [e], db_audits := as\<rparr>)"
proof -
  have "event_identity e \<notin> event_identity ` set (db_outbox d)"
    using assms(4) by (auto simp: find_event_def find_None_iff event_identity_def)
  then have "db_ok (d\<lparr>db_outbox := db_outbox d @ [e]\<rparr>)"
    using assms(1-3) by (intro db_ok_insert_event) (auto simp: outbox_inv_def event_inv_def row_get_None)
  then have "db_ok (d\<lparr>db_outbox := db_outbox d @ [e], db_audits := as\<rparr>)" by (simp add: db_ok_def)
  moreover have "outbox_refines d (d\<lparr>db_outbox := db_outbox d @ [e], db_audits := as\<rparr>)"
    by (auto simp: outbox_refines_def row_get_append)
  ultimately show ?thesis using assms(1,2) by (simp add: outbox_inv_def)
qed

lemma enqueue_refines:
  assumes "enqueue_outbox_event interfere new_id clock d topic0 key0 corr0 agg0 agg_id payload max_attempts
     available actor0 now = Inr (d', r)" and "outbox_inv d"
    and "outbox_inv (interfere d) \<and> outbox_refines d (interfere d)"
  shows "outbox_inv d' \<and> outbox_refines d d'"
  using assms(1)
proof (cases rule: enqueue_cases)
  case (existing topic key corr agg e)
  with assms(2,3) show ?thesis using refines_refl by blast
next
  case (created topic key corr agg as)
  let ?e = "new_event new_id topic key corr agg agg_id payload max_attempts
     (outbox_time (outbox_time clock now) available) (outbox_time clock now)"
  have id: "oe_id ?e = new_id" and ident: "oe_topic ?e = topic" "oe_dedupe_key ?e = key"
    by (simp_all add: new_event_def)
  have inv: "outbox_inv (interfere d)" and ref: "outbox_refines d (interfere d)" using assms(3) by blast+
  have "get_event (oe_id ?e) (interfere d) = None"
    "find_event (interfere d) (oe_topic ?e) (oe_dedupe_key ?e) = None"
    unfolding id ident by (fact created(7), fact created(8))
  note ins = insert_event_inv [OF inv new_event_inv [OF created(5)] this, of as]
  then have "outbox_inv d'" "outbox_refines (interfere d) d'" unfolding created(9) by blast+
  with refines_trans [OF ref] show ?thesis by blast
qed

section \<open>Runs\<close>

text \<open>A call that returns; \<open>outbox_call\<close> runs alone, \<open>outbox_step\<close> also has the enqueue that lost a race.\<close>

inductive outbox_call :: "db \<Rightarrow> db \<Rightarrow> bool" where
  enqueue: "enqueue_outbox_event id new_id clock d topic key corr agg agg_id payload n available actor now = Inr (d', r)
     \<Longrightarrow> outbox_call d d'"
| claim: "claim_outbox_events locked clock d worker n seconds topics safe now = Inr (d', cs) \<Longrightarrow> outbox_call d d'"
| recover: "recover_expired_outbox_events lk clock d safe n actor now = Inr (d', s) \<Longrightarrow> outbox_call d d'"
| succeed: "succeed_outbox_event clock d k worker now = Inr (d', t) \<Longrightarrow> outbox_call d d'"
| put_off: "defer_unstarted_outbox_event clock d k worker retry reason now = Inr (d', t) \<Longrightarrow> outbox_call d d'"
| put_off_staged: "defer_staged_runtime_admission_outbox_event clock d k worker retry reason now = Inr (d', ot) \<Longrightarrow>
     outbox_call d d'"
| failed: "fail_outbox_event clock d k worker code detail effect retry_at now = Inr (d', t) \<Longrightarrow> outbox_call d d'"
| extend: "extend_outbox_lease clock d k worker seconds now = Inr (d', y) \<Longrightarrow> outbox_call d d'"

inductive outbox_step :: "db \<Rightarrow> db \<Rightarrow> bool" where
  call: "outbox_call d d' \<Longrightarrow> outbox_step d d'"
| race: "enqueue_outbox_event interfere new_id clock d topic key corr agg agg_id payload n available actor now = Inr (d', r)
     \<Longrightarrow> (\<And>x. outbox_call\<^sup>*\<^sup>* x (interfere x)) \<Longrightarrow> outbox_step d d'"

lemma put_off_refines:
  assumes "defer_unstarted_outbox_event clock d k worker retry reason now = Inr (d', t)" and "outbox_inv d"
  shows "outbox_inv d' \<and> outbox_refines d d'"
  by (rule defer_effect [OF assms]) (blast intro: event_write_inv [OF _ assms(2)] event_write_refines)

lemma outbox_call_refines:
  assumes "outbox_call d d'" and inv: "outbox_inv d"
  shows "outbox_inv d' \<and> outbox_refines d d'"
  using assms(1)
proof cases
  case (enqueue new_id clock topic key corr agg agg_id payload n available actor now r)
  show ?thesis by (rule enqueue_refines [OF enqueue inv]) (use inv refines_refl in simp)
next
  case (claim locked clock worker n seconds topics safe now cs)
  then show ?thesis using inv by (rule claim_refines)
next
  case (recover lk clock safe n actor now s)
  then obtain t a where "d' = fst (recover_expired_in_transaction lk d t safe n a)"
    by (auto simp: recover_expired_outbox_events_def bindE_eq_Inr split: if_splits) (metis fst_conv)
  then show ?thesis using recover_refines [OF inv] by simp
next
  case (succeed clock k worker now t)
  then show ?thesis
    by (rule succeed_effect [OF _ inv]) (use inv refines_refl event_write_inv event_write_refines in blast)+
next
  case (put_off clock k worker retry reason now t)
  then show ?thesis using inv by (rule put_off_refines)
next
  case (put_off_staged clock k worker retry reason now ot)
  from defer_staged_effect [OF this] show ?thesis using put_off_refines [OF _ inv] inv refines_refl by blast
next
  case (failed clock k worker code detail effect retry_at now t)
  then show ?thesis
    by (rule fail_effect [OF _ inv]) (use inv refines_refl event_write_inv event_write_refines in blast)+
next
  case (extend clock k worker seconds now y)
  then show ?thesis
    by (rule extend_effect [OF _ inv]) (use inv event_write_inv event_write_refines in blast)
qed

interpretation outbox_alone: invariant_system outbox_call "\<lambda>d. outbox_inv d \<and> outbox_refines d0 d" for d0
  by unfold_locales (use outbox_call_refines refines_trans in blast)

lemma outbox_step_refines:
  assumes "outbox_step d d'" and inv: "outbox_inv d"
  shows "outbox_inv d' \<and> outbox_refines d d'"
  using assms(1)
proof cases
  case call
  then show ?thesis using inv by (rule outbox_call_refines)
next
  case (race interfere new_id clock topic key corr agg agg_id payload n available actor now r)
  show ?thesis
    by (rule enqueue_refines [OF race(1) inv])
      (use outbox_alone.reachable_keeps [OF race(2), of d d] inv refines_refl in blast)
qed

interpretation outbox_run: invariant_system outbox_step "\<lambda>d. outbox_inv d \<and> outbox_refines d0 d" for d0
  by unfold_locales (use outbox_step_refines refines_trans in blast)

section \<open>Leases that are still valid, and replays\<close>

lemma recover_keeps_lease:
  assumes "outbox_inv d" and e: "get_event k d = Some e" "oe_lease_expires_at e = Some x" "now < x"
  shows "get_event k (fst (recover_expired_in_transaction locked d now safe n actor)) = Some e"
proof -
  define es where "es = select_events (expired_lease now)
     (\<lambda>e. (oe_lease_expires_at e, oe_created_at e, oe_id e)) n locked d"
  let ?T = "set safe - {SALAD_JOB_SUBMIT_TOPIC}"
  have found: "\<forall>y \<in> set es. get_event (oe_id y) d = Some y \<and> expired_lease now y"
    using select_events_found select_events_mem assms(1) unfolding es_def outbox_inv_def by blast
  have "\<exists>e'. event_write d' y e' (recover_row now ?T actor y d')"
    if "y \<in> set es" "outbox_inv d'" "get_event (oe_id y) d' = Some y" for y d'
    using recover_event_write [OF that(2,3)] found that(1) unfolding recover_row_def expired_lease_def by blast
  note loop = select_loop [OF assms(1) es_def this]
  have "k \<notin> oe_id ` set es"
  proof
    assume "k \<in> oe_id ` set es"
    then have "e \<in> set es" using found e(1) by auto
    with found have "expired_lease now e" by blast
    then show False using e(2,3) by (simp add: expired_lease_def)
  qed
  with loop e(1) show ?thesis
    unfolding recover_expired_in_transaction_def Let_def recover_fold es_def [symmetric] by metis
qed

lemma exhaust_keeps_processing:
  assumes "outbox_inv d" and e: "get_event k d = Some e" "oe_status e = OutboxPROCESSING"
  shows "get_event k (dead_letter_exhausted_pending locked d now n actor) = Some e"
proof -
  define es where "es = select_events (\<lambda>e. oe_status e = OutboxPENDING \<and> oe_max_attempts e \<le> oe_attempts e)
          (\<lambda>e. (oe_created_at e, oe_id e)) n locked d"
  have found: "\<forall>y \<in> set es. get_event (oe_id y) d = Some y \<and> oe_status y = OutboxPENDING \<and> oe_max_attempts y \<le> oe_attempts y"
    using select_events_found select_events_mem assms(1) unfolding es_def outbox_inv_def by blast
  have "\<exists>e'. event_write d' y e' (exhaust_event now actor y d')"
    if "y \<in> set es" "outbox_inv d'" "get_event (oe_id y) d' = Some y" for y d'
    using exhaust_event_write [OF that(2,3)] found that(1) by blast
  note loop = select_loop [OF assms(1) es_def this]
  have "k \<notin> oe_id ` set es"
  proof
    assume "k \<in> oe_id ` set es"
    then have "e \<in> set es" using found e(1) by auto
    with found e(2) show False by auto
  qed
  with loop e(1) show ?thesis unfolding dead_letter_exhausted_pending_def es_def [symmetric] by metis
qed

lemma maintenance_keeps_lease:
  assumes "outbox_inv d" and "get_event k d = Some e" "oe_status e = OutboxPROCESSING"
    and "oe_lease_expires_at e = Some x" "now < x"
  shows "get_event k (claim_maintenance locked d w n topics safe now) = Some e"
proof -
  let ?n = "max (n * 4) 100"
  define d1 where "d1 = fst (recover_expired_in_transaction (locked 0) d now safe ?n w)"
  define d2 where "d2 = dead_letter_exhausted_pending (locked 1) d1 now ?n w"
  define d3 where "d3 = repair_dead_lettered_unstarted_salad_attempts (locked 2) d2 now ?n w"
  have "outbox_inv d1" using recover_refines [OF assms(1)] by (simp add: d1_def)
  moreover have "get_event k d1 = Some e"
    unfolding d1_def using assms(1,2,4,5) by (rule recover_keeps_lease)
  ultimately have 2: "get_event k d2 = Some e" unfolding d2_def using assms(3) by (rule exhaust_keeps_processing)
  then have 3: "get_event k d3 = Some e"
    using repair_dead_letters [of d2 "locked 2" now ?n w]
    by (simp add: d3_def repair_step_def same_but_aggregate_def)
  have "claim_maintenance locked d w n topics safe now = d2 \<or> claim_maintenance locked d w n topics safe now = d3"
    by (simp add: claim_maintenance_def Let_def d1_def d2_def d3_def)
  with 2 3 show ?thesis by metis
qed

lemma unsubmitted_trans: "still_unsubmitted a b \<Longrightarrow> still_unsubmitted b c \<Longrightarrow> still_unsubmitted a c"
  by (simp add: still_unsubmitted_def)

lemma unsubmitted_tables:
  "db_attempts d' = db_attempts d \<Longrightarrow> db_jobs d' = db_jobs d \<Longrightarrow> still_unsubmitted d d'"
  by (simp add: still_unsubmitted_def)

lemma recover_row_unsubmitted: "still_unsubmitted d (recover_row now T actor e d)"
proof -
  let ?b = "put_event (buried_event now e) d"
  obtain d1 failed where f: "fail_exhausted_salad_attempt_before_submission ?b e now actor
      ''outbox_lease_expired_before_submission'' (Some definitely_unstarted_expired_detail)
      ''generation_attempt.outbox_lease_expired_before_submission'' = (d1, failed)"
    by (cases "fail_exhausted_salad_attempt_before_submission ?b e now actor
      ''outbox_lease_expired_before_submission'' (Some definitely_unstarted_expired_detail)
      ''generation_attempt.outbox_lease_expired_before_submission''")
  have "still_unsubmitted d ?b" by (rule unsubmitted_tables) simp_all
  moreover have "still_unsubmitted ?b d1" using fail_exhausted_repair [OF f] by (simp add: repair_step_def)
  ultimately have 1: "still_unsubmitted d d1" by (rule unsubmitted_trans)
  have 2: "still_unsubmitted d (put_event y d1)" for y
    using 1 by (rule unsubmitted_trans) (rule unsubmitted_tables, simp_all)
  have 3: "still_unsubmitted d (fst (mark_salad_attempt_unknown (put_event y d1) e now actor))" for y
  proof -
    have "repair_step (put_event y d1) (fst (mark_salad_attempt_unknown (put_event y d1) e now actor))"
      by (metis mark_unknown_repair prod.collapse)
    then show ?thesis using unsubmitted_trans [OF 2 [of y]] by (simp add: repair_step_def)
  qed
  have audit: "still_unsubmitted d (x\<lparr>db_audits := as\<rparr>) = still_unsubmitted d x" for x as
    by (simp add: still_unsubmitted_def)
  have idle: "still_unsubmitted d (d\<lparr>db_outbox := os\<rparr>)" for os
    by (rule unsubmitted_tables) simp_all
  show ?thesis
    unfolding recover_row_def recover_event_def Let_def prod.case f if_distrib [of fst] split_beta fst_conv snd_conv
    by (simp add: audit idle 2 3)
qed

lemma safe_backwards:
  assumes "still_unsubmitted d d'" and "runtime_refresh_replay_is_safe d' e"
  shows "runtime_refresh_replay_is_safe d e"
proof -
  obtain a j where aj: "get_attempt (oe_aggregate_id e) d' = Some a" "get_job (ga_job_id a) d' = Some j"
      "ga_state a = AttemptCREATED" "gj_state j = JobCLAIMED"
    using assms(2)
    by (auto simp: runtime_refresh_replay_is_safe_def lock_salad_job_then_attempt_def split: if_splits option.splits)
  with assms(1) have "get_attempt (oe_aggregate_id e) d = Some a" "get_job (ga_job_id a) d = Some j"
    by (simp_all add: still_unsubmitted_def)
  then have "lock_salad_job_then_attempt d e = lock_salad_job_then_attempt d' e"
    using aj(1,2) by (simp add: lock_salad_job_then_attempt_def)
  with assms(2) show ?thesis unfolding runtime_refresh_replay_is_safe_def by metis
qed

lemma recover_replays_safe:
  assumes "outbox_inv d" and "distinct (map oe_id es)"
    and "\<forall>e \<in> set es. get_event (oe_id e) d = Some e \<and> oe_status e = OutboxPROCESSING"
    and "e0 \<in> set es" and "get_event (oe_id e0) (fold (recover_row now T actor) es d) = Some e'"
    and "oe_status e' = OutboxPENDING"
  shows "oe_topic e0 \<in> T \<or> runtime_refresh_replay_is_safe d e0"
  using assms(1-5)
proof (induction es arbitrary: d)
  case (Cons e es)
  have e: "get_event (oe_id e) d = Some e" "oe_status e = OutboxPROCESSING" using Cons.prems(3) by simp_all
  obtain e1 where w: "event_write d e e1 (recover_row now T actor e d)"
    and pend: "oe_status e1 = OutboxPENDING \<longrightarrow> oe_topic e \<in> T \<or> runtime_refresh_replay_is_safe d e"
    using recover_event_write [OF Cons.prems(1) e, of now T actor no_recovery] unfolding recover_row_def by blast
  let ?d1 = "recover_row now T actor e d"
  have inv: "outbox_inv ?d1" using w Cons.prems(1) by (rule event_write_inv)
  have fresh: "oe_id x \<noteq> oe_id e" if "x \<in> set es" for x
    using Cons.prems(2) that by (metis distinct.simps(2) image_eqI list.set_map list.simps(9))
  have found: "\<forall>x \<in> set es. get_event (oe_id x) ?d1 = Some x \<and> oe_status x = OutboxPROCESSING"
    using Cons.prems(3) fresh by (simp add: event_write_get [OF w])
  have dist: "distinct (map oe_id es)" using Cons.prems(2) by simp
  have step: "\<exists>e'. event_write d' x e' (recover_row now T actor x d')"
    if "x \<in> set es" "outbox_inv d'" "get_event (oe_id x) d' = Some x" for x d'
    using recover_event_write [OF that(2,3)] found that(1) unfolding recover_row_def by blast
  have last: "get_event (oe_id e0) (fold (recover_row now T actor) es ?d1) = Some e'"
    using Cons.prems(5) by simp
  show ?case
  proof (cases "e0 = e")
    case True
    have "oe_id e \<notin> oe_id ` set es" using fresh by (metis imageE)
    then have "get_event (oe_id e) (fold (recover_row now T actor) es ?d1) = get_event (oe_id e) ?d1"
      using event_loop [OF inv dist _ step] found by blast
    then have "e' = e1" using last True by (simp add: event_write_get [OF w])
    with pend assms(6) True show ?thesis by simp
  next
    case False
    then have "e0 \<in> set es" using Cons.prems(4) by simp
    from Cons.IH [OF inv dist found this last] show ?thesis
      using safe_backwards [OF recover_row_unsubmitted] by blast
  qed
qed simp

end
