(* ===== verification/OutboxTheorems.thy ===== *)
theory OutboxTheorems
  imports OutboxRuns
begin

text \<open>
  The theorems about the outbox. The witnesses run on a small database: a Salad submission that is
  PENDING, one that is leased by worker ''w1'', and the job and the attempts they belong to.
\<close>

section \<open>A sample database\<close>

definition sample_job :: GenerationJob where
  "sample_job = \<lparr>gj_id = 50, gj_release_version_id = 60, gj_provider = ''salad'', gj_state = JobCLAIMED, gj_attempt_count = 1,
     gj_max_attempts = 3, gj_lock_version = 1, gj_lease_owner = None, gj_lease_expires_at = None,
     gj_retry_at = None, gj_last_error_code = None, gj_last_error_detail = None, gj_created_at = 0,
     gj_parameters = [], gj_parameters_sha256 = ''p'', gj_expected_output_count = 1\<rparr>"

definition sample_submission :: GenerationAttempt where
  "sample_submission = \<lparr>ga_id = 51, ga_job_id = 50, ga_attempt_no = 1, ga_provider = ''salad'',
     ga_salad_deployment_id = None, ga_provider_external_id = None, ga_state = AttemptCREATED, ga_request_metadata = [],
     ga_response_metadata = None, ga_submit_started_at = None, ga_submitted_at = None,
     ga_started_at = None, ga_completed_at = None, ga_last_observed_at = None, ga_unknown_since = None,
     ga_provider_state = None, ga_cost_reservation_microusd = 0, ga_reservation_released_at = None,
     ga_lock_version = 1, ga_error_code = None, ga_error_detail = None,
     ga_submission_key = ''k'', ga_request_sha256 = ''r'', ga_worker_image_digest = ''i''\<rparr>"

definition sample_event :: OutboxEvent where
  "sample_event = \<lparr>oe_id = 60, oe_topic = ''salad.job.submit'', oe_dedupe_key = ''submit:51'',
     oe_correlation_id = ''c'', oe_aggregate_type = ''generation_attempt'', oe_aggregate_id = 51,
     oe_payload = [(''attempt'', PInt 1)], oe_status = OutboxPENDING, oe_attempts = 0, oe_max_attempts = 3,
     oe_available_at = 100, oe_created_at = 90, oe_lease_owner = None, oe_lease_expires_at = None,
     oe_processed_at = None, oe_last_error_code = None, oe_last_error_detail = None\<rparr>"

definition sample_leased :: OutboxEvent where
  "sample_leased = sample_event\<lparr>oe_id := 61, oe_dedupe_key := ''submit:51b'', oe_status := OutboxPROCESSING,
     oe_attempts := 1, oe_lease_owner := Some ''w1'', oe_lease_expires_at := Some 5000\<rparr>"

definition sample_outbox :: db where
  "sample_outbox = empty_db\<lparr>db_jobs := [sample_job], db_attempts := [sample_submission],
     db_outbox := [sample_event, sample_leased]\<rparr>"

lemmas sample_outbox_defs = sample_outbox_def sample_job_def sample_submission_def sample_event_def
  sample_leased_def empty_db_def

lemma sample_outbox_inv: "outbox_inv sample_outbox"
  by (simp add: outbox_inv_def db_ok_def sample_outbox_defs job_ok_def attempt_ok_def event_ok_def event_identity_def
      event_inv_def finished_def)

lemma sample_found: "get_event 60 sample_outbox = Some sample_event" "get_event 61 sample_outbox = Some sample_leased"
  by code_simp+

definition at_time :: "instant \<Rightarrow> pydatetime option" where "at_time t = Some (Aware t)"

lemma at_time [simp]: "outbox_time clock (at_time t) = t"
  by (simp add: at_time_def outbox_time_def)

lemma returns: "(case x of Inl e \<Rightarrow> False | Inr y \<Rightarrow> P y) \<Longrightarrow> \<exists>y. x = Inr y \<and> P y"
  by (cases x) auto

section \<open>The contract\<close>

text \<open>C5: The outbox implements its state machine. In every sequence of operations, including an
  enqueue that lost a race, no event is ever removed and every event changes by moves of the abstract
  machine only: claims, extensions, retries, deferrals, one completion; and the constraints of the
  schema and the lease discipline of the rows are kept.\<close>

theorem outbox_refines_machine:
  assumes "outbox_step\<^sup>*\<^sup>* d d'" and "outbox_inv d"
  shows "outbox_inv d' \<and> (\<forall>k e. get_event k d = Some e \<longrightarrow>
     (\<exists>e'. get_event k d' = Some e' \<and> event_move\<^sup>*\<^sup>* e e'))"
  using outbox_run.reachable_keeps [OF assms(1), of d] assms(2) refines_refl [of d]
  unfolding outbox_refines_def by blast

lemma sample_extend:
  obtains d y where "extend_outbox_lease 0 sample_outbox 61 ''w1'' 60 (at_time 1000) = Inr (d, y)"
proof -
  have "case extend_outbox_lease 0 sample_outbox 61 ''w1'' 60 (at_time 1000) of Inl e \<Rightarrow> False | Inr y \<Rightarrow> True"
    by code_simp
  from returns [OF this] that show thesis by auto
qed

lemma outbox_refines_machine_witness:
  "\<exists>d e. outbox_step\<^sup>*\<^sup>* sample_outbox d \<and> get_event 61 d = Some e \<and> event_move\<^sup>*\<^sup>* sample_leased e"
proof (rule sample_extend)
  fix d y assume "extend_outbox_lease 0 sample_outbox 61 ''w1'' 60 (at_time 1000) = Inr (d, y)"
  then have run: "outbox_step\<^sup>*\<^sup>* sample_outbox d" by (blast intro: outbox_step.call outbox_call.extend)
  from outbox_refines_machine [OF run sample_outbox_inv] sample_found(2) run show ?thesis by blast
qed

text \<open>A finished event is final. Once an event is SUCCEEDED or DEAD_LETTER, no sequence of outbox
  operations changes any column of its row again, so its effect is never performed again.\<close>

theorem finished_events_are_final:
  assumes "outbox_step\<^sup>*\<^sup>* d d'" and "outbox_inv d" and "get_event k d = Some e"
    and "oe_status e = OutboxSUCCEEDED \<or> oe_status e = OutboxDEAD_LETTER"
  shows "get_event k d' = Some e"
  using outbox_run.reachable_keeps [OF assms(1), of d] assms(2-4) refines_refl [of d]
    finished_stays [of e] unfolding outbox_refines_def finished_def by blast

definition sample_done :: db where
  "sample_done = sample_outbox\<lparr>db_outbox := [sample_event\<lparr>oe_status := OutboxSUCCEEDED, oe_processed_at := Some 7\<rparr>, sample_leased]\<rparr>"

lemma sample_done_inv: "outbox_inv sample_done"
  by (simp add: outbox_inv_def db_ok_def sample_done_def sample_outbox_defs job_ok_def attempt_ok_def event_ok_def
      event_identity_def event_inv_def finished_def)

lemma finished_events_are_final_witness:
  "\<exists>d. outbox_step\<^sup>*\<^sup>* sample_done d
     \<and> get_event 60 d = Some (sample_event\<lparr>oe_status := OutboxSUCCEEDED, oe_processed_at := Some 7\<rparr>)"
proof -
  let ?e = "sample_event\<lparr>oe_status := OutboxSUCCEEDED, oe_processed_at := Some 7\<rparr>"
  have "case extend_outbox_lease 0 sample_done 61 ''w1'' 60 (at_time 1000) of Inl e \<Rightarrow> False | Inr y \<Rightarrow> True"
    by code_simp
  from returns [OF this] obtain d y where "extend_outbox_lease 0 sample_done 61 ''w1'' 60 (at_time 1000) = Inr (d, y)"
    by auto
  then have run: "outbox_step\<^sup>*\<^sup>* sample_done d" by (blast intro: outbox_step.call outbox_call.extend)
  have "get_event 60 sample_done = Some ?e" by code_simp
  from finished_events_are_final [OF run sample_done_inv this] run show ?thesis by (intro exI [of _ d] conjI) simp_all
qed

section \<open>Claims\<close>

text \<open>A claim leases what it returns. \<open>claim_outbox_events\<close> returns at most \<open>limit\<close> distinct events;
  each of them is, in the database the claim commits, PROCESSING, leased to this worker until the
  expiry returned, within its attempt limit, and of a requested topic.\<close>

theorem claim_leases_result:
  assumes "claim_outbox_events locked clock d worker_id limit lease_seconds topics safe now = Inr (d', cs)"
    and "outbox_inv d"
  shows "int (length cs) \<le> max limit 0 \<and> distinct (map ce_id cs)
     \<and> (\<forall>c \<in> set cs. \<exists>w e. validate_nonempty worker_id ''worker_id'' 200 = Inr w
          \<and> get_event (ce_id c) d' = Some e \<and> oe_status e = OutboxPROCESSING \<and> oe_lease_owner e = Some w
          \<and> oe_lease_expires_at e = Some (ce_lease_expires_at c)
          \<and> ce_lease_expires_at c = outbox_time clock now + lease_seconds * us_per_second
          \<and> outbox_time clock now < ce_lease_expires_at c
          \<and> ce_attempt c = oe_attempts e \<and> 1 \<le> oe_attempts e \<and> oe_attempts e \<le> oe_max_attempts e
          \<and> ce_topic c = oe_topic e \<and> ce_payload c = oe_payload e
          \<and> (\<forall>ts. normalized_topics topics = Inr (Some ts) \<longrightarrow> oe_topic e \<in> set ts))"
  using assms(1)
proof (cases rule: claim_cases)
  case (some w ts t x d1)
  have inv: "outbox_inv d1" using maintenance_refines [OF assms(2)] by (simp add: some(8))
  define es where "es = claim_query locked d1 t ts limit"
  note loop = claim_loop [OF inv es_def]
  have cs: "cs = map (\<lambda>e. claimed_view x (claimed_row w x e)) es" using some(10) by (simp add: es_def)
  have ids: "map ce_id cs = map oe_id es" by (simp add: cs claimed_view_def claimed_row_def)
  have "int (length cs) \<le> max limit 0" using loop(7) some(2) by (simp add: cs nat_le_iff)
  moreover have "distinct (map ce_id cs)" using loop(6) ids by simp
  moreover have "\<exists>w e. validate_nonempty worker_id ''worker_id'' 200 = Inr w
          \<and> get_event (ce_id c) d' = Some e \<and> oe_status e = OutboxPROCESSING \<and> oe_lease_owner e = Some w
          \<and> oe_lease_expires_at e = Some (ce_lease_expires_at c)
          \<and> ce_lease_expires_at c = outbox_time clock now + lease_seconds * us_per_second
          \<and> outbox_time clock now < ce_lease_expires_at c
          \<and> ce_attempt c = oe_attempts e \<and> 1 \<le> oe_attempts e \<and> oe_attempts e \<le> oe_max_attempts e
          \<and> ce_topic c = oe_topic e \<and> ce_payload c = oe_payload e
          \<and> (\<forall>ts. normalized_topics topics = Inr (Some ts) \<longrightarrow> oe_topic e \<in> set ts)"
    if c: "c \<in> set cs" for c
  proof -
    from c obtain e where e: "e \<in> set es" "c = claimed_view x (claimed_row w x e)" by (auto simp: cs)
    have d1e: "get_event (oe_id e) d1 = Some e" "claimable t ts e" using loop(5) [OF e(1)] by blast+
    have "event_inv e" using inv row_get_mem [OF d1e(1)] by (simp add: outbox_inv_def)
    then have bounds: "0 \<le> oe_attempts e" "oe_attempts e < oe_max_attempts e"
      using d1e(2) by (simp_all add: event_inv_def event_ok_def claimable_def)
    have row: "get_event (ce_id c) d' = Some (claimed_row w x e)"
      using loop(3) [OF e(1)] unfolding some(9) es_def [symmetric] by (simp add: e(2) claimed_view_def claimed_row_def)
    show ?thesis
      by (intro exI [of _ w] exI [of _ "claimed_row w x e"])
        (use some(1,4-7) row bounds d1e(2) in \<open>auto simp: e(2) claimed_view_def claimed_row_def claimable_def\<close>)
  qed
  ultimately show ?thesis by blast
qed simp

lemma sample_claim:
  obtains d c where "claim_outbox_events (\<lambda>q k. False) 0 sample_outbox ''w2'' 5 30 None [] (at_time 1000) = Inr (d, [c])"
    "ce_id c = 60"
proof -
  have "case claim_outbox_events (\<lambda>q k. False) 0 sample_outbox ''w2'' 5 30 None [] (at_time 1000) of
      Inl e \<Rightarrow> False | Inr y \<Rightarrow> map ce_id (snd y) = [60]"
    by code_simp
  from returns [OF this] that show thesis by auto
qed

lemma claim_leases_result_witness:
  "\<exists>d c e. claim_outbox_events (\<lambda>q k. False) 0 sample_outbox ''w2'' 5 30 None [] (at_time 1000) = Inr (d, [c])
     \<and> get_event 60 d = Some e \<and> oe_status e = OutboxPROCESSING \<and> oe_lease_expires_at e = Some 30001000"
proof (rule sample_claim)
  fix d c
  assume run: "claim_outbox_events (\<lambda>q k. False) 0 sample_outbox ''w2'' 5 30 None [] (at_time 1000) = Inr (d, [c])"
    "ce_id c = 60"
  from claim_leases_result [OF run(1) sample_outbox_inv] run show ?thesis by auto
qed

text \<open>C26: A valid lease is exclusive. While the lease of an event is valid, a claim by any worker neither
  returns the event nor changes its row, and no report of another worker (success, failure, deferral,
  extension) is accepted.\<close>

theorem lease_is_exclusive:
  assumes "outbox_inv d" and "get_event k d = Some e" and "oe_status e = OutboxPROCESSING"
    and "oe_lease_owner e = Some holder" and "oe_lease_expires_at e = Some x" and "outbox_time clock now < x"
    and "validate_nonempty other ''worker_id'' 200 \<noteq> Inr holder"
  shows "(\<forall>d' cs. claim_outbox_events locked clock d worker n seconds topics safe now = Inr (d', cs) \<longrightarrow>
            get_event k d' = Some e \<and> k \<notin> ce_id ` set cs)
     \<and> (\<forall>y. succeed_outbox_event clock d k other now \<noteq> Inr y)
     \<and> (\<forall>y. fail_outbox_event clock d k other code detail effect retry_at now \<noteq> Inr y)
     \<and> (\<forall>y. defer_unstarted_outbox_event clock d k other retry reason now \<noteq> Inr y)
     \<and> (\<forall>y. extend_outbox_lease clock d k other seconds now \<noteq> Inr y)"
proof -
  have "get_event k d' = Some e \<and> k \<notin> ce_id ` set cs"
    if "claim_outbox_events locked clock d worker n seconds topics safe now = Inr (d', cs)" for d' cs
    using that
  proof (cases rule: claim_cases)
    case none
    with assms(2) show ?thesis by simp
  next
    case (some w ts t z d1)
    have inv: "outbox_inv d1" using maintenance_refines [OF assms(1)] by (simp add: some(8))
    have kept: "get_event k d1 = Some e" unfolding some(8) using assms(1-3,5,6) some(6)
      by (intro maintenance_keeps_lease) auto
    define es where "es = claim_query locked d1 t ts n"
    note loop = claim_loop [OF inv es_def]
    have "k \<notin> oe_id ` set es"
    proof
      assume "k \<in> oe_id ` set es"
      then obtain e1 where "e1 \<in> set es" "oe_id e1 = k" by blast
      with loop(5) [of e1] kept have "claimable t ts e" by auto
      then show False using assms(3) by (simp add: claimable_def)
    qed
    moreover have "ce_id ` set cs = oe_id ` set es"
      unfolding some(10) es_def [symmetric] by (simp add: image_image claimed_view_def claimed_row_def)
    ultimately show ?thesis using loop(4) [of k w z] kept unfolding some(9) es_def [symmetric] by metis
  qed
  moreover have held: "\<not> held_by e w t" if "validate_nonempty other ''worker_id'' 200 = Inr w" for w t
    using that assms(4,7) by (auto simp: held_by_def)
  moreover have "succeed_outbox_event clock d k other now \<noteq> Inr y" for y
    using held assms(2,3) by (cases y) (auto elim!: succeed_effect [OF _ assms(1)])
  moreover have "fail_outbox_event clock d k other code detail effect retry_at now \<noteq> Inr y" for y
    using held assms(2,3) by (cases y) (auto elim!: fail_effect [OF _ assms(1)])
  moreover have "defer_unstarted_outbox_event clock d k other retry reason now \<noteq> Inr y" for y
    using held assms(2,3) by (cases y) (auto elim!: defer_effect [OF _ assms(1)])
  moreover have "extend_outbox_lease clock d k other seconds now \<noteq> Inr y" for y
    using held assms(2,3) by (cases y) (auto elim!: extend_effect [OF _ assms(1)])
  ultimately show ?thesis by blast
qed

lemma lease_is_exclusive_witness:
  "\<exists>d cs. claim_outbox_events (\<lambda>q k. False) 0 sample_outbox ''w2'' 5 30 None [] (at_time 1000) = Inr (d, cs)
     \<and> cs \<noteq> [] \<and> get_event 61 d = Some sample_leased \<and> (\<forall>y. succeed_outbox_event 0 sample_outbox 61 ''w2'' (at_time 1000) \<noteq> Inr y)"
proof (rule sample_claim)
  fix d c
  assume run: "claim_outbox_events (\<lambda>q k. False) 0 sample_outbox ''w2'' 5 30 None [] (at_time 1000) = Inr (d, [c])"
  have other: "validate_nonempty ''w2'' ''worker_id'' 200 \<noteq> Inr ''w1''" by code_simp
  have row: "oe_status sample_leased = OutboxPROCESSING" "oe_lease_owner sample_leased = Some ''w1''"
    "oe_lease_expires_at sample_leased = Some 5000" by (simp_all add: sample_leased_def)
  note th = lease_is_exclusive [OF sample_outbox_inv sample_found(2) row, where clock = 0 and now = "at_time 1000",
      simplified at_time, OF _ other, simplified]
  from th run show ?thesis by (intro exI [of _ d] exI [of _ "[c]"]) auto
qed

text \<open>C6: A Salad submission is never replayed blindly. When the recovery of expired leases puts the
  expired lease of a Salad submission back to PENDING, the attempt behind it provably had no provider
  request: before the recovery it was CREATED without any submission evidence, it was the current attempt of a
  CLAIMED job, and it carried a valid runtime plan or admission target. Listing the submission topic as
  replay-safe does not help.\<close>

theorem recovery_never_replays_blindly:
  assumes "outbox_inv d"
    and "recover_expired_outbox_events locked clock d safe_topics limit actor now = Inr (d', s)"
    and "get_event k d = Some e" and "oe_status e = OutboxPROCESSING"
    and "oe_topic e = SALAD_JOB_SUBMIT_TOPIC"
    and "get_event k d' = Some e'" and "oe_status e' = OutboxPENDING"
  shows "\<exists>a j. get_attempt (oe_aggregate_id e) d = Some a \<and> get_job (ga_job_id a) d = Some j
     \<and> ga_provider a = ''salad'' \<and> ga_state a = AttemptCREATED \<and> gj_state j = JobCLAIMED
     \<and> gj_attempt_count j = ga_attempt_no a \<and> no_submission_evidence a
     \<and> (valid_runtime_refresh_plan (py_get (ga_request_metadata a) ''runtime_admission_refresh_plan'')
         \<or> valid_runtime_admission_target (py_get (ga_request_metadata a) ''runtime_admission''))"
proof -
  obtain act t where act: "d' = fst (recover_expired_in_transaction locked d t safe_topics limit act)"
    using assms(2) by (auto simp: recover_expired_outbox_events_def bindE_eq_Inr split: if_splits) (metis fst_conv)
  define es where "es = select_events (expired_lease t)
     (\<lambda>e. (oe_lease_expires_at e, oe_created_at e, oe_id e)) limit locked d"
  let ?T = "set safe_topics - {SALAD_JOB_SUBMIT_TOPIC}"
  have d': "d' = fold (recover_row t ?T act) es d"
    unfolding act recover_expired_in_transaction_def Let_def recover_fold es_def ..
  have ok: "db_ok d" using assms(1) by (simp add: outbox_inv_def)
  have dist: "distinct (map oe_id es)" unfolding es_def by (rule select_events_distinct [OF ok])
  have found: "\<forall>y \<in> set es. get_event (oe_id y) d = Some y \<and> oe_status y = OutboxPROCESSING"
    using select_events_found [OF ok] select_events_mem unfolding es_def expired_lease_def by blast
  have step: "\<exists>e'. event_write d1 y e' (recover_row t ?T act y d1)"
    if "y \<in> set es" "outbox_inv d1" "get_event (oe_id y) d1 = Some y" for y d1
    using recover_event_write [OF that(2,3)] found that(1) unfolding recover_row_def by blast
  note loop = select_loop [OF assms(1) es_def step]
  have "e \<in> set es"
  proof (rule ccontr)
    assume no: "e \<notin> set es"
    have "k \<notin> oe_id ` set es"
    proof
      assume "k \<in> oe_id ` set es"
      then obtain y where y: "y \<in> set es" "k = oe_id y" by blast
      with found assms(3) have "y = e" by auto
      with y no show False by simp
    qed
    with loop have "get_event k d' = get_event k d" unfolding d' by blast
    with assms(3,4,6,7) show False by simp
  qed
  moreover have "get_event (oe_id e) (fold (recover_row t ?T act) es d) = Some e'"
    using assms(6) row_get_key [OF assms(3)] by (simp only: d')
  ultimately have "oe_topic e \<in> ?T \<or> runtime_refresh_replay_is_safe d e"
    using recover_replays_safe [OF assms(1) dist found _ _ assms(7)] by blast
  then have "runtime_refresh_replay_is_safe d e" using assms(5) by blast
  then show ?thesis
    by (auto simp: runtime_refresh_replay_is_safe_def lock_salad_job_then_attempt_def split: if_splits option.splits)
qed

definition sample_staged :: db where
  "sample_staged = sample_outbox\<lparr>db_attempts := [sample_submission\<lparr>ga_request_metadata :=
     [(''runtime_admission'', PDict [(''version'', PStr ''v1''), (''provider_group_version'', PInt 4),
        (''artifact_manifest_sha256'', PStr (replicate 64 (CHR ''a''))),
        (''rollout_id'', PStr (replicate 32 (CHR ''0''))), (''worker_instance_id'', PNone)])]\<rparr>]\<rparr>"

lemma sample_staged_inv: "outbox_inv sample_staged"
  by (simp add: outbox_inv_def db_ok_def sample_staged_def sample_outbox_defs job_ok_def attempt_ok_def event_ok_def
      event_identity_def event_inv_def finished_def)

lemma recovery_never_replays_blindly_witness:
  "\<exists>d s a. recover_expired_outbox_events (\<lambda>k. False) 0 sample_staged [] 10 ''r'' (at_time 9000) = Inr (d, s)
     \<and> rs_replayed s = 1 \<and> get_attempt 51 sample_staged = Some a \<and> no_submission_evidence a"
proof -
  have "case recover_expired_outbox_events (\<lambda>k. False) 0 sample_staged [] 10 ''r'' (at_time 9000) of
      Inl e \<Rightarrow> False
    | Inr y \<Rightarrow> rs_replayed (snd y) = 1 \<and> (case get_event 61 (fst y) of None \<Rightarrow> False | Some e \<Rightarrow> oe_status e = OutboxPENDING)"
    by code_simp
  from returns [OF this] obtain d s e where
    run: "recover_expired_outbox_events (\<lambda>k. False) 0 sample_staged [] 10 ''r'' (at_time 9000) = Inr (d, s)"
      "rs_replayed s = 1" "get_event 61 d = Some e" "oe_status e = OutboxPENDING"
    by (auto split: option.splits)
  have row: "get_event 61 sample_staged = Some sample_leased" by code_simp
  have st: "oe_status sample_leased = OutboxPROCESSING" "oe_topic sample_leased = SALAD_JOB_SUBMIT_TOPIC"
    "oe_aggregate_id sample_leased = 51" by (simp_all add: sample_leased_def sample_event_def SALAD_JOB_SUBMIT_TOPIC_def)
  from recovery_never_replays_blindly [OF sample_staged_inv run(1) row st(1,2) run(3,4)] run st(3) show ?thesis by auto
qed

text \<open>An ambiguous failure is never retried. When the holder of a lease reports that the external effect
  may have started, the event is dead-lettered whatever retry time is given, and a Salad attempt that was
  CREATED or SUBMITTING is marked UNKNOWN for reconciliation.\<close>

theorem ambiguous_failure_is_buried:
  assumes "outbox_inv d" and "get_event k d = Some e" and "oe_status e \<noteq> OutboxDEAD_LETTER"
    and "fail_outbox_event clock d k worker code detail MAY_HAVE_STARTED retry_at now = Inr (d', r)"
  shows "(\<exists>e'. get_event k d' = Some e' \<and> oe_status e' = OutboxDEAD_LETTER \<and> oe_lease_owner e' = None)
     \<and> tr_status r = OutboxDEAD_LETTER
     \<and> (\<forall>a. salad_submission e \<and> get_attempt (oe_aggregate_id e) d = Some a \<and> ga_provider a = ''salad''
          \<and> ga_state a \<in> {AttemptCREATED, AttemptSUBMITTING} \<longrightarrow>
          (\<exists>a'. get_attempt (oe_aggregate_id e) d' = Some a' \<and> ga_state a' = AttemptUNKNOWN \<and> ga_unknown_since a' \<noteq> None))"
  using assms(4) assms(1)
proof (cases rule: fail_effect)
  case (again e1)
  with assms(2,3) show ?thesis by simp
next
  case (retried w c x e1 t)
  then show ?thesis by simp
next
  case (buried w c x e1)
  have e1: "e1 = e" using buried(2) assms(2) by simp
  let ?t = "outbox_time clock now" let ?e = "dead_event (outbox_time clock now) (failing_event c x e)"
  have k: "oe_id e = k" using row_get_key [OF assms(2)] .
  have "get_event k d' = Some ?e" using event_write_get [OF buried(5)] k by (simp add: e1)
  moreover have "oe_status ?e = OutboxDEAD_LETTER" "oe_lease_owner ?e = None" by (simp_all add: row_defs)
  moreover have "\<exists>a'. get_attempt (oe_aggregate_id e) d' = Some a' \<and> ga_state a' = AttemptUNKNOWN \<and> ga_unknown_since a' \<noteq> None"
    if a: "salad_submission e" "get_attempt (oe_aggregate_id e) d = Some a" "ga_provider a = ''salad''"
      "ga_state a \<in> {AttemptCREATED, AttemptSUBMITTING}" for a
  proof -
    have "oe_aggregate_id e \<in> ga_id ` set (db_attempts d)"
      using a(2) by (metis option.distinct(1) row_get_None)
    then have "get_attempt (oe_aggregate_id e) d' = Some (attempt_marked_unknown ?t a)"
      unfolding buried(6) bury_failed_def Let_def e1 using a row_get_key [OF a(2)]
      by (auto simp: mark_salad_attempt_unknown_def lock_salad_job_then_attempt_def unknownable_attempt_states_def
          row_get_put Let_def split: option.splits)
    then show ?thesis by (auto simp: attempt_marked_unknown_def split: option.splits)
  qed
  ultimately show ?thesis using buried(7) by blast
qed

lemma sample_ambiguous:
  obtains d r where "fail_outbox_event 0 sample_outbox 61 ''w1'' ''timeout'' None MAY_HAVE_STARTED
      (at_time 2000) (at_time 1000) = Inr (d, r)"
proof -
  have "case fail_outbox_event 0 sample_outbox 61 ''w1'' ''timeout'' None MAY_HAVE_STARTED
      (at_time 2000) (at_time 1000) of Inl e \<Rightarrow> False | Inr y \<Rightarrow> True"
    by code_simp
  from returns [OF this] that show thesis by auto
qed

lemma ambiguous_failure_is_buried_witness:
  "\<exists>d r a. fail_outbox_event 0 sample_outbox 61 ''w1'' ''timeout'' None MAY_HAVE_STARTED
      (at_time 2000) (at_time 1000) = Inr (d, r) \<and> get_attempt 51 d = Some a \<and> ga_state a = AttemptUNKNOWN"
proof (rule sample_ambiguous)
  fix d r
  assume run: "fail_outbox_event 0 sample_outbox 61 ''w1'' ''timeout'' None MAY_HAVE_STARTED
      (at_time 2000) (at_time 1000) = Inr (d, r)"
  have st: "oe_status sample_leased \<noteq> OutboxDEAD_LETTER" "salad_submission sample_leased" "oe_aggregate_id sample_leased = 51"
    by (simp_all add: sample_leased_def sample_event_def salad_submission_def SALAD_JOB_SUBMIT_TOPIC_def
        GENERATION_ATTEMPT_AGGREGATE_def)
  have a: "get_attempt 51 sample_outbox = Some sample_submission" by code_simp
  have "ga_provider sample_submission = ''salad''" "ga_state sample_submission = AttemptCREATED"
    by (simp_all add: sample_submission_def)
  with ambiguous_failure_is_buried [OF sample_outbox_inv sample_found(2) st(1) run] st a run show ?thesis by auto
qed

text \<open>A failure is decided exactly. When the holder of a valid lease reports a failure with valid
  arguments, \<open>fail_outbox_event\<close> returns; it schedules a retry exactly when a retry time is given, the effect
  definitely did not start and attempts are left, and dead-letters the event otherwise; a retry keeps the
  attempt count and becomes available at the time given.\<close>

theorem failure_is_decided_exactly:
  assumes "outbox_inv d" and "get_event k d = Some e" and "held_by e w (outbox_time clock now)"
    and "validate_nonempty worker ''worker_id'' 200 = Inr w" and "validate_error_code code = Inr c"
    and "validate_safe_error_detail detail = Inr x"
    and "\<forall>t. retry_at = Some t \<longrightarrow> outbox_time clock now \<le> outbox_as_utc t"
  shows "\<exists>d' r e'. fail_outbox_event clock d k worker code detail effect retry_at now = Inr (d', r)
     \<and> get_event k d' = Some e' \<and> tr_changed r \<and> tr_status r = oe_status e' \<and> oe_attempts e' = oe_attempts e
     \<and> oe_lease_owner e' = None \<and> oe_last_error_code e' = Some c \<and> oe_last_error_detail e' = x
     \<and> (if retry_at \<noteq> None \<and> effect = DEFINITELY_NOT_STARTED \<and> oe_attempts e < oe_max_attempts e
        then oe_status e' = OutboxPENDING \<and> Some (oe_available_at e') = map_option outbox_as_utc retry_at
        else oe_status e' = OutboxDEAD_LETTER)"
proof -
  let ?t = "outbox_time clock now"
  note p = held_processing [OF assms(3)]
  have k: "oe_id e = k" using row_get_key [OF assms(2)] .
  have time: "\<not> (case map_option outbox_as_utc retry_at of None \<Rightarrow> False | Some t \<Rightarrow> t < ?t)"
    using assms(7) by (auto split: option.splits)
  have bury: "get_event k (bury_failed d e ?t w c x effect) = Some (dead_event ?t (failing_event c x e))"
    using event_write_get [OF bury_failed_write [OF assms(1,2) p]] k by simp
  have live: "oe_status e \<noteq> OutboxDEAD_LETTER" using p by simp
  note run = fail_outbox_event_def Let_def
  show ?thesis
  proof (cases "retry_at \<noteq> None \<and> effect = DEFINITELY_NOT_STARTED \<and> oe_attempts e < oe_max_attempts e")
    case True
    then obtain t where t: "retry_at = Some t" by blast
    have "event_write d e (retried_event (outbox_as_utc t) (failing_event c x e))
        (put_event (retried_event (outbox_as_utc t) (failing_event c x e)) d)"
      using True by (intro event_write_same_id [OF assms(1,2)] row_moves(8) p) simp
    note get = event_write_get [OF this, of k]
    let ?e = "retried_event (outbox_as_utc t) (failing_event c x e)"
    let ?d = "add_audit (outbox_audit e w ''outbox.retry_scheduled''
        [(''attempt'', PInt (oe_attempts e)), (''error_code'', PStr c),
         (''retry_not_before'', PStr (isoformat (outbox_as_utc t)))] ?t) (put_event ?e d)"
    let ?r = "\<lparr>tr_status = OutboxPENDING, tr_changed = True\<rparr>"
    have "fail_outbox_event clock d k worker code detail effect retry_at now = Inr (?d, ?r)"
      using True t live time assms(2-6) by (simp add: run)
    with True t get k show ?thesis
      by (intro exI [of _ ?d] exI [of _ ?r] exI [of _ ?e]) (simp add: row_defs)
  next
    case False
    let ?r = "\<lparr>tr_status = OutboxDEAD_LETTER, tr_changed = True\<rparr>"
    have "fail_outbox_event clock d k worker code detail effect retry_at now = Inr (bury_failed d e ?t w c x effect, ?r)"
      using False live time assms(2-6) by (cases retry_at) (auto simp: run)
    with bury False show ?thesis
      by (intro exI [of _ "bury_failed d e ?t w c x effect"] exI [of _ ?r]
          exI [of _ "dead_event ?t (failing_event c x e)"]) (simp add: row_defs)
  qed
qed

lemma failure_is_decided_exactly_witness:
  "\<exists>d r e'. fail_outbox_event 0 sample_outbox 61 ''w1'' ''busy'' None DEFINITELY_NOT_STARTED
      (at_time 2000) (at_time 1000) = Inr (d, r) \<and> get_event 61 d = Some e' \<and> oe_status e' = OutboxPENDING
     \<and> oe_available_at e' = 2000"
proof -
  have v: "validate_nonempty ''w1'' ''worker_id'' 200 = Inr ''w1''" "validate_error_code ''busy'' = Inr ''busy''"
    "validate_safe_error_detail None = Inr None" by code_simp+
  have held: "held_by sample_leased ''w1'' (outbox_time 0 (at_time 1000))"
    by (simp add: held_by_def sample_leased_def)
  have "\<forall>t. at_time 2000 = Some t \<longrightarrow> outbox_time 0 (at_time 1000) \<le> outbox_as_utc t"
    by (simp add: at_time_def outbox_time_def)
  from failure_is_decided_exactly [OF sample_outbox_inv sample_found(2) held v this, of DEFINITELY_NOT_STARTED]
  show ?thesis by (auto simp: at_time_def sample_leased_def sample_event_def)
qed

end
