(* ===== verification/OutboxDelivery.thy ===== *)
theory OutboxDelivery
  imports OutboxTheorems
begin

text \<open>
  Further theorems about the outbox: idempotent insertion, the order in which events are delivered,
  the return of a claim, and the repair of dead letters.
\<close>

text \<open>C33: The repair query and the repair guard agree. On dead-lettered events the WHERE clause by
  which \<open>_repair_dead_lettered_unstarted_salad_attempts\<close> selects rows holds exactly when the Python guard of
  \<open>_fail_exhausted_salad_attempt_before_submission\<close> lets the repair happen, whatever error code and detail it
  is called with; so the bounded query never wastes its limit on rows the guard would skip, and misses none.\<close>

theorem repair_query_matches_guard:
  assumes "oe_status e = OutboxDEAD_LETTER"
  shows "repair_candidate d e \<longleftrightarrow>
     snd (fail_exhausted_salad_attempt_before_submission d e t actor code detail act)"
proof (cases "get_attempt (oe_aggregate_id e) d")
  case None
  then show ?thesis
    by (simp add: repair_candidate_def fail_exhausted_salad_attempt_before_submission_def lock_salad_job_then_attempt_def)
next
  case (Some a)
  show ?thesis
  proof (cases "get_job (ga_job_id a) d")
    case None
    with Some show ?thesis
      by (simp add: repair_candidate_def fail_exhausted_salad_attempt_before_submission_def lock_salad_job_then_attempt_def)
  next
    case J: (Some j)
    have "repair_candidate d e \<longleftrightarrow> repairable d e a j"
      using assms Some J
      by (auto simp: repair_candidate_def repairable_def salad_submission_def no_submission_evidence_def
          owns_current_local_attempt_def other_active_attempt_def)
    then show ?thesis using fail_exhausted_eq [OF Some J] by simp
  qed
qed

lemma repair_query_matches_guard_witness:
  "repair_candidate sample_outbox (sample_event\<lparr>oe_status := OutboxDEAD_LETTER\<rparr>)
   \<and> snd (fail_exhausted_salad_attempt_before_submission sample_outbox (sample_event\<lparr>oe_status := OutboxDEAD_LETTER\<rparr>)
       7 ''w'' ''code'' None ''act'')"
proof -
  have st: "oe_status (sample_event\<lparr>oe_status := OutboxDEAD_LETTER\<rparr>) = OutboxDEAD_LETTER" by simp
  have "repair_candidate sample_outbox (sample_event\<lparr>oe_status := OutboxDEAD_LETTER\<rparr>)" by code_simp
  with repair_query_matches_guard [OF st, of sample_outbox] show ?thesis by simp
qed

text \<open>Enqueueing is exactly once. After an enqueue returned, the same request (same identity and
  content, at any time, whatever commits concurrently) adds no event and returns the same event, and a request for
  the same topic and key with another correlation is refused as a conflict.\<close>

theorem enqueue_exactly_once:
  assumes "enqueue_outbox_event interfere new_id clock d topic key corr agg agg_id payload n available actor now = Inr (d', r)"
    and "outbox_inv d" and "outbox_inv (interfere d)" and "well_keyed (PDict payload)"
    and "validate_nonempty actor2 ''actor'' 200 = Inr a2"
  shows "enqueue_outbox_event interfere2 id2 clock2 d' topic key corr agg agg_id payload n available2 actor2 now2
       = Inr (d', \<lparr>eq_event_id = eq_event_id r, eq_created = False\<rparr>)
     \<and> (\<forall>corr2 c2. validate_nonempty corr2 ''correlation_id'' 200 = Inr c2
          \<and> validate_nonempty corr ''correlation_id'' 200 \<noteq> Inr c2 \<longrightarrow>
          enqueue_outbox_event interfere2 id2 clock2 d' topic key corr2 agg agg_id payload n available2 actor2 now2
            = Inl (OutboxConflictError ''topic and dedupe_key already identify a different outbox event''))"
proof -
  have n: "0 < n" using assms(1) by (auto simp: enqueue_outbox_event_def bindE_eq_Inr split: if_splits)
  have "\<exists>t k c g e. validate_nonempty topic ''topic'' 200 = Inr t \<and> validate_nonempty key ''dedupe_key'' 200 = Inr k
      \<and> validate_nonempty corr ''correlation_id'' 200 = Inr c \<and> validate_nonempty agg ''aggregate_type'' 100 = Inr g
      \<and> find_event d' t k = Some e \<and> same_logical_event e c g agg_id payload n \<and> oe_id e = eq_event_id r"
    using assms(1)
  proof (cases rule: enqueue_cases)
    case (existing t k c g e)
    then show ?thesis by auto
  next
    case (created t k c g as)
    let ?e = "new_event new_id t k c g agg_id payload n (outbox_time (outbox_time clock now) available) (outbox_time clock now)"
    have "find_event d' t k = Some ?e"
      using created(8) by (simp add: created(9) find_event_def find_append event_identity_def new_event_def)
    moreover have "same_logical_event ?e c g agg_id payload n"
      using py_eq_refl [OF assms(4)] by (simp add: same_logical_event_def new_event_def)
    moreover have "oe_id ?e = eq_event_id r" by (simp add: new_event_def created(10))
    ultimately show ?thesis using created(1-4) by blast
  qed
  then obtain t k c g e where e: "validate_nonempty topic ''topic'' 200 = Inr t" "validate_nonempty key ''dedupe_key'' 200 = Inr k"
      "validate_nonempty corr ''correlation_id'' 200 = Inr c" "validate_nonempty agg ''aggregate_type'' 100 = Inr g"
      "find_event d' t k = Some e" "same_logical_event e c g agg_id payload n" "oe_id e = eq_event_id r"
    by blast
  note run = enqueue_outbox_event_def existing_result_def Let_def
  have "enqueue_outbox_event interfere2 id2 clock2 d' topic key corr agg agg_id payload n available2 actor2 now2
       = Inr (d', \<lparr>eq_event_id = eq_event_id r, eq_created = False\<rparr>)"
    using e assms(5) n by (simp add: run)
  moreover have "enqueue_outbox_event interfere2 id2 clock2 d' topic key corr2 agg agg_id payload n available2 actor2 now2
            = Inl (OutboxConflictError ''topic and dedupe_key already identify a different outbox event'')"
    if "validate_nonempty corr2 ''correlation_id'' 200 = Inr c2" "validate_nonempty corr ''correlation_id'' 200 \<noteq> Inr c2" for corr2 c2
  proof -
    have "\<not> same_logical_event e c2 g agg_id payload n" using e(3,6) that(2) by (auto simp: same_logical_event_def)
    then show ?thesis using e that(1) assms(5) n by (simp add: run)
  qed
  ultimately show ?thesis by blast
qed

lemma enqueue_exactly_once_witness:
  "\<exists>d r. enqueue_outbox_event id 70 0 sample_outbox ''mail.send'' ''k1'' ''c9'' ''user'' 3 [(''a'', PInt 1)] 5 None ''api'' (at_time 4)
       = Inr (d, r)
     \<and> enqueue_outbox_event id 71 0 d ''mail.send'' ''k1'' ''c9'' ''user'' 3 [(''a'', PInt 1)] 5 None ''api'' (at_time 8)
       = Inr (d, \<lparr>eq_event_id = eq_event_id r, eq_created = False\<rparr>)"
proof -
  have "case enqueue_outbox_event id 70 0 sample_outbox ''mail.send'' ''k1'' ''c9'' ''user'' 3 [(''a'', PInt 1)] 5 None ''api''
      (at_time 4) of Inl e \<Rightarrow> False | Inr y \<Rightarrow> True" by code_simp
  from returns [OF this] obtain d r where run: "enqueue_outbox_event id 70 0 sample_outbox ''mail.send'' ''k1'' ''c9'' ''user'' 3
      [(''a'', PInt 1)] 5 None ''api'' (at_time 4) = Inr (d, r)" by auto
  have v: "outbox_inv (id sample_outbox)" "well_keyed (PDict [(''a'', PInt 1)])" "validate_nonempty ''api'' ''actor'' 200 = Inr ''api''"
    using sample_outbox_inv by (simp, simp, code_simp)
  from enqueue_exactly_once [OF run sample_outbox_inv v, of id 71 0 None "at_time 8"] run show ?thesis by blast
qed

text \<open>Waiting is free. A worker that defers a submission before any effect gives its claim back: the
  event is PENDING again, available at the requested time, unleased, with the attempt count it had before it was
  claimed, so waiting for a precondition can never exhaust it; its attempt, its job and every other event are
  unchanged.\<close>

theorem deferral_returns_claim:
  assumes "outbox_inv d" and "defer_unstarted_outbox_event clock d k worker retry reason now = Inr (d', r)"
    and "get_event k d = Some (claimed_row w x e0)"
  shows "\<exists>e'. get_event k d' = Some e' \<and> oe_status e' = OutboxPENDING \<and> oe_attempts e' = oe_attempts e0
     \<and> oe_available_at e' = outbox_as_utc retry \<and> outbox_time clock now < oe_available_at e'
     \<and> unleased e' \<and> same_event e0 e' \<and> db_attempts d' = db_attempts d \<and> db_jobs d' = db_jobs d
     \<and> (\<forall>j. j \<noteq> k \<longrightarrow> get_event j d' = get_event j d)"
proof (rule defer_effect [OF assms(2,1)])
  fix w' c e a
  assume a: "validate_nonempty worker ''worker_id'' 200 = Inr w'" "validate_error_code reason = Inr c"
    "outbox_time clock now < outbox_as_utc retry" "get_event k d = Some e" "held_by e w' (outbox_time clock now)"
    "salad_submission e" "get_attempt (oe_aggregate_id e) d = Some a" "ga_state a = AttemptCREATED"
    "event_write d e (deferred_event (outbox_as_utc retry) c e) d'"
  have e: "e = claimed_row w x e0" "oe_id e = k" using a(4) assms(3) row_get_key [OF a(4)] by simp_all
  have tables: "db_attempts d' = db_attempts d \<and> db_jobs d' = db_jobs d"
    using assms(2) a by (auto simp: defer_unstarted_outbox_event_def Let_def split: if_splits)
  note get = event_write_get [OF a(9)]
  show ?thesis
    by (intro exI [of _ "deferred_event (outbox_as_utc retry) c e"])
      (use get tables a(3) e in \<open>auto simp: row_defs unleased_def same_event_def\<close>)
qed

lemma deferral_returns_claim_witness:
  "\<exists>d r e'. defer_unstarted_outbox_event 0 sample_outbox 61 ''w1'' (Aware 9000) ''budget_blocked'' (at_time 1000) = Inr (d, r)
     \<and> get_event 61 d = Some e' \<and> oe_attempts e' = 0 \<and> oe_available_at e' = 9000"
proof -
  have "case defer_unstarted_outbox_event 0 sample_outbox 61 ''w1'' (Aware 9000) ''budget_blocked'' (at_time 1000) of
      Inl e \<Rightarrow> False | Inr y \<Rightarrow> True" by code_simp
  from returns [OF this] obtain d r where run:
    "defer_unstarted_outbox_event 0 sample_outbox 61 ''w1'' (Aware 9000) ''budget_blocked'' (at_time 1000) = Inr (d, r)" by auto
  have "get_event 61 sample_outbox = Some (claimed_row ''w1'' 5000 (sample_leased\<lparr>oe_attempts := 0\<rparr>))"
    unfolding sample_found by (simp add: sample_leased_def sample_event_def claimed_row_def)
  from deferral_returns_claim [OF sample_outbox_inv run this] obtain e' where
    "get_event 61 d = Some e'" "oe_attempts e' = oe_attempts (sample_leased\<lparr>oe_attempts := 0\<rparr>)"
    "oe_available_at e' = outbox_as_utc (Aware 9000)"
    by blast
  with run show ?thesis by (intro exI [of _ d] exI [of _ r] exI [of _ e']) simp
qed

text \<open>Delivery is in order and starves nobody. If, after its maintenance, a claim leaves behind an event
  that was ready, of a requested topic and not locked by another transaction, then the claim returned exactly
  \<open>limit\<close> events, and each of them was due no later, in the order of availability, creation and identifier, than
  the one left behind.\<close>

theorem claim_serves_oldest_first:
  assumes "outbox_inv d"
    and "claim_outbox_events locked clock d worker limit seconds topics safe now = Inr (d', cs)"
    and "validate_nonempty worker ''worker_id'' 200 = Inr w" and "normalized_topics topics = Inr ts" and "ts \<noteq> Some []"
    and "d1 = claim_maintenance locked d w limit ts safe (outbox_time clock now)"
    and "get_event k d1 = Some e" and "claimable (outbox_time clock now) ts e" and "\<not> locked 3 k"
    and "k \<notin> ce_id ` set cs"
  shows "int (length cs) = limit
     \<and> (\<forall>c \<in> set cs. \<exists>x. get_event (ce_id c) d1 = Some x \<and> claimable (outbox_time clock now) ts x
          \<and> (oe_available_at x, oe_created_at x, oe_id x) \<le> (oe_available_at e, oe_created_at e, oe_id e))"
  using assms(2)
proof (cases rule: claim_cases)
  case none
  with assms(4,5) show ?thesis by simp
next
  case (some w' ts' t x d2)
  let ?t = "outbox_time clock now"
  have same: "w' = w" "ts' = ts" "t = ?t" "d2 = d1" using some(1,5,6,8) assms(3,4,6) by simp_all
  have inv: "outbox_inv d1" using maintenance_refines [OF assms(1)] by (simp add: assms(6))
  define es where "es = claim_query locked d1 ?t ts limit"
  note loop = claim_loop [OF inv es_def]
  have cs: "cs = map (\<lambda>e. claimed_view x (claimed_row w x e)) es"
    using some(10) unfolding same es_def .
  have ids: "ce_id ` set cs = oe_id ` set es" by (simp add: cs image_image claimed_view_def claimed_row_def)
  have "k = oe_id e" using row_get_key [OF assms(7)] by simp
  then have "e \<notin> set es" using assms(10) ids by auto
  moreover have "e \<in> set (db_outbox d1)" using assms(7) by (rule row_get_mem)
  moreover have "\<not> locked 3 (oe_id e)" using assms(9) \<open>k = oe_id e\<close> by simp
  ultimately have order: "length es = nat limit"
    "\<forall>y \<in> set es. (oe_available_at y, oe_created_at y, oe_id y) \<le> (oe_available_at e, oe_created_at e, oe_id e)"
    using select_events_order [of e d1 "claimable ?t ts"] assms(8) unfolding es_def claim_query_def by blast+
  have "int (length cs) = limit" using order(1) some(2) by (simp add: cs)
  moreover have "\<exists>y. get_event (ce_id c) d1 = Some y \<and> claimable ?t ts y
      \<and> (oe_available_at y, oe_created_at y, oe_id y) \<le> (oe_available_at e, oe_created_at e, oe_id e)"
    if "c \<in> set cs" for c
  proof -
    from that obtain y where y: "y \<in> set es" "ce_id c = oe_id y"
      by (auto simp: cs claimed_view_def claimed_row_def)
    with loop(5) [OF y(1)] order(2) show ?thesis by auto
  qed
  ultimately show ?thesis by blast
qed

definition sample_queue :: db where
  "sample_queue = sample_outbox\<lparr>db_outbox := [sample_event, sample_event\<lparr>oe_id := 62, oe_dedupe_key := ''b'', oe_available_at := 50\<rparr>]\<rparr>"

lemma sample_queue_inv: "outbox_inv sample_queue"
  by (simp add: outbox_inv_def db_ok_def sample_queue_def sample_outbox_defs job_ok_def attempt_ok_def event_ok_def
      event_identity_def event_inv_def finished_def)

lemma claim_serves_oldest_first_witness:
  "\<exists>d c. claim_outbox_events (\<lambda>q k. False) 0 sample_queue ''w2'' 1 30 None [] (at_time 1000) = Inr (d, [c]) \<and> ce_id c = 62"
proof -
  let ?d1 = "claim_maintenance (\<lambda>q k. False) sample_queue ''w2'' 1 None [] (outbox_time 0 (at_time 1000))"
  have "case claim_outbox_events (\<lambda>q k. False) 0 sample_queue ''w2'' 1 30 None [] (at_time 1000) of
      Inl e \<Rightarrow> False | Inr y \<Rightarrow> map ce_id (snd y) = [62]" by code_simp
  from returns [OF this] obtain d c where
    run: "claim_outbox_events (\<lambda>q k. False) 0 sample_queue ''w2'' 1 30 None [] (at_time 1000) = Inr (d, [c])" "ce_id c = 62"
    by auto
  have v: "validate_nonempty ''w2'' ''worker_id'' 200 = Inr ''w2''" "normalized_topics None = Inr None"
    "(None :: string list option) \<noteq> Some []" by (code_simp, code_simp, simp)
  have left: "get_event 60 ?d1 = Some sample_event" "claimable (outbox_time 0 (at_time 1000)) None sample_event" by code_simp+
  have "60 \<notin> ce_id ` set [c]" using run(2) by simp
  from claim_serves_oldest_first [OF sample_queue_inv run(1) v refl left _ this] run show ?thesis by blast
qed

end
