(* ===== verification/NearBlackTheorems.thy ===== *)
theory NearBlackTheorems
  imports NearBlack
begin

text \<open>
  The theorems about near-black seed recovery: what a built plan does to the seeds of a job, that a
  built plan always validates and is accepted again from its persisted form, and that only the plan
  rebuilt from the immutable inputs is ever accepted.
\<close>

section \<open>Seeds\<close>

lemma require_bounded_int_Inr [simp]:
  "require_bounded_int v name lo hi = Inr x \<longleftrightarrow> x = v \<and> lo \<le> v \<and> v \<le> hi"
  by (auto simp: require_bounded_int_def)

lemma mask_seed: "x AND NB_MAX_SEED = x mod 2 ^ 63"
proof -
  have "NB_MAX_SEED = mask 63" by (simp add: NB_MAX_SEED_def mask_eq_exp_minus_1)
  then show ?thesis by (metis take_bit_eq_mask take_bit_eq_mod)
qed

lemma masked_bounds: "0 \<le> x AND NB_MAX_SEED" "x AND NB_MAX_SEED \<le> NB_MAX_SEED"
proof -
  have "0 \<le> NB_MAX_SEED" by (simp add: NB_MAX_SEED_def)
  then show "0 \<le> x AND NB_MAX_SEED" "x AND NB_MAX_SEED \<le> NB_MAX_SEED" by (simp_all add: AND_upper2)
qed

lemma derive_bounds:
  assumes "derive_near_black_seed_v1 sha256 job i s g c = Inr r"
  shows "0 \<le> r" "r \<le> NB_MAX_SEED" "0 \<le> c" "c \<le> NB_MAX_U32" "0 \<le> s" "s \<le> NB_MAX_SEED"
  using assms masked_bounds by (auto simp: derive_near_black_seed_v1_def bindE_eq_Inr Let_def)

text \<open>The loop returns the first counter whose derived seed is free.\<close>

lemma find_recovery_seed_first:
  assumes "find_recovery_seed sha256 job i s g used c = Inr (r, c')"
  shows "r \<notin> used \<and> c \<le> c' \<and> derive_near_black_seed_v1 sha256 job i s g c' = Inr r
     \<and> (\<forall>k. c \<le> k \<and> k < c' \<longrightarrow> (\<exists>x \<in> used. derive_near_black_seed_v1 sha256 job i s g k = Inr x))"
  using assms
proof (induction sha256 job i s g used c rule: find_recovery_seed.induct)
  case (1 sha256 job i s g used c)
  show ?case
  proof (cases "derive_near_black_seed_v1 sha256 job i s g c")
    case (Inl e)
    with 1(2) show ?thesis by (simp add: find_recovery_seed.simps [of sha256 job i s g used c])
  next
    case (Inr x)
    show ?thesis
    proof (cases "x \<notin> used")
      case True
      with 1(2) Inr show ?thesis
        by (auto simp: find_recovery_seed.simps [of sha256 job i s g used c])
    next
      case False
      with 1(2) Inr have c: "c \<noteq> NB_MAX_U32"
        and rec: "find_recovery_seed sha256 job i s g used (c + 1) = Inr (r, c')"
        by (auto simp: find_recovery_seed.simps [of sha256 job i s g used c] split: if_splits)
      have split: "k = c \<or> c + 1 \<le> k" if "c \<le> k" for k using that by linarith
      have "c \<le> c'" "derive_near_black_seed_v1 sha256 job i s g c' = Inr r" "r \<notin> used"
        "\<forall>k. c + 1 \<le> k \<and> k < c' \<longrightarrow> (\<exists>x \<in> used. derive_near_black_seed_v1 sha256 job i s g k = Inr x)"
        using 1(1) [OF Inr _ c rec] False by auto
      then show ?thesis using False Inr split by blast
    qed
  qed
qed

definition rewrites_ok :: "(8 word list \<Rightarrow> 8 word list) \<Rightarrow> uuid \<Rightarrow> int \<Rightarrow> int list \<Rightarrow> int set \<Rightarrow> int list \<Rightarrow> NearBlackSeedRewrite list \<Rightarrow> bool" where
  "rewrites_ok sha256 job g seeds used is rs \<longleftrightarrow> map rw_output_index rs = is
     \<and> map rw_original_seed rs = map (\<lambda>i. seeds ! nat i) is \<and> distinct (map rw_recovery_seed rs)
     \<and> set (map rw_recovery_seed rs) \<inter> used = {} \<and> list_all (rewrite_is_derived sha256 job g) rs"

lemma build_rewrites_ok:
  "build_rewrites sha256 job g seeds used is = Inr rs \<Longrightarrow> rewrites_ok sha256 job g seeds used is rs"
proof (induction "is" arbitrary: used rs)
  case Nil
  then show ?case by (simp add: rewrites_ok_def)
next
  case (Cons i "is")
  then obtain r c rest where f: "find_recovery_seed sha256 job i (seeds ! nat i) g used 0 = Inr (r, c)"
      "build_rewrites sha256 job g seeds (insert r used) is = Inr rest"
      "rs = \<lparr>rw_output_index = i, rw_original_seed = seeds ! nat i, rw_recovery_seed = r,
         rw_collision_counter = c\<rparr> # rest"
    by (auto simp: bindE_eq_Inr)
  with Cons.IH [OF f(2)] find_recovery_seed_first [OF f(1)] show ?case
    by (auto simp: rewrites_ok_def rewrite_is_derived_def)
qed

section \<open>The effective seeds\<close>

lemma effective_length [simp]: "length (effective_seeds seeds rs) = length seeds"
  by (induction rs arbitrary: seeds) (simp_all add: effective_seeds_def)

lemma effective_suffix:
  assumes "map rw_output_index rs = [int k..int (length seeds) - 1]" and "k \<le> length seeds"
  shows "effective_seeds seeds rs = take k seeds @ map rw_recovery_seed rs"
  using assms
proof (induction rs arbitrary: seeds k)
  case Nil
  then have "k = length seeds" by auto
  then show ?case by (simp add: effective_seeds_def)
next
  case (Cons r rs)
  have k: "k < length seeds" using Cons.prems(1) by (cases "k < length seeds") auto
  then have "[int k..int (length seeds) - 1] = int k # [int (Suc k)..int (length seeds) - 1]"
    by (simp add: upto.simps [of "int k"] add.commute)
  with Cons.prems(1) have r: "rw_output_index r = int k"
    and rs: "map rw_output_index rs = [int (Suc k)..int (length seeds) - 1]" by simp_all
  let ?seeds = "seeds[k := rw_recovery_seed r]"
  have "effective_seeds seeds (r # rs) = effective_seeds ?seeds rs"
    by (simp add: effective_seeds_def r)
  also have "\<dots> = take (Suc k) ?seeds @ map rw_recovery_seed rs"
    using Cons.IH [of "Suc k" ?seeds] rs k by simp
  also have "\<dots> = take k seeds @ map rw_recovery_seed (r # rs)"
    using k by (simp add: take_Suc_conv_app_nth)
  finally show ?case .
qed

text \<open>What a successful build went through.\<close>

lemma build_cases:
  assumes "build_near_black_seed_recovery_plan sha256 job audit attempt attempt_no ordinal failed n_out uploaded seeds = Inr p"
  obtains rs where "1 \<le> attempt_no" "attempt_no \<le> NB_MAX_U32" "1 \<le> ordinal" "ordinal \<le> NB_MAX_U32"
    "1 \<le> n_out" "n_out \<le> MAX_OUTPUTS_PER_GENERATION_JOB" "0 \<le> failed" "failed \<le> n_out - 1"
    "int (length seeds) = n_out" "distinct seeds" "\<forall>s \<in> set seeds. 0 \<le> s \<and> s \<le> NB_MAX_SEED"
    "uploaded = [] \<or> uploaded = [0..failed - 1]"
    "build_rewrites sha256 job ordinal seeds (set seeds) [failed..n_out - 1] = Inr rs"
    "valid_plan_fields p" "validate_contract sha256 p = Inr ()"
    "np_version p = NB_VERSION" "np_generation_job_id p = uuid_str job" "np_source_grant_audit_event_id p = uuid_str audit"
    "np_source_generation_attempt_id p = uuid_str attempt" "np_source_attempt_no p = attempt_no"
    "np_grant_ordinal p = ordinal" "np_failed_output_index p = failed" "np_expected_output_count p = n_out"
    "np_uploaded_output_indices p = uploaded" "np_seed_rewrites p = rs"
proof -
  have id: "mapE (\<lambda>s. require_bounded_int s name lo hi) xs = Inr ys \<longleftrightarrow> ys = xs \<and> (\<forall>s \<in> set xs. lo \<le> s \<and> s \<le> hi)"
    for name lo hi xs ys
    by (induction xs arbitrary: ys) (auto simp: bindE_eq_Inr)
  show thesis
    using assms that
    by (auto simp: build_near_black_seed_recovery_plan_def validated_original_seeds_def construct_plan_def
        bindE_eq_Inr Let_def id split: if_splits)
qed

lemma mapE_bounded:
  "mapE (\<lambda>s. require_bounded_int s name lo hi) xs = Inr ys \<longleftrightarrow> ys = xs \<and> (\<forall>s \<in> set xs. lo \<le> s \<and> s \<le> hi)"
  by (induction xs arbitrary: ys) (auto simp: bindE_eq_Inr)

lemma mapE_bounded_error:
  "mapE (\<lambda>s. require_bounded_int s name lo hi) xs = Inl e \<Longrightarrow>
     e = NearBlackRecoveryPlanError (name @ '' is outside the recovery contract'')"
  by (induction xs) (auto simp: bindE_eq_Inl require_bounded_int_def split: if_splits)

section \<open>Identifiers and digests as text\<close>

definition hex_char :: "nat \<Rightarrow> char" where
  "hex_char d = char_of (if d < 10 then 48 + d else 87 + d)"

lemma hex_char_facts:
  assumes "d < 16"
  shows "hex_value (hex_char d) = d" "is_lower_hex (hex_char d)" "hex_char d \<noteq> CHR ''-''"
proof -
  have c: "ch (hex_char d) = (if d < 10 then 48 + d else 87 + d)"
    using assms by (simp add: ch_def hex_char_def)
  show "hex_value (hex_char d) = d" using c by (simp add: hex_value_def is_digit_def)
  show "is_lower_hex (hex_char d)" using c assms by (simp add: is_lower_hex_def is_digit_def)
  have dash: "ch (CHR ''-'') = 45" by (simp add: ch_def)
  show "hex_char d \<noteq> CHR ''-''"
  proof
    assume "hex_char d = CHR ''-''"
    with c dash have "(if d < 10 then 48 + d else 87 + d) = 45" by simp
    then show False by (simp split: if_splits)
  qed
qed

lemma hex_digits_Suc: "hex_digits (Suc w) n = hex_digits w (n div 16) @ [hex_char (n mod 16)]"
  by (simp add: hex_char_def)

lemma hex_digits_all: "list_all is_lower_hex (hex_digits w n)" "CHR ''-'' \<notin> set (hex_digits w n)"
proof (induction w arbitrary: n)
  case (Suc w)
  {
    case 1
    show ?case using Suc hex_char_facts [of "n mod 16"] by (simp del: hex_digits.simps add: hex_digits_Suc)
  next
    case 2
    show ?case using Suc hex_char_facts [of "n mod 16"] by (auto simp del: hex_digits.simps simp: hex_digits_Suc)
  }
qed simp_all

lemma parse_hex_digits: "foldl (\<lambda>a c. a * 16 + hex_value c) 0 (hex_digits w n) = n mod 16 ^ w"
proof (induction w arbitrary: n)
  case (Suc w)
  have "n mod 16 ^ Suc w = n div 16 mod 16 ^ w * 16 + n mod 16"
    using mod_mult2_eq [of n 16 "16 ^ w"] by simp
  then show ?case using Suc hex_char_facts [of "n mod 16"] by (simp del: hex_digits.simps add: hex_digits_Suc)
qed simp

lemma uuid_roundtrip:
  assumes "u < 2 ^ 128"
  shows "uuid_of_str (uuid_str u) = u"
proof -
  let ?h = "hex_digits 32 u"
  have dash: "x \<noteq> CHR ''-''" if "x \<in> set ?h" for x
    using hex_digits_all(2) [of 32 u] that by blast
  have keep: "filter (\<lambda>c. c \<noteq> CHR ''-'') xs = xs" if "set xs \<subseteq> set ?h" for xs
    using that dash by (intro filter_True) blast
  have sub: "set (take n ?h) \<subseteq> set ?h" "set (drop n ?h) \<subseteq> set ?h" "set (take n (drop m ?h)) \<subseteq> set ?h" for n m
    by (meson set_take_subset set_drop_subset order_trans)+
  have one: "filter (\<lambda>c. c \<noteq> CHR ''-'') ''-'' = []" by simp
  have "filter (\<lambda>c. c \<noteq> CHR ''-'') (uuid_str u)
      = take 8 ?h @ take 4 (drop 8 ?h) @ take 4 (drop 12 ?h) @ take 4 (drop 16 ?h) @ drop 20 ?h"
    unfolding uuid_str_def Let_def filter_append one keep [OF sub(1)] keep [OF sub(2)] keep [OF sub(3)] append_Nil ..
  also have "\<dots> = ?h"
  proof -
    have step: "take n (drop m ?h) @ drop (m + n) ?h = drop m ?h" for n m
      by (metis append_take_drop_id drop_drop add.commute)
    show ?thesis using step [of 4 16] step [of 4 12] step [of 4 8] by simp
  qed
  finally have "uuid_of_str (uuid_str u) = u mod 16 ^ 32"
    by (simp only: uuid_of_str_def parse_hex_digits)
  with assms show ?thesis by simp
qed

lemma uuid_str_pattern: "uuid_pattern (uuid_str u)"
proof -
  let ?h = "hex_digits 32 u"
  have "list_all is_lower_hex (take n (drop m ?h))" "list_all is_lower_hex (take n ?h)" "list_all is_lower_hex (drop m ?h)" for n m
    using hex_digits_all(1) [of 32 u] by (auto simp: list_all_iff dest!: in_set_takeD in_set_dropD)
  then show ?thesis by (simp add: uuid_pattern_def uuid_str_def Let_def nth_append)
qed

lemma hexdigest_pattern: "length bs = 32 \<Longrightarrow> sha256_pattern (hexdigest bs)"
proof -
  have "length (hexdigest bs) = 2 * length bs" "list_all is_lower_hex (hexdigest bs)"
    by (induction bs) (simp_all add: hexdigest_def hex_digits_all del: hex_digits.simps)
  then show "length bs = 32 \<Longrightarrow> sha256_pattern (hexdigest bs)" by (simp add: sha256_pattern_def)
qed

section \<open>Built plans\<close>

lemma rewrites_in_range:
  assumes "rewrites_ok sha256 job g seeds used [lo..hi] rs" and "0 \<le> lo" and "hi < MAX_OUTPUTS_PER_GENERATION_JOB"
  shows "list_all valid_rewrite rs"
  unfolding list_all_iff
proof
  fix r assume r: "r \<in> set rs"
  from r assms(1) have d: "rewrite_is_derived sha256 job g r" by (simp add: rewrites_ok_def list_all_iff)
  have "rw_output_index r \<in> set [lo..hi]"
    using assms(1) r unfolding rewrites_ok_def by (metis imageI list.set_map)
  with derive_bounds [OF d [unfolded rewrite_is_derived_def]] assms(2,3) show "valid_rewrite r"
    by (simp add: valid_rewrite_def valid_output_index_def)
qed

lemma originals_suffix:
  assumes "rewrites_ok sha256 job g seeds used [int k..int (length seeds) - 1] rs"
  shows "map rw_original_seed rs = drop k seeds"
proof -
  have "map (\<lambda>i. seeds ! nat i) [int k..int (length seeds) - 1] = drop k seeds"
    by (rule nth_equalityI) (auto simp: nat_add_distrib)
  with assms show ?thesis by (simp add: rewrites_ok_def)
qed

abbreviation invalid_plan :: near_black_error where
  "invalid_plan \<equiv> NearBlackRecoveryPlanError ''the recovery plan is invalid''"

lemma require_bounded_int_Inl:
  "require_bounded_int v name lo hi = Inl e \<longleftrightarrow>
     (v < lo \<or> hi < v) \<and> e = NearBlackRecoveryPlanError (name @ '' is outside the recovery contract'')"
  by (auto simp: require_bounded_int_def)

lemma derive_error: "derive_near_black_seed_v1 sha256 job i s g c \<noteq> Inl invalid_plan"
  by (simp add: derive_near_black_seed_v1_def bindE_eq_Inl require_bounded_int_Inl Let_def)

lemma find_error: "find_recovery_seed sha256 job i s g used c \<noteq> Inl invalid_plan"
proof (induction sha256 job i s g used c rule: find_recovery_seed.induct)
  case (1 sha256 job i s g used c)
  show ?case
  proof (cases "derive_near_black_seed_v1 sha256 job i s g c")
    case (Inl e)
    with derive_error [of sha256 job i s g c] show ?thesis
      by (simp add: find_recovery_seed.simps [of sha256 job i s g used c])
  next
    case (Inr x)
    with 1 [OF Inr] show ?thesis by (simp add: find_recovery_seed.simps [of sha256 job i s g used c])
  qed
qed

lemma validated_seeds_Inr:
  "validated_original_seeds seeds n = Inr xs \<longleftrightarrow> xs = seeds \<and> int (length seeds) = n \<and> distinct seeds
     \<and> (\<forall>s \<in> set seeds. 0 \<le> s \<and> s \<le> NB_MAX_SEED)"
  by (auto simp: validated_original_seeds_def bindE_eq_Inr mapE_bounded split: if_splits)

lemma validated_seeds_error: "validated_original_seeds seeds n \<noteq> Inl invalid_plan"
  by (auto simp: validated_original_seeds_def bindE_eq_Inl split: if_splits dest!: mapE_bounded_error)

lemma build_rewrites_error: "build_rewrites sha256 job g seeds used is \<noteq> Inl invalid_plan"
  by (induction "is" arbitrary: used) (auto simp: bindE_eq_Inl find_error)

definition candidate_plan where
  "candidate_plan sha256 job audit attempt attempt_no ordinal failed n_out uploaded seeds rs =
     (let provisional = \<lparr>np_version = NB_VERSION, np_generation_job_id = uuid_str job,
             np_source_grant_audit_event_id = uuid_str audit,
             np_source_generation_attempt_id = uuid_str attempt, np_source_attempt_no = attempt_no,
             np_grant_ordinal = ordinal, np_failed_output_index = failed, np_expected_output_count = n_out,
             np_uploaded_output_indices = uploaded, np_seed_rewrites = rs,
             np_seed_map_sha256 = canonical_sha256 sha256 (seed_map_payload (effective_seeds seeds rs)),
             np_plan_sha256 = replicate 64 (CHR ''0'')\<rparr>
      in provisional\<lparr>np_plan_sha256 := canonical_sha256 sha256 (PDict (plan_payload provisional))\<rparr>)"

lemma build_invalid:
  assumes "build_near_black_seed_recovery_plan sha256 job audit attempt attempt_no ordinal failed n_out uploaded seeds
    = Inl invalid_plan"
  obtains rs where "1 \<le> attempt_no" "attempt_no \<le> NB_MAX_U32" "1 \<le> ordinal" "ordinal \<le> NB_MAX_U32"
    "1 \<le> n_out" "n_out \<le> MAX_OUTPUTS_PER_GENERATION_JOB" "0 \<le> failed" "failed \<le> n_out - 1"
    "int (length seeds) = n_out" "distinct seeds" "uploaded = [] \<or> uploaded = [0..failed - 1]"
    "build_rewrites sha256 job ordinal seeds (set seeds) [failed..n_out - 1] = Inr rs"
    "construct_plan sha256 (candidate_plan sha256 job audit attempt attempt_no ordinal failed n_out uploaded seeds rs)
       = Inl invalid_plan"
  using assms that
  by (auto simp: build_near_black_seed_recovery_plan_def candidate_plan_def bindE_eq_Inl require_bounded_int_Inl
      mapE_bounded validated_seeds_Inr validated_seeds_error build_rewrites_error Let_def
      dest!: mapE_bounded_error split: if_splits)

lemma build_succeeds:
  assumes "\<And>x. length (sha256 x) = 32" and "job < 2 ^ 128"
    and b: "1 \<le> attempt_no" "attempt_no \<le> NB_MAX_U32" "1 \<le> ordinal" "ordinal \<le> NB_MAX_U32"
      "1 \<le> n_out" "n_out \<le> MAX_OUTPUTS_PER_GENERATION_JOB" "0 \<le> failed" "failed \<le> n_out - 1"
      "int (length seeds) = n_out" "distinct seeds"
      "uploaded = [] \<or> uploaded = [0..failed - 1]"
      "build_rewrites sha256 job ordinal seeds (set seeds) [failed..n_out - 1] = Inr rs"
  shows "construct_plan sha256 (candidate_plan sha256 job audit attempt attempt_no ordinal failed n_out uploaded seeds rs)
     = Inr (candidate_plan sha256 job audit attempt attempt_no ordinal failed n_out uploaded seeds rs)"
proof -
  note ok = build_rewrites_ok [OF b(12)]
  have sha: "sha256_pattern (canonical_sha256 sha256 v)" for v
    unfolding canonical_sha256_def by (rule hexdigest_pattern) (rule assms(1))
  have k: "failed = int (nat failed)" "nat failed \<le> length seeds" using b(7-9) by simp_all
  have orig: "map rw_original_seed rs = drop (nat failed) seeds"
    using ok b(9) k(1) by (intro originals_suffix) simp
  have fields: "list_all valid_rewrite rs" using ok b(6,7) by (intro rewrites_in_range) auto
  have up: "list_all valid_output_index uploaded"
    using b(6-8,11) by (auto simp: valid_output_index_def list_all_iff)
  have disj: "set (map rw_original_seed rs) \<inter> set (map rw_recovery_seed rs) = {}"
    using ok set_drop_subset [of "nat failed" seeds] unfolding orig rewrites_ok_def by blast
  have dist: "distinct (map rw_original_seed rs)" unfolding orig using b(10) by (rule distinct_drop)
  have dist': "distinct (map rw_recovery_seed rs)" using ok by (simp add: rewrites_ok_def)
  have derived: "list_all (rewrite_is_derived sha256 (uuid_of_str (uuid_str job)) ordinal) rs"
    "map rw_output_index rs = [failed..n_out - 1]"
    using ok by (simp_all add: rewrites_ok_def uuid_roundtrip [OF assms(2)])
  show ?thesis
    using b sha fields up disj dist dist' derived
    by (simp add: candidate_plan_def construct_plan_def valid_plan_fields_def validate_contract_def Let_def uuid_str_pattern
        valid_output_index_def plan_payload_def)
qed

definition sample_sha256 :: "8 word list \<Rightarrow> 8 word list" where
  "sample_sha256 x = replicate 32 0"

lemma sample_derive:
  assumes "0 \<le> i" "i \<le> NB_MAX_U32" "0 \<le> s" "s \<le> NB_MAX_SEED" "1 \<le> g" "g \<le> NB_MAX_U32" "0 \<le> c" "c \<le> NB_MAX_U32"
  shows "derive_near_black_seed_v1 sample_sha256 job i s g c = Inr 0"
proof -
  have "from_bytes (take 8 (replicate 32 0)) = 0" by code_simp
  with assms show ?thesis
    by (simp add: derive_near_black_seed_v1_def require_bounded_int_def sample_sha256_def Let_def)
qed

lemma sample_rewrites: "build_rewrites sample_sha256 9 1 [7, 5] (set [7, 5]) [1..2 - 1] = Inr
   [\<lparr>rw_output_index = 1, rw_original_seed = 5, rw_recovery_seed = 0, rw_collision_counter = 0\<rparr>]"
proof -
  have "derive_near_black_seed_v1 sample_sha256 9 1 5 1 0 = Inr 0"
    by (rule sample_derive) (simp_all add: NB_MAX_U32_def NB_MAX_SEED_def)
  then show ?thesis by (simp add: find_recovery_seed.simps)
qed

lemma sample_plan_built:
  obtains p where "build_near_black_seed_recovery_plan sample_sha256 9 10 11 1 1 1 2 [0] [7, 5] = Inr p"
    "effective_seeds [7, 5] (np_seed_rewrites p) = [7, 0]"
proof -
  let ?rs = "[\<lparr>rw_output_index = 1, rw_original_seed = 5, rw_recovery_seed = 0, rw_collision_counter = 0\<rparr>]"
  let ?p = "candidate_plan sample_sha256 9 10 11 1 1 1 2 [0] [7, 5] ?rs"
  have ok: "construct_plan sample_sha256 ?p = Inr ?p"
    by (rule build_succeeds [OF _ _ _ _ _ _ _ _ _ _ _ _ _ sample_rewrites])
      (simp_all add: sample_sha256_def NB_MAX_U32_def MAX_OUTPUTS_PER_GENERATION_JOB_def)
  have bounded: "require_bounded_int v name lo hi = Inr v" if "lo \<le> v" "v \<le> hi" for v name lo hi
    using that by simp
  have seeds: "validated_original_seeds [7, 5] 2 = Inr [7, 5]"
    by (simp add: validated_seeds_Inr NB_MAX_SEED_def)
  have "build_near_black_seed_recovery_plan sample_sha256 9 10 11 1 1 1 2 [0] [7, 5] = construct_plan sample_sha256 ?p"
    using sample_rewrites
    by (simp add: build_near_black_seed_recovery_plan_def bounded seeds NB_MAX_U32_def MAX_OUTPUTS_PER_GENERATION_JOB_def
        candidate_plan_def)
  with ok that show thesis by (simp add: candidate_plan_def effective_seeds_def Let_def)
qed

text \<open>C34: A recovery plan replaces exactly the failed suffix. When \<open>build_near_black_seed_recovery_plan\<close>
  returns a plan, applying its rewrites keeps the number of seeds and every seed before the failed index, every seed
  from the failed index on is new (it is none of the job's original seeds), and the effective seeds are pairwise
  distinct non-negative 63-bit numbers.\<close>

theorem plan_replaces_failed_suffix:
  assumes "build_near_black_seed_recovery_plan sha256 job audit attempt attempt_no ordinal failed n_out uploaded seeds = Inr p"
  defines "eff \<equiv> effective_seeds seeds (np_seed_rewrites p)"
  shows "length eff = length seeds \<and> take (nat failed) eff = take (nat failed) seeds
     \<and> set (drop (nat failed) eff) \<inter> set seeds = {} \<and> distinct eff
     \<and> length (drop (nat failed) eff) > 0 \<and> (\<forall>s \<in> set eff. 0 \<le> s \<and> s < 2 ^ 63)"
proof (rule build_cases [OF assms(1)])
  fix rs
  assume b: "0 \<le> failed" "failed \<le> n_out - 1" "int (length seeds) = n_out" "distinct seeds"
    "\<forall>s \<in> set seeds. 0 \<le> s \<and> s \<le> NB_MAX_SEED"
    "build_rewrites sha256 job ordinal seeds (set seeds) [failed..n_out - 1] = Inr rs" "np_seed_rewrites p = rs"
  define k where "k = nat failed"
  have k: "failed = int k" "k < length seeds" using b(1-3) by (simp_all add: k_def)
  note ok = build_rewrites_ok [OF b(6)]
  have eff: "eff = take k seeds @ map rw_recovery_seed rs"
    unfolding eff_def b(7) using ok k b(3) by (intro effective_suffix) (simp_all add: rewrites_ok_def)
  have new: "set (map rw_recovery_seed rs) \<inter> set seeds = {}" "distinct (map rw_recovery_seed rs)"
    using ok by (simp_all add: rewrites_ok_def)
  have "rw_recovery_seed r \<le> NB_MAX_SEED \<and> 0 \<le> rw_recovery_seed r" if "r \<in> set rs" for r
  proof -
    have "rewrite_is_derived sha256 job ordinal r" using ok that by (simp add: rewrites_ok_def list_all_iff)
    then show ?thesis using derive_bounds unfolding rewrite_is_derived_def by blast
  qed
  then have "\<forall>s \<in> set eff. 0 \<le> s \<and> s \<le> NB_MAX_SEED" using b(5) by (auto simp: eff dest: in_set_takeD)
  then have bounds: "\<forall>s \<in> set eff. 0 \<le> s \<and> s < 2 ^ 63" unfolding NB_MAX_SEED_def by auto
  have len: "length eff = length seeds" unfolding eff_def by simp
  have "distinct eff"
    using new b(4) set_take_subset [of k seeds] by (auto simp: eff)
  moreover have "rs \<noteq> []" using len k by (auto simp: eff)
  ultimately show ?thesis using len bounds new(1) k by (simp add: eff k_def [symmetric])
qed

lemma plan_replaces_failed_suffix_witness:
  "\<exists>p. build_near_black_seed_recovery_plan sample_sha256 9 10 11 1 1 1 2 [0] [7, 5] = Inr p
     \<and> distinct (effective_seeds [7, 5] (np_seed_rewrites p))"
proof (rule sample_plan_built)
  fix p assume run: "build_near_black_seed_recovery_plan sample_sha256 9 10 11 1 1 1 2 [0] [7, 5] = Inr p"
  from plan_replaces_failed_suffix [OF run] run show ?thesis by blast
qed

text \<open>Building is total up to bad input and exhaustion. With a digest of 32 bytes, every plan the builder
  assembles satisfies the model's own field checks and contract: the final \<open>the recovery plan is invalid\<close> branch of
  \<open>build_near_black_seed_recovery_plan\<close> is unreachable.\<close>

theorem built_plan_always_validates:
  assumes "\<And>x. length (sha256 x) = 32" and "job < 2 ^ 128"
  shows "build_near_black_seed_recovery_plan sha256 job audit attempt attempt_no ordinal failed n_out uploaded seeds
     \<noteq> Inl (NearBlackRecoveryPlanError ''the recovery plan is invalid'')"
proof
  assume err: "build_near_black_seed_recovery_plan sha256 job audit attempt attempt_no ordinal failed n_out uploaded seeds
     = Inl (NearBlackRecoveryPlanError ''the recovery plan is invalid'')"
  obtain rs where b: "1 \<le> attempt_no" "attempt_no \<le> NB_MAX_U32" "1 \<le> ordinal" "ordinal \<le> NB_MAX_U32"
      "1 \<le> n_out" "n_out \<le> MAX_OUTPUTS_PER_GENERATION_JOB" "0 \<le> failed" "failed \<le> n_out - 1"
      "int (length seeds) = n_out" "distinct seeds"
      "uploaded = [] \<or> uploaded = [0..failed - 1]"
      "build_rewrites sha256 job ordinal seeds (set seeds) [failed..n_out - 1] = Inr rs"
      "construct_plan sha256 (candidate_plan sha256 job audit attempt attempt_no ordinal failed n_out uploaded seeds rs)
         = Inl invalid_plan"
    by (rule build_invalid [OF err])
  from build_succeeds [OF assms b(1-12), of audit attempt] b(13) show False by simp
qed

lemma built_plan_always_validates_witness:
  "build_near_black_seed_recovery_plan sample_sha256 9 10 11 1 1 1 2 [0] [7, 5]
     \<noteq> Inl (NearBlackRecoveryPlanError ''the recovery plan is invalid'')"
  by (rule built_plan_always_validates) (simp_all add: sample_sha256_def)

section \<open>Persisted plans\<close>

lemma mapO_id: "(\<And>x. dec (enc x) = Some x) \<Longrightarrow> mapO dec (map enc xs) = Some xs"
  by (induction xs) auto

lemma decode_dump_rewrite: "decode_rewrite (dump_rewrite r) = Some r"
  by (simp add: decode_rewrite_def dump_rewrite_def field_def strict_int_def)

lemma decode_dump_plan: "decode_plan (dump_plan p) = Some p"
proof -
  have ints: "mapO strict_int (map PInt xs) = Some xs" for xs by (rule mapO_id) (simp add: strict_int_def)
  have rws: "mapO decode_rewrite (map dump_rewrite xs) = Some xs" for xs by (rule mapO_id) (rule decode_dump_rewrite)
  show ?thesis
    by (simp add: decode_plan_def dump_plan_def plan_payload_def plan_keys_def field_def strict_int_def strict_str_def
        strict_list_def ints rws)
qed

text \<open>Whatever JSON decodes to a built plan is accepted, with its effective seeds.\<close>

lemma require_decoded_plan:
  assumes "build_near_black_seed_recovery_plan sha256 job audit attempt attempt_no ordinal failed n_out uploaded seeds = Inr p"
    and raw: "decode_plan raw = Some p" and "audit < 2 ^ 128" and "attempt < 2 ^ 128"
    and "attempt_no < target" and "target \<le> NB_MAX_U32"
  shows "require_near_black_seed_recovery_plan sha256 raw job n_out seeds audit attempt attempt_no ordinal target = Inr p"
proof (rule build_cases [OF assms(1)])
  fix rs
  assume b: "1 \<le> attempt_no" "attempt_no \<le> NB_MAX_U32" "1 \<le> ordinal" "ordinal \<le> NB_MAX_U32"
    "1 \<le> n_out" "n_out \<le> MAX_OUTPUTS_PER_GENERATION_JOB" "int (length seeds) = n_out" "distinct seeds"
    "\<forall>s \<in> set seeds. 0 \<le> s \<and> s \<le> NB_MAX_SEED"
  assume v: "valid_plan_fields p" "validate_contract sha256 p = Inr ()"
  assume p: "np_generation_job_id p = uuid_str job" "np_source_grant_audit_event_id p = uuid_str audit"
    "np_source_generation_attempt_id p = uuid_str attempt" "np_source_attempt_no p = attempt_no"
    "np_grant_ordinal p = ordinal" "np_failed_output_index p = failed" "np_expected_output_count p = n_out"
    "np_uploaded_output_indices p = uploaded"
  have bounded: "require_bounded_int v name lo hi = Inr v" if "lo \<le> v" "v \<le> hi" for v name lo hi
    using that by simp
  have parsed: "parse_near_black_seed_recovery_plan sha256 raw = Inr p"
    using raw v by (simp add: parse_near_black_seed_recovery_plan_def construct_plan_def)
  have seeds: "validated_original_seeds seeds n_out = Inr seeds" using b by (simp add: validated_seeds_Inr)
  show ?thesis
    using b(1-6) assms parsed p seeds
    by (simp add: require_near_black_seed_recovery_plan_def bounded uuid_roundtrip)
qed

lemma require_built_plan:
  assumes "build_near_black_seed_recovery_plan sha256 job audit attempt attempt_no ordinal failed n_out uploaded seeds = Inr p"
    and "audit < 2 ^ 128" and "attempt < 2 ^ 128" and "attempt_no < target" and "target \<le> NB_MAX_U32"
  shows "require_near_black_seed_recovery_plan sha256 (dump_plan p) job n_out seeds audit attempt attempt_no ordinal target = Inr p
     \<and> apply_near_black_seed_recovery_plan sha256 (dump_plan p) job n_out seeds audit attempt attempt_no ordinal target
         = Inr (effective_seeds seeds (np_seed_rewrites p))"
  using require_decoded_plan [OF assms(1) decode_dump_plan assms(2-5)]
  by (simp add: apply_near_black_seed_recovery_plan_def)

text \<open>C35: A persisted plan survives the round trip. A plan that was built for a job and dumped to JSON is accepted
  again, unchanged, by \<open>require_near_black_seed_recovery_plan\<close> for every later attempt of the same job, and applying
  it yields the effective seeds of the built plan.\<close>

theorem built_plan_is_accepted:
  assumes "build_near_black_seed_recovery_plan sha256 job audit attempt attempt_no ordinal failed n_out uploaded seeds = Inr p"
    and "job < 2 ^ 128" and "audit < 2 ^ 128" and "attempt < 2 ^ 128"
    and "attempt_no < target" and "target \<le> NB_MAX_U32"
  shows "require_near_black_seed_recovery_plan sha256 (dump_plan p) job n_out seeds audit attempt attempt_no ordinal target = Inr p
     \<and> apply_near_black_seed_recovery_plan sha256 (dump_plan p) job n_out seeds audit attempt attempt_no ordinal target
         = Inr (effective_seeds seeds (np_seed_rewrites p))"
  using assms by (intro require_built_plan)

lemma built_plan_is_accepted_witness:
  "\<exists>p. build_near_black_seed_recovery_plan sample_sha256 9 10 11 1 1 1 2 [0] [7, 5] = Inr p
     \<and> apply_near_black_seed_recovery_plan sample_sha256 (dump_plan p) 9 2 [7, 5] 10 11 1 1 2 = Inr [7, 0]"
proof (rule sample_plan_built)
  fix p assume run: "build_near_black_seed_recovery_plan sample_sha256 9 10 11 1 1 1 2 [0] [7, 5] = Inr p"
    "effective_seeds [7, 5] (np_seed_rewrites p) = [7, 0]"
  from built_plan_is_accepted [OF run(1), of 2] run show ?thesis by (simp add: NB_MAX_U32_def)
qed

text \<open>C29: A persisted plan is trusted exactly when it could have been issued. Whatever JSON object is presented,
  \<open>require_near_black_seed_recovery_plan\<close> accepts it for a later attempt if and only if it decodes to a plan that the
  builder yields for the same job, grant, attempt and job seeds, for a failed output of the job and for either none of the
  outputs before it or all of them reported as uploaded. So a presented object chooses the failed output and whether
  uploads are reported, nothing else: these two determine the accepted plan with all its seeds and digests.\<close>

theorem accepted_plan_is_rebuilt:
  assumes "audit < 2 ^ 128" and "attempt < 2 ^ 128"
  shows "require_near_black_seed_recovery_plan sha256 raw job n_out seeds audit attempt attempt_no ordinal target = Inr p
     \<longleftrightarrow> decode_plan raw = Some p \<and> attempt_no < target \<and> target \<le> NB_MAX_U32
       \<and> (\<exists>failed uploaded. 0 \<le> failed \<and> failed < n_out \<and> (uploaded = [] \<or> uploaded = [0..failed - 1])
            \<and> np_failed_output_index p = failed \<and> np_uploaded_output_indices p = uploaded
            \<and> build_near_black_seed_recovery_plan sha256 job audit attempt attempt_no ordinal failed n_out uploaded seeds
                = Inr p)" (is "?accepted \<longleftrightarrow> ?issued")
proof
  assume a: ?accepted
  let ?build = "build_near_black_seed_recovery_plan sha256 job audit attempt attempt_no ordinal (np_failed_output_index p)
       n_out (np_uploaded_output_indices p) seeds"
  from a assms have b: "?build = Inr p" and t: "attempt_no < target" "target \<le> NB_MAX_U32"
    by (auto simp: require_near_black_seed_recovery_plan_def bindE_eq_Inr uuid_roundtrip validated_seeds_Inr)
  from a have "decode_plan raw = Some p"
    by (auto simp: require_near_black_seed_recovery_plan_def parse_near_black_seed_recovery_plan_def construct_plan_def
        bindE_eq_Inr split: option.splits if_splits)
  moreover have "0 \<le> np_failed_output_index p" "np_failed_output_index p < n_out"
    "np_uploaded_output_indices p = [] \<or> np_uploaded_output_indices p = [0..np_failed_output_index p - 1]"
    by (rule build_cases [OF b], simp)+
  ultimately show ?issued using b t by blast
next
  assume ?issued
  then show ?accepted using require_decoded_plan assms by blast
qed

lemma accepted_plan_is_rebuilt_witness:
  "\<exists>p. require_near_black_seed_recovery_plan sample_sha256 (dump_plan p) 9 2 [7, 5] 10 11 1 1 2 = Inr p
     \<and> np_failed_output_index p = 1 \<and> np_uploaded_output_indices p = [0]"
proof (rule sample_plan_built)
  fix p assume built: "build_near_black_seed_recovery_plan sample_sha256 9 10 11 1 1 1 2 [0] [7, 5] = Inr p"
  have "np_failed_output_index p = 1" "np_uploaded_output_indices p = [0]" by (rule build_cases [OF built], simp)+
  with accepted_plan_is_rebuilt [of 10 11 sample_sha256 "dump_plan p" 9 2 "[7, 5]" 1 1 2 p] built decode_dump_plan
  show ?thesis by (auto simp: NB_MAX_U32_def)
qed

lemma search_finds:
  assumes derived: "\<And>c. 0 \<le> c \<Longrightarrow> c \<le> NB_MAX_U32 \<Longrightarrow> derive_near_black_seed_v1 sha256 job i s g c = Inr (f c)"
    and "c0 \<le> c" "0 \<le> c0" "c \<le> NB_MAX_U32" "f c \<notin> used" "\<forall>k. c0 \<le> k \<and> k < c \<longrightarrow> f k \<in> used"
  shows "find_recovery_seed sha256 job i s g used c0 = Inr (f c, c)"
  using assms(2-6)
proof (induction "nat (c - c0)" arbitrary: c0)
  case 0
  then have "c0 = c" by simp
  with 0 derived [of c] show ?case by (simp add: find_recovery_seed.simps [of sha256 job i s g used c])
next
  case (Suc n)
  then have lt: "c0 < c" by simp
  with Suc have "f c0 \<in> used" "c0 \<noteq> NB_MAX_U32" "find_recovery_seed sha256 job i s g used (c0 + 1) = Inr (f c, c)" by auto
  with derived [of c0] Suc.prems lt show ?case by (simp add: find_recovery_seed.simps [of sha256 job i s g used c0])
qed

lemma search_exhausts:
  assumes derived: "\<And>c. 0 \<le> c \<Longrightarrow> c \<le> NB_MAX_U32 \<Longrightarrow> derive_near_black_seed_v1 sha256 job i s g c = Inr (f c)"
    and "0 \<le> c0" "c0 \<le> NB_MAX_U32" "\<forall>k. c0 \<le> k \<and> k \<le> NB_MAX_U32 \<longrightarrow> f k \<in> used"
  shows "find_recovery_seed sha256 job i s g used c0
      = Inl (NearBlackRecoveryPlanError ''recovery seed collision space was exhausted'')"
  using assms(2-4)
proof (induction "nat (NB_MAX_U32 - c0)" arbitrary: c0)
  case 0
  then have "c0 = NB_MAX_U32" by simp
  moreover have "f NB_MAX_U32 \<in> used" using 0(4) calculation by blast
  moreover have "derive_near_black_seed_v1 sha256 job i s g NB_MAX_U32 = Inr (f NB_MAX_U32)"
    using derived [of NB_MAX_U32] by (simp add: NB_MAX_U32_def)
  ultimately show ?case by (simp add: find_recovery_seed.simps [of sha256 job i s g used NB_MAX_U32])
next
  case (Suc n)
  then have lt: "c0 < NB_MAX_U32" by simp
  with Suc have "f c0 \<in> used" "find_recovery_seed sha256 job i s g used (c0 + 1)
    = Inl (NearBlackRecoveryPlanError ''recovery seed collision space was exhausted'')" by auto
  with derived [of c0] Suc.prems lt show ?case by (simp add: find_recovery_seed.simps [of sha256 job i s g used c0])
qed

text \<open>C36: The collision search is complete. For valid inputs \<open>find_recovery_seed\<close> returns the first counter whose
  derived seed is unused, whenever one of the 2^32 counters has such a seed; only when all of them collide does it fail,
  with the exhaustion error.\<close>

theorem collision_search_is_complete:
  assumes "\<And>c. 0 \<le> c \<Longrightarrow> c \<le> NB_MAX_U32 \<Longrightarrow> derive_near_black_seed_v1 sha256 job i s g c = Inr (f c)"
  shows "(find_recovery_seed sha256 job i s g used 0 = Inr (r, c) \<longleftrightarrow>
       0 \<le> c \<and> c \<le> NB_MAX_U32 \<and> r = f c \<and> f c \<notin> used \<and> (\<forall>k. 0 \<le> k \<and> k < c \<longrightarrow> f k \<in> used))
     \<and> (find_recovery_seed sha256 job i s g used 0
         = Inl (NearBlackRecoveryPlanError ''recovery seed collision space was exhausted'') \<longleftrightarrow>
       (\<forall>k. 0 \<le> k \<and> k \<le> NB_MAX_U32 \<longrightarrow> f k \<in> used))"
proof -
  note found = search_finds [of sha256 job i s g f, OF assms] and exhausted = search_exhausts [of sha256 job i s g f, OF assms]
  show ?thesis
  proof (cases "\<forall>k. 0 \<le> k \<and> k \<le> NB_MAX_U32 \<longrightarrow> f k \<in> used")
    case True
    with exhausted [of 0] show ?thesis by (auto simp: NB_MAX_U32_def)
  next
    case False
    then obtain k0 where k0: "0 \<le> k0 \<and> k0 \<le> NB_MAX_U32 \<and> f k0 \<notin> used" by blast
    define n where "n = (LEAST n. int n \<le> NB_MAX_U32 \<and> f (int n) \<notin> used)"
    have "int (nat k0) \<le> NB_MAX_U32 \<and> f (int (nat k0)) \<notin> used" using k0 by simp
    from LeastI [of "\<lambda>n. int n \<le> NB_MAX_U32 \<and> f (int n) \<notin> used", OF this]
    have n: "int n \<le> NB_MAX_U32" "f (int n) \<notin> used" by (simp_all add: n_def)
    have least: "f k \<in> used" if "0 \<le> k" "k < int n" for k
    proof -
      have "nat k < n" using that by linarith
      from not_less_Least [OF this [unfolded n_def]] that n(1) show ?thesis by simp
    qed
    have run: "find_recovery_seed sha256 job i s g used 0 = Inr (f (int n), int n)"
      using n least by (intro found) auto
    have "c = int n" if "0 \<le> c" "f c \<notin> used" "\<forall>k. 0 \<le> k \<and> k < c \<longrightarrow> f k \<in> used"
      using that n(2) least by (meson linorder_neqE_linordered_idom of_nat_0_le_iff)
    with run n least False show ?thesis by auto
  qed
qed

lemma collision_search_is_complete_witness:
  "find_recovery_seed sample_sha256 9 1 5 1 {7, 5} 0 = Inr (0, 0)"
proof -
  have "derive_near_black_seed_v1 sample_sha256 9 1 5 1 c = Inr 0" if "0 \<le> c" "c \<le> NB_MAX_U32" for c
    using that by (intro sample_derive) (simp_all add: NB_MAX_U32_def NB_MAX_SEED_def)
  from collision_search_is_complete [of sample_sha256 9 1 5 1 "\<lambda>c. 0", OF this, of "{7, 5}" 0 0]
  show ?thesis by (simp add: NB_MAX_U32_def)
qed

end
