(* ===== verification/Deliverability.thy ===== *)
theory Deliverability
  imports PyDecimal
begin

text \<open>
  src/gen_automation/domain/deliverability.py: the limits shared by generation and delivery, the
  byte budget of a delivered image, the planned size of a generated image, and the inference of
  the size of every output of a rendered ComfyUI workflow. The recursive inference threads its
  cache; the set of nodes being visited is an argument, since every return and every exception
  restores it. Integers are assumed printable (\<open>str\<close> refuses more than 4300 digits) and the graph
  shallower than the interpreter's recursion limit.
\<close>

definition MAX_ACCEPTED_IMAGES_PER_RELEASE :: int where "MAX_ACCEPTED_IMAGES_PER_RELEASE = 500"
definition MAX_PIPELINE_MASTER_WIDTH :: int where "MAX_PIPELINE_MASTER_WIDTH = 8192"
definition MAX_PIPELINE_MASTER_HEIGHT :: int where "MAX_PIPELINE_MASTER_HEIGHT = 8192"
definition MAX_PIPELINE_MASTER_PIXELS :: int where "MAX_PIPELINE_MASTER_PIXELS = 12000000"
definition PATREON_MAX_DERIVATIVE_IMAGES :: int where "PATREON_MAX_DERIVATIVE_IMAGES = 100"
definition PATREON_MAX_ARCHIVE_PARTS :: int where
  "PATREON_MAX_ARCHIVE_PARTS =
     (MAX_ACCEPTED_IMAGES_PER_RELEASE + PATREON_MAX_DERIVATIVE_IMAGES - 1) div PATREON_MAX_DERIVATIVE_IMAGES"
definition PATREON_MAX_IMAGE_BYTES :: int where "PATREON_MAX_IMAGE_BYTES = 16 * 1024 * 1024"
definition PATREON_MAX_TOTAL_IMAGE_BYTES :: int where "PATREON_MAX_TOTAL_IMAGE_BYTES = 128 * 1024 * 1024"
definition PATREON_MAX_ARCHIVE_BYTES :: int where "PATREON_MAX_ARCHIVE_BYTES = 160 * 1024 * 1024"

definition HIRES_WORKFLOW_NODE_CLASS :: string where "HIRES_WORKFLOW_NODE_CLASS = ''LatentUpscaleBy''"
definition LATENT_PIXEL_SCALE :: int where "LATENT_PIXEL_SCALE = 8"
definition COMFY_OUTPUT_NODE_CLASSES :: "string list" where
  "COMFY_OUTPUT_NODE_CLASSES = [''SaveImage'', ''SaveImageWebsocket'']"

text \<open>Besides its own exception the module lets the decimal and the \<open>TypeError\<close> of a hash pass through.\<close>

datatype deliverability_error =
    DeliverabilityError string
  | DeliverabilityDecimal decimal_error
  | DeliverabilityTypeError

record EffectiveGenerationDimensions =
  ed_width :: int
  ed_height :: int

definition ed_pixels :: "EffectiveGenerationDimensions \<Rightarrow> int" where
  "ed_pixels d = ed_width d * ed_height d"

datatype comfy_kind = KLatent | KImage

record ComfyGeometry =
  cg_kind :: comfy_kind
  cg_width :: int
  cg_height :: int

definition decoded :: "ComfyGeometry \<Rightarrow> EffectiveGenerationDimensions" where
  "decoded g = (let scale = (if cg_kind g = KLatent then LATENT_PIXEL_SCALE else 1) in
     \<lparr>ed_width = cg_width g * scale, ed_height = cg_height g * scale\<rparr>)"

section \<open>Planning\<close>

text \<open>The argument is a Python object; only an integer that is no boolean is a count.\<close>

definition patreon_full_output_byte_budget :: "pyval \<Rightarrow> deliverability_error + int" where
  "patreon_full_output_byte_budget accepted_image_count =
     (case accepted_image_count of
        PInt n \<Rightarrow>
          if 1 \<le> n \<and> n \<le> MAX_ACCEPTED_IMAGES_PER_RELEASE
          then Inr (min PATREON_MAX_IMAGE_BYTES
                 (PATREON_MAX_TOTAL_IMAGE_BYTES div (min n PATREON_MAX_DERIVATIVE_IMAGES + 1)))
          else Inl (DeliverabilityError
                 ''Patreon full-output budgeting requires between 1 and 500 accepted images'')
      | _ \<Rightarrow> Inl (DeliverabilityError
                 ''Patreon full-output budgeting requires between 1 and 500 accepted images''))"

definition lift_decimal :: "decimal_error + 'a \<Rightarrow> deliverability_error + 'a" where
  "lift_decimal r = (case r of Inl e \<Rightarrow> Inl (DeliverabilityDecimal e) | Inr x \<Rightarrow> Inr x)"

definition scaled_latent :: "int \<Rightarrow> pydecimal \<Rightarrow> deliverability_error + int" where
  "scaled_latent n scale = lift_decimal (bindE (dec_times_int n scale) dec_ceiling)"

definition effective_generation_dimensions ::
  "int \<Rightarrow> int \<Rightarrow> pydecimal \<Rightarrow> string list \<Rightarrow> deliverability_error + EffectiveGenerationDimensions" where
  "effective_generation_dimensions width height hires_scale workflow_node_classes =
     (if HIRES_WORKFLOW_NODE_CLASS \<notin> set workflow_node_classes
      then Inr \<lparr>ed_width = width, ed_height = height\<rparr>
      else bindE (lift_decimal (dec_times_int (width div LATENT_PIXEL_SCALE) hires_scale)) (\<lambda>latent_width.
           bindE (lift_decimal (dec_times_int (height div LATENT_PIXEL_SCALE) hires_scale)) (\<lambda>latent_height.
           bindE (lift_decimal (dec_ceiling latent_width)) (\<lambda>w.
           bindE (lift_decimal (dec_ceiling latent_height)) (\<lambda>h.
             Inr \<lparr>ed_width = w * LATENT_PIXEL_SCALE, ed_height = h * LATENT_PIXEL_SCALE\<rparr>)))))"

definition exceeds_pipeline :: "EffectiveGenerationDimensions \<Rightarrow> bool" where
  "exceeds_pipeline d \<longleftrightarrow> MAX_PIPELINE_MASTER_WIDTH < ed_width d \<or> MAX_PIPELINE_MASTER_HEIGHT < ed_height d
     \<or> MAX_PIPELINE_MASTER_PIXELS < ed_pixels d"

definition require_generation_deliverability ::
  "int \<Rightarrow> int \<Rightarrow> pydecimal \<Rightarrow> string list \<Rightarrow> deliverability_error + EffectiveGenerationDimensions" where
  "require_generation_deliverability width height hires_scale workflow_node_classes =
     bindE (effective_generation_dimensions width height hires_scale workflow_node_classes) (\<lambda>effective.
       if exceeds_pipeline effective
       then Inl (DeliverabilityError (''effective generated image '' @ int_digits (ed_width effective) @ ''x''
              @ int_digits (ed_height effective) @ '' ('' @ int_digits (ed_pixels effective) @ '' pixels) exceeds ''
              @ ''the quality and derivative pipeline limit of '' @ int_digits MAX_PIPELINE_MASTER_WIDTH @ ''x''
              @ int_digits MAX_PIPELINE_MASTER_HEIGHT @ '' and '' @ int_digits MAX_PIPELINE_MASTER_PIXELS @ '' pixels''))
       else Inr effective)"

section \<open>The rendered workflow\<close>

text \<open>The objects of a rendered workflow: JSON values, a float by its decimal text.\<close>

datatype comfy_value =
    CNone
  | CBool bool
  | CInt int
  | CFloat pydecimal
  | CStr string
  | CList "comfy_value list"
  | CDict "(string \<times> comfy_value) list"

type_synonym comfy_dict = "(string \<times> comfy_value) list"

definition comfy_get :: "comfy_dict \<Rightarrow> string \<Rightarrow> comfy_value" where
  "comfy_get d k = (case map_of d k of None \<Rightarrow> CNone | Some v \<Rightarrow> v)"

definition geometry_invalid :: deliverability_error where
  "geometry_invalid = DeliverabilityError ''rendered workflow geometry is invalid''"

definition positive_comfy_integer :: "comfy_value \<Rightarrow> deliverability_error + int" where
  "positive_comfy_integer v =
     (case v of CInt i \<Rightarrow> if i \<le> 0 then Inl geometry_invalid else Inr i | _ \<Rightarrow> Inl geometry_invalid)"

text \<open>The scale is finite and positive: coefficient and exponent.\<close>

definition positive_comfy_scale :: "comfy_value \<Rightarrow> deliverability_error + (int \<times> int)" where
  "positive_comfy_scale v =
     (case v of
        CInt i \<Rightarrow> if i \<le> 0 then Inl geometry_invalid else Inr (i, 0)
      | CFloat (DFinite c e) \<Rightarrow> if c \<le> 0 then Inl geometry_invalid else Inr (c, e)
      | _ \<Rightarrow> Inl geometry_invalid)"

definition geometry_limit_error :: "EffectiveGenerationDimensions option \<Rightarrow> deliverability_error" where
  "geometry_limit_error dimensions =
     DeliverabilityError (''rendered workflow geometry exceeds the pipeline limit'' @
       (case dimensions of
          None \<Rightarrow> []
        | Some d \<Rightarrow> '' ('' @ int_digits (ed_width d) @ ''x'' @ int_digits (ed_height d) @ '', ''
            @ int_digits (ed_pixels d) @ '' pixels)'') @
       '': '' @ int_digits MAX_PIPELINE_MASTER_WIDTH @ ''x'' @ int_digits MAX_PIPELINE_MASTER_HEIGHT @ '' and ''
       @ int_digits MAX_PIPELINE_MASTER_PIXELS @ '' pixels'')"

definition require_geometry_within_limits :: "EffectiveGenerationDimensions \<Rightarrow> deliverability_error + unit" where
  "require_geometry_within_limits d = (if exceeds_pipeline d then Inl (geometry_limit_error (Some d)) else Inr ())"

text \<open>\<open>link[1] != 0\<close>: an integer or float zero is the first output slot.\<close>

definition is_slot_zero :: "comfy_value \<Rightarrow> bool" where
  "is_slot_zero v = (case v of CInt i \<Rightarrow> i = 0 | CFloat (DFinite c e) \<Rightarrow> c = 0 | _ \<Rightarrow> False)"

definition link_target :: "comfy_value \<Rightarrow> deliverability_error + string" where
  "link_target link =
     (case link of
        CList [CStr node, slot] \<Rightarrow> if node \<noteq> [] \<and> is_slot_zero slot then Inr node else Inl geometry_invalid
      | _ \<Rightarrow> Inl geometry_invalid)"

type_synonym geometry_cache = "string \<Rightarrow> ComfyGeometry option"

definition linked_geometry ::
  "(string \<Rightarrow> geometry_cache \<Rightarrow> deliverability_error + (ComfyGeometry \<times> geometry_cache))
    \<Rightarrow> comfy_dict \<Rightarrow> string \<Rightarrow> comfy_kind \<Rightarrow> geometry_cache
    \<Rightarrow> deliverability_error + (ComfyGeometry \<times> geometry_cache)" where
  "linked_geometry infer inputs name expected cache =
     bindE (link_target (comfy_get inputs name)) (\<lambda>node.
     bindE (infer node cache) (\<lambda>(geometry, cache').
       if cg_kind geometry \<noteq> expected then Inl geometry_invalid else Inr (geometry, cache')))"

definition empty_latent_geometry :: "comfy_dict \<Rightarrow> deliverability_error + ComfyGeometry" where
  "empty_latent_geometry inputs =
     bindE (positive_comfy_integer (comfy_get inputs ''width'')) (\<lambda>width.
     bindE (positive_comfy_integer (comfy_get inputs ''height'')) (\<lambda>height.
       let geometry = \<lparr>cg_kind = KLatent, cg_width = width div LATENT_PIXEL_SCALE,
                        cg_height = height div LATENT_PIXEL_SCALE\<rparr>
       in if cg_width geometry < 1 \<or> cg_height geometry < 1 then Inl geometry_invalid else Inr geometry))"

definition upscaled_geometry :: "comfy_dict \<Rightarrow> ComfyGeometry \<Rightarrow> deliverability_error + ComfyGeometry" where
  "upscaled_geometry inputs source =
     bindE (positive_comfy_scale (comfy_get inputs ''scale_by'')) (\<lambda>(c, e).
       let maximum_latent_dimension =
             max MAX_PIPELINE_MASTER_WIDTH MAX_PIPELINE_MASTER_HEIGHT div LATENT_PIXEL_SCALE
       in if dec_exceeds c e maximum_latent_dimension then Inl (geometry_limit_error None)
          else bindE (scaled_latent (cg_width source) (DFinite c e)) (\<lambda>w.
               bindE (scaled_latent (cg_height source) (DFinite c e)) (\<lambda>h.
                 Inr \<lparr>cg_kind = KLatent, cg_width = w, cg_height = h\<rparr>)))"

definition decoded_geometry :: "ComfyGeometry \<Rightarrow> ComfyGeometry" where
  "decoded_geometry source = \<lparr>cg_kind = KImage, cg_width = cg_width source * LATENT_PIXEL_SCALE,
     cg_height = cg_height source * LATENT_PIXEL_SCALE\<rparr>"

text \<open>The branches of \<open>infer\<close> on the class of the node.\<close>

definition node_geometry ::
  "(string \<Rightarrow> geometry_cache \<Rightarrow> deliverability_error + (ComfyGeometry \<times> geometry_cache))
    \<Rightarrow> string \<Rightarrow> comfy_dict \<Rightarrow> geometry_cache \<Rightarrow> deliverability_error + (ComfyGeometry \<times> geometry_cache)" where
  "node_geometry infer node_class inputs cache =
     (if node_class = ''EmptyLatentImage''
      then bindE (empty_latent_geometry inputs) (\<lambda>g. Inr (g, cache))
      else if node_class = ''KSampler'' then linked_geometry infer inputs ''latent_image'' KLatent cache
      else if node_class = ''SetLatentNoiseMask'' then linked_geometry infer inputs ''samples'' KLatent cache
      else if node_class = ''LatentUpscaleBy''
      then bindE (linked_geometry infer inputs ''samples'' KLatent cache) (\<lambda>(source, cache').
           bindE (upscaled_geometry inputs source) (\<lambda>g. Inr (g, cache')))
      else if node_class = ''VAEDecode''
      then bindE (linked_geometry infer inputs ''samples'' KLatent cache) (\<lambda>(source, cache').
           Inr (decoded_geometry source, cache'))
      else if node_class = ''FaceDetailer'' then linked_geometry infer inputs ''image'' KImage cache
      else if node_class \<in> set COMFY_OUTPUT_NODE_CLASSES
      then linked_geometry infer inputs ''images'' KImage cache
      else Inl (DeliverabilityError ''rendered workflow output uses unsupported geometry nodes''))"

function infer_geometry ::
  "comfy_dict \<Rightarrow> string set \<Rightarrow> string \<Rightarrow> geometry_cache
    \<Rightarrow> deliverability_error + (ComfyGeometry \<times> geometry_cache)" where
  "infer_geometry workflow visiting node_id cache =
     (case cache node_id of
        Some cached \<Rightarrow> Inr (cached, cache)
      | None \<Rightarrow>
          if node_id \<in> visiting
          then Inl (DeliverabilityError ''rendered workflow geometry contains a cycle'')
          else (case map_of workflow node_id of
                  Some (CDict raw_node) \<Rightarrow>
                    (case comfy_get raw_node ''class_type'' of
                       CStr node_class \<Rightarrow>
                         (case comfy_get raw_node ''inputs'' of
                            CDict inputs \<Rightarrow>
                              bindE (node_geometry (\<lambda>n c. infer_geometry workflow (insert node_id visiting) n c)
                                       node_class inputs cache) (\<lambda>(geometry, cache').
                              bindE (require_geometry_within_limits (decoded geometry)) (\<lambda>_.
                                Inr (geometry, cache'(node_id \<mapsto> geometry))))
                          | _ \<Rightarrow> Inl geometry_invalid)
                     | _ \<Rightarrow> Inl geometry_invalid)
                | _ \<Rightarrow> Inl geometry_invalid))"
  by pat_completeness auto
termination
proof (relation "measure (\<lambda>(w, V, n, c). card (fst ` set w - V))", simp)
  fix w :: comfy_dict and V n c m and c' :: geometry_cache and raw v
  assume "n \<notin> V" and "map_of w n = Some v"
  then have "n \<in> fst ` set w - V" by (auto dest: map_of_SomeD simp: image_iff intro: rev_bexI)
  then have "card (fst ` set w - insert n V) < card (fst ` set w - V)"
    by (intro psubset_card_mono) auto
  then show "((w, insert n V, m, c'), (w, V, n, c)) \<in> measure (\<lambda>(w, V, n, c). card (fst ` set w - V))"
    by simp
qed

declare infer_geometry.simps [simp del]

text \<open>
  The generator over the items of the workflow. \<open>raw_node.get("class_type") in _COMFY_OUTPUT_NODE_CLASSES\<close>
  raises a \<open>TypeError\<close> on a class that is a list or a dict.
\<close>

fun infer_outputs ::
  "comfy_dict \<Rightarrow> geometry_cache \<Rightarrow> comfy_dict
    \<Rightarrow> deliverability_error + EffectiveGenerationDimensions list" where
  "infer_outputs workflow cache [] = Inr []"
| "infer_outputs workflow cache ((node_id, CDict raw_node) # items) =
     (case comfy_get raw_node ''class_type'' of
        CList _ \<Rightarrow> Inl DeliverabilityTypeError
      | CDict _ \<Rightarrow> Inl DeliverabilityTypeError
      | CStr node_class \<Rightarrow>
          if node_class \<in> set COMFY_OUTPUT_NODE_CLASSES
          then bindE (infer_geometry workflow {} node_id cache) (\<lambda>(geometry, cache').
               bindE (infer_outputs workflow cache' items) (\<lambda>outputs. Inr (decoded geometry # outputs)))
          else infer_outputs workflow cache items
      | _ \<Rightarrow> infer_outputs workflow cache items)"
| "infer_outputs workflow cache ((node_id, _) # items) = infer_outputs workflow cache items"

text \<open>The keys of the workflow are strings, as in every JSON object.\<close>

definition require_comfy_workflow_deliverability ::
  "comfy_dict \<Rightarrow> deliverability_error + EffectiveGenerationDimensions list" where
  "require_comfy_workflow_deliverability workflow =
     (if workflow = [] then Inl geometry_invalid
      else bindE (infer_outputs workflow (\<lambda>_. None) workflow) (\<lambda>outputs.
        if outputs = []
        then Inl (DeliverabilityError ''rendered workflow has no supported output'')
        else Inr outputs))"

end
