(* ===== verification/DeliverabilityFacts.thy ===== *)
theory DeliverabilityFacts
  imports Deliverability Complex_Main
begin

text \<open>
  The size of an output as a property of the workflow graph alone: \<open>has_geometry\<close> derives the
  geometry of a node from the node it is wired to, with exact rational scales, no cache and no set
  of visited nodes. The lemmas relate \<open>infer_geometry\<close> to it.
\<close>

section \<open>Exact scales\<close>

definition dec_rat :: "int \<Rightarrow> int \<Rightarrow> rat" where
  "dec_rat c e = (if 0 \<le> e then of_int (c * 10 ^ nat e) else of_int c / of_int (10 ^ nat (- e)))"

definition scale_of :: "comfy_value \<Rightarrow> rat option" where
  "scale_of v = (case v of CInt i \<Rightarrow> Some (of_int i) | CFloat (DFinite c e) \<Rightarrow> Some (dec_rat c e) | _ \<Rightarrow> None)"

text \<open>The text of a float has at most 17 significant digits.\<close>

definition float_text :: "pydecimal \<Rightarrow> bool" where
  "float_text d = (case d of DFinite c e \<Rightarrow> \<bar>c\<bar> < 10 ^ 17 | _ \<Rightarrow> True)"

definition scale_is_float :: "comfy_value \<Rightarrow> bool" where
  "scale_is_float v = (case v of CFloat d \<Rightarrow> float_text d | _ \<Rightarrow> True)"

lemma dec_ceiling_rat: "dec_ceiling (DFinite c e) = Inr \<lceil>dec_rat c e\<rceil>"
proof (cases "0 \<le> e")
  case True
  then show ?thesis by (simp only: dec_ceiling.simps dec_rat_def if_True ceiling_of_int)
next
  case False
  then show ?thesis
    by (simp only: dec_ceiling.simps dec_rat_def if_False ceil_div_def ceiling_divide_eq_div)
qed

lemma dec_rat_mult: "dec_rat (n * c) e = of_int n * dec_rat c e"
  by (simp add: dec_rat_def)

lemma dec_exceeds_rat: "dec_exceeds c e n \<longleftrightarrow> of_int n < dec_rat c e"
proof (cases "0 \<le> e")
  case True
  then show ?thesis by (simp only: dec_exceeds_def dec_rat_def if_True of_int_less_iff)
next
  case False
  have "(0::rat) < of_int (10 ^ nat (- e))" by simp
  then have "of_int n < dec_rat c e \<longleftrightarrow> (of_int n :: rat) * of_int (10 ^ nat (- e)) < of_int c"
    using False by (simp only: dec_rat_def if_False pos_less_divide_eq)
  also have "\<dots> \<longleftrightarrow> n * 10 ^ nat (- e) < c" by (simp only: of_int_mult [symmetric] of_int_less_iff)
  finally show ?thesis using False by (simp add: dec_exceeds_def)
qed

lemma dec_rat_pos_iff: "0 < dec_rat c e \<longleftrightarrow> 0 < c"
proof -
  have "0 < dec_rat c e \<longleftrightarrow> dec_exceeds c e 0" using dec_exceeds_rat [of c e 0] by simp
  also have "\<dots> \<longleftrightarrow> 0 < c" by (cases "0 \<le> e") (simp_all add: dec_exceeds_def zero_less_mult_iff)
  finally show ?thesis .
qed

lemma scaled_latent_exact:
  assumes "0 \<le> n" "n \<le> 1024" "\<bar>c\<bar> < 10 ^ 17"
  shows "scaled_latent n (DFinite c e) = Inr \<lceil>of_int n * dec_rat c e\<rceil>"
proof -
  have "\<bar>n * c\<bar> = n * \<bar>c\<bar>" using assms by (simp add: abs_mult)
  also have "\<dots> \<le> 1024 * 10 ^ 17" using assms by (intro mult_mono) auto
  finally have "\<bar>n * c\<bar> < 10 ^ 28" by simp
  then have "dec_round (n * c) e = DFinite (n * c) e" by (rule dec_round_exact)
  then show ?thesis
    by (simp only: scaled_latent_def dec_times_int.simps bindE_simps dec_ceiling_rat dec_rat_mult
        lift_decimal_def sum.case)
qed

lemma positive_comfy_scale_Inr:
  "positive_comfy_scale v = Inr (c, e) \<Longrightarrow> scale_of v = Some (dec_rat c e) \<and> 0 < c"
  by (auto simp: positive_comfy_scale_def scale_of_def dec_rat_def split: comfy_value.splits pydecimal.splits if_splits)

lemma positive_comfy_scale_ex:
  assumes "scale_of v = Some s" "0 < s"
  obtains c e where "positive_comfy_scale v = Inr (c, e)" "s = dec_rat c e"
proof (cases v)
  case (CInt i)
  with assms have "positive_comfy_scale v = Inr (i, 0)" "s = dec_rat i 0"
    by (auto simp: positive_comfy_scale_def scale_of_def dec_rat_def)
  then show ?thesis by (rule that)
next
  case (CFloat d)
  with assms obtain c e where d: "d = DFinite c e" "s = dec_rat c e"
    by (auto simp: scale_of_def split: pydecimal.splits)
  with assms have "0 < c" using dec_rat_pos_iff by simp
  with CFloat d have "positive_comfy_scale v = Inr (c, e)" by (simp add: positive_comfy_scale_def)
  then show ?thesis using d(2) by (rule that)
qed (use assms in \<open>auto simp: scale_of_def\<close>)

text \<open>The scales that occur have few digits: integers are bounded by the limit, floats by their text.\<close>

lemma scale_digits:
  assumes "scale_is_float v" "positive_comfy_scale v = Inr (c, e)" "\<not> dec_exceeds c e 1024"
  shows "\<bar>c\<bar> < 10 ^ 17"
  using assms by (auto simp: scale_is_float_def float_text_def positive_comfy_scale_def dec_exceeds_def
      split: comfy_value.splits pydecimal.splits if_splits)

section \<open>The geometry of a node\<close>

definition node_is :: "comfy_dict \<Rightarrow> string \<Rightarrow> string \<Rightarrow> comfy_dict \<Rightarrow> bool" where
  "node_is w n cls ins \<longleftrightarrow> (\<exists>raw. map_of w n = Some (CDict raw)
     \<and> comfy_get raw ''class_type'' = CStr cls \<and> comfy_get raw ''inputs'' = CDict ins)"

text \<open>The one input a class takes its geometry from, and the kind it must have.\<close>

definition node_input :: "string \<Rightarrow> (string \<times> comfy_kind) option" where
  "node_input cls = map_of
     [(''KSampler'', (''latent_image'', KLatent)), (''SetLatentNoiseMask'', (''samples'', KLatent)),
      (''LatentUpscaleBy'', (''samples'', KLatent)), (''VAEDecode'', (''samples'', KLatent)),
      (''FaceDetailer'', (''image'', KImage)), (''SaveImage'', (''images'', KImage)),
      (''SaveImageWebsocket'', (''images'', KImage))] cls"

definition node_output :: "string \<Rightarrow> comfy_dict \<Rightarrow> ComfyGeometry \<Rightarrow> ComfyGeometry \<Rightarrow> bool" where
  "node_output cls ins src g \<longleftrightarrow>
     (if cls = ''LatentUpscaleBy'' then
        \<exists>s. scale_of (comfy_get ins ''scale_by'') = Some s \<and> 0 < s \<and> s \<le> 1024
          \<and> g = \<lparr>cg_kind = KLatent, cg_width = \<lceil>of_int (cg_width src) * s\<rceil>, cg_height = \<lceil>of_int (cg_height src) * s\<rceil>\<rparr>
      else if cls = ''VAEDecode'' then
        g = \<lparr>cg_kind = KImage, cg_width = 8 * cg_width src, cg_height = 8 * cg_height src\<rparr>
      else g = src)"

definition fits_pipeline :: "ComfyGeometry \<Rightarrow> bool" where
  "fits_pipeline g \<longleftrightarrow> \<not> exceeds_pipeline (decoded g)"

inductive has_geometry :: "comfy_dict \<Rightarrow> string \<Rightarrow> ComfyGeometry \<Rightarrow> bool" for w where
  source: "node_is w n ''EmptyLatentImage'' ins \<Longrightarrow> comfy_get ins ''width'' = CInt a \<Longrightarrow>
     comfy_get ins ''height'' = CInt b \<Longrightarrow> 8 \<le> a \<Longrightarrow> 8 \<le> b \<Longrightarrow>
     g = \<lparr>cg_kind = KLatent, cg_width = a div 8, cg_height = b div 8\<rparr> \<Longrightarrow> fits_pipeline g \<Longrightarrow> has_geometry w n g"
| wired: "node_is w n cls ins \<Longrightarrow> node_input cls = Some (name, kind) \<Longrightarrow>
     link_target (comfy_get ins name) = Inr m \<Longrightarrow> has_geometry w m src \<Longrightarrow> cg_kind src = kind \<Longrightarrow>
     node_output cls ins src g \<Longrightarrow> fits_pipeline g \<Longrightarrow> has_geometry w n g"

definition feeds :: "comfy_dict \<Rightarrow> string \<Rightarrow> string \<Rightarrow> bool" where
  "feeds w m n \<longleftrightarrow> (\<exists>cls ins name kind. node_is w n cls ins \<and> node_input cls = Some (name, kind)
     \<and> link_target (comfy_get ins name) = Inr m)"

definition scales_are_floats :: "comfy_dict \<Rightarrow> bool" where
  "scales_are_floats w \<longleftrightarrow> (\<forall>n cls ins. node_is w n cls ins \<longrightarrow> scale_is_float (comfy_get ins ''scale_by''))"

lemma node_is_unique: "node_is w n cls ins \<Longrightarrow> node_is w n cls' ins' \<Longrightarrow> cls' = cls \<and> ins' = ins"
  by (auto simp: node_is_def)

lemma empty_latent_no_input [simp]: "node_input ''EmptyLatentImage'' = None"
  by (simp add: node_input_def)

lemma has_geometry_bounds:
  "has_geometry w n g \<Longrightarrow> 1 \<le> cg_width g \<and> 1 \<le> cg_height g \<and> fits_pipeline g"
proof (induction rule: has_geometry.induct)
  case (source n ins a b g)
  then show ?case by auto
next
  case (wired n cls ins name kind m src g)
  then show ?case
    by (auto simp: node_output_def one_le_ceiling split: if_splits)
qed

lemma latent_bounds:
  "fits_pipeline g \<Longrightarrow> cg_kind g = KLatent \<Longrightarrow> cg_width g \<le> 1024 \<and> cg_height g \<le> 1024"
  by (simp add: fits_pipeline_def exceeds_pipeline_def decoded_def LATENT_PIXEL_SCALE_def
      MAX_PIPELINE_MASTER_WIDTH_def MAX_PIPELINE_MASTER_HEIGHT_def)

lemma upscaled_geometry_iff:
  assumes "scale_is_float (comfy_get ins ''scale_by'')"
    and src: "1 \<le> cg_width src" "cg_width src \<le> 1024" "1 \<le> cg_height src" "cg_height src \<le> 1024"
  shows "upscaled_geometry ins src = Inr g \<longleftrightarrow> node_output ''LatentUpscaleBy'' ins src g"
proof
  assume "upscaled_geometry ins src = Inr g"
  then obtain c e where pos: "positive_comfy_scale (comfy_get ins ''scale_by'') = Inr (c, e)"
    and lim: "\<not> dec_exceeds c e 1024"
    and g: "bindE (scaled_latent (cg_width src) (DFinite c e)) (\<lambda>w. bindE (scaled_latent (cg_height src) (DFinite c e))
       (\<lambda>h. Inr \<lparr>cg_kind = KLatent, cg_width = w, cg_height = h\<rparr>)) = Inr g"
    by (auto simp: upscaled_geometry_def bindE_eq_Inr [of "positive_comfy_scale _"] Let_def
        MAX_PIPELINE_MASTER_WIDTH_def MAX_PIPELINE_MASTER_HEIGHT_def LATENT_PIXEL_SCALE_def split: if_splits)
  from scale_digits [OF assms(1) pos lim] have "\<bar>c\<bar> < 10 ^ 17" .
  with g src have "g = \<lparr>cg_kind = KLatent, cg_width = \<lceil>of_int (cg_width src) * dec_rat c e\<rceil>,
      cg_height = \<lceil>of_int (cg_height src) * dec_rat c e\<rceil>\<rparr>"
    by (simp add: scaled_latent_exact)
  with positive_comfy_scale_Inr [OF pos] lim show "node_output ''LatentUpscaleBy'' ins src g"
    by (auto simp: node_output_def dec_exceeds_rat dec_rat_pos_iff)
next
  assume "node_output ''LatentUpscaleBy'' ins src g"
  then obtain s where s: "scale_of (comfy_get ins ''scale_by'') = Some s" "0 < s" "s \<le> 1024"
    and g: "g = \<lparr>cg_kind = KLatent, cg_width = \<lceil>of_int (cg_width src) * s\<rceil>, cg_height = \<lceil>of_int (cg_height src) * s\<rceil>\<rparr>"
    by (auto simp: node_output_def)
  obtain c e where pos: "positive_comfy_scale (comfy_get ins ''scale_by'') = Inr (c, e)" and sc: "s = dec_rat c e"
    using positive_comfy_scale_ex [OF s(1,2)] .
  have lim: "\<not> dec_exceeds c e 1024" using s(3) sc by (simp add: dec_exceeds_rat)
  from scale_digits [OF assms(1) pos lim] have "\<bar>c\<bar> < 10 ^ 17" .
  with pos lim g sc src show "upscaled_geometry ins src = Inr g"
    by (simp add: upscaled_geometry_def Let_def scaled_latent_exact
        MAX_PIPELINE_MASTER_WIDTH_def MAX_PIPELINE_MASTER_HEIGHT_def LATENT_PIXEL_SCALE_def)
qed


section \<open>Inference against the relation\<close>

definition node_transform :: "string \<Rightarrow> comfy_dict \<Rightarrow> ComfyGeometry \<Rightarrow> deliverability_error + ComfyGeometry" where
  "node_transform cls ins src =
     (if cls = ''LatentUpscaleBy'' then upscaled_geometry ins src
      else if cls = ''VAEDecode'' then Inr (decoded_geometry src) else Inr src)"

lemma bindE_return [simp]: "bindE m Inr = m"
  by (cases m) auto

lemma node_geometry_wired:
  "node_input cls = Some (name, kind) \<Longrightarrow>
   node_geometry infer cls ins cache = bindE (linked_geometry infer ins name kind cache)
     (\<lambda>(src, cache'). bindE (node_transform cls ins src) (\<lambda>g. Inr (g, cache')))"
  by (auto simp: node_input_def node_geometry_def node_transform_def COMFY_OUTPUT_NODE_CLASSES_def split: if_splits)

lemma node_geometry_source:
  "node_geometry infer ''EmptyLatentImage'' ins cache = bindE (empty_latent_geometry ins) (\<lambda>g. Inr (g, cache))"
  by (simp add: node_geometry_def)

lemma node_geometry_other:
  "node_input cls = None \<Longrightarrow> cls \<noteq> ''EmptyLatentImage'' \<Longrightarrow>
   node_geometry infer cls ins cache
     = Inl (DeliverabilityError ''rendered workflow output uses unsupported geometry nodes'')"
  by (auto simp: node_input_def node_geometry_def COMFY_OUTPUT_NODE_CLASSES_def split: if_splits)

lemma empty_latent_geometry_iff:
  "empty_latent_geometry ins = Inr g \<longleftrightarrow> (\<exists>a b. comfy_get ins ''width'' = CInt a \<and> comfy_get ins ''height'' = CInt b
     \<and> 8 \<le> a \<and> 8 \<le> b \<and> g = \<lparr>cg_kind = KLatent, cg_width = a div 8, cg_height = b div 8\<rparr>)"
proof -
  have "\<not> a div 8 < 1 \<longleftrightarrow> 8 \<le> a" for a :: int by linarith
  then show ?thesis
    by (auto simp: empty_latent_geometry_def bindE_eq_Inr positive_comfy_integer_def LATENT_PIXEL_SCALE_def Let_def
        split: comfy_value.splits if_splits)
qed

lemma node_transform_iff:
  assumes "scale_is_float (comfy_get ins ''scale_by'')" "has_geometry w m src"
    and "node_input cls = Some (name, cg_kind src)"
  shows "node_transform cls ins src = Inr g \<longleftrightarrow> node_output cls ins src g"
proof (cases "cls = ''LatentUpscaleBy''")
  case True
  with assms(3) have "cg_kind src = KLatent" by (simp add: node_input_def)
  with has_geometry_bounds [OF assms(2)] latent_bounds [of src]
  show ?thesis using True upscaled_geometry_iff [OF assms(1)] by (simp add: node_transform_def)
next
  case False
  then show ?thesis
    by (auto simp: node_transform_def node_output_def decoded_geometry_def LATENT_PIXEL_SCALE_def mult.commute)
qed

lemma within_limits_iff: "require_geometry_within_limits (decoded g) = Inr u \<longleftrightarrow> fits_pipeline g"
  by (simp add: require_geometry_within_limits_def fits_pipeline_def)

lemma linked_geometry_Inr:
  "linked_geometry infer ins name kind cache = Inr (g, cache') \<longleftrightarrow>
   (\<exists>m. link_target (comfy_get ins name) = Inr m \<and> infer m cache = Inr (g, cache') \<and> cg_kind g = kind)"
  by (auto simp: linked_geometry_def bindE_eq_Inr)

text \<open>One call of \<open>infer_geometry\<close> that misses the cache.\<close>

lemma infer_geometry_node:
  assumes "cache n = None" "n \<notin> V" "node_is w n cls ins"
  shows "infer_geometry w V n cache =
     bindE (node_geometry (infer_geometry w (insert n V)) cls ins cache) (\<lambda>(g, cache').
     bindE (require_geometry_within_limits (decoded g)) (\<lambda>_. Inr (g, cache'(n \<mapsto> g))))"
  using assms by (auto simp: infer_geometry.simps [of w V n cache] node_is_def)

lemma infer_geometry_cases:
  assumes "infer_geometry w V n cache = Inr (g, cache')"
  obtains (cached) "cache n = Some g" "cache' = cache"
    | (inferred) cls ins c1 where "cache n = None" "n \<notin> V" "node_is w n cls ins"
        "node_geometry (infer_geometry w (insert n V)) cls ins cache = Inr (g, c1)"
        "fits_pipeline g" "cache' = c1(n \<mapsto> g)"
  using assms by (auto simp: infer_geometry.simps [of w V n cache] node_is_def bindE_eq_Inr within_limits_iff
      split: option.splits if_splits comfy_value.splits)

definition cache_sound :: "comfy_dict \<Rightarrow> geometry_cache \<Rightarrow> bool" where
  "cache_sound w cache \<longleftrightarrow> (\<forall>m g. cache m = Some g \<longrightarrow> has_geometry w m g)"

lemma cache_sound_empty [simp]: "cache_sound w (\<lambda>_. None)"
  by (simp add: cache_sound_def)

lemma cache_sound_upd: "cache_sound w cache \<Longrightarrow> has_geometry w n g \<Longrightarrow> cache_sound w (cache(n \<mapsto> g))"
  by (simp add: cache_sound_def)

lemma infer_sound:
  assumes floats: "scales_are_floats w"
  shows "infer_geometry w V n cache = Inr (g, cache') \<Longrightarrow> cache_sound w cache \<Longrightarrow>
    has_geometry w n g \<and> cache_sound w cache'"
proof (induction "card (fst ` set w - V)" arbitrary: V n cache g cache' rule: less_induct)
  case less
  from less.prems(1) show ?case
  proof (cases rule: infer_geometry_cases)
    case cached
    with less.prems(2) show ?thesis by (auto simp: cache_sound_def)
  next
    case (inferred cls ins c1)
    from inferred(3) have fl: "scale_is_float (comfy_get ins ''scale_by'')"
      using floats by (auto simp: scales_are_floats_def)
    have "has_geometry w n g \<and> cache_sound w c1"
    proof (cases "cls = ''EmptyLatentImage''")
      case True
      with inferred(4) have e: "empty_latent_geometry ins = Inr g" and c: "c1 = cache"
        by (auto simp: node_geometry_source bindE_eq_Inr)
      from e obtain a b where ab: "comfy_get ins ''width'' = CInt a" "comfy_get ins ''height'' = CInt b" "8 \<le> a" "8 \<le> b"
          "g = \<lparr>cg_kind = KLatent, cg_width = a div 8, cg_height = b div 8\<rparr>"
        by (auto simp: empty_latent_geometry_iff)
      have "has_geometry w n g"
        by (rule has_geometry.source [OF _ ab]) (use inferred True in auto)
      with c less.prems(2) show ?thesis by simp
    next
      case False
      then obtain name kind where inp: "node_input cls = Some (name, kind)"
        using inferred(4) by (cases "node_input cls") (auto simp: node_geometry_other)
      with inferred(4) obtain src m where m: "link_target (comfy_get ins name) = Inr m"
          "infer_geometry w (insert n V) m cache = Inr (src, c1)" "cg_kind src = kind"
          and t: "node_transform cls ins src = Inr g"
        by (auto simp: node_geometry_wired bindE_eq_Inr linked_geometry_Inr)
      from inferred(2,3) have "n \<in> fst ` set w - V"
        by (auto simp: node_is_def dest: map_of_SomeD intro: rev_image_eqI)
      then have "card (fst ` set w - insert n V) < card (fst ` set w - V)"
        by (intro psubset_card_mono) auto
      from less.hyps [OF this m(2) less.prems(2)] have ih: "has_geometry w m src" "cache_sound w c1" by auto
      from node_transform_iff [OF fl ih(1)] t inp m(3) have "node_output cls ins src g" by simp
      with ih inferred(3,5) inp m(1,3) show ?thesis by (blast intro: has_geometry.wired)
    qed
    then show ?thesis using inferred(6) by (simp add: cache_sound_upd)
  qed
qed

text \<open>A node with a geometry is not on a cycle.\<close>

lemma accp_irrefl: "Wellfounded.accp r n \<Longrightarrow> \<not> r\<^sup>+\<^sup>+ n n"
proof (induction rule: accp.induct)
  case (accI n)
  show ?case
  proof
    assume "r\<^sup>+\<^sup>+ n n"
    then obtain m where m: "r\<^sup>*\<^sup>* n m" "r m n" by (metis tranclp.cases tranclp_into_rtranclp rtranclp.rtrancl_refl)
    then have "r\<^sup>+\<^sup>+ m m" by (blast intro: rtranclp_into_tranclp2)
    with accI m(2) show False by blast
  qed
qed

lemma has_geometry_acyclic: "has_geometry w n g \<Longrightarrow> \<not> (feeds w)\<^sup>+\<^sup>+ n n"
proof -
  assume "has_geometry w n g"
  then have "Wellfounded.accp (feeds w) n"
  proof (induction rule: has_geometry.induct)
    case (source n ins a b g)
    have "\<not> feeds w m n" for m
    proof
      assume "feeds w m n"
      then obtain cls ins' name kind where "node_is w n cls ins'" "node_input cls = Some (name, kind)"
        by (auto simp: feeds_def)
      with node_is_unique [OF source(1)] show False by force
    qed
    then show ?case by (blast intro: accp.accI)
  next
    case (wired n cls ins name kind m src g)
    have "k = m" if "feeds w k n" for k
    proof -
      from that obtain cls' ins' name' kind' where k: "node_is w n cls' ins'" "node_input cls' = Some (name', kind')"
          "link_target (comfy_get ins' name') = Inr k"
        by (auto simp: feeds_def)
      from node_is_unique [OF wired(1) k(1)] k(2,3) wired(2,3) show ?thesis by simp
    qed
    with wired.IH show ?case by (blast intro: accp.accI)
  qed
  then show ?thesis by (rule accp_irrefl)
qed

lemma node_output_unique: "node_output cls ins src g \<Longrightarrow> node_output cls ins src g' \<Longrightarrow> g' = g"
  by (auto simp: node_output_def split: if_splits)

lemma has_geometry_source_iff:
  assumes "node_is w n ''EmptyLatentImage'' ins"
  shows "has_geometry w n g \<longleftrightarrow> fits_pipeline g \<and> empty_latent_geometry ins = Inr g"
proof
  assume "has_geometry w n g"
  then show "fits_pipeline g \<and> empty_latent_geometry ins = Inr g"
  proof (cases rule: has_geometry.cases)
    case (source ins' a b)
    with node_is_unique [OF assms source(1)] show ?thesis by (auto simp: empty_latent_geometry_iff)
  next
    case (wired cls' ins' name' kind' m' src')
    with node_is_unique [OF assms wired(1)] show ?thesis by simp
  qed
next
  assume g: "fits_pipeline g \<and> empty_latent_geometry ins = Inr g"
  then obtain a b where "comfy_get ins ''width'' = CInt a" "comfy_get ins ''height'' = CInt b" "8 \<le> a" "8 \<le> b"
      "g = \<lparr>cg_kind = KLatent, cg_width = a div 8, cg_height = b div 8\<rparr>"
    by (auto simp: empty_latent_geometry_iff)
  from has_geometry.source [OF assms this] g show "has_geometry w n g" by simp
qed

lemma has_geometry_wired_iff:
  assumes "node_is w n cls ins" "node_input cls = Some (name, kind)" "link_target (comfy_get ins name) = Inr m"
  shows "has_geometry w n g \<longleftrightarrow> fits_pipeline g \<and> (\<exists>src. has_geometry w m src \<and> cg_kind src = kind \<and> node_output cls ins src g)"
proof
  assume "has_geometry w n g"
  then show "fits_pipeline g \<and> (\<exists>src. has_geometry w m src \<and> cg_kind src = kind \<and> node_output cls ins src g)"
  proof (cases rule: has_geometry.cases)
    case (source ins' a b)
    have "cls = ''EmptyLatentImage''" using node_is_unique [OF assms(1) source(1)] by simp
    with assms(2) show ?thesis by simp
  next
    case (wired cls' ins' name' kind' m' src')
    with node_is_unique [OF assms(1) wired(1)] assms(2,3) show ?thesis by auto
  qed
qed (use assms in \<open>blast intro: has_geometry.wired\<close>)

lemma has_geometry_unique: "has_geometry w n g \<Longrightarrow> has_geometry w n g' \<Longrightarrow> g' = g"
proof (induction arbitrary: g' rule: has_geometry.induct)
  case (source n ins a b g)
  then have "has_geometry w n g" by (blast intro: has_geometry.source)
  with source.prems show ?case using has_geometry_source_iff [OF source(1)] by auto
next
  case (wired n cls ins name kind m src g)
  then obtain src' where "has_geometry w m src'" "node_output cls ins src' g'"
    using has_geometry_wired_iff [OF wired(1-3)] by blast
  with wired show ?case using node_output_unique by metis
qed

lemma infer_complete:
  assumes floats: "scales_are_floats w"
  shows "has_geometry w n g \<Longrightarrow> cache_sound w cache \<Longrightarrow> (\<And>m. (feeds w)\<^sup>*\<^sup>* m n \<Longrightarrow> m \<notin> V) \<Longrightarrow>
    \<exists>cache'. infer_geometry w V n cache = Inr (g, cache')"
proof (induction arbitrary: cache V rule: has_geometry.induct)
  case (source n ins a b g)
  then have g: "has_geometry w n g" by (blast intro: has_geometry.source)
  then have e: "empty_latent_geometry ins = Inr g" and fits: "fits_pipeline g"
    using has_geometry_source_iff [OF source(1)] by auto
  have nV: "n \<notin> V" by (rule source.prems(2)) simp
  show ?case
  proof (cases "cache n")
    case None
    with nV source(1) e fits show ?thesis
      by (simp add: infer_geometry_node node_geometry_source require_geometry_within_limits_def fits_pipeline_def)
  next
    case (Some g')
    with source.prems(1) g have "g' = g" using has_geometry_unique by (auto simp: cache_sound_def)
    with Some show ?thesis by (simp add: infer_geometry.simps)
  qed
next
  case (wired n cls ins name kind m src g)
  then have g: "has_geometry w n g" by (blast intro: has_geometry.wired)
  have nV: "n \<notin> V" by (rule wired.prems(2)) simp
  have edge: "feeds w m n" using wired(1-3) by (auto simp: feeds_def)
  show ?case
  proof (cases "cache n")
    case None
    have "k \<notin> insert n V" if k: "(feeds w)\<^sup>*\<^sup>* k m" for k
    proof -
      have "(feeds w)\<^sup>+\<^sup>+ k n" using k edge by (rule rtranclp_into_tranclp1)
      with has_geometry_acyclic [OF g] have "k \<noteq> n" by auto
      moreover have "k \<notin> V" by (rule wired.prems(2)) (rule tranclp_into_rtranclp [OF \<open>(feeds w)\<^sup>+\<^sup>+ k n\<close>])
      ultimately show ?thesis by simp
    qed
    with wired.IH wired.prems(1) obtain c1 where rec: "infer_geometry w (insert n V) m cache = Inr (src, c1)"
      by blast
    from wired(1) have fl: "scale_is_float (comfy_get ins ''scale_by'')"
      using floats by (auto simp: scales_are_floats_def)
    have "node_transform cls ins src = Inr g"
      using node_transform_iff [OF fl wired(4)] wired(2,5,6) by simp
    with rec None nV wired(1-3,5,7) show ?thesis
      by (simp add: infer_geometry_node node_geometry_wired linked_geometry_def
          require_geometry_within_limits_def fits_pipeline_def)
  next
    case (Some g')
    with wired.prems(1) g have "g' = g" using has_geometry_unique by (auto simp: cache_sound_def)
    with Some show ?thesis by (simp add: infer_geometry.simps)
  qed
qed

end
