(* ===== verification/DeliverabilityTheorems.thy ===== *)
theory DeliverabilityTheorems
  imports DeliverabilityFacts
begin

text \<open>
  The properties of src/gen_automation/domain/deliverability.py: what a rendered workflow must be to
  be accepted, what its outputs are, and how the planned size and the byte budget bound them.
\<close>

section \<open>The outputs of a workflow\<close>

definition class_of :: "comfy_value \<Rightarrow> comfy_value" where
  "class_of v = (case v of CDict raw \<Rightarrow> comfy_get raw ''class_type'' | _ \<Rightarrow> CNone)"

definition hashable_class :: "comfy_value \<Rightarrow> bool" where
  "hashable_class v \<longleftrightarrow> (case class_of v of CList _ \<Rightarrow> False | CDict _ \<Rightarrow> False | _ \<Rightarrow> True)"

definition saves_output :: "comfy_value \<Rightarrow> bool" where
  "saves_output v \<longleftrightarrow> (case class_of v of CStr c \<Rightarrow> c \<in> set COMFY_OUTPUT_NODE_CLASSES | _ \<Rightarrow> False)"

definition output_nodes :: "comfy_dict \<Rightarrow> string list" where
  "output_nodes items = map fst (filter (\<lambda>(n, v). saves_output v) items)"

definition has_output :: "comfy_dict \<Rightarrow> string \<Rightarrow> EffectiveGenerationDimensions \<Rightarrow> bool" where
  "has_output w n d \<longleftrightarrow> (\<exists>g. has_geometry w n g \<and> d = decoded g)"

lemma infer_iff:
  assumes "scales_are_floats w" "cache_sound w cache"
  shows "(\<exists>cache'. infer_geometry w {} n cache = Inr (g, cache')) \<longleftrightarrow> has_geometry w n g"
  using infer_sound [OF assms(1)] infer_complete [OF assms(1)] assms(2) by blast

lemma infer_outputs_iff:
  assumes floats: "scales_are_floats w"
  shows "cache_sound w cache \<Longrightarrow> infer_outputs w cache items = Inr outs \<longleftrightarrow>
    (\<forall>(n, v) \<in> set items. hashable_class v) \<and> list_all2 (has_output w) (output_nodes items) outs"
proof (induction items arbitrary: cache outs)
  case Nil
  then show ?case by (auto simp: output_nodes_def)
next
  case (Cons item items)
  obtain n v where item: "item = (n, v)" by (cases item)
  show ?case
  proof (cases "saves_output v")
    case False
    then have nodes: "output_nodes (item # items) = output_nodes items" by (simp add: output_nodes_def item)
    have "infer_outputs w cache (item # items)
        = (if hashable_class v then infer_outputs w cache items else Inl DeliverabilityTypeError)"
      using False by (cases v) (auto simp: item saves_output_def class_of_def hashable_class_def split: comfy_value.splits)
    then show ?thesis using Cons nodes item by (cases "hashable_class v") auto
  next
    case True
    then obtain raw c where v: "v = CDict raw" "comfy_get raw ''class_type'' = CStr c" "c \<in> set COMFY_OUTPUT_NODE_CLASSES"
      by (auto simp: saves_output_def class_of_def split: comfy_value.splits)
    have nodes: "output_nodes (item # items) = n # output_nodes items"
      using True by (simp add: output_nodes_def item)
    have hash: "hashable_class v" using v by (simp add: hashable_class_def class_of_def)
    have eq: "infer_outputs w cache (item # items) = bindE (infer_geometry w {} n cache) (\<lambda>(geometry, cache').
        bindE (infer_outputs w cache' items) (\<lambda>outputs. Inr (decoded geometry # outputs)))"
      using v by (simp add: item)
    show ?thesis
    proof
      assume "infer_outputs w cache (item # items) = Inr outs"
      then obtain g c1 ds where inf: "infer_geometry w {} n cache = Inr (g, c1)"
          and rest: "infer_outputs w c1 items = Inr ds" and outs: "outs = decoded g # ds"
        unfolding eq by (auto simp: bindE_eq_Inr)
      from infer_sound [OF floats inf Cons.prems] have "has_geometry w n g" "cache_sound w c1" by auto
      moreover from this(1) have "has_output w n (decoded g)" by (auto simp: has_output_def)
      ultimately show "(\<forall>(n, v) \<in> set (item # items). hashable_class v)
          \<and> list_all2 (has_output w) (output_nodes (item # items)) outs"
        using Cons.IH [of c1 ds] rest outs hash nodes item by simp
    next
      assume r: "(\<forall>(n, v) \<in> set (item # items). hashable_class v)
          \<and> list_all2 (has_output w) (output_nodes (item # items)) outs"
      with nodes obtain g ds where g: "has_geometry w n g" "outs = decoded g # ds"
          and ds: "list_all2 (has_output w) (output_nodes items) ds"
        by (auto simp: list_all2_Cons1 has_output_def)
      from g(1) infer_iff [OF floats Cons.prems] obtain c1 where inf: "infer_geometry w {} n cache = Inr (g, c1)"
        by blast
      with infer_sound [OF floats inf Cons.prems] Cons.IH [of c1 ds] ds r g(2)
      show "infer_outputs w cache (item # items) = Inr outs" unfolding eq by simp
    qed
  qed
qed

lemma accepted_iff:
  assumes "scales_are_floats w"
  shows "require_comfy_workflow_deliverability w = Inr outs \<longleftrightarrow> output_nodes w \<noteq> []
     \<and> (\<forall>(n, v) \<in> set w. hashable_class v) \<and> list_all2 (has_output w) (output_nodes w) outs"
proof -
  have "require_comfy_workflow_deliverability w = Inr outs \<longleftrightarrow>
      w \<noteq> [] \<and> outs \<noteq> [] \<and> infer_outputs w (\<lambda>_. None) w = Inr outs"
    by (cases "infer_outputs w (\<lambda>_. None) w") (auto simp: require_comfy_workflow_deliverability_def)
  moreover have "w = [] \<Longrightarrow> output_nodes w = []" by (simp add: output_nodes_def)
  moreover have "list_all2 (has_output w) (output_nodes w) outs \<Longrightarrow> outs = [] \<longleftrightarrow> output_nodes w = []"
    by (auto dest: list_all2_lengthD)
  ultimately show ?thesis unfolding infer_outputs_iff [OF assms cache_sound_empty] by blast
qed

text \<open>A workflow that decodes, refines and saves one upscaled image.\<close>

definition standard_workflow :: "int \<Rightarrow> int \<Rightarrow> comfy_value \<Rightarrow> comfy_dict" where
  "standard_workflow width height scale =
     [(''1'', CDict [(''class_type'', CStr ''EmptyLatentImage''),
                (''inputs'', CDict [(''width'', CInt width), (''height'', CInt height)])]),
      (''2'', CDict [(''class_type'', CStr ''KSampler''), (''inputs'', CDict [(''latent_image'', CList [CStr ''1'', CInt 0])])]),
      (''3'', CDict [(''class_type'', CStr ''LatentUpscaleBy''),
                (''inputs'', CDict [(''samples'', CList [CStr ''2'', CInt 0]), (''scale_by'', scale)])]),
      (''4'', CDict [(''class_type'', CStr ''KSampler''), (''inputs'', CDict [(''latent_image'', CList [CStr ''3'', CInt 0])])]),
      (''5'', CDict [(''class_type'', CStr ''VAEDecode''), (''inputs'', CDict [(''samples'', CList [CStr ''4'', CInt 0])])]),
      (''6'', CDict [(''class_type'', CStr ''SaveImage''), (''inputs'', CDict [(''images'', CList [CStr ''5'', CInt 0])])])]"

lemma standard_floats: "scale_is_float scale \<Longrightarrow> scales_are_floats (standard_workflow width height scale)"
  by (auto simp: scales_are_floats_def node_is_def standard_workflow_def comfy_get_def scale_is_float_def split: if_splits)

lemma standard_runs:
  "require_comfy_workflow_deliverability (standard_workflow 832 1216 (CFloat (DFinite 15 (- 1))))
     = Inr [\<lparr>ed_width = 1248, ed_height = 1824\<rparr>]"
  by code_simp

text \<open>C23: A rendered workflow is accepted exactly when the graph says so. For every workflow whose scales are integers
  or floats, \<open>require_comfy_workflow_deliverability\<close> returns \<open>outs\<close> exactly when the workflow has an output node, every
  class can be hashed, and \<open>outs\<close> lists, in the order of the items, the decoded size that the exact rational semantics
  of the graph derives for each output node. Caching, the set of visited nodes and decimal arithmetic change nothing.\<close>

theorem rendered_outputs_exact:
  assumes "scales_are_floats w"
  shows "require_comfy_workflow_deliverability w = Inr outs \<longleftrightarrow> output_nodes w \<noteq> []
     \<and> (\<forall>(n, v) \<in> set w. hashable_class v) \<and> list_all2 (has_output w) (output_nodes w) outs"
  using assms by (rule accepted_iff)

lemma rendered_outputs_exact_witness:
  "list_all2 (has_output (standard_workflow 832 1216 (CFloat (DFinite 15 (- 1))))) [''6'']
     [\<lparr>ed_width = 1248, ed_height = 1824\<rparr>]"
proof -
  have "scales_are_floats (standard_workflow 832 1216 (CFloat (DFinite 15 (- 1))))"
    by (rule standard_floats) (simp add: scale_is_float_def float_text_def)
  from rendered_outputs_exact [OF this] standard_runs
  have "list_all2 (has_output (standard_workflow 832 1216 (CFloat (DFinite 15 (- 1)))))
      (output_nodes (standard_workflow 832 1216 (CFloat (DFinite 15 (- 1))))) [\<lparr>ed_width = 1248, ed_height = 1824\<rparr>]"
    by blast
  moreover have "output_nodes (standard_workflow 832 1216 (CFloat (DFinite 15 (- 1)))) = [''6'']" by code_simp
  ultimately show ?thesis by simp
qed

section \<open>Limits\<close>

lemma upstream_has_geometry:
  "(feeds w)\<^sup>*\<^sup>* m n \<Longrightarrow> has_geometry w n g \<Longrightarrow> \<exists>g'. has_geometry w m g'"
proof (induction arbitrary: g rule: rtranclp_induct)
  case base
  then show ?case by blast
next
  case (step k n)
  from step(2) obtain cls ins name kind where "node_is w n cls ins" "node_input cls = Some (name, kind)"
      "link_target (comfy_get ins name) = Inr k"
    by (auto simp: feeds_def)
  with step(4) has_geometry_wired_iff have "\<exists>src. has_geometry w k src" by metis
  with step.IH show ?case by blast
qed

text \<open>Every image of an accepted workflow is deliverable, and so is every intermediate one. When
  \<open>require_comfy_workflow_deliverability\<close> accepts, it returns one size per output node, each between 1 and 8192 pixels
  wide and high and of at most 12,000,000 pixels, and every node an output depends on has a geometry within the same
  limits.\<close>

theorem accepted_outputs_fit:
  assumes "scales_are_floats w" and "require_comfy_workflow_deliverability w = Inr outs"
  shows "length outs = length (output_nodes w)
     \<and> (\<forall>d \<in> set outs. 1 \<le> ed_width d \<and> ed_width d \<le> 8192 \<and> 1 \<le> ed_height d \<and> ed_height d \<le> 8192
          \<and> ed_pixels d \<le> 12000000)
     \<and> (\<forall>n \<in> set (output_nodes w). \<forall>m. (feeds w)\<^sup>*\<^sup>* m n \<longrightarrow> (\<exists>g. has_geometry w m g \<and> fits_pipeline g))"
proof (intro conjI ballI allI impI)
  from assms have l: "list_all2 (has_output w) (output_nodes w) outs" by (simp add: accepted_iff)
  then show "length outs = length (output_nodes w)" by (simp add: list_all2_lengthD)
  fix d assume "d \<in> set outs"
  with l obtain n g where "has_geometry w n g" and d: "d = decoded g"
    by (auto simp: list_all2_conv_all_nth in_set_conv_nth has_output_def)
  from has_geometry_bounds [OF this(1)] d
  show "1 \<le> ed_width d" "ed_width d \<le> 8192" "1 \<le> ed_height d" "ed_height d \<le> 8192" "ed_pixels d \<le> 12000000"
    by (auto simp: fits_pipeline_def exceeds_pipeline_def decoded_def Let_def LATENT_PIXEL_SCALE_def
        MAX_PIPELINE_MASTER_WIDTH_def MAX_PIPELINE_MASTER_HEIGHT_def MAX_PIPELINE_MASTER_PIXELS_def)
next
  from assms have l: "list_all2 (has_output w) (output_nodes w) outs" by (simp add: accepted_iff)
  fix n m assume "n \<in> set (output_nodes w)" and up: "(feeds w)\<^sup>*\<^sup>* m n"
  with l obtain g where "has_geometry w n g"
    by (auto simp: list_all2_conv_all_nth in_set_conv_nth has_output_def)
  from upstream_has_geometry [OF up this] has_geometry_bounds show "\<exists>g. has_geometry w m g \<and> fits_pipeline g" by blast
qed

lemma accepted_outputs_fit_witness:
  "\<exists>outs. require_comfy_workflow_deliverability (standard_workflow 832 1216 (CFloat (DFinite 15 (- 1)))) = Inr outs
     \<and> (\<forall>d \<in> set outs. ed_pixels d \<le> 12000000)"
proof -
  have "scales_are_floats (standard_workflow 832 1216 (CFloat (DFinite 15 (- 1))))"
    by (rule standard_floats) (simp add: scale_is_float_def float_text_def)
  from accepted_outputs_fit [OF this standard_runs] standard_runs show ?thesis by blast
qed

section \<open>Cycles\<close>

definition cycle_error :: deliverability_error where
  "cycle_error = DeliverabilityError ''rendered workflow geometry contains a cycle''"

lemma other_errors [simp]:
  "geometry_invalid \<noteq> cycle_error" "geometry_limit_error d \<noteq> cycle_error"
  "DeliverabilityError ''rendered workflow output uses unsupported geometry nodes'' \<noteq> cycle_error"
  "DeliverabilityDecimal de \<noteq> cycle_error"
  by (simp_all add: geometry_invalid_def geometry_limit_error_def cycle_error_def)

lemma scaled_latent_no_cycle [simp]: "scaled_latent n d \<noteq> Inl cycle_error"
  by (auto simp: scaled_latent_def lift_decimal_def split: sum.splits)

lemma positive_integer_no_cycle [simp]: "positive_comfy_integer v \<noteq> Inl cycle_error"
  by (auto simp: positive_comfy_integer_def split: comfy_value.splits)

lemma positive_scale_no_cycle [simp]: "positive_comfy_scale v \<noteq> Inl cycle_error"
  by (auto simp: positive_comfy_scale_def split: comfy_value.splits pydecimal.splits)

lemma link_target_no_cycle [simp]: "link_target v \<noteq> Inl cycle_error"
  by (auto simp: link_target_def split: comfy_value.splits list.splits)

lemma empty_latent_no_cycle [simp]: "empty_latent_geometry ins \<noteq> Inl cycle_error"
  by (auto simp: empty_latent_geometry_def bindE_eq_Inl Let_def split: if_splits)

lemma transform_no_cycle [simp]: "node_transform cls ins src \<noteq> Inl cycle_error"
  by (auto simp: node_transform_def upscaled_geometry_def bindE_eq_Inl Let_def split: if_splits)

lemma limits_no_cycle [simp]: "require_geometry_within_limits d \<noteq> Inl cycle_error"
  by (simp add: require_geometry_within_limits_def)

lemma infer_cycle_error:
  "infer_geometry w V n cache = Inl cycle_error \<Longrightarrow> (\<And>v. v \<in> V \<Longrightarrow> (feeds w)\<^sup>+\<^sup>+ n v) \<Longrightarrow>
    \<exists>k. (feeds w)\<^sup>*\<^sup>* k n \<and> (feeds w)\<^sup>+\<^sup>+ k k"
proof (induction "card (fst ` set w - V)" arbitrary: V n cache rule: less_induct)
  case less
  show ?case
  proof (cases "n \<in> V")
    case True
    with less.prems(2) show ?thesis by blast
  next
    case False
    from less.prems(1) have none: "cache n = None"
      by (cases "cache n") (auto simp: infer_geometry.simps [of w V n cache])
    from less.prems(1) False none obtain cls ins where nd: "node_is w n cls ins"
      by (auto simp: infer_geometry.simps [of w V n cache] node_is_def split: option.splits comfy_value.splits)
    from less.prems(1) have ng: "node_geometry (infer_geometry w (insert n V)) cls ins cache = Inl cycle_error"
      by (auto simp: infer_geometry_node [where cache = cache and n = n, OF none False nd] bindE_eq_Inl)
    then have "cls \<noteq> ''EmptyLatentImage''" by (auto simp: node_geometry_source bindE_eq_Inl)
    with ng obtain name kind where inp: "node_input cls = Some (name, kind)"
      by (cases "node_input cls") (auto simp: node_geometry_other)
    with ng obtain m where m: "link_target (comfy_get ins name) = Inr m"
        "infer_geometry w (insert n V) m cache = Inl cycle_error"
      by (auto simp: node_geometry_wired bindE_eq_Inl linked_geometry_def split: if_splits)
    have edge: "feeds w m n" using nd inp m(1) by (auto simp: feeds_def)
    have "n \<in> fst ` set w - V"
      using nd False by (auto simp: node_is_def dest: map_of_SomeD intro: rev_image_eqI)
    then have "card (fst ` set w - insert n V) < card (fst ` set w - V)" by (intro psubset_card_mono) auto
    moreover have "(feeds w)\<^sup>+\<^sup>+ m v" if "v \<in> insert n V" for v
      using that edge less.prems(2) by (auto intro: tranclp_into_tranclp2)
    ultimately obtain k where "(feeds w)\<^sup>*\<^sup>* k m" "(feeds w)\<^sup>+\<^sup>+ k k" using less.hyps m(2) by blast
    with edge show ?thesis by (blast intro: rtranclp.rtrancl_into_rtrancl)
  qed
qed

lemma infer_outputs_cycle_error:
  "infer_outputs w cache items = Inl cycle_error \<Longrightarrow>
    \<exists>n \<in> set (output_nodes items). \<exists>k. (feeds w)\<^sup>*\<^sup>* k n \<and> (feeds w)\<^sup>+\<^sup>+ k k"
proof (induction w cache items rule: infer_outputs.induct)
  case (2 w cache n raw items)
  have nodes: "output_nodes ((n, v) # items) = (if saves_output v then n # output_nodes items else output_nodes items)" for v
    by (simp add: output_nodes_def)
  show ?case
  proof (cases "comfy_get raw ''class_type''")
    case (CStr c)
    then have out: "saves_output (CDict raw) \<longleftrightarrow> c \<in> set COMFY_OUTPUT_NODE_CLASSES"
      by (simp add: saves_output_def class_of_def)
    show ?thesis
    proof (cases "c \<in> set COMFY_OUTPUT_NODE_CLASSES")
      case True
      from "2.prems" consider "infer_geometry w {} n cache = Inl cycle_error"
        | g c1 where "infer_geometry w {} n cache = Inr (g, c1)" "infer_outputs w c1 items = Inl cycle_error"
        by (auto simp: CStr True bindE_eq_Inl)
      then show ?thesis
      proof cases
        case 1
        from infer_cycle_error [OF this] show ?thesis by (auto simp: nodes out True)
      next
        case 2
        from "2.IH"(5) [OF CStr True 2(2)] show ?thesis by (simp add: nodes out True)
      qed
    next
      case False
      with "2.prems" "2.IH"(6) [OF CStr False] show ?thesis by (simp add: CStr nodes out)
    qed
  qed (use 2 in \<open>auto simp: nodes cycle_error_def split: if_splits\<close>)
qed (auto simp: output_nodes_def saves_output_def class_of_def)

text \<open>Cyclic graphs are rejected and no other graph is called cyclic. If an output node depends on a node that
  depends on itself, \<open>require_comfy_workflow_deliverability\<close> does not accept; and when it reports a cycle, some output
  node does depend on such a node.\<close>

theorem cycles_are_rejected:
  assumes "scales_are_floats w"
  shows "(\<forall>n \<in> set (output_nodes w). \<forall>k. (feeds w)\<^sup>*\<^sup>* k n \<and> (feeds w)\<^sup>+\<^sup>+ k k
            \<longrightarrow> (\<forall>outs. require_comfy_workflow_deliverability w \<noteq> Inr outs))
     \<and> (require_comfy_workflow_deliverability w
            = Inl (DeliverabilityError ''rendered workflow geometry contains a cycle'')
          \<longrightarrow> (\<exists>n \<in> set (output_nodes w). \<exists>k. (feeds w)\<^sup>*\<^sup>* k n \<and> (feeds w)\<^sup>+\<^sup>+ k k))"
proof (intro conjI ballI allI impI notI)
  fix n k outs
  assume n: "n \<in> set (output_nodes w)" and k: "(feeds w)\<^sup>*\<^sup>* k n \<and> (feeds w)\<^sup>+\<^sup>+ k k"
    and "require_comfy_workflow_deliverability w = Inr outs"
  then have "list_all2 (has_output w) (output_nodes w) outs" using accepted_iff [OF assms] by blast
  with n obtain g where "has_geometry w n g"
    by (auto simp: list_all2_conv_all_nth in_set_conv_nth has_output_def)
  with k upstream_has_geometry has_geometry_acyclic show False by blast
next
  assume "require_comfy_workflow_deliverability w
      = Inl (DeliverabilityError ''rendered workflow geometry contains a cycle'')"
  then have "infer_outputs w (\<lambda>_. None) w = Inl cycle_error"
    by (auto simp: require_comfy_workflow_deliverability_def bindE_eq_Inl cycle_error_def geometry_invalid_def
        split: if_splits)
  then show "\<exists>n \<in> set (output_nodes w). \<exists>k. (feeds w)\<^sup>*\<^sup>* k n \<and> (feeds w)\<^sup>+\<^sup>+ k k"
    by (rule infer_outputs_cycle_error)
qed

definition looping_workflow :: comfy_dict where
  "looping_workflow =
     [(''1'', CDict [(''class_type'', CStr ''FaceDetailer''), (''inputs'', CDict [(''image'', CList [CStr ''1'', CInt 0])])]),
      (''2'', CDict [(''class_type'', CStr ''SaveImage''), (''inputs'', CDict [(''images'', CList [CStr ''1'', CInt 0])])])]"

lemma cycles_are_rejected_witness:
  "\<exists>n \<in> set (output_nodes looping_workflow). \<exists>k. (feeds looping_workflow)\<^sup>*\<^sup>* k n \<and> (feeds looping_workflow)\<^sup>+\<^sup>+ k k"
proof -
  have "scales_are_floats looping_workflow"
    by (auto simp: scales_are_floats_def node_is_def looping_workflow_def comfy_get_def scale_is_float_def split: if_splits)
  moreover have "require_comfy_workflow_deliverability looping_workflow
      = Inl (DeliverabilityError ''rendered workflow geometry contains a cycle'')" by code_simp
  ultimately show ?thesis using cycles_are_rejected by blast
qed

section \<open>Planned sizes\<close>

lemma dec_product_exact:
  assumes "0 \<le> n" "n \<le> 1024" "\<bar>c\<bar> < 10 ^ 17"
  shows "dec_times_int n (DFinite c e) = Inr (DFinite (n * c) e)"
proof -
  have "\<bar>n * c\<bar> = n * \<bar>c\<bar>" using assms by (simp add: abs_mult)
  also have "\<dots> \<le> 1024 * 10 ^ 17" using assms by (intro mult_mono) auto
  finally show ?thesis by (simp add: dec_round_exact)
qed

lemma hires_dimensions:
  assumes "0 \<le> width" "width \<le> 8192" "0 \<le> height" "height \<le> 8192" "\<bar>c\<bar> < 10 ^ 17"
    and "HIRES_WORKFLOW_NODE_CLASS \<in> set classes"
  shows "effective_generation_dimensions width height (DFinite c e) classes =
    Inr \<lparr>ed_width = \<lceil>of_int (width div 8) * dec_rat c e\<rceil> * 8, ed_height = \<lceil>of_int (height div 8) * dec_rat c e\<rceil> * 8\<rparr>"
  using assms by (simp add: effective_generation_dimensions_def LATENT_PIXEL_SCALE_def dec_product_exact
      lift_decimal_def dec_ceiling_rat dec_rat_mult del: dec_times_int.simps dec_ceiling.simps)

text \<open>The planned size is an upper bound, and a tight one. For a width and height of whole latent pixels up to 8192
  and a positive float scale, a hires generation that \<open>require_generation_deliverability\<close> admits has a size that is at
  least the requested size times the scale, less than one latent pixel (8 pixels) more, and within the pipeline limits;
  and it is refused only when this size exceeds them.\<close>

theorem planned_size_is_upper_bound:
  assumes "0 < width" "width \<le> 8192" "8 dvd width" "0 < height" "height \<le> 8192" "8 dvd height"
    and "\<bar>c\<bar> < 10 ^ 17" and "HIRES_WORKFLOW_NODE_CLASS \<in> set classes"
  shows "\<exists>d. effective_generation_dimensions width height (DFinite c e) classes = Inr d
     \<and> of_int width * dec_rat c e \<le> of_int (ed_width d) \<and> of_int (ed_width d) < of_int width * dec_rat c e + 8
     \<and> of_int height * dec_rat c e \<le> of_int (ed_height d) \<and> of_int (ed_height d) < of_int height * dec_rat c e + 8
     \<and> (require_generation_deliverability width height (DFinite c e) classes = Inr d
          \<longleftrightarrow> ed_width d \<le> 8192 \<and> ed_height d \<le> 8192 \<and> ed_pixels d \<le> 12000000)"
proof -
  let ?r = "dec_rat c e"
  let ?d = "\<lparr>ed_width = \<lceil>of_int (width div 8) * ?r\<rceil> * 8, ed_height = \<lceil>of_int (height div 8) * ?r\<rceil> * 8\<rparr>"
  have d: "effective_generation_dimensions width height (DFinite c e) classes = Inr ?d"
    by (rule hires_dimensions) (use assms in auto)
  have bound: "of_int x * ?r \<le> of_int (\<lceil>of_int (x div 8) * ?r\<rceil> * 8) \<and> of_int (\<lceil>of_int (x div 8) * ?r\<rceil> * 8) < of_int x * ?r + 8"
    if "8 dvd x" for x :: int
  proof -
    from that obtain k where x: "x = 8 * k" by blast
    have "of_int k * ?r \<le> of_int \<lceil>of_int k * ?r\<rceil>" "of_int \<lceil>of_int k * ?r\<rceil> < of_int k * ?r + 1" by linarith+
    then show ?thesis by (simp add: x)
  qed
  have "require_generation_deliverability width height (DFinite c e) classes = Inr ?d
      \<longleftrightarrow> ed_width ?d \<le> 8192 \<and> ed_height ?d \<le> 8192 \<and> ed_pixels ?d \<le> 12000000"
    by (simp only: require_generation_deliverability_def d bindE_simps exceeds_pipeline_def
        MAX_PIPELINE_MASTER_WIDTH_def MAX_PIPELINE_MASTER_HEIGHT_def MAX_PIPELINE_MASTER_PIXELS_def) auto
  with d bound [OF assms(3)] bound [OF assms(6)] show ?thesis by (intro exI [of _ ?d]) simp
qed

lemma planned_size_is_upper_bound_witness:
  "\<exists>d. effective_generation_dimensions 832 1216 (DFinite 15 (- 1)) [''KSampler'', ''LatentUpscaleBy''] = Inr d
     \<and> 1248 \<le> ed_width d"
  using planned_size_is_upper_bound [of 832 1216 15 "[''KSampler'', ''LatentUpscaleBy'']" "- 1"]
  by (simp add: HIRES_WORKFLOW_NODE_CLASS_def dec_rat_def) (metis of_int_le_iff of_int_numeral)

definition upscaled_by :: "rat \<Rightarrow> ComfyGeometry \<Rightarrow> ComfyGeometry" where
  "upscaled_by s g = \<lparr>cg_kind = KLatent, cg_width = \<lceil>of_int (cg_width g) * s\<rceil>, cg_height = \<lceil>of_int (cg_height g) * s\<rceil>\<rparr>"

lemma ceiling_grows: "1 \<le> s \<Longrightarrow> 0 \<le> x \<Longrightarrow> x \<le> \<lceil>of_int x * s\<rceil>" for s :: rat and x :: int
proof -
  assume "1 \<le> s" "0 \<le> x"
  then have "(of_int x :: rat) * 1 \<le> of_int x * s" by (intro mult_left_mono) auto
  then show ?thesis by (simp add: le_ceiling_iff)
qed

lemma fits_latent:
  "cg_kind g = KLatent \<Longrightarrow> fits_pipeline g \<longleftrightarrow>
    cg_width g \<le> 1024 \<and> cg_height g \<le> 1024 \<and> cg_width g * cg_height g \<le> 187500"
  by (auto simp: fits_pipeline_def exceeds_pipeline_def decoded_def ed_pixels_def LATENT_PIXEL_SCALE_def
      MAX_PIPELINE_MASTER_WIDTH_def MAX_PIPELINE_MASTER_HEIGHT_def MAX_PIPELINE_MASTER_PIXELS_def mult.commute)

lemma upscaled_kind [simp]: "cg_kind (upscaled_by s g) = KLatent"
  by (simp add: upscaled_by_def)

lemma upscaled_fits:
  assumes "1 \<le> s" "1 \<le> cg_width g" "1 \<le> cg_height g" "cg_kind g = KLatent" "fits_pipeline (upscaled_by s g)"
  shows "fits_pipeline g" and "s \<le> 1024"
proof -
  have w: "cg_width g \<le> cg_width (upscaled_by s g)" and h: "cg_height g \<le> cg_height (upscaled_by s g)"
    using ceiling_grows assms by (auto simp: upscaled_by_def)
  have "cg_width g * cg_height g \<le> cg_width (upscaled_by s g) * cg_height (upscaled_by s g)"
    using w h assms by (intro mult_mono) auto
  with w h assms(4,5) show "fits_pipeline g" by (simp add: fits_latent)
  have "1 * s \<le> of_int (cg_width g) * s" using assms by (intro mult_right_mono) auto
  also have "\<dots> \<le> of_int (cg_width (upscaled_by s g))" by (simp add: upscaled_by_def)
  also have "\<dots> \<le> 1024"
    using latent_bounds [OF assms(5)] by (simp add: upscaled_by_def)
  finally show "s \<le> 1024" by simp
qed

lemma standard_geometry:
  assumes "8 \<le> width" "8 \<le> height" "scale_of scale = Some s" "1 \<le> s"
  defines "w \<equiv> standard_workflow width height scale"
    and "g0 \<equiv> \<lparr>cg_kind = KLatent, cg_width = width div 8, cg_height = height div 8\<rparr>"
  shows "has_geometry w ''6'' g \<longleftrightarrow> fits_pipeline (upscaled_by s g0) \<and> g = decoded_geometry (upscaled_by s g0)"
proof -
  note eval = node_is_def w_def standard_workflow_def comfy_get_def node_input_def link_target_def is_slot_zero_def
  have pos: "1 \<le> width div 8" "1 \<le> height div 8" using assms(1,2) by linarith+
  have n1: "node_is w ''1'' ''EmptyLatentImage'' [(''width'', CInt width), (''height'', CInt height)]"
    by (simp add: eval)
  have n2: "node_is w ''2'' ''KSampler'' [(''latent_image'', CList [CStr ''1'', CInt 0])]"
    and n3: "node_is w ''3'' ''LatentUpscaleBy'' [(''samples'', CList [CStr ''2'', CInt 0]), (''scale_by'', scale)]"
    and n4: "node_is w ''4'' ''KSampler'' [(''latent_image'', CList [CStr ''3'', CInt 0])]"
    and n5: "node_is w ''5'' ''VAEDecode'' [(''samples'', CList [CStr ''4'', CInt 0])]"
    and n6: "node_is w ''6'' ''SaveImage'' [(''images'', CList [CStr ''5'', CInt 0])]"
    by (simp_all add: eval)
  note wire = comfy_get_def node_input_def link_target_def is_slot_zero_def
  have g1: "has_geometry w ''1'' g \<longleftrightarrow> fits_pipeline g0 \<and> g = g0" for g
    using has_geometry_source_iff [OF n1, of g] assms(1,2)
    by (auto simp: empty_latent_geometry_iff comfy_get_def g0_def)
  have k0: "cg_kind g0 = KLatent" by (simp add: g0_def)
  have g2: "has_geometry w ''2'' g \<longleftrightarrow> fits_pipeline g0 \<and> g = g0" for g
    using has_geometry_wired_iff [OF n2, of "''latent_image''" KLatent "''1''" g] k0
    by (auto simp: wire g1 node_output_def)
  have up: "node_output ''LatentUpscaleBy'' [(''samples'', CList [CStr ''2'', CInt 0]), (''scale_by'', scale)] g0 g
      \<longleftrightarrow> s \<le> 1024 \<and> g = upscaled_by s g0" for g
    using assms(3,4) by (auto simp: node_output_def comfy_get_def upscaled_by_def)
  have fit0: "fits_pipeline (upscaled_by s g0) \<Longrightarrow> fits_pipeline g0 \<and> s \<le> 1024"
    using upscaled_fits [of s g0] pos assms(4) k0 by (simp add: g0_def)
  have g3: "has_geometry w ''3'' g \<longleftrightarrow> fits_pipeline (upscaled_by s g0) \<and> g = upscaled_by s g0" for g
    using has_geometry_wired_iff [OF n3, of "''samples''" KLatent "''2''" g] fit0 k0
    by (auto simp: wire g2 up)
  have g4: "has_geometry w ''4'' g \<longleftrightarrow> fits_pipeline (upscaled_by s g0) \<and> g = upscaled_by s g0" for g
    using has_geometry_wired_iff [OF n4, of "''latent_image''" KLatent "''3''" g]
    by (auto simp: wire g3 node_output_def)
  let ?img = "decoded_geometry (upscaled_by s g0)"
  have img: "\<lparr>cg_kind = KImage, cg_width = 8 * cg_width (upscaled_by s g0), cg_height = 8 * cg_height (upscaled_by s g0)\<rparr> = ?img"
    by (simp add: decoded_geometry_def LATENT_PIXEL_SCALE_def)
  have fits: "fits_pipeline ?img \<longleftrightarrow> fits_pipeline (upscaled_by s g0)" and ki: "cg_kind ?img = KImage"
    by (simp_all add: fits_pipeline_def decoded_def decoded_geometry_def upscaled_by_def)
  have g5: "has_geometry w ''5'' g \<longleftrightarrow> fits_pipeline (upscaled_by s g0) \<and> g = ?img" for g
    using has_geometry_wired_iff [OF n5, of "''samples''" KLatent "''4''" g] fits
    by (auto simp: wire g4 node_output_def img)
  show ?thesis
    using has_geometry_wired_iff [OF n6, of "''images''" KImage "''5''" g] fits ki
    by (auto simp: wire g5 node_output_def)
qed

text \<open>Planning and rendering agree. For a float scale of at least 1, the workflow that samples, upscales by the
  scale, samples again, decodes and saves one image is accepted with the single output size \<open>d\<close> exactly when the planner
  \<open>require_generation_deliverability\<close> admits the generation with the size \<open>d\<close>; so a plan that was admitted is never
  refused when its workflow is rendered, nor the other way round.\<close>

theorem planned_size_is_rendered_size:
  assumes "8 \<le> width" "width \<le> 8192" "8 \<le> height" "height \<le> 8192" and "\<bar>c\<bar> < 10 ^ 17" "1 \<le> dec_rat c e"
    and "HIRES_WORKFLOW_NODE_CLASS \<in> set classes"
  shows "require_comfy_workflow_deliverability (standard_workflow width height (CFloat (DFinite c e))) = Inr [d]
     \<longleftrightarrow> require_generation_deliverability width height (DFinite c e) classes = Inr d"
proof -
  let ?v = "CFloat (DFinite c e)" and ?s = "dec_rat c e"
  let ?w = "standard_workflow width height ?v"
  let ?g = "upscaled_by ?s \<lparr>cg_kind = KLatent, cg_width = width div 8, cg_height = height div 8\<rparr>"
  let ?d = "decoded (decoded_geometry ?g)"
  have floats: "scales_are_floats ?w"
    by (rule standard_floats) (use assms(5) in \<open>simp add: scale_is_float_def float_text_def\<close>)
  have nodes: "output_nodes ?w = [''6'']" and hash: "\<forall>(n, v) \<in> set ?w. hashable_class v"
    by (simp_all add: output_nodes_def standard_workflow_def saves_output_def hashable_class_def class_of_def
        comfy_get_def COMFY_OUTPUT_NODE_CLASSES_def)
  have "has_geometry ?w ''6'' g \<longleftrightarrow> fits_pipeline ?g \<and> g = decoded_geometry ?g" for g
    using assms by (intro standard_geometry) (simp_all add: scale_of_def)
  then have "require_comfy_workflow_deliverability ?w = Inr [d] \<longleftrightarrow> fits_pipeline ?g \<and> d = ?d"
    unfolding accepted_iff [OF floats] using nodes hash by (auto simp: has_output_def)
  moreover have eff: "effective_generation_dimensions width height (DFinite c e) classes = Inr ?d"
    using hires_dimensions [of width height c classes e] assms
    by (simp add: decoded_def decoded_geometry_def upscaled_by_def LATENT_PIXEL_SCALE_def)
  moreover have "exceeds_pipeline ?d \<longleftrightarrow> \<not> fits_pipeline ?g"
    by (simp add: fits_pipeline_def decoded_def decoded_geometry_def upscaled_by_def)
  then have "require_generation_deliverability width height (DFinite c e) classes = Inr d \<longleftrightarrow> fits_pipeline ?g \<and> d = ?d"
    by (auto simp: require_generation_deliverability_def eff)
  ultimately show ?thesis by blast
qed

lemma planned_size_is_rendered_size_witness:
  "require_generation_deliverability 832 1216 (DFinite 15 (- 1)) [''LatentUpscaleBy'']
     = Inr \<lparr>ed_width = 1248, ed_height = 1824\<rparr>"
proof -
  have "(1::rat) \<le> dec_rat 15 (- 1)" by (simp add: dec_rat_def)
  then show ?thesis
    using planned_size_is_rendered_size [of 832 1216 15 "- 1" "[''LatentUpscaleBy'']" "\<lparr>ed_width = 1248, ed_height = 1824\<rparr>"]
      standard_runs
    by (simp add: HIRES_WORKFLOW_NODE_CLASS_def)
qed

section \<open>The byte budget\<close>

text \<open>The byte budget fits every archive part and wastes nothing. A budget is returned exactly for the integers from
  1 to 500. It is positive and at most 16 MiB; a part of up to 100 of the images and one preview, each within the budget,
  stays within 128 MiB; and unless it is 16 MiB, one byte more per image would overflow the largest part.\<close>

theorem byte_budget_fits_every_part:
  "(patreon_full_output_byte_budget v = Inr b \<longrightarrow>
      (\<exists>n. v = PInt n \<and> 1 \<le> n \<and> n \<le> 500 \<and> 0 < b \<and> b \<le> 16 * 1024 * 1024
       \<and> (\<forall>k. 0 \<le> k \<and> k \<le> min n 100 \<longrightarrow> (k + 1) * b \<le> 128 * 1024 * 1024)
       \<and> (b < 16 * 1024 * 1024 \<longrightarrow> 128 * 1024 * 1024 < (min n 100 + 1) * (b + 1))))
   \<and> ((\<exists>b. patreon_full_output_byte_budget v = Inr b) \<longleftrightarrow> (\<exists>n. v = PInt n \<and> 1 \<le> n \<and> n \<le> 500))"
proof (intro conjI impI)
  note lims = MAX_ACCEPTED_IMAGES_PER_RELEASE_def PATREON_MAX_IMAGE_BYTES_def PATREON_MAX_TOTAL_IMAGE_BYTES_def
    PATREON_MAX_DERIVATIVE_IMAGES_def
  show "(\<exists>b. patreon_full_output_byte_budget v = Inr b) \<longleftrightarrow> (\<exists>n. v = PInt n \<and> 1 \<le> n \<and> n \<le> 500)"
    by (auto simp: patreon_full_output_byte_budget_def lims split: pyval.splits if_splits)
  assume "patreon_full_output_byte_budget v = Inr b"
  then obtain n where v: "v = PInt n" and n: "1 \<le> n" "n \<le> 500"
    and b: "b = min (16 * 1024 * 1024) (128 * 1024 * 1024 div (min n 100 + 1))"
    by (auto simp: patreon_full_output_byte_budget_def lims split: pyval.splits if_splits)
  define m where "m = min n 100 + 1"
  define q where "q = (134217728 :: int) div m"
  have m: "1 < m" "m \<le> 101" using n by (auto simp: m_def)
  have eq: "134217728 = m * q + 134217728 mod m" unfolding q_def by simp
  have r: "0 \<le> 134217728 mod m" "134217728 mod m < m" using m by simp_all
  have b': "b = min 16777216 q" using b by (simp add: m_def q_def)
  have le: "m * q \<le> 134217728" and gt: "134217728 < m * (q + 1)"
    using eq r by (simp_all add: algebra_simps)
  have q: "0 < q"
  proof (rule ccontr)
    assume "\<not> 0 < q"
    then have "m * (q + 1) \<le> m * 1" using m by (intro mult_left_mono) auto
    with gt m show False by simp
  qed
  have part: "(k + 1) * b \<le> 134217728" if "0 \<le> k" "k \<le> min n 100" for k
  proof -
    have "(k + 1) * b \<le> m * q" using that q b' by (intro mult_mono) (auto simp: m_def)
    with le show ?thesis by linarith
  qed
  have "134217728 < (min n 100 + 1) * (b + 1)" if "b < 16777216"
  proof -
    have "b = q" using that b' by simp
    with gt show ?thesis by (simp add: m_def)
  qed
  with v n b' q part show "\<exists>n. v = PInt n \<and> 1 \<le> n \<and> n \<le> 500 \<and> 0 < b \<and> b \<le> 16 * 1024 * 1024
      \<and> (\<forall>k. 0 \<le> k \<and> k \<le> min n 100 \<longrightarrow> (k + 1) * b \<le> 128 * 1024 * 1024)
      \<and> (b < 16 * 1024 * 1024 \<longrightarrow> 128 * 1024 * 1024 < (min n 100 + 1) * (b + 1))"
    by (intro exI [of _ n]) simp
qed

lemma byte_budget_fits_every_part_witness: "\<exists>b. patreon_full_output_byte_budget (PInt 120) = Inr b \<and> 101 * b \<le> 134217728"
proof -
  have b: "patreon_full_output_byte_budget (PInt 120) = Inr 1328888" by code_simp
  from byte_budget_fits_every_part [of "PInt 120" 1328888] b show ?thesis by auto
qed

end
