(* ===== verification/WarmLeaseMachine.thy ===== *)
theory WarmLeaseMachine
  imports WarmLeases BudgetProperties
begin

text \<open>
  The abstract contract of the warm leases: the life of one lease as a state machine on its row, the
  invariant of the table, and the lemmas that carry moves of rows to whole tables. The last section shows
  that the operations of the budget guard, whose kill switch fails every live lease, keep to it.
\<close>

section \<open>The life of a lease\<close>

definition same_lease :: "ExperimentWarmLease \<Rightarrow> ExperimentWarmLease \<Rightarrow> bool" where
  "same_lease l l' \<longleftrightarrow> wl_id l' = wl_id l \<and> wl_salad_deployment_id l' = wl_salad_deployment_id l
     \<and> wl_started_at l' = wl_started_at l \<and> wl_hard_expires_at l' = wl_hard_expires_at l
     \<and> wl_idle_ttl_seconds l' = wl_idle_ttl_seconds l \<and> wl_max_cost_microusd l' = wl_max_cost_microusd l
     \<and> wl_requested_checkpoint_sha256 l' = wl_requested_checkpoint_sha256 l
     \<and> wl_requested_lora_sha256s l' = wl_requested_lora_sha256s l \<and> wl_created_by l' = wl_created_by l
     \<and> wl_lock_version l' = wl_lock_version l + 1"

definition same_window :: "ExperimentWarmLease \<Rightarrow> ExperimentWarmLease \<Rightarrow> bool" where
  "same_window l l' \<longleftrightarrow> wl_expires_at l' = wl_expires_at l \<and> wl_provider_version l' = wl_provider_version l"

inductive lease_move :: "ExperimentWarmLease \<Rightarrow> ExperimentWarmLease \<Rightarrow> bool" where
  refresh: "same_lease l l' \<Longrightarrow> wl_state l = LeaseSTARTING \<Longrightarrow> wl_state l' = LeaseSTARTING \<Longrightarrow>
     wl_provider_version l = None \<Longrightarrow> wl_provider_version l' = Some v \<Longrightarrow> 0 < v \<Longrightarrow>
     wl_expires_at l' = wl_expires_at l \<Longrightarrow> wl_ended_at l' = wl_ended_at l \<Longrightarrow> lease_move l l'"
| activate: "same_lease l l' \<Longrightarrow> wl_state l = LeaseSTARTING \<Longrightarrow> wl_state l' = LeaseACTIVE \<Longrightarrow>
     wl_provider_version l' = Some v \<Longrightarrow> 0 < v \<Longrightarrow> wl_started_at l < wl_expires_at l' \<Longrightarrow>
     wl_expires_at l' \<le> wl_hard_expires_at l \<Longrightarrow> wl_ended_at l' = wl_ended_at l \<Longrightarrow> lease_move l l'"
| renew: "same_lease l l' \<Longrightarrow> wl_state l = LeaseACTIVE \<Longrightarrow> wl_state l' = LeaseACTIVE \<Longrightarrow>
     wl_expires_at l \<le> wl_expires_at l' \<Longrightarrow> wl_expires_at l' \<le> wl_hard_expires_at l \<Longrightarrow>
     wl_provider_version l' = wl_provider_version l \<Longrightarrow> wl_ended_at l' = wl_ended_at l \<Longrightarrow> lease_move l l'"
| release: "same_lease l l' \<Longrightarrow> same_window l l' \<Longrightarrow> wl_state l \<in> set usable_states \<Longrightarrow>
     wl_state l' = LeaseENDING \<Longrightarrow> wl_ended_at l' = wl_ended_at l \<Longrightarrow> lease_move l l'"
| finish: "same_lease l l' \<Longrightarrow> same_window l l' \<Longrightarrow> wl_state l = LeaseENDING \<Longrightarrow>
     wl_state l' = LeaseENDED \<Longrightarrow> wl_ended_at l' = Some t \<Longrightarrow> lease_move l l'"
| lapse: "same_lease l l' \<Longrightarrow> same_window l l' \<Longrightarrow>
     wl_state l = LeaseSTARTING \<and> wl_hard_expires_at l \<le> t
       \<or> wl_state l = LeaseACTIVE \<and> (wl_expires_at l \<le> t \<or> wl_hard_expires_at l \<le> t) \<Longrightarrow>
     wl_state l' = LeaseEXPIRED \<Longrightarrow> wl_ended_at l' = Some t \<Longrightarrow> lease_move l l'"
| cut_off: "same_lease l l' \<Longrightarrow> same_window l l' \<Longrightarrow> live_lease l \<Longrightarrow>
     wl_state l' = LeaseFAILED \<Longrightarrow> wl_ended_at l' = Some t \<Longrightarrow> lease_move l l'"

definition lease_inv :: "ExperimentWarmLease \<Rightarrow> bool" where
  "lease_inv l \<longleftrightarrow> lease_ok l
     \<and> wl_hard_expires_at l = wl_started_at l + MAX_EXPERIMENT_WARM_LEASE_SECONDS * us_per_second
     \<and> (wl_state l = LeaseACTIVE \<longrightarrow> wl_provider_version l \<noteq> None)"

lemmas lease_states = live_lease_def live_lease_states_def usable_states_def

lemma lease_move_same: "lease_move l l' \<Longrightarrow> same_lease l l'"
  by (auto elim: lease_move.cases)

lemma lease_move_live: "lease_move l l' \<Longrightarrow> live_lease l"
  by (auto elim!: lease_move.cases simp: lease_states)

lemma lease_move_inv: "lease_move l l' \<Longrightarrow> lease_inv l \<Longrightarrow> lease_inv l'"
  by (induction rule: lease_move.induct)
    (auto simp: lease_inv_def lease_ok_def same_lease_def same_window_def lease_states split: option.splits)

interpretation lease_life: invariant_system lease_move lease_inv
  by unfold_locales (rule lease_move_inv)

lemma lease_moves_id: "lease_move\<^sup>*\<^sup>* l l' \<Longrightarrow> wl_id l' = wl_id l"
  by (induction rule: rtranclp_induct) (auto dest: lease_move_same simp: same_lease_def)

lemma lease_moves_fixed:
  "lease_move\<^sup>*\<^sup>* l l' \<Longrightarrow> wl_salad_deployment_id l' = wl_salad_deployment_id l \<and> wl_started_at l' = wl_started_at l
     \<and> wl_hard_expires_at l' = wl_hard_expires_at l"
  by (induction rule: rtranclp_induct) (auto dest: lease_move_same simp: same_lease_def)

lemma dead_lease_stuck: "lease_move\<^sup>*\<^sup>* l l' \<Longrightarrow> \<not> live_lease l \<Longrightarrow> l' = l"
  by (induction rule: rtranclp_induct) (auto dest: lease_move_live)

section \<open>Tables of leases\<close>

definition one_live :: "db \<Rightarrow> bool" where
  "one_live d \<longleftrightarrow> distinct (map wl_salad_deployment_id (filter live_lease (db_leases d)))"

definition warm_inv :: "db \<Rightarrow> bool" where
  "warm_inv d \<longleftrightarrow> db_ok d \<and> (\<forall>l \<in> set (db_leases d). lease_inv l) \<and> one_live d"

definition lease_change :: "db \<Rightarrow> db \<Rightarrow> bool" where
  "lease_change d d' \<longleftrightarrow> (\<exists>g. db_leases d' = map g (db_leases d)
     \<and> (\<forall>l \<in> set (db_leases d). g l = l \<or> lease_move l (g l)))"

definition fresh_lease :: "ExperimentWarmLease \<Rightarrow> bool" where
  "fresh_lease l \<longleftrightarrow> lease_inv l \<and> wl_state l = LeaseSTARTING \<and> wl_provider_version l = None
     \<and> wl_expires_at l = wl_hard_expires_at l \<and> wl_lock_version l = 1"

text \<open>Rows only move, and rows that appear were created afresh.\<close>

definition warm_refines :: "db \<Rightarrow> db \<Rightarrow> bool" where
  "warm_refines d d' \<longleftrightarrow>
     (\<forall>k l. get_lease k d = Some l \<longrightarrow> (\<exists>l'. get_lease k d' = Some l' \<and> lease_move\<^sup>*\<^sup>* l l'))
   \<and> (\<forall>k l'. get_lease k d = None \<longrightarrow> get_lease k d' = Some l' \<longrightarrow> (\<exists>l0. fresh_lease l0 \<and> lease_move\<^sup>*\<^sup>* l0 l'))"

lemma warm_refines_refl: "warm_refines d d"
  by (simp add: warm_refines_def)

lemma warm_refines_trans:
  assumes "warm_refines a b" and "warm_refines b c"
  shows "warm_refines a c"
  unfolding warm_refines_def
proof (intro conjI allI impI)
  fix k l assume "get_lease k a = Some l"
  with assms(1) obtain l1 where "get_lease k b = Some l1" "lease_move\<^sup>*\<^sup>* l l1" unfolding warm_refines_def by blast
  moreover from this(1) assms(2) obtain l2 where "get_lease k c = Some l2" "lease_move\<^sup>*\<^sup>* l1 l2"
    unfolding warm_refines_def by blast
  ultimately show "\<exists>l'. get_lease k c = Some l' \<and> lease_move\<^sup>*\<^sup>* l l'" by (blast intro: rtranclp_trans)
next
  fix k l' assume n: "get_lease k a = None" and c: "get_lease k c = Some l'"
  show "\<exists>l0. fresh_lease l0 \<and> lease_move\<^sup>*\<^sup>* l0 l'"
  proof (cases "get_lease k b")
    case None
    with c assms(2) show ?thesis unfolding warm_refines_def by blast
  next
    case (Some l1)
    with n assms(1) obtain l0 where "fresh_lease l0" "lease_move\<^sup>*\<^sup>* l0 l1" unfolding warm_refines_def by blast
    moreover from Some assms(2) c have "lease_move\<^sup>*\<^sup>* l1 l'" unfolding warm_refines_def by force
    ultimately show ?thesis by (blast intro: rtranclp_trans)
  qed
qed

lemma lease_change_refl: "lease_change d d"
  unfolding lease_change_def by (intro exI [of _ "\<lambda>l. l"]) simp

lemma lease_change_same: "db_leases d' = db_leases d \<Longrightarrow> lease_change d d'"
  unfolding lease_change_def by (intro exI [of _ "\<lambda>l. l"]) simp

lemma lease_change_cong:
  "lease_change d d' \<Longrightarrow> db_leases e = db_leases d \<Longrightarrow> db_leases e' = db_leases d' \<Longrightarrow> lease_change e e'"
  by (simp add: lease_change_def)

lemma row_get_map:
  assumes "\<And>x. x \<in> set rows \<Longrightarrow> key (g x) = key x"
  shows "row_get key k (map g rows) = map_option g (row_get key k rows)"
  using assms by (induction rows) (auto simp: row_get_def)

lemma change_keeps_id: "g l = l \<or> lease_move l (g l) \<Longrightarrow> wl_id (g l) = wl_id l"
  by (auto dest: lease_move_same simp: same_lease_def)

lemma lease_change_refines:
  assumes "lease_change d d'"
  shows "warm_refines d d'"
proof -
  from assms obtain g where g: "db_leases d' = map g (db_leases d)"
      "\<forall>l \<in> set (db_leases d). g l = l \<or> lease_move l (g l)"
    unfolding lease_change_def by blast
  have "row_get wl_id k (map g (db_leases d)) = map_option g (get_lease k d)" for k
    by (rule row_get_map) (use g(2) change_keeps_id in blast)
  then have get: "get_lease k d' = map_option g (get_lease k d)" for k by (simp add: g(1))
  have "lease_move\<^sup>*\<^sup>* l (g l)" if "get_lease k d = Some l" for k l
    using g(2) row_get_mem [OF that] by auto
  with get show ?thesis by (simp add: warm_refines_def)
qed

lemma change_live:
  assumes "m = l \<or> lease_move l m"
  shows "live_lease m \<Longrightarrow> live_lease l" and "wl_salad_deployment_id m = wl_salad_deployment_id l"
  using assms by (auto dest: lease_move_live lease_move_same simp: same_lease_def)

lemma live_subset:
  assumes "\<forall>l \<in> set ls. g l = l \<or> lease_move l (g l)"
  shows "wl_salad_deployment_id ` {l \<in> set (map g ls). live_lease l} \<subseteq> wl_salad_deployment_id ` {l \<in> set ls. live_lease l}"
proof
  fix k assume "k \<in> wl_salad_deployment_id ` {l \<in> set (map g ls). live_lease l}"
  then obtain l where l: "l \<in> set ls" "live_lease (g l)" "k = wl_salad_deployment_id (g l)" by auto
  with assms have c: "g l = l \<or> lease_move l (g l)" by blast
  from change_live(1) [OF c l(2)] change_live(2) [OF c] l(1,3)
  show "k \<in> wl_salad_deployment_id ` {l \<in> set ls. live_lease l}" by auto
qed

lemma live_distinct:
  "\<forall>l \<in> set ls. g l = l \<or> lease_move l (g l) \<Longrightarrow> distinct (map wl_salad_deployment_id (filter live_lease ls)) \<Longrightarrow>
    distinct (map wl_salad_deployment_id (filter live_lease (map g ls)))"
proof (induction ls)
  case (Cons l ls)
  then have c: "g l = l \<or> lease_move l (g l)" by simp
  have sub: "wl_salad_deployment_id ` {l \<in> set (map g ls). live_lease l} \<subseteq> wl_salad_deployment_id ` {l \<in> set ls. live_lease l}"
    using Cons.prems(1) by (intro live_subset) simp
  show ?case
  proof (cases "live_lease (g l)")
    case True
    then have "live_lease l" by (rule change_live(1) [OF c])
    with Cons.prems(2) have "wl_salad_deployment_id l \<notin> wl_salad_deployment_id ` {l \<in> set ls. live_lease l}" by auto
    with sub have "wl_salad_deployment_id (g l) \<notin> wl_salad_deployment_id ` {l \<in> set (map g ls). live_lease l}"
      using change_live(2) [OF c] by auto
    with Cons True show ?thesis by (auto split: if_splits)
  next
    case False
    with Cons show ?thesis by (auto split: if_splits)
  qed
qed simp

text \<open>The tables an operation on leases leaves alone, up to the deployments' other columns.\<close>

definition same_tables :: "db \<Rightarrow> db \<Rightarrow> bool" where
  "same_tables d d' \<longleftrightarrow> db_guards d' = db_guards d \<and> db_entries d' = db_entries d \<and> db_jobs d' = db_jobs d
     \<and> db_attempts d' = db_attempts d \<and> db_outbox d' = db_outbox d
     \<and> map sd_id (db_deployments d') = map sd_id (db_deployments d)
     \<and> ((\<forall>x \<in> set (db_deployments d). deployment_ok x) \<longrightarrow> (\<forall>x \<in> set (db_deployments d'). deployment_ok x))"

lemma lease_change_inv:
  assumes inv: "warm_inv d" and ch: "lease_change d d'"
    and rest: "same_tables d d' \<or> db_ok d'"
  shows "warm_inv d'"
proof -
  from ch obtain g where g: "db_leases d' = map g (db_leases d)"
      "\<forall>l \<in> set (db_leases d). g l = l \<or> lease_move l (g l)"
    unfolding lease_change_def by blast
  have li: "\<forall>l \<in> set (db_leases d'). lease_inv l"
    using inv g by (auto simp: warm_inv_def) (metis lease_move_inv)
  then have lo: "\<forall>l \<in> set (db_leases d'). lease_ok l" by (simp add: lease_inv_def)
  have "map wl_id (db_leases d') = map wl_id (db_leases d)"
    using g change_keeps_id by auto
  then have "distinct (map wl_id (db_leases d'))"
    using inv by (metis db_okD(16) warm_inv_def)
  with lo rest inv have "db_ok d'"
    by (auto simp: same_tables_def warm_inv_def db_ok_def)
  moreover have "one_live d'"
    using live_distinct [OF g(2)] inv by (simp add: one_live_def warm_inv_def g(1))
  ultimately show ?thesis using li by (simp add: warm_inv_def)
qed

lemma put_lease_change:
  assumes "db_ok d" and "get_lease (wl_id l') d = Some l" and "lease_move l l'"
    and "db_leases d' = row_put wl_id l' (db_leases d)"
  shows "lease_change d d'"
  unfolding lease_change_def
proof (intro exI conjI ballI)
  show "db_leases d' = map (\<lambda>x. if wl_id x = wl_id l' then l' else x) (db_leases d)"
    using assms(4) by (simp add: row_put_def)
  fix x assume "x \<in> set (db_leases d)"
  then have "row_get wl_id (wl_id x) (db_leases d) = Some x"
    using db_okD(16) [OF assms(1)] by (intro row_get_distinct)
  with assms(2,3) show "(if wl_id x = wl_id l' then l' else x) = x
      \<or> lease_move x (if wl_id x = wl_id l' then l' else x)" by auto
qed

text \<open>A loop that writes selected leases back, each changed by \<open>f\<close>.\<close>

lemma lease_fold_change:
  assumes "db_ok d" and "\<And>l e. db_leases (step l e) = row_put wl_id (f l) (db_leases e)"
    and "set ls \<subseteq> set (db_leases d)" and "distinct (map wl_id ls)"
    and "\<And>l. wl_id (f l) = wl_id l" and "\<And>l. l \<in> set ls \<Longrightarrow> lease_move l (f l)"
  shows "lease_change d (fold step ls d)"
    and "db_leases (fold step ls d) = map (\<lambda>l. if l \<in> set ls then f l else l) (db_leases d)"
proof -
  have "db_leases (fold step ls d) = fold (\<lambda>l. row_put wl_id (f l)) ls (db_leases d)"
    by (rule fold_table [of db_leases]) (rule assms(2))
  also have "\<dots> = map (\<lambda>x. case row_get wl_id (wl_id x) ls of None \<Rightarrow> x | Some r \<Rightarrow> f r) (db_leases d)"
    using assms(5,4) by (rule fold_row_put)
  also have "\<dots> = map (\<lambda>l. if l \<in> set ls then f l else l) (db_leases d)"
  proof (rule map_cong [OF refl])
    fix x assume x: "x \<in> set (db_leases d)"
    show "(case row_get wl_id (wl_id x) ls of None \<Rightarrow> x | Some r \<Rightarrow> f r) = (if x \<in> set ls then f x else x)"
    proof (cases "row_get wl_id (wl_id x) ls")
      case None
      then have "x \<notin> set ls" by (auto simp: row_get_None)
      with None show ?thesis by simp
    next
      case (Some r)
      then have r: "r \<in> set ls" "wl_id r = wl_id x" by (auto dest: row_get_mem row_get_key)
      with x assms(3) have "r = x"
        using row_get_distinct [OF db_okD(16) [OF assms(1)]] by (metis option.inject subsetD)
      with Some r show ?thesis by simp
    qed
  qed
  finally show eq: "db_leases (fold step ls d) = map (\<lambda>l. if l \<in> set ls then f l else l) (db_leases d)" .
  show "lease_change d (fold step ls d)"
    unfolding lease_change_def eq using assms(6) by (intro exI [of _ "\<lambda>l. if l \<in> set ls then f l else l"]) auto
qed

lemma insert_lease_inv:
  assumes inv: "warm_inv d" and "fresh_lease l" and "wl_id l \<notin> wl_id ` set (db_leases d)"
    and "live_lease_of d (wl_salad_deployment_id l) = None"
    and "db_leases d' = db_leases d @ [l]" and "same_tables d d'"
  shows "warm_inv d' \<and> warm_refines d d'"
proof
  have li: "lease_inv l" "lease_ok l" using assms(2) by (auto simp: fresh_lease_def lease_inv_def)
  have "one_live d'"
    using inv assms(4,5) by (auto simp: one_live_def warm_inv_def live_lease_of_def find_None_iff)
  with inv li assms(3,5,6) show "warm_inv d'" by (auto simp: warm_inv_def db_ok_def same_tables_def)
  have none: "get_lease (wl_id l) d = None" using assms(3) by (simp add: row_get_None)
  have "get_lease k d' = (case get_lease k d of None \<Rightarrow> if wl_id l = k then Some l else None | Some x \<Rightarrow> Some x)" for k
  proof -
    have "row_get wl_id k [l] = (if wl_id l = k then Some l else None)" by (simp add: row_get_def)
    then show ?thesis by (cases "get_lease k d") (simp_all add: assms(5) row_get_append)
  qed
  then have "get_lease k d' = (if k = wl_id l then Some l else get_lease k d)" for k
    using none by (auto split: option.splits)
  with none show "warm_refines d d'" using assms(2) by (auto simp: warm_refines_def)
qed

section \<open>The budget guard and the leases\<close>

lemma failed_by_budget_move: "live_lease l \<Longrightarrow> lease_move l (failed_by_budget t l)"
  by (rule lease_move.cut_off) (simp_all add: same_lease_def same_window_def failed_by_budget_def)

lemma kill_switch_change: "db_ok d \<Longrightarrow> lease_change d (engage_salad_kill_switch d r t)"
  unfolding lease_change_def
  by (intro exI [of _ "\<lambda>l. if live_lease l then failed_by_budget t l else l"])
    (auto simp: kill_switch_fields failed_by_budget_move)

lemma apply_evaluation_change:
  assumes "apply_evaluation d g s = (d', g', s')" and ok: "db_ok d" and g: "get_guard (pb_id g) d = Some g"
  shows "lease_change d d'"
proof -
  obtain d1 g1 where st: "set_guard_state d g (limit_reason s 0) (bs_evaluated_at s) = (d1, g1)"
    by (cases "set_guard_state d g (limit_reason s 0) (bs_evaluated_at s)")
  note ok1 = set_guard_state_ok [OF st ok g] and same = set_guard_state_frame(3) [OF st]
  have "lease_change d1 d'"
    unfolding apply_evaluation_frame(9) [OF assms(1) ok st ok1]
    using kill_switch_change [OF ok1] lease_change_refl by (auto split: option.splits)
  then show ?thesis by (rule lease_change_cong) (simp_all add: same)
qed

lemma reevaluated_change:
  assumes "reevaluated d g t = (d', s)" and "db_ok d" and "get_guard_locked d p = Some g"
  shows "lease_change d d'"
  using assms apply_evaluation_change [OF _ assms(2) get_guard_locked_get(1) [OF assms(2,3)]]
  by (auto simp: reevaluated_def split: prod.splits)

lemma budget_call_change: "budget_call d d' \<Longrightarrow> db_ok d \<Longrightarrow> lease_change d d'"
proof (induction rule: budget_call.induct)
  case (ensure new_id clock d p dl ml now d' s)
  from ensure_ok(3) [OF ensure(1,2)] obtain d2 g2 t q d3 s3 where r: "db_leases d2 = db_leases d" "db_ok d2"
      "get_guard_locked d2 q = Some g2" "reevaluated d2 g2 t = (d3, s3)" "db_leases d' = db_leases d3"
    by auto
  from reevaluated_change [OF r(4,2,3)] show ?case by (rule lease_change_cong) (simp_all add: r(1,5))
next
  case (reevaluate clock d p now d' s)
  then show ?case
    by (auto simp: reevaluate_budget_guard_def bindE_eq_Inr intro: reevaluated_change)
next
  case (preflight clock d p amount now d' r)
  from preflight(1) show ?case
    by (rule preflight_effect) (auto dest: set_guard_state_frame(3) intro: lease_change_same)
next
  case (reserve clock d p0 k amount now d' r)
  from reserve(1) obtain p t g a where v: "validated_provider p0 = Inr p" "evaluation_time clock now = Inr t"
      "0 < amount" "amount \<le> MAX_BIGINT" "get_guard_locked d p = Some g" "get_attempt k d = Some a" "ga_provider a = p"
    by (auto simp: reserve_attempt_budget_def bindE_eq_Inr validate_positive_microusd_def)
  let ?reason = "limit_reason (evaluate_locked d g t) amount"
  obtain d1 g1 where st: "set_guard_state d g ?reason t = (d1, g1)" by (cases "set_guard_state d g ?reason t")
  obtain d2 s2 where re: "reevaluated d g t = (d2, s2)" by (cases "reevaluated d g t")
  have "db_leases d1 = db_leases d" by (rule set_guard_state_frame(3) [OF st])
  with reserve(1) v st re show ?case
    using reevaluated_change [OF re reserve(2) v(5)]
    by (auto simp: reserve_attempt_budget_def Let_def validate_positive_microusd_def
        intro: lease_change_same split: if_splits)
next
  case (record_spend new_id clock d p0 key ty amount eff ak dk now d' r)
  from record_spend(1) show ?case
  proof (cases rule: record_spend_cases)
    case (replay p key eff t g existing)
    from reevaluated_change [OF replay(9) [symmetric] record_spend(3) replay(6)] show ?thesis .
  next
    case (fresh p key eff t g)
    let ?d1 = "add_audit (spend_recorded_event new_id amount ty t)
        (d\<lparr>db_entries := db_entries d @ [spend_row new_id (pb_id g) key ty amount eff ak dk t]\<rparr>)"
    have ok1: "db_ok ?d1" using fresh(3,7) record_spend(3,2) by (rule fresh_entry_ok)
    have g1: "get_guard_locked ?d1 p = Some g" using fresh(6) by (simp add: get_guard_locked_def)
    from reevaluated_change [OF fresh(8) [symmetric] ok1 g1] show ?thesis
      by (rule lease_change_cong) simp_all
  qed
next
  case (release clock d p0 k now d' r)
  from release(1) obtain p t g a where v: "validated_provider p0 = Inr p" "evaluation_time clock now = Inr t"
      "get_guard_locked d p = Some g" "get_attempt k d = Some a" "ga_provider a = p"
    by (auto simp: release_attempt_reservation_def bindE_eq_Inr)
  let ?d1 = "add_audit (budget_audit_event ''provider_budget.reservation_released'' ''generation_attempt''
      (ga_id a) (attempt_correlation a) [(''amount_microusd'', PInt (ga_cost_reservation_microusd a))] t)
      (put_attempt (released_attempt t a) d)"
  have "attempt_ok a" using db_okD(4) [OF release(2)] row_get_mem [OF v(4)] by blast
  then have ok1: "db_ok ?d1" using db_ok_put_attempt [OF release(2)] by (simp add: released_attempt_ok)
  have g1: "get_guard_locked ?d1 p = Some g" using v(3) by (simp add: get_guard_locked_def)
  obtain d2 s2 where re: "reevaluated d g t = (d2, s2)" by (cases "reevaluated d g t")
  obtain d3 s3 where re1: "reevaluated ?d1 g t = (d3, s3)" by (cases "reevaluated ?d1 g t")
  from reevaluated_change [OF re1 ok1 g1] have "lease_change d d3" by (rule lease_change_cong) simp_all
  with release(1) v re re1 reevaluated_change [OF re release(2) v(3)] show ?case
    by (auto simp: release_attempt_reservation_def Let_def split: if_splits)
qed

end
