(* ===== verification/WarmLeaseRuns.thy ===== *)
theory WarmLeaseRuns
  imports WarmLeaseMachine
begin

text \<open>
  Every operation on warm leases as moves of the abstract machine, and sequences of operations
  together with the budget guard's.
\<close>

section \<open>Single writes\<close>

lemma lease_time_aware [simp]: "lease_time clock (Some (Aware t)) = t"
  by (simp add: lease_time_def)

lemma guard_reevaluated_cases:
  assumes "guard_reevaluated d t = Inr (d', s)"
  obtains g where "get_guard_locked d ''salad'' = Some g" "reevaluated d g t = (d', s)"
  using assms by (auto simp: guard_reevaluated_def reevaluate_budget_guard_def bindE_eq_Inr salad_provider
      evaluation_time_def budget_as_utc_def split: sum.splits)

lemma guard_reevaluated_warm:
  assumes "guard_reevaluated d t = Inr (d', s)" and "warm_inv d"
  shows "lease_change d d'" "warm_inv d'" "db_attempts d' = db_attempts d" "db_entries d' = db_entries d"
proof -
  from assms(2) have ok: "db_ok d" by (simp add: warm_inv_def)
  from assms(1) obtain g where g: "get_guard_locked d ''salad'' = Some g" "reevaluated d g t = (d', s)"
    by (rule guard_reevaluated_cases)
  show ch: "lease_change d d'" by (rule reevaluated_change [OF g(2) ok g(1)])
  note f = reevaluated_facts [OF g(2) ok g(1)]
  show "warm_inv d'" by (rule lease_change_inv [OF assms(2) ch]) (simp add: f(1))
  show "db_attempts d' = db_attempts d" "db_entries d' = db_entries d" by (rule f(3), rule f(2))
qed

lemma found_lease_inv: "warm_inv d \<Longrightarrow> get_lease k d = Some l \<Longrightarrow> lease_inv l \<and> wl_id l = k"
  using row_get_mem row_get_key by (fastforce simp: warm_inv_def)

lemma lease_audit_tables [simp]:
  "db_leases (lease_audit l a b t e d) = db_leases d" "db_guards (lease_audit l a b t e d) = db_guards d"
  "db_entries (lease_audit l a b t e d) = db_entries d" "db_jobs (lease_audit l a b t e d) = db_jobs d"
  "db_attempts (lease_audit l a b t e d) = db_attempts d" "db_outbox (lease_audit l a b t e d) = db_outbox d"
  "db_deployments (lease_audit l a b t e d) = db_deployments d"
  by (simp_all add: lease_audit_def)

lemma deployment_ok_reconcile [simp]: "deployment_ok (reconcile_at t x) = deployment_ok x"
  by (simp add: deployment_ok_def billing_ok_def reconcile_at_def)

text \<open>Writing a row back, only scheduled again, keeps the constraints of the deployments.\<close>

lemma reconciled_rows_ok:
  assumes "\<forall>x \<in> set rows. deployment_ok x" and "row_get sd_id k rows = Some y"
  shows "\<forall>x \<in> set (row_put sd_id (reconcile_at t y) rows). deployment_ok x"
  using assms by (auto dest!: row_put_mem dest: row_get_mem)

lemma reconciled_absent_ok:
  assumes "\<forall>x \<in> set rows. deployment_ok x" and "row_get sd_id (sd_id y) rows = None"
  shows "\<forall>x \<in> set (row_put sd_id (reconcile_at t y) rows). deployment_ok x"
proof -
  have "sd_id x \<noteq> sd_id y" if "x \<in> set rows" for x
    using assms(2) that by (metis imageI row_get_None)
  then have "row_put sd_id (reconcile_at t y) rows = rows"
    unfolding row_put_def by (intro map_idI) (simp add: reconcile_at_def)
  with assms(1) show ?thesis by simp
qed

lemma same_tables_refl [simp]: "same_tables d d"
  by (simp add: same_tables_def)

lemma write_row:
  assumes inv: "warm_inv d" and "get_lease k d = Some l" and "lease_move l l'"
    and "db_leases d' = row_put wl_id l' (db_leases d)" and "same_tables d d'"
  shows "warm_inv d' \<and> warm_refines d d' \<and> lease_change d d' \<and> get_lease k d' = Some l'"
proof -
  from assms(3) have id: "wl_id l' = wl_id l" by (auto dest: lease_move_same simp: same_lease_def)
  from found_lease_inv [OF inv assms(2)] have k: "wl_id l' = k" by (simp add: id)
  have "db_ok d" using inv by (simp add: warm_inv_def)
  then have ch: "lease_change d d'" using assms(2-4) k by (intro put_lease_change) auto
  moreover have "k \<in> wl_id ` set (db_leases d)" using assms(2) by (metis option.distinct(1) row_get_None)
  then have "get_lease k d' = Some l'" using k by (simp add: assms(4) row_get_put)
  ultimately show ?thesis using lease_change_inv [OF inv ch] lease_change_refines [OF ch] assms(5) by blast
qed

lemma touched_move:
  assumes "touchable l t allow" and "lease_inv l"
  shows "lease_move l (touched_row t l)"
  using assms by (intro lease_move.renew)
    (auto simp: touchable_def touched_row_def same_lease_def lease_inv_def lease_ok_def)

lemma touch_effect:
  assumes "touch_experiment_warm_lease_locked clock d l actor now allow = Inr (d', l', b)"
    and "warm_inv d" "get_lease k d = Some l"
  shows "warm_inv d' \<and> warm_refines d d' \<and> get_lease k d' = Some l'"
proof (cases "touchable l (lease_time clock now) allow")
  case True
  let ?l = "touched_row (lease_time clock now) l"
  have "lease_move l ?l" using True assms(2,3) by (blast intro: touched_move dest: found_lease_inv)
  moreover from assms(1) True have "l' = ?l" "db_leases d' = row_put wl_id ?l (db_leases d)" "same_tables d d'"
    by (auto simp: touch_experiment_warm_lease_locked_def Let_def bindE_eq_Inr same_tables_def)
  ultimately show ?thesis using write_row [OF assms(2,3)] by blast
next
  case False
  with assms(1) have "d' = d" "l' = l"
    by (auto simp: touch_experiment_warm_lease_locked_def Let_def bindE_eq_Inr)
  with assms(2,3) show ?thesis by (simp add: warm_refines_refl)
qed

lemma activate_effect:
  assumes "activate_experiment_warm_lease_locked clock d l v actor now = Inr (d', l')"
    and inv: "warm_inv d" and k: "get_lease k d = Some l" and past: "wl_started_at l \<le> lease_time clock now"
  shows "warm_inv d' \<and> warm_refines d d' \<and> get_lease k d' = Some l'"
proof (cases "wl_state l = LeaseACTIVE")
  case True
  with assms(1) have "d' = d" "l' = l"
    by (auto simp: activate_experiment_warm_lease_locked_def Let_def bindE_eq_Inr)
  with inv k show ?thesis by (simp add: warm_refines_refl)
next
  case False
  let ?t = "lease_time clock now"
  let ?x = "min (?t + wl_idle_ttl_seconds l * us_per_second) (wl_hard_expires_at l)"
  obtain w where "py_or_version v (wl_provider_version l) = Some w"
    using False assms(1) by (cases "py_or_version v (wl_provider_version l)")
      (auto simp: activate_experiment_warm_lease_locked_def Let_def bindE_eq_Inr split: if_splits)
  with False assms(1) have w: "0 < w" "l' = activated_row ?t ?x w l" "wl_state l = LeaseSTARTING"
      "db_leases d' = row_put wl_id l' (db_leases d)" "same_tables d d'"
    by (auto simp: activate_experiment_warm_lease_locked_def Let_def bindE_eq_Inr same_tables_def
        split: if_splits)
  have li: "lease_ok l" using found_lease_inv [OF inv k] by (simp add: lease_inv_def)
  then have "wl_started_at l < ?x" using past by (auto simp: lease_ok_def)
  then have "lease_move l l'"
    using w(1-3) li by (intro lease_move.activate) (auto simp: activated_row_def same_lease_def)
  then show ?thesis using write_row [OF inv k _ w(4,5)] by blast
qed

lemma refreshed_effect:
  assumes "mark_experiment_warm_runtime_refreshed_locked clock d l v actor now = Inr d'"
    and inv: "warm_inv d" and k: "get_lease k d = Some l"
  shows "warm_inv d' \<and> warm_refines d d'"
proof (cases "d' = d")
  case True
  with inv show ?thesis by (simp add: warm_refines_refl)
next
  case False
  with assms(1) have w: "0 < v" "wl_state l = LeaseSTARTING" "wl_provider_version l = None"
      "db_leases d' = row_put wl_id (refreshed_row v l) (db_leases d)" "same_tables d d'"
    by (auto simp: mark_experiment_warm_runtime_refreshed_locked_def Let_def bindE_eq_Inr same_tables_def
        split: if_splits)
  have "lease_move l (refreshed_row v l)"
    using w(1-3) by (intro lease_move.refresh) (auto simp: refreshed_row_def same_lease_def)
  then show ?thesis using write_row [OF inv k _ w(4,5)] by blast
qed

lemma locked_lease_eq:
  "locked_lease d k = Inr (l, x) \<longleftrightarrow> get_lease k d = Some l \<and> get_deployment (wl_salad_deployment_id l) d = Some x"
  by (auto simp: locked_lease_def deployment_row_def bindE_eq_Inr split: option.splits)

lemma reconcile_at_id [simp]: "sd_id (reconcile_at t x) = sd_id x"
  by (simp add: reconcile_at_def)

lemma end_effect:
  assumes "end_experiment_warm_lease clock d k actor now = Inr (d', st)" and inv: "warm_inv d"
  shows "warm_inv d' \<and> warm_refines d d'"
proof -
  from assms(1) obtain l x where l: "get_lease k d = Some l"
      and r: "d' = d \<or> wl_state l \<in> set usable_states \<and> db_leases d' = row_put wl_id (ending_row l) (db_leases d) \<and> same_tables d d'"
    by (auto simp: end_experiment_warm_lease_def Let_def bindE_eq_Inr locked_lease_eq same_tables_def reconciled_rows_ok
        split: if_splits)
  have "lease_move l (ending_row l)" if "wl_state l \<in> set usable_states"
    using that by (intro lease_move.release) (simp_all add: ending_row_def same_lease_def same_window_def)
  with r write_row [OF inv l] inv show ?thesis by (auto simp: warm_refines_refl)
qed

lemma extend_effect_warm:
  assumes "extend_experiment_warm_lease clock d k actor seconds now = Inr (d', st)" and inv: "warm_inv d"
  shows "warm_inv d' \<and> warm_refines d d'"
proof -
  let ?t = "lease_time clock now"
  from assms(1) obtain d1 s l where re: "guard_reevaluated d ?t = Inr (d1, s)" and l: "get_lease k d1 = Some l"
      and st: "wl_state l = LeaseACTIVE" "60 \<le> seconds"
        "max (wl_expires_at l) ?t + seconds * us_per_second \<le> wl_hard_expires_at l"
      and w: "db_leases d' = row_put wl_id (extended_row (max (wl_expires_at l) ?t + seconds * us_per_second) l) (db_leases d1)"
        "same_tables d1 d'"
    by (auto simp: extend_experiment_warm_lease_def Let_def bindE_eq_Inr locked_lease_eq same_tables_def
        validate_duration_def MIN_EXPERIMENT_WARM_LEASE_SECONDS_def split: if_splits)
  note g = guard_reevaluated_warm [OF re inv]
  have "lease_move l (extended_row (max (wl_expires_at l) ?t + seconds * us_per_second) l)"
    using st by (intro lease_move.renew) (auto simp: extended_row_def same_lease_def)
  from write_row [OF g(2) l this w] show ?thesis
    using lease_change_refines [OF g(1)] warm_refines_trans by blast
qed

section \<open>Starting\<close>

lemma live_none_change:
  assumes "lease_change d d'" and "live_lease_of d k = None"
  shows "live_lease_of d' k = None"
proof -
  from assms(1) obtain g where g: "db_leases d' = map g (db_leases d)"
      "\<forall>l \<in> set (db_leases d). g l = l \<or> lease_move l (g l)"
    unfolding lease_change_def by blast
  have "\<not> (wl_salad_deployment_id (g l) = k \<and> live_lease (g l))" if l: "l \<in> set (db_leases d)" for l
  proof -
    from g(2) l have c: "g l = l \<or> lease_move l (g l)" by blast
    from assms(2) l have "\<not> (wl_salad_deployment_id l = k \<and> live_lease l)"
      by (auto simp: live_lease_of_def find_None_iff)
    with change_live [OF c] show ?thesis by auto
  qed
  then show ?thesis by (auto simp: live_lease_of_def find_None_iff g(1))
qed

lemma live_lease_found:
  assumes "warm_inv d" and "live_lease_of d k = Some l"
  shows "get_lease (wl_id l) d = Some l" "live_lease l" "wl_salad_deployment_id l = k"
    "\<And>m. m \<in> set (db_leases d) \<Longrightarrow> live_lease m \<Longrightarrow> wl_salad_deployment_id m = k \<Longrightarrow> m = l"
proof -
  from assms(2) have mem: "l \<in> set (db_leases d)" and l: "live_lease l" "wl_salad_deployment_id l = k"
    by (auto simp: live_lease_of_def find_Some_iff)
  show "live_lease l" "wl_salad_deployment_id l = k" by (rule l)+
  from assms(1) have "distinct (map wl_id (db_leases d))" by (auto simp: warm_inv_def db_ok_def)
  then show "get_lease (wl_id l) d = Some l" using mem by (rule row_get_distinct)
  show "m = l" if "m \<in> set (db_leases d)" "live_lease m" "wl_salad_deployment_id m = k" for m
  proof -
    from assms(1) have "distinct (map wl_salad_deployment_id (filter live_lease (db_leases d)))"
      by (simp add: warm_inv_def one_live_def)
    then have "inj_on wl_salad_deployment_id (set (filter live_lease (db_leases d)))" by (simp add: distinct_map)
    with that mem l show ?thesis by (auto dest: inj_onD)
  qed
qed

lemma lapse_move: "lease_is_due t l \<Longrightarrow> lease_move l (expired_row t l)"
  by (rule lease_move.lapse [where t = t])
    (auto simp: lease_is_due_def expired_row_def same_lease_def same_window_def)

lemma expire_lease_tables [simp]:
  "db_leases (expire_lease a r t l d) = row_put wl_id (expired_row t l) (db_leases d)"
  "same_tables d (expire_lease a r t l d)"
  by (simp_all add: expire_lease_def same_tables_def)

lemma supersede_effect:
  assumes "supersede_existing d b0 k t = Inr (d', b)" and inv: "warm_inv d"
  obtains (idle) "live_lease_of d k = None" "d' = d" "b = b0"
    | (superseded) l e where "live_lease_of d k = Some l" "lease_is_due t l"
        "e = expire_lease ''experiment-warm-runtime'' ''superseded_expired_lease'' t l d"
        "warm_inv e" "warm_refines d e" "live_lease_of e k = None" "guard_reevaluated e t = Inr (d', b)"
proof (cases "live_lease_of d k")
  case None
  with assms(1) show ?thesis by (intro idle) (simp_all add: supersede_existing_def)
next
  case (Some l)
  note f = live_lease_found [OF inv Some]
  let ?e = "expire_lease ''experiment-warm-runtime'' ''superseded_expired_lease'' t l d"
  from assms(1) Some have u: "\<not> is_usable l t" "wl_state l \<noteq> LeaseENDING" and re: "guard_reevaluated ?e t = Inr (d', b)"
    by (auto simp: supersede_existing_def split: if_splits)
  with f(2) have due: "lease_is_due t l"
    by (auto simp: lease_is_due_def is_usable_def lease_states split: if_splits)
  have w: "warm_inv ?e \<and> warm_refines d ?e \<and> lease_change d ?e \<and> get_lease (wl_id l) ?e = Some (expired_row t l)"
    by (rule write_row [OF inv f(1) lapse_move [OF due] expire_lease_tables])
  have "\<not> (wl_salad_deployment_id m = k \<and> live_lease m)" if "m \<in> set (db_leases ?e)" for m
  proof -
    from that have "m \<in> set (row_put wl_id (expired_row t l) (db_leases d))" by simp
    then consider "m = expired_row t l" | "m \<in> set (db_leases d)" "wl_id m \<noteq> wl_id l"
      by (auto dest: row_put_mem simp: expired_row_def)
    then show ?thesis
      using f(4) [of m] by cases (auto simp: expired_row_def lease_states)
  qed
  then have "live_lease_of ?e k = None" by (auto simp: live_lease_of_def find_None_iff)
  with Some due re w show ?thesis by (intro superseded [of l ?e]) auto
qed

lemma starting_lease_fresh:
  assumes "validate_duration dur0 = Inr dur" and "maximum_cost h MAX_EXPERIMENT_WARM_LEASE_SECONDS = Inr cost"
  shows "fresh_lease (starting_lease n k actor dur cost cp lo t)"
proof -
  have "60 \<le> dur" "dur \<le> 5400" "0 < cost"
    using assms by (auto simp: validate_duration_def maximum_cost_def MIN_EXPERIMENT_WARM_LEASE_SECONDS_def
        MAX_EXPERIMENT_WARM_LEASE_SECONDS_def split: if_splits)
  then show ?thesis
    by (simp add: fresh_lease_def lease_inv_def lease_ok_def starting_lease_def Let_def lease_states
        MAX_EXPERIMENT_WARM_LEASE_SECONDS_def)
qed

lemma starting_lease_fields [simp]:
  "wl_id (starting_lease n k actor dur cost cp lo t) = n"
  "wl_salad_deployment_id (starting_lease n k actor dur cost cp lo t) = k"
  "wl_state (starting_lease n k actor dur cost cp lo t) = LeaseSTARTING"
  "wl_started_at (starting_lease n k actor dur cost cp lo t) = t"
  "wl_max_cost_microusd (starting_lease n k actor dur cost cp lo t) = cost"
  by (simp_all add: starting_lease_def Let_def)

lemma start_cases:
  assumes "start_experiment_warm_lease n settings clock d k actor0 dur0 cp0 lo0 now = Inr (d', st)"
  obtains dur actor cp lo d1 b0 x d2 b cost x' where
    "validate_duration dur0 = Inr dur" "validate_actor actor0 = Inr actor"
    "requested_artifact_selection cp0 lo0 = Inr (cp, lo)"
    "guard_reevaluated d (lease_time clock now) = Inr (d1, b0)" "get_deployment k d1 = Some x"
    "require_warmable_deployment x = Inr ()" "supersede_existing d1 b0 k (lease_time clock now) = Inr (d2, b)"
    "maximum_cost (sd_max_hourly_cost_microusd x) MAX_EXPERIMENT_WARM_LEASE_SECONDS = Inr cost"
    "preflight_budget b cost = Inr ()"
    "db_leases d' = db_leases d2 @ [starting_lease n k actor dur cost cp lo (lease_time clock now)]"
    "same_tables d2 d'"
    "st = lease_status (starting_lease n k actor dur cost cp lo (lease_time clock now)) x' (lease_time clock now)"
    "db_deployments d' = row_put sd_id (reconcile_at (lease_time clock now)
       (case get_deployment k d2 of None \<Rightarrow> x | Some y \<Rightarrow> y)) (db_deployments d2)"
proof -
  from assms obtain dur actor cp lo d1 b0 x d2 b cost where v:
    "validate_duration dur0 = Inr dur" "validate_actor actor0 = Inr actor"
    "requested_artifact_selection cp0 lo0 = Inr (cp, lo)"
    "guard_reevaluated d (lease_time clock now) = Inr (d1, b0)"
    "deployment_row d1 k ''Salad deployment was not found'' = Inr x"
    "require_warmable_deployment x = Inr ()" "supersede_existing d1 b0 k (lease_time clock now) = Inr (d2, b)"
    "maximum_cost (sd_max_hourly_cost_microusd x) MAX_EXPERIMENT_WARM_LEASE_SECONDS = Inr cost"
    "preflight_budget b cost = Inr ()"
    by (auto simp: start_experiment_warm_lease_def Let_def bindE_eq_Inr)
  from v(5) have x: "get_deployment k d1 = Some x" by (simp add: deployment_row_def split: option.splits)
  let ?y = "case get_deployment k d2 of None \<Rightarrow> x | Some y \<Rightarrow> y"
  have rows: "\<forall>z \<in> set (row_put sd_id (reconcile_at t ?y) (db_deployments d2)). deployment_ok z"
    if "\<forall>z \<in> set (db_deployments d2). deployment_ok z" for t
    using that reconciled_rows_ok [OF that] reconciled_absent_ok [OF that] row_get_key [OF x]
    by (auto split: option.split)
  show ?thesis
    by (rule that [OF v(1-4) x v(6-9)])
      (use assms v rows in \<open>auto simp: start_experiment_warm_lease_def Let_def bindE_eq_Inr insert_lease_def same_tables_def\<close>)
qed

lemma start_effect:
  assumes "start_experiment_warm_lease n settings clock d k actor0 dur0 cp0 lo0 now = Inr (d', st)"
    and inv: "warm_inv d" and new: "n \<notin> wl_id ` set (db_leases d)"
  shows "warm_inv d' \<and> warm_refines d d'"
  using assms(1)
proof (cases rule: start_cases)
  case (1 dur actor cp lo d1 b0 x d2 b cost x')
  let ?t = "lease_time clock now" and ?l = "starting_lease n k actor dur cost cp lo (lease_time clock now)"
  note g = guard_reevaluated_warm [OF 1(4) inv]
  have "warm_inv d2 \<and> warm_refines d1 d2 \<and> live_lease_of d2 k = None"
    using 1(7) g(2)
  proof (cases rule: supersede_effect)
    case idle
    then show ?thesis using g(2) warm_refines_refl by simp
  next
    case (superseded l e)
    note h = guard_reevaluated_warm [OF superseded(7,4)]
    from live_none_change [OF h(1) superseded(6)] h(2) superseded(5) lease_change_refines [OF h(1)]
    show ?thesis by (blast intro: warm_refines_trans)
  qed
  then have d2: "warm_inv d2" "warm_refines d d2" "live_lease_of d2 k = None"
    using lease_change_refines [OF g(1)] by (auto intro: warm_refines_trans)
  have ids: "n \<notin> wl_id ` set (db_leases d2)"
  proof -
    have "map wl_id (db_leases e') = map wl_id (db_leases e)" if "lease_change e e'" for e e'
      using that change_keeps_id by (auto simp: lease_change_def)
    then have keep: "wl_id ` set (db_leases e') = wl_id ` set (db_leases e)" if "lease_change e e'" for e e'
      using that by (metis list.set_map)
    have "wl_id ` set (db_leases d2) = wl_id ` set (db_leases d1)"
      using 1(7) g(2)
    proof (cases rule: supersede_effect)
      case (superseded l e)
      have "wl_id ` set (db_leases e) = wl_id ` set (db_leases d1)"
        unfolding superseded(3) expire_lease_tables(1) set_map [symmetric] row_put_keys ..
      with keep [OF guard_reevaluated_warm(1) [OF superseded(7,4)]] show ?thesis by simp
    qed simp
    with keep [OF g(1)] new show ?thesis by simp
  qed
  have "warm_inv d' \<and> warm_refines d2 d'"
    by (rule insert_lease_inv [where l = ?l]) (use d2 1(10,11) ids starting_lease_fresh [OF 1(1,8)] in simp_all)
  with d2(2) show ?thesis by (blast intro: warm_refines_trans)
qed

section \<open>Renewing, expiring and ending\<close>

lemma image_found: "find image_deployment ds = Some x \<Longrightarrow> image_deployment x \<and> x \<in> set ds"
  by (auto simp: find_Some_iff)

text \<open>The outcomes of \<open>ensure\<close>: a fresh lease, or the live one, touched when it is active.\<close>

lemma ensure_cases:
  assumes "ensure_experiment_warm_lease n settings clock d actor0 dur0 cp0 lo0 now = Inr (d', st)"
  obtains dur actor cp lo current d1 b0 x where
    "validate_duration dur0 = Inr dur" "validate_actor actor0 = Inr actor"
    "requested_artifact_selection cp0 lo0 = Inr (cp, lo)" "find image_deployment (db_deployments d) = Some current"
    "guard_reevaluated d (lease_time clock now) = Inr (d1, b0)" "bs_state b0 = BudgetOPEN"
    "get_deployment (sd_id current) d1 = Some x" "require_warmable_deployment x = Inr ()" "sd_id x = sd_id current"
    "start_experiment_warm_lease n settings clock d1 (sd_id x) actor dur cp lo (Some (Aware (lease_time clock now))) = Inr (d', st)
     \<or> (\<exists>l. live_lease_of d1 (sd_id x) = Some l \<and> \<not> differing_stack l cp lo
          \<and> (is_usable l (lease_time clock now) \<or> durable_runtime_hold d1 l (lease_time clock now))
          \<and> (wl_state l = LeaseACTIVE \<and> (\<exists>l' b. touch_experiment_warm_lease_locked clock d1 l actor
                  (Some (Aware (lease_time clock now))) (durable_runtime_hold d1 l (lease_time clock now)) = Inr (d', l', b)
                \<and> st = lease_status l' x (lease_time clock now))
             \<or> wl_state l \<noteq> LeaseACTIVE \<and> d' = d1 \<and> st = lease_status l x (lease_time clock now)))"
proof -
  from assms obtain dur actor cp lo current d1 b0 x where v:
    "validate_duration dur0 = Inr dur" "validate_actor actor0 = Inr actor"
    "requested_artifact_selection cp0 lo0 = Inr (cp, lo)" "find image_deployment (db_deployments d) = Some current"
    "guard_reevaluated d (lease_time clock now) = Inr (d1, b0)" "bs_state b0 = BudgetOPEN"
    "deployment_row d1 (sd_id current) ''current Salad deployment was not found'' = Inr x"
    "require_warmable_deployment x = Inr ()"
    by (auto simp: ensure_experiment_warm_lease_def Let_def bindE_eq_Inr split: option.splits if_splits)
  from v(7) have x: "get_deployment (sd_id current) d1 = Some x"
    by (simp add: deployment_row_def split: option.splits)
  have idx: "sd_id x = sd_id current" by (rule row_get_key [OF x])
  show ?thesis
    by (rule that [OF v(1-6) x v(8) idx])
      (use assms v in \<open>auto simp: ensure_experiment_warm_lease_def Let_def bindE_eq_Inr split: option.splits if_splits\<close>)
qed

lemma ensure_effect:
  assumes "ensure_experiment_warm_lease n settings clock d actor0 dur0 cp0 lo0 now = Inr (d', st)"
    and inv: "warm_inv d" and new: "n \<notin> wl_id ` set (db_leases d)"
  shows "warm_inv d' \<and> warm_refines d d'"
  using assms(1)
proof (cases rule: ensure_cases)
  case (1 dur actor cp lo current d1 b0 x)
  let ?t = "lease_time clock now"
  note g = guard_reevaluated_warm [OF 1(5) inv]
  have "map wl_id (db_leases d1) = map wl_id (db_leases d)"
    using g(1) change_keeps_id by (auto simp: lease_change_def)
  then have new1: "n \<notin> wl_id ` set (db_leases d1)" using new by (metis list.set_map)
  from 1(10) consider
      (fresh) "start_experiment_warm_lease n settings clock d1 (sd_id x) actor dur cp lo (Some (Aware ?t)) = Inr (d', st)"
    | (touch) l l' b where "live_lease_of d1 (sd_id x) = Some l"
        "touch_experiment_warm_lease_locked clock d1 l actor (Some (Aware ?t)) (durable_runtime_hold d1 l ?t) = Inr (d', l', b)"
    | (same) "d' = d1"
    by blast
  then have "warm_inv d' \<and> warm_refines d1 d'"
  proof cases
    case fresh
    then show ?thesis using g(2) new1 by (rule start_effect)
  next
    case touch
    then show ?thesis using touch_effect [OF _ g(2)] live_lease_found(1) [OF g(2)] by blast
  next
    case same
    with g(2) show ?thesis by (simp add: warm_refines_refl)
  qed
  with lease_change_refines [OF g(1)] show ?thesis by (blast intro: warm_refines_trans)
qed

lemma select_leases_facts:
  assumes "db_ok d" and "ls = select_leases P order limit locked d"
  shows "distinct (map wl_id ls)" "set ls \<subseteq> {l \<in> set (db_leases d). P l \<and> \<not> locked (wl_id l)}"
proof -
  have "inj_on wl_id (set (db_leases d))" "distinct (db_leases d)"
    using db_okD(16) [OF assms(1)] by (simp_all add: distinct_map)
  moreover show sub: "set ls \<subseteq> {l \<in> set (db_leases d). P l \<and> \<not> locked (wl_id l)}"
    by (auto simp: assms(2) select_leases_def dest!: in_set_takeD)
  ultimately show "distinct (map wl_id ls)"
    by (auto simp: distinct_map assms(2) select_leases_def intro: inj_on_subset)
qed

lemma same_tables_trans: "same_tables a b \<Longrightarrow> same_tables b c \<Longrightarrow> same_tables a c"
  by (simp add: same_tables_def)

lemma same_tables_fold: "(\<And>x e. same_tables e (f x e)) \<Longrightarrow> same_tables d (fold f xs d)"
  by (induction xs arbitrary: d) (auto intro: same_tables_trans)

lemma reconcile_tables [simp]:
  "same_tables e (reconcile_deployments t ks e)" "db_leases (reconcile_deployments t ks e) = db_leases e"
  by (auto simp: same_tables_def reconcile_deployments_def)

lemma expire_cases:
  assumes "expire_experiment_warm_leases locked clock d actor0 limit now = Inr (d', ids)" and inv: "warm_inv d"
  defines "t \<equiv> lease_time clock now"
  obtains ls where "ls = filter (\<lambda>l. \<not> durable_runtime_hold d l t)
      (select_leases (lease_is_due t) (\<lambda>l. (wl_expires_at l, wl_id l)) limit locked d)"
    "ids = map wl_id ls" "lease_change d d'" "same_tables d d'" "distinct (map wl_id ls)"
    "set ls \<subseteq> {l \<in> set (db_leases d). lease_is_due t l \<and> \<not> locked (wl_id l)}"
    "db_leases d' = map (\<lambda>l. if l \<in> set ls then expired_row t l else l) (db_leases d)"
proof -
  define sel where "sel = select_leases (lease_is_due t) (\<lambda>l. (wl_expires_at l, wl_id l)) limit locked d"
  define ls where "ls = filter (\<lambda>l. \<not> durable_runtime_hold d l t) sel"
  from assms(1) obtain actor where r:
      "d' = (if ls = [] then fold (expire_lease actor ''absolute_expiry'' t) ls d
         else reconcile_deployments t (map wl_salad_deployment_id ls) (fold (expire_lease actor ''absolute_expiry'' t) ls d))"
      "ids = map wl_id ls"
    by (auto simp: expire_experiment_warm_leases_def Let_def bindE_eq_Inr ls_def sel_def t_def split: if_splits)
  let ?e = "fold (expire_lease actor ''absolute_expiry'' t) ls d"
  have ok: "db_ok d" using inv by (simp add: warm_inv_def)
  note s = select_leases_facts [OF ok sel_def]
  have dist: "distinct (map wl_id ls)" using s(1) by (simp add: ls_def distinct_map_filter)
  have sub: "set ls \<subseteq> {l \<in> set (db_leases d). lease_is_due t l \<and> \<not> locked (wl_id l)}"
    using s(2) by (auto simp: ls_def)
  have f: "lease_change d ?e" "db_leases ?e = map (\<lambda>l. if l \<in> set ls then expired_row t l else l) (db_leases d)"
    using lease_fold_change [OF ok, of "expire_lease actor ''absolute_expiry'' t" "expired_row t" ls] dist sub lapse_move
    by (auto simp: expired_row_def)
  have tabs: "same_tables d ?e" by (rule same_tables_fold) simp
  have "same_tables d d'" using tabs same_tables_trans [OF tabs reconcile_tables(1)] by (simp add: r(1))
  moreover have "db_leases d' = db_leases ?e" by (simp add: r(1))
  ultimately show thesis
    using that [OF _ r(2) _ _ dist sub] f lease_change_cong [OF f(1)] by (auto simp: ls_def sel_def)
qed

lemma complete_effect:
  assumes "complete_ending_experiment_warm_leases locked updated clock d actor0 limit now = Inr (d', ids)"
    and inv: "warm_inv d"
  shows "warm_inv d' \<and> warm_refines d d'"
proof -
  let ?t = "lease_time clock now"
  define ls where "ls = select_leases (drained d) (\<lambda>l. (updated (wl_id l), wl_id l)) limit locked d"
  from assms(1) obtain actor where d': "d' = fold (finish_lease actor ?t) ls d"
    by (auto simp: complete_ending_experiment_warm_leases_def Let_def bindE_eq_Inr ls_def split: if_splits)
  have ok: "db_ok d" using inv by (simp add: warm_inv_def)
  note s = select_leases_facts [OF ok ls_def]
  have "lease_move l (ended_row ?t l)" if "drained d l" for l
    using that by (intro lease_move.finish) (auto simp: drained_def ended_row_def same_lease_def same_window_def)
  then have ch: "lease_change d d'"
    unfolding d' using s by (intro lease_fold_change(1) [OF ok, where f = "ended_row ?t"]) (auto simp: finish_lease_def ended_row_def)
  moreover have "same_tables d d'"
    unfolding d' by (rule same_tables_fold) (simp add: finish_lease_def same_tables_def)
  ultimately show ?thesis using lease_change_inv [OF inv] lease_change_refines by blast
qed

section \<open>Activation and completed work\<close>

text \<open>Another transaction may do anything the machine allows between the query and the locking read.\<close>

definition well_behaved :: "(uuid \<Rightarrow> db \<Rightarrow> db) \<Rightarrow> bool" where
  "well_behaved others \<longleftrightarrow> (\<forall>k x. warm_inv x \<longrightarrow> warm_inv (others k x) \<and> warm_refines x (others k x))"

lemma refined_start:
  assumes "warm_refines d e" and "get_lease k d = Some l" and "get_lease k e = Some m"
  shows "wl_started_at m = wl_started_at l"
proof -
  from assms obtain m' where "get_lease k e = Some m'" "lease_move\<^sup>*\<^sup>* l m'" unfolding warm_refines_def by blast
  with assms(3) lease_moves_fixed show ?thesis by fastforce
qed

lemma activate_candidates_effect:
  assumes "activate_candidates others t actor d cands = Inr (d', ids)" and "warm_inv d" and "well_behaved others"
    and "\<forall>(k, _) \<in> set cands. \<exists>l. get_lease k d = Some l \<and> wl_started_at l \<le> t"
  shows "warm_inv d' \<and> warm_refines d d'"
  using assms
proof (induction cands arbitrary: d ids)
  case Nil
  then show ?case by (simp add: warm_refines_refl)
next
  case (Cons c rest)
  obtain k dep where c: "c = (k, dep)" by (cases c)
  let ?d0 = "others k d"
  have w0: "warm_inv ?d0" "warm_refines d ?d0" using Cons.prems(2,3) by (auto simp: well_behaved_def)
  have keep: "\<forall>(k, _) \<in> set rest. \<exists>l. get_lease k e = Some l \<and> wl_started_at l \<le> t" if "warm_refines d e" for e
  proof safe
    fix a b assume "(a, b) \<in> set rest"
    with Cons.prems(4) obtain l where l: "get_lease a d = Some l" "wl_started_at l \<le> t" by force
    from that l(1) obtain m where m: "get_lease a e = Some m" unfolding warm_refines_def by blast
    with refined_start [OF that l(1) m] l(2) show "\<exists>l. get_lease a e = Some l \<and> wl_started_at l \<le> t" by auto
  qed
  show ?case
  proof (cases "\<exists>l. get_lease k ?d0 = Some l \<and> still_activatable ?d0 t dep (Some l)")
    case False
    then have "activate_candidates others t actor ?d0 rest = Inr (d', ids)"
      using Cons.prems(1) by (auto simp: c Let_def split: option.splits)
    from Cons.IH [OF this w0(1) Cons.prems(3) keep [OF w0(2)]] w0(2) show ?thesis
      by (blast intro: warm_refines_trans)
  next
    case True
    then obtain l where l: "get_lease k ?d0 = Some l" "still_activatable ?d0 t dep (Some l)" by blast
    with Cons.prems(1) obtain d1 l' ids' where act: "activate_experiment_warm_lease_locked t ?d0 l
          (wl_provider_version l) actor (Some (Aware t)) = Inr (d1, l')"
        and rest: "activate_candidates others t actor d1 rest = Inr (d', ids')"
      by (auto simp: c Let_def bindE_eq_Inr)
    from Cons.prems(4) obtain l0 where "get_lease k d = Some l0" "wl_started_at l0 \<le> t" by (force simp: c)
    with refined_start [OF w0(2) _ l(1)] have "wl_started_at l \<le> t" by simp
    with activate_effect [OF act w0(1) l(1)] have w1: "warm_inv d1" "warm_refines ?d0 d1" by auto
    from w0(2) w1(2) have r1: "warm_refines d d1" by (rule warm_refines_trans)
    from Cons.IH [OF rest w1(1) Cons.prems(3) keep [OF r1]] r1 show ?thesis by (blast intro: warm_refines_trans)
  qed
qed

lemma activate_ready_effect:
  assumes "activate_ready_experiment_warm_leases others clock d actor0 limit now = Inr (d', ids)"
    and inv: "warm_inv d" and "well_behaved others"
    and past: "\<forall>l \<in> set (db_leases d). wl_started_at l \<le> lease_time clock now"
  shows "warm_inv d' \<and> warm_refines d d'"
proof -
  let ?t = "lease_time clock now"
  define ls where "ls = select_leases (activation_candidate d ?t) (\<lambda>l. (wl_started_at l, wl_id l)) limit (\<lambda>_. False) d"
  have ok: "db_ok d" using inv by (simp add: warm_inv_def)
  from assms(1) obtain actor where r: "activate_candidates others ?t actor d
      (map (\<lambda>l. (wl_id l, wl_salad_deployment_id l)) ls) = Inr (d', ids)"
    by (auto simp: activate_ready_experiment_warm_leases_def Let_def bindE_eq_Inr ls_def split: if_splits)
  have "get_lease (wl_id l) d = Some l \<and> wl_started_at l \<le> ?t" if "l \<in> set ls" for l
    using that select_leases_facts(2) [OF ok ls_def] past row_get_distinct [OF db_okD(16) [OF ok]] by blast
  then show ?thesis by (intro activate_candidates_effect [OF r inv assms(3)]) auto
qed

lemma touch_candidates_effect:
  assumes "touch_candidates others t actor d ks = Inr (d', ids)" and "warm_inv d" and "well_behaved others"
  shows "warm_inv d' \<and> warm_refines d d'"
  using assms
proof (induction ks arbitrary: d ids)
  case Nil
  then show ?case by (simp add: warm_refines_refl)
next
  case (Cons k rest)
  let ?d0 = "others k d"
  have w0: "warm_inv ?d0" "warm_refines d ?d0" using Cons.prems(2,3) by (auto simp: well_behaved_def)
  show ?case
  proof (cases "get_lease k ?d0")
    case None
    with Cons.prems(1) have "touch_candidates others t actor ?d0 rest = Inr (d', ids)" by (simp add: Let_def)
    from Cons.IH [OF this w0(1) Cons.prems(3)] w0(2) show ?thesis by (blast intro: warm_refines_trans)
  next
    case (Some l)
    with Cons.prems(1) obtain d1 l' b ids' where
        t: "touch_experiment_warm_lease_locked t ?d0 l actor (Some (Aware t)) True = Inr (d1, l', b)"
        and rest: "touch_candidates others t actor d1 rest = Inr (d', ids')"
      by (auto simp: Let_def bindE_eq_Inr)
    from touch_effect [OF t w0(1) Some] have w1: "warm_inv d1" "warm_refines ?d0 d1" by auto
    from Cons.IH [OF rest w1(1) Cons.prems(3)] w0(2) w1(2) show ?thesis by (blast intro: warm_refines_trans)
  qed
qed

lemma touch_completed_effect:
  assumes "touch_completed_experiment_warm_leases others clock d actor0 limit now = Inr (d', ids)"
    and "warm_inv d" and "well_behaved others"
  shows "warm_inv d' \<and> warm_refines d d'"
  using assms touch_candidates_effect
  by (auto simp: touch_completed_experiment_warm_leases_def Let_def bindE_eq_Inr split: if_splits)

section \<open>Sequences of calls\<close>

inductive warm_call :: "db \<Rightarrow> db \<Rightarrow> bool" where
  start: "start_experiment_warm_lease n settings clock d k actor dur cp lo now = Inr (d', st) \<Longrightarrow>
     n \<notin> wl_id ` set (db_leases d) \<Longrightarrow> warm_call d d'"
| ensure: "ensure_experiment_warm_lease n settings clock d actor dur cp lo now = Inr (d', st) \<Longrightarrow>
     n \<notin> wl_id ` set (db_leases d) \<Longrightarrow> warm_call d d'"
| extend: "extend_experiment_warm_lease clock d k actor seconds now = Inr (d', st) \<Longrightarrow> warm_call d d'"
| close: "end_experiment_warm_lease clock d k actor now = Inr (d', st) \<Longrightarrow> warm_call d d'"
| expire: "expire_experiment_warm_leases locked clock d actor limit now = Inr (d', ids) \<Longrightarrow> warm_call d d'"
| complete: "complete_ending_experiment_warm_leases locked updated clock d actor limit now = Inr (d', ids) \<Longrightarrow>
     warm_call d d'"
| activate: "get_lease k d = Some l \<Longrightarrow> wl_started_at l \<le> lease_time clock now \<Longrightarrow>
     activate_experiment_warm_lease_locked clock d l v actor now = Inr (d', l') \<Longrightarrow> warm_call d d'"
| refreshed: "get_lease k d = Some l \<Longrightarrow>
     mark_experiment_warm_runtime_refreshed_locked clock d l v actor now = Inr d' \<Longrightarrow> warm_call d d'"
| touch: "get_lease k d = Some l \<Longrightarrow>
     touch_experiment_warm_lease_locked clock d l actor now allow = Inr (d', l', b) \<Longrightarrow> warm_call d d'"

text \<open>One step: a call on leases or on the budget guard, or one of the two loops with others interleaved.\<close>

inductive warm_step :: "db \<Rightarrow> db \<Rightarrow> bool" where
  call: "warm_call d d' \<Longrightarrow> warm_step d d'"
| budget: "budget_call d d' \<Longrightarrow> warm_step d d'"
| ready: "activate_ready_experiment_warm_leases others clock d actor limit now = Inr (d', ids) \<Longrightarrow>
     \<forall>l \<in> set (db_leases d). wl_started_at l \<le> lease_time clock now \<Longrightarrow>
     (\<And>k x. (sup warm_call budget_call)\<^sup>*\<^sup>* x (others k x)) \<Longrightarrow> warm_step d d'"
| completed: "touch_completed_experiment_warm_leases others clock d actor limit now = Inr (d', ids) \<Longrightarrow>
     (\<And>k x. (sup warm_call budget_call)\<^sup>*\<^sup>* x (others k x)) \<Longrightarrow> warm_step d d'"

lemma change_warm: "lease_change d d' \<Longrightarrow> warm_inv d \<Longrightarrow> same_tables d d' \<or> db_ok d' \<Longrightarrow> warm_inv d' \<and> warm_refines d d'"
  using lease_change_inv lease_change_refines by blast

lemma expire_effect:
  assumes "expire_experiment_warm_leases locked clock d actor0 limit now = Inr (d', ids)" and inv: "warm_inv d"
  shows "warm_inv d' \<and> warm_refines d d'"
  using assms by (rule expire_cases) (use inv change_warm in blast)

lemma warm_call_effect: "warm_call d d' \<Longrightarrow> warm_inv d \<Longrightarrow> warm_inv d' \<and> warm_refines d d'"
proof (induction rule: warm_call.induct)
  case start
  from start(1,3,2) show ?case by (rule start_effect)
next
  case ensure
  from ensure(1,3,2) show ?case by (rule ensure_effect)
next
  case extend
  then show ?case by (rule extend_effect_warm)
next
  case close
  then show ?case by (rule end_effect)
next
  case expire
  then show ?case by (rule expire_effect)
next
  case complete
  then show ?case by (rule complete_effect)
next
  case activate
  from activate_effect [OF activate(3,4,1,2)] show ?case by simp
next
  case refreshed
  from refreshed_effect [OF refreshed(2,3,1)] show ?case .
next
  case touch
  from touch_effect [OF touch(2,3,1)] show ?case by simp
qed

lemma budget_call_warm: "budget_call d d' \<Longrightarrow> warm_inv d \<Longrightarrow> warm_inv d' \<and> warm_refines d d'"
  by (intro change_warm) (auto simp: warm_inv_def intro: budget_call_change budget_call_ok)

interpretation warm_alone: invariant_system "sup warm_call budget_call" "\<lambda>d. warm_inv d \<and> warm_refines d0 d" for d0
  by unfold_locales (auto intro: warm_refines_trans dest: warm_call_effect budget_call_warm)

lemma calls_well_behaved:
  assumes "\<And>k x. (sup warm_call budget_call)\<^sup>*\<^sup>* x (others k x)"
  shows "well_behaved others"
  using warm_alone.reachable_keeps [OF assms] warm_refines_refl by (auto simp: well_behaved_def)

lemma warm_step_effect: "warm_step d d' \<Longrightarrow> warm_inv d \<Longrightarrow> warm_inv d' \<and> warm_refines d d'"
proof (induction rule: warm_step.induct)
  case call
  then show ?case by (rule warm_call_effect)
next
  case budget
  then show ?case by (rule budget_call_warm)
next
  case ready
  from activate_ready_effect [OF ready(1,4) calls_well_behaved [OF ready(3)] ready(2)] show ?case .
next
  case completed
  from touch_completed_effect [OF completed(1,3) calls_well_behaved [OF completed(2)]] show ?case .
qed

interpretation warm_run: invariant_system warm_step "\<lambda>d. warm_inv d \<and> warm_refines d0 d" for d0
  by unfold_locales (blast intro: warm_refines_trans dest: warm_step_effect)

end
