(* ===== verification/WarmLeaseTheorems.thy ===== *)
theory WarmLeaseTheorems
  imports WarmLeaseRuns
begin

text \<open>
  The properties of the warm leases, over sequences of their operations and the budget guard's, with
  closed instances on a small database.
\<close>

section \<open>A sample database\<close>

definition sample_warm_guard :: ProviderBudgetGuard where
  "sample_warm_guard = \<lparr>pb_id = 7, pb_provider = ''salad'', pb_currency = ''USD'',
     pb_daily_limit_microusd = 10000000, pb_monthly_limit_microusd = 200000000, pb_state = BudgetOPEN,
     pb_blocked_reason = None, pb_blocked_at = None, pb_lock_version = 1, pb_updated_at = 0\<rparr>"

definition sample_warm_deployment :: SaladDeployment where
  "sample_warm_deployment = \<lparr>sd_id = 41, sd_version_no = 3, sd_config_sha256 = ''c'', sd_provider_configuration = [],
       sd_worker_image_digest = ''i'', sd_queue_name = ''queue'', sd_provider_queue_id = Some ''q'',
       sd_container_group_name = ''worker'',
     sd_provider_container_group_id = Some ''g'', sd_purpose = PurposeIMAGE, sd_state = DeploymentACTIVE,
     sd_desired_state = DesiredACTIVE, sd_administrative_stop_reason = None, sd_is_current = True, sd_min_replicas = 0, sd_max_replicas = 1,
     sd_desired_queue_length = 1, sd_observed_replicas = Some 0, sd_ready_replicas = Some 0,
     sd_max_hourly_cost_microusd = 300000, sd_provider_status = None, sd_last_observed_at = None,
       sd_reconcile_after = None, sd_unknown_since = None, sd_last_error_code = None, sd_last_error_detail = None,
       sd_lock_version = 1, sd_activated_at = None, sd_stopped_at = None,
       sd_billing_session_started_at = None, sd_billing_session_ended_at = None,
       sd_billing_accumulated_microseconds = 0, sd_billing_active_instance_id = None,
       sd_billing_active_started_at = None, sd_billing_observed_at = None, sd_billing_observation_stale = False,
       sd_billing_estimated = False, sd_created_at = 0,
     sd_runtime_artifact_manifest_sha256 = None\<rparr>"

definition sample_warm_db :: db where
  "sample_warm_db = empty_db\<lparr>db_guards := [sample_warm_guard], db_deployments := [sample_warm_deployment]\<rparr>"

definition sample_warm_lease :: ExperimentWarmLease where
  "sample_warm_lease = \<lparr>wl_id = 61, wl_salad_deployment_id = 41, wl_state = LeaseACTIVE, wl_started_at = 0,
     wl_expires_at = 900000000, wl_hard_expires_at = 5400000000, wl_ended_at = None,
     wl_last_activity_at = Some 0, wl_idle_ttl_seconds = 900, wl_max_cost_microusd = 450000,
     wl_provider_version = Some 5, wl_requested_checkpoint_sha256 = None, wl_requested_lora_sha256s = None,
     wl_created_by = ''a'', wl_lock_version = 3\<rparr>"

definition sample_active_db :: db where
  "sample_active_db = sample_warm_db\<lparr>db_leases := [sample_warm_lease]\<rparr>"

lemma sample_warm_inv: "warm_inv sample_warm_db" "warm_inv sample_active_db"
  by (simp_all add: warm_inv_def one_live_def db_ok_def sample_active_db_def sample_warm_db_def empty_db_def guard_ok_def
      sample_warm_guard_def deployment_ok_def billing_ok_def sample_warm_deployment_def sample_warm_lease_def lease_inv_def lease_ok_def lease_states
      MAX_EXPERIMENT_WARM_LEASE_SECONDS_def)

definition returns_on :: "('e + 'a) \<Rightarrow> ('a \<Rightarrow> bool) \<Rightarrow> bool" where
  "returns_on r P = (case r of Inl e \<Rightarrow> False | Inr y \<Rightarrow> P y)"

lemma returns_onE:
  assumes "returns_on r P"
  obtains d y where "r = Inr (d, y)" "P (d, y)"
  using assms by (auto simp: returns_on_def split: sum.splits)

definition one_o_clock :: "pydatetime option" where
  "one_o_clock = Some (Aware 600000000)"

lemma sample_start:
  "returns_on (start_experiment_warm_lease 62 None 0 sample_warm_db 41 ''owner'' 900 None None one_o_clock)
     (\<lambda>(d, st). st_lease_id st = 62 \<and> length (db_leases d) = 1 \<and> length (db_audits d) = 1)"
  by code_simp

lemma sample_ensure:
  "returns_on (ensure_experiment_warm_lease 62 None 0 sample_active_db ''owner'' 900 None None one_o_clock)
     (\<lambda>(d, st). st_expires_at st = 1500000000)"
  by code_simp

lemma sample_expire:
  "returns_on (expire_experiment_warm_leases (\<lambda>_. False) 0 sample_active_db ''runtime'' 25 (Some (Aware 900000000)))
     (\<lambda>(d, ids). ids = [61])"
  by code_simp

section \<open>Sequences\<close>

text \<open>C7: The operations implement the lease machine. Along every sequence of operations on warm leases and on the
  budget guard, with other transactions interleaved in the two loops, the schema constraints hold, no deployment has two
  live leases, every row only makes the moves of the abstract machine, a lease that is over is never changed again, and
  a row that appears was created in the state STARTING.\<close>

theorem warm_leases_refine_machine:
  assumes "warm_step\<^sup>*\<^sup>* d d'" and "warm_inv d"
  shows "warm_inv d'
     \<and> (\<forall>k l. get_lease k d = Some l \<longrightarrow> (\<exists>l'. get_lease k d' = Some l' \<and> lease_move\<^sup>*\<^sup>* l l'))
     \<and> (\<forall>k l. get_lease k d = Some l \<longrightarrow> \<not> live_lease l \<longrightarrow> get_lease k d' = Some l)
     \<and> (\<forall>k l'. get_lease k d = None \<longrightarrow> get_lease k d' = Some l' \<longrightarrow> (\<exists>l. fresh_lease l \<and> lease_move\<^sup>*\<^sup>* l l'))"
proof -
  from warm_run.reachable_keeps [OF assms(1), of d] assms(2) warm_refines_refl
  have "warm_inv d'" and r: "warm_refines d d'" by auto
  moreover have "get_lease k d' = Some l" if l: "get_lease k d = Some l" "\<not> live_lease l" for k l
  proof -
    from r l(1) obtain l' where "get_lease k d' = Some l'" "lease_move\<^sup>*\<^sup>* l l'" unfolding warm_refines_def by blast
    with dead_lease_stuck l(2) show ?thesis by blast
  qed
  ultimately show ?thesis unfolding warm_refines_def by blast
qed

lemma warm_leases_refine_machine_witness:
  "\<exists>d st. start_experiment_warm_lease 62 None 0 sample_warm_db 41 ''owner'' 900 None None one_o_clock = Inr (d, st)
     \<and> warm_inv d"
proof -
  from sample_start obtain d st where r:
      "start_experiment_warm_lease 62 None 0 sample_warm_db 41 ''owner'' 900 None None one_o_clock = Inr (d, st)"
    by (rule returns_onE)
  have "warm_call sample_warm_db d"
    by (rule warm_call.start [OF r]) (simp add: sample_warm_db_def empty_db_def)
  then have "warm_step\<^sup>*\<^sup>* sample_warm_db d" by (blast intro: warm_step.call)
  from warm_leases_refine_machine [OF this sample_warm_inv(1)] r show ?thesis by blast
qed

text \<open>C24: A warm replica is never held past the hard cap. Along every such sequence no lease expires later than 90
  minutes after its start, and at any time at which all leases of a deployment are that old
  \<open>effective_experiment_min_replicas\<close> is 0, whatever extensions, touches and running attempts there are.\<close>

theorem no_replica_after_cap:
  assumes "warm_step\<^sup>*\<^sup>* d d'" and "warm_inv d"
  shows "(\<forall>l \<in> set (db_leases d'). wl_expires_at l \<le> wl_started_at l + 5400 * us_per_second)
     \<and> ((\<forall>l \<in> set (db_leases d'). wl_salad_deployment_id l = k \<longrightarrow>
            wl_started_at l + 5400 * us_per_second \<le> lease_time clock now)
          \<longrightarrow> effective_experiment_min_replicas clock d' k now = 0)"
proof -
  from warm_run.reachable_keeps [OF assms(1), of d] assms(2) warm_refines_refl have "warm_inv d'" by auto
  then have li: "lease_inv l" if "l \<in> set (db_leases d')" for l using that by (simp add: warm_inv_def)
  then have hard: "wl_hard_expires_at l = wl_started_at l + 5400 * us_per_second \<and> wl_expires_at l \<le> wl_hard_expires_at l"
    if "l \<in> set (db_leases d')" for l
    using li [OF that] by (simp add: lease_inv_def lease_ok_def MAX_EXPERIMENT_WARM_LEASE_SECONDS_def)
  have "effective_experiment_min_replicas clock d' k now = 0"
    if old: "\<forall>l \<in> set (db_leases d'). wl_salad_deployment_id l = k \<longrightarrow>
            wl_started_at l + 5400 * us_per_second \<le> lease_time clock now"
  proof -
    have "\<not> (wl_salad_deployment_id l = k \<and> holds_replica d' (lease_time clock now) l)"
      if "l \<in> set (db_leases d')" for l
      using old hard [OF that] that by (auto simp: holds_replica_def)
    then have "find (\<lambda>l. wl_salad_deployment_id l = k \<and> holds_replica d' (lease_time clock now) l) (db_leases d') = None"
      by (auto simp: find_None_iff)
    then show ?thesis by (simp add: effective_experiment_min_replicas_def)
  qed
  with hard show ?thesis by fastforce
qed

lemma no_replica_after_cap_witness:
  "effective_experiment_min_replicas 0 sample_active_db 41 (Some (Aware 5400000000)) = 0
     \<and> effective_experiment_min_replicas 0 sample_active_db 41 (Some (Aware 800000000)) = 1"
proof
  show "effective_experiment_min_replicas 0 sample_active_db 41 (Some (Aware 5400000000)) = 0"
    using no_replica_after_cap [OF rtranclp.rtrancl_refl sample_warm_inv(2), where k = 41 and clock = 0
        and now = "Some (Aware 5400000000)"]
    by (simp add: sample_active_db_def sample_warm_lease_def)
  show "effective_experiment_min_replicas 0 sample_active_db 41 (Some (Aware 800000000)) = 1"
    by code_simp
qed

section \<open>Admission\<close>

lemma realized_usage_nonneg:
  assumes "\<forall>e \<in> set (db_entries d). se_entry_type e = SpendUSAGE \<longrightarrow> 0 \<le> se_amount_microusd e"
  shows "0 \<le> realized_lease_usage d l"
  unfolding realized_lease_usage_def using assms by (intro sum_list_nonneg) auto

lemma preflight_Inr:
  "preflight_budget s n = Inr u \<longleftrightarrow> bs_state s = BudgetOPEN \<and> 0 < n
     \<and> bs_daily_committed_microusd s + n \<le> bs_daily_limit_microusd s
     \<and> bs_monthly_committed_microusd s + n \<le> bs_monthly_limit_microusd s"
  by (auto simp: preflight_budget_def)

text \<open>An open guard after a re-evaluation means nothing but the guard was written.\<close>

lemma open_reevaluation:
  assumes "guard_reevaluated e t = Inr (d, b)" and "db_ok e" and "bs_state b = BudgetOPEN"
  obtains g where "get_guard_locked d ''salad'' = Some g" "pb_state g = BudgetOPEN" "b = evaluate_locked d g t"
    "db_leases d = db_leases e" "db_deployments d = db_deployments e"
proof -
  from assms(1) obtain g where g: "get_guard_locked e ''salad'' = Some g" "reevaluated e g t = (d, b)"
    by (rule guard_reevaluated_cases)
  note f = reevaluated_facts [OF g(2) assms(2) g(1)]
  from f(6) obtain g' where g': "get_guard_locked d ''salad'' = Some g'" "b = with_guard (evaluate_locked e g t) g'"
      "pb_id g' = pb_id g" "pb_provider g' = ''salad''" "pb_daily_limit_microusd g' = pb_daily_limit_microusd g"
      "pb_monthly_limit_microusd g' = pb_monthly_limit_microusd g"
      "pb_state g' = (if limit_reason (evaluate_locked e g t) 0 = None then BudgetOPEN else BudgetBLOCKED)"
    by blast
  have st: "pb_state g' = BudgetOPEN" using assms(3) g'(2) by simp
  with g'(7) have "limit_reason (evaluate_locked e g t) 0 = None" by (metis BudgetState.distinct(1))
  with f(8) have same: "db_deployments d = db_deployments e" "db_leases d = db_leases e" by auto
  have "evaluate_locked d g' t = with_guard (evaluate_locked e g t) g'"
    using evaluate_frame [OF f(2,3) same(2) g'(3) _ g'(5,6)] g'(4) get_guard_locked_get(2) [OF assms(2) g(1)] by simp
  with that [OF g'(1) st] g'(2) same show thesis by simp
qed

text \<open>A start that succeeds leaves the leases alone in its first re-evaluation.\<close>

lemma start_keeps_leases:
  assumes "guard_reevaluated d t = Inr (d1, b)" and "warm_inv d"
    and "get_deployment k d1 = Some x" and "require_warmable_deployment x = Inr ()"
  shows "db_leases d1 = db_leases d"
proof -
  from assms(1) obtain g where g: "get_guard_locked d ''salad'' = Some g" "reevaluated d g t = (d1, b)"
    by (rule guard_reevaluated_cases)
  note f = reevaluated_facts [OF g(2) _ g(1)]
  have ok: "db_ok d" using assms(2) by (simp add: warm_inv_def)
  show ?thesis
  proof (cases "limit_reason (evaluate_locked d g t) 0")
    case None
    with f(8) [OF ok] show ?thesis by simp
  next
    case (Some r)
    with f(7) [OF ok] have "sd_desired_state x = DesiredSTOPPED" using row_get_mem [OF assms(3)] by blast
    with assms(4) show ?thesis by (simp add: require_warmable_deployment_def split: if_splits)
  qed
qed

text \<open>The live lease that was there is neither usable nor ending, and is expired.\<close>

lemma start_supersedes:
  assumes "start_experiment_warm_lease n settings clock d k actor dur cp lo now = Inr (d', st)"
    and "warm_inv d" and "live_lease_of d k = Some l"
  shows "\<not> is_usable l (lease_time clock now)" and "wl_state l \<noteq> LeaseENDING"
    and "get_lease (wl_id l) d' = Some (expired_row (lease_time clock now) l)"
proof -
  let ?t = "lease_time clock now"
  have "\<not> is_usable l ?t \<and> wl_state l \<noteq> LeaseENDING \<and> get_lease (wl_id l) d' = Some (expired_row ?t l)"
    using assms(1)
  proof (cases rule: start_cases)
    case (1 dur actor cp lo d1 b0 x d2 b cost x')
    note g = guard_reevaluated_warm [OF 1(4) assms(2)]
    have same: "db_leases d1 = db_leases d" by (rule start_keeps_leases [OF 1(4) assms(2) 1(5,6)])
    then have live: "live_lease_of d1 k = Some l" using assms(3) by (simp add: live_lease_of_def)
    note found = live_lease_found [OF g(2) live]
    have open_after: "bs_state b = BudgetOPEN" using 1(9) by (simp add: preflight_Inr)
    from 1(7) live have u: "\<not> is_usable l ?t" "wl_state l \<noteq> LeaseENDING"
      by (auto simp: supersede_existing_def split: if_splits)
    have "get_lease (wl_id l) d2 = Some (expired_row ?t l)"
      using 1(7) g(2)
    proof (cases rule: supersede_effect)
      case idle
      then show ?thesis using live by simp
    next
      case (superseded m e)
      have m: "m = l" using superseded(1) live by simp
      have "db_ok e" using superseded(4) by (simp add: warm_inv_def)
      then have "db_leases d2 = db_leases e" using open_reevaluation [OF superseded(7) _ open_after] by blast
      also have "\<dots> = row_put wl_id (expired_row ?t l) (db_leases d1)" by (simp add: superseded(3) m)
      finally show ?thesis using found(1) by (auto simp: row_get_put expired_row_def dest: row_get_mem)
    qed
    then have "get_lease (wl_id l) d' = Some (expired_row ?t l)"
      by (auto simp: 1(10) row_get_def find_append)
    with u show ?thesis by simp
  qed
  then show "\<not> is_usable l ?t" and "wl_state l \<noteq> LeaseENDING"
    and "get_lease (wl_id l) d' = Some (expired_row ?t l)" by simp_all
qed

lemma start_within_budget:
  assumes "start_experiment_warm_lease n settings clock d k actor dur cp lo now = Inr (d', st)"
    and "warm_inv d" and "n \<notin> wl_id ` set (db_leases d)"
    and "\<forall>e \<in> set (db_entries d). se_entry_type e = SpendUSAGE \<longrightarrow> 0 \<le> se_amount_microusd e"
  shows "\<exists>g l x. get_guard_locked d' ''salad'' = Some g \<and> pb_state g = BudgetOPEN
     \<and> bs_daily_committed_microusd (evaluate_locked d' g (lease_time clock now)) \<le> pb_daily_limit_microusd g
     \<and> bs_monthly_committed_microusd (evaluate_locked d' g (lease_time clock now)) \<le> pb_monthly_limit_microusd g
     \<and> live_lease_of d' k = Some l \<and> wl_id l = n \<and> wl_id l = st_lease_id st \<and> wl_state l = LeaseSTARTING
     \<and> get_deployment k d' = Some x
     \<and> sd_max_hourly_cost_microusd x * 5400 \<le> wl_max_cost_microusd l * 3600
     \<and> wl_max_cost_microusd l * 3600 < sd_max_hourly_cost_microusd x * 5400 + 3600"
  using assms(1)
proof (cases rule: start_cases)
  case (1 dur actor cp lo d1 b0 x d2 b cost x')
  let ?t = "lease_time clock now" and ?l = "starting_lease n k actor dur cost cp lo (lease_time clock now)"
  note g1 = guard_reevaluated_warm [OF 1(4) assms(2)]
  from 1(9) have b: "bs_state b = BudgetOPEN" "bs_daily_committed_microusd b + cost \<le> bs_daily_limit_microusd b"
      "bs_monthly_committed_microusd b + cost \<le> bs_monthly_limit_microusd b" "0 < cost"
    by (auto simp: preflight_Inr)
  have "\<exists>e. guard_reevaluated e ?t = Inr (d2, b) \<and> warm_inv e \<and> db_entries e = db_entries d
      \<and> live_lease_of d2 k = None \<and> db_deployments d2 = db_deployments d1"
    using 1(7) g1(2)
  proof (cases rule: supersede_effect)
    case idle
    then show ?thesis using 1(4) assms(2) by auto
  next
    case (superseded l e)
    have oke: "db_ok e" using superseded(4) by (simp add: warm_inv_def)
    obtain g where "db_leases d2 = db_leases e" "db_deployments d2 = db_deployments e"
      using open_reevaluation [OF superseded(7) oke b(1)] by blast
    then show ?thesis using superseded g1(4) by (auto simp: live_lease_of_def expire_lease_def)
  qed
  then obtain e where e: "guard_reevaluated e ?t = Inr (d2, b)" "warm_inv e" "db_entries e = db_entries d"
      "live_lease_of d2 k = None" "db_deployments d2 = db_deployments d1" by blast
  then have oke: "db_ok e" by (simp add: warm_inv_def)
  obtain g where g: "get_guard_locked d2 ''salad'' = Some g" "pb_state g = BudgetOPEN" "b = evaluate_locked d2 g ?t"
    using open_reevaluation [OF e(1) oke b(1)] by blast
  have ent: "db_entries d' = db_entries d2" "db_attempts d' = db_attempts d2" "db_guards d' = db_guards d2"
    using 1(11) by (simp_all add: same_tables_def)
  have ent2: "db_entries d2 = db_entries d" using guard_reevaluated_warm(4) [OF e(1,2)] e(3) by simp
  have usage: "realized_lease_usage d' m = realized_lease_usage d2 m" for m
    by (simp add: realized_lease_usage_def ent)
  have "active_warm_leases d' p \<le> active_warm_leases d2 p + cost" for p
    using realized_usage_nonneg [of d2 ?l] assms(4) b(4)
    by (simp add: active_warm_leases_def 1(10) usage ent2 live_lease_def live_lease_states_def)
  then have "bs_daily_committed_microusd (evaluate_locked d' g ?t) \<le> bs_daily_committed_microusd b + cost"
      "bs_monthly_committed_microusd (evaluate_locked d' g ?t) \<le> bs_monthly_committed_microusd b + cost"
    by (simp_all add: g(3) evaluate_locked_def Let_def spend_between_def active_reservations_def ent)
  with b g have lim: "bs_daily_committed_microusd (evaluate_locked d' g ?t) \<le> pb_daily_limit_microusd g"
      "bs_monthly_committed_microusd (evaluate_locked d' g ?t) \<le> pb_monthly_limit_microusd g"
    by auto
  have gd: "get_guard_locked d' ''salad'' = Some g" using g(1) get_guard_locked_cong [OF ent(3)] by simp
  have live: "live_lease_of d' k = Some ?l"
    using e(4) by (simp add: live_lease_of_def 1(10) find_append live_lease_def live_lease_states_def)
  have x2: "get_deployment k d2 = Some x" using 1(5) e(5) by simp
  then have dep: "get_deployment k d' = Some (reconcile_at ?t x)"
    using row_get_key [OF x2] row_get_mem [OF x2] by (auto simp: 1(13) row_get_put)
  have h: "0 < sd_max_hourly_cost_microusd x"
      "cost = max 1 ((sd_max_hourly_cost_microusd x * 5400 + 3599) div 3600)"
    using 1(8) by (auto simp: maximum_cost_def MAX_EXPERIMENT_WARM_LEASE_SECONDS_def split: if_splits)
  then have cost: "sd_max_hourly_cost_microusd x * 5400 \<le> cost * 3600"
      "cost * 3600 < sd_max_hourly_cost_microusd x * 5400 + 3600"
    by (auto simp: max_def split: if_splits)
  have id: "st_lease_id st = n" using 1(12) by (simp add: lease_status_def Let_def)
  show ?thesis
    by (rule exI [of _ g], rule exI [of _ ?l], rule exI [of _ "reconcile_at ?t x"])
      (use gd g(2) lim live dep cost id in \<open>simp add: reconcile_at_def\<close>)
qed

text \<open>C21: A warm lease is admitted only when the budget covers its whole life. When \<open>start_experiment_warm_lease\<close>
  succeeds, the guard is open and the day's and the month's commitments, evaluated on the database left behind with the
  new lease in it, stay within their limits; the deployment has the new lease as its live one, in the state STARTING,
  and its reserved cost is that of 90 minutes at the deployment's hourly price, rounded up. A live lease the deployment
  had before was neither usable nor ending, and is EXPIRED now. This supposes that no USAGE entry of the ledger is
  negative: the schema only excludes zero, and a negative one would raise what a lease still commits above its cost.\<close>

theorem start_is_budgeted:
  assumes "start_experiment_warm_lease n settings clock d k actor dur cp lo now = Inr (d', st)"
    and "warm_inv d" and "n \<notin> wl_id ` set (db_leases d)"
    and "\<forall>e \<in> set (db_entries d). se_entry_type e = SpendUSAGE \<longrightarrow> 0 \<le> se_amount_microusd e"
  shows "(\<forall>old. live_lease_of d k = Some old \<longrightarrow> \<not> is_usable old (lease_time clock now) \<and> wl_state old \<noteq> LeaseENDING
          \<and> get_lease (wl_id old) d' = Some (expired_row (lease_time clock now) old))
     \<and> (\<exists>g l x. get_guard_locked d' ''salad'' = Some g \<and> pb_state g = BudgetOPEN
     \<and> bs_daily_committed_microusd (evaluate_locked d' g (lease_time clock now)) \<le> pb_daily_limit_microusd g
     \<and> bs_monthly_committed_microusd (evaluate_locked d' g (lease_time clock now)) \<le> pb_monthly_limit_microusd g
     \<and> live_lease_of d' k = Some l \<and> wl_id l = n \<and> wl_id l = st_lease_id st \<and> wl_state l = LeaseSTARTING
     \<and> get_deployment k d' = Some x
     \<and> sd_max_hourly_cost_microusd x * 5400 \<le> wl_max_cost_microusd l * 3600
     \<and> wl_max_cost_microusd l * 3600 < sd_max_hourly_cost_microusd x * 5400 + 3600)"
proof (rule conjI)
  show "\<forall>old. live_lease_of d k = Some old \<longrightarrow> \<not> is_usable old (lease_time clock now) \<and> wl_state old \<noteq> LeaseENDING
      \<and> get_lease (wl_id old) d' = Some (expired_row (lease_time clock now) old)"
    using start_supersedes [OF assms(1,2)] by blast
next
  show "\<exists>g l x. get_guard_locked d' ''salad'' = Some g \<and> pb_state g = BudgetOPEN
     \<and> bs_daily_committed_microusd (evaluate_locked d' g (lease_time clock now)) \<le> pb_daily_limit_microusd g
     \<and> bs_monthly_committed_microusd (evaluate_locked d' g (lease_time clock now)) \<le> pb_monthly_limit_microusd g
     \<and> live_lease_of d' k = Some l \<and> wl_id l = n \<and> wl_id l = st_lease_id st \<and> wl_state l = LeaseSTARTING
     \<and> get_deployment k d' = Some x
     \<and> sd_max_hourly_cost_microusd x * 5400 \<le> wl_max_cost_microusd l * 3600
     \<and> wl_max_cost_microusd l * 3600 < sd_max_hourly_cost_microusd x * 5400 + 3600"
    by (rule start_within_budget [OF assms])
qed
lemma start_is_budgeted_witness:
  "\<exists>d st l. start_experiment_warm_lease 62 None 0 sample_warm_db 41 ''owner'' 900 None None one_o_clock = Inr (d, st)
     \<and> live_lease_of d 41 = Some l \<and> wl_id l = 62"
proof -
  from sample_start obtain d st where r:
      "start_experiment_warm_lease 62 None 0 sample_warm_db 41 ''owner'' 900 None None one_o_clock = Inr (d, st)"
    by (rule returns_onE)
  from start_is_budgeted [OF r sample_warm_inv(1)] r show ?thesis
    by (auto simp: sample_warm_db_def empty_db_def)
qed

section \<open>Renewal\<close>

text \<open>Ensuring a lease that is already warm is idempotent. While the current image deployment has a usable live
  lease, \<open>ensure_experiment_warm_lease\<close> creates none: it returns that very lease, leaves every other lease as it is, and
  changes the lease at most by moving its expiry later, never past its hard cap.\<close>

theorem ensure_renews_live_lease:
  assumes "ensure_experiment_warm_lease n settings clock d actor0 dur0 cp0 lo0 now = Inr (d', st)"
    and "warm_inv d" and "find image_deployment (db_deployments d) = Some x"
    and "live_lease_of d (sd_id x) = Some l" and "is_usable l (lease_time clock now)"
  shows "st_lease_id st = wl_id l
     \<and> (\<exists>l'. get_lease (wl_id l) d' = Some l' \<and> wl_state l' = wl_state l \<and> wl_expires_at l \<le> wl_expires_at l'
          \<and> wl_expires_at l' \<le> wl_hard_expires_at l \<and> st_expires_at st = wl_expires_at l')
     \<and> map wl_id (db_leases d') = map wl_id (db_leases d)
     \<and> (\<forall>k. k \<noteq> wl_id l \<longrightarrow> get_lease k d' = get_lease k d)"
  using assms(1)
proof (cases rule: ensure_cases)
  case (1 dur actor cp lo current d1 b0 y)
  let ?t = "lease_time clock now"
  have ok: "db_ok d" using assms(2) by (simp add: warm_inv_def)
  note g = guard_reevaluated_warm [OF 1(5) assms(2)]
  have same: "db_leases d1 = db_leases d" using open_reevaluation [OF 1(5) ok 1(6)] by blast
  have idy: "sd_id y = sd_id x" using 1(4,9) assms(3) by simp
  have live: "live_lease_of d1 (sd_id y) = Some l" using assms(4) same idy by (simp add: live_lease_of_def)
  note found = live_lease_found [OF g(2) live]
  have li: "lease_ok l" using found_lease_inv [OF g(2) found(1)] by (simp add: lease_inv_def)
  from start_supersedes(1) [where clock = clock and now = "Some (Aware ?t)", OF _ g(2) live] assms(5) 1(10) live
  consider (touch) l' b where "touch_experiment_warm_lease_locked clock d1 l actor (Some (Aware ?t))
        (durable_runtime_hold d1 l ?t) = Inr (d', l', b)" "st = lease_status l' y ?t" "wl_state l = LeaseACTIVE"
    | (unchanged) "d' = d1" "st = lease_status l y ?t"
    by (simp only: lease_time_aware) blast
  then show ?thesis
  proof cases
    case unchanged
    then show ?thesis using found(1) same li by (simp add: lease_status_def Let_def lease_ok_def)
  next
    case touch
    then have cs: "l' = l \<and> d' = d1 \<or> l' = touched_row ?t l \<and> db_leases d' = row_put wl_id l' (db_leases d1)"
      by (auto simp: touch_experiment_warm_lease_locked_def Let_def bindE_eq_Inr split: if_splits)
    then have p: "wl_id l' = wl_id l" "wl_state l' = wl_state l" "wl_expires_at l \<le> wl_expires_at l'"
        "wl_expires_at l' \<le> wl_hard_expires_at l"
      using li by (auto simp: touched_row_def lease_ok_def)
    have here: "get_lease (wl_id l) d' = Some l'" using touch_effect [OF touch(1) g(2) found(1)] by simp
    have others: "get_lease k d' = get_lease k d" if "k \<noteq> wl_id l" for k
      using cs
    proof
      assume "l' = touched_row ?t l \<and> db_leases d' = row_put wl_id l' (db_leases d1)"
      then show ?thesis using that p(1) same by (simp only: row_get_put) simp
    qed (simp add: same)
    have keys: "map wl_id (db_leases d') = map wl_id (db_leases d)"
      using cs
    proof
      assume "l' = touched_row ?t l \<and> db_leases d' = row_put wl_id l' (db_leases d1)"
      then show ?thesis using same by (simp only: row_put_keys)
    qed (simp add: same)
    have "st_lease_id st = wl_id l \<and> st_expires_at st = wl_expires_at l'"
      using p(1) by (simp add: touch(2) lease_status_def Let_def)
    with p here others keys show ?thesis by blast
  qed
qed

lemma ensure_renews_live_lease_witness:
  "\<exists>d st. ensure_experiment_warm_lease 62 None 0 sample_active_db ''owner'' 900 None None one_o_clock = Inr (d, st)
     \<and> st_lease_id st = 61 \<and> map wl_id (db_leases d) = [61]"
proof -
  from sample_ensure obtain d st where r:
      "ensure_experiment_warm_lease 62 None 0 sample_active_db ''owner'' 900 None None one_o_clock = Inr (d, st)"
    by (rule returns_onE)
  have x: "find image_deployment (db_deployments sample_active_db) = Some sample_warm_deployment"
    by (simp add: sample_active_db_def sample_warm_db_def image_deployment_def sample_warm_deployment_def)
  have l: "live_lease_of sample_active_db (sd_id sample_warm_deployment) = Some sample_warm_lease"
    by (simp add: live_lease_of_def sample_active_db_def sample_warm_lease_def sample_warm_deployment_def lease_states)
  have u: "is_usable sample_warm_lease (lease_time 0 one_o_clock)"
    by (simp add: is_usable_def sample_warm_lease_def one_o_clock_def)
  from ensure_renews_live_lease [OF r sample_warm_inv(2) x l u] r show ?thesis
    by (auto simp: sample_active_db_def sample_warm_lease_def)
qed

section \<open>Expiry\<close>

lemma due_not_held: "lease_is_due t l \<Longrightarrow> \<not> durable_runtime_hold d l t \<Longrightarrow> \<not> holds_replica d t l"
  by (auto simp: lease_is_due_def durable_runtime_hold_def holds_replica_def has_busy_or_unobserved_completion_def list_ex_iff)

lemma select_all_leases:
  assumes "length (filter P (db_leases d)) \<le> nat limit" and "l \<in> set (db_leases d)" and "P l" and "\<not> locked (wl_id l)"
  shows "l \<in> set (select_leases P order limit locked d)"
proof -
  have "length (filter (\<lambda>l. \<not> locked (wl_id l)) (sort_key order (filter P (db_leases d)))) \<le> nat limit"
    by (rule order_trans [OF length_filter_le]) (simp add: assms(1))
  then show ?thesis using assms(2-4) by (simp add: select_leases_def)
qed

text \<open>C37: Expiry never takes a replica that is in use. Every lease that \<open>expire_experiment_warm_leases\<close> reports was past
  its deadline and held no replica at that time, and is EXPIRED afterwards; every other lease is untouched. And nothing
  is forgotten: when the limit is not smaller than the number of leases past their deadline, the leases reported
  are exactly those past it that are not locked and either are past their hard cap, whatever work is running, or whose
  deployment has neither a busy attempt nor one completed after the last activity of the lease.\<close>

theorem expiry_spares_working_replicas:
  assumes "expire_experiment_warm_leases locked clock d actor0 limit now = Inr (d', ids)" and "warm_inv d"
  shows "(\<forall>k \<in> set ids. \<exists>l. get_lease k d = Some l \<and> lease_is_due (lease_time clock now) l
            \<and> \<not> holds_replica d (lease_time clock now) l
            \<and> get_lease k d' = Some (expired_row (lease_time clock now) l))
     \<and> (\<forall>k. k \<notin> set ids \<longrightarrow> get_lease k d' = get_lease k d)
     \<and> (int (length (filter (lease_is_due (lease_time clock now)) (db_leases d))) \<le> limit \<longrightarrow>
          (\<forall>l \<in> set (db_leases d). wl_id l \<in> set ids \<longleftrightarrow> lease_is_due (lease_time clock now) l \<and> \<not> locked (wl_id l)
             \<and> (wl_hard_expires_at l \<le> lease_time clock now \<or> \<not> has_busy_or_unobserved_completion d l)))"
  using assms
proof (cases rule: expire_cases)
  case (1 ls)
  let ?t = "lease_time clock now"
  have ok: "db_ok d" using assms(2) by (simp add: warm_inv_def)
  have found: "get_lease (wl_id l) d = Some l" if "l \<in> set (db_leases d)" for l
    using db_okD(16) [OF ok] that by (rule row_get_distinct)
  have "row_get wl_id k (map (\<lambda>l. if l \<in> set ls then expired_row ?t l else l) (db_leases d))
      = map_option (\<lambda>l. if l \<in> set ls then expired_row ?t l else l) (get_lease k d)" for k
    by (rule row_get_map) (simp add: expired_row_def)
  then have get: "get_lease k d' = map_option (\<lambda>l. if l \<in> set ls then expired_row ?t l else l) (get_lease k d)" for k
    using 1(7) by simp
  have "\<exists>l. get_lease k d = Some l \<and> lease_is_due ?t l \<and> \<not> holds_replica d ?t l \<and> get_lease k d' = Some (expired_row ?t l)"
    if k: "k \<in> set ids" for k
  proof -
    from k 1(2) obtain l where l: "l \<in> set ls" "k = wl_id l" by auto
    then have "l \<in> set (db_leases d)" "lease_is_due ?t l" using 1(6) by auto
    moreover have "\<not> durable_runtime_hold d l ?t" using l(1) 1(1) by simp
    ultimately show ?thesis using l found get due_not_held by (intro exI [of _ l]) simp
  qed
  moreover have "get_lease k d' = get_lease k d" if k: "k \<notin> set ids" for k
  proof (cases "get_lease k d")
    case (Some l)
    then have "l \<notin> set ls" using k 1(2) row_get_key [OF Some] by auto
    with Some get show ?thesis by simp
  qed (use get in simp)
  moreover have "wl_id l \<in> set ids \<longleftrightarrow> lease_is_due ?t l \<and> \<not> locked (wl_id l)
      \<and> (wl_hard_expires_at l \<le> ?t \<or> \<not> has_busy_or_unobserved_completion d l)"
    if "int (length (filter (lease_is_due ?t) (db_leases d))) \<le> limit" "l \<in> set (db_leases d)" for l
  proof -
    have "length (filter (lease_is_due ?t) (db_leases d)) \<le> nat limit" using that(1) by linarith
    then have "lease_is_due ?t l \<Longrightarrow> \<not> locked (wl_id l) \<Longrightarrow>
        l \<in> set (select_leases (lease_is_due ?t) (\<lambda>l. (wl_expires_at l, wl_id l)) limit locked d)"
      using that(2) by (intro select_all_leases) simp_all
    then have "l \<in> set ls \<longleftrightarrow> lease_is_due ?t l \<and> \<not> locked (wl_id l) \<and> \<not> durable_runtime_hold d l ?t"
      using 1(6) by (auto simp: 1(1))
    also have "\<dots> \<longleftrightarrow> lease_is_due ?t l \<and> \<not> locked (wl_id l)
        \<and> (wl_hard_expires_at l \<le> ?t \<or> \<not> has_busy_or_unobserved_completion d l)"
      by (auto simp: durable_runtime_hold_def lease_is_due_def)
    finally have "l \<in> set ls \<longleftrightarrow> \<dots>" .
    moreover have "wl_id l \<in> set ids \<longleftrightarrow> l \<in> set ls"
      using found [of l] found that(2) 1(2,6) by auto (metis (mono_tags, lifting) mem_Collect_eq option.inject subsetD)
    ultimately show ?thesis by simp
  qed
  ultimately show ?thesis by blast
qed

lemma expiry_spares_working_replicas_witness:
  "\<exists>d. expire_experiment_warm_leases (\<lambda>_. False) 0 sample_active_db ''runtime'' 25 (Some (Aware 900000000)) = Inr (d, [61])
     \<and> get_lease 61 d = Some (expired_row 900000000 sample_warm_lease)"
proof -
  from sample_expire obtain d ids where r:
      "expire_experiment_warm_leases (\<lambda>_. False) 0 sample_active_db ''runtime'' 25 (Some (Aware 900000000)) = Inr (d, ids)"
      "ids = [61]"
    by (rule returns_onE) auto
  from expiry_spares_working_replicas [OF r(1) sample_warm_inv(2)] r(2) obtain l where
      "get_lease 61 sample_active_db = Some l" "get_lease 61 d = Some (expired_row 900000000 l)" by auto
  with r show ?thesis
    by (auto simp: row_get_def sample_active_db_def sample_warm_lease_def)
qed

end
