(* ===== verification/PyText.thy ===== *)
theory PyText
  imports Prelude
begin

text \<open>
  Texts of any language: a Python \<open>str\<close> as the list of its code points, where the length in characters, the size
  in UTF-8 or the size as a JSON string matters. The names are those of the methods the prompt code calls.
\<close>

type_synonym pytext = "int list"

definition text_of :: "string \<Rightarrow> pytext" where
  "text_of s = map of_char s"

section \<open>White space\<close>

text \<open>The code points for which \<open>str.isspace\<close> holds; \<open>str.strip\<close> removes these.\<close>

definition is_py_space :: "int \<Rightarrow> bool" where
  "is_py_space c \<longleftrightarrow> (9 \<le> c \<and> c \<le> 13) \<or> (28 \<le> c \<and> c \<le> 32) \<or> c = 0x85 \<or> c = 0xA0 \<or> c = 0x1680
     \<or> (0x2000 \<le> c \<and> c \<le> 0x200A) \<or> c = 0x2028 \<or> c = 0x2029 \<or> c = 0x202F \<or> c = 0x205F \<or> c = 0x3000"

definition text_strip :: "pytext \<Rightarrow> pytext" where
  "text_strip s = rev (dropWhile is_py_space (rev (dropWhile is_py_space s)))"

section \<open>Encoded sizes\<close>

text \<open>The number of bytes of a code point in UTF-8; a surrogate has no encoding (\<open>UnicodeEncodeError\<close>).\<close>

definition utf8_size :: "int \<Rightarrow> int" where
  "utf8_size c = (if c < 0x80 then 1 else if c < 0x800 then 2 else if c < 0x10000 then 3 else 4)"

definition is_surrogate :: "int \<Rightarrow> bool" where
  "is_surrogate c \<longleftrightarrow> 0xD800 \<le> c \<and> c \<le> 0xDFFF"

datatype encode_error = UnicodeEncodeError

definition utf8_length :: "pytext \<Rightarrow> encode_error + int" where
  "utf8_length s =
     (if list_ex is_surrogate s then Inl UnicodeEncodeError else Inr (\<Sum>c\<leftarrow>s. utf8_size c))"

text \<open>
  \<open>json.dumps(s, ensure_ascii=False)\<close>: quotes around the characters, a two-character escape for the quote, the
  backslash and five controls, \<open>\u00XX\<close> for the other controls.
\<close>

definition json_escaped_char :: "int \<Rightarrow> pytext" where
  "json_escaped_char c =
     (if c = 0x22 then [0x5C, 0x22] else if c = 0x5C then [0x5C, 0x5C]
      else if c = 0x0A then [0x5C, 0x6E] else if c = 0x0D then [0x5C, 0x72] else if c = 0x09 then [0x5C, 0x74]
      else if c = 0x08 then [0x5C, 0x62] else if c = 0x0C then [0x5C, 0x66]
      else if c < 0x20
      then [0x5C, 0x75, 0x30, 0x30, 0x30 + c div 16,
            if c mod 16 < 10 then 0x30 + c mod 16 else 0x57 + c mod 16]
      else [c])"

definition json_dumps_text :: "pytext \<Rightarrow> pytext" where
  "json_dumps_text s = [0x22] @ concat (map json_escaped_char s) @ [0x22]"

lemma utf8_size_bounds: "1 \<le> utf8_size c" "utf8_size c \<le> 4"
  by (simp_all add: utf8_size_def)

lemma json_escaped_surrogate [simp]: "list_ex is_surrogate (json_escaped_char c) \<longleftrightarrow> is_surrogate c"
  by (auto simp: json_escaped_char_def is_surrogate_def)

lemma json_dumps_surrogate [simp]: "list_ex is_surrogate (json_dumps_text s) \<longleftrightarrow> list_ex is_surrogate s"
proof -
  have "list_ex is_surrogate (concat (map json_escaped_char s)) \<longleftrightarrow> list_ex is_surrogate s"
    by (induction s) simp_all
  then show ?thesis by (simp add: json_dumps_text_def is_surrogate_def)
qed

lemma json_escaped_size:
  "utf8_size c \<le> (\<Sum>x\<leftarrow>json_escaped_char c. utf8_size x)"
  "(\<Sum>x\<leftarrow>json_escaped_char c. utf8_size x) \<le> 6 * utf8_size c"
  by (auto simp: json_escaped_char_def utf8_size_def)

text \<open>The JSON form of a text is its raw bytes, the quotes and at most five bytes more for every byte.\<close>

lemma json_size_bounds:
  assumes "utf8_length s = Inr n" and "utf8_length (json_dumps_text s) = Inr m"
  shows "n + 2 \<le> m" and "m \<le> 6 * n + 2"
proof -
  let ?raw = "\<Sum>c\<leftarrow>s. utf8_size c"
  let ?esc = "\<Sum>c\<leftarrow>concat (map json_escaped_char s). utf8_size c"
  have eq: "?raw = n" "?esc + 2 = m" using assms
    by (auto simp: utf8_length_def json_dumps_text_def utf8_size_def split: if_splits)
  have "?raw \<le> ?esc" and "?esc \<le> 6 * ?raw"
  proof (induction s)
    case (Cons c s)
    { case 1 show ?case using Cons(1) json_escaped_size(1) [of c] by simp next
      case 2 show ?case using Cons(2) json_escaped_size(2) [of c] by simp }
  qed simp_all
  with eq show "n + 2 \<le> m" and "m \<le> 6 * n + 2" by simp_all
qed

end
