(* ===== verification/GenerationLimits.thy ===== *)
theory GenerationLimits
  imports PyText
begin

text \<open>
  The prompt budgets of \<open>domain/generation_limits.py\<close>: the bytes a job's prompts take in a signed request and in a
  payload that is only referenced, and the bound on the outputs of one job.
\<close>

definition MAX_INLINE_OUTPUTS_PER_SIGNED_GENERATION_JOB :: int where
  "MAX_INLINE_OUTPUTS_PER_SIGNED_GENERATION_JOB = 8"
definition MAX_SAFE_OUTPUTS_PER_SIGNED_GENERATION_JOB :: int where
  "MAX_SAFE_OUTPUTS_PER_SIGNED_GENERATION_JOB = 25"
definition MAX_PROMPT_TEXT_BYTES_PER_GENERATION_JOB :: int where
  "MAX_PROMPT_TEXT_BYTES_PER_GENERATION_JOB = 96 * 1024"
definition MAX_SIGNED_PROMPT_BUDGET_BYTES_PER_GENERATION_JOB :: int where
  "MAX_SIGNED_PROMPT_BUDGET_BYTES_PER_GENERATION_JOB = 90 * 1024"
definition SIGNED_WORKER_PROMPT_AMPLIFICATION :: int where
  "SIGNED_WORKER_PROMPT_AMPLIFICATION = 3"

definition json_encoded_prompt_bytes :: "pytext list \<Rightarrow> encode_error + int" where
  "json_encoded_prompt_bytes prompts =
     bindE (mapE (\<lambda>v. utf8_length (json_dumps_text v)) prompts) (\<lambda>sizes. Inr (sum_list sizes))"

definition utf8_prompt_bytes :: "pytext list \<Rightarrow> encode_error + int" where
  "utf8_prompt_bytes prompts = bindE (mapE utf8_length prompts) (\<lambda>sizes. Inr (sum_list sizes))"

definition signed_worker_prompt_budget_bytes :: "pytext list \<Rightarrow> int \<Rightarrow> encode_error + int" where
  "signed_worker_prompt_budget_bytes prompts outputs_per_job =
     bindE (json_encoded_prompt_bytes prompts)
       (\<lambda>n. Inr (n * outputs_per_job * SIGNED_WORKER_PROMPT_AMPLIFICATION))"

definition referenced_worker_prompt_budget_bytes :: "pytext list \<Rightarrow> int \<Rightarrow> encode_error + int" where
  "referenced_worker_prompt_budget_bytes prompts outputs_per_job =
     bindE (json_encoded_prompt_bytes prompts) (\<lambda>n. Inr (n * outputs_per_job))"

definition effective_outputs_per_generation_job :: "string \<Rightarrow> int \<Rightarrow> int" where
  "effective_outputs_per_generation_job composition_mode requested =
     min requested MAX_SAFE_OUTPUTS_PER_SIGNED_GENERATION_JOB"

text \<open>The legacy size never exceeds the current one, and both exist for the same prompts.\<close>

lemma prompt_sizes_agree:
  "(\<exists>n. utf8_prompt_bytes prompts = Inr n) \<longleftrightarrow> (\<exists>m. json_encoded_prompt_bytes prompts = Inr m)"
proof (induction prompts)
  case Nil
  then show ?case by (simp add: utf8_prompt_bytes_def json_encoded_prompt_bytes_def)
next
  case (Cons v vs)
  have "(\<exists>n. utf8_length v = Inr n) \<longleftrightarrow> (\<exists>m. utf8_length (json_dumps_text v) = Inr m)"
    by (simp add: utf8_length_def)
  with Cons show ?case
    by (auto simp: utf8_prompt_bytes_def json_encoded_prompt_bytes_def bindE_eq_Inr)
qed

lemma legacy_prompt_bytes_le:
  assumes "utf8_prompt_bytes prompts = Inr n" and "json_encoded_prompt_bytes prompts = Inr m"
  shows "n + 2 * int (length prompts) \<le> m" and "m \<le> 6 * n + 2 * int (length prompts)"
proof -
  obtain ns ms where
      "list_all2 (\<lambda>v k. utf8_length v = Inr k) prompts ns" "n = sum_list ns"
      "list_all2 (\<lambda>v k. utf8_length (json_dumps_text v) = Inr k) prompts ms" "m = sum_list ms"
    using assms by (auto simp: utf8_prompt_bytes_def json_encoded_prompt_bytes_def bindE_eq_Inr mapE_eq_Inr)
  moreover have "sum_list ns + 2 * int (length prompts) \<le> sum_list ms"
      and "sum_list ms \<le> 6 * sum_list ns + 2 * int (length prompts)"
    if "list_all2 (\<lambda>v k. utf8_length v = Inr k) prompts ns"
      "list_all2 (\<lambda>v k. utf8_length (json_dumps_text v) = Inr k) prompts ms" for ns ms
    using that
  proof (induction prompts arbitrary: ns ms)
    case (Cons v vs)
    { case 1
      then obtain k ns' l ms' where "ns = k # ns'" "ms = l # ms'" by (auto simp: list_all2_Cons1)
      with 1 Cons(1) [of ns' ms'] json_size_bounds(1) [of v k l] show ?case by simp
    next
      case 2
      then obtain k ns' l ms' where "ns = k # ns'" "ms = l # ms'" by (auto simp: list_all2_Cons1)
      with 2 Cons(2) [of ns' ms'] json_size_bounds(2) [of v k l] show ?case by simp }
  qed simp_all
  ultimately show "n + 2 * int (length prompts) \<le> m" and "m \<le> 6 * n + 2 * int (length prompts)" by simp_all
qed

end
