(* ===== verification/PromptVariables.thy ===== *)
theory PromptVariables
  imports PyText
begin

text \<open>
  \<open>domain/prompt_variables.py\<close>: named prompt snippets and their expansion. A token \<open>*name*\<close> is replaced by the snippet of
  that name, recursively; \<open>**emphasis**\<close> stays as it is. \<open>finditer\<close> is the leftmost scan of the module's token pattern,
  whose two alternatives each match in at most one way. The reading of the browser field (\<open>json.loads\<close>) is not modelled.
\<close>

definition MAX_PROMPT_VARIABLES :: int where "MAX_PROMPT_VARIABLES = 50"
definition MAX_VARIABLE_CHARACTERS :: int where "MAX_VARIABLE_CHARACTERS = 20000"
definition MAX_VARIABLE_TOTAL_CHARACTERS :: int where "MAX_VARIABLE_TOTAL_CHARACTERS = 100000"
definition MAX_VARIABLE_DEPTH :: int where "MAX_VARIABLE_DEPTH = 8"
definition MAX_VARIABLE_SUBSTITUTIONS :: int where "MAX_VARIABLE_SUBSTITUTIONS = 256"

lemmas variable_limits = MAX_PROMPT_VARIABLES_def MAX_VARIABLE_CHARACTERS_def MAX_VARIABLE_TOTAL_CHARACTERS_def
  MAX_VARIABLE_DEPTH_def MAX_VARIABLE_SUBSTITUTIONS_def

text \<open>The \<open>ValueError\<close>s of the module, one constructor for each message.\<close>

datatype variable_error =
    NotAnObject
  | TooManyVariables
  | InvalidVariableName
  | SnippetNotText pytext
  | SnippetTooLong pytext
  | SnippetHasNul pytext
  | SnippetsTooLong
  | UnknownVariable pytext pytext
  | VariableCycle pytext pytext
  | NestedTooDeeply pytext
  | TooManySubstitutions pytext
  | ExpandedTooLong pytext

section \<open>Names and tokens\<close>

abbreviation asterisk :: int where "asterisk \<equiv> 0x2A"

definition is_letter :: "int \<Rightarrow> bool" where
  "is_letter c \<longleftrightarrow> (0x41 \<le> c \<and> c \<le> 0x5A) \<or> (0x61 \<le> c \<and> c \<le> 0x7A)"

definition is_name_char :: "int \<Rightarrow> bool" where
  "is_name_char c \<longleftrightarrow> is_letter c \<or> (0x30 \<le> c \<and> c \<le> 0x39) \<or> c = 0x5F \<or> c = 0x20 \<or> c = 0x2D"

definition variable_name_fullmatch :: "pytext \<Rightarrow> bool" where
  "variable_name_fullmatch name \<longleftrightarrow>
     (case name of [] \<Rightarrow> False | c # cs \<Rightarrow> is_letter c \<and> length cs \<le> 63 \<and> list_all is_name_char cs)"

text \<open>A character of \<open>[^*\r\n]\<close>.\<close>

definition is_emphasis_char :: "int \<Rightarrow> bool" where
  "is_emphasis_char c \<longleftrightarrow> c \<noteq> asterisk \<and> c \<noteq> 0x0D \<and> c \<noteq> 0x0A"

definition emphasis_at :: "pytext \<Rightarrow> nat option" where
  "emphasis_at s =
     (if take 2 s = [asterisk, asterisk]
      then (let run = takeWhile is_emphasis_char (drop 2 s) in
            if run \<noteq> [] \<and> take 2 (drop (2 + length run) s) = [asterisk, asterisk]
            then Some (length run + 4) else None)
      else None)"

definition variable_at :: "pytext \<Rightarrow> pytext option" where
  "variable_at s =
     (case s of
        a # c # cs \<Rightarrow>
          if a = asterisk \<and> is_letter c
          then (let name = c # take 63 (takeWhile is_name_char cs) in
                if take 1 (drop (length name) (c # cs)) = [asterisk] then Some name else None)
          else None
      | _ \<Rightarrow> None)"

text \<open>A match of the pattern at the start of a text: its length and \<open>group(1)\<close>.\<close>

definition token_at :: "pytext \<Rightarrow> (nat \<times> pytext option) option" where
  "token_at s = (case emphasis_at s of
       Some n \<Rightarrow> Some (n, None)
     | None \<Rightarrow> (case variable_at s of Some name \<Rightarrow> Some (length name + 2, Some name) | None \<Rightarrow> None))"

lemma token_at_pos: "token_at s = Some (n, g) \<Longrightarrow> 0 < n \<and> n \<le> length s"
proof -
  assume a: "token_at s = Some (n, g)"
  show ?thesis
  proof (cases "emphasis_at s")
    case (Some m)
    define k where "k = length (takeWhile is_emphasis_char (drop 2 s))"
    from Some a have n: "n = k + 4" and e: "take 2 (drop (2 + k) s) = [asterisk, asterisk]"
      by (auto simp: token_at_def emphasis_at_def Let_def k_def split: if_splits)
    from arg_cong [OF e, of length] have "2 + k + 2 \<le> length s" by simp
    with n show ?thesis by simp
  next
    case None
    with a obtain name where v: "variable_at s = Some name" "n = length name + 2"
      by (auto simp: token_at_def split: option.splits)
    then obtain c cs where s: "s = asterisk # c # cs" "take 1 (drop (length name) (c # cs)) = [asterisk]"
      by (auto simp: variable_at_def Let_def split: list.splits if_splits)
    from arg_cong [OF s(2), of length] have "length name + 1 \<le> length (c # cs)" by simp
    with v s show ?thesis by simp
  qed
qed

record variable_match =
  vm_start :: nat
  vm_end :: nat
  vm_name :: "pytext option"

text \<open>\<open>VARIABLE_TOKEN_PATTERN.finditer\<close> on the text that remains at offset \<open>i\<close>.\<close>

function finditer :: "nat \<Rightarrow> pytext \<Rightarrow> variable_match list" where
  "finditer i s =
     (case s of
        [] \<Rightarrow> []
      | c # cs \<Rightarrow> (case token_at s of
            None \<Rightarrow> finditer (i + 1) cs
          | Some (n, g) \<Rightarrow> \<lparr>vm_start = i, vm_end = i + n, vm_name = g\<rparr> # finditer (i + n) (drop n s)))"
  by pat_completeness auto
termination
  by (relation "measure (\<lambda>(i, s). length s)") (auto dest: token_at_pos)

section \<open>Validation\<close>

text \<open>What the validator is given: any object; a dictionary is the list of its items.\<close>

datatype variable_object = ObjText pytext | ObjDict "(variable_object \<times> variable_object) list" | ObjOther

definition valid_variable_name :: "variable_object \<Rightarrow> pytext option" where
  "valid_variable_name key =
     (case key of
        ObjText name \<Rightarrow> if name \<noteq> text_strip name \<or> \<not> variable_name_fullmatch name then None else Some name
      | _ \<Rightarrow> None)"

fun validate_items ::
  "int \<Rightarrow> (variable_object \<times> variable_object) list \<Rightarrow> variable_error + (pytext \<times> pytext) list" where
  "validate_items seen [] = Inr []"
| "validate_items seen ((key, item) # rest) =
     (case valid_variable_name key of
        None \<Rightarrow> Inl InvalidVariableName
      | Some name \<Rightarrow> (case item of
            ObjText snippet \<Rightarrow>
              if MAX_VARIABLE_CHARACTERS < int (length snippet) then Inl (SnippetTooLong name)
              else if 0 \<in> set snippet then Inl (SnippetHasNul name)
              else if MAX_VARIABLE_TOTAL_CHARACTERS < seen + int (length snippet) then Inl SnippetsTooLong
              else bindE (validate_items (seen + int (length snippet)) rest) (\<lambda>result. Inr ((name, snippet) # result))
          | _ \<Rightarrow> Inl (SnippetNotText name)))"

definition validate_prompt_variables :: "variable_object \<Rightarrow> variable_error + (pytext \<times> pytext) list" where
  "validate_prompt_variables v =
     (case v of
        ObjDict items \<Rightarrow>
          if MAX_PROMPT_VARIABLES < int (length items) then Inl TooManyVariables else validate_items 0 items
      | _ \<Rightarrow> Inl NotAnObject)"

section \<open>Expansion\<close>

text \<open>
  \<open>expand_fragment\<close> and its loop over the matches. The loop's state is the count of substitutions, which the calls
  share, the text joined so far, its length as the code tracks it, and the cursor.
\<close>

function (sequential)
  expand_fragment :: "(pytext \<times> pytext) list \<Rightarrow> pytext \<Rightarrow> pytext list \<Rightarrow> int \<Rightarrow> pytext \<Rightarrow> variable_error + (int \<times> pytext)"
  and expand_matches :: "(pytext \<times> pytext) list \<Rightarrow> pytext \<Rightarrow> pytext list \<Rightarrow> pytext \<Rightarrow> int \<Rightarrow> pytext \<Rightarrow> int \<Rightarrow> nat
    \<Rightarrow> variable_match list \<Rightarrow> variable_error + (int \<times> pytext)" where
  "expand_fragment variables label stack substitutions fragment =
     expand_matches variables label stack fragment substitutions [] 0 0 (finditer 0 fragment)"
| "expand_matches variables label stack fragment substitutions parts joined cursor [] =
     (let suffix = drop cursor fragment in
      if MAX_VARIABLE_CHARACTERS < joined + int (length suffix) then Inl (ExpandedTooLong label)
      else Inr (substitutions, parts @ suffix))"
| "expand_matches variables label stack fragment substitutions parts joined cursor (match # rest) =
     (case vm_name match of
        None \<Rightarrow> expand_matches variables label stack fragment substitutions parts joined cursor rest
      | Some name \<Rightarrow> (case map_of variables name of
            None \<Rightarrow> Inl (UnknownVariable label name)
          | Some snippet \<Rightarrow>
              if name \<in> set stack then Inl (VariableCycle label name)
              else if MAX_VARIABLE_DEPTH \<le> int (length stack) then Inl (NestedTooDeeply label)
              else if MAX_VARIABLE_SUBSTITUTIONS < substitutions + 1 then Inl (TooManySubstitutions label)
              else (case expand_fragment variables label (stack @ [name]) (substitutions + 1) snippet of
                  Inl e \<Rightarrow> Inl e
                | Inr (substitutions', replacement) \<Rightarrow>
                    (let prefix = drop cursor (take (vm_start match) fragment);
                         joined' = joined + int (length prefix) + int (length replacement)
                     in if MAX_VARIABLE_CHARACTERS < joined' then Inl (ExpandedTooLong label)
                        else expand_matches variables label stack fragment substitutions'
                               (parts @ prefix @ replacement) joined' (vm_end match) rest))))"
  by pat_completeness auto
termination
  by (relation "inv_image (less_than <*lex*> (less_than <*lex*> less_than))
       (case_sum (\<lambda>(vs, l, stack, n, f). (nat (MAX_VARIABLE_DEPTH - int (length stack)), 1, 0))
          (\<lambda>(vs, l, stack, f, n, p, joined, cur, ms). (nat (MAX_VARIABLE_DEPTH - int (length stack)), 0, length ms)))") auto

text \<open>\<open>PromptVariableResolver(variables).expand(text, label=label)\<close>.\<close>

definition prompt_variable_expand ::
  "variable_object \<Rightarrow> pytext \<Rightarrow> pytext \<Rightarrow> variable_error + pytext" where
  "prompt_variable_expand v text label =
     bindE (validate_prompt_variables v) (\<lambda>variables.
     bindE (expand_fragment variables label [] 0 text) (\<lambda>(_, expanded). Inr expanded))"

end
