(* ===== verification/PromptVariableTheorems.thy ===== *)
theory PromptVariableTheorems
  imports PromptVariables
begin

text \<open>
  Expansion against its reference: unbounded simultaneous substitution, given as an inductive relation that also counts
  the substitutions and the nesting. The code computes it exactly within its limits.
\<close>

datatype token = Lit int | Var pytext

text \<open>The tokens of a text, character by character from the left.\<close>

function scan :: "pytext \<Rightarrow> token list" where
  "scan s =
     (case s of
        [] \<Rightarrow> []
      | c # cs \<Rightarrow> (case token_at s of
            None \<Rightarrow> Lit c # scan cs
          | Some (n, None) \<Rightarrow> map Lit (take n s) @ scan (drop n s)
          | Some (n, Some name) \<Rightarrow> Var name # scan (drop n s)))"
  by pat_completeness auto
termination
  by (relation "measure length") (auto dest: token_at_pos)

declare scan.simps [simp del] finditer.simps [simp del] expand_fragment.simps [simp del]

text \<open>
  \<open>renders V ts out n d\<close>: replacing every variable of \<open>ts\<close> by its text under \<open>V\<close>, again and again, ends with \<open>out\<close>
  after \<open>n\<close> replacements nested at most \<open>d\<close> deep.
\<close>

inductive renders :: "(pytext \<Rightarrow> pytext option) \<Rightarrow> token list \<Rightarrow> pytext \<Rightarrow> nat \<Rightarrow> nat \<Rightarrow> bool" for V where
  Nil: "renders V [] [] 0 0"
| Lit: "renders V ts out n d \<Longrightarrow> renders V (Lit c # ts) (c # out) n d"
| Var: "V x = Some v \<Longrightarrow> renders V (scan v) out1 n1 d1 \<Longrightarrow> renders V ts out2 n2 d2 \<Longrightarrow>
        renders V (Var x # ts) (out1 @ out2) (1 + n1 + n2) (max (Suc d1) d2)"

inductive_simps renders_Nil [simp]: "renders V [] out n d"
inductive_simps renders_Lit: "renders V (Lit c # ts) out n d"
inductive_simps renders_Var: "renders V (Var x # ts) out n d"

section \<open>The scan and the matches\<close>

text \<open>A text is empty, starts with an ordinary character, or starts with a token.\<close>

lemma token_induct [case_names Empty Skip Token]:
  assumes "P []"
    and "\<And>c cs. token_at (c # cs) = None \<Longrightarrow> P cs \<Longrightarrow> P (c # cs)"
    and "\<And>s n g. token_at s = Some (n, g) \<Longrightarrow> 0 < n \<Longrightarrow> n \<le> length s \<Longrightarrow> P (drop n s) \<Longrightarrow> P s"
  shows "P s"
proof (induction s rule: measure_induct_rule [of length])
  case (less s)
  show ?case
  proof (cases "token_at s")
    case None
    then show ?thesis using less assms(1,2) by (cases s) auto
  next
    case (Some p)
    obtain n g where p: "p = (n, g)" by (cases p)
    with Some have n: "0 < n" "n \<le> length s" using token_at_pos [of s n g] by simp_all
    then have "P (drop n s)" by (intro less) auto
    with n show ?thesis using Some p assms(3) [of s n g] by simp
  qed
qed

lemma scan_simps:
  "scan [] = []"
  "token_at (c # cs) = None \<Longrightarrow> scan (c # cs) = Lit c # scan cs"
  "token_at s = Some (n, g) \<Longrightarrow>
     scan s = (case g of None \<Rightarrow> map Lit (take n s) | Some x \<Rightarrow> [Var x]) @ scan (drop n s)"
  using token_at_pos [of s n g] by (auto simp: scan.simps [of "[]"] scan.simps [of "c # cs"] scan.simps [of s]
      split: list.splits option.splits)

lemma finditer_simps:
  "finditer i [] = []"
  "token_at (c # cs) = None \<Longrightarrow> finditer i (c # cs) = finditer (i + 1) cs"
  "token_at s = Some (n, g) \<Longrightarrow>
     finditer i s = \<lparr>vm_start = i, vm_end = i + n, vm_name = g\<rparr> # finditer (i + n) (drop n s)"
  using token_at_pos [of s n g]
  by (auto simp: finditer.simps [of i "[]"] finditer.simps [of i "c # cs"] finditer.simps [of i s]
      split: list.splits option.splits)

lemma finditer_Nil: "finditer i s = [] \<Longrightarrow> scan s = map Lit s"
  by (induction s arbitrary: i rule: token_induct) (auto simp: scan_simps finditer_simps)

lemma finditer_Cons:
  "finditer i s = m # ms \<Longrightarrow>
     \<exists>pre tok rest. s = pre @ tok @ rest \<and> vm_start m = i + length pre \<and> vm_end m = i + length pre + length tok
       \<and> ms = finditer (vm_end m) rest
       \<and> scan s = map Lit pre @ (case vm_name m of None \<Rightarrow> map Lit tok | Some x \<Rightarrow> [Var x]) @ scan rest"
proof (induction s arbitrary: i rule: token_induct)
  case (Skip c cs)
  then have "finditer (i + 1) cs = m # ms" by (simp add: finditer_simps)
  from Skip(2) [OF this] obtain pre tok rest where
      "cs = pre @ tok @ rest" "vm_start m = i + 1 + length pre" "vm_end m = i + 1 + length pre + length tok"
      "ms = finditer (vm_end m) rest"
      "scan cs = map Lit pre @ (case vm_name m of None \<Rightarrow> map Lit tok | Some x \<Rightarrow> [Var x]) @ scan rest" by blast
  then show ?case using Skip(1)
    by (intro exI [of _ "c # pre"] exI [of _ tok] exI [of _ rest]) (simp add: scan_simps)
next
  case (Token s n g)
  then show ?case
    by (intro exI [of _ "[]"] exI [of _ "take n s"] exI [of _ "drop n s"])
      (auto simp: scan_simps finditer_simps)
qed (simp add: finditer_simps)

text \<open>Nothing is lost, and a variable is named by a valid name.\<close>

definition token_source :: "token \<Rightarrow> pytext" where
  "token_source t = (case t of Lit c \<Rightarrow> [c] | Var x \<Rightarrow> [asterisk] @ x @ [asterisk])"

lemma variable_at_name:
  assumes "variable_at s = Some x"
  shows "variable_name_fullmatch x" and "take (length x + 2) s = [asterisk] @ x @ [asterisk]"
proof -
  from assms obtain c cs where s: "s = asterisk # c # cs" "is_letter c"
      "x = c # take 63 (takeWhile is_name_char cs)" "take 1 (drop (length x) (c # cs)) = [asterisk]"
    by (auto simp: variable_at_def Let_def split: list.splits if_splits)
  have "list_all is_name_char (take 63 (takeWhile is_name_char cs))"
    by (auto simp: list_all_iff dest!: in_set_takeD set_takeWhileD)
  with s(2,3) show "variable_name_fullmatch x" by (simp add: variable_name_fullmatch_def)
  define w r where "w = take 63 (takeWhile is_name_char cs)" and
    "r = drop 63 (takeWhile is_name_char cs) @ dropWhile is_name_char cs"
  then have cs: "cs = w @ r"
    by (metis append.assoc append_take_drop_id takeWhile_dropWhile_id)
  have x: "x = c # w" by (simp add: s(3) w_def)
  from s(4) have "take 1 r = [asterisk]" by (simp add: cs x)
  then obtain r' where "r = asterisk # r'" by (cases r) auto
  then show "take (length x + 2) s = [asterisk] @ x @ [asterisk]" by (simp add: s(1) x cs)
qed

lemma token_at_variable: "token_at s = Some (n, Some x) \<Longrightarrow> variable_at s = Some x \<and> n = length x + 2"
  by (auto simp: token_at_def split: option.splits)

lemma scan_source: "concat (map token_source (scan s)) = s"
proof (induction s rule: token_induct)
  case (Token s n g)
  have lits: "concat (map token_source (map Lit xs)) = xs" for xs by (induction xs) (simp_all add: token_source_def)
  have "concat (map token_source (case g of None \<Rightarrow> map Lit (take n s) | Some x \<Rightarrow> [Var x])) = take n s"
  proof (cases g)
    case (Some x)
    with Token(1) token_at_variable [of s n x] variable_at_name(2) [of s x] show ?thesis
      by (simp add: token_source_def)
  qed (simp add: lits del: map_map)
  with Token show ?case by (simp add: scan_simps)
qed (simp_all add: scan_simps token_source_def)

lemma scan_names: "Var x \<in> set (scan s) \<Longrightarrow> variable_name_fullmatch x"
proof (induction s rule: token_induct)
  case (Token s n g)
  then show ?case
    by (cases g) (auto simp: scan_simps dest!: token_at_variable intro: variable_at_name(1))
qed (simp_all add: scan_simps)

section \<open>The reference\<close>

lemma renders_lits:
  "renders V (map Lit b @ ts) out n d \<longleftrightarrow> (\<exists>out'. out = b @ out' \<and> renders V ts out' n d)"
  by (induction b arbitrary: out) (auto simp: renders_Lit)

text \<open>The result, the count and the depth are determined.\<close>

lemma renders_unique:
  "renders V ts out n d \<Longrightarrow> renders V ts out' n' d' \<Longrightarrow> out' = out \<and> n' = n \<and> d' = d"
proof (induction arbitrary: out' n' d' rule: renders.induct)
  case (Lit ts out n d c)
  from Lit(3) obtain p where "out' = c # p" "renders V ts p n' d'" by (auto simp: renders_Lit)
  with Lit(2) [of p n' d'] show ?case by simp
next
  case (Var x v out1 n1 d1 ts out2 n2 d2)
  from Var(1,6) obtain p1 m1 e1 p2 m2 e2 where
      "renders V (scan v) p1 m1 e1" "renders V ts p2 m2 e2"
      "out' = p1 @ p2" "n' = 1 + m1 + m2" "d' = max (Suc e1) e2"
    by (auto simp: renders_Var)
  with Var(4) [of p1 m1 e1] Var(5) [of p2 m2 e2] show ?case by simp
qed simp

section \<open>Soundness\<close>

lemma expand_sound:
  "expand_fragment vs label stack n f = Inr (n', out) \<Longrightarrow>
     \<exists>k d. n' = n + int k \<and> renders (map_of vs) (scan f) out k d \<and> (n \<le> 256 \<longrightarrow> n' \<le> 256)
       \<and> (length stack \<le> 8 \<longrightarrow> length stack + d \<le> 8) \<and> length out \<le> 20000"
  "expand_matches vs label stack f n parts joined cursor ms = Inr (n', out) \<Longrightarrow>
     f = a @ b @ s \<Longrightarrow> cursor = length a \<Longrightarrow> ms = finditer (length a + length b) s \<Longrightarrow> joined = int (length parts) \<Longrightarrow>
     \<exists>o' k d. out = parts @ o' \<and> n' = n + int k \<and> renders (map_of vs) (map Lit b @ scan s) o' k d
       \<and> (n \<le> 256 \<longrightarrow> n' \<le> 256) \<and> (length stack \<le> 8 \<longrightarrow> length stack + d \<le> 8) \<and> length out \<le> 20000"
proof (induction vs label stack n f and vs label stack f n parts joined cursor ms
    arbitrary: n' out and n' out a b s rule: expand_fragment_expand_matches.induct)
  case (1 vs label stack n f)
  from 1(2) have "expand_matches vs label stack f n [] 0 0 (finditer 0 f) = Inr (n', out)"
    by (simp add: expand_fragment.simps)
  from 1(1) [OF this, of "[]" "[]" f] show ?case by simp
next
  case (2 vs label stack f n parts joined cursor)
  then have "length (parts @ b @ s) \<le> 20000" "n' = n" "out = parts @ b @ s"
    by (auto simp: Let_def variable_limits split: if_splits)
  moreover have "scan s = map Lit s" using 2(4) finditer_Nil by metis
  then have "renders (map_of vs) (map Lit b @ scan s) (b @ s) 0 0"
    using renders_lits [of _ s "[]"] by (simp add: renders_lits)
  ultimately show ?case by fastforce
next
  case (3 vs label stack f n parts joined cursor m ms)
  from 3(7) have "finditer (length a + length b) s = m # ms" by simp
  from finditer_Cons [OF this] obtain pre tok rest_text where
      s: "s = pre @ tok @ rest_text" and m: "vm_start m = length a + length b + length pre"
        "vm_end m = length a + length b + length pre + length tok" and ms: "ms = finditer (vm_end m) rest_text" and
      sc: "scan s = map Lit pre @ (case vm_name m of None \<Rightarrow> map Lit tok | Some x \<Rightarrow> [Var x]) @ scan rest_text" by blast
  show ?case
  proof (cases "vm_name m")
    case None
    with 3(4) have "expand_matches vs label stack f n parts joined cursor ms = Inr (n', out)" by simp
    from 3(1) [OF None this, of a "b @ pre @ tok" rest_text] show ?thesis
      using 3(5,6,8) s m ms sc None by (simp add: add.assoc)
  next
    case (Some x)
    with 3(4) obtain v k r where v: "map_of vs x = Some v" "x \<notin> set stack" "length stack < 8" "n + 1 \<le> 256"
        and r: "expand_fragment vs label (stack @ [x]) (n + 1) v = Inr (k, r)"
      by (auto simp: variable_limits Let_def split: option.splits if_splits sum.splits)
    let ?prefix = "drop cursor (take (vm_start m) f)"
    have prefix: "?prefix = b @ pre" using 3(5,6) s m by simp
    from 3(4) Some v r have
        rest: "expand_matches vs label stack f k (parts @ ?prefix @ r) (joined + int (length ?prefix) + int (length r)) (vm_end m) ms
          = Inr (n', out)"
      by (simp add: variable_limits Let_def split: if_splits)
    have neg: "\<not> MAX_VARIABLE_DEPTH \<le> int (length stack)" "\<not> MAX_VARIABLE_SUBSTITUTIONS < n + 1"
      "\<not> MAX_VARIABLE_CHARACTERS < joined + int (length ?prefix) + int (length r)"
      using v 3(4) Some r by (auto simp: variable_limits Let_def split: if_splits)
    from 3(2) [OF Some v(1,2) neg(1,2) r] obtain k1 d1 where ih1:
        "k = n + 1 + int k1" "renders (map_of vs) (scan v) r k1 d1" "length stack + 1 + d1 \<le> 8" "k \<le> 256"
      using v by auto
    have joined: "joined + int (length ?prefix) + int (length r) = int (length (parts @ ?prefix @ r))" using 3(8) by simp
    have f: "f = (a @ b @ pre @ tok) @ [] @ rest_text" using 3(5) s by simp
    have "vm_end m = length (a @ b @ pre @ tok)" "ms = finditer (length (a @ b @ pre @ tok) + length []) rest_text"
      using m ms by (simp_all add: add.assoc)
    from 3(3) [OF Some v(1,2) neg(1,2) r refl refl refl neg(3) rest f this joined] obtain o' k2 d2 where ih2:
        "out = (parts @ ?prefix @ r) @ o'" "n' = k + int k2" "renders (map_of vs) (scan rest_text) o' k2 d2"
        "k \<le> 256 \<longrightarrow> n' \<le> 256" "length stack + d2 \<le> 8" "length out \<le> 20000"
      using v(3) by auto
    have "renders (map_of vs) (map Lit b @ scan s) (b @ pre @ r @ o') (1 + k1 + k2) (max (Suc d1) d2)"
      using renders.Var [OF v(1) ih1(2) ih2(3)] by (simp add: sc Some renders_lits)
    then show ?thesis using ih1 ih2 prefix by (intro exI [of _ "b @ pre @ r @ o'"] exI [of _ "1 + k1 + k2"]
          exI [of _ "max (Suc d1) d2"]) auto
  qed
qed

section \<open>Completeness\<close>

text \<open>No snippet that is being expanded needs fewer replacements than what is left to do inside it.\<close>

definition unfinished :: "(pytext \<times> pytext) list \<Rightarrow> pytext list \<Rightarrow> nat \<Rightarrow> bool" where
  "unfinished vs stack k \<longleftrightarrow> (\<forall>x \<in> set stack. \<forall>v out m d.
      map_of vs x = Some v \<longrightarrow> renders (map_of vs) (scan v) out m d \<longrightarrow> k \<le> m)"

lemma unfinished_mono: "unfinished vs stack k \<Longrightarrow> k' \<le> k \<Longrightarrow> unfinished vs stack k'"
  unfolding unfinished_def by (meson le_trans)

lemma unfinished_fresh:
  assumes "unfinished vs stack k" and "map_of vs x = Some v" and "renders (map_of vs) (scan v) r m d" and "m < k"
  shows "x \<notin> set stack"
  using assms unfolding unfinished_def by (meson not_le)

lemma unfinished_push:
  assumes "unfinished vs stack k" and "m \<le> k" and "map_of vs x = Some v" and "renders (map_of vs) (scan v) r m d"
  shows "unfinished vs (stack @ [x]) m"
  unfolding unfinished_def
proof (intro ballI allI impI)
  fix y w out m' d'
  assume y: "y \<in> set (stack @ [x])" and w: "map_of vs y = Some w" "renders (map_of vs) (scan w) out m' d'"
  show "m \<le> m'"
  proof (cases "y \<in> set stack")
    case True
    with assms(1) w have "k \<le> m'" unfolding unfinished_def by blast
    with assms(2) show ?thesis by simp
  next
    case False
    with y w(1) assms(3) have "w = v" by simp
    with w(2) renders_unique [OF assms(4)] show ?thesis by blast
  qed
qed

lemma expand_complete:
  "renders (map_of vs) (scan f) out k d \<Longrightarrow> unfinished vs stack k \<Longrightarrow> n + int k \<le> 256 \<Longrightarrow> length stack + d \<le> 8 \<Longrightarrow>
     length out \<le> 20000 \<Longrightarrow> expand_fragment vs label stack n f = Inr (n + int k, out)"
  "renders (map_of vs) (map Lit b @ scan s) o' k d \<Longrightarrow> unfinished vs stack k \<Longrightarrow> n + int k \<le> 256 \<Longrightarrow>
     length stack + d \<le> 8 \<Longrightarrow> length (parts @ o') \<le> 20000 \<Longrightarrow>
     f = a @ b @ s \<Longrightarrow> cursor = length a \<Longrightarrow> ms = finditer (length a + length b) s \<Longrightarrow> joined = int (length parts) \<Longrightarrow>
     expand_matches vs label stack f n parts joined cursor ms = Inr (n + int k, parts @ o')"
proof (induction vs label stack n f and vs label stack f n parts joined cursor ms
    arbitrary: out k d and o' k d a b s rule: expand_fragment_expand_matches.induct)
  case (1 vs label stack n f)
  from 1(1) [of "[]" f out k d "[]"] 1(2-) show ?case by (simp add: expand_fragment.simps)
next
  case (2 vs label stack f n parts joined cursor)
  then have "scan s = map Lit s" using finditer_Nil by metis
  with 2(1) have "o' = b @ s" "k = 0" using renders_lits [of _ s "[]"] by (auto simp: renders_lits)
  with 2 show ?case by (simp add: Let_def variable_limits)
next
  case (3 vs label stack f n parts joined cursor m ms)
  from 3(11) have "finditer (length a + length b) s = m # ms" by simp
  from finditer_Cons [OF this] obtain pre tok rest_text where
      s: "s = pre @ tok @ rest_text" and m: "vm_start m = length a + length b + length pre"
        "vm_end m = length a + length b + length pre + length tok" and ms: "ms = finditer (vm_end m) rest_text" and
      sc: "scan s = map Lit pre @ (case vm_name m of None \<Rightarrow> map Lit tok | Some x \<Rightarrow> [Var x]) @ scan rest_text" by blast
  show ?case
  proof (cases "vm_name m")
    case None
    have "renders (map_of vs) (map Lit (b @ pre @ tok) @ scan rest_text) o' k d"
      using 3(4) by (simp add: sc None)
    then have "expand_matches vs label stack f n parts joined cursor ms = Inr (n + int k, parts @ o')"
      by (rule 3(1) [OF None, of "b @ pre @ tok" rest_text o' k d a])
        (use 3(5-10,12) s m ms in \<open>simp_all add: add.assoc\<close>)
    with None show ?thesis by simp
  next
    case (Some x)
    from 3(4) obtain v r k1 d1 q k2 d2 where
        v: "map_of vs x = Some v" "renders (map_of vs) (scan v) r k1 d1"
      and q: "renders (map_of vs) (scan rest_text) q k2 d2" "o' = b @ pre @ r @ q" "k = 1 + k1 + k2" "d = max (Suc d1) d2"
      by (auto simp: sc Some renders_lits renders_Var)
    have "x \<notin> set stack" by (rule unfinished_fresh [OF 3(5) v]) (simp add: q(3))
    have deep: "\<not> MAX_VARIABLE_DEPTH \<le> int (length stack)" and few: "\<not> MAX_VARIABLE_SUBSTITUTIONS < n + 1"
      using 3(6,7) q(3,4) by (simp_all add: variable_limits)
    have "unfinished vs (stack @ [x]) k1"
      by (rule unfinished_push [OF 3(5) _ v]) (simp add: q(3))
    then have r: "expand_fragment vs label (stack @ [x]) (n + 1) v = Inr (n + 1 + int k1, r)"
      by (intro 3(2) [OF Some v(1) \<open>x \<notin> set stack\<close> deep few v(2)])
        (use 3(6-8) q in auto)
    let ?prefix = "drop cursor (take (vm_start m) f)"
    have prefix: "?prefix = b @ pre" using 3(9,10) s m by simp
    have fits: "\<not> MAX_VARIABLE_CHARACTERS < joined + int (length ?prefix) + int (length r)"
      using 3(8,12) q(2) prefix by (simp add: variable_limits)
    have "unfinished vs stack k2" by (rule unfinished_mono [OF 3(5)]) (simp add: q(3))
    moreover have "renders (map_of vs) (map Lit [] @ scan rest_text) q k2 d2" using q(1) by simp
    moreover have "n + 1 + int k1 + int k2 \<le> 256" "length stack + d2 \<le> 8" using 3(6,7) q(3,4) by simp_all
    moreover have "length ((parts @ ?prefix @ r) @ q) \<le> 20000" using 3(8) q(2) prefix by simp
    moreover have "f = (a @ b @ pre @ tok) @ [] @ rest_text" using 3(9) s by simp
    moreover have "vm_end m = length (a @ b @ pre @ tok)"
      "ms = finditer (length (a @ b @ pre @ tok) + length []) rest_text" using m ms by (simp_all add: add.assoc)
    moreover have "joined + int (length ?prefix) + int (length r) = int (length (parts @ ?prefix @ r))" using 3(12) by simp
    ultimately have "expand_matches vs label stack f (n + 1 + int k1) (parts @ ?prefix @ r)
        (joined + int (length ?prefix) + int (length r)) (vm_end m) ms = Inr (n + 1 + int k1 + int k2, (parts @ ?prefix @ r) @ q)"
      by (intro 3(3) [OF Some v(1) \<open>x \<notin> set stack\<close> deep few r refl refl refl fits]) assumption+
    then show ?thesis using Some v(1) \<open>x \<notin> set stack\<close> deep few r fits prefix q(2,3)
      by (simp add: Let_def add.assoc)
  qed
qed

section \<open>The validated variables\<close>

lemma validate_items_exact:
  "validate_items n items = Inr vs \<longleftrightarrow>
     items = map (\<lambda>(x, v). (ObjText x, ObjText v)) vs
   \<and> (\<forall>(x, v) \<in> set vs. x = text_strip x \<and> variable_name_fullmatch x \<and> length v \<le> 20000 \<and> 0 \<notin> set v)
   \<and> (vs = [] \<or> n + int (sum_list (map (length \<circ> snd) vs)) \<le> 100000)"
proof (induction items arbitrary: n vs)
  case (Cons item items)
  obtain key content where item: "item = (key, content)" by (cases item)
  show ?case
  proof (cases "\<exists>x v. key = ObjText x \<and> content = ObjText v")
    case True
    then obtain x v where kv: "key = ObjText x" "content = ObjText v" by blast
    show ?thesis
    proof (cases vs)
      case Nil
      then show ?thesis
        by (auto simp: item kv valid_variable_name_def bindE_eq_Inr split: if_splits)
    next
      case (Cons p ws)
      obtain y w where p: "p = (y, w)" by (cases p)
      show ?thesis using Cons.IH [of "n + int (length v)" ws]
        by (auto simp: item kv Cons p valid_variable_name_def bindE_eq_Inr variable_limits)
    qed
  next
    case False
    then have "validate_items n (item # items) \<noteq> Inr vs"
      by (cases key; cases content) (auto simp: item valid_variable_name_def split: if_splits)
    moreover from False have "item # items \<noteq> map (\<lambda>(x, v). (ObjText x, ObjText v)) vs"
      by (cases vs) (auto simp: item)
    ultimately show ?thesis by blast
  qed
qed auto

section \<open>Expansion is bounded substitution\<close>

text \<open>C38: The expansion of a prompt is exact. For accepted variables, \<open>expand\<close> succeeds exactly when the unbounded
  substitution of every variable of the prompt by its snippet, and of the variables inside it, comes to an end with at
  most 256 replacements, at most 8 levels deep and at most 20000 characters, and it returns that text; so cycles and
  unknown names are always refused, and nothing else is. The tokens are those of the prompt: put back together they
  give it, and each variable has a valid name.\<close>

theorem prompt_expansion_exact:
  assumes "validate_prompt_variables v = Inr vs"
  shows "(prompt_variable_expand v prompt label = Inr out \<longleftrightarrow>
            (\<exists>k d. renders (map_of vs) (scan prompt) out k d \<and> k \<le> 256 \<and> d \<le> 8 \<and> length out \<le> 20000))
     \<and> concat (map token_source (scan prompt)) = prompt
     \<and> (\<forall>x. Var x \<in> set (scan prompt) \<longrightarrow> variable_name_fullmatch x)"
proof -
  have "expand_fragment vs label [] 0 prompt = Inr (int k, out)"
    if "renders (map_of vs) (scan prompt) out k d" "k \<le> 256" "d \<le> 8" "length out \<le> 20000" for k d
    using expand_complete(1) [OF that(1), of "[]" 0 label] that by (simp add: unfinished_def)
  moreover have "\<exists>k d. renders (map_of vs) (scan prompt) out k d \<and> k \<le> 256 \<and> d \<le> 8 \<and> length out \<le> 20000"
    if "expand_fragment vs label [] 0 prompt = Inr (n, out)" for n
  proof -
    from expand_sound(1) [OF that] obtain k d where
      "renders (map_of vs) (scan prompt) out k d" "k \<le> 256" "d \<le> 8" "length out \<le> 20000" by auto
    then show ?thesis by blast
  qed
  ultimately have "prompt_variable_expand v prompt label = Inr out \<longleftrightarrow>
      (\<exists>k d. renders (map_of vs) (scan prompt) out k d \<and> k \<le> 256 \<and> d \<le> 8 \<and> length out \<le> 20000)"
    using assms by (auto simp: prompt_variable_expand_def bindE_eq_Inr)
  then show ?thesis using scan_source scan_names by blast
qed

definition sample_variables :: variable_object where
  "sample_variables = ObjDict
     [(ObjText (text_of ''look''), ObjText (text_of ''red *hair*'')), (ObjText (text_of ''hair''), ObjText (text_of ''hair''))]"

lemma prompt_expansion_exact_witness:
  "\<exists>vs k d. validate_prompt_variables sample_variables = Inr vs
     \<and> renders (map_of vs) (scan (text_of ''*look* **x** *hair*'')) (text_of ''red hair **x** hair'') k d \<and> k \<le> 256"
proof -
  have v: "validate_prompt_variables sample_variables
      = Inr [(text_of ''look'', text_of ''red *hair*''), (text_of ''hair'', text_of ''hair'')]"
    by code_simp
  have "prompt_variable_expand sample_variables (text_of ''*look* **x** *hair*'') (text_of ''Prompt'')
      = Inr (text_of ''red hair **x** hair'')"
    by code_simp
  with v prompt_expansion_exact [OF v] show ?thesis by blast
qed

end
