(* ===== verification/Spec2Isabelle.thy ===== *)
theory Spec2Isabelle
  imports GenerationSubmissionTheorems QueueAdmissionTheorems DeploymentTheorems WorkerContractTheorems ProviderNameTheorems BudgetTheorems Money OutboxDelivery
    NearBlackTheorems DeliverabilityTheorems WarmLeaseTheorems GpuMeteringTheorems GenerationLimits PromptVariableTheorems
begin

text \<open>
  Verification library of gen-automation, a control plane for image generation on rented GPUs (src/src/gen_automation).

  The program. A database is the authoritative state. Services (\<open>services/\<close>) change it inside transactions; a
  controller and HTTP routes call them. Generation jobs become attempts, which are submitted to the GPU provider Salad
  through a transactional outbox. A worker deployment is a queue and a container group at the provider; a budget guard
  limits what it may cost; a billing timer and run-time metering record what it costs; warm leases keep a replica for
  experiments. Pure parts (\<open>domain/\<close>) check and build what is sent: prompts, sizes, recovery seeds.

  How the code is modelled. A service operation is a function from its arguments and the database as its transaction
  sees it to an error (left) or the new database and the result (right); an error means a roll-back. Rows are records
  (theory Store), tables are lists of rows in the order of their insertion, a \<open>SELECT ... FOR UPDATE\<close> is a lookup. What
  the program cannot decide is an argument: the clock, new identifiers, rows locked by other transactions (\<open>locked\<close>), a
  commit of another transaction between two statements (\<open>interfere\<close>), SHA-256, the answers of the provider, settings.
  Instants are microseconds since 0001-01-01 UTC; amounts are micro-USD; both are integers without bound, as in Python,
  with the bounds of BIGINT columns where the code checks them. Texts are strings of the code points U+0000 to U+00FF;
  prompt texts, whose UTF-8 size matters, are lists of code points (theory PyText).

  Theories, in the order of dependence:
  \<^item> Prelude, PyValues, PyTime, PyDecimal, PyText: results of fallible code, tables, Python strings, numbers, JSON,
    calendar time, decimals, UTF-8 (with \<open>domain/canonical.py\<close>).
  \<^item> Enums, Store: \<open>domain/enums.py\<close> and the rows of \<open>db/models.py\<close> with their CHECK constraints and
    keys (\<open>db_ok\<close>); the other unique constraints, such as those of the provider identifiers, are not modelled.
  \<^item> Budgets (\<open>services/budgets.py\<close>); BudgetFacts, BudgetProperties, BudgetRuns, BudgetTheorems: reservations never cross
    a limit, decisions are exact and idempotent, spending is recorded once, the kill switch stops every deployment, and
    all sequences of operations keep the constraints. Money: \<open>usd_to_microusd\<close> is exact.
  \<^item> Outbox (\<open>services/outbox.py\<close>); OutboxMachine states an abstract machine of one event, OutboxFacts and OutboxRuns
    prove that every operation only makes its moves, OutboxTheorems and OutboxDelivery draw the promises: exclusive
    leases, final states, no blind replay of a submission, exact failure handling, exactly-once enqueueing.
  \<^item> WarmLeases (\<open>services/experiment_warm_leases.py\<close>); WarmLeaseMachine, WarmLeaseRuns, WarmLeaseTheorems: the lease
    machine, the hard cap of ninety minutes, budgeted starts, renewals and expiry.
  \<^item> SaladProvider: answers and errors of the provider (\<open>integrations/salad\<close>). GpuClock: the billing timer of
    \<open>services/salad_deployments.py\<close> and its snapshots (\<open>services/gpu_billing.py\<close>). GpuMetering: \<open>_meter_runtime_interval\<close>.
    GpuClockTheorems, GpuMeteringTheorems: constraints kept, a single worker timed exactly, intervals charged once.
  \<^item> ProviderNames, ProviderNameTheorems: \<open>deterministic_provider_name\<close>, the name resources are adopted by.
    ProviderStatus: the status text of a deployment row (\<open>_safe_provider_status\<close>) and its reading back.
  \<^item> WorkerContract, WorkerContractTheorems: the payload of a container group (\<open>_container_group_payload\<close>) and the drift of
    a reported group (\<open>_group_configuration_drift\<close>); what is created is accepted. WorkerDemand:
    \<open>effective_worker_min_replicas\<close>, the number of workers that leases, claims and attempts ask for.
  \<^item> DeploymentSteps: \<open>provision_deployment_step\<close> and \<open>reconcile_deployment\<close> of \<open>services/salad_deployments.py\<close> with all they
    call. A step maps the database, the calls made so far and the row to the new ones and the reported result.
    DeploymentFacts (what the budget service does to the row), DeploymentCalls (environment, invariant of the row, calls),
    DeploymentStops, DeploymentReconciles, DeploymentProgress: one lemma per part of a step. DeploymentTheorems: at most
    one, justified, mutation per step; confirmed stops rest on evidence; a stop converges; the CHECK constraints and keys are
    kept; errors come before the first call.
  \<^item> ProviderIO: code that calls the provider and may raise, its polling loops, and triples \<open>ensures\<close> about its calls and
    outcomes. RuntimeAdmission (\<open>refresh_container_group_runtime\<close> and its preflight), QueueAdmission
    (\<open>ensure_container_group_queue_admission\<close>, \<open>container_group_runtime_admission_ready\<close>,
    \<open>read_container_group_runtime_admission_identity\<close>): what is done to a running group before a job is posted.
    RuntimeAdmissionFacts and QueueAdmissionFacts hold one triple per part; RuntimeAdmissionTheorems: a refresh sends one
    justified PATCH, replays of it are accepted once, it converges; QueueAdmissionTheorems: the order of the mutations,
    only the refreshed worker is admitted, and failures without an answer never count.
  \<^item> GenerationRecovery (\<open>services/generation_recovery.py\<close>), GenerationRecoveryFacts, GenerationRecoveryTheorems: further
    attempts after failures of the infrastructure; the query of the sweep agrees with the
    guard of a grant, which recovers all it selects, and the grants are bounded.
  \<^item> The life of an attempt at the provider (\<open>services/salad.py\<close>). GenerationAttempts: loading an attempt, fencing a stale
    one, definite failures and unknown outcomes. GenerationObservations: \<open>apply_salad_job_observation\<close>, with the response of
    the worker (\<open>gpu_worker/models.py\<close>). GenerationSubmission: \<open>submit_prepared_attempt\<close> as its transactions and the request
    between them. GenerationSubmissionFacts and GenerationObservationFacts: what each operation writes, composed from the
    frame \<open>rows_written\<close>. GenerationSubmissionRuns: the machine whose steps are single transactions, requests and deaths of
    calls, with its invariant. GenerationSubmissionTheorems: at most one request per attempt, sound outcomes, attempts only
    move forward, ended attempts hold no budget, and a call is a run of the machine.
  \<^item> Samples: a deployment row and a container group for the witnesses.
  \<^item> NearBlack, NearBlackTheorems (\<open>domain/near_black_recovery.py\<close>): seed recovery plans.
  \<^item> Deliverability, DeliverabilityFacts, DeliverabilityTheorems (\<open>domain/deliverability.py\<close>): planned and rendered sizes.
  \<^item> GenerationLimits, PromptVariables, PromptVariableTheorems (\<open>domain/generation_limits.py\<close>,
    \<open>domain/prompt_variables.py\<close>): prompt budgets and the bounded expansion of prompt variables.

  Interfaces. The locale \<open>db_table\<close> (Prelude) is the contract of a table, interpreted for every table of Store; the
  other locales state what a client needs of a state machine or of a budget and are interpreted on the services' models.

  The provider. Each answer of the client is a function of the calls made before it (\<open>salad_client\<close>), so the theorems about
  a step hold for a provider that changes, fails or lies between two calls; only \<open>stopped_deployment_converges\<close> asks it to do
  what it is told (\<open>obedient\<close>). \<open>env_ok\<close> asks that the counts of a group are not negative, that the clock does not go back
  within a step, and that a new identifier is new. Timestamps of the provider carry a zone.

  A submission calls the upload provider and the client between its transactions. Their answers are functions of what they
  are given (\<open>submission_env\<close>), and between any two transactions the rest of the program may do anything that keeps started
  attempts started, terminal attempts settled and the constraints (\<open>proper\<close>); the sweep over dead letters and the releases of
  the budget guard are shown to be such. Further parameters are the parser of URLs (\<open>urlsplit\<close>) and SHA-256; a timestamp
  in the metadata of an attempt is read back in the form in which the service writes it.

  Termination and fuel. No definition uses fuel. A polling loop reads until its time limit: how many answers it receives
  before the limit (\<open>ae_polls\<close>) is any number, and the limit may strike during a read (\<open>ae_cut\<close>). Loops of the code are structural recursions or have a measure: the
  seed search counts up to 2^32, the pieces of an interval end at its end, the expansion of prompt variables is bounded
  by the stack of names, the inference over a workflow by the nodes not yet visited.

  Not modelled: HTTP routes, authentication, the preparation, reconciliation and webhooks of attempts, the scheduler, review, publication, derivatives, LoRA and
  wildcard management, image-to-video, the GPU worker itself and all adapters to storage and external platforms. The
  manifest names them with the reasons.
\<close>

end
